(* ===== verification/KPrelude.thy ===== *)
theory KPrelude
  imports Main "HOL-Library.Word"
begin

section \<open>Prelude: machine integers, results, list facts\<close>

text \<open>
  What every other theory shares: the machine integers of the code, the result type of its
  fallible functions (\<open>Inl\<close> is the \<open>Err\<close>, \<open>Inr\<close> the \<open>Ok\<close>), and the facts on lists and
  words that several components use. The collections \<open>kdefs\<close> (definitions that only name a
  constant) and \<open>kintro\<close> are filled by the components.
\<close>

unbundle bit_operations_syntax

named_theorems kdefs \<open>definitions that only name a constant of the code\<close>

type_synonym u8 = "8 word"
type_synonym u32 = "32 word"
type_synonym u64 = "64 word"

subsection \<open>Results\<close>

text \<open>Rust's \<open>?\<close> on a \<open>Result\<close>: stop at the first error.\<close>

definition rbind :: "'e + 'a \<Rightarrow> ('a \<Rightarrow> 'e + 'b) \<Rightarrow> 'e + 'b" where
  "rbind r f = (case r of Inl e \<Rightarrow> Inl e | Inr a \<Rightarrow> f a)"

definition ok_or :: "'a option \<Rightarrow> 'e \<Rightarrow> 'e + 'a" where
  "ok_or m e = (case m of None \<Rightarrow> Inl e | Some a \<Rightarrow> Inr a)"

definition guard :: "bool \<Rightarrow> 'e \<Rightarrow> 'e + unit" where
  "guard b e = (if b then Inr () else Inl e)"

lemma rbind_simps [simp]:
  "rbind (Inl e) f = Inl e"
  "rbind (Inr a) f = f a"
  by (simp_all add: rbind_def)

lemma rbind_eq_Inr [simp]: "rbind r f = Inr b \<longleftrightarrow> (\<exists>a. r = Inr a \<and> f a = Inr b)"
  by (cases r) auto

lemma ok_or_simps [simp]:
  "ok_or None e = Inl e"
  "ok_or (Some a) e = Inr a"
  by (simp_all add: ok_or_def)

lemma ok_or_eq_Inr [simp]: "ok_or m e = Inr a \<longleftrightarrow> m = Some a"
  by (cases m) auto

lemma guard_eq_Inr [simp]: "guard b e = Inr u \<longleftrightarrow> b"
  by (simp add: guard_def)

lemma guard_simps [simp]:
  "guard True e = Inr ()"
  "guard False e = Inl e"
  by (simp_all add: guard_def)

text \<open>A loop over a list that carries a state and may fail.\<close>

fun rfold :: "('a \<Rightarrow> 's \<Rightarrow> 'e + 's) \<Rightarrow> 'a list \<Rightarrow> 's \<Rightarrow> 'e + 's" where
  "rfold f [] s = Inr s"
| "rfold f (x # xs) s = rbind (f x s) (rfold f xs)"

text \<open>The rule of such a loop: what every step keeps holds at the end.\<close>

lemma rfold_invariant:
  assumes "rfold f xs s = Inr t" and "P s"
    and "\<And>x s t. x \<in> set xs \<Longrightarrow> P s \<Longrightarrow> f x s = Inr t \<Longrightarrow> P t"
  shows "P t"
  using assms
proof (induction xs arbitrary: s)
  case Nil
  then show ?case by simp
next
  case (Cons x xs)
  from Cons.prems(1) obtain s' where s': "f x s = Inr s'" "rfold f xs s' = Inr t"
    by auto
  have "P s'"
    using Cons.prems(3) [of x s s'] Cons.prems(2) s'(1) by simp
  then show ?case
    using Cons.IH [OF s'(2)] Cons.prems(3) by (metis list.set_intros(2))
qed

text \<open>What a step establishes for its element, and later steps keep, holds for every element.\<close>

lemma rfold_each:
  assumes "rfold f xs s = Inr t"
    and "\<And>x s t. x \<in> set xs \<Longrightarrow> f x s = Inr t \<Longrightarrow> Q x t"
    and "\<And>x y s t. y \<in> set xs \<Longrightarrow> f y s = Inr t \<Longrightarrow> Q x s \<Longrightarrow> Q x t"
  shows "\<forall>x \<in> set xs. Q x t"
  using assms
proof (induction xs arbitrary: s)
  case Nil
  then show ?case by simp
next
  case (Cons x xs)
  from Cons.prems(1) obtain s' where s': "f x s = Inr s'" "rfold f xs s' = Inr t"
    by auto
  have tail: "\<forall>y \<in> set xs. Q y t"
    using Cons.IH [OF s'(2)] Cons.prems(2,3) by (metis list.set_intros(2))
  have "Q x s'"
    using Cons.prems(2) [of x s s'] s'(1) by simp
  then have "Q x t"
    using rfold_invariant [OF s'(2), of "Q x"] Cons.prems(3) by (metis list.set_intros(2))
  with tail show ?case by simp
qed

text \<open>The states such a loop goes through.\<close>

lemma rfold_trace:
  assumes "rfold f xs s = Inr t"
  obtains S where "S 0 = s" "S (length xs) = t"
    "\<And>k. k < length xs \<Longrightarrow> f (xs ! k) (S k) = Inr (S (Suc k))"
  using assms
proof (induction xs arbitrary: s thesis)
  case Nil
  show ?case
    by (rule Nil.prems(1) [of "\<lambda>_. s"]) (use Nil.prems(2) in auto)
next
  case (Cons x xs)
  from Cons.prems(2) obtain s' where s': "f x s = Inr s'" "rfold f xs s' = Inr t"
    by auto
  obtain S where S: "S 0 = s'" "S (length xs) = t"
      "\<And>k. k < length xs \<Longrightarrow> f (xs ! k) (S k) = Inr (S (Suc k))"
    using Cons.IH [OF _ s'(2)] by blast
  show ?case
  proof (rule Cons.prems(1) [of "\<lambda>k. case k of 0 \<Rightarrow> s | Suc j \<Rightarrow> S j"])
    fix k assume "k < length (x # xs)"
    then show "f ((x # xs) ! k) (case k of 0 \<Rightarrow> s | Suc j \<Rightarrow> S j) =
        Inr (case Suc k of 0 \<Rightarrow> s | Suc j \<Rightarrow> S j)"
      using s'(1) S by (cases k) auto
  qed (use S in auto)
qed

text \<open>Running such a loop: the states it goes through are given.\<close>

lemma rfold_stays:
  "(\<And>x. x \<in> set xs \<Longrightarrow> f x s = Inr s) \<Longrightarrow> rfold f xs s = Inr s"
  by (induction xs) simp_all

lemma rfold_steps:
  assumes "S 0 = s" "\<And>k. k < length xs \<Longrightarrow> f (xs ! k) (S k) = Inr (S (Suc k))"
  shows "rfold f xs s = Inr (S (length xs))"
  using assms
proof (induction xs arbitrary: s S)
  case (Cons x xs)
  have "rfold f xs (S 1) = Inr (S (Suc (length xs)))"
    using Cons.IH [of "\<lambda>k. S (Suc k)"] Cons.prems(2) by fastforce
  with Cons.prems(1) Cons.prems(2) [of 0] show ?case by simp
qed simp

end
