(* ===== verification/A64.thy ===== *)
theory A64
  imports KPrelude
begin

section \<open>The generated A64 subset: operands, forms, operand roles\<close>

text \<open>
  Models the data of \<open>spec/arm64/generated/a64_subset.rs\<close> (what \<open>specgen\<close> writes): registers,
  immediates, memory operands, the instruction type \<open>A64Insn\<close> and its operand metadata.

  \<open>A64Insn\<close> has one constructor per encoding form (707 of them). The forms that differ only in an
  operation, an operand width or an addressing size are grouped here into one constructor with an
  operation argument: \<open>AddSubImm AsSub X64 sh imm12 rn rd\<close> is \<open>SubAddsubImmSub64AddsubImm\<close>,
  \<open>LdSt Ldr64 rt (MOffset b o)\<close> is \<open>LdrImmGenLdr64LdstPos\<close> (\<open>MPreIndex\<close> and \<open>MPostIndex\<close> give
  \<open>LdstImmpre\<close> and \<open>LdstImmpost\<close>), and so on; theory \<open>A64Decode\<close> has one row per form of the
  source, so the correspondence is spelled out there. The register-only SIMD and floating-point
  forms (the verifier only looks at their general registers) share \<open>SimdReg\<close>, which keeps the
  form where a value rule needs it, the word, and the general register the form reads or writes.
  The V-register roles of the metadata are left out: no definition here uses them.
  Register numbers and small bit fields (\<open>u8\<close> in the code) are \<open>nat\<close>s: nothing computes with them
  beyond comparison; an immediate keeps its raw \<open>u32\<close> and its \<open>i64\<close> value as an \<open>int\<close>.
\<close>

subsection \<open>Registers\<close>

datatype a64_reg_width = W32 | X64 | UnknownWidth

datatype a64_reg31 = R31Xzr | R31Sp | R31Forbidden | R31Unknown

record a64_reg =
  enc :: nat
  width :: a64_reg_width
  reg31 :: a64_reg31

definition reg_new :: "nat \<Rightarrow> a64_reg_width \<Rightarrow> a64_reg31 \<Rightarrow> a64_reg" where
  "reg_new e w m = \<lparr>enc = e, width = w, reg31 = m\<rparr>"

definition reg_x :: "nat \<Rightarrow> a64_reg" where
  "reg_x e = reg_new e X64 R31Xzr"

definition reg_w :: "nat \<Rightarrow> a64_reg" where
  "reg_w e = reg_new e W32 R31Xzr"

definition reg_x_sp :: "nat \<Rightarrow> a64_reg" where
  "reg_x_sp e = reg_new e X64 R31Sp"

definition reg_w_sp :: "nat \<Rightarrow> a64_reg" where
  "reg_w_sp e = reg_new e W32 R31Sp"

definition reg_xzr :: a64_reg where
  "reg_xzr = reg_x 31"

definition reg_sp :: a64_reg where
  "reg_sp = reg_x_sp 31"

lemmas reg_defs [kdefs] = reg_new_def reg_x_def reg_w_def reg_x_sp_def reg_w_sp_def reg_xzr_def reg_sp_def

lemma enc_reg_simps [simp]:
  "enc (reg_x n) = n" "enc (reg_w n) = n" "enc (reg_x_sp n) = n" "enc (reg_w_sp n) = n"
  "enc reg_xzr = 31" "enc reg_sp = 31" "enc (reg_new n w m) = n"
  by (simp_all add: reg_defs)

lemma reg31_reg_simps [simp]:
  "reg31 (reg_x n) = R31Xzr" "reg31 (reg_w n) = R31Xzr" "reg31 (reg_x_sp n) = R31Sp"
  "reg31 (reg_w_sp n) = R31Sp" "reg31 reg_xzr = R31Xzr" "reg31 reg_sp = R31Sp"
  "reg31 (reg_new n w m) = m"
  by (simp_all add: reg_defs)

subsection \<open>Immediates\<close>

record a64_imm =
  raw :: u32
  bits :: nat
  ivalue :: int

text \<open>\<open>((value as i64) << (64 - bits)) >> (64 - bits)\<close>: the low \<open>bits\<close> bits as two's complement.\<close>

definition sign_extend_a64 :: "u32 \<Rightarrow> nat \<Rightarrow> int" where
  "sign_extend_a64 v n = signed_take_bit (n - 1) (uint v)"

definition imm_unsigned :: "u32 \<Rightarrow> nat \<Rightarrow> a64_imm" where
  "imm_unsigned r n = \<lparr>raw = r, bits = n, ivalue = uint r\<rparr>"

definition imm_signed :: "u32 \<Rightarrow> nat \<Rightarrow> a64_imm" where
  "imm_signed r n = \<lparr>raw = r, bits = n, ivalue = sign_extend_a64 r n\<rparr>"

definition imm_scaled_unsigned :: "u32 \<Rightarrow> nat \<Rightarrow> nat \<Rightarrow> a64_imm" where
  "imm_scaled_unsigned r n s = \<lparr>raw = r, bits = n, ivalue = uint r * 2 ^ s\<rparr>"

definition imm_scaled_signed :: "u32 \<Rightarrow> nat \<Rightarrow> nat \<Rightarrow> a64_imm" where
  "imm_scaled_signed r n s = \<lparr>raw = r, bits = n, ivalue = sign_extend_a64 r n * 2 ^ s\<rparr>"

lemmas imm_defs [kdefs] = imm_unsigned_def imm_signed_def imm_scaled_unsigned_def imm_scaled_signed_def

lemma raw_imm_simps [simp]:
  "raw (imm_unsigned r n) = r" "raw (imm_signed r n) = r"
  "raw (imm_scaled_unsigned r n s) = r" "raw (imm_scaled_signed r n s) = r"
  by (simp_all add: imm_defs)

lemma ivalue_imm_simps [simp]:
  "ivalue (imm_unsigned r n) = uint r"
  "ivalue (imm_signed r n) = sign_extend_a64 r n"
  "ivalue (imm_scaled_unsigned r n s) = uint r * 2 ^ s"
  "ivalue (imm_scaled_signed r n s) = sign_extend_a64 r n * 2 ^ s"
  by (simp_all add: imm_defs)

subsection \<open>Memory operands\<close>

datatype a64_mem =
    MOffset (mem_base: a64_reg) (mem_imm: a64_imm)
  | MPreIndex (mem_base: a64_reg) (mem_imm: a64_imm)
  | MPostIndex (mem_base: a64_reg) (mem_imm: a64_imm)

fun with_base :: "a64_mem \<Rightarrow> a64_reg \<Rightarrow> a64_mem" where
  "with_base (MOffset _ off) b = MOffset b off"
| "with_base (MPreIndex _ off) b = MPreIndex b off"
| "with_base (MPostIndex _ off) b = MPostIndex b off"

subsection \<open>Operations of the grouped forms\<close>

datatype addsub_op = AsAdd | AsAdds | AsSub | AsSubs
datatype carry_op = CaAdc | CaAdcs | CaSbc | CaSbcs
datatype logic_op = LgAnd | LgAnds | LgOrr | LgEor | LgEon | LgBic | LgBics | LgOrn
datatype logimm_op = LiAnd | LiAnds | LiOrr | LiEor
datatype movewide_op = Movz | Movk | Movn
datatype bitfield_op = Sbfm | Ubfm | Bfm
datatype condsel_op = Csel | Csinc | Csinv | Csneg
datatype condcmp_op = Ccmp | Ccmn
datatype dp2_op = Lslv | Lsrv | Asrv | Rorv | Udiv | Sdiv
datatype crc_size = CrcB | CrcH | CrcW | CrcX
datatype dp3_op = Madd | Msub
datatype dp3_long_op = Smaddl | Umaddl | Smsubl | Umsubl
datatype dp1_op = Clz | Rbit | Rev | Rev16
datatype barrier_op = Dmb | Dsb | Isb
datatype sysreg = TpidrEl0 | CntvctEl0 | CntfrqEl0 | Fpcr | Fpsr
datatype ldst_op =
    Ldr32 | Ldr64 | Str32 | Str64 | Ldrb | Strb | Ldrh | Strh
  | Ldrsb32 | Ldrsb64 | Ldrsh32 | Ldrsh64 | Ldrsw
datatype pair_op = Ldp32 | Ldp64 | Stp32 | Stp64 | Ldpsw
datatype lit_op = LitLdr32 | LitLdr64 | LitLdrsw
datatype ord_op =
    Ldar32 | Ldar64 | Ldarb | Ldarh | Stlr32 | Stlr64 | Stlrb | Stlrh
  | Ldapr32 | Ldapr64 | Ldaprb | Ldaprh
datatype atomic_op =
    AtAdd | AtClr | AtEor | AtSet | AtSmax | AtSmin | AtUmax | AtUmin | AtSwp | AtCas
datatype atomic_size = Sz1 | Sz2 | Sz4 | Sz8
datatype atomic_order = OrdNone | OrdA | OrdAL | OrdL
datatype vsize = VB | VH | VS | VD | VQ
datatype multi_index = MNoIndex | MImmIndex | MRegIndex a64_reg

text \<open>The registers an operand role can name.\<close>

datatype a64_field = FRd | FRn | FRm | FRa | FRt | FRt2 | FRs

subsection \<open>Instructions\<close>

datatype (plugins only: code size) a64_dp =
    Adr a64_imm a64_imm a64_reg
  | Adrp a64_imm a64_imm a64_reg
  | AddSubImm addsub_op a64_reg_width nat a64_imm a64_reg a64_reg
  | AddSubShift addsub_op a64_reg_width nat a64_reg a64_imm a64_reg a64_reg
  | AddSubExt addsub_op a64_reg_width a64_reg nat a64_imm a64_reg a64_reg
  | AddSubCarry carry_op a64_reg_width a64_reg a64_reg a64_reg
  | LogShift logic_op a64_reg_width nat a64_reg a64_imm a64_reg a64_reg
  | LogImm logimm_op a64_reg_width nat a64_imm a64_imm a64_reg a64_reg
  | MoveWide movewide_op a64_reg_width nat a64_imm a64_reg
  | Bitfield bitfield_op a64_reg_width a64_imm a64_imm a64_reg a64_reg
  | Extr a64_reg_width a64_reg a64_imm a64_reg a64_reg
  | CondSel condsel_op a64_reg_width a64_reg nat a64_reg a64_reg
  | CondCmpImm condcmp_op a64_reg_width a64_imm nat a64_reg nat
  | CondCmpReg condcmp_op a64_reg_width a64_reg nat a64_reg nat
  | Dp2 dp2_op a64_reg_width a64_reg a64_reg a64_reg
  | Crc32 bool crc_size a64_reg a64_reg a64_reg
  | Dp3 dp3_op a64_reg_width a64_reg a64_reg a64_reg a64_reg
  | Dp3Long dp3_long_op a64_reg a64_reg a64_reg a64_reg
  | MulHigh bool a64_reg a64_reg a64_reg
  | Dp1 dp1_op a64_reg_width a64_reg a64_reg
  | Rev32 a64_reg a64_reg

datatype (plugins only: code size) a64_branch =
    BUncond a64_imm
  | BCond a64_imm nat
  | Cbz a64_reg_width a64_imm a64_reg
  | Cbnz a64_reg_width a64_imm a64_reg
  | Tbz nat nat a64_imm a64_reg
  | Tbnz nat nat a64_imm a64_reg
  | Bl a64_imm
  | Br a64_reg
  | Blr a64_reg
  | Ret a64_reg
  | Svc a64_imm

datatype (plugins only: code size) a64_sys =
    Nop
  | Bti nat
  | Barrier barrier_op nat
  | MsrImm nat
  | Mrs sysreg a64_reg

datatype (plugins only: code size) a64_ldst =
    LdSt ldst_op a64_reg a64_mem
  | LdStUnscaled ldst_op a64_reg a64_mem
  | LdStUnpriv ldst_op a64_reg a64_mem
  | LdStPair pair_op a64_reg a64_reg a64_mem
  | LdStReg ldst_op a64_reg "nat option" nat a64_reg a64_reg
  | LdrLit lit_op a64_imm a64_reg
  | PrfmImm a64_imm a64_reg nat
  | PrfmLit a64_imm nat
  | PrfmReg a64_reg nat nat a64_reg nat
  | LdStOrd ord_op a64_reg a64_reg
  | Atomic atomic_op atomic_size atomic_order a64_reg a64_reg a64_reg

text \<open>
  The register-only SIMD and floating-point forms. The forms whose decode pseudocode has a value
  rule are named one by one (\<open>is_decode_undefined\<close> has an arm for each); the others are
  \<open>SfOther\<close>.
\<close>

datatype (plugins only: code size) simd_form =
    DupEltScalar | InsElt | InsGen | DupEltVec | DupGen | UmovW
  | CmeqRegV | CmeqZeroV | CmhiV | CmhsV | CmgtRegV | CmgtZeroV | CmgeRegV | CmgeZeroV
  | CmtstV | AddV | SubV | AddpV
  | Umaxp | Uminp | Xtn | Addv | Umaxv | Uminv | Shrn | Ushll | UshrV | ShlV | ExtV
  | Rev16V | Rev32V | Rev64V | CntV | SfOther

datatype (plugins only: code size) a64_fp =
    FpLdSt bool vsize nat a64_mem
  | FpLdStUnscaled bool vsize nat a64_mem
  | FpPair bool vsize nat nat a64_mem
  | FpMulti bool nat multi_index nat nat a64_reg nat
  | FpLdStReg bool vsize a64_reg "nat option" nat a64_reg nat
  | SimdReg simd_form u32 "a64_reg option" "a64_reg option"

datatype (plugins only: code size) a64_insn =
    Dp a64_dp
  | Brn a64_branch
  | Sys a64_sys
  | Mem a64_ldst
  | Simd a64_fp

subsection \<open>Operand metadata\<close>

text \<open>
  \<open>A64OperandRole\<close>, restricted to the roles that name general registers and the memory base
  (\<open>Memory\<close>, \<open>MemOffset\<close>, \<open>BranchTarget\<close>, \<open>ControlFlow\<close>, the flag and the V-register roles have no
  use below).
\<close>

datatype a64_role =
    RegRead a64_field a64_reg_width
  | RegWrite a64_field a64_reg_width
  | RegReadWrite a64_field a64_reg_width
  | ImplicitRegWrite nat a64_reg_width
  | MemBase a64_field

definition is_indexed :: "a64_mem \<Rightarrow> bool" where
  "is_indexed m = (case m of MOffset _ _ \<Rightarrow> False | _ \<Rightarrow> True)"

fun ldst_is_load :: "ldst_op \<Rightarrow> bool" where
  "ldst_is_load Str32 = False"
| "ldst_is_load Str64 = False"
| "ldst_is_load Strb = False"
| "ldst_is_load Strh = False"
| "ldst_is_load _ = True"

definition ldst_width :: "ldst_op \<Rightarrow> a64_reg_width" where
  "ldst_width op = (if op \<in> {Ldr64, Str64, Ldrsb64, Ldrsh64, Ldrsw} then X64 else W32)"

definition pair_is_load :: "pair_op \<Rightarrow> bool" where
  "pair_is_load op = (op \<in> {Ldp32, Ldp64, Ldpsw})"

definition pair_width :: "pair_op \<Rightarrow> a64_reg_width" where
  "pair_width op = (if op \<in> {Ldp64, Stp64, Ldpsw} then X64 else W32)"

definition ord_is_load :: "ord_op \<Rightarrow> bool" where
  "ord_is_load op = (op \<notin> {Stlr32, Stlr64, Stlrb, Stlrh})"

definition ord_width :: "ord_op \<Rightarrow> a64_reg_width" where
  "ord_width op = (if op \<in> {Ldar64, Stlr64, Ldapr64} then X64 else W32)"

definition atomic_width :: "atomic_size \<Rightarrow> a64_reg_width" where
  "atomic_width sz = (if sz = Sz8 then X64 else W32)"

text \<open>The base register: written back by the indexed addressing modes.\<close>

definition base_role :: "bool \<Rightarrow> a64_role" where
  "base_role wb = (if wb then RegReadWrite FRn X64 else RegRead FRn X64)"

fun dp_regs :: "a64_dp \<Rightarrow> (a64_field \<times> a64_reg) list" where
  "dp_regs (Adr _ _ rd) = [(FRd, rd)]"
| "dp_regs (Adrp _ _ rd) = [(FRd, rd)]"
| "dp_regs (AddSubImm _ _ _ _ rn rd) = [(FRn, rn), (FRd, rd)]"
| "dp_regs (AddSubShift _ _ _ rm _ rn rd) = [(FRm, rm), (FRn, rn), (FRd, rd)]"
| "dp_regs (AddSubExt _ _ rm _ _ rn rd) = [(FRm, rm), (FRn, rn), (FRd, rd)]"
| "dp_regs (AddSubCarry _ _ rm rn rd) = [(FRm, rm), (FRn, rn), (FRd, rd)]"
| "dp_regs (LogShift _ _ _ rm _ rn rd) = [(FRm, rm), (FRn, rn), (FRd, rd)]"
| "dp_regs (LogImm _ _ _ _ _ rn rd) = [(FRn, rn), (FRd, rd)]"
| "dp_regs (MoveWide _ _ _ _ rd) = [(FRd, rd)]"
| "dp_regs (Bitfield _ _ _ _ rn rd) = [(FRn, rn), (FRd, rd)]"
| "dp_regs (Extr _ rm _ rn rd) = [(FRm, rm), (FRn, rn), (FRd, rd)]"
| "dp_regs (CondSel _ _ rm _ rn rd) = [(FRm, rm), (FRn, rn), (FRd, rd)]"
| "dp_regs (CondCmpImm _ _ _ _ rn _) = [(FRn, rn)]"
| "dp_regs (CondCmpReg _ _ rm _ rn _) = [(FRm, rm), (FRn, rn)]"
| "dp_regs (Dp2 _ _ rm rn rd) = [(FRm, rm), (FRn, rn), (FRd, rd)]"
| "dp_regs (Crc32 _ _ rm rn rd) = [(FRm, rm), (FRn, rn), (FRd, rd)]"
| "dp_regs (Dp3 _ _ rm ra rn rd) = [(FRm, rm), (FRa, ra), (FRn, rn), (FRd, rd)]"
| "dp_regs (Dp3Long _ rm ra rn rd) = [(FRm, rm), (FRa, ra), (FRn, rn), (FRd, rd)]"
| "dp_regs (MulHigh _ rm rn rd) = [(FRm, rm), (FRn, rn), (FRd, rd)]"
| "dp_regs (Dp1 _ _ rn rd) = [(FRn, rn), (FRd, rd)]"
| "dp_regs (Rev32 rn rd) = [(FRn, rn), (FRd, rd)]"

fun dp_roles :: "a64_dp \<Rightarrow> a64_role list" where
  "dp_roles (Adr _ _ _) = [RegWrite FRd X64]"
| "dp_roles (Adrp _ _ _) = [RegWrite FRd X64]"
| "dp_roles (AddSubImm _ w _ _ _ _) = [RegRead FRn w, RegWrite FRd w]"
| "dp_roles (AddSubShift _ w _ _ _ _ _) = [RegRead FRm w, RegRead FRn w, RegWrite FRd w]"
| "dp_roles (AddSubExt _ w _ _ _ _ _) = [RegRead FRm w, RegRead FRn w, RegWrite FRd w]"
| "dp_roles (AddSubCarry _ w _ _ _) = [RegRead FRm w, RegRead FRn w, RegWrite FRd w]"
| "dp_roles (LogShift _ w _ _ _ _ _) = [RegRead FRm w, RegRead FRn w, RegWrite FRd w]"
| "dp_roles (LogImm _ w _ _ _ _ _) = [RegRead FRn w, RegWrite FRd w]"
| "dp_roles (MoveWide op w _ _ _) =
    (if op = Movk then [RegRead FRd w, RegWrite FRd w] else [RegWrite FRd w])"
| "dp_roles (Bitfield op w _ _ _ _) =
    (if op = Bfm then [RegRead FRd w, RegRead FRn w, RegWrite FRd w]
     else [RegRead FRn w, RegWrite FRd w])"
| "dp_roles (Extr w _ _ _ _) = [RegRead FRm w, RegRead FRn w, RegWrite FRd w]"
| "dp_roles (CondSel _ w _ _ _ _) = [RegRead FRm w, RegRead FRn w, RegWrite FRd w]"
| "dp_roles (CondCmpImm _ w _ _ _ _) = [RegRead FRn w]"
| "dp_roles (CondCmpReg _ w _ _ _ _) = [RegRead FRm w, RegRead FRn w]"
| "dp_roles (Dp2 _ w _ _ _) = [RegRead FRm w, RegRead FRn w, RegWrite FRd w]"
| "dp_roles (Crc32 _ sz _ _ _) =
    [RegRead FRm (if sz = CrcX then X64 else W32), RegRead FRn W32, RegWrite FRd W32]"
| "dp_roles (Dp3 _ w _ _ _ _) = [RegRead FRa w, RegRead FRm w, RegRead FRn w, RegWrite FRd w]"
| "dp_roles (Dp3Long _ _ _ _ _) =
    [RegRead FRa X64, RegRead FRm W32, RegRead FRn W32, RegWrite FRd X64]"
| "dp_roles (MulHigh _ _ _ _) = [RegRead FRm X64, RegRead FRn X64, RegWrite FRd X64]"
| "dp_roles (Dp1 _ w _ _) = [RegRead FRn w, RegWrite FRd w]"
| "dp_roles (Rev32 _ _) = [RegRead FRn X64, RegWrite FRd X64]"

fun branch_regs :: "a64_branch \<Rightarrow> (a64_field \<times> a64_reg) list" where
  "branch_regs (Cbz _ _ rt) = [(FRt, rt)]"
| "branch_regs (Cbnz _ _ rt) = [(FRt, rt)]"
| "branch_regs (Tbz _ _ _ rt) = [(FRt, rt)]"
| "branch_regs (Tbnz _ _ _ rt) = [(FRt, rt)]"
| "branch_regs (Br rn) = [(FRn, rn)]"
| "branch_regs (Blr rn) = [(FRn, rn)]"
| "branch_regs (Ret rn) = [(FRn, rn)]"
| "branch_regs _ = []"

fun branch_roles :: "a64_branch \<Rightarrow> a64_role list" where
  "branch_roles (Cbz w _ _) = [RegRead FRt w]"
| "branch_roles (Cbnz w _ _) = [RegRead FRt w]"
| "branch_roles (Tbz _ _ _ _) = [RegRead FRt UnknownWidth]"
| "branch_roles (Tbnz _ _ _ _) = [RegRead FRt UnknownWidth]"
| "branch_roles (Bl _) = [ImplicitRegWrite 30 X64]"
| "branch_roles (Br _) = [RegRead FRn X64]"
| "branch_roles (Blr _) = [ImplicitRegWrite 30 X64, RegRead FRn X64]"
| "branch_roles (Ret _) = [RegRead FRn X64]"
| "branch_roles _ = []"

fun sys_regs :: "a64_sys \<Rightarrow> (a64_field \<times> a64_reg) list" where
  "sys_regs (Mrs _ rt) = [(FRt, rt)]"
| "sys_regs _ = []"

fun sys_roles :: "a64_sys \<Rightarrow> a64_role list" where
  "sys_roles (Mrs _ _) = [RegWrite FRt X64]"
| "sys_roles _ = []"

fun ldst_regs :: "a64_ldst \<Rightarrow> (a64_field \<times> a64_reg) list" where
  "ldst_regs (LdSt _ rt m) = [(FRt, rt), (FRn, mem_base m)]"
| "ldst_regs (LdStUnscaled _ rt m) = [(FRt, rt), (FRn, mem_base m)]"
| "ldst_regs (LdStUnpriv _ rt m) = [(FRt, rt), (FRn, mem_base m)]"
| "ldst_regs (LdStPair _ rt2 rt m) = [(FRt2, rt2), (FRt, rt), (FRn, mem_base m)]"
| "ldst_regs (LdStReg _ rm _ _ rn rt) = [(FRm, rm), (FRn, rn), (FRt, rt)]"
| "ldst_regs (LdrLit _ _ rt) = [(FRt, rt)]"
| "ldst_regs (PrfmImm _ rn _) = [(FRn, rn)]"
| "ldst_regs (PrfmLit _ _) = []"
| "ldst_regs (PrfmReg rm _ _ rn _) = [(FRm, rm), (FRn, rn)]"
| "ldst_regs (LdStOrd _ rn rt) = [(FRn, rn), (FRt, rt)]"
| "ldst_regs (Atomic _ _ _ rs rn rt) = [(FRs, rs), (FRn, rn), (FRt, rt)]"

text \<open>One transfer register, offset or indexed addressing.\<close>

definition ldst_roles1 :: "bool \<Rightarrow> bool \<Rightarrow> a64_reg_width \<Rightarrow> a64_role list" where
  "ldst_roles1 load wb w =
    (if load then [MemBase FRn, base_role wb, RegWrite FRt w]
     else [MemBase FRn, RegRead FRt w, base_role wb])"

fun ldst_roles :: "a64_ldst \<Rightarrow> a64_role list" where
  "ldst_roles (LdSt op _ m) = ldst_roles1 (ldst_is_load op) (is_indexed m) (ldst_width op)"
| "ldst_roles (LdStUnscaled op _ m) = ldst_roles1 (ldst_is_load op) (is_indexed m) (ldst_width op)"
| "ldst_roles (LdStUnpriv op _ m) = ldst_roles1 (ldst_is_load op) (is_indexed m) (ldst_width op)"
| "ldst_roles (LdStPair op _ _ m) =
    (if pair_is_load op
     then [MemBase FRn, base_role (is_indexed m), RegWrite FRt (pair_width op),
           RegWrite FRt2 (pair_width op)]
     else [MemBase FRn, RegRead FRt (pair_width op), RegRead FRt2 (pair_width op),
           base_role (is_indexed m)])"
| "ldst_roles (LdStReg op _ _ _ _ _) =
    (if ldst_is_load op
     then [MemBase FRn, RegRead FRm X64, RegRead FRn X64, RegWrite FRt (ldst_width op)]
     else [MemBase FRn, RegRead FRm X64, RegRead FRn X64, RegRead FRt (ldst_width op)])"
| "ldst_roles (LdrLit op _ _) = [RegWrite FRt (if op = LitLdr32 then W32 else X64)]"
| "ldst_roles (PrfmImm _ _ _) = [MemBase FRn, RegRead FRn X64]"
| "ldst_roles (PrfmLit _ _) = []"
| "ldst_roles (PrfmReg _ _ _ _ _) = [MemBase FRn, RegRead FRm X64, RegRead FRn X64]"
| "ldst_roles (LdStOrd op _ _) = ldst_roles1 (ord_is_load op) False (ord_width op)"
| "ldst_roles (Atomic op sz _ _ _ _) =
    (let w = atomic_width sz in
     if op = AtCas
     then [MemBase FRn, RegRead FRn X64, RegRead FRs w, RegRead FRt w, RegWrite FRs w]
     else [MemBase FRn, RegRead FRn X64, RegRead FRs w, RegWrite FRt w])"

definition opt_reg :: "a64_field \<Rightarrow> a64_reg option \<Rightarrow> (a64_field \<times> a64_reg) list" where
  "opt_reg f r = (case r of None \<Rightarrow> [] | Some r' \<Rightarrow> [(f, r')])"

fun multi_rm :: "multi_index \<Rightarrow> a64_reg option" where
  "multi_rm (MRegIndex rm) = Some rm"
| "multi_rm _ = None"

fun fp_regs :: "a64_fp \<Rightarrow> (a64_field \<times> a64_reg) list" where
  "fp_regs (FpLdSt _ _ _ m) = [(FRn, mem_base m)]"
| "fp_regs (FpLdStUnscaled _ _ _ m) = [(FRn, mem_base m)]"
| "fp_regs (FpPair _ _ _ _ m) = [(FRn, mem_base m)]"
| "fp_regs (FpMulti _ _ ix _ _ rn _) = opt_reg FRm (multi_rm ix) @ [(FRn, rn)]"
| "fp_regs (FpLdStReg _ _ rm _ _ rn _) = [(FRm, rm), (FRn, rn)]"
| "fp_regs (SimdReg _ _ rn rd) = opt_reg FRn rn @ opt_reg FRd rd"

fun fp_roles :: "a64_fp \<Rightarrow> a64_role list" where
  "fp_roles (FpLdSt _ _ _ m) = [MemBase FRn, base_role (is_indexed m)]"
| "fp_roles (FpLdStUnscaled _ _ _ m) = [MemBase FRn, base_role (is_indexed m)]"
| "fp_roles (FpPair _ _ _ _ m) = [MemBase FRn, base_role (is_indexed m)]"
| "fp_roles (FpMulti _ _ ix _ _ _ _) =
    (case ix of
       MNoIndex \<Rightarrow> [MemBase FRn, base_role False]
     | MImmIndex \<Rightarrow> [MemBase FRn, base_role True]
     | MRegIndex _ \<Rightarrow> [MemBase FRn, RegRead FRm X64, base_role True])"
| "fp_roles (FpLdStReg _ _ _ _ _ _ _) = [MemBase FRn, RegRead FRm X64, RegRead FRn X64]"
| "fp_roles (SimdReg _ _ rn rd) =
    (case rn of None \<Rightarrow> [] | Some r \<Rightarrow> [RegRead FRn (width r)]) @
    (case rd of None \<Rightarrow> [] | Some r \<Rightarrow> [RegWrite FRd (width r)])"

fun reg_fields :: "a64_insn \<Rightarrow> (a64_field \<times> a64_reg) list" where
  "reg_fields (Dp i) = dp_regs i"
| "reg_fields (Brn i) = branch_regs i"
| "reg_fields (Sys i) = sys_regs i"
| "reg_fields (Mem i) = ldst_regs i"
| "reg_fields (Simd i) = fp_regs i"

fun operand_roles :: "a64_insn \<Rightarrow> a64_role list" where
  "operand_roles (Dp i) = dp_roles i"
| "operand_roles (Brn i) = branch_roles i"
| "operand_roles (Sys i) = sys_roles i"
| "operand_roles (Mem i) = ldst_roles i"
| "operand_roles (Simd i) = fp_roles i"

definition get_reg :: "a64_insn \<Rightarrow> a64_field \<Rightarrow> a64_reg option" where
  "get_reg i f = map_of (reg_fields i) f"

end
