(* ===== verification/A64Decode.thy ===== *)
theory A64Decode
  imports A64
begin

section \<open>Decoding: one row per form of the generated subset\<close>

text \<open>
  Models \<open>decode_a64_insn\<close> of \<open>spec/arm64/generated/a64_subset.rs\<close> (the generated chain of
  mask/value tests, here a list of rows in the same order) and \<open>decode_program\<close>'s value rules,
  \<open>A64Insn::is_decode_undefined\<close> of \<open>shared/arm64/mod.rs\<close>.
\<close>

subsection \<open>Field extraction and the builders of the rows\<close>

text \<open>\<open>(word & mask) >> lo\<close> for the contiguous mask of \<open>len\<close> bits from bit \<open>lo\<close>.\<close>

definition fld :: "nat \<Rightarrow> nat \<Rightarrow> u32 \<Rightarrow> u32" where
  "fld lo len w = take_bit len (drop_bit lo w)"

definition fldn :: "nat \<Rightarrow> nat \<Rightarrow> u32 \<Rightarrow> nat" where
  "fldn lo len w = unat (fld lo len w)"

definition uimm :: "nat \<Rightarrow> nat \<Rightarrow> u32 \<Rightarrow> a64_imm" where
  "uimm lo len w = imm_unsigned (fld lo len w) len"

definition simm :: "nat \<Rightarrow> nat \<Rightarrow> u32 \<Rightarrow> a64_imm" where
  "simm lo len w = imm_signed (fld lo len w) len"

definition suimm :: "nat \<Rightarrow> nat \<Rightarrow> nat \<Rightarrow> u32 \<Rightarrow> a64_imm" where
  "suimm lo len s w = imm_scaled_unsigned (fld lo len w) len s"

definition ssimm :: "nat \<Rightarrow> nat \<Rightarrow> nat \<Rightarrow> u32 \<Rightarrow> a64_imm" where
  "ssimm lo len s w = imm_scaled_signed (fld lo len w) len s"

definition xr :: "a64_reg_width \<Rightarrow> nat \<Rightarrow> u32 \<Rightarrow> a64_reg" where
  "xr wd lo w = reg_new (fldn lo 5 w) wd R31Xzr"

definition sr :: "a64_reg_width \<Rightarrow> nat \<Rightarrow> u32 \<Rightarrow> a64_reg" where
  "sr wd lo w = reg_new (fldn lo 5 w) wd R31Sp"

definition mem_off :: "(u32 \<Rightarrow> a64_imm) \<Rightarrow> u32 \<Rightarrow> a64_mem" where
  "mem_off f w = MOffset (sr X64 5 w) (f w)"

definition mem_pre :: "(u32 \<Rightarrow> a64_imm) \<Rightarrow> u32 \<Rightarrow> a64_mem" where
  "mem_pre f w = MPreIndex (sr X64 5 w) (f w)"

definition mem_post :: "(u32 \<Rightarrow> a64_imm) \<Rightarrow> u32 \<Rightarrow> a64_mem" where
  "mem_post f w = MPostIndex (sr X64 5 w) (f w)"

definition b_adr :: "(a64_imm \<Rightarrow> a64_imm \<Rightarrow> a64_reg \<Rightarrow> a64_dp) \<Rightarrow> u32 \<Rightarrow> a64_insn" where
  "b_adr c w = Dp (c (uimm 29 2 w) (uimm 5 19 w) (xr X64 0 w))"

definition b_addsub_imm :: "addsub_op \<Rightarrow> a64_reg_width \<Rightarrow> a64_reg31 \<Rightarrow> u32 \<Rightarrow> a64_insn" where
  "b_addsub_imm op wd md w =
    Dp (AddSubImm op wd (fldn 22 1 w) (uimm 10 12 w) (sr wd 5 w) (reg_new (fldn 0 5 w) wd md))"

definition b_addsub_shift :: "addsub_op \<Rightarrow> a64_reg_width \<Rightarrow> u32 \<Rightarrow> a64_insn" where
  "b_addsub_shift op wd w =
    Dp (AddSubShift op wd (fldn 22 2 w) (xr wd 16 w) (uimm 10 6 w) (xr wd 5 w) (xr wd 0 w))"

definition b_addsub_ext :: "addsub_op \<Rightarrow> a64_reg_width \<Rightarrow> a64_reg31 \<Rightarrow> u32 \<Rightarrow> a64_insn" where
  "b_addsub_ext op wd md w =
    Dp (AddSubExt op wd (xr wd 16 w) (fldn 13 3 w) (uimm 10 3 w) (sr wd 5 w)
      (reg_new (fldn 0 5 w) wd md))"

definition b_carry :: "carry_op \<Rightarrow> a64_reg_width \<Rightarrow> u32 \<Rightarrow> a64_insn" where
  "b_carry op wd w = Dp (AddSubCarry op wd (xr wd 16 w) (xr wd 5 w) (xr wd 0 w))"

definition b_log_shift :: "logic_op \<Rightarrow> a64_reg_width \<Rightarrow> u32 \<Rightarrow> a64_insn" where
  "b_log_shift op wd w =
    Dp (LogShift op wd (fldn 22 2 w) (xr wd 16 w) (uimm 10 6 w) (xr wd 5 w) (xr wd 0 w))"

definition b_log_imm32 :: "logimm_op \<Rightarrow> a64_reg31 \<Rightarrow> u32 \<Rightarrow> a64_insn" where
  "b_log_imm32 op md w =
    Dp (LogImm op W32 0 (uimm 16 6 w) (uimm 10 6 w) (xr W32 5 w) (reg_new (fldn 0 5 w) W32 md))"

definition b_log_imm64 :: "logimm_op \<Rightarrow> a64_reg31 \<Rightarrow> u32 \<Rightarrow> a64_insn" where
  "b_log_imm64 op md w =
    Dp (LogImm op X64 (fldn 22 1 w) (uimm 16 6 w) (uimm 10 6 w) (xr X64 5 w)
      (reg_new (fldn 0 5 w) X64 md))"

definition b_movewide :: "movewide_op \<Rightarrow> a64_reg_width \<Rightarrow> u32 \<Rightarrow> a64_insn" where
  "b_movewide op wd w = Dp (MoveWide op wd (fldn 21 2 w) (uimm 5 16 w) (xr wd 0 w))"

definition b_bitfield :: "bitfield_op \<Rightarrow> a64_reg_width \<Rightarrow> u32 \<Rightarrow> a64_insn" where
  "b_bitfield op wd w = Dp (Bitfield op wd (uimm 16 6 w) (uimm 10 6 w) (xr wd 5 w) (xr wd 0 w))"

definition b_extr :: "a64_reg_width \<Rightarrow> u32 \<Rightarrow> a64_insn" where
  "b_extr wd w = Dp (Extr wd (xr wd 16 w) (uimm 10 6 w) (xr wd 5 w) (xr wd 0 w))"

definition b_condsel :: "condsel_op \<Rightarrow> a64_reg_width \<Rightarrow> u32 \<Rightarrow> a64_insn" where
  "b_condsel op wd w = Dp (CondSel op wd (xr wd 16 w) (fldn 12 4 w) (xr wd 5 w) (xr wd 0 w))"

definition b_ccmp_imm :: "condcmp_op \<Rightarrow> a64_reg_width \<Rightarrow> u32 \<Rightarrow> a64_insn" where
  "b_ccmp_imm op wd w = Dp (CondCmpImm op wd (uimm 16 5 w) (fldn 12 4 w) (xr wd 5 w) (fldn 0 4 w))"

definition b_ccmp_reg :: "condcmp_op \<Rightarrow> a64_reg_width \<Rightarrow> u32 \<Rightarrow> a64_insn" where
  "b_ccmp_reg op wd w = Dp (CondCmpReg op wd (xr wd 16 w) (fldn 12 4 w) (xr wd 5 w) (fldn 0 4 w))"

definition b_dp2 :: "dp2_op \<Rightarrow> a64_reg_width \<Rightarrow> u32 \<Rightarrow> a64_insn" where
  "b_dp2 op wd w = Dp (Dp2 op wd (xr wd 16 w) (xr wd 5 w) (xr wd 0 w))"

definition b_crc32 :: "bool \<Rightarrow> crc_size \<Rightarrow> u32 \<Rightarrow> a64_insn" where
  "b_crc32 c sz w =
    Dp (Crc32 c sz (xr (if sz = CrcX then X64 else W32) 16 w) (xr W32 5 w) (xr W32 0 w))"

definition b_dp3 :: "dp3_op \<Rightarrow> a64_reg_width \<Rightarrow> u32 \<Rightarrow> a64_insn" where
  "b_dp3 op wd w = Dp (Dp3 op wd (xr wd 16 w) (xr wd 10 w) (xr wd 5 w) (xr wd 0 w))"

definition b_dp3_long :: "dp3_long_op \<Rightarrow> u32 \<Rightarrow> a64_insn" where
  "b_dp3_long op w = Dp (Dp3Long op (xr W32 16 w) (xr X64 10 w) (xr W32 5 w) (xr X64 0 w))"

definition b_mulh :: "bool \<Rightarrow> u32 \<Rightarrow> a64_insn" where
  "b_mulh s w = Dp (MulHigh s (xr X64 16 w) (xr X64 5 w) (xr X64 0 w))"

definition b_dp1 :: "dp1_op \<Rightarrow> a64_reg_width \<Rightarrow> u32 \<Rightarrow> a64_insn" where
  "b_dp1 op wd w = Dp (Dp1 op wd (xr wd 5 w) (xr wd 0 w))"

definition b_rev32 :: "u32 \<Rightarrow> a64_insn" where
  "b_rev32 w = Dp (Rev32 (xr X64 5 w) (xr X64 0 w))"

definition b_b26 :: "(a64_imm \<Rightarrow> a64_branch) \<Rightarrow> u32 \<Rightarrow> a64_insn" where
  "b_b26 c w = Brn (c (ssimm 0 26 2 w))"

definition b_bcond :: "u32 \<Rightarrow> a64_insn" where
  "b_bcond w = Brn (BCond (ssimm 5 19 2 w) (fldn 0 4 w))"

definition b_cb ::
    "(a64_reg_width \<Rightarrow> a64_imm \<Rightarrow> a64_reg \<Rightarrow> a64_branch) \<Rightarrow> a64_reg_width \<Rightarrow> u32 \<Rightarrow> a64_insn" where
  "b_cb c wd w = Brn (c wd (ssimm 5 19 2 w) (xr wd 0 w))"

definition b_tb ::
    "(nat \<Rightarrow> nat \<Rightarrow> a64_imm \<Rightarrow> a64_reg \<Rightarrow> a64_branch) \<Rightarrow> u32 \<Rightarrow> a64_insn" where
  "b_tb c w = Brn (c (fldn 31 1 w) (fldn 19 5 w) (ssimm 5 14 2 w) (xr UnknownWidth 0 w))"

definition b_breg :: "(a64_reg \<Rightarrow> a64_branch) \<Rightarrow> u32 \<Rightarrow> a64_insn" where
  "b_breg c w = Brn (c (xr X64 5 w))"

definition b_svc :: "u32 \<Rightarrow> a64_insn" where
  "b_svc w = Brn (Svc (uimm 5 16 w))"

definition b_nop :: "u32 \<Rightarrow> a64_insn" where
  "b_nop w = Sys Nop"

definition b_bti :: "u32 \<Rightarrow> a64_insn" where
  "b_bti w = Sys (Bti (fldn 5 3 w))"

definition b_barrier :: "barrier_op \<Rightarrow> u32 \<Rightarrow> a64_insn" where
  "b_barrier op w = Sys (Barrier op (fldn 8 4 w))"

definition b_msr_imm :: "u32 \<Rightarrow> a64_insn" where
  "b_msr_imm w = Sys (MsrImm (fldn 8 4 w))"

definition b_mrs :: "sysreg \<Rightarrow> u32 \<Rightarrow> a64_insn" where
  "b_mrs r w = Sys (Mrs r (xr X64 0 w))"

definition b_ldst :: "ldst_op \<Rightarrow> a64_reg_width \<Rightarrow> (u32 \<Rightarrow> a64_mem) \<Rightarrow> u32 \<Rightarrow> a64_insn" where
  "b_ldst op wd m w = Mem (LdSt op (xr wd 0 w) (m w))"

definition b_ldst_unscaled :: "ldst_op \<Rightarrow> a64_reg_width \<Rightarrow> u32 \<Rightarrow> a64_insn" where
  "b_ldst_unscaled op wd w = Mem (LdStUnscaled op (xr wd 0 w) (mem_off (simm 12 9) w))"

definition b_ldst_unpriv :: "ldst_op \<Rightarrow> a64_reg_width \<Rightarrow> u32 \<Rightarrow> a64_insn" where
  "b_ldst_unpriv op wd w = Mem (LdStUnpriv op (xr wd 0 w) (mem_off (simm 12 9) w))"

definition b_pair :: "pair_op \<Rightarrow> a64_reg_width \<Rightarrow> (u32 \<Rightarrow> a64_mem) \<Rightarrow> u32 \<Rightarrow> a64_insn" where
  "b_pair op wd m w = Mem (LdStPair op (xr wd 10 w) (xr wd 0 w) (m w))"

definition b_ldst_reg :: "ldst_op \<Rightarrow> a64_reg_width \<Rightarrow> u32 \<Rightarrow> a64_insn" where
  "b_ldst_reg op wd w =
    Mem (LdStReg op (xr X64 16 w) (Some (fldn 13 3 w)) (fldn 12 1 w) (sr X64 5 w) (xr wd 0 w))"

text \<open>The \<open>*BL\<close> byte forms: their diagram fixes \<open>option\<close>, so they have no such field.\<close>

definition b_ldst_reg_bl :: "ldst_op \<Rightarrow> a64_reg_width \<Rightarrow> u32 \<Rightarrow> a64_insn" where
  "b_ldst_reg_bl op wd w =
    Mem (LdStReg op (xr X64 16 w) None (fldn 12 1 w) (sr X64 5 w) (xr wd 0 w))"

definition b_lit :: "lit_op \<Rightarrow> a64_reg_width \<Rightarrow> u32 \<Rightarrow> a64_insn" where
  "b_lit op wd w = Mem (LdrLit op (ssimm 5 19 2 w) (xr wd 0 w))"

definition b_prfm_imm :: "u32 \<Rightarrow> a64_insn" where
  "b_prfm_imm w = Mem (PrfmImm (uimm 10 12 w) (sr X64 5 w) (fldn 0 5 w))"

definition b_prfm_lit :: "u32 \<Rightarrow> a64_insn" where
  "b_prfm_lit w = Mem (PrfmLit (uimm 5 19 w) (fldn 0 5 w))"

definition b_prfm_reg :: "u32 \<Rightarrow> a64_insn" where
  "b_prfm_reg w =
    Mem (PrfmReg (xr X64 16 w) (fldn 13 3 w) (fldn 12 1 w) (sr X64 5 w) (fldn 0 5 w))"

definition b_ord :: "ord_op \<Rightarrow> a64_reg_width \<Rightarrow> u32 \<Rightarrow> a64_insn" where
  "b_ord op wd w = Mem (LdStOrd op (sr X64 5 w) (xr wd 0 w))"

definition b_atomic ::
    "atomic_op \<Rightarrow> atomic_size \<Rightarrow> atomic_order \<Rightarrow> a64_reg_width \<Rightarrow> u32 \<Rightarrow> a64_insn" where
  "b_atomic op sz ord wd w = Mem (Atomic op sz ord (xr wd 16 w) (sr X64 5 w) (xr wd 0 w))"

definition b_fp_ldst :: "bool \<Rightarrow> vsize \<Rightarrow> (u32 \<Rightarrow> a64_mem) \<Rightarrow> u32 \<Rightarrow> a64_insn" where
  "b_fp_ldst ld sz m w = Simd (FpLdSt ld sz (fldn 0 5 w) (m w))"

definition b_fp_unscaled :: "bool \<Rightarrow> vsize \<Rightarrow> u32 \<Rightarrow> a64_insn" where
  "b_fp_unscaled ld sz w = Simd (FpLdStUnscaled ld sz (fldn 0 5 w) (mem_off (simm 12 9) w))"

definition b_fp_pair :: "bool \<Rightarrow> vsize \<Rightarrow> (u32 \<Rightarrow> a64_mem) \<Rightarrow> u32 \<Rightarrow> a64_insn" where
  "b_fp_pair ld sz m w = Simd (FpPair ld sz (fldn 10 5 w) (fldn 0 5 w) (m w))"

definition b_fp_multi :: "bool \<Rightarrow> nat \<Rightarrow> multi_index \<Rightarrow> u32 \<Rightarrow> a64_insn" where
  "b_fp_multi ld n ix w =
    Simd (FpMulti ld n ix (fldn 30 1 w) (fldn 10 2 w) (sr X64 5 w) (fldn 0 5 w))"

definition b_fp_multi_reg :: "bool \<Rightarrow> nat \<Rightarrow> u32 \<Rightarrow> a64_insn" where
  "b_fp_multi_reg ld n w =
    Simd (FpMulti ld n (MRegIndex (xr X64 16 w)) (fldn 30 1 w) (fldn 10 2 w) (sr X64 5 w)
      (fldn 0 5 w))"

definition b_fp_reg :: "bool \<Rightarrow> vsize \<Rightarrow> u32 \<Rightarrow> a64_insn" where
  "b_fp_reg ld sz w =
    Simd (FpLdStReg ld sz (xr X64 16 w) (Some (fldn 13 3 w)) (fldn 12 1 w) (sr X64 5 w)
      (fldn 0 5 w))"

definition b_fp_reg_bl :: "bool \<Rightarrow> vsize \<Rightarrow> u32 \<Rightarrow> a64_insn" where
  "b_fp_reg_bl ld sz w =
    Simd (FpLdStReg ld sz (xr X64 16 w) None (fldn 12 1 w) (sr X64 5 w) (fldn 0 5 w))"

definition b_simd :: "simd_form \<Rightarrow> u32 \<Rightarrow> a64_insn" where
  "b_simd f w = Simd (SimdReg f w None None)"

definition b_simd_rn :: "simd_form \<Rightarrow> a64_reg_width \<Rightarrow> u32 \<Rightarrow> a64_insn" where
  "b_simd_rn f wd w = Simd (SimdReg f w (Some (xr wd 5 w)) None)"

definition b_simd_rd :: "simd_form \<Rightarrow> a64_reg_width \<Rightarrow> u32 \<Rightarrow> a64_insn" where
  "b_simd_rd f wd w = Simd (SimdReg f w None (Some (xr wd 0 w)))"

lemmas fld_defs = fld_def fldn_def uimm_def simm_def suimm_def ssimm_def xr_def sr_def mem_off_def
  mem_pre_def mem_post_def

lemmas build_defs = b_adr_def b_addsub_imm_def b_addsub_shift_def b_addsub_ext_def b_carry_def
  b_log_shift_def b_log_imm32_def b_log_imm64_def b_movewide_def b_bitfield_def b_extr_def
  b_condsel_def b_ccmp_imm_def b_ccmp_reg_def b_dp2_def b_crc32_def b_dp3_def b_dp3_long_def
  b_mulh_def b_dp1_def b_rev32_def b_b26_def b_bcond_def b_cb_def b_tb_def b_breg_def b_svc_def
  b_nop_def b_bti_def b_barrier_def b_msr_imm_def b_mrs_def b_ldst_def b_ldst_unscaled_def
  b_ldst_unpriv_def b_pair_def b_ldst_reg_def b_ldst_reg_bl_def b_lit_def b_prfm_imm_def
  b_prfm_lit_def b_prfm_reg_def b_ord_def b_atomic_def b_fp_ldst_def b_fp_unscaled_def
  b_fp_pair_def b_fp_multi_def b_fp_multi_reg_def b_fp_reg_def b_fp_reg_bl_def b_simd_def
  b_simd_rn_def b_simd_rd_def

subsection \<open>The rows\<close>

text \<open>A row: the word must equal \<open>value\<close> under \<open>mask\<close> and match none of the excluded patterns.\<close>

type_synonym a64_row = "u32 \<times> u32 \<times> (u32 \<times> u32) list \<times> (u32 \<Rightarrow> a64_insn)"

definition decode_rows_1 :: "a64_row list" where
  "decode_rows_1 =
    [
      (0x9f000000, 0x10000000, [], b_adr Adr),  \<comment> \<open>AdrAdrOnlyPcreladdr\<close>
    (0x9f000000, 0x90000000, [], b_adr Adrp),  \<comment> \<open>AdrpAdrpOnlyPcreladdr\<close>
    (0xff800000, 0x11000000, [], b_addsub_imm AsAdd W32 R31Sp),  \<comment> \<open>AddAddsubImmAdd32AddsubImm\<close>
    (0xff800000, 0x91000000, [], b_addsub_imm AsAdd X64 R31Sp),  \<comment> \<open>AddAddsubImmAdd64AddsubImm\<close>
    (0xff800000, 0x51000000, [], b_addsub_imm AsSub W32 R31Sp),  \<comment> \<open>SubAddsubImmSub32AddsubImm\<close>
    (0xff800000, 0xd1000000, [], b_addsub_imm AsSub X64 R31Sp),  \<comment> \<open>SubAddsubImmSub64AddsubImm\<close>
    (0xff800000, 0x71000000, [], b_addsub_imm AsSubs W32 R31Xzr),  \<comment> \<open>SubsAddsubImmSubs32sAddsubImm\<close>
    (0xff800000, 0xf1000000, [], b_addsub_imm AsSubs X64 R31Xzr),  \<comment> \<open>SubsAddsubImmSubs64sAddsubImm\<close>
    (0xff800000, 0x31000000, [], b_addsub_imm AsAdds W32 R31Xzr),  \<comment> \<open>AddsAddsubImmAdds32sAddsubImm\<close>
    (0xff800000, 0xb1000000, [], b_addsub_imm AsAdds X64 R31Xzr),  \<comment> \<open>AddsAddsubImmAdds64sAddsubImm\<close>
    (0xff200000, 0x0b000000, [], b_addsub_shift AsAdd W32),  \<comment> \<open>AddAddsubShiftAdd32AddsubShift\<close>
    (0xff200000, 0x8b000000, [], b_addsub_shift AsAdd X64),  \<comment> \<open>AddAddsubShiftAdd64AddsubShift\<close>
    (0xff200000, 0x2b000000, [], b_addsub_shift AsAdds W32),  \<comment> \<open>AddsAddsubShiftAdds32AddsubShift\<close>
    (0xff200000, 0xab000000, [], b_addsub_shift AsAdds X64),  \<comment> \<open>AddsAddsubShiftAdds64AddsubShift\<close>
    (0xff200000, 0x4b000000, [], b_addsub_shift AsSub W32),  \<comment> \<open>SubAddsubShiftSub32AddsubShift\<close>
    (0xff200000, 0xcb000000, [], b_addsub_shift AsSub X64),  \<comment> \<open>SubAddsubShiftSub64AddsubShift\<close>
    (0xff200000, 0x6b000000, [], b_addsub_shift AsSubs W32),  \<comment> \<open>SubsAddsubShiftSubs32AddsubShift\<close>
    (0xff200000, 0xeb000000, [], b_addsub_shift AsSubs X64),  \<comment> \<open>SubsAddsubShiftSubs64AddsubShift\<close>
    (0xffe00000, 0x0b200000, [], b_addsub_ext AsAdd W32 R31Sp),  \<comment> \<open>AddAddsubExtAdd32AddsubExt\<close>
    (0xffe00000, 0x8b200000, [], b_addsub_ext AsAdd X64 R31Sp),  \<comment> \<open>AddAddsubExtAdd64AddsubExt\<close>
    (0xffe00000, 0x2b200000, [], b_addsub_ext AsAdds W32 R31Xzr),  \<comment> \<open>AddsAddsubExtAdds32sAddsubExt\<close>
    (0xffe00000, 0xab200000, [], b_addsub_ext AsAdds X64 R31Xzr),  \<comment> \<open>AddsAddsubExtAdds64sAddsubExt\<close>
    (0xffe00000, 0x4b200000, [], b_addsub_ext AsSub W32 R31Sp),  \<comment> \<open>SubAddsubExtSub32AddsubExt\<close>
    (0xffe00000, 0xcb200000, [], b_addsub_ext AsSub X64 R31Sp),  \<comment> \<open>SubAddsubExtSub64AddsubExt\<close>
    (0xffe00000, 0x6b200000, [], b_addsub_ext AsSubs W32 R31Xzr),  \<comment> \<open>SubsAddsubExtSubs32sAddsubExt\<close>
    (0xffe00000, 0xeb200000, [], b_addsub_ext AsSubs X64 R31Xzr),  \<comment> \<open>SubsAddsubExtSubs64sAddsubExt\<close>
    (0xfc000000, 0x14000000, [], b_b26 BUncond),  \<comment> \<open>BUncondBOnlyBranchImm\<close>
    (0xff000010, 0x54000000, [], b_bcond),  \<comment> \<open>BCondBOnlyCondbranch\<close>
    (0xff000000, 0x34000000, [], b_cb Cbz W32),  \<comment> \<open>CbzCbz32Compbranch\<close>
    (0xff000000, 0xb4000000, [], b_cb Cbz X64),  \<comment> \<open>CbzCbz64Compbranch\<close>
    (0xff000000, 0x35000000, [], b_cb Cbnz W32),  \<comment> \<open>CbnzCbnz32Compbranch\<close>
    (0xff000000, 0xb5000000, [], b_cb Cbnz X64),  \<comment> \<open>CbnzCbnz64Compbranch\<close>
    (0xffc00000, 0x52800000, [], b_movewide Movz W32),  \<comment> \<open>MovzMovz32Movewide\<close>
    (0xff800000, 0xd2800000, [], b_movewide Movz X64),  \<comment> \<open>MovzMovz64Movewide\<close>
    (0xffc00000, 0x72800000, [], b_movewide Movk W32),  \<comment> \<open>MovkMovk32Movewide\<close>
    (0xff800000, 0xf2800000, [], b_movewide Movk X64)  \<comment> \<open>MovkMovk64Movewide\<close>
    ]"

definition decode_rows_2 :: "a64_row list" where
  "decode_rows_2 =
    [
      (0xffc00000, 0x12800000, [], b_movewide Movn W32),  \<comment> \<open>MovnMovn32Movewide\<close>
    (0xff800000, 0x92800000, [], b_movewide Movn X64),  \<comment> \<open>MovnMovn64Movewide\<close>
    (0xff200000, 0x0a000000, [], b_log_shift LgAnd W32),  \<comment> \<open>AndLogShiftAnd32LogShift\<close>
    (0xff200000, 0x8a000000, [], b_log_shift LgAnd X64),  \<comment> \<open>AndLogShiftAnd64LogShift\<close>
    (0xff200000, 0x6a000000, [], b_log_shift LgAnds W32),  \<comment> \<open>AndsLogShiftAnds32LogShift\<close>
    (0xff200000, 0xea000000, [], b_log_shift LgAnds X64),  \<comment> \<open>AndsLogShiftAnds64LogShift\<close>
    (0xff200000, 0x2a000000, [], b_log_shift LgOrr W32),  \<comment> \<open>OrrLogShiftOrr32LogShift\<close>
    (0xff200000, 0xaa000000, [], b_log_shift LgOrr X64),  \<comment> \<open>OrrLogShiftOrr64LogShift\<close>
    (0xff200000, 0x4a000000, [], b_log_shift LgEor W32),  \<comment> \<open>EorLogShiftEor32LogShift\<close>
    (0xff200000, 0xca000000, [], b_log_shift LgEor X64),  \<comment> \<open>EorLogShiftEor64LogShift\<close>
    (0xff200000, 0x4a200000, [], b_log_shift LgEon W32),  \<comment> \<open>EonEon32LogShift\<close>
    (0xff200000, 0xca200000, [], b_log_shift LgEon X64),  \<comment> \<open>EonEon64LogShift\<close>
    (0xff200000, 0x0a200000, [], b_log_shift LgBic W32),  \<comment> \<open>BicLogShiftBic32LogShift\<close>
    (0xff200000, 0x8a200000, [], b_log_shift LgBic X64),  \<comment> \<open>BicLogShiftBic64LogShift\<close>
    (0xff200000, 0x6a200000, [], b_log_shift LgBics W32),  \<comment> \<open>BicsBics32LogShift\<close>
    (0xff200000, 0xea200000, [], b_log_shift LgBics X64),  \<comment> \<open>BicsBics64LogShift\<close>
    (0xff200000, 0x2a200000, [], b_log_shift LgOrn W32),  \<comment> \<open>OrnLogShiftOrn32LogShift\<close>
    (0xff200000, 0xaa200000, [], b_log_shift LgOrn X64),  \<comment> \<open>OrnLogShiftOrn64LogShift\<close>
    (0xffc00000, 0x12000000, [], b_log_imm32 LiAnd R31Sp),  \<comment> \<open>AndLogImmAnd32LogImm\<close>
    (0xff800000, 0x92000000, [], b_log_imm64 LiAnd R31Sp),  \<comment> \<open>AndLogImmAnd64LogImm\<close>
    (0xffc00000, 0x72000000, [], b_log_imm32 LiAnds R31Xzr),  \<comment> \<open>AndsLogImmAnds32sLogImm\<close>
    (0xff800000, 0xf2000000, [], b_log_imm64 LiAnds R31Xzr),  \<comment> \<open>AndsLogImmAnds64sLogImm\<close>
    (0xffc00000, 0x32000000, [], b_log_imm32 LiOrr R31Sp),  \<comment> \<open>OrrLogImmOrr32LogImm\<close>
    (0xff800000, 0xb2000000, [], b_log_imm64 LiOrr R31Sp),  \<comment> \<open>OrrLogImmOrr64LogImm\<close>
    (0xffc00000, 0x52000000, [], b_log_imm32 LiEor R31Sp),  \<comment> \<open>EorLogImmEor32LogImm\<close>
    (0xff800000, 0xd2000000, [], b_log_imm64 LiEor R31Sp),  \<comment> \<open>EorLogImmEor64LogImm\<close>
    (0xffc00000, 0x13000000, [], b_bitfield Sbfm W32),  \<comment> \<open>SbfmSbfm32mBitfield\<close>
    (0xffc00000, 0x93400000, [], b_bitfield Sbfm X64),  \<comment> \<open>SbfmSbfm64mBitfield\<close>
    (0xffc00000, 0x53000000, [], b_bitfield Ubfm W32),  \<comment> \<open>UbfmUbfm32mBitfield\<close>
    (0xffc00000, 0xd3400000, [], b_bitfield Ubfm X64),  \<comment> \<open>UbfmUbfm64mBitfield\<close>
    (0xffc00000, 0x33000000, [], b_bitfield Bfm W32),  \<comment> \<open>BfmBfm32mBitfield\<close>
    (0xffc00000, 0xb3400000, [], b_bitfield Bfm X64),  \<comment> \<open>BfmBfm64mBitfield\<close>
    (0xffe08000, 0x13800000, [], b_extr W32),  \<comment> \<open>ExtrExtr32Extract\<close>
    (0xffe00000, 0x93c00000, [], b_extr X64),  \<comment> \<open>ExtrExtr64Extract\<close>
    (0xffe00c00, 0x1a800000, [], b_condsel Csel W32),  \<comment> \<open>CselCsel32Condsel\<close>
    (0xffe00c00, 0x9a800000, [], b_condsel Csel X64)  \<comment> \<open>CselCsel64Condsel\<close>
    ]"

definition decode_rows_3 :: "a64_row list" where
  "decode_rows_3 =
    [
      (0xffe00c00, 0x1a800400, [], b_condsel Csinc W32),  \<comment> \<open>CsincCsinc32Condsel\<close>
    (0xffe00c00, 0x9a800400, [], b_condsel Csinc X64),  \<comment> \<open>CsincCsinc64Condsel\<close>
    (0xffe00c00, 0x5a800000, [], b_condsel Csinv W32),  \<comment> \<open>CsinvCsinv32Condsel\<close>
    (0xffe00c00, 0xda800000, [], b_condsel Csinv X64),  \<comment> \<open>CsinvCsinv64Condsel\<close>
    (0xffe00c00, 0x5a800400, [], b_condsel Csneg W32),  \<comment> \<open>CsnegCsneg32Condsel\<close>
    (0xffe00c00, 0xda800400, [], b_condsel Csneg X64),  \<comment> \<open>CsnegCsneg64Condsel\<close>
    (0xffe00c10, 0x7a400800, [], b_ccmp_imm Ccmp W32),  \<comment> \<open>CcmpImmCcmp32CondcmpImm\<close>
    (0xffe00c10, 0xfa400800, [], b_ccmp_imm Ccmp X64),  \<comment> \<open>CcmpImmCcmp64CondcmpImm\<close>
    (0xffe00c10, 0x7a400000, [], b_ccmp_reg Ccmp W32),  \<comment> \<open>CcmpRegCcmp32CondcmpReg\<close>
    (0xffe00c10, 0xfa400000, [], b_ccmp_reg Ccmp X64),  \<comment> \<open>CcmpRegCcmp64CondcmpReg\<close>
    (0xffe00c10, 0x3a400800, [], b_ccmp_imm Ccmn W32),  \<comment> \<open>CcmnImmCcmn32CondcmpImm\<close>
    (0xffe00c10, 0xba400800, [], b_ccmp_imm Ccmn X64),  \<comment> \<open>CcmnImmCcmn64CondcmpImm\<close>
    (0xffe00c10, 0x3a400000, [], b_ccmp_reg Ccmn W32),  \<comment> \<open>CcmnRegCcmn32CondcmpReg\<close>
    (0xffe00c10, 0xba400000, [], b_ccmp_reg Ccmn X64),  \<comment> \<open>CcmnRegCcmn64CondcmpReg\<close>
    (0xffe0fc00, 0x1ac02000, [], b_dp2 Lslv W32),  \<comment> \<open>LslvLslv32Dp2src\<close>
    (0xffe0fc00, 0x9ac02000, [], b_dp2 Lslv X64),  \<comment> \<open>LslvLslv64Dp2src\<close>
    (0xffe0fc00, 0x1ac02400, [], b_dp2 Lsrv W32),  \<comment> \<open>LsrvLsrv32Dp2src\<close>
    (0xffe0fc00, 0x9ac02400, [], b_dp2 Lsrv X64),  \<comment> \<open>LsrvLsrv64Dp2src\<close>
    (0xffe0fc00, 0x1ac02800, [], b_dp2 Asrv W32),  \<comment> \<open>AsrvAsrv32Dp2src\<close>
    (0xffe0fc00, 0x9ac02800, [], b_dp2 Asrv X64),  \<comment> \<open>AsrvAsrv64Dp2src\<close>
    (0xffe0fc00, 0x1ac02c00, [], b_dp2 Rorv W32),  \<comment> \<open>RorvRorv32Dp2src\<close>
    (0xffe0fc00, 0x9ac02c00, [], b_dp2 Rorv X64),  \<comment> \<open>RorvRorv64Dp2src\<close>
    (0xffe0fc00, 0x1ac00800, [], b_dp2 Udiv W32),  \<comment> \<open>UdivUdiv32Dp2src\<close>
    (0xffe0fc00, 0x9ac00800, [], b_dp2 Udiv X64),  \<comment> \<open>UdivUdiv64Dp2src\<close>
    (0xffe0fc00, 0x1ac00c00, [], b_dp2 Sdiv W32),  \<comment> \<open>SdivSdiv32Dp2src\<close>
    (0xffe0fc00, 0x9ac00c00, [], b_dp2 Sdiv X64),  \<comment> \<open>SdivSdiv64Dp2src\<close>
    (0xffe08000, 0x1b000000, [], b_dp3 Madd W32),  \<comment> \<open>MaddMadd32aDp3src\<close>
    (0xffe08000, 0x9b000000, [], b_dp3 Madd X64),  \<comment> \<open>MaddMadd64aDp3src\<close>
    (0xffe08000, 0x1b008000, [], b_dp3 Msub W32),  \<comment> \<open>MsubMsub32aDp3src\<close>
    (0xffe08000, 0x9b008000, [], b_dp3 Msub X64),  \<comment> \<open>MsubMsub64aDp3src\<close>
    (0xffe08000, 0x9b200000, [], b_dp3_long Smaddl),  \<comment> \<open>SmaddlSmaddl64waDp3src\<close>
    (0xffe08000, 0x9ba00000, [], b_dp3_long Umaddl),  \<comment> \<open>UmaddlUmaddl64waDp3src\<close>
    (0xffe08000, 0x9b208000, [], b_dp3_long Smsubl),  \<comment> \<open>SmsublSmsubl64waDp3src\<close>
    (0xffe08000, 0x9ba08000, [], b_dp3_long Umsubl),  \<comment> \<open>UmsublUmsubl64waDp3src\<close>
    (0xffe0fc00, 0x9b407c00, [], b_mulh True),  \<comment> \<open>SmulhSmulh64Dp3src\<close>
    (0xffe0fc00, 0x9bc07c00, [], b_mulh False)  \<comment> \<open>UmulhUmulh64Dp3src\<close>
    ]"

definition decode_rows_4 :: "a64_row list" where
  "decode_rows_4 =
    [
      (0xffe0fc00, 0x1a000000, [], b_carry CaAdc W32),  \<comment> \<open>AdcAdc32AddsubCarry\<close>
    (0xffe0fc00, 0x9a000000, [], b_carry CaAdc X64),  \<comment> \<open>AdcAdc64AddsubCarry\<close>
    (0xffe0fc00, 0x3a000000, [], b_carry CaAdcs W32),  \<comment> \<open>AdcsAdcs32AddsubCarry\<close>
    (0xffe0fc00, 0xba000000, [], b_carry CaAdcs X64),  \<comment> \<open>AdcsAdcs64AddsubCarry\<close>
    (0xffe0fc00, 0x5a000000, [], b_carry CaSbc W32),  \<comment> \<open>SbcSbc32AddsubCarry\<close>
    (0xffe0fc00, 0xda000000, [], b_carry CaSbc X64),  \<comment> \<open>SbcSbc64AddsubCarry\<close>
    (0xffe0fc00, 0x7a000000, [], b_carry CaSbcs W32),  \<comment> \<open>SbcsSbcs32AddsubCarry\<close>
    (0xffe0fc00, 0xfa000000, [], b_carry CaSbcs X64),  \<comment> \<open>SbcsSbcs64AddsubCarry\<close>
    (0xffe0fc00, 0x1ac04000, [], b_crc32 False CrcB),  \<comment> \<open>Crc32Crc32b32cDp2src\<close>
    (0xffe0fc00, 0x1ac04400, [], b_crc32 False CrcH),  \<comment> \<open>Crc32Crc32h32cDp2src\<close>
    (0xffe0fc00, 0x1ac04800, [], b_crc32 False CrcW),  \<comment> \<open>Crc32Crc32w32cDp2src\<close>
    (0xffe0fc00, 0x9ac04c00, [], b_crc32 False CrcX),  \<comment> \<open>Crc32Crc32x64cDp2src\<close>
    (0xffe0fc00, 0x1ac05000, [], b_crc32 True CrcB),  \<comment> \<open>Crc32cCrc32cb32cDp2src\<close>
    (0xffe0fc00, 0x1ac05400, [], b_crc32 True CrcH),  \<comment> \<open>Crc32cCrc32ch32cDp2src\<close>
    (0xffe0fc00, 0x1ac05800, [], b_crc32 True CrcW),  \<comment> \<open>Crc32cCrc32cw32cDp2src\<close>
    (0xffe0fc00, 0x9ac05c00, [], b_crc32 True CrcX),  \<comment> \<open>Crc32cCrc32cx64cDp2src\<close>
    (0xfffffc00, 0x5ac01000, [], b_dp1 Clz W32),  \<comment> \<open>ClzIntClz32Dp1src\<close>
    (0xfffffc00, 0xdac01000, [], b_dp1 Clz X64),  \<comment> \<open>ClzIntClz64Dp1src\<close>
    (0xfffffc00, 0x5ac00000, [], b_dp1 Rbit W32),  \<comment> \<open>RbitIntRbit32Dp1src\<close>
    (0xfffffc00, 0xdac00000, [], b_dp1 Rbit X64),  \<comment> \<open>RbitIntRbit64Dp1src\<close>
    (0xfffffc00, 0x5ac00800, [], b_dp1 Rev W32),  \<comment> \<open>RevRev32Dp1src\<close>
    (0xfffffc00, 0xdac00c00, [], b_dp1 Rev X64),  \<comment> \<open>RevRev64Dp1src\<close>
    (0xfffffc00, 0x5ac00400, [], b_dp1 Rev16 W32),  \<comment> \<open>Rev16IntRev1632Dp1src\<close>
    (0xfffffc00, 0xdac00400, [], b_dp1 Rev16 X64),  \<comment> \<open>Rev16IntRev1664Dp1src\<close>
    (0xfffffc00, 0xdac00800, [], b_rev32),  \<comment> \<open>Rev32IntRev3264Dp1src\<close>
    (0xffffffe0, 0xd53be000, [], b_mrs CntfrqEl0),  \<comment> \<open>MrsMrsRsSystemmoveCntfrqEl0\<close>
    (0xffffffe0, 0xd53be040, [], b_mrs CntvctEl0),  \<comment> \<open>MrsMrsRsSystemmoveCntvctEl0\<close>
    (0xffffffe0, 0xd53b4400, [], b_mrs Fpcr),  \<comment> \<open>MrsMrsRsSystemmoveFpcr\<close>
    (0xffffffe0, 0xd53b4420, [], b_mrs Fpsr),  \<comment> \<open>MrsMrsRsSystemmoveFpsr\<close>
    (0xffffffe0, 0xd53bd040, [], b_mrs TpidrEl0),  \<comment> \<open>MrsMrsRsSystemmoveTpidrEl0\<close>
    (0x7f000000, 0x36000000, [], b_tb Tbz),  \<comment> \<open>TbzTbzOnlyTestbranch\<close>
    (0x7f000000, 0x37000000, [], b_tb Tbnz),  \<comment> \<open>TbnzTbnzOnlyTestbranch\<close>
    (0xffe00c00, 0xb8400400, [], b_ldst Ldr32 W32 (mem_post (simm 12 9))),  \<comment> \<open>LdrImmGenLdr32LdstImmpost\<close>
    (0xffe00c00, 0xf8400400, [], b_ldst Ldr64 X64 (mem_post (simm 12 9))),  \<comment> \<open>LdrImmGenLdr64LdstImmpost\<close>
    (0xffe00c00, 0xb8400c00, [], b_ldst Ldr32 W32 (mem_pre (simm 12 9))),  \<comment> \<open>LdrImmGenLdr32LdstImmpre\<close>
    (0xffe00c00, 0xf8400c00, [], b_ldst Ldr64 X64 (mem_pre (simm 12 9)))  \<comment> \<open>LdrImmGenLdr64LdstImmpre\<close>
    ]"

definition decode_rows_5 :: "a64_row list" where
  "decode_rows_5 =
    [
      (0xffc00000, 0xb9400000, [], b_ldst Ldr32 W32 (mem_off (suimm 10 12 2))),  \<comment> \<open>LdrImmGenLdr32LdstPos\<close>
    (0xffc00000, 0xf9400000, [], b_ldst Ldr64 X64 (mem_off (suimm 10 12 3))),  \<comment> \<open>LdrImmGenLdr64LdstPos\<close>
    (0xffe00c00, 0xb8000400, [], b_ldst Str32 W32 (mem_post (simm 12 9))),  \<comment> \<open>StrImmGenStr32LdstImmpost\<close>
    (0xffe00c00, 0xf8000400, [], b_ldst Str64 X64 (mem_post (simm 12 9))),  \<comment> \<open>StrImmGenStr64LdstImmpost\<close>
    (0xffe00c00, 0xb8000c00, [], b_ldst Str32 W32 (mem_pre (simm 12 9))),  \<comment> \<open>StrImmGenStr32LdstImmpre\<close>
    (0xffe00c00, 0xf8000c00, [], b_ldst Str64 X64 (mem_pre (simm 12 9))),  \<comment> \<open>StrImmGenStr64LdstImmpre\<close>
    (0xffc00000, 0xb9000000, [], b_ldst Str32 W32 (mem_off (suimm 10 12 2))),  \<comment> \<open>StrImmGenStr32LdstPos\<close>
    (0xffc00000, 0xf9000000, [], b_ldst Str64 X64 (mem_off (suimm 10 12 3))),  \<comment> \<open>StrImmGenStr64LdstPos\<close>
    (0xffc00000, 0x28c00000, [], b_pair Ldp32 W32 (mem_post (ssimm 15 7 2))),  \<comment> \<open>LdpGenLdp32LdstpairPost\<close>
    (0xffc00000, 0xa8c00000, [], b_pair Ldp64 X64 (mem_post (ssimm 15 7 3))),  \<comment> \<open>LdpGenLdp64LdstpairPost\<close>
    (0xffc00000, 0x29c00000, [], b_pair Ldp32 W32 (mem_pre (ssimm 15 7 2))),  \<comment> \<open>LdpGenLdp32LdstpairPre\<close>
    (0xffc00000, 0xa9c00000, [], b_pair Ldp64 X64 (mem_pre (ssimm 15 7 3))),  \<comment> \<open>LdpGenLdp64LdstpairPre\<close>
    (0xffc00000, 0x29400000, [], b_pair Ldp32 W32 (mem_off (ssimm 15 7 2))),  \<comment> \<open>LdpGenLdp32LdstpairOff\<close>
    (0xffc00000, 0xa9400000, [], b_pair Ldp64 X64 (mem_off (ssimm 15 7 3))),  \<comment> \<open>LdpGenLdp64LdstpairOff\<close>
    (0xffc00000, 0x28800000, [], b_pair Stp32 W32 (mem_post (ssimm 15 7 2))),  \<comment> \<open>StpGenStp32LdstpairPost\<close>
    (0xffc00000, 0xa8800000, [], b_pair Stp64 X64 (mem_post (ssimm 15 7 3))),  \<comment> \<open>StpGenStp64LdstpairPost\<close>
    (0xffc00000, 0x29800000, [], b_pair Stp32 W32 (mem_pre (ssimm 15 7 2))),  \<comment> \<open>StpGenStp32LdstpairPre\<close>
    (0xffc00000, 0xa9800000, [], b_pair Stp64 X64 (mem_pre (ssimm 15 7 3))),  \<comment> \<open>StpGenStp64LdstpairPre\<close>
    (0xffc00000, 0x29000000, [], b_pair Stp32 W32 (mem_off (ssimm 15 7 2))),  \<comment> \<open>StpGenStp32LdstpairOff\<close>
    (0xffc00000, 0xa9000000, [], b_pair Stp64 X64 (mem_off (ssimm 15 7 3))),  \<comment> \<open>StpGenStp64LdstpairOff\<close>
    (0xffc00000, 0x68c00000, [], b_pair Ldpsw X64 (mem_post (ssimm 15 7 2))),  \<comment> \<open>LdpswLdpsw64LdstpairPost\<close>
    (0xffc00000, 0x69c00000, [], b_pair Ldpsw X64 (mem_pre (ssimm 15 7 2))),  \<comment> \<open>LdpswLdpsw64LdstpairPre\<close>
    (0xffc00000, 0x69400000, [], b_pair Ldpsw X64 (mem_off (ssimm 15 7 2))),  \<comment> \<open>LdpswLdpsw64LdstpairOff\<close>
    (0xffe00c00, 0x38400400, [], b_ldst Ldrb W32 (mem_post (simm 12 9))),  \<comment> \<open>LdrbImmLdrb32LdstImmpost\<close>
    (0xffe00c00, 0x38400c00, [], b_ldst Ldrb W32 (mem_pre (simm 12 9))),  \<comment> \<open>LdrbImmLdrb32LdstImmpre\<close>
    (0xffc00000, 0x39400000, [], b_ldst Ldrb W32 (mem_off (uimm 10 12))),  \<comment> \<open>LdrbImmLdrb32LdstPos\<close>
    (0xffe00c00, 0x38000400, [], b_ldst Strb W32 (mem_post (simm 12 9))),  \<comment> \<open>StrbImmStrb32LdstImmpost\<close>
    (0xffe00c00, 0x38000c00, [], b_ldst Strb W32 (mem_pre (simm 12 9))),  \<comment> \<open>StrbImmStrb32LdstImmpre\<close>
    (0xffc00000, 0x39000000, [], b_ldst Strb W32 (mem_off (uimm 10 12))),  \<comment> \<open>StrbImmStrb32LdstPos\<close>
    (0xffe00c00, 0x78400400, [], b_ldst Ldrh W32 (mem_post (simm 12 9))),  \<comment> \<open>LdrhImmLdrh32LdstImmpost\<close>
    (0xffe00c00, 0x78400c00, [], b_ldst Ldrh W32 (mem_pre (simm 12 9))),  \<comment> \<open>LdrhImmLdrh32LdstImmpre\<close>
    (0xffc00000, 0x79400000, [], b_ldst Ldrh W32 (mem_off (suimm 10 12 1))),  \<comment> \<open>LdrhImmLdrh32LdstPos\<close>
    (0xffe00c00, 0x78000400, [], b_ldst Strh W32 (mem_post (simm 12 9))),  \<comment> \<open>StrhImmStrh32LdstImmpost\<close>
    (0xffe00c00, 0x78000c00, [], b_ldst Strh W32 (mem_pre (simm 12 9))),  \<comment> \<open>StrhImmStrh32LdstImmpre\<close>
    (0xffc00000, 0x79000000, [], b_ldst Strh W32 (mem_off (suimm 10 12 1))),  \<comment> \<open>StrhImmStrh32LdstPos\<close>
    (0xffe00c00, 0x38c00400, [], b_ldst Ldrsb32 W32 (mem_post (simm 12 9)))  \<comment> \<open>LdrsbImmLdrsb32LdstImmpost\<close>
    ]"

definition decode_rows_6 :: "a64_row list" where
  "decode_rows_6 =
    [
      (0xffe00c00, 0x38800400, [], b_ldst Ldrsb64 X64 (mem_post (simm 12 9))),  \<comment> \<open>LdrsbImmLdrsb64LdstImmpost\<close>
    (0xffe00c00, 0x38c00c00, [], b_ldst Ldrsb32 W32 (mem_pre (simm 12 9))),  \<comment> \<open>LdrsbImmLdrsb32LdstImmpre\<close>
    (0xffe00c00, 0x38800c00, [], b_ldst Ldrsb64 X64 (mem_pre (simm 12 9))),  \<comment> \<open>LdrsbImmLdrsb64LdstImmpre\<close>
    (0xffc00000, 0x39c00000, [], b_ldst Ldrsb32 W32 (mem_off (uimm 10 12))),  \<comment> \<open>LdrsbImmLdrsb32LdstPos\<close>
    (0xffc00000, 0x39800000, [], b_ldst Ldrsb64 X64 (mem_off (uimm 10 12))),  \<comment> \<open>LdrsbImmLdrsb64LdstPos\<close>
    (0xffe00c00, 0x78c00400, [], b_ldst Ldrsh32 W32 (mem_post (simm 12 9))),  \<comment> \<open>LdrshImmLdrsh32LdstImmpost\<close>
    (0xffe00c00, 0x78800400, [], b_ldst Ldrsh64 X64 (mem_post (simm 12 9))),  \<comment> \<open>LdrshImmLdrsh64LdstImmpost\<close>
    (0xffe00c00, 0x78c00c00, [], b_ldst Ldrsh32 W32 (mem_pre (simm 12 9))),  \<comment> \<open>LdrshImmLdrsh32LdstImmpre\<close>
    (0xffe00c00, 0x78800c00, [], b_ldst Ldrsh64 X64 (mem_pre (simm 12 9))),  \<comment> \<open>LdrshImmLdrsh64LdstImmpre\<close>
    (0xffc00000, 0x79c00000, [], b_ldst Ldrsh32 W32 (mem_off (suimm 10 12 1))),  \<comment> \<open>LdrshImmLdrsh32LdstPos\<close>
    (0xffc00000, 0x79800000, [], b_ldst Ldrsh64 X64 (mem_off (suimm 10 12 1))),  \<comment> \<open>LdrshImmLdrsh64LdstPos\<close>
    (0xffe00c00, 0xb8800400, [], b_ldst Ldrsw X64 (mem_post (simm 12 9))),  \<comment> \<open>LdrswImmLdrsw64LdstImmpost\<close>
    (0xffe00c00, 0xb8800c00, [], b_ldst Ldrsw X64 (mem_pre (simm 12 9))),  \<comment> \<open>LdrswImmLdrsw64LdstImmpre\<close>
    (0xffc00000, 0xb9800000, [], b_ldst Ldrsw X64 (mem_off (suimm 10 12 2))),  \<comment> \<open>LdrswImmLdrsw64LdstPos\<close>
    (0xffe00c00, 0xb8400000, [], b_ldst_unscaled Ldr32 W32),  \<comment> \<open>LdurGenLdur32LdstUnscaled\<close>
    (0xffe00c00, 0xf8400000, [], b_ldst_unscaled Ldr64 X64),  \<comment> \<open>LdurGenLdur64LdstUnscaled\<close>
    (0xffe00c00, 0xb8000000, [], b_ldst_unscaled Str32 W32),  \<comment> \<open>SturGenStur32LdstUnscaled\<close>
    (0xffe00c00, 0xf8000000, [], b_ldst_unscaled Str64 X64),  \<comment> \<open>SturGenStur64LdstUnscaled\<close>
    (0xffe00c00, 0x38400000, [], b_ldst_unscaled Ldrb W32),  \<comment> \<open>LdurbLdurb32LdstUnscaled\<close>
    (0xffe00c00, 0x38000000, [], b_ldst_unscaled Strb W32),  \<comment> \<open>SturbSturb32LdstUnscaled\<close>
    (0xffe00c00, 0x78400000, [], b_ldst_unscaled Ldrh W32),  \<comment> \<open>LdurhLdurh32LdstUnscaled\<close>
    (0xffe00c00, 0x78000000, [], b_ldst_unscaled Strh W32),  \<comment> \<open>SturhSturh32LdstUnscaled\<close>
    (0xffe00c00, 0x38c00000, [], b_ldst_unscaled Ldrsb32 W32),  \<comment> \<open>LdursbLdursb32LdstUnscaled\<close>
    (0xffe00c00, 0x38800000, [], b_ldst_unscaled Ldrsb64 X64),  \<comment> \<open>LdursbLdursb64LdstUnscaled\<close>
    (0xffe00c00, 0x78c00000, [], b_ldst_unscaled Ldrsh32 W32),  \<comment> \<open>LdurshLdursh32LdstUnscaled\<close>
    (0xffe00c00, 0x78800000, [], b_ldst_unscaled Ldrsh64 X64),  \<comment> \<open>LdurshLdursh64LdstUnscaled\<close>
    (0xffe00c00, 0xb8800000, [], b_ldst_unscaled Ldrsw X64),  \<comment> \<open>LdurswLdursw64LdstUnscaled\<close>
    (0xffe00c00, 0xb8600800, [], b_ldst_reg Ldr32 W32),  \<comment> \<open>LdrRegGenLdr32LdstRegoff\<close>
    (0xffe00c00, 0xf8600800, [], b_ldst_reg Ldr64 X64),  \<comment> \<open>LdrRegGenLdr64LdstRegoff\<close>
    (0xffe00c00, 0xb8200800, [], b_ldst_reg Str32 W32),  \<comment> \<open>StrRegGenStr32LdstRegoff\<close>
    (0xffe00c00, 0xf8200800, [], b_ldst_reg Str64 X64),  \<comment> \<open>StrRegGenStr64LdstRegoff\<close>
    (0xffe00c00, 0x38600800, [(0x0000e000, 0x00006000)], b_ldst_reg Ldrb W32),  \<comment> \<open>LdrbRegLdrb32bLdstRegoff\<close>
    (0xffe0ec00, 0x38606800, [], b_ldst_reg_bl Ldrb W32),  \<comment> \<open>LdrbRegLdrb32blLdstRegoff\<close>
    (0xffe00c00, 0x38200800, [(0x0000e000, 0x00006000)], b_ldst_reg Strb W32),  \<comment> \<open>StrbRegStrb32bLdstRegoff\<close>
    (0xffe0ec00, 0x38206800, [], b_ldst_reg_bl Strb W32),  \<comment> \<open>StrbRegStrb32blLdstRegoff\<close>
    (0xffe00c00, 0x78600800, [], b_ldst_reg Ldrh W32)  \<comment> \<open>LdrhRegLdrh32LdstRegoff\<close>
    ]"

definition decode_rows_7 :: "a64_row list" where
  "decode_rows_7 =
    [
      (0xffe00c00, 0x78200800, [], b_ldst_reg Strh W32),  \<comment> \<open>StrhRegStrh32LdstRegoff\<close>
    (0xffe00c00, 0x38e00800, [(0x0000e000, 0x00006000)], b_ldst_reg Ldrsb32 W32),  \<comment> \<open>LdrsbRegLdrsb32bLdstRegoff\<close>
    (0xffe0ec00, 0x38e06800, [], b_ldst_reg_bl Ldrsb32 W32),  \<comment> \<open>LdrsbRegLdrsb32blLdstRegoff\<close>
    (0xffe00c00, 0x38a00800, [(0x0000e000, 0x00006000)], b_ldst_reg Ldrsb64 X64),  \<comment> \<open>LdrsbRegLdrsb64bLdstRegoff\<close>
    (0xffe0ec00, 0x38a06800, [], b_ldst_reg_bl Ldrsb64 X64),  \<comment> \<open>LdrsbRegLdrsb64blLdstRegoff\<close>
    (0xffe00c00, 0x78e00800, [], b_ldst_reg Ldrsh32 W32),  \<comment> \<open>LdrshRegLdrsh32LdstRegoff\<close>
    (0xffe00c00, 0x78a00800, [], b_ldst_reg Ldrsh64 X64),  \<comment> \<open>LdrshRegLdrsh64LdstRegoff\<close>
    (0xffe00c00, 0xb8a00800, [], b_ldst_reg Ldrsw X64),  \<comment> \<open>LdrswRegLdrsw64LdstRegoff\<close>
    (0xff000000, 0x18000000, [], b_lit LitLdr32 W32),  \<comment> \<open>LdrLitGenLdr32Loadlit\<close>
    (0xff000000, 0x58000000, [], b_lit LitLdr64 X64),  \<comment> \<open>LdrLitGenLdr64Loadlit\<close>
    (0xff000000, 0x98000000, [], b_lit LitLdrsw X64),  \<comment> \<open>LdrswLitLdrsw64Loadlit\<close>
    (0xffc00000, 0xf9800000, [], b_prfm_imm),  \<comment> \<open>PrfmImmPrfmPLdstPos\<close>
    (0xff000000, 0xd8000000, [], b_prfm_lit),  \<comment> \<open>PrfmLitPrfmPLoadlit\<close>
    (0xffe04c00, 0xf8a04800, [(0x00000018, 0x00000018)], b_prfm_reg),  \<comment> \<open>PrfmRegPrfmPLdstRegoff\<close>
    (0xffe00c00, 0xb8400800, [], b_ldst_unpriv Ldr32 W32),  \<comment> \<open>LdtrLdtr32LdstUnpriv\<close>
    (0xffe00c00, 0xf8400800, [], b_ldst_unpriv Ldr64 X64),  \<comment> \<open>LdtrLdtr64LdstUnpriv\<close>
    (0xffe00c00, 0xb8000800, [], b_ldst_unpriv Str32 W32),  \<comment> \<open>SttrSttr32LdstUnpriv\<close>
    (0xffe00c00, 0xf8000800, [], b_ldst_unpriv Str64 X64),  \<comment> \<open>SttrSttr64LdstUnpriv\<close>
    (0xffe00c00, 0x38400800, [], b_ldst_unpriv Ldrb W32),  \<comment> \<open>LdtrbLdtrb32LdstUnpriv\<close>
    (0xffe00c00, 0x38000800, [], b_ldst_unpriv Strb W32),  \<comment> \<open>SttrbSttrb32LdstUnpriv\<close>
    (0xffe00c00, 0x78400800, [], b_ldst_unpriv Ldrh W32),  \<comment> \<open>LdtrhLdtrh32LdstUnpriv\<close>
    (0xffe00c00, 0x78000800, [], b_ldst_unpriv Strh W32),  \<comment> \<open>SttrhSttrh32LdstUnpriv\<close>
    (0xffe00c00, 0x38c00800, [], b_ldst_unpriv Ldrsb32 W32),  \<comment> \<open>LdtrsbLdtrsb32LdstUnpriv\<close>
    (0xffe00c00, 0x38800800, [], b_ldst_unpriv Ldrsb64 X64),  \<comment> \<open>LdtrsbLdtrsb64LdstUnpriv\<close>
    (0xffe00c00, 0x78c00800, [], b_ldst_unpriv Ldrsh32 W32),  \<comment> \<open>LdtrshLdtrsh32LdstUnpriv\<close>
    (0xffe00c00, 0x78800800, [], b_ldst_unpriv Ldrsh64 X64),  \<comment> \<open>LdtrshLdtrsh64LdstUnpriv\<close>
    (0xffe00c00, 0xb8800800, [], b_ldst_unpriv Ldrsw X64),  \<comment> \<open>LdtrswLdtrsw64LdstUnpriv\<close>
    (0xffffffff, 0xd503201f, [], b_nop),  \<comment> \<open>NopNopHiHints\<close>
    (0xffffff3f, 0xd503241f, [], b_bti),  \<comment> \<open>BtiBtiHbHints\<close>
    (0xfffff0ff, 0xd50330bf, [], b_barrier Dmb),  \<comment> \<open>DmbDmbBoBarriers\<close>
    (0xfffff0ff, 0xd503309f, [], b_barrier Dsb),  \<comment> \<open>DsbDsbBoBarriers\<close>
    (0xfffff0ff, 0xd50330df, [], b_barrier Isb),  \<comment> \<open>IsbIsbBiBarriers\<close>
    (0xfffffc00, 0x88dffc00, [], b_ord Ldar32 W32),  \<comment> \<open>LdarLdarLr32Ldstord\<close>
    (0xfffffc00, 0xc8dffc00, [], b_ord Ldar64 X64),  \<comment> \<open>LdarLdarLr64Ldstord\<close>
    (0xfffffc00, 0x08dffc00, [], b_ord Ldarb W32),  \<comment> \<open>LdarbLdarbLr32Ldstord\<close>
    (0xfffffc00, 0x48dffc00, [], b_ord Ldarh W32)  \<comment> \<open>LdarhLdarhLr32Ldstord\<close>
    ]"

definition decode_rows_8 :: "a64_row list" where
  "decode_rows_8 =
    [
      (0xfffffc00, 0x889ffc00, [], b_ord Stlr32 W32),  \<comment> \<open>StlrStlrSl32Ldstord\<close>
    (0xfffffc00, 0xc89ffc00, [], b_ord Stlr64 X64),  \<comment> \<open>StlrStlrSl64Ldstord\<close>
    (0xfffffc00, 0x089ffc00, [], b_ord Stlrb W32),  \<comment> \<open>StlrbStlrbSl32Ldstord\<close>
    (0xfffffc00, 0x489ffc00, [], b_ord Stlrh W32),  \<comment> \<open>StlrhStlrhSl32Ldstord\<close>
    (0xfffffc00, 0xb8bfc000, [], b_ord Ldapr32 W32),  \<comment> \<open>LdaprLdapr32lMemop\<close>
    (0xfffffc00, 0xf8bfc000, [], b_ord Ldapr64 X64),  \<comment> \<open>LdaprLdapr64lMemop\<close>
    (0xfffffc00, 0x38bfc000, [], b_ord Ldaprb W32),  \<comment> \<open>LdaprbLdaprb32lMemop\<close>
    (0xfffffc00, 0x78bfc000, [], b_ord Ldaprh W32),  \<comment> \<open>LdaprhLdaprh32lMemop\<close>
    (0xfc000000, 0x94000000, [], b_b26 Bl),  \<comment> \<open>BlBlOnlyBranchImm\<close>
    (0xfffffc1f, 0xd61f0000, [], b_breg Br),  \<comment> \<open>BrBr64BranchReg\<close>
    (0xfffffc1f, 0xd63f0000, [], b_breg Blr),  \<comment> \<open>BlrBlr64BranchReg\<close>
    (0xfffffc1f, 0xd65f0000, [], b_breg Ret),  \<comment> \<open>RetRet64rBranchReg\<close>
    (0xffe0001f, 0xd4000001, [], b_svc),  \<comment> \<open>SvcSvcExException\<close>
    (0xffe0fc00, 0xb8200000, [], b_atomic AtAdd Sz4 OrdNone W32),  \<comment> \<open>LdaddLdadd32Memop\<close>
    (0xffe0fc00, 0xb8a00000, [], b_atomic AtAdd Sz4 OrdA W32),  \<comment> \<open>LdaddLdadda32Memop\<close>
    (0xffe0fc00, 0xb8e00000, [], b_atomic AtAdd Sz4 OrdAL W32),  \<comment> \<open>LdaddLdaddal32Memop\<close>
    (0xffe0fc00, 0xb8600000, [], b_atomic AtAdd Sz4 OrdL W32),  \<comment> \<open>LdaddLdaddl32Memop\<close>
    (0xffe0fc00, 0xf8200000, [], b_atomic AtAdd Sz8 OrdNone X64),  \<comment> \<open>LdaddLdadd64Memop\<close>
    (0xffe0fc00, 0xf8a00000, [], b_atomic AtAdd Sz8 OrdA X64),  \<comment> \<open>LdaddLdadda64Memop\<close>
    (0xffe0fc00, 0xf8e00000, [], b_atomic AtAdd Sz8 OrdAL X64),  \<comment> \<open>LdaddLdaddal64Memop\<close>
    (0xffe0fc00, 0xf8600000, [], b_atomic AtAdd Sz8 OrdL X64),  \<comment> \<open>LdaddLdaddl64Memop\<close>
    (0xffe0fc00, 0x38200000, [], b_atomic AtAdd Sz1 OrdNone W32),  \<comment> \<open>LdaddbLdaddb32Memop\<close>
    (0xffe0fc00, 0x38a00000, [], b_atomic AtAdd Sz1 OrdA W32),  \<comment> \<open>LdaddbLdaddab32Memop\<close>
    (0xffe0fc00, 0x38e00000, [], b_atomic AtAdd Sz1 OrdAL W32),  \<comment> \<open>LdaddbLdaddalb32Memop\<close>
    (0xffe0fc00, 0x38600000, [], b_atomic AtAdd Sz1 OrdL W32),  \<comment> \<open>LdaddbLdaddlb32Memop\<close>
    (0xffe0fc00, 0x78200000, [], b_atomic AtAdd Sz2 OrdNone W32),  \<comment> \<open>LdaddhLdaddh32Memop\<close>
    (0xffe0fc00, 0x78a00000, [], b_atomic AtAdd Sz2 OrdA W32),  \<comment> \<open>LdaddhLdaddah32Memop\<close>
    (0xffe0fc00, 0x78e00000, [], b_atomic AtAdd Sz2 OrdAL W32),  \<comment> \<open>LdaddhLdaddalh32Memop\<close>
    (0xffe0fc00, 0x78600000, [], b_atomic AtAdd Sz2 OrdL W32),  \<comment> \<open>LdaddhLdaddlh32Memop\<close>
    (0xffe0fc00, 0xb8201000, [], b_atomic AtClr Sz4 OrdNone W32),  \<comment> \<open>LdclrLdclr32Memop\<close>
    (0xffe0fc00, 0xb8a01000, [], b_atomic AtClr Sz4 OrdA W32),  \<comment> \<open>LdclrLdclra32Memop\<close>
    (0xffe0fc00, 0xb8e01000, [], b_atomic AtClr Sz4 OrdAL W32),  \<comment> \<open>LdclrLdclral32Memop\<close>
    (0xffe0fc00, 0xb8601000, [], b_atomic AtClr Sz4 OrdL W32),  \<comment> \<open>LdclrLdclrl32Memop\<close>
    (0xffe0fc00, 0xf8201000, [], b_atomic AtClr Sz8 OrdNone X64),  \<comment> \<open>LdclrLdclr64Memop\<close>
    (0xffe0fc00, 0xf8a01000, [], b_atomic AtClr Sz8 OrdA X64),  \<comment> \<open>LdclrLdclra64Memop\<close>
    (0xffe0fc00, 0xf8e01000, [], b_atomic AtClr Sz8 OrdAL X64)  \<comment> \<open>LdclrLdclral64Memop\<close>
    ]"

definition decode_rows_9 :: "a64_row list" where
  "decode_rows_9 =
    [
      (0xffe0fc00, 0xf8601000, [], b_atomic AtClr Sz8 OrdL X64),  \<comment> \<open>LdclrLdclrl64Memop\<close>
    (0xffe0fc00, 0x38201000, [], b_atomic AtClr Sz1 OrdNone W32),  \<comment> \<open>LdclrbLdclrb32Memop\<close>
    (0xffe0fc00, 0x38a01000, [], b_atomic AtClr Sz1 OrdA W32),  \<comment> \<open>LdclrbLdclrab32Memop\<close>
    (0xffe0fc00, 0x38e01000, [], b_atomic AtClr Sz1 OrdAL W32),  \<comment> \<open>LdclrbLdclralb32Memop\<close>
    (0xffe0fc00, 0x38601000, [], b_atomic AtClr Sz1 OrdL W32),  \<comment> \<open>LdclrbLdclrlb32Memop\<close>
    (0xffe0fc00, 0x78201000, [], b_atomic AtClr Sz2 OrdNone W32),  \<comment> \<open>LdclrhLdclrh32Memop\<close>
    (0xffe0fc00, 0x78a01000, [], b_atomic AtClr Sz2 OrdA W32),  \<comment> \<open>LdclrhLdclrah32Memop\<close>
    (0xffe0fc00, 0x78e01000, [], b_atomic AtClr Sz2 OrdAL W32),  \<comment> \<open>LdclrhLdclralh32Memop\<close>
    (0xffe0fc00, 0x78601000, [], b_atomic AtClr Sz2 OrdL W32),  \<comment> \<open>LdclrhLdclrlh32Memop\<close>
    (0xffe0fc00, 0xb8202000, [], b_atomic AtEor Sz4 OrdNone W32),  \<comment> \<open>LdeorLdeor32Memop\<close>
    (0xffe0fc00, 0xb8a02000, [], b_atomic AtEor Sz4 OrdA W32),  \<comment> \<open>LdeorLdeora32Memop\<close>
    (0xffe0fc00, 0xb8e02000, [], b_atomic AtEor Sz4 OrdAL W32),  \<comment> \<open>LdeorLdeoral32Memop\<close>
    (0xffe0fc00, 0xb8602000, [], b_atomic AtEor Sz4 OrdL W32),  \<comment> \<open>LdeorLdeorl32Memop\<close>
    (0xffe0fc00, 0xf8202000, [], b_atomic AtEor Sz8 OrdNone X64),  \<comment> \<open>LdeorLdeor64Memop\<close>
    (0xffe0fc00, 0xf8a02000, [], b_atomic AtEor Sz8 OrdA X64),  \<comment> \<open>LdeorLdeora64Memop\<close>
    (0xffe0fc00, 0xf8e02000, [], b_atomic AtEor Sz8 OrdAL X64),  \<comment> \<open>LdeorLdeoral64Memop\<close>
    (0xffe0fc00, 0xf8602000, [], b_atomic AtEor Sz8 OrdL X64),  \<comment> \<open>LdeorLdeorl64Memop\<close>
    (0xffe0fc00, 0x38202000, [], b_atomic AtEor Sz1 OrdNone W32),  \<comment> \<open>LdeorbLdeorb32Memop\<close>
    (0xffe0fc00, 0x38a02000, [], b_atomic AtEor Sz1 OrdA W32),  \<comment> \<open>LdeorbLdeorab32Memop\<close>
    (0xffe0fc00, 0x38e02000, [], b_atomic AtEor Sz1 OrdAL W32),  \<comment> \<open>LdeorbLdeoralb32Memop\<close>
    (0xffe0fc00, 0x38602000, [], b_atomic AtEor Sz1 OrdL W32),  \<comment> \<open>LdeorbLdeorlb32Memop\<close>
    (0xffe0fc00, 0x78202000, [], b_atomic AtEor Sz2 OrdNone W32),  \<comment> \<open>LdeorhLdeorh32Memop\<close>
    (0xffe0fc00, 0x78a02000, [], b_atomic AtEor Sz2 OrdA W32),  \<comment> \<open>LdeorhLdeorah32Memop\<close>
    (0xffe0fc00, 0x78e02000, [], b_atomic AtEor Sz2 OrdAL W32),  \<comment> \<open>LdeorhLdeoralh32Memop\<close>
    (0xffe0fc00, 0x78602000, [], b_atomic AtEor Sz2 OrdL W32),  \<comment> \<open>LdeorhLdeorlh32Memop\<close>
    (0xffe0fc00, 0xb8203000, [], b_atomic AtSet Sz4 OrdNone W32),  \<comment> \<open>LdsetLdset32Memop\<close>
    (0xffe0fc00, 0xb8a03000, [], b_atomic AtSet Sz4 OrdA W32),  \<comment> \<open>LdsetLdseta32Memop\<close>
    (0xffe0fc00, 0xb8e03000, [], b_atomic AtSet Sz4 OrdAL W32),  \<comment> \<open>LdsetLdsetal32Memop\<close>
    (0xffe0fc00, 0xb8603000, [], b_atomic AtSet Sz4 OrdL W32),  \<comment> \<open>LdsetLdsetl32Memop\<close>
    (0xffe0fc00, 0xf8203000, [], b_atomic AtSet Sz8 OrdNone X64),  \<comment> \<open>LdsetLdset64Memop\<close>
    (0xffe0fc00, 0xf8a03000, [], b_atomic AtSet Sz8 OrdA X64),  \<comment> \<open>LdsetLdseta64Memop\<close>
    (0xffe0fc00, 0xf8e03000, [], b_atomic AtSet Sz8 OrdAL X64),  \<comment> \<open>LdsetLdsetal64Memop\<close>
    (0xffe0fc00, 0xf8603000, [], b_atomic AtSet Sz8 OrdL X64),  \<comment> \<open>LdsetLdsetl64Memop\<close>
    (0xffe0fc00, 0x38203000, [], b_atomic AtSet Sz1 OrdNone W32),  \<comment> \<open>LdsetbLdsetb32Memop\<close>
    (0xffe0fc00, 0x38a03000, [], b_atomic AtSet Sz1 OrdA W32),  \<comment> \<open>LdsetbLdsetab32Memop\<close>
    (0xffe0fc00, 0x38e03000, [], b_atomic AtSet Sz1 OrdAL W32)  \<comment> \<open>LdsetbLdsetalb32Memop\<close>
    ]"

definition decode_rows_10 :: "a64_row list" where
  "decode_rows_10 =
    [
      (0xffe0fc00, 0x38603000, [], b_atomic AtSet Sz1 OrdL W32),  \<comment> \<open>LdsetbLdsetlb32Memop\<close>
    (0xffe0fc00, 0x78203000, [], b_atomic AtSet Sz2 OrdNone W32),  \<comment> \<open>LdsethLdseth32Memop\<close>
    (0xffe0fc00, 0x78a03000, [], b_atomic AtSet Sz2 OrdA W32),  \<comment> \<open>LdsethLdsetah32Memop\<close>
    (0xffe0fc00, 0x78e03000, [], b_atomic AtSet Sz2 OrdAL W32),  \<comment> \<open>LdsethLdsetalh32Memop\<close>
    (0xffe0fc00, 0x78603000, [], b_atomic AtSet Sz2 OrdL W32),  \<comment> \<open>LdsethLdsetlh32Memop\<close>
    (0xffe0fc00, 0xb8204000, [], b_atomic AtSmax Sz4 OrdNone W32),  \<comment> \<open>LdsmaxLdsmax32Memop\<close>
    (0xffe0fc00, 0xb8a04000, [], b_atomic AtSmax Sz4 OrdA W32),  \<comment> \<open>LdsmaxLdsmaxa32Memop\<close>
    (0xffe0fc00, 0xb8e04000, [], b_atomic AtSmax Sz4 OrdAL W32),  \<comment> \<open>LdsmaxLdsmaxal32Memop\<close>
    (0xffe0fc00, 0xb8604000, [], b_atomic AtSmax Sz4 OrdL W32),  \<comment> \<open>LdsmaxLdsmaxl32Memop\<close>
    (0xffe0fc00, 0xf8204000, [], b_atomic AtSmax Sz8 OrdNone X64),  \<comment> \<open>LdsmaxLdsmax64Memop\<close>
    (0xffe0fc00, 0xf8a04000, [], b_atomic AtSmax Sz8 OrdA X64),  \<comment> \<open>LdsmaxLdsmaxa64Memop\<close>
    (0xffe0fc00, 0xf8e04000, [], b_atomic AtSmax Sz8 OrdAL X64),  \<comment> \<open>LdsmaxLdsmaxal64Memop\<close>
    (0xffe0fc00, 0xf8604000, [], b_atomic AtSmax Sz8 OrdL X64),  \<comment> \<open>LdsmaxLdsmaxl64Memop\<close>
    (0xffe0fc00, 0x38204000, [], b_atomic AtSmax Sz1 OrdNone W32),  \<comment> \<open>LdsmaxbLdsmaxb32Memop\<close>
    (0xffe0fc00, 0x38a04000, [], b_atomic AtSmax Sz1 OrdA W32),  \<comment> \<open>LdsmaxbLdsmaxab32Memop\<close>
    (0xffe0fc00, 0x38e04000, [], b_atomic AtSmax Sz1 OrdAL W32),  \<comment> \<open>LdsmaxbLdsmaxalb32Memop\<close>
    (0xffe0fc00, 0x38604000, [], b_atomic AtSmax Sz1 OrdL W32),  \<comment> \<open>LdsmaxbLdsmaxlb32Memop\<close>
    (0xffe0fc00, 0x78204000, [], b_atomic AtSmax Sz2 OrdNone W32),  \<comment> \<open>LdsmaxhLdsmaxh32Memop\<close>
    (0xffe0fc00, 0x78a04000, [], b_atomic AtSmax Sz2 OrdA W32),  \<comment> \<open>LdsmaxhLdsmaxah32Memop\<close>
    (0xffe0fc00, 0x78e04000, [], b_atomic AtSmax Sz2 OrdAL W32),  \<comment> \<open>LdsmaxhLdsmaxalh32Memop\<close>
    (0xffe0fc00, 0x78604000, [], b_atomic AtSmax Sz2 OrdL W32),  \<comment> \<open>LdsmaxhLdsmaxlh32Memop\<close>
    (0xffe0fc00, 0xb8205000, [], b_atomic AtSmin Sz4 OrdNone W32),  \<comment> \<open>LdsminLdsmin32Memop\<close>
    (0xffe0fc00, 0xb8a05000, [], b_atomic AtSmin Sz4 OrdA W32),  \<comment> \<open>LdsminLdsmina32Memop\<close>
    (0xffe0fc00, 0xb8e05000, [], b_atomic AtSmin Sz4 OrdAL W32),  \<comment> \<open>LdsminLdsminal32Memop\<close>
    (0xffe0fc00, 0xb8605000, [], b_atomic AtSmin Sz4 OrdL W32),  \<comment> \<open>LdsminLdsminl32Memop\<close>
    (0xffe0fc00, 0xf8205000, [], b_atomic AtSmin Sz8 OrdNone X64),  \<comment> \<open>LdsminLdsmin64Memop\<close>
    (0xffe0fc00, 0xf8a05000, [], b_atomic AtSmin Sz8 OrdA X64),  \<comment> \<open>LdsminLdsmina64Memop\<close>
    (0xffe0fc00, 0xf8e05000, [], b_atomic AtSmin Sz8 OrdAL X64),  \<comment> \<open>LdsminLdsminal64Memop\<close>
    (0xffe0fc00, 0xf8605000, [], b_atomic AtSmin Sz8 OrdL X64),  \<comment> \<open>LdsminLdsminl64Memop\<close>
    (0xffe0fc00, 0x38205000, [], b_atomic AtSmin Sz1 OrdNone W32),  \<comment> \<open>LdsminbLdsminb32Memop\<close>
    (0xffe0fc00, 0x38a05000, [], b_atomic AtSmin Sz1 OrdA W32),  \<comment> \<open>LdsminbLdsminab32Memop\<close>
    (0xffe0fc00, 0x38e05000, [], b_atomic AtSmin Sz1 OrdAL W32),  \<comment> \<open>LdsminbLdsminalb32Memop\<close>
    (0xffe0fc00, 0x38605000, [], b_atomic AtSmin Sz1 OrdL W32),  \<comment> \<open>LdsminbLdsminlb32Memop\<close>
    (0xffe0fc00, 0x78205000, [], b_atomic AtSmin Sz2 OrdNone W32),  \<comment> \<open>LdsminhLdsminh32Memop\<close>
    (0xffe0fc00, 0x78a05000, [], b_atomic AtSmin Sz2 OrdA W32),  \<comment> \<open>LdsminhLdsminah32Memop\<close>
    (0xffe0fc00, 0x78e05000, [], b_atomic AtSmin Sz2 OrdAL W32)  \<comment> \<open>LdsminhLdsminalh32Memop\<close>
    ]"

definition decode_rows_11 :: "a64_row list" where
  "decode_rows_11 =
    [
      (0xffe0fc00, 0x78605000, [], b_atomic AtSmin Sz2 OrdL W32),  \<comment> \<open>LdsminhLdsminlh32Memop\<close>
    (0xffe0fc00, 0xb8206000, [], b_atomic AtUmax Sz4 OrdNone W32),  \<comment> \<open>LdumaxLdumax32Memop\<close>
    (0xffe0fc00, 0xb8a06000, [], b_atomic AtUmax Sz4 OrdA W32),  \<comment> \<open>LdumaxLdumaxa32Memop\<close>
    (0xffe0fc00, 0xb8e06000, [], b_atomic AtUmax Sz4 OrdAL W32),  \<comment> \<open>LdumaxLdumaxal32Memop\<close>
    (0xffe0fc00, 0xb8606000, [], b_atomic AtUmax Sz4 OrdL W32),  \<comment> \<open>LdumaxLdumaxl32Memop\<close>
    (0xffe0fc00, 0xf8206000, [], b_atomic AtUmax Sz8 OrdNone X64),  \<comment> \<open>LdumaxLdumax64Memop\<close>
    (0xffe0fc00, 0xf8a06000, [], b_atomic AtUmax Sz8 OrdA X64),  \<comment> \<open>LdumaxLdumaxa64Memop\<close>
    (0xffe0fc00, 0xf8e06000, [], b_atomic AtUmax Sz8 OrdAL X64),  \<comment> \<open>LdumaxLdumaxal64Memop\<close>
    (0xffe0fc00, 0xf8606000, [], b_atomic AtUmax Sz8 OrdL X64),  \<comment> \<open>LdumaxLdumaxl64Memop\<close>
    (0xffe0fc00, 0x38206000, [], b_atomic AtUmax Sz1 OrdNone W32),  \<comment> \<open>LdumaxbLdumaxb32Memop\<close>
    (0xffe0fc00, 0x38a06000, [], b_atomic AtUmax Sz1 OrdA W32),  \<comment> \<open>LdumaxbLdumaxab32Memop\<close>
    (0xffe0fc00, 0x38e06000, [], b_atomic AtUmax Sz1 OrdAL W32),  \<comment> \<open>LdumaxbLdumaxalb32Memop\<close>
    (0xffe0fc00, 0x38606000, [], b_atomic AtUmax Sz1 OrdL W32),  \<comment> \<open>LdumaxbLdumaxlb32Memop\<close>
    (0xffe0fc00, 0x78206000, [], b_atomic AtUmax Sz2 OrdNone W32),  \<comment> \<open>LdumaxhLdumaxh32Memop\<close>
    (0xffe0fc00, 0x78a06000, [], b_atomic AtUmax Sz2 OrdA W32),  \<comment> \<open>LdumaxhLdumaxah32Memop\<close>
    (0xffe0fc00, 0x78e06000, [], b_atomic AtUmax Sz2 OrdAL W32),  \<comment> \<open>LdumaxhLdumaxalh32Memop\<close>
    (0xffe0fc00, 0x78606000, [], b_atomic AtUmax Sz2 OrdL W32),  \<comment> \<open>LdumaxhLdumaxlh32Memop\<close>
    (0xffe0fc00, 0xb8207000, [], b_atomic AtUmin Sz4 OrdNone W32),  \<comment> \<open>LduminLdumin32Memop\<close>
    (0xffe0fc00, 0xb8a07000, [], b_atomic AtUmin Sz4 OrdA W32),  \<comment> \<open>LduminLdumina32Memop\<close>
    (0xffe0fc00, 0xb8e07000, [], b_atomic AtUmin Sz4 OrdAL W32),  \<comment> \<open>LduminLduminal32Memop\<close>
    (0xffe0fc00, 0xb8607000, [], b_atomic AtUmin Sz4 OrdL W32),  \<comment> \<open>LduminLduminl32Memop\<close>
    (0xffe0fc00, 0xf8207000, [], b_atomic AtUmin Sz8 OrdNone X64),  \<comment> \<open>LduminLdumin64Memop\<close>
    (0xffe0fc00, 0xf8a07000, [], b_atomic AtUmin Sz8 OrdA X64),  \<comment> \<open>LduminLdumina64Memop\<close>
    (0xffe0fc00, 0xf8e07000, [], b_atomic AtUmin Sz8 OrdAL X64),  \<comment> \<open>LduminLduminal64Memop\<close>
    (0xffe0fc00, 0xf8607000, [], b_atomic AtUmin Sz8 OrdL X64),  \<comment> \<open>LduminLduminl64Memop\<close>
    (0xffe0fc00, 0x38207000, [], b_atomic AtUmin Sz1 OrdNone W32),  \<comment> \<open>LduminbLduminb32Memop\<close>
    (0xffe0fc00, 0x38a07000, [], b_atomic AtUmin Sz1 OrdA W32),  \<comment> \<open>LduminbLduminab32Memop\<close>
    (0xffe0fc00, 0x38e07000, [], b_atomic AtUmin Sz1 OrdAL W32),  \<comment> \<open>LduminbLduminalb32Memop\<close>
    (0xffe0fc00, 0x38607000, [], b_atomic AtUmin Sz1 OrdL W32),  \<comment> \<open>LduminbLduminlb32Memop\<close>
    (0xffe0fc00, 0x78207000, [], b_atomic AtUmin Sz2 OrdNone W32),  \<comment> \<open>LduminhLduminh32Memop\<close>
    (0xffe0fc00, 0x78a07000, [], b_atomic AtUmin Sz2 OrdA W32),  \<comment> \<open>LduminhLduminah32Memop\<close>
    (0xffe0fc00, 0x78e07000, [], b_atomic AtUmin Sz2 OrdAL W32),  \<comment> \<open>LduminhLduminalh32Memop\<close>
    (0xffe0fc00, 0x78607000, [], b_atomic AtUmin Sz2 OrdL W32),  \<comment> \<open>LduminhLduminlh32Memop\<close>
    (0xffe0fc00, 0xb8208000, [], b_atomic AtSwp Sz4 OrdNone W32),  \<comment> \<open>SwpSwp32Memop\<close>
    (0xffe0fc00, 0xb8a08000, [], b_atomic AtSwp Sz4 OrdA W32),  \<comment> \<open>SwpSwpa32Memop\<close>
    (0xffe0fc00, 0xb8e08000, [], b_atomic AtSwp Sz4 OrdAL W32)  \<comment> \<open>SwpSwpal32Memop\<close>
    ]"

definition decode_rows_12 :: "a64_row list" where
  "decode_rows_12 =
    [
      (0xffe0fc00, 0xb8608000, [], b_atomic AtSwp Sz4 OrdL W32),  \<comment> \<open>SwpSwpl32Memop\<close>
    (0xffe0fc00, 0xf8208000, [], b_atomic AtSwp Sz8 OrdNone X64),  \<comment> \<open>SwpSwp64Memop\<close>
    (0xffe0fc00, 0xf8a08000, [], b_atomic AtSwp Sz8 OrdA X64),  \<comment> \<open>SwpSwpa64Memop\<close>
    (0xffe0fc00, 0xf8e08000, [], b_atomic AtSwp Sz8 OrdAL X64),  \<comment> \<open>SwpSwpal64Memop\<close>
    (0xffe0fc00, 0xf8608000, [], b_atomic AtSwp Sz8 OrdL X64),  \<comment> \<open>SwpSwpl64Memop\<close>
    (0xffe0fc00, 0x38208000, [], b_atomic AtSwp Sz1 OrdNone W32),  \<comment> \<open>SwpbSwpb32Memop\<close>
    (0xffe0fc00, 0x38a08000, [], b_atomic AtSwp Sz1 OrdA W32),  \<comment> \<open>SwpbSwpab32Memop\<close>
    (0xffe0fc00, 0x38e08000, [], b_atomic AtSwp Sz1 OrdAL W32),  \<comment> \<open>SwpbSwpalb32Memop\<close>
    (0xffe0fc00, 0x38608000, [], b_atomic AtSwp Sz1 OrdL W32),  \<comment> \<open>SwpbSwplb32Memop\<close>
    (0xffe0fc00, 0x78208000, [], b_atomic AtSwp Sz2 OrdNone W32),  \<comment> \<open>SwphSwph32Memop\<close>
    (0xffe0fc00, 0x78a08000, [], b_atomic AtSwp Sz2 OrdA W32),  \<comment> \<open>SwphSwpah32Memop\<close>
    (0xffe0fc00, 0x78e08000, [], b_atomic AtSwp Sz2 OrdAL W32),  \<comment> \<open>SwphSwpalh32Memop\<close>
    (0xffe0fc00, 0x78608000, [], b_atomic AtSwp Sz2 OrdL W32),  \<comment> \<open>SwphSwplh32Memop\<close>
    (0xffe0fc00, 0x88a07c00, [], b_atomic AtCas Sz4 OrdNone W32),  \<comment> \<open>CasCasC32Comswap\<close>
    (0xffe0fc00, 0x88e07c00, [], b_atomic AtCas Sz4 OrdA W32),  \<comment> \<open>CasCasaC32Comswap\<close>
    (0xffe0fc00, 0x88e0fc00, [], b_atomic AtCas Sz4 OrdAL W32),  \<comment> \<open>CasCasalC32Comswap\<close>
    (0xffe0fc00, 0x88a0fc00, [], b_atomic AtCas Sz4 OrdL W32),  \<comment> \<open>CasCaslC32Comswap\<close>
    (0xffe0fc00, 0xc8a07c00, [], b_atomic AtCas Sz8 OrdNone X64),  \<comment> \<open>CasCasC64Comswap\<close>
    (0xffe0fc00, 0xc8e07c00, [], b_atomic AtCas Sz8 OrdA X64),  \<comment> \<open>CasCasaC64Comswap\<close>
    (0xffe0fc00, 0xc8e0fc00, [], b_atomic AtCas Sz8 OrdAL X64),  \<comment> \<open>CasCasalC64Comswap\<close>
    (0xffe0fc00, 0xc8a0fc00, [], b_atomic AtCas Sz8 OrdL X64),  \<comment> \<open>CasCaslC64Comswap\<close>
    (0xffe0fc00, 0x08a07c00, [], b_atomic AtCas Sz1 OrdNone W32),  \<comment> \<open>CasbCasbC32Comswap\<close>
    (0xffe0fc00, 0x08e07c00, [], b_atomic AtCas Sz1 OrdA W32),  \<comment> \<open>CasbCasabC32Comswap\<close>
    (0xffe0fc00, 0x08e0fc00, [], b_atomic AtCas Sz1 OrdAL W32),  \<comment> \<open>CasbCasalbC32Comswap\<close>
    (0xffe0fc00, 0x08a0fc00, [], b_atomic AtCas Sz1 OrdL W32),  \<comment> \<open>CasbCaslbC32Comswap\<close>
    (0xffe0fc00, 0x48a07c00, [], b_atomic AtCas Sz2 OrdNone W32),  \<comment> \<open>CashCashC32Comswap\<close>
    (0xffe0fc00, 0x48e07c00, [], b_atomic AtCas Sz2 OrdA W32),  \<comment> \<open>CashCasahC32Comswap\<close>
    (0xffe0fc00, 0x48e0fc00, [], b_atomic AtCas Sz2 OrdAL W32),  \<comment> \<open>CashCasalhC32Comswap\<close>
    (0xffe0fc00, 0x48a0fc00, [], b_atomic AtCas Sz2 OrdL W32),  \<comment> \<open>CashCaslhC32Comswap\<close>
    (0xfffff0ff, 0xd500409f, [], b_msr_imm),  \<comment> \<open>MsrImmMsrSiPstate\<close>
    (0xffe00c00, 0x3c400400, [], b_fp_ldst True VB (mem_post (simm 12 9))),  \<comment> \<open>LdrImmFpsimdLdrBLdstImmpost\<close>
    (0xffe00c00, 0x7c400400, [], b_fp_ldst True VH (mem_post (simm 12 9))),  \<comment> \<open>LdrImmFpsimdLdrHLdstImmpost\<close>
    (0xffe00c00, 0xbc400400, [], b_fp_ldst True VS (mem_post (simm 12 9))),  \<comment> \<open>LdrImmFpsimdLdrSLdstImmpost\<close>
    (0xffe00c00, 0xfc400400, [], b_fp_ldst True VD (mem_post (simm 12 9))),  \<comment> \<open>LdrImmFpsimdLdrDLdstImmpost\<close>
    (0xffe00c00, 0x3cc00400, [], b_fp_ldst True VQ (mem_post (simm 12 9))),  \<comment> \<open>LdrImmFpsimdLdrQLdstImmpost\<close>
    (0xffe00c00, 0x3c400c00, [], b_fp_ldst True VB (mem_pre (simm 12 9)))  \<comment> \<open>LdrImmFpsimdLdrBLdstImmpre\<close>
    ]"

definition decode_rows_13 :: "a64_row list" where
  "decode_rows_13 =
    [
      (0xffe00c00, 0x7c400c00, [], b_fp_ldst True VH (mem_pre (simm 12 9))),  \<comment> \<open>LdrImmFpsimdLdrHLdstImmpre\<close>
    (0xffe00c00, 0xbc400c00, [], b_fp_ldst True VS (mem_pre (simm 12 9))),  \<comment> \<open>LdrImmFpsimdLdrSLdstImmpre\<close>
    (0xffe00c00, 0xfc400c00, [], b_fp_ldst True VD (mem_pre (simm 12 9))),  \<comment> \<open>LdrImmFpsimdLdrDLdstImmpre\<close>
    (0xffe00c00, 0x3cc00c00, [], b_fp_ldst True VQ (mem_pre (simm 12 9))),  \<comment> \<open>LdrImmFpsimdLdrQLdstImmpre\<close>
    (0xffc00000, 0x3d400000, [], b_fp_ldst True VB (mem_off (uimm 10 12))),  \<comment> \<open>LdrImmFpsimdLdrBLdstPos\<close>
    (0xffc00000, 0x7d400000, [], b_fp_ldst True VH (mem_off (suimm 10 12 1))),  \<comment> \<open>LdrImmFpsimdLdrHLdstPos\<close>
    (0xffc00000, 0xbd400000, [], b_fp_ldst True VS (mem_off (suimm 10 12 2))),  \<comment> \<open>LdrImmFpsimdLdrSLdstPos\<close>
    (0xffc00000, 0xfd400000, [], b_fp_ldst True VD (mem_off (suimm 10 12 3))),  \<comment> \<open>LdrImmFpsimdLdrDLdstPos\<close>
    (0xffc00000, 0x3dc00000, [], b_fp_ldst True VQ (mem_off (suimm 10 12 4))),  \<comment> \<open>LdrImmFpsimdLdrQLdstPos\<close>
    (0xffe00c00, 0x3c000400, [], b_fp_ldst False VB (mem_post (simm 12 9))),  \<comment> \<open>StrImmFpsimdStrBLdstImmpost\<close>
    (0xffe00c00, 0x7c000400, [], b_fp_ldst False VH (mem_post (simm 12 9))),  \<comment> \<open>StrImmFpsimdStrHLdstImmpost\<close>
    (0xffe00c00, 0xbc000400, [], b_fp_ldst False VS (mem_post (simm 12 9))),  \<comment> \<open>StrImmFpsimdStrSLdstImmpost\<close>
    (0xffe00c00, 0xfc000400, [], b_fp_ldst False VD (mem_post (simm 12 9))),  \<comment> \<open>StrImmFpsimdStrDLdstImmpost\<close>
    (0xffe00c00, 0x3c800400, [], b_fp_ldst False VQ (mem_post (simm 12 9))),  \<comment> \<open>StrImmFpsimdStrQLdstImmpost\<close>
    (0xffe00c00, 0x3c000c00, [], b_fp_ldst False VB (mem_pre (simm 12 9))),  \<comment> \<open>StrImmFpsimdStrBLdstImmpre\<close>
    (0xffe00c00, 0x7c000c00, [], b_fp_ldst False VH (mem_pre (simm 12 9))),  \<comment> \<open>StrImmFpsimdStrHLdstImmpre\<close>
    (0xffe00c00, 0xbc000c00, [], b_fp_ldst False VS (mem_pre (simm 12 9))),  \<comment> \<open>StrImmFpsimdStrSLdstImmpre\<close>
    (0xffe00c00, 0xfc000c00, [], b_fp_ldst False VD (mem_pre (simm 12 9))),  \<comment> \<open>StrImmFpsimdStrDLdstImmpre\<close>
    (0xffe00c00, 0x3c800c00, [], b_fp_ldst False VQ (mem_pre (simm 12 9))),  \<comment> \<open>StrImmFpsimdStrQLdstImmpre\<close>
    (0xffc00000, 0x3d000000, [], b_fp_ldst False VB (mem_off (uimm 10 12))),  \<comment> \<open>StrImmFpsimdStrBLdstPos\<close>
    (0xffc00000, 0x7d000000, [], b_fp_ldst False VH (mem_off (suimm 10 12 1))),  \<comment> \<open>StrImmFpsimdStrHLdstPos\<close>
    (0xffc00000, 0xbd000000, [], b_fp_ldst False VS (mem_off (suimm 10 12 2))),  \<comment> \<open>StrImmFpsimdStrSLdstPos\<close>
    (0xffc00000, 0xfd000000, [], b_fp_ldst False VD (mem_off (suimm 10 12 3))),  \<comment> \<open>StrImmFpsimdStrDLdstPos\<close>
    (0xffc00000, 0x3d800000, [], b_fp_ldst False VQ (mem_off (suimm 10 12 4))),  \<comment> \<open>StrImmFpsimdStrQLdstPos\<close>
    (0xffe00c00, 0x3c400000, [], b_fp_unscaled True VB),  \<comment> \<open>LdurFpsimdLdurBLdstUnscaled\<close>
    (0xffe00c00, 0x7c400000, [], b_fp_unscaled True VH),  \<comment> \<open>LdurFpsimdLdurHLdstUnscaled\<close>
    (0xffe00c00, 0xbc400000, [], b_fp_unscaled True VS),  \<comment> \<open>LdurFpsimdLdurSLdstUnscaled\<close>
    (0xffe00c00, 0xfc400000, [], b_fp_unscaled True VD),  \<comment> \<open>LdurFpsimdLdurDLdstUnscaled\<close>
    (0xffe00c00, 0x3cc00000, [], b_fp_unscaled True VQ),  \<comment> \<open>LdurFpsimdLdurQLdstUnscaled\<close>
    (0xffe00c00, 0x3c000000, [], b_fp_unscaled False VB),  \<comment> \<open>SturFpsimdSturBLdstUnscaled\<close>
    (0xffe00c00, 0x7c000000, [], b_fp_unscaled False VH),  \<comment> \<open>SturFpsimdSturHLdstUnscaled\<close>
    (0xffe00c00, 0xbc000000, [], b_fp_unscaled False VS),  \<comment> \<open>SturFpsimdSturSLdstUnscaled\<close>
    (0xffe00c00, 0xfc000000, [], b_fp_unscaled False VD),  \<comment> \<open>SturFpsimdSturDLdstUnscaled\<close>
    (0xffe00c00, 0x3c800000, [], b_fp_unscaled False VQ),  \<comment> \<open>SturFpsimdSturQLdstUnscaled\<close>
    (0xffc00000, 0x2cc00000, [], b_fp_pair True VS (mem_post (ssimm 15 7 2))),  \<comment> \<open>LdpFpsimdLdpSLdstpairPost\<close>
    (0xffc00000, 0x6cc00000, [], b_fp_pair True VD (mem_post (ssimm 15 7 3)))  \<comment> \<open>LdpFpsimdLdpDLdstpairPost\<close>
    ]"

definition decode_rows_14 :: "a64_row list" where
  "decode_rows_14 =
    [
      (0xffc00000, 0xacc00000, [], b_fp_pair True VQ (mem_post (ssimm 15 7 4))),  \<comment> \<open>LdpFpsimdLdpQLdstpairPost\<close>
    (0xffc00000, 0x2dc00000, [], b_fp_pair True VS (mem_pre (ssimm 15 7 2))),  \<comment> \<open>LdpFpsimdLdpSLdstpairPre\<close>
    (0xffc00000, 0x6dc00000, [], b_fp_pair True VD (mem_pre (ssimm 15 7 3))),  \<comment> \<open>LdpFpsimdLdpDLdstpairPre\<close>
    (0xffc00000, 0xadc00000, [], b_fp_pair True VQ (mem_pre (ssimm 15 7 4))),  \<comment> \<open>LdpFpsimdLdpQLdstpairPre\<close>
    (0xffc00000, 0x2d400000, [], b_fp_pair True VS (mem_off (ssimm 15 7 2))),  \<comment> \<open>LdpFpsimdLdpSLdstpairOff\<close>
    (0xffc00000, 0x6d400000, [], b_fp_pair True VD (mem_off (ssimm 15 7 3))),  \<comment> \<open>LdpFpsimdLdpDLdstpairOff\<close>
    (0xffc00000, 0xad400000, [], b_fp_pair True VQ (mem_off (ssimm 15 7 4))),  \<comment> \<open>LdpFpsimdLdpQLdstpairOff\<close>
    (0xffc00000, 0x2c800000, [], b_fp_pair False VS (mem_post (ssimm 15 7 2))),  \<comment> \<open>StpFpsimdStpSLdstpairPost\<close>
    (0xffc00000, 0x6c800000, [], b_fp_pair False VD (mem_post (ssimm 15 7 3))),  \<comment> \<open>StpFpsimdStpDLdstpairPost\<close>
    (0xffc00000, 0xac800000, [], b_fp_pair False VQ (mem_post (ssimm 15 7 4))),  \<comment> \<open>StpFpsimdStpQLdstpairPost\<close>
    (0xffc00000, 0x2d800000, [], b_fp_pair False VS (mem_pre (ssimm 15 7 2))),  \<comment> \<open>StpFpsimdStpSLdstpairPre\<close>
    (0xffc00000, 0x6d800000, [], b_fp_pair False VD (mem_pre (ssimm 15 7 3))),  \<comment> \<open>StpFpsimdStpDLdstpairPre\<close>
    (0xffc00000, 0xad800000, [], b_fp_pair False VQ (mem_pre (ssimm 15 7 4))),  \<comment> \<open>StpFpsimdStpQLdstpairPre\<close>
    (0xffc00000, 0x2d000000, [], b_fp_pair False VS (mem_off (ssimm 15 7 2))),  \<comment> \<open>StpFpsimdStpSLdstpairOff\<close>
    (0xffc00000, 0x6d000000, [], b_fp_pair False VD (mem_off (ssimm 15 7 3))),  \<comment> \<open>StpFpsimdStpDLdstpairOff\<close>
    (0xffc00000, 0xad000000, [], b_fp_pair False VQ (mem_off (ssimm 15 7 4))),  \<comment> \<open>StpFpsimdStpQLdstpairOff\<close>
    (0xbffff000, 0x0c407000, [], b_fp_multi True 1 MNoIndex),  \<comment> \<open>Ld1AdvsimdMultLd1AsisdlseR11v\<close>
    (0xbffff000, 0x0c40a000, [], b_fp_multi True 2 MNoIndex),  \<comment> \<open>Ld1AdvsimdMultLd1AsisdlseR22v\<close>
    (0xbffff000, 0x0c406000, [], b_fp_multi True 3 MNoIndex),  \<comment> \<open>Ld1AdvsimdMultLd1AsisdlseR33v\<close>
    (0xbffff000, 0x0c402000, [], b_fp_multi True 4 MNoIndex),  \<comment> \<open>Ld1AdvsimdMultLd1AsisdlseR44v\<close>
    (0xbffff000, 0x0cdf7000, [], b_fp_multi True 1 MImmIndex),  \<comment> \<open>Ld1AdvsimdMultLd1AsisdlsepI1I1\<close>
    (0xbfe0f000, 0x0cc07000, [(0x001f0000, 0x001f0000)], b_fp_multi_reg True 1),  \<comment> \<open>Ld1AdvsimdMultLd1AsisdlsepR1R1\<close>
    (0xbffff000, 0x0cdfa000, [], b_fp_multi True 2 MImmIndex),  \<comment> \<open>Ld1AdvsimdMultLd1AsisdlsepI2I2\<close>
    (0xbfe0f000, 0x0cc0a000, [(0x001f0000, 0x001f0000)], b_fp_multi_reg True 2),  \<comment> \<open>Ld1AdvsimdMultLd1AsisdlsepR2R2\<close>
    (0xbffff000, 0x0cdf6000, [], b_fp_multi True 3 MImmIndex),  \<comment> \<open>Ld1AdvsimdMultLd1AsisdlsepI3I3\<close>
    (0xbfe0f000, 0x0cc06000, [(0x001f0000, 0x001f0000)], b_fp_multi_reg True 3),  \<comment> \<open>Ld1AdvsimdMultLd1AsisdlsepR3R3\<close>
    (0xbffff000, 0x0cdf2000, [], b_fp_multi True 4 MImmIndex),  \<comment> \<open>Ld1AdvsimdMultLd1AsisdlsepI4I4\<close>
    (0xbfe0f000, 0x0cc02000, [(0x001f0000, 0x001f0000)], b_fp_multi_reg True 4),  \<comment> \<open>Ld1AdvsimdMultLd1AsisdlsepR4R4\<close>
    (0xbffff000, 0x0c007000, [], b_fp_multi False 1 MNoIndex),  \<comment> \<open>St1AdvsimdMultSt1AsisdlseR11v\<close>
    (0xbffff000, 0x0c00a000, [], b_fp_multi False 2 MNoIndex),  \<comment> \<open>St1AdvsimdMultSt1AsisdlseR22v\<close>
    (0xbffff000, 0x0c006000, [], b_fp_multi False 3 MNoIndex),  \<comment> \<open>St1AdvsimdMultSt1AsisdlseR33v\<close>
    (0xbffff000, 0x0c002000, [], b_fp_multi False 4 MNoIndex),  \<comment> \<open>St1AdvsimdMultSt1AsisdlseR44v\<close>
    (0xbffff000, 0x0c9f7000, [], b_fp_multi False 1 MImmIndex),  \<comment> \<open>St1AdvsimdMultSt1AsisdlsepI1I1\<close>
    (0xbfe0f000, 0x0c807000, [(0x001f0000, 0x001f0000)], b_fp_multi_reg False 1),  \<comment> \<open>St1AdvsimdMultSt1AsisdlsepR1R1\<close>
    (0xbffff000, 0x0c9fa000, [], b_fp_multi False 2 MImmIndex),  \<comment> \<open>St1AdvsimdMultSt1AsisdlsepI2I2\<close>
    (0xbfe0f000, 0x0c80a000, [(0x001f0000, 0x001f0000)], b_fp_multi_reg False 2)  \<comment> \<open>St1AdvsimdMultSt1AsisdlsepR2R2\<close>
    ]"

definition decode_rows_15 :: "a64_row list" where
  "decode_rows_15 =
    [
      (0xbffff000, 0x0c9f6000, [], b_fp_multi False 3 MImmIndex),  \<comment> \<open>St1AdvsimdMultSt1AsisdlsepI3I3\<close>
    (0xbfe0f000, 0x0c806000, [(0x001f0000, 0x001f0000)], b_fp_multi_reg False 3),  \<comment> \<open>St1AdvsimdMultSt1AsisdlsepR3R3\<close>
    (0xbffff000, 0x0c9f2000, [], b_fp_multi False 4 MImmIndex),  \<comment> \<open>St1AdvsimdMultSt1AsisdlsepI4I4\<close>
    (0xbfe0f000, 0x0c802000, [(0x001f0000, 0x001f0000)], b_fp_multi_reg False 4),  \<comment> \<open>St1AdvsimdMultSt1AsisdlsepR4R4\<close>
    (0xffe0fc00, 0x5e000400, [], b_simd DupEltScalar),  \<comment> \<open>DupAdvsimdEltDupAsisdoneOnly\<close>
    (0xbfe0fc00, 0x0e000400, [], b_simd DupEltVec),  \<comment> \<open>DupAdvsimdEltDupAsimdinsDvV\<close>
    (0xbfe0fc00, 0x0e000c00, [], b_simd_rn DupGen UnknownWidth),  \<comment> \<open>DupAdvsimdGenDupAsimdinsDrR\<close>
    (0xffe08400, 0x6e000400, [], b_simd InsElt),  \<comment> \<open>InsAdvsimdEltInsAsimdinsIvV\<close>
    (0xffe0fc00, 0x4e001c00, [], b_simd_rn InsGen UnknownWidth),  \<comment> \<open>InsAdvsimdGenInsAsimdinsIrR\<close>
    (0xffe0fc00, 0x0e003c00, [], b_simd_rd UmovW W32),  \<comment> \<open>UmovAdvsimdUmovAsimdinsWW\<close>
    (0xffeffc00, 0x4e083c00, [], b_simd_rd SfOther X64),  \<comment> \<open>UmovAdvsimdUmovAsimdinsXX\<close>
    (0xbff8fc00, 0x0f00e400, [], b_simd SfOther),  \<comment> \<open>MoviAdvsimdMoviAsimdimmNB\<close>
    (0xbff8dc00, 0x0f008400, [], b_simd SfOther),  \<comment> \<open>MoviAdvsimdMoviAsimdimmLHl\<close>
    (0xbff89c00, 0x0f000400, [], b_simd SfOther),  \<comment> \<open>MoviAdvsimdMoviAsimdimmLSl\<close>
    (0xbff8ec00, 0x0f00c400, [], b_simd SfOther),  \<comment> \<open>MoviAdvsimdMoviAsimdimmMSm\<close>
    (0xfff8fc00, 0x2f00e400, [], b_simd SfOther),  \<comment> \<open>MoviAdvsimdMoviAsimdimmDDs\<close>
    (0xfff8fc00, 0x6f00e400, [], b_simd SfOther),  \<comment> \<open>MoviAdvsimdMoviAsimdimmD2D\<close>
    (0xbff8dc00, 0x2f008400, [], b_simd SfOther),  \<comment> \<open>MvniAdvsimdMvniAsimdimmLHl\<close>
    (0xbff89c00, 0x2f000400, [], b_simd SfOther),  \<comment> \<open>MvniAdvsimdMvniAsimdimmLSl\<close>
    (0xbff8ec00, 0x2f00c400, [], b_simd SfOther),  \<comment> \<open>MvniAdvsimdMvniAsimdimmMSm\<close>
    (0xfffffc00, 0x1e270000, [], b_simd_rn SfOther W32),  \<comment> \<open>FmovFloatGenFmovS32Float2int\<close>
    (0xfffffc00, 0x1e260000, [], b_simd_rd SfOther W32),  \<comment> \<open>FmovFloatGenFmov32sFloat2int\<close>
    (0xfffffc00, 0x9e670000, [], b_simd_rn SfOther X64),  \<comment> \<open>FmovFloatGenFmovD64Float2int\<close>
    (0xfffffc00, 0x9eaf0000, [], b_simd_rn SfOther X64),  \<comment> \<open>FmovFloatGenFmovV64iFloat2int\<close>
    (0xfffffc00, 0x9e660000, [], b_simd_rd SfOther X64),  \<comment> \<open>FmovFloatGenFmov64dFloat2int\<close>
    (0xfffffc00, 0x9eae0000, [], b_simd_rd SfOther X64),  \<comment> \<open>FmovFloatGenFmov64vxFloat2int\<close>
    (0xfffffc00, 0x1e204000, [], b_simd SfOther),  \<comment> \<open>FmovFloatFmovSFloatdp1\<close>
    (0xfffffc00, 0x1e604000, [], b_simd SfOther),  \<comment> \<open>FmovFloatFmovDFloatdp1\<close>
    (0xffe0fc00, 0x7ee08c00, [], b_simd SfOther),  \<comment> \<open>CmeqAdvsimdRegCmeqAsisdsameOnly\<close>
    (0xbf20fc00, 0x2e208c00, [], b_simd CmeqRegV),  \<comment> \<open>CmeqAdvsimdRegCmeqAsimdsameOnly\<close>
    (0xfffffc00, 0x5ee09800, [], b_simd SfOther),  \<comment> \<open>CmeqAdvsimdZeroCmeqAsisdmiscZ\<close>
    (0xbf3ffc00, 0x0e209800, [], b_simd CmeqZeroV),  \<comment> \<open>CmeqAdvsimdZeroCmeqAsimdmiscZ\<close>
    (0xffe0fc00, 0x7ee03400, [], b_simd SfOther),  \<comment> \<open>CmhiAdvsimdCmhiAsisdsameOnly\<close>
    (0xbf20fc00, 0x2e203400, [], b_simd CmhiV),  \<comment> \<open>CmhiAdvsimdCmhiAsimdsameOnly\<close>
    (0xffe0fc00, 0x7ee03c00, [], b_simd SfOther),  \<comment> \<open>CmhsAdvsimdCmhsAsisdsameOnly\<close>
    (0xbf20fc00, 0x2e203c00, [], b_simd CmhsV)  \<comment> \<open>CmhsAdvsimdCmhsAsimdsameOnly\<close>
    ]"

definition decode_rows_16 :: "a64_row list" where
  "decode_rows_16 =
    [
      (0xffe0fc00, 0x5ee03400, [], b_simd SfOther),  \<comment> \<open>CmgtAdvsimdRegCmgtAsisdsameOnly\<close>
    (0xbf20fc00, 0x0e203400, [], b_simd CmgtRegV),  \<comment> \<open>CmgtAdvsimdRegCmgtAsimdsameOnly\<close>
    (0xfffffc00, 0x5ee08800, [], b_simd SfOther),  \<comment> \<open>CmgtAdvsimdZeroCmgtAsisdmiscZ\<close>
    (0xbf3ffc00, 0x0e208800, [], b_simd CmgtZeroV),  \<comment> \<open>CmgtAdvsimdZeroCmgtAsimdmiscZ\<close>
    (0xffe0fc00, 0x5ee03c00, [], b_simd SfOther),  \<comment> \<open>CmgeAdvsimdRegCmgeAsisdsameOnly\<close>
    (0xbf20fc00, 0x0e203c00, [], b_simd CmgeRegV),  \<comment> \<open>CmgeAdvsimdRegCmgeAsimdsameOnly\<close>
    (0xfffffc00, 0x7ee08800, [], b_simd SfOther),  \<comment> \<open>CmgeAdvsimdZeroCmgeAsisdmiscZ\<close>
    (0xbf3ffc00, 0x2e208800, [], b_simd CmgeZeroV),  \<comment> \<open>CmgeAdvsimdZeroCmgeAsimdmiscZ\<close>
    (0xffe0fc00, 0x5ee08c00, [], b_simd SfOther),  \<comment> \<open>CmtstAdvsimdCmtstAsisdsameOnly\<close>
    (0xbf20fc00, 0x0e208c00, [], b_simd CmtstV),  \<comment> \<open>CmtstAdvsimdCmtstAsimdsameOnly\<close>
    (0xbfe0fc00, 0x0e201c00, [], b_simd SfOther),  \<comment> \<open>AndAdvsimdAndAsimdsameOnly\<close>
    (0xbfe0fc00, 0x0ea01c00, [], b_simd SfOther),  \<comment> \<open>OrrAdvsimdRegOrrAsimdsameOnly\<close>
    (0xbfe0fc00, 0x2e201c00, [], b_simd SfOther),  \<comment> \<open>EorAdvsimdEorAsimdsameOnly\<close>
    (0xbfe0fc00, 0x0e601c00, [], b_simd SfOther),  \<comment> \<open>BicAdvsimdRegBicAsimdsameOnly\<close>
    (0xbfe0fc00, 0x0ee01c00, [], b_simd SfOther),  \<comment> \<open>OrnAdvsimdOrnAsimdsameOnly\<close>
    (0xbfe0fc00, 0x2ea01c00, [], b_simd SfOther),  \<comment> \<open>BitAdvsimdBitAsimdsameOnly\<close>
    (0xbfe0fc00, 0x2ee01c00, [], b_simd SfOther),  \<comment> \<open>BifAdvsimdBifAsimdsameOnly\<close>
    (0xbfe0fc00, 0x2e601c00, [], b_simd SfOther),  \<comment> \<open>BslAdvsimdBslAsimdsameOnly\<close>
    (0xbffffc00, 0x2e205800, [], b_simd SfOther),  \<comment> \<open>NotAdvsimdNotAsimdmiscR\<close>
    (0xffe0fc00, 0x5ee08400, [], b_simd SfOther),  \<comment> \<open>AddAdvsimdAddAsisdsameOnly\<close>
    (0xbf20fc00, 0x0e208400, [], b_simd AddV),  \<comment> \<open>AddAdvsimdAddAsimdsameOnly\<close>
    (0xffe0fc00, 0x7ee08400, [], b_simd SfOther),  \<comment> \<open>SubAdvsimdSubAsisdsameOnly\<close>
    (0xbf20fc00, 0x2e208400, [], b_simd SubV),  \<comment> \<open>SubAdvsimdSubAsimdsameOnly\<close>
    (0xbf20fc00, 0x0e20bc00, [], b_simd AddpV),  \<comment> \<open>AddpAdvsimdVecAddpAsimdsameOnly\<close>
    (0xfffffc00, 0x5ef1b800, [], b_simd SfOther),  \<comment> \<open>AddpAdvsimdPairAddpAsisdpairOnly\<close>
    (0xbf20fc00, 0x2e20a400, [], b_simd Umaxp),  \<comment> \<open>UmaxpAdvsimdUmaxpAsimdsameOnly\<close>
    (0xbf20fc00, 0x2e20ac00, [], b_simd Uminp),  \<comment> \<open>UminpAdvsimdUminpAsimdsameOnly\<close>
    (0xbf3ffc00, 0x0e31b800, [], b_simd Addv),  \<comment> \<open>AddvAdvsimdAddvAsimdallOnly\<close>
    (0xbf3ffc00, 0x2e30a800, [], b_simd Umaxv),  \<comment> \<open>UmaxvAdvsimdUmaxvAsimdallOnly\<close>
    (0xbf3ffc00, 0x2e31a800, [], b_simd Uminv),  \<comment> \<open>UminvAdvsimdUminvAsimdallOnly\<close>
    (0xbf80fc00, 0x0f008400, [(0x00780000, 0x00000000)], b_simd Shrn),  \<comment> \<open>ShrnAdvsimdShrnAsimdshfN\<close>
    (0xffc0fc00, 0x7f400400, [], b_simd SfOther),  \<comment> \<open>UshrAdvsimdUshrAsisdshfR\<close>
    (0xbf80fc00, 0x2f000400, [(0x00780000, 0x00000000)], b_simd UshrV),  \<comment> \<open>UshrAdvsimdUshrAsimdshfR\<close>
    (0xffc0fc00, 0x5f405400, [], b_simd SfOther),  \<comment> \<open>ShlAdvsimdShlAsisdshfR\<close>
    (0xbf80fc00, 0x0f005400, [(0x00780000, 0x00000000)], b_simd ShlV),  \<comment> \<open>ShlAdvsimdShlAsimdshfR\<close>
    (0xbf80fc00, 0x2f00a400, [(0x00780000, 0x00000000)], b_simd Ushll)  \<comment> \<open>UshllAdvsimdUshllAsimdshfL\<close>
    ]"

definition decode_rows_17 :: "a64_row list" where
  "decode_rows_17 =
    [
      (0xbf3ffc00, 0x0e212800, [], b_simd Xtn),  \<comment> \<open>XtnAdvsimdXtnAsimdmiscN\<close>
    (0xbfe08400, 0x2e000000, [], b_simd ExtV),  \<comment> \<open>ExtAdvsimdExtAsimdextOnly\<close>
    (0xbf3ffc00, 0x0e201800, [], b_simd Rev16V),  \<comment> \<open>Rev16AdvsimdRev16AsimdmiscR\<close>
    (0xbf3ffc00, 0x2e200800, [], b_simd Rev32V),  \<comment> \<open>Rev32AdvsimdRev32AsimdmiscR\<close>
    (0xbf3ffc00, 0x0e200800, [], b_simd Rev64V),  \<comment> \<open>Rev64AdvsimdRev64AsimdmiscR\<close>
    (0xbf3ffc00, 0x0e205800, [], b_simd CntV),  \<comment> \<open>CntAdvsimdCntAsimdmiscR\<close>
    (0xbfe0fc00, 0x0e000000, [], b_simd SfOther),  \<comment> \<open>TblAdvsimdTblAsimdtblL11\<close>
    (0xffe0fc00, 0x1e202800, [], b_simd SfOther),  \<comment> \<open>FaddFloatFaddSFloatdp2\<close>
    (0xffe0fc00, 0x1e602800, [], b_simd SfOther),  \<comment> \<open>FaddFloatFaddDFloatdp2\<close>
    (0xffe0fc00, 0x1e203800, [], b_simd SfOther),  \<comment> \<open>FsubFloatFsubSFloatdp2\<close>
    (0xffe0fc00, 0x1e603800, [], b_simd SfOther),  \<comment> \<open>FsubFloatFsubDFloatdp2\<close>
    (0xffe0fc00, 0x1e200800, [], b_simd SfOther),  \<comment> \<open>FmulFloatFmulSFloatdp2\<close>
    (0xffe0fc00, 0x1e600800, [], b_simd SfOther),  \<comment> \<open>FmulFloatFmulDFloatdp2\<close>
    (0xffe0fc00, 0x1e208800, [], b_simd SfOther),  \<comment> \<open>FnmulFloatFnmulSFloatdp2\<close>
    (0xffe0fc00, 0x1e608800, [], b_simd SfOther),  \<comment> \<open>FnmulFloatFnmulDFloatdp2\<close>
    (0xffe0fc00, 0x1e201800, [], b_simd SfOther),  \<comment> \<open>FdivFloatFdivSFloatdp2\<close>
    (0xffe0fc00, 0x1e601800, [], b_simd SfOther),  \<comment> \<open>FdivFloatFdivDFloatdp2\<close>
    (0xffe0fc00, 0x1e204800, [], b_simd SfOther),  \<comment> \<open>FmaxFloatFmaxSFloatdp2\<close>
    (0xffe0fc00, 0x1e604800, [], b_simd SfOther),  \<comment> \<open>FmaxFloatFmaxDFloatdp2\<close>
    (0xffe0fc00, 0x1e205800, [], b_simd SfOther),  \<comment> \<open>FminFloatFminSFloatdp2\<close>
    (0xffe0fc00, 0x1e605800, [], b_simd SfOther),  \<comment> \<open>FminFloatFminDFloatdp2\<close>
    (0xffe0fc00, 0x1e206800, [], b_simd SfOther),  \<comment> \<open>FmaxnmFloatFmaxnmSFloatdp2\<close>
    (0xffe0fc00, 0x1e606800, [], b_simd SfOther),  \<comment> \<open>FmaxnmFloatFmaxnmDFloatdp2\<close>
    (0xffe0fc00, 0x1e207800, [], b_simd SfOther),  \<comment> \<open>FminnmFloatFminnmSFloatdp2\<close>
    (0xffe0fc00, 0x1e607800, [], b_simd SfOther),  \<comment> \<open>FminnmFloatFminnmDFloatdp2\<close>
    (0xffe08000, 0x1f000000, [], b_simd SfOther),  \<comment> \<open>FmaddFloatFmaddSFloatdp3\<close>
    (0xffe08000, 0x1f400000, [], b_simd SfOther),  \<comment> \<open>FmaddFloatFmaddDFloatdp3\<close>
    (0xffe08000, 0x1f008000, [], b_simd SfOther),  \<comment> \<open>FmsubFloatFmsubSFloatdp3\<close>
    (0xffe08000, 0x1f408000, [], b_simd SfOther),  \<comment> \<open>FmsubFloatFmsubDFloatdp3\<close>
    (0xffe08000, 0x1f200000, [], b_simd SfOther),  \<comment> \<open>FnmaddFloatFnmaddSFloatdp3\<close>
    (0xffe08000, 0x1f600000, [], b_simd SfOther),  \<comment> \<open>FnmaddFloatFnmaddDFloatdp3\<close>
    (0xffe08000, 0x1f208000, [], b_simd SfOther),  \<comment> \<open>FnmsubFloatFnmsubSFloatdp3\<close>
    (0xffe08000, 0x1f608000, [], b_simd SfOther),  \<comment> \<open>FnmsubFloatFnmsubDFloatdp3\<close>
    (0xfffffc00, 0x1e20c000, [], b_simd SfOther),  \<comment> \<open>FabsFloatFabsSFloatdp1\<close>
    (0xfffffc00, 0x1e60c000, [], b_simd SfOther),  \<comment> \<open>FabsFloatFabsDFloatdp1\<close>
    (0xfffffc00, 0x1e214000, [], b_simd SfOther)  \<comment> \<open>FnegFloatFnegSFloatdp1\<close>
    ]"

definition decode_rows_18 :: "a64_row list" where
  "decode_rows_18 =
    [
      (0xfffffc00, 0x1e614000, [], b_simd SfOther),  \<comment> \<open>FnegFloatFnegDFloatdp1\<close>
    (0xfffffc00, 0x1e21c000, [], b_simd SfOther),  \<comment> \<open>FsqrtFloatFsqrtSFloatdp1\<close>
    (0xfffffc00, 0x1e61c000, [], b_simd SfOther),  \<comment> \<open>FsqrtFloatFsqrtDFloatdp1\<close>
    (0xfffffc00, 0x1e244000, [], b_simd SfOther),  \<comment> \<open>FrintnFloatFrintnSFloatdp1\<close>
    (0xfffffc00, 0x1e644000, [], b_simd SfOther),  \<comment> \<open>FrintnFloatFrintnDFloatdp1\<close>
    (0xfffffc00, 0x1e24c000, [], b_simd SfOther),  \<comment> \<open>FrintpFloatFrintpSFloatdp1\<close>
    (0xfffffc00, 0x1e64c000, [], b_simd SfOther),  \<comment> \<open>FrintpFloatFrintpDFloatdp1\<close>
    (0xfffffc00, 0x1e254000, [], b_simd SfOther),  \<comment> \<open>FrintmFloatFrintmSFloatdp1\<close>
    (0xfffffc00, 0x1e654000, [], b_simd SfOther),  \<comment> \<open>FrintmFloatFrintmDFloatdp1\<close>
    (0xfffffc00, 0x1e25c000, [], b_simd SfOther),  \<comment> \<open>FrintzFloatFrintzSFloatdp1\<close>
    (0xfffffc00, 0x1e65c000, [], b_simd SfOther),  \<comment> \<open>FrintzFloatFrintzDFloatdp1\<close>
    (0xfffffc00, 0x1e264000, [], b_simd SfOther),  \<comment> \<open>FrintaFloatFrintaSFloatdp1\<close>
    (0xfffffc00, 0x1e664000, [], b_simd SfOther),  \<comment> \<open>FrintaFloatFrintaDFloatdp1\<close>
    (0xfffffc00, 0x1e274000, [], b_simd SfOther),  \<comment> \<open>FrintxFloatFrintxSFloatdp1\<close>
    (0xfffffc00, 0x1e674000, [], b_simd SfOther),  \<comment> \<open>FrintxFloatFrintxDFloatdp1\<close>
    (0xfffffc00, 0x1e27c000, [], b_simd SfOther),  \<comment> \<open>FrintiFloatFrintiSFloatdp1\<close>
    (0xfffffc00, 0x1e67c000, [], b_simd SfOther),  \<comment> \<open>FrintiFloatFrintiDFloatdp1\<close>
    (0xfffffc00, 0x1e22c000, [], b_simd SfOther),  \<comment> \<open>FcvtFloatFcvtDsFloatdp1\<close>
    (0xfffffc00, 0x1e624000, [], b_simd SfOther),  \<comment> \<open>FcvtFloatFcvtSdFloatdp1\<close>
    (0xffe0fc1f, 0x1e202000, [], b_simd SfOther),  \<comment> \<open>FcmpFloatFcmpSFloatcmp\<close>
    (0xfffffc1f, 0x1e202008, [], b_simd SfOther),  \<comment> \<open>FcmpFloatFcmpSzFloatcmp\<close>
    (0xffe0fc1f, 0x1e602000, [], b_simd SfOther),  \<comment> \<open>FcmpFloatFcmpDFloatcmp\<close>
    (0xfffffc1f, 0x1e602008, [], b_simd SfOther),  \<comment> \<open>FcmpFloatFcmpDzFloatcmp\<close>
    (0xffe0fc1f, 0x1e202010, [], b_simd SfOther),  \<comment> \<open>FcmpeFloatFcmpeSFloatcmp\<close>
    (0xfffffc1f, 0x1e202018, [], b_simd SfOther),  \<comment> \<open>FcmpeFloatFcmpeSzFloatcmp\<close>
    (0xffe0fc1f, 0x1e602010, [], b_simd SfOther),  \<comment> \<open>FcmpeFloatFcmpeDFloatcmp\<close>
    (0xfffffc1f, 0x1e602018, [], b_simd SfOther),  \<comment> \<open>FcmpeFloatFcmpeDzFloatcmp\<close>
    (0xffe00c10, 0x1e200400, [], b_simd SfOther),  \<comment> \<open>FccmpFloatFccmpSFloatccmp\<close>
    (0xffe00c10, 0x1e600400, [], b_simd SfOther),  \<comment> \<open>FccmpFloatFccmpDFloatccmp\<close>
    (0xffe00c10, 0x1e200410, [], b_simd SfOther),  \<comment> \<open>FccmpeFloatFccmpeSFloatccmp\<close>
    (0xffe00c10, 0x1e600410, [], b_simd SfOther),  \<comment> \<open>FccmpeFloatFccmpeDFloatccmp\<close>
    (0xffe00c00, 0x1e200c00, [], b_simd SfOther),  \<comment> \<open>FcselFloatFcselSFloatsel\<close>
    (0xffe00c00, 0x1e600c00, [], b_simd SfOther),  \<comment> \<open>FcselFloatFcselDFloatsel\<close>
    (0xffe01fe0, 0x1e201000, [], b_simd SfOther),  \<comment> \<open>FmovFloatImmFmovSFloatimm\<close>
    (0xffe01fe0, 0x1e601000, [], b_simd SfOther),  \<comment> \<open>FmovFloatImmFmovDFloatimm\<close>
    (0xfffffc00, 0x1e220000, [], b_simd_rn SfOther W32)  \<comment> \<open>ScvtfFloatIntScvtfS32Float2int\<close>
    ]"

definition decode_rows_19 :: "a64_row list" where
  "decode_rows_19 =
    [
      (0xfffffc00, 0x1e620000, [], b_simd_rn SfOther W32),  \<comment> \<open>ScvtfFloatIntScvtfD32Float2int\<close>
    (0xfffffc00, 0x9e220000, [], b_simd_rn SfOther X64),  \<comment> \<open>ScvtfFloatIntScvtfS64Float2int\<close>
    (0xfffffc00, 0x9e620000, [], b_simd_rn SfOther X64),  \<comment> \<open>ScvtfFloatIntScvtfD64Float2int\<close>
    (0xfffffc00, 0x1e230000, [], b_simd_rn SfOther W32),  \<comment> \<open>UcvtfFloatIntUcvtfS32Float2int\<close>
    (0xfffffc00, 0x1e630000, [], b_simd_rn SfOther W32),  \<comment> \<open>UcvtfFloatIntUcvtfD32Float2int\<close>
    (0xfffffc00, 0x9e230000, [], b_simd_rn SfOther X64),  \<comment> \<open>UcvtfFloatIntUcvtfS64Float2int\<close>
    (0xfffffc00, 0x9e630000, [], b_simd_rn SfOther X64),  \<comment> \<open>UcvtfFloatIntUcvtfD64Float2int\<close>
    (0xfffffc00, 0x1e380000, [], b_simd_rd SfOther W32),  \<comment> \<open>FcvtzsFloatIntFcvtzs32sFloat2int\<close>
    (0xfffffc00, 0x9e380000, [], b_simd_rd SfOther X64),  \<comment> \<open>FcvtzsFloatIntFcvtzs64sFloat2int\<close>
    (0xfffffc00, 0x1e780000, [], b_simd_rd SfOther W32),  \<comment> \<open>FcvtzsFloatIntFcvtzs32dFloat2int\<close>
    (0xfffffc00, 0x9e780000, [], b_simd_rd SfOther X64),  \<comment> \<open>FcvtzsFloatIntFcvtzs64dFloat2int\<close>
    (0xfffffc00, 0x1e390000, [], b_simd_rd SfOther W32),  \<comment> \<open>FcvtzuFloatIntFcvtzu32sFloat2int\<close>
    (0xfffffc00, 0x9e390000, [], b_simd_rd SfOther X64),  \<comment> \<open>FcvtzuFloatIntFcvtzu64sFloat2int\<close>
    (0xfffffc00, 0x1e790000, [], b_simd_rd SfOther W32),  \<comment> \<open>FcvtzuFloatIntFcvtzu32dFloat2int\<close>
    (0xfffffc00, 0x9e790000, [], b_simd_rd SfOther X64),  \<comment> \<open>FcvtzuFloatIntFcvtzu64dFloat2int\<close>
    (0xfffffc00, 0x1e200000, [], b_simd_rd SfOther W32),  \<comment> \<open>FcvtnsFloatFcvtns32sFloat2int\<close>
    (0xfffffc00, 0x9e200000, [], b_simd_rd SfOther X64),  \<comment> \<open>FcvtnsFloatFcvtns64sFloat2int\<close>
    (0xfffffc00, 0x1e600000, [], b_simd_rd SfOther W32),  \<comment> \<open>FcvtnsFloatFcvtns32dFloat2int\<close>
    (0xfffffc00, 0x9e600000, [], b_simd_rd SfOther X64),  \<comment> \<open>FcvtnsFloatFcvtns64dFloat2int\<close>
    (0xfffffc00, 0x1e210000, [], b_simd_rd SfOther W32),  \<comment> \<open>FcvtnuFloatFcvtnu32sFloat2int\<close>
    (0xfffffc00, 0x9e210000, [], b_simd_rd SfOther X64),  \<comment> \<open>FcvtnuFloatFcvtnu64sFloat2int\<close>
    (0xfffffc00, 0x1e610000, [], b_simd_rd SfOther W32),  \<comment> \<open>FcvtnuFloatFcvtnu32dFloat2int\<close>
    (0xfffffc00, 0x9e610000, [], b_simd_rd SfOther X64),  \<comment> \<open>FcvtnuFloatFcvtnu64dFloat2int\<close>
    (0xfffffc00, 0x1e300000, [], b_simd_rd SfOther W32),  \<comment> \<open>FcvtmsFloatFcvtms32sFloat2int\<close>
    (0xfffffc00, 0x9e300000, [], b_simd_rd SfOther X64),  \<comment> \<open>FcvtmsFloatFcvtms64sFloat2int\<close>
    (0xfffffc00, 0x1e700000, [], b_simd_rd SfOther W32),  \<comment> \<open>FcvtmsFloatFcvtms32dFloat2int\<close>
    (0xfffffc00, 0x9e700000, [], b_simd_rd SfOther X64),  \<comment> \<open>FcvtmsFloatFcvtms64dFloat2int\<close>
    (0xfffffc00, 0x1e310000, [], b_simd_rd SfOther W32),  \<comment> \<open>FcvtmuFloatFcvtmu32sFloat2int\<close>
    (0xfffffc00, 0x9e310000, [], b_simd_rd SfOther X64),  \<comment> \<open>FcvtmuFloatFcvtmu64sFloat2int\<close>
    (0xfffffc00, 0x1e710000, [], b_simd_rd SfOther W32),  \<comment> \<open>FcvtmuFloatFcvtmu32dFloat2int\<close>
    (0xfffffc00, 0x9e710000, [], b_simd_rd SfOther X64),  \<comment> \<open>FcvtmuFloatFcvtmu64dFloat2int\<close>
    (0xfffffc00, 0x1e280000, [], b_simd_rd SfOther W32),  \<comment> \<open>FcvtpsFloatFcvtps32sFloat2int\<close>
    (0xfffffc00, 0x9e280000, [], b_simd_rd SfOther X64),  \<comment> \<open>FcvtpsFloatFcvtps64sFloat2int\<close>
    (0xfffffc00, 0x1e680000, [], b_simd_rd SfOther W32),  \<comment> \<open>FcvtpsFloatFcvtps32dFloat2int\<close>
    (0xfffffc00, 0x9e680000, [], b_simd_rd SfOther X64),  \<comment> \<open>FcvtpsFloatFcvtps64dFloat2int\<close>
    (0xfffffc00, 0x1e290000, [], b_simd_rd SfOther W32)  \<comment> \<open>FcvtpuFloatFcvtpu32sFloat2int\<close>
    ]"

definition decode_rows_20 :: "a64_row list" where
  "decode_rows_20 =
    [
      (0xfffffc00, 0x9e290000, [], b_simd_rd SfOther X64),  \<comment> \<open>FcvtpuFloatFcvtpu64sFloat2int\<close>
    (0xfffffc00, 0x1e690000, [], b_simd_rd SfOther W32),  \<comment> \<open>FcvtpuFloatFcvtpu32dFloat2int\<close>
    (0xfffffc00, 0x9e690000, [], b_simd_rd SfOther X64),  \<comment> \<open>FcvtpuFloatFcvtpu64dFloat2int\<close>
    (0xfffffc00, 0x1e240000, [], b_simd_rd SfOther W32),  \<comment> \<open>FcvtasFloatFcvtas32sFloat2int\<close>
    (0xfffffc00, 0x9e240000, [], b_simd_rd SfOther X64),  \<comment> \<open>FcvtasFloatFcvtas64sFloat2int\<close>
    (0xfffffc00, 0x1e640000, [], b_simd_rd SfOther W32),  \<comment> \<open>FcvtasFloatFcvtas32dFloat2int\<close>
    (0xfffffc00, 0x9e640000, [], b_simd_rd SfOther X64),  \<comment> \<open>FcvtasFloatFcvtas64dFloat2int\<close>
    (0xfffffc00, 0x1e250000, [], b_simd_rd SfOther W32),  \<comment> \<open>FcvtauFloatFcvtau32sFloat2int\<close>
    (0xfffffc00, 0x9e250000, [], b_simd_rd SfOther X64),  \<comment> \<open>FcvtauFloatFcvtau64sFloat2int\<close>
    (0xfffffc00, 0x1e650000, [], b_simd_rd SfOther W32),  \<comment> \<open>FcvtauFloatFcvtau32dFloat2int\<close>
    (0xfffffc00, 0x9e650000, [], b_simd_rd SfOther X64),  \<comment> \<open>FcvtauFloatFcvtau64dFloat2int\<close>
    (0xffe00c00, 0x3c600800, [(0x0000e000, 0x00006000)], b_fp_reg True VB),  \<comment> \<open>LdrRegFpsimdLdrBLdstRegoff\<close>
    (0xffe0ec00, 0x3c606800, [], b_fp_reg_bl True VB),  \<comment> \<open>LdrRegFpsimdLdrBlLdstRegoff\<close>
    (0xffe00c00, 0x7c600800, [], b_fp_reg True VH),  \<comment> \<open>LdrRegFpsimdLdrHLdstRegoff\<close>
    (0xffe00c00, 0xbc600800, [], b_fp_reg True VS),  \<comment> \<open>LdrRegFpsimdLdrSLdstRegoff\<close>
    (0xffe00c00, 0xfc600800, [], b_fp_reg True VD),  \<comment> \<open>LdrRegFpsimdLdrDLdstRegoff\<close>
    (0xffe00c00, 0x3ce00800, [], b_fp_reg True VQ),  \<comment> \<open>LdrRegFpsimdLdrQLdstRegoff\<close>
    (0xffe00c00, 0x3c200800, [(0x0000e000, 0x00006000)], b_fp_reg False VB),  \<comment> \<open>StrRegFpsimdStrBLdstRegoff\<close>
    (0xffe0ec00, 0x3c206800, [], b_fp_reg_bl False VB),  \<comment> \<open>StrRegFpsimdStrBlLdstRegoff\<close>
    (0xffe00c00, 0x7c200800, [], b_fp_reg False VH),  \<comment> \<open>StrRegFpsimdStrHLdstRegoff\<close>
    (0xffe00c00, 0xbc200800, [], b_fp_reg False VS),  \<comment> \<open>StrRegFpsimdStrSLdstRegoff\<close>
    (0xffe00c00, 0xfc200800, [], b_fp_reg False VD),  \<comment> \<open>StrRegFpsimdStrDLdstRegoff\<close>
    (0xffe00c00, 0x3ca00800, [], b_fp_reg False VQ)  \<comment> \<open>StrRegFpsimdStrQLdstRegoff\<close>
    ]"

definition decode_rows :: "a64_row list" where
  "decode_rows =
    decode_rows_1 @
    decode_rows_2 @
    decode_rows_3 @
    decode_rows_4 @
    decode_rows_5 @
    decode_rows_6 @
    decode_rows_7 @
    decode_rows_8 @
    decode_rows_9 @
    decode_rows_10 @
    decode_rows_11 @
    decode_rows_12 @
    decode_rows_13 @
    decode_rows_14 @
    decode_rows_15 @
    decode_rows_16 @
    decode_rows_17 @
    decode_rows_18 @
    decode_rows_19 @
    decode_rows_20"

lemmas decode_rows_defs =
  decode_rows_1_def
  decode_rows_2_def
  decode_rows_3_def
  decode_rows_4_def
  decode_rows_5_def
  decode_rows_6_def
  decode_rows_7_def
  decode_rows_8_def
  decode_rows_9_def
  decode_rows_10_def
  decode_rows_11_def
  decode_rows_12_def
  decode_rows_13_def
  decode_rows_14_def
  decode_rows_15_def
  decode_rows_16_def
  decode_rows_17_def
  decode_rows_18_def
  decode_rows_19_def
  decode_rows_20_def

text \<open>\<open>decode_a64_insn\<close>: the first row whose condition holds builds the instruction.\<close>

fun first_row :: "a64_row list \<Rightarrow> u32 \<Rightarrow> a64_insn option" where
  "first_row [] w = None"
| "first_row ((m, v, ex, b) # rs) w =
    (if w AND m = v \<and> list_all (\<lambda>(m', v'). w AND m' \<noteq> v') ex then Some (b w)
     else first_row rs w)"

definition decode_a64_insn :: "u32 \<Rightarrow> a64_insn option" where
  "decode_a64_insn w = first_row decode_rows w"

lemma first_row_append:
  "first_row (xs @ ys) w = (case first_row xs w of None \<Rightarrow> first_row ys w | Some i \<Rightarrow> Some i)"
  by (induction xs w rule: first_row.induct) auto
lemma first_row_skip: "w AND m \<noteq> v \<Longrightarrow> first_row ((m, v, ex, b) # rs) w = first_row rs w"
  by simp

lemma first_row_hit: "w AND m = v \<Longrightarrow> first_row ((m, v, [], b) # rs) w = Some (b w)"
  by simp

lemma first_row_exclude:
  "first_row ((m, v, (m', v') # ex, b) # rs) w =
    (if w AND m' = v' then first_row rs w else first_row ((m, v, ex, b) # rs) w)"
  by simp

text \<open>Evaluating the chain on a concrete word: chunk by chunk, a row at a time.\<close>

lemmas decode_chunks = decode_a64_insn_def decode_rows_def first_row_append append_assoc

lemmas decode_eval = decode_rows_defs first_row_skip first_row_hit first_row_exclude build_defs
  fld_defs take_bit_eq_mod drop_bit_eq_div unat_div unat_mod

subsection \<open>Value rules: words UNDEFINED by their decode pseudocode\<close>

text \<open>\<open>31 - leading_zeros(x)\<close> for \<open>x \<noteq> 0\<close>: the index of the highest set bit.\<close>

fun msb_index :: "nat \<Rightarrow> nat" where
  "msb_index n = (if n < 2 then 0 else Suc (msb_index (n div 2)))"

declare msb_index.simps [simp del]

lemma msb_index_bounds: "0 < n \<Longrightarrow> 2 ^ msb_index n \<le> n \<and> n < 2 * 2 ^ msb_index n"
proof (induction n rule: msb_index.induct)
  case (1 n)
  show ?case
  proof (cases "n < 2")
    case True
    then show ?thesis using "1.prems" by (simp add: msb_index.simps [of n])
  next
    case False
    then have "2 ^ msb_index (n div 2) \<le> n div 2 \<and> n div 2 < 2 * 2 ^ msb_index (n div 2)"
      using "1.IH" by simp
    then show ?thesis using False by (simp add: msb_index.simps [of n]) linarith
  qed
qed

definition logical_imm_undefined :: "nat \<Rightarrow> a64_imm \<Rightarrow> bool" where
  "logical_imm_undefined n i =
    (let imms = raw i AND 0x3f;
         n_not_imms = push_bit 6 (of_nat n AND 1) OR (NOT imms AND 0x3f)
     in if drop_bit 1 n_not_imms = 0 then True
        else let levels = 2 ^ msb_index (unat n_not_imms) - 1
             in imms AND levels = levels)"

definition bit5 :: "u32 \<Rightarrow> bool" where
  "bit5 r = (r AND 0x20 \<noteq> 0)"

fun dp_decode_undefined :: "a64_dp \<Rightarrow> bool" where
  "dp_decode_undefined (AddSubShift _ w sh _ imm6 _ _) =
    (sh = 3 \<or> (w = W32 \<and> bit5 (raw imm6)))"
| "dp_decode_undefined (AddSubExt _ _ _ _ imm3 _ _) = (raw imm3 > 4)"
| "dp_decode_undefined (LogShift _ w _ _ imm6 _ _) = (w = W32 \<and> bit5 (raw imm6))"
| "dp_decode_undefined (LogImm _ _ n _ imms _ _) = logical_imm_undefined n imms"
| "dp_decode_undefined (Bitfield _ w immr imms _ _) = (w = W32 \<and> bit5 (raw immr OR raw imms))"
| "dp_decode_undefined _ = False"

text \<open>Register offsets: \<open>option<1> == '0'\<close> (a sub-word index) is UNDEFINED.\<close>

definition sub_word_index :: "nat option \<Rightarrow> bool" where
  "sub_word_index opt = (case opt of None \<Rightarrow> False | Some v \<Rightarrow> v div 2 mod 2 = 0)"

fun ldst_decode_undefined :: "a64_ldst \<Rightarrow> bool" where
  "ldst_decode_undefined (LdStReg _ _ opt _ _ _) = sub_word_index opt"
| "ldst_decode_undefined _ = False"

text \<open>The fields \<open>q\<close>, \<open>size\<close>, \<open>imm5\<close>, \<open>immh\<close> and \<open>imm4\<close> of the vector forms, where they are in the word.\<close>

definition simd_form_undefined :: "simd_form \<Rightarrow> u32 \<Rightarrow> bool" where
  "simd_form_undefined f w =
    (let q = fldn 30 1 w; size = fldn 22 2 w; imm5 = fld 16 5 w AND 0xf; immh = fldn 19 4 w;
         imm4 = fldn 11 4 w
     in case f of
          DupEltScalar \<Rightarrow> imm5 = 0 | InsElt \<Rightarrow> imm5 = 0 | InsGen \<Rightarrow> imm5 = 0
        | DupEltVec \<Rightarrow> imm5 = 0 \<or> (imm5 = 8 \<and> q = 0)
        | DupGen \<Rightarrow> imm5 = 0 \<or> (imm5 = 8 \<and> q = 0)
        | UmovW \<Rightarrow> imm5 = 0 \<or> imm5 = 8
        | CmeqRegV \<Rightarrow> size = 3 \<and> q = 0 | CmeqZeroV \<Rightarrow> size = 3 \<and> q = 0
        | CmhiV \<Rightarrow> size = 3 \<and> q = 0 | CmhsV \<Rightarrow> size = 3 \<and> q = 0
        | CmgtRegV \<Rightarrow> size = 3 \<and> q = 0 | CmgtZeroV \<Rightarrow> size = 3 \<and> q = 0
        | CmgeRegV \<Rightarrow> size = 3 \<and> q = 0 | CmgeZeroV \<Rightarrow> size = 3 \<and> q = 0
        | CmtstV \<Rightarrow> size = 3 \<and> q = 0 | AddV \<Rightarrow> size = 3 \<and> q = 0
        | SubV \<Rightarrow> size = 3 \<and> q = 0 | AddpV \<Rightarrow> size = 3 \<and> q = 0
        | Umaxp \<Rightarrow> size = 3 | Uminp \<Rightarrow> size = 3 | Xtn \<Rightarrow> size = 3
        | Addv \<Rightarrow> size = 3 \<or> (size = 2 \<and> q = 0)
        | Umaxv \<Rightarrow> size = 3 \<or> (size = 2 \<and> q = 0)
        | Uminv \<Rightarrow> size = 3 \<or> (size = 2 \<and> q = 0)
        | Shrn \<Rightarrow> immh \<ge> 8 | Ushll \<Rightarrow> immh \<ge> 8
        | UshrV \<Rightarrow> immh \<ge> 8 \<and> q = 0 | ShlV \<Rightarrow> immh \<ge> 8 \<and> q = 0
        | ExtV \<Rightarrow> q = 0 \<and> imm4 \<ge> 8
        | Rev16V \<Rightarrow> size \<noteq> 0 | Rev32V \<Rightarrow> size \<ge> 2 | Rev64V \<Rightarrow> size = 3
        | CntV \<Rightarrow> size \<noteq> 0
        | SfOther \<Rightarrow> False)"

fun fp_decode_undefined :: "a64_fp \<Rightarrow> bool" where
  "fp_decode_undefined (FpLdStReg _ _ _ opt _ _ _) = sub_word_index opt"
| "fp_decode_undefined (SimdReg f w _ _) = simd_form_undefined f w"
| "fp_decode_undefined _ = False"

fun is_decode_undefined :: "a64_insn \<Rightarrow> bool" where
  "is_decode_undefined (Dp i) = dp_decode_undefined i"
| "is_decode_undefined (Brn i) = False"
| "is_decode_undefined (Sys i) = False"
| "is_decode_undefined (Mem i) = ldst_decode_undefined i"
| "is_decode_undefined (Simd i) = fp_decode_undefined i"

text \<open>\<open>A64Insn::decode(word).filter(|insn| !insn.is_decode_undefined())\<close>.\<close>

definition decode_defined :: "u32 \<Rightarrow> a64_insn option" where
  "decode_defined w =
    (case decode_a64_insn w of
       None \<Rightarrow> None
     | Some i \<Rightarrow> if is_decode_undefined i then None else Some i)"

end
