(* ===== verification/A64Encode.thy ===== *)
theory A64Encode
  imports A64Decode
begin

section \<open>Encoding, and the round trip with decoding\<close>

text \<open>
  Models \<open>A64Insn::encode\<close> of \<open>spec/arm64/generated/a64_subset.rs\<close>: the fixed bits of the form,
  then each field, checked against its width (\<open>encode_a64_field\<close>). The fixed bits are written by
  their architectural parts (operation, register width, access size) instead of one literal per
  form; \<open>encode_decode\<close> below shows that they are the literals of the decoder's rows.
\<close>

text \<open>\<open>encode_a64_field\<close>: \<open>None\<close> stands for \<open>A64EncodeError::FieldOutOfRange\<close>.\<close>

definition encode_a64_field :: "u32 \<Rightarrow> nat \<Rightarrow> nat \<Rightarrow> u32 option" where
  "encode_a64_field v wd sh = (if wd < 32 \<and> v \<ge> 2 ^ wd then None else Some (push_bit sh v))"

fun encode_fields :: "u32 \<Rightarrow> (u32 \<times> nat \<times> nat) list \<Rightarrow> u32 option" where
  "encode_fields acc [] = Some acc"
| "encode_fields acc ((v, wd, sh) # fs) =
    (case encode_a64_field v wd sh of None \<Rightarrow> None | Some b \<Rightarrow> encode_fields (acc OR b) fs)"

type_synonym enc_fields = "u32 \<times> (u32 \<times> nat \<times> nat) list"

definition renc :: "a64_reg \<Rightarrow> nat \<Rightarrow> u32 \<times> nat \<times> nat" where
  "renc r sh = (of_nat (enc r), 5, sh)"

definition nenc :: "nat \<Rightarrow> nat \<Rightarrow> nat \<Rightarrow> u32 \<times> nat \<times> nat" where
  "nenc n wd sh = (of_nat n, wd, sh)"

definition ienc :: "a64_imm \<Rightarrow> nat \<Rightarrow> nat \<Rightarrow> u32 \<times> nat \<times> nat" where
  "ienc i wd sh = (raw i, wd, sh)"

subsection \<open>Fixed bits\<close>

definition sf :: "a64_reg_width \<Rightarrow> u32" where
  "sf wd = (if wd = X64 then 0x80000000 else 0)"

fun addsub_bits :: "addsub_op \<Rightarrow> u32" where
  "addsub_bits AsAdd = 0"
| "addsub_bits AsAdds = 0x20000000"
| "addsub_bits AsSub = 0x40000000"
| "addsub_bits AsSubs = 0x60000000"

fun carry_bits :: "carry_op \<Rightarrow> u32" where
  "carry_bits CaAdc = 0"
| "carry_bits CaAdcs = 0x20000000"
| "carry_bits CaSbc = 0x40000000"
| "carry_bits CaSbcs = 0x60000000"

fun logic_bits :: "logic_op \<Rightarrow> u32" where
  "logic_bits LgAnd = 0"
| "logic_bits LgBic = 0x00200000"
| "logic_bits LgOrr = 0x20000000"
| "logic_bits LgOrn = 0x20200000"
| "logic_bits LgEor = 0x40000000"
| "logic_bits LgEon = 0x40200000"
| "logic_bits LgAnds = 0x60000000"
| "logic_bits LgBics = 0x60200000"

fun logimm_bits :: "logimm_op \<Rightarrow> u32" where
  "logimm_bits LiAnd = 0"
| "logimm_bits LiOrr = 0x20000000"
| "logimm_bits LiEor = 0x40000000"
| "logimm_bits LiAnds = 0x60000000"

fun movewide_bits :: "movewide_op \<Rightarrow> u32" where
  "movewide_bits Movn = 0"
| "movewide_bits Movz = 0x40000000"
| "movewide_bits Movk = 0x60000000"

fun bitfield_bits :: "bitfield_op \<Rightarrow> u32" where
  "bitfield_bits Sbfm = 0"
| "bitfield_bits Bfm = 0x20000000"
| "bitfield_bits Ubfm = 0x40000000"

fun condsel_bits :: "condsel_op \<Rightarrow> u32" where
  "condsel_bits Csel = 0"
| "condsel_bits Csinc = 0x400"
| "condsel_bits Csinv = 0x40000000"
| "condsel_bits Csneg = 0x40000400"

fun condcmp_bits :: "condcmp_op \<Rightarrow> u32" where
  "condcmp_bits Ccmn = 0"
| "condcmp_bits Ccmp = 0x40000000"

fun dp2_bits :: "dp2_op \<Rightarrow> u32" where
  "dp2_bits Udiv = 0x0800"
| "dp2_bits Sdiv = 0x0c00"
| "dp2_bits Lslv = 0x2000"
| "dp2_bits Lsrv = 0x2400"
| "dp2_bits Asrv = 0x2800"
| "dp2_bits Rorv = 0x2c00"

fun crc_bits :: "bool \<Rightarrow> crc_size \<Rightarrow> u32" where
  "crc_bits c CrcB = (if c then 0x1000 else 0)"
| "crc_bits c CrcH = (if c then 0x1400 else 0x0400)"
| "crc_bits c CrcW = (if c then 0x1800 else 0x0800)"
| "crc_bits c CrcX = (if c then 0x80001c00 else 0x80000c00)"

fun dp3_long_bits :: "dp3_long_op \<Rightarrow> u32" where
  "dp3_long_bits Smaddl = 0x9b200000"
| "dp3_long_bits Smsubl = 0x9b208000"
| "dp3_long_bits Umaddl = 0x9ba00000"
| "dp3_long_bits Umsubl = 0x9ba08000"

fun dp1_bits :: "dp1_op \<Rightarrow> a64_reg_width \<Rightarrow> u32" where
  "dp1_bits Rbit _ = 0"
| "dp1_bits Rev16 _ = 0x400"
| "dp1_bits Rev wd = (if wd = X64 then 0xc00 else 0x800)"
| "dp1_bits Clz _ = 0x1000"

text \<open>Access size and \<open>opc\<close> of the general loads and stores.\<close>

fun ldst_bits :: "ldst_op \<Rightarrow> u32" where
  "ldst_bits Strb = 0"
| "ldst_bits Ldrb = 0x00400000"
| "ldst_bits Ldrsb64 = 0x00800000"
| "ldst_bits Ldrsb32 = 0x00c00000"
| "ldst_bits Strh = 0x40000000"
| "ldst_bits Ldrh = 0x40400000"
| "ldst_bits Ldrsh64 = 0x40800000"
| "ldst_bits Ldrsh32 = 0x40c00000"
| "ldst_bits Str32 = 0x80000000"
| "ldst_bits Ldr32 = 0x80400000"
| "ldst_bits Ldrsw = 0x80800000"
| "ldst_bits Str64 = 0xc0000000"
| "ldst_bits Ldr64 = 0xc0400000"

fun pair_bits :: "pair_op \<Rightarrow> u32" where
  "pair_bits Stp32 = 0"
| "pair_bits Ldp32 = 0x00400000"
| "pair_bits Ldpsw = 0x40400000"
| "pair_bits Stp64 = 0x80000000"
| "pair_bits Ldp64 = 0x80400000"

fun lit_bits :: "lit_op \<Rightarrow> u32" where
  "lit_bits LitLdr32 = 0x18000000"
| "lit_bits LitLdr64 = 0x58000000"
| "lit_bits LitLdrsw = 0x98000000"

fun ord_bits :: "ord_op \<Rightarrow> u32" where
  "ord_bits Ldarb = 0x08dffc00"
| "ord_bits Ldarh = 0x48dffc00"
| "ord_bits Ldar32 = 0x88dffc00"
| "ord_bits Ldar64 = 0xc8dffc00"
| "ord_bits Stlrb = 0x089ffc00"
| "ord_bits Stlrh = 0x489ffc00"
| "ord_bits Stlr32 = 0x889ffc00"
| "ord_bits Stlr64 = 0xc89ffc00"
| "ord_bits Ldaprb = 0x38bfc000"
| "ord_bits Ldaprh = 0x78bfc000"
| "ord_bits Ldapr32 = 0xb8bfc000"
| "ord_bits Ldapr64 = 0xf8bfc000"

fun atomic_size_bits :: "atomic_size \<Rightarrow> u32" where
  "atomic_size_bits Sz1 = 0"
| "atomic_size_bits Sz2 = 0x40000000"
| "atomic_size_bits Sz4 = 0x80000000"
| "atomic_size_bits Sz8 = 0xc0000000"

fun lse_bits :: "atomic_op \<Rightarrow> u32" where
  "lse_bits AtAdd = 0x38200000"
| "lse_bits AtClr = 0x38201000"
| "lse_bits AtEor = 0x38202000"
| "lse_bits AtSet = 0x38203000"
| "lse_bits AtSmax = 0x38204000"
| "lse_bits AtSmin = 0x38205000"
| "lse_bits AtUmax = 0x38206000"
| "lse_bits AtUmin = 0x38207000"
| "lse_bits AtSwp = 0x38208000"
| "lse_bits AtCas = 0x08a07c00"

text \<open>Acquire and release: bits 23 and 22 of \<open>LD<op>\<close>/\<open>SWP\<close>, bits 22 and 15 of \<open>CAS\<close>.\<close>

fun order_bits :: "atomic_op \<Rightarrow> atomic_order \<Rightarrow> u32" where
  "order_bits op OrdNone = 0"
| "order_bits op OrdA = (if op = AtCas then 0x00400000 else 0x00800000)"
| "order_bits op OrdL = (if op = AtCas then 0x00008000 else 0x00400000)"
| "order_bits op OrdAL = (if op = AtCas then 0x00408000 else 0x00c00000)"

fun vsize_bits :: "vsize \<Rightarrow> u32" where
  "vsize_bits VB = 0"
| "vsize_bits VH = 0x40000000"
| "vsize_bits VS = 0x80000000"
| "vsize_bits VD = 0xc0000000"
| "vsize_bits VQ = 0x00800000"

fun vpair_bits :: "vsize \<Rightarrow> u32" where
  "vpair_bits VD = 0x40000000"
| "vpair_bits VQ = 0x80000000"
| "vpair_bits _ = 0"

definition load_bit :: "bool \<Rightarrow> u32" where
  "load_bit ld = (if ld then 0x00400000 else 0)"

text \<open>Addressing mode: single register transfers (\<open>imm12\<close> or \<open>imm9\<close>), pairs (\<open>imm7\<close>).\<close>

fun ldst_mode_bits :: "a64_mem \<Rightarrow> u32" where
  "ldst_mode_bits (MOffset _ _) = 0x39000000"
| "ldst_mode_bits (MPreIndex _ _) = 0x38000c00"
| "ldst_mode_bits (MPostIndex _ _) = 0x38000400"

fun ldst_mode_field :: "a64_mem \<Rightarrow> u32 \<times> nat \<times> nat" where
  "ldst_mode_field (MOffset _ i) = ienc i 12 10"
| "ldst_mode_field (MPreIndex _ i) = ienc i 9 12"
| "ldst_mode_field (MPostIndex _ i) = ienc i 9 12"

fun pair_mode_bits :: "a64_mem \<Rightarrow> u32" where
  "pair_mode_bits (MOffset _ _) = 0x29000000"
| "pair_mode_bits (MPreIndex _ _) = 0x29800000"
| "pair_mode_bits (MPostIndex _ _) = 0x28800000"

fun multi_count_bits :: "nat \<Rightarrow> u32" where
  "multi_count_bits n = (if n = 1 then 0x7000 else if n = 2 then 0xa000
                         else if n = 3 then 0x6000 else 0x2000)"

fun multi_mode_bits :: "multi_index \<Rightarrow> u32" where
  "multi_mode_bits MNoIndex = 0x0c000000"
| "multi_mode_bits MImmIndex = 0x0c9f0000"
| "multi_mode_bits (MRegIndex _) = 0x0c800000"

fun sysreg_bits :: "sysreg \<Rightarrow> u32" where
  "sysreg_bits CntfrqEl0 = 0xd53be000"
| "sysreg_bits CntvctEl0 = 0xd53be040"
| "sysreg_bits Fpcr = 0xd53b4400"
| "sysreg_bits Fpsr = 0xd53b4420"
| "sysreg_bits TpidrEl0 = 0xd53bd040"

fun barrier_bits :: "barrier_op \<Rightarrow> u32" where
  "barrier_bits Dsb = 0xd503309f"
| "barrier_bits Dmb = 0xd50330bf"
| "barrier_bits Isb = 0xd50330df"

subsection \<open>The encoder\<close>

fun dp_encoding :: "a64_dp \<Rightarrow> enc_fields" where
  "dp_encoding (Adr lo hi rd) = (0x10000000, [ienc lo 2 29, ienc hi 19 5, renc rd 0])"
| "dp_encoding (Adrp lo hi rd) = (0x90000000, [ienc lo 2 29, ienc hi 19 5, renc rd 0])"
| "dp_encoding (AddSubImm op wd sh i rn rd) =
    (0x11000000 OR sf wd OR addsub_bits op, [nenc sh 1 22, ienc i 12 10, renc rn 5, renc rd 0])"
| "dp_encoding (AddSubShift op wd sh rm i rn rd) =
    (0x0b000000 OR sf wd OR addsub_bits op,
     [nenc sh 2 22, renc rm 16, ienc i 6 10, renc rn 5, renc rd 0])"
| "dp_encoding (AddSubExt op wd rm opt i rn rd) =
    (0x0b200000 OR sf wd OR addsub_bits op,
     [renc rm 16, nenc opt 3 13, ienc i 3 10, renc rn 5, renc rd 0])"
| "dp_encoding (AddSubCarry op wd rm rn rd) =
    (0x1a000000 OR sf wd OR carry_bits op, [renc rm 16, renc rn 5, renc rd 0])"
| "dp_encoding (LogShift op wd sh rm i rn rd) =
    (0x0a000000 OR sf wd OR logic_bits op,
     [nenc sh 2 22, renc rm 16, ienc i 6 10, renc rn 5, renc rd 0])"
| "dp_encoding (LogImm op wd n r s rn rd) =
    (0x12000000 OR sf wd OR logimm_bits op,
     (if wd = X64 then [nenc n 1 22] else []) @ [ienc r 6 16, ienc s 6 10, renc rn 5, renc rd 0])"
| "dp_encoding (MoveWide op wd hw i rd) =
    (0x12800000 OR sf wd OR movewide_bits op, [nenc hw 2 21, ienc i 16 5, renc rd 0])"
| "dp_encoding (Bitfield op wd r s rn rd) =
    (0x13000000 OR sf wd OR (if wd = X64 then 0x00400000 else 0) OR bitfield_bits op,
     [ienc r 6 16, ienc s 6 10, renc rn 5, renc rd 0])"
| "dp_encoding (Extr wd rm s rn rd) =
    (0x13800000 OR sf wd OR (if wd = X64 then 0x00400000 else 0),
     [renc rm 16, ienc s 6 10, renc rn 5, renc rd 0])"
| "dp_encoding (CondSel op wd rm c rn rd) =
    (0x1a800000 OR sf wd OR condsel_bits op, [renc rm 16, nenc c 4 12, renc rn 5, renc rd 0])"
| "dp_encoding (CondCmpImm op wd i c rn f) =
    (0x3a400800 OR sf wd OR condcmp_bits op, [ienc i 5 16, nenc c 4 12, renc rn 5, nenc f 4 0])"
| "dp_encoding (CondCmpReg op wd rm c rn f) =
    (0x3a400000 OR sf wd OR condcmp_bits op, [renc rm 16, nenc c 4 12, renc rn 5, nenc f 4 0])"
| "dp_encoding (Dp2 op wd rm rn rd) =
    (0x1ac00000 OR sf wd OR dp2_bits op, [renc rm 16, renc rn 5, renc rd 0])"
| "dp_encoding (Crc32 c sz rm rn rd) =
    (0x1ac04000 OR crc_bits c sz, [renc rm 16, renc rn 5, renc rd 0])"
| "dp_encoding (Dp3 op wd rm ra rn rd) =
    (0x1b000000 OR sf wd OR (if op = Msub then 0x8000 else 0),
     [renc rm 16, renc ra 10, renc rn 5, renc rd 0])"
| "dp_encoding (Dp3Long op rm ra rn rd) =
    (dp3_long_bits op, [renc rm 16, renc ra 10, renc rn 5, renc rd 0])"
| "dp_encoding (MulHigh s rm rn rd) =
    (if s then 0x9b407c00 else 0x9bc07c00, [renc rm 16, renc rn 5, renc rd 0])"
| "dp_encoding (Dp1 op wd rn rd) =
    (0x5ac00000 OR sf wd OR dp1_bits op wd, [renc rn 5, renc rd 0])"
| "dp_encoding (Rev32 rn rd) = (0xdac00800, [renc rn 5, renc rd 0])"

fun branch_encoding :: "a64_branch \<Rightarrow> enc_fields" where
  "branch_encoding (BUncond i) = (0x14000000, [ienc i 26 0])"
| "branch_encoding (BCond i c) = (0x54000000, [ienc i 19 5, nenc c 4 0])"
| "branch_encoding (Cbz wd i rt) = (0x34000000 OR sf wd, [ienc i 19 5, renc rt 0])"
| "branch_encoding (Cbnz wd i rt) = (0x35000000 OR sf wd, [ienc i 19 5, renc rt 0])"
| "branch_encoding (Tbz b5 b40 i rt) = (0x36000000, [nenc b5 1 31, nenc b40 5 19, ienc i 14 5, renc rt 0])"
| "branch_encoding (Tbnz b5 b40 i rt) = (0x37000000, [nenc b5 1 31, nenc b40 5 19, ienc i 14 5, renc rt 0])"
| "branch_encoding (Bl i) = (0x94000000, [ienc i 26 0])"
| "branch_encoding (Br rn) = (0xd61f0000, [renc rn 5])"
| "branch_encoding (Blr rn) = (0xd63f0000, [renc rn 5])"
| "branch_encoding (Ret rn) = (0xd65f0000, [renc rn 5])"
| "branch_encoding (Svc i) = (0xd4000001, [ienc i 16 5])"

fun sys_encoding :: "a64_sys \<Rightarrow> enc_fields" where
  "sys_encoding Nop = (0xd503201f, [])"
| "sys_encoding (Bti op2) = (0xd503241f, [nenc op2 3 5])"
| "sys_encoding (Barrier op crm) = (barrier_bits op, [nenc crm 4 8])"
| "sys_encoding (MsrImm crm) = (0xd500409f, [nenc crm 4 8])"
| "sys_encoding (Mrs r rt) = (sysreg_bits r, [renc rt 0])"

fun ldst_encoding :: "a64_ldst \<Rightarrow> enc_fields" where
  "ldst_encoding (LdSt op rt m) =
    (ldst_mode_bits m OR ldst_bits op, [renc rt 0, renc (mem_base m) 5, ldst_mode_field m])"
| "ldst_encoding (LdStUnscaled op rt m) =
    (0x38000000 OR ldst_bits op, [renc rt 0, renc (mem_base m) 5, ienc (mem_imm m) 9 12])"
| "ldst_encoding (LdStUnpriv op rt m) =
    (0x38000800 OR ldst_bits op, [renc rt 0, renc (mem_base m) 5, ienc (mem_imm m) 9 12])"
| "ldst_encoding (LdStPair op rt2 rt m) =
    (pair_mode_bits m OR pair_bits op,
     [renc rt2 10, renc rt 0, renc (mem_base m) 5, ienc (mem_imm m) 7 15])"
| "ldst_encoding (LdStReg op rm opt s rn rt) =
    (case opt of
       None \<Rightarrow> (0x38206800 OR ldst_bits op, [renc rm 16, nenc s 1 12, renc rn 5, renc rt 0])
     | Some v \<Rightarrow> (0x38200800 OR ldst_bits op,
                 [renc rm 16, nenc v 3 13, nenc s 1 12, renc rn 5, renc rt 0]))"
| "ldst_encoding (LdrLit op i rt) = (lit_bits op, [ienc i 19 5, renc rt 0])"
| "ldst_encoding (PrfmImm i rn rt) = (0xf9800000, [ienc i 12 10, renc rn 5, nenc rt 5 0])"
| "ldst_encoding (PrfmLit i rt) = (0xd8000000, [ienc i 19 5, nenc rt 5 0])"
| "ldst_encoding (PrfmReg rm opt s rn rt) =
    (0xf8a04800, [renc rm 16, nenc opt 3 13, nenc s 1 12, renc rn 5, nenc rt 5 0])"
| "ldst_encoding (LdStOrd op rn rt) = (ord_bits op, [renc rn 5, renc rt 0])"
| "ldst_encoding (Atomic op sz ord rs rn rt) =
    (lse_bits op OR atomic_size_bits sz OR order_bits op ord, [renc rs 16, renc rn 5, renc rt 0])"

text \<open>\<open>SimdReg\<close> keeps the word it was decoded from, so its encoding is that word.\<close>

fun fp_encoding :: "a64_fp \<Rightarrow> enc_fields" where
  "fp_encoding (FpLdSt ld sz rt m) =
    (ldst_mode_bits m OR 0x04000000 OR vsize_bits sz OR load_bit ld,
     [nenc rt 5 0, renc (mem_base m) 5, ldst_mode_field m])"
| "fp_encoding (FpLdStUnscaled ld sz rt m) =
    (0x3c000000 OR vsize_bits sz OR load_bit ld,
     [nenc rt 5 0, renc (mem_base m) 5, ienc (mem_imm m) 9 12])"
| "fp_encoding (FpPair ld sz rt2 rt m) =
    (pair_mode_bits m OR 0x04000000 OR vpair_bits sz OR load_bit ld,
     [nenc rt2 5 10, nenc rt 5 0, renc (mem_base m) 5, ienc (mem_imm m) 7 15])"
| "fp_encoding (FpMulti ld n ix q sz rn rt) =
    (multi_mode_bits ix OR multi_count_bits n OR load_bit ld,
     [nenc q 1 30] @ (case ix of MRegIndex rm \<Rightarrow> [renc rm 16] | _ \<Rightarrow> []) @
     [nenc sz 2 10, renc rn 5, nenc rt 5 0])"
| "fp_encoding (FpLdStReg ld sz rm opt s rn rt) =
    (case opt of
       None \<Rightarrow> (0x3c206800 OR vsize_bits sz OR load_bit ld,
                [renc rm 16, nenc s 1 12, renc rn 5, nenc rt 5 0])
     | Some v \<Rightarrow> (0x3c200800 OR vsize_bits sz OR load_bit ld,
                 [renc rm 16, nenc v 3 13, nenc s 1 12, renc rn 5, nenc rt 5 0]))"
| "fp_encoding (SimdReg _ w _ _) = (w, [])"

fun insn_encoding :: "a64_insn \<Rightarrow> enc_fields" where
  "insn_encoding (Dp i) = dp_encoding i"
| "insn_encoding (Brn i) = branch_encoding i"
| "insn_encoding (Sys i) = sys_encoding i"
| "insn_encoding (Mem i) = ldst_encoding i"
| "insn_encoding (Simd i) = fp_encoding i"

definition encode :: "a64_insn \<Rightarrow> u32 option" where
  "encode i = (case insn_encoding i of (fixed, fs) \<Rightarrow> encode_fields fixed fs)"

lemmas enc_defs = encode_def renc_def nenc_def ienc_def encode_a64_field_def sf_def load_bit_def

subsection \<open>Round trip: decoding a word and encoding it again\<close>

definition fenc :: "u32 \<Rightarrow> nat \<times> nat \<Rightarrow> u32 \<times> nat \<times> nat" where
  "fenc w = (\<lambda>(lo, len). (fld lo len w, len, lo))"

definition fmask :: "nat \<times> nat \<Rightarrow> u32" where
  "fmask = (\<lambda>(lo, len). push_bit lo (mask len))"

fun covered :: "(nat \<times> nat) list \<Rightarrow> u32" where
  "covered [] = 0"
| "covered (f # fs) = fmask f OR covered fs"

lemma fld_lt:
  assumes "len < 32"
  shows "fld lo len w < 2 ^ len"
proof -
  have "unat ((2::u32) ^ len) = unat (word_of_nat (2 ^ len) :: u32)" by (simp only: of_nat_power of_nat_numeral)
  also have "\<dots> = 2 ^ len"
    using power_strict_increasing [OF assms, of "2::nat"] by (simp add: unat_of_nat del: of_nat_power)
  finally show ?thesis
    unfolding fld_def word_less_nat_alt by (simp add: unsigned_take_bit_eq)
qed

lemma push_fld: "push_bit lo (fld lo len w) = w AND push_bit lo (mask len)"
  by (rule bit_eqI) (auto simp: fld_def bit_simps)

lemma encode_a64_field_fld: 
  "len < 32 \<Longrightarrow> encode_a64_field (fld lo len w) len lo = Some (w AND fmask (lo, len))"
  using fld_lt [of len lo w] by (simp add: encode_a64_field_def push_fld fmask_def not_le)

lemma encode_fields_fenc:
  "\<forall>(lo, len) \<in> set fs. len < 32 \<Longrightarrow>
   encode_fields acc (map (fenc w) fs) = Some (acc OR (w AND covered fs))"
  by (induction fs arbitrary: acc)
    (auto simp: fenc_def encode_a64_field_fld bit.conj_disj_distrib or.assoc)

definition row_ok :: "u32 \<Rightarrow> u32 \<Rightarrow> (u32 \<Rightarrow> a64_insn) \<Rightarrow> bool" where
  "row_ok m v b \<longleftrightarrow> (\<forall>w. w AND m = v \<longrightarrow> encode (b w) = Some w)"

definition layout_ok :: "u32 \<Rightarrow> u32 \<Rightarrow> u32 \<Rightarrow> (nat \<times> nat) list \<Rightarrow> bool" where
  "layout_ok m v fixed fs \<longleftrightarrow>
    (\<forall>(lo, len) \<in> set fs. len < 32) \<and> m OR covered fs = NOT 0 \<and> fixed AND v = fixed \<and>
    v AND NOT (covered fs) AND NOT fixed = 0"

lemma row_okI:
  assumes enc: "\<And>w. insn_encoding (b w) = (fixed, map (fenc w) fs)"
    and lay: "layout_ok m v fixed fs"
  shows "row_ok m v b"
  unfolding row_ok_def
proof (intro allI impI)
  fix w :: u32
  assume w: "w AND m = v"
  have full: "m OR covered fs = NOT 0" and fv: "fixed AND v = fixed"
    and vf: "v AND NOT (covered fs) AND NOT fixed = 0"
    using lay by (auto simp: layout_ok_def)
  have "fixed OR (w AND covered fs) = w"
  proof (rule bit_eqI)
    fix n
    assume n: "possible_bit TYPE(32 word) n"
    have "bit m n \<or> bit (covered fs) n" and "bit fixed n \<longrightarrow> bit v n"
      and "bit v n \<longrightarrow> bit (covered fs) n \<or> bit fixed n" and "bit v n \<longleftrightarrow> bit w n \<and> bit m n"
      using n arg_cong [OF full, of "\<lambda>x. bit x n"] arg_cong [OF fv, of "\<lambda>x. bit x n"]
        arg_cong [OF vf, of "\<lambda>x. bit x n"] arg_cong [OF w, of "\<lambda>x. bit x n"]
      by (auto simp: bit_simps)
    then show "bit (fixed OR (w AND covered fs)) n = bit w n"
      by (auto simp: bit_simps)
  qed
  then show "encode (b w) = Some w"
    using lay by (simp add: encode_def enc encode_fields_fenc layout_ok_def)
qed

lemma fenc_simps: 
  "renc (xr wd lo w) lo = fenc w (lo, 5)"
  "renc (sr wd lo w) lo = fenc w (lo, 5)"
  "renc (reg_new (fldn lo 5 w) wd md) lo = fenc w (lo, 5)"
  "nenc (fldn lo len w) len lo = fenc w (lo, len)"
  "ienc (uimm lo len w) len lo = fenc w (lo, len)"
  "ienc (simm lo len w) len lo = fenc w (lo, len)"
  "ienc (suimm lo len s w) len lo = fenc w (lo, len)"
  "ienc (ssimm lo len s w) len lo = fenc w (lo, len)"
  by (simp_all add: renc_def nenc_def ienc_def fenc_def xr_def sr_def fldn_def uimm_def simm_def suimm_def ssimm_def)

subsubsection \<open>The encoding of each builder\<close>

lemma mem_base_simps [simp]:
  "mem_base (mem_off f w) = sr X64 5 w" "mem_base (mem_pre f w) = sr X64 5 w"
  "mem_base (mem_post f w) = sr X64 5 w" "mem_imm (mem_off f w) = f w"
  "mem_imm (mem_pre f w) = f w" "mem_imm (mem_post f w) = f w"
  "ldst_mode_bits (mem_off f w) = 0x39000000" "ldst_mode_bits (mem_pre f w) = 0x38000c00"
  "ldst_mode_bits (mem_post f w) = 0x38000400"
  "ldst_mode_field (mem_off f w) = ienc (f w) 12 10" "ldst_mode_field (mem_pre f w) = ienc (f w) 9 12"
  "ldst_mode_field (mem_post f w) = ienc (f w) 9 12"
  "pair_mode_bits (mem_off f w) = 0x29000000" "pair_mode_bits (mem_pre f w) = 0x29800000"
  "pair_mode_bits (mem_post f w) = 0x28800000"
  by (simp_all add: mem_off_def mem_pre_def mem_post_def)

named_theorems rows_ok

lemma rok_adr_lo [rows_ok]:
  "layout_ok m v (0x10000000) [(29, 2), (5, 19), (0, 5)] \<Longrightarrow>
   row_ok m v (b_adr Adr)"
  by (rule row_okI) (simp_all add: b_adr_def fenc_simps)

lemma rok_adr_page [rows_ok]:
  "layout_ok m v (0x90000000) [(29, 2), (5, 19), (0, 5)] \<Longrightarrow>
   row_ok m v (b_adr Adrp)"
  by (rule row_okI) (simp_all add: b_adr_def fenc_simps)

lemma rok_addsub_imm [rows_ok]:
  "layout_ok m v (0x11000000 OR sf wd OR addsub_bits op) [(22, 1), (10, 12), (5, 5), (0, 5)] \<Longrightarrow>
   row_ok m v (b_addsub_imm op wd md)"
  by (rule row_okI) (simp_all add: b_addsub_imm_def fenc_simps)

lemma rok_addsub_shift [rows_ok]:
  "layout_ok m v (0x0b000000 OR sf wd OR addsub_bits op) [(22, 2), (16, 5), (10, 6), (5, 5), (0, 5)] \<Longrightarrow>
   row_ok m v (b_addsub_shift op wd)"
  by (rule row_okI) (simp_all add: b_addsub_shift_def fenc_simps)

lemma rok_addsub_ext [rows_ok]:
  "layout_ok m v (0x0b200000 OR sf wd OR addsub_bits op) [(16, 5), (13, 3), (10, 3), (5, 5), (0, 5)] \<Longrightarrow>
   row_ok m v (b_addsub_ext op wd md)"
  by (rule row_okI) (simp_all add: b_addsub_ext_def fenc_simps)

lemma rok_carry [rows_ok]:
  "layout_ok m v (0x1a000000 OR sf wd OR carry_bits op) [(16, 5), (5, 5), (0, 5)] \<Longrightarrow>
   row_ok m v (b_carry op wd)"
  by (rule row_okI) (simp_all add: b_carry_def fenc_simps)

lemma rok_log_shift [rows_ok]:
  "layout_ok m v (0x0a000000 OR sf wd OR logic_bits op) [(22, 2), (16, 5), (10, 6), (5, 5), (0, 5)] \<Longrightarrow>
   row_ok m v (b_log_shift op wd)"
  by (rule row_okI) (simp_all add: b_log_shift_def fenc_simps)

lemma rok_log_imm32 [rows_ok]:
  "layout_ok m v (0x12000000 OR logimm_bits op) [(16, 6), (10, 6), (5, 5), (0, 5)] \<Longrightarrow>
   row_ok m v (b_log_imm32 op md)"
  by (rule row_okI) (simp_all add: b_log_imm32_def fenc_simps sf_def)

lemma rok_log_imm64 [rows_ok]:
  "layout_ok m v (0x92000000 OR logimm_bits op) [(22, 1), (16, 6), (10, 6), (5, 5), (0, 5)] \<Longrightarrow>
   row_ok m v (b_log_imm64 op md)"
  by (rule row_okI) (simp_all add: b_log_imm64_def fenc_simps sf_def or.assoc [symmetric])

lemma rok_movewide [rows_ok]:
  "layout_ok m v (0x12800000 OR sf wd OR movewide_bits op) [(21, 2), (5, 16), (0, 5)] \<Longrightarrow>
   row_ok m v (b_movewide op wd)"
  by (rule row_okI) (simp_all add: b_movewide_def fenc_simps)

lemma rok_bitfield [rows_ok]:
  "layout_ok m v (0x13000000 OR sf wd OR (if wd = X64 then 0x00400000 else 0) OR bitfield_bits op) [(16, 6), (10, 6), (5, 5), (0, 5)] \<Longrightarrow>
   row_ok m v (b_bitfield op wd)"
  by (rule row_okI) (simp_all add: b_bitfield_def fenc_simps)

lemma rok_extr [rows_ok]:
  "layout_ok m v (0x13800000 OR sf wd OR (if wd = X64 then 0x00400000 else 0)) [(16, 5), (10, 6), (5, 5), (0, 5)] \<Longrightarrow>
   row_ok m v (b_extr wd)"
  by (rule row_okI) (simp_all add: b_extr_def fenc_simps)

lemma rok_condsel [rows_ok]:
  "layout_ok m v (0x1a800000 OR sf wd OR condsel_bits op) [(16, 5), (12, 4), (5, 5), (0, 5)] \<Longrightarrow>
   row_ok m v (b_condsel op wd)"
  by (rule row_okI) (simp_all add: b_condsel_def fenc_simps)

lemma rok_ccmp_imm [rows_ok]:
  "layout_ok m v (0x3a400800 OR sf wd OR condcmp_bits op) [(16, 5), (12, 4), (5, 5), (0, 4)] \<Longrightarrow>
   row_ok m v (b_ccmp_imm op wd)"
  by (rule row_okI) (simp_all add: b_ccmp_imm_def fenc_simps)

lemma rok_ccmp_reg [rows_ok]:
  "layout_ok m v (0x3a400000 OR sf wd OR condcmp_bits op) [(16, 5), (12, 4), (5, 5), (0, 4)] \<Longrightarrow>
   row_ok m v (b_ccmp_reg op wd)"
  by (rule row_okI) (simp_all add: b_ccmp_reg_def fenc_simps)

lemma rok_dp2 [rows_ok]:
  "layout_ok m v (0x1ac00000 OR sf wd OR dp2_bits op) [(16, 5), (5, 5), (0, 5)] \<Longrightarrow>
   row_ok m v (b_dp2 op wd)"
  by (rule row_okI) (simp_all add: b_dp2_def fenc_simps)

lemma rok_crc32 [rows_ok]:
  "layout_ok m v (0x1ac04000 OR crc_bits c sz) [(16, 5), (5, 5), (0, 5)] \<Longrightarrow>
   row_ok m v (b_crc32 c sz)"
  by (rule row_okI) (simp_all add: b_crc32_def fenc_simps)

lemma rok_dp3 [rows_ok]:
  "layout_ok m v (0x1b000000 OR sf wd OR (if op = Msub then 0x8000 else 0)) [(16, 5), (10, 5), (5, 5), (0, 5)] \<Longrightarrow>
   row_ok m v (b_dp3 op wd)"
  by (rule row_okI) (simp_all add: b_dp3_def fenc_simps)

lemma rok_dp3_long [rows_ok]:
  "layout_ok m v (dp3_long_bits op) [(16, 5), (10, 5), (5, 5), (0, 5)] \<Longrightarrow>
   row_ok m v (b_dp3_long op)"
  by (rule row_okI) (simp_all add: b_dp3_long_def fenc_simps)

lemma rok_mulh [rows_ok]:
  "layout_ok m v (if s then 0x9b407c00 else 0x9bc07c00) [(16, 5), (5, 5), (0, 5)] \<Longrightarrow>
   row_ok m v (b_mulh s)"
  by (rule row_okI) (simp_all add: b_mulh_def fenc_simps)

lemma rok_dp1 [rows_ok]:
  "layout_ok m v (0x5ac00000 OR sf wd OR dp1_bits op wd) [(5, 5), (0, 5)] \<Longrightarrow>
   row_ok m v (b_dp1 op wd)"
  by (rule row_okI) (simp_all add: b_dp1_def fenc_simps)

lemma rok_rev32 [rows_ok]:
  "layout_ok m v (0xdac00800) [(5, 5), (0, 5)] \<Longrightarrow>
   row_ok m v (b_rev32)"
  by (rule row_okI) (simp_all add: b_rev32_def fenc_simps)

lemma rok_b26_b [rows_ok]:
  "layout_ok m v (0x14000000) [(0, 26)] \<Longrightarrow>
   row_ok m v (b_b26 BUncond)"
  by (rule row_okI) (simp_all add: b_b26_def fenc_simps)

lemma rok_b26_bl [rows_ok]:
  "layout_ok m v (0x94000000) [(0, 26)] \<Longrightarrow>
   row_ok m v (b_b26 Bl)"
  by (rule row_okI) (simp_all add: b_b26_def fenc_simps)

lemma rok_bcond [rows_ok]:
  "layout_ok m v (0x54000000) [(5, 19), (0, 4)] \<Longrightarrow>
   row_ok m v (b_bcond)"
  by (rule row_okI) (simp_all add: b_bcond_def fenc_simps)

lemma rok_cb_z [rows_ok]:
  "layout_ok m v (0x34000000 OR sf wd) [(5, 19), (0, 5)] \<Longrightarrow>
   row_ok m v (b_cb Cbz wd)"
  by (rule row_okI) (simp_all add: b_cb_def fenc_simps)

lemma rok_cb_nz [rows_ok]:
  "layout_ok m v (0x35000000 OR sf wd) [(5, 19), (0, 5)] \<Longrightarrow>
   row_ok m v (b_cb Cbnz wd)"
  by (rule row_okI) (simp_all add: b_cb_def fenc_simps)

lemma rok_tb_z [rows_ok]:
  "layout_ok m v (0x36000000) [(31, 1), (19, 5), (5, 14), (0, 5)] \<Longrightarrow>
   row_ok m v (b_tb Tbz)"
  by (rule row_okI) (simp_all add: b_tb_def fenc_simps)

lemma rok_tb_nz [rows_ok]:
  "layout_ok m v (0x37000000) [(31, 1), (19, 5), (5, 14), (0, 5)] \<Longrightarrow>
   row_ok m v (b_tb Tbnz)"
  by (rule row_okI) (simp_all add: b_tb_def fenc_simps)

lemma rok_breg_br [rows_ok]:
  "layout_ok m v (0xd61f0000) [(5, 5)] \<Longrightarrow>
   row_ok m v (b_breg Br)"
  by (rule row_okI) (simp_all add: b_breg_def fenc_simps)

lemma rok_breg_blr [rows_ok]:
  "layout_ok m v (0xd63f0000) [(5, 5)] \<Longrightarrow>
   row_ok m v (b_breg Blr)"
  by (rule row_okI) (simp_all add: b_breg_def fenc_simps)

lemma rok_breg_ret [rows_ok]:
  "layout_ok m v (0xd65f0000) [(5, 5)] \<Longrightarrow>
   row_ok m v (b_breg Ret)"
  by (rule row_okI) (simp_all add: b_breg_def fenc_simps)

lemma rok_svc [rows_ok]:
  "layout_ok m v (0xd4000001) [(5, 16)] \<Longrightarrow>
   row_ok m v (b_svc)"
  by (rule row_okI) (simp_all add: b_svc_def fenc_simps)

lemma rok_nop [rows_ok]:
  "layout_ok m v (0xd503201f) [] \<Longrightarrow>
   row_ok m v (b_nop)"
  by (rule row_okI) (simp_all add: b_nop_def fenc_simps)

lemma rok_bti [rows_ok]:
  "layout_ok m v (0xd503241f) [(5, 3)] \<Longrightarrow>
   row_ok m v (b_bti)"
  by (rule row_okI) (simp_all add: b_bti_def fenc_simps)

lemma rok_barrier [rows_ok]:
  "layout_ok m v (barrier_bits op) [(8, 4)] \<Longrightarrow>
   row_ok m v (b_barrier op)"
  by (rule row_okI) (simp_all add: b_barrier_def fenc_simps)

lemma rok_msr_imm [rows_ok]:
  "layout_ok m v (0xd500409f) [(8, 4)] \<Longrightarrow>
   row_ok m v (b_msr_imm)"
  by (rule row_okI) (simp_all add: b_msr_imm_def fenc_simps)

lemma rok_mrs [rows_ok]:
  "layout_ok m v (sysreg_bits r) [(0, 5)] \<Longrightarrow>
   row_ok m v (b_mrs r)"
  by (rule row_okI) (simp_all add: b_mrs_def fenc_simps)

lemma rok_ldst_post [rows_ok]:
  "layout_ok m v (0x38000400 OR ldst_bits op) [(0, 5), (5, 5), (12, 9)] \<Longrightarrow>
   row_ok m v (b_ldst op wd (mem_post (simm 12 9)))"
  by (rule row_okI) (simp_all add: b_ldst_def fenc_simps)

lemma rok_fp_ldst_post [rows_ok]:
  "layout_ok m v (0x38000400 OR 0x04000000 OR vsize_bits sz OR load_bit ld) [(0, 5), (5, 5), (12, 9)] \<Longrightarrow>
   row_ok m v (b_fp_ldst ld sz (mem_post (simm 12 9)))"
  by (rule row_okI) (simp_all add: b_fp_ldst_def fenc_simps)

lemma rok_ldst_pre [rows_ok]:
  "layout_ok m v (0x38000c00 OR ldst_bits op) [(0, 5), (5, 5), (12, 9)] \<Longrightarrow>
   row_ok m v (b_ldst op wd (mem_pre (simm 12 9)))"
  by (rule row_okI) (simp_all add: b_ldst_def fenc_simps)

lemma rok_fp_ldst_pre [rows_ok]:
  "layout_ok m v (0x38000c00 OR 0x04000000 OR vsize_bits sz OR load_bit ld) [(0, 5), (5, 5), (12, 9)] \<Longrightarrow>
   row_ok m v (b_fp_ldst ld sz (mem_pre (simm 12 9)))"
  by (rule row_okI) (simp_all add: b_fp_ldst_def fenc_simps)

lemma rok_ldst_off [rows_ok]:
  "layout_ok m v (0x39000000 OR ldst_bits op) [(0, 5), (5, 5), (10, 12)] \<Longrightarrow>
   row_ok m v (b_ldst op wd (mem_off (uimm 10 12)))"
  by (rule row_okI) (simp_all add: b_ldst_def fenc_simps)

lemma rok_fp_ldst_off [rows_ok]:
  "layout_ok m v (0x39000000 OR 0x04000000 OR vsize_bits sz OR load_bit ld) [(0, 5), (5, 5), (10, 12)] \<Longrightarrow>
   row_ok m v (b_fp_ldst ld sz (mem_off (uimm 10 12)))"
  by (rule row_okI) (simp_all add: b_fp_ldst_def fenc_simps)

lemma rok_ldst_offs [rows_ok]:
  "layout_ok m v (0x39000000 OR ldst_bits op) [(0, 5), (5, 5), (10, 12)] \<Longrightarrow>
   row_ok m v (b_ldst op wd (mem_off (suimm 10 12 s)))"
  by (rule row_okI) (simp_all add: b_ldst_def fenc_simps)

lemma rok_fp_ldst_offs [rows_ok]:
  "layout_ok m v (0x39000000 OR 0x04000000 OR vsize_bits sz OR load_bit ld) [(0, 5), (5, 5), (10, 12)] \<Longrightarrow>
   row_ok m v (b_fp_ldst ld sz (mem_off (suimm 10 12 s)))"
  by (rule row_okI) (simp_all add: b_fp_ldst_def fenc_simps)

lemma rok_ldst_unscaled [rows_ok]:
  "layout_ok m v (0x38000000 OR ldst_bits op) [(0, 5), (5, 5), (12, 9)] \<Longrightarrow>
   row_ok m v (b_ldst_unscaled op wd)"
  by (rule row_okI) (simp_all add: b_ldst_unscaled_def fenc_simps)

lemma rok_ldst_unpriv [rows_ok]:
  "layout_ok m v (0x38000800 OR ldst_bits op) [(0, 5), (5, 5), (12, 9)] \<Longrightarrow>
   row_ok m v (b_ldst_unpriv op wd)"
  by (rule row_okI) (simp_all add: b_ldst_unpriv_def fenc_simps)

lemma rok_pair_off [rows_ok]:
  "layout_ok m v (0x29000000 OR pair_bits op) [(10, 5), (0, 5), (5, 5), (15, 7)] \<Longrightarrow>
   row_ok m v (b_pair op wd (mem_off (ssimm 15 7 s)))"
  by (rule row_okI) (simp_all add: b_pair_def fenc_simps)

lemma rok_fp_pair_off [rows_ok]:
  "layout_ok m v (0x29000000 OR 0x04000000 OR vpair_bits sz OR load_bit ld) [(10, 5), (0, 5), (5, 5), (15, 7)] \<Longrightarrow>
   row_ok m v (b_fp_pair ld sz (mem_off (ssimm 15 7 s)))"
  by (rule row_okI) (simp_all add: b_fp_pair_def fenc_simps)

lemma rok_pair_pre [rows_ok]:
  "layout_ok m v (0x29800000 OR pair_bits op) [(10, 5), (0, 5), (5, 5), (15, 7)] \<Longrightarrow>
   row_ok m v (b_pair op wd (mem_pre (ssimm 15 7 s)))"
  by (rule row_okI) (simp_all add: b_pair_def fenc_simps)

lemma rok_fp_pair_pre [rows_ok]:
  "layout_ok m v (0x29800000 OR 0x04000000 OR vpair_bits sz OR load_bit ld) [(10, 5), (0, 5), (5, 5), (15, 7)] \<Longrightarrow>
   row_ok m v (b_fp_pair ld sz (mem_pre (ssimm 15 7 s)))"
  by (rule row_okI) (simp_all add: b_fp_pair_def fenc_simps)

lemma rok_pair_post [rows_ok]:
  "layout_ok m v (0x28800000 OR pair_bits op) [(10, 5), (0, 5), (5, 5), (15, 7)] \<Longrightarrow>
   row_ok m v (b_pair op wd (mem_post (ssimm 15 7 s)))"
  by (rule row_okI) (simp_all add: b_pair_def fenc_simps)

lemma rok_fp_pair_post [rows_ok]:
  "layout_ok m v (0x28800000 OR 0x04000000 OR vpair_bits sz OR load_bit ld) [(10, 5), (0, 5), (5, 5), (15, 7)] \<Longrightarrow>
   row_ok m v (b_fp_pair ld sz (mem_post (ssimm 15 7 s)))"
  by (rule row_okI) (simp_all add: b_fp_pair_def fenc_simps)

lemma rok_ldst_reg [rows_ok]:
  "layout_ok m v (0x38200800 OR ldst_bits op) [(16, 5), (13, 3), (12, 1), (5, 5), (0, 5)] \<Longrightarrow>
   row_ok m v (b_ldst_reg op wd)"
  by (rule row_okI) (simp_all add: b_ldst_reg_def fenc_simps)

lemma rok_ldst_reg_bl [rows_ok]:
  "layout_ok m v (0x38206800 OR ldst_bits op) [(16, 5), (12, 1), (5, 5), (0, 5)] \<Longrightarrow>
   row_ok m v (b_ldst_reg_bl op wd)"
  by (rule row_okI) (simp_all add: b_ldst_reg_bl_def fenc_simps)

lemma rok_lit [rows_ok]:
  "layout_ok m v (lit_bits op) [(5, 19), (0, 5)] \<Longrightarrow>
   row_ok m v (b_lit op wd)"
  by (rule row_okI) (simp_all add: b_lit_def fenc_simps)

lemma rok_prfm_imm [rows_ok]:
  "layout_ok m v (0xf9800000) [(10, 12), (5, 5), (0, 5)] \<Longrightarrow>
   row_ok m v (b_prfm_imm)"
  by (rule row_okI) (simp_all add: b_prfm_imm_def fenc_simps)

lemma rok_prfm_lit [rows_ok]:
  "layout_ok m v (0xd8000000) [(5, 19), (0, 5)] \<Longrightarrow>
   row_ok m v (b_prfm_lit)"
  by (rule row_okI) (simp_all add: b_prfm_lit_def fenc_simps)

lemma rok_prfm_reg [rows_ok]:
  "layout_ok m v (0xf8a04800) [(16, 5), (13, 3), (12, 1), (5, 5), (0, 5)] \<Longrightarrow>
   row_ok m v (b_prfm_reg)"
  by (rule row_okI) (simp_all add: b_prfm_reg_def fenc_simps)

lemma rok_ord [rows_ok]:
  "layout_ok m v (ord_bits op) [(5, 5), (0, 5)] \<Longrightarrow>
   row_ok m v (b_ord op wd)"
  by (rule row_okI) (simp_all add: b_ord_def fenc_simps)

lemma rok_atomic [rows_ok]:
  "layout_ok m v (lse_bits op OR atomic_size_bits sz OR order_bits op ord) [(16, 5), (5, 5), (0, 5)] \<Longrightarrow>
   row_ok m v (b_atomic op sz ord wd)"
  by (rule row_okI) (simp_all add: b_atomic_def fenc_simps)

lemma rok_fp_unscaled [rows_ok]:
  "layout_ok m v (0x3c000000 OR vsize_bits sz OR load_bit ld) [(0, 5), (5, 5), (12, 9)] \<Longrightarrow>
   row_ok m v (b_fp_unscaled ld sz)"
  by (rule row_okI) (simp_all add: b_fp_unscaled_def fenc_simps)

lemma rok_fp_multi_no [rows_ok]:
  "layout_ok m v (0x0c000000 OR multi_count_bits n OR load_bit ld) [(30, 1), (10, 2), (5, 5), (0, 5)] \<Longrightarrow>
   row_ok m v (b_fp_multi ld n MNoIndex)"
  by (rule row_okI) (simp_all add: b_fp_multi_def fenc_simps)

lemma rok_fp_multi_imm [rows_ok]:
  "layout_ok m v (0x0c9f0000 OR multi_count_bits n OR load_bit ld) [(30, 1), (10, 2), (5, 5), (0, 5)] \<Longrightarrow>
   row_ok m v (b_fp_multi ld n MImmIndex)"
  by (rule row_okI) (simp_all add: b_fp_multi_def fenc_simps)

lemma rok_fp_multi_reg [rows_ok]:
  "layout_ok m v (0x0c800000 OR multi_count_bits n OR load_bit ld) [(30, 1), (16, 5), (10, 2), (5, 5), (0, 5)] \<Longrightarrow>
   row_ok m v (b_fp_multi_reg ld n)"
  by (rule row_okI) (simp_all add: b_fp_multi_reg_def fenc_simps)

lemma rok_fp_reg [rows_ok]:
  "layout_ok m v (0x3c200800 OR vsize_bits sz OR load_bit ld) [(16, 5), (13, 3), (12, 1), (5, 5), (0, 5)] \<Longrightarrow>
   row_ok m v (b_fp_reg ld sz)"
  by (rule row_okI) (simp_all add: b_fp_reg_def fenc_simps)

lemma rok_fp_reg_bl [rows_ok]:
  "layout_ok m v (0x3c206800 OR vsize_bits sz OR load_bit ld) [(16, 5), (12, 1), (5, 5), (0, 5)] \<Longrightarrow>
   row_ok m v (b_fp_reg_bl ld sz)"
  by (rule row_okI) (simp_all add: b_fp_reg_bl_def fenc_simps)

text \<open>\<open>SimdReg\<close> forms keep their word.\<close>

lemma rok_simd [rows_ok]:
  "row_ok m v (b_simd f)" "row_ok m v (b_simd_rn f wd)" "row_ok m v (b_simd_rd f wd)"
  by (simp_all add: row_ok_def encode_def b_simd_def b_simd_rn_def b_simd_rd_def)

subsubsection \<open>Every row of the decoder\<close>

definition rows_fit :: "a64_row list \<Rightarrow> bool" where
  "rows_fit rs \<longleftrightarrow> (\<forall>(m, v, ex, b) \<in> set rs. row_ok m v b)"

lemma rows_fit_simps [simp]:
  "rows_fit []"
  "rows_fit ((m, v, ex, b) # rs) \<longleftrightarrow> row_ok m v b \<and> rows_fit rs"
  "rows_fit (rs @ rs') \<longleftrightarrow> rows_fit rs \<and> rows_fit rs'"
  by (simp_all add: rows_fit_def ball_Un)

lemmas fit_eval = layout_ok_def sf_def fmask_def load_bit_def mask_eq_exp_minus_1

lemma fit_rows_1: "rows_fit decode_rows_1"
  by (simp add: decode_rows_1_def rows_ok fit_eval)

lemma fit_rows_2: "rows_fit decode_rows_2"
  by (simp add: decode_rows_2_def rows_ok fit_eval)

lemma fit_rows_3: "rows_fit decode_rows_3"
  by (simp add: decode_rows_3_def rows_ok fit_eval)

lemma fit_rows_4: "rows_fit decode_rows_4"
  by (simp add: decode_rows_4_def rows_ok fit_eval)

lemma fit_rows_5: "rows_fit decode_rows_5"
  by (simp add: decode_rows_5_def rows_ok fit_eval)

lemma fit_rows_6: "rows_fit decode_rows_6"
  by (simp add: decode_rows_6_def rows_ok fit_eval)

lemma fit_rows_7: "rows_fit decode_rows_7"
  by (simp add: decode_rows_7_def rows_ok fit_eval)

lemma fit_rows_8: "rows_fit decode_rows_8"
  by (simp add: decode_rows_8_def rows_ok fit_eval)

lemma fit_rows_9: "rows_fit decode_rows_9"
  by (simp add: decode_rows_9_def rows_ok fit_eval)

lemma fit_rows_10: "rows_fit decode_rows_10"
  by (simp add: decode_rows_10_def rows_ok fit_eval)

lemma fit_rows_11: "rows_fit decode_rows_11"
  by (simp add: decode_rows_11_def rows_ok fit_eval)

lemma fit_rows_12: "rows_fit decode_rows_12"
  by (simp add: decode_rows_12_def rows_ok fit_eval)

lemma fit_rows_13: "rows_fit decode_rows_13"
  by (simp add: decode_rows_13_def rows_ok fit_eval)

lemma fit_rows_14: "rows_fit decode_rows_14"
  by (simp add: decode_rows_14_def rows_ok fit_eval)

lemma fit_rows_15: "rows_fit decode_rows_15"
  by (simp add: decode_rows_15_def rows_ok fit_eval)

lemma fit_rows_16: "rows_fit decode_rows_16"
  by (simp add: decode_rows_16_def rows_ok fit_eval)

lemma fit_rows_17: "rows_fit decode_rows_17"
  by (simp add: decode_rows_17_def rows_ok fit_eval)

lemma fit_rows_18: "rows_fit decode_rows_18"
  by (simp add: decode_rows_18_def rows_ok fit_eval)

lemma fit_rows_19: "rows_fit decode_rows_19"
  by (simp add: decode_rows_19_def rows_ok fit_eval)

lemma fit_rows_20: "rows_fit decode_rows_20"
  by (simp add: decode_rows_20_def rows_ok fit_eval)

lemma first_row_encode:
  "rows_fit rs \<Longrightarrow> first_row rs w = Some i \<Longrightarrow> encode i = Some w"
  by (induction rs w rule: first_row.induct) (auto simp: row_ok_def split: if_splits)

lemma decode_rows_fit: "rows_fit decode_rows"
  by (simp only: decode_rows_def rows_fit_simps
    fit_rows_1
    fit_rows_2
    fit_rows_3
    fit_rows_4
    fit_rows_5
    fit_rows_6
    fit_rows_7
    fit_rows_8
    fit_rows_9
    fit_rows_10
    fit_rows_11
    fit_rows_12
    fit_rows_13
    fit_rows_14
    fit_rows_15
    fit_rows_16
    fit_rows_17
    fit_rows_18
    fit_rows_19
    fit_rows_20)

lemma encode_decoded: "decode_a64_insn w = Some i \<Longrightarrow> encode i = Some w"
  using first_row_encode [OF decode_rows_fit] by (simp add: decode_a64_insn_def)



end
