(* ===== verification/Abi.thy ===== *)
theory Abi
  imports A64Encode
begin

section \<open>The ABI between the runtime and the fragments: registers, frame, exit statuses\<close>

text \<open>
  Models \<open>shared/abi/regs.rs\<close> and \<open>shared/abi/frame.rs\<close>: the register assignment, the layout of
  the runtime frame and of \<open>pt_regs\<close>, the exit statuses, and the slot functions of the branch
  dispatch table (IBTC).
\<close>

subsection \<open>Registers\<close>

definition RET_STATUS_REG :: nat where [kdefs]: "RET_STATUS_REG = 9"
definition RET_PARAM0_REG :: nat where [kdefs]: "RET_PARAM0_REG = 10"
definition RET_PARAM1_REG :: nat where [kdefs]: "RET_PARAM1_REG = 11"
definition DISPATCH_SLOT_REG :: nat where [kdefs]: "DISPATCH_SLOT_REG = 12"
definition DISPATCH_TARGET_REG :: nat where [kdefs]: "DISPATCH_TARGET_REG = 13"
definition DISPATCH_KEY_REG :: nat where [kdefs]: "DISPATCH_KEY_REG = 14"
definition REG_VIRT_SCRATCH_GPR_LIMIT :: nat where [kdefs]: "REG_VIRT_SCRATCH_GPR_LIMIT = 4"
definition REG_VIRT_SCRATCH_GPR_START :: nat where [kdefs]: "REG_VIRT_SCRATCH_GPR_START = 12"
definition REG_VIRT_SCRATCH_GPR_END :: nat where [kdefs]: "REG_VIRT_SCRATCH_GPR_END = 15"
definition BUDGET_COUNTER_REG :: nat where [kdefs]: "BUDGET_COUNTER_REG = 18"
definition REG_VIRT_STACK_BACKED_REG_START :: nat where [kdefs]: "REG_VIRT_STACK_BACKED_REG_START = 12"
definition REG_VIRT_STACK_BACKED_REG_END :: nat where [kdefs]: "REG_VIRT_STACK_BACKED_REG_END = 17"
definition REG_VIRT_STACK_BACKED_X18_REG :: nat where
  [kdefs]: "REG_VIRT_STACK_BACKED_X18_REG = BUDGET_COUNTER_REG"
definition USER_VA_BITS :: nat where [kdefs]: "USER_VA_BITS = 48"
definition PAN_WINDOW_RANGE_TOP_BIT :: nat where [kdefs]: "PAN_WINDOW_RANGE_TOP_BIT = 55"

definition reg_virt_is_stack_backed :: "nat \<Rightarrow> bool" where
  "reg_virt_is_stack_backed reg \<longleftrightarrow>
    (reg \<ge> REG_VIRT_STACK_BACKED_REG_START \<and> reg \<le> REG_VIRT_STACK_BACKED_REG_END)
    \<or> reg = REG_VIRT_STACK_BACKED_X18_REG"

definition reg_virt_scratch_gpr :: "nat \<Rightarrow> nat option" where
  "reg_virt_scratch_gpr index =
    (if index \<ge> REG_VIRT_SCRATCH_GPR_LIMIT then None
     else Some (REG_VIRT_SCRATCH_GPR_START + index))"

subsection \<open>Exit statuses\<close>

datatype (plugins only: code size) ret_status =
    RsSvc | RsBl | RsBlr | RsBr | RsRet | RsMem | RsUnsupported | RsBudget | RsDebug
  | RsInvalid u64

fun as_reg :: "ret_status \<Rightarrow> u64" where
  "as_reg RsSvc = 0"
| "as_reg RsBl = 1"
| "as_reg RsBlr = 2"
| "as_reg RsBr = 3"
| "as_reg RsRet = 4"
| "as_reg RsMem = 5"
| "as_reg RsUnsupported = 6"
| "as_reg RsBudget = 7"
| "as_reg RsDebug = 8"
| "as_reg (RsInvalid v) = v"

definition from_reg :: "u64 \<Rightarrow> ret_status" where
  "from_reg value =
    (let v = value AND 0xFFFF in
     if v = 0 then RsSvc else if v = 1 then RsBl else if v = 2 then RsBlr
     else if v = 3 then RsBr else if v = 4 then RsRet else if v = 5 then RsMem
     else if v = 6 then RsUnsupported else if v = 7 then RsBudget
     else if v = 8 then RsDebug else RsInvalid v)"

lemma from_reg_low_bits: "from_reg (v AND 0xFFFF) = from_reg v"
  by (simp add: from_reg_def and.assoc)

lemma as_reg_from_reg: "as_reg (from_reg v) = v AND 0xFFFF"
  by (auto simp: from_reg_def Let_def)

subsection \<open>The runtime frame and \<open>pt_regs\<close>\<close>

definition RUNTIME_FRAME_SIZE_BYTES :: nat where [kdefs]: "RUNTIME_FRAME_SIZE_BYTES = 208"
definition RUNTIME_FRAME_ENTRY_ADDR_OFFSET :: nat where [kdefs]: "RUNTIME_FRAME_ENTRY_ADDR_OFFSET = 80"
definition RUNTIME_FRAME_PT_REGS_PTR_OFFSET :: nat where [kdefs]: "RUNTIME_FRAME_PT_REGS_PTR_OFFSET = 176"
definition RUNTIME_FRAME_USER_X18_OFFSET :: nat where [kdefs]: "RUNTIME_FRAME_USER_X18_OFFSET = 192"
definition RUNTIME_FRAME_IBTC_OFFSET :: nat where [kdefs]: "RUNTIME_FRAME_IBTC_OFFSET = 200"
definition EXTRA_PARAM_IBTC_TABLE_OFFSET :: nat where [kdefs]: "EXTRA_PARAM_IBTC_TABLE_OFFSET = 16"
definition KJIT_BACKEDGE_BUDGET :: nat where [kdefs]: "KJIT_BACKEDGE_BUDGET = 4096"

definition reg_virt_stack_backed_slot_offset :: "nat \<Rightarrow> nat option" where
  "reg_virt_stack_backed_slot_offset reg =
    (if reg = REG_VIRT_STACK_BACKED_X18_REG then Some RUNTIME_FRAME_USER_X18_OFFSET
     else if reg < REG_VIRT_STACK_BACKED_REG_START \<or> reg > REG_VIRT_STACK_BACKED_REG_END then None
     else Some (16 + (reg - REG_VIRT_STACK_BACKED_REG_START) * 8))"

definition pt_regs_x_slot_offset :: "nat \<Rightarrow> nat option" where
  "pt_regs_x_slot_offset reg = (if reg \<ge> 31 then None else Some (reg * 8))"

lemma stack_backed_slot_dom:
  "reg_virt_stack_backed_slot_offset r \<noteq> None \<longleftrightarrow> reg_virt_is_stack_backed r"
  by (auto simp: reg_virt_stack_backed_slot_offset_def reg_virt_is_stack_backed_def kdefs)

text \<open>
  C21: The frame slots of the stack-backed user registers never overlap: two different registers
  with a slot have disjoint 8-byte slots, all inside the 208-byte frame and clear of the saved
  x29/x30 pair, of the entry address, of the saved callee registers and of the two pointers.
\<close>

theorem stack_slots_disjoint:
  assumes "reg_virt_stack_backed_slot_offset r = Some a"
    and "reg_virt_stack_backed_slot_offset s = Some b" and "r \<noteq> s"
  shows "(a + 8 \<le> b \<or> b + 8 \<le> a)
    \<and> (16 \<le> a \<and> a + 8 \<le> 64 \<or> a = RUNTIME_FRAME_USER_X18_OFFSET)
    \<and> a + 8 \<le> RUNTIME_FRAME_SIZE_BYTES"
  using assms by (auto simp: reg_virt_stack_backed_slot_offset_def kdefs split: if_splits)

theorem stack_slots_disjoint_witness:
  "((16::nat) + 8 \<le> 192 \<or> 192 + 8 \<le> (16::nat))
    \<and> (16 \<le> (16::nat) \<and> 16 + 8 \<le> (64::nat) \<or> 16 = RUNTIME_FRAME_USER_X18_OFFSET)
    \<and> 16 + 8 \<le> RUNTIME_FRAME_SIZE_BYTES"
  by (rule stack_slots_disjoint [of 12 16 18 192])
    (simp_all add: reg_virt_stack_backed_slot_offset_def kdefs)

end
