(* ===== verification/Dispatch.thy ===== *)
theory Dispatch
  imports Abi
begin

section \<open>The branch dispatch tables (IBTC): slots, publish plan, lookup, retire\<close>

text \<open>
  Models \<open>shared/abi/dispatch.rs\<close> (the slots of a pc, the publish plan) and the slot functions of
  \<open>shared/abi/frame.rs\<close>. A table is a map from word indices to records; \<open>lookup\<close> is what the
  dispatch template does (main slot, then victim slot, full pc compare), \<open>publish\<close> performs the
  planned stores in order, \<open>clear\<close> is what a retire does for one label. The locale
  \<open>dispatch_table\<close> is the contract the runtime relies on, with its consequence for any history
  of publishes and retires; it is interpreted on these definitions.
\<close>

subsection \<open>Slots\<close>

definition IBTC_SLOTS :: nat where [kdefs]: "IBTC_SLOTS = 4096"
definition IBTC_VICTIM_SLOTS :: nat where [kdefs]: "IBTC_VICTIM_SLOTS = 256"
definition IBTC_TABLE_WORDS :: nat where [kdefs]: "IBTC_TABLE_WORDS = IBTC_SLOTS + IBTC_VICTIM_SLOTS"

definition ibtc_slot_index :: "u64 \<Rightarrow> nat" where
  "ibtc_slot_index pc = unat (drop_bit 2 pc AND 0xfff)"

definition ibtc_victim_index :: "u64 \<Rightarrow> nat" where
  "ibtc_victim_index pc = IBTC_SLOTS + unat (drop_bit 2 (pc XOR drop_bit 12 pc) AND 0xff)"

definition ibtc_lookup_slots :: "u64 \<Rightarrow> nat list" where
  "ibtc_lookup_slots pc = [ibtc_slot_index pc, ibtc_victim_index pc]"

lemma and_mask_lt: "unat ((x::u64) AND 0xfff) < 4096" "unat ((x::u64) AND 0xff) < 256"
proof -
  have "x AND 0xfff = take_bit 12 x" "x AND 0xff = take_bit 8 x"
    by (simp_all add: take_bit_eq_mask mask_eq_exp_minus_1)
  then show "unat (x AND 0xfff) < 4096" "unat (x AND 0xff) < 256"
    using take_bit_nat_less_exp [of 12 "unat x"] take_bit_nat_less_exp [of 8 "unat x"]
    by (simp_all add: unsigned_take_bit_eq)
qed

lemma slot_index_lt: "ibtc_slot_index pc < IBTC_SLOTS"
  by (simp add: ibtc_slot_index_def and_mask_lt IBTC_SLOTS_def)

lemma victim_index_bounds:
  "IBTC_SLOTS \<le> ibtc_victim_index pc" "ibtc_victim_index pc < IBTC_TABLE_WORDS"
  by (simp_all add: ibtc_victim_index_def kdefs and_mask_lt)

text \<open>
  C19: The dispatch template and the publish plan look at exactly two slots for a pc, the main one
  first: the first lies in the main part of the table, the second in the victim part behind it, and
  both inside the table. So no main slot of one pc is the victim slot of another.
\<close>

theorem lookup_slots_in_table:
  "\<exists>main victim. ibtc_lookup_slots pc = [main, victim] \<and> main < IBTC_SLOTS \<and>
    IBTC_SLOTS \<le> victim \<and> victim < IBTC_TABLE_WORDS"
  using slot_index_lt [of pc] victim_index_bounds [of pc] by (simp add: ibtc_lookup_slots_def)

lemma slot_ne_victim [simp]: "ibtc_slot_index pc \<noteq> ibtc_victim_index q"
  using slot_index_lt [of pc] victim_index_bounds(1) [of q] by linarith

lemma victim_ne_slot [simp]: "ibtc_victim_index q \<noteq> ibtc_slot_index pc"
  using slot_ne_victim by metis

subsection \<open>The publish plan\<close>

datatype (plugins only: code size) ibtc_source = SrcNew | SrcSlot nat

record ibtc_store =
  st_dst :: nat
  st_src :: ibtc_source

definition ibtc_plan_publish :: "u64 \<Rightarrow> (nat \<Rightarrow> u64 option) \<Rightarrow> ibtc_store list" where
  "ibtc_plan_publish pc resident =
    (let main = ibtc_slot_index pc; victim = ibtc_victim_index pc;
         new = \<lparr>st_dst = main, st_src = SrcNew\<rparr>
     in if resident main = Some pc \<or> resident victim = Some pc then []
        else case resident main of
            None \<Rightarrow> [new]
          | Some evicted_pc \<Rightarrow>
              [\<lparr>st_dst = ibtc_victim_index evicted_pc, st_src = SrcSlot main\<rparr>, new])"

text \<open>A table: the record in each word, if any. The stores of a plan, one at a time, in order.\<close>

type_synonym 'r table = "nat \<Rightarrow> 'r option"

definition apply_store :: "'r \<Rightarrow> ibtc_store \<Rightarrow> 'r table \<Rightarrow> 'r table" where
  "apply_store new st t =
    t(st_dst st := (case st_src st of SrcNew \<Rightarrow> Some new | SrcSlot s \<Rightarrow> t s))"

definition apply_stores :: "'r \<Rightarrow> ibtc_store list \<Rightarrow> 'r table \<Rightarrow> 'r table" where
  "apply_stores new sts t = fold (apply_store new) sts t"

definition publish :: "('r \<Rightarrow> u64) \<Rightarrow> 'r \<Rightarrow> 'r table \<Rightarrow> 'r table" where
  "publish pc_of r t =
    apply_stores r (ibtc_plan_publish (pc_of r) (\<lambda>s. map_option pc_of (t s))) t"

text \<open>What the template computes: the main slot's record if its pc is the target, else the victim's.\<close>

definition lookup :: "('r \<Rightarrow> u64) \<Rightarrow> 'r table \<Rightarrow> u64 \<Rightarrow> 'r option" where
  "lookup pc_of t pc =
    (case t (ibtc_slot_index pc) of
       Some r \<Rightarrow> if pc_of r = pc then Some r
                 else (case t (ibtc_victim_index pc) of
                         Some r' \<Rightarrow> if pc_of r' = pc then Some r' else None
                       | None \<Rightarrow> None)
     | None \<Rightarrow> (case t (ibtc_victim_index pc) of
                  Some r' \<Rightarrow> if pc_of r' = pc then Some r' else None
                | None \<Rightarrow> None))"

text \<open>A retire clears the slots of the label's pc that still hold the label's record.\<close>

definition clear :: "('r \<Rightarrow> u64) \<Rightarrow> 'r \<Rightarrow> 'r table \<Rightarrow> 'r table" where
  "clear pc_of r t =
    (\<lambda>s. if s \<in> set (ibtc_lookup_slots (pc_of r)) \<and> t s = Some r then None else t s)"

definition empty_table :: "'r table" where
  "empty_table = (\<lambda>s. None)"

text \<open>Every record sits in one of its own pc's two slots.\<close>

definition table_wf :: "('r \<Rightarrow> u64) \<Rightarrow> 'r table \<Rightarrow> bool" where
  "table_wf pc_of t \<longleftrightarrow> (\<forall>s r. t s = Some r \<longrightarrow> s \<in> set (ibtc_lookup_slots (pc_of r)))"

definition held :: "'r table \<Rightarrow> 'r set" where
  "held t = ran t"

lemma in_lookup_slots [simp]:
  "s \<in> set (ibtc_lookup_slots pc) \<longleftrightarrow> s = ibtc_slot_index pc \<or> s = ibtc_victim_index pc"
  by (simp add: ibtc_lookup_slots_def)

lemma lookup_eq_Some:
  "lookup pc_of t pc = Some r \<Longrightarrow>
    pc_of r = pc \<and> (t (ibtc_slot_index pc) = Some r \<or> t (ibtc_victim_index pc) = Some r)"
  by (auto simp: lookup_def split: option.splits if_splits)

lemma lookup_found:
  "t s = Some r \<Longrightarrow> s \<in> set (ibtc_lookup_slots (pc_of r)) \<Longrightarrow> \<exists>r'. lookup pc_of t (pc_of r) = Some r'"
  by (auto simp: lookup_def split: option.splits)

lemma publish_cases:
  "publish pc_of r t =
    (let main = ibtc_slot_index (pc_of r); victim = ibtc_victim_index (pc_of r) in
     if map_option pc_of (t main) = Some (pc_of r) \<or> map_option pc_of (t victim) = Some (pc_of r) then t
     else case t main of
         None \<Rightarrow> t(main := Some r)
       | Some q \<Rightarrow> t(ibtc_victim_index (pc_of q) := Some q, main := Some r))"
  by (cases "t (ibtc_slot_index (pc_of r))")
    (auto simp: publish_def ibtc_plan_publish_def apply_stores_def apply_store_def Let_def)

lemma wf_publish: "table_wf pc_of t \<Longrightarrow> table_wf pc_of (publish pc_of r t)"
  by (auto simp: publish_cases table_wf_def Let_def split: option.splits if_splits)

lemma wf_clear: "table_wf pc_of t \<Longrightarrow> table_wf pc_of (clear pc_of r t)"
  by (auto simp: clear_def table_wf_def split: if_splits)

lemma wf_empty: "table_wf pc_of empty_table"
  by (simp add: table_wf_def empty_table_def)

lemma held_publish: "held (publish pc_of r t) \<subseteq> insert r (held t)"
  by (auto simp: publish_cases held_def ran_def Let_def split: option.splits if_splits)

lemma held_clear: "table_wf pc_of t \<Longrightarrow> held (clear pc_of r t) \<subseteq> held t - {r}"
  by (auto simp: clear_def held_def ran_def table_wf_def split: if_splits)

lemma lookup_publish: "\<exists>r'. lookup pc_of (publish pc_of r t) (pc_of r) = Some r'"
  by (auto simp: publish_cases lookup_def Let_def split: option.splits if_splits)

lemma lookup_held: "lookup pc_of t pc = Some r \<Longrightarrow> r \<in> held t"
  using lookup_eq_Some [of pc_of t pc r] by (auto simp: held_def ran_def)

text \<open>
  C16: Publishing a record never costs the record it displaces: whatever the main slot of the new
  record held before is still found by a lookup of its own pc afterwards, because it was moved to
  its victim slot first.
\<close>

theorem publish_keeps_displaced:
  assumes "table_wf pc_of t" and "t (ibtc_slot_index (pc_of r)) = Some q"
  shows "\<exists>q'. lookup pc_of (publish pc_of r t) (pc_of q) = Some q'"
proof -
  have main: "ibtc_slot_index (pc_of q) = ibtc_slot_index (pc_of r)"
    using assms by (fastforce simp: table_wf_def)
  show ?thesis
    using assms main by (auto simp: publish_cases lookup_def Let_def)
qed

theorem publish_keeps_displaced_witness:
  "\<exists>q'. lookup id (publish id 0x5000 (publish id 0x1000 empty_table)) (id (0x1000 :: u64)) = Some q'"
  by (rule publish_keeps_displaced)
    (simp_all add: wf_publish wf_empty, simp add: publish_cases empty_table_def ibtc_slot_index_def)

text \<open>
  C17: The stores of a publish are safe one by one: after the first store alone (a concurrent probe
  may run between the two), every word still holds a record the table held before or the new one,
  each in a slot of its own pc, and the record being moved is found.
\<close>

theorem publish_stores_safe:
  assumes wf: "table_wf pc_of t"
    and plan: "ibtc_plan_publish (pc_of r) (\<lambda>s. map_option pc_of (t s)) = st # rest"
    and main: "t (ibtc_slot_index (pc_of r)) = Some q"
  shows "table_wf pc_of (apply_store r st t) \<and> held (apply_store r st t) \<subseteq> insert r (held t) \<and>
    (\<exists>q'. lookup pc_of (apply_store r st t) (pc_of q) = Some q')"
proof -
  have st: "apply_store r st t = t(ibtc_victim_index (pc_of q) := Some q)"
    using plan main
    by (auto simp: ibtc_plan_publish_def Let_def apply_store_def split: if_splits)
  have "ibtc_slot_index (pc_of q) = ibtc_slot_index (pc_of r)"
    using wf main by (fastforce simp: table_wf_def)
  then have "\<exists>q'. lookup pc_of (apply_store r st t) (pc_of q) = Some q'"
    using main by (simp add: st lookup_def)
  moreover have "held (apply_store r st t) \<subseteq> insert r (held t)"
    using main by (auto simp: st held_def ran_def)
  moreover have "table_wf pc_of (apply_store r st t)"
    using wf by (simp add: st table_wf_def)
  ultimately show ?thesis by simp
qed

theorem publish_stores_safe_witness:
  "table_wf id (apply_store (0x5000::u64) \<lparr>st_dst = ibtc_victim_index 0x1000, st_src = SrcSlot 0x400\<rparr>
      (publish id 0x1000 empty_table)) \<and>
   held (apply_store (0x5000::u64) \<lparr>st_dst = ibtc_victim_index 0x1000, st_src = SrcSlot 0x400\<rparr>
      (publish id 0x1000 empty_table)) \<subseteq> insert 0x5000 (held (publish id 0x1000 empty_table)) \<and>
   (\<exists>q'. lookup id (apply_store (0x5000::u64)
        \<lparr>st_dst = ibtc_victim_index 0x1000, st_src = SrcSlot 0x400\<rparr>
        (publish id 0x1000 empty_table)) (id 0x1000) = Some q')"
  by (rule publish_stores_safe
      [where rest = "[\<lparr>st_dst = 0x400, st_src = SrcNew\<rparr>]"])
    (simp_all add: wf_publish wf_empty, simp_all add: publish_cases empty_table_def
      ibtc_plan_publish_def ibtc_slot_index_def ibtc_victim_index_def IBTC_SLOTS_def)

subsection \<open>The contract of a dispatch table\<close>

datatype (plugins only: code size) 'r table_op = Publish 'r | Retire 'r

text \<open>The records published and not retired since.\<close>

fun live_after :: "'r table_op list \<Rightarrow> 'r set" where
  "live_after [] = {}"
| "live_after (Publish r # ops) = insert r (live_after ops)"
| "live_after (Retire r # ops) = live_after ops - {r}"

locale dispatch_table =
  fixes wf :: "'t \<Rightarrow> bool" and contents :: "'t \<Rightarrow> 'r set" and pc_of :: "'r \<Rightarrow> u64"
    and look :: "'t \<Rightarrow> u64 \<Rightarrow> 'r option" and pub :: "'r \<Rightarrow> 't \<Rightarrow> 't" and clr :: "'r \<Rightarrow> 't \<Rightarrow> 't"
    and new_table :: 't
  assumes wf_new: "wf new_table" and contents_new: "contents new_table = {}"
    and wf_pub: "wf t \<Longrightarrow> wf (pub r t)" and wf_clr: "wf t \<Longrightarrow> wf (clr r t)"
    and contents_pub: "wf t \<Longrightarrow> contents (pub r t) \<subseteq> insert r (contents t)"
    and contents_clr: "wf t \<Longrightarrow> contents (clr r t) \<subseteq> contents t - {r}"
    and look_pc: "look t pc = Some r \<Longrightarrow> pc_of r = pc"
    and look_contents: "look t pc = Some r \<Longrightarrow> r \<in> contents t"
    and look_pub: "wf t \<Longrightarrow> look (pub r t) (pc_of r) \<noteq> None"
begin

text \<open>The table after a history of operations, the latest first.\<close>

fun after :: "'r table_op list \<Rightarrow> 't" where
  "after [] = new_table"
| "after (Publish r # ops) = pub r (after ops)"
| "after (Retire r # ops) = clr r (after ops)"

lemma wf_after: "wf (after ops)"
  by (induction ops rule: after.induct) (simp_all add: wf_new wf_pub wf_clr)

lemma contents_after: "contents (after ops) \<subseteq> live_after ops"
proof (induction ops rule: after.induct)
  case 1
  then show ?case by (simp add: contents_new)
next
  case (2 r ops)
  then show ?case using contents_pub [OF wf_after, of r ops] by auto
next
  case (3 r ops)
  then show ?case using contents_clr [OF wf_after, of r ops] by auto
qed

text \<open>A lookup never returns a record that was retired, nor one of another pc.\<close>

lemma look_live: "look (after ops) pc = Some r \<Longrightarrow> r \<in> live_after ops \<and> pc_of r = pc"
  using look_pc look_contents contents_after by blast

lemma look_after_pub: "look (after (Publish r # ops)) (pc_of r) \<noteq> None"
  using look_pub [OF wf_after] by simp

end

interpretation ibtc: dispatch_table "table_wf pc_of" held pc_of "lookup pc_of" "publish pc_of"
    "clear pc_of" empty_table for pc_of :: "'r \<Rightarrow> u64"
proof unfold_locales
  show "held empty_table = {}" by (simp add: held_def empty_table_def)
  show "lookup pc_of t pc = Some r \<Longrightarrow> pc_of r = pc" for t :: "'r table" and pc r
    using lookup_eq_Some by metis
  show "lookup pc_of (publish pc_of r t) (pc_of r) \<noteq> None" for t :: "'r table" and r
    using lookup_publish [of pc_of r t] by simp
qed (simp_all add: wf_empty wf_publish wf_clear held_publish held_clear lookup_held)

text \<open>The table the operations of a run lead to, the latest operation first.\<close>

fun table_after :: "('r \<Rightarrow> u64) \<Rightarrow> 'r table_op list \<Rightarrow> 'r table" where
  "table_after pc_of [] = empty_table"
| "table_after pc_of (Publish r # ops) = publish pc_of r (table_after pc_of ops)"
| "table_after pc_of (Retire r # ops) = clear pc_of r (table_after pc_of ops)"

lemma table_after_eq: "table_after pc_of ops = ibtc.after pc_of ops"
  by (induction ops rule: live_after.induct) simp_all

text \<open>
  C18: For any interleaving of publishes and retires, a dispatch lookup that hits returns a record
  of exactly the target pc that was published and has not been retired since: a fragment never
  branches into retired code or to code of another pc.
\<close>

theorem lookup_only_live:
  assumes "lookup pc_of (table_after pc_of ops) pc = Some r"
  shows "r \<in> live_after ops \<and> pc_of r = pc"
  using assms unfolding table_after_eq by (rule ibtc.look_live)

text \<open>Records as pcs, published at two pcs that share a main slot.\<close>

theorem lookup_only_live_witness:
  "(0x1000::u64) \<in> live_after [Publish 0x5000, Publish 0x1000] \<and> id (0x1000::u64) = 0x1000"
  by (rule lookup_only_live [of id "[Publish 0x5000, Publish 0x1000]" "0x1000" "0x1000"])
    (simp add: publish_cases lookup_def empty_table_def ibtc_slot_index_def ibtc_victim_index_def
      IBTC_SLOTS_def)

end
