(* ===== verification/AbiWrapper.thy ===== *)
theory AbiWrapper
  imports Dispatch
begin

section \<open>The prologue, the epilogue and the dispatch template\<close>

text \<open>
  Models \<open>shared/abi/wrapper.rs\<close>: the instruction sequences every fragment starts with (entry at
  offset 0, leaving through \<open>br x12\<close>) and leaves through (the epilogue, \<open>ret\<close>), and the one
  sequence that may branch through a table. They are data, compared word for word by the verifier.
\<close>

subsection \<open>Operand builders\<close>

definition e_uimm :: "u32 \<Rightarrow> nat \<Rightarrow> a64_imm" where
  "e_uimm r b = imm_unsigned r b"

definition ldst64_offset :: "nat \<Rightarrow> a64_imm" where
  "ldst64_offset b = imm_scaled_unsigned (of_nat (b div 8)) 12 3"

text \<open>The byte offset is a multiple of 8, so Rust's truncating division is the exact one.\<close>

definition ldstpair64_offset :: "int \<Rightarrow> a64_imm" where
  "ldstpair64_offset b = imm_scaled_signed (word_of_int (b div 8) AND 0x7F) 7 3"

subsection \<open>The wrapper\<close>

definition ABI_INSN_SIZE :: nat where [kdefs]: "ABI_INSN_SIZE = 4"

definition KJIT_PROLOGUE :: "a64_insn list" where
  "KJIT_PROLOGUE =
   [Mem (LdStPair Stp64 (reg_x 30) (reg_x 29) (MPreIndex reg_sp (ldstpair64_offset (- int RUNTIME_FRAME_SIZE_BYTES)))),
    Dp (AddSubImm AsAdd X64 0 (e_uimm 0 12) reg_sp (reg_x 29)),
    Mem (LdSt Str64 (reg_x 18) (MOffset reg_sp (ldst64_offset 88))),
    Mem (LdSt Str64 (reg_x 2) (MOffset reg_sp (ldst64_offset RUNTIME_FRAME_ENTRY_ADDR_OFFSET))),
    Mem (LdStPair Stp64 (reg_x 20) (reg_x 19) (MOffset reg_sp (ldstpair64_offset 96))),
    Mem (LdStPair Stp64 (reg_x 22) (reg_x 21) (MOffset reg_sp (ldstpair64_offset 112))),
    Mem (LdStPair Stp64 (reg_x 24) (reg_x 23) (MOffset reg_sp (ldstpair64_offset 128))),
    Mem (LdStPair Stp64 (reg_x 26) (reg_x 25) (MOffset reg_sp (ldstpair64_offset 144))),
    Mem (LdStPair Stp64 (reg_x 28) (reg_x 27) (MOffset reg_sp (ldstpair64_offset 160))),
    Dp (LogShift LgOrr X64 0 (reg_x 0) (e_uimm 0 6) reg_xzr (reg_x 16)),
    Dp (LogShift LgOrr X64 0 (reg_x 1) (e_uimm 0 6) reg_xzr (reg_x 17)),
    Mem (LdStPair Stp64 (reg_x 17) (reg_x 16) (MOffset reg_sp (ldstpair64_offset (int RUNTIME_FRAME_PT_REGS_PTR_OFFSET)))),
    Mem (LdSt Ldr64 (reg_x REG_VIRT_SCRATCH_GPR_START) (MOffset (reg_x 1) (ldst64_offset EXTRA_PARAM_IBTC_TABLE_OFFSET))),
    Mem (LdSt Str64 (reg_x REG_VIRT_SCRATCH_GPR_START) (MOffset reg_sp (ldst64_offset RUNTIME_FRAME_IBTC_OFFSET))),
    Mem (LdStPair Ldp64 (reg_x 1) (reg_x 0) (MOffset (reg_x 16) (ldstpair64_offset 0))),
    Mem (LdStPair Ldp64 (reg_x 3) (reg_x 2) (MOffset (reg_x 16) (ldstpair64_offset 16))),
    Mem (LdStPair Ldp64 (reg_x 5) (reg_x 4) (MOffset (reg_x 16) (ldstpair64_offset 32))),
    Mem (LdStPair Ldp64 (reg_x 7) (reg_x 6) (MOffset (reg_x 16) (ldstpair64_offset 48))),
    Mem (LdStPair Ldp64 (reg_x 9) (reg_x 8) (MOffset (reg_x 16) (ldstpair64_offset 64))),
    Mem (LdStPair Ldp64 (reg_x 11) (reg_x 10) (MOffset (reg_x 16) (ldstpair64_offset 80))),
    Mem (LdStPair Ldp64 (reg_x 13) (reg_x 12) (MOffset (reg_x 16) (ldstpair64_offset 96))),
    Mem (LdStPair Ldp64 (reg_x 15) (reg_x 14) (MOffset (reg_x 16) (ldstpair64_offset 112))),
    Mem (LdStPair Ldp64 (reg_x 19) (reg_x 18) (MOffset (reg_x 16) (ldstpair64_offset 144))),
    Mem (LdStPair Ldp64 (reg_x 21) (reg_x 20) (MOffset (reg_x 16) (ldstpair64_offset 160))),
    Mem (LdStPair Ldp64 (reg_x 23) (reg_x 22) (MOffset (reg_x 16) (ldstpair64_offset 176))),
    Mem (LdStPair Ldp64 (reg_x 25) (reg_x 24) (MOffset (reg_x 16) (ldstpair64_offset 192))),
    Mem (LdStPair Ldp64 (reg_x 27) (reg_x 26) (MOffset (reg_x 16) (ldstpair64_offset 208))),
    Mem (LdSt Ldr64 (reg_x 28) (MOffset (reg_x 16) (ldst64_offset 224))),
    Mem (LdSt Ldr64 (reg_x 30) (MOffset (reg_x 16) (ldst64_offset 240))),
    Mem (LdSt Ldr64 (reg_x 17) (MOffset (reg_x 16) (ldst64_offset 232))),
    Mem (LdSt Str64 (reg_x 17) (MOffset reg_sp (ldst64_offset 64))),
    Mem (LdSt Ldr64 (reg_x 17) (MOffset (reg_x 16) (ldst64_offset 248))),
    Mem (LdSt Str64 (reg_x 17) (MOffset reg_sp (ldst64_offset 72))),
    Mem (LdStPair Ldp64 (reg_x 17) (reg_x 16) (MOffset (reg_x 16) (ldstpair64_offset 128))),
    Mem (LdStPair Stp64 (reg_x 13) (reg_x 12) (MOffset reg_sp (ldstpair64_offset 16))),
    Mem (LdStPair Stp64 (reg_x 15) (reg_x 14) (MOffset reg_sp (ldstpair64_offset 32))),
    Mem (LdStPair Stp64 (reg_x 17) (reg_x 16) (MOffset reg_sp (ldstpair64_offset 48))),
    Mem (LdStPair Ldp64 (reg_x 17) (reg_x 16) (MOffset reg_sp (ldstpair64_offset 64))),
    Mem (LdSt Str64 (reg_x BUDGET_COUNTER_REG) (MOffset reg_sp (ldst64_offset RUNTIME_FRAME_USER_X18_OFFSET))),
    Dp (MoveWide Movz X64 0 (e_uimm (of_nat KJIT_BACKEDGE_BUDGET) 16) (reg_x BUDGET_COUNTER_REG)),
    Mem (LdSt Ldr64 (reg_x REG_VIRT_SCRATCH_GPR_START) (MOffset reg_sp (ldst64_offset RUNTIME_FRAME_ENTRY_ADDR_OFFSET))),
    Brn (Br (reg_x REG_VIRT_SCRATCH_GPR_START))]"

definition KJIT_EPILOGUE :: "a64_insn list" where
  "KJIT_EPILOGUE =
   [Mem (LdStPair Stp64 (reg_x 17) (reg_x 16) (MOffset reg_sp (ldstpair64_offset 64))),
    Mem (LdStPair Ldp64 (reg_x 17) (reg_x 16) (MOffset reg_sp (ldstpair64_offset (int RUNTIME_FRAME_PT_REGS_PTR_OFFSET)))),
    Mem (LdStPair Stp64 (reg_x RET_PARAM1_REG) (reg_x RET_PARAM0_REG) (MOffset (reg_x 17) (ldstpair64_offset 0))),
    Mem (LdStPair Ldp64 (reg_x 15) (reg_x 14) (MOffset reg_sp (ldstpair64_offset 16))),
    Mem (LdStPair Stp64 (reg_x 15) (reg_x 14) (MOffset (reg_x 16) (ldstpair64_offset 96))),
    Mem (LdStPair Ldp64 (reg_x 15) (reg_x 14) (MOffset reg_sp (ldstpair64_offset 32))),
    Mem (LdStPair Stp64 (reg_x 15) (reg_x 14) (MOffset (reg_x 16) (ldstpair64_offset 112))),
    Mem (LdStPair Ldp64 (reg_x 15) (reg_x 14) (MOffset reg_sp (ldstpair64_offset 48))),
    Mem (LdStPair Stp64 (reg_x 15) (reg_x 14) (MOffset (reg_x 16) (ldstpair64_offset 128))),
    Mem (LdSt Ldr64 (reg_x 14) (MOffset reg_sp (ldst64_offset 64))),
    Mem (LdSt Str64 (reg_x 14) (MOffset (reg_x 16) (ldst64_offset 232))),
    Mem (LdSt Ldr64 (reg_x 14) (MOffset reg_sp (ldst64_offset 72))),
    Mem (LdSt Str64 (reg_x 14) (MOffset (reg_x 16) (ldst64_offset 248))),
    Mem (LdStPair Stp64 (reg_x 1) (reg_x 0) (MOffset (reg_x 16) (ldstpair64_offset 0))),
    Mem (LdStPair Stp64 (reg_x 3) (reg_x 2) (MOffset (reg_x 16) (ldstpair64_offset 16))),
    Mem (LdStPair Stp64 (reg_x 5) (reg_x 4) (MOffset (reg_x 16) (ldstpair64_offset 32))),
    Mem (LdStPair Stp64 (reg_x 7) (reg_x 6) (MOffset (reg_x 16) (ldstpair64_offset 48))),
    Mem (LdSt Str64 (reg_x 8) (MOffset (reg_x 16) (ldst64_offset 64))),
    Mem (LdSt Ldr64 (reg_x BUDGET_COUNTER_REG) (MOffset reg_sp (ldst64_offset RUNTIME_FRAME_USER_X18_OFFSET))),
    Mem (LdStPair Stp64 (reg_x 19) (reg_x 18) (MOffset (reg_x 16) (ldstpair64_offset 144))),
    Mem (LdStPair Stp64 (reg_x 21) (reg_x 20) (MOffset (reg_x 16) (ldstpair64_offset 160))),
    Mem (LdStPair Stp64 (reg_x 23) (reg_x 22) (MOffset (reg_x 16) (ldstpair64_offset 176))),
    Mem (LdStPair Stp64 (reg_x 25) (reg_x 24) (MOffset (reg_x 16) (ldstpair64_offset 192))),
    Mem (LdStPair Stp64 (reg_x 27) (reg_x 26) (MOffset (reg_x 16) (ldstpair64_offset 208))),
    Mem (LdSt Str64 (reg_x 28) (MOffset (reg_x 16) (ldst64_offset 224))),
    Mem (LdSt Str64 (reg_x 30) (MOffset (reg_x 16) (ldst64_offset 240))),
    Dp (LogShift LgOrr X64 0 (reg_x RET_STATUS_REG) (e_uimm 0 6) reg_xzr (reg_x 0)),
    Mem (LdSt Ldr64 (reg_x 18) (MOffset reg_sp (ldst64_offset 88))),
    Mem (LdStPair Ldp64 (reg_x 20) (reg_x 19) (MOffset reg_sp (ldstpair64_offset 96))),
    Mem (LdStPair Ldp64 (reg_x 22) (reg_x 21) (MOffset reg_sp (ldstpair64_offset 112))),
    Mem (LdStPair Ldp64 (reg_x 24) (reg_x 23) (MOffset reg_sp (ldstpair64_offset 128))),
    Mem (LdStPair Ldp64 (reg_x 26) (reg_x 25) (MOffset reg_sp (ldstpair64_offset 144))),
    Mem (LdStPair Ldp64 (reg_x 28) (reg_x 27) (MOffset reg_sp (ldstpair64_offset 160))),
    Mem (LdStPair Ldp64 (reg_x 30) (reg_x 29) (MPostIndex reg_sp (ldstpair64_offset (int RUNTIME_FRAME_SIZE_BYTES)))),
    Brn (Ret (reg_x 30))]"

definition PROLOGUE_LEN_BYTES :: nat where
  "PROLOGUE_LEN_BYTES = length KJIT_PROLOGUE * ABI_INSN_SIZE"

definition EPILOGUE_OFFSET :: nat where
  "EPILOGUE_OFFSET = PROLOGUE_LEN_BYTES"

definition EPILOGUE_LEN_BYTES :: nat where
  "EPILOGUE_LEN_BYTES = length KJIT_EPILOGUE * ABI_INSN_SIZE"

lemma wrapper_lengths:
  "PROLOGUE_LEN_BYTES = 168" "EPILOGUE_OFFSET = 168" "EPILOGUE_LEN_BYTES = 140"
  by (simp_all add: PROLOGUE_LEN_BYTES_def EPILOGUE_LEN_BYTES_def EPILOGUE_OFFSET_def
      KJIT_PROLOGUE_def KJIT_EPILOGUE_def ABI_INSN_SIZE_def)

subsection \<open>The dispatch template\<close>

definition DISPATCH_TEMPLATE_LEN :: nat where [kdefs]: "DISPATCH_TEMPLATE_LEN = 20"

definition DISPATCH_TEMPLATE_MISS_BRANCHES :: "nat list" where
  [kdefs]: "DISPATCH_TEMPLATE_MISS_BRANCHES = [3, 6, 14, 17]"

definition DISPATCH_TEMPLATE_VICTIM_PROBE :: nat where [kdefs]: "DISPATCH_TEMPLATE_VICTIM_PROBE = 9"

definition DISPATCH_TEMPLATE_MISS_TARGETS :: "nat list" where
  "DISPATCH_TEMPLATE_MISS_TARGETS =
    [DISPATCH_TEMPLATE_VICTIM_PROBE, DISPATCH_TEMPLATE_VICTIM_PROBE,
     DISPATCH_TEMPLATE_LEN, DISPATCH_TEMPLATE_LEN]"

definition IBTC_BITS :: nat where [kdefs]: "IBTC_BITS = 12"
definition IBTC_INDEX_LSB :: nat where [kdefs]: "IBTC_INDEX_LSB = 2"
definition IBTC_VICTIM_BITS :: nat where [kdefs]: "IBTC_VICTIM_BITS = 8"
definition IBTC_VICTIM_FOLD_SHIFT :: nat where [kdefs]: "IBTC_VICTIM_FOLD_SHIFT = 12"
definition IBTC_VICTIM_OFFSET :: nat where [kdefs]: "IBTC_VICTIM_OFFSET = 32768"
definition IBTC_RECORD_PC_OFFSET :: nat where [kdefs]: "IBTC_RECORD_PC_OFFSET = 0"
definition IBTC_RECORD_HOST_OFFSET :: nat where [kdefs]: "IBTC_RECORD_HOST_OFFSET = 8"

definition w_table :: a64_insn where
  "w_table = Mem (LdSt Ldr64 (reg_x DISPATCH_SLOT_REG)
     (MOffset reg_sp (ldst64_offset RUNTIME_FRAME_IBTC_OFFSET)))"

definition w_ubfx :: "nat \<Rightarrow> nat \<Rightarrow> nat \<Rightarrow> nat \<Rightarrow> a64_insn" where
  "w_ubfx rd rn lsb wd = Dp (Bitfield Ubfm X64 (e_uimm (of_nat lsb) 6)
     (e_uimm (of_nat (lsb + wd - 1)) 6) (reg_x rn) (reg_x rd))"

definition w_slot :: a64_insn where
  "w_slot = Mem (LdStReg Ldr64 (reg_x DISPATCH_KEY_REG) (Some 3) 1 (reg_x DISPATCH_SLOT_REG)
     (reg_x DISPATCH_SLOT_REG))"

definition w_cbz_slot :: a64_insn where
  "w_cbz_slot = Brn (Cbz X64 (imm_scaled_signed 0 19 2) (reg_x DISPATCH_SLOT_REG))"

definition w_cbnz_key :: a64_insn where
  "w_cbnz_key = Brn (Cbnz X64 (imm_scaled_signed 0 19 2) (reg_x DISPATCH_KEY_REG))"

definition w_record_pc :: a64_insn where
  "w_record_pc = Mem (LdSt Ldr64 (reg_x DISPATCH_KEY_REG)
     (MOffset (reg_x DISPATCH_SLOT_REG) (ldst64_offset IBTC_RECORD_PC_OFFSET)))"

definition w_compare :: a64_insn where
  "w_compare = Dp (AddSubShift AsSub X64 0 (reg_x DISPATCH_TARGET_REG) (e_uimm 0 6)
     (reg_x DISPATCH_KEY_REG) (reg_x DISPATCH_KEY_REG))"

definition w_record_host :: a64_insn where
  "w_record_host = Mem (LdSt Ldr64 (reg_x DISPATCH_SLOT_REG)
     (MOffset (reg_x DISPATCH_SLOT_REG) (ldst64_offset IBTC_RECORD_HOST_OFFSET)))"

definition w_br :: a64_insn where
  "w_br = Brn (Br (reg_x DISPATCH_SLOT_REG))"

definition KJIT_DISPATCH_TEMPLATE :: "a64_insn list" where
  "KJIT_DISPATCH_TEMPLATE =
   [w_table,
    w_ubfx DISPATCH_KEY_REG DISPATCH_TARGET_REG IBTC_INDEX_LSB IBTC_BITS,
    w_slot, w_cbz_slot, w_record_pc, w_compare, w_cbnz_key, w_record_host, w_br,
    w_table,
    Dp (LogShift LgEor X64 1 (reg_x DISPATCH_TARGET_REG) (e_uimm (of_nat IBTC_VICTIM_FOLD_SHIFT) 6)
      (reg_x DISPATCH_TARGET_REG) (reg_x DISPATCH_KEY_REG)),
    w_ubfx DISPATCH_KEY_REG DISPATCH_KEY_REG IBTC_INDEX_LSB IBTC_VICTIM_BITS,
    Dp (AddSubImm AsAdd X64 1 (e_uimm (of_nat (IBTC_VICTIM_OFFSET div 2 ^ 12)) 12)
      (reg_x_sp DISPATCH_SLOT_REG) (reg_x_sp DISPATCH_SLOT_REG)),
    w_slot, w_cbz_slot, w_record_pc, w_compare, w_cbnz_key, w_record_host, w_br]"

definition MISS_BRANCH_IMM19_MASK :: u32 where
  "MISS_BRANCH_IMM19_MASK = 0x00ffffe0"

definition miss_branch_delta :: "u32 \<Rightarrow> int" where
  "miss_branch_delta w =
    sign_extend_a64 (drop_bit 5 (w AND MISS_BRANCH_IMM19_MASK)) 19 * int ABI_INSN_SIZE"

text \<open>The loop of \<open>dispatch_template_matches\<close> from word \<open>k\<close> on: the deltas still to come.\<close>

fun template_deltas :: "nat \<Rightarrow> (u32 \<times> a64_insn) list \<Rightarrow> int list option" where
  "template_deltas k [] = Some []"
| "template_deltas k ((w, expected) # rest) =
    (case encode expected of
       None \<Rightarrow> None
     | Some e \<Rightarrow>
         if k \<in> set DISPATCH_TEMPLATE_MISS_BRANCHES then
           (if w AND NOT MISS_BRANCH_IMM19_MASK \<noteq> e AND NOT MISS_BRANCH_IMM19_MASK then None
            else map_option ((#) (miss_branch_delta w)) (template_deltas (Suc k) rest))
         else if w \<noteq> e then None
         else template_deltas (Suc k) rest)"

definition dispatch_template_matches :: "u32 list \<Rightarrow> int list option" where
  "dispatch_template_matches words =
    (if length words \<noteq> DISPATCH_TEMPLATE_LEN then None
     else template_deltas 0 (zip words KJIT_DISPATCH_TEMPLATE))"

end
