(* ===== verification/VerifyRules.thy ===== *)
theory VerifyRules
  imports AbiWrapper
begin

section \<open>Verifier: per-instruction facts\<close>

text \<open>
  Models \<open>shared/verify/rules.rs\<close>: the form of a decoded word as far as the safety rules care, the
  general registers it writes and reads according to its operand roles (as bit masks, like the
  code), the user-state windows of the runtime frame, and the patterns of the budget check, the
  range check and the fills.
\<close>

subsection \<open>Forms\<close>

datatype (plugins only: code size) vform =
    FAlu | FNop | FBarrier | FMrsUserReg | FPcRelative
  | FBranch int bool
  | FUserAccess a64_mem
  | FUserOnly
  | FRuntimeAccess a64_mem nat bool
  | FCall | FIndirectBranch | FException
  | FWindowAccess a64_reg bool
  | FSimd | FMsr

text \<open>A base-only SIMD&FP access: offset addressing with offset 0.\<close>

fun is_base_only :: "a64_mem \<Rightarrow> bool" where
  "is_base_only (MOffset _ off) = (ivalue off = 0)"
| "is_base_only _ = False"

fun classify_ldst :: "a64_ldst \<Rightarrow> vform" where
  "classify_ldst (LdStUnpriv _ _ m) = FUserAccess m"
| "classify_ldst (LdStPair op _ _ m) =
    (case op of
       Ldp64 \<Rightarrow> FRuntimeAccess m 16 False
     | Stp64 \<Rightarrow> FRuntimeAccess m 16 True
     | _ \<Rightarrow> FUserOnly)"
| "classify_ldst (LdSt op _ m) =
    (case op of
       Ldr32 \<Rightarrow> FRuntimeAccess m 4 False
     | Ldr64 \<Rightarrow> FRuntimeAccess m 8 False
     | Str32 \<Rightarrow> FRuntimeAccess m 4 True
     | Str64 \<Rightarrow> FRuntimeAccess m 8 True
     | _ \<Rightarrow> FUserOnly)"
| "classify_ldst (Atomic _ _ _ _ rn _) = FWindowAccess rn False"
| "classify_ldst _ = FUserOnly"

fun classify_fp :: "a64_fp \<Rightarrow> vform" where
  "classify_fp (FpLdSt _ _ _ m) = (if is_base_only m then FWindowAccess (mem_base m) True else FUserOnly)"
| "classify_fp (FpPair _ _ _ _ m) = (if is_base_only m then FWindowAccess (mem_base m) True else FUserOnly)"
| "classify_fp (FpMulti _ _ ix _ _ rn _) =
    (case ix of MNoIndex \<Rightarrow> FWindowAccess rn True | _ \<Rightarrow> FUserOnly)"
| "classify_fp (SimdReg _ _ _ _) = FSimd"
| "classify_fp _ = FUserOnly"

fun classify_branch :: "a64_branch \<Rightarrow> vform" where
  "classify_branch (BUncond imm26) = FBranch (ivalue imm26) False"
| "classify_branch (BCond imm19 _) = FBranch (ivalue imm19) True"
| "classify_branch (Cbz _ imm19 _) = FBranch (ivalue imm19) True"
| "classify_branch (Cbnz _ imm19 _) = FBranch (ivalue imm19) True"
| "classify_branch (Tbz _ _ imm14 _) = FBranch (ivalue imm14) True"
| "classify_branch (Tbnz _ _ imm14 _) = FBranch (ivalue imm14) True"
| "classify_branch (Bl _) = FCall"
| "classify_branch (Br _) = FIndirectBranch"
| "classify_branch (Blr _) = FIndirectBranch"
| "classify_branch (Ret _) = FIndirectBranch"
| "classify_branch (Svc _) = FException"

fun classify_sys :: "a64_sys \<Rightarrow> vform" where
  "classify_sys Nop = FNop"
| "classify_sys (Bti _) = FUserOnly"
| "classify_sys (Barrier _ _) = FBarrier"
| "classify_sys (MsrImm _) = FMsr"
| "classify_sys (Mrs r _) = (if r = Fpcr \<or> r = Fpsr then FSimd else FMrsUserReg)"

fun classify_dp :: "a64_dp \<Rightarrow> vform" where
  "classify_dp (Adr _ _ _) = FPcRelative"
| "classify_dp (Adrp _ _ _) = FPcRelative"
| "classify_dp _ = FAlu"

fun classify :: "a64_insn \<Rightarrow> vform" where
  "classify (Dp i) = classify_dp i"
| "classify (Brn i) = classify_branch i"
| "classify (Sys i) = classify_sys i"
| "classify (Mem i) = classify_ldst i"
| "classify (Simd i) = classify_fp i"

subsection \<open>Registers written and read\<close>

record writes_set =
  w_gprs :: u32
  w_sp :: bool

record reads_set =
  r_gprs :: u32
  r_sp :: bool
  r_base :: "a64_reg option"

definition gpr_bit :: "nat \<Rightarrow> u32" where
  "gpr_bit n = push_bit n 1"

lemma bit_gpr_bit [simp]: "bit (gpr_bit n) m \<longleftrightarrow> m = n \<and> n < 32"
  by (auto simp: gpr_bit_def bit_simps)

text \<open>\<open>A64Reg::x(reg)\<close> of an implicit write, the register of a written field otherwise.\<close>

fun written_reg :: "a64_insn \<Rightarrow> a64_role \<Rightarrow> a64_reg option option" where
  "written_reg i (RegWrite f _) = map_option Some (get_reg i f)"
| "written_reg i (RegReadWrite f _) = map_option Some (get_reg i f)"
| "written_reg i (ImplicitRegWrite r _) = Some (Some (reg_x r))"
| "written_reg i _ = Some None"

definition add_write :: "a64_reg \<Rightarrow> writes_set \<Rightarrow> writes_set" where
  "add_write r out =
    (if enc r < 31 then out\<lparr>w_gprs := w_gprs out OR gpr_bit (enc r)\<rparr>
     else if reg31 r \<noteq> R31Xzr then out\<lparr>w_sp := True\<rparr> else out)"

fun writes_from :: "a64_insn \<Rightarrow> a64_role list \<Rightarrow> writes_set \<Rightarrow> writes_set option" where
  "writes_from i [] out = Some out"
| "writes_from i (role # roles) out =
    (case written_reg i role of
       None \<Rightarrow> None
     | Some None \<Rightarrow> writes_from i roles out
     | Some (Some r) \<Rightarrow> writes_from i roles (add_write r out))"

definition writes :: "a64_insn \<Rightarrow> writes_set option" where
  "writes i = writes_from i (operand_roles i) \<lparr>w_gprs = 0, w_sp = False\<rparr>"

fun base_field :: "a64_role list \<Rightarrow> a64_field option" where
  "base_field [] = None"
| "base_field (MemBase f # _) = Some f"
| "base_field (_ # roles) = base_field roles"

fun read_field :: "a64_role \<Rightarrow> a64_field option" where
  "read_field (RegRead f _) = Some f"
| "read_field (RegReadWrite f _) = Some f"
| "read_field _ = None"

definition add_read :: "a64_field option \<Rightarrow> a64_field \<Rightarrow> a64_reg \<Rightarrow> reads_set \<Rightarrow> reads_set" where
  "add_read bf f r out =
    (if bf = Some f then out\<lparr>r_base := Some r\<rparr>
     else if enc r < 31 then out\<lparr>r_gprs := r_gprs out OR gpr_bit (enc r)\<rparr>
     else if reg31 r \<noteq> R31Xzr then out\<lparr>r_sp := True\<rparr> else out)"

fun reads_from :: "a64_insn \<Rightarrow> a64_field option \<Rightarrow> a64_role list \<Rightarrow> reads_set \<Rightarrow> reads_set option" where
  "reads_from i bf [] out = Some out"
| "reads_from i bf (role # roles) out =
    (case read_field role of
       None \<Rightarrow> reads_from i bf roles out
     | Some f \<Rightarrow>
         (case get_reg i f of
            None \<Rightarrow> None
          | Some r \<Rightarrow> reads_from i bf roles (add_read bf f r out)))"

definition reads :: "a64_insn \<Rightarrow> reads_set option" where
  "reads i = reads_from i (base_field (operand_roles i)) (operand_roles i)
    \<lparr>r_gprs = 0, r_sp = False, r_base = None\<rparr>"

definition is_sp :: "a64_reg \<Rightarrow> bool" where
  "is_sp r \<longleftrightarrow> enc r = 31 \<and> reg31 r \<noteq> R31Xzr"

definition KERNEL_FP_REG :: nat where [kdefs]: "KERNEL_FP_REG = 29"

subsection \<open>Windows of the frame and of \<open>pt_regs\<close>\<close>

definition FRAME_USER_START :: nat where [kdefs]: "FRAME_USER_START = 16"
definition FRAME_USER_END :: nat where [kdefs]: "FRAME_USER_END = RUNTIME_FRAME_ENTRY_ADDR_OFFSET"
definition FRAME_USER_X18_START :: nat where
  [kdefs]: "FRAME_USER_X18_START = RUNTIME_FRAME_USER_X18_OFFSET"
definition FRAME_USER_X18_END :: nat where
  [kdefs]: "FRAME_USER_X18_END = RUNTIME_FRAME_USER_X18_OFFSET + 8"

text \<open>The constants above are the offsets the code computes from the slot functions.\<close>

lemma frame_user_start:
  "reg_virt_stack_backed_slot_offset REG_VIRT_STACK_BACKED_REG_START = Some FRAME_USER_START"
  by (simp add: reg_virt_stack_backed_slot_offset_def kdefs)

definition is_user_state_slot :: "int \<Rightarrow> nat \<Rightarrow> bool" where
  "is_user_state_slot start nbytes =
    (let end = start + int nbytes in
     (start \<ge> int FRAME_USER_START \<and> end \<le> int FRAME_USER_END)
     \<or> (start \<ge> int FRAME_USER_X18_START \<and> end \<le> int FRAME_USER_X18_END))"

definition is_scratch :: "nat \<Rightarrow> bool" where
  "is_scratch n \<longleftrightarrow> REG_VIRT_SCRATCH_GPR_START \<le> n \<and> n \<le> REG_VIRT_SCRATCH_GPR_END"

text \<open>\<open>ldr xS, [sp, #PT_REGS_PTR]\<close> with S a scratch register: the one kernel-frame read of a body.\<close>

fun pt_regs_pointer_load :: "a64_insn \<Rightarrow> nat option" where
  "pt_regs_pointer_load (Mem (LdSt op rt m)) =
    (case (op, m) of
       (Ldr64, MOffset b off) \<Rightarrow>
         if is_sp b \<and> ivalue off = int RUNTIME_FRAME_PT_REGS_PTR_OFFSET \<and> is_scratch (enc rt)
         then Some (enc rt) else None
     | _ \<Rightarrow> None)"
| "pt_regs_pointer_load _ = None"

definition PT_REGS_USER_STATE_END :: nat where [kdefs]: "PT_REGS_USER_STATE_END = 256"

lemma pt_regs_user_state_end:
  "map_option (\<lambda>off. off + 16) (pt_regs_x_slot_offset 30) = Some PT_REGS_USER_STATE_END"
  by (simp add: pt_regs_x_slot_offset_def kdefs)

subsection \<open>Budget and range checks\<close>

fun is_budget_fill :: "a64_insn \<Rightarrow> bool" where
  "is_budget_fill (Mem (LdSt op rt m)) =
    (case (op, m, reg_virt_stack_backed_slot_offset REG_VIRT_STACK_BACKED_REG_START,
           reg_virt_stack_backed_slot_offset REG_VIRT_STACK_BACKED_REG_END) of
       (Ldr64, MOffset b off, Some lo, Some hi) \<Rightarrow>
         is_scratch (enc rt) \<and> is_sp b
         \<and> ((ivalue off \<ge> int lo \<and> ivalue off \<le> int hi)
            \<or> ivalue off = int FRAME_USER_X18_START)
     | _ \<Rightarrow> False)"
| "is_budget_fill _ = False"

definition is_dispatch_gap_word :: "a64_insn \<Rightarrow> bool" where
  "is_dispatch_gap_word i \<longleftrightarrow>
    (case classify i of FAlu \<Rightarrow> True | FNop \<Rightarrow> True | _ \<Rightarrow> False) \<or> is_budget_fill i"

fun is_budget_sub :: "a64_insn \<Rightarrow> bool" where
  "is_budget_sub (Dp (AddSubImm op wd sh imm12 rn rd)) =
    (op = AsSub \<and> wd = X64 \<and> sh = 0 \<and> ivalue imm12 = 1
     \<and> enc rn = BUDGET_COUNTER_REG \<and> enc rd = BUDGET_COUNTER_REG)"
| "is_budget_sub _ = False"

fun cbz64_budget :: "a64_insn \<Rightarrow> int option" where
  "cbz64_budget (Brn (Cbz wd imm19 rt)) =
    (if wd = X64 \<and> enc rt = BUDGET_COUNTER_REG then Some (ivalue imm19) else None)"
| "cbz64_budget _ = None"

fun budget_sequence :: "a64_insn list \<Rightarrow> int option" where
  "budget_sequence [sub, cbz] = (if is_budget_sub sub then cbz64_budget cbz else None)"
| "budget_sequence _ = None"

fun range_check :: "a64_insn \<Rightarrow> (nat \<times> nat) option" where
  "range_check (Dp (Bitfield op wd immr imms rn rd)) =
    (if op = Ubfm \<and> wd = X64 \<and> ivalue immr = int USER_VA_BITS
        \<and> ivalue imms = int PAN_WINDOW_RANGE_TOP_BIT \<and> enc rn < 31 \<and> enc rd < 31
     then Some (enc rn, enc rd) else None)"
| "range_check _ = None"

fun cbnz64 :: "a64_insn \<Rightarrow> (nat \<times> int) option" where
  "cbnz64 (Brn (Cbnz wd imm19 rt)) = (if wd = X64 then Some (enc rt, ivalue imm19) else None)"
| "cbnz64 _ = None"

subsection \<open>The metadata is complete\<close>

text \<open>
  The generated operand metadata is complete: no form names a register field it does not have, so
  \<open>writes\<close> and \<open>reads\<close> never fail closed on a decoded instruction.
\<close>

lemma metadata_complete:
  "(\<exists>w. writes i = Some w) \<and> (\<exists>r. reads i = Some r)"
proof (cases i)
  case (Dp d)
  then show ?thesis by (cases d) (simp_all add: writes_def reads_def get_reg_def)
next
  case (Brn b)
  then show ?thesis by (cases b) (simp_all add: writes_def reads_def get_reg_def)
next
  case (Sys s)
  then show ?thesis by (cases s) (simp_all add: writes_def reads_def get_reg_def)
next
  case (Mem m)
  then show ?thesis
    by (cases m) (simp_all add: writes_def reads_def get_reg_def ldst_roles1_def base_role_def Let_def)
next
  case (Simd f)
  then show ?thesis
    by (cases f) (auto simp: writes_def reads_def get_reg_def base_role_def opt_reg_def
        split: multi_index.splits option.splits)
qed

end
