(* ===== verification/VerifyTaint.thy ===== *)
theory VerifyTaint
  imports VerifyRules
begin

section \<open>Verifier: which registers hold kernel values\<close>

text \<open>
  Models \<open>shared/verify/taint.rs\<close>: the forward analysis of rules 3 and 9. Bit n of \<open>t_kernel\<close>: x_n
  may hold a kernel value; bit n of \<open>t_pt_regs\<close>: x_n holds the \<open>pt_regs\<close> pointer.
\<close>

record taint =
  t_kernel :: u32
  t_pt_regs :: u32

definition ALL_GPRS :: u32 where "ALL_GPRS = mask 31"

definition is_kernel :: "taint \<Rightarrow> nat \<Rightarrow> bool" where
  "is_kernel t r \<longleftrightarrow> r < 31 \<and> t_kernel t AND gpr_bit r \<noteq> 0"

definition is_pt_regs :: "taint \<Rightarrow> nat \<Rightarrow> bool" where
  "is_pt_regs t r \<longleftrightarrow> r < 31 \<and> t_pt_regs t AND gpr_bit r \<noteq> 0"

datatype (plugins only: code size) taint_value = VUser | VKernel | VPtRegs

definition frame_load_value :: "a64_insn \<Rightarrow> a64_mem \<Rightarrow> nat \<Rightarrow> taint_value" where
  "frame_load_value i m nbytes =
    (if \<not> is_sp (mem_base m) then VUser
     else if pt_regs_pointer_load i \<noteq> None then VPtRegs
     else case m of
         MOffset _ off \<Rightarrow> if is_user_state_slot (ivalue off) nbytes then VUser else VKernel
       | _ \<Rightarrow> VKernel)"

text \<open>What the written registers hold after the instruction.\<close>

definition written_value :: "a64_insn \<Rightarrow> vform \<Rightarrow> reads_set \<Rightarrow> taint \<Rightarrow> taint_value" where
  "written_value i form rd t =
    (case form of
       FRuntimeAccess m n False \<Rightarrow> frame_load_value i m n
     | FRuntimeAccess _ _ True \<Rightarrow> VUser
     | FUserAccess _ \<Rightarrow> VUser
     | FWindowAccess _ _ \<Rightarrow> VUser
     | _ \<Rightarrow> if r_sp rd \<or> r_gprs rd AND t_kernel t \<noteq> 0 then VKernel else VUser)"

definition base_bit :: "a64_reg \<Rightarrow> u32" where
  "base_bit b = (if enc b < 31 then gpr_bit (enc b) else 0)"

definition taint_apply :: "u32 \<Rightarrow> taint_value \<Rightarrow> taint \<Rightarrow> taint" where
  "taint_apply written v t =
    (let k = t_kernel t AND NOT written; p = t_pt_regs t AND NOT written in
     case v of
       VUser \<Rightarrow> \<lparr>t_kernel = k, t_pt_regs = p\<rparr>
     | VKernel \<Rightarrow> \<lparr>t_kernel = k OR written, t_pt_regs = p\<rparr>
     | VPtRegs \<Rightarrow> \<lparr>t_kernel = k OR written, t_pt_regs = p OR written\<rparr>)"

text \<open>A written base (writeback) keeps a kernel value if it held one.\<close>

definition taint_base :: "a64_reg option \<Rightarrow> u32 \<Rightarrow> taint \<Rightarrow> taint \<Rightarrow> taint" where
  "taint_base base written old t =
    (case base of
       None \<Rightarrow> t
     | Some b \<Rightarrow>
         if written AND base_bit b \<noteq> 0 \<and> t_kernel old AND base_bit b \<noteq> 0
         then \<lparr>t_kernel = t_kernel t OR base_bit b, t_pt_regs = t_pt_regs t AND NOT (base_bit b)\<rparr>
         else t)"

definition taint_step :: "a64_insn \<Rightarrow> vform \<Rightarrow> taint \<Rightarrow> taint option" where
  "taint_step i form t =
    (case reads i of
       None \<Rightarrow> None
     | Some rd \<Rightarrow>
         (case writes i of
            None \<Rightarrow> None
          | Some wr \<Rightarrow>
              Some (taint_base (r_base rd) (w_gprs wr) t
                (taint_apply (w_gprs wr) (written_value i form rd t) t))))"

fun taint_run :: "a64_insn list \<Rightarrow> taint \<Rightarrow> taint option" where
  "taint_run [] t = Some t"
| "taint_run (i # is) t =
    (case taint_step i (classify i) t of None \<Rightarrow> None | Some t' \<Rightarrow> taint_run is t')"

text \<open>\<open>Taint::at_entry\<close>: the prologue run from "every register is a kernel value".\<close>

definition taint_at_entry :: "taint option" where
  "taint_at_entry =
    map_option (\<lambda>t. t\<lparr>t_pt_regs := 0\<rparr>)
      (taint_run KJIT_PROLOGUE \<lparr>t_kernel = ALL_GPRS, t_pt_regs = 0\<rparr>)"

end
