(* ===== verification/VerifyScc.thy ===== *)
theory VerifyScc
  imports KPrelude
begin

section \<open>Verifier: strongly connected components\<close>

text \<open>
  Models \<open>shared/verify/scc.rs\<close>: Tarjan's algorithm with an explicit call stack. The code asks
  \<open>successor(node, slot)\<close> for slot 0, 1, ... until \<open>None\<close>; here a node's successors are a list and
  a call frame holds the ones not looked at yet (the code holds their first slot). \<open>UNSET\<close> is
  \<open>None\<close>. Both stacks grow at the head of a list. A successor that is no node would index out of
  range in the code; \<open>visit\<close> ignores it, and the verifier's \<open>successor\<close> never gives one.
\<close>

record tarjan =
  tj_number :: "nat \<Rightarrow> nat option"
  tj_low :: "nat \<Rightarrow> nat"
  tj_component :: "nat \<Rightarrow> nat option"
  tj_open :: "nat list"
  tj_calls :: "(nat \<times> nat list) list"
  tj_discovered :: nat
  tj_finished :: nat

definition tj_enter :: "(nat \<Rightarrow> nat list) \<Rightarrow> nat \<Rightarrow> tarjan \<Rightarrow> tarjan" where
  "tj_enter succs v s =
    s\<lparr>tj_number := (tj_number s)(v \<mapsto> tj_discovered s),
      tj_low := (tj_low s)(v := tj_discovered s),
      tj_discovered := Suc (tj_discovered s),
      tj_open := v # tj_open s,
      tj_calls := (v, succs v) # tj_calls s\<rparr>"

text \<open>The loop that pops a finished component off the Tarjan stack.\<close>

fun pop_component :: "nat \<Rightarrow> nat \<Rightarrow> nat list \<Rightarrow> (nat \<Rightarrow> nat option) \<Rightarrow> nat list \<times> (nat \<Rightarrow> nat option)" where
  "pop_component v c [] cm = ([], cm)"
| "pop_component v c (m # open) cm =
    (let cm' = cm(m \<mapsto> c) in
     if m = v then (open, cm') else pop_component v c open cm')"

definition tj_close :: "nat \<Rightarrow> tarjan \<Rightarrow> tarjan" where
  "tj_close v s =
    (if Some (tj_low s v) = tj_number s v
     then let (open, cm) = pop_component v (tj_finished s) (tj_open s) (tj_component s)
          in s\<lparr>tj_open := open, tj_component := cm, tj_finished := Suc (tj_finished s)\<rparr>
     else s)"

definition tj_return :: "nat \<Rightarrow> tarjan \<Rightarrow> tarjan" where
  "tj_return v s =
    (case tj_calls s of
       [] \<Rightarrow> s
     | (parent, _) # _ \<Rightarrow> s\<lparr>tj_low := (tj_low s)(parent := min (tj_low s parent) (tj_low s v))\<rparr>)"

text \<open>One iteration of the inner loop.\<close>

definition tj_step :: "nat \<Rightarrow> (nat \<Rightarrow> nat list) \<Rightarrow> tarjan \<Rightarrow> tarjan" where
  "tj_step count succs s =
    (case tj_calls s of
       [] \<Rightarrow> s
     | (v, next # rest) # calls \<Rightarrow>
         let s' = s\<lparr>tj_calls := (v, rest) # calls\<rparr> in
         if next \<ge> count then s'
         else (case tj_number s next of
             None \<Rightarrow> tj_enter succs next s'
           | Some k \<Rightarrow>
               if tj_component s next = None
               then s'\<lparr>tj_low := (tj_low s)(v := min (tj_low s v) k)\<rparr> else s')
     | (v, []) # calls \<Rightarrow> tj_return v (tj_close v (s\<lparr>tj_calls := calls\<rparr>)))"

definition unvisited :: "nat \<Rightarrow> tarjan \<Rightarrow> nat set" where
  "unvisited count s = {n. n < count \<and> tj_number s n = None}"

definition call_size :: "tarjan \<Rightarrow> nat" where
  "call_size s = sum_list (map (\<lambda>(v, rest). Suc (length rest)) (tj_calls s))"

lemma tj_close_simps [simp]:
  "tj_number (tj_close v s) = tj_number s" "tj_calls (tj_close v s) = tj_calls s"
  by (auto simp: tj_close_def split: prod.splits)

lemma tj_return_simps [simp]:
  "tj_number (tj_return v s) = tj_number s" "tj_calls (tj_return v s) = tj_calls s"
  by (auto simp: tj_return_def split: list.splits)

text \<open>
  Every iteration enters a new node, or looks at one successor of the top frame, or returns: the
  loop ends.
\<close>

lemma tj_step_decreases:
  assumes "tj_calls s \<noteq> []"
  shows "(tj_step count succs s, s) \<in> measures [\<lambda>s. card (unvisited count s), call_size]"
proof -
  have fin: "finite (unvisited count s)" by (simp add: unvisited_def)
  obtain v rest calls where c: "tj_calls s = (v, rest) # calls"
    using assms by (cases "tj_calls s") auto
  show ?thesis
  proof (cases rest)
    case Nil
    then show ?thesis by (simp add: tj_step_def c call_size_def unvisited_def)
  next
    case (Cons nxt rest')
    show ?thesis
    proof (cases "nxt < count \<and> tj_number s nxt = None")
      case True
      then have "unvisited count (tj_step count succs s) \<subset> unvisited count s"
        by (auto simp: tj_step_def c Cons tj_enter_def unvisited_def)
      then show ?thesis using fin by (simp add: psubset_card_mono)
    next
      case False
      then show ?thesis
        by (auto simp: tj_step_def c Cons call_size_def unvisited_def Let_def split: option.splits)
    qed
  qed
qed

function tj_loop :: "nat \<Rightarrow> (nat \<Rightarrow> nat list) \<Rightarrow> tarjan \<Rightarrow> tarjan" where
  "tj_loop count succs s =
    (if tj_calls s = [] then s else tj_loop count succs (tj_step count succs s))"
  by pat_completeness auto

termination tj_loop
  by (relation "inv_image (measures [\<lambda>(c, s). card (unvisited c s), \<lambda>(c, s). call_size s])
      (\<lambda>(c, f, s). (c, s))")
    (use tj_step_decreases in \<open>fastforce+\<close>)

declare tj_loop.simps [simp del]

definition tj_root :: "nat \<Rightarrow> (nat \<Rightarrow> nat list) \<Rightarrow> nat \<Rightarrow> tarjan \<Rightarrow> tarjan" where
  "tj_root count succs root s =
    (if tj_number s root \<noteq> None then s
     else tj_loop count succs (tj_enter succs root (s\<lparr>tj_calls := []\<rparr>)))"

definition tj_init :: tarjan where
  "tj_init = \<lparr>tj_number = \<lambda>_. None, tj_low = \<lambda>_. 0, tj_component = \<lambda>_. None, tj_open = [],
     tj_calls = [], tj_discovered = 0, tj_finished = 0\<rparr>"

definition components :: "nat \<Rightarrow> (nat \<Rightarrow> nat list) \<Rightarrow> nat \<Rightarrow> nat option" where
  "components count succs =
    tj_component (fold (tj_root count succs) [0..<count] tj_init)"

end
