(* ===== verification/Verify.thy ===== *)
theory Verify
  imports VerifyTaint VerifyScc
begin

section \<open>The fragment verifier\<close>

text \<open>
  Models \<open>shared/verify/mod.rs\<close>: \<open>verify_fragment\<close>, check by check in the order of the code, with the
  error each check reports. Vectors of flags indexed by body word (\<open>join\<close>, \<open>exit_group_checked\<close>,
  \<open>slot_listed\<close>) are sets of indices, the template tables are maps. Allocation failure
  (\<open>VerifyRule::Alloc\<close>) is not modelled: allocations succeed.
\<close>

subsection \<open>Input, errors\<close>

record fault_site =
  access_offset :: nat
  stub_offset :: nat

record verify_input =
  vi_code :: "u8 list"
  vi_fault_sites :: "fault_site list"
  vi_entry_offsets :: "nat list"
  vi_link_sites :: "(nat \<times> u64) list"

datatype (plugins only: code size) verify_rule =
    RLength | RUndecodable u32 | RPrologue | REpilogue | RSpWrite | RFramePointerWrite
  | ROperandMetadata | RUserAccessSpBase | RMissingFaultSite | RFaultSiteOrder
  | RFaultSiteNotUserAccess | RUserOnlyForm | RRuntimeAccessWriteback | RRuntimeAccessBase
  | RFrameAccessOutOfRange | RPtRegsAccessOutOfRange | RBudgetRegisterAccess | RBranchTarget int
  | RCall | RIndirectBranch | RDispatchTemplate | RLinkSite | RFallsOffEnd | REntryOffset | RNoEntry
  | RException | RPcRelative | RMissingBudgetCheck | RExitGroup | RWindowRangeCheck | RMsr
  | RKernelValueRead | RKernelValueAtEdge

type_synonym verify_error = "nat \<times> verify_rule"

definition BODY_OFFSET :: nat where
  "BODY_OFFSET = PROLOGUE_LEN_BYTES + EPILOGUE_LEN_BYTES"

definition BUDGET_CHECK_WORDS :: nat where [kdefs]: "BUDGET_CHECK_WORDS = 2"
definition DISPATCH_GUARD_MAX_GAP :: nat where [kdefs]: "DISPATCH_GUARD_MAX_GAP = 16"

lemma body_offset: "BODY_OFFSET = 308"
  by (simp add: BODY_OFFSET_def wrapper_lengths)

subsection \<open>Reading the code\<close>

definition u32_from_le :: "u8 list \<Rightarrow> u32" where
  "u32_from_le bs = foldr (\<lambda>b w. ucast b OR push_bit 8 w) bs 0"

definition read_word :: "u8 list \<Rightarrow> nat \<Rightarrow> u32 option" where
  "read_word code off =
    (if off + ABI_INSN_SIZE \<le> length code then Some (u32_from_le (take ABI_INSN_SIZE (drop off code)))
     else None)"

definition check_wrapper :: "u8 list \<Rightarrow> nat \<Rightarrow> a64_insn list \<Rightarrow> verify_rule \<Rightarrow> verify_error + unit" where
  "check_wrapper code start expected rule =
    rfold (\<lambda>(k, i) _.
        let off = start + k * ABI_INSN_SIZE in
        rbind (ok_or (encode i) (off, rule)) (\<lambda>word. guard (read_word code off = Some word) (off, rule)))
      (enumerate 0 expected) ()"

definition word_offset :: "nat \<Rightarrow> nat" where
  "word_offset k = BODY_OFFSET + k * ABI_INSN_SIZE"

definition decode_body :: "u8 list \<Rightarrow> verify_error + a64_insn list" where
  "decode_body code =
    (let count = (length code - BODY_OFFSET) div ABI_INSN_SIZE in
     rfold (\<lambda>k body.
         rbind (ok_or (read_word code (word_offset k)) (word_offset k, RLength)) (\<lambda>word.
         rbind (ok_or (decode_defined word) (word_offset k, RUndecodable word)) (\<lambda>i.
           Inr (body @ [i]))))
       [0..<count] [])"

subsection \<open>Fragments\<close>

record fragment =
  fr_body :: "a64_insn list"
  fr_len :: nat
  fr_position :: "nat \<Rightarrow> nat option"
  fr_miss :: "nat \<Rightarrow> nat option"

definition body_index :: "fragment \<Rightarrow> nat \<Rightarrow> nat option" where
  "body_index frag off =
    (if off < BODY_OFFSET \<or> off \<ge> fr_len frag \<or> off mod ABI_INSN_SIZE \<noteq> 0 then None
     else Some ((off - BODY_OFFSET) div ABI_INSN_SIZE))"

text \<open>\<open>usize::try_from(target).ok().and_then(body_index)\<close>.\<close>

definition body_index_int :: "fragment \<Rightarrow> int \<Rightarrow> nat option" where
  "body_index_int frag target = (if target < 0 then None else body_index frag (nat target))"

definition is_branch_target :: "fragment \<Rightarrow> int \<Rightarrow> bool" where
  "is_branch_target frag target \<longleftrightarrow>
    target = int EPILOGUE_OFFSET \<or> body_index_int frag target \<noteq> None"

definition branch_delta :: "a64_insn \<Rightarrow> int option" where
  "branch_delta i = (case classify i of FBranch delta _ \<Rightarrow> Some delta | _ \<Rightarrow> None)"

definition branch_target :: "fragment \<Rightarrow> nat \<Rightarrow> int option" where
  "branch_target frag k = map_option (\<lambda>delta. int (word_offset k) + delta) (branch_delta (fr_body frag ! k))"

definition is_back_edge :: "fragment \<Rightarrow> nat \<Rightarrow> bool" where
  "is_back_edge frag k =
    (case branch_target frag k of
       None \<Rightarrow> False
     | Some target \<Rightarrow> target \<le> int (word_offset k) \<and> target \<ge> int BODY_OFFSET)"

definition opt_list :: "'a option \<Rightarrow> 'a list" where
  "opt_list x = (case x of None \<Rightarrow> [] | Some a \<Rightarrow> [a])"

text \<open>The successors of word \<open>k\<close>, slot by slot.\<close>

definition successors :: "fragment \<Rightarrow> nat \<Rightarrow> nat \<Rightarrow> nat list" where
  "successors frag nodes k =
    (let (target, falls) =
       (case classify (fr_body frag ! k) of
          FBranch delta conditional \<Rightarrow> (body_index_int frag (int (word_offset k) + delta), conditional)
        | FIndirectBranch \<Rightarrow> (None, False)
        | _ \<Rightarrow> (None, True))
     in filter (\<lambda>s. s < nodes) ((if falls then [k + 1] else []) @ opt_list target))"

definition is_back_edge_on_cycle :: "fragment \<Rightarrow> (nat \<Rightarrow> nat option) \<Rightarrow> nat \<Rightarrow> bool" where
  "is_back_edge_on_cycle frag cm k =
    (is_back_edge frag k
     \<and> (case Option.bind (branch_target frag k) (body_index_int frag) of
          None \<Rightarrow> False
        | Some target \<Rightarrow> k < length (fr_body frag) \<and> cm k = cm target))"

text \<open>The end of the run of \<open>ok\<close> words before word \<open>k\<close>, at most \<open>n\<close> of them.\<close>

fun walk_back :: "(nat \<Rightarrow> bool) \<Rightarrow> nat \<Rightarrow> nat \<Rightarrow> nat" where
  "walk_back ok k 0 = k"
| "walk_back ok 0 (Suc n) = 0"
| "walk_back ok (Suc k) (Suc n) = (if ok k then walk_back ok k n else Suc k)"

text \<open>The two-word check ending at \<open>end\<close>: its first word and its forward target.\<close>

definition budget_check_at :: "fragment \<Rightarrow> nat \<Rightarrow> (nat \<times> nat) option" where
  "budget_check_at frag end =
    (if end < BUDGET_CHECK_WORDS then None
     else let start = end - BUDGET_CHECK_WORDS in
       case budget_sequence (take BUDGET_CHECK_WORDS (drop start (fr_body frag))) of
         None \<Rightarrow> None
       | Some delta \<Rightarrow>
           let cbz = int (word_offset (end - 1)); target = cbz + delta in
           if target \<le> cbz then None
           else map_option (\<lambda>t. (start, t)) (body_index_int frag target))"

definition budget_guard :: "fragment \<Rightarrow> nat \<Rightarrow> (nat \<times> nat) option" where
  "budget_guard frag k =
    budget_check_at frag (walk_back (\<lambda>j. is_budget_fill (fr_body frag ! j)) k k)"

definition template_guard :: "fragment \<Rightarrow> nat \<Rightarrow> (nat \<times> nat) option" where
  "template_guard frag template =
    budget_check_at frag
      (walk_back (\<lambda>j. is_dispatch_gap_word (fr_body frag ! j)) template DISPATCH_GUARD_MAX_GAP)"

text \<open>The first word after \<open>k\<close>, at most \<open>n\<close> words further, that is not \<open>ok\<close> (or is past the body).\<close>

fun walk_on :: "(nat \<Rightarrow> bool) \<Rightarrow> nat \<Rightarrow> nat \<Rightarrow> nat \<Rightarrow> nat" where
  "walk_on ok len k 0 = k"
| "walk_on ok len k (Suc n) = (if k < len \<and> ok k then walk_on ok len (Suc k) n else k)"

definition guards_template :: "fragment \<Rightarrow> nat \<Rightarrow> bool" where
  "guards_template frag start =
    (let len = length (fr_body frag);
         k = walk_on (\<lambda>j. is_dispatch_gap_word (fr_body frag ! j)) len
               (start + BUDGET_CHECK_WORDS) (Suc DISPATCH_GUARD_MAX_GAP)
     in k < len \<and> fr_position frag k = Some 0 \<and> map_option fst (template_guard frag k) = Some start)"

definition guards_back_edge :: "fragment \<Rightarrow> nat \<Rightarrow> bool" where
  "guards_back_edge frag start =
    (let len = length (fr_body frag);
         k = walk_on (\<lambda>j. is_budget_fill (fr_body frag ! j)) len (start + BUDGET_CHECK_WORDS) len
     in k < len \<and> is_back_edge frag k \<and> map_option fst (budget_guard frag k) = Some start)"

subsection \<open>Dispatch templates\<close>

record templates =
  tp_position :: "nat \<Rightarrow> nat option"
  tp_miss :: "nat \<Rightarrow> nat option"

text \<open>
  The targets of the four miss branches: the main probe's at the victim probe, the victim probe's at
  one common place, which is returned.
\<close>

fun miss_exit :: "nat \<Rightarrow> (nat \<times> nat \<times> int) list \<Rightarrow> int option \<Rightarrow> int option option" where
  "miss_exit start [] exit = Some exit"
| "miss_exit start ((branch, to, delta) # rest) exit =
    (let target = int (word_offset (start + branch)) + delta in
     if to < DISPATCH_TEMPLATE_LEN then
       (if target \<noteq> int (word_offset (start + to)) then None else miss_exit start rest exit)
     else if exit \<noteq> None \<and> exit \<noteq> Some target then None
     else miss_exit start rest (Some target))"

definition miss_index :: "nat \<Rightarrow> nat \<Rightarrow> int \<Rightarrow> nat option" where
  "miss_index start body_len target =
    (if target > int (word_offset (start + DISPATCH_TEMPLATE_LEN - 1))
        \<and> target \<ge> int BODY_OFFSET \<and> (target - int BODY_OFFSET) mod int ABI_INSN_SIZE = 0
        \<and> nat (target - int BODY_OFFSET) div ABI_INSN_SIZE < body_len
     then Some (nat (target - int BODY_OFFSET) div ABI_INSN_SIZE) else None)"

definition is_br_x12 :: "a64_insn \<Rightarrow> bool" where
  "is_br_x12 i = (case i of Brn (Br rn) \<Rightarrow> enc rn = DISPATCH_SLOT_REG | _ \<Rightarrow> False)"

text \<open>The template whose main probe ends with the \<open>br\<close> at word \<open>k\<close>.\<close>

definition template_at :: "u8 list \<Rightarrow> nat \<Rightarrow> nat \<Rightarrow> templates \<Rightarrow> (nat \<times> nat) option" where
  "template_at code body_len k t =
    (if k + 1 < DISPATCH_TEMPLATE_VICTIM_PROBE then None
     else let start = k + 1 - DISPATCH_TEMPLATE_VICTIM_PROBE;
              words = map (\<lambda>p. read_word code (word_offset (start + p))) [0..<DISPATCH_TEMPLATE_LEN]
       in if None \<in> set words then None
          else case dispatch_template_matches (map the words) of
              None \<Rightarrow> None
            | Some deltas \<Rightarrow>
                case miss_exit start
                    (zip DISPATCH_TEMPLATE_MISS_BRANCHES (zip DISPATCH_TEMPLATE_MISS_TARGETS deltas)) None of
                  None \<Rightarrow> None
                | Some exit \<Rightarrow>
                    case Option.bind exit (miss_index start body_len) of
                      None \<Rightarrow> None
                    | Some miss \<Rightarrow>
                        if list_ex (\<lambda>p. tp_position t (start + p) \<noteq> None) [0..<DISPATCH_TEMPLATE_LEN]
                        then None else Some (start, miss))"

definition add_template :: "nat \<Rightarrow> nat \<Rightarrow> templates \<Rightarrow> templates" where
  "add_template start miss t =
    \<lparr>tp_position = (\<lambda>k. if start \<le> k \<and> k < start + DISPATCH_TEMPLATE_LEN then Some (k - start)
                       else tp_position t k),
     tp_miss = (tp_miss t)(start \<mapsto> miss)\<rparr>"

definition find_dispatch_templates :: "u8 list \<Rightarrow> a64_insn list \<Rightarrow> verify_error + templates" where
  "find_dispatch_templates code body =
    rfold (\<lambda>k t.
        if \<not> is_br_x12 (body ! k) \<or> tp_position t k \<noteq> None then Inr t
        else rbind (ok_or (template_at code (length body) k t) (word_offset k, RDispatchTemplate))
               (\<lambda>(start, miss). Inr (add_template start miss t)))
      [0..<length body] \<lparr>tp_position = \<lambda>_. None, tp_miss = \<lambda>_. None\<rparr>"

subsection \<open>Exit groups\<close>

text \<open>The walk from word \<open>k\<close> to \<open>b <epilogue>\<close>, over at most \<open>n\<close> words.\<close>

fun exit_walk :: "fragment \<Rightarrow> nat \<Rightarrow> nat \<Rightarrow> verify_error + unit" where
  "exit_walk frag k 0 = Inl (word_offset (length (fr_body frag) - 1), RExitGroup)"
| "exit_walk frag k (Suc n) =
    (let reject = Inl (word_offset k, RExitGroup) in
     case classify (fr_body frag ! k) of
       FBranch delta conditional \<Rightarrow>
         if \<not> conditional \<and> int (word_offset k) + delta = int EPILOGUE_OFFSET then Inr () else reject
     | FCall \<Rightarrow> reject
     | FIndirectBranch \<Rightarrow> reject
     | FException \<Rightarrow> reject
     | FUserAccess _ \<Rightarrow> reject
     | FUserOnly \<Rightarrow> reject
     | FWindowAccess _ _ \<Rightarrow> reject
     | FMsr \<Rightarrow> reject
     | _ \<Rightarrow> exit_walk frag (Suc k) n)"

definition starts_group :: "fragment \<Rightarrow> nat \<Rightarrow> bool" where
  "starts_group frag stub \<longleftrightarrow>
    stub > 0
    \<and> ((case classify (fr_body frag ! (stub - 1)) of FBranch _ c \<Rightarrow> \<not> c | _ \<Rightarrow> False)
       \<or> fr_position frag (stub - 1) = Some (DISPATCH_TEMPLATE_LEN - 1))"

definition check_exit_group :: "fragment \<Rightarrow> nat \<Rightarrow> nat set \<Rightarrow> verify_error + nat set" where
  "check_exit_group frag stub checked =
    (if stub \<in> checked then Inr checked
     else if \<not> starts_group frag stub then Inl (word_offset stub, RExitGroup)
     else rbind (exit_walk frag stub (length (fr_body frag) - stub)) (\<lambda>_. Inr (insert stub checked)))"

text \<open>What the table passes accumulate: join points, checked groups, first cold word.\<close>

record scan =
  sc_join :: "nat set"
  sc_checked :: "nat set"
  sc_cold :: nat

definition add_stub :: "fragment \<Rightarrow> nat \<Rightarrow> scan \<Rightarrow> verify_error + scan" where
  "add_stub frag stub sc =
    rbind (check_exit_group frag stub (sc_checked sc)) (\<lambda>checked.
      Inr \<lparr>sc_join = insert stub (sc_join sc), sc_checked = checked, sc_cold = min (sc_cold sc) stub\<rparr>)"

definition is_access_form :: "vform \<Rightarrow> bool" where
  "is_access_form f = (case f of FUserAccess _ \<Rightarrow> True | FWindowAccess _ _ \<Rightarrow> True | _ \<Rightarrow> False)"

definition is_window_form :: "vform \<Rightarrow> bool" where
  "is_window_form f = (case f of FWindowAccess _ _ \<Rightarrow> True | _ \<Rightarrow> False)"

definition scan_fault_site ::
    "fragment \<Rightarrow> fault_site \<Rightarrow> nat option \<times> scan \<Rightarrow> verify_error + nat option \<times> scan" where
  "scan_fault_site frag site pr =
    (case pr of (previous, sc) \<Rightarrow>
       if (case previous of None \<Rightarrow> False | Some prev \<Rightarrow> access_offset site \<le> prev)
       then Inl (access_offset site, RFaultSiteOrder)
       else
         rbind (ok_or (body_index frag (access_offset site)) (access_offset site, RFaultSiteNotUserAccess))
           (\<lambda>access.
         rbind (ok_or (body_index frag (stub_offset site)) (stub_offset site, RExitGroup)) (\<lambda>stub.
           if \<not> is_access_form (classify (fr_body frag ! access))
           then Inl (access_offset site, RFaultSiteNotUserAccess)
           else rbind (add_stub frag stub sc) (\<lambda>sc'. Inr (Some (access_offset site), sc')))))"

definition scan_back_edge :: "fragment \<Rightarrow> nat \<Rightarrow> scan \<Rightarrow> verify_error + scan" where
  "scan_back_edge frag k sc =
    (if \<not> is_back_edge frag k then Inr sc
     else case budget_guard frag k of None \<Rightarrow> Inr sc | Some (_, stub) \<Rightarrow> add_stub frag stub sc)"

definition window_range_check :: "fragment \<Rightarrow> nat \<Rightarrow> verify_error + nat" where
  "window_range_check frag k =
    (let reject = (word_offset k, RWindowRangeCheck) in
     case classify (fr_body frag ! k) of
       FWindowAccess rn _ \<Rightarrow>
         if k < 2 then Inl reject
         else
           rbind (ok_or (range_check (fr_body frag ! (k - 2))) reject) (\<lambda>(sa, sb).
           rbind (ok_or (cbnz64 (fr_body frag ! (k - 1))) reject) (\<lambda>(tested, delta).
             if tested \<noteq> sb \<or> enc rn \<noteq> sa \<or> delta \<le> 0 then Inl reject
             else ok_or (body_index_int frag (int (word_offset (k - 1)) + delta)) reject))
     | _ \<Rightarrow> Inl reject)"

definition scan_window :: "fragment \<Rightarrow> nat \<Rightarrow> scan \<Rightarrow> verify_error + scan" where
  "scan_window frag k sc =
    (if \<not> is_window_form (classify (fr_body frag ! k)) then Inr sc
     else rbind (window_range_check frag k) (\<lambda>stub.
       case add_stub frag stub sc of
         Inl _ \<Rightarrow> Inl (word_offset k, RWindowRangeCheck)
       | Inr sc' \<Rightarrow> Inr sc'))"

definition scan_template :: "fragment \<Rightarrow> nat \<Rightarrow> scan \<Rightarrow> verify_error + scan" where
  "scan_template frag k sc =
    (if fr_position frag k \<noteq> Some 0 then Inr sc
     else
       rbind (ok_or (template_guard frag k) (word_offset k, RMissingBudgetCheck)) (\<lambda>(_, stub).
       rbind (add_stub frag stub sc) (\<lambda>sc'.
       rbind (ok_or (fr_miss frag k) (word_offset k, RDispatchTemplate)) (\<lambda>miss.
       rbind (check_exit_group frag miss (sc_checked sc')) (\<lambda>checked.
         Inr (sc'\<lparr>sc_join := insert miss (sc_join sc'), sc_checked := checked\<rparr>))))))"

definition scan_entry :: "fragment \<Rightarrow> nat \<Rightarrow> scan \<Rightarrow> verify_error + scan" where
  "scan_entry frag entry sc =
    (case body_index frag entry of
       None \<Rightarrow> Inl (entry, REntryOffset)
     | Some k \<Rightarrow> if k < sc_cold sc then Inr (sc\<lparr>sc_join := insert k (sc_join sc)\<rparr>)
                else Inl (entry, REntryOffset))"

text \<open>The main probe's miss branches name word 9 of their template: not a join point.\<close>

definition is_probe_edge :: "fragment \<Rightarrow> nat \<Rightarrow> nat \<Rightarrow> bool" where
  "is_probe_edge frag k target =
    (case fr_position frag k of
       None \<Rightarrow> False
     | Some p \<Rightarrow> p \<in> set (take 2 DISPATCH_TEMPLATE_MISS_BRANCHES)
         \<and> target + p = k + DISPATCH_TEMPLATE_VICTIM_PROBE)"

definition scan_branch :: "fragment \<Rightarrow> nat \<Rightarrow> scan \<Rightarrow> verify_error + scan" where
  "scan_branch frag k sc =
    (case branch_target frag k of
       None \<Rightarrow> Inr sc
     | Some target \<Rightarrow>
         let target_error = Inl (word_offset k, RBranchTarget target) in
         if \<not> is_branch_target frag target then target_error
         else case body_index frag (nat target) of
             None \<Rightarrow> Inr sc
           | Some t \<Rightarrow>
               if is_probe_edge frag k t then Inr sc
               else if t \<ge> sc_cold sc then
                 (case check_exit_group frag t (sc_checked sc) of
                    Inl _ \<Rightarrow> target_error
                  | Inr checked \<Rightarrow> Inr (sc\<lparr>sc_join := insert t (sc_join sc), sc_checked := checked\<rparr>))
               else Inr (sc\<lparr>sc_join := insert t (sc_join sc)\<rparr>))"

subsection \<open>Link sites\<close>

fun is_x13_wide_move :: "a64_insn \<Rightarrow> bool" where
  "is_x13_wide_move (Dp (MoveWide op wd hw imm16 rd)) =
    (wd = X64 \<and> (op = Movz \<or> op = Movk) \<and> enc rd = DISPATCH_TARGET_REG)"
| "is_x13_wide_move _ = False"

text \<open>The loop over the moves: the value so far and the halfwords set.\<close>

fun link_target_from :: "a64_insn list \<Rightarrow> u64 option \<Rightarrow> nat set \<Rightarrow> u64 option" where
  "link_target_from [] v hws = v"
| "link_target_from (Dp (MoveWide op wd hw imm16 rd) # rest) v hws =
    (if wd \<noteq> X64 then None
     else if op = Movz then
       (if v \<noteq> None then None
        else link_target_from rest (Some (push_bit (16 * hw) (ucast (raw imm16)))) (insert hw hws))
     else if op = Movk then
       (case v of
          None \<Rightarrow> None
        | Some cur \<Rightarrow>
            if hw \<in> hws then None
            else link_target_from rest
              (Some ((cur AND NOT (push_bit (16 * hw) 0xFFFF)) OR push_bit (16 * hw) (ucast (raw imm16))))
              (insert hw hws))
     else None)"
| "link_target_from (_ # rest) v hws = None"

definition link_target_of :: "a64_insn list \<Rightarrow> u64 option" where
  "link_target_of moves = link_target_from moves None {}"

definition is_nop :: "a64_insn \<Rightarrow> bool" where
  "is_nop i = (case i of Sys Nop \<Rightarrow> True | _ \<Rightarrow> False)"

definition scan_link_site ::
    "fragment \<Rightarrow> nat set \<Rightarrow> nat \<times> u64 \<Rightarrow> nat set \<Rightarrow> verify_error + nat set" where
  "scan_link_site frag join site listed =
    (case site of (slot_offset, target_pc) \<Rightarrow>
       let reject = (slot_offset, RLinkSite) in
       rbind (ok_or (body_index frag slot_offset) reject) (\<lambda>slot.
         if slot \<in> listed \<or> \<not> is_nop (fr_body frag ! slot) then Inl reject
         else
           let moves = takeWhile is_x13_wide_move (drop (slot + 1) (fr_body frag));
               template = slot + 1 + length moves
           in if fr_position frag template \<noteq> Some 0 then Inl reject
              else rbind (ok_or (template_guard frag template) reject) (\<lambda>(guard_start, _).
                if guard_start + BUDGET_CHECK_WORDS > slot
                   \<or> list_ex (\<lambda>j. j \<in> join) [slot..<template]
                   \<or> link_target_of moves \<noteq> Some target_pc
                then Inl reject else Inr (insert slot listed))))"

definition check_template_joins :: "fragment \<Rightarrow> nat set \<Rightarrow> nat \<Rightarrow> unit \<Rightarrow> verify_error + unit" where
  "check_template_joins frag join k u =
    (if fr_position frag k \<noteq> Some 0 then Inr ()
     else rbind (ok_or (template_guard frag k) (word_offset k, RMissingBudgetCheck)) (\<lambda>(guard_start, _).
       if list_ex (\<lambda>j. j \<in> join) [k..<k + DISPATCH_TEMPLATE_LEN]
       then Inl (word_offset k, RDispatchTemplate)
       else if list_ex (\<lambda>j. j \<in> join) [guard_start + 1..<k]
       then Inl (word_offset k, RMissingBudgetCheck)
       else Inr ()))"

definition check_window_joins :: "fragment \<Rightarrow> nat set \<Rightarrow> nat \<Rightarrow> unit \<Rightarrow> verify_error + unit" where
  "check_window_joins frag join k u =
    (if is_window_form (classify (fr_body frag ! k)) \<and> (k - 1 \<in> join \<or> k \<in> join)
     then Inl (word_offset k, RWindowRangeCheck) else Inr ())"

subsection \<open>The main pass\<close>

definition check_edge :: "taint \<Rightarrow> taint \<Rightarrow> nat \<Rightarrow> verify_error + unit" where
  "check_edge t join_state off =
    guard (t_kernel t AND NOT (t_kernel join_state) = 0) (off, RKernelValueAtEdge)"

text \<open>Rules 3 and 9 for word \<open>p\<close> of a dispatch template.\<close>

definition step_dispatch_template :: "nat \<Rightarrow> taint \<Rightarrow> taint \<Rightarrow> nat \<Rightarrow> verify_error + taint" where
  "step_dispatch_template p t join_state off =
    (if p \<ge> length KJIT_DISPATCH_TEMPLATE then Inl (off, RDispatchTemplate)
     else
       let i = KJIT_DISPATCH_TEMPLATE ! p; is_br = (case i of Brn (Br _) \<Rightarrow> True | _ \<Rightarrow> False) in
       if p \<in> set DISPATCH_TEMPLATE_MISS_BRANCHES \<or> is_br
       then rbind (check_edge t join_state off) (\<lambda>_. Inr (if is_br then join_state else t))
       else
         rbind (ok_or (reads i) (off, ROperandMetadata)) (\<lambda>rd.
           if r_gprs rd AND gpr_bit DISPATCH_TARGET_REG AND t_kernel t \<noteq> 0
           then Inl (off, RKernelValueRead)
           else
             rbind (ok_or (writes i) (off, ROperandMetadata)) (\<lambda>wr.
               let k = t_kernel t AND NOT (w_gprs wr) in
               Inr \<lparr>t_kernel = (if w_gprs wr AND gpr_bit DISPATCH_SLOT_REG \<noteq> 0
                                then k OR gpr_bit DISPATCH_SLOT_REG else k),
                    t_pt_regs = t_pt_regs t AND NOT (w_gprs wr)\<rparr>)))"

definition check_budget_before :: "fragment \<Rightarrow> nat set \<Rightarrow> nat \<Rightarrow> verify_error + unit" where
  "check_budget_before frag join k =
    (let missing = (word_offset k, RMissingBudgetCheck) in
     rbind (ok_or (budget_guard frag k) missing) (\<lambda>(start, _).
       if list_ex (\<lambda>j. j \<in> join) [start + 1..<k + 1] then Inl missing else Inr ()))"

definition is_cbz64 :: "a64_insn \<Rightarrow> bool" where
  "is_cbz64 i = (case i of Brn (Cbz wd _ _) \<Rightarrow> wd = X64 | _ \<Rightarrow> False)"

definition check_budget_register :: "fragment \<Rightarrow> nat \<Rightarrow> a64_insn \<Rightarrow> verify_error + unit" where
  "check_budget_register frag k i =
    (let off = word_offset k in
     rbind (ok_or (reads i) (off, ROperandMetadata)) (\<lambda>rd.
     rbind (ok_or (writes i) (off, ROperandMetadata)) (\<lambda>wr.
       let names_counter =
             (r_gprs rd OR w_gprs wr) AND gpr_bit BUDGET_COUNTER_REG \<noteq> 0
             \<or> (case r_base rd of None \<Rightarrow> False | Some b \<Rightarrow> enc b = BUDGET_COUNTER_REG);
           check_start =
             (if is_budget_sub i then Some k else if k > 0 \<and> is_cbz64 i then Some (k - 1) else None)
       in if \<not> names_counter then Inr ()
          else case check_start of
              None \<Rightarrow> Inl (off, RBudgetRegisterAccess)
            | Some start \<Rightarrow>
                guard (start + BUDGET_CHECK_WORDS \<le> length (fr_body frag)
                       \<and> budget_sequence (take BUDGET_CHECK_WORDS (drop start (fr_body frag))) \<noteq> None
                       \<and> (guards_back_edge frag start \<or> guards_template frag start))
                  (off, RBudgetRegisterAccess))))"

definition check_runtime_access ::
    "nat \<Rightarrow> a64_insn \<Rightarrow> a64_mem \<Rightarrow> nat \<Rightarrow> taint \<Rightarrow> verify_error + unit" where
  "check_runtime_access k i m nbytes t =
    (let off = word_offset k in
     case m of
       MOffset b imm \<Rightarrow>
         let start = ivalue imm; end = start + int nbytes in
         if is_sp b then
           guard (is_user_state_slot start nbytes \<or> pt_regs_pointer_load i \<noteq> None)
             (off, RFrameAccessOutOfRange)
         else if is_pt_regs t (enc b) then
           guard (start \<ge> 0 \<and> end \<le> int PT_REGS_USER_STATE_END) (off, RPtRegsAccessOutOfRange)
         else Inl (off, RRuntimeAccessBase)
     | _ \<Rightarrow> Inl (off, RRuntimeAccessWriteback))"

record pass =
  ps_taint :: taint
  ps_sites :: "fault_site list"
  ps_fpsimd :: bool

text \<open>\<open>sites.next()\<close> must be the fault site of this word.\<close>

definition take_site :: "nat \<Rightarrow> pass \<Rightarrow> verify_error + pass" where
  "take_site off ps =
    (case ps_sites ps of
       [] \<Rightarrow> Inl (off, RMissingFaultSite)
     | site # rest \<Rightarrow>
         if access_offset site = off then Inr (ps\<lparr>ps_sites := rest\<rparr>) else Inl (off, RMissingFaultSite))"

definition check_form ::
    "fragment \<Rightarrow> nat set \<Rightarrow> (nat \<Rightarrow> nat option) \<Rightarrow> taint \<Rightarrow> nat \<Rightarrow> a64_insn \<Rightarrow> pass \<Rightarrow> verify_error + pass" where
  "check_form frag join cm join_state k i ps =
    (let off = word_offset k; t = ps_taint ps in
     case classify i of
       FAlu \<Rightarrow> Inr ps
     | FNop \<Rightarrow> Inr ps
     | FBarrier \<Rightarrow> Inr ps
     | FMrsUserReg \<Rightarrow> Inr ps
     | FSimd \<Rightarrow> Inr (ps\<lparr>ps_fpsimd := True\<rparr>)
     | FPcRelative \<Rightarrow> Inl (off, RPcRelative)
     | FUserOnly \<Rightarrow> Inl (off, RUserOnlyForm)
     | FCall \<Rightarrow> Inl (off, RCall)
     | FIndirectBranch \<Rightarrow> Inl (off, RIndirectBranch)
     | FException \<Rightarrow> Inl (off, RException)
     | FBranch _ _ \<Rightarrow>
         rbind (if is_back_edge_on_cycle frag cm k then check_budget_before frag join k else Inr ())
           (\<lambda>_. rbind (check_edge t join_state off) (\<lambda>_. Inr ps))
     | FUserAccess m \<Rightarrow>
         if is_sp (mem_base m) then Inl (off, RUserAccessSpBase)
         else rbind (check_edge t join_state off) (\<lambda>_. take_site off ps)
     | FWindowAccess _ fpsimd \<Rightarrow>
         rbind (check_edge t join_state off) (\<lambda>_. take_site off (ps\<lparr>ps_fpsimd := ps_fpsimd ps \<or> fpsimd\<rparr>))
     | FMsr \<Rightarrow> Inl (off, RMsr)
     | FRuntimeAccess m nbytes _ \<Rightarrow> rbind (check_runtime_access k i m nbytes t) (\<lambda>_. Inr ps))"

definition check_registers :: "nat \<Rightarrow> a64_insn \<Rightarrow> taint \<Rightarrow> verify_error + unit" where
  "check_registers k i t =
    (let off = word_offset k in
     rbind (ok_or (writes i) (off, ROperandMetadata)) (\<lambda>wr.
       if w_sp wr then Inl (off, RSpWrite)
       else if w_gprs wr AND gpr_bit KERNEL_FP_REG \<noteq> 0 then Inl (off, RFramePointerWrite)
       else
         rbind (ok_or (reads i) (off, ROperandMetadata)) (\<lambda>rd.
           let user_base = (if is_access_form (classify i) then r_base rd else None) in
           guard (\<not> (r_sp rd \<or> r_gprs rd AND t_kernel t \<noteq> 0
                     \<or> (case user_base of None \<Rightarrow> False | Some b \<Rightarrow> is_kernel t (enc b))))
             (off, RKernelValueRead))))"

definition is_unconditional :: "a64_insn \<Rightarrow> bool" where
  "is_unconditional i = (case classify i of FBranch _ c \<Rightarrow> \<not> c | _ \<Rightarrow> False)"

text \<open>Falling through into a join point is an edge too.\<close>

definition enter_join :: "nat set \<Rightarrow> taint \<Rightarrow> nat \<Rightarrow> taint \<Rightarrow> verify_error + taint" where
  "enter_join join join_state k t =
    (if k \<in> join then rbind (check_edge t join_state (word_offset k)) (\<lambda>_. Inr join_state) else Inr t)"

definition check_word ::
    "fragment \<Rightarrow> nat set \<Rightarrow> (nat \<Rightarrow> nat option) \<Rightarrow> taint \<Rightarrow> nat \<Rightarrow> pass \<Rightarrow> verify_error + pass" where
  "check_word frag join cm join_state k ps0 =
    rbind (enter_join join join_state k (ps_taint ps0)) (\<lambda>t.
      let ps = ps0\<lparr>ps_taint := t\<rparr>; i = fr_body frag ! k; off = word_offset k in
      case fr_position frag k of
        Some p \<Rightarrow>
          rbind (step_dispatch_template p t join_state off) (\<lambda>t'. Inr (ps\<lparr>ps_taint := t'\<rparr>))
      | None \<Rightarrow>
          rbind (check_budget_register frag k i) (\<lambda>_.
          rbind (check_form frag join cm join_state k i ps) (\<lambda>ps'.
          rbind (check_registers k i t) (\<lambda>_.
          rbind (ok_or (taint_step i (classify i) t) (off, ROperandMetadata)) (\<lambda>t'.
            Inr (ps'\<lparr>ps_taint := if is_unconditional i then join_state else t'\<rparr>))))))"

subsection \<open>The whole verification\<close>

text \<open>The table passes up to the main pass: the join points.\<close>

definition scan_fragment :: "verify_input \<Rightarrow> fragment \<Rightarrow> verify_error + nat set" where
  "scan_fragment input frag =
    (let ws = [0..<length (fr_body frag)] in
     rbind (rfold (scan_fault_site frag) (vi_fault_sites input)
       (None, \<lparr>sc_join = {}, sc_checked = {}, sc_cold = length (fr_body frag)\<rparr>)) (\<lambda>(_, sc0).
     rbind (rfold (scan_back_edge frag) ws sc0) (\<lambda>sc1.
     rbind (rfold (scan_window frag) ws sc1) (\<lambda>sc2.
     rbind (rfold (scan_template frag) ws sc2) (\<lambda>sc3.
     rbind (guard (vi_entry_offsets input \<noteq> []) (0, RNoEntry)) (\<lambda>_.
     rbind (rfold (scan_entry frag) (vi_entry_offsets input) sc3) (\<lambda>sc4.
     rbind (rfold (scan_branch frag) ws sc4) (\<lambda>sc5.
       let join = sc_join sc5 in
     rbind (rfold (scan_link_site frag join) (vi_link_sites input) {}) (\<lambda>_.
     rbind (rfold (check_template_joins frag join) ws ()) (\<lambda>_.
     rbind (rfold (check_window_joins frag join) ws ()) (\<lambda>_.
       Inr join)))))))))))"

definition main_pass :: "verify_input \<Rightarrow> fragment \<Rightarrow> nat set \<Rightarrow> verify_error + pass" where
  "main_pass input frag join =
    (let count = length (fr_body frag) in
     rbind (ok_or taint_at_entry (0, RPrologue)) (\<lambda>join_state.
       rfold (check_word frag join (components count (successors frag count)) join_state) [0..<count]
         \<lparr>ps_taint = join_state, ps_sites = vi_fault_sites input, ps_fpsimd = False\<rparr>))"

text \<open>The body, its templates and the fragment built from them.\<close>

definition load_fragment :: "u8 list \<Rightarrow> verify_error + fragment" where
  "load_fragment code =
    (if length code mod ABI_INSN_SIZE \<noteq> 0 \<or> length code \<le> BODY_OFFSET then Inl (length code, RLength)
     else
       rbind (check_wrapper code 0 KJIT_PROLOGUE RPrologue) (\<lambda>_.
       rbind (check_wrapper code EPILOGUE_OFFSET KJIT_EPILOGUE REpilogue) (\<lambda>_.
       rbind (decode_body code) (\<lambda>body.
       rbind (find_dispatch_templates code body) (\<lambda>t.
         Inr \<lparr>fr_body = body, fr_len = length code, fr_position = tp_position t, fr_miss = tp_miss t\<rparr>)))))"

text \<open>\<open>VerifyOk\<close> is the flag \<open>uses_fpsimd\<close>.\<close>

definition verify_fragment :: "verify_input \<Rightarrow> verify_error + bool" where
  "verify_fragment input =
    rbind (load_fragment (vi_code input)) (\<lambda>frag.
    rbind (scan_fragment input frag) (\<lambda>join.
    rbind (main_pass input frag join) (\<lambda>ps.
      let last_word = length (fr_body frag) - 1 in
      if is_unconditional (fr_body frag ! last_word) then Inr (ps_fpsimd ps)
      else Inl (word_offset last_word, RFallsOffEnd))))"

end
