(* ===== verification/VerifyTemplate.thy ===== *)
theory VerifyTemplate
  imports Verify
begin

section \<open>What the words of a matched dispatch template decode to\<close>

text \<open>
  The verifier recognises a dispatch template by its words (\<open>dispatch_template_matches\<close>). Here those
  words are computed, and shown to decode to the instructions of the template: the only freedom a
  match leaves is the offset of its four miss branches.
\<close>

lemmas template_defs = KJIT_DISPATCH_TEMPLATE_def w_table_def w_ubfx_def w_slot_def w_cbz_slot_def
  w_cbnz_key_def w_record_pc_def w_compare_def w_record_host_def w_br_def e_uimm_def ldst64_offset_def

definition template_words :: "u32 list" where
  "template_words =
    [0xF94067EC, 0xD34235AE, 0xF86E798C, 0xB400000C, 0xF940018E, 0xCB0D01CE, 0xB500000E, 0xF940058C,
     0xD61F0180, 0xF94067EC, 0xCA4D31AE, 0xD34225CE, 0x9140218C, 0xF86E798C, 0xB400000C, 0xF940018E,
     0xCB0D01CE, 0xB500000E, 0xF940058C, 0xD61F0180]"

lemma template_encodes: "map encode KJIT_DISPATCH_TEMPLATE = map Some template_words"
  by (simp add: template_defs kdefs enc_defs reg_defs imm_defs template_words_def word_le_nat_alt)

text \<open>
  The template as it decodes: the source writes a base register as \<open>x(n)\<close>, decoding gives the same
  number with the SP reading of 31.
\<close>

definition template_insns :: "a64_insn list" where
  "template_insns =
    (let table = w_table;
         slot = Mem (LdStReg Ldr64 (reg_x 14) (Some 3) 1 (reg_x_sp 12) (reg_x 12));
         pc = Mem (LdSt Ldr64 (reg_x 14) (MOffset (reg_x_sp 12) (ldst64_offset 0)));
         host = Mem (LdSt Ldr64 (reg_x 12) (MOffset (reg_x_sp 12) (ldst64_offset 8)))
     in [table, w_ubfx 14 13 2 12, slot, w_cbz_slot, pc, w_compare, w_cbnz_key, host, w_br,
         table, Dp (LogShift LgEor X64 1 (reg_x 13) (e_uimm 12 6) (reg_x 13) (reg_x 14)),
         w_ubfx 14 14 2 8, Dp (AddSubImm AsAdd X64 1 (e_uimm 8 12) (reg_x_sp 12) (reg_x_sp 12)),
         slot, w_cbz_slot, pc, w_compare, w_cbnz_key, host, w_br])"

lemma decode_template_words:
  "decode_a64_insn 0xF94067EC = Some w_table"
  "decode_a64_insn 0xD34235AE = Some (w_ubfx 14 13 2 12)"
  "decode_a64_insn 0xF86E798C = Some (Mem (LdStReg Ldr64 (reg_x 14) (Some 3) 1 (reg_x_sp 12) (reg_x 12)))"
  "decode_a64_insn 0xF940018E = Some (Mem (LdSt Ldr64 (reg_x 14) (MOffset (reg_x_sp 12) (ldst64_offset 0))))"
  "decode_a64_insn 0xCB0D01CE = Some w_compare"
  "decode_a64_insn 0xF940058C = Some (Mem (LdSt Ldr64 (reg_x 12) (MOffset (reg_x_sp 12) (ldst64_offset 8))))"
  "decode_a64_insn 0xD61F0180 = Some w_br"
  "decode_a64_insn 0xCA4D31AE = Some (Dp (LogShift LgEor X64 1 (reg_x 13) (e_uimm 12 6) (reg_x 13) (reg_x 14)))"
  "decode_a64_insn 0xD34225CE = Some (w_ubfx 14 14 2 8)"
  "decode_a64_insn 0x9140218C = Some (Dp (AddSubImm AsAdd X64 1 (e_uimm 8 12) (reg_x_sp 12) (reg_x_sp 12)))"
  by (simp_all only: decode_chunks)
    (simp_all add: decode_eval template_defs kdefs reg_defs imm_scaled_unsigned_def del: first_row.simps(2))

lemma template_not_undefined:
  "\<not> is_decode_undefined w_table" "\<not> is_decode_undefined (w_ubfx 14 13 2 12)"
  "\<not> is_decode_undefined (Mem (LdStReg Ldr64 (reg_x 14) (Some 3) 1 (reg_x_sp 12) (reg_x 12)))"
  "\<not> is_decode_undefined (Mem (LdSt Ldr64 r m))" "\<not> is_decode_undefined w_compare"
  "\<not> is_decode_undefined w_br"
  "\<not> is_decode_undefined (Dp (LogShift LgEor X64 1 (reg_x 13) (e_uimm 12 6) (reg_x 13) (reg_x 14)))"
  "\<not> is_decode_undefined (w_ubfx 14 14 2 8)"
  "\<not> is_decode_undefined (Dp (AddSubImm AsAdd X64 1 (e_uimm 8 12) (reg_x_sp 12) (reg_x_sp 12)))"
  by (simp_all add: template_defs imm_defs sub_word_index_def)

lemma template_words_defined:
  assumes "q < 20" "q \<notin> {3, 6, 14, 17}"
  shows "decode_defined (template_words ! q) = Some (template_insns ! q)"
proof -
  from assms have "q = 0 \<or> q = 1 \<or> q = 2 \<or> q = 4 \<or> q = 5 \<or> q = 7 \<or> q = 8 \<or> q = 9 \<or> q = 10 \<or> q = 11
      \<or> q = 12 \<or> q = 13 \<or> q = 15 \<or> q = 16 \<or> q = 18 \<or> q = 19"
    by (simp, arith)
  then show ?thesis
    by (elim disjE) (simp_all add: template_words_def template_insns_def Let_def decode_defined_def
        decode_template_words template_not_undefined sub_word_index_def)
qed

lemma first_row_skip_masked:
  "w AND m' = c \<Longrightarrow> c AND m \<noteq> v AND m' \<Longrightarrow> first_row ((m, v, ex, b) # rs) w = first_row rs w"
  by (rule first_row_skip) (metis and.commute and.assoc)

lemma decode_miss_slot:
  assumes "w AND 0xFF00001F = 0xB400000C"
  shows "decode_a64_insn w = Some (Brn (Cbz X64 (ssimm 5 19 2 w) (xr X64 0 w)))"
proof -
  have hit: "w AND 0xFF000000 = 0xB4000000"
    using arg_cong [OF assms, of "\<lambda>x. x AND 0xFF000000"] by (simp add: and.assoc)
  show ?thesis
    by (simp only: decode_chunks)
      (simp add: decode_rows_defs first_row_skip_masked [OF assms] hit first_row_hit build_defs
        del: first_row.simps(2))
qed

lemma decode_miss_key:
  assumes "w AND 0xFF00001F = 0xB500000E"
  shows "decode_a64_insn w = Some (Brn (Cbnz X64 (ssimm 5 19 2 w) (xr X64 0 w)))"
proof -
  have hit: "w AND 0xFF000000 = 0xB5000000"
    using arg_cong [OF assms, of "\<lambda>x. x AND 0xFF000000"] by (simp add: and.assoc)
  show ?thesis
    by (simp only: decode_chunks)
      (simp add: decode_rows_defs first_row_skip_masked [OF assms] hit first_row_hit build_defs
        del: first_row.simps(2))
qed

lemma low_reg: "w AND 0xFF00001F = c \<Longrightarrow> fldn 0 5 w = unat (c AND 0x1F)"
proof -
  assume "w AND 0xFF00001F = c"
  then have "w AND 0x1F = c AND 0x1F"
    using and.assoc [of w "0xFF00001F" "0x1F"] by simp
  moreover have "take_bit 5 w = w AND 0x1F"
    by (simp add: take_bit_eq_mask mask_numeral)
  ultimately show ?thesis by (simp add: fldn_def fld_def)
qed

lemma imm19_delta: "ivalue (ssimm 5 19 2 w) = miss_branch_delta w"
proof -
  have "fld 5 19 w = drop_bit 5 (w AND MISS_BRANCH_IMM19_MASK)"
  proof -
    have m: "MISS_BRANCH_IMM19_MASK = push_bit 5 (mask 19)"
      by (simp add: MISS_BRANCH_IMM19_MASK_def mask_eq_exp_minus_1)
    show ?thesis
      unfolding m by (rule bit_eqI) (auto simp: fld_def bit_simps)
  qed
  then show ?thesis
    by (simp add: ssimm_def miss_branch_delta_def ABI_INSN_SIZE_def)
qed

lemma template_deltas_words:
  assumes "template_deltas k (zip ws insns) = Some ds" "map encode insns = map Some es"
    "length ws = length insns"
  shows "(\<forall>q < length ws. if k + q \<in> set DISPATCH_TEMPLATE_MISS_BRANCHES
            then ws ! q AND NOT MISS_BRANCH_IMM19_MASK = es ! q AND NOT MISS_BRANCH_IMM19_MASK
            else ws ! q = es ! q)
    \<and> ds = map (\<lambda>q. miss_branch_delta (ws ! q))
        (filter (\<lambda>q. k + q \<in> set DISPATCH_TEMPLATE_MISS_BRANCHES) [0..<length ws])"
  using assms
proof (induction insns arbitrary: k ws es ds)
  case Nil
  then show ?case by simp
next
  case (Cons i insns)
  from Cons.prems obtain w ws' e es' where ws: "ws = w # ws'" and es: "es = e # es'"
    and enc: "encode i = Some e" "map encode insns = map Some es'" and len: "length ws' = length insns"
    by (cases ws; cases es) auto
  let ?miss = "k \<in> set DISPATCH_TEMPLATE_MISS_BRANCHES"
  from Cons.prems(1) obtain ds' where rest: "template_deltas (Suc k) (zip ws' insns) = Some ds'"
    and here: "if ?miss then w AND NOT MISS_BRANCH_IMM19_MASK = e AND NOT MISS_BRANCH_IMM19_MASK
        \<and> ds = miss_branch_delta w # ds' else w = e \<and> ds = ds'"
    by (auto simp: ws enc split: if_splits)
  have upt: "[0..<length ws] = 0 # map Suc [0..<length ws']"
    by (simp add: ws upt_conv_Cons map_Suc_upt del: upt_Suc)
  note IH = Cons.IH [OF rest enc(2) len]
  have all: "(\<forall>q < length ws. Q q) \<longleftrightarrow> Q 0 \<and> (\<forall>q < length ws'. Q (Suc q))" for Q
    by (auto simp: ws less_Suc_eq_0_disj)
  show ?case
    unfolding all upt using IH here
    by (auto simp: ws es filter_map comp_def split: if_splits)
qed

definition miss_word :: "nat \<Rightarrow> u32 \<Rightarrow> bool" where
  "miss_word q w \<longleftrightarrow>
    w AND NOT MISS_BRANCH_IMM19_MASK = template_words ! q AND NOT MISS_BRANCH_IMM19_MASK"

lemma template_matches_words:
  assumes "dispatch_template_matches ws = Some ds"
  shows "length ws = 20"
    and "q < 20 \<Longrightarrow> q \<notin> {3, 6, 14, 17} \<Longrightarrow> ws ! q = template_words ! q"
    and "q \<in> {3, 6, 14, 17} \<Longrightarrow> miss_word q (ws ! q)"
    and "ds = map (\<lambda>q. miss_branch_delta (ws ! q)) [3, 6, 14, 17]"
proof -
  from assms have len: "length ws = 20" and td: "template_deltas 0 (zip ws KJIT_DISPATCH_TEMPLATE) = Some ds"
    by (auto simp: dispatch_template_matches_def DISPATCH_TEMPLATE_LEN_def split: if_splits)
  have tl: "length ws = length KJIT_DISPATCH_TEMPLATE"
    by (simp add: len KJIT_DISPATCH_TEMPLATE_def)
  note all = template_deltas_words [OF td template_encodes tl]
  show "length ws = 20" by (rule len)
  show "q < 20 \<Longrightarrow> q \<notin> {3, 6, 14, 17} \<Longrightarrow> ws ! q = template_words ! q"
    using all by (auto simp: len DISPATCH_TEMPLATE_MISS_BRANCHES_def)
  show "q \<in> {3, 6, 14, 17} \<Longrightarrow> miss_word q (ws ! q)"
    using all by (auto simp: len miss_word_def DISPATCH_TEMPLATE_MISS_BRANCHES_def)
  have "filter (\<lambda>q. 0 + q \<in> set DISPATCH_TEMPLATE_MISS_BRANCHES) [0..<20] = [3, 6, 14, 17]"
    by (simp add: upt_conv_Cons DISPATCH_TEMPLATE_MISS_BRANCHES_def)
  with all show "ds = map (\<lambda>q. miss_branch_delta (ws ! q)) [3, 6, 14, 17]"
    by (simp add: len)
qed

text \<open>A miss branch decodes to a conditional branch over its offset.\<close>

lemma miss_word_decodes:
  assumes "q \<in> {3, 6, 14, 17}" "miss_word q w"
  shows "\<exists>op imm r. decode_defined w = Some (Brn (op X64 imm r)) \<and> (op = Cbz \<or> op = Cbnz)
    \<and> ivalue imm = miss_branch_delta w"
proof -
  have m: "NOT MISS_BRANCH_IMM19_MASK = 0xFF00001F"
    by (simp add: MISS_BRANCH_IMM19_MASK_def)
  from assms consider "w AND 0xFF00001F = 0xB400000C" | "w AND 0xFF00001F = 0xB500000E"
    unfolding miss_word_def m by (auto simp: template_words_def)
  then show ?thesis
  proof cases
    case 1
    show ?thesis
      using decode_miss_slot [OF 1] imm19_delta [of w] by (auto simp: decode_defined_def)
  next
    case 2
    show ?thesis
      using decode_miss_key [OF 2] imm19_delta [of w] by (auto simp: decode_defined_def)
  qed
qed

end
