(* ===== verification/VerifyFacts.thy ===== *)
theory VerifyFacts
  imports VerifyTemplate
begin

section \<open>What an accepted fragment satisfies\<close>

text \<open>
  The passes of \<open>verify_fragment\<close>, read backwards: what each of them guarantees about a fragment that
  passed. The later theories reason from these facts alone.
\<close>

subsection \<open>The body\<close>

lemma decode_body_words:
  assumes "decode_body code = Inr body"
  shows "length body = (length code - BODY_OFFSET) div ABI_INSN_SIZE"
    and "k < length body \<Longrightarrow>
      \<exists>w. read_word code (word_offset k) = Some w \<and> decode_defined w = Some (body ! k)"
proof -
  define n where "n = (length code - BODY_OFFSET) div ABI_INSN_SIZE"
  let ?f = "\<lambda>k body.
      rbind (ok_or (read_word code (word_offset k)) (word_offset k, RLength)) (\<lambda>word.
      rbind (ok_or (decode_defined word) (word_offset k, RUndecodable word)) (\<lambda>i. Inr (body @ [i])))"
  from assms have run: "rfold ?f [0..<n] [] = Inr body"
    by (simp add: decode_body_def Let_def n_def)
  then obtain S where S: "S 0 = []" "S n = body"
      "\<And>k. k < n \<Longrightarrow> ?f k (S k) = Inr (S (Suc k))"
    by (rule rfold_trace) auto
  have "m \<le> n \<Longrightarrow> length (S m) = m \<and> (\<forall>k < m. \<exists>w. read_word code (word_offset k) = Some w
      \<and> decode_defined w = Some (S m ! k))" for m
  proof (induction m)
    case 0
    then show ?case by (simp add: S)
  next
    case (Suc m)
    then obtain w i where "read_word code (word_offset m) = Some w" "decode_defined w = Some i"
      and "S (Suc m) = S m @ [i]"
      using S(3) [of m] by fastforce
    with Suc show ?case by (auto simp: nth_append less_Suc_eq)
  qed
  from this [of n] S(2) show "length body = (length code - BODY_OFFSET) div ABI_INSN_SIZE"
    and "k < length body \<Longrightarrow>
      \<exists>w. read_word code (word_offset k) = Some w \<and> decode_defined w = Some (body ! k)"
    by (auto simp: n_def)
qed

lemma word_offset_simps:
  "word_offset k = 308 + 4 * k" "int (word_offset k) = 308 + 4 * int k"
  by (simp_all add: word_offset_def body_offset ABI_INSN_SIZE_def)

text \<open>What \<open>load_fragment\<close> establishes.\<close>

definition loaded :: "u8 list \<Rightarrow> fragment \<Rightarrow> bool" where
  "loaded code frag \<longleftrightarrow>
    fr_len frag = length code \<and> length code = word_offset (length (fr_body frag))
    \<and> fr_body frag \<noteq> []
    \<and> (\<forall>k < length (fr_body frag).
        \<exists>w. read_word code (word_offset k) = Some w \<and> decode_defined w = Some (fr_body frag ! k))"

lemma load_fragment_loaded:
  assumes "load_fragment code = Inr frag"
  shows "loaded code frag"
proof -
  from assms have len: "length code mod 4 = 0" "308 < length code"
    and body: "decode_body code = Inr (fr_body frag)" and fl: "fr_len frag = length code"
    by (auto simp: load_fragment_def ABI_INSN_SIZE_def body_offset split: if_splits)
  note words = decode_body_words [OF body]
  have "length (fr_body frag) = (length code - 308) div 4"
    using words(1) by (simp add: ABI_INSN_SIZE_def body_offset)
  with len have "length code = 308 + 4 * length (fr_body frag)" by presburger
  moreover from this len have "fr_body frag \<noteq> []" by auto
  ultimately show ?thesis
    using words(2) fl by (auto simp: loaded_def word_offset_simps)
qed

lemma body_index_word:
  assumes "loaded code frag" "body_index frag off = Some k"
  shows "k < length (fr_body frag)" "off = word_offset k"
proof -
  from assms have "308 \<le> off" "off < 308 + 4 * length (fr_body frag)" "off mod 4 = 0"
    "k = (off - 308) div 4"
    by (auto simp: body_index_def loaded_def word_offset_simps body_offset ABI_INSN_SIZE_def
        split: if_splits)
  then show "k < length (fr_body frag)" "off = word_offset k"
    unfolding word_offset_simps by presburger+
qed

lemma body_index_word_offset:
  "loaded code frag \<Longrightarrow> k < length (fr_body frag) \<Longrightarrow> body_index frag (word_offset k) = Some k"
  by (auto simp: body_index_def loaded_def word_offset_simps body_offset ABI_INSN_SIZE_def)

lemma body_index_int_word:
  assumes "loaded code frag" "body_index_int frag t = Some k"
  shows "k < length (fr_body frag)" "t = int (word_offset k)"
  using assms body_index_word [of code frag "nat t" k]
  by (auto simp: body_index_int_def split: if_splits)

subsection \<open>Templates\<close>

definition template_fits :: "u8 list \<Rightarrow> fragment \<Rightarrow> nat \<Rightarrow> bool" where
  "template_fits code frag s \<longleftrightarrow>
    (\<exists>ws ds exit miss.
       (\<forall>q < 20. read_word code (word_offset (s + q)) = Some (ws ! q))
       \<and> dispatch_template_matches ws = Some ds
       \<and> miss_exit s (zip DISPATCH_TEMPLATE_MISS_BRANCHES (zip DISPATCH_TEMPLATE_MISS_TARGETS ds)) None
           = Some (Some exit)
       \<and> miss_index s (length (fr_body frag)) exit = Some miss \<and> fr_miss frag s = Some miss)
    \<and> (\<forall>q < 20. fr_position frag (s + q) = Some q)"

definition templates_fit :: "u8 list \<Rightarrow> fragment \<Rightarrow> bool" where
  "templates_fit code frag \<longleftrightarrow>
    (\<forall>k p. fr_position frag k = Some p \<longrightarrow> p < 20 \<and> p \<le> k \<and> template_fits code frag (k - p))"

definition with_templates :: "a64_insn list \<Rightarrow> nat \<Rightarrow> templates \<Rightarrow> fragment" where
  "with_templates body n t =
    \<lparr>fr_body = body, fr_len = n, fr_position = tp_position t, fr_miss = tp_miss t\<rparr>"

lemma template_at_fits:
  assumes "template_at code (length body) k t = Some (s, m)"
  shows "template_fits code (with_templates body n (add_template s m t)) s"
    and "\<forall>q < 20. tp_position t (s + q) = None"
proof -
  let ?rs = "map (\<lambda>p. read_word code (word_offset (s + p))) [0..<20]"
  from assms obtain ds exit where
    nn: "None \<notin> set ?rs"
    and m: "dispatch_template_matches (map the ?rs) = Some ds"
    and ex: "miss_exit s (zip DISPATCH_TEMPLATE_MISS_BRANCHES (zip DISPATCH_TEMPLATE_MISS_TARGETS ds)) None
        = Some (Some exit)"
    and mi: "miss_index s (length body) exit = Some m"
    and free: "\<not> list_ex (\<lambda>p. tp_position t (s + p) \<noteq> None) [0..<20]"
    unfolding template_at_def DISPATCH_TEMPLATE_LEN_def Let_def
    by (auto split: if_splits option.splits bind_splits)
  from free show "\<forall>q < 20. tp_position t (s + q) = None"
    by (auto simp: list_ex_iff)
  have "read_word code (word_offset (s + q)) = Some (map the ?rs ! q)" if "q < 20" for q
  proof -
    have "?rs ! q \<in> set ?rs" using that by simp
    with nn have "?rs ! q \<noteq> None" by metis
    with that show ?thesis by auto
  qed
  then show "template_fits code (with_templates body n (add_template s m t)) s"
    unfolding template_fits_def using m ex mi
    by (auto simp: with_templates_def add_template_def DISPATCH_TEMPLATE_LEN_def intro!: exI [of _ "map the ?rs"])
qed

lemma add_template_fits:
  assumes "templates_fit code (with_templates body n t)"
    "template_at code (length body) k t = Some (s, m)"
  shows "templates_fit code (with_templates body n (add_template s m t))"
  unfolding templates_fit_def
proof (intro allI impI)
  fix j p
  assume pos: "fr_position (with_templates body n (add_template s m t)) j = Some p"
  note at = template_at_fits [OF assms(2)]
  show "p < 20 \<and> p \<le> j \<and> template_fits code (with_templates body n (add_template s m t)) (j - p)"
  proof (cases "s \<le> j \<and> j < s + 20")
    case True
    with pos at(1) [of n] show ?thesis
      by (auto simp: with_templates_def add_template_def DISPATCH_TEMPLATE_LEN_def)
  next
    case False
    with pos have old: "fr_position (with_templates body n t) j = Some p"
      by (auto simp: with_templates_def add_template_def DISPATCH_TEMPLATE_LEN_def)
    with assms(1) have fit: "p < 20" "p \<le> j" "template_fits code (with_templates body n t) (j - p)"
      by (auto simp: templates_fit_def)
    have apart: "\<not> (s \<le> j - p + q \<and> j - p + q < s + 20)" if "q < 20" for q
    proof
      assume "s \<le> j - p + q \<and> j - p + q < s + 20"
      then obtain q' where "q' < 20" "j - p + q = s + q'"
        by (metis add_less_cancel_left le_Suc_ex)
      with at(2) fit(3) that show False
        by (auto simp: template_fits_def with_templates_def)
    qed
    then have "template_fits code (with_templates body n (add_template s m t)) (j - p)"
      using fit(3) apart [of 0]
      by (auto simp: template_fits_def with_templates_def add_template_def DISPATCH_TEMPLATE_LEN_def)
    with fit show ?thesis by simp
  qed
qed

lemma load_fragment_templates:
  assumes "load_fragment code = Inr frag"
  shows "templates_fit code frag"
    and "k < length (fr_body frag) \<Longrightarrow> is_br_x12 (fr_body frag ! k) \<Longrightarrow> fr_position frag k \<noteq> None"
proof -
  from assms obtain body t where body: "decode_body code = Inr body"
    and run: "find_dispatch_templates code body = Inr t"
    and frag: "frag = with_templates body (length code) t"
    by (auto simp: load_fragment_def with_templates_def split: if_splits)
  show "templates_fit code frag"
    unfolding frag using run unfolding find_dispatch_templates_def
  proof (rule rfold_invariant)
    show "templates_fit code (with_templates body (length code) \<lparr>tp_position = \<lambda>_. None, tp_miss = \<lambda>_. None\<rparr>)"
      by (simp add: templates_fit_def with_templates_def)
  qed (auto split: if_splits prod.splits intro: add_template_fits)
  have "\<forall>k \<in> set [0..<length body]. is_br_x12 (body ! k) \<longrightarrow> tp_position t k \<noteq> None"
    using run unfolding find_dispatch_templates_def
  proof (rule rfold_each)
    fix j s u
    assume "(if \<not> is_br_x12 (body ! j) \<or> tp_position s j \<noteq> None then Inr s
        else rbind (ok_or (template_at code (length body) j s) (word_offset j, RDispatchTemplate))
               (\<lambda>(start, miss). Inr (add_template start miss s))) = Inr u"
    then show "is_br_x12 (body ! j) \<longrightarrow> tp_position u j \<noteq> None"
      by (auto simp: template_at_def add_template_def kdefs Let_def split: if_splits option.splits bind_splits)
  qed (auto simp: add_template_def split: if_splits)
  then show "k < length (fr_body frag) \<Longrightarrow> is_br_x12 (fr_body frag ! k) \<Longrightarrow> fr_position frag k \<noteq> None"
    by (auto simp: frag with_templates_def)
qed

subsection \<open>The table passes\<close>

lemma add_stub_join: "add_stub frag stub sc = Inr sc' \<Longrightarrow> sc_join sc' = insert stub (sc_join sc)"
  by (auto simp: add_stub_def)

lemma scan_fault_site_join:
  assumes "scan_fault_site frag site p = Inr p'"
  shows "sc_join (snd p) \<subseteq> sc_join (snd p')"
    and "\<exists>a s. body_index frag (access_offset site) = Some a \<and> is_access_form (classify (fr_body frag ! a))
      \<and> body_index frag (stub_offset site) = Some s \<and> s \<in> sc_join (snd p')"
  using assms by (auto simp: scan_fault_site_def dest!: add_stub_join split: prod.splits if_splits)

lemma scan_back_edge_join:
  "scan_back_edge frag k sc = Inr sc' \<Longrightarrow> sc_join sc \<subseteq> sc_join sc'"
  "scan_back_edge frag k sc = Inr sc' \<Longrightarrow> is_back_edge frag k \<Longrightarrow> budget_guard frag k = Some (g, stub)
    \<Longrightarrow> stub \<in> sc_join sc'"
  by (auto simp: scan_back_edge_def dest!: add_stub_join split: if_splits option.splits)

lemma scan_window_join:
  assumes "scan_window frag k sc = Inr sc'"
  shows "sc_join sc \<subseteq> sc_join sc'"
    and "is_window_form (classify (fr_body frag ! k)) \<Longrightarrow>
      \<exists>stub. window_range_check frag k = Inr stub \<and> stub \<in> sc_join sc'"
proof -
  have "sc_join sc \<subseteq> sc_join sc' \<and> (is_window_form (classify (fr_body frag ! k)) \<longrightarrow>
      (\<exists>stub. window_range_check frag k = Inr stub \<and> stub \<in> sc_join sc'))"
  proof (cases "is_window_form (classify (fr_body frag ! k))")
    case True
    with assms obtain stub where w: "window_range_check frag k = Inr stub"
      and a: "(case add_stub frag stub sc of Inl _ \<Rightarrow> Inl (word_offset k, RWindowRangeCheck)
        | Inr sc' \<Rightarrow> Inr sc') = Inr sc'"
      by (auto simp: scan_window_def)
    from a have "add_stub frag stub sc = Inr sc'" by (cases "add_stub frag stub sc") auto
    with w show ?thesis by (auto dest!: add_stub_join)
  qed (use assms in \<open>simp add: scan_window_def\<close>)
  then show "sc_join sc \<subseteq> sc_join sc'" and "is_window_form (classify (fr_body frag ! k)) \<Longrightarrow>
      \<exists>stub. window_range_check frag k = Inr stub \<and> stub \<in> sc_join sc'" by auto
qed

lemma scan_template_join:
  assumes "scan_template frag k sc = Inr sc'"
  shows "sc_join sc \<subseteq> sc_join sc'"
    and "fr_position frag k = Some 0 \<Longrightarrow>
      \<exists>g stub m. template_guard frag k = Some (g, stub) \<and> stub \<in> sc_join sc'
        \<and> fr_miss frag k = Some m \<and> m \<in> sc_join sc'"
  using assms by (auto simp: scan_template_def dest!: add_stub_join split: if_splits prod.splits)

lemma scan_entry_join:
  assumes "scan_entry frag e sc = Inr sc'"
  shows "sc_join sc \<subseteq> sc_join sc'" and "\<exists>k. body_index frag e = Some k \<and> k \<in> sc_join sc'"
  using assms by (auto simp: scan_entry_def split: if_splits option.splits)

lemma scan_branch_join:
  assumes "scan_branch frag k sc = Inr sc'"
  shows "sc_join sc \<subseteq> sc_join sc'"
    and "branch_target frag k = Some t \<Longrightarrow> t = int EPILOGUE_OFFSET
      \<or> (\<exists>j. body_index_int frag t = Some j \<and> (is_probe_edge frag k j \<or> j \<in> sc_join sc'))"
  using assms
  by (auto simp: scan_branch_def is_branch_target_def body_index_int_def Let_def
      split: if_splits option.splits sum.splits)

lemma rfold_join_mono:
  assumes "rfold f xs s = Inr t" "\<And>x s t. f x s = Inr t \<Longrightarrow> J s \<subseteq> J t"
  shows "J s \<subseteq> J t"
  using assms(1) by (rule rfold_invariant [where P = "\<lambda>t. J s \<subseteq> J t"]) (use assms(2) in blast)+

text \<open>What every element of a pass is guaranteed, with the join points of the end.\<close>

lemma rfold_each_join:
  assumes "rfold f xs s = Inr t" "x \<in> set xs"
    and "\<And>x s t. f x s = Inr t \<Longrightarrow> J s \<subseteq> J t"
    and "\<And>x s t. f x s = Inr t \<Longrightarrow> Q x (J t)"
    and "\<And>x A B. Q x A \<Longrightarrow> A \<subseteq> B \<Longrightarrow> Q x B"
  shows "Q x (J t)"
proof -
  have "\<forall>x \<in> set xs. Q x (J t)"
    using assms(1) by (rule rfold_each [where Q = "\<lambda>x t. Q x (J t)"]) (use assms(3,4,5) in blast)+
  with assms(2) show ?thesis by blast
qed

definition site_ok :: "fragment \<Rightarrow> fault_site \<Rightarrow> nat set \<Rightarrow> bool" where
  "site_ok frag site join \<longleftrightarrow>
    (\<exists>a s. body_index frag (access_offset site) = Some a \<and> is_access_form (classify (fr_body frag ! a))
      \<and> body_index frag (stub_offset site) = Some s \<and> s \<in> join)"

definition entry_ok :: "fragment \<Rightarrow> nat \<Rightarrow> nat set \<Rightarrow> bool" where
  "entry_ok frag e join \<longleftrightarrow> (\<exists>k. body_index frag e = Some k \<and> k \<in> join)"

definition branch_ok :: "fragment \<Rightarrow> nat \<Rightarrow> nat set \<Rightarrow> bool" where
  "branch_ok frag k join \<longleftrightarrow>
    (\<forall>t. branch_target frag k = Some t \<longrightarrow> t = int EPILOGUE_OFFSET
      \<or> (\<exists>j. body_index_int frag t = Some j \<and> (is_probe_edge frag k j \<or> j \<in> join)))"

definition budget_stub_ok :: "fragment \<Rightarrow> nat \<Rightarrow> nat set \<Rightarrow> bool" where
  "budget_stub_ok frag k join \<longleftrightarrow>
    (\<forall>g stub. is_back_edge frag k \<longrightarrow> budget_guard frag k = Some (g, stub) \<longrightarrow> stub \<in> join)"

definition window_stub_ok :: "fragment \<Rightarrow> nat \<Rightarrow> nat set \<Rightarrow> bool" where
  "window_stub_ok frag k join \<longleftrightarrow>
    (is_window_form (classify (fr_body frag ! k)) \<longrightarrow>
      (\<exists>stub. window_range_check frag k = Inr stub \<and> stub \<in> join))"

definition template_stub_ok :: "fragment \<Rightarrow> nat \<Rightarrow> nat set \<Rightarrow> bool" where
  "template_stub_ok frag k join \<longleftrightarrow>
    (fr_position frag k = Some 0 \<longrightarrow>
      (\<exists>g stub m. template_guard frag k = Some (g, stub) \<and> stub \<in> join
        \<and> fr_miss frag k = Some m \<and> m \<in> join))"

text \<open>No join point inside a template, between its budget check and it, or on a window access.\<close>

definition template_joins_ok :: "fragment \<Rightarrow> nat \<Rightarrow> nat set \<Rightarrow> bool" where
  "template_joins_ok frag k join \<longleftrightarrow>
    (fr_position frag k = Some 0 \<longrightarrow>
      (\<exists>g stub. template_guard frag k = Some (g, stub) \<and> (\<forall>j. g < j \<and> j < k + 20 \<longrightarrow> j \<notin> join)))"

definition window_joins_ok :: "fragment \<Rightarrow> nat \<Rightarrow> nat set \<Rightarrow> bool" where
  "window_joins_ok frag k join \<longleftrightarrow>
    (is_window_form (classify (fr_body frag ! k)) \<longrightarrow> k - 1 \<notin> join \<and> k \<notin> join)"

definition scanned :: "verify_input \<Rightarrow> fragment \<Rightarrow> nat set \<Rightarrow> bool" where
  "scanned input frag join \<longleftrightarrow>
    (\<forall>site \<in> set (vi_fault_sites input). site_ok frag site join)
    \<and> (\<forall>e \<in> set (vi_entry_offsets input). entry_ok frag e join)
    \<and> (\<forall>k < length (fr_body frag). branch_ok frag k join \<and> budget_stub_ok frag k join
        \<and> window_stub_ok frag k join \<and> template_stub_ok frag k join
        \<and> template_joins_ok frag k join \<and> window_joins_ok frag k join)"

lemma template_joins_each:
  assumes "rfold (check_template_joins frag join) ks () = Inr u" "k \<in> set ks"
  shows "template_joins_ok frag k join"
proof -
  have "\<forall>k \<in> set ks. template_joins_ok frag k join"
    using assms(1)
  proof (rule rfold_each)
    fix j s t
    assume "check_template_joins frag join j s = Inr t"
    then show "template_joins_ok frag j join"
      unfolding check_template_joins_def template_joins_ok_def DISPATCH_TEMPLATE_LEN_def
      by (auto simp: list_ex_iff Let_def split: if_splits) (metis Suc_leI atLeastLessThan_iff not_less)
  qed
  with assms(2) show ?thesis by blast
qed

lemma window_joins_each:
  assumes "rfold (check_window_joins frag join) ks () = Inr u" "k \<in> set ks"
  shows "window_joins_ok frag k join"
proof -
  have "\<forall>k \<in> set ks. window_joins_ok frag k join"
    using assms(1)
    by (rule rfold_each) (auto simp: check_window_joins_def window_joins_ok_def split: if_splits)
  with assms(2) show ?thesis by blast
qed

lemma scan_fragment_scanned:
  assumes "scan_fragment input frag = Inr join"
  shows "scanned input frag join"
proof -
  let ?ws = "[0..<length (fr_body frag)]"
  let ?s0 = "(None, \<lparr>sc_join = {}, sc_checked = {}, sc_cold = length (fr_body frag)\<rparr>)"
  from assms obtain pv sc0 sc1 sc2 sc3 sc4 sc5 l u v where
    r0: "rfold (scan_fault_site frag) (vi_fault_sites input) ?s0 = Inr (pv, sc0)"
    and r1: "rfold (scan_back_edge frag) ?ws sc0 = Inr sc1"
    and r2: "rfold (scan_window frag) ?ws sc1 = Inr sc2"
    and r3: "rfold (scan_template frag) ?ws sc2 = Inr sc3"
    and r4: "rfold (scan_entry frag) (vi_entry_offsets input) sc3 = Inr sc4"
    and r5: "rfold (scan_branch frag) ?ws sc4 = Inr sc5"
    and r6: "rfold (scan_link_site frag (sc_join sc5)) (vi_link_sites input) {} = Inr l"
    and r7: "rfold (check_template_joins frag (sc_join sc5)) ?ws () = Inr u"
    and r8: "rfold (check_window_joins frag (sc_join sc5)) ?ws () = Inr v"
    and join: "join = sc_join sc5"
    by (auto simp: scan_fragment_def Let_def)
  have m5: "sc_join sc4 \<subseteq> join"
    unfolding join using r5 by (rule rfold_join_mono) (rule scan_branch_join)
  have m4: "sc_join sc3 \<subseteq> join"
    using rfold_join_mono [OF r4, of sc_join] scan_entry_join(1) m5 by blast
  have m3: "sc_join sc2 \<subseteq> join"
    using rfold_join_mono [OF r3, of sc_join] scan_template_join(1) m4 by blast
  have m2: "sc_join sc1 \<subseteq> join"
    using rfold_join_mono [OF r2, of sc_join] scan_window_join(1) m3 by blast
  have m1: "sc_join sc0 \<subseteq> join"
    using rfold_join_mono [OF r1, of sc_join] scan_back_edge_join(1) m2 by blast
  have sites: "site_ok frag site join" if "site \<in> set (vi_fault_sites input)" for site
  proof -
    have "site_ok frag site (sc_join (snd (pv, sc0)))"
      using r0 that by (rule rfold_each_join)
        (use scan_fault_site_join in \<open>auto simp: site_ok_def subset_iff, blast?\<close>)
    with m1 show ?thesis by (auto simp: site_ok_def)
  qed
  have entries: "entry_ok frag e join" if "e \<in> set (vi_entry_offsets input)" for e
  proof -
    have "entry_ok frag e (sc_join sc4)"
      using r4 that by (rule rfold_each_join) (use scan_entry_join in \<open>auto simp: entry_ok_def subset_iff\<close>)
    with m5 show ?thesis by (auto simp: entry_ok_def)
  qed
  have words: "branch_ok frag k join \<and> budget_stub_ok frag k join
        \<and> window_stub_ok frag k join \<and> template_stub_ok frag k join
        \<and> template_joins_ok frag k join \<and> window_joins_ok frag k join"
    if "k < length (fr_body frag)" for k
  proof -
    from that have k: "k \<in> set ?ws" by simp
    have "branch_ok frag k (sc_join sc5)"
      using r5 k
      by (rule rfold_each_join [where Q = "branch_ok frag"])
        (erule scan_branch_join(1), simp add: branch_ok_def scan_branch_join(2), auto simp: branch_ok_def)
    moreover have "budget_stub_ok frag k (sc_join sc1)"
      using r1 k
      by (rule rfold_each_join [where Q = "budget_stub_ok frag"])
        (erule scan_back_edge_join(1), auto simp: budget_stub_ok_def scan_back_edge_join(2))
    moreover have "window_stub_ok frag k (sc_join sc2)"
      using r2 k
      by (rule rfold_each_join [where Q = "window_stub_ok frag"])
        (erule scan_window_join(1), auto simp: window_stub_ok_def scan_window_join(2))
    moreover have "template_stub_ok frag k (sc_join sc3)"
      using r3 k
      by (rule rfold_each_join [where Q = "template_stub_ok frag"])
        (erule scan_template_join(1), auto simp: template_stub_ok_def dest: scan_template_join(2))
    ultimately show ?thesis
      using template_joins_each [OF r7 k] window_joins_each [OF r8 k] m2 m3 m4
      by (auto simp: join budget_stub_ok_def window_stub_ok_def template_stub_ok_def) blast?
  qed
  show ?thesis unfolding scanned_def using sites entries words by blast
qed

subsection \<open>The main pass\<close>

text \<open>At an entry of the body only x12 (the entry address) and x29 hold kernel values.\<close>

lemma taint_at_entry_value:
  "taint_at_entry = Some \<lparr>t_kernel = gpr_bit 12 OR gpr_bit 29, t_pt_regs = 0\<rparr>"
  by code_simp

text \<open>
  A passed main pass: \<open>S k\<close> is the state before word \<open>k\<close>, \<open>taint_in\<close> the taint the word starts from
  (the join state at a join point).
\<close>

definition taint_in :: "nat set \<Rightarrow> taint \<Rightarrow> (nat \<Rightarrow> pass) \<Rightarrow> nat \<Rightarrow> taint" where
  "taint_in join js S k = (if k \<in> join then js else ps_taint (S k))"

definition passed :: "verify_input \<Rightarrow> fragment \<Rightarrow> nat set \<Rightarrow> taint \<Rightarrow> (nat \<Rightarrow> pass) \<Rightarrow> bool" where
  "passed input frag join js S \<longleftrightarrow>
    taint_at_entry = Some js
    \<and> S 0 = \<lparr>ps_taint = js, ps_sites = vi_fault_sites input, ps_fpsimd = False\<rparr>
    \<and> (\<forall>k < length (fr_body frag).
        check_word frag join (components (length (fr_body frag)) (successors frag (length (fr_body frag))))
          js k (S k) = Inr (S (Suc k)))"

lemma main_pass_passed:
  assumes "main_pass input frag join = Inr ps"
  obtains js S where "passed input frag join js S" "S (length (fr_body frag)) = ps"
proof -
  from assms obtain js where js: "taint_at_entry = Some js"
    and run: "rfold (check_word frag join
        (components (length (fr_body frag)) (successors frag (length (fr_body frag)))) js)
      [0..<length (fr_body frag)]
      \<lparr>ps_taint = js, ps_sites = vi_fault_sites input, ps_fpsimd = False\<rparr> = Inr ps"
    by (auto simp: main_pass_def Let_def)
  from run obtain S where "S 0 = \<lparr>ps_taint = js, ps_sites = vi_fault_sites input, ps_fpsimd = False\<rparr>"
    "S (length [0..<length (fr_body frag)]) = ps"
    "\<And>k. k < length [0..<length (fr_body frag)] \<Longrightarrow> check_word frag join
        (components (length (fr_body frag)) (successors frag (length (fr_body frag)))) js
        ([0..<length (fr_body frag)] ! k) (S k) = Inr (S (Suc k))"
    by (rule rfold_trace) blast
  then show ?thesis
    by (intro that [of js S]) (simp_all add: passed_def js)
qed

lemma check_edge_ok: "check_edge t js off = Inr u \<longleftrightarrow> t_kernel t AND NOT (t_kernel js) = 0"
  by (simp add: check_edge_def)

lemma check_word_enter:
  assumes "check_word frag join cm js k ps = Inr ps'"
  shows "k \<in> join \<Longrightarrow> t_kernel (ps_taint ps) AND NOT (t_kernel js) = 0"
  using assms by (auto simp: check_word_def enter_join_def check_edge_ok split: if_splits)

lemma check_word_template:
  assumes "check_word frag join cm js k ps = Inr ps'" "fr_position frag k = Some p"
  shows "step_dispatch_template p (if k \<in> join then js else ps_taint ps) js (word_offset k)
      = Inr (ps_taint ps')"
    and "ps_sites ps' = ps_sites ps"
  using assms by (auto simp: check_word_def enter_join_def split: if_splits)

lemma check_form_sites:
  assumes "check_form frag join cm js k i ps = Inr ps'"
  shows "ps_sites ps' = (if is_access_form (classify i) then tl (ps_sites ps) else ps_sites ps)"
    and "is_access_form (classify i) \<Longrightarrow>
      ps_sites ps \<noteq> [] \<and> access_offset (hd (ps_sites ps)) = word_offset k"
  using assms
  by (auto simp: check_form_def Let_def is_access_form_def take_site_def
      split: vform.splits if_splits list.splits)

lemma check_word_plain:
  assumes "check_word frag join cm js k ps = Inr ps'" "fr_position frag k = None"
  defines "t \<equiv> if k \<in> join then js else ps_taint ps"
  obtains t' ps1 where
    "check_budget_register frag k (fr_body frag ! k) = Inr ()"
    "check_form frag join cm js k (fr_body frag ! k) (ps\<lparr>ps_taint := t\<rparr>) = Inr ps1"
    "check_registers k (fr_body frag ! k) t = Inr ()"
    "taint_step (fr_body frag ! k) (classify (fr_body frag ! k)) t = Some t'"
    "ps_taint ps' = (if is_unconditional (fr_body frag ! k) then js else t')"
    "ps_sites ps' = ps_sites ps1"
proof -
  have enter: "enter_join join js k (ps_taint ps) = Inr t"
    using assms(1) by (auto simp: check_word_def enter_join_def t_def split: if_splits)
  from assms(1,2) obtain t' ps1 where
    "check_budget_register frag k (fr_body frag ! k) = Inr ()"
    "check_form frag join cm js k (fr_body frag ! k) (ps\<lparr>ps_taint := t\<rparr>) = Inr ps1"
    "check_registers k (fr_body frag ! k) t = Inr ()"
    "taint_step (fr_body frag ! k) (classify (fr_body frag ! k)) t = Some t'"
    "ps' = ps1\<lparr>ps_taint := if is_unconditional (fr_body frag ! k) then js else t'\<rparr>"
    by (auto simp: check_word_def enter Let_def)
  then show ?thesis by (intro that [of ps1 t']) simp_all
qed

text \<open>The sites still to come are always a part of the fault table.\<close>

lemma passed_sites:
  assumes "passed input frag join js S" "k \<le> length (fr_body frag)"
  shows "set (ps_sites (S k)) \<subseteq> set (vi_fault_sites input)"
  using assms(2)
proof (induction k)
  case 0
  with assms(1) show ?case by (simp add: passed_def)
next
  case (Suc k)
  let ?cm = "components (length (fr_body frag)) (successors frag (length (fr_body frag)))"
  from assms(1) Suc.prems have w: "check_word frag join ?cm js k (S k) = Inr (S (Suc k))"
    by (simp add: passed_def)
  have "set (ps_sites (S (Suc k))) \<subseteq> set (ps_sites (S k))"
  proof (cases "fr_position frag k")
    case None
    obtain ps1 where f: "check_form frag join ?cm js k (fr_body frag ! k)
        (S k\<lparr>ps_taint := if k \<in> join then js else ps_taint (S k)\<rparr>) = Inr ps1"
      and "ps_sites (S (Suc k)) = ps_sites ps1"
      using w None by (rule check_word_plain)
    then show ?thesis
      using check_form_sites(1) [OF f] by (cases "ps_sites (S k)") (auto split: if_splits)
  next
    case (Some p)
    show ?thesis using check_word_template(2) [OF w Some] by simp
  qed
  with Suc show ?case by simp
qed

text \<open>The facts about one word outside the templates.\<close>

definition plain_ok :: "verify_input \<Rightarrow> nat \<Rightarrow> a64_insn \<Rightarrow> taint \<Rightarrow> taint \<Rightarrow> bool" where
  "plain_ok input k i js t \<longleftrightarrow>
    (case classify i of
       FPcRelative \<Rightarrow> False | FUserOnly \<Rightarrow> False | FCall \<Rightarrow> False | FIndirectBranch \<Rightarrow> False
     | FException \<Rightarrow> False | FMsr \<Rightarrow> False
     | FRuntimeAccess m n _ \<Rightarrow> check_runtime_access k i m n t = Inr ()
     | FUserAccess m \<Rightarrow> \<not> is_sp (mem_base m) \<and> t_kernel t AND NOT (t_kernel js) = 0
     | FWindowAccess _ _ \<Rightarrow> t_kernel t AND NOT (t_kernel js) = 0
     | FBranch _ _ \<Rightarrow> t_kernel t AND NOT (t_kernel js) = 0
     | _ \<Rightarrow> True)
    \<and> (is_access_form (classify i) \<longrightarrow>
        (\<exists>site \<in> set (vi_fault_sites input). access_offset site = word_offset k))
    \<and> check_registers k i t = Inr ()"

lemma passed_plain:
  assumes "passed input frag join js S" "k < length (fr_body frag)" "fr_position frag k = None"
  shows "plain_ok input k (fr_body frag ! k) js (taint_in join js S k)"
    and "\<exists>t'. taint_step (fr_body frag ! k) (classify (fr_body frag ! k)) (taint_in join js S k) = Some t'
      \<and> ps_taint (S (Suc k)) = (if is_unconditional (fr_body frag ! k) then js else t')"
    and "check_budget_register frag k (fr_body frag ! k) = Inr ()"
proof -
  let ?cm = "components (length (fr_body frag)) (successors frag (length (fr_body frag)))"
  let ?i = "fr_body frag ! k" and ?t = "taint_in join js S k"
  from assms(1,2) have w: "check_word frag join ?cm js k (S k) = Inr (S (Suc k))"
    by (simp add: passed_def)
  obtain t' ps1 where b: "check_budget_register frag k ?i = Inr ()"
    and f: "check_form frag join ?cm js k ?i (S k\<lparr>ps_taint := ?t\<rparr>) = Inr ps1"
    and r: "check_registers k ?i ?t = Inr ()"
    and s: "taint_step ?i (classify ?i) ?t = Some t'"
    and n: "ps_taint (S (Suc k)) = (if is_unconditional ?i then js else t')"
    unfolding taint_in_def using w assms(3) by (rule check_word_plain)
  have "\<exists>site \<in> set (vi_fault_sites input). access_offset site = word_offset k"
    if "is_access_form (classify ?i)"
    using check_form_sites(2) [OF f that] passed_sites [OF assms(1), of k] assms(2)
    by (auto intro!: bexI [of _ "hd (ps_sites (S k))"])
  moreover have "(case classify ?i of
       FPcRelative \<Rightarrow> False | FUserOnly \<Rightarrow> False | FCall \<Rightarrow> False | FIndirectBranch \<Rightarrow> False
     | FException \<Rightarrow> False | FMsr \<Rightarrow> False
     | FRuntimeAccess m n _ \<Rightarrow> check_runtime_access k ?i m n ?t = Inr ()
     | FUserAccess m \<Rightarrow> \<not> is_sp (mem_base m) \<and> t_kernel ?t AND NOT (t_kernel js) = 0
     | FWindowAccess _ _ \<Rightarrow> t_kernel ?t AND NOT (t_kernel js) = 0
     | FBranch _ _ \<Rightarrow> t_kernel ?t AND NOT (t_kernel js) = 0
     | _ \<Rightarrow> True)"
    using f by (auto simp: check_form_def Let_def check_edge_ok split: vform.splits if_splits)
  ultimately show "plain_ok input k ?i js ?t"
    using r by (simp add: plain_ok_def)
  show "\<exists>t'. taint_step ?i (classify ?i) ?t = Some t'
      \<and> ps_taint (S (Suc k)) = (if is_unconditional ?i then js else t')"
    using s n by blast
  show "check_budget_register frag k ?i = Inr ()" by (rule b)
qed

lemma passed_template:
  assumes "passed input frag join js S" "k < length (fr_body frag)" "fr_position frag k = Some p"
  shows "step_dispatch_template p (taint_in join js S k) js (word_offset k) = Inr (ps_taint (S (Suc k)))"
  using assms check_word_template(1) [of frag join _ js k "S k" "S (Suc k)" p]
  by (auto simp: passed_def taint_in_def)

lemma verify_fragment_facts:
  assumes "verify_fragment input = Inr b"
  obtains frag join js S where
    "load_fragment (vi_code input) = Inr frag" "scanned input frag join" "passed input frag join js S"
    "is_unconditional (fr_body frag ! (length (fr_body frag) - 1))"
proof -
  from assms obtain frag join ps where l: "load_fragment (vi_code input) = Inr frag"
    and s: "scan_fragment input frag = Inr join" and m: "main_pass input frag join = Inr ps"
    and u: "is_unconditional (fr_body frag ! (length (fr_body frag) - 1))"
    by (auto simp: verify_fragment_def Let_def split: if_splits)
  show ?thesis
    using m by (rule main_pass_passed) (use that l u scan_fragment_scanned [OF s] in blast)
qed

end
