(* ===== verification/FragmentBuild.thy ===== *)
theory FragmentBuild
  imports VerifyFacts
begin

section \<open>Building the bytes of a fragment\<close>

text \<open>
  The words of a fragment as bytes (\<open>to_le_bytes\<close>), and what \<open>load_fragment\<close> makes of the wrapper
  followed by body words without dispatch template. The witnesses of the verifier's theorems are
  such fragments.
\<close>

definition le_bytes :: "u32 \<Rightarrow> u8 list" where
  "le_bytes w = [ucast w, ucast (drop_bit 8 w), ucast (drop_bit 16 w), ucast (drop_bit 24 w)]"

definition code_of :: "u32 list \<Rightarrow> u8 list" where
  "code_of ws = concat (map le_bytes ws)"

lemma length_le_bytes [simp]: "length (le_bytes w) = 4"
  by (simp add: le_bytes_def)

lemma length_code_of [simp]: "length (code_of ws) = 4 * length ws"
  by (induction ws) (simp_all add: code_of_def)

lemma u32_from_le_bytes [simp]: "u32_from_le (le_bytes w) = w"
proof (rule bit_word_eqI)
  fix n assume "n < LENGTH(32)"
  moreover have "8 \<le> n \<Longrightarrow> 8 + (n - 8) = n" "16 \<le> n \<Longrightarrow> 16 + (n - 16) = n" "24 \<le> n \<Longrightarrow> 24 + (n - 24) = n"
    by simp_all
  ultimately show "bit (u32_from_le (le_bytes w)) n = bit w n"
    by (cases "n < 8"; cases "n < 16"; cases "n < 24") (auto simp: u32_from_le_def le_bytes_def bit_simps)
qed

lemma drop_code_of: "k < length ws \<Longrightarrow> take 4 (drop (4 * k) (code_of ws)) = le_bytes (ws ! k)"
proof (induction ws arbitrary: k)
  case (Cons w ws)
  then show ?case
    by (cases k) (simp_all add: code_of_def)
qed simp

lemma read_code_of: "k < length ws \<Longrightarrow> read_word (code_of ws) (4 * k) = Some (ws ! k)"
  by (simp add: read_word_def ABI_INSN_SIZE_def drop_code_of)

lemma check_wrapper_ok:
  assumes "map encode is = map Some ws"
    and "\<And>j. j < length is \<Longrightarrow> read_word code (start + 4 * j) = Some (ws ! j)"
  shows "check_wrapper code start is rule = Inr ()"
  unfolding check_wrapper_def
proof (rule rfold_stays)
  fix x u
  assume "x \<in> set (enumerate 0 is)"
  then have "x = (fst x, is ! fst x)" "fst x < length is"
    by (simp_all add: in_set_enumerate_eq prod_eq_iff)
  then obtain k where k: "x = (k, is ! k)" "k < length is" by blast
  from assms(1) k(2) have "encode (is ! k) = Some (ws ! k)"
    by (metis length_map nth_map)
  with assms(2) [OF k(2)] show "(case x of (k, i) \<Rightarrow> \<lambda>_.
      let off = start + k * ABI_INSN_SIZE in
      rbind (ok_or (encode i) (off, rule)) (\<lambda>word. guard (read_word code off = Some word) (off, rule))) () = Inr ()"
    by (simp add: k(1) ABI_INSN_SIZE_def mult.commute)
qed

lemma decode_body_ok:
  assumes "length code = word_offset (length bw)" "map decode_defined bw = map Some insns"
    and "\<And>k. k < length bw \<Longrightarrow> read_word code (word_offset k) = Some (bw ! k)"
  shows "decode_body code = Inr insns"
proof -
  let ?f = "\<lambda>k body.
      rbind (ok_or (read_word code (word_offset k)) (word_offset k, RLength)) (\<lambda>word.
      rbind (ok_or (decode_defined word) (word_offset k, RUndecodable word)) (\<lambda>i. Inr (body @ [i])))"
  have len: "length insns = length bw"
    using assms(2) by (metis length_map)
  have "rfold ?f [0..<length bw] [] = Inr (take (length [0..<length bw]) insns)"
  proof (rule rfold_steps)
    fix k assume "k < length [0..<length bw]"
    then have k: "k < length bw" by simp
    with assms(2) have "decode_defined (bw ! k) = Some (insns ! k)"
      by (metis length_map nth_map)
    with k assms(3) len show "?f ([0..<length bw] ! k) (take k insns) = Inr (take (Suc k) insns)"
      by (simp add: take_Suc_conv_app_nth)
  qed simp
  moreover have "(length code - BODY_OFFSET) div ABI_INSN_SIZE = length bw"
    by (simp add: assms(1) word_offset_simps body_offset ABI_INSN_SIZE_def)
  ultimately show ?thesis
    by (simp add: decode_body_def len)
qed

text \<open>The words of the prologue and of the epilogue.\<close>

definition prologue_words :: "u32 list" where
  "prologue_words =
    [0xA9B37BFD, 0x910003FD, 0xF9002FF2, 0xF9002BE2, 0xA90653F3, 0xA9075BF5, 0xA90863F7, 0xA9096BF9,
     0xA90A73FB, 0xAA0003F0, 0xAA0103F1, 0xA90B47F0, 0xF940082C, 0xF90067EC, 0xA9400600, 0xA9410E02,
     0xA9421604, 0xA9431E06, 0xA9442608, 0xA9452E0A, 0xA946360C, 0xA9473E0E, 0xA9494E12, 0xA94A5614,
     0xA94B5E16, 0xA94C6618, 0xA94D6E1A, 0xF940721C, 0xF9407A1E, 0xF9407611, 0xF90023F1, 0xF9407E11,
     0xF90027F1, 0xA9484610, 0xA90137EC, 0xA9023FEE, 0xA90347F0, 0xA94447F0, 0xF90063F2, 0xD2820012,
     0xF9402BEC, 0xD61F0180]"

definition epilogue_words :: "u32 list" where
  "epilogue_words =
    [0xA90447F0, 0xA94B47F0, 0xA9002E2A, 0xA9413FEE, 0xA9063E0E, 0xA9423FEE, 0xA9073E0E, 0xA9433FEE,
     0xA9083E0E, 0xF94023EE, 0xF900760E, 0xF94027EE, 0xF9007E0E, 0xA9000600, 0xA9010E02, 0xA9021604,
     0xA9031E06, 0xF9002208, 0xF94063F2, 0xA9094E12, 0xA90A5614, 0xA90B5E16, 0xA90C6618, 0xA90D6E1A,
     0xF900721C, 0xF9007A1E, 0xAA0903E0, 0xF9402FF2, 0xA94653F3, 0xA9475BF5, 0xA94863F7, 0xA9496BF9,
     0xA94A73FB, 0xA8CD7BFD, 0xD65F03C0]"

lemma prologue_encodes: "map encode KJIT_PROLOGUE = map Some prologue_words"
  by (simp add: KJIT_PROLOGUE_def template_defs kdefs enc_defs reg_defs imm_defs ldstpair64_offset_def
      prologue_words_def word_le_nat_alt)

lemma epilogue_encodes: "map encode KJIT_EPILOGUE = map Some epilogue_words"
  by (simp add: KJIT_EPILOGUE_def template_defs kdefs enc_defs reg_defs imm_defs ldstpair64_offset_def
      epilogue_words_def word_le_nat_alt)

definition fragment_code :: "u32 list \<Rightarrow> u8 list" where
  "fragment_code body = code_of (prologue_words @ epilogue_words @ body)"

text \<open>A fragment without dispatch template, as it is loaded.\<close>

definition plain_fragment :: "a64_insn list \<Rightarrow> fragment" where
  "plain_fragment insns =
    \<lparr>fr_body = insns, fr_len = word_offset (length insns), fr_position = \<lambda>_. None, fr_miss = \<lambda>_. None\<rparr>"

lemma length_fragment_code: "length (fragment_code body) = word_offset (length body)"
  by (simp add: fragment_code_def prologue_words_def epilogue_words_def word_offset_simps)

lemma load_plain_fragment:
  assumes "map decode_defined body = map Some insns" "body \<noteq> []"
    and "\<And>i. i \<in> set insns \<Longrightarrow> \<not> is_br_x12 i"
  shows "load_fragment (fragment_code body) = Inr (plain_fragment insns)"
proof -
  let ?code = "fragment_code body" and ?ws = "prologue_words @ epilogue_words @ body"
  have len: "length insns = length body"
    using assms(1) by (metis length_map)
  have lens: "length KJIT_PROLOGUE = 42" "length KJIT_EPILOGUE = 35"
    "length prologue_words = 42" "length epilogue_words = 35"
    by (simp_all add: KJIT_PROLOGUE_def KJIT_EPILOGUE_def prologue_words_def epilogue_words_def)
  have rd: "read_word ?code (4 * k) = Some (?ws ! k)" if "k < 77 + length body" for k
    unfolding fragment_code_def by (rule read_code_of) (use that in \<open>simp add: lens\<close>)
  have pro: "check_wrapper ?code 0 KJIT_PROLOGUE RPrologue = Inr ()"
    using prologue_encodes
  proof (rule check_wrapper_ok)
    fix j assume "j < length KJIT_PROLOGUE"
    with rd [of j] show "read_word ?code (0 + 4 * j) = Some (prologue_words ! j)"
      by (simp add: lens nth_append)
  qed
  have epi: "check_wrapper ?code EPILOGUE_OFFSET KJIT_EPILOGUE REpilogue = Inr ()"
    using epilogue_encodes
  proof (rule check_wrapper_ok)
    fix j assume "j < length KJIT_EPILOGUE"
    with rd [of "42 + j"] show "read_word ?code (EPILOGUE_OFFSET + 4 * j) = Some (epilogue_words ! j)"
      by (simp add: lens nth_append wrapper_lengths)
  qed
  have body: "decode_body ?code = Inr insns"
    using length_fragment_code assms(1)
  proof (rule decode_body_ok)
    fix k assume "k < length body"
    with rd [of "77 + k"] show "read_word ?code (word_offset k) = Some (body ! k)"
      by (simp add: lens nth_append word_offset_simps)
  qed
  have tp: "find_dispatch_templates ?code insns = Inr \<lparr>tp_position = \<lambda>_. None, tp_miss = \<lambda>_. None\<rparr>"
    unfolding find_dispatch_templates_def
    by (rule rfold_stays) (use assms(3) in simp)
  from assms(2) len pro epi body tp show ?thesis
    by (simp add: load_fragment_def length_fragment_code word_offset_simps body_offset ABI_INSN_SIZE_def
        plain_fragment_def)
qed

end
