(* ===== verification/Machine.thy ===== *)
theory Machine
  imports Abi
begin

section \<open>The interpreter's machine state\<close>

text \<open>
  Models \<open>harness/src/model.rs\<close>: registers, SP, NZCV, the read-only system registers, memory and
  the user page map. Memory is a total function (the code elides zero bytes from its map, so an
  absent byte is a stored zero); the write journal, an observation only, and the V registers are
  left out. The register index assertions (\<open>reg <= 31\<close>) always hold for decoded registers, which
  are 5-bit fields.
\<close>

record flags =
  fl_n :: bool
  fl_z :: bool
  fl_c :: bool
  fl_v :: bool

datatype page_perm = ReadOnly | ReadWrite
datatype access_kind = AccRead | AccWrite

record mem_access =
  acc_addr :: u64
  acc_size :: nat
  acc_kind :: access_kind

record machine =
  gprs :: "nat \<Rightarrow> u64"
  m_sp :: u64
  m_flags :: flags
  tpidr_el0 :: u64
  cntvct_el0 :: u64
  cntfrq_el0 :: u64
  m_fpcr :: u64
  m_fpsr :: u64
  memory :: "u64 \<Rightarrow> u8"
  user_pages :: "u64 \<Rightarrow> page_perm option"

text \<open>\<open>MachineState::new\<close>: all zero, no page mapped.\<close>

definition blank_machine :: machine where
  "blank_machine =
    \<lparr>gprs = \<lambda>_. 0, m_sp = 0, m_flags = \<lparr>fl_n = False, fl_z = False, fl_c = False, fl_v = False\<rparr>,
     tpidr_el0 = 0, cntvct_el0 = 0, cntfrq_el0 = 0, m_fpcr = 0, m_fpsr = 0, memory = \<lambda>_. 0,
     user_pages = \<lambda>_. None\<rparr>"

subsection \<open>Registers\<close>

definition read_x :: "machine \<Rightarrow> nat \<Rightarrow> u64" where
  "read_x st n = (if n = 31 then 0 else gprs st n)"

definition write_x :: "nat \<Rightarrow> u64 \<Rightarrow> machine \<Rightarrow> machine" where
  "write_x n v st = (if n = 31 then st else st\<lparr>gprs := (gprs st)(n := v)\<rparr>)"

definition read_reg :: "machine \<Rightarrow> a64_reg \<Rightarrow> u64" where
  "read_reg st r =
    (if enc r = 31 then (if reg31 r = R31Sp then m_sp st else 0) else gprs st (enc r))"

definition write_reg :: "a64_reg \<Rightarrow> u64 \<Rightarrow> machine \<Rightarrow> machine" where
  "write_reg r v st =
    (if enc r = 31 then (if reg31 r = R31Sp then st\<lparr>m_sp := v\<rparr> else st)
     else st\<lparr>gprs := (gprs st)(enc r := v)\<rparr>)"

definition read_reg_sized :: "machine \<Rightarrow> a64_reg \<Rightarrow> nat \<Rightarrow> u64" where
  "read_reg_sized st r bs = (if bs = 32 then read_reg st r AND 0xFFFFFFFF else read_reg st r)"

definition write_reg_sized :: "a64_reg \<Rightarrow> u64 \<Rightarrow> nat \<Rightarrow> machine \<Rightarrow> machine" where
  "write_reg_sized r v bs st = write_reg r (if bs = 32 then v AND 0xFFFFFFFF else v) st"

lemma write_reg_simps [simp]:
  "memory (write_reg r v st) = memory st" "user_pages (write_reg r v st) = user_pages st"
  "m_flags (write_reg r v st) = m_flags st"
  "memory (write_reg_sized r v bs st) = memory st" "user_pages (write_reg_sized r v bs st) = user_pages st"
  "m_flags (write_reg_sized r v bs st) = m_flags st"
  "memory (write_x n v st) = memory st" "user_pages (write_x n v st) = user_pages st"
  by (simp_all add: write_reg_def write_reg_sized_def write_x_def)

text \<open>Which registers a write touches.\<close>

definition touches :: "a64_reg \<Rightarrow> nat set" where
  "touches r = (if enc r = 31 then {} else {enc r})"

definition touches_sp :: "a64_reg \<Rightarrow> bool" where
  "touches_sp r \<longleftrightarrow> enc r = 31 \<and> reg31 r = R31Sp"

lemma gprs_write_reg: "n \<notin> touches r \<Longrightarrow> gprs (write_reg r v st) n = gprs st n"
  by (auto simp: write_reg_def touches_def split: if_splits)

lemma sp_write_reg: "\<not> touches_sp r \<Longrightarrow> m_sp (write_reg r v st) = m_sp st"
  by (auto simp: write_reg_def touches_sp_def)

subsection \<open>Memory\<close>

definition PAGE_SIZE :: u64 where "PAGE_SIZE = 4096"

definition page_base :: "u64 \<Rightarrow> u64" where
  "page_base a = a AND NOT (PAGE_SIZE - 1)"

fun le_value :: "u8 list \<Rightarrow> u64" where
  "le_value [] = 0"
| "le_value (b # bs) = ucast b OR push_bit 8 (le_value bs)"

definition read_le :: "machine \<Rightarrow> u64 \<Rightarrow> nat \<Rightarrow> u64" where
  "read_le st a n = le_value (map (\<lambda>i. memory st (a + of_nat i)) [0..<n])"

definition le_byte :: "u64 \<Rightarrow> nat \<Rightarrow> u8" where
  "le_byte v i = ucast (drop_bit (8 * i) v)"

definition write_le :: "u64 \<Rightarrow> nat \<Rightarrow> u64 \<Rightarrow> machine \<Rightarrow> machine" where
  "write_le a n v st =
    st\<lparr>memory := (\<lambda>x. if unat (x - a) < n then le_byte v (unat (x - a)) else memory st x)\<rparr>"

definition map_user_range :: "u64 \<Rightarrow> u64 \<Rightarrow> page_perm \<Rightarrow> machine \<Rightarrow> machine option" where
  "map_user_range start end perm st =
    (if unat start mod 4096 \<noteq> 0 \<or> unat end mod 4096 \<noteq> 0 \<or> start \<ge> end then None
     else Some (st\<lparr>user_pages := (\<lambda>p. if start \<le> p \<and> p < end \<and> unat p mod 4096 = 0 then Some perm
                                    else user_pages st p)\<rparr>))"

definition page_allows :: "machine \<Rightarrow> access_kind \<Rightarrow> u64 \<Rightarrow> bool" where
  "page_allows st k page =
    (case user_pages st page of
       None \<Rightarrow> False
     | Some ReadOnly \<Rightarrow> k \<noteq> AccWrite
     | Some ReadWrite \<Rightarrow> True)"

text \<open>The loop over the touched pages: \<open>n\<close> more pages after \<open>page\<close>.\<close>

fun pages_allow :: "machine \<Rightarrow> access_kind \<Rightarrow> u64 \<Rightarrow> nat \<Rightarrow> bool" where
  "pages_allow st k page 0 = page_allows st k page"
| "pages_allow st k page (Suc n) = (page_allows st k page \<and> pages_allow st k (page + PAGE_SIZE) n)"

definition user_access_allowed :: "machine \<Rightarrow> mem_access \<Rightarrow> bool" where
  "user_access_allowed st acc =
    (if unat (acc_addr acc) + acc_size acc - 1 \<ge> 2 ^ 64 then False
     else let last = acc_addr acc + of_nat (acc_size acc - 1)
          in pages_allow st (acc_kind acc) (page_base (acc_addr acc))
               (unat (drop_bit 12 last) - unat (drop_bit 12 (acc_addr acc))))"

lemma write_le_simps [simp]:
  "gprs (write_le a n v st) = gprs st" "m_sp (write_le a n v st) = m_sp st"
  "m_flags (write_le a n v st) = m_flags st" "user_pages (write_le a n v st) = user_pages st"
  by (simp_all add: write_le_def)

lemma memory_write_le: "\<not> unat (x - a) < n \<Longrightarrow> memory (write_le a n v st) x = memory st x"
  by (simp add: write_le_def)

lemma read_le_cong:
  "(\<And>i. i < n \<Longrightarrow> memory st (a + of_nat i) = memory st' (a + of_nat i)) \<Longrightarrow> read_le st a n = read_le st' a n"
  unfolding read_le_def by (rule arg_cong [where f = le_value]) simp

lemma bit_le_value:
  "bit (le_value bs) k \<longleftrightarrow> k < 64 \<and> k div 8 < length bs \<and> bit (bs ! (k div 8)) (k mod 8)"
proof (induction bs arbitrary: k)
  case Nil
  then show ?case by simp
next
  case (Cons b bs)
  show ?case
  proof (cases "k < 8")
    case True
    then show ?thesis by (auto simp: bit_simps)
  next
    case False
    then obtain j where k: "k = 8 + j" by (metis le_add_diff_inverse not_less)
    have "\<not> bit b (8 + j)"
      using bit_imp_le_length [of b "8 + j"] by auto
    moreover have "(8 + j) div 8 = Suc (j div 8)" by simp
    ultimately show ?thesis
      using Cons.IH [of j] by (auto simp: k bit_simps)
  qed
qed

lemma read_le_write_le:
  assumes "n \<le> 8"
  shows "read_le (write_le a n v st) a n = take_bit (8 * n) v"
proof (rule bit_eqI)
  fix k
  assume k: "possible_bit TYPE(64 word) k"
  have idx: "i < n \<Longrightarrow> unat (a + of_nat i - a) = i" for i
    using assms by (simp add: unat_of_nat)
  have "bit (read_le (write_le a n v st) a n) k
      \<longleftrightarrow> k div 8 < n \<and> bit (le_byte v (k div 8)) (k mod 8)"
    using k idx by (auto simp: read_le_def bit_le_value write_le_def)
  also have "\<dots> \<longleftrightarrow> k < 8 * n \<and> bit v k"
    using k by (auto simp: le_byte_def bit_simps less_mult_imp_div_less dest: bit_imp_le_length)
  finally show "bit (read_le (write_le a n v st) a n) k = bit (take_bit (8 * n) v) k"
    using k by (simp add: bit_simps)
qed

text \<open>
  C20: Memory is little-endian and consistent: reading back a written value of up to 8 bytes gives
  its low bytes.
\<close>

theorem read_write_le:
  assumes "n \<le> 8"
  shows "read_le (write_le a n v st) a n = take_bit (8 * n) v"
  using assms by (rule read_le_write_le)

theorem read_write_le_witness:
  "read_le (write_le 0x1000 4 0x1122334455667788 blank_machine) 0x1000 4 =
    take_bit (8 * 4) 0x1122334455667788"
  by (rule read_write_le) simp

text \<open>A write of one range leaves a read of a disjoint range alone.\<close>

lemma read_write_le_disjoint:
  assumes "\<And>i. i < m \<Longrightarrow> \<not> unat (b + of_nat i - a) < n"
  shows "read_le (write_le a n v st) b m = read_le st b m"
  by (rule read_le_cong) (simp add: memory_write_le assms)

end
