(* ===== verification/Interp.thy ===== *)
theory Interp
  imports Machine
begin

section \<open>The interpreter: data processing and branches\<close>

text \<open>
  Models \<open>execute_insn\<close> of \<open>harness/src/arm64.rs\<close> and its helpers for every data-processing,
  branch and system form (loads, stores and atomics are in \<open>InterpMem\<close>). Every helper threads the
  state explicitly and returns it even with an error, so that \<open>an Err leaves state untouched\<close> (what
  the code promises) is a theorem about the order of its checks and writes.
\<close>

datatype (plugins only: code size) fault_cause = Permission | SpAlignment | Alignment

record mem_fault =
  flt_pc :: u64
  flt_access :: mem_access
  flt_cause :: fault_cause

datatype (plugins only: code size) interp_error =
    EShiftAmount | EShiftType | EExtendShift | EExtendOption | ERorReserved | EBitmask
  | EBitfieldRange | EExtrRange | ECondition | EMoveShift | EAddSubShift | EPairOverlap
  | EPanViolation | EWindowAddress | EMsrPan | ESvc

datatype (plugins only: code size) insn_error = IeError interp_error | IeFault mem_fault

type_synonym 'a outcome = "machine \<times> (insn_error + 'a)"

definition okay :: "machine \<Rightarrow> unit outcome" where
  "okay st = (st, Inr ())"

definition failing :: "machine \<Rightarrow> interp_error \<Rightarrow> 'a outcome" where
  "failing st e = (st, Inl (IeError e))"

definition reg_bits :: "a64_reg_width \<Rightarrow> nat" where
  "reg_bits wd = (if wd = W32 then 32 else 64)"

subsection \<open>Values\<close>

definition width_mask :: "nat \<Rightarrow> u64" where
  "width_mask bs = (if bs = 64 then - 1 else mask bs)"

definition sign_extend_width :: "u64 \<Rightarrow> nat \<Rightarrow> int" where
  "sign_extend_width v bs = signed_take_bit (bs - 1) (uint v)"

definition add_with_carry :: "u64 \<Rightarrow> u64 \<Rightarrow> bool \<Rightarrow> nat \<Rightarrow> u64 \<times> flags" where
  "add_with_carry x y carry_in bs =
    (let x' = x AND width_mask bs; y' = y AND width_mask bs;
         unsigned_sum = uint x' + uint y' + of_bool carry_in;
         signed_sum = sign_extend_width x' bs + sign_extend_width y' bs + of_bool carry_in;
         result = word_of_int unsigned_sum AND width_mask bs
     in (result,
         \<lparr>fl_n = bit result (bs - 1), fl_z = (result = 0), fl_c = (uint result \<noteq> unsigned_sum),
          fl_v = (sign_extend_width result bs \<noteq> signed_sum)\<rparr>))"

text \<open>\<open>AddSub\<close>: an addition, or a subtraction as \<open>op1 + NOT op2 + 1\<close>.\<close>

definition add_or_sub :: "bool \<Rightarrow> u64 \<Rightarrow> u64 \<Rightarrow> nat \<Rightarrow> u64 \<times> flags" where
  "add_or_sub sub op1 op2 bs =
    (if sub then add_with_carry op1 (NOT op2) True bs else add_with_carry op1 op2 False bs)"

definition add_sub :: "bool \<Rightarrow> bool \<Rightarrow> nat \<Rightarrow> a64_reg \<Rightarrow> u64 \<Rightarrow> u64 \<Rightarrow> machine \<Rightarrow> machine" where
  "add_sub sub set_flags bs rd op1 op2 st =
    (let (result, fl) = add_or_sub sub op1 op2 bs
     in write_reg_sized rd result bs (if set_flags then st\<lparr>m_flags := fl\<rparr> else st))"

definition add_sub_carry ::
    "bool \<Rightarrow> bool \<Rightarrow> nat \<Rightarrow> a64_reg \<Rightarrow> a64_reg \<Rightarrow> a64_reg \<Rightarrow> machine \<Rightarrow> machine" where
  "add_sub_carry sub set_flags bs rm rn rd st =
    (let op1 = read_reg_sized st rn bs;
         op2 = (if sub then NOT (read_reg_sized st rm bs) else read_reg_sized st rm bs);
         (result, fl) = add_with_carry op1 op2 (fl_c (m_flags st)) bs
     in write_reg_sized rd result bs (if set_flags then st\<lparr>m_flags := fl\<rparr> else st))"

definition shift_value :: "u64 \<Rightarrow> nat \<Rightarrow> nat \<Rightarrow> nat \<Rightarrow> interp_error + u64" where
  "shift_value value shift amount bs =
    (if amount \<ge> bs then Inl EShiftAmount
     else let v = value AND width_mask bs in
       if shift = 0 then Inr (push_bit amount v AND width_mask bs)
       else if shift = 1 then Inr (drop_bit amount v AND width_mask bs)
       else if shift = 2 then
         Inr (word_of_int (drop_bit amount (sign_extend_width v bs)) AND width_mask bs)
       else if shift = 3 then
         Inr ((if amount = 0 then v else drop_bit amount v OR push_bit (bs - amount) v) AND width_mask bs)
       else Inl EShiftType)"

definition extend_value :: "u64 \<Rightarrow> nat \<Rightarrow> nat \<Rightarrow> nat \<Rightarrow> interp_error + u64" where
  "extend_value value opt shift bs =
    (if shift > 4 then Inl EExtendShift
     else if opt > 7 then Inl EExtendOption
     else let len = min (8 * 2 ^ (opt mod 4)) bs; sg = (opt \<ge> 4);
              extended = (if sg then word_of_int (sign_extend_width value len)
                          else value AND width_mask len)
          in Inr (push_bit shift extended AND width_mask bs))"

definition rotate_right :: "u64 \<Rightarrow> nat \<Rightarrow> nat \<Rightarrow> u64" where
  "rotate_right value amount bs =
    (let v = value AND width_mask bs in
     if amount = 0 then v
     else (drop_bit amount v OR push_bit (bs - amount) v) AND width_mask bs)"

text \<open>The loop \<open>pos = 0, esize, 2 esize, ... < bits\<close>.\<close>

definition replicate_elem :: "u64 \<Rightarrow> nat \<Rightarrow> nat \<Rightarrow> u64" where
  "replicate_elem element esize bs =
    foldl (\<lambda>acc k. acc OR push_bit (k * esize) element) 0 [0..<(bs + esize - 1) div esize]
      AND width_mask bs"

definition decode_bit_masks :: "nat \<Rightarrow> u32 \<Rightarrow> u32 \<Rightarrow> bool \<Rightarrow> nat \<Rightarrow> (u64 \<times> u64) option" where
  "decode_bit_masks n imms immr immediate bs =
    (let n_not_imms = push_bit 6 (of_nat n AND 1) OR (NOT imms AND 0x3f) :: u32 in
     if drop_bit 1 n_not_imms = 0 then None
     else let esize = 2 ^ msb_index (unat n_not_imms) in
       if esize > bs then None
       else let levels = of_nat esize - 1 in
         if immediate \<and> imms AND levels = levels then None
         else let s = imms AND levels; r = immr AND levels; d = (s - r) AND levels;
                  welem = width_mask (unat s + 1); telem = width_mask (unat d + 1)
              in Some (replicate_elem (rotate_right welem (unat r) esize) esize bs,
                       replicate_elem telem esize bs))"

definition leading_zeros :: "u64 \<Rightarrow> nat \<Rightarrow> u64" where
  "leading_zeros v bs = of_nat (if v = 0 then bs else bs - 1 - msb_index (unat v))"

definition reverse_bits :: "u64 \<Rightarrow> nat \<Rightarrow> u64" where
  "reverse_bits v bs =
    foldl (\<lambda>acc i. acc OR (if bit v i then push_bit (bs - 1 - i) 1 else 0)) 0 [0..<bs]"

definition swap_bytes :: "u64 \<Rightarrow> u64" where
  "swap_bytes v = le_value (rev (map (le_byte v) [0..<8]))"

definition reversed_lanes :: "u64 \<Rightarrow> nat \<Rightarrow> nat \<Rightarrow> u64" where
  "reversed_lanes v bs container =
    foldl (\<lambda>acc k. acc OR push_bit (k * container)
        (drop_bit (64 - container) (swap_bytes (drop_bit (k * container) v AND width_mask container))))
      0 [0..<(bs + container - 1) div container]"

definition crc32_step :: "u32 \<Rightarrow> u64 \<Rightarrow> u32 \<Rightarrow> nat \<Rightarrow> u32" where
  "crc32_step poly value crc i =
    (let feedback = (crc XOR ucast (drop_bit i value)) AND 1
     in drop_bit 1 crc XOR (if feedback \<noteq> 0 then poly else 0))"

definition crc32_value :: "u32 \<Rightarrow> nat \<Rightarrow> u32 \<Rightarrow> u64 \<Rightarrow> u32" where
  "crc32_value poly nb crc value = foldl (crc32_step poly value) crc [0..<nb]"

subsection \<open>Conditions\<close>

datatype (plugins only: code size) a64_condition =
  CEq | CNe | CHs | CLo | CMi | CPl | CVs | CVc | CHi | CLs | CGe | CLt | CGt | CLe | CAl | CNv

definition condition_from_bits :: "nat \<Rightarrow> a64_condition option" where
  "condition_from_bits b =
    (if b < 16
     then Some ([CEq, CNe, CHs, CLo, CMi, CPl, CVs, CVc, CHi, CLs, CGe, CLt, CGt, CLe, CAl, CNv] ! b)
     else None)"

fun eval_condition :: "a64_condition \<Rightarrow> flags \<Rightarrow> bool" where
  "eval_condition CEq f = fl_z f"
| "eval_condition CNe f = (\<not> fl_z f)"
| "eval_condition CHs f = fl_c f"
| "eval_condition CLo f = (\<not> fl_c f)"
| "eval_condition CMi f = fl_n f"
| "eval_condition CPl f = (\<not> fl_n f)"
| "eval_condition CVs f = fl_v f"
| "eval_condition CVc f = (\<not> fl_v f)"
| "eval_condition CHi f = (fl_c f \<and> \<not> fl_z f)"
| "eval_condition CLs f = (\<not> (fl_c f \<and> \<not> fl_z f))"
| "eval_condition CGe f = (fl_n f = fl_v f)"
| "eval_condition CLt f = (fl_n f \<noteq> fl_v f)"
| "eval_condition CGt f = (fl_n f = fl_v f \<and> \<not> fl_z f)"
| "eval_condition CLe f = (\<not> (fl_n f = fl_v f \<and> \<not> fl_z f))"
| "eval_condition CAl f = True"
| "eval_condition CNv f = True"

definition condition_holds :: "nat \<Rightarrow> machine \<Rightarrow> bool option" where
  "condition_holds c st = map_option (\<lambda>k. eval_condition k (m_flags st)) (condition_from_bits c)"

subsection \<open>Data processing\<close>

definition add_sub_imm :: "nat \<Rightarrow> a64_imm \<Rightarrow> u64 option" where
  "add_sub_imm sh imm12 =
    (if sh = 0 then Some (ucast (raw imm12)) else if sh = 1 then Some (push_bit 12 (ucast (raw imm12)))
     else None)"

definition move_wide_shift :: "nat \<Rightarrow> nat option" where
  "move_wide_shift hw = (if hw \<le> 3 then Some (hw * 16) else None)"

definition pc_relative_target :: "u64 \<Rightarrow> u32 \<Rightarrow> nat \<Rightarrow> u64" where
  "pc_relative_target pc encoded bs = pc + word_of_int (sign_extend_a64 encoded bs * 4)"

definition is_sub :: "addsub_op \<Rightarrow> bool" where
  "is_sub op \<longleftrightarrow> op = AsSub \<or> op = AsSubs"

definition sets_flags :: "addsub_op \<Rightarrow> bool" where
  "sets_flags op \<longleftrightarrow> op = AsAdds \<or> op = AsSubs"

text \<open>
  The immediate ADD/SUB without flags have their own arms (\<open>wrapping_add\<close> on the sized operands);
  the flag-setting ones go through \<open>add_sub\<close>.
\<close>

definition exec_addsub_imm ::
    "addsub_op \<Rightarrow> a64_reg_width \<Rightarrow> nat \<Rightarrow> a64_imm \<Rightarrow> a64_reg \<Rightarrow> a64_reg \<Rightarrow> machine \<Rightarrow> unit outcome" where
  "exec_addsub_imm op wd sh imm12 rn rd st =
    (case add_sub_imm sh imm12 of
       None \<Rightarrow> failing st EAddSubShift
     | Some imm \<Rightarrow>
         let bs = reg_bits wd; op1 = read_reg_sized st rn bs in
         okay (case op of
             AsAdd \<Rightarrow> write_reg_sized rd (op1 + imm) bs st
           | AsSub \<Rightarrow> write_reg_sized rd (op1 - imm) bs st
           | AsAdds \<Rightarrow> add_sub False True bs rd op1 imm st
           | AsSubs \<Rightarrow> add_sub True True bs rd op1 imm st))"

definition add_sub_shifted ::
    "bool \<Rightarrow> bool \<Rightarrow> nat \<Rightarrow> nat \<Rightarrow> a64_reg \<Rightarrow> a64_imm \<Rightarrow> a64_reg \<Rightarrow> a64_reg \<Rightarrow> machine \<Rightarrow> unit outcome" where
  "add_sub_shifted sub set_flags bs shift rm imm6 rn rd st =
    (if shift = 3 then failing st ERorReserved
     else case shift_value (read_reg st rm) shift (unat (raw imm6)) bs of
         Inl e \<Rightarrow> failing st e
       | Inr op2 \<Rightarrow> okay (add_sub sub set_flags bs rd (read_reg st rn) op2 st))"

definition add_sub_extended ::
    "bool \<Rightarrow> bool \<Rightarrow> nat \<Rightarrow> a64_reg \<Rightarrow> nat \<Rightarrow> a64_imm \<Rightarrow> a64_reg \<Rightarrow> a64_reg \<Rightarrow> machine \<Rightarrow> unit outcome" where
  "add_sub_extended sub set_flags bs rm opt imm3 rn rd st =
    (case extend_value (read_reg st rm) opt (unat (raw imm3)) bs of
       Inl e \<Rightarrow> failing st e
     | Inr op2 \<Rightarrow> okay (add_sub sub set_flags bs rd (read_reg st rn) op2 st))"

datatype (plugins only: code size) logic = LAnd | LOrr | LEor

definition logical :: "logic \<Rightarrow> bool \<Rightarrow> nat \<Rightarrow> u64 \<Rightarrow> u64 \<Rightarrow> a64_reg \<Rightarrow> machine \<Rightarrow> machine" where
  "logical op set_flags bs op1 op2 rd st =
    (let result = (case op of LAnd \<Rightarrow> op1 AND op2 | LOrr \<Rightarrow> op1 OR op2 | LEor \<Rightarrow> op1 XOR op2)
                    AND width_mask bs;
         fl = \<lparr>fl_n = bit result (bs - 1), fl_z = (result = 0), fl_c = False, fl_v = False\<rparr>
     in write_reg_sized rd result bs (if set_flags then st\<lparr>m_flags := fl\<rparr> else st))"

text \<open>Operation, inversion of the second operand, flag setting.\<close>

fun logic_parts :: "logic_op \<Rightarrow> logic \<times> bool \<times> bool" where
  "logic_parts LgAnd = (LAnd, False, False)"
| "logic_parts LgAnds = (LAnd, False, True)"
| "logic_parts LgOrr = (LOrr, False, False)"
| "logic_parts LgEor = (LEor, False, False)"
| "logic_parts LgEon = (LEor, True, False)"
| "logic_parts LgBic = (LAnd, True, False)"
| "logic_parts LgBics = (LAnd, True, True)"
| "logic_parts LgOrn = (LOrr, True, False)"

fun logimm_parts :: "logimm_op \<Rightarrow> logic \<times> bool" where
  "logimm_parts LiAnd = (LAnd, False)"
| "logimm_parts LiAnds = (LAnd, True)"
| "logimm_parts LiOrr = (LOrr, False)"
| "logimm_parts LiEor = (LEor, False)"

definition logical_shifted ::
    "logic_op \<Rightarrow> nat \<Rightarrow> nat \<Rightarrow> a64_reg \<Rightarrow> a64_imm \<Rightarrow> a64_reg \<Rightarrow> a64_reg \<Rightarrow> machine \<Rightarrow> unit outcome" where
  "logical_shifted lop bs shift rm imm6 rn rd st =
    (case logic_parts lop of (op, invert, set_flags) \<Rightarrow>
       case shift_value (read_reg st rm) shift (unat (raw imm6)) bs of
         Inl e \<Rightarrow> failing st e
       | Inr v \<Rightarrow> okay (logical op set_flags bs (read_reg st rn) (if invert then NOT v else v) rd st))"

definition logical_imm ::
    "logimm_op \<Rightarrow> nat \<Rightarrow> nat \<Rightarrow> a64_imm \<Rightarrow> a64_imm \<Rightarrow> a64_reg \<Rightarrow> a64_reg \<Rightarrow> machine \<Rightarrow> unit outcome" where
  "logical_imm lop bs n immr imms rn rd st =
    (case logimm_parts lop of (op, set_flags) \<Rightarrow>
       case decode_bit_masks n (raw imms) (raw immr) True bs of
         None \<Rightarrow> failing st EBitmask
       | Some (imm, _) \<Rightarrow> okay (logical op set_flags bs (read_reg st rn) imm rd st))"

definition bitfield_move ::
    "bitfield_op \<Rightarrow> nat \<Rightarrow> nat \<Rightarrow> a64_imm \<Rightarrow> a64_imm \<Rightarrow> a64_reg \<Rightarrow> a64_reg \<Rightarrow> machine \<Rightarrow> unit outcome" where
  "bitfield_move kind bs n immr imms rn rd st =
    (if unat (raw immr) \<ge> bs \<or> unat (raw imms) \<ge> bs then failing st EBitfieldRange
     else case decode_bit_masks n (raw imms) (raw immr) False bs of
         None \<Rightarrow> failing st EBitmask
       | Some (wmask, tmask) \<Rightarrow>
           let src = read_reg_sized st rn bs;
               rotated = rotate_right src (unat (raw immr)) bs;
               result = (case kind of
                   Sbfm \<Rightarrow> ((if bit src (unat (raw imms)) then width_mask bs else 0) AND NOT tmask)
                             OR (rotated AND wmask AND tmask)
                 | Ubfm \<Rightarrow> rotated AND wmask AND tmask
                 | Bfm \<Rightarrow>
                     let dst = read_reg_sized st rd bs;
                         bot = (dst AND NOT wmask) OR (rotated AND wmask)
                     in (dst AND NOT tmask) OR (bot AND tmask))
           in okay (write_reg_sized rd result bs st))"

definition extract_reg ::
    "nat \<Rightarrow> a64_reg \<Rightarrow> a64_imm \<Rightarrow> a64_reg \<Rightarrow> a64_reg \<Rightarrow> machine \<Rightarrow> unit outcome" where
  "extract_reg bs rm imms rn rd st =
    (let lsb = unat (raw imms) in
     if lsb \<ge> bs then failing st EExtrRange
     else let concat = push_bit bs (uint (read_reg_sized st rn bs)) OR uint (read_reg_sized st rm bs)
          in okay (write_reg_sized rd (word_of_int (drop_bit lsb concat) AND width_mask bs) bs st))"

definition cond_select ::
    "condsel_op \<Rightarrow> nat \<Rightarrow> a64_reg \<Rightarrow> nat \<Rightarrow> a64_reg \<Rightarrow> a64_reg \<Rightarrow> machine \<Rightarrow> unit outcome" where
  "cond_select kind bs rm c rn rd st =
    (case condition_holds c st of
       None \<Rightarrow> failing st ECondition
     | Some holds \<Rightarrow>
         let op2 = read_reg st rm;
             result = (if holds then read_reg st rn
                       else case kind of
                           Csel \<Rightarrow> op2 | Csinc \<Rightarrow> op2 + 1 | Csinv \<Rightarrow> NOT op2 | Csneg \<Rightarrow> - op2)
         in okay (write_reg_sized rd (result AND width_mask bs) bs st))"

definition cond_compare ::
    "condcmp_op \<Rightarrow> nat \<Rightarrow> u64 \<Rightarrow> nat \<Rightarrow> a64_reg \<Rightarrow> nat \<Rightarrow> machine \<Rightarrow> unit outcome" where
  "cond_compare op bs op2 c rn nzcv st =
    (case condition_holds c st of
       None \<Rightarrow> failing st ECondition
     | Some holds \<Rightarrow>
         okay (st\<lparr>m_flags :=
           (if holds then snd (add_or_sub (op = Ccmp) (read_reg st rn) op2 bs)
            else \<lparr>fl_n = bit nzcv 3, fl_z = bit nzcv 2, fl_c = bit nzcv 1, fl_v = bit nzcv 0\<rparr>)\<rparr>))"

definition shift_variable ::
    "nat \<Rightarrow> nat \<Rightarrow> a64_reg \<Rightarrow> a64_reg \<Rightarrow> a64_reg \<Rightarrow> machine \<Rightarrow> unit outcome" where
  "shift_variable shift bs rm rn rd st =
    (case shift_value (read_reg st rn) shift (unat (read_reg st rm) mod bs) bs of
       Inl e \<Rightarrow> failing st e
     | Inr v \<Rightarrow> okay (write_reg_sized rd v bs st))"

text \<open>\<open>SDIV\<close> rounds toward zero: \<open>i128\<close> division truncates.\<close>

definition trunc_div :: "int \<Rightarrow> int \<Rightarrow> int" where
  "trunc_div a b = sgn a * sgn b * (\<bar>a\<bar> div \<bar>b\<bar>)"

definition exec_divide ::
    "bool \<Rightarrow> nat \<Rightarrow> a64_reg \<Rightarrow> a64_reg \<Rightarrow> a64_reg \<Rightarrow> machine \<Rightarrow> machine" where
  "exec_divide sg bs rm rn rd st =
    (let dividend = read_reg st rn; divisor = read_reg st rm;
         result = (if divisor AND width_mask bs = 0 then 0
                   else if sg then
                     word_of_int (trunc_div (sign_extend_width dividend bs) (sign_extend_width divisor bs))
                   else (dividend AND width_mask bs) div (divisor AND width_mask bs))
     in write_reg_sized rd (result AND width_mask bs) bs st)"

definition multiply_add ::
    "dp3_op \<Rightarrow> nat \<Rightarrow> a64_reg \<Rightarrow> a64_reg \<Rightarrow> a64_reg \<Rightarrow> a64_reg \<Rightarrow> machine \<Rightarrow> machine" where
  "multiply_add op bs rm ra rn rd st =
    (let product = read_reg st rn * read_reg st rm; accumulator = read_reg st ra;
         result = (if op = Madd then accumulator + product else accumulator - product)
     in write_reg_sized rd (result AND width_mask bs) bs st)"

definition multiply_add_long ::
    "dp3_long_op \<Rightarrow> a64_reg \<Rightarrow> a64_reg \<Rightarrow> a64_reg \<Rightarrow> a64_reg \<Rightarrow> machine \<Rightarrow> machine" where
  "multiply_add_long op rm ra rn rd st =
    (let sp = word_of_int (sign_extend_width (read_reg st rn) 32 * sign_extend_width (read_reg st rm) 32);
         up = read_reg_sized st rn 32 * read_reg_sized st rm 32;
         acc = read_reg st ra
     in write_reg rd (case op of Smaddl \<Rightarrow> acc + sp | Umaddl \<Rightarrow> acc + up
                               | Smsubl \<Rightarrow> acc - sp | Umsubl \<Rightarrow> acc - up) st)"

definition multiply_high :: "bool \<Rightarrow> a64_reg \<Rightarrow> a64_reg \<Rightarrow> a64_reg \<Rightarrow> machine \<Rightarrow> machine" where
  "multiply_high sg rm rn rd st =
    (let product = (if sg then sint (read_reg st rn) * sint (read_reg st rm)
                    else uint (read_reg st rn) * uint (read_reg st rm))
     in write_reg rd (word_of_int (drop_bit 64 product)) st)"

definition exec_dp1 :: "dp1_op \<Rightarrow> nat \<Rightarrow> a64_reg \<Rightarrow> a64_reg \<Rightarrow> machine \<Rightarrow> machine" where
  "exec_dp1 op bs rn rd st =
    (let v = read_reg_sized st rn bs in
     write_reg_sized rd
       (case op of Clz \<Rightarrow> leading_zeros v bs | Rbit \<Rightarrow> reverse_bits v bs
                 | Rev \<Rightarrow> reversed_lanes v bs bs | Rev16 \<Rightarrow> reversed_lanes v bs 16) bs st)"

definition crc_bits_of :: "crc_size \<Rightarrow> nat" where
  "crc_bits_of sz = (case sz of CrcB \<Rightarrow> 8 | CrcH \<Rightarrow> 16 | CrcW \<Rightarrow> 32 | CrcX \<Rightarrow> 64)"

definition crc32 :: "u32 \<Rightarrow> nat \<Rightarrow> a64_reg \<Rightarrow> a64_reg \<Rightarrow> a64_reg \<Rightarrow> machine \<Rightarrow> machine" where
  "crc32 poly nb rm rn rd st =
    (let crc = ucast (read_reg_sized st rn 32) :: u32; value = read_reg st rm AND width_mask nb
     in write_reg_sized rd (ucast (crc32_value poly nb crc value)) 32 st)"

definition CRC32_POLY_REFLECTED :: u32 where "CRC32_POLY_REFLECTED = 0xEDB88320"
definition CRC32C_POLY_REFLECTED :: u32 where "CRC32C_POLY_REFLECTED = 0x82F63B78"

definition write_movz :: "nat \<Rightarrow> a64_reg \<Rightarrow> a64_imm \<Rightarrow> nat \<Rightarrow> machine \<Rightarrow> unit outcome" where
  "write_movz bs rd imm16 hw st =
    (case move_wide_shift hw of
       None \<Rightarrow> failing st EMoveShift
     | Some sh \<Rightarrow> okay (write_reg_sized rd (push_bit sh (ucast (raw imm16))) bs st))"

definition write_movn :: "nat \<Rightarrow> a64_reg \<Rightarrow> a64_imm \<Rightarrow> nat \<Rightarrow> machine \<Rightarrow> unit outcome" where
  "write_movn bs rd imm16 hw st =
    (case move_wide_shift hw of
       None \<Rightarrow> failing st EMoveShift
     | Some sh \<Rightarrow> okay (write_reg_sized rd (NOT (push_bit sh (ucast (raw imm16)))) bs st))"

definition write_movk :: "nat \<Rightarrow> a64_reg \<Rightarrow> a64_imm \<Rightarrow> nat \<Rightarrow> machine \<Rightarrow> unit outcome" where
  "write_movk bs rd imm16 hw st =
    (case move_wide_shift hw of
       None \<Rightarrow> failing st EMoveShift
     | Some sh \<Rightarrow>
         let old = read_reg_sized st rd bs
         in okay (write_reg_sized rd
              ((old AND NOT (push_bit sh 0xFFFF)) OR push_bit sh (ucast (raw imm16))) bs st))"

text \<open>\<open>pc_relative_address\<close>: \<open>ADR\<close>, and \<open>ADRP\<close> from the page of the pc.\<close>

definition adr_imm :: "a64_imm \<Rightarrow> a64_imm \<Rightarrow> u32" where
  "adr_imm immlo immhi = push_bit 2 (raw immhi) OR raw immlo"

fun exec_dp :: "a64_dp \<Rightarrow> u64 \<Rightarrow> machine \<Rightarrow> unit outcome" where
  "exec_dp (Adr immlo immhi rd) pc st =
    okay (write_reg rd (pc + word_of_int (sign_extend_a64 (adr_imm immlo immhi) 21)) st)"
| "exec_dp (Adrp immlo immhi rd) pc st =
    okay (write_reg rd
      ((pc AND NOT 0xFFF) + word_of_int (sign_extend_a64 (adr_imm immlo immhi) 21 * 4096)) st)"
| "exec_dp (AddSubImm op wd sh imm12 rn rd) pc st = exec_addsub_imm op wd sh imm12 rn rd st"
| "exec_dp (AddSubShift op wd sh rm imm6 rn rd) pc st =
    add_sub_shifted (is_sub op) (sets_flags op) (reg_bits wd) sh rm imm6 rn rd st"
| "exec_dp (AddSubExt op wd rm opt imm3 rn rd) pc st =
    add_sub_extended (is_sub op) (sets_flags op) (reg_bits wd) rm opt imm3 rn rd st"
| "exec_dp (AddSubCarry op wd rm rn rd) pc st =
    okay (add_sub_carry (op = CaSbc \<or> op = CaSbcs) (op = CaAdcs \<or> op = CaSbcs) (reg_bits wd) rm rn rd st)"
| "exec_dp (LogShift op wd sh rm imm6 rn rd) pc st =
    logical_shifted op (reg_bits wd) sh rm imm6 rn rd st"
| "exec_dp (LogImm op wd n immr imms rn rd) pc st =
    logical_imm op (reg_bits wd) n immr imms rn rd st"
| "exec_dp (MoveWide op wd hw imm16 rd) pc st =
    (case op of Movz \<Rightarrow> write_movz (reg_bits wd) rd imm16 hw st
              | Movn \<Rightarrow> write_movn (reg_bits wd) rd imm16 hw st
              | Movk \<Rightarrow> write_movk (reg_bits wd) rd imm16 hw st)"
| "exec_dp (Bitfield op wd immr imms rn rd) pc st =
    bitfield_move op (reg_bits wd) (if wd = X64 then 1 else 0) immr imms rn rd st"
| "exec_dp (Extr wd rm imms rn rd) pc st = extract_reg (reg_bits wd) rm imms rn rd st"
| "exec_dp (CondSel op wd rm c rn rd) pc st = cond_select op (reg_bits wd) rm c rn rd st"
| "exec_dp (CondCmpImm op wd imm5 c rn nzcv) pc st =
    cond_compare op (reg_bits wd) (ucast (raw imm5)) c rn nzcv st"
| "exec_dp (CondCmpReg op wd rm c rn nzcv) pc st =
    cond_compare op (reg_bits wd) (read_reg_sized st rm (reg_bits wd)) c rn nzcv st"
| "exec_dp (Dp2 op wd rm rn rd) pc st =
    (case op of
       Lslv \<Rightarrow> shift_variable 0 (reg_bits wd) rm rn rd st
     | Lsrv \<Rightarrow> shift_variable 1 (reg_bits wd) rm rn rd st
     | Asrv \<Rightarrow> shift_variable 2 (reg_bits wd) rm rn rd st
     | Rorv \<Rightarrow> shift_variable 3 (reg_bits wd) rm rn rd st
     | Udiv \<Rightarrow> okay (exec_divide False (reg_bits wd) rm rn rd st)
     | Sdiv \<Rightarrow> okay (exec_divide True (reg_bits wd) rm rn rd st))"
| "exec_dp (Crc32 c sz rm rn rd) pc st =
    okay (crc32 (if c then CRC32C_POLY_REFLECTED else CRC32_POLY_REFLECTED) (crc_bits_of sz) rm rn rd st)"
| "exec_dp (Dp3 op wd rm ra rn rd) pc st = okay (multiply_add op (reg_bits wd) rm ra rn rd st)"
| "exec_dp (Dp3Long op rm ra rn rd) pc st = okay (multiply_add_long op rm ra rn rd st)"
| "exec_dp (MulHigh sg rm rn rd) pc st = okay (multiply_high sg rm rn rd st)"
| "exec_dp (Dp1 op wd rn rd) pc st = okay (exec_dp1 op (reg_bits wd) rn rd st)"
| "exec_dp (Rev32 rn rd) pc st = okay (write_reg rd (reversed_lanes (read_reg st rn) 64 32) st)"

subsection \<open>Branches and system instructions\<close>

definition conditional_target :: "bool \<Rightarrow> u64 \<Rightarrow> u32 \<Rightarrow> nat \<Rightarrow> u64" where
  "conditional_target taken pc imm bs = (if taken then pc_relative_target pc imm bs else pc + 4)"

fun exec_branch :: "a64_branch \<Rightarrow> u64 \<Rightarrow> machine \<Rightarrow> u64 outcome" where
  "exec_branch (BUncond imm26) pc st = (st, Inr (pc_relative_target pc (raw imm26) 26))"
| "exec_branch (BCond imm19 c) pc st =
    (case condition_holds c st of
       None \<Rightarrow> failing st ECondition
     | Some holds \<Rightarrow> (st, Inr (conditional_target holds pc (raw imm19) 19)))"
| "exec_branch (Cbz wd imm19 rt) pc st =
    (st, Inr (conditional_target (read_reg_sized st rt (reg_bits wd) = 0) pc (raw imm19) 19))"
| "exec_branch (Cbnz wd imm19 rt) pc st =
    (st, Inr (conditional_target (read_reg_sized st rt (reg_bits wd) \<noteq> 0) pc (raw imm19) 19))"
| "exec_branch (Tbz b5 b40 imm14 rt) pc st =
    (st, Inr (conditional_target (\<not> bit (read_reg st rt) (b5 * 32 + b40)) pc (raw imm14) 14))"
| "exec_branch (Tbnz b5 b40 imm14 rt) pc st =
    (st, Inr (conditional_target (bit (read_reg st rt) (b5 * 32 + b40)) pc (raw imm14) 14))"
| "exec_branch (Bl imm26) pc st = (write_x 30 (pc + 4) st, Inr (pc_relative_target pc (raw imm26) 26))"
| "exec_branch (Br rn) pc st = (st, Inr (read_reg st rn))"
| "exec_branch (Blr rn) pc st = (write_x 30 (pc + 4) st, Inr (read_reg st rn))"
| "exec_branch (Ret rn) pc st = (st, Inr (read_reg st rn))"
| "exec_branch (Svc _) pc st = failing st ESvc"

fun sysreg_value :: "sysreg \<Rightarrow> machine \<Rightarrow> u64" where
  "sysreg_value TpidrEl0 st = tpidr_el0 st"
| "sysreg_value CntvctEl0 st = cntvct_el0 st"
| "sysreg_value CntfrqEl0 st = cntfrq_el0 st"
| "sysreg_value Fpcr st = m_fpcr st"
| "sysreg_value Fpsr st = m_fpsr st"

fun exec_sys :: "a64_sys \<Rightarrow> machine \<Rightarrow> unit outcome" where
  "exec_sys Nop st = okay st"
| "exec_sys (Bti _) st = okay st"
| "exec_sys (Barrier _ _) st = okay st"
| "exec_sys (MsrImm _) st = failing st EMsrPan"
| "exec_sys (Mrs r rt) st = okay (write_reg rt (sysreg_value r st) st)"

end
