(* ===== verification/InterpMem.thy ===== *)
theory InterpMem
  imports Interp
begin

section \<open>The interpreter: loads, stores, atomics, and the whole instruction\<close>

text \<open>
  Models the load/store part of \<open>harness/src/arm64.rs\<close> (\<open>Elem\<close>, \<open>Addr\<close>, \<open>execute_mem\<close>,
  \<open>execute_atomic\<close>, the access checks) and \<open>execute_insn\<close> as a whole. The access context carries
  what the code borrows mutably: the counter that numbers user accesses (and can make one fail) and
  the access log. The SIMD and floating-point forms execute in other modules of the harness
  (\<open>fp.rs\<close>, \<open>simd.rs\<close>) and are not modelled: \<open>execute_insn\<close> is \<open>None\<close> there.
\<close>

subsection \<open>Access contexts\<close>

record user_access_counter =
  seen :: u64
  fail_at :: "u64 option"

text \<open>\<open>UserAccessCounter::record\<close>.\<close>

definition record_access :: "user_access_counter \<Rightarrow> user_access_counter \<times> bool" where
  "record_access c =
    (let c' = c\<lparr>seen := seen c + 1\<rparr> in (c', fail_at c' = Some (seen c')))"

datatype privilege = PrivUser | PrivRuntime | PrivWindow

record logged_access =
  log_pc :: u64
  log_access :: mem_access
  log_privilege :: privilege

datatype access_mode =
    Original
  | Fragment "(u64 \<times> u64) list" bool \<comment> \<open>runtime ranges, PSTATE.PAN\<close>

record access_ctx =
  cx_mode :: access_mode
  cx_counter :: "user_access_counter option"
  cx_log :: "logged_access list option"

definition log_push :: "u64 \<Rightarrow> mem_access \<Rightarrow> privilege \<Rightarrow> access_ctx \<Rightarrow> access_ctx" where
  "log_push pc acc p cx =
    cx\<lparr>cx_log := map_option
        (\<lambda>l. l @ [\<lparr>log_pc = pc, log_access = acc, log_privilege = p\<rparr>]) (cx_log cx)\<rparr>"

text \<open>Counts one user access; true when it is the injected one.\<close>

definition count_access :: "access_ctx \<Rightarrow> access_ctx \<times> bool" where
  "count_access cx =
    (case cx_counter cx of
       None \<Rightarrow> (cx, False)
     | Some c \<Rightarrow> let (c', hit) = record_access c in (cx\<lparr>cx_counter := Some c'\<rparr>, hit))"

definition permission_fault :: "u64 \<Rightarrow> mem_access \<Rightarrow> fault_cause \<Rightarrow> insn_error" where
  "permission_fault pc acc cause = IeFault \<lparr>flt_pc = pc, flt_access = acc, flt_cause = cause\<rparr>"

definition access_in_ranges :: "(u64 \<times> u64) list \<Rightarrow> mem_access \<Rightarrow> bool" where
  "access_in_ranges ranges acc =
    (unat (acc_addr acc) + acc_size acc < 2 ^ 64
     \<and> (let end = acc_addr acc + of_nat (acc_size acc)
        in list_ex (\<lambda>(start, range_end). start \<le> acc_addr acc \<and> end \<le> range_end) ranges))"

text \<open>The log, the counter and the page permissions of one user access.\<close>

definition user_access ::
    "privilege \<Rightarrow> machine \<Rightarrow> u64 \<Rightarrow> mem_access \<Rightarrow> access_ctx \<Rightarrow> access_ctx \<times> (insn_error + unit)" where
  "user_access p st pc acc cx =
    (let (cx', injected) = count_access (log_push pc acc p cx)
     in (cx', if injected \<or> \<not> user_access_allowed st acc
              then Inl (permission_fault pc acc Permission) else Inr ()))"

fun check_accesses ::
    "access_ctx \<Rightarrow> machine \<Rightarrow> u64 \<Rightarrow> mem_access list \<Rightarrow> bool \<Rightarrow> access_ctx \<times> (insn_error + unit)" where
  "check_accesses cx st pc [] unpriv = (cx, Inr ())"
| "check_accesses cx st pc (acc # accs) unpriv =
    (case (case cx_mode cx of
             Original \<Rightarrow> user_access PrivUser st pc acc cx
           | Fragment ranges _ \<Rightarrow>
               if \<not> unpriv \<and> \<not> access_in_ranges ranges acc then (cx, Inl (IeError EPanViolation))
               else if unpriv then user_access PrivUser st pc acc cx
               else (log_push pc acc PrivRuntime cx, Inr ())) of
       (cx', Inl e) \<Rightarrow> (cx', Inl e)
     | (cx', Inr _) \<Rightarrow> check_accesses cx' st pc accs unpriv)"

definition overlaps_runtime :: "(u64 \<times> u64) list \<Rightarrow> mem_access \<Rightarrow> bool" where
  "overlaps_runtime ranges acc =
    list_ex (\<lambda>(start, end).
        acc_addr acc < end \<and> min (2 ^ 64 - 1) (unat (acc_addr acc) + acc_size acc) > unat start) ranges"

text \<open>\<open>k\<close> numbers the access within the instruction.\<close>

fun check_window_accesses ::
    "access_ctx \<Rightarrow> machine \<Rightarrow> u64 \<Rightarrow> nat \<Rightarrow> mem_access list \<Rightarrow> access_ctx \<times> (insn_error + unit)" where
  "check_window_accesses cx st pc k [] = (cx, Inr ())"
| "check_window_accesses cx st pc k (acc # accs) =
    (case (case cx_mode cx of
             Original \<Rightarrow> user_access PrivUser st pc acc cx
           | Fragment ranges pan \<Rightarrow>
               if pan then (cx, Inl (IeError EPanViolation))
               else if overlaps_runtime ranges acc
                       \<or> k = 0 \<and> drop_bit USER_VA_BITS (acc_addr acc) \<noteq> 0
                    then (cx, Inl (IeError EWindowAddress))
               else user_access PrivWindow st pc acc cx) of
       (cx', Inl e) \<Rightarrow> (cx', Inl e)
     | (cx', Inr _) \<Rightarrow> check_window_accesses cx' st pc (Suc k) accs)"

subsection \<open>Elements and addressing\<close>

datatype (plugins only: code size) elem =
    ELoad nat bool nat \<comment> \<open>size in bytes, sign extension, destination bits\<close>
  | EStore nat

fun elem_size :: "elem \<Rightarrow> nat" where
  "elem_size (ELoad n _ _) = n"
| "elem_size (EStore n) = n"

datatype (plugins only: code size) addr_mode =
    AImm a64_mem
  | AReg a64_reg a64_reg nat nat
  | ALit u64
  | AOrdered a64_reg

definition LSL_OPTION :: nat where "LSL_OPTION = 3"

text \<open>\<open>address & sign_extend64(address, 55)\<close>: bits 63:56 take no part when bit 55 is clear.\<close>

definition untagged :: "u64 \<Rightarrow> u64" where
  "untagged a = a AND signed_take_bit 55 a"

definition mem_addressing :: "machine \<Rightarrow> a64_mem \<Rightarrow> u64 \<times> u64 option" where
  "mem_addressing st m =
    (let b = read_reg st (mem_base m); moved = b + word_of_int (ivalue (mem_imm m))
     in case m of
          MOffset _ _ \<Rightarrow> (moved, None)
        | MPreIndex _ _ \<Rightarrow> (moved, Some moved)
        | MPostIndex _ _ \<Rightarrow> (b, Some moved))"

definition trailing_zeros :: "nat \<Rightarrow> nat" where
  "trailing_zeros size_bytes =
    (if size_bytes = 2 then 1 else if size_bytes = 4 then 2 else if size_bytes = 8 then 3 else 0)"

definition addressing :: "machine \<Rightarrow> elem \<Rightarrow> addr_mode \<Rightarrow> interp_error + (u64 \<times> u64 option)" where
  "addressing st el ad =
    (case ad of
       AImm m \<Rightarrow> Inr (mem_addressing st m)
     | AReg b index opt s \<Rightarrow>
         (case extend_value (read_reg st index) opt
                 (if s = 1 then trailing_zeros (elem_size el) else 0) 64 of
            Inl e \<Rightarrow> Inl e
          | Inr off \<Rightarrow> Inr (read_reg st b + off, None))
     | ALit a \<Rightarrow> Inr (a, None)
     | AOrdered b \<Rightarrow> Inr (read_reg st b, None))"

definition literal_addr :: "u64 \<Rightarrow> a64_imm \<Rightarrow> addr_mode" where
  "literal_addr pc imm19 = ALit (pc + word_of_int (sign_extend_a64 (raw imm19) 19 * 4))"

definition is_sp_reg :: "a64_reg \<Rightarrow> bool" where
  "is_sp_reg r \<longleftrightarrow> enc r = 31 \<and> reg31 r = R31Sp"

definition sp_based :: "addr_mode \<Rightarrow> bool" where
  "sp_based ad =
    (case ad of
       AImm m \<Rightarrow> is_sp_reg (mem_base m)
     | AReg b _ _ _ \<Rightarrow> is_sp_reg b
     | AOrdered b \<Rightarrow> is_sp_reg b
     | ALit _ \<Rightarrow> False)"

text \<open>A writeback pair load whose base is one of its targets.\<close>

definition pair_overlap :: "addr_mode \<Rightarrow> u64 option \<Rightarrow> elem \<Rightarrow> a64_reg \<Rightarrow> a64_reg option \<Rightarrow> bool" where
  "pair_overlap ad wb el rt rt2 =
    (case (ad, wb, el, rt2) of
       (AImm m, Some _, ELoad _ _ _, Some rt2') \<Rightarrow>
         enc (mem_base m) \<noteq> 31 \<and> (enc (mem_base m) = enc rt \<or> enc (mem_base m) = enc rt2')
     | _ \<Rightarrow> False)"

definition transfers :: "a64_reg \<Rightarrow> a64_reg option \<Rightarrow> a64_reg list" where
  "transfers rt rt2 = (case rt2 of None \<Rightarrow> [rt] | Some r \<Rightarrow> [rt, r])"

definition mk_access :: "elem \<Rightarrow> u64 \<Rightarrow> mem_access" where
  "mk_access el a =
    \<lparr>acc_addr = a, acc_size = elem_size el,
     acc_kind = (case el of ELoad _ _ _ \<Rightarrow> AccRead | EStore _ \<Rightarrow> AccWrite)\<rparr>"

definition mk_accesses :: "elem \<Rightarrow> u64 \<Rightarrow> nat \<Rightarrow> mem_access list" where
  "mk_accesses el a n = map (\<lambda>k. mk_access el (a + of_nat k * of_nat (elem_size el))) [0..<n]"

definition load_value :: "elem \<Rightarrow> machine \<Rightarrow> mem_access \<Rightarrow> u64" where
  "load_value el st acc =
    (case el of
       ELoad n sg dest \<Rightarrow>
         let v = read_le st (acc_addr acc) n
         in (if sg then word_of_int (sign_extend_width v (n * 8)) else v) AND width_mask dest
     | EStore _ \<Rightarrow> 0)"

definition apply_writeback :: "addr_mode \<Rightarrow> u64 option \<Rightarrow> machine \<Rightarrow> machine" where
  "apply_writeback ad wb st =
    (case (ad, wb) of (AImm m, Some b) \<Rightarrow> write_reg (mem_base m) b st | _ \<Rightarrow> st)"

definition commit_load ::
    "elem \<Rightarrow> addr_mode \<Rightarrow> u64 option \<Rightarrow> mem_access list \<Rightarrow> a64_reg list \<Rightarrow> machine \<Rightarrow> machine" where
  "commit_load el ad wb accs regs st =
    fold (\<lambda>(r, v). write_reg r v) (zip regs (map (load_value el st) accs)) (apply_writeback ad wb st)"

definition commit_store ::
    "elem \<Rightarrow> addr_mode \<Rightarrow> u64 option \<Rightarrow> mem_access list \<Rightarrow> u64 list \<Rightarrow> machine \<Rightarrow> machine" where
  "commit_store el ad wb accs vs st =
    apply_writeback ad wb
      (fold (\<lambda>(acc, v). write_le (acc_addr acc) (elem_size el) v) (zip accs vs) st)"

definition execute_mem ::
    "access_ctx \<Rightarrow> machine \<Rightarrow> u64 \<Rightarrow> bool \<Rightarrow> elem \<Rightarrow> a64_reg \<Rightarrow> a64_reg option \<Rightarrow> addr_mode
      \<Rightarrow> access_ctx \<times> u64 outcome" where
  "execute_mem cx st pc unpriv el rt rt2 ad =
    (case addressing st el ad of
       Inl e \<Rightarrow> (cx, failing st e)
     | Inr (a, wb) \<Rightarrow>
         let address = untagged a in
         if pair_overlap ad wb el rt rt2 then (cx, failing st EPairOverlap)
         else
           let regs = transfers rt rt2;
               accs = mk_accesses el address (length regs);
               store_values = map (\<lambda>r. read_reg st r AND width_mask (elem_size el * 8)) regs
           in if cx_mode cx = Original \<and> sp_based ad \<and> unat (m_sp st) mod 16 \<noteq> 0
              then (cx, st, Inl (permission_fault pc (hd accs) SpAlignment))
              else if (case ad of AOrdered _ \<Rightarrow> True | _ \<Rightarrow> False)
                      \<and> unat address mod 16 + elem_size el > 16
              then (cx, st, Inl (permission_fault pc (hd accs) Alignment))
              else
                (case check_accesses cx st pc accs unpriv of
                   (cx', Inl e) \<Rightarrow> (cx', st, Inl e)
                 | (cx', Inr _) \<Rightarrow>
                     (cx',
                      (case el of
                         ELoad _ _ _ \<Rightarrow> commit_load el ad wb accs regs st
                       | EStore _ \<Rightarrow> commit_store el ad wb accs store_values st),
                      Inr (pc + 4))))"

subsection \<open>LSE atomics\<close>

text \<open>\<open>A64Insn::lse_atomic\<close> gives the operation and the size in bytes of the access.\<close>

definition atomic_bytes :: "atomic_size \<Rightarrow> nat" where
  "atomic_bytes sz = (case sz of Sz1 \<Rightarrow> 1 | Sz2 \<Rightarrow> 2 | Sz4 \<Rightarrow> 4 | Sz8 \<Rightarrow> 8)"

text \<open>The new memory value; none for a \<open>CAS\<close> that compares unequal.\<close>

definition atomic_new :: "atomic_op \<Rightarrow> nat \<Rightarrow> u64 \<Rightarrow> u64 \<Rightarrow> u64 \<Rightarrow> u64 option" where
  "atomic_new op nb old operand swap =
    (let sg = (\<lambda>v. sign_extend_width v nb) in
     case op of
       AtAdd \<Rightarrow> Some ((old + operand) AND width_mask nb)
     | AtClr \<Rightarrow> Some (old AND NOT operand)
     | AtEor \<Rightarrow> Some (old XOR operand)
     | AtSet \<Rightarrow> Some (old OR operand)
     | AtSmax \<Rightarrow> Some (if sg old \<ge> sg operand then old else operand)
     | AtSmin \<Rightarrow> Some (if sg old \<le> sg operand then old else operand)
     | AtUmax \<Rightarrow> Some (max old operand)
     | AtUmin \<Rightarrow> Some (min old operand)
     | AtSwp \<Rightarrow> Some operand
     | AtCas \<Rightarrow> (if old = operand then Some (swap AND width_mask nb) else None))"

definition execute_atomic ::
    "access_ctx \<Rightarrow> machine \<Rightarrow> u64 \<Rightarrow> atomic_op \<Rightarrow> nat \<Rightarrow> a64_reg \<Rightarrow> a64_reg \<Rightarrow> a64_reg
      \<Rightarrow> access_ctx \<times> u64 outcome" where
  "execute_atomic cx st pc op n rs rn rt =
    (let address = untagged (read_reg st rn); acc = mk_access (EStore n) address in
     if cx_mode cx = Original \<and> is_sp_reg rn \<and> unat (m_sp st) mod 16 \<noteq> 0
     then (cx, st, Inl (permission_fault pc acc SpAlignment))
     else if unat address mod 16 + n > 16
     then (cx, st, Inl (permission_fault pc acc Alignment))
     else
       (case check_window_accesses cx st pc 0 [acc] of
          (cx', Inl e) \<Rightarrow> (cx', st, Inl e)
        | (cx', Inr _) \<Rightarrow>
            let nb = n * 8; old = read_le st address n;
                operand = read_reg st rs AND width_mask nb;
                st' = (case atomic_new op nb old operand (read_reg st rt) of
                         None \<Rightarrow> st | Some v \<Rightarrow> write_le address n v st)
            in (cx', write_reg_sized (if op = AtCas then rs else rt) old (if n = 8 then 64 else 32) st',
                Inr (pc + 4))))"

subsection \<open>The loads and stores by form\<close>

fun ldst_elem :: "ldst_op \<Rightarrow> elem" where
  "ldst_elem Ldr32 = ELoad 4 False 32"
| "ldst_elem Ldr64 = ELoad 8 False 64"
| "ldst_elem Ldrb = ELoad 1 False 32"
| "ldst_elem Ldrh = ELoad 2 False 32"
| "ldst_elem Ldrsb32 = ELoad 1 True 32"
| "ldst_elem Ldrsb64 = ELoad 1 True 64"
| "ldst_elem Ldrsh32 = ELoad 2 True 32"
| "ldst_elem Ldrsh64 = ELoad 2 True 64"
| "ldst_elem Ldrsw = ELoad 4 True 64"
| "ldst_elem Str32 = EStore 4"
| "ldst_elem Str64 = EStore 8"
| "ldst_elem Strb = EStore 1"
| "ldst_elem Strh = EStore 2"

fun pair_elem :: "pair_op \<Rightarrow> elem" where
  "pair_elem Ldp32 = ELoad 4 False 32"
| "pair_elem Ldp64 = ELoad 8 False 64"
| "pair_elem Ldpsw = ELoad 4 True 64"
| "pair_elem Stp32 = EStore 4"
| "pair_elem Stp64 = EStore 8"

fun lit_elem :: "lit_op \<Rightarrow> elem" where
  "lit_elem LitLdr32 = ELoad 4 False 32"
| "lit_elem LitLdr64 = ELoad 8 False 64"
| "lit_elem LitLdrsw = ELoad 4 True 64"

fun ord_elem :: "ord_op \<Rightarrow> elem" where
  "ord_elem Ldar32 = ELoad 4 False 32"
| "ord_elem Ldar64 = ELoad 8 False 64"
| "ord_elem Ldarb = ELoad 1 False 32"
| "ord_elem Ldarh = ELoad 2 False 32"
| "ord_elem Ldapr32 = ELoad 4 False 32"
| "ord_elem Ldapr64 = ELoad 8 False 64"
| "ord_elem Ldaprb = ELoad 1 False 32"
| "ord_elem Ldaprh = ELoad 2 False 32"
| "ord_elem Stlr32 = EStore 4"
| "ord_elem Stlr64 = EStore 8"
| "ord_elem Stlrb = EStore 1"
| "ord_elem Stlrh = EStore 2"

fun is_unprivileged_access :: "a64_insn \<Rightarrow> bool" where
  "is_unprivileged_access (Mem (LdStUnpriv _ _ _)) = True"
| "is_unprivileged_access _ = False"

fun exec_ldst :: "access_ctx \<Rightarrow> machine \<Rightarrow> u64 \<Rightarrow> a64_ldst \<Rightarrow> access_ctx \<times> u64 outcome" where
  "exec_ldst cx st pc (LdSt op rt m) = execute_mem cx st pc False (ldst_elem op) rt None (AImm m)"
| "exec_ldst cx st pc (LdStUnscaled op rt m) =
    execute_mem cx st pc False (ldst_elem op) rt None (AImm m)"
| "exec_ldst cx st pc (LdStUnpriv op rt m) =
    execute_mem cx st pc True (ldst_elem op) rt None (AImm m)"
| "exec_ldst cx st pc (LdStPair op rt2 rt m) =
    execute_mem cx st pc False (pair_elem op) rt (Some rt2) (AImm m)"
| "exec_ldst cx st pc (LdStReg op rm opt s rn rt) =
    execute_mem cx st pc False (ldst_elem op) rt None
      (AReg rn rm (case opt of None \<Rightarrow> LSL_OPTION | Some x \<Rightarrow> x) s)"
| "exec_ldst cx st pc (LdrLit op imm19 rt) =
    execute_mem cx st pc False (lit_elem op) rt None (literal_addr pc imm19)"
| "exec_ldst cx st pc (PrfmImm _ _ _) = (cx, st, Inr (pc + 4))"
| "exec_ldst cx st pc (PrfmLit _ _) = (cx, st, Inr (pc + 4))"
| "exec_ldst cx st pc (PrfmReg _ _ _ _ _) = (cx, st, Inr (pc + 4))"
| "exec_ldst cx st pc (LdStOrd op rn rt) =
    execute_mem cx st pc False (ord_elem op) rt None (AOrdered rn)"
| "exec_ldst cx st pc (Atomic op sz _ rs rn rt) = execute_atomic cx st pc op (atomic_bytes sz) rs rn rt"

text \<open>The next pc of an instruction that does not branch.\<close>

definition then_next :: "u64 \<Rightarrow> unit outcome \<Rightarrow> u64 outcome" where
  "then_next pc r = (fst r, case snd r of Inl e \<Rightarrow> Inl e | Inr _ \<Rightarrow> Inr (pc + 4))"

fun execute_insn ::
    "access_ctx \<Rightarrow> machine \<Rightarrow> u64 \<Rightarrow> a64_insn \<Rightarrow> (access_ctx \<times> u64 outcome) option" where
  "execute_insn cx st pc (Dp i) = Some (cx, then_next pc (exec_dp i pc st))"
| "execute_insn cx st pc (Brn i) = Some (cx, exec_branch i pc st)"
| "execute_insn cx st pc (Sys i) = Some (cx, then_next pc (exec_sys i st))"
| "execute_insn cx st pc (Mem i) = Some (exec_ldst cx st pc i)"
| "execute_insn cx st pc (Simd _) = None"

end
