(* ===== verification/InterpSafe.thy ===== *)
theory InterpSafe
  imports InterpMem
begin

section \<open>What an executed instruction can change\<close>

text \<open>
  Two facts about every modelled instruction of \<open>execute_insn\<close>, whatever its operands: an error
  (a fault, a PAN violation, an unsupported encoding) leaves the machine untouched, which is what
  makes faults precise and an access restartable; and the bytes a fragment changes are bytes of the
  runtime ranges or of user pages mapped writable.
\<close>

subsection \<open>Errors\<close>

lemmas dp_exec_defs = exec_addsub_imm_def add_sub_shifted_def add_sub_extended_def
  logical_shifted_def logical_imm_def bitfield_move_def extract_reg_def cond_select_def
  cond_compare_def shift_variable_def write_movz_def write_movn_def write_movk_def

lemma okay_simps [simp]: "okay st = (st', Inl e) \<longleftrightarrow> False" "failing st ie = (st', Inr x) \<longleftrightarrow> False"
  "fst (failing st ie) = st" "snd (failing st ie) = Inl (IeError ie)"
  "fst (okay st) = st" "snd (okay st) = Inr ()"
  by (auto simp: okay_def failing_def)

lemma failing_eq [simp]: "failing st ie = (st', Inl e) \<longleftrightarrow> st' = st \<and> e = IeError ie"
  "okay st = (st', Inr u) \<longleftrightarrow> st' = st"
  by (auto simp: failing_def okay_def)

lemma exec_dp_err: "exec_dp i pc st = (st', Inl e) \<Longrightarrow> st' = st"
  by (cases i; auto simp: dp_exec_defs Let_def split: option.splits sum.splits prod.splits if_splits
      movewide_op.splits dp2_op.splits)

lemma exec_branch_err: "exec_branch b pc st = (st', Inl e) \<Longrightarrow> st' = st"
  by (cases b) (auto split: option.splits)

lemma exec_sys_err: "exec_sys b st = (st', Inl e) \<Longrightarrow> st' = st"
  by (cases b) auto

lemma execute_mem_err: "execute_mem cx st pc u el rt rt2 ad = (cx', st', Inl e) \<Longrightarrow> st' = st"
  by (auto simp: execute_mem_def failing_def Let_def split: sum.splits prod.splits if_splits)

lemma execute_atomic_err: "execute_atomic cx st pc op n rs rn rt = (cx', st', Inl e) \<Longrightarrow> st' = st"
  by (auto simp: execute_atomic_def Let_def split: sum.splits prod.splits if_splits)

lemma then_next_err: "then_next pc r = (st', Inl e) \<longleftrightarrow> r = (st', Inl e)"
  by (cases r) (auto simp: then_next_def split: sum.splits)

lemma execute_insn_err:
  assumes "execute_insn cx st pc i = Some (cx', st', Inl e)"
  shows "st' = st"
proof (cases i)
  case (Mem m)
  with assms show ?thesis
    by (cases m) (auto dest: execute_mem_err execute_atomic_err)
qed (use assms in \<open>auto simp: then_next_err dest: exec_dp_err exec_branch_err exec_sys_err\<close>)

text \<open>
  C12: Faults are precise: when an instruction fails (a memory fault, a PAN violation, a reserved
  operand), no register, flag or byte of memory has changed.
\<close>

theorem error_leaves_state:
  assumes "execute_insn cx st pc i = Some (cx', st', Inl e)"
  shows "st' = st"
  using assms by (rule execute_insn_err)

theorem error_leaves_state_witness:
  "fst (snd (the (execute_insn \<lparr>cx_mode = Original, cx_counter = None, cx_log = None\<rparr> blank_machine 0
      (Mem (LdSt Ldr64 (reg_x 1) (MOffset (reg_x 2) (imm_scaled_unsigned 1 12 3))))))) = blank_machine"
proof -
  let ?cx = "\<lparr>cx_mode = Original, cx_counter = None, cx_log = None\<rparr>"
  let ?i = "Mem (LdSt Ldr64 (reg_x 1) (MOffset (reg_x 2) (imm_scaled_unsigned 1 12 3)))"
  have "execute_insn ?cx blank_machine 0 ?i =
      Some (?cx, blank_machine, Inl (permission_fault 0 \<lparr>acc_addr = 8, acc_size = 8, acc_kind = AccRead\<rparr> Permission))"
    by (simp add: execute_mem_def addressing_def mem_addressing_def read_reg_def blank_machine_def
        untagged_def pair_overlap_def mk_accesses_def mk_access_def transfers_def sp_based_def
        user_access_def count_access_def log_push_def user_access_allowed_def page_allows_def
        is_sp_reg_def)
  from error_leaves_state [OF this] this show ?thesis by simp
qed

subsection \<open>Confinement of writes\<close>

definition byte_in :: "(u64 \<times> u64) list \<Rightarrow> u64 \<Rightarrow> bool" where
  "byte_in ranges x = list_ex (\<lambda>(s, e). s \<le> x \<and> x < e) ranges"

lemma page_base_unat: "page_base x = word_of_nat (unat x div 4096 * 4096)"
proof -
  have m: "PAGE_SIZE - 1 = mask 12"
    by (simp add: PAGE_SIZE_def mask_eq_exp_minus_1)
  have "page_base x = push_bit 12 (drop_bit 12 x)"
    unfolding page_base_def m
    by (rule bit_word_eqI) (auto simp: bit_simps dest: bit_imp_le_length)
  also have "\<dots> = word_of_nat (unat (drop_bit 12 x)) * 4096"
    by (simp add: push_bit_eq_mult)
  also have "unat (drop_bit 12 x) = unat x div 4096"
    by (simp add: drop_bit_eq_div unat_div_distrib)
  finally show ?thesis by simp
qed

lemma unat_plus_of_nat: "unat a + n < 2 ^ 64 \<Longrightarrow> unat (a + of_nat n :: u64) = unat a + n"
  by (subst unat_word_ariths) (simp add: unat_of_nat)

lemma unat_offset:
  fixes a x :: u64
  assumes "unat (x - a) < n" "unat a + n \<le> 2 ^ 64"
  shows "unat x = unat a + unat (x - a)"
  using unat_plus_of_nat [of a "unat (x - a)"] assms by simp

lemma pages_allow_each: "pages_allow st k page n \<Longrightarrow> i \<le> n \<Longrightarrow> page_allows st k (page + of_nat i * PAGE_SIZE)"
proof (induction n arbitrary: page i)
  case (Suc n)
  show ?case
  proof (cases i)
    case (Suc j)
    then have "page_allows st k ((page + PAGE_SIZE) + of_nat j * PAGE_SIZE)"
      using Suc.IH [of "page + PAGE_SIZE" j] Suc.prems by simp
    then show ?thesis by (simp add: Suc algebra_simps)
  qed (use Suc.prems in simp)
qed simp

lemma user_access_byte:
  assumes a: "user_access_allowed st acc" and x: "unat (x - acc_addr acc) < acc_size acc"
  shows "page_allows st (acc_kind acc) (page_base x)"
proof -
  let ?a = "acc_addr acc" and ?d = "unat (x - acc_addr acc)"
  let ?last = "?a + of_nat (acc_size acc - 1)"
  from a have nowrap: "unat ?a + acc_size acc - 1 < 2 ^ 64"
    and pages: "pages_allow st (acc_kind acc) (page_base ?a)
                  (unat (drop_bit 12 ?last) - unat (drop_bit 12 ?a))"
    by (auto simp: user_access_allowed_def Let_def split: if_splits)
  have ux: "unat x = unat ?a + ?d"
    using x by (rule unat_offset) (use nowrap in simp)
  have ul: "unat ?last = unat ?a + (acc_size acc - 1)"
    by (rule unat_plus_of_nat) (use nowrap x in simp)
  have dr: "unat (drop_bit 12 y) = unat y div 4096" for y :: u64
    by (simp add: drop_bit_eq_div unat_div_distrib)
  define i where "i = unat x div 4096 - unat ?a div 4096"
  have le: "unat ?a div 4096 \<le> unat x div 4096" "unat x div 4096 \<le> unat ?last div 4096"
    using ux ul x by (auto intro!: div_le_mono)
  have "page_allows st (acc_kind acc) (page_base ?a + of_nat i * PAGE_SIZE)"
    using pages by (rule pages_allow_each) (simp add: i_def dr diff_le_mono [OF le(2)] del: One_nat_def)
  moreover have "page_base ?a + of_nat i * PAGE_SIZE = page_base x"
  proof -
    have "unat x div 4096 * 4096 = unat ?a div 4096 * 4096 + i * 4096"
      using le(1) by (simp add: i_def flip: add_mult_distrib)
    then show ?thesis by (simp add: page_base_unat PAGE_SIZE_def)
  qed
  ultimately show ?thesis by simp
qed

lemma access_in_ranges_byte:
  assumes "access_in_ranges ranges acc" and x: "unat (x - acc_addr acc) < acc_size acc"
  shows "byte_in ranges x"
proof -
  let ?a = "acc_addr acc" and ?d = "unat (x - acc_addr acc)"
  from assms(1) obtain s e where se: "(s, e) \<in> set ranges" "s \<le> ?a" "?a + of_nat (acc_size acc) \<le> e"
    and nowrap: "unat ?a + acc_size acc < 2 ^ 64"
    by (auto simp: access_in_ranges_def list_ex_iff)
  have ux: "unat x = unat ?a + ?d"
    using x by (rule unat_offset) (use nowrap in simp)
  have ue: "unat (?a + of_nat (acc_size acc)) = unat ?a + acc_size acc"
    by (rule unat_plus_of_nat) (use nowrap in simp)
  have "s \<le> x" "x < e"
    using se(2,3) x ux ue by (auto simp: word_le_nat_alt word_less_nat_alt)
  with se(1) show ?thesis by (auto simp: byte_in_def list_ex_iff)
qed

lemma cx_mode_log [simp]: "cx_mode (log_push pc acc p cx) = cx_mode cx"
  by (simp add: log_push_def)

lemma user_access_mode: "user_access p st pc acc cx = (cx', r) \<Longrightarrow> cx_mode cx' = cx_mode cx"
  by (auto simp: user_access_def count_access_def record_access_def Let_def split: option.splits prod.splits)

lemma user_access_ok: "user_access p st pc acc cx = (cx', Inr u) \<Longrightarrow> user_access_allowed st acc"
  by (auto simp: user_access_def split: prod.splits if_splits)

definition checked :: "access_mode \<Rightarrow> bool \<Rightarrow> machine \<Rightarrow> mem_access \<Rightarrow> bool" where
  "checked m unpriv st acc =
    (case m of
       Original \<Rightarrow> user_access_allowed st acc
     | Fragment ranges _ \<Rightarrow>
         if unpriv then user_access_allowed st acc else access_in_ranges ranges acc)"

lemma check_accesses_ok:
  "check_accesses cx st pc accs unpriv = (cx', Inr u) \<Longrightarrow> list_all (checked (cx_mode cx) unpriv st) accs"
proof (induction accs arbitrary: cx)
  case (Cons acc accs)
  show ?case
  proof (cases "cx_mode cx")
    case Original
    with Cons.prems obtain cx1 v where "user_access PrivUser st pc acc cx = (cx1, Inr v)"
      "check_accesses cx1 st pc accs unpriv = (cx', Inr u)"
      by (auto split: prod.splits sum.splits)
    with Original Cons.IH [of cx1] show ?thesis
      by (auto simp: checked_def dest: user_access_ok user_access_mode)
  next
    case (Fragment ranges pan)
    show ?thesis
    proof (cases unpriv)
      case True
      with Fragment Cons.prems obtain cx1 v where "user_access PrivUser st pc acc cx = (cx1, Inr v)"
        "check_accesses cx1 st pc accs unpriv = (cx', Inr u)"
        by (auto split: prod.splits sum.splits)
      with Fragment True Cons.IH [of cx1] show ?thesis
        by (auto simp: checked_def dest: user_access_ok user_access_mode)
    next
      case False
      with Fragment Cons.prems Cons.IH [of "log_push pc acc PrivRuntime cx"] show ?thesis
        by (auto simp: checked_def split: if_splits)
    qed
  qed
qed simp

lemma check_window_accesses_ok:
  "check_window_accesses cx st pc k accs = (cx', Inr u) \<Longrightarrow> list_all (user_access_allowed st) accs"
proof (induction accs arbitrary: cx k)
  case (Cons acc accs)
  then show ?case
    by (cases "cx_mode cx")
      (fastforce split: prod.splits sum.splits if_splits dest: user_access_ok)+
qed simp

definition hits :: "mem_access \<Rightarrow> u64 \<Rightarrow> bool" where
  "hits acc x \<longleftrightarrow> unat (x - acc_addr acc) < acc_size acc"

lemma apply_writeback_simps [simp]:
  "memory (apply_writeback ad wb st) = memory st"
  "user_pages (apply_writeback ad wb st) = user_pages st"
  by (simp_all add: apply_writeback_def split: addr_mode.splits option.splits)

lemma fold_write_reg_simps [simp]:
  "memory (fold (\<lambda>(r, v). write_reg r v) rvs st) = memory st"
  "user_pages (fold (\<lambda>(r, v). write_reg r v) rvs st) = user_pages st"
  by (induction rvs arbitrary: st) auto

lemma commit_load_simps [simp]:
  "memory (commit_load el ad wb accs regs st) = memory st"
  "user_pages (commit_load el ad wb accs regs st) = user_pages st"
  by (simp_all add: commit_load_def)

lemma fold_write_le_simps [simp]:
  "user_pages (fold (\<lambda>(acc, v). write_le (acc_addr acc) n v) avs st) = user_pages st"
  "gprs (fold (\<lambda>(acc, v). write_le (acc_addr acc) n v) avs st) = gprs st"
  "m_sp (fold (\<lambda>(acc, v). write_le (acc_addr acc) n v) avs st) = m_sp st"
  by (induction avs arbitrary: st) auto

lemma fold_write_le_memory:
  "memory (fold (\<lambda>(acc, v). write_le (acc_addr acc) n v) avs st) x \<noteq> memory st x \<Longrightarrow>
    \<exists>(acc, v) \<in> set avs. unat (x - acc_addr acc) < n"
proof (induction avs arbitrary: st)
  case (Cons av avs)
  obtain acc v where av: "av = (acc, v)" by (cases av)
  show ?case
  proof (cases "memory (write_le (acc_addr acc) n v st) x = memory st x")
    case True
    with Cons.IH [of "write_le (acc_addr acc) n v st"] Cons.prems show ?thesis
      by (auto simp: av)
  next
    case False
    then have "unat (x - acc_addr acc) < n"
      using memory_write_le by blast
    then show ?thesis by (auto simp: av)
  qed
qed simp

lemma mk_accesses_size: "acc \<in> set (mk_accesses el a n) \<Longrightarrow> acc_size acc = elem_size el"
  by (auto simp: mk_accesses_def mk_access_def)

lemma mk_accesses_store:
  "acc \<in> set (mk_accesses (EStore k) a n) \<Longrightarrow> acc_kind acc = AccWrite"
  by (auto simp: mk_accesses_def mk_access_def)

lemma commit_store_memory:
  assumes "memory (commit_store (EStore k) ad wb (mk_accesses (EStore k) a n) vs st) x \<noteq> memory st x"
  shows "\<exists>acc \<in> set (mk_accesses (EStore k) a n). acc_kind acc = AccWrite \<and> hits acc x"
proof -
  from assms obtain acc v where "(acc, v) \<in> set (zip (mk_accesses (EStore k) a n) vs)"
    and h: "unat (x - acc_addr acc) < k"
    by (auto simp: commit_store_def dest: fold_write_le_memory)
  then have "acc \<in> set (mk_accesses (EStore k) a n)"
    by (auto dest: set_zip_leftD)
  with h show ?thesis
    by (auto simp: hits_def mk_accesses_store mk_accesses_size)
qed

lemma commit_store_pages [simp]: "user_pages (commit_store el ad wb accs vs st) = user_pages st"
  by (simp add: commit_store_def)

text \<open>What a load or store did, when it did anything.\<close>

lemma execute_mem_changed:
  assumes "execute_mem cx st pc unpriv el rt rt2 ad = (cx', st', r)" "st' \<noteq> st"
  obtains a wb u where "addressing st el ad = Inr (a, wb)"
    and "check_accesses cx st pc (mk_accesses el (untagged a) (length (transfers rt rt2))) unpriv = (cx', Inr u)"
    and "r = Inr (pc + 4)"
    and "st' = (case el of
        ELoad _ _ _ \<Rightarrow> commit_load el ad wb (mk_accesses el (untagged a) (length (transfers rt rt2)))
          (transfers rt rt2) st
      | EStore _ \<Rightarrow> commit_store el ad wb (mk_accesses el (untagged a) (length (transfers rt rt2)))
          (map (\<lambda>r. read_reg st r AND width_mask (elem_size el * 8)) (transfers rt rt2)) st)"
proof (cases "addressing st el ad")
  case (Inl e)
  with assms that show ?thesis by (simp add: execute_mem_def failing_def)
next
  case (Inr awb)
  obtain a wb where awb: "awb = (a, wb)" by (cases awb)
  obtain cx1 c where chk: "check_accesses cx st pc
      (mk_accesses el (untagged a) (length (transfers rt rt2))) unpriv = (cx1, c)"
    by fastforce
  show ?thesis
  proof (cases c)
    case (Inl e)
    with assms Inr awb chk show ?thesis
      by (simp add: execute_mem_def failing_def Let_def split: if_splits)
  next
    case c: (Inr u)
    with assms Inr awb chk that show ?thesis
      by (simp add: execute_mem_def failing_def Let_def split: if_splits)
  qed
qed

lemma execute_mem_memory:
  assumes "execute_mem cx st pc unpriv el rt rt2 ad = (cx', st', r)" "memory st' x \<noteq> memory st x"
  shows "\<exists>acc. checked (cx_mode cx) unpriv st acc \<and> acc_kind acc = AccWrite \<and> hits acc x"
proof -
  from assms have "st' \<noteq> st" by auto
  with assms(1) show ?thesis
  proof (rule execute_mem_changed)
    fix a wb u
    let ?accs = "mk_accesses el (untagged a) (length (transfers rt rt2))"
    assume chk: "check_accesses cx st pc ?accs unpriv = (cx', Inr u)"
      and st': "st' = (case el of
        ELoad _ _ _ \<Rightarrow> commit_load el ad wb ?accs (transfers rt rt2) st
      | EStore _ \<Rightarrow> commit_store el ad wb ?accs
          (map (\<lambda>r. read_reg st r AND width_mask (elem_size el * 8)) (transfers rt rt2)) st)"
    show ?thesis
    proof (cases el)
      case (EStore k)
      with st' assms(2) commit_store_memory have "\<exists>acc \<in> set ?accs. acc_kind acc = AccWrite \<and> hits acc x"
        by fastforce
      with check_accesses_ok [OF chk] show ?thesis by (auto simp: list_all_iff)
    qed (use st' assms(2) in simp)
  qed
qed

lemma execute_mem_pages:
  assumes "execute_mem cx st pc unpriv el rt rt2 ad = (cx', st', r)"
  shows "user_pages st' = user_pages st"
proof (cases "st' = st")
  case False
  with assms show ?thesis by (rule execute_mem_changed) (simp split: elem.splits)
qed simp

lemma execute_atomic_memory:
  assumes "execute_atomic cx st pc op n rs rn rt = (cx', st', r)" "memory st' x \<noteq> memory st x"
  shows "\<exists>acc. user_access_allowed st acc \<and> acc_kind acc = AccWrite \<and> hits acc x"
proof -
  let ?acc = "mk_access (EStore n) (untagged (read_reg st rn))"
  from assms obtain cx1 u v where
    ok: "check_window_accesses cx st pc 0 [?acc] = (cx1, Inr u)"
    and w: "memory (write_le (untagged (read_reg st rn)) n v st) x \<noteq> memory st x"
    by (auto simp: execute_atomic_def Let_def simp del: check_window_accesses.simps
        split: sum.splits prod.splits if_splits option.splits)
  from w have "unat (x - untagged (read_reg st rn)) < n"
    using memory_write_le by blast
  with check_window_accesses_ok [OF ok] show ?thesis
    by (auto simp: hits_def mk_access_def intro!: exI [of _ ?acc])
qed

lemma execute_atomic_pages:
  "execute_atomic cx st pc op n rs rn rt = (cx', st', r) \<Longrightarrow> user_pages st' = user_pages st"
  by (auto simp: execute_atomic_def Let_def simp del: check_window_accesses.simps
      split: sum.splits prod.splits if_splits option.splits)

lemma memory_helpers [simp]:
  "memory (add_sub a b c d e f st) = memory st"
  "user_pages (add_sub a b c d e f st) = user_pages st"
  "memory (add_sub_carry a b c d rn rd st) = memory st"
  "user_pages (add_sub_carry a b c d rn rd st) = user_pages st"
  "memory (logical op s n v w rd st) = memory st"
  "user_pages (logical op s n v w rd st) = user_pages st"
  by (auto simp: add_sub_def add_sub_carry_def logical_def Let_def split: prod.splits)

lemma exec_dp_memory:
  "exec_dp i pc st = (st', r) \<Longrightarrow> memory st' = memory st \<and> user_pages st' = user_pages st"
  by (cases i; auto simp: dp_exec_defs Let_def okay_def failing_def exec_divide_def multiply_add_def
      multiply_add_long_def multiply_high_def exec_dp1_def crc32_def
      split: option.splits sum.splits prod.splits if_splits addsub_op.splits
      movewide_op.splits dp2_op.splits)

lemma exec_branch_memory:
  "exec_branch i pc st = (st', r) \<Longrightarrow> memory st' = memory st \<and> user_pages st' = user_pages st"
  by (cases i) (auto simp: failing_def split: option.splits)

lemma exec_sys_memory:
  "exec_sys i st = (st', r) \<Longrightarrow> memory st' = memory st \<and> user_pages st' = user_pages st"
  by (cases i) (auto simp: failing_def okay_def)

lemma checked_write:
  assumes "checked m unpriv st acc" "acc_kind acc = AccWrite" "hits acc x"
  shows "user_pages st (page_base x) = Some ReadWrite
    \<or> (\<exists>ranges pan. m = Fragment ranges pan \<and> \<not> unpriv \<and> byte_in ranges x)"
proof -
  have "user_pages st (page_base x) = Some ReadWrite" if "user_access_allowed st acc"
    using user_access_byte [OF that, of x] assms(2,3)
    by (auto simp: hits_def page_allows_def split: option.splits page_perm.splits)
  then show ?thesis
    using assms access_in_ranges_byte
    by (auto simp: checked_def hits_def split: access_mode.splits if_splits)
qed

lemma execute_insn_mem:
  "execute_insn cx st pc (Mem m) =
    Some (fst (exec_ldst cx st pc m), fst (snd (exec_ldst cx st pc m)), snd (snd (exec_ldst cx st pc m)))"
  by simp

text \<open>
  C11: Confinement of one fragment instruction: whatever it is and whatever it reads, a byte of memory
  it changes lies in the runtime ranges (the frame, \<open>pt_regs\<close>) or in a user page mapped writable.
\<close>

theorem fragment_writes_confined:
  assumes "execute_insn cx st pc i = Some (cx', st', r)" "cx_mode cx = Fragment ranges pan"
  shows "memory st' x = memory st x \<or> byte_in ranges x \<or> user_pages st (page_base x) = Some ReadWrite"
proof (cases i)
  case (Mem m)
  have "\<exists>unpriv acc. checked (cx_mode cx) unpriv st acc \<and> acc_kind acc = AccWrite \<and> hits acc x"
    if "memory st' x \<noteq> memory st x"
  proof -
    from assms(1) have "exec_ldst cx st pc m = (cx', st', r)" by (simp add: Mem)
    then show ?thesis
    proof (cases m)
      case (Atomic op sz od rs rn rt)
      with \<open>exec_ldst cx st pc m = (cx', st', r)\<close> that obtain acc where
        "user_access_allowed st acc" "acc_kind acc = AccWrite" "hits acc x"
        by (auto dest!: execute_atomic_memory [where x = x])
      then show ?thesis
        by (intro exI [of _ True] exI [of _ acc]) (simp add: checked_def split: access_mode.splits)
    qed (use that in \<open>auto dest!: execute_mem_memory [where x = x]\<close>)
  qed
  then show ?thesis
    using checked_write assms(2) by fastforce
qed (use assms in \<open>auto simp: then_next_def dest: exec_branch_memory\<close>,
    insert exec_dp_memory [OF prod.collapse [symmetric]] exec_sys_memory [OF prod.collapse [symmetric]], metis+)

theorem fragment_writes_confined_witness:
  "let st = blank_machine\<lparr>m_sp := 0x1000, gprs := (\<lambda>_. 0x2A)\<rparr>;
       cx = \<lparr>cx_mode = Fragment [(0x1000, 0x2000)] False, cx_counter = None, cx_log = None\<rparr>;
       st' = fst (snd (exec_ldst cx st 0
                (LdSt Str64 (reg_x 1) (MOffset reg_sp (imm_scaled_unsigned 2 12 3)))))
   in memory st' 0x1010 = 0x2A
      \<and> (memory st' 0x1010 = memory st 0x1010 \<or> byte_in [(0x1000, 0x2000)] 0x1010
          \<or> user_pages st (page_base 0x1010) = Some ReadWrite)"
  unfolding Let_def
  by (rule conjI, simp add: execute_mem_def addressing_def mem_addressing_def read_reg_def
        untagged_def pair_overlap_def mk_accesses_def mk_access_def transfers_def sp_based_def
        is_sp_reg_def log_push_def access_in_ranges_def commit_store_def apply_writeback_def
        write_le_def le_byte_def width_mask_def)
    (rule fragment_writes_confined [OF execute_insn_mem, where pan = False], simp)

end
