(* ===== verification/InterpRoles.thy ===== *)
theory InterpRoles
  imports InterpSafe VerifyRules
begin

section \<open>The operand roles are what instructions do to registers\<close>

text \<open>
  The verifier never looks at what an instruction computes: it trusts the generated operand roles
  (\<open>writes\<close>). Here they are checked against the interpreter: an instruction changes no general
  register, and not SP, unless its roles say so.
\<close>

definition may_write :: "writes_set \<Rightarrow> machine \<Rightarrow> machine \<Rightarrow> bool" where
  "may_write w st st' \<longleftrightarrow>
    (\<forall>n < 31. bit (w_gprs w) n \<or> gprs st' n = gprs st n) \<and> (w_sp w \<or> m_sp st' = m_sp st)"

definition may_write_regs :: "a64_reg list \<Rightarrow> machine \<Rightarrow> machine \<Rightarrow> bool" where
  "may_write_regs rs st st' \<longleftrightarrow>
    (\<forall>n < 31. n \<in> (\<Union>r \<in> set rs. touches r) \<or> gprs st' n = gprs st n)
    \<and> ((\<exists>r \<in> set rs. touches_sp r) \<or> m_sp st' = m_sp st)"

lemma may_write_regs_refl [simp]: "may_write_regs rs st st"
  by (simp add: may_write_regs_def)

lemma may_write_regs_trans:
  "may_write_regs rs st st1 \<Longrightarrow> may_write_regs rs st1 st2 \<Longrightarrow> may_write_regs rs st st2"
  unfolding may_write_regs_def by metis

lemma may_write_regs_mono:
  "may_write_regs rs st st' \<Longrightarrow> set rs \<subseteq> set rs' \<Longrightarrow> may_write_regs rs' st st'"
  unfolding may_write_regs_def by blast

lemma may_write_reg: "r \<in> set rs \<Longrightarrow> may_write_regs rs st (write_reg r v st)"
  using gprs_write_reg [of _ r v st] sp_write_reg [of r v st] by (auto simp: may_write_regs_def)

lemma may_write_reg_sized: "r \<in> set rs \<Longrightarrow> may_write_regs rs st (write_reg_sized r v bs st)"
  by (simp add: write_reg_sized_def may_write_reg)

lemma may_write_same:
  "gprs st' = gprs st \<Longrightarrow> m_sp st' = m_sp st \<Longrightarrow> may_write_regs rs st st'"
  by (simp add: may_write_regs_def)

lemma may_write_flags: "may_write_regs rs (st\<lparr>m_flags := f\<rparr>) st' \<longleftrightarrow> may_write_regs rs st st'"
  by (simp add: may_write_regs_def)

subsection \<open>Data processing\<close>

lemma dp_helpers_write:
  "may_write_regs [rd] st (add_sub sub flagged bs rd a b st)"
  "may_write_regs [rd] st (add_sub_carry sub flagged bs rm rn rd st)"
  "may_write_regs [rd] st (logical op flagged bs a b rd st)"
  "may_write_regs [rd] st (exec_divide sg bs rm rn rd st)"
  "may_write_regs [rd] st (multiply_add mop bs rm ra rn rd st)"
  "may_write_regs [rd] st (multiply_add_long lop rm ra rn rd st)"
  "may_write_regs [rd] st (multiply_high sg rm rn rd st)"
  "may_write_regs [rd] st (exec_dp1 d1 bs rn rd st)"
  "may_write_regs [rd] st (crc32 poly nb rm rn rd st)"
  using may_write_reg_sized [of rd "[rd]" "st\<lparr>m_flags := f\<rparr>" for f]
  by (auto simp: add_sub_def add_sub_carry_def logical_def exec_divide_def multiply_add_def
      multiply_add_long_def multiply_high_def exec_dp1_def crc32_def Let_def may_write_flags
      intro!: may_write_reg may_write_reg_sized split: prod.splits)

fun dp_dest :: "a64_dp \<Rightarrow> a64_reg list" where
  "dp_dest (CondCmpImm _ _ _ _ _ _) = []"
| "dp_dest (CondCmpReg _ _ _ _ _ _) = []"
| "dp_dest i = (case map_of (dp_regs i) FRd of None \<Rightarrow> [] | Some r \<Rightarrow> [r])"

lemma exec_dp_writes: "may_write_regs (dp_dest i) st (fst (exec_dp i pc st))"
  by (cases i; auto simp: dp_exec_defs Let_def dp_helpers_write
      intro: may_write_reg may_write_reg_sized may_write_same
      split: option.splits sum.splits prod.splits if_splits addsub_op.splits
      movewide_op.splits dp2_op.splits)

subsection \<open>Branches and system instructions\<close>

fun branch_dest :: "a64_branch \<Rightarrow> a64_reg list" where
  "branch_dest (Bl _) = [reg_x 30]"
| "branch_dest (Blr _) = [reg_x 30]"
| "branch_dest _ = []"

fun sys_dest :: "a64_sys \<Rightarrow> a64_reg list" where
  "sys_dest (Mrs _ rt) = [rt]"
| "sys_dest _ = []"

lemma write_x_reg: "n < 31 \<Longrightarrow> write_x n v st = write_reg (reg_x n) v st"
  by (simp add: write_x_def write_reg_def)

lemma exec_branch_writes: "may_write_regs (branch_dest b) st (fst (exec_branch b pc st))"
  by (cases b) (auto simp: write_x_reg intro: may_write_reg split: option.splits)

lemma exec_sys_writes: "may_write_regs (sys_dest b) st (fst (exec_sys b st))"
  by (cases b) (auto intro: may_write_reg)

subsection \<open>Loads and stores\<close>

definition mem_dest :: "elem \<Rightarrow> a64_reg \<Rightarrow> a64_reg option \<Rightarrow> addr_mode \<Rightarrow> a64_reg list" where
  "mem_dest el rt rt2 ad =
    (case el of ELoad _ _ _ \<Rightarrow> transfers rt rt2 | EStore _ \<Rightarrow> [])
    @ (case ad of AImm m \<Rightarrow> if is_indexed m then [mem_base m] else [] | _ \<Rightarrow> [])"

lemma mem_dest_loads:
  "mem_dest (ldst_elem op) rt rt2 ad = (if ldst_is_load op then transfers rt rt2 else [])
    @ (case ad of AImm m \<Rightarrow> if is_indexed m then [mem_base m] else [] | _ \<Rightarrow> [])"
  "mem_dest (pair_elem pop) rt rt2 ad = (if pair_is_load pop then transfers rt rt2 else [])
    @ (case ad of AImm m \<Rightarrow> if is_indexed m then [mem_base m] else [] | _ \<Rightarrow> [])"
  "mem_dest (ord_elem oop) rt rt2 ad = (if ord_is_load oop then transfers rt rt2 else [])
    @ (case ad of AImm m \<Rightarrow> if is_indexed m then [mem_base m] else [] | _ \<Rightarrow> [])"
  "mem_dest (lit_elem lop) rt rt2 ad = transfers rt rt2
    @ (case ad of AImm m \<Rightarrow> if is_indexed m then [mem_base m] else [] | _ \<Rightarrow> [])"
  by (cases op; simp add: mem_dest_def) (cases pop; cases oop; cases lop;
      simp add: mem_dest_def pair_is_load_def ord_is_load_def)+

lemma addressing_wb: "addressing st el (AImm m) = Inr (a, Some b) \<Longrightarrow> is_indexed m"
  by (cases m) (auto simp: addressing_def mem_addressing_def is_indexed_def Let_def)

lemma apply_writeback_writes:
  assumes "addressing st0 el ad = Inr (a, wb)"
  shows "may_write_regs (mem_dest el rt rt2 ad) st (apply_writeback ad wb st)"
  using assms addressing_wb [of st0 el _ a]
  by (auto simp: apply_writeback_def mem_dest_def intro!: may_write_reg split: addr_mode.splits option.splits)

lemma fold_write_reg_writes:
  "fst ` set rvs \<subseteq> set rs \<Longrightarrow> may_write_regs rs st (fold (\<lambda>(r, v). write_reg r v) rvs st)"
proof (induction rvs arbitrary: st)
  case (Cons rv rvs)
  then show ?case
    by (cases rv) (auto intro: may_write_regs_trans [OF may_write_reg])
qed simp

lemma execute_mem_writes:
  assumes "execute_mem cx st pc unpriv el rt rt2 ad = (cx', st', r)"
  shows "may_write_regs (mem_dest el rt rt2 ad) st st'"
proof (cases "st' = st")
  case False
  with assms show ?thesis
  proof (rule execute_mem_changed)
    fix a wb
    let ?accs = "mk_accesses el (untagged a) (length (transfers rt rt2))"
    assume ad: "addressing st el ad = Inr (a, wb)"
      and st': "st' = (case el of
        ELoad _ _ _ \<Rightarrow> commit_load el ad wb ?accs (transfers rt rt2) st
      | EStore _ \<Rightarrow> commit_store el ad wb ?accs
          (map (\<lambda>r. read_reg st r AND width_mask (elem_size el * 8)) (transfers rt rt2)) st)"
    note wbw = apply_writeback_writes [OF ad]
    show ?thesis
    proof (cases el)
      case (ELoad n sg dest)
      have "fst ` set (zip (transfers rt rt2) vs) \<subseteq> set (mem_dest el rt rt2 ad)" for vs :: "u64 list"
        by (auto simp: mem_dest_def ELoad dest: set_zip_leftD)
      then show ?thesis
        unfolding st' ELoad elem.case commit_load_def
        using may_write_regs_trans [OF wbw fold_write_reg_writes] by (simp add: ELoad)
    next
      case (EStore n)
      then show ?thesis
        unfolding st' EStore elem.case commit_store_def
        using may_write_regs_trans [OF may_write_same wbw] by (simp add: EStore)
    qed
  qed
qed simp

lemma execute_atomic_writes:
  assumes "execute_atomic cx st pc op n rs rn rt = (cx', st', r)"
  shows "may_write_regs [if op = AtCas then rs else rt] st st'"
  using assms
  by (auto simp: execute_atomic_def Let_def simp del: check_window_accesses.simps
      split: sum.splits prod.splits if_splits option.splits
      intro: may_write_reg_sized may_write_regs_trans [OF may_write_same may_write_reg_sized])

fun ldst_dest :: "a64_ldst \<Rightarrow> a64_reg list" where
  "ldst_dest (LdSt op rt m) = mem_dest (ldst_elem op) rt None (AImm m)"
| "ldst_dest (LdStUnscaled op rt m) = mem_dest (ldst_elem op) rt None (AImm m)"
| "ldst_dest (LdStUnpriv op rt m) = mem_dest (ldst_elem op) rt None (AImm m)"
| "ldst_dest (LdStPair op rt2 rt m) = mem_dest (pair_elem op) rt (Some rt2) (AImm m)"
| "ldst_dest (LdStReg op rm opt s rn rt) = (if ldst_is_load op then [rt] else [])"
| "ldst_dest (LdrLit op imm19 rt) = [rt]"
| "ldst_dest (LdStOrd op rn rt) = (if ord_is_load op then [rt] else [])"
| "ldst_dest (Atomic op sz od rs rn rt) = [if op = AtCas then rs else rt]"
| "ldst_dest _ = []"

lemma exec_ldst_writes:
  assumes "exec_ldst cx st pc m = (cx', st', r)"
  shows "may_write_regs (ldst_dest m) st st'"
  using assms
  by (cases m) (auto simp: mem_dest_loads transfers_def literal_addr_def
      dest!: execute_mem_writes execute_atomic_writes split: if_splits)

subsection \<open>The roles\<close>

fun insn_dest :: "a64_insn \<Rightarrow> a64_reg list" where
  "insn_dest (Dp i) = dp_dest i"
| "insn_dest (Brn i) = branch_dest i"
| "insn_dest (Sys i) = sys_dest i"
| "insn_dest (Mem i) = ldst_dest i"
| "insn_dest (Simd i) = []"

lemma execute_insn_writes:
  assumes "execute_insn cx st pc i = Some (cx', st', r)"
  shows "may_write_regs (insn_dest i) st st'"
proof (cases i)
  case (Dp d)
  with assms exec_dp_writes [of d st pc] show ?thesis by (auto simp: then_next_def)
next
  case (Brn b)
  with assms exec_branch_writes [of b st pc] show ?thesis by auto
next
  case (Sys s)
  with assms exec_sys_writes [of s st] show ?thesis by (auto simp: then_next_def)
qed (use assms in \<open>auto dest: exec_ldst_writes\<close>)

definition declares :: "writes_set \<Rightarrow> a64_reg \<Rightarrow> bool" where
  "declares w r \<longleftrightarrow> (enc r < 31 \<longrightarrow> bit (w_gprs w) (enc r)) \<and> (touches_sp r \<longrightarrow> w_sp w)"

lemma add_write_declares:
  "declares (add_write r w) r" "declares w r' \<Longrightarrow> declares (add_write r w) r'"
  by (auto simp: declares_def add_write_def touches_sp_def bit_or_iff)

lemma dest_declared:
  assumes "writes i = Some w" "r \<in> set (insn_dest i)"
  shows "declares w r"
proof (cases i)
  case (Dp d)
  with assms show ?thesis
    by (cases d) (auto simp: writes_def get_reg_def add_write_declares split: if_splits)
next
  case (Brn b)
  with assms show ?thesis
    by (cases b) (auto simp: writes_def get_reg_def add_write_declares)
next
  case (Sys s)
  with assms show ?thesis
    by (cases s) (auto simp: writes_def get_reg_def add_write_declares)
next
  case (Mem m)
  with assms show ?thesis
    by (cases m) (auto simp: writes_def get_reg_def mem_dest_loads transfers_def ldst_roles1_def
        base_role_def Let_def add_write_declares split: if_splits)
qed (use assms in simp)

lemma execute_insn_may_write:
  assumes "execute_insn cx st pc i = Some (cx', st', r)" "writes i = Some w"
  shows "may_write w st st'"
  unfolding may_write_def
proof (intro conjI allI impI)
  have mw: "may_write_regs (insn_dest i) st st'"
    using assms(1) by (rule execute_insn_writes)
  note dec = dest_declared [OF assms(2), unfolded declares_def]
  show "bit (w_gprs w) n \<or> gprs st' n = gprs st n" if "n < 31" for n
  proof (cases "\<exists>q \<in> set (insn_dest i). n \<in> touches q")
    case True
    then obtain q where "q \<in> set (insn_dest i)" "n = enc q"
      by (auto simp: touches_def split: if_splits)
    with dec [of q] that show ?thesis by simp
  next
    case False
    with mw that show ?thesis unfolding may_write_regs_def by blast
  qed
  show "w_sp w \<or> m_sp st' = m_sp st"
    using mw dec unfolding may_write_regs_def by blast
qed

text \<open>
  C13: The operand roles the verifier relies on are sound: executing an instruction, successfully or
  not, changes no general register outside the mask \<open>writes\<close> computes, and leaves SP alone unless
  \<open>writes\<close> says it is written.
\<close>

theorem roles_sound:
  assumes "execute_insn cx st pc i = Some (cx', st', r)" "writes i = Some w"
  shows "(\<forall>n < 31. gprs st' n = gprs st n \<or> bit (w_gprs w) n) \<and> (m_sp st' = m_sp st \<or> w_sp w)"
  using execute_insn_may_write [OF assms] by (auto simp: may_write_def)

theorem roles_sound_witness:
  "gprs (fst (exec_branch (Blr (reg_x 3)) 0x1000 blank_machine)) 30 = gprs blank_machine 30
    \<or> bit (w_gprs \<lparr>w_gprs = 0x40000000, w_sp = False\<rparr>) 30"
  by (rule roles_sound [of "\<lparr>cx_mode = Original, cx_counter = None, cx_log = None\<rparr>"
        blank_machine "0x1000" "Brn (Blr (reg_x 3))", THEN conjunct1, rule_format])
    (simp, simp add: writes_def add_write_def gpr_bit_def, simp)

end
