(* ===== verification/DecodeWf.thy ===== *)
theory DecodeWf
  imports A64Encode
begin

section \<open>Decoded instructions are well-formed\<close>

text \<open>
  What every decoded instruction satisfies beyond its type: small fields are in range, a base
  register reads 31 as SP, and a branch immediate is the sign-extended, scaled field. One lemma per
  builder, then one per group of rows.
\<close>

fun dp_wf :: "a64_dp \<Rightarrow> bool" where
  "dp_wf (AddSubImm _ _ sh imm _ _) = (sh < 2 \<and> raw imm < 4096 \<and> ivalue imm = uint (raw imm))"
| "dp_wf (AddSubShift _ _ sh _ imm _ _) = (sh < 4 \<and> raw imm < 64)"
| "dp_wf (AddSubExt _ _ _ opt imm _ _) = (opt < 8 \<and> raw imm < 8)"
| "dp_wf (LogShift _ _ sh _ imm _ _) = (sh < 4 \<and> raw imm < 64)"
| "dp_wf (LogImm _ wd n r s _ _) = (n < 2 \<and> (wd = W32 \<longrightarrow> n = 0) \<and> raw r < 64 \<and> raw s < 64)"
| "dp_wf (MoveWide _ _ hw imm _) = (hw < 4 \<and> raw imm < 65536)"
| "dp_wf (Bitfield _ _ r s _ _) =
    (raw r < 64 \<and> raw s < 64 \<and> ivalue r = uint (raw r) \<and> ivalue s = uint (raw s))"
| "dp_wf (Extr _ _ s _ _) = (raw s < 64)"
| "dp_wf (CondSel _ _ _ c _ _) = (c < 16)"
| "dp_wf (CondCmpImm _ _ _ c _ _) = (c < 16)"
| "dp_wf (CondCmpReg _ _ _ c _ _) = (c < 16)"
| "dp_wf _ = True"

definition branch_imm :: "nat \<Rightarrow> a64_imm \<Rightarrow> bool" where
  "branch_imm n imm \<longleftrightarrow> ivalue imm = sign_extend_a64 (raw imm) n * 4"

fun branch_wf :: "a64_branch \<Rightarrow> bool" where
  "branch_wf (BUncond imm) = branch_imm 26 imm"
| "branch_wf (BCond imm c) = (branch_imm 19 imm \<and> c < 16)"
| "branch_wf (Cbz _ imm _) = branch_imm 19 imm"
| "branch_wf (Cbnz _ imm _) = branch_imm 19 imm"
| "branch_wf (Tbz _ _ imm _) = branch_imm 14 imm"
| "branch_wf (Tbnz _ _ imm _) = branch_imm 14 imm"
| "branch_wf (Bl imm) = branch_imm 26 imm"
| "branch_wf _ = True"

definition base_wf :: "a64_reg \<Rightarrow> bool" where
  "base_wf r \<longleftrightarrow> reg31 r = R31Sp \<and> enc r < 32"

fun ldst_wf :: "a64_ldst \<Rightarrow> bool" where
  "ldst_wf (LdSt _ _ m) = base_wf (mem_base m)"
| "ldst_wf (LdStUnscaled _ _ m) = base_wf (mem_base m)"
| "ldst_wf (LdStUnpriv _ _ m) = (base_wf (mem_base m) \<and> \<not> is_indexed m)"
| "ldst_wf (LdStPair _ _ _ m) = base_wf (mem_base m)"
| "ldst_wf (LdStReg _ _ opt s rn _) = (base_wf rn \<and> (case opt of None \<Rightarrow> True | Some x \<Rightarrow> x < 8) \<and> s < 2)"
| "ldst_wf (LdStOrd _ rn _) = base_wf rn"
| "ldst_wf (Atomic _ _ _ _ rn _) = base_wf rn"
| "ldst_wf _ = True"

fun insn_wf :: "a64_insn \<Rightarrow> bool" where
  "insn_wf (Dp i) = dp_wf i"
| "insn_wf (Brn i) = branch_wf i"
| "insn_wf (Mem i) = ldst_wf i"
| "insn_wf _ = True"

definition rows_wf :: "a64_row list \<Rightarrow> bool" where
  "rows_wf rs \<longleftrightarrow> list_all (\<lambda>(m, v, ex, b). \<forall>w. insn_wf (b w)) rs"

lemma fldn_lt: "len < 32 \<Longrightarrow> fldn lo len w < 2 ^ len"
  unfolding fldn_def fld_def by (simp add: unsigned_take_bit_eq)

lemma branch_imm_ssimm: "branch_imm len (ssimm lo len 2 w)"
  by (simp add: branch_imm_def ssimm_def)

lemma wf_base: "base_wf (sr wd lo w)"
  using fldn_lt [of 5 lo w] by (simp add: base_wf_def sr_def)

lemma wf_mem:
  "base_wf (mem_base (mem_off f w))" "base_wf (mem_base (mem_pre f w))"
  "base_wf (mem_base (mem_post f w))" "\<not> is_indexed (mem_off f w)"
  by (simp_all add: mem_off_def mem_pre_def mem_post_def wf_base is_indexed_def)

lemma raw_fields:
  "raw (uimm lo len w) = fld lo len w" "ivalue (uimm lo len w) = uint (fld lo len w)"
  by (simp_all add: uimm_def)

lemmas wf_fields = fldn_lt [of 1, simplified] fldn_lt [of 2, simplified] fldn_lt [of 3, simplified]
  fldn_lt [of 4, simplified] fld_lt [of 3, simplified] fld_lt [of 6, simplified]
  fld_lt [of 12, simplified] fld_lt [of 16, simplified]

lemma wf_builders:
  "insn_wf (b_adr Adr w)" "insn_wf (b_adr Adrp w)" "insn_wf (b_addsub_imm aop wd md w)"
  "insn_wf (b_addsub_shift aop wd w)" "insn_wf (b_addsub_ext aop wd md w)" "insn_wf (b_carry cop wd w)"
  "insn_wf (b_log_shift lop wd w)" "insn_wf (b_log_imm32 iop md w)" "insn_wf (b_log_imm64 iop md w)"
  "insn_wf (b_movewide mop wd w)" "insn_wf (b_bitfield bop wd w)" "insn_wf (b_extr wd w)"
  "insn_wf (b_condsel sop wd w)" "insn_wf (b_ccmp_imm cc wd w)" "insn_wf (b_ccmp_reg cc wd w)"
  "insn_wf (b_dp2 d2 wd w)" "insn_wf (b_crc32 c sz w)" "insn_wf (b_dp3 d3 wd w)"
  "insn_wf (b_dp3_long d3l w)" "insn_wf (b_mulh c w)" "insn_wf (b_dp1 d1 wd w)" "insn_wf (b_rev32 w)"
  "insn_wf (b_b26 BUncond w)" "insn_wf (b_b26 Bl w)" "insn_wf (b_bcond w)"
  "insn_wf (b_cb Cbz wd w)" "insn_wf (b_cb Cbnz wd w)" "insn_wf (b_tb Tbz w)" "insn_wf (b_tb Tbnz w)"
  "insn_wf (b_breg Br w)" "insn_wf (b_breg Blr w)" "insn_wf (b_breg Ret w)" "insn_wf (b_svc w)"
  "insn_wf (b_nop w)" "insn_wf (b_bti w)" "insn_wf (b_barrier ba w)" "insn_wf (b_msr_imm w)"
  "insn_wf (b_mrs sreg w)"
  by (simp_all add: build_defs raw_fields wf_fields branch_imm_ssimm)

lemma wf_mem_builders:
  "insn_wf (b_ldst op wd (mem_off f) w)" "insn_wf (b_ldst op wd (mem_pre f) w)"
  "insn_wf (b_ldst op wd (mem_post f) w)" "insn_wf (b_ldst_unscaled op wd w)"
  "insn_wf (b_ldst_unpriv op wd w)" "insn_wf (b_pair pop wd (mem_off f) w)"
  "insn_wf (b_pair pop wd (mem_pre f) w)" "insn_wf (b_pair pop wd (mem_post f) w)"
  "insn_wf (b_ldst_reg op wd w)" "insn_wf (b_ldst_reg_bl op wd w)" "insn_wf (b_lit lo wd w)"
  "insn_wf (b_prfm_imm w)" "insn_wf (b_prfm_lit w)" "insn_wf (b_prfm_reg w)"
  "insn_wf (b_ord oop wd w)" "insn_wf (b_atomic atop sz od wd w)"
  "insn_wf (b_fp_ldst ld vsz m w)" "insn_wf (b_fp_unscaled ld vsz w)" "insn_wf (b_fp_pair ld vsz m w)"
  "insn_wf (b_fp_multi ld n ix w)" "insn_wf (b_fp_multi_reg ld n w)" "insn_wf (b_fp_reg ld vsz w)"
  "insn_wf (b_fp_reg_bl ld vsz w)" "insn_wf (b_simd sf' w)" "insn_wf (b_simd_rn sf' wd w)"
  "insn_wf (b_simd_rd sf' wd w)"
  using fldn_lt [of 3 13 w] fldn_lt [of 1 12 w]
  by (simp_all add: build_defs wf_base wf_mem)

lemma wf_rows_1: "rows_wf decode_rows_1"
  by (simp add: rows_wf_def decode_rows_1_def wf_builders wf_mem_builders)

lemma wf_rows_2: "rows_wf decode_rows_2"
  by (simp add: rows_wf_def decode_rows_2_def wf_builders wf_mem_builders)

lemma wf_rows_3: "rows_wf decode_rows_3"
  by (simp add: rows_wf_def decode_rows_3_def wf_builders wf_mem_builders)

lemma wf_rows_4: "rows_wf decode_rows_4"
  by (simp add: rows_wf_def decode_rows_4_def wf_builders wf_mem_builders)

lemma wf_rows_5: "rows_wf decode_rows_5"
  by (simp add: rows_wf_def decode_rows_5_def wf_builders wf_mem_builders)

lemma wf_rows_6: "rows_wf decode_rows_6"
  by (simp add: rows_wf_def decode_rows_6_def wf_builders wf_mem_builders)

lemma wf_rows_7: "rows_wf decode_rows_7"
  by (simp add: rows_wf_def decode_rows_7_def wf_builders wf_mem_builders)

lemma wf_rows_8: "rows_wf decode_rows_8"
  by (simp add: rows_wf_def decode_rows_8_def wf_builders wf_mem_builders)

lemma wf_rows_9: "rows_wf decode_rows_9"
  by (simp add: rows_wf_def decode_rows_9_def wf_builders wf_mem_builders)

lemma wf_rows_10: "rows_wf decode_rows_10"
  by (simp add: rows_wf_def decode_rows_10_def wf_builders wf_mem_builders)

lemma wf_rows_11: "rows_wf decode_rows_11"
  by (simp add: rows_wf_def decode_rows_11_def wf_builders wf_mem_builders)

lemma wf_rows_12: "rows_wf decode_rows_12"
  by (simp add: rows_wf_def decode_rows_12_def wf_builders wf_mem_builders)

lemma wf_rows_13: "rows_wf decode_rows_13"
  by (simp add: rows_wf_def decode_rows_13_def wf_builders wf_mem_builders)

lemma wf_rows_14: "rows_wf decode_rows_14"
  by (simp add: rows_wf_def decode_rows_14_def wf_builders wf_mem_builders)

lemma wf_rows_15: "rows_wf decode_rows_15"
  by (simp add: rows_wf_def decode_rows_15_def wf_builders wf_mem_builders)

lemma wf_rows_16: "rows_wf decode_rows_16"
  by (simp add: rows_wf_def decode_rows_16_def wf_builders wf_mem_builders)

lemma wf_rows_17: "rows_wf decode_rows_17"
  by (simp add: rows_wf_def decode_rows_17_def wf_builders wf_mem_builders)

lemma wf_rows_18: "rows_wf decode_rows_18"
  by (simp add: rows_wf_def decode_rows_18_def wf_builders wf_mem_builders)

lemma wf_rows_19: "rows_wf decode_rows_19"
  by (simp add: rows_wf_def decode_rows_19_def wf_builders wf_mem_builders)

lemma wf_rows_20: "rows_wf decode_rows_20"
  by (simp add: rows_wf_def decode_rows_20_def wf_builders wf_mem_builders)

lemma rows_wf_append: "rows_wf (rs @ rs') \<longleftrightarrow> rows_wf rs \<and> rows_wf rs'"
  by (simp add: rows_wf_def)

lemma decode_rows_wf: "rows_wf decode_rows"
  by (simp only: decode_rows_def rows_wf_append
    wf_rows_1
    wf_rows_2
    wf_rows_3
    wf_rows_4
    wf_rows_5
    wf_rows_6
    wf_rows_7
    wf_rows_8
    wf_rows_9
    wf_rows_10
    wf_rows_11
    wf_rows_12
    wf_rows_13
    wf_rows_14
    wf_rows_15
    wf_rows_16
    wf_rows_17
    wf_rows_18
    wf_rows_19
    wf_rows_20)

lemma first_row_wf: "rows_wf rs \<Longrightarrow> first_row rs w = Some i \<Longrightarrow> insn_wf i"
  by (induction rs w rule: first_row.induct) (auto simp: rows_wf_def split: if_splits)

lemma decode_wf: "decode_a64_insn w = Some i \<Longrightarrow> insn_wf i"
  unfolding decode_a64_insn_def by (rule first_row_wf [OF decode_rows_wf])

lemma decode_defined_wf: "decode_defined w = Some i \<Longrightarrow> insn_wf i"
  by (auto simp: decode_defined_def dest: decode_wf split: option.splits if_splits)

end
