(* ===== verification/FragmentRun.thy ===== *)
theory FragmentRun
  imports VerifyFacts InterpRoles DecodeWf
begin

section \<open>Running a verified fragment\<close>

text \<open>
  The execution of a fragment's body as the kernel runs it: \<open>execute_insn\<close> (with the access context of
  translated code: \<open>AccessContext::Fragment\<close>, \<open>PSTATE.PAN\<close> clear) on the word at the pc, the pc it
  returns mapped back to a body word, the fault fixup of a user access (the extable entry sends a
  fault at \<open>access_offset\<close> to \<open>stub_offset\<close>), and the two ways out: the epilogue, and the \<open>br\<close> of a
  dispatch template. The SIMD and floating-point forms, which \<open>execute_insn\<close> does not cover, are
  over-approximated: such a word may change the registers its operand roles name and, if it is a
  window access, bytes of user-writable pages; nothing else.
\<close>

record run_env =
  re_base :: u64
  re_frame :: u64
  re_pt_regs :: u64
  re_ranges :: "(u64 \<times> u64) list"

datatype config =
    Running nat machine
  | AtEpilogue machine
  | Dispatched u64 machine
  | Escaped u64 machine
  | Failed insn_error machine

definition word_pc :: "run_env \<Rightarrow> nat \<Rightarrow> u64" where
  "word_pc env k = re_base env + of_nat (word_offset k)"

text \<open>Where a pc lies: the epilogue, a body word, or outside.\<close>

definition goto :: "run_env \<Rightarrow> fragment \<Rightarrow> u64 \<Rightarrow> machine \<Rightarrow> config" where
  "goto env frag pc st =
    (let off = unat (pc - re_base env) in
     if off = EPILOGUE_OFFSET then AtEpilogue st
     else case body_index frag off of Some k \<Rightarrow> Running k st | None \<Rightarrow> Escaped pc st)"

definition is_br :: "a64_insn \<Rightarrow> bool" where
  "is_br i = (case i of Brn (Br _) \<Rightarrow> True | _ \<Rightarrow> False)"

definition simd_effect :: "a64_insn \<Rightarrow> machine \<Rightarrow> machine \<Rightarrow> bool" where
  "simd_effect i st st' \<longleftrightarrow>
    (\<exists>w. writes i = Some w \<and> may_write w st st') \<and> user_pages st' = user_pages st
    \<and> (\<forall>x. memory st' x \<noteq> memory st x \<longrightarrow>
         is_window_form (classify i) \<and> user_pages st (page_base x) = Some ReadWrite)"

text \<open>The fixup of a fault at word \<open>k\<close>.\<close>

definition fixup :: "verify_input \<Rightarrow> fragment \<Rightarrow> nat \<Rightarrow> nat \<Rightarrow> bool" where
  "fixup input frag k j \<longleftrightarrow>
    (\<exists>site \<in> set (vi_fault_sites input).
       access_offset site = word_offset k \<and> body_index frag (stub_offset site) = Some j)"

inductive frag_step :: "run_env \<Rightarrow> verify_input \<Rightarrow> fragment \<Rightarrow> config \<Rightarrow> config \<Rightarrow> bool"
  for env input frag where
  fs_exec: "k < length (fr_body frag) \<Longrightarrow> \<not> is_br (fr_body frag ! k)
    \<Longrightarrow> cx_mode cx = Fragment (re_ranges env) False
    \<Longrightarrow> execute_insn cx st (word_pc env k) (fr_body frag ! k) = Some (cx', st', Inr pc')
    \<Longrightarrow> frag_step env input frag (Running k st) (goto env frag pc' st')"
| fs_dispatch: "k < length (fr_body frag) \<Longrightarrow> is_br (fr_body frag ! k)
    \<Longrightarrow> execute_insn cx st (word_pc env k) (fr_body frag ! k) = Some (cx', st', Inr pc')
    \<Longrightarrow> frag_step env input frag (Running k st) (Dispatched pc' st')"
| fs_fault: "k < length (fr_body frag)
    \<Longrightarrow> cx_mode cx = Fragment (re_ranges env) False
    \<Longrightarrow> execute_insn cx st (word_pc env k) (fr_body frag ! k) = Some (cx', st', Inl (IeFault flt))
    \<Longrightarrow> fixup input frag k j
    \<Longrightarrow> frag_step env input frag (Running k st) (Running j st')"
| fs_unfixed: "k < length (fr_body frag)
    \<Longrightarrow> cx_mode cx = Fragment (re_ranges env) False
    \<Longrightarrow> execute_insn cx st (word_pc env k) (fr_body frag ! k) = Some (cx', st', Inl (IeFault flt))
    \<Longrightarrow> \<nexists>j. fixup input frag k j
    \<Longrightarrow> frag_step env input frag (Running k st) (Failed (IeFault flt) st')"
| fs_error: "k < length (fr_body frag)
    \<Longrightarrow> cx_mode cx = Fragment (re_ranges env) False
    \<Longrightarrow> execute_insn cx st (word_pc env k) (fr_body frag ! k) = Some (cx', st', Inl (IeError e))
    \<Longrightarrow> frag_step env input frag (Running k st) (Failed (IeError e) st')"
| fs_simd: "k < length (fr_body frag) \<Longrightarrow> fr_body frag ! k = Simd f
    \<Longrightarrow> simd_effect (Simd f) st st'
    \<Longrightarrow> frag_step env input frag (Running k st) (goto env frag (word_pc env k + 4) st')"
| fs_simd_fault: "k < length (fr_body frag) \<Longrightarrow> fr_body frag ! k = Simd f
    \<Longrightarrow> is_window_form (classify (Simd f)) \<Longrightarrow> fixup input frag k j
    \<Longrightarrow> frag_step env input frag (Running k st) (Running j st)"

inductive_cases frag_stepE: "frag_step env input frag (Running k st) c"

definition reaches :: "run_env \<Rightarrow> verify_input \<Rightarrow> fragment \<Rightarrow> config \<Rightarrow> config \<Rightarrow> bool" where
  "reaches env input frag = (frag_step env input frag)\<^sup>*\<^sup>*"

subsection \<open>Where a word can go\<close>

lemma goto_target:
  assumes "loaded code frag" "length code < 2 ^ 63"
    and "pc = re_base env + word_of_int t"
    and "t = int EPILOGUE_OFFSET \<or> body_index_int frag t = Some j"
  shows "goto env frag pc st = (if t = int EPILOGUE_OFFSET then AtEpilogue st else Running j st)"
proof (cases "t = int EPILOGUE_OFFSET")
  case True
  then have "unat (pc - re_base env) = EPILOGUE_OFFSET"
    by (simp add: assms(3) wrapper_lengths)
  with True show ?thesis by (simp add: goto_def)
next
  case False
  with assms(4) have j: "body_index_int frag t = Some j" by simp
  note t = body_index_int_word [OF assms(1) j]
  have "word_offset j < 2 ^ 64"
    using t(1) assms(1,2) by (simp add: loaded_def word_offset_simps)
  moreover have "pc - re_base env = of_nat (word_offset j)"
    by (simp add: assms(3) t(2))
  ultimately have "unat (pc - re_base env) = word_offset j"
    by (simp add: unat_of_nat)
  moreover have "word_offset j \<noteq> EPILOGUE_OFFSET"
    by (simp add: word_offset_simps wrapper_lengths)
  ultimately show ?thesis
    using False t(1) body_index_word_offset [OF assms(1)] by (simp add: goto_def)
qed

lemma goto_next:
  assumes "loaded code frag" "length code < 2 ^ 63" "Suc k < length (fr_body frag)"
  shows "goto env frag (word_pc env k + 4) st = Running (Suc k) st"
proof -
  have "body_index_int frag (int (word_offset (Suc k))) = Some (Suc k)"
    using body_index_word_offset [OF assms(1,3)] by (simp add: body_index_int_def)
  moreover have "word_pc env k + 4 = re_base env + word_of_int (int (word_offset (Suc k)))"
    by (simp add: word_pc_def word_offset_simps)
  ultimately have "goto env frag (word_pc env k + 4) st =
      (if int (word_offset (Suc k)) = int EPILOGUE_OFFSET then AtEpilogue st else Running (Suc k) st)"
    using goto_target [OF assms(1,2)] by blast
  then show ?thesis by (simp add: word_offset_simps wrapper_lengths)
qed

text \<open>The next pc of a successful instruction.\<close>

lemma branch_imm_target:
  "branch_imm n imm \<Longrightarrow> pc_relative_target pc (raw imm) n = pc + word_of_int (ivalue imm)"
  by (simp add: branch_imm_def pc_relative_target_def)

lemma branch_next:
  assumes "branch_wf b" "exec_branch b pc st = (st', Inr pc')" "classify_branch b = FBranch delta c"
  shows "pc' = pc + word_of_int delta \<or> (c \<and> pc' = pc + 4)"
  using assms
  by (cases b) (auto simp: branch_imm_target conditional_target_def failing_def split: option.splits)

lemma execute_mem_next:
  "execute_mem cx st pc unpriv el rt rt2 ad = (cx', st', Inr pc') \<Longrightarrow> pc' = pc + 4"
  by (auto simp: execute_mem_def failing_def Let_def split: sum.splits prod.splits if_splits)

lemma execute_atomic_next:
  "execute_atomic cx st pc op n rs rn rt = (cx', st', Inr pc') \<Longrightarrow> pc' = pc + 4"
  by (auto simp: execute_atomic_def Let_def simp del: check_window_accesses.simps
      split: sum.splits prod.splits if_splits)

lemma exec_ldst_next: "exec_ldst cx st pc m = (cx', st', Inr pc') \<Longrightarrow> pc' = pc + 4"
  by (cases m) (auto dest: execute_mem_next execute_atomic_next)

lemma insn_next:
  assumes "insn_wf i" "execute_insn cx st pc i = Some (cx', st', Inr pc')"
    and "classify i \<noteq> FCall" "classify i \<noteq> FIndirectBranch"
  shows "(\<exists>delta c. classify i = FBranch delta c \<and> pc' = pc + word_of_int delta)
    \<or> (\<not> is_unconditional i \<and> pc' = pc + 4)"
proof (cases i)
  case (Brn b)
  show ?thesis
  proof (cases "\<exists>delta c. classify_branch b = FBranch delta c")
    case True
    then obtain delta c where c: "classify_branch b = FBranch delta c" by blast
    with assms branch_next [of b pc st st' pc' delta c] show ?thesis
      by (auto simp: Brn is_unconditional_def)
  next
    case False
    with assms show ?thesis by (cases b) (auto simp: Brn failing_def)
  qed
next
  case (Dp d)
  with assms(2) show ?thesis
    by (cases d) (auto simp: then_next_def is_unconditional_def split: sum.splits)
next
  case (Sys s)
  with assms(2) show ?thesis
    by (cases s) (auto simp: then_next_def is_unconditional_def split: sum.splits)
next
  case (Mem m)
  with assms(2) have "pc' = pc + 4" by (auto dest: exec_ldst_next)
  then show ?thesis by (cases m) (auto simp: Mem is_unconditional_def split: ldst_op.splits pair_op.splits)
qed (use assms(2) in simp)

end
