(* ===== verification/Confine.thy ===== *)
theory Confine
  imports FragmentRun
begin

section \<open>A verified fragment is confined\<close>

text \<open>
  The safety theorem of the verifier: started at an entry the verifier accepted, with the frame and
  \<open>pt_regs\<close> the trampoline set up, a fragment never changes SP or the frame pointer, never writes a
  byte outside the user-state slots of its frame, the user registers of \<open>pt_regs\<close> and the user pages
  mapped writable, and leaves only through the epilogue or the \<open>br\<close> of a dispatch template.
\<close>

subsection \<open>Addresses\<close>

definition window :: "u64 \<Rightarrow> nat \<Rightarrow> nat \<Rightarrow> u64 \<Rightarrow> bool" where
  "window b lo hi x \<longleftrightarrow> lo \<le> unat (x - b) \<and> unat (x - b) < hi"

text \<open>An address of the kernel half, where the top byte is not a tag.\<close>

definition kernel_addr :: "u64 \<Rightarrow> bool" where
  "kernel_addr a \<longleftrightarrow> 0xFF80000000000000 \<le> a"

lemma kernel_addr_bits:
  assumes "kernel_addr a" "55 \<le> n" "n < 64"
  shows "bit a n"
proof (rule ccontr)
  assume nb: "\<not> bit a n"
  have high: "drop_bit 55 a = 0x1FF"
  proof -
    have "0xFF80000000000000 div 2 ^ 55 \<le> unat a div 2 ^ 55"
      using assms(1) by (intro div_le_mono) (simp add: kernel_addr_def word_le_nat_alt)
    moreover have "unat a < 2 ^ LENGTH(64)" by (rule unsigned_less)
    then have "unat a div 2 ^ 55 < 512" by simp
    ultimately have "unat (drop_bit 55 a) = 511"
      by (simp add: drop_bit_eq_div unat_div_distrib)
    then show ?thesis by (simp add: word_unat_eq_iff)
  qed
  have "(0x1FF :: u64) = mask 9" by (simp add: mask_eq_exp_minus_1)
  then have "bit (drop_bit 55 a) (n - 55)"
    unfolding high using assms(2,3) by (simp only: bit_mask_iff) (simp, arith)
  with nb assms(2) show False by (simp add: bit_simps)
qed

lemma untagged_kernel:
  assumes "kernel_addr a"
  shows "untagged a = a"
proof (rule bit_word_eqI)
  fix n assume n: "n < LENGTH(64)"
  show "bit (untagged a) n = bit a n"
  proof (cases "55 \<le> n")
    case True
    then have "bit a n" "bit a 55"
      using kernel_addr_bits [OF assms] n by auto
    with True n show ?thesis by (simp add: untagged_def bit_simps)
  next
    case False
    with n show ?thesis by (auto simp: untagged_def bit_simps min_def)
  qed
qed

lemma kernel_addr_plus: "kernel_addr a \<Longrightarrow> unat a + n < 2 ^ 64 \<Longrightarrow> kernel_addr (a + of_nat n)"
  unfolding kernel_addr_def word_le_nat_alt by (simp add: unat_plus_of_nat)

lemma window_shift:
  fixes b x :: u64
  assumes "unat (x - (b + of_nat lo)) < n" "lo + n < 2 ^ 64"
  shows "window b lo (lo + n) x"
proof -
  let ?d = "x - (b + of_nat lo)"
  have "x - b = ?d + of_nat lo" by simp
  moreover have "unat (?d + of_nat lo) = unat ?d + lo"
    by (rule unat_plus_of_nat) (use assms in simp)
  ultimately show ?thesis using assms by (simp add: window_def)
qed

lemma window_mono: "window b lo hi x \<Longrightarrow> lo' \<le> lo \<Longrightarrow> hi \<le> hi' \<Longrightarrow> window b lo' hi' x"
  by (simp add: window_def)

subsection \<open>What a store of a fragment can touch\<close>

text \<open>The bytes a runtime store changes lie in its footprint.\<close>

lemma mem_single_store:
  assumes "execute_mem cx st pc u el rt None (AImm (MOffset b off)) = (cx', st', r)"
    and "memory st' x \<noteq> memory st x"
  shows "unat (x - untagged (read_reg st b + word_of_int (ivalue off))) < elem_size el"
proof -
  from assms have "st' \<noteq> st" by auto
  with assms(1) show ?thesis
  proof (rule execute_mem_changed)
    fix a wb u
    let ?accs = "mk_accesses el (untagged a) (length (transfers rt None))"
    assume ad: "addressing st el (AImm (MOffset b off)) = Inr (a, wb)"
      and st': "st' = (case el of
        ELoad _ _ _ \<Rightarrow> commit_load el (AImm (MOffset b off)) wb ?accs (transfers rt None) st
      | EStore _ \<Rightarrow> commit_store el (AImm (MOffset b off)) wb ?accs
          (map (\<lambda>r. read_reg st r AND width_mask (elem_size el * 8)) (transfers rt None)) st)"
    from ad have a: "a = read_reg st b + word_of_int (ivalue off)"
      by (simp add: addressing_def mem_addressing_def)
    show ?thesis
    proof (cases el)
      case (EStore k)
      with st' assms(2) commit_store_memory have "\<exists>acc \<in> set ?accs. hits acc x"
        by fastforce
      then show ?thesis
        by (auto simp: a EStore hits_def mk_accesses_def mk_access_def transfers_def)
    qed (use st' assms(2) in simp)
  qed
qed

lemma mem_pair_store:
  assumes "execute_mem cx st pc u (EStore 8) rt (Some rt2) (AImm (MOffset b off)) = (cx', st', r)"
    and "memory st' x \<noteq> memory st x"
  shows "unat (x - untagged (read_reg st b + word_of_int (ivalue off))) < 16"
proof -
  from assms have "st' \<noteq> st" by auto
  with assms(1) show ?thesis
  proof (rule execute_mem_changed)
    fix a wb u
    let ?accs = "mk_accesses (EStore 8) (untagged a) (length (transfers rt (Some rt2)))"
    assume ad: "addressing st (EStore 8) (AImm (MOffset b off)) = Inr (a, wb)"
      and st': "st' = (case EStore 8 of
        ELoad _ _ _ \<Rightarrow> commit_load (EStore 8) (AImm (MOffset b off)) wb ?accs (transfers rt (Some rt2)) st
      | EStore _ \<Rightarrow> commit_store (EStore 8) (AImm (MOffset b off)) wb ?accs
          (map (\<lambda>r. read_reg st r AND width_mask (elem_size (EStore 8) * 8)) (transfers rt (Some rt2))) st)"
    from ad have a: "a = read_reg st b + word_of_int (ivalue off)"
      by (simp add: addressing_def mem_addressing_def)
    from st' assms(2) commit_store_memory have "\<exists>acc \<in> set ?accs. hits acc x"
      by fastforce
    then have "unat (x - untagged a) < 8 \<or> unat (x - (untagged a + of_nat 8)) < 8"
      by (auto simp: hits_def mk_accesses_def mk_access_def transfers_def upt_rec)
    then show ?thesis
      using window_shift [of x "untagged a" 8 8] by (auto simp: a window_def)
  qed
qed

lemma execute_mem_load:
  assumes "execute_mem cx st pc u (ELoad n sg dest) rt rt2 ad = (cx', st', r)"
  shows "memory st' = memory st"
proof (cases "st' = st")
  case False
  with assms show ?thesis by (rule execute_mem_changed) simp
qed simp

definition footprint :: "machine \<Rightarrow> a64_mem \<Rightarrow> nat \<Rightarrow> u64 \<Rightarrow> bool" where
  "footprint st m nbytes x \<longleftrightarrow>
    unat (x - untagged (read_reg st (mem_base m) + word_of_int (ivalue (mem_imm m)))) < nbytes"

lemma runtime_store_footprint:
  assumes "exec_ldst cx st pc m = (cx', st', r)" "classify_ldst m = FRuntimeAccess (MOffset b off) nb s"
    and "memory st' x \<noteq> memory st x"
  shows "footprint st (MOffset b off) nb x"
proof (cases m)
  case (LdSt op rt mm)
  with assms show ?thesis
    using mem_single_store [of cx st pc False "ldst_elem op" rt b off cx' st' r x]
    by (cases op) (auto simp: footprint_def)
next
  case (LdStPair op rt2 rt mm)
  show ?thesis
  proof (cases "op = Stp64")
    case True
    with assms LdStPair show ?thesis
      using mem_pair_store [of cx st pc False rt rt2 b off cx' st' r x] by (auto simp: footprint_def)
  next
    case False
    with assms LdStPair have op: "op = Ldp64" by (cases op) auto
    with assms LdStPair show ?thesis
      by (auto dest: execute_mem_load)
  qed
qed (use assms in auto)

subsection \<open>The invariant\<close>

text \<open>The bytes a fragment may change.\<close>

definition user_state :: "run_env \<Rightarrow> u64 \<Rightarrow> bool" where
  "user_state env x \<longleftrightarrow>
    window (re_frame env) FRAME_USER_START FRAME_USER_END x
    \<or> window (re_frame env) FRAME_USER_X18_START FRAME_USER_X18_END x
    \<or> window (re_pt_regs env) 0 PT_REGS_USER_STATE_END x"

definition may_change :: "run_env \<Rightarrow> machine \<Rightarrow> u64 \<Rightarrow> bool" where
  "may_change env st0 x \<longleftrightarrow> user_state env x \<or> user_pages st0 (page_base x) = Some ReadWrite"

text \<open>
  What the trampoline and the prologue set up: SP at the frame, the frame and \<open>pt_regs\<close> in the kernel
  half, apart, the frame not mapped as user memory, and the \<open>pt_regs\<close> pointer in its slot.
\<close>

definition env_ok :: "run_env \<Rightarrow> machine \<Rightarrow> bool" where
  "env_ok env st0 \<longleftrightarrow>
    m_sp st0 = re_frame env
    \<and> kernel_addr (re_frame env) \<and> unat (re_frame env) + RUNTIME_FRAME_SIZE_BYTES < 2 ^ 64
    \<and> kernel_addr (re_pt_regs env) \<and> unat (re_pt_regs env) + PT_REGS_USER_STATE_END < 2 ^ 64
    \<and> (unat (re_pt_regs env) + PT_REGS_USER_STATE_END \<le> unat (re_frame env)
       \<or> unat (re_frame env) + RUNTIME_FRAME_SIZE_BYTES \<le> unat (re_pt_regs env))
    \<and> list_all (\<lambda>i. user_pages st0 (page_base (re_frame env + of_nat i)) \<noteq> Some ReadWrite)
        [0..<RUNTIME_FRAME_SIZE_BYTES]
    \<and> read_le st0 (re_frame env + of_nat RUNTIME_FRAME_PT_REGS_PTR_OFFSET) 8 = re_pt_regs env"

definition confined :: "run_env \<Rightarrow> machine \<Rightarrow> machine \<Rightarrow> bool" where
  "confined env st0 st \<longleftrightarrow>
    m_sp st = m_sp st0 \<and> gprs st KERNEL_FP_REG = gprs st0 KERNEL_FP_REG
    \<and> user_pages st = user_pages st0
    \<and> (\<forall>x. memory st x \<noteq> memory st0 x \<longrightarrow> may_change env st0 x)"

lemma confined_refl: "confined env st st"
  by (simp add: confined_def)

lemma frame_slot_unchanged:
  assumes "env_ok env st0" "confined env st0 st"
  shows "read_le st (re_frame env + of_nat RUNTIME_FRAME_PT_REGS_PTR_OFFSET) 8 = re_pt_regs env"
proof -
  let ?F = "re_frame env"
  have "memory st (?F + of_nat 176 + of_nat i) = memory st0 (?F + of_nat 176 + of_nat i)" if "i < 8" for i
  proof (rule ccontr)
    let ?x = "?F + of_nat 176 + of_nat i :: u64"
    assume "memory st ?x \<noteq> memory st0 ?x"
    then have c: "may_change env st0 ?x"
      using assms(2) by (simp add: confined_def)
    have xF: "?x = ?F + of_nat (176 + i)" by simp
    have "?x - ?F = of_nat (176 + i)" by simp
    then have d: "unat (?x - ?F) = 176 + i"
      using that by (simp only: unat_of_nat) simp
    have ux: "unat ?x = unat ?F + (176 + i)"
      unfolding xF by (rule unat_plus_of_nat) (use assms(1) that in \<open>simp add: env_ok_def kdefs\<close>)
    have "\<not> window (re_pt_regs env) 0 256 ?x"
    proof
      assume "window (re_pt_regs env) 0 256 ?x"
      then have "unat ?x = unat (re_pt_regs env) + unat (?x - re_pt_regs env)"
        "unat (?x - re_pt_regs env) < 256"
        using unat_offset [of ?x "re_pt_regs env" 256] assms(1)
        by (auto simp: window_def env_ok_def kdefs)
      with ux that assms(1) show False
        by (auto simp: env_ok_def kdefs)
    qed
    moreover have "\<forall>j < 208. user_pages st0 (page_base (?F + of_nat j)) \<noteq> Some ReadWrite"
      using assms(1) by (auto simp: env_ok_def list_all_iff kdefs)
    with that have "user_pages st0 (page_base ?x) \<noteq> Some ReadWrite"
      unfolding xF by (simp del: of_nat_add)
    ultimately show False
      using c d that by (auto simp: may_change_def user_state_def window_def kdefs)
  qed
  then have "read_le st (?F + of_nat 176) 8 = read_le st0 (?F + of_nat 176) 8"
    by (intro read_le_cong) simp
  then show ?thesis
    using assms(1) by (simp add: env_ok_def kdefs)
qed

text \<open>The registers the analysis calls \<open>pt_regs\<close> pointers are.\<close>

definition pointers_ok :: "run_env \<Rightarrow> taint \<Rightarrow> machine \<Rightarrow> bool" where
  "pointers_ok env t st \<longleftrightarrow> (\<forall>n. is_pt_regs t n \<longrightarrow> gprs st n = re_pt_regs env)"

lemma and_gpr_bit: "w AND gpr_bit n \<noteq> 0 \<longleftrightarrow> n < 32 \<and> bit w n"
proof -
  have "w AND gpr_bit n = (if n < 32 \<and> bit w n then gpr_bit n else 0)"
    by (rule bit_eqI) (auto simp: bit_and_iff)
  moreover have "n < 32 \<Longrightarrow> gpr_bit n \<noteq> 0"
    using bit_gpr_bit [of n n] by force
  ultimately show ?thesis by simp
qed

lemma is_pt_regs_bit: "is_pt_regs t n \<longleftrightarrow> n < 31 \<and> bit (t_pt_regs t) n"
  by (auto simp: is_pt_regs_def and_gpr_bit)

lemma pointers_ok_none: "t_pt_regs t = 0 \<Longrightarrow> pointers_ok env t st"
  by (simp add: pointers_ok_def is_pt_regs_bit)

subsection \<open>One word outside the templates\<close>

lemma base_value:
  assumes "env_ok env st0" "confined env st0 st" "base_wf b" "is_sp b"
  shows "read_reg st b = re_frame env"
  using assms by (simp add: read_reg_def is_sp_def base_wf_def env_ok_def confined_def)

lemma access_window:
  assumes "kernel_addr B" "unat B + 256 < 2 ^ 64" "0 \<le> d" "d + int nb \<le> 256" "hi = nat d + nb"
    and "unat (x - untagged (B + word_of_int d)) < nb"
  shows "window B (nat d) hi x"
proof -
  have d: "word_of_int d = (of_nat (nat d) :: u64)"
    using assms(3) by simp
  have "kernel_addr (B + of_nat (nat d))"
    using assms(1) by (rule kernel_addr_plus) (use assms in linarith)
  with assms(6) have "unat (x - (B + of_nat (nat d))) < nb"
    by (simp add: d untagged_kernel del: of_nat_nat)
  then show ?thesis
    unfolding assms(5) by (rule window_shift) (use assms in linarith)
qed

lemma runtime_access_user_state:
  assumes env: "env_ok env st0" "confined env st0 st"
    and ptr: "pointers_ok env t st"
    and wf: "base_wf (mem_base m)" and chk: "check_runtime_access k i m nb t = Inr ()"
    and store: "pt_regs_pointer_load i = None"
    and hit: "footprint st m nb x"
  shows "user_state env x"
proof -
  from chk obtain b imm where m: "m = MOffset b imm"
    by (cases m) (auto simp: check_runtime_access_def Let_def)
  let ?d = "ivalue imm"
  show ?thesis
  proof (cases "is_sp b")
    case True
    with chk store have slot: "is_user_state_slot ?d nb"
      by (auto simp: check_runtime_access_def m Let_def)
    have B: "read_reg st b = re_frame env"
      using base_value [OF env] wf True by (simp add: m)
    have K: "kernel_addr (re_frame env)" "unat (re_frame env) + 208 < 2 ^ 64"
      using env(1) by (auto simp: env_ok_def kdefs)
    have x: "unat (x - untagged (re_frame env + word_of_int ?d)) < nb"
      using hit by (simp add: footprint_def m B)
    have "kernel_addr (re_frame env + of_nat (nat ?d))"
      using K(1) by (rule kernel_addr_plus) (use K(2) slot in \<open>auto simp: is_user_state_slot_def kdefs Let_def\<close>)
    moreover have "word_of_int ?d = (of_nat (nat ?d) :: u64)"
      using slot by (auto simp: is_user_state_slot_def kdefs Let_def)
    ultimately have "unat (x - (re_frame env + of_nat (nat ?d))) < nb"
      using x by (simp add: untagged_kernel del: of_nat_nat)
    then have "window (re_frame env) (nat ?d) (nat ?d + nb) x"
      by (rule window_shift) (use slot in \<open>auto simp: is_user_state_slot_def kdefs Let_def\<close>)
    with slot show ?thesis
      by (auto simp: user_state_def is_user_state_slot_def kdefs Let_def window_def)
  next
    case False
    with chk have p: "is_pt_regs t (enc b)" and rng: "0 \<le> ?d" "?d + int nb \<le> 256"
      by (auto simp: check_runtime_access_def m Let_def kdefs split: if_splits)
    from p ptr have "gprs st (enc b) = re_pt_regs env" "enc b < 31"
      by (auto simp: pointers_ok_def is_pt_regs_bit)
    then have B: "read_reg st b = re_pt_regs env"
      by (simp add: read_reg_def)
    have "window (re_pt_regs env) (nat ?d) (nat ?d + nb) x"
      using env(1) rng hit by (intro access_window) (auto simp: env_ok_def kdefs footprint_def m B)
    with rng show ?thesis
      by (auto simp: user_state_def kdefs window_def)
  qed
qed

lemma execute_insn_pages:
  assumes "execute_insn cx st pc i = Some (cx', st', r)"
  shows "user_pages st' = user_pages st"
proof (cases i)
  case (Dp d)
  with assms show ?thesis
    using exec_dp_memory [of d pc st "fst (exec_dp d pc st)" "snd (exec_dp d pc st)"]
    by (auto simp: then_next_def)
next
  case (Sys s)
  with assms show ?thesis
    using exec_sys_memory [of s st "fst (exec_sys s st)" "snd (exec_sys s st)"]
    by (auto simp: then_next_def)
next
  case (Mem m)
  with assms show ?thesis
    by (cases m) (auto dest: execute_mem_pages execute_atomic_pages)
qed (use assms in \<open>auto dest: exec_branch_memory\<close>)

lemma execute_insn_memory:
  assumes "execute_insn cx st pc i = Some (cx', st', r)" "memory st' x \<noteq> memory st x"
  obtains m where "i = Mem m" "exec_ldst cx st pc m = (cx', st', r)"
proof (cases i)
  case (Dp d)
  with assms have False
    using exec_dp_memory [of d pc st "fst (exec_dp d pc st)" "snd (exec_dp d pc st)"]
    by (auto simp: then_next_def)
  then show ?thesis ..
next
  case (Sys s)
  with assms have False
    using exec_sys_memory [of s st "fst (exec_sys s st)" "snd (exec_sys s st)"]
    by (auto simp: then_next_def)
  then show ?thesis ..
qed (use assms that in \<open>auto dest: exec_branch_memory\<close>)

lemma check_registers_writes:
  assumes "check_registers k i t = Inr ()"
  obtains w where "writes i = Some w" "\<not> w_sp w" "\<not> bit (w_gprs w) KERNEL_FP_REG"
  using assms and_gpr_bit [of _ KERNEL_FP_REG]
  by (fastforce simp: check_registers_def Let_def kdefs split: if_splits)

lemma plain_memory:
  assumes env: "env_ok env st0" "confined env st0 st" and ptr: "pointers_ok env t st"
    and wf: "insn_wf i" and ok: "plain_ok input k i js t"
    and run: "execute_insn cx st pc i = Some (cx', st', r)"
    and chg: "memory st' x \<noteq> memory st x"
  shows "may_change env st0 x"
proof -
  obtain m where i: "i = Mem m" and ld: "exec_ldst cx st pc m = (cx', st', r)"
    using run chg by (rule execute_insn_memory)
  have pages: "user_pages st = user_pages st0"
    using env(2) by (simp add: confined_def)
  show ?thesis
  proof (cases "classify_ldst m")
    case (FRuntimeAccess mm nb s)
    then have wfm: "base_wf (mem_base mm)"
      using wf by (cases m) (auto simp: i split: ldst_op.splits pair_op.splits)
    have chk: "check_runtime_access k i mm nb t = Inr ()"
      using ok FRuntimeAccess by (auto simp: plain_ok_def i)
    then obtain b off where mm: "mm = MOffset b off"
      by (cases mm) (auto simp: check_runtime_access_def Let_def)
    have foot: "footprint st mm nb x"
      unfolding mm using ld FRuntimeAccess [unfolded mm] chg by (rule runtime_store_footprint)
    have "pt_regs_pointer_load i = None"
    proof (rule ccontr)
      assume "pt_regs_pointer_load i \<noteq> None"
      then obtain rt mo where "m = LdSt Ldr64 rt mo"
        by (cases m) (auto simp: i split: ldst_op.splits)
      with ld chg show False by (auto dest: execute_mem_load)
    qed
    with env ptr wfm chk foot have "user_state env x"
      by (intro runtime_access_user_state)
    then show ?thesis by (simp add: may_change_def)
  next
    case (FUserAccess mm)
    then obtain op rt where m: "m = LdStUnpriv op rt mm"
      by (cases m) (auto split: ldst_op.splits pair_op.splits)
    with ld chg obtain acc where "checked (cx_mode cx) True st acc" "acc_kind acc = AccWrite" "hits acc x"
      by (auto dest!: execute_mem_memory [where x = x])
    then show ?thesis
      using checked_write pages by (fastforce simp: may_change_def)
  next
    case (FWindowAccess rn fp)
    then obtain op sz od rs rt where m: "m = Atomic op sz od rs rn rt"
      by (cases m) (auto split: ldst_op.splits pair_op.splits)
    with ld chg obtain acc where "user_access_allowed st acc" "acc_kind acc = AccWrite" "hits acc x"
      by (auto dest!: execute_atomic_memory [where x = x])
    then have "user_pages st (page_base x) = Some ReadWrite"
      using checked_write [of Original True st acc x] by (simp add: checked_def)
    then show ?thesis by (simp add: may_change_def pages)
  qed (use ok in \<open>auto simp: plain_ok_def i split: ldst_op.splits pair_op.splits
      elim!: classify_ldst.elims\<close>)
qed

lemma confined_step:
  assumes env: "env_ok env st0" "confined env st0 st"
    and w: "may_write w st st'" "\<not> w_sp w" "\<not> bit (w_gprs w) KERNEL_FP_REG"
    and pg: "user_pages st' = user_pages st"
    and mem: "\<And>x. memory st' x \<noteq> memory st x \<Longrightarrow> may_change env st0 x"
  shows "confined env st0 st'"
proof -
  have "gprs st' KERNEL_FP_REG = gprs st KERNEL_FP_REG" "m_sp st' = m_sp st"
    using w(2,3) w(1) [unfolded may_write_def, THEN conjunct1, rule_format, of KERNEL_FP_REG]
      w(1) [unfolded may_write_def, THEN conjunct2]
    by (auto simp: kdefs)
  with env(2) pg mem show ?thesis
    unfolding confined_def by metis
qed

text \<open>What the analysis adds to the pointers is the pointer load, which reads the slot.\<close>

lemma taint_step_pointer:
  assumes "taint_step i form t = Some t'" "writes i = Some w" "bit (t_pt_regs t') n"
  shows "(bit (t_pt_regs t) n \<and> \<not> bit (w_gprs w) n)
    \<or> (\<exists>rd. reads i = Some rd \<and> written_value i form rd t = VPtRegs \<and> bit (w_gprs w) n)"
proof -
  from assms(1,2) obtain rd where rd: "reads i = Some rd"
    and t': "t' = taint_base (r_base rd) (w_gprs w) t (taint_apply (w_gprs w) (written_value i form rd t) t)"
    by (auto simp: taint_step_def split: option.splits)
  have "bit (t_pt_regs (taint_apply (w_gprs w) (written_value i form rd t) t)) n"
    using assms(3) by (auto simp: t' taint_base_def bit_simps split: option.splits if_splits)
  then show ?thesis
    using rd by (cases "written_value i form rd t") (auto simp: taint_apply_def Let_def bit_simps)
qed

lemma pointer_load_value:
  assumes env: "env_ok env st0" "confined env st0 st" and wf: "insn_wf i"
    and pl: "pt_regs_pointer_load i = Some n"
    and run: "execute_insn cx st pc i = Some (cx', st', Inr pc')"
  shows "gprs st' n = re_pt_regs env"
proof -
  from pl obtain rt b off where i: "i = Mem (LdSt Ldr64 rt (MOffset b off))" and sp: "is_sp b"
    and off: "ivalue off = 176" and n: "n = enc rt" "is_scratch (enc rt)"
    by (cases i rule: pt_regs_pointer_load.cases) (auto simp: kdefs split: ldst_op.splits a64_mem.splits if_splits)
  have B: "read_reg st b = re_frame env"
    using env _ sp by (rule base_value) (use wf i in simp)
  have K: "kernel_addr (re_frame env + of_nat 176)"
    using env(1) by (intro kernel_addr_plus) (auto simp: env_ok_def kdefs)
  have slot: "read_le st (re_frame env + of_nat 176) 8 = re_pt_regs env"
    using frame_slot_unchanged [OF env] by (simp add: kdefs)
  have "st' = write_reg rt (re_pt_regs env AND width_mask 64) st"
    using run untagged_kernel [OF K] slot
    by (auto simp: i execute_mem_def addressing_def mem_addressing_def B off pair_overlap_def transfers_def
        mk_accesses_def mk_access_def commit_load_def apply_writeback_def load_value_def Let_def
        split: prod.splits sum.splits if_splits)
  then show ?thesis
    using n(2) by (simp add: n(1) write_reg_def width_mask_def is_scratch_def kdefs)
qed

lemma plain_pointers:
  assumes env: "env_ok env st0" "confined env st0 st" and ptr: "pointers_ok env t st"
    and wf: "insn_wf i" and w: "writes i = Some w"
    and run: "execute_insn cx st pc i = Some (cx', st', Inr pc')"
    and ts: "taint_step i (classify i) t = Some t'"
  shows "pointers_ok env t' st'"
  unfolding pointers_ok_def
proof (intro allI impI)
  fix n
  assume "is_pt_regs t' n"
  then have n: "n < 31" "bit (t_pt_regs t') n"
    by (auto simp: is_pt_regs_bit)
  from taint_step_pointer [OF ts w n(2)] show "gprs st' n = re_pt_regs env"
  proof (elim disjE exE conjE)
    assume "bit (t_pt_regs t) n" "\<not> bit (w_gprs w) n"
    with n(1) ptr execute_insn_may_write [OF run w] show ?thesis
      by (auto simp: pointers_ok_def is_pt_regs_bit may_write_def)
  next
    fix rd
    assume v: "written_value i (classify i) rd t = VPtRegs" and b: "bit (w_gprs w) n"
    from v obtain q where q: "pt_regs_pointer_load i = Some q"
      by (auto simp: written_value_def frame_load_value_def
          split: vform.splits if_splits a64_mem.splits bool.splits)
    then obtain rt b off where i: "i = Mem (LdSt Ldr64 rt (MOffset b off))" and "q = enc rt" "enc rt \<noteq> 31"
      by (cases i rule: pt_regs_pointer_load.cases)
        (auto simp: is_scratch_def kdefs split: ldst_op.splits a64_mem.splits if_splits)
    with w b have "n = q"
      by (auto simp: writes_def get_reg_def ldst_roles1_def base_role_def is_indexed_def add_write_def
          split: if_splits)
    then show ?thesis
      using pointer_load_value [OF env wf q run] by simp
  qed
qed

end
