(* ===== verification/SafeFragment.thy ===== *)
theory SafeFragment
  imports Confine
begin

section \<open>The verifier's safety theorem\<close>

text \<open>
  Every step of a fragment that passed keeps the invariant of the previous theory: the words outside
  the templates by their rules, the words of a template because they are the template's, the fixup
  of a fault because stubs are join points, where the analysis assumes nothing.
\<close>

subsection \<open>The words of a template\<close>

lemma template_position:
  assumes "loaded code frag" "templates_fit code frag" "fr_position frag k = Some p"
  shows "p < 20" "p \<le> k" "q < 20 \<Longrightarrow> fr_position frag (k - p + q) = Some q"
    "q < 20 \<Longrightarrow> k - p + q < length (fr_body frag)"
proof -
  from assms(2,3) have fit: "p < 20" "p \<le> k" "template_fits code frag (k - p)"
    by (auto simp: templates_fit_def)
  then show "p < 20" "p \<le> k" "q < 20 \<Longrightarrow> fr_position frag (k - p + q) = Some q"
    by (auto simp: template_fits_def)
  assume q: "q < 20"
  with fit(3) obtain w where "read_word code (word_offset (k - p + q)) = Some w"
    by (auto simp: template_fits_def)
  then have "word_offset (k - p + q) + 4 \<le> length code"
    by (auto simp: read_word_def ABI_INSN_SIZE_def split: if_splits)
  with assms(1) show "k - p + q < length (fr_body frag)"
    by (simp add: loaded_def word_offset_simps)
qed

lemma template_word:
  assumes "loaded code frag" "templates_fit code frag" "fr_position frag k = Some p"
  shows "(p \<notin> {3, 6, 14, 17} \<and> fr_body frag ! k = template_insns ! p)
    \<or> (p \<in> {3, 6, 14, 17} \<and>
        (\<exists>op imm r. fr_body frag ! k = Brn (op X64 imm r) \<and> (op = Cbz \<or> op = Cbnz)))"
proof -
  note pos = template_position [OF assms]
  from assms(2,3) obtain ws ds where
    rd: "read_word code (word_offset (k - p + p)) = Some (ws ! p)"
    and ma: "dispatch_template_matches ws = Some ds"
    using pos(1) by (fastforce simp: templates_fit_def template_fits_def)
  have k: "k - p + p = k" "k < length (fr_body frag)"
    using pos(2) pos(4) [OF pos(1)] by simp_all
  with assms(1) rd have dec: "decode_defined (ws ! p) = Some (fr_body frag ! k)"
    by (auto simp: loaded_def)
  show ?thesis
  proof (cases "p \<in> {3, 6, 14, 17}")
    case True
    with miss_word_decodes [OF True template_matches_words(3) [OF ma True]] dec show ?thesis by auto
  next
    case False
    with template_matches_words(2) [OF ma pos(1)] template_words_defined [OF pos(1)] dec show ?thesis
      by simp
  qed
qed

definition template_step_ok :: "nat \<Rightarrow> bool" where
  "template_step_ok p \<longleftrightarrow>
    (let i = template_insns ! p in
     \<not> is_access_form (classify i) \<and> (case i of Simd _ \<Rightarrow> False | _ \<Rightarrow> True)
     \<and> (if p = 8 \<or> p = 19 then is_br i
        else \<not> is_br i \<and> classify i \<notin> {FCall, FIndirectBranch} \<and> branch_delta i = None
          \<and> (case i of Mem (LdSt op _ _) \<Rightarrow> op = Ldr64 | Mem (LdStReg op _ _ _ _ _) \<Rightarrow> op = Ldr64
              | Dp _ \<Rightarrow> True | _ \<Rightarrow> False)
          \<and> writes i = writes (KJIT_DISPATCH_TEMPLATE ! p)
          \<and> (case writes i of None \<Rightarrow> False
             | Some w \<Rightarrow> \<not> w_sp w \<and> \<not> bit (w_gprs w) KERNEL_FP_REG)))"

lemmas template_eval = template_defs kdefs reg_defs imm_defs writes_def get_reg_def add_write_def is_sp_def
  ldst_roles1_def base_role_def is_indexed_def

lemma template_steps:
  assumes "p < 20" "p \<notin> {3, 6, 14, 17}"
  shows "template_step_ok p"
proof -
  from assms have "p = 0 \<or> p = 1 \<or> p = 2 \<or> p = 4 \<or> p = 5 \<or> p = 7 \<or> p = 8 \<or> p = 9 \<or> p = 10 \<or> p = 11
      \<or> p = 12 \<or> p = 13 \<or> p = 15 \<or> p = 16 \<or> p = 18 \<or> p = 19"
    by (simp, arith)
  then show ?thesis
    by (elim disjE) (simp_all add: template_step_ok_def template_insns_def Let_def template_eval is_br_def
      branch_delta_def is_access_form_def KERNEL_FP_REG_def gpr_bit_def bit_simps)
qed

lemma template_memory:
  assumes "p < 20" "p \<notin> {3, 6, 14, 17}" "\<not> is_br (template_insns ! p)"
    and "execute_insn cx st pc (template_insns ! p) = Some (cx', st', r)"
  shows "memory st' = memory st"
proof (rule ext, rule ccontr)
  fix x assume "memory st' x \<noteq> memory st x"
  with assms(4) obtain m where m: "template_insns ! p = Mem m" "exec_ldst cx st pc m = (cx', st', r)"
    by (rule execute_insn_memory)
  from template_steps [OF assms(1,2)] assms(3) m(1)
  have "case m of LdSt op _ _ \<Rightarrow> op = Ldr64 | LdStReg op _ _ _ _ _ \<Rightarrow> op = Ldr64 | _ \<Rightarrow> False"
    by (auto simp: template_step_ok_def Let_def split: if_splits a64_ldst.splits)
  with m(2) have "memory st' = memory st"
    by (auto dest: execute_mem_load split: a64_ldst.splits)
  with \<open>memory st' x \<noteq> memory st x\<close> show False by simp
qed

lemma step_template_pointers:
  assumes "step_dispatch_template p t js off = Inr t'" "bit (t_pt_regs t') n" "t_pt_regs js = 0"
  shows "bit (t_pt_regs t) n"
    and "p \<notin> {3, 6, 14, 17} \<Longrightarrow> \<not> is_br (KJIT_DISPATCH_TEMPLATE ! p) \<Longrightarrow>
      \<exists>w. writes (KJIT_DISPATCH_TEMPLATE ! p) = Some w \<and> \<not> bit (w_gprs w) n"
  using assms
  by (auto simp: step_dispatch_template_def is_br_def Let_def DISPATCH_TEMPLATE_MISS_BRANCHES_def bit_simps
      split: if_splits)

lemma template_br: "p < 20 \<Longrightarrow> is_br (KJIT_DISPATCH_TEMPLATE ! p) \<longleftrightarrow> p = 8 \<or> p = 19"
proof -
  have "\<forall>p \<in> set [0..<20]. is_br (KJIT_DISPATCH_TEMPLATE ! p) \<longleftrightarrow> p = 8 \<or> p = 19"
    by (simp add: upt_rec KJIT_DISPATCH_TEMPLATE_def is_br_def w_table_def w_ubfx_def w_slot_def
        w_cbz_slot_def w_cbnz_key_def w_record_pc_def w_compare_def w_record_host_def w_br_def)
  then show "p < 20 \<Longrightarrow> is_br (KJIT_DISPATCH_TEMPLATE ! p) \<longleftrightarrow> p = 8 \<or> p = 19" by simp
qed

subsection \<open>One step\<close>

text \<open>What is true of every configuration a verified fragment reaches.\<close>

definition config_ok ::
    "run_env \<Rightarrow> fragment \<Rightarrow> nat set \<Rightarrow> taint \<Rightarrow> (nat \<Rightarrow> pass) \<Rightarrow> machine \<Rightarrow> config \<Rightarrow> bool" where
  "config_ok env frag join js S st0 c =
    (case c of
       Running k st \<Rightarrow> k < length (fr_body frag) \<and> confined env st0 st
         \<and> pointers_ok env (taint_in join js S k) st
     | AtEpilogue st \<Rightarrow> confined env st0 st
     | Dispatched _ st \<Rightarrow> confined env st0 st
     | Escaped _ _ \<Rightarrow> False
     | Failed _ st \<Rightarrow> confined env st0 st)"

text \<open>The premises of every step.\<close>

definition accepted ::
    "verify_input \<Rightarrow> fragment \<Rightarrow> nat set \<Rightarrow> taint \<Rightarrow> (nat \<Rightarrow> pass) \<Rightarrow> bool" where
  "accepted input frag join js S \<longleftrightarrow>
    loaded (vi_code input) frag \<and> length (vi_code input) < 2 ^ 63
    \<and> templates_fit (vi_code input) frag
    \<and> scanned input frag join \<and> passed input frag join js S
    \<and> is_unconditional (fr_body frag ! (length (fr_body frag) - 1))"

lemma accepted_entry:
  assumes "accepted input frag join js S"
  shows "t_pt_regs js = 0"
  using assms by (auto simp: accepted_def passed_def taint_at_entry_value)

lemma fixup_join:
  assumes "accepted input frag join js S" "fixup input frag k j"
  shows "j < length (fr_body frag)" "j \<in> join" "is_access_form (classify (fr_body frag ! k))"
proof -
  from assms have l: "loaded (vi_code input) frag" and sc: "scanned input frag join"
    by (auto simp: accepted_def)
  from assms(2) obtain site where s: "site \<in> set (vi_fault_sites input)"
    "access_offset site = word_offset k" "body_index frag (stub_offset site) = Some j"
    by (auto simp: fixup_def)
  with sc obtain a where "body_index frag (word_offset k) = Some a"
    "is_access_form (classify (fr_body frag ! a))" "j \<in> join"
    by (fastforce simp: scanned_def site_ok_def)
  moreover from this(1) have "a = k"
    using body_index_word(2) [OF l] by (fastforce simp: word_offset_simps)
  ultimately show "j < length (fr_body frag)" "j \<in> join" "is_access_form (classify (fr_body frag ! k))"
    using body_index_word(1) [OF l s(3)] by auto
qed

text \<open>A taken branch lands on a join point or on the victim probe, where no register is a pointer.\<close>

lemma probe_taint:
  assumes acc: "accepted input frag join js S"
    and k: "k < length (fr_body frag)" and probe: "is_probe_edge frag k j"
  shows "t_pt_regs (taint_in join js S j) = 0"
proof -
  from acc have l: "loaded (vi_code input) frag" and tf: "templates_fit (vi_code input) frag"
    and pa: "passed input frag join js S"
    by (auto simp: accepted_def)
  from probe obtain p where p: "fr_position frag k = Some p" "p \<in> {3, 6}" "j + p = k + 9"
    by (auto simp: is_probe_edge_def DISPATCH_TEMPLATE_MISS_BRANCHES_def DISPATCH_TEMPLATE_VICTIM_PROBE_def
        split: option.splits)
  note pos = template_position [OF l tf p(1)]
  from pos(2) p(3) have j: "j = Suc (k - p + 8)" by simp
  have pos8: "fr_position frag (k - p + 8) = Some 8" "k - p + 8 < length (fr_body frag)"
    using pos(3) [of 8] pos(4) [of 8] by simp_all
  have "step_dispatch_template 8 (taint_in join js S (k - p + 8)) js (word_offset (k - p + 8))
      = Inr (ps_taint (S (Suc (k - p + 8))))"
    using passed_template [OF pa pos8(2,1)] .
  then have "ps_taint (S j) = js"
    using template_br [of 8] by (auto simp: step_dispatch_template_def is_br_def Let_def j split: if_splits)
  with accepted_entry [OF acc] show ?thesis by (simp add: taint_in_def)
qed

lemma branch_taken:
  assumes acc: "accepted input frag join js S"
    and k: "k < length (fr_body frag)" "classify (fr_body frag ! k) = FBranch delta c"
    and conf: "confined env st0 st"
  shows "config_ok env frag join js S st0 (goto env frag (word_pc env k + word_of_int delta) st)"
proof -
  from acc have l: "loaded (vi_code input) frag" and len: "length (vi_code input) < 2 ^ 63"
    and b: "branch_ok frag k join"
    using k(1) by (auto simp: accepted_def scanned_def)
  let ?t = "int (word_offset k) + delta"
  have bt: "branch_target frag k = Some ?t"
    using k(2) by (simp add: branch_target_def branch_delta_def)
  have pc: "word_pc env k + word_of_int delta = re_base env + word_of_int ?t"
    by (simp add: word_pc_def)
  from b bt consider "?t = int EPILOGUE_OFFSET"
    | j where "body_index_int frag ?t = Some j" "is_probe_edge frag k j \<or> j \<in> join"
    unfolding branch_ok_def by blast
  then show ?thesis
  proof cases
    case 1
    with goto_target [OF l len pc, of undefined st] conf show ?thesis by (simp add: config_ok_def)
  next
    case (2 j)
    have "t_pt_regs (taint_in join js S j) = 0"
    proof (cases "j \<in> join")
      case True
      with accepted_entry [OF acc] show ?thesis by (simp add: taint_in_def)
    next
      case False
      with 2(2) show ?thesis by (intro probe_taint [OF acc k(1)]) simp
    qed
    with 2 body_index_int_word(1) [OF l 2(1)] goto_target [OF l len pc, of j st] conf show ?thesis
      by (auto simp: config_ok_def pointers_ok_none)
  qed
qed

text \<open>The next word, with the taint the pass computed for it.\<close>

lemma falls_through:
  assumes acc: "accepted input frag join js S"
    and k: "Suc k < length (fr_body frag)" and conf: "confined env st0 st"
    and ptr: "pointers_ok env (ps_taint (S (Suc k))) st"
  shows "config_ok env frag join js S st0 (goto env frag (word_pc env k + 4) st)"
proof -
  have "pointers_ok env (taint_in join js S (Suc k)) st"
    using ptr accepted_entry [OF acc] by (simp add: taint_in_def pointers_ok_none)
  with acc k conf show ?thesis
    by (auto simp: goto_next [of "vi_code input"] accepted_def config_ok_def)
qed

subsection \<open>Every step keeps the invariant\<close>

lemma step_plain:
  assumes env: "env_ok env st0" and acc: "accepted input frag join js S"
    and k: "k < length (fr_body frag)" and pos: "fr_position frag k = None"
    and conf: "confined env st0 st" and ptr: "pointers_ok env (taint_in join js S k) st"
    and run: "execute_insn cx st (word_pc env k) (fr_body frag ! k) = Some (cx', st', Inr pc')"
  shows "confined env st0 st' \<and> \<not> is_br (fr_body frag ! k)
    \<and> config_ok env frag join js S st0 (goto env frag pc' st')"
proof -
  let ?i = "fr_body frag ! k" and ?t = "taint_in join js S k"
  from acc have l: "loaded (vi_code input) frag" and pa: "passed input frag join js S"
    and lastw: "is_unconditional (fr_body frag ! (length (fr_body frag) - 1))"
    by (auto simp: accepted_def)
  from l k have wf: "insn_wf ?i" by (auto simp: loaded_def dest: decode_defined_wf)
  note ok = passed_plain(1) [OF pa k pos]
  from ok have "check_registers k ?i ?t = Inr ()" by (simp add: plain_ok_def)
  then obtain w where w: "writes ?i = Some w" "\<not> w_sp w" "\<not> bit (w_gprs w) KERNEL_FP_REG"
    by (rule check_registers_writes)
  have mem: "may_change env st0 x" if "memory st' x \<noteq> memory st x" for x
    using env conf ptr wf ok run that by (rule plain_memory)
  have conf': "confined env st0 st'"
    using env conf execute_insn_may_write [OF run w(1)] w(2,3) execute_insn_pages [OF run] mem
    by (rule confined_step)
  from ok have form: "classify ?i \<noteq> FCall" "classify ?i \<noteq> FIndirectBranch"
    by (auto simp: plain_ok_def)
  obtain t' where ts: "taint_step ?i (classify ?i) ?t = Some t'"
    and nt: "ps_taint (S (Suc k)) = (if is_unconditional ?i then js else t')"
    using passed_plain(2) [OF pa k pos] by blast
  have ptr': "pointers_ok env t' st'"
    using env conf ptr wf w(1) run ts by (rule plain_pointers)
  have "\<not> is_br ?i"
    using form by (auto simp: is_br_def split: a64_insn.splits a64_branch.splits)
  moreover from insn_next [OF wf run form]
  have "config_ok env frag join js S st0 (goto env frag pc' st')"
  proof (elim disjE exE conjE)
    fix delta c
    assume "classify ?i = FBranch delta c" "pc' = word_pc env k + word_of_int delta"
    with branch_taken [OF acc k _ conf'] show ?thesis by blast
  next
    assume nu: "\<not> is_unconditional ?i" and pc: "pc' = word_pc env k + 4"
    with lastw have "k \<noteq> length (fr_body frag) - 1" by auto
    with k have "Suc k < length (fr_body frag)" by linarith
    with acc conf' ptr' nt nu show ?thesis
      unfolding pc by (intro falls_through) auto
  qed
  ultimately show ?thesis using conf' by blast
qed

lemma step_template:
  assumes env: "env_ok env st0" and acc: "accepted input frag join js S"
    and k: "k < length (fr_body frag)" and pos: "fr_position frag k = Some p"
    and conf: "confined env st0 st" and ptr: "pointers_ok env (taint_in join js S k) st"
    and run: "execute_insn cx st (word_pc env k) (fr_body frag ! k) = Some (cx', st', Inr pc')"
  shows "confined env st0 st'
    \<and> (\<not> is_br (fr_body frag ! k) \<longrightarrow> config_ok env frag join js S st0 (goto env frag pc' st'))"
proof -
  let ?i = "fr_body frag ! k" and ?t = "taint_in join js S k"
  from acc have l: "loaded (vi_code input) frag" and tf: "templates_fit (vi_code input) frag"
    and pa: "passed input frag join js S"
    by (auto simp: accepted_def)
  note tp = template_position [OF l tf pos]
  from l k have wf: "insn_wf ?i" by (auto simp: loaded_def dest: decode_defined_wf)
  note st = passed_template [OF pa k pos]
  note js0 = accepted_entry [OF acc]
  have next_in: "Suc k < length (fr_body frag)" if "p \<noteq> 19"
    using tp(4) [of "Suc p"] tp(1,2) that by simp
  from template_word [OF l tf pos]
  consider (miss) op imm r where "p \<in> {3, 6, 14, 17}" "?i = Brn (op X64 imm r)" "op = Cbz \<or> op = Cbnz"
    | (word) "p \<notin> {3, 6, 14, 17}" "?i = template_insns ! p"
    by blast
  then show ?thesis
  proof cases
    case (miss op imm r)
    note p = miss(1) and i = miss(2) and op = miss(3)
    from op run have st': "st' = st" by (auto simp: i)
    have cl: "classify ?i = FBranch (ivalue imm) True" using op by (auto simp: i)
    have ptr': "pointers_ok env (ps_taint (S (Suc k))) st"
      unfolding pointers_ok_def is_pt_regs_bit
    proof (intro allI impI, elim conjE)
      fix n assume "n < 31" "bit (t_pt_regs (ps_taint (S (Suc k)))) n"
      with step_template_pointers(1) [OF st _ js0] ptr show "gprs st n = re_pt_regs env"
        by (auto simp: pointers_ok_def is_pt_regs_bit)
    qed
    have "classify ?i \<noteq> FCall" "classify ?i \<noteq> FIndirectBranch" by (simp_all add: cl)
    from insn_next [OF wf run this]
    have "config_ok env frag join js S st0 (goto env frag pc' st')"
    proof (elim disjE exE conjE)
      fix delta c
      assume "classify ?i = FBranch delta c" "pc' = word_pc env k + word_of_int delta"
      with branch_taken [OF acc k _ conf] show ?thesis by (auto simp: st')
    next
      assume pc: "pc' = word_pc env k + 4"
      have "p \<noteq> 19" using p by auto
      with acc conf ptr' next_in show ?thesis
        unfolding pc st' by (intro falls_through)
    qed
    then show ?thesis using conf by (simp add: st')
  next
    case word
    note p = word(1) and i = word(2)
    note ts = template_steps [OF tp(1) p]
    show ?thesis
    proof (cases "is_br ?i")
      case True
      then have "st' = st" using run by (auto simp: is_br_def split: a64_insn.splits a64_branch.splits)
      with True conf show ?thesis by simp
    next
      case False
      with ts obtain w where p': "p \<noteq> 8" "p \<noteq> 19"
        and cl: "classify ?i \<noteq> FCall" "classify ?i \<noteq> FIndirectBranch" "branch_delta ?i = None"
        and w: "writes ?i = Some w" "writes (KJIT_DISPATCH_TEMPLATE ! p) = Some w"
          "\<not> w_sp w" "\<not> bit (w_gprs w) KERNEL_FP_REG"
        by (auto simp: template_step_ok_def Let_def i split: if_splits option.splits)
      note mw = execute_insn_may_write [OF run w(1)]
      have "memory st' = memory st"
        using tp(1) p False run unfolding i by (rule template_memory)
      then have conf': "confined env st0 st'"
        by (intro confined_step [OF env conf mw w(3,4) execute_insn_pages [OF run]]) simp
      have ptr': "pointers_ok env (ps_taint (S (Suc k))) st'"
        unfolding pointers_ok_def is_pt_regs_bit
      proof (intro allI impI, elim conjE)
        fix n assume n: "n < 31" "bit (t_pt_regs (ps_taint (S (Suc k)))) n"
        have "\<not> is_br (KJIT_DISPATCH_TEMPLATE ! p)" using template_br [OF tp(1)] p' by simp
        with step_template_pointers(2) [OF st n(2) js0 p] w(2) have "\<not> bit (w_gprs w) n" by auto
        moreover have "bit (t_pt_regs ?t) n"
          using st n(2) js0 by (rule step_template_pointers(1))
        ultimately show "gprs st' n = re_pt_regs env"
          using n(1) ptr mw by (auto simp: pointers_ok_def is_pt_regs_bit may_write_def)
      qed
      have "pc' = word_pc env k + 4"
        using insn_next [OF wf run cl(1,2)] cl(3) by (auto simp: branch_delta_def)
      with acc conf' ptr' next_in [OF p'(2)] have "config_ok env frag join js S st0 (goto env frag pc' st')"
        by (simp add: falls_through)
      with conf' show ?thesis by simp
    qed
  qed
qed

lemma step_running:
  assumes env: "env_ok env st0" and acc: "accepted input frag join js S"
    and ok: "config_ok env frag join js S st0 (Running k st)"
    and run: "execute_insn cx st (word_pc env k) (fr_body frag ! k) = Some (cx', st', Inr pc')"
  shows "confined env st0 st'
    \<and> (\<not> is_br (fr_body frag ! k) \<longrightarrow> config_ok env frag join js S st0 (goto env frag pc' st'))"
proof -
  from ok have k: "k < length (fr_body frag)" and conf: "confined env st0 st"
    and ptr: "pointers_ok env (taint_in join js S k) st"
    by (auto simp: config_ok_def)
  show ?thesis
  proof (cases "fr_position frag k")
    case None
    show ?thesis using step_plain [OF env acc k None conf ptr run] by blast
  next
    case (Some p)
    show ?thesis using step_template [OF env acc k Some conf ptr run] .
  qed
qed

text \<open>The SIMD forms, by their declared effect.\<close>

lemma simd_not_pointer: "taint_step (Simd f) (classify (Simd f)) t = Some t' \<Longrightarrow> writes (Simd f) = Some w
  \<Longrightarrow> bit (t_pt_regs t') n \<Longrightarrow> bit (t_pt_regs t) n \<and> \<not> bit (w_gprs w) n"
proof -
  assume ts: "taint_step (Simd f) (classify (Simd f)) t = Some t'" and w: "writes (Simd f) = Some w"
    and b: "bit (t_pt_regs t') n"
  have "written_value (Simd f) (classify (Simd f)) rd t \<noteq> VPtRegs" for rd
    by (cases f) (auto simp: written_value_def split: multi_index.splits)
  with taint_step_pointer [OF ts w b] show ?thesis by blast
qed

lemma step_simd:
  assumes env: "env_ok env st0" and acc: "accepted input frag join js S"
    and ok: "config_ok env frag join js S st0 (Running k st)"
    and i: "fr_body frag ! k = Simd f" and eff: "simd_effect (Simd f) st st'"
  shows "config_ok env frag join js S st0 (goto env frag (word_pc env k + 4) st')"
proof -
  from ok have k: "k < length (fr_body frag)" and conf: "confined env st0 st"
    and ptr: "pointers_ok env (taint_in join js S k) st"
    by (auto simp: config_ok_def)
  from acc have l: "loaded (vi_code input) frag" and tf: "templates_fit (vi_code input) frag"
    and pa: "passed input frag join js S"
    and lastw: "is_unconditional (fr_body frag ! (length (fr_body frag) - 1))"
    by (auto simp: accepted_def)
  have pos: "fr_position frag k = None"
  proof (rule ccontr)
    assume "fr_position frag k \<noteq> None"
    then obtain p where p: "fr_position frag k = Some p" by blast
    note tp = template_position [OF l tf p]
    from template_word [OF l tf p] i have "p \<notin> {3, 6, 14, 17}" and ti: "template_insns ! p = Simd f"
      by auto
    from template_steps [OF tp(1) this(1)] show False
      by (simp add: template_step_ok_def Let_def ti)
  qed
  have nu: "\<not> is_unconditional (Simd f)"
    by (cases f) (auto simp: is_unconditional_def split: multi_index.splits)
  with lastw i have "k \<noteq> length (fr_body frag) - 1" by auto
  with k have kn: "Suc k < length (fr_body frag)" by linarith
  note pok = passed_plain(1) [OF pa k pos, unfolded i]
  then have "check_registers k (Simd f) (taint_in join js S k) = Inr ()" by (simp add: plain_ok_def)
  then obtain w where w: "writes (Simd f) = Some w" "\<not> w_sp w" "\<not> bit (w_gprs w) KERNEL_FP_REG"
    by (rule check_registers_writes)
  from eff w(1) have mw: "may_write w st st'" and pg: "user_pages st' = user_pages st"
    and mem: "\<And>x. memory st' x \<noteq> memory st x \<Longrightarrow> user_pages st (page_base x) = Some ReadWrite"
    by (auto simp: simd_effect_def)
  have mc: "may_change env st0 x" if "memory st' x \<noteq> memory st x" for x
    using mem [OF that] conf by (simp add: may_change_def confined_def)
  have conf': "confined env st0 st'"
    by (rule confined_step [OF env conf mw w(2,3) pg mc])
  obtain t' where ts: "taint_step (Simd f) (classify (Simd f)) (taint_in join js S k) = Some t'"
    and nt: "ps_taint (S (Suc k)) = t'"
    using passed_plain(2) [OF pa k pos] nu by (auto simp: i)
  have "pointers_ok env t' st'"
    unfolding pointers_ok_def is_pt_regs_bit
  proof (intro allI impI, elim conjE)
    fix n assume n: "n < 31" "bit (t_pt_regs t') n"
    from simd_not_pointer [OF ts w(1) n(2)] n(1) ptr mw show "gprs st' n = re_pt_regs env"
      by (auto simp: pointers_ok_def is_pt_regs_bit may_write_def)
  qed
  with acc kn conf' nt show ?thesis by (intro falls_through) auto
qed

lemma step_ok:
  assumes env: "env_ok env st0" and acc: "accepted input frag join js S"
    and ok: "config_ok env frag join js S st0 c" and step: "frag_step env input frag c c'"
  shows "config_ok env frag join js S st0 c'"
  using step
proof cases
  case (fs_exec k cx st cx' st' pc')
  with step_running [OF env acc] ok show ?thesis by blast
next
  case (fs_dispatch k cx st cx' st' pc')
  with step_running [OF env acc] ok show ?thesis by (auto simp: config_ok_def)
next
  case (fs_fault k cx st cx' st' flt j)
  with ok fixup_join [OF acc] accepted_entry [OF acc] show ?thesis
    by (auto simp: config_ok_def taint_in_def pointers_ok_none dest: execute_insn_err)
next
  case (fs_unfixed k cx st cx' st' flt)
  with ok show ?thesis by (auto simp: config_ok_def dest: execute_insn_err)
next
  case (fs_error k cx st cx' st' e)
  with ok show ?thesis by (auto simp: config_ok_def dest: execute_insn_err)
next
  case (fs_simd k f st st')
  with step_simd [OF env acc] ok show ?thesis by blast
next
  case (fs_simd_fault k f j st)
  with ok fixup_join [OF acc] accepted_entry [OF acc] show ?thesis
    by (auto simp: config_ok_def taint_in_def pointers_ok_none)
qed

lemma reaches_ok:
  assumes "env_ok env st0" "accepted input frag join js S"
    and "config_ok env frag join js S st0 c" "reaches env input frag c c'"
  shows "config_ok env frag join js S st0 c'"
  using assms(4,3) unfolding reaches_def
  by (induction rule: rtranclp_induct) (use step_ok [OF assms(1,2)] in blast)+

subsection \<open>The theorem\<close>

text \<open>
  The configurations that respect the contract. A fragment that fails (a fault without fixup, a
  condition the interpreter rejects) has still changed nothing it must not.
\<close>

definition safe :: "run_env \<Rightarrow> machine \<Rightarrow> config \<Rightarrow> bool" where
  "safe env st0 c =
    (case c of
       Running _ st \<Rightarrow> confined env st0 st
     | AtEpilogue st \<Rightarrow> confined env st0 st
     | Dispatched _ st \<Rightarrow> confined env st0 st
     | Escaped _ _ \<Rightarrow> False
     | Failed _ st \<Rightarrow> confined env st0 st)"

lemma verified_accepted:
  assumes "verify_fragment input = Inr b" "load_fragment (vi_code input) = Inr frag"
    and "length (vi_code input) < 2 ^ 63"
  obtains join js S where "accepted input frag join js S"
  using assms(1)
proof (rule verify_fragment_facts)
  fix frag' join js S
  assume "load_fragment (vi_code input) = Inr frag'" "scanned input frag' join"
    "passed input frag' join js S" "is_unconditional (fr_body frag' ! (length (fr_body frag') - 1))"
  with assms(2,3) load_fragment_loaded load_fragment_templates(1) have "accepted input frag join js S"
    by (auto simp: accepted_def)
  then show thesis by (rule that)
qed

lemma entry_config:
  assumes "accepted input frag join js S" "e \<in> set (vi_entry_offsets input)"
    and "body_index frag e = Some k"
  shows "config_ok env frag join js S st0 (Running k st0)"
proof -
  from assms have "k \<in> join"
    by (auto simp: accepted_def scanned_def entry_ok_def)
  with assms accepted_entry [OF assms(1)] show ?thesis
    by (auto simp: config_ok_def confined_refl taint_in_def pointers_ok_none accepted_def
        dest: body_index_word(1))
qed

lemma verified_run_safe:
  assumes "verify_fragment input = Inr b" "load_fragment (vi_code input) = Inr frag"
    and "length (vi_code input) < 2 ^ 63"
    and "e \<in> set (vi_entry_offsets input)" "body_index frag e = Some k"
    and "env_ok env st0" "reaches env input frag (Running k st0) c"
  shows "safe env st0 c"
proof -
  obtain join js S where acc: "accepted input frag join js S"
    using assms(1-3) by (rule verified_accepted)
  have "config_ok env frag join js S st0 c"
    using assms(6) acc entry_config [OF acc assms(4,5)] assms(7) by (rule reaches_ok)
  then show ?thesis by (cases c) (auto simp: config_ok_def safe_def)
qed

end
