(* ===== verification/DemoFragment.thy ===== *)
theory DemoFragment
  imports FragmentBuild SafeFragment
begin

section \<open>A fragment that passes\<close>

text \<open>
  A concrete fragment, used by the witnesses: it loads the \<open>pt_regs\<close> pointer from its frame slot,
  stores x0 to the user's x1, loads through the user pointer x1 and leaves through the epilogue; a
  fault of the load goes to a stub. It is verified here, and run on a machine where the load faults.
\<close>

definition demo_words :: "u32 list" where
  "demo_words = [0xF9405BEC, 0xF9000580, 0xF8400820, 0x17FFFFDA, 0xD2800029, 0x17FFFFD8]"

definition demo_insns :: "a64_insn list" where
  "demo_insns =
    [Mem (LdSt Ldr64 (reg_x 12) (MOffset reg_sp (ldst64_offset 176))),
     Mem (LdSt Str64 (reg_x 0) (MOffset (reg_x_sp 12) (ldst64_offset 8))),
     Mem (LdStUnpriv Ldr64 (reg_x 0) (MOffset (reg_x_sp 1) (imm_signed 0 9))),
     Brn (BUncond (imm_scaled_signed 0x3FFFFDA 26 2)),
     Dp (MoveWide Movz X64 0 (e_uimm 1 16) (reg_x 9)),
     Brn (BUncond (imm_scaled_signed 0x3FFFFD8 26 2))]"

abbreviation demo_frag :: fragment where "demo_frag \<equiv> plain_fragment demo_insns"

definition demo_input :: verify_input where
  "demo_input = \<lparr>vi_code = fragment_code demo_words,
    vi_fault_sites = [\<lparr>access_offset = 316, stub_offset = 324\<rparr>], vi_entry_offsets = [308], vi_link_sites = []\<rparr>"

lemma demo_decodes: "map decode_defined demo_words = map Some demo_insns"
proof -
  have "decode_a64_insn 0xF9405BEC = Some (demo_insns ! 0)"
    "decode_a64_insn 0xF9000580 = Some (demo_insns ! 1)"
    "decode_a64_insn 0xF8400820 = Some (demo_insns ! 2)"
    "decode_a64_insn 0x17FFFFDA = Some (demo_insns ! 3)"
    "decode_a64_insn 0xD2800029 = Some (demo_insns ! 4)"
    "decode_a64_insn 0x17FFFFD8 = Some (demo_insns ! 5)"
    by (simp_all only: decode_chunks)
      (simp_all add: decode_eval template_defs kdefs reg_defs imm_defs build_defs demo_insns_def del: first_row.simps(2))
  then show ?thesis
    by (simp add: demo_words_def decode_defined_def demo_insns_def)
qed

lemma demo_loads: "load_fragment (vi_code demo_input) = Inr demo_frag"
  unfolding demo_input_def verify_input.simps
  by (rule load_plain_fragment [OF demo_decodes]) (auto simp: demo_words_def demo_insns_def is_br_x12_def)

lemmas word_eval = check_word_def enter_join_def check_edge_def check_budget_register_def check_form_def
  check_registers_def check_runtime_access_def take_site_def taint_step_def taint_base_def taint_apply_def
  written_value_def frame_load_value_def is_user_state_slot_def is_kernel_def is_pt_regs_def
  reads_def add_read_def base_bit_def gpr_bit_def is_access_form_def is_back_edge_on_cycle_def
  is_back_edge_def branch_target_def branch_delta_def is_unconditional_def is_cbz64_def
  word_offset_simps is_scratch_def sign_extend_a64_def body_offset

lemmas scan_eval = scan_fragment_def scan_fault_site_def scan_back_edge_def scan_window_def scan_template_def
  scan_entry_def scan_branch_def check_template_joins_def check_window_joins_def is_window_form_def
  body_index_def body_index_int_def is_branch_target_def is_probe_edge_def add_stub_def check_exit_group_def
  starts_group_def wrapper_lengths ABI_INSN_SIZE_def

lemma demo_scan:
  "scan_fragment \<lparr>vi_code = c, vi_fault_sites = [\<lparr>access_offset = 316, stub_offset = 324\<rparr>],
    vi_entry_offsets = [308], vi_link_sites = []\<rparr> demo_frag = Inr {0, 4}"
  by (simp add: plain_fragment_def demo_insns_def upt_rec scan_eval word_eval template_eval Let_def)

definition demo_pass :: "u32 \<Rightarrow> fault_site list \<Rightarrow> pass" where
  "demo_pass p sites = \<lparr>ps_taint = \<lparr>t_kernel = 0x20001000, t_pt_regs = p\<rparr>, ps_sites = sites, ps_fpsimd = False\<rparr>"

lemma demo_check_0:
  "check_word demo_frag {0, 4} cm \<lparr>t_kernel = 0x20001000, t_pt_regs = 0\<rparr> 0
    (demo_pass 0 [\<lparr>access_offset = 316, stub_offset = 324\<rparr>]) = Inr (demo_pass 0x1000 [\<lparr>access_offset = 316, stub_offset = 324\<rparr>])"
  by (simp add: demo_pass_def plain_fragment_def demo_insns_def word_eval template_eval Let_def)

lemma demo_check_1:
  "check_word demo_frag {0, 4} cm \<lparr>t_kernel = 0x20001000, t_pt_regs = 0\<rparr> (Suc 0)
    (demo_pass 0x1000 [\<lparr>access_offset = 316, stub_offset = 324\<rparr>]) = Inr (demo_pass 0x1000 [\<lparr>access_offset = 316, stub_offset = 324\<rparr>])"
  by (simp add: demo_pass_def plain_fragment_def demo_insns_def word_eval template_eval Let_def)

lemma demo_check_2:
  "check_word demo_frag {0, 4} cm \<lparr>t_kernel = 0x20001000, t_pt_regs = 0\<rparr> (Suc (Suc 0))
    (demo_pass 0x1000 [\<lparr>access_offset = 316, stub_offset = 324\<rparr>]) = Inr (demo_pass 0x1000 [])"
  by (simp add: demo_pass_def plain_fragment_def demo_insns_def word_eval template_eval Let_def)

lemma demo_check_3:
  "check_word demo_frag {0, 4} cm \<lparr>t_kernel = 0x20001000, t_pt_regs = 0\<rparr> (Suc (Suc (Suc 0)))
    (demo_pass 0x1000 []) = Inr (demo_pass 0 [])"
  by (simp add: demo_pass_def plain_fragment_def demo_insns_def word_eval template_eval Let_def)

lemma demo_check_4:
  "check_word demo_frag {0, 4} cm \<lparr>t_kernel = 0x20001000, t_pt_regs = 0\<rparr> (Suc (Suc (Suc (Suc 0))))
    (demo_pass 0 []) = Inr (demo_pass 0 [])"
  by (simp add: demo_pass_def plain_fragment_def demo_insns_def word_eval template_eval Let_def)

lemma demo_check_5:
  "check_word demo_frag {0, 4} cm \<lparr>t_kernel = 0x20001000, t_pt_regs = 0\<rparr> (Suc (Suc (Suc (Suc (Suc 0)))))
    (demo_pass 0 []) = Inr (demo_pass 0 [])"
  by (simp add: demo_pass_def plain_fragment_def demo_insns_def word_eval template_eval Let_def)

lemmas demo_checks = demo_check_0 demo_check_1 demo_check_2 demo_check_3 demo_check_4 demo_check_5

lemma demo_main:
  "main_pass \<lparr>vi_code = c, vi_fault_sites = [\<lparr>access_offset = 316, stub_offset = 324\<rparr>],
    vi_entry_offsets = [308], vi_link_sites = []\<rparr> demo_frag {0, 4} = Inr (demo_pass 0 [])"
proof -
  have js: "taint_at_entry = Some \<lparr>t_kernel = 0x20001000, t_pt_regs = 0\<rparr>"
    by (simp add: taint_at_entry_value gpr_bit_def)
  have len: "length (fr_body demo_frag) = 6"
    by (simp add: plain_fragment_def demo_insns_def)
  show ?thesis
    unfolding main_pass_def len js
    by (simp add: upt_rec demo_checks flip: demo_pass_def)
qed

lemma demo_verifies: "verify_fragment demo_input = Inr False"
  unfolding verify_fragment_def demo_loads
  by (simp add: demo_input_def demo_scan demo_main)
    (simp add: plain_fragment_def demo_insns_def is_unconditional_def demo_pass_def)

subsection \<open>A run\<close>

definition demo_frame :: u64 where [kdefs]: "demo_frame = 0xFFFF800020000000"
definition demo_regs :: u64 where [kdefs]: "demo_regs = 0xFFFF800030000000"

definition demo_env :: run_env where
  "demo_env = \<lparr>re_base = 0xFFFF800010000000, re_frame = demo_frame, re_pt_regs = demo_regs,
    re_ranges = [(demo_frame, demo_frame + 208), (demo_regs, demo_regs + 256)]\<rparr>"

definition demo_start :: machine where
  "demo_start = write_le (demo_frame + 176) 8 demo_regs (blank_machine\<lparr>m_sp := demo_frame\<rparr>)"

definition demo_loaded :: machine where
  "demo_loaded = write_reg (reg_x 12) demo_regs demo_start"

definition demo_stored :: machine where
  "demo_stored = write_le (demo_regs + 8) 8 0 demo_loaded"

definition demo_end :: machine where
  "demo_end = write_reg (reg_x 9) 1 demo_stored"

lemma demo_slot: "read_le demo_start (demo_frame + 176) 8 = demo_regs"
  by (simp add: demo_start_def read_le_write_le take_bit_word_eq_self)

lemma demo_env_ok: "env_ok demo_env demo_start"
proof -
  have pages: "user_pages demo_start p = None" for p
    by (simp add: demo_start_def blank_machine_def)
  have sp: "m_sp demo_start = demo_frame" by (simp add: demo_start_def)
  show ?thesis
    using demo_slot
    by (simp add: env_ok_def demo_env_def sp kernel_addr_def kdefs pages list_all_iff word_le_nat_alt)
qed

abbreviation demo_ctx :: access_ctx where
  "demo_ctx \<equiv> \<lparr>cx_mode = Fragment (re_ranges demo_env) False, cx_counter = None, cx_log = None\<rparr>"

lemmas run_eval = execute_mem_def addressing_def mem_addressing_def is_sp_reg_def sp_based_def
  pair_overlap_def transfers_def mk_accesses_def mk_access_def access_in_ranges_def log_push_def
  commit_load_def commit_store_def apply_writeback_def load_value_def width_mask_def

lemma demo_exec_0:
  "execute_insn demo_ctx demo_start pc (demo_insns ! 0) = Some (demo_ctx, demo_loaded, Inr (pc + 4))"
proof -
  have "m_sp demo_start = demo_frame" by (simp add: demo_start_def)
  moreover have "kernel_addr (demo_frame + 176)" by (simp add: kernel_addr_def kdefs word_le_nat_alt)
  ultimately show ?thesis
    using demo_slot untagged_kernel [of "demo_frame + 176"]
    by (simp add: run_eval read_reg_def demo_insns_def template_defs reg_defs imm_defs demo_env_def kdefs
      demo_loaded_def word_le_nat_alt)
qed

lemma demo_exec_1:
  "execute_insn demo_ctx demo_loaded pc (demo_insns ! 1) = Some (demo_ctx, demo_stored, Inr (pc + 4))"
proof -
  have "read_reg demo_loaded (reg_x_sp 12) = demo_regs" "read_reg demo_loaded (reg_x 0) = 0"
    by (simp_all add: demo_loaded_def demo_start_def blank_machine_def read_reg_def write_reg_def reg_defs)
  moreover have "kernel_addr (demo_regs + 8)" by (simp add: kernel_addr_def kdefs word_le_nat_alt)
  ultimately show ?thesis
    using untagged_kernel [of "demo_regs + 8"]
    by (simp add: run_eval demo_insns_def imm_defs ldst64_offset_def demo_env_def kdefs
      demo_stored_def word_le_nat_alt)
qed

text \<open>No user page is mapped: the load through x1 = 0 faults.\<close>

lemma demo_exec_2:
  "execute_insn demo_ctx demo_stored pc (demo_insns ! 2) =
    Some (demo_ctx, demo_stored, Inl (permission_fault pc \<lparr>acc_addr = 0, acc_size = 8, acc_kind = AccRead\<rparr> Permission))"
proof -
  have "read_reg demo_stored (reg_x_sp 1) = 0" "user_pages demo_stored p = None" for p
    by (simp_all add: demo_stored_def demo_loaded_def demo_start_def blank_machine_def read_reg_def
        write_reg_def reg_defs)
  then show ?thesis
    by (simp add: run_eval demo_insns_def imm_defs sign_extend_a64_def untagged_def user_access_def count_access_def
        user_access_allowed_def page_allows_def demo_env_def)
qed

lemma demo_exec_4:
  "execute_insn demo_ctx demo_stored pc (demo_insns ! 4) = Some (demo_ctx, demo_end, Inr (pc + 4))"
  by (simp add: demo_insns_def then_next_def write_movz_def demo_end_def e_uimm_def imm_defs
      write_reg_sized_def reg_defs okay_def move_wide_shift_def)

lemma demo_exec_5:
  "execute_insn demo_ctx demo_end pc (demo_insns ! 5) = Some (demo_ctx, demo_end, Inr (pc - 160))"
  by (simp add: demo_insns_def pc_relative_target_def imm_defs sign_extend_a64_def)

lemma demo_len: "length (fr_body demo_frag) = 6" "length demo_insns = 6"
  by (simp_all add: plain_fragment_def demo_insns_def)

lemma demo_step:
  assumes "k = 0 \<or> k = 1 \<or> k = 4 \<or> k = 5"
    "execute_insn demo_ctx st (word_pc demo_env k) (demo_insns ! k) = Some (demo_ctx, st', Inr pc)"
  shows "frag_step demo_env demo_input demo_frag (Running k st) (goto demo_env demo_frag pc st')"
proof -
  have "\<not> is_br (demo_insns ! k)" using assms(1) by (auto simp: demo_insns_def is_br_def)
  with assms show ?thesis
    by (intro fs_exec) (auto simp: demo_len, auto simp: plain_fragment_def)
qed

lemma demo_code_len: "length (vi_code demo_input) < 2 ^ 63"
  by (simp add: demo_input_def length_fragment_code demo_words_def word_offset_simps)

lemma demo_entry: "(308 :: nat) \<in> set (vi_entry_offsets demo_input)"
  by (simp add: demo_input_def)

lemma demo_index: "body_index demo_frag 308 = Some 0" "body_index demo_frag 324 = Some 4"
  by (simp_all add: body_index_def plain_fragment_def demo_insns_def body_offset word_offset_simps
      ABI_INSN_SIZE_def)

lemma demo_run: "reaches demo_env demo_input demo_frag (Running 0 demo_start) (AtEpilogue demo_end)"
proof -
  have l: "loaded (vi_code demo_input) demo_frag"
    using demo_loads by (rule load_fragment_loaded)
  note goto = goto_next [OF l demo_code_len, unfolded demo_len]
  have "frag_step demo_env demo_input demo_frag (Running 0 demo_start) (Running 1 demo_loaded)"
    using demo_step [OF _ demo_exec_0] goto [of 0] by simp
  moreover have "frag_step demo_env demo_input demo_frag (Running 1 demo_loaded) (Running 2 demo_stored)"
    using demo_step [of 1, OF _ demo_exec_1] goto [of 1] by (simp add: numeral_2_eq_2)
  moreover have "fixup demo_input demo_frag 2 4"
    by (simp add: fixup_def demo_input_def demo_index word_offset_simps)
  then have "frag_step demo_env demo_input demo_frag (Running 2 demo_stored) (Running 4 demo_stored)"
    using demo_exec_2 [of "word_pc demo_env 2"]
    by (intro fs_fault [where cx = demo_ctx]) (auto simp: demo_len plain_fragment_def permission_fault_def)
  moreover have "frag_step demo_env demo_input demo_frag (Running 4 demo_stored) (Running 5 demo_end)"
    using demo_step [of 4, OF _ demo_exec_4] goto [of 4] by simp
  moreover have "frag_step demo_env demo_input demo_frag (Running 5 demo_end) (AtEpilogue demo_end)"
    using demo_step [of 5, OF _ demo_exec_5]
    by (simp add: goto_def word_pc_def word_offset_simps wrapper_lengths demo_env_def)
  ultimately show ?thesis
    unfolding reaches_def by (meson converse_rtranclp_into_rtranclp rtranclp.rtrancl_refl)
qed

end
