(* ===== verification/FragmentSafety.thy ===== *)
theory FragmentSafety
  imports DemoFragment
begin

section \<open>What verification guarantees\<close>

text \<open>
  The theorems of the verifier about a fragment that was accepted and runs: it is confined, and every
  memory fault of it is fixed up. Stated over \<open>verify_fragment\<close>, the interpreter and the step relation.
\<close>

subsection \<open>Confinement\<close>



subsection \<open>Faults\<close>

lemma exec_dp_no_fault: "exec_dp i pc st \<noteq> (st', Inl (IeFault f))"
  by (cases i; auto simp: dp_exec_defs Let_def split: option.splits sum.splits prod.splits if_splits
      movewide_op.splits dp2_op.splits)

lemma exec_branch_no_fault: "exec_branch b pc st \<noteq> (st', Inl (IeFault f))"
  by (cases b) (auto split: option.splits)

lemma exec_sys_no_fault: "exec_sys s st \<noteq> (st', Inl (IeFault f))"
  by (cases s) auto

lemma check_accesses_no_fault:
  assumes "check_accesses cx st pc accs False = (cx', Inl (IeFault f))" "cx_mode cx = Fragment rs p"
  shows False
  using assms
proof (induction accs arbitrary: cx)
  case (Cons acc accs)
  from Cons.prems have "check_accesses (log_push pc acc PrivRuntime cx) st pc accs False = (cx', Inl (IeFault f))"
    by (auto split: if_splits)
  then show ?case by (rule Cons.IH) (simp add: Cons.prems(2))
qed simp

lemma execute_mem_no_fault:
  assumes "execute_mem cx st pc False el rt rt2 ad = (cx', st', Inl (IeFault f))"
    and "cx_mode cx = Fragment rs p"
  shows "case ad of AOrdered _ \<Rightarrow> True | _ \<Rightarrow> False"
proof (rule ccontr)
  assume no: "\<not> ?thesis"
  from assms obtain a wb where "addressing st el ad = Inr (a, wb)"
    by (auto simp: execute_mem_def split: sum.splits)
  with assms no obtain accs e where
    "check_accesses cx st pc accs False = (cx', Inl e)" "e = IeFault f"
    by (auto simp: execute_mem_def Let_def split: prod.splits sum.splits if_splits)
  with check_accesses_no_fault assms(2) show False by blast
qed

lemma faulting_form:
  assumes "execute_insn cx st pc i = Some (cx', st', Inl (IeFault f))" "cx_mode cx = Fragment rs p"
  shows "is_access_form (classify i) \<or> (\<exists>op rn rt. i = Mem (LdStOrd op rn rt))"
proof (cases i)
  case (Dp d)
  with assms show ?thesis by (auto simp: then_next_err exec_dp_no_fault)
next
  case (Brn b)
  with assms show ?thesis by (auto simp: exec_branch_no_fault)
next
  case (Sys s)
  with assms show ?thesis by (auto simp: then_next_err exec_sys_no_fault)
next
  case (Mem m)
  with assms show ?thesis
    by (cases m) (auto simp: is_access_form_def literal_addr_def dest!: execute_mem_no_fault)
next
  case (Simd s)
  with assms show ?thesis by simp
qed

lemma accepted_fault_fixed:
  assumes acc: "accepted input frag join js S" and k: "k < length (fr_body frag)"
    and run: "execute_insn cx st pc (fr_body frag ! k) = Some (cx', st', Inl (IeFault f))"
    and cx: "cx_mode cx = Fragment rs p"
  shows "\<exists>j. fixup input frag k j"
proof -
  from acc have l: "loaded (vi_code input) frag" and tf: "templates_fit (vi_code input) frag"
    and sc: "scanned input frag join" and pa: "passed input frag join js S"
    by (auto simp: accepted_def)
  note form = faulting_form [OF run cx]
  have pos: "fr_position frag k = None"
  proof (rule ccontr)
    assume "fr_position frag k \<noteq> None"
    then obtain q where q: "fr_position frag k = Some q" by blast
    note tp = template_position [OF l tf q]
    from template_word [OF l tf q] show False
    proof (elim disjE conjE exE)
      assume "q \<notin> {3, 6, 14, 17}" and i: "fr_body frag ! k = template_insns ! q"
      from template_steps [OF tp(1) this(1)] form show False
        by (auto simp: template_step_ok_def Let_def i is_br_def split: if_splits)
    qed (use form in \<open>auto simp: is_access_form_def\<close>)
  qed
  note ok = passed_plain(1) [OF pa k pos]
  with form have "is_access_form (classify (fr_body frag ! k))"
    by (auto simp: plain_ok_def)
  with ok obtain site where "site \<in> set (vi_fault_sites input)" "access_offset site = word_offset k"
    by (auto simp: plain_ok_def)
  moreover from sc this(1) obtain s where "body_index frag (stub_offset site) = Some s"
    by (auto simp: scanned_def site_ok_def)
  ultimately show ?thesis by (auto simp: fixup_def)
qed

lemma step_no_unfixed:
  assumes "env_ok env st0" "accepted input frag join js S"
    and "config_ok env frag join js S st0 c" "frag_step env input frag c c'"
  shows "c' \<noteq> Failed (IeFault f) st'"
  using assms(4)
proof cases
  case (fs_unfixed k cx st cx' st' flt)
  with accepted_fault_fixed [OF assms(2)] show ?thesis by blast
qed (auto simp: goto_def Let_def split: option.splits)



end
