(* ===== verification/AbiLink.thy ===== *)
theory AbiLink
  imports VerifyTemplate InterpMem
begin

section \<open>Direct links between fragments\<close>

text \<open>
  Models \<open>shared/abi/link.rs\<close>: the one word a link slot is patched to. A linked slot holds the
  \<open>b\<close> to the host address of the target's label, an unlinked one a \<open>nop\<close>.
\<close>

definition LINK_NOP_WORD :: u32 where "LINK_NOP_WORD = 0xd503201f"

definition LINK_BRANCH_REACH_BYTES :: int where "LINK_BRANCH_REACH_BYTES = 2 ^ 27"

definition link_branch_word :: "u64 \<Rightarrow> u64 \<Rightarrow> u32 option" where
  "link_branch_word slot_addr host =
    (if unat slot_addr mod 4 \<noteq> 0 \<or> unat host mod 4 \<noteq> 0 then None
     else
       let delta = sint (host - slot_addr) in
       if \<not> (- LINK_BRANCH_REACH_BYTES \<le> delta \<and> delta < LINK_BRANCH_REACH_BYTES) then None
       else encode (Brn (BUncond (imm_scaled_signed (word_of_int (delta div 4) AND 0x03ffffff) 26 2))))"

lemma link_raw:
  fixes d :: int
  assumes "- (2 ^ 25) \<le> d" "d < 2 ^ 25"
  shows "sign_extend_a64 (word_of_int d AND 0x03ffffff) 26 = d"
proof -
  have m: "(0x03ffffff :: u32) = mask 26" by (simp add: mask_eq_exp_minus_1)
  have "uint (word_of_int d AND mask 26 :: u32) = take_bit 26 d"
    by (simp add: uint_word_of_int_eq take_bit_eq_mask [symmetric] unsigned_take_bit_eq)
  then have "sign_extend_a64 (word_of_int d AND 0x03ffffff) 26 = signed_take_bit 25 d"
    by (simp add: sign_extend_a64_def m signed_take_bit_take_bit)
  also have "\<dots> = d"
    by (rule signed_take_bit_int_eq_self) (use assms in auto)
  finally show ?thesis .
qed

lemma link_word_low: "(word_of_int d AND 0x03ffffff :: u32) < 0x4000000"
  using word_and_le1 [of "word_of_int d" "0x03ffffff :: u32"] by (simp add: word_less_nat_alt word_le_nat_alt)

lemma link_encode:
  assumes "r < (0x4000000 :: u32)"
  shows "encode (Brn (BUncond (imm_scaled_signed r 26 2))) = Some (0x14000000 OR r)"
  using assms by (simp add: enc_defs imm_defs)

lemma link_decode:
  assumes "r < (0x4000000 :: u32)"
  shows "decode_a64_insn (0x14000000 OR r) = Some (Brn (BUncond (ssimm 0 26 2 (0x14000000 OR r))))"
    and "fld 0 26 (0x14000000 OR r) = r"
proof -
  have tb: "take_bit 26 r = r"
    using assms by (simp add: word_unat_eq_iff unsigned_take_bit_eq take_bit_nat_eq_self word_less_nat_alt)
  have r26: "bit r n \<Longrightarrow> n < 26" for n
    using tb by (metis bit_take_bit_iff)
  have "r AND push_bit 26 (mask 6) = 0"
    by (rule bit_eqI) (auto simp: bit_simps dest: r26)
  then have "r AND 0xfc000000 = 0" by (simp add: mask_eq_exp_minus_1)
  then have hit: "(0x14000000 OR r) AND 0xfc000000 = 0x14000000"
    by (simp add: bit.conj_disj_distrib2)
  show "decode_a64_insn (0x14000000 OR r) = Some (Brn (BUncond (ssimm 0 26 2 (0x14000000 OR r))))"
    by (simp only: decode_chunks)
      (simp add: decode_rows_defs first_row_skip_masked [OF hit] first_row_hit hit build_defs
        del: first_row.simps(2))
  show "fld 0 26 (0x14000000 OR r) = r"
    by (simp add: fld_def tb take_bit_or)
qed

lemma link_word_branches:
  assumes "link_branch_word slot_addr host = Some w"
  shows "\<exists>imm. decode_defined w = Some (Brn (BUncond imm)) \<and> exec_branch (BUncond imm) slot_addr st = (st, Inr host)"
proof -
  let ?d = "sint (host - slot_addr)"
  let ?r = "word_of_int (?d div 4) AND 0x03ffffff :: u32"
  from assms have al: "unat slot_addr mod 4 = 0" "unat host mod 4 = 0"
    and rng: "- (2 ^ 27) \<le> ?d" "?d < 2 ^ 27"
    and w: "w = 0x14000000 OR ?r"
    by (auto simp: link_branch_word_def LINK_BRANCH_REACH_BYTES_def Let_def link_encode [OF link_word_low]
        split: if_splits)
  have "?d mod 4 = 0"
  proof -
    have "take_bit 2 ?d = take_bit 2 (uint (host - slot_addr))"
      by (simp add: sint_uint take_bit_signed_take_bit)
    also have "uint (host - slot_addr) = (uint host - uint slot_addr) mod 2 ^ 64"
      by (simp add: uint_word_ariths)
    also have "take_bit 2 \<dots> = (uint host - uint slot_addr) mod 4"
      by (simp add: take_bit_eq_mod mod_mod_cancel)
    also have "\<dots> = 0"
    proof -
      have "uint host mod 4 = 0" "uint slot_addr mod 4 = 0"
        using arg_cong [OF al(1), of int] arg_cong [OF al(2), of int] by (simp_all add: zmod_int)
      then show ?thesis by presburger
    qed
    finally show ?thesis by (simp add: take_bit_eq_mod)
  qed
  then have d4: "?d div 4 * 4 = ?d" by presburger
  have se: "sign_extend_a64 ?r 26 = ?d div 4"
    by (rule link_raw) (use rng in auto)
  have "word_of_int (?d div 4) * 4 = (word_of_int (?d div 4 * 4) :: u64)"
    by (simp flip: wi_hom_mult)
  also have "\<dots> = host - slot_addr" using d4 by simp
  finally have "slot_addr + word_of_int (?d div 4) * 4 = host" by simp
  then show ?thesis
    using link_decode [OF link_word_low, of "?d div 4"] se
    by (auto simp: w decode_defined_def ssimm_def pc_relative_target_def imm_defs)
qed


lemma link_word_None:
  "link_branch_word slot_addr host = None \<longleftrightarrow>
    unat slot_addr mod 4 \<noteq> 0 \<or> unat host mod 4 \<noteq> 0
    \<or> sint (host - slot_addr) < - (2 ^ 27) \<or> 2 ^ 27 \<le> sint (host - slot_addr)"
  by (auto simp: link_branch_word_def LINK_BRANCH_REACH_BYTES_def Let_def link_encode [OF link_word_low])

text \<open>The unlinked word is the encoder's \<open>nop\<close>, and no branch is it.\<close>

lemma nop_word: "encode (Sys Nop) = Some LINK_NOP_WORD" "decode_defined LINK_NOP_WORD = Some (Sys Nop)"
proof -
  show "encode (Sys Nop) = Some LINK_NOP_WORD"
    by (simp add: enc_defs LINK_NOP_WORD_def)
  have "decode_a64_insn 0xd503201f = Some (Sys Nop)"
    by (simp only: decode_chunks) (simp add: decode_eval del: first_row.simps(2))
  then show "decode_defined LINK_NOP_WORD = Some (Sys Nop)"
    by (simp add: decode_defined_def LINK_NOP_WORD_def)
qed

lemma link_word_not_nop: "link_branch_word slot_addr host \<noteq> Some LINK_NOP_WORD"
  using link_word_branches [of slot_addr host LINK_NOP_WORD] by (auto simp: nop_word)

text \<open>
  C22: A patched link slot branches where it should: whenever \<open>link_branch_word\<close> gives a word, that word
  decodes to an unconditional \<open>b\<close>, and executing it at the slot's address continues at exactly the host
  address of the target's label, with no other effect.
\<close>

theorem link_branch_reaches:
  assumes "link_branch_word slot_addr host = Some w"
  shows "\<exists>imm. decode_defined w = Some (Brn (BUncond imm))
    \<and> exec_branch (BUncond imm) slot_addr st = (st, Inr host)"
  using assms by (rule link_word_branches)

theorem link_branch_reaches_witness:
  "\<exists>imm. decode_defined 0x17FFFFFF = Some (Brn (BUncond imm))
    \<and> exec_branch (BUncond imm) 0xFFFF800010000004 blank_machine = (blank_machine, Inr 0xFFFF800010000000)"
  by (rule link_branch_reaches)
    (simp add: link_branch_word_def LINK_BRANCH_REACH_BYTES_def enc_defs imm_defs signed_numeral)

text \<open>
  C23: A site stays unlinked only for the reasons the code gives: \<open>link_branch_word\<close> gives a word for
  exactly the aligned addresses at a distance in the reach of \<open>b\<close>, -128 MiB up to and without +128 MiB.
\<close>

theorem link_branch_refuses:
  "(\<exists>w. link_branch_word slot_addr host = Some w) \<longleftrightarrow>
    unat slot_addr mod 4 = 0 \<and> unat host mod 4 = 0
    \<and> - (2 ^ 27) \<le> sint (host - slot_addr) \<and> sint (host - slot_addr) < 2 ^ 27"
  using link_word_None [of slot_addr host] by auto

end
