(* ===== verification/CodeCache.thy ===== *)
theory CodeCache
  imports Dispatch Verify FragmentBuild AbiLink
    "HOL-Library.AList" "HOL-Library.Monad_Syntax" "HOL-Library.Product_Lexorder"
begin

section \<open>The code cache: state and operations\<close>

text \<open>
  Models \<open>harness/src/code_cache.rs\<close>, the mirror of the kernel runtime's fragment store, with the
  fragment tables of \<open>harness/src/lib.rs\<close> (\<open>encode_fragment\<close>, \<open>verify_encoded_fragment\<close>) and the
  shape of \<open>shared/emit/layout.rs\<close>'s \<open>ExecutionFragment\<close>. An operation on the cache is a function of
  its state. \<open>None\<close> is a panic of the code (an index out of range, a failed \<open>expect\<close> or
  \<open>debug_assert\<close>); an \<open>Err\<close> is an \<open>Inl\<close>, returned with the state the code leaves behind. Vectors
  are lists, \<open>by_entry\<close> a map, \<open>pending\<close> an association list (its sizes are counted). The loader is
  a parameter with its own state \<open>'l\<close>, the compiler a parameter of \<open>translate\<close>. Address sums wrap.
\<close>

subsection \<open>Indexing and loops that may panic\<close>

definition nth_opt :: "'a list \<Rightarrow> nat \<Rightarrow> 'a option" where
  "nth_opt xs i = (if i < length xs then Some (xs ! i) else None)"

fun ofold :: "('a \<Rightarrow> 's \<Rightarrow> 's option) \<Rightarrow> 'a list \<Rightarrow> 's \<Rightarrow> 's option" where
  "ofold f [] s = Some s"
| "ofold f (x # xs) s = do { s \<leftarrow> f x s; ofold f xs s }"

lemma nth_opt_eq_Some [simp]: "nth_opt xs i = Some x \<longleftrightarrow> i < length xs \<and> xs ! i = x"
  by (auto simp: nth_opt_def)

lemma nth_opt_in [simp]: "i < length xs \<Longrightarrow> nth_opt xs i = Some (xs ! i)"
  by (simp add: nth_opt_def)

text \<open>Such a loop runs to its end and establishes its invariant, indexed by the elements left.\<close>

lemma ofold_rule:
  assumes "P xs s"
    and "\<And>x ys s. P (x # ys) s \<Longrightarrow> x \<in> set xs \<Longrightarrow> \<exists>t. f x s = Some t \<and> P ys t"
  shows "\<exists>t. ofold f xs s = Some t \<and> P [] t"
  using assms
proof (induction xs arbitrary: s)
  case Nil
  then show ?case by simp
next
  case (Cons x xs)
  obtain s' where s': "f x s = Some s'" "P xs s'"
    using Cons.prems(2) [OF Cons.prems(1)] by auto
  show ?case
    using Cons.IH [OF s'(2)] Cons.prems(2) s'(1) by auto
qed

subsection \<open>Fragments\<close>

definition IBTC_SLOT_BYTES :: u64 where "IBTC_SLOT_BYTES = 8"
definition IBTC_TABLE_BYTES :: u64 where "IBTC_TABLE_BYTES = of_nat IBTC_TABLE_WORDS * IBTC_SLOT_BYTES"
definition IBTC_RECORD_BYTES :: nat where "IBTC_RECORD_BYTES = 16"

record layout_fault_site =
  lf_access_offset :: nat
  lf_stub_offset :: nat
  lf_ori_pc :: u64

record exec_fragment =
  ef_insns :: "a64_insn list"
  ef_entry_offset :: nat
  ef_vlabels :: "(u64 \<times> nat) list"
  ef_entry_labels :: "(u64 \<times> nat) list"
  ef_fault_sites :: "layout_fault_site list"
  ef_link_sites :: "(nat \<times> u64) list"

definition len_bytes :: "exec_fragment \<Rightarrow> nat" where
  "len_bytes ef = length (ef_insns ef) * 4"

text \<open>\<open>None\<close>: an instruction without an encoding.\<close>

fun encode_insns :: "a64_insn list \<Rightarrow> u8 list option" where
  "encode_insns [] = Some []"
| "encode_insns (i # is) = do { word \<leftarrow> encode i; bytes \<leftarrow> encode_insns is; Some (le_bytes word @ bytes) }"

definition encode_fragment :: "exec_fragment \<Rightarrow> u8 list option" where
  "encode_fragment ef = encode_insns (ef_insns ef)"

definition fragment_input :: "exec_fragment \<Rightarrow> u8 list \<Rightarrow> verify_input" where
  "fragment_input ef code =
    \<lparr>vi_code = code,
     vi_fault_sites = map (\<lambda>site. \<lparr>access_offset = lf_access_offset site, stub_offset = lf_stub_offset site\<rparr>)
       (ef_fault_sites ef),
     vi_entry_offsets = map snd (ef_entry_labels ef),
     vi_link_sites = ef_link_sites ef\<rparr>"

definition verify_encoded_fragment :: "exec_fragment \<Rightarrow> u8 list \<Rightarrow> verify_error + bool" where
  "verify_encoded_fragment ef code = verify_fragment (fragment_input ef code)"

subsection \<open>The state\<close>

record cache_layout =
  cl_table_all :: u64
  cl_table_nofp :: u64
  cl_records :: u64
  cl_records_len :: nat

definition layout_ranges :: "cache_layout \<Rightarrow> (u64 \<times> u64) list" where
  "layout_ranges lay =
    [(cl_table_all lay, cl_table_all lay + IBTC_TABLE_BYTES),
     (cl_table_nofp lay, cl_table_nofp lay + IBTC_TABLE_BYTES),
     (cl_records lay, cl_records lay + of_nat (cl_records_len lay))]"

record label =
  lb_pc :: u64
  lb_offset :: nat
  lb_record :: u64

record link_site =
  ls_slot :: nat
  ls_target :: u64
  ls_linked :: "(nat \<times> nat) option"

record code_patch =
  cp_fragment :: nat
  cp_offset :: nat
  cp_word :: u32

datatype (plugins only: code size) miss_policy = MissTranslate | ReturnToUser

datatype (plugins only: code size) table_id = TableAll | TableNoFp

record occupant =
  oc_pc :: u64
  oc_fragment :: nat

datatype (plugins only: code size) cache_event =
    Installed nat u64
  | Published table_id nat u64 nat "occupant option"
  | Linked nat nat nat u64
  | Restored nat nat nat u64
  | Retired nat

record cached_fragment =
  cf_entry_pc :: u64
  cf_fragment :: exec_fragment
  cf_encoded :: "u8 list"
  cf_uses_fpsimd :: bool
  cf_fp_sticky :: bool
  cf_base :: u64
  cf_retired :: bool
  cf_labels :: "label list"
  cf_links :: "link_site list"
  cf_incoming :: "(nat \<times> nat) list"

text \<open>
  \<open>binary_search_by_key\<close> on labels sorted by pc: the label of the pc (the layout gives each pc at
  most one).
\<close>

fun label_index :: "u64 \<Rightarrow> label list \<Rightarrow> nat option" where
  "label_index pc [] = None"
| "label_index pc (l # ls) = (if lb_pc l = pc then Some 0 else map_option Suc (label_index pc ls))"

definition label_for_pc :: "cached_fragment \<Rightarrow> u64 \<Rightarrow> label option" where
  "label_for_pc frag pc = map_option (\<lambda>i. cf_labels frag ! i) (label_index pc (cf_labels frag))"

definition host :: "cached_fragment \<Rightarrow> label \<Rightarrow> u64" where
  "host frag l = cf_base frag + of_nat (lb_offset l)"

record cache_stats =
  cs_translations :: nat
  cs_ibtc_insert :: nat
  cs_ibtc_replace :: nat
  cs_ibtc_clear :: nat
  cs_ibtc_fpsimd_boundary :: nat
  cs_fp_sticky_set :: nat
  cs_link_made :: nat
  cs_link_restored :: nat
  cs_link_out_of_range :: nat
  cs_link_class_refused :: nat

definition zero_stats :: cache_stats where
  "zero_stats = \<lparr>cs_translations = 0, cs_ibtc_insert = 0, cs_ibtc_replace = 0, cs_ibtc_clear = 0,
    cs_ibtc_fpsimd_boundary = 0, cs_fp_sticky_set = 0, cs_link_made = 0, cs_link_restored = 0,
    cs_link_out_of_range = 0, cs_link_class_refused = 0\<rparr>"

text \<open>The halts of \<open>URuntimeHalt\<close> that the cache decides.\<close>

datatype (plugins only: code size) runtime_halt =
    ReturnedToUserspace ret_status u64
  | InvalidReturnStatus u64
  | UnsupportedRuntimeExit ret_status

datatype (plugins only: code size) cache_action = ContinueAt nat nat | Stop runtime_halt

datatype (plugins only: code size) compiler_error =
  CodeUnreadable | CompileFailed string

datatype (plugins only: code size) cache_error =
    LoaderFailed string | RecordAreaFull | EntryInstalled u64 | NoText | TranslateFailed u64 string
  | EncodeFailed | Rejected u64 verify_error | PublishRetired nat | NoLabelForPc nat u64
  | FreshWithoutLabel

record translation_request =
  tr_entry_pc :: u64
  tr_source_pc :: u64

record 'l code_cache =
  cc_layout :: cache_layout
  cc_text :: "(u64 \<times> u8 list) option"
  cc_loader :: 'l
  cc_fragments :: "cached_fragment list"
  cc_by_entry :: "u64 \<Rightarrow> nat option"
  cc_slots_all :: "u64 list"
  cc_slots_nofp :: "u64 list"
  cc_record_owner :: "(nat \<times> nat) list"
  cc_writes :: "(u64 \<times> u64) list"
  cc_linking :: bool
  cc_pending :: "(u64 \<times> (nat \<times> nat) list) list"
  cc_code_patches :: "code_patch list"
  cc_chain_budget :: "nat option"
  cc_run_entries :: nat
  cc_miss_policy :: miss_policy
  cc_entered :: nat
  cc_chain_capped :: bool
  cc_events :: "cache_event list option"
  cc_stats :: cache_stats

text \<open>What a loader hands out for a fragment: its base address, or an error.\<close>

type_synonym 'l loader = "cached_fragment \<Rightarrow> 'l \<Rightarrow> 'l \<times> (string + u64)"
type_synonym compiler = "translation_request \<Rightarrow> u64 \<times> u8 list \<Rightarrow> compiler_error + exec_fragment"

definition new_cache :: "cache_layout \<Rightarrow> (u64 \<times> u8 list) option \<Rightarrow> 'l \<Rightarrow> 'l code_cache" where
  "new_cache lay txt loader =
    \<lparr>cc_layout = lay, cc_text = txt, cc_loader = loader, cc_fragments = [], cc_by_entry = Map.empty,
     cc_slots_all = replicate IBTC_TABLE_WORDS 0, cc_slots_nofp = replicate IBTC_TABLE_WORDS 0,
     cc_record_owner = [], cc_writes = [], cc_linking = True, cc_pending = [], cc_code_patches = [],
     cc_chain_budget = None, cc_run_entries = 0, cc_miss_policy = MissTranslate, cc_entered = 0,
     cc_chain_capped = False, cc_events = None, cc_stats = zero_stats\<rparr>"

definition without_links :: "'l code_cache \<Rightarrow> 'l code_cache" where
  "without_links s = s\<lparr>cc_linking := False\<rparr>"

definition with_chain_budget :: "nat \<Rightarrow> 'l code_cache \<Rightarrow> 'l code_cache" where
  "with_chain_budget entries s = s\<lparr>cc_chain_budget := Some entries\<rparr>"

definition with_miss_policy :: "miss_policy \<Rightarrow> 'l code_cache \<Rightarrow> 'l code_cache" where
  "with_miss_policy policy s = s\<lparr>cc_miss_policy := policy\<rparr>"

definition with_event_log :: "'l code_cache \<Rightarrow> 'l code_cache" where
  "with_event_log s = s\<lparr>cc_events := Some []\<rparr>"

definition drain_events :: "'l code_cache \<Rightarrow> ('l code_cache \<times> cache_event list) option" where
  "drain_events s = map_option (\<lambda>events. (s\<lparr>cc_events := Some []\<rparr>, events)) (cc_events s)"

definition log_event :: "cache_event \<Rightarrow> 'l code_cache \<Rightarrow> 'l code_cache" where
  "log_event event s = s\<lparr>cc_events := map_option (\<lambda>events. events @ [event]) (cc_events s)\<rparr>"

definition begin_run :: "'l code_cache \<Rightarrow> 'l code_cache" where
  "begin_run s = s\<lparr>cc_run_entries := 1, cc_chain_capped := False\<rparr>"

definition note_entry :: "nat \<Rightarrow> 'l code_cache \<Rightarrow> 'l code_cache" where
  "note_entry fragment s = s\<lparr>cc_entered := fragment\<rparr>"

definition bracketed :: "nat \<Rightarrow> 'l code_cache \<Rightarrow> bool option" where
  "bracketed fragment s = do {
     frag \<leftarrow> nth_opt (cc_fragments s) fragment;
     Some (cf_uses_fpsimd frag \<or> cf_fp_sticky frag) }"

definition table_for :: "nat \<Rightarrow> 'l code_cache \<Rightarrow> u64 option" where
  "table_for fragment s = do {
     b \<leftarrow> bracketed fragment s;
     Some (if b then cl_table_all (cc_layout s) else cl_table_nofp (cc_layout s)) }"

definition in_fragment :: "u64 \<Rightarrow> cached_fragment \<Rightarrow> nat option" where
  "in_fragment pc frag =
    (if cf_base frag \<le> pc \<and> unat (pc - cf_base frag) < len_bytes (cf_fragment frag)
     then Some (unat (pc - cf_base frag)) else None)"

fun locate_from :: "nat \<Rightarrow> u64 \<Rightarrow> cached_fragment list \<Rightarrow> (nat \<times> nat) option" where
  "locate_from index pc [] = None"
| "locate_from index pc (frag # frags) =
    (case in_fragment pc frag of Some offset \<Rightarrow> Some (index, offset)
     | None \<Rightarrow> locate_from (Suc index) pc frags)"

definition locate :: "u64 \<Rightarrow> 'l code_cache \<Rightarrow> (nat \<times> nat) option" where
  "locate pc s = locate_from 0 pc (cc_fragments s)"

definition fragment_for_entry :: "u64 \<Rightarrow> 'l code_cache \<Rightarrow> nat option" where
  "fragment_for_entry entry_pc s = cc_by_entry s entry_pc"

definition upd_frag :: "nat \<Rightarrow> (cached_fragment \<Rightarrow> cached_fragment) \<Rightarrow> 'l code_cache \<Rightarrow> 'l code_cache" where
  "upd_frag i g s = s\<lparr>cc_fragments := (cc_fragments s)[i := g (cc_fragments s ! i)]\<rparr>"

definition upd_stats :: "(cache_stats \<Rightarrow> cache_stats) \<Rightarrow> 'l code_cache \<Rightarrow> 'l code_cache" where
  "upd_stats g s = s\<lparr>cc_stats := g (cc_stats s)\<rparr>"

end
