(* ===== verification/CacheOps.thy ===== *)
theory CacheOps
  imports CodeCache
begin

section \<open>The operations of the code cache\<close>

text \<open>
  The rest of \<open>harness/src/code_cache.rs\<close>: installing and linking, publishing into the dispatch
  tables, retiring, the checks the tests run, lookups, and the runtime's decision after a fragment
  returned.
\<close>

subsection \<open>Links\<close>

definition waiting :: "'l code_cache \<Rightarrow> u64 \<Rightarrow> (nat \<times> nat) list" where
  "waiting s pc = (case map_of (cc_pending s) pc of None \<Rightarrow> [] | Some w \<Rightarrow> w)"

text \<open>\<open>pending.entry(pc).or_default().push(site)\<close>.\<close>

definition push_pending :: "u64 \<Rightarrow> nat \<times> nat \<Rightarrow> 'l code_cache \<Rightarrow> 'l code_cache" where
  "push_pending pc site s = s\<lparr>cc_pending := AList.update pc (waiting s pc @ [site]) (cc_pending s)\<rparr>"

text \<open>\<open>retain\<close> all but the site, and drop an entry left empty.\<close>

definition drop_pending :: "u64 \<Rightarrow> nat \<times> nat \<Rightarrow> 'l code_cache \<Rightarrow> 'l code_cache" where
  "drop_pending pc site s =
    (case map_of (cc_pending s) pc of
       None \<Rightarrow> s
     | Some w \<Rightarrow>
         let rest = filter (\<lambda>entry. entry \<noteq> site) w in
         s\<lparr>cc_pending := (if rest = [] then AList.delete pc (cc_pending s)
                          else AList.update pc rest (cc_pending s))\<rparr>)"

definition patch_bytes :: "nat \<Rightarrow> u32 \<Rightarrow> u8 list \<Rightarrow> u8 list" where
  "patch_bytes offset word bytes =
    (if offset + 4 \<le> length bytes then take offset bytes @ le_bytes word @ drop (offset + 4) bytes
     else bytes)"

definition patch_code :: "nat \<Rightarrow> nat \<Rightarrow> u32 \<Rightarrow> 'l code_cache \<Rightarrow> 'l code_cache option" where
  "patch_code fragment offset word s = do {
     frag \<leftarrow> nth_opt (cc_fragments s) fragment;
     insn \<leftarrow> decode_a64_insn word;
     _ \<leftarrow> nth_opt (ef_insns (cf_fragment frag)) (offset div 4);
     let s = upd_frag fragment
       (\<lambda>frag. frag\<lparr>cf_fragment := (cf_fragment frag)\<lparr>ef_insns := (ef_insns (cf_fragment frag))[offset div 4 := insn]\<rparr>,
                 cf_encoded := patch_bytes offset word (cf_encoded frag)\<rparr>) s;
     Some (s\<lparr>cc_code_patches := cc_code_patches s @ [\<lparr>cp_fragment = fragment, cp_offset = offset, cp_word = word\<rparr>]\<rparr>) }"

definition drain_code_patches :: "'l code_cache \<Rightarrow> 'l code_cache \<times> code_patch list" where
  "drain_code_patches s = (s\<lparr>cc_code_patches := []\<rparr>, cc_code_patches s)"

definition set_linked :: "nat \<Rightarrow> (nat \<times> nat) option \<Rightarrow> cached_fragment \<Rightarrow> cached_fragment" where
  "set_linked link to frag =
    frag\<lparr>cf_links := (cf_links frag)[link := (cf_links frag ! link)\<lparr>ls_linked := to\<rparr>]\<rparr>"

text \<open>Every label of a live fragment for \<open>pc\<close>: the fragment translated for \<open>pc\<close> first.\<close>

definition label_in :: "u64 \<Rightarrow> 'l code_cache \<Rightarrow> nat \<Rightarrow> (nat \<times> nat) option" where
  "label_in pc s fragment =
    (let frag = cc_fragments s ! fragment in
     if cf_retired frag then None
     else map_option (\<lambda>label. (fragment, label)) (label_index pc (cf_labels frag)))"

definition labels_for :: "u64 \<Rightarrow> 'l code_cache \<Rightarrow> (nat \<times> nat) list option" where
  "labels_for pc s =
    (let entry = cc_by_entry s pc;
         fragments = (case entry of None \<Rightarrow> [] | Some e \<Rightarrow> [e])
           @ filter (\<lambda>fragment. Some fragment \<noteq> entry) [0..<length (cc_fragments s)]
     in if list_all (\<lambda>f. f < length (cc_fragments s)) fragments
        then Some (List.map_filter (label_in pc s) fragments) else None)"

text \<open>The link made: patch, record it on both sides, leave \<open>pending\<close>.\<close>

definition make_link ::
  "nat \<Rightarrow> nat \<Rightarrow> link_site \<Rightarrow> nat \<Rightarrow> nat \<Rightarrow> u32 \<Rightarrow> 'l code_cache \<Rightarrow> 'l code_cache option" where
  "make_link fragment link site target_fragment label word s = do {
     s \<leftarrow> patch_code fragment (ls_slot site) word s;
     let s = upd_frag fragment (set_linked link (Some (target_fragment, label))) s;
     let s = drop_pending (ls_target site) (fragment, link) s;
     let s = upd_frag target_fragment (\<lambda>t. t\<lparr>cf_incoming := cf_incoming t @ [(fragment, link)]\<rparr>) s;
     let s = upd_stats (\<lambda>st. st\<lparr>cs_link_made := cs_link_made st + 1\<rparr>) s;
     Some (log_event (Linked fragment (ls_slot site) target_fragment (ls_target site)) s) }"

fun try_candidates ::
  "nat \<Rightarrow> nat \<Rightarrow> link_site \<Rightarrow> u64 \<Rightarrow> bool \<Rightarrow> (nat \<times> nat) list \<Rightarrow> bool \<Rightarrow> bool
    \<Rightarrow> 'l code_cache \<Rightarrow> ('l code_cache \<times> bool) option" where
  "try_candidates fragment link site slot_addr fp [] class_refused out_of_range s =
    Some (upd_stats (\<lambda>st. st\<lparr>cs_link_class_refused := cs_link_class_refused st + of_bool class_refused,
                        cs_link_out_of_range := cs_link_out_of_range st + of_bool out_of_range\<rparr>) s, False)"
| "try_candidates fragment link site slot_addr fp ((target_fragment, label) # cs) class_refused out_of_range s = do {
     target \<leftarrow> nth_opt (cc_fragments s) target_fragment;
     l \<leftarrow> nth_opt (cf_labels target) label;
     if cf_retired target \<or> lb_pc l \<noteq> ls_target site then None
     else if \<not> fp \<and> cf_uses_fpsimd target
     then try_candidates fragment link site slot_addr fp cs True out_of_range s
     else case link_branch_word slot_addr (host target l) of
         Some word \<Rightarrow> map_option (\<lambda>s. (s, True)) (make_link fragment link site target_fragment label word s)
       | None \<Rightarrow> try_candidates fragment link site slot_addr fp cs class_refused True s }"

definition try_link ::
  "nat \<Rightarrow> nat \<Rightarrow> (nat \<times> nat) list \<Rightarrow> 'l code_cache \<Rightarrow> ('l code_cache \<times> bool) option" where
  "try_link fragment link candidates s = do {
     frag \<leftarrow> nth_opt (cc_fragments s) fragment;
     site \<leftarrow> nth_opt (cf_links frag) link;
     if ls_linked site \<noteq> None then None
     else try_candidates fragment link site (cf_base frag + of_nat (ls_slot site))
         (cf_uses_fpsimd frag) candidates False False s }"

definition restore_link :: "nat \<Rightarrow> nat \<Rightarrow> 'l code_cache \<Rightarrow> 'l code_cache option" where
  "restore_link fragment link s = do {
     frag \<leftarrow> nth_opt (cc_fragments s) fragment;
     site \<leftarrow> nth_opt (cf_links frag) link;
     (target_fragment, _) \<leftarrow> ls_linked site;
     s \<leftarrow> patch_code fragment (ls_slot site) LINK_NOP_WORD s;
     let s = upd_frag fragment (set_linked link None) s;
     let s = push_pending (ls_target site) (fragment, link) s;
     let s = upd_stats (\<lambda>st. st\<lparr>cs_link_restored := cs_link_restored st + 1\<rparr>) s;
     Some (log_event (Restored fragment (ls_slot site) target_fragment (ls_target site)) s) }"

text \<open>The three loops of \<open>link_install\<close>: the sites are pending, each is tried, then the waiting ones.\<close>

definition site_of :: "nat \<times> u64 \<Rightarrow> link_site" where
  "site_of = (\<lambda>(slot, target_pc). \<lparr>ls_slot = slot, ls_target = target_pc, ls_linked = None\<rparr>)"

definition pend_site :: "nat \<Rightarrow> nat \<Rightarrow> 'l code_cache \<Rightarrow> 'l code_cache option" where
  "pend_site index link s = do {
     frag \<leftarrow> nth_opt (cc_fragments s) index;
     site \<leftarrow> nth_opt (cf_links frag) link;
     Some (push_pending (ls_target site) (index, link) s) }"

definition try_own_site :: "nat \<Rightarrow> nat \<Rightarrow> 'l code_cache \<Rightarrow> 'l code_cache option" where
  "try_own_site index link s = do {
     frag \<leftarrow> nth_opt (cc_fragments s) index;
     site \<leftarrow> nth_opt (cf_links frag) link;
     candidates \<leftarrow> labels_for (ls_target site) s;
     map_option fst (try_link index link candidates s) }"

definition try_waiting :: "nat \<Rightarrow> nat \<Rightarrow> 'l code_cache \<Rightarrow> 'l code_cache option" where
  "try_waiting index label s = do {
     frag \<leftarrow> nth_opt (cc_fragments s) index;
     l \<leftarrow> nth_opt (cf_labels frag) label;
     ofold (\<lambda>(f, link) s. map_option fst (try_link f link [(index, label)] s))
       (filter (\<lambda>(f, _). f \<noteq> index) (waiting s (lb_pc l))) s }"

definition link_install :: "nat \<Rightarrow> 'l code_cache \<Rightarrow> 'l code_cache option" where
  "link_install index s = do {
     frag \<leftarrow> nth_opt (cc_fragments s) index;
     let sites = map site_of (ef_link_sites (cf_fragment frag));
     let s = upd_frag index (\<lambda>frag. frag\<lparr>cf_links := sites\<rparr>) s;
     s \<leftarrow> ofold (pend_site index) [0..<length sites] s;
     s \<leftarrow> ofold (try_own_site index) [0..<length sites] s;
     ofold (try_waiting index) [0..<length (cf_labels frag)] s }"

subsection \<open>Installing\<close>

text \<open>One record per entry label, until the record area is full.\<close>

fun push_labels ::
  "nat \<Rightarrow> cached_fragment \<Rightarrow> (u64 \<times> nat) list \<Rightarrow> 'l code_cache \<Rightarrow> 'l code_cache \<times> (cache_error + cached_fragment)" where
  "push_labels index cached [] s = (s, Inr cached)"
| "push_labels index cached ((pc, offset) # labels) s =
    (let record_number = length (cc_record_owner s);
         record = cl_records (cc_layout s) + of_nat (record_number * IBTC_RECORD_BYTES);
         l = \<lparr>lb_pc = pc, lb_offset = offset, lb_record = record\<rparr>
     in if record + of_nat IBTC_RECORD_BYTES
          > cl_records (cc_layout s) + of_nat (cl_records_len (cc_layout s))
        then (s, Inl RecordAreaFull)
        else push_labels index (cached\<lparr>cf_labels := cf_labels cached @ [l]\<rparr>) labels
          (s\<lparr>cc_record_owner := cc_record_owner s @ [(index, length (cf_labels cached))],
             cc_writes := cc_writes s @ [(record + of_nat IBTC_RECORD_PC_OFFSET, lb_pc l),
                                         (record + of_nat IBTC_RECORD_HOST_OFFSET, host cached l)]\<rparr>))"

definition fresh_fragment :: "u64 \<Rightarrow> exec_fragment \<Rightarrow> u8 list \<Rightarrow> bool \<Rightarrow> cached_fragment" where
  "fresh_fragment entry_pc fragment encoded uses_fpsimd =
    \<lparr>cf_entry_pc = entry_pc, cf_fragment = fragment, cf_encoded = encoded, cf_uses_fpsimd = uses_fpsimd,
     cf_fp_sticky = False, cf_base = 0, cf_retired = False, cf_labels = [], cf_links = [], cf_incoming = []\<rparr>"

definition install ::
  "'l loader \<Rightarrow> u64 \<Rightarrow> exec_fragment \<Rightarrow> u8 list \<Rightarrow> bool \<Rightarrow> 'l code_cache
    \<Rightarrow> ('l code_cache \<times> (cache_error + nat)) option" where
  "install ld entry_pc fragment encoded uses_fpsimd s =
    (let index = length (cc_fragments s);
         cached = fresh_fragment entry_pc fragment encoded uses_fpsimd;
         (loader, base) = ld cached (cc_loader s);
         s = s\<lparr>cc_loader := loader\<rparr>
     in case base of
         Inl e \<Rightarrow> Some (s, Inl (LoaderFailed e))
       | Inr base \<Rightarrow>
           (case push_labels index (cached\<lparr>cf_base := base\<rparr>) (sort (ef_entry_labels fragment)) s of
              (s, Inl e) \<Rightarrow> Some (s, Inl e)
            | (s, Inr cached) \<Rightarrow>
                (let occupied = cc_by_entry s entry_pc \<noteq> None;
                     s = s\<lparr>cc_by_entry := (cc_by_entry s)(entry_pc \<mapsto> index)\<rparr>
                 in if occupied then Some (s, Inl (EntryInstalled entry_pc))
                    else
                      (let s = s\<lparr>cc_fragments := cc_fragments s @ [cached]\<rparr>;
                           s = log_event (Installed index entry_pc) s
                       in if cc_linking s
                          then map_option (\<lambda>s. (s, Inr index)) (link_install index s)
                          else Some (s, Inr index)))))"

text \<open>Translate, encode, verify, install. \<open>Inr None\<close>: the entry is not readable text.\<close>

definition translate ::
  "'l loader \<Rightarrow> compiler \<Rightarrow> u64 \<Rightarrow> u64 \<Rightarrow> 'l code_cache \<Rightarrow> ('l code_cache \<times> (cache_error + nat option)) option" where
  "translate ld compile entry_pc source_pc s =
    (case cc_text s of
       None \<Rightarrow> Some (s, Inl NoText)
     | Some txt \<Rightarrow>
         (case compile \<lparr>tr_entry_pc = entry_pc, tr_source_pc = source_pc\<rparr> txt of
            Inl CodeUnreadable \<Rightarrow> Some (s, Inr None)
          | Inl (CompileFailed e) \<Rightarrow> Some (s, Inl (TranslateFailed entry_pc e))
          | Inr fragment \<Rightarrow>
              (case encode_fragment fragment of
                 None \<Rightarrow> Some (s, Inl EncodeFailed)
               | Some encoded \<Rightarrow>
                   (case verify_encoded_fragment fragment encoded of
                      Inl e \<Rightarrow> Some (s, Inl (Rejected entry_pc e))
                    | Inr uses_fpsimd \<Rightarrow>
                        map_option (map_prod id (map_sum id Some))
                          (install ld entry_pc fragment encoded uses_fpsimd
                            (upd_stats (\<lambda>st. st\<lparr>cs_translations := cs_translations st + 1\<rparr>) s))))))"

subsection \<open>The dispatch tables\<close>

definition slots_of :: "bool \<Rightarrow> 'l code_cache \<Rightarrow> u64 list" where
  "slots_of all s = (if all then cc_slots_all s else cc_slots_nofp s)"

definition set_slots :: "bool \<Rightarrow> u64 list \<Rightarrow> 'l code_cache \<Rightarrow> 'l code_cache" where
  "set_slots all slots s = (if all then s\<lparr>cc_slots_all := slots\<rparr> else s\<lparr>cc_slots_nofp := slots\<rparr>)"

definition table_addr :: "bool \<Rightarrow> 'l code_cache \<Rightarrow> u64" where
  "table_addr all s = (if all then cl_table_all (cc_layout s) else cl_table_nofp (cc_layout s))"

definition slot_write :: "bool \<Rightarrow> nat \<Rightarrow> u64 \<Rightarrow> 'l code_cache \<Rightarrow> 'l code_cache" where
  "slot_write all slot record s =
    s\<lparr>cc_writes := cc_writes s @ [(table_addr all s + of_nat slot * IBTC_SLOT_BYTES, record)]\<rparr>"

text \<open>The label a record belongs to (0: no record).\<close>

definition record_label :: "u64 \<Rightarrow> 'l code_cache \<Rightarrow> (nat \<times> nat) option" where
  "record_label record s =
    (if record < cl_records (cc_layout s) then None
     else nth_opt (cc_record_owner s) (unat (record - cl_records (cc_layout s)) div IBTC_RECORD_BYTES))"

definition occupant_of :: "u64 \<Rightarrow> 'l code_cache \<Rightarrow> occupant option option" where
  "occupant_of record s =
    (if record = 0 then Some None
     else do {
       (fragment, label) \<leftarrow> record_label record s;
       frag \<leftarrow> nth_opt (cc_fragments s) fragment;
       l \<leftarrow> nth_opt (cf_labels frag) label;
       Some (Some \<lparr>oc_pc = lb_pc l, oc_fragment = fragment\<rparr>) })"

definition record_pc :: "u64 \<Rightarrow> 'l code_cache \<Rightarrow> u64 option option" where
  "record_pc record s = map_option (map_option oc_pc) (occupant_of record s)"

definition set_slot :: "bool \<Rightarrow> nat \<Rightarrow> u64 \<Rightarrow> 'l code_cache \<Rightarrow> 'l code_cache option" where
  "set_slot all slot record s = do {
     previous \<leftarrow> nth_opt (slots_of all s) slot;
     if previous = record then Some s
     else do {
       replaced \<leftarrow> occupant_of previous s;
       found \<leftarrow> occupant_of record s;
       stored \<leftarrow> found;
       let s = upd_stats (\<lambda>st. st\<lparr>cs_ibtc_insert := cs_ibtc_insert st + 1,
                              cs_ibtc_replace := cs_ibtc_replace st + of_bool (previous \<noteq> 0)\<rparr>) s;
       let s = set_slots all ((slots_of all s)[slot := record]) s;
       let s = slot_write all slot record s;
       Some (log_event (Published (if all then TableAll else TableNoFp) slot (oc_pc stored)
         (oc_fragment stored) replaced) s) } }"

text \<open>
  The residents the publish plan asks for are those of the two slots of \<open>pc\<close>; a slot that holds no
  record of the cache panics.
\<close>

definition resident :: "bool \<Rightarrow> 'l code_cache \<Rightarrow> nat \<Rightarrow> u64 option" where
  "resident all s slot =
    (case record_pc (slots_of all s ! slot) s of Some r \<Rightarrow> r | None \<Rightarrow> None)"

definition apply_plan_store :: "bool \<Rightarrow> u64 \<Rightarrow> ibtc_store \<Rightarrow> 'l code_cache \<Rightarrow> 'l code_cache option" where
  "apply_plan_store all new_record store s = do {
     value \<leftarrow> (case st_src store of SrcNew \<Rightarrow> Some new_record | SrcSlot slot \<Rightarrow> nth_opt (slots_of all s) slot);
     set_slot all (st_dst store) value s }"

definition publish_into :: "bool \<Rightarrow> u64 \<Rightarrow> u64 \<Rightarrow> 'l code_cache \<Rightarrow> 'l code_cache option" where
  "publish_into all new_record pc s =
    (if list_all (\<lambda>slot. slot < length (slots_of all s) \<and> record_pc (slots_of all s ! slot) s \<noteq> None)
         (ibtc_lookup_slots pc)
     then ofold (apply_plan_store all new_record) (ibtc_plan_publish pc (resident all s)) s
     else None)"

definition cache_publish :: "nat \<Rightarrow> u64 \<Rightarrow> 'l code_cache \<Rightarrow> ('l code_cache \<times> (cache_error + unit)) option" where
  "cache_publish fragment pc s = do {
     frag \<leftarrow> nth_opt (cc_fragments s) fragment;
     if cf_retired frag then Some (s, Inl (PublishRetired fragment))
     else case label_for_pc frag pc of
         None \<Rightarrow> Some (s, Inl (NoLabelForPc fragment pc))
       | Some l \<Rightarrow> do {
           s \<leftarrow> publish_into True (lb_record l) pc s;
           s \<leftarrow> (if cf_uses_fpsimd frag then Some s else publish_into False (lb_record l) pc s);
           Some (s, Inr ()) } }"

subsection \<open>Retiring\<close>

definition drop_own_link :: "nat \<Rightarrow> nat \<Rightarrow> 'l code_cache \<Rightarrow> 'l code_cache option" where
  "drop_own_link fragment link s = do {
     frag \<leftarrow> nth_opt (cc_fragments s) fragment;
     site \<leftarrow> nth_opt (cf_links frag) link;
     case ls_linked site of
         Some (target_fragment, _) \<Rightarrow> do {
           _ \<leftarrow> nth_opt (cc_fragments s) target_fragment;
           Some (upd_frag target_fragment
             (\<lambda>t. t\<lparr>cf_incoming := filter (\<lambda>entry. entry \<noteq> (fragment, link)) (cf_incoming t)\<rparr>) s) }
       | None \<Rightarrow> Some (drop_pending (ls_target site) (fragment, link) s) }"

definition clear_slot :: "u64 \<Rightarrow> nat \<times> bool \<Rightarrow> 'l code_cache \<Rightarrow> 'l code_cache option" where
  "clear_slot record = (\<lambda>(slot, all) s. do {
     value \<leftarrow> nth_opt (slots_of all s) slot;
     Some (if value = record
       then slot_write all slot 0
         (upd_stats (\<lambda>st. st\<lparr>cs_ibtc_clear := cs_ibtc_clear st + 1\<rparr>)
           (set_slots all ((slots_of all s)[slot := 0]) s))
       else s) })"

definition clear_label :: "label \<Rightarrow> 'l code_cache \<Rightarrow> 'l code_cache option" where
  "clear_label l = ofold (clear_slot (lb_record l))
     (concat (map (\<lambda>slot. [(slot, True), (slot, False)]) (ibtc_lookup_slots (lb_pc l))))"

definition retire :: "nat \<Rightarrow> 'l code_cache \<Rightarrow> 'l code_cache option" where
  "retire fragment s = do {
     frag \<leftarrow> nth_opt (cc_fragments s) fragment;
     let s = upd_frag fragment (\<lambda>frag. frag\<lparr>cf_incoming := []\<rparr>) s;
     s \<leftarrow> ofold (\<lambda>(site_fragment, link). restore_link site_fragment link) (cf_incoming frag) s;
     s \<leftarrow> ofold (drop_own_link fragment) [0..<length (cf_links frag)] s;
     let s = upd_frag fragment (\<lambda>frag. frag\<lparr>cf_retired := True\<rparr>) s;
     let s = (if cc_by_entry s (cf_entry_pc frag) = Some fragment
              then s\<lparr>cc_by_entry := (cc_by_entry s)(cf_entry_pc frag := None)\<rparr> else s);
     s \<leftarrow> ofold clear_label (cf_labels frag) s;
     Some (log_event (Retired fragment) s) }"

end
