(* ===== verification/CacheDecide.thy ===== *)
theory CacheDecide
  imports CacheOps
begin

section \<open>Lookups, checks and decisions of the code cache\<close>

text \<open>
  The read-only operations of \<open>harness/src/code_cache.rs\<close> (what a dispatch lookup finds, the memory
  image, the two invariant checks) and the runtime's decision after a fragment returned
  (\<open>decide\<close>). In a check a panic of the code is the error \<open>CheckPanicked\<close>.
\<close>

subsection \<open>Lookups\<close>

fun look_slots :: "bool \<Rightarrow> u64 \<Rightarrow> nat list \<Rightarrow> 'l code_cache \<Rightarrow> nat option option" where
  "look_slots all pc [] s = Some None"
| "look_slots all pc (slot # slots) s = do {
     record \<leftarrow> nth_opt (slots_of all s) slot;
     found \<leftarrow> record_pc record s;
     if found = Some pc then do { (fragment, _) \<leftarrow> record_label record s; Some (Some fragment) }
     else look_slots all pc slots s }"

definition cache_lookup :: "bool \<Rightarrow> u64 \<Rightarrow> 'l code_cache \<Rightarrow> nat option option" where
  "cache_lookup all pc s = look_slots all pc (ibtc_lookup_slots pc) s"

definition resident_pc :: "bool \<Rightarrow> nat \<Rightarrow> 'l code_cache \<Rightarrow> u64 option option" where
  "resident_pc all slot s = do { record \<leftarrow> nth_opt (slots_of all s) slot; record_pc record s }"

definition drain_writes :: "'l code_cache \<Rightarrow> 'l code_cache \<times> (u64 \<times> u64) list" where
  "drain_writes s = (s\<lparr>cc_writes := []\<rparr>, cc_writes s)"

definition record_words :: "cached_fragment \<Rightarrow> (u64 \<times> u64) list" where
  "record_words frag = concat (map (\<lambda>l. [(lb_record l + of_nat IBTC_RECORD_PC_OFFSET, lb_pc l),
     (lb_record l + of_nat IBTC_RECORD_HOST_OFFSET, host frag l)]) (cf_labels frag))"

definition table_words :: "u64 \<Rightarrow> u64 list \<Rightarrow> (u64 \<times> u64) list" where
  "table_words table slots =
    map (\<lambda>(slot, record). (table + of_nat slot * IBTC_SLOT_BYTES, record))
      (filter (\<lambda>(slot, record). record \<noteq> 0) (enumerate 0 slots))"

definition image :: "'l code_cache \<Rightarrow> 'l code_cache \<times> (u64 \<times> u64) list" where
  "image s = (s\<lparr>cc_writes := []\<rparr>,
     concat (map record_words (cc_fragments s))
     @ table_words (cl_table_all (cc_layout s)) (cc_slots_all s)
     @ table_words (cl_table_nofp (cc_layout s)) (cc_slots_nofp s))"

text \<open>The fragment translated for exactly \<open>pc\<close>, else the first live one with a label for it.\<close>

fun first_label :: "nat \<Rightarrow> u64 \<Rightarrow> cached_fragment list \<Rightarrow> (nat \<times> nat) option" where
  "first_label index pc [] = None"
| "first_label index pc (frag # frags) =
    (if cf_retired frag then first_label (Suc index) pc frags
     else case label_for_pc frag pc of
         Some l \<Rightarrow> Some (index, lb_offset l)
       | None \<Rightarrow> first_label (Suc index) pc frags)"

definition resolve :: "u64 \<Rightarrow> 'l code_cache \<Rightarrow> (nat \<times> nat) option option" where
  "resolve pc s =
    (case cc_by_entry s pc of
       Some fragment \<Rightarrow> do {
         frag \<leftarrow> nth_opt (cc_fragments s) fragment;
         Some (map_option (\<lambda>l. (fragment, lb_offset l)) (label_for_pc frag pc)) }
     | None \<Rightarrow> Some (first_label 0 pc (cc_fragments s)))"

subsection \<open>The checks\<close>

datatype (plugins only: code size) check_error =
    NotARecord bool nat u64 | IntoRetired bool nat nat | WrongSlot bool nat u64 | FpsimdInNofp nat nat
  | RetiredHasIncoming nat | SlotNotEncodable nat nat | BytesDiffer nat nat | PendingNotNop nat nat u32
  | PendingNotListed nat nat | LinkedIntoRetired nat nat nat | LinkedToOtherPc nat nat u64
  | LinkedIntoFpsimd nat nat nat | NotBranchTo nat nat u64 | NotOnIncoming nat nat nat
  | WrongCounts nat nat nat nat | CheckPanicked

definition check_table_slot :: "'l code_cache \<Rightarrow> bool \<Rightarrow> nat \<times> u64 \<Rightarrow> unit \<Rightarrow> check_error + unit" where
  "check_table_slot s nofp = (\<lambda>(slot, record) _.
     if record = 0 then Inr ()
     else if record < cl_records (cc_layout s) then Inl CheckPanicked
     else
       rbind (ok_or (record_label record s) (NotARecord nofp slot record)) (\<lambda>(fragment, label).
       rbind (ok_or (nth_opt (cc_fragments s) fragment) CheckPanicked) (\<lambda>frag.
       rbind (ok_or (nth_opt (cf_labels frag) label) CheckPanicked) (\<lambda>l.
       if cf_retired frag then Inl (IntoRetired nofp slot fragment)
       else if slot \<notin> set (ibtc_lookup_slots (lb_pc l)) then Inl (WrongSlot nofp slot (lb_pc l))
       else if nofp \<and> cf_uses_fpsimd frag then Inl (FpsimdInNofp slot fragment)
       else Inr ()))))"

definition occurrences :: "nat \<times> nat \<Rightarrow> (nat \<times> nat) list \<Rightarrow> nat" where
  "occurrences x xs = length (filter (\<lambda>e. e = x) xs)"

text \<open>One site of a live fragment; the counts are the pending and the linked sites so far.\<close>

definition check_site ::
  "'l code_cache \<Rightarrow> nat \<Rightarrow> cached_fragment \<Rightarrow> nat \<times> link_site \<Rightarrow> nat \<times> nat \<Rightarrow> check_error + nat \<times> nat" where
  "check_site s index frag = (\<lambda>(link, site) (pending, incoming).
     let slot_addr = cf_base frag + of_nat (ls_slot site) in
     rbind (ok_or (nth_opt (ef_insns (cf_fragment frag)) (ls_slot site div 4)) CheckPanicked) (\<lambda>insn.
     rbind (ok_or (encode insn) (SlotNotEncodable index (ls_slot site))) (\<lambda>word.
     if ls_slot site + 4 \<le> length (cf_encoded frag)
         \<and> take 4 (drop (ls_slot site) (cf_encoded frag)) \<noteq> le_bytes word
     then Inl (BytesDiffer index (ls_slot site))
     else case ls_linked site of
         None \<Rightarrow>
           if word \<noteq> LINK_NOP_WORD then Inl (PendingNotNop index link word)
           else if occurrences (index, link) (waiting s (ls_target site)) \<noteq> 1
           then Inl (PendingNotListed index link)
           else Inr (pending + 1, incoming)
       | Some (target, label) \<Rightarrow>
           rbind (ok_or (nth_opt (cc_fragments s) target) CheckPanicked) (\<lambda>target_frag.
           rbind (ok_or (nth_opt (cf_labels target_frag) label) CheckPanicked) (\<lambda>l.
           if cf_retired target_frag then Inl (LinkedIntoRetired index link target)
           else if lb_pc l \<noteq> ls_target site then Inl (LinkedToOtherPc index link (lb_pc l))
           else if \<not> cf_uses_fpsimd frag \<and> cf_uses_fpsimd target_frag
           then Inl (LinkedIntoFpsimd index link target)
           else if link_branch_word slot_addr (host target_frag l) \<noteq> Some word
           then Inl (NotBranchTo index link (host target_frag l))
           else if occurrences (index, link) (cf_incoming target_frag) \<noteq> 1
           then Inl (NotOnIncoming index link target)
           else Inr (pending, incoming + 1))))))"

definition check_fragment ::
  "'l code_cache \<Rightarrow> nat \<times> cached_fragment \<Rightarrow> nat \<times> nat \<Rightarrow> check_error + nat \<times> nat" where
  "check_fragment s = (\<lambda>(index, frag) counts.
     if cf_retired frag
     then (if cf_incoming frag = [] then Inr counts else Inl (RetiredHasIncoming index))
     else rfold (check_site s index frag) (enumerate 0 (cf_links frag)) counts)"

definition listed_pending :: "'l code_cache \<Rightarrow> nat" where
  "listed_pending s = sum_list (map (length \<circ> snd) (cc_pending s))"

definition listed_incoming :: "'l code_cache \<Rightarrow> nat" where
  "listed_incoming s = sum_list (map (length \<circ> cf_incoming) (cc_fragments s))"

definition check_link_invariants :: "'l code_cache \<Rightarrow> check_error + unit" where
  "check_link_invariants s =
    rbind (rfold (check_fragment s) (enumerate 0 (cc_fragments s)) (0, 0)) (\<lambda>(pending, incoming).
      if listed_pending s \<noteq> pending \<or> listed_incoming s \<noteq> incoming
      then Inl (WrongCounts (listed_pending s) pending (listed_incoming s) incoming)
      else Inr ())"

definition check_invariants :: "'l code_cache \<Rightarrow> check_error + unit" where
  "check_invariants s =
    rbind (rfold (check_table_slot s False) (enumerate 0 (cc_slots_all s)) ()) (\<lambda>_.
    rbind (rfold (check_table_slot s True) (enumerate 0 (cc_slots_nofp s)) ()) (\<lambda>_.
    check_link_invariants s))"

subsection \<open>Decisions\<close>

definition note_boundary :: "nat \<Rightarrow> 'l code_cache \<Rightarrow> 'l code_cache option" where
  "note_boundary target s = do {
     frag \<leftarrow> nth_opt (cc_fragments s) target;
     if \<not> cf_uses_fpsimd frag then Some s
     else do {
       b \<leftarrow> bracketed (cc_entered s) s;
       if b then Some s
       else do {
         let s = upd_stats (\<lambda>st. st\<lparr>cs_ibtc_fpsimd_boundary := cs_ibtc_fpsimd_boundary st + 1\<rparr>) s;
         entered \<leftarrow> nth_opt (cc_fragments s) (cc_entered s);
         Some (if cf_fp_sticky entered then s
           else upd_stats (\<lambda>st. st\<lparr>cs_fp_sticky_set := cs_fp_sticky_set st + 1\<rparr>)
             (upd_frag (cc_entered s) (\<lambda>f. f\<lparr>cf_fp_sticky := True\<rparr>) s)) } } }"

definition userspace :: "ret_status \<Rightarrow> u64 \<Rightarrow> cache_action" where
  "userspace status target_pc = Stop (ReturnedToUserspace status target_pc)"

definition over_budget :: "'l code_cache \<Rightarrow> bool" where
  "over_budget s = (case cc_chain_budget s of None \<Rightarrow> False | Some budget \<Rightarrow> budget \<le> cc_run_entries s)"

text \<open>Continue in \<open>fragment\<close>: the boundary is noted, the label published, the entry counted.\<close>

definition continue_at ::
  "nat \<Rightarrow> nat \<Rightarrow> u64 \<Rightarrow> 'l code_cache \<Rightarrow> ('l code_cache \<times> (cache_error + cache_action)) option" where
  "continue_at fragment offset target s = do {
     s \<leftarrow> note_boundary fragment s;
     (s, published) \<leftarrow> cache_publish fragment target s;
     case published of
         Inl e \<Rightarrow> Some (s, Inl e)
       | Inr _ \<Rightarrow> Some (s\<lparr>cc_run_entries := cc_run_entries s + 1\<rparr>, Inr (ContinueAt fragment offset)) }"

definition own_label :: "u64 \<Rightarrow> 'l code_cache \<Rightarrow> (nat \<times> nat) option option" where
  "own_label target s = do {
     entered \<leftarrow> nth_opt (cc_fragments s) (cc_entered s);
     Some (if cf_retired entered then None
           else map_option (\<lambda>l. (cc_entered s, lb_offset l)) (label_for_pc entered target)) }"

definition entry_label :: "u64 \<Rightarrow> 'l code_cache \<Rightarrow> (nat \<times> nat) option option" where
  "entry_label target s =
    (case cc_by_entry s target of
       None \<Rightarrow> Some None
     | Some fragment \<Rightarrow> do {
         frag \<leftarrow> nth_opt (cc_fragments s) fragment;
         Some (map_option (\<lambda>l. (fragment, lb_offset l)) (label_for_pc frag target)) })"

definition decide_return_to_user ::
  "ret_status \<Rightarrow> u64 \<Rightarrow> 'l code_cache \<Rightarrow> ('l code_cache \<times> (cache_error + cache_action)) option" where
  "decide_return_to_user status target s =
    (if over_budget s then Some (s\<lparr>cc_chain_capped := True\<rparr>, Inr (userspace status target))
     else do {
       own \<leftarrow> own_label target s;
       resolved \<leftarrow> (case own of Some r \<Rightarrow> Some (Some r) | None \<Rightarrow> entry_label target s);
       case resolved of
           None \<Rightarrow> Some (s, Inr (userspace status target))
         | Some (fragment, offset) \<Rightarrow> continue_at fragment offset target s })"

definition decide_svc ::
  "u64 \<Rightarrow> 'l code_cache \<Rightarrow> ('l code_cache \<times> (cache_error + cache_action)) option" where
  "decide_svc resume_pc s = do {
     resolved \<leftarrow> resolve resume_pc s;
     case resolved of
         None \<Rightarrow> Some (s, Inr (userspace RsSvc resume_pc))
       | Some (fragment, offset) \<Rightarrow>
           if over_budget s then Some (s, Inr (userspace RsSvc resume_pc))
           else Some (s\<lparr>cc_run_entries := cc_run_entries s + 1\<rparr>, Inr (ContinueAt fragment offset)) }"

definition decide_branch ::
  "'l loader \<Rightarrow> compiler \<Rightarrow> u64 \<Rightarrow> u64 \<Rightarrow> 'l code_cache \<Rightarrow> ('l code_cache \<times> (cache_error + cache_action)) option" where
  "decide_branch ld compile target param1 s = do {
     resolved \<leftarrow> resolve target s;
     case resolved of
         Some (fragment, offset) \<Rightarrow> continue_at fragment offset target s
       | None \<Rightarrow> do {
           (s, translated) \<leftarrow> translate ld compile target (param1 - 4) s;
           case translated of
               Inl e \<Rightarrow> Some (s, Inl e)
             | Inr None \<Rightarrow> Some (s, Inr (userspace RsUnsupported target))
             | Inr (Some fragment) \<Rightarrow> do {
                 frag \<leftarrow> nth_opt (cc_fragments s) fragment;
                 case label_for_pc frag target of
                     None \<Rightarrow> Some (s, Inl FreshWithoutLabel)
                   | Some l \<Rightarrow> continue_at fragment (lb_offset l) target s } } }"

definition decide ::
  "'l loader \<Rightarrow> compiler \<Rightarrow> u64 \<Rightarrow> u64 \<Rightarrow> u64 \<Rightarrow> 'l code_cache
    \<Rightarrow> ('l code_cache \<times> (cache_error + cache_action)) option" where
  "decide ld compile raw_status param0 param1 s =
    (let status = from_reg raw_status in
     if status = RsSvc then
       (if cc_miss_policy s = ReturnToUser then Some (s, Inr (userspace status param1))
        else decide_svc param1 s)
     else if status \<in> {RsBl, RsBlr, RsBr, RsRet} then
       (if cc_miss_policy s = ReturnToUser then decide_return_to_user status param0 s
        else decide_branch ld compile param0 param1 s)
     else if status \<in> {RsUnsupported, RsMem, RsBudget} then Some (s, Inr (userspace status param1))
     else if status = RsDebug then Some (s, Inr (Stop (UnsupportedRuntimeExit status)))
     else Some (s, Inr (Stop (InvalidReturnStatus raw_status))))"

subsection \<open>The synthetic code space\<close>

text \<open>Fragments one after another from the given address, each page-aligned with a guard page.\<close>

definition synthetic_loader :: "u64 loader" where
  "synthetic_loader frag next =
    (let pages = (of_nat (len_bytes (cf_fragment frag)) + PAGE_SIZE - 1) div PAGE_SIZE + 1
     in (next + pages * PAGE_SIZE, Inr next))"

end
