(* ===== verification/CacheTables.thy ===== *)
theory CacheTables
  imports CacheDecide
begin

section \<open>The dispatch tables of the cache\<close>

text \<open>
  The invariant of the two tables and of the records, and that publishing and clearing refine the
  operations of \<open>Dispatch\<close>: a slot list is a table of record addresses (0 is empty), the pc of a
  record is that of the label it was made for. The laws of \<open>Dispatch\<close> then give the invariant.
\<close>

subsection \<open>Records and the invariant\<close>

definition live :: "'l code_cache \<Rightarrow> nat \<Rightarrow> bool" where
  "live s i \<longleftrightarrow> i < length (cc_fragments s) \<and> \<not> cf_retired (cc_fragments s ! i)"

definition is_label :: "'l code_cache \<Rightarrow> u64 \<Rightarrow> nat \<Rightarrow> nat \<Rightarrow> bool" where
  "is_label s r i j \<longleftrightarrow> i < length (cc_fragments s) \<and> j < length (cf_labels (cc_fragments s ! i))
    \<and> lb_record (cf_labels (cc_fragments s ! i) ! j) = r"

definition area_ok :: "cache_layout \<Rightarrow> bool" where
  "area_ok lay \<longleftrightarrow> cl_records lay \<noteq> 0 \<and> unat (cl_records lay) + cl_records_len lay + 16 < 2 ^ 64"

definition labels_ok :: "'l code_cache \<Rightarrow> bool" where
  "labels_ok s \<longleftrightarrow> (\<forall>r i j. is_label s r i j \<longrightarrow>
    (\<exists>n. n < length (cc_record_owner s) \<and> cc_record_owner s ! n = (i, j)
      \<and> 16 * n + 16 \<le> cl_records_len (cc_layout s) \<and> r = cl_records (cc_layout s) + of_nat (n * 16)))"

text \<open>A slot list as a table of records, and the pc of a record.\<close>

definition tab :: "u64 list \<Rightarrow> u64 table" where
  "tab slots = (\<lambda>i. if i < length slots \<and> slots ! i \<noteq> 0 then Some (slots ! i) else None)"

definition pc_at :: "'l code_cache \<Rightarrow> u64 \<Rightarrow> u64" where
  "pc_at s r = (case record_pc r s of Some (Some pc) \<Rightarrow> pc | _ \<Rightarrow> 0)"

text \<open>The records a table may hold: of live fragments, for \<open>table_nofp\<close> without FP/SIMD.\<close>

definition class_records :: "'l code_cache \<Rightarrow> bool \<Rightarrow> u64 set" where
  "class_records s all = {r. \<exists>i j. live s i \<and> is_label s r i j
    \<and> (all \<or> \<not> cf_uses_fpsimd (cc_fragments s ! i))}"

definition table_ok :: "'l code_cache \<Rightarrow> bool \<Rightarrow> bool" where
  "table_ok s all \<longleftrightarrow> length (slots_of all s) = IBTC_TABLE_WORDS
    \<and> table_wf (pc_at s) (tab (slots_of all s)) \<and> held (tab (slots_of all s)) \<subseteq> class_records s all"

definition tables_ok :: "'l code_cache \<Rightarrow> bool" where
  "tables_ok s \<longleftrightarrow> area_ok (cc_layout s) \<and> labels_ok s \<and> table_ok s True \<and> table_ok s False"

lemma record_address:
  assumes "area_ok lay" "16 * n + 16 \<le> cl_records_len lay"
  shows "cl_records lay + of_nat (n * 16) \<noteq> 0"
    and "\<not> cl_records lay + of_nat (n * 16) < cl_records lay"
    and "unat (cl_records lay + of_nat (n * 16) - cl_records lay) div 16 = n"
proof -
  have n: "unat (of_nat (n * 16) :: u64) = n * 16"
    using assms by (simp add: area_ok_def unsigned_of_nat take_bit_nat_eq_self del: of_nat_mult)
  have sum: "unat (cl_records lay + of_nat (n * 16)) = unat (cl_records lay) + n * 16"
  proof -
    have "unat (cl_records lay) + n * 16 < 2 ^ LENGTH(64)"
      using assms by (simp add: area_ok_def)
    then show ?thesis
      using unat_add_lem [of "cl_records lay" "of_nat (n * 16)"] by (simp only: n)
  qed
  have "cl_records lay \<noteq> 0"
    using assms(1) by (simp add: area_ok_def)
  then show "cl_records lay + of_nat (n * 16) \<noteq> 0"
    using sum by (auto simp: unat_eq_zero)
  show "\<not> cl_records lay + of_nat (n * 16) < cl_records lay"
    by (simp only: word_less_nat_alt sum)
  have "cl_records lay + of_nat (n * 16) - cl_records lay = of_nat (n * 16)"
    by simp
  then show "unat (cl_records lay + of_nat (n * 16) - cl_records lay) div 16 = n"
    by (simp only: n)
qed

lemma known_label:
  assumes "area_ok (cc_layout s)" "labels_ok s" "is_label s r i j"
  shows "r \<noteq> 0" and "\<not> r < cl_records (cc_layout s)" and "record_label r s = Some (i, j)"
    and "occupant_of r s = Some (Some \<lparr>oc_pc = lb_pc (cf_labels (cc_fragments s ! i) ! j), oc_fragment = i\<rparr>)"
    and "record_pc r s = Some (Some (lb_pc (cf_labels (cc_fragments s ! i) ! j)))"
    and "pc_at s r = lb_pc (cf_labels (cc_fragments s ! i) ! j)"
proof -
  obtain n where n: "n < length (cc_record_owner s)" "cc_record_owner s ! n = (i, j)"
      "16 * n + 16 \<le> cl_records_len (cc_layout s)" "r = cl_records (cc_layout s) + of_nat (n * 16)"
    using assms(2,3) unfolding labels_ok_def by blast
  note addr = record_address [OF assms(1) n(3), folded n(4)]
  show "r \<noteq> 0" "\<not> r < cl_records (cc_layout s)" using addr by simp_all
  show "record_label r s = Some (i, j)"
    using addr n(1,2) by (simp add: record_label_def IBTC_RECORD_BYTES_def)
  with addr(1) assms(3) show occ: "occupant_of r s =
      Some (Some \<lparr>oc_pc = lb_pc (cf_labels (cc_fragments s ! i) ! j), oc_fragment = i\<rparr>)"
    by (simp add: occupant_of_def is_label_def)
  then show "record_pc r s = Some (Some (lb_pc (cf_labels (cc_fragments s ! i) ! j)))"
    by (simp add: record_pc_def)
  then show "pc_at s r = lb_pc (cf_labels (cc_fragments s ! i) ! j)"
    by (simp add: pc_at_def)
qed

text \<open>What a slot of a table the invariant holds of may contain.\<close>

definition slot_values :: "'l code_cache \<Rightarrow> u64 set" where
  "slot_values s = {r. r = 0 \<or> (\<exists>i j. is_label s r i j)}"

lemma occupant_defined:
  assumes "area_ok (cc_layout s)" "labels_ok s" "r \<in> slot_values s"
  shows "\<exists>found. occupant_of r s = Some found"
    and "record_pc r s = Some (if r = 0 then None else Some (pc_at s r))"
proof -
  consider "r = 0" | i j where "is_label s r i j"
    using assms(3) by (auto simp: slot_values_def)
  then have "(\<exists>found. occupant_of r s = Some found) \<and>
      record_pc r s = Some (if r = 0 then None else Some (pc_at s r))"
  proof cases
    case 1
    then show ?thesis by (simp add: record_pc_def occupant_of_def)
  next
    case 2
    note known = known_label [OF assms(1,2) 2]
    show ?thesis by (simp add: known(1,4-6))
  qed
  then show "\<exists>found. occupant_of r s = Some found"
    and "record_pc r s = Some (if r = 0 then None else Some (pc_at s r))"
    by blast+
qed

lemma held_tab: "held (tab slots) = set slots - {0}"
proof (intro set_eqI iffI)
  fix r assume "r \<in> held (tab slots)"
  then obtain i where "tab slots i = Some r" by (auto simp: held_def ran_def)
  then show "r \<in> set slots - {0}" by (simp add: tab_def split: if_splits) (metis nth_mem)
next
  fix r assume "r \<in> set slots - {0}"
  then obtain i where "i < length slots" "slots ! i = r" "r \<noteq> 0" by (auto simp: in_set_conv_nth)
  then have "tab slots i = Some r" by (simp add: tab_def)
  then show "r \<in> held (tab slots)" by (auto simp: held_def ran_def)
qed

lemma table_ok_values: "table_ok s all \<Longrightarrow> set (slots_of all s) \<subseteq> slot_values s"
  by (auto simp: table_ok_def held_tab slot_values_def class_records_def)

subsection \<open>One store\<close>

text \<open>The state but for what is only counted, queued or logged.\<close>

definition core :: "'l code_cache \<Rightarrow> 'l code_cache" where
  "core s = s\<lparr>cc_stats := zero_stats, cc_writes := [], cc_events := None\<rparr>"

definition bookkeeping :: "'l code_cache \<Rightarrow> 'l code_cache \<Rightarrow> bool" where
  "bookkeeping s t \<longleftrightarrow> core t = core s"

lemma bookkeeping_refl [simp]: "bookkeeping s s"
  by (simp add: bookkeeping_def)

lemma bookkeeping_trans: "bookkeeping s t \<Longrightarrow> bookkeeping t u \<Longrightarrow> bookkeeping s u"
  by (simp add: bookkeeping_def)

lemma bookkeeping_fields:
  assumes "bookkeeping s t"
  shows "cc_layout t = cc_layout s" "cc_text t = cc_text s" "cc_loader t = cc_loader s"
    "cc_fragments t = cc_fragments s" "cc_by_entry t = cc_by_entry s"
    "cc_slots_all t = cc_slots_all s" "cc_slots_nofp t = cc_slots_nofp s"
    "cc_record_owner t = cc_record_owner s" "cc_linking t = cc_linking s" "cc_pending t = cc_pending s"
    "cc_code_patches t = cc_code_patches s" "cc_chain_budget t = cc_chain_budget s"
    "cc_run_entries t = cc_run_entries s" "cc_miss_policy t = cc_miss_policy s"
    "cc_entered t = cc_entered s" "cc_chain_capped t = cc_chain_capped s"
  using assms
  by (cases s, cases t, simp add: bookkeeping_def core_def)+

lemma slots_of_set_slots [simp]:
  "slots_of all (set_slots all slots s) = slots"
  "slots_of (\<not> all) (set_slots all slots s) = slots_of (\<not> all) s"
  by (simp_all add: slots_of_def set_slots_def)

lemma set_slots_same [simp]: "set_slots all (slots_of all s) s = s"
  by (simp add: slots_of_def set_slots_def)

lemma set_slot_effect:
  assumes "area_ok (cc_layout s)" "labels_ok s" "set (slots_of all s) \<subseteq> slot_values s"
    and "slot < length (slots_of all s)" "is_label s r i j"
  shows "\<exists>t. set_slot all slot r s = Some t \<and> bookkeeping (set_slots all ((slots_of all s)[slot := r]) s) t"
proof (cases "slots_of all s ! slot = r")
  case True
  then have "(slots_of all s)[slot := r] = slots_of all s" by auto
  then show ?thesis
    using assms(4) True by (simp add: set_slot_def)
next
  case False
  have "slots_of all s ! slot \<in> slot_values s"
    using assms(3,4) by auto
  then obtain replaced where "occupant_of (slots_of all s ! slot) s = Some replaced"
    using occupant_defined [OF assms(1,2)] by blast
  with False known_label(4) [OF assms(1,2,5)] assms(4) show ?thesis
    by (simp add: set_slot_def Let_def upd_stats_def slot_write_def log_event_def bookkeeping_def
        core_def set_slots_def slots_of_def)
qed

subsection \<open>Publishing\<close>

lemma tab_update: "r \<noteq> 0 \<Longrightarrow> i < length slots \<Longrightarrow> tab (slots[i := r]) = (tab slots)(i := Some r)"
  by (rule ext) (simp add: tab_def nth_list_update)

lemma tab_clear: "i < length slots \<Longrightarrow> tab (slots[i := 0]) = (tab slots)(i := None)"
  by (rule ext) (simp add: tab_def nth_list_update)

lemma is_label_cong: "cc_fragments t = cc_fragments s \<Longrightarrow> is_label t r i j = is_label s r i j"
  by (simp add: is_label_def)

lemma tables_cong:
  assumes "cc_layout t = cc_layout s" "cc_record_owner t = cc_record_owner s"
    "cc_fragments t = cc_fragments s"
  shows "labels_ok t = labels_ok s" "occupant_of r t = occupant_of r s" "pc_at t = pc_at s"
    "slot_values t = slot_values s" "class_records t all = class_records s all" "record_pc r t = record_pc r s"
proof -
  have occ: "occupant_of r t = occupant_of r s" for r
    using assms by (simp add: occupant_of_def record_label_def)
  then show "occupant_of r t = occupant_of r s" "record_pc r t = record_pc r s" "pc_at t = pc_at s"
    by (simp_all add: record_pc_def pc_at_def fun_eq_iff)
  show "labels_ok t = labels_ok s" "slot_values t = slot_values s"
    "class_records t all = class_records s all"
    using assms by (simp_all add: labels_ok_def is_label_def slot_values_def class_records_def live_def)
qed

lemma set_slots_fields [simp]:
  "cc_layout (set_slots all slots s) = cc_layout s"
  "cc_record_owner (set_slots all slots s) = cc_record_owner s"
  "cc_fragments (set_slots all slots s) = cc_fragments s"
  "cc_pending (set_slots all slots s) = cc_pending s"
  "cc_by_entry (set_slots all slots s) = cc_by_entry s"
  by (simp_all add: set_slots_def)

text \<open>One planned store is \<open>apply_store\<close> on the table.\<close>

lemma plan_store_effect:
  assumes "area_ok (cc_layout s)" "labels_ok s" "set (slots_of all s) \<subseteq> slot_values s"
    and "st_dst st < length (slots_of all s)" "is_label s r i j"
    and "\<And>k. st_src st = SrcSlot k \<Longrightarrow> k < length (slots_of all s) \<and> slots_of all s ! k \<noteq> 0"
  shows "\<exists>t slots. apply_plan_store all r st s = Some t \<and> bookkeeping (set_slots all slots s) t
    \<and> length slots = length (slots_of all s) \<and> set slots \<subseteq> slot_values s
    \<and> tab slots = apply_store r st (tab (slots_of all s))"
proof -
  define v where "v = (case st_src st of SrcNew \<Rightarrow> r | SrcSlot k \<Rightarrow> slots_of all s ! k)"
  have r: "r \<noteq> 0" "r \<in> slot_values s"
    using known_label(1) [OF assms(1,2,5)] assms(5) by (auto simp: slot_values_def)
  have v: "v \<in> slot_values s" "v \<noteq> 0"
    using r assms(3,6) by (auto simp: v_def split: ibtc_source.splits)
  then obtain i' j' where "is_label s v i' j'" by (auto simp: slot_values_def)
  from set_slot_effect [OF assms(1-4) this]
  obtain t where t: "set_slot all (st_dst st) v s = Some t"
      "bookkeeping (set_slots all ((slots_of all s)[st_dst st := v]) s) t"
    by blast
  have "apply_plan_store all r st s = Some t"
    using t(1) assms(6) by (auto simp: apply_plan_store_def v_def split: ibtc_source.splits)
  moreover have "tab ((slots_of all s)[st_dst st := v]) = apply_store r st (tab (slots_of all s))"
    using tab_update [OF v(2) assms(4)] assms(6)
    by (auto simp: apply_store_def v_def tab_def split: ibtc_source.splits)
  moreover have "set ((slots_of all s)[st_dst st := v]) \<subseteq> slot_values s"
    using set_update_subset_insert [of "slots_of all s" "st_dst st" v] assms(3) v(1) by blast
  ultimately show ?thesis
    using t(2) by (metis length_list_update)
qed

text \<open>A state that differs from another in one table and in the bookkeeping.\<close>

definition retabled :: "bool \<Rightarrow> u64 list \<Rightarrow> 'l code_cache \<Rightarrow> 'l code_cache \<Rightarrow> bool" where
  "retabled all slots s t \<longleftrightarrow> bookkeeping (set_slots all slots s) t"

lemma retabled_facts:
  assumes "retabled all slots s t"
  shows "slots_of all t = slots" "slots_of (\<not> all) t = slots_of (\<not> all) s"
    and "cc_layout t = cc_layout s" "cc_fragments t = cc_fragments s"
    and "cc_record_owner t = cc_record_owner s" "cc_pending t = cc_pending s" "cc_by_entry t = cc_by_entry s"
    and "labels_ok t = labels_ok s" "pc_at t = pc_at s" "slot_values t = slot_values s"
    and "class_records t b = class_records s b" "is_label t r i j = is_label s r i j"
proof -
  note b = bookkeeping_fields [OF assms [unfolded retabled_def]]
  show "cc_layout t = cc_layout s" "cc_fragments t = cc_fragments s"
    "cc_record_owner t = cc_record_owner s" "cc_pending t = cc_pending s" "cc_by_entry t = cc_by_entry s"
    using b(1,4,5,8,10) by simp_all
  then show "labels_ok t = labels_ok s" "pc_at t = pc_at s" "slot_values t = slot_values s"
    "class_records t b = class_records s b" "is_label t r i j = is_label s r i j"
    using tables_cong [of t s] by (simp_all add: is_label_def)
  have "slots_of x t = slots_of x (set_slots all slots s)" for x
    using b(6,7) by (simp add: slots_of_def)
  then show "slots_of all t = slots" "slots_of (\<not> all) t = slots_of (\<not> all) s"
    by simp_all
qed

lemma retabled_refl [simp]: "retabled all (slots_of all s) s s"
  by (simp add: retabled_def)

lemma retabled_trans:
  assumes "retabled all slots s t" "retabled all slots' t u"
  shows "retabled all slots' s u"
proof -
  have "bookkeeping (set_slots all slots' (set_slots all slots s)) (set_slots all slots' t)"
    using assms(1) unfolding retabled_def bookkeeping_def
    by (cases s, cases t) (simp add: core_def set_slots_def split: if_splits)
  moreover have "set_slots all slots' (set_slots all slots s) = set_slots all slots' s"
    by (simp add: set_slots_def)
  ultimately show ?thesis
    using assms(2) bookkeeping_trans by (fastforce simp: retabled_def)
qed

text \<open>A publish of the code is a publish of the table.\<close>

lemma publish_into_refines:
  assumes s: "area_ok (cc_layout s)" "labels_ok s" "set (slots_of all s) \<subseteq> slot_values s"
    and len: "length (slots_of all s) = IBTC_TABLE_WORDS" and r: "is_label s r i j"
    and wf: "table_wf (pc_at s) (tab (slots_of all s))"
  shows "\<exists>t slots. publish_into all r (pc_at s r) s = Some t \<and> retabled all slots s t
    \<and> length slots = IBTC_TABLE_WORDS \<and> tab slots = publish (pc_at s) r (tab (slots_of all s))"
proof -
  let ?T = "tab (slots_of all s)" and ?pc = "pc_at s r"
  let ?main = "ibtc_slot_index ?pc" and ?victim = "ibtc_victim_index ?pc"
  have bound: "ibtc_slot_index x < IBTC_TABLE_WORDS" "ibtc_victim_index x < IBTC_TABLE_WORDS" for x
    using slot_index_lt [of x] victim_index_bounds(2) [of x] by (simp_all add: IBTC_TABLE_WORDS_def)
  have val: "slots_of all s ! k \<in> slot_values s" if "k < IBTC_TABLE_WORDS" for k
    using s(3) that len by auto
  have res: "resident all s k = map_option (pc_at s) (?T k)" if "k < IBTC_TABLE_WORDS" for k
    using occupant_defined(2) [OF s(1,2) val [OF that]] that len
    by (simp add: resident_def tab_def)
  have plan: "ibtc_plan_publish ?pc (resident all s) = ibtc_plan_publish ?pc (\<lambda>k. map_option (pc_at s) (?T k))"
    by (simp only: ibtc_plan_publish_def Let_def res [OF bound(1)] res [OF bound(2)])
  have probes: "list_all (\<lambda>slot. slot < length (slots_of all s) \<and> record_pc (slots_of all s ! slot) s \<noteq> None)
      (ibtc_lookup_slots ?pc)"
    using occupant_defined(2) [OF s(1,2) val] bound by (simp add: ibtc_lookup_slots_def len)
  have one: "\<exists>t slots. apply_plan_store all r \<lparr>st_dst = ?main, st_src = SrcNew\<rparr> u = Some t
      \<and> retabled all slots u t \<and> length slots = IBTC_TABLE_WORDS
      \<and> tab slots = apply_store r \<lparr>st_dst = ?main, st_src = SrcNew\<rparr> (tab (slots_of all u))"
    if u: "retabled all slots s u" "length slots = IBTC_TABLE_WORDS" "set slots \<subseteq> slot_values s" for u slots
    using plan_store_effect [of u all "\<lparr>st_dst = ?main, st_src = SrcNew\<rparr>" r i j] s r bound u
    by (simp add: retabled_facts [OF u(1)] retabled_def [symmetric]) blast
  have eval: "publish_into all r ?pc s =
      ofold (apply_plan_store all r) (ibtc_plan_publish ?pc (\<lambda>k. map_option (pc_at s) (?T k))) s"
    unfolding publish_into_def plan using probes by (rule if_P)
  show ?thesis
  proof (cases "map_option (pc_at s) (?T ?main) = Some ?pc \<or> map_option (pc_at s) (?T ?victim) = Some ?pc")
    case True
    then have "ibtc_plan_publish ?pc (\<lambda>k. map_option (pc_at s) (?T k)) = []"
      unfolding ibtc_plan_publish_def Let_def by (rule if_P)
    then show ?thesis
      unfolding eval publish_def apply_stores_def
      by (intro exI [of _ s] exI [of _ "slots_of all s"]) (simp add: len)
  next
    case False
    note F = this
    show ?thesis
    proof (cases "?T ?main")
      case None
      then have p: "ibtc_plan_publish ?pc (\<lambda>k. map_option (pc_at s) (?T k)) = [\<lparr>st_dst = ?main, st_src = SrcNew\<rparr>]"
        using F by (simp add: ibtc_plan_publish_def Let_def)
      show ?thesis
        unfolding eval publish_def apply_stores_def p using one [OF retabled_refl len s(3)] by auto
    next
      case (Some q)
      define mv where "mv = \<lparr>st_dst = ibtc_victim_index (pc_at s q), st_src = SrcSlot ?main\<rparr>"
      have p: "ibtc_plan_publish ?pc (\<lambda>k. map_option (pc_at s) (?T k)) = [mv, \<lparr>st_dst = ?main, st_src = SrcNew\<rparr>]"
        using F Some by (simp add: ibtc_plan_publish_def Let_def mv_def)
      have "slots_of all s ! ?main \<noteq> 0"
        using Some by (simp add: tab_def split: if_splits)
      then obtain u slots where u: "apply_plan_store all r mv s = Some u" "retabled all slots s u"
          "length slots = IBTC_TABLE_WORDS" "set slots \<subseteq> slot_values s" "tab slots = apply_store r mv ?T"
        using plan_store_effect [of s all mv r i j] s r bound len by (auto simp: mv_def retabled_def)
      obtain t slots' where t: "apply_plan_store all r \<lparr>st_dst = ?main, st_src = SrcNew\<rparr> u = Some t"
          "retabled all slots' u t" "length slots' = IBTC_TABLE_WORDS"
          "tab slots' = apply_store r \<lparr>st_dst = ?main, st_src = SrcNew\<rparr> (tab slots)"
        using one [OF u(2-4)] by (auto simp: retabled_facts [OF u(2)])
      show ?thesis
        unfolding eval publish_def apply_stores_def p
        using u(1,5) t retabled_trans [OF u(2) t(2)] by (intro exI [of _ t] exI [of _ slots']) simp
    qed
  qed
qed

text \<open>The invariant survives a publish of a record the table may hold, and the record is found.\<close>

lemma publish_into_ok:
  assumes s: "area_ok (cc_layout s)" "labels_ok s" "table_ok s all" "r \<in> class_records s all"
  shows "\<exists>t slots. publish_into all r (pc_at s r) s = Some t \<and> retabled all slots s t \<and> table_ok t all
    \<and> (\<exists>q. lookup (pc_at s) (tab slots) (pc_at s r) = Some q)"
proof -
  obtain i j where "is_label s r i j" using s(4) by (auto simp: class_records_def)
  moreover have len: "length (slots_of all s) = IBTC_TABLE_WORDS"
    and wf: "table_wf (pc_at s) (tab (slots_of all s))"
    and sub: "held (tab (slots_of all s)) \<subseteq> class_records s all"
    using s(3) by (simp_all add: table_ok_def)
  ultimately obtain t slots where t: "publish_into all r (pc_at s r) s = Some t" "retabled all slots s t"
      "length slots = IBTC_TABLE_WORDS" "tab slots = publish (pc_at s) r (tab (slots_of all s))"
    using publish_into_refines [OF s(1,2) table_ok_values [OF s(3)]] by blast
  have "table_ok t all"
    using t(3) wf_publish [OF wf, of r] held_publish [of "pc_at s" r "tab (slots_of all s)"] sub s(4)
    by (auto simp: table_ok_def retabled_facts [OF t(2)] t(4))
  moreover have "\<exists>q. lookup (pc_at s) (tab slots) (pc_at s r) = Some q"
    using lookup_publish [of "pc_at s" r] by (simp add: t(4))
  ultimately show ?thesis using t(1,2) by blast
qed

lemma table_ok_other:
  assumes "retabled all slots s t" "table_ok s (\<not> all)"
  shows "table_ok t (\<not> all)"
  using assms(2) by (simp add: table_ok_def retabled_facts [OF assms(1)])

text \<open>What a dispatch finds in a table the invariant holds of: a live fragment of the class.\<close>

lemma cache_lookup_refines:
  assumes "area_ok (cc_layout s)" "labels_ok s" "table_ok s all"
  shows "cache_lookup all pc s =
    Some (map_option (\<lambda>r. fst (the (record_label r s))) (lookup (pc_at s) (tab (slots_of all s)) pc))"
proof -
  let ?sl = "slots_of all s"
  let ?m = "ibtc_slot_index pc" and ?v = "ibtc_victim_index pc"
  have len: "length ?sl = IBTC_TABLE_WORDS" using assms(3) by (simp add: table_ok_def)
  have bound: "?m < length ?sl" "?v < length ?sl"
    using slot_index_lt [of pc] victim_index_bounds(2) [of pc] by (simp_all add: len IBTC_TABLE_WORDS_def)
  have rp: "record_pc (?sl ! k) s = Some (map_option (pc_at s) (tab ?sl k))" if "k < length ?sl" for k
  proof -
    have "?sl ! k \<in> slot_values s"
      using table_ok_values [OF assms(3)] that by auto
    then show ?thesis
      using occupant_defined(2) [OF assms(1,2)] that by (simp add: tab_def)
  qed
  have rl: "\<exists>i j. record_label (?sl ! k) s = Some (i, j)" if "tab ?sl k \<noteq> None" for k
  proof -
    have "?sl ! k \<in> held (tab ?sl)"
      using that by (auto simp: tab_def held_def ran_def split: if_splits)
    then obtain i j where "is_label s (?sl ! k) i j"
      using assms(3) by (auto simp: table_ok_def class_records_def)
    then show ?thesis using known_label(3) [OF assms(1,2)] by blast
  qed
  have tb: "tab ?sl k = (if ?sl ! k = 0 then None else Some (?sl ! k))" if "k < length ?sl" for k
    using that by (simp add: tab_def)
  show ?thesis
    using rl [of ?m] rl [of ?v]
    by (auto simp: cache_lookup_def ibtc_lookup_slots_def lookup_def bound rp [OF bound(1)] rp [OF bound(2)]
        tb [OF bound(1)] tb [OF bound(2)])
qed

subsection \<open>Clearing\<close>

text \<open>The state but for the tables and the bookkeeping.\<close>

definition tableless :: "'l code_cache \<Rightarrow> 'l code_cache" where
  "tableless s = (core s)\<lparr>cc_slots_all := [], cc_slots_nofp := []\<rparr>"

definition same_rest :: "'l code_cache \<Rightarrow> 'l code_cache \<Rightarrow> bool" where
  "same_rest s t \<longleftrightarrow> tableless t = tableless s"

lemma same_rest_refl [simp]: "same_rest s s"
  by (simp add: same_rest_def)

lemma same_rest_trans: "same_rest s t \<Longrightarrow> same_rest t u \<Longrightarrow> same_rest s u"
  by (simp add: same_rest_def)

lemma same_rest_fields:
  assumes "same_rest s t"
  shows "cc_layout t = cc_layout s" "cc_text t = cc_text s" "cc_loader t = cc_loader s"
    "cc_fragments t = cc_fragments s" "cc_by_entry t = cc_by_entry s"
    "cc_record_owner t = cc_record_owner s" "cc_linking t = cc_linking s" "cc_pending t = cc_pending s"
    "cc_code_patches t = cc_code_patches s" "cc_chain_budget t = cc_chain_budget s"
    "cc_run_entries t = cc_run_entries s" "cc_miss_policy t = cc_miss_policy s"
    "cc_entered t = cc_entered s" "cc_chain_capped t = cc_chain_capped s"
  using assms
  by (cases s, cases t, simp add: same_rest_def tableless_def core_def)+

lemma retabled_same_rest: "retabled all slots s t \<Longrightarrow> same_rest s t"
  by (cases s, cases t)
    (simp add: retabled_def bookkeeping_def same_rest_def tableless_def core_def set_slots_def split: if_splits)

lemma clear_slot_effect:
  assumes "slot < length (slots_of all s)"
  shows "\<exists>t. clear_slot r (slot, all) s = Some t
    \<and> retabled all (if slots_of all s ! slot = r then (slots_of all s)[slot := 0] else slots_of all s) s t"
  using assms
  by (simp add: clear_slot_def retabled_def bookkeeping_def core_def slot_write_def upd_stats_def
      set_slots_def slots_of_def)

definition clear_at :: "u64 \<Rightarrow> nat \<Rightarrow> u64 table \<Rightarrow> u64 table" where
  "clear_at r slot t = (if t slot = Some r then t(slot := None) else t)"

lemma clear_at_both:
  "clear_at r (ibtc_victim_index (pcf r)) (clear_at r (ibtc_slot_index (pcf r)) t) = clear pcf r t"
  by (rule ext) (auto simp: clear_at_def clear_def)

lemma clear_slot_tab:
  assumes "slot < length (slots_of all s)" "r \<noteq> 0"
  shows "\<exists>t. clear_slot r (slot, all) s = Some t \<and> same_rest s t
    \<and> slots_of (\<not> all) t = slots_of (\<not> all) s
    \<and> length (slots_of all t) = length (slots_of all s)
    \<and> tab (slots_of all t) = clear_at r slot (tab (slots_of all s))"
proof -
  let ?slots = "if slots_of all s ! slot = r then (slots_of all s)[slot := 0] else slots_of all s"
  obtain t where t: "clear_slot r (slot, all) s = Some t" "retabled all ?slots s t"
    using clear_slot_effect [OF assms(1)] by blast
  have "tab ?slots = clear_at r slot (tab (slots_of all s))"
    using assms tab_clear [OF assms(1)] by (auto simp: clear_at_def tab_def)
  moreover have "length ?slots = length (slots_of all s)" by simp
  ultimately show ?thesis
    using t(1) retabled_facts(1,2) [OF t(2)] retabled_same_rest [OF t(2)] by auto
qed

lemma clear_label_effect:
  assumes len: "\<And>all. length (slots_of all s) = IBTC_TABLE_WORDS"
    and l: "lb_record l \<noteq> 0" "pcf (lb_record l) = lb_pc l"
  shows "\<exists>t. clear_label l s = Some t \<and> same_rest s t \<and> (\<forall>all. length (slots_of all t) = IBTC_TABLE_WORDS)
    \<and> (\<forall>all. tab (slots_of all t) = clear pcf (lb_record l) (tab (slots_of all s)))"
proof -
  let ?r = "lb_record l" and ?m = "ibtc_slot_index (lb_pc l)" and ?v = "ibtc_victim_index (lb_pc l)"
  have bound: "?m < IBTC_TABLE_WORDS" "?v < IBTC_TABLE_WORDS"
    using slot_index_lt [of "lb_pc l"] victim_index_bounds(2) [of "lb_pc l"]
    by (simp_all add: IBTC_TABLE_WORDS_def)
  have step: "\<exists>t. clear_slot ?r (slot, all) u = Some t \<and> same_rest s t
      \<and> (\<forall>b. length (slots_of b t) = IBTC_TABLE_WORDS)
      \<and> (\<forall>b. tab (slots_of b t) = (if b = all then clear_at ?r slot (T b) else T b))"
    if "same_rest s u" "\<forall>b. length (slots_of b u) = IBTC_TABLE_WORDS" "\<forall>b. tab (slots_of b u) = T b"
      "slot < IBTC_TABLE_WORDS" for u T slot all
  proof -
    have "slot < length (slots_of all u)" using that(2,4) by simp
    then obtain t where t: "clear_slot ?r (slot, all) u = Some t" "same_rest u t"
        "slots_of (\<not> all) t = slots_of (\<not> all) u" "length (slots_of all t) = length (slots_of all u)"
        "tab (slots_of all t) = clear_at ?r slot (tab (slots_of all u))"
      using clear_slot_tab [of slot all u ?r] l(1) by blast
    have other: "slots_of b t = slots_of b u" if "b \<noteq> all" for b
      using t(3) that by (cases b; cases all) auto
    have "length (slots_of b t) = IBTC_TABLE_WORDS
        \<and> tab (slots_of b t) = (if b = all then clear_at ?r slot (T b) else T b)" for b
      using t(4,5) other [of b] that(2,3) by (cases "b = all") auto
    then show ?thesis
      using t(1,2) that(1) same_rest_trans by blast
  qed
  define T0 where "T0 = (\<lambda>b. tab (slots_of b s))"
  obtain s1 where s1: "clear_slot ?r (?m, True) s = Some s1" "same_rest s s1"
      "\<forall>b. length (slots_of b s1) = IBTC_TABLE_WORDS"
      "\<forall>b. tab (slots_of b s1) = (if b then clear_at ?r ?m (T0 b) else T0 b)"
    using step [of s T0 ?m True] bound len by (auto simp: T0_def)
  obtain s2 where s2: "clear_slot ?r (?m, False) s1 = Some s2" "same_rest s s2"
      "\<forall>b. length (slots_of b s2) = IBTC_TABLE_WORDS"
      "\<forall>b. tab (slots_of b s2) = clear_at ?r ?m (T0 b)"
    using step [OF s1(2-4) bound(1), of False] by (auto simp: all_bool_eq)
  obtain s3 where s3: "clear_slot ?r (?v, True) s2 = Some s3" "same_rest s s3"
      "\<forall>b. length (slots_of b s3) = IBTC_TABLE_WORDS"
      "\<forall>b. tab (slots_of b s3) = (if b then clear_at ?r ?v (clear_at ?r ?m (T0 b)) else clear_at ?r ?m (T0 b))"
    using step [OF s2(2-4) bound(2), of True] by (auto simp: all_bool_eq)
  obtain s4 where s4: "clear_slot ?r (?v, False) s3 = Some s4" "same_rest s s4"
      "\<forall>b. length (slots_of b s4) = IBTC_TABLE_WORDS"
      "\<forall>b. tab (slots_of b s4) = clear_at ?r ?v (clear_at ?r ?m (T0 b))"
    using step [OF s3(2-4) bound(2), of False] by (auto simp: all_bool_eq)
  have "clear_label l s = Some s4"
    using s1(1) s2(1) s3(1) s4(1) by (simp add: clear_label_def ibtc_lookup_slots_def)
  then show ?thesis
    using s4 clear_at_both [of ?r pcf] l(2) by (auto simp: T0_def)
qed

text \<open>Clearing every label of a list: their records are gone, the rest of the tables is kept.\<close>

lemma clear_labels_effect:
  assumes "\<forall>all. length (slots_of all s) = IBTC_TABLE_WORDS"
    and "\<forall>all. table_wf pcf (tab (slots_of all s))"
    and "\<And>l. l \<in> set ls \<Longrightarrow> lb_record l \<noteq> 0 \<and> pcf (lb_record l) = lb_pc l"
  shows "\<exists>t. ofold clear_label ls s = Some t \<and> same_rest s t
    \<and> (\<forall>all. length (slots_of all t) = IBTC_TABLE_WORDS)
    \<and> (\<forall>all. table_wf pcf (tab (slots_of all t)))
    \<and> (\<forall>all. held (tab (slots_of all t)) \<subseteq> held (tab (slots_of all s)) - lb_record ` set ls)"
  using assms
proof (induction ls arbitrary: s)
  case Nil
  then show ?case by simp
next
  case (Cons l ls)
  obtain u where u: "clear_label l s = Some u" "same_rest s u"
      "\<forall>all. length (slots_of all u) = IBTC_TABLE_WORDS"
      "\<forall>all. tab (slots_of all u) = clear pcf (lb_record l) (tab (slots_of all s))"
    using clear_label_effect [of s l pcf] Cons.prems by auto
  have wf: "\<forall>all. table_wf pcf (tab (slots_of all u))"
    using u(4) Cons.prems(2) wf_clear by metis
  have held: "held (tab (slots_of all u)) \<subseteq> held (tab (slots_of all s)) - {lb_record l}" for all
    using u(4) Cons.prems(2) held_clear by metis
  obtain t where "ofold clear_label ls u = Some t" "same_rest u t"
      "\<forall>all. length (slots_of all t) = IBTC_TABLE_WORDS" "\<forall>all. table_wf pcf (tab (slots_of all t))"
      "\<forall>all. held (tab (slots_of all t)) \<subseteq> held (tab (slots_of all u)) - lb_record ` set ls"
    using Cons.IH [OF u(3) wf] Cons.prems(3) by auto
  then show ?case
    using u(1,2) held same_rest_trans [of s u t] by (intro exI [of _ t]) fastforce
qed

end
