(* ===== verification/CacheLinks.thy ===== *)
theory CacheLinks
  imports CacheTables
begin

section \<open>The links of the cache\<close>

text \<open>
  The invariant of direct links: a site of a live fragment is pending, with a \<open>nop\<close> in its slot, or
  linked, with the branch to a label of a live fragment for exactly its target; the pending lists and
  the incoming lists hold exactly those sites. It is stated over the map \<open>V\<close> of the sites in view and
  the incoming lists \<open>I\<close>, so that it also describes the states between the steps of an operation.
\<close>

subsection \<open>The invariant\<close>

type_synonym site_map = "nat \<times> nat \<Rightarrow> link_site option"

definition site :: "'l code_cache \<Rightarrow> site_map" where
  "site s = (\<lambda>(i, k). if live s i \<and> k < length (cf_links (cc_fragments s ! i))
     then Some (cf_links (cc_fragments s ! i) ! k) else None)"

definition incoming :: "'l code_cache \<Rightarrow> nat \<Rightarrow> (nat \<times> nat) list" where
  "incoming s t = (if t < length (cc_fragments s) then cf_incoming (cc_fragments s ! t) else [])"

definition pend_ok :: "site_map \<Rightarrow> (u64 \<Rightarrow> (nat \<times> nat) list) \<Rightarrow> bool" where
  "pend_ok V W \<longleftrightarrow> (\<forall>pc. distinct (W pc)
    \<and> set (W pc) = {x. \<exists>y. V x = Some y \<and> ls_target y = pc \<and> ls_linked y = None})"

definition inc_ok :: "site_map \<Rightarrow> (nat \<Rightarrow> (nat \<times> nat) list) \<Rightarrow> bool" where
  "inc_ok V I \<longleftrightarrow> (\<forall>t. distinct (I t) \<and> set (I t) = {x. \<exists>y l. V x = Some y \<and> ls_linked y = Some (t, l)})"

definition slot_holds :: "cached_fragment \<Rightarrow> nat \<Rightarrow> u32 \<Rightarrow> bool" where
  "slot_holds f slot w \<longleftrightarrow> slot mod 4 = 0 \<and> slot div 4 < length (ef_insns (cf_fragment f))
    \<and> encode (ef_insns (cf_fragment f) ! (slot div 4)) = Some w
    \<and> (slot + 4 \<le> length (cf_encoded f) \<longrightarrow> take 4 (drop slot (cf_encoded f)) = le_bytes w)"

text \<open>The label a site may link to: of a live fragment, for its target, of its class.\<close>

definition link_target :: "cached_fragment list \<Rightarrow> cached_fragment \<Rightarrow> link_site \<Rightarrow> nat \<Rightarrow> nat \<Rightarrow> bool" where
  "link_target F f y t l \<longleftrightarrow> t < length F \<and> \<not> cf_retired (F ! t) \<and> l < length (cf_labels (F ! t))
    \<and> lb_pc (cf_labels (F ! t) ! l) = ls_target y \<and> (cf_uses_fpsimd (F ! t) \<longrightarrow> cf_uses_fpsimd f)"

definition link_ok :: "cached_fragment list \<Rightarrow> nat \<Rightarrow> link_site \<Rightarrow> bool" where
  "link_ok F i y \<longleftrightarrow> i < length F \<and>
    (case ls_linked y of
       None \<Rightarrow> slot_holds (F ! i) (ls_slot y) LINK_NOP_WORD
     | Some (t, l) \<Rightarrow> link_target F (F ! i) y t l \<and>
         (\<exists>w. link_branch_word (cf_base (F ! i) + of_nat (ls_slot y)) (host (F ! t) (cf_labels (F ! t) ! l)) = Some w
            \<and> slot_holds (F ! i) (ls_slot y) w))"

definition slots_distinct :: "site_map \<Rightarrow> bool" where
  "slots_distinct V \<longleftrightarrow> (\<forall>i k k' y y'. V (i, k) = Some y \<longrightarrow> V (i, k') = Some y'
    \<longrightarrow> ls_slot y = ls_slot y' \<longrightarrow> k = k')"

definition link_inv :: "site_map \<Rightarrow> (nat \<Rightarrow> (nat \<times> nat) list) \<Rightarrow> 'l code_cache \<Rightarrow> bool" where
  "link_inv V I s \<longleftrightarrow> distinct (map fst (cc_pending s)) \<and> pend_ok V (waiting s) \<and> inc_ok V I
    \<and> (\<forall>x y. V x = Some y \<longrightarrow> link_ok (cc_fragments s) (fst x) y) \<and> slots_distinct V"

definition links_ok :: "'l code_cache \<Rightarrow> bool" where
  "links_ok s \<longleftrightarrow> link_inv (site s) (incoming s) s"

lemma link_invD:
  assumes "link_inv V I s"
  shows "distinct (map fst (cc_pending s))" "pend_ok V (waiting s)" "inc_ok V I" "slots_distinct V"
    and "V x = Some y \<Longrightarrow> link_ok (cc_fragments s) (fst x) y"
  using assms unfolding link_inv_def by blast+

subsection \<open>Steps on the site map\<close>

lemma pend_ok_link:
  assumes "pend_ok V W" "V x = Some y" "ls_linked y = None"
  shows "pend_ok (V(x \<mapsto> y\<lparr>ls_linked := Some c\<rparr>)) (W(ls_target y := filter (\<lambda>e. e \<noteq> x) (W (ls_target y))))"
  using assms by (auto simp: pend_ok_def)

lemma inc_ok_link:
  assumes "inc_ok V I" "V x = Some y" "ls_linked y = None"
  shows "inc_ok (V(x \<mapsto> y\<lparr>ls_linked := Some (t, l)\<rparr>)) (I(t := I t @ [x]))"
  using assms by (auto simp: inc_ok_def)

lemma pend_ok_restore:
  assumes "pend_ok V W" "V x = Some y" "ls_linked y = Some c"
  shows "pend_ok (V(x \<mapsto> y\<lparr>ls_linked := None\<rparr>)) (W(ls_target y := W (ls_target y) @ [x]))"
  using assms by (auto simp: pend_ok_def)

lemma inc_ok_restore:
  assumes "inc_ok V (I(t := x # rest))" "V x = Some y" "ls_linked y = Some (t, l)"
  shows "inc_ok (V(x \<mapsto> y\<lparr>ls_linked := None\<rparr>)) (I(t := rest))"
  unfolding inc_ok_def
proof (intro allI conjI)
  fix u
  have d: "distinct ((I(t := x # rest)) u)"
    and S: "set ((I(t := x # rest)) u) = {x. \<exists>y l. V x = Some y \<and> ls_linked y = Some (u, l)}"
    using assms(1) by (auto simp: inc_ok_def)
  show "distinct ((I(t := rest)) u)"
    using d by (auto split: if_splits)
  show "set ((I(t := rest)) u) =
      {z. \<exists>y' l. (V(x \<mapsto> y\<lparr>ls_linked := None\<rparr>)) z = Some y' \<and> ls_linked y' = Some (u, l)}"
  proof (cases "u = t")
    case True
    then have "set rest = set (x # rest) - {x}" using d by auto
    then show ?thesis using S assms(2,3) True by auto
  next
    case False
    then show ?thesis using S assms(2,3) by auto
  qed
qed

lemma pend_ok_drop:
  assumes "pend_ok V W" "V x = Some y"
  shows "ls_linked y = None \<Longrightarrow> pend_ok (V(x := None)) (W(ls_target y := filter (\<lambda>e. e \<noteq> x) (W (ls_target y))))"
    and "ls_linked y = Some c \<Longrightarrow> pend_ok (V(x := None)) W"
  using assms by (auto simp: pend_ok_def)

lemma inc_ok_drop:
  assumes "inc_ok V I" "V x = Some y"
  shows "ls_linked y = None \<Longrightarrow> inc_ok (V(x := None)) I"
    and "ls_linked y = Some (t, l) \<Longrightarrow> inc_ok (V(x := None)) (I(t := filter (\<lambda>e. e \<noteq> x) (I t)))"
  using assms by (auto simp: inc_ok_def)

lemma pend_ok_add:
  assumes "pend_ok V W" "V x = None" "ls_linked y = None"
  shows "pend_ok (V(x \<mapsto> y)) (W(ls_target y := W (ls_target y) @ [x]))"
  using assms by (auto simp: pend_ok_def)

lemma inc_ok_add:
  assumes "inc_ok V I" "V x = None" "ls_linked y = None"
  shows "inc_ok (V(x \<mapsto> y)) I"
  using assms by (auto simp: inc_ok_def)

lemma slots_distinct_upd:
  assumes "slots_distinct V" "V x = Some y" "ls_slot y' = ls_slot y"
  shows "slots_distinct (V(x \<mapsto> y'))"
  unfolding slots_distinct_def
proof (intro allI impI)
  fix i k k' u u'
  assume u: "(V(x \<mapsto> y')) (i, k) = Some u" "(V(x \<mapsto> y')) (i, k') = Some u'" "ls_slot u = ls_slot u'"
  have "\<exists>v. V z = Some v \<and> ls_slot v = ls_slot w" if "(V(x \<mapsto> y')) z = Some w" for z w
    using that assms(2,3) by (cases "z = x") auto
  then obtain v v' where "V (i, k) = Some v" "V (i, k') = Some v'" "ls_slot v = ls_slot v'"
    using u by metis
  then show "k = k'"
    using assms(1) unfolding slots_distinct_def by blast
qed

lemma slots_distinct_drop: "slots_distinct V \<Longrightarrow> slots_distinct (V(x := None))"
  unfolding slots_distinct_def by (auto split: if_splits)

subsection \<open>Pending lists\<close>

lemma waiting_push: "waiting (push_pending pc x s) = (waiting s)(pc := waiting s pc @ [x])"
  by (rule ext) (simp add: waiting_def push_pending_def update_conv')

lemma waiting_drop:
  "waiting (drop_pending pc x s) = (waiting s)(pc := filter (\<lambda>e. e \<noteq> x) (waiting s pc))"
  by (rule ext) (auto simp: waiting_def drop_pending_def Let_def update_conv' delete_conv' split: option.splits)

lemma pending_keys:
  assumes "distinct (map fst (cc_pending s))"
  shows "distinct (map fst (cc_pending (push_pending pc x s)))"
    and "distinct (map fst (cc_pending (drop_pending pc x s)))"
  using assms
  by (auto simp: push_pending_def drop_pending_def Let_def distinct_update distinct_delete split: option.splits)

lemma pending_fragments [simp]:
  "cc_fragments (push_pending pc x s) = cc_fragments s" "cc_fragments (drop_pending pc x s) = cc_fragments s"
  by (auto simp: push_pending_def drop_pending_def Let_def split: option.splits)

subsection \<open>What the link operations leave alone\<close>

definition bare :: "cached_fragment \<Rightarrow> cached_fragment" where
  "bare f = f\<lparr>cf_fragment := (cf_fragment f)\<lparr>ef_insns := map (\<lambda>_. Sys Nop) (ef_insns (cf_fragment f))\<rparr>,
     cf_encoded := map (\<lambda>_. 0) (cf_encoded f), cf_links := map (\<lambda>y. y\<lparr>ls_linked := None\<rparr>) (cf_links f),
     cf_incoming := []\<rparr>"

definition linkless :: "'l code_cache \<Rightarrow> 'l code_cache" where
  "linkless s = s\<lparr>cc_fragments := map bare (cc_fragments s), cc_pending := [], cc_code_patches := [],
     cc_stats := zero_stats, cc_events := None\<rparr>"

definition same_frame :: "'l code_cache \<Rightarrow> 'l code_cache \<Rightarrow> bool" where
  "same_frame s t \<longleftrightarrow> linkless t = linkless s"

lemma same_frame_refl [simp]: "same_frame s s"
  by (simp add: same_frame_def)

lemma same_frame_trans: "same_frame s t \<Longrightarrow> same_frame t u \<Longrightarrow> same_frame s u"
  by (simp add: same_frame_def)

lemma same_frame_fields:
  assumes "same_frame s t"
  shows "cc_layout t = cc_layout s" "cc_text t = cc_text s" "cc_loader t = cc_loader s"
    "cc_by_entry t = cc_by_entry s" "cc_slots_all t = cc_slots_all s" "cc_slots_nofp t = cc_slots_nofp s"
    "cc_record_owner t = cc_record_owner s" "cc_writes t = cc_writes s" "cc_linking t = cc_linking s"
    "cc_chain_budget t = cc_chain_budget s" "cc_run_entries t = cc_run_entries s"
    "cc_miss_policy t = cc_miss_policy s" "cc_entered t = cc_entered s"
    "cc_chain_capped t = cc_chain_capped s"
    and "length (cc_fragments t) = length (cc_fragments s)"
  using assms
proof -
  have eq: "linkless t = linkless s" using assms by (simp add: same_frame_def)
  show "cc_layout t = cc_layout s" "cc_text t = cc_text s" "cc_loader t = cc_loader s"
    "cc_by_entry t = cc_by_entry s" "cc_slots_all t = cc_slots_all s" "cc_slots_nofp t = cc_slots_nofp s"
    "cc_record_owner t = cc_record_owner s" "cc_writes t = cc_writes s" "cc_linking t = cc_linking s"
    "cc_chain_budget t = cc_chain_budget s" "cc_run_entries t = cc_run_entries s"
    "cc_miss_policy t = cc_miss_policy s" "cc_entered t = cc_entered s"
    "cc_chain_capped t = cc_chain_capped s"
    using eq by (cases s, cases t, simp add: linkless_def)+
  have "map bare (cc_fragments t) = map bare (cc_fragments s)"
    using arg_cong [OF eq, of cc_fragments] by (simp add: linkless_def)
  then show "length (cc_fragments t) = length (cc_fragments s)"
    by (rule map_eq_imp_length_eq)
qed

lemma bare_fields:
  assumes "bare f = bare g"
  shows "cf_entry_pc f = cf_entry_pc g" "cf_uses_fpsimd f = cf_uses_fpsimd g" "cf_fp_sticky f = cf_fp_sticky g"
    "cf_base f = cf_base g" "cf_retired f = cf_retired g" "cf_labels f = cf_labels g"
    "length (cf_links f) = length (cf_links g)" "length (cf_encoded f) = length (cf_encoded g)"
    "length (ef_insns (cf_fragment f)) = length (ef_insns (cf_fragment g))"
    "ef_entry_labels (cf_fragment f) = ef_entry_labels (cf_fragment g)"
    "ef_link_sites (cf_fragment f) = ef_link_sites (cf_fragment g)"
proof -
  have fields: "cf_entry_pc (bare x) = cf_entry_pc x" "cf_uses_fpsimd (bare x) = cf_uses_fpsimd x"
    "cf_fp_sticky (bare x) = cf_fp_sticky x" "cf_base (bare x) = cf_base x" "cf_retired (bare x) = cf_retired x"
    "cf_labels (bare x) = cf_labels x" "length (cf_links (bare x)) = length (cf_links x)"
    "length (cf_encoded (bare x)) = length (cf_encoded x)"
    "length (ef_insns (cf_fragment (bare x))) = length (ef_insns (cf_fragment x))"
    "ef_entry_labels (cf_fragment (bare x)) = ef_entry_labels (cf_fragment x)"
    "ef_link_sites (cf_fragment (bare x)) = ef_link_sites (cf_fragment x)" for x
    by (simp_all add: bare_def)
  show "cf_entry_pc f = cf_entry_pc g" "cf_uses_fpsimd f = cf_uses_fpsimd g" "cf_fp_sticky f = cf_fp_sticky g"
    "cf_base f = cf_base g" "cf_retired f = cf_retired g" "cf_labels f = cf_labels g"
    "length (cf_links f) = length (cf_links g)" "length (cf_encoded f) = length (cf_encoded g)"
    "length (ef_insns (cf_fragment f)) = length (ef_insns (cf_fragment g))"
    "ef_entry_labels (cf_fragment f) = ef_entry_labels (cf_fragment g)"
    "ef_link_sites (cf_fragment f) = ef_link_sites (cf_fragment g)"
    using fields [of f] fields [of g] assms by simp_all
qed

lemma same_frame_bare:
  assumes "same_frame s t" "i < length (cc_fragments s)"
  shows "bare (cc_fragments t ! i) = bare (cc_fragments s ! i)"
proof -
  have "map bare (cc_fragments t) = map bare (cc_fragments s)"
    using arg_cong [OF assms(1) [unfolded same_frame_def], of cc_fragments] by (simp add: linkless_def)
  then show ?thesis
    using assms(2) same_frame_fields(15) [OF assms(1)] by (metis nth_map)
qed

lemmas same_frame_frag = bare_fields [OF same_frame_bare]

lemma same_frame_live: "same_frame s t \<Longrightarrow> live t i = live s i"
  using same_frame_fields(15) same_frame_frag(5) by (metis live_def)

lemma upd_frag_frame:
  assumes "i < length (cc_fragments s)" "bare (g (cc_fragments s ! i)) = bare (cc_fragments s ! i)"
  shows "same_frame s (upd_frag i g s)"
proof -
  have "map bare ((cc_fragments s)[i := g (cc_fragments s ! i)]) = map bare (cc_fragments s)"
    using assms by (metis list_update_id map_update)
  then show ?thesis
    by (simp add: same_frame_def linkless_def upd_frag_def)
qed

lemma frame_simps [simp]:
  "same_frame s (push_pending pc x t) = same_frame s t"
  "same_frame s (drop_pending pc x t) = same_frame s t"
  "same_frame s (upd_stats h t) = same_frame s t"
  "same_frame s (log_event e t) = same_frame s t"
  by (auto simp: same_frame_def linkless_def push_pending_def drop_pending_def upd_stats_def log_event_def
      Let_def split: option.splits)

subsection \<open>Patching a slot\<close>

lemma patch_bytes_length [simp]: "length (patch_bytes offset w bytes) = length bytes"
  by (simp add: patch_bytes_def)

lemma patch_bytes_here:
  "offset + 4 \<le> length bytes \<Longrightarrow> take 4 (drop offset (patch_bytes offset w bytes)) = le_bytes w"
  by (simp add: patch_bytes_def)

lemma patch_bytes_there:
  assumes "slot + 4 \<le> offset \<or> offset + 4 \<le> slot"
  shows "take 4 (drop slot (patch_bytes offset w bytes)) = take 4 (drop slot bytes)"
proof (cases "offset + 4 \<le> length bytes")
  case True
  from assms show ?thesis
  proof
    assume a: "slot + 4 \<le> offset"
    have "take 4 (drop slot (patch_bytes offset w bytes)) = take 4 (drop slot (take offset bytes))"
      using True a by (simp add: patch_bytes_def)
    also have "\<dots> = take 4 (drop slot bytes)"
      using a by (simp add: drop_take min_def)
    finally show ?thesis .
  next
    assume a: "offset + 4 \<le> slot"
    then have "drop slot (patch_bytes offset w bytes) = drop slot bytes"
      using True by (simp add: patch_bytes_def min_def)
    then show ?thesis by simp
  qed
qed (simp add: patch_bytes_def)

lemma aligned_apart:
  assumes "(a::nat) mod 4 = 0" "b mod 4 = 0" "a \<noteq> b"
  shows "a div 4 \<noteq> b div 4" "a + 4 \<le> b \<or> b + 4 \<le> a"
proof -
  have q: "a = 4 * (a div 4)" "b = 4 * (b div 4)"
    using assms(1,2) mult_div_mod_eq [of 4 a] mult_div_mod_eq [of 4 b] by linarith+
  show "a div 4 \<noteq> b div 4" using q assms(3) by metis
  then show "a + 4 \<le> b \<or> b + 4 \<le> a" using q by linarith
qed

definition patched :: "nat \<Rightarrow> u32 \<Rightarrow> a64_insn \<Rightarrow> cached_fragment \<Rightarrow> cached_fragment" where
  "patched offset w insn f =
    f\<lparr>cf_fragment := (cf_fragment f)\<lparr>ef_insns := (ef_insns (cf_fragment f))[offset div 4 := insn]\<rparr>,
      cf_encoded := patch_bytes offset w (cf_encoded f)\<rparr>"

lemma patched_fields [simp]:
  "cf_links (patched offset w insn f) = cf_links f" "cf_incoming (patched offset w insn f) = cf_incoming f"
  by (simp_all add: patched_def)

lemma bare_patched [simp]: "bare (patched offset w insn f) = bare f"
  by (simp add: bare_def patched_def map_update list_update_same_conv map_replicate_const)

lemma patched_holds:
  assumes "offset mod 4 = 0" "offset div 4 < length (ef_insns (cf_fragment f))" "encode insn = Some w"
  shows "slot_holds (patched offset w insn f) offset w"
  using assms by (simp add: slot_holds_def patched_def patch_bytes_here)

lemma patched_holds_other:
  assumes "offset mod 4 = 0" "slot \<noteq> offset" "slot_holds f slot v"
  shows "slot_holds (patched offset w insn f) slot v"
proof -
  have "slot mod 4 = 0" using assms(3) by (simp add: slot_holds_def)
  note apart = aligned_apart [OF this assms(1,2)]
  show ?thesis
    using assms(3) apart(1) by (simp add: slot_holds_def patched_def patch_bytes_there [OF apart(2)])
qed

lemma patch_code_eq:
  assumes "i < length (cc_fragments s)" "decode_a64_insn w = Some insn"
    "offset div 4 < length (ef_insns (cf_fragment (cc_fragments s ! i)))"
  shows "patch_code i offset w s = Some ((upd_frag i (patched offset w insn) s)
    \<lparr>cc_code_patches := cc_code_patches s @ [\<lparr>cp_fragment = i, cp_offset = offset, cp_word = w\<rparr>]\<rparr>)"
  using assms by (simp add: patch_code_def patched_def upd_frag_def Let_def)

text \<open>The words the cache writes decode to an instruction that encodes to them.\<close>

lemma link_words:
  shows "decode_a64_insn LINK_NOP_WORD = Some (Sys Nop)" "encode (Sys Nop) = Some LINK_NOP_WORD"
    and "link_branch_word a b = Some w \<Longrightarrow> \<exists>insn. decode_a64_insn w = Some insn \<and> encode insn = Some w"
proof -
  have "decode_defined w = Some i \<Longrightarrow> decode_a64_insn w = Some i" for w i
    by (auto simp: decode_defined_def split: option.splits if_splits)
  then show "decode_a64_insn LINK_NOP_WORD = Some (Sys Nop)" "encode (Sys Nop) = Some LINK_NOP_WORD"
    and "link_branch_word a b = Some w \<Longrightarrow> \<exists>insn. decode_a64_insn w = Some insn \<and> encode insn = Some w"
    using nop_word link_word_branches [of a b w] encode_decoded [of w] by blast+
qed

subsection \<open>Making and restoring a link\<close>

lemma link_ok_frame:
  assumes "same_frame s t" "link_ok (cc_fragments s) i y"
    and "\<And>w. slot_holds (cc_fragments s ! i) (ls_slot y) w \<Longrightarrow> slot_holds (cc_fragments t ! i) (ls_slot y) w"
  shows "link_ok (cc_fragments t) i y"
proof -
  have i: "i < length (cc_fragments s)"
    using assms(2) by (simp add: link_ok_def)
  note len = same_frame_fields(15) [OF assms(1)] and fi = same_frame_frag [OF assms(1) i]
  show ?thesis
  proof (cases "ls_linked y")
    case None
    then show ?thesis using assms(2,3) i len by (simp add: link_ok_def)
  next
    case (Some c)
    obtain b l where c: "c = (b, l)" by (cases c)
    have b: "b < length (cc_fragments s)"
      using assms(2) Some c by (simp add: link_ok_def link_target_def)
    note fb = same_frame_frag [OF assms(1) b]
    have h: "host (cc_fragments t ! b) x = host (cc_fragments s ! b) x" for x
      by (simp add: host_def fb)
    show ?thesis
      using assms(2,3) Some c b i by (auto simp: link_ok_def link_target_def len fi fb h)
  qed
qed

lemma same_frame_link_target:
  assumes "same_frame s t" "i < length (cc_fragments s)" "link_target (cc_fragments s) (cc_fragments s ! i) y b l"
  shows "link_target (cc_fragments t) (cc_fragments t ! i) y b l"
proof -
  have b: "b < length (cc_fragments s)" using assms(3) by (simp add: link_target_def)
  show ?thesis
    using assms(3) by (simp add: link_target_def same_frame_fields(15) [OF assms(1)]
        same_frame_frag [OF assms(1,2)] same_frame_frag [OF assms(1) b])
qed

text \<open>A slot is rewritten and its site gets a new state; the other sites keep theirs.\<close>

lemma rewrite_slot:
  assumes inv: "\<And>x y. V x = Some y \<Longrightarrow> link_ok (cc_fragments s) (fst x) y" "slots_distinct V"
    and y: "V (i, k) = Some y" and y': "ls_slot y' = ls_slot y"
    and frame: "same_frame s t"
    and code: "\<And>j slot w. j < length (cc_fragments s) \<Longrightarrow> (j, slot) \<noteq> (i, ls_slot y)
      \<Longrightarrow> slot_holds (cc_fragments s ! j) slot w \<Longrightarrow> slot_holds (cc_fragments t ! j) slot w"
    and new: "link_ok (cc_fragments t) i y'"
  shows "\<forall>x z. (V((i, k) \<mapsto> y')) x = Some z \<longrightarrow> link_ok (cc_fragments t) (fst x) z"
proof (intro allI impI)
  fix x z assume x: "(V((i, k) \<mapsto> y')) x = Some z"
  obtain j m where jm: "x = (j, m)" by (cases x)
  show "link_ok (cc_fragments t) (fst x) z"
  proof (cases "x = (i, k)")
    case True
    then show ?thesis using x new by simp
  next
    case False
    then have "V x = Some z" using x by simp
    then have V: "V (j, m) = Some z" by (simp only: jm)
    have ok: "link_ok (cc_fragments s) j z" using inv(1) [OF V] by simp
    have "(j, ls_slot z) \<noteq> (i, ls_slot y)"
    proof
      assume e: "(j, ls_slot z) = (i, ls_slot y)"
      then have "m = k"
        using inv(2) V y unfolding slots_distinct_def by blast
      then show False using e False jm by simp
    qed
    then have "link_ok (cc_fragments t) j z"
      using link_ok_frame [OF frame ok] code ok by (auto simp: link_ok_def)
    then show ?thesis by (simp add: jm)
  qed
qed

lemma upd_frag_nth:
  "length (cc_fragments (upd_frag i g s)) = length (cc_fragments s)"
  "i < length (cc_fragments s) \<Longrightarrow> cc_fragments (upd_frag i g s) ! i = g (cc_fragments s ! i)"
  "j \<noteq> i \<Longrightarrow> cc_fragments (upd_frag i g s) ! j = cc_fragments s ! j"
  by (simp_all add: upd_frag_def)

lemma upd_frag_other_fields [simp]:
  "cc_pending (upd_frag i g s) = cc_pending s" "waiting (upd_frag i g s) = waiting s"
  by (simp_all add: upd_frag_def waiting_def fun_eq_iff)

lemma code_only_frags [simp]:
  "cc_fragments (upd_stats h s) = cc_fragments s" "cc_fragments (log_event e s) = cc_fragments s"
  "cc_pending (upd_stats h s) = cc_pending s" "cc_pending (log_event e s) = cc_pending s"
  "waiting (upd_stats h s) = waiting s" "waiting (log_event e s) = waiting s"
  "waiting (s\<lparr>cc_code_patches := p\<rparr>) = waiting s"
  by (simp_all add: upd_stats_def log_event_def waiting_def fun_eq_iff)

lemma bare_set_linked [simp]: "k < length (cf_links f) \<Longrightarrow> bare (set_linked k c f) = bare f"
  by (simp add: bare_def set_linked_def map_update list_update_same_conv)

text \<open>
  The two fragments a link operation rewrites: the site's slot and state, then the incoming list of
  the target. \<open>link_frags\<close> is the fragment list after both.
\<close>

definition rewritten :: "nat \<Rightarrow> nat \<Rightarrow> nat \<Rightarrow> u32 \<Rightarrow> a64_insn \<Rightarrow> (nat \<times> nat) option \<Rightarrow> cached_fragment list
    \<Rightarrow> cached_fragment list" where
  "rewritten i k slot w insn c F = F[i := set_linked k c (patched slot w insn (F ! i))]"

lemma make_link_eq:
  assumes "i < length (cc_fragments s)" "k < length (cf_links (cc_fragments s ! i))" "t < length (cc_fragments s)"
    "decode_a64_insn w = Some insn" "ls_slot y div 4 < length (ef_insns (cf_fragment (cc_fragments s ! i)))"
  shows "\<exists>u. make_link i k y t l w s = Some u
    \<and> cc_fragments u = (let F = rewritten i k (ls_slot y) w insn (Some (t, l)) (cc_fragments s)
         in F[t := (F ! t)\<lparr>cf_incoming := cf_incoming (F ! t) @ [(i, k)]\<rparr>])
    \<and> same_frame s u
    \<and> waiting u = (waiting s)(ls_target y := filter (\<lambda>e. e \<noteq> (i, k)) (waiting s (ls_target y)))
    \<and> (distinct (map fst (cc_pending s)) \<longrightarrow> distinct (map fst (cc_pending u)))"
proof -
  let ?p = "\<lparr>cp_fragment = i, cp_offset = ls_slot y, cp_word = w\<rparr>"
  define s1 where "s1 = (upd_frag i (patched (ls_slot y) w insn) s)\<lparr>cc_code_patches := cc_code_patches s @ [?p]\<rparr>"
  define s2 where "s2 = upd_frag i (set_linked k (Some (t, l))) s1"
  define s3 where "s3 = drop_pending (ls_target y) (i, k) s2"
  define s4 where "s4 = upd_frag t (\<lambda>f. f\<lparr>cf_incoming := cf_incoming f @ [(i, k)]\<rparr>) s3"
  define u where "u = log_event (Linked i (ls_slot y) t (ls_target y))
    (upd_stats (\<lambda>st. st\<lparr>cs_link_made := cs_link_made st + 1\<rparr>) s4)"
  have run: "make_link i k y t l w s = Some u"
    using patch_code_eq [OF assms(1,4,5)]
    by (simp add: make_link_def Let_def s1_def [symmetric] s2_def [symmetric] s3_def [symmetric]
        s4_def [symmetric] u_def [symmetric] del: One_nat_def)
  have "same_frame s (upd_frag i (patched (ls_slot y) w insn) s)"
    by (rule upd_frag_frame) (use assms in auto)
  then have f1: "same_frame s s1" by (simp add: s1_def same_frame_def linkless_def)
  have n1: "length (cc_fragments s1) = length (cc_fragments s)"
    "cc_fragments s1 ! i = patched (ls_slot y) w insn (cc_fragments s ! i)"
    using assms(1) by (simp_all add: s1_def upd_frag_nth)
  have "same_frame s1 s2"
    unfolding s2_def by (rule upd_frag_frame) (use assms(1,2) n1 in simp_all)
  then have f3: "same_frame s s3" using f1 same_frame_trans by (simp add: s3_def)
  have "same_frame s3 s4"
    unfolding s4_def by (rule upd_frag_frame) (use assms(3) same_frame_fields(15) [OF f3] in \<open>simp_all add: bare_def\<close>)
  then have f4: "same_frame s s4" using f3 same_frame_trans by blast
  have frags: "cc_fragments u = (let F = rewritten i k (ls_slot y) w insn (Some (t, l)) (cc_fragments s)
      in F[t := (F ! t)\<lparr>cf_incoming := cf_incoming (F ! t) @ [(i, k)]\<rparr>])"
    using assms(1) by (simp add: u_def s4_def s3_def s2_def s1_def upd_frag_def rewritten_def Let_def)
  have "waiting u = (waiting s)(ls_target y := filter (\<lambda>e. e \<noteq> (i, k)) (waiting s (ls_target y)))"
    by (simp add: u_def s4_def s3_def waiting_drop s2_def s1_def)
  moreover have "distinct (map fst (cc_pending s)) \<longrightarrow> distinct (map fst (cc_pending u))"
    using pending_keys(2) [of s2] by (simp add: u_def s4_def s3_def s2_def s1_def)
  ultimately show ?thesis
    using run frags f4 by (simp add: u_def)
qed

lemma restore_link_eq:
  assumes "i < length (cc_fragments s)" "k < length (cf_links (cc_fragments s ! i))"
    "cf_links (cc_fragments s ! i) ! k = y" "ls_linked y = Some (t, l)"
    "ls_slot y div 4 < length (ef_insns (cf_fragment (cc_fragments s ! i)))"
  shows "\<exists>u. restore_link i k s = Some u
    \<and> cc_fragments u = rewritten i k (ls_slot y) LINK_NOP_WORD (Sys Nop) None (cc_fragments s)
    \<and> same_frame s u
    \<and> waiting u = (waiting s)(ls_target y := waiting s (ls_target y) @ [(i, k)])
    \<and> (distinct (map fst (cc_pending s)) \<longrightarrow> distinct (map fst (cc_pending u)))"
proof -
  let ?p = "\<lparr>cp_fragment = i, cp_offset = ls_slot y, cp_word = LINK_NOP_WORD\<rparr>"
  define s1 where "s1 = (upd_frag i (patched (ls_slot y) LINK_NOP_WORD (Sys Nop)) s)
    \<lparr>cc_code_patches := cc_code_patches s @ [?p]\<rparr>"
  define s2 where "s2 = upd_frag i (set_linked k None) s1"
  define s3 where "s3 = push_pending (ls_target y) (i, k) s2"
  define u where "u = log_event (Restored i (ls_slot y) t (ls_target y))
    (upd_stats (\<lambda>st. st\<lparr>cs_link_restored := cs_link_restored st + 1\<rparr>) s3)"
  have run: "restore_link i k s = Some u"
    using patch_code_eq [OF assms(1) link_words(1) assms(5)] assms(1-4)
    by (simp add: restore_link_def Let_def s1_def [symmetric] s2_def [symmetric] s3_def [symmetric]
        u_def [symmetric] del: One_nat_def)
  have "same_frame s (upd_frag i (patched (ls_slot y) LINK_NOP_WORD (Sys Nop)) s)"
    by (rule upd_frag_frame) (use assms in auto)
  then have f1: "same_frame s s1" by (simp add: s1_def same_frame_def linkless_def)
  have n1: "length (cc_fragments s1) = length (cc_fragments s)"
    "cc_fragments s1 ! i = patched (ls_slot y) LINK_NOP_WORD (Sys Nop) (cc_fragments s ! i)"
    using assms(1) by (simp_all add: s1_def upd_frag_nth)
  have "same_frame s1 s2"
    unfolding s2_def by (rule upd_frag_frame) (use assms(1,2) n1 in simp_all)
  then have f: "same_frame s u" using f1 same_frame_trans by (simp add: s3_def u_def)
  have frags: "cc_fragments u = rewritten i k (ls_slot y) LINK_NOP_WORD (Sys Nop) None (cc_fragments s)"
    using assms(1) by (simp add: u_def s3_def s2_def s1_def upd_frag_def rewritten_def Let_def)
  have "waiting u = (waiting s)(ls_target y := waiting s (ls_target y) @ [(i, k)])"
    by (simp add: u_def s3_def waiting_push s2_def s1_def)
  moreover have "distinct (map fst (cc_pending s)) \<longrightarrow> distinct (map fst (cc_pending u))"
    using pending_keys(1) [of s2] by (simp add: u_def s3_def s2_def s1_def)
  ultimately show ?thesis
    using run frags f by blast
qed

lemma set_linked_fields [simp]:
  "cf_fragment (set_linked k c f) = cf_fragment f" "cf_encoded (set_linked k c f) = cf_encoded f"
  "cf_incoming (set_linked k c f) = cf_incoming f"
  "cf_links (set_linked k c f) = (cf_links f)[k := (cf_links f ! k)\<lparr>ls_linked := c\<rparr>]"
  by (simp_all add: set_linked_def)

lemma slot_holds_cong:
  "cf_fragment f = cf_fragment g \<Longrightarrow> cf_encoded f = cf_encoded g \<Longrightarrow> slot_holds f = slot_holds g"
  by (simp add: slot_holds_def fun_eq_iff)

lemma rewritten_facts:
  assumes "i < length F"
  shows "length (rewritten i k slot w insn c F) = length F"
    and "cf_links (rewritten i k slot w insn c F ! j) =
      (if j = i then (cf_links (F ! i))[k := (cf_links (F ! i) ! k)\<lparr>ls_linked := c\<rparr>] else cf_links (F ! j))"
    and "cf_incoming (rewritten i k slot w insn c F ! j) = cf_incoming (F ! j)"
    and "slot_holds (rewritten i k slot w insn c F ! j) =
      slot_holds (if j = i then patched slot w insn (F ! i) else F ! j)"
proof -
  have n: "rewritten i k slot w insn c F ! j =
      (if j = i then set_linked k c (patched slot w insn (F ! i)) else F ! j)"
    using assms by (simp add: rewritten_def)
  show "length (rewritten i k slot w insn c F) = length F"
    by (simp add: rewritten_def)
  show "cf_links (rewritten i k slot w insn c F ! j) =
      (if j = i then (cf_links (F ! i))[k := (cf_links (F ! i) ! k)\<lparr>ls_linked := c\<rparr>] else cf_links (F ! j))"
    and "cf_incoming (rewritten i k slot w insn c F ! j) = cf_incoming (F ! j)"
    by (simp_all add: n)
  show "slot_holds (rewritten i k slot w insn c F ! j) =
      slot_holds (if j = i then patched slot w insn (F ! i) else F ! j)"
    by (rule slot_holds_cong) (simp_all add: n)
qed

lemma rewritten_holds:
  assumes "i < length F" "slot mod 4 = 0" "slot div 4 < length (ef_insns (cf_fragment (F ! i)))"
    and "encode insn = Some w"
  shows "slot_holds (rewritten i k slot w insn c F ! i) slot w"
    and "(j, v) \<noteq> (i, slot) \<Longrightarrow> slot_holds (F ! j) v x \<Longrightarrow> slot_holds (rewritten i k slot w insn c F ! j) v x"
  using patched_holds [OF assms(2-4)] patched_holds_other [OF assms(2)]
  by (auto simp: rewritten_facts [OF assms(1)])

lemma site_rewritten:
  assumes "same_frame s u" "site s (i, k) = Some y"
    and "\<And>j. cf_links (cc_fragments u ! j) =
      (if j = i then (cf_links (cc_fragments s ! i))[k := (cf_links (cc_fragments s ! i) ! k)\<lparr>ls_linked := c\<rparr>]
       else cf_links (cc_fragments s ! j))"
  shows "site u = (site s)((i, k) \<mapsto> y\<lparr>ls_linked := c\<rparr>)"
proof (rule ext, clarify)
  fix j m
  show "site u (j, m) = ((site s)((i, k) \<mapsto> y\<lparr>ls_linked := c\<rparr>)) (j, m)"
    using assms(2) same_frame_live [OF assms(1)]
    by (auto simp: site_def assms(3) nth_list_update split: if_splits)
qed

lemma site_slot:
  assumes "link_inv V I s" "V (i, k) = Some y"
  shows "i < length (cc_fragments s)" "ls_slot y mod 4 = 0"
    "ls_slot y div 4 < length (ef_insns (cf_fragment (cc_fragments s ! i)))"
proof -
  have "link_ok (cc_fragments s) i y"
    using assms unfolding link_inv_def by fastforce
  then show "i < length (cc_fragments s)" "ls_slot y mod 4 = 0"
    "ls_slot y div 4 < length (ef_insns (cf_fragment (cc_fragments s ! i)))"
    by (auto simp: link_ok_def slot_holds_def split: option.splits)
qed

lemma make_link_inv:
  assumes inv: "link_inv V I s" and V: "V (i, k) = Some y" and site: "site s (i, k) = Some y"
    and free: "ls_linked y = None" and target: "link_target (cc_fragments s) (cc_fragments s ! i) y t l"
    and word: "link_branch_word (cf_base (cc_fragments s ! i) + of_nat (ls_slot y))
      (host (cc_fragments s ! t) (cf_labels (cc_fragments s ! t) ! l)) = Some w"
  shows "\<exists>u. make_link i k y t l w s = Some u \<and> same_frame s u
    \<and> site u = (site s)((i, k) \<mapsto> y\<lparr>ls_linked := Some (t, l)\<rparr>)
    \<and> incoming u = (incoming s)(t := incoming s t @ [(i, k)])
    \<and> link_inv (V((i, k) \<mapsto> y\<lparr>ls_linked := Some (t, l)\<rparr>)) (I(t := I t @ [(i, k)])) u"
proof -
  let ?F = "cc_fragments s" and ?y = "y\<lparr>ls_linked := Some (t, l)\<rparr>"
  note slot = site_slot [OF inv V]
  have k: "k < length (cf_links (?F ! i))" and t: "t < length ?F"
    using site target by (auto simp: site_def link_target_def split: if_splits)
  obtain insn where insn: "decode_a64_insn w = Some insn" "encode insn = Some w"
    using link_words(3) [OF word] by blast
  let ?R = "rewritten i k (ls_slot y) w insn (Some (t, l)) ?F"
  obtain u where u: "make_link i k y t l w s = Some u" "same_frame s u"
      "cc_fragments u = ?R[t := (?R ! t)\<lparr>cf_incoming := cf_incoming (?R ! t) @ [(i, k)]\<rparr>]"
      "waiting u = (waiting s)(ls_target y := filter (\<lambda>e. e \<noteq> (i, k)) (waiting s (ls_target y)))"
      "distinct (map fst (cc_pending s)) \<longrightarrow> distinct (map fst (cc_pending u))"
    using make_link_eq [OF slot(1) k t insn(1) slot(3)] unfolding Let_def by blast
  note R = rewritten_facts [OF slot(1)]
  have links: "cf_links (cc_fragments u ! j) = cf_links (?R ! j)" for j
    using t by (cases "j = t") (simp_all add: u(3) R(1))
  have hold: "slot_holds (cc_fragments u ! j) = slot_holds (?R ! j)" for j
    using t by (intro slot_holds_cong; cases "j = t"; simp add: u(3) R(1))
  have site_u: "site u = (site s)((i, k) \<mapsto> ?y)"
    by (rule site_rewritten [OF u(2) site]) (simp add: links R(2))
  have inc: "incoming u = (incoming s)(t := incoming s t @ [(i, k)])"
    using t by (rule_tac ext) (simp add: incoming_def u(3) R nth_list_update)
  have sites: "\<And>x y. V x = Some y \<Longrightarrow> link_ok ?F (fst x) y" and dist: "slots_distinct V"
    and rest: "distinct (map fst (cc_pending s))" "pend_ok V (waiting s)" "inc_ok V I"
    using inv by (auto simp: link_inv_def)
  have keep: "slot_holds (cc_fragments u ! j) v x"
    if "(j, v) \<noteq> (i, ls_slot y)" "slot_holds (?F ! j) v x" for j v x
    using rewritten_holds(2) [OF slot insn(2) that] by (simp add: hold)
  have "link_ok (cc_fragments u) i ?y"
  proof -
    have "link_target (cc_fragments u) (cc_fragments u ! i) ?y t l"
      using same_frame_link_target [OF u(2) slot(1) target] by (simp add: link_target_def)
    moreover have "cf_base (cc_fragments u ! i) = cf_base (?F ! i)"
      and "host (cc_fragments u ! t) (cf_labels (cc_fragments u ! t) ! l) = host (?F ! t) (cf_labels (?F ! t) ! l)"
      using same_frame_frag [OF u(2) slot(1)] same_frame_frag [OF u(2) t] by (simp_all add: host_def)
    ultimately show ?thesis
      using word rewritten_holds(1) [OF slot insn(2)] slot(1) same_frame_fields(15) [OF u(2)]
      by (simp add: link_ok_def hold)
  qed
  then have "\<forall>x z. (V((i, k) \<mapsto> ?y)) x = Some z \<longrightarrow> link_ok (cc_fragments u) (fst x) z"
    by (intro rewrite_slot [OF sites dist V _ u(2)]) (use keep in auto)
  then have "link_inv (V((i, k) \<mapsto> ?y)) (I(t := I t @ [(i, k)])) u"
    using rest u(5) pend_ok_link [OF rest(2) V free] inc_ok_link [OF rest(3) V free]
      slots_distinct_upd [OF dist V, of ?y]
    by (simp add: link_inv_def u(4))
  then show ?thesis
    using u(1,2) site_u inc by blast
qed

lemma restore_link_inv:
  assumes inv: "link_inv V (I(t := (i, k) # rest)) s" and V: "V (i, k) = Some y" and site: "site s (i, k) = Some y"
    and linked: "ls_linked y = Some (t, l)"
  shows "\<exists>u. restore_link i k s = Some u \<and> same_frame s u
    \<and> site u = (site s)((i, k) \<mapsto> y\<lparr>ls_linked := None\<rparr>) \<and> incoming u = incoming s
    \<and> link_inv (V((i, k) \<mapsto> y\<lparr>ls_linked := None\<rparr>)) (I(t := rest)) u"
proof -
  let ?F = "cc_fragments s" and ?y = "y\<lparr>ls_linked := None\<rparr>"
  note slot = site_slot [OF inv V]
  have k: "k < length (cf_links (?F ! i))" "cf_links (?F ! i) ! k = y"
    using site by (auto simp: site_def split: if_splits)
  let ?R = "rewritten i k (ls_slot y) LINK_NOP_WORD (Sys Nop) None ?F"
  obtain u where u: "restore_link i k s = Some u" "same_frame s u" "cc_fragments u = ?R"
      "waiting u = (waiting s)(ls_target y := waiting s (ls_target y) @ [(i, k)])"
      "distinct (map fst (cc_pending s)) \<longrightarrow> distinct (map fst (cc_pending u))"
    using restore_link_eq [OF slot(1) k linked slot(3)] by blast
  note R = rewritten_facts [OF slot(1)]
  have site_u: "site u = (site s)((i, k) \<mapsto> ?y)"
    by (rule site_rewritten [OF u(2) site]) (simp add: u(3) R(2))
  have inc: "incoming u = incoming s"
    by (rule ext) (simp add: incoming_def u(3) R)
  have sites: "\<And>x y. V x = Some y \<Longrightarrow> link_ok ?F (fst x) y" and dist: "slots_distinct V"
    and parts: "distinct (map fst (cc_pending s))" "pend_ok V (waiting s)" "inc_ok V (I(t := (i, k) # rest))"
    using inv by (auto simp: link_inv_def)
  have keep: "slot_holds (cc_fragments u ! j) v x"
    if "(j, v) \<noteq> (i, ls_slot y)" "slot_holds (?F ! j) v x" for j v x
    using rewritten_holds(2) [OF slot link_words(2) that] by (simp add: u(3))
  have "link_ok (cc_fragments u) i ?y"
    using rewritten_holds(1) [OF slot link_words(2)] slot(1) by (simp add: link_ok_def u(3) R(1))
  then have "\<forall>x z. (V((i, k) \<mapsto> ?y)) x = Some z \<longrightarrow> link_ok (cc_fragments u) (fst x) z"
    by (intro rewrite_slot [OF sites dist V _ u(2)]) (use keep in auto)
  then have "link_inv (V((i, k) \<mapsto> ?y)) (I(t := rest)) u"
    using parts u(5) pend_ok_restore [OF parts(2) V linked] inc_ok_restore [OF parts(3) V linked]
      slots_distinct_upd [OF dist V, of ?y]
    by (simp add: link_inv_def u(4))
  then show ?thesis
    using u(1,2) site_u inc by blast
qed

subsection \<open>Trying a site\<close>

definition site_label :: "'l code_cache \<Rightarrow> u64 \<Rightarrow> nat \<times> nat \<Rightarrow> bool" where
  "site_label s pc = (\<lambda>(t, l). live s t \<and> l < length (cf_labels (cc_fragments s ! t))
     \<and> lb_pc (cf_labels (cc_fragments s ! t) ! l) = pc)"

definition pending_site :: "'l code_cache \<Rightarrow> u64 \<Rightarrow> nat \<times> nat \<Rightarrow> bool" where
  "pending_site s pc x \<longleftrightarrow> (\<exists>y. site s x = Some y \<and> ls_target y = pc \<and> ls_linked y = None)"

text \<open>A step that at most links the site \<open>x\<close>.\<close>

definition links_only :: "'l code_cache \<Rightarrow> nat \<times> nat \<Rightarrow> 'l code_cache \<Rightarrow> bool" where
  "links_only s x u \<longleftrightarrow> same_frame s u \<and> links_ok u \<and> (\<forall>z. z \<noteq> x \<longrightarrow> site u z = site s z)"

lemma links_only_refl: "links_ok s \<Longrightarrow> links_only s x s"
  by (simp add: links_only_def)

lemma stats_links_ok [simp]: "links_ok (upd_stats h s) = links_ok s" "site (upd_stats h s) = site s"
proof -
  have "live (upd_stats h s) = live s" by (simp add: live_def fun_eq_iff)
  then show "site (upd_stats h s) = site s" by (simp add: site_def fun_eq_iff)
  moreover have "incoming (upd_stats h s) = incoming s" by (simp add: incoming_def fun_eq_iff)
  ultimately show "links_ok (upd_stats h s) = links_ok s"
    by (simp add: links_ok_def link_inv_def)
qed

lemma try_candidates_ok:
  assumes "links_ok s" "site s (i, k) = Some y" "ls_linked y = None"
    and "\<forall>c \<in> set cs. site_label s (ls_target y) c"
    and "addr = cf_base (cc_fragments s ! i) + of_nat (ls_slot y)"
    and "fp = cf_uses_fpsimd (cc_fragments s ! i)"
  shows "\<exists>u b. try_candidates i k y addr fp cs cr oor s = Some (u, b) \<and> links_only s (i, k) u"
  using assms(4)
proof (induction cs arbitrary: cr oor)
  case Nil
  have "links_only s (i, k) (upd_stats h s)" for h
    using assms(1) by (auto simp: links_only_def)
  then show ?case unfolding try_candidates.simps by blast
next
  case (Cons c cs)
  obtain t l where c: "c = (t, l)" by (cases c)
  let ?F = "cc_fragments s"
  have t: "t < length ?F" "\<not> cf_retired (?F ! t)" "l < length (cf_labels (?F ! t))"
    "lb_pc (cf_labels (?F ! t) ! l) = ls_target y"
    using Cons.prems by (auto simp: c site_label_def live_def)
  have IH: "\<exists>u b. try_candidates i k y addr fp cs cr' oor' s = Some (u, b) \<and> links_only s (i, k) u" for cr' oor'
    using Cons by simp
  show ?case
  proof (cases "\<not> fp \<and> cf_uses_fpsimd (?F ! t)")
    case True
    then show ?thesis using IH t by (simp add: c)
  next
    case False
    show ?thesis
    proof (cases "link_branch_word addr (host (?F ! t) (cf_labels (?F ! t) ! l))")
      case None
      then show ?thesis using IH t False by (auto simp: c)
    next
      case (Some w)
      have "link_target ?F (?F ! i) y t l"
        using t False assms(6) by (auto simp: link_target_def)
      then obtain u where u: "make_link i k y t l w s = Some u" "same_frame s u"
          "site u = (site s)((i, k) \<mapsto> y\<lparr>ls_linked := Some (t, l)\<rparr>)"
          "incoming u = (incoming s)(t := incoming s t @ [(i, k)])"
          "link_inv ((site s)((i, k) \<mapsto> y\<lparr>ls_linked := Some (t, l)\<rparr>)) ((incoming s)(t := incoming s t @ [(i, k)])) u"
        using make_link_inv [OF assms(1) [unfolded links_ok_def] assms(2,2,3) _ Some [unfolded assms(5)]] by blast
      have "links_only s (i, k) u"
        using u by (simp add: links_only_def links_ok_def)
      then show ?thesis
        using t False Some u(1) by (auto simp: c)
    qed
  qed
qed

lemma try_link_ok:
  assumes "links_ok s" "pending_site s pc (i, k)" "\<forall>c \<in> set cs. site_label s pc c"
  shows "\<exists>u b. try_link i k cs s = Some (u, b) \<and> links_only s (i, k) u"
proof -
  obtain y where y: "site s (i, k) = Some y" "ls_target y = pc" "ls_linked y = None"
    using assms(2) by (auto simp: pending_site_def)
  have fk: "i < length (cc_fragments s)" "k < length (cf_links (cc_fragments s ! i))"
    "cf_links (cc_fragments s ! i) ! k = y"
    using y(1) by (auto simp: site_def live_def split: if_splits)
  show ?thesis
    using try_candidates_ok [OF assms(1) y(1,3), of cs] assms(3) fk y(2,3) by (simp add: try_link_def)
qed

lemma label_index_Some:
  "label_index pc ls = Some l \<Longrightarrow> l < length ls \<and> lb_pc (ls ! l) = pc"
  by (induction ls arbitrary: l) (auto split: if_splits)

lemma label_for_pc_Some:
  "label_for_pc f pc = Some l \<Longrightarrow> \<exists>j < length (cf_labels f). cf_labels f ! j = l \<and> lb_pc l = pc"
  by (auto simp: label_for_pc_def dest: label_index_Some)

definition entries_in :: "'l code_cache \<Rightarrow> bool" where
  "entries_in s \<longleftrightarrow> (\<forall>pc i. cc_by_entry s pc = Some i \<longrightarrow> i < length (cc_fragments s))"

lemma labels_for_ok:
  assumes "entries_in s"
  shows "\<exists>cs. labels_for pc s = Some cs \<and> (\<forall>c \<in> set cs. site_label s pc c)"
proof -
  define fs where "fs = (case cc_by_entry s pc of None \<Rightarrow> [] | Some e \<Rightarrow> [e])
    @ filter (\<lambda>fragment. Some fragment \<noteq> cc_by_entry s pc) [0..<length (cc_fragments s)]"
  have fs: "f < length (cc_fragments s)" if "f \<in> set fs" for f
  proof -
    from that consider "cc_by_entry s pc = Some f" | "f < length (cc_fragments s)"
      by (cases "cc_by_entry s pc") (auto simp: fs_def)
    then show ?thesis using assms unfolding entries_in_def by cases blast+
  qed
  then have "list_all (\<lambda>f. f < length (cc_fragments s)) fs"
    by (simp add: list_all_iff)
  then have "labels_for pc s = Some (List.map_filter (label_in pc s) fs)"
    unfolding labels_for_def Let_def fs_def [symmetric] by (rule if_P)
  moreover have "site_label s pc c" if c: "c \<in> set (List.map_filter (label_in pc s) fs)" for c
  proof -
    obtain f where "f \<in> set fs" "label_in pc s f = Some c"
      using c by (auto simp: map_filter_def)
    then show ?thesis
      using fs [of f] label_index_Some
      by (auto simp: label_in_def site_label_def live_def Let_def split: if_splits)
  qed
  ultimately show ?thesis by blast
qed

lemma site_label_frame: "same_frame s u \<Longrightarrow> site_label s pc c \<Longrightarrow> site_label u pc c"
  using same_frame_frag(6) [of s u] same_frame_live [of s u]
  by (fastforce simp: site_label_def live_def)

lemma pending_site_kept: "links_only s x u \<Longrightarrow> z \<noteq> x \<Longrightarrow> pending_site s pc z \<Longrightarrow> pending_site u pc z"
  unfolding links_only_def pending_site_def by metis

end
