(* ===== verification/CacheInstall.thy ===== *)
theory CacheInstall
  imports CacheLinks
begin

section \<open>Installing a fragment\<close>

text \<open>
  \<open>link_install\<close> ends with every site of the new fragment pending or linked and the invariant of the
  links restored; \<open>install\<close> keeps the whole invariant of the cache and never panics.
\<close>

subsection \<open>Linking at the install\<close>

definition sites_wf :: "cached_fragment \<Rightarrow> bool" where
  "sites_wf f \<longleftrightarrow> distinct (map fst (ef_link_sites (cf_fragment f)))
    \<and> (\<forall>(slot, pc) \<in> set (ef_link_sites (cf_fragment f)). slot_holds f slot LINK_NOP_WORD)"

definition with_sites :: "nat \<Rightarrow> 'l code_cache \<Rightarrow> 'l code_cache" where
  "with_sites index s = upd_frag index
     (\<lambda>f. f\<lparr>cf_links := map site_of (ef_link_sites (cf_fragment (cc_fragments s ! index)))\<rparr>) s"

lemma with_sites_nth:
  assumes "index < length (cc_fragments s)"
  shows "length (cc_fragments (with_sites index s)) = length (cc_fragments s)"
    and "cc_fragments (with_sites index s) ! j = (if j = index
      then (cc_fragments s ! j)\<lparr>cf_links := map site_of (ef_link_sites (cf_fragment (cc_fragments s ! j)))\<rparr>
      else cc_fragments s ! j)"
  using assms by (auto simp: with_sites_def upd_frag_def)

lemma with_sites_facts:
  assumes "index < length (cc_fragments s)"
  shows "live (with_sites index s) = live s" "incoming (with_sites index s) = incoming s"
    and "waiting (with_sites index s) = waiting s" "cc_pending (with_sites index s) = cc_pending s"
    and "cc_by_entry (with_sites index s) = cc_by_entry s"
    and "link_ok (cc_fragments (with_sites index s)) i y = link_ok (cc_fragments s) i y"
proof -
  note n = with_sites_nth [OF assms]
  show "live (with_sites index s) = live s" "incoming (with_sites index s) = incoming s"
    by (auto simp: live_def incoming_def n fun_eq_iff)
  show "waiting (with_sites index s) = waiting s" "cc_pending (with_sites index s) = cc_pending s"
    "cc_by_entry (with_sites index s) = cc_by_entry s"
    by (simp_all add: with_sites_def) (simp add: upd_frag_def)
  have f: "cf_base (cc_fragments (with_sites index s) ! j) = cf_base (cc_fragments s ! j)"
    "cf_labels (cc_fragments (with_sites index s) ! j) = cf_labels (cc_fragments s ! j)"
    "cf_uses_fpsimd (cc_fragments (with_sites index s) ! j) = cf_uses_fpsimd (cc_fragments s ! j)"
    "cf_retired (cc_fragments (with_sites index s) ! j) = cf_retired (cc_fragments s ! j)"
    "slot_holds (cc_fragments (with_sites index s) ! j) = slot_holds (cc_fragments s ! j)" for j
    by (simp_all add: n slot_holds_def fun_eq_iff)
  show "link_ok (cc_fragments (with_sites index s)) i y = link_ok (cc_fragments s) i y"
    by (simp add: link_ok_def link_target_def f n(1) host_def split: option.split)
qed

lemma site_with_sites:
  assumes "live s index"
  shows "site (with_sites index s) (i, k) =
    (if i = index
     then (if k < length (ef_link_sites (cf_fragment (cc_fragments s ! index)))
           then Some (site_of (ef_link_sites (cf_fragment (cc_fragments s ! index)) ! k)) else None)
     else site s (i, k))"
proof -
  have i: "index < length (cc_fragments s)" using assms by (simp add: live_def)
  show ?thesis
    using assms by (simp add: site_def with_sites_facts(1) [OF i] with_sites_nth [OF i])
qed

lemma slots_distinct_sub: "slots_distinct V' \<Longrightarrow> V \<subseteq>\<^sub>m V' \<Longrightarrow> slots_distinct V"
  unfolding slots_distinct_def map_le_def by (metis domI)

lemma with_sites_distinct:
  assumes "slots_distinct (site s)" "live s index" "sites_wf (cc_fragments s ! index)"
  shows "slots_distinct (site (with_sites index s))"
  unfolding slots_distinct_def
proof (intro allI impI)
  let ?ls = "ef_link_sites (cf_fragment (cc_fragments s ! index))"
  fix i k k' y y'
  assume a: "site (with_sites index s) (i, k) = Some y" "site (with_sites index s) (i, k') = Some y'"
    "ls_slot y = ls_slot y'"
  show "k = k'"
  proof (cases "i = index")
    case True
    then have k: "k < length ?ls" "k' < length ?ls" "fst (?ls ! k) = fst (?ls ! k')"
      using a site_with_sites [OF assms(2)] by (auto simp: site_of_def split: prod.splits if_splits)
    then have "map fst ?ls ! k = map fst ?ls ! k'" by simp
    then show ?thesis
      using assms(3) k nth_eq_iff_index_eq [of "map fst ?ls" k k'] by (simp add: sites_wf_def)
  next
    case False
    then show ?thesis
      using a assms(1) site_with_sites [OF assms(2)] unfolding slots_distinct_def by auto
  qed
qed

text \<open>The first loop makes every new site pending.\<close>

lemma pend_loop:
  assumes ok: "links_ok s" and live: "live s index" and links: "cf_links (cc_fragments s ! index) = []"
    and wf: "sites_wf (cc_fragments s ! index)"
  defines "s1 \<equiv> with_sites index s"
    and "n \<equiv> length (ef_link_sites (cf_fragment (cc_fragments s ! index)))"
  shows "\<exists>t. ofold (pend_site index) [0..<n] s1 = Some t \<and> (\<exists>p. t = s1\<lparr>cc_pending := p\<rparr>)
    \<and> links_ok t \<and> (\<forall>k < n. \<exists>pc. pending_site t pc (index, k))"
proof -
  let ?ls = "ef_link_sites (cf_fragment (cc_fragments s ! index))"
  have i: "index < length (cc_fragments s)" using live by (simp add: live_def)
  note facts = with_sites_facts [OF i, folded s1_def] and st = site_with_sites [OF live, folded s1_def n_def]
  define V where "V = (\<lambda>ks x. if fst x = index \<and> snd x \<in> set ks then None else site s1 x)"
  define P where "P = (\<lambda>ks t. (\<exists>p. t = s1\<lparr>cc_pending := p\<rparr>) \<and> distinct ks \<and> set ks \<subseteq> {..<n}
    \<and> link_inv (V ks) (incoming s1) t)"
  have inv: "link_inv (site s) (incoming s) s" using ok by (simp add: links_ok_def)
  have dist: "slots_distinct (site s1)"
    unfolding s1_def by (rule with_sites_distinct [OF _ live wf]) (use inv in \<open>simp add: link_inv_def\<close>)
  have sub: "V ks \<subseteq>\<^sub>m site s1" for ks
    by (auto simp: V_def map_le_def split: if_splits)
  have none: "site s (index, k) = None" for k
    using links by (simp add: site_def)
  have "V [0..<n] = site s"
    by (rule ext) (auto simp: V_def st none split: if_splits)
  then have start: "P [0..<n] s1"
    using inv slots_distinct_sub [OF dist sub, of "[0..<n]"]
    by (auto simp: P_def link_inv_def facts intro: exI [of _ "cc_pending s1"])
  have step: "\<exists>u. pend_site index k t = Some u \<and> P ks u" if P: "P (k # ks) t" for k ks t
  proof -
    obtain p where t: "t = s1\<lparr>cc_pending := p\<rparr>" and k: "k < n" "k \<notin> set ks" "distinct ks" "set ks \<subseteq> {..<n}"
      and li: "link_inv (V (k # ks)) (incoming s1) t"
      using P by (auto simp: P_def)
    have y: "site s1 (index, k) = Some (site_of (?ls ! k))" using k st by simp
    then have lk: "k < length (cf_links (cc_fragments s1 ! index))"
      "cf_links (cc_fragments s1 ! index) ! k = site_of (?ls ! k)"
      by (auto simp: site_def split: if_splits)
    let ?u = "push_pending (ls_target (site_of (?ls ! k))) (index, k) t"
    have run: "pend_site index k t = Some ?u"
      using lk i with_sites_nth(1) [OF i, folded s1_def] by (simp add: pend_site_def t)
    have free: "ls_linked (site_of (?ls ! k)) = None" by (simp add: site_of_def split: prod.splits)
    have V': "V ks = (V (k # ks))((index, k) \<mapsto> site_of (?ls ! k))"
      using k y by (auto simp: V_def fun_eq_iff)
    have N: "V (k # ks) (index, k) = None" by (simp add: V_def)
    have "?ls ! k \<in> set ?ls" using k(1) by (simp add: n_def)
    then have "slot_holds (cc_fragments s ! index) (fst (?ls ! k)) LINK_NOP_WORD"
      using wf by (simp add: sites_wf_def case_prod_beta)
    then have "link_ok (cc_fragments s1) index (site_of (?ls ! k))"
      using i unfolding facts(6) by (simp add: link_ok_def site_of_def case_prod_beta)
    then have "link_inv (V ks) (incoming s1) ?u"
      using li pend_ok_add [where V = "V (k # ks)" and W = "waiting t", OF _ N free]
        inc_ok_add [where V = "V (k # ks)" and I = "incoming s1", OF _ N free] pending_keys(1) [of t]
        slots_distinct_sub [OF dist sub [of ks]]
      unfolding V' link_inv_def waiting_push by (auto simp: t)
    then show ?thesis
      using run k by (auto simp: P_def push_pending_def t)
  qed
  obtain t where t: "ofold (pend_site index) [0..<n] s1 = Some t" "P [] t"
    using ofold_rule [where P = P, OF start] step by blast
  then obtain p where p: "t = s1\<lparr>cc_pending := p\<rparr>" by (auto simp: P_def)
  have same: "site t = site s1" "incoming t = incoming s1"
    by (auto simp: p site_def live_def incoming_def fun_eq_iff)
  have "V [] = site s1" by (simp add: V_def)
  then have "links_ok t"
    using t(2) by (simp add: P_def links_ok_def same)
  moreover have "\<exists>pc. pending_site t pc (index, k)" if "k < n" for k
    using that st by (simp add: pending_site_def same site_of_def split: prod.splits)
  ultimately show ?thesis using t(1) p by blast
qed

text \<open>The second loop tries them against the labels there are.\<close>

lemma pending_site_nth:
  assumes "pending_site s pc (i, k)"
  shows "i < length (cc_fragments s)" "k < length (cf_links (cc_fragments s ! i))"
    "ls_target (cf_links (cc_fragments s ! i) ! k) = pc" "live s i"
  using assms by (auto simp: pending_site_def site_def live_def split: if_splits)

lemma entries_in_frame: "same_frame s t \<Longrightarrow> entries_in s \<Longrightarrow> entries_in t"
  by (simp add: entries_in_def same_frame_fields)

lemma own_loop:
  assumes "links_ok s" "entries_in s" "distinct ks" "\<forall>k \<in> set ks. \<exists>pc. pending_site s pc (index, k)"
  shows "\<exists>t. ofold (try_own_site index) ks s = Some t \<and> same_frame s t \<and> links_ok t"
proof -
  define P where "P = (\<lambda>ks t. same_frame s t \<and> links_ok t \<and> distinct ks
    \<and> (\<forall>k \<in> set ks. \<exists>pc. pending_site t pc (index, k)))"
  have "\<exists>u. try_own_site index k t = Some u \<and> P ks u" if P: "P (k # ks) t" for k ks t
  proof -
    obtain pc where pc: "pending_site t pc (index, k)"
      using P by (auto simp: P_def)
    have t: "same_frame s t" "links_ok t" "distinct (k # ks)" "\<forall>k \<in> set ks. \<exists>pc. pending_site t pc (index, k)"
      using P by (auto simp: P_def)
    obtain cs where cs: "labels_for pc t = Some cs" "\<forall>c \<in> set cs. site_label t pc c"
      using labels_for_ok [OF entries_in_frame [OF t(1) assms(2)]] by blast
    obtain u b where u: "try_link index k cs t = Some (u, b)" "links_only t (index, k) u"
      using try_link_ok [OF t(2) pc cs(2)] by blast
    have "try_own_site index k t = Some u"
      using pending_site_nth [OF pc] cs(1) u(1) by (simp add: try_own_site_def)
    moreover have "\<exists>pc. pending_site u pc (index, k')" if "k' \<in> set ks" for k'
      using pending_site_kept [OF u(2)] t(3,4) that by fastforce
    ultimately show ?thesis
      using t(1,3) u(2) same_frame_trans [of s t u] by (auto simp: P_def links_only_def)
  qed
  then show ?thesis
    using ofold_rule [where P = P and xs = ks and s = s and f = "try_own_site index"] assms
    by (auto simp: P_def)
qed

text \<open>The third loop tries what waits for its labels.\<close>

lemma waiting_loop:
  assumes "links_ok s" "site_label s pc c" "distinct xs" "\<forall>x \<in> set xs. pending_site s pc x"
  shows "\<exists>t. ofold (\<lambda>(f, link) s. map_option fst (try_link f link [c] s)) xs s = Some t
    \<and> same_frame s t \<and> links_ok t"
proof -
  define P where "P = (\<lambda>xs t. same_frame s t \<and> links_ok t \<and> distinct xs \<and> (\<forall>x \<in> set xs. pending_site t pc x))"
  have "\<exists>u. (case x of (f, link) \<Rightarrow> \<lambda>s. map_option fst (try_link f link [c] s)) t = Some u \<and> P xs u"
    if P: "P (x # xs) t" for x xs t
  proof -
    obtain f link where x: "x = (f, link)" by (cases x)
    have t: "same_frame s t" "links_ok t" "distinct (x # xs)" "\<forall>x \<in> set (x # xs). pending_site t pc x"
      using P by (auto simp: P_def)
    obtain u b where u: "try_link f link [c] t = Some (u, b)" "links_only t x u"
      using try_link_ok [OF t(2), of pc f link "[c]"] t(4) site_label_frame [OF t(1) assms(2)] by (auto simp: x)
    have "pending_site u pc z" if "z \<in> set xs" for z
      using pending_site_kept [OF u(2)] t(3,4) that by fastforce
    then show ?thesis
      using t(1,3) u same_frame_trans [of s t u] by (auto simp: P_def x links_only_def)
  qed
  then show ?thesis
    using ofold_rule [where P = P and xs = xs and s = s] assms by (auto simp: P_def)
qed

lemma links_ok_waiting:
  assumes "links_ok s"
  shows "distinct (waiting s pc)" "x \<in> set (waiting s pc) \<longleftrightarrow> pending_site s pc x"
  using assms by (auto simp: links_ok_def link_inv_def pend_ok_def pending_site_def)

lemma labels_loop:
  assumes "links_ok s" "live s index" "\<forall>l \<in> set ls. l < length (cf_labels (cc_fragments s ! index))"
  shows "\<exists>t. ofold (try_waiting index) ls s = Some t \<and> same_frame s t \<and> links_ok t"
proof -
  define P where "P = (\<lambda>ls t. same_frame s t \<and> links_ok t
    \<and> (\<forall>l \<in> set ls. l < length (cf_labels (cc_fragments s ! index))))"
  have i: "index < length (cc_fragments s)" using assms(2) by (simp add: live_def)
  have "\<exists>u. try_waiting index l t = Some u \<and> P ls u" if P: "P (l # ls) t" for l ls t
  proof -
    have t: "same_frame s t" "links_ok t" "l < length (cf_labels (cc_fragments s ! index))"
      using P by (auto simp: P_def)
    note f = same_frame_frag(6) [OF t(1) i] same_frame_fields(15) [OF t(1)]
    let ?pc = "lb_pc (cf_labels (cc_fragments t ! index) ! l)"
    let ?xs = "filter (\<lambda>(f, _). f \<noteq> index) (waiting t ?pc)"
    have "site_label t ?pc (index, l)"
      using t(3) f assms(2) same_frame_live [OF t(1), of index] by (simp add: site_label_def)
    moreover have "distinct ?xs" "\<forall>x \<in> set ?xs. pending_site t ?pc x"
      using links_ok_waiting [OF t(2), where pc = ?pc] by simp_all
    ultimately obtain u where u: "ofold (\<lambda>(f, link) s. map_option fst (try_link f link [(index, l)] s)) ?xs t = Some u"
        "same_frame t u" "links_ok u"
      using waiting_loop [OF t(2)] by blast
    have "try_waiting index l t = Some u"
      using u(1) t(3) i f by (simp add: try_waiting_def)
    then show ?thesis
      using u t(1) P same_frame_trans [of s t u] by (auto simp: P_def)
  qed
  then show ?thesis
    using ofold_rule [where P = P and xs = ls and s = s and f = "try_waiting index"] assms by (auto simp: P_def)
qed

lemma link_install_ok:
  assumes "links_ok s" "live s index" "cf_links (cc_fragments s ! index) = []"
    "sites_wf (cc_fragments s ! index)" "entries_in s"
  shows "\<exists>u. link_install index s = Some u \<and> same_frame (with_sites index s) u \<and> links_ok u"
proof -
  let ?s1 = "with_sites index s"
  let ?n = "length (ef_link_sites (cf_fragment (cc_fragments s ! index)))"
  have i: "index < length (cc_fragments s)" using assms(2) by (simp add: live_def)
  note n1 = with_sites_nth [OF i] and facts = with_sites_facts [OF i]
  obtain t p where t: "ofold (pend_site index) [0..<?n] ?s1 = Some t" "t = ?s1\<lparr>cc_pending := p\<rparr>" "links_ok t"
      "\<forall>k < ?n. \<exists>pc. pending_site t pc (index, k)"
    using pend_loop [OF assms(1-4)] by blast
  have f1: "same_frame ?s1 t" by (simp add: t(2) same_frame_def linkless_def)
  have "entries_in t"
    using assms(5) by (simp add: entries_in_def t(2) facts(5) n1(1))
  then obtain u where u: "ofold (try_own_site index) [0..<?n] t = Some u" "same_frame t u" "links_ok u"
    using own_loop [OF t(3), of "[0..<?n]" index] t(4) by auto
  have f2: "same_frame ?s1 u" by (rule same_frame_trans [OF f1 u(2)])
  have live: "live u index"
    using assms(2) same_frame_live [OF f2] by (simp add: facts(1))
  have labels: "cf_labels (cc_fragments u ! index) = cf_labels (cc_fragments s ! index)"
    using same_frame_frag(6) [OF f2, of index] i by (simp add: n1)
  obtain v where v: "ofold (try_waiting index) [0..<length (cf_labels (cc_fragments s ! index))] u = Some v"
      "same_frame u v" "links_ok v"
    using labels_loop [OF u(3) live, of "[0..<length (cf_labels (cc_fragments s ! index))]"] labels by auto
  have "link_install index s = Some v"
    using i t(1) u(1) v(1) by (simp add: link_install_def Let_def with_sites_def)
  then show ?thesis
    using v(3) same_frame_trans [OF f2 v(2)] by blast
qed

subsection \<open>The invariant of the cache\<close>

definition entries_ok :: "'l code_cache \<Rightarrow> bool" where
  "entries_ok s \<longleftrightarrow> (\<forall>pc i. cc_by_entry s pc = Some i \<longleftrightarrow> live s i \<and> cf_entry_pc (cc_fragments s ! i) = pc)
    \<and> (\<forall>i. live s i \<longrightarrow> cf_entry_pc (cc_fragments s ! i) \<in> lb_pc ` set (cf_labels (cc_fragments s ! i)))"

definition base_ok :: "'l code_cache \<Rightarrow> bool" where
  "base_ok s \<longleftrightarrow> area_ok (cc_layout s) \<and> labels_ok s
    \<and> 16 * length (cc_record_owner s) \<le> cl_records_len (cc_layout s)
    \<and> (\<forall>all. table_ok s all) \<and> entries_ok s"

definition cache_ok :: "'l code_cache \<Rightarrow> bool" where
  "cache_ok s \<longleftrightarrow> base_ok s \<and> links_ok s"

lemma base_okD:
  assumes "base_ok s"
  shows "area_ok (cc_layout s)" "labels_ok s" "16 * length (cc_record_owner s) \<le> cl_records_len (cc_layout s)"
    "table_ok s all" "entries_ok s"
  using assms by (simp_all add: base_ok_def)

lemma cache_okD:
  assumes "cache_ok s"
  shows "area_ok (cc_layout s)" "labels_ok s" "16 * length (cc_record_owner s) \<le> cl_records_len (cc_layout s)"
    "table_ok s all" "entries_ok s" "links_ok s" "entries_in s"
  using assms by (auto simp: cache_ok_def base_ok_def entries_ok_def entries_in_def live_def)

text \<open>A change that keeps every live label keeps the tables.\<close>

definition keeps_labels :: "'l code_cache \<Rightarrow> 'l code_cache \<Rightarrow> bool" where
  "keeps_labels s t \<longleftrightarrow> (\<forall>i. live s i \<longrightarrow> live t i
    \<and> cf_labels (cc_fragments t ! i) = cf_labels (cc_fragments s ! i)
    \<and> cf_uses_fpsimd (cc_fragments t ! i) = cf_uses_fpsimd (cc_fragments s ! i))"

lemma table_ok_kept:
  assumes s: "area_ok (cc_layout s)" "labels_ok s" "table_ok s all"
    and t: "area_ok (cc_layout t)" "labels_ok t" "slots_of all t = slots_of all s" "keeps_labels s t"
  shows "table_ok t all"
proof -
  let ?T = "tab (slots_of all s)"
  have kept: "r \<in> class_records t all \<and> pc_at t r = pc_at s r" if r: "r \<in> held ?T" for r
  proof -
    obtain i j where ij: "live s i" "is_label s r i j" "all \<or> \<not> cf_uses_fpsimd (cc_fragments s ! i)"
      using r s(3) by (auto simp: table_ok_def class_records_def)
    have "live t i" "is_label t r i j" and eq: "cf_labels (cc_fragments t ! i) = cf_labels (cc_fragments s ! i)"
      "cf_uses_fpsimd (cc_fragments t ! i) = cf_uses_fpsimd (cc_fragments s ! i)"
      using t(4) ij(1,2) by (auto simp: keeps_labels_def is_label_def live_def)
    then show ?thesis
      using ij known_label(6) [OF s(1,2) ij(2)] known_label(6) [OF t(1,2), of r i j]
      by (auto simp: class_records_def)
  qed
  have "pc_at t r = pc_at s r" if "?T k = Some r" for k r
    using kept [of r] that by (auto simp: held_def ran_def)
  then have "table_wf (pc_at t) ?T"
    using s(3) by (simp add: table_ok_def table_wf_def)
  then show ?thesis
    using s(3) kept by (auto simp: table_ok_def t(3))
qed

text \<open>The links may change behind the back of the rest of the invariant.\<close>

lemma base_ok_frame:
  assumes "base_ok s" "same_frame s t"
  shows "base_ok t"
proof -
  note ok = base_okD [OF assms(1)]
  note f = same_frame_fields [OF assms(2)] and live = same_frame_live [OF assms(2)]
  have frag: "cf_labels (cc_fragments t ! i) = cf_labels (cc_fragments s ! i)"
    "cf_uses_fpsimd (cc_fragments t ! i) = cf_uses_fpsimd (cc_fragments s ! i)"
    "cf_entry_pc (cc_fragments t ! i) = cf_entry_pc (cc_fragments s ! i)" if "i < length (cc_fragments s)" for i
    using same_frame_frag [OF assms(2) that] by simp_all
  have lab: "is_label t r i j = is_label s r i j" for r i j
    using frag by (auto simp: is_label_def f)
  have labels: "labels_ok t"
    using ok(2) by (simp add: labels_ok_def lab f)
  have keep: "keeps_labels s t"
    using frag live by (auto simp: keeps_labels_def live_def)
  have "table_ok t all" for all
    by (rule table_ok_kept [OF ok(1,2,4) _ labels _ keep]) (use ok(1) f in \<open>simp_all add: slots_of_def\<close>)
  moreover have "entries_ok t"
  proof -
    have "live s i \<Longrightarrow> cf_entry_pc (cc_fragments t ! i) = cf_entry_pc (cc_fragments s ! i)
        \<and> cf_labels (cc_fragments t ! i) = cf_labels (cc_fragments s ! i)" for i
      using frag by (simp add: live_def)
    then show ?thesis
      using ok(5) unfolding entries_ok_def live f by metis
  qed
  ultimately show ?thesis
    using labels ok(1,3) by (simp add: base_ok_def f)
qed

lemma cache_ok_frame: "cache_ok s \<Longrightarrow> same_frame s t \<Longrightarrow> links_ok t \<Longrightarrow> cache_ok t"
  using base_ok_frame by (auto simp: cache_ok_def)

subsection \<open>Records for the labels\<close>

lemma record_fits:
  assumes "area_ok lay" "16 * n \<le> cl_records_len lay"
  shows "cl_records lay + of_nat (n * IBTC_RECORD_BYTES) + of_nat IBTC_RECORD_BYTES
      > cl_records lay + of_nat (cl_records_len lay) \<longleftrightarrow> cl_records_len lay < 16 * n + 16"
proof -
  let ?R = "unat (cl_records lay)"
  have small: "?R + cl_records_len lay + 16 < 2 ^ 64" using assms(1) by (simp add: area_ok_def)
  have u: "unat (cl_records lay + of_nat m) = ?R + m" if "m \<le> cl_records_len lay + 16" for m
  proof -
    have m: "unat (of_nat m :: u64) = m"
      using that small by (simp add: unsigned_of_nat take_bit_nat_eq_self)
    have "?R + m < 2 ^ LENGTH(64)" using that small by simp
    then show ?thesis
      using unat_add_lem [of "cl_records lay" "of_nat m"] by (simp only: m)
  qed
  have e: "cl_records lay + of_nat (n * IBTC_RECORD_BYTES) + of_nat IBTC_RECORD_BYTES
      = cl_records lay + of_nat (n * 16 + 16)"
    by (simp add: IBTC_RECORD_BYTES_def)
  show ?thesis
    unfolding e word_less_nat_alt using assms(2) u [of "n * 16 + 16"] u [of "cl_records_len lay"] by auto
qed

definition records_made :: "'l code_cache \<Rightarrow> nat \<Rightarrow> nat \<Rightarrow> label list \<Rightarrow> (nat \<times> nat) list \<Rightarrow> bool" where
  "records_made s index from new owner \<longleftrightarrow> (\<forall>j < length new. \<exists>n < length owner.
     owner ! n = (index, from + j) \<and> 16 * n + 16 \<le> cl_records_len (cc_layout s)
     \<and> lb_record (new ! j) = cl_records (cc_layout s) + of_nat (n * 16))"

lemma push_labels_effect:
  assumes "area_ok (cc_layout s)" "16 * length (cc_record_owner s) \<le> cl_records_len (cc_layout s)"
  shows "\<exists>ow wr. fst (push_labels index c ls s) =
        s\<lparr>cc_record_owner := cc_record_owner s @ ow, cc_writes := cc_writes s @ wr\<rparr>
      \<and> 16 * length (cc_record_owner s @ ow) \<le> cl_records_len (cc_layout s)
      \<and> (snd (push_labels index c ls s) = Inl RecordAreaFull
         \<or> (\<exists>new. snd (push_labels index c ls s) = Inr (c\<lparr>cf_labels := cf_labels c @ new\<rparr>)
             \<and> map lb_pc new = map fst ls
             \<and> records_made s index (length (cf_labels c)) new (cc_record_owner s @ ow)))"
  using assms
proof (induction index c ls s rule: push_labels.induct)
  case (1 index c s)
  then show ?case
    by (intro exI [of _ "[]"]) (simp add: records_made_def)
next
  case (2 index c pc off ls s)
  let ?n = "length (cc_record_owner s)"
  let ?r = "cl_records (cc_layout s) + of_nat (?n * IBTC_RECORD_BYTES)"
  let ?l = "\<lparr>lb_pc = pc, lb_offset = off, lb_record = ?r\<rparr>"
  note fits = record_fits [OF 2(2,3)]
  show ?case
  proof (cases "cl_records_len (cc_layout s) < 16 * ?n + 16")
    case True
    then have "push_labels index c ((pc, off) # ls) s = (s, Inl RecordAreaFull)"
      using fits by simp
    then show ?thesis using 2(3) by (intro exI [of _ "[]"]) simp
  next
    case False
    let ?s = "s\<lparr>cc_record_owner := cc_record_owner s @ [(index, length (cf_labels c))],
        cc_writes := cc_writes s @ [(?r + of_nat IBTC_RECORD_PC_OFFSET, pc), (?r + of_nat IBTC_RECORD_HOST_OFFSET, host c ?l)]\<rparr>"
    let ?c = "c\<lparr>cf_labels := cf_labels c @ [?l]\<rparr>"
    have run: "push_labels index c ((pc, off) # ls) s = push_labels index ?c ls ?s"
      using fits False by (simp add: Let_def)
    have "\<exists>ow wr. fst (push_labels index ?c ls ?s) =
        ?s\<lparr>cc_record_owner := cc_record_owner ?s @ ow, cc_writes := cc_writes ?s @ wr\<rparr>
      \<and> 16 * length (cc_record_owner ?s @ ow) \<le> cl_records_len (cc_layout ?s)
      \<and> (snd (push_labels index ?c ls ?s) = Inl RecordAreaFull
         \<or> (\<exists>new. snd (push_labels index ?c ls ?s) = Inr (?c\<lparr>cf_labels := cf_labels ?c @ new\<rparr>)
             \<and> map lb_pc new = map fst ls
             \<and> records_made ?s index (length (cf_labels ?c)) new (cc_record_owner ?s @ ow)))"
      using "2.IH" [of ?n ?r ?l] fits False 2(2) by simp
    then obtain ow wr where IH: "fst (push_labels index ?c ls ?s) =
        ?s\<lparr>cc_record_owner := cc_record_owner ?s @ ow, cc_writes := cc_writes ?s @ wr\<rparr>"
      "16 * length (cc_record_owner ?s @ ow) \<le> cl_records_len (cc_layout ?s)"
      "snd (push_labels index ?c ls ?s) = Inl RecordAreaFull
         \<or> (\<exists>new. snd (push_labels index ?c ls ?s) = Inr (?c\<lparr>cf_labels := cf_labels ?c @ new\<rparr>)
             \<and> map lb_pc new = map fst ls
             \<and> records_made ?s index (length (cf_labels ?c)) new (cc_record_owner ?s @ ow))"
      by blast
    let ?ow = "(index, length (cf_labels c)) # ow"
    have made: "records_made s index (length (cf_labels c)) (?l # new) (cc_record_owner s @ ?ow)"
      if m: "records_made ?s index (length (cf_labels ?c)) new (cc_record_owner ?s @ ow)" for new
      unfolding records_made_def
    proof (intro allI impI)
      fix j assume j: "j < length (?l # new)"
      show "\<exists>n < length (cc_record_owner s @ ?ow). (cc_record_owner s @ ?ow) ! n = (index, length (cf_labels c) + j)
          \<and> 16 * n + 16 \<le> cl_records_len (cc_layout s)
          \<and> lb_record ((?l # new) ! j) = cl_records (cc_layout s) + of_nat (n * 16)"
      proof (cases j)
        case 0
        then show ?thesis
          using False by (intro exI [of _ ?n]) (simp add: IBTC_RECORD_BYTES_def)
      next
        case (Suc m')
        then show ?thesis using m j unfolding records_made_def by simp
      qed
    qed
    show ?thesis
    proof (intro exI [of _ ?ow] exI [of _ "[(?r + of_nat IBTC_RECORD_PC_OFFSET, pc), (?r + of_nat IBTC_RECORD_HOST_OFFSET, host c ?l)] @ wr"] conjI)
      show "snd (push_labels index c ((pc, off) # ls) s) = Inl RecordAreaFull \<or>
        (\<exists>new. snd (push_labels index c ((pc, off) # ls) s) = Inr (c\<lparr>cf_labels := cf_labels c @ new\<rparr>)
          \<and> map lb_pc new = map fst ((pc, off) # ls)
          \<and> records_made s index (length (cf_labels c)) new (cc_record_owner s @ ?ow))"
      proof (rule disjE [OF IH(3)])
        assume "snd (push_labels index ?c ls ?s) = Inl RecordAreaFull"
        then show ?thesis unfolding run by (rule disjI1)
      next
        assume "\<exists>new. snd (push_labels index ?c ls ?s) = Inr (?c\<lparr>cf_labels := cf_labels ?c @ new\<rparr>)
             \<and> map lb_pc new = map fst ls
             \<and> records_made ?s index (length (cf_labels ?c)) new (cc_record_owner ?s @ ow)"
        then obtain new where new: "snd (push_labels index ?c ls ?s) = Inr (?c\<lparr>cf_labels := cf_labels ?c @ new\<rparr>)"
          "map lb_pc new = map fst ls" "records_made ?s index (length (cf_labels ?c)) new (cc_record_owner ?s @ ow)"
          by blast
        have "snd (push_labels index c ((pc, off) # ls) s) = Inr (c\<lparr>cf_labels := cf_labels c @ ?l # new\<rparr>)"
          unfolding run new(1) by simp
        then show ?thesis
          using made [OF new(3)] new(2) by (intro disjI2 exI [of _ "?l # new"]) simp
      qed
    qed (use IH(1,2) in \<open>simp_all only: run, simp_all\<close>)
  qed
qed

subsection \<open>The whole install\<close>

text \<open>The loader and the records of an install that fails later leave the invariant alone.\<close>

lemma cache_ok_records:
  fixes s t :: "'l code_cache"
  assumes "cache_ok s" "cc_layout t = cc_layout s" "cc_fragments t = cc_fragments s"
    "cc_by_entry t = cc_by_entry s" "cc_slots_all t = cc_slots_all s" "cc_slots_nofp t = cc_slots_nofp s"
    "cc_pending t = cc_pending s" "cc_record_owner t = cc_record_owner s @ ow"
    "16 * length (cc_record_owner t) \<le> cl_records_len (cc_layout s)"
  shows "cache_ok t"
proof -
  note ok = cache_okD [OF assms(1)]
  have lab: "labels_ok t"
    using ok(2) unfolding labels_ok_def is_label_def assms(2,3,8)
    by (metis length_append nth_append trans_less_add1)
  have live: "live t = live s" by (simp add: live_def assms(3) fun_eq_iff)
  have "table_ok t all" for all
    by (rule table_ok_kept [OF ok(1,2,4) _ lab])
      (use ok(1) assms in \<open>simp_all add: slots_of_def keeps_labels_def live\<close>)
  moreover have "entries_ok t"
    using ok(5) by (simp add: entries_ok_def live assms(3,4))
  moreover have "links_ok t"
  proof -
    have "site t = site s" "incoming t = incoming s" "waiting t = waiting s"
      by (simp_all add: site_def live incoming_def waiting_def assms(3,7) fun_eq_iff)
    then show ?thesis
      using ok(6) by (simp add: links_ok_def link_inv_def assms(3,7))
  qed
  ultimately show ?thesis
    using lab ok(1) assms(2,9) by (simp add: cache_ok_def base_ok_def)
qed

text \<open>A fragment without sites is appended.\<close>

lemma append_facts:
  fixes s t :: "'l code_cache"
  assumes "cc_fragments t = cc_fragments s @ [c]" "cf_links c = []" "cf_incoming c = []"
  shows "site t = site s" "incoming t = incoming s"
    and "link_ok (cc_fragments s) i y \<Longrightarrow> link_ok (cc_fragments t) i y"
proof -
  show "site t = site s"
    using assms by (auto simp: site_def live_def nth_append fun_eq_iff less_Suc_eq)
  show "incoming t = incoming s"
    using assms by (auto simp: incoming_def nth_append fun_eq_iff)
  assume ok: "link_ok (cc_fragments s) i y"
  show "link_ok (cc_fragments t) i y"
  proof (cases "ls_linked y")
    case None
    then show ?thesis using ok by (simp add: link_ok_def assms(1) nth_append)
  next
    case (Some c)
    obtain b l where "c = (b, l)" by (cases c)
    then show ?thesis using ok Some by (auto simp: link_ok_def link_target_def assms(1) nth_append)
  qed
qed

lemma append_fragment_ok:
  fixes s t :: "'l code_cache"
  assumes ok: "cache_ok s" and lay: "cc_layout t = cc_layout s" and frags: "cc_fragments t = cc_fragments s @ [c]"
    and by_entry: "cc_by_entry t = (cc_by_entry s)(pc \<mapsto> length (cc_fragments s))"
    and same: "cc_slots_all t = cc_slots_all s" "cc_slots_nofp t = cc_slots_nofp s" "cc_pending t = cc_pending s"
    and owner: "cc_record_owner t = cc_record_owner s @ ow"
      "16 * length (cc_record_owner t) \<le> cl_records_len (cc_layout s)"
    and made: "records_made s (length (cc_fragments s)) 0 (cf_labels c) (cc_record_owner t)"
    and c: "cf_links c = []" "cf_incoming c = []" "\<not> cf_retired c" "cf_entry_pc c = pc"
      "pc \<in> lb_pc ` set (cf_labels c)"
    and free: "cc_by_entry s pc = None"
  shows "cache_ok t"
proof -
  let ?n = "length (cc_fragments s)"
  note okD = cache_okD [OF ok]
  have live: "live t i \<longleftrightarrow> live s i \<or> i = ?n" for i
    using c(3) by (auto simp: live_def frags nth_append less_Suc_eq)
  have lab: "labels_ok t"
    unfolding labels_ok_def
  proof (intro allI impI)
    fix r i j assume ij: "is_label t r i j"
    show "\<exists>n < length (cc_record_owner t). cc_record_owner t ! n = (i, j)
        \<and> 16 * n + 16 \<le> cl_records_len (cc_layout t) \<and> r = cl_records (cc_layout t) + of_nat (n * 16)"
    proof (cases "i = ?n")
      case True
      then show ?thesis
        using made ij by (auto simp: records_made_def is_label_def frags nth_append lay)
    next
      case False
      then have "is_label s r i j"
        using ij by (auto simp: is_label_def frags nth_append less_Suc_eq)
      then obtain n where n: "n < length (cc_record_owner s)" "cc_record_owner s ! n = (i, j)"
          "16 * n + 16 \<le> cl_records_len (cc_layout s)" "r = cl_records (cc_layout s) + of_nat (n * 16)"
        using okD(2) unfolding labels_ok_def by blast
      then show ?thesis
        by (intro exI [of _ n]) (simp add: owner(1) nth_append lay)
    qed
  qed
  have keep: "keeps_labels s t"
    by (auto simp: keeps_labels_def live frags nth_append) (simp_all add: live_def)
  have "table_ok t all" for all
    by (rule table_ok_kept [OF okD(1,2,4) _ lab _ keep]) (use okD(1) same in \<open>simp_all add: slots_of_def lay\<close>)
  moreover have "entries_ok t"
    unfolding entries_ok_def
  proof (intro conjI allI impI)
    fix q i
    have old: "cc_by_entry s q = Some i \<longleftrightarrow> live s i \<and> cf_entry_pc (cc_fragments s ! i) = q" for q i
      using okD(5) by (simp add: entries_ok_def)
    have sn: "\<not> live s ?n" by (simp add: live_def)
    have nth: "live s i \<Longrightarrow> cc_fragments t ! i = cc_fragments s ! i" for i
      by (simp add: frags nth_append live_def)
    have top: "cc_fragments t ! ?n = c" by (simp add: frags)
    show "cc_by_entry t q = Some i \<longleftrightarrow> live t i \<and> cf_entry_pc (cc_fragments t ! i) = q"
      using old [of q i] old [of pc i] free sn nth [of i] top c(4)
      by (auto simp: by_entry live)
  next
    fix i assume "live t i"
    then show "cf_entry_pc (cc_fragments t ! i) \<in> lb_pc ` set (cf_labels (cc_fragments t ! i))"
      using okD(5) c(4,5) by (auto simp: live entries_ok_def frags nth_append live_def)
  qed
  moreover have "links_ok t"
  proof -
    note a = append_facts [OF frags c(1,2)]
    have "waiting t = waiting s" by (simp add: waiting_def same(3) fun_eq_iff)
    then show ?thesis
      using okD(6) a(3) by (simp add: links_ok_def link_inv_def a(1,2) same(3))
  qed
  ultimately show ?thesis
    using lab okD(1) owner(2) by (simp add: cache_ok_def base_ok_def lay)
qed

text \<open>The sites are only set up when the cache links.\<close>

lemma with_sites_ok:
  assumes "cache_ok s" "live s index"
    and "same_frame (with_sites index s) u" "links_ok u"
  shows "cache_ok u"
proof -
  have i: "index < length (cc_fragments s)" using assms(2) by (simp add: live_def)
  note n = with_sites_nth [OF i] and w = with_sites_facts [OF i] and ok = cache_okD [OF assms(1)]
  have lay: "cc_layout (with_sites index s) = cc_layout s" "cc_record_owner (with_sites index s) = cc_record_owner s"
    "slots_of all (with_sites index s) = slots_of all s" for all
    by (simp_all add: with_sites_def upd_frag_def slots_of_def)
  have "is_label (with_sites index s) r a b = is_label s r a b" for r a b
    by (simp add: is_label_def n)
  then have lab: "labels_ok (with_sites index s)"
    using ok(2) by (simp add: labels_ok_def lay)
  have "table_ok (with_sites index s) all" for all
    by (rule table_ok_kept [OF ok(1,2,4) _ lab]) (use ok(1) in \<open>simp_all add: lay keeps_labels_def w n\<close>)
  moreover have "entries_ok (with_sites index s)"
    using ok(5) by (simp add: entries_ok_def w n)
  ultimately have "base_ok (with_sites index s)"
    using ok(1,3) lab by (simp add: base_ok_def lay)
  then show ?thesis
    using assms(4) base_ok_frame [OF _ assms(3)] by (simp add: cache_ok_def)
qed

text \<open>
  \<open>install\<close> never panics on a cache that is sound, and leaves it sound whether or not it succeeds; a
  success makes the fragment the live one of its entry.
\<close>

definition installable :: "u64 \<Rightarrow> exec_fragment \<Rightarrow> u8 list \<Rightarrow> 'l code_cache \<Rightarrow> bool" where
  "installable entry_pc fragment encoded s \<longleftrightarrow>
    sites_wf (fresh_fragment entry_pc fragment encoded False)
    \<and> entry_pc \<in> fst ` set (ef_entry_labels fragment) \<and> cc_by_entry s entry_pc = None"

lemma install_ok:
  assumes ok: "cache_ok s" and fit: "installable entry_pc fragment encoded s"
  shows "\<exists>t r. install ld entry_pc fragment encoded fp s = Some (t, r) \<and> cache_ok t \<and> cc_entered t = cc_entered s
    \<and> (case r of Inl e \<Rightarrow> cc_fragments t = cc_fragments s \<and> (e = RecordAreaFull \<or> (\<exists>m. e = LoaderFailed m))
        | Inr i \<Rightarrow> i = length (cc_fragments s) \<and> live t i \<and> cc_by_entry t entry_pc = Some i)"
proof -
  note okD = cache_okD [OF ok]
  let ?n = "length (cc_fragments s)" and ?c = "fresh_fragment entry_pc fragment encoded fp"
  obtain loader base where ld: "ld ?c (cc_loader s) = (loader, base)" by (cases "ld ?c (cc_loader s)")
  let ?s = "s\<lparr>cc_loader := loader\<rparr>"
  show ?thesis
  proof (cases base)
    case (Inl e)
    have "cache_ok ?s"
      by (rule cache_ok_records [OF ok, where ow = "[]"]) (use okD(3) in simp_all)
    then show ?thesis
      using Inl ld by (simp add: install_def Let_def)
  next
    case (Inr b)
    let ?cb = "?c\<lparr>cf_base := b\<rparr>"
    obtain ow wr where pl: "fst (push_labels ?n ?cb (sort (ef_entry_labels fragment)) ?s) =
          ?s\<lparr>cc_record_owner := cc_record_owner ?s @ ow, cc_writes := cc_writes ?s @ wr\<rparr>"
        "16 * length (cc_record_owner ?s @ ow) \<le> cl_records_len (cc_layout ?s)"
        "snd (push_labels ?n ?cb (sort (ef_entry_labels fragment)) ?s) = Inl RecordAreaFull
         \<or> (\<exists>new. snd (push_labels ?n ?cb (sort (ef_entry_labels fragment)) ?s) = Inr (?cb\<lparr>cf_labels := cf_labels ?cb @ new\<rparr>)
             \<and> map lb_pc new = map fst (sort (ef_entry_labels fragment))
             \<and> records_made ?s ?n (length (cf_labels ?cb)) new (cc_record_owner ?s @ ow))"
      using push_labels_effect [of ?s ?n ?cb "sort (ef_entry_labels fragment)"] okD(1,3) by auto
    let ?t = "?s\<lparr>cc_record_owner := cc_record_owner s @ ow, cc_writes := cc_writes s @ wr\<rparr>"
    show ?thesis
      using pl(3)
    proof (elim disjE exE conjE)
      assume "snd (push_labels ?n ?cb (sort (ef_entry_labels fragment)) ?s) = Inl RecordAreaFull"
      then have run: "push_labels ?n ?cb (sort (ef_entry_labels fragment)) ?s = (?t, Inl RecordAreaFull)"
        using pl(1) by (simp add: prod_eq_iff)
      have "cache_ok ?t"
        by (rule cache_ok_records [OF ok, where ow = ow]) (use pl(2) in simp_all)
      then show ?thesis
        using run ld Inr by (simp add: install_def Let_def)
    next
      fix new
      assume new: "snd (push_labels ?n ?cb (sort (ef_entry_labels fragment)) ?s) = Inr (?cb\<lparr>cf_labels := cf_labels ?cb @ new\<rparr>)"
        "map lb_pc new = map fst (sort (ef_entry_labels fragment))"
        "records_made ?s ?n (length (cf_labels ?cb)) new (cc_record_owner ?s @ ow)"
      let ?f = "?cb\<lparr>cf_labels := new\<rparr>"
      have none: "cf_labels ?cb = []" by (simp add: fresh_fragment_def)
      have run: "push_labels ?n ?cb (sort (ef_entry_labels fragment)) ?s = (?t, Inr ?f)"
        using pl(1) new(1) none by (simp add: prod_eq_iff)
      let ?u = "?t\<lparr>cc_by_entry := (cc_by_entry s)(entry_pc \<mapsto> ?n), cc_fragments := cc_fragments s @ [?f]\<rparr>"
      let ?v = "log_event (Installed ?n entry_pc) ?u"
      have free: "cc_by_entry s entry_pc = None" using fit by (simp add: installable_def)
      have "lb_pc ` set new = fst ` set (ef_entry_labels fragment)"
        using arg_cong [OF new(2), of set] by simp
      then have entry: "entry_pc \<in> lb_pc ` set new"
        using fit by (simp add: installable_def)
      have v: "cache_ok ?v"
        by (rule append_fragment_ok [OF ok, where c = ?f and pc = entry_pc and ow = ow])
          (use pl(2) new(3) none free entry in \<open>simp_all add: log_event_def records_made_def fresh_fragment_def\<close>)
      have top: "cc_fragments ?v ! ?n = ?f" by simp
      have live: "live ?v ?n" by (simp add: live_def fresh_fragment_def)
      have eval: "install ld entry_pc fragment encoded fp s =
          (if cc_linking s then map_option (\<lambda>s. (s, Inr ?n)) (link_install ?n ?v) else Some (?v, Inr ?n))"
        using ld Inr run free by (simp add: install_def Let_def log_event_def)
      show ?thesis
      proof (cases "cc_linking s")
        case False
        then show ?thesis using eval v live by (simp add: log_event_def)
      next
        case True
        have "sites_wf ?f"
          using fit by (simp add: installable_def sites_wf_def slot_holds_def fresh_fragment_def)
        then obtain w where w: "link_install ?n ?v = Some w" "same_frame (with_sites ?n ?v) w" "links_ok w"
          using link_install_ok [of ?v ?n] cache_okD(6,7) [OF v] live unfolding top
          by (auto simp: fresh_fragment_def)
        have "cache_ok w" by (rule with_sites_ok [OF v live w(2,3)])
        moreover have "live w ?n"
          using live same_frame_live [OF w(2)] with_sites_facts(1) [of ?n ?v] by simp
        moreover have "cc_by_entry w entry_pc = Some ?n"
          using same_frame_fields(4) [OF w(2)] with_sites_facts(5) [of ?n ?v] by (simp add: log_event_def)
        moreover have "cc_entered w = cc_entered s"
          using same_frame_fields(13) [OF w(2)] by (simp add: with_sites_def upd_frag_def log_event_def)
        ultimately show ?thesis
          using eval w(1) True by simp
      qed
    qed
  qed
qed

end
