(* ===== verification/CacheRetire.thy ===== *)
theory CacheRetire
  imports CacheInstall VerifyFacts
begin

section \<open>Retiring a fragment\<close>

text \<open>
  \<open>retire\<close> on a live fragment never panics, keeps the invariant, and leaves the fragment out of
  everything: no site is linked to it, no table slot holds one of its records, no entry leads to it.
\<close>

subsection \<open>Restoring what is linked into it\<close>

lemma upd_incoming_facts:
  fixes g :: "(nat \<times> nat) list \<Rightarrow> (nat \<times> nat) list"
  assumes "b < length (cc_fragments s)"
  defines "u \<equiv> upd_frag b (\<lambda>t. t\<lparr>cf_incoming := g (cf_incoming t)\<rparr>) s"
  shows "same_frame s u" "site u = site s" "incoming u = (incoming s)(b := g (incoming s b))"
    and "cc_pending u = cc_pending s" "waiting u = waiting s"
    and "slot_holds (cc_fragments u ! i) = slot_holds (cc_fragments s ! i)"
proof -
  show "same_frame s u"
    unfolding u_def by (rule upd_frag_frame [OF assms(1)]) (simp add: bare_def)
  note live = same_frame_live [OF this]
  have nth: "cf_links (cc_fragments u ! i) = cf_links (cc_fragments s ! i)"
    "slot_holds (cc_fragments u ! i) = slot_holds (cc_fragments s ! i)" for i
    using assms(1) by (cases "i = b"; simp add: u_def upd_frag_nth slot_holds_def fun_eq_iff)+
  show "site u = site s"
    using live by (simp add: site_def nth fun_eq_iff)
  show "incoming u = (incoming s)(b := g (incoming s b))"
    using assms(1) by (auto simp: incoming_def u_def upd_frag_def nth_list_update fun_eq_iff)
  show "cc_pending u = cc_pending s" "waiting u = waiting s"
    by (simp_all add: u_def)
  show "slot_holds (cc_fragments u ! i) = slot_holds (cc_fragments s ! i)" by (rule nth)
qed

lemma restore_loop:
  assumes "link_inv (site s) ((incoming s)(r := xs)) s" "incoming s r = []"
  shows "\<exists>t. ofold (\<lambda>(i, k). restore_link i k) xs s = Some t \<and> same_frame s t
    \<and> links_ok t \<and> incoming t r = []"
proof -
  define P where "P = (\<lambda>xs t. same_frame s t \<and> link_inv (site t) ((incoming t)(r := xs)) t \<and> incoming t r = [])"
  have "\<exists>u. (case x of (i, k) \<Rightarrow> restore_link i k) t = Some u \<and> P xs u" if P: "P (x # xs) t" for x xs t
  proof -
    obtain i k where x: "x = (i, k)" by (cases x)
    have t: "same_frame s t" "link_inv (site t) ((incoming t)(r := (i, k) # xs)) t" "incoming t r = []"
      using P by (auto simp: P_def x)
    have "(i, k) \<in> set (((incoming t)(r := (i, k) # xs)) r)" by simp
    then obtain y l where y: "site t (i, k) = Some y" "ls_linked y = Some (r, l)"
      using t(2) unfolding link_inv_def inc_ok_def by blast
    obtain u where u: "restore_link i k t = Some u" "same_frame t u"
        "site u = (site t)((i, k) \<mapsto> y\<lparr>ls_linked := None\<rparr>)" "incoming u = incoming t"
        "link_inv ((site t)((i, k) \<mapsto> y\<lparr>ls_linked := None\<rparr>)) ((incoming t)(r := xs)) u"
      using restore_link_inv [OF t(2) y(1) y(1) y(2)] by blast
    then show ?thesis
      using t same_frame_trans [of s t u] by (simp add: P_def x)
  qed
  moreover have "P xs s" using assms by (simp add: P_def)
  ultimately obtain t where t: "ofold (\<lambda>(i, k). restore_link i k) xs s = Some t" "P [] t"
    using ofold_rule [where P = P and xs = xs and s = s] by blast
  then have "(incoming t)(r := []) = incoming t" by (auto simp: P_def)
  then have "links_ok t" using t(2) by (simp add: P_def links_ok_def)
  then show ?thesis using t by (auto simp: P_def)
qed

subsection \<open>Dropping its own sites\<close>

lemma link_inv_drop_pending:
  assumes "link_inv V I s" "V x = Some y" "ls_linked y = None"
  shows "link_inv (V(x := None)) I (drop_pending (ls_target y) x s)"
proof -
  note inv = link_invD [OF assms(1)]
  have "link_ok (cc_fragments s) (fst z) w" if "(V(x := None)) z = Some w" for z w
    using inv(5) [of z w] that by (simp split: if_splits)
  then show ?thesis
    unfolding link_inv_def waiting_drop pending_fragments
    using pend_ok_drop(1) [OF inv(2) assms(2,3)] inc_ok_drop(1) [OF inv(3) assms(2,3)]
      slots_distinct_drop [OF inv(4)] pending_keys(2) [OF inv(1)] by blast
qed

lemma link_inv_drop_linked:
  assumes "link_inv V I s" "V x = Some y" "ls_linked y = Some (b, l)" "b < length (cc_fragments s)"
    and "u = upd_frag b (\<lambda>t. t\<lparr>cf_incoming := filter (\<lambda>e. e \<noteq> x) (cf_incoming t)\<rparr>) s"
  shows "link_inv (V(x := None)) (I(b := filter (\<lambda>e. e \<noteq> x) (I b))) u"
proof -
  note inv = link_invD [OF assms(1)]
  note f = upd_incoming_facts [OF assms(4), of "filter (\<lambda>e. e \<noteq> x)", folded assms(5)]
  have "link_ok (cc_fragments u) (fst z) w" if "(V(x := None)) z = Some w" for z w
  proof (rule link_ok_frame [OF f(1)])
    show "link_ok (cc_fragments s) (fst z) w"
      using inv(5) [of z w] that by (simp split: if_splits)
  qed (simp add: f(6))
  then show ?thesis
    unfolding link_inv_def f(4,5)
    using pend_ok_drop(2) [OF inv(2) assms(2,3)] inc_ok_drop(2) [OF inv(3) assms(2,3)]
      slots_distinct_drop [OF inv(4)] inv(1) by blast
qed

lemma drop_loop:
  assumes ok: "links_ok s" and live: "live s r" and inc: "incoming s r = []"
  shows "\<exists>t. ofold (drop_own_link r) [0..<length (cf_links (cc_fragments s ! r))] s = Some t
    \<and> same_frame s t \<and> site t = site s \<and> incoming t r = []
    \<and> link_inv (\<lambda>x. if fst x = r then None else site s x) (incoming t) t"
proof -
  let ?n = "length (cf_links (cc_fragments s ! r))"
  have r: "r < length (cc_fragments s)" using live by (simp add: live_def)
  define V where "V = (\<lambda>ks x. if fst x = r \<and> snd x \<notin> set ks then None else site s x)"
  define P where "P = (\<lambda>ks t. same_frame s t \<and> site t = site s \<and> incoming t r = [] \<and> distinct ks
    \<and> set ks \<subseteq> {..<?n} \<and> link_inv (V ks) (incoming t) t)"
  have "V [0..<?n] = site s"
    by (rule ext) (auto simp: V_def site_def split: if_splits prod.splits)
  then have start: "P [0..<?n] s"
    using ok inc by (auto simp: P_def links_ok_def)
  have step: "\<exists>u. drop_own_link r k t = Some u \<and> P ks u" if P: "P (k # ks) t" for k ks t
  proof -
    have t: "same_frame s t" "site t = site s" "incoming t r = []" "k < ?n" "k \<notin> set ks" "distinct ks"
      "set ks \<subseteq> {..<?n}" "link_inv (V (k # ks)) (incoming t) t"
      using P by (auto simp: P_def)
    obtain y where y: "site s (r, k) = Some y"
      using live t(4) by (simp add: site_def)
    then have Vy: "V (k # ks) (r, k) = Some y" by (simp add: V_def)
    have V': "(V (k # ks))((r, k) := None) = V ks"
      using t(5) by (auto simp: V_def fun_eq_iff)
    have fk: "r < length (cc_fragments t)" "k < length (cf_links (cc_fragments t ! r))"
      "cf_links (cc_fragments t ! r) ! k = y"
      using y [folded t(2)] by (auto simp: site_def live_def split: if_splits)
    show ?thesis
    proof (cases "ls_linked y")
      case None
      let ?u = "drop_pending (ls_target y) (r, k) t"
      have fr: "site ?u = site t" "incoming ?u = incoming t"
        by (simp_all add: site_def live_def incoming_def fun_eq_iff)
      have "link_inv (V ks) (incoming t) ?u"
        using link_inv_drop_pending [OF t(8) Vy None] V' by simp
      moreover have "drop_own_link r k t = Some ?u"
        using fk None by (simp add: drop_own_link_def)
      ultimately show ?thesis
        using t(1-3,6,7) fr by (simp add: P_def)
    next
      case (Some c)
      obtain b l where c: "c = (b, l)" by (cases c)
      have "link_ok (cc_fragments t) r y"
        using link_invD(5) [OF t(8) Vy] by simp
      then have b: "b < length (cc_fragments t)"
        using Some c by (simp add: link_ok_def link_target_def)
      let ?u = "upd_frag b (\<lambda>f. f\<lparr>cf_incoming := filter (\<lambda>e. e \<noteq> (r, k)) (cf_incoming f)\<rparr>) t"
      note f = upd_incoming_facts [OF b, of "filter (\<lambda>e. e \<noteq> (r, k))"]
      have "link_inv (V ks) (incoming ?u) ?u"
        using link_inv_drop_linked [OF t(8) Vy Some [unfolded c] b refl] V' by (simp add: f(3))
      moreover have "drop_own_link r k t = Some ?u"
        using fk Some c b by (simp add: drop_own_link_def)
      moreover have "incoming ?u r = []" using t(3) unfolding f(3) by auto
      ultimately show ?thesis
        using t(1,2,6,7) same_frame_trans [OF t(1) f(1)] f(2) by (simp add: P_def)
    qed
  qed
  obtain t where t: "ofold (drop_own_link r) [0..<?n] s = Some t" "P [] t"
    using ofold_rule [where P = P, OF start] step by blast
  moreover have "V [] = (\<lambda>x. if fst x = r then None else site s x)" by (simp add: V_def fun_eq_iff)
  ultimately show ?thesis by (auto simp: P_def)
qed

subsection \<open>Marking it retired\<close>

definition mark_retired :: "nat \<Rightarrow> 'l code_cache \<Rightarrow> 'l code_cache" where
  "mark_retired r s = upd_frag r (\<lambda>f. f\<lparr>cf_retired := True\<rparr>) s"

lemma mark_retired_facts:
  assumes "r < length (cc_fragments s)"
  shows "live (mark_retired r s) i \<longleftrightarrow> live s i \<and> i \<noteq> r"
    and "site (mark_retired r s) = (\<lambda>x. if fst x = r then None else site s x)"
    and "incoming (mark_retired r s) = incoming s" "waiting (mark_retired r s) = waiting s"
    and "cc_pending (mark_retired r s) = cc_pending s"
    and "cf_labels (cc_fragments (mark_retired r s) ! i) = cf_labels (cc_fragments s ! i)"
    and "cf_uses_fpsimd (cc_fragments (mark_retired r s) ! i) = cf_uses_fpsimd (cc_fragments s ! i)"
    and "cf_entry_pc (cc_fragments (mark_retired r s) ! i) = cf_entry_pc (cc_fragments s ! i)"
    and "length (cc_fragments (mark_retired r s)) = length (cc_fragments s)"
proof -
  have nth: "cc_fragments (mark_retired r s) ! j =
      (if j = r then (cc_fragments s ! j)\<lparr>cf_retired := True\<rparr> else cc_fragments s ! j)" for j
    using assms by (simp add: mark_retired_def upd_frag_def)
  show len: "length (cc_fragments (mark_retired r s)) = length (cc_fragments s)"
    by (simp add: mark_retired_def upd_frag_nth)
  show live: "live (mark_retired r s) i \<longleftrightarrow> live s i \<and> i \<noteq> r" for i
    by (auto simp: live_def nth len)
  show "site (mark_retired r s) = (\<lambda>x. if fst x = r then None else site s x)"
    by (rule ext) (auto simp: site_def live nth split: prod.splits)
  show "incoming (mark_retired r s) = incoming s"
    by (rule ext) (simp add: incoming_def nth len)
  show "waiting (mark_retired r s) = waiting s" "cc_pending (mark_retired r s) = cc_pending s"
    by (simp_all add: mark_retired_def)
  show "cf_labels (cc_fragments (mark_retired r s) ! i) = cf_labels (cc_fragments s ! i)"
    "cf_uses_fpsimd (cc_fragments (mark_retired r s) ! i) = cf_uses_fpsimd (cc_fragments s ! i)"
    "cf_entry_pc (cc_fragments (mark_retired r s) ! i) = cf_entry_pc (cc_fragments s ! i)"
    by (simp_all add: nth)
qed

lemma mark_retired_links:
  assumes "link_inv (\<lambda>x. if fst x = r then None else site s x) (incoming s) s" "incoming s r = []"
    and r: "r < length (cc_fragments s)"
  shows "links_ok (mark_retired r s)"
proof -
  let ?V = "\<lambda>x. if fst x = r then None else site s x" and ?u = "mark_retired r s"
  note m = mark_retired_facts [OF r]
  have free: "b \<noteq> r" if "?V x = Some y" "ls_linked y = Some (b, l)" for x y b l
  proof
    assume "b = r"
    then have "x \<in> set (incoming s r)"
      using assms(1) that unfolding link_inv_def inc_ok_def by blast
    then show False using assms(2) by simp
  qed
  have "link_ok (cc_fragments ?u) (fst x) y" if x: "?V x = Some y" for x y
  proof -
    have ok: "link_ok (cc_fragments s) (fst x) y" and ne: "fst x \<noteq> r"
      using link_invD(5) [OF assms(1) x] x by (auto split: if_splits)
    have nth: "j \<noteq> r \<Longrightarrow> cc_fragments ?u ! j = cc_fragments s ! j" for j
      by (simp add: mark_retired_def upd_frag_nth)
    show ?thesis
    proof (cases "ls_linked y")
      case None
      then show ?thesis using ok ne by (simp add: link_ok_def nth m(9))
    next
      case (Some c)
      obtain b l where c: "c = (b, l)" by (cases c)
      then show ?thesis
        using ok ne Some free [OF x, of b l] by (simp add: link_ok_def link_target_def nth m(9))
    qed
  qed
  then show ?thesis
    using assms(1) by (simp add: links_ok_def link_inv_def m(2-5))
qed

subsection \<open>The whole retire\<close>

text \<open>The records of the retired fragment.\<close>

definition records_of :: "'l code_cache \<Rightarrow> nat \<Rightarrow> u64 set" where
  "records_of s i = lb_record ` set (cf_labels (cc_fragments s ! i))"

lemma mark_entry:
  assumes "entries_ok s" "live s r" "pc = cf_entry_pc (cc_fragments s ! r)"
  shows "cc_by_entry s pc = Some r"
  using assms by (simp add: entries_ok_def)

lemma unentered_ok:
  assumes ent: "entries_ok s" and live: "live s r" and pc: "pc = cf_entry_pc (cc_fragments s ! r)"
    and u: "u = (mark_retired r s)\<lparr>cc_by_entry := (cc_by_entry s)(pc := None)\<rparr>"
  shows "entries_ok u"
proof -
  have r: "r < length (cc_fragments s)" using live by (simp add: live_def)
  note m = mark_retired_facts [OF r]
  have lu: "live u i \<longleftrightarrow> live s i \<and> i \<noteq> r" for i
    using m(1) by (simp add: u live_def)
  have fu: "cf_labels (cc_fragments u ! i) = cf_labels (cc_fragments s ! i)"
    "cf_entry_pc (cc_fragments u ! i) = cf_entry_pc (cc_fragments s ! i)" for i
    using m(6,8) by (simp_all add: u)
  have old: "cc_by_entry s q = Some i \<longleftrightarrow> live s i \<and> cf_entry_pc (cc_fragments s ! i) = q" for q i
    using ent by (simp add: entries_ok_def)
  have "cc_by_entry u q = Some i \<longleftrightarrow> live u i \<and> cf_entry_pc (cc_fragments u ! i) = q" for q i
  proof (cases "q = pc")
    case True
    have "cc_by_entry s pc = Some r" using old [of pc r] live by (simp add: pc)
    then have "\<not> (live u i \<and> cf_entry_pc (cc_fragments u ! i) = q)"
      using old [of pc i] True by (auto simp only: lu fu)
    then show ?thesis using True by (simp add: u)
  next
    case False
    then have "cc_by_entry u q = cc_by_entry s q" by (simp add: u)
    moreover have "i \<noteq> r" if "cf_entry_pc (cc_fragments s ! i) = q"
      using that False pc by blast
    ultimately show ?thesis using old [of q i] by (auto simp only: lu fu)
  qed
  then show ?thesis
    using ent by (simp add: entries_ok_def lu fu)
qed

lemma retire_ok:
  assumes ok: "cache_ok s" and live: "live s r"
  shows "\<exists>t. retire r s = Some t \<and> cache_ok t \<and> length (cc_fragments t) = length (cc_fragments s)
    \<and> (\<forall>i. live t i \<longleftrightarrow> live s i \<and> i \<noteq> r)
    \<and> (\<forall>all. held (tab (slots_of all t)) \<inter> records_of s r = {})
    \<and> (\<forall>i. i < length (cc_fragments s) \<longrightarrow> cf_labels (cc_fragments t ! i) = cf_labels (cc_fragments s ! i)
         \<and> cf_uses_fpsimd (cc_fragments t ! i) = cf_uses_fpsimd (cc_fragments s ! i)
         \<and> cf_entry_pc (cc_fragments t ! i) = cf_entry_pc (cc_fragments s ! i))"
proof -
  note okD = cache_okD [OF ok]
  have r: "r < length (cc_fragments s)" using live by (simp add: live_def)
  define s0 where "s0 = upd_frag r (\<lambda>f. f\<lparr>cf_incoming := []\<rparr>) s"
  note f0 = upd_incoming_facts [OF r, of "\<lambda>_. []", folded s0_def]
  have "link_inv (site s0) ((incoming s0)(r := incoming s r)) s0"
  proof -
    have "link_ok (cc_fragments s0) (fst x) y" if "site s x = Some y" for x y
      using link_ok_frame [OF f0(1)] link_invD(5) [OF okD(6) [unfolded links_ok_def] that] by (simp add: f0(6))
    then show ?thesis
      using okD(6) unfolding links_ok_def link_inv_def f0(2-5) fun_upd_upd fun_upd_triv by blast
  qed
  moreover have "incoming s0 r = []" by (simp add: f0(3))
  ultimately obtain s1 where s1: "ofold (\<lambda>(i, k). restore_link i k) (incoming s r) s0 = Some s1"
      "same_frame s0 s1" "links_ok s1" "incoming s1 r = []"
    using restore_loop by blast
  note g1 = same_frame_trans [OF f0(1) s1(2)]
  have live1: "live s1 r" using live same_frame_live [OF g1] by simp
  obtain s2 where s2: "ofold (drop_own_link r) [0..<length (cf_links (cc_fragments s1 ! r))] s1 = Some s2"
      "same_frame s1 s2" "site s2 = site s1" "incoming s2 r = []"
      "link_inv (\<lambda>x. if fst x = r then None else site s1 x) (incoming s2) s2"
    using drop_loop [OF s1(3) live1 s1(4)] by blast
  note g = same_frame_trans [OF g1 s2(2)]
  note F = same_frame_fields [OF g] and fr = same_frame_frag [OF g]
  have n1: "length (cf_links (cc_fragments s1 ! r)) = length (cf_links (cc_fragments s ! r))"
    by (rule same_frame_frag(7) [OF g1 r])
  have live2: "live s2 i = live s i" for i by (rule same_frame_live [OF g])
  have r2: "r < length (cc_fragments s2)" using r F(15) by simp
  have base2: "base_ok s2"
    using ok base_ok_frame [OF _ g] by (simp add: cache_ok_def)
  let ?pc = "cf_entry_pc (cc_fragments s ! r)"
  have pc: "?pc = cf_entry_pc (cc_fragments s2 ! r)" using fr(1) [OF r] by simp
  define s4 where "s4 = (mark_retired r s2)\<lparr>cc_by_entry := (cc_by_entry s2)(?pc := None)\<rparr>"
  have entries4: "entries_ok s4"
    using unentered_ok [OF base_okD(5) [OF base2] _ pc s4_def] live live2 by simp
  have links4: "links_ok s4"
  proof -
    have "links_ok (mark_retired r s2)"
      by (rule mark_retired_links [OF s2(5) [folded s2(3)] s2(4) r2])
    moreover have "site s4 = site (mark_retired r s2)" "incoming s4 = incoming (mark_retired r s2)"
      "waiting s4 = waiting (mark_retired r s2)"
      by (simp_all add: s4_def site_def live_def incoming_def waiting_def fun_eq_iff)
    ultimately show ?thesis by (simp add: links_ok_def link_inv_def s4_def)
  qed
  note m = mark_retired_facts [OF r2]
  have live4: "live s4 i \<longleftrightarrow> live s i \<and> i \<noteq> r" for i
  proof -
    have "live s4 i \<longleftrightarrow> live (mark_retired r s2) i" by (simp add: s4_def live_def)
    then show ?thesis by (simp only: m(1) live2)
  qed
  have same4: "cc_layout s4 = cc_layout s" "cc_record_owner s4 = cc_record_owner s" "slots_of all s4 = slots_of all s"
    "length (cc_fragments s4) = length (cc_fragments s)" for all
    using F m(9) by (simp_all add: s4_def mark_retired_def upd_frag_def slots_of_def)
  have frag4: "cf_labels (cc_fragments s4 ! i) = cf_labels (cc_fragments s ! i)
      \<and> cf_uses_fpsimd (cc_fragments s4 ! i) = cf_uses_fpsimd (cc_fragments s ! i)
      \<and> cf_entry_pc (cc_fragments s4 ! i) = cf_entry_pc (cc_fragments s ! i)" if "i < length (cc_fragments s)" for i
    using m(6-8) [of i] fr [OF that] by (simp add: s4_def)
  have lab: "is_label s4 q i j = is_label s q i j" for q i j
    using frag4 by (auto simp: is_label_def same4)
  have labels4: "labels_ok s4" using okD(2) by (simp add: labels_ok_def lab same4)
  let ?ls = "cf_labels (cc_fragments s ! r)"
  have known: "lb_record l \<noteq> 0 \<and> pc_at s (lb_record l) = lb_pc l" if "l \<in> set ?ls" for l
  proof -
    obtain j where "j < length ?ls" "?ls ! j = l" using \<open>l \<in> set ?ls\<close> by (auto simp: in_set_conv_nth)
    then have "is_label s (lb_record l) r j" using r by (simp add: is_label_def)
    from known_label [OF okD(1,2) this] show ?thesis using \<open>?ls ! j = l\<close> by simp
  qed
  have tbl: "length (slots_of all s) = IBTC_TABLE_WORDS" "table_wf (pc_at s) (tab (slots_of all s))"
    "held (tab (slots_of all s)) \<subseteq> class_records s all" for all
    using okD(4) [of all] by (simp_all add: table_ok_def)
  obtain t where t: "ofold clear_label ?ls s4 = Some t" "same_rest s4 t"
      "\<forall>all. length (slots_of all t) = IBTC_TABLE_WORDS" "\<forall>all. table_wf (pc_at s) (tab (slots_of all t))"
      "\<forall>all. held (tab (slots_of all t)) \<subseteq> held (tab (slots_of all s4)) - lb_record ` set ?ls"
    using clear_labels_effect [of s4 "pc_at s" ?ls] known tbl by (auto simp: same4)
  note R = same_rest_fields [OF t(2)]
  have lt: "live t = live s4" "site t = site s4" "incoming t = incoming s4" "waiting t = waiting s4"
    by (simp_all add: live_def site_def incoming_def waiting_def R fun_eq_iff)
  have labt: "is_label t q i j = is_label s q i j" for q i j
    using lab by (simp add: is_label_def R)
  have labelst: "labels_ok t" using labels4 by (simp add: labels_ok_def is_label_def R)
  have kept: "q \<in> class_records t all \<and> pc_at t q = pc_at s q" if q: "q \<in> held (tab (slots_of all t))" for q all
  proof -
    have "q \<in> held (tab (slots_of all s))" "q \<notin> lb_record ` set ?ls"
      using t(5) q by (auto simp: same4)
    then obtain i j where ij: "live s i" "is_label s q i j" "all \<or> \<not> cf_uses_fpsimd (cc_fragments s ! i)"
      using tbl(3) [of all] by (auto simp: class_records_def)
    have "i \<noteq> r"
    proof
      assume "i = r"
      then have "q \<in> lb_record ` set ?ls" using ij(2) by (auto simp: is_label_def)
      with \<open>q \<notin> lb_record ` set ?ls\<close> show False ..
    qed
    moreover have i: "i < length (cc_fragments s)" using ij(1) by (simp add: live_def)
    moreover have "is_label t q i j" using ij(2) labt by simp
    ultimately show ?thesis
      using ij frag4 [OF i] known_label(6) [OF okD(1,2) ij(2)] known_label(6) [of t q i j] okD(1) labelst
      by (auto simp: class_records_def lt live4 R same4)
  qed
  have "pc_at t q = pc_at s q" if "tab (slots_of all t) k = Some q" for all k q
    using kept [of q all] that by (auto simp: held_def ran_def)
  then have "table_ok t all" for all
    using t(3,4) kept [of _ all] by (auto simp: table_ok_def table_wf_def)
  moreover have "entries_ok t" using entries4 by (simp add: entries_ok_def lt R)
  moreover have "links_ok t" using links4 by (simp add: links_ok_def link_inv_def lt R)
  ultimately have okt: "cache_ok t"
    using okD(1,3) labelst by (simp add: cache_ok_def base_ok_def R same4)
  let ?u = "log_event (Retired r) t"
  have u: "cc_fragments ?u = cc_fragments t" "slots_of all ?u = slots_of all t" for all
    by (simp_all add: log_event_def slots_of_def)
  have oku: "cache_ok ?u"
    by (rule cache_ok_records [OF okt, where ow = "[]"]) (use cache_okD(3) [OF okt] in \<open>simp_all add: log_event_def\<close>)
  have "cc_by_entry s2 ?pc = Some r"
    using mark_entry [OF base_okD(5) [OF base2] _ pc] live live2 by simp
  then have "cc_by_entry (mark_retired r s2) ?pc = Some r" by (simp add: mark_retired_def upd_frag_def)
  then have "retire r s = Some ?u"
    using r s1(1) s2(1) t(1) n1
    by (simp add: retire_def Let_def s0_def [symmetric] incoming_def mark_retired_def [symmetric] s4_def [symmetric])
       (simp add: s4_def mark_retired_def upd_frag_def)
  moreover have "held (tab (slots_of all t)) \<inter> records_of s r = {}" for all
    using t(5) by (auto simp: records_of_def)
  ultimately show ?thesis
    using oku live4 frag4 lt(1) by (intro exI [of _ ?u]) (simp add: u live_def R same4)
qed

section \<open>What the verifier promises the cache\<close>

text \<open>
  The slots of a fragment the verifier accepts are what \<open>install\<close> needs of them: each is listed once,
  word aligned, and holds the \<open>nop\<close>, in the typed code as in the bytes.
\<close>

lemma encode_insns_code:
  "encode_insns insns = Some bytes \<Longrightarrow>
    \<exists>ws. map encode insns = map Some ws \<and> bytes = code_of ws"
proof (induction insns arbitrary: bytes)
  case Nil
  then show ?case by (simp add: code_of_def)
next
  case (Cons i insns)
  then obtain w rest where w: "encode i = Some w" "encode_insns insns = Some rest" "bytes = le_bytes w @ rest"
    by (auto simp: bind_eq_Some_conv)
  obtain ws where "map encode insns = map Some ws" "rest = code_of ws"
    using Cons.IH [OF w(2)] by blast
  then show ?case
    using w by (intro exI [of _ "w # ws"]) (simp add: code_of_def)
qed

definition link_listed :: "fragment \<Rightarrow> nat \<times> u64 \<Rightarrow> nat \<Rightarrow> bool" where
  "link_listed frag ls k \<longleftrightarrow> body_index frag (fst ls) = Some k \<and> is_nop (fr_body frag ! k)"

lemma scan_link_site_listed:
  "scan_link_site frag join ls listed = Inr t \<Longrightarrow>
    \<exists>k. link_listed frag ls k \<and> k \<notin> listed \<and> t = insert k listed"
  by (cases ls) (auto simp: scan_link_site_def link_listed_def Let_def split: if_splits)

lemma link_sites_listed:
  assumes "rfold (scan_link_site frag join) sites listed = Inr t"
  shows "\<exists>ks. list_all2 (link_listed frag) sites ks \<and> distinct ks \<and> set ks \<inter> listed = {} \<and> t = listed \<union> set ks"
  using assms
proof (induction sites arbitrary: listed)
  case Nil
  then show ?case by (intro exI [of _ "[]"]) simp
next
  case (Cons ls sites)
  then obtain s where s: "scan_link_site frag join ls listed = Inr s" "rfold (scan_link_site frag join) sites s = Inr t"
    by auto
  obtain k where k: "link_listed frag ls k" "k \<notin> listed" "s = insert k listed"
    using scan_link_site_listed [OF s(1)] by blast
  obtain ks where "list_all2 (link_listed frag) sites ks" "distinct ks" "set ks \<inter> s = {}" "t = s \<union> set ks"
    using Cons.IH [OF s(2)] by blast
  then show ?case
    using k by (intro exI [of _ "k # ks"]) auto
qed

lemma link_body_index_word:
  assumes "body_index frag off = Some k"
  shows "off = word_offset k" "off mod 4 = 0" "off < fr_len frag"
proof -
  have o: "308 \<le> off" "off < fr_len frag" "off mod 4 = 0" "k = (off - 308) div 4"
    using assms by (auto simp: body_index_def ABI_INSN_SIZE_def body_offset split: if_splits)
  then show "off mod 4 = 0" "off < fr_len frag" by simp_all
  show "off = word_offset k"
    using o(1,3) unfolding o(4) word_offset_simps(1) by presburger
qed

lemma nop_only: "decode_defined w = Some (Sys Nop) \<Longrightarrow> w = LINK_NOP_WORD"
  using encode_decoded [of w] nop_word(1) by (auto simp: decode_defined_def split: option.splits if_splits)

lemma is_nop_Nop: "is_nop i \<Longrightarrow> i = Sys Nop"
  by (auto simp: is_nop_def split: a64_insn.splits a64_sys.splits)

lemma verified_sites_wf:
  assumes enc: "encode_fragment ef = Some bytes" and ver: "verify_encoded_fragment ef bytes = Inr fp"
  shows "sites_wf (fresh_fragment pc ef bytes x)"
proof -
  obtain frag join where load: "load_fragment bytes = Inr frag"
    and scan: "scan_fragment (fragment_input ef bytes) frag = Inr join"
    using ver by (auto simp: verify_encoded_fragment_def verify_fragment_def fragment_input_def)
  obtain ls where run: "rfold (scan_link_site frag join) (ef_link_sites ef) {} = Inr ls"
    using scan by (auto simp: scan_fragment_def Let_def fragment_input_def)
  obtain ks where ks: "list_all2 (link_listed frag) (ef_link_sites ef) ks" "distinct ks"
    using link_sites_listed [OF run] by blast
  obtain ws where ws: "map encode (ef_insns ef) = map Some ws" "bytes = code_of ws"
    using encode_insns_code enc by (auto simp: encode_fragment_def)
  have len: "length ws = length (ef_insns ef)" using ws(1) by (metis length_map)
  have offs: "map fst (ef_link_sites ef) = map word_offset ks"
  proof (rule nth_equalityI)
    show "length (map fst (ef_link_sites ef)) = length (map word_offset ks)"
      using ks(1) by (simp add: list_all2_lengthD)
    fix i assume "i < length (map fst (ef_link_sites ef))"
    then have "link_listed frag (ef_link_sites ef ! i) (ks ! i)" "i < length ks"
      using ks(1) by (simp_all add: list_all2_conv_all_nth)
    then have "fst (ef_link_sites ef ! i) = word_offset (ks ! i)" "i < length ks"
      using link_body_index_word(1) unfolding link_listed_def by blast+
    then show "map fst (ef_link_sites ef) ! i = map word_offset ks ! i"
      using \<open>i < length (map fst (ef_link_sites ef))\<close> by simp
  qed
  have "inj_on word_offset (set ks)" by (auto simp: inj_on_def word_offset_def ABI_INSN_SIZE_def)
  then have "distinct (map fst (ef_link_sites ef))"
    using ks(2) by (simp add: offs distinct_map)
  moreover have "slot_holds (fresh_fragment pc ef bytes x) slot LINK_NOP_WORD"
    if site: "(slot, q) \<in> set (ef_link_sites ef)" for slot q
  proof -
    obtain k where k: "body_index frag slot = Some k" "is_nop (fr_body frag ! k)"
      using ks(1) site by (fastforce simp: list_all2_conv_all_nth link_listed_def in_set_conv_nth)
    note off = link_body_index_word [OF k(1)]
    have "loaded bytes frag" by (rule load_fragment_loaded [OF load])
    then have fl: "fr_len frag = length bytes" "length bytes = word_offset (length (fr_body frag))"
      and words: "\<And>k. k < length (fr_body frag) \<Longrightarrow>
        \<exists>w. read_word bytes (word_offset k) = Some w \<and> decode_defined w = Some (fr_body frag ! k)"
      by (simp_all add: loaded_def)
    have "k < length (fr_body frag)"
      using off(1,3) fl by (simp add: word_offset_simps)
    note word = words [OF this]
    have slot4: "slot div 4 < length ws" "slot = 4 * (slot div 4)"
      using off(2,3) fl ws(2) mult_div_mod_eq [of 4 slot] by (simp, linarith)
    have "read_word bytes slot = Some (ws ! (slot div 4))"
      using read_code_of [OF slot4(1)] slot4(2) by (simp add: ws(2))
    then have "ws ! (slot div 4) = LINK_NOP_WORD"
      using word off(1) k(2) nop_only is_nop_Nop by fastforce
    moreover have "encode (ef_insns ef ! (slot div 4)) = Some (ws ! (slot div 4))"
      using ws(1) slot4(1) len by (metis length_map nth_map)
    moreover have "take 4 (drop slot bytes) = le_bytes (ws ! (slot div 4))"
      using drop_code_of [OF slot4(1)] slot4(2) by (simp add: ws(2))
    ultimately show ?thesis
      using off(2) slot4(1) len by (simp add: slot_holds_def fresh_fragment_def)
  qed
  ultimately show ?thesis
    by (auto simp: sites_wf_def fresh_fragment_def)
qed

end
