(* ===== verification/CacheRun.thy ===== *)
theory CacheRun
  imports CacheRetire
begin

section \<open>Running on the cache\<close>

text \<open>
  The operations of a run (publish, translate, the decision after a fragment returned) keep the
  invariant of the cache and never panic; what a dispatch lookup finds and where a decision continues
  is always live code for exactly the target.
\<close>

subsection \<open>Lookups\<close>

lemma label_index_found: "pc \<in> lb_pc ` set ls \<Longrightarrow> \<exists>l. label_index pc ls = Some l"
  by (induction ls) auto

definition translates :: "'l code_cache \<Rightarrow> nat \<Rightarrow> u64 \<Rightarrow> bool" where
  "translates s i pc \<longleftrightarrow> live s i \<and> label_for_pc (cc_fragments s ! i) pc \<noteq> None"

lemma is_label_translates:
  assumes "live s i" "is_label s r i j" "lb_pc (cf_labels (cc_fragments s ! i) ! j) = pc"
  shows "translates s i pc"
proof -
  have "pc \<in> lb_pc ` set (cf_labels (cc_fragments s ! i))"
    using assms(2,3) by (auto simp: is_label_def)
  then show ?thesis
    using label_index_found assms(1) by (fastforce simp: translates_def label_for_pc_def)
qed

lemma cache_lookup_ok:
  assumes "cache_ok s"
  shows "\<exists>found. cache_lookup all pc s = Some found
    \<and> (\<forall>i. found = Some i \<longrightarrow> translates s i pc \<and> (all \<or> \<not> cf_uses_fpsimd (cc_fragments s ! i)))"
proof -
  note ok = cache_okD [OF assms]
  let ?T = "tab (slots_of all s)"
  have "translates s (fst (the (record_label r s))) pc
      \<and> (all \<or> \<not> cf_uses_fpsimd (cc_fragments s ! fst (the (record_label r s))))"
    if r: "lookup (pc_at s) ?T pc = Some r" for r
  proof -
    have "r \<in> held ?T" by (rule lookup_held [OF r])
    then obtain i j where ij: "live s i" "is_label s r i j" "all \<or> \<not> cf_uses_fpsimd (cc_fragments s ! i)"
      using ok(4) [of all] by (auto simp: table_ok_def class_records_def)
    have "pc_at s r = pc" using lookup_eq_Some [OF r] by simp
    then have "translates s i pc"
      using is_label_translates [OF ij(1,2)] known_label(6) [OF ok(1,2) ij(2)] by simp
    then show ?thesis
      using known_label(3) [OF ok(1,2) ij(2)] ij(3) by simp
  qed
  then show ?thesis
    using cache_lookup_refines [OF ok(1,2,4), of all pc] by auto
qed

subsection \<open>Publishing\<close>

lemma cache_ok_rest:
  assumes "cache_ok s" "same_rest s t" "\<And>all. table_ok t all"
  shows "cache_ok t"
proof -
  note ok = cache_okD [OF assms(1)] and R = same_rest_fields [OF assms(2)]
  have "live t = live s" "site t = site s" "incoming t = incoming s" "waiting t = waiting s"
    "labels_ok t = labels_ok s"
    by (simp_all add: live_def site_def incoming_def waiting_def labels_ok_def is_label_def R fun_eq_iff)
  then show ?thesis
    using ok assms(3) by (simp add: cache_ok_def base_ok_def entries_ok_def links_ok_def link_inv_def R)
qed

lemma publish_ok:
  assumes ok: "cache_ok s" and live: "live s i" and l: "label_for_pc (cc_fragments s ! i) pc = Some l"
  shows "\<exists>t. cache_publish i pc s = Some (t, Inr ()) \<and> cache_ok t \<and> same_rest s t
    \<and> (\<exists>j. cache_lookup True pc t = Some (Some j))
    \<and> (\<not> cf_uses_fpsimd (cc_fragments s ! i) \<longrightarrow> (\<exists>j. cache_lookup False pc t = Some (Some j)))"
proof -
  note okD = cache_okD [OF ok]
  let ?f = "cc_fragments s ! i" and ?r = "lb_record l"
  obtain j where j: "j < length (cf_labels ?f)" "cf_labels ?f ! j = l" "lb_pc l = pc"
    using label_for_pc_Some [OF l] by blast
  have i: "i < length (cc_fragments s)" using live by (simp add: live_def)
  have isl: "is_label s ?r i j" using i j by (simp add: is_label_def)
  have pc: "pc_at s ?r = pc" using known_label(6) [OF okD(1,2) isl] j by simp
  have cls: "?r \<in> class_records s True" "\<not> cf_uses_fpsimd ?f \<Longrightarrow> ?r \<in> class_records s False"
    using live isl by (auto simp: class_records_def)
  obtain t1 slots1 where t1: "publish_into True ?r pc s = Some t1" "retabled True slots1 s t1" "table_ok t1 True"
      "\<exists>q. lookup (pc_at s) (tab slots1) pc = Some q"
    using publish_into_ok [OF okD(1,2,4) cls(1)] by (auto simp: pc)
  note R1 = retabled_facts [OF t1(2)]
  have other1: "table_ok t1 False"
    using table_ok_other [OF t1(2)] okD(4) [of False] by simp
  have ok1: "cache_ok t1"
    by (rule cache_ok_rest [OF ok retabled_same_rest [OF t1(2)]]) (use t1(3) other1 in \<open>case_tac all, simp_all\<close>)
  show ?thesis
  proof (cases "cf_uses_fpsimd ?f")
    case True
    have "\<exists>q. cache_lookup True pc t1 = Some (Some q)"
      using cache_lookup_refines [OF cache_okD(1,2,4) [OF ok1], of True pc] t1(4) by (auto simp: R1)
    then show ?thesis
      using t1(1) i live l True ok1 retabled_same_rest [OF t1(2)] by (auto simp: cache_publish_def live_def)
  next
    case False
    have "?r \<in> class_records t1 False" using cls(2) [OF False] by (simp add: R1)
    from publish_into_ok [OF cache_okD(1,2,4) [OF ok1] this]
    obtain t slots where t: "publish_into False ?r pc t1 = Some t" "retabled False slots t1 t" "table_ok t False"
        "\<exists>q. lookup (pc_at t1) (tab slots) pc = Some q"
      by (auto simp: R1(9) pc)
    note R = retabled_facts [OF t(2)]
    have "table_ok t True" using table_ok_other [OF t(2)] t1(3) by simp
    then have okt: "cache_ok t"
      by (intro cache_ok_rest [OF ok1 retabled_same_rest [OF t(2)]]) (use t(3) in \<open>case_tac all, simp_all\<close>)
    have s1: "slots_of True t = slots1" using R(2) R1(1) by simp
    have "\<exists>q. cache_lookup True pc t = Some (Some q)" "\<exists>q. cache_lookup False pc t = Some (Some q)"
      using cache_lookup_refines [OF cache_okD(1,2,4) [OF okt], of _ pc] t1(4) t(4) s1 R(1) by (auto simp: R(9) R1(9))
    then show ?thesis
      using t1(1) t(1) i live l False okt same_rest_trans [OF retabled_same_rest [OF t1(2)] retabled_same_rest [OF t(2)]]
      by (auto simp: cache_publish_def live_def)
  qed
qed

subsection \<open>Resolving and translating\<close>

text \<open>A place to continue at: the label of a live fragment for \<open>pc\<close>.\<close>

definition target_at :: "'l code_cache \<Rightarrow> u64 \<Rightarrow> nat \<Rightarrow> nat \<Rightarrow> bool" where
  "target_at s pc i off \<longleftrightarrow> live s i
    \<and> (\<exists>l. label_for_pc (cc_fragments s ! i) pc = Some l \<and> lb_offset l = off)"

lemma first_label_Some:
  "first_label k pc fs = Some (i, off) \<Longrightarrow>
    \<exists>j < length fs. i = k + j \<and> \<not> cf_retired (fs ! j)
      \<and> (\<exists>l. label_for_pc (fs ! j) pc = Some l \<and> lb_offset l = off)"
proof (induction fs arbitrary: k)
  case (Cons f fs)
  show ?case
  proof (cases "\<not> cf_retired f \<and> label_for_pc f pc \<noteq> None")
    case True
    then show ?thesis using Cons.prems by (intro exI [of _ 0]) auto
  next
    case False
    then have "first_label (Suc k) pc fs = Some (i, off)" using Cons.prems by (auto split: if_splits)
    from Cons.IH [OF this] obtain j where "j < length fs" "i = Suc k + j" "\<not> cf_retired (fs ! j)"
      "\<exists>l. label_for_pc (fs ! j) pc = Some l \<and> lb_offset l = off" by blast
    then show ?thesis by (intro exI [of _ "Suc j"]) simp
  qed
qed simp

lemma entry_has_label:
  assumes "entries_ok s" "cc_by_entry s pc = Some i"
  shows "\<exists>l. label_for_pc (cc_fragments s ! i) pc = Some l \<and> live s i"
  using assms label_index_found [of pc "cf_labels (cc_fragments s ! i)"]
  by (auto simp: entries_ok_def label_for_pc_def)

lemma resolve_ok:
  assumes "cache_ok s"
  shows "\<exists>r. resolve pc s = Some r \<and> (\<forall>i off. r = Some (i, off) \<longrightarrow> target_at s pc i off)
    \<and> (r = None \<longrightarrow> cc_by_entry s pc = None)"
proof (cases "cc_by_entry s pc")
  case None
  then show ?thesis
    using first_label_Some [of 0 pc "cc_fragments s"] by (auto simp: resolve_def target_at_def live_def)
next
  case (Some i)
  then obtain l where "label_for_pc (cc_fragments s ! i) pc = Some l" "live s i"
    using entry_has_label [OF cache_okD(5) [OF assms]] by blast
  then show ?thesis
    using Some by (auto simp: resolve_def target_at_def live_def)
qed

text \<open>The compiler names the entry it was asked for among the entry labels of what it returns.\<close>

definition names_entry :: "compiler \<Rightarrow> bool" where
  "names_entry compile \<longleftrightarrow> (\<forall>req txt ef. compile req txt = Inr ef \<longrightarrow>
    tr_entry_pc req \<in> fst ` set (ef_entry_labels ef))"

lemma verified_installable:
  assumes "encode_fragment ef = Some bytes" "verify_encoded_fragment ef bytes = Inr fp"
    and "pc \<in> fst ` set (ef_entry_labels ef)" "cc_by_entry s pc = None"
  shows "installable pc ef bytes s"
  using verified_sites_wf [OF assms(1,2)] assms(3,4) by (simp add: installable_def)

lemma translate_ok:
  assumes ok: "cache_ok s" and named: "names_entry compile" and free: "cc_by_entry s pc = None"
  shows "\<exists>t r. translate ld compile pc src s = Some (t, r) \<and> cache_ok t \<and> cc_entered t = cc_entered s
    \<and> length (cc_fragments s) \<le> length (cc_fragments t)
    \<and> (\<forall>i. r = Inr (Some i) \<longrightarrow> translates t i pc)"
proof -
  let ?s = "upd_stats (\<lambda>st. st\<lparr>cs_translations := cs_translations st + 1\<rparr>) s"
  have oks: "cache_ok ?s"
    by (rule cache_ok_records [OF ok, where ow = "[]"])
      (use cache_okD(3) [OF ok] in \<open>simp_all add: upd_stats_def\<close>)
  show ?thesis
  proof (cases "\<exists>txt ef bytes fp. cc_text s = Some txt \<and> compile \<lparr>tr_entry_pc = pc, tr_source_pc = src\<rparr> txt = Inr ef
      \<and> encode_fragment ef = Some bytes \<and> verify_encoded_fragment ef bytes = Inr fp")
    case False
    then have "\<exists>r. translate ld compile pc src s = Some (s, r) \<and> (\<forall>i. r \<noteq> Inr (Some i))"
      by (auto simp: translate_def split: option.splits sum.splits compiler_error.splits)
    then show ?thesis using ok by auto
  next
    case True
    then obtain tx ef bytes fp where c: "cc_text s = Some tx"
      "compile \<lparr>tr_entry_pc = pc, tr_source_pc = src\<rparr> tx = Inr ef"
      "encode_fragment ef = Some bytes" "verify_encoded_fragment ef bytes = Inr fp"
      by blast
    have entry: "pc \<in> fst ` set (ef_entry_labels ef)"
      using named [unfolded names_entry_def, rule_format, OF c(2)] by simp
    have "installable pc ef bytes ?s"
      by (rule verified_installable [OF c(3,4) entry]) (use free in \<open>simp add: upd_stats_def\<close>)
    from install_ok [OF oks this, of ld fp]
    obtain t r where t: "install ld pc ef bytes fp ?s = Some (t, r)" "cache_ok t" "cc_entered t = cc_entered ?s"
      "case r of Inl e \<Rightarrow> cc_fragments t = cc_fragments ?s \<and> (e = RecordAreaFull \<or> (\<exists>m. e = LoaderFailed m))
        | Inr i \<Rightarrow> i = length (cc_fragments ?s) \<and> live t i \<and> cc_by_entry t pc = Some i"
      by blast
    have "length (cc_fragments s) \<le> length (cc_fragments t)"
      using t(4) by (auto simp: live_def split: sum.splits)
    moreover have "translates t i pc" if "r = Inr i" for i
      using t(4) that entry_has_label [OF cache_okD(5) [OF t(2)], of pc i] by (auto simp: translates_def)
    ultimately show ?thesis
      using c t(1-3) by (cases r) (auto simp: translate_def, simp_all add: upd_stats_def)
  qed
qed

subsection \<open>Continuing\<close>

definition make_sticky :: "nat \<Rightarrow> 'l code_cache \<Rightarrow> 'l code_cache" where
  "make_sticky i s = upd_frag i (\<lambda>f. f\<lparr>cf_fp_sticky := True\<rparr>) s"

lemma make_sticky_nth:
  assumes "i < length (cc_fragments s)"
  shows "length (cc_fragments (make_sticky i s)) = length (cc_fragments s)"
    "cc_fragments (make_sticky i s) ! j =
      (if j = i then (cc_fragments s ! j)\<lparr>cf_fp_sticky := True\<rparr> else cc_fragments s ! j)"
  using assms by (simp_all add: make_sticky_def upd_frag_def)

lemma make_sticky_facts:
  assumes "i < length (cc_fragments s)"
  defines "t \<equiv> make_sticky i s"
  shows "live t = live s" "site t = site s" "incoming t = incoming s" "waiting t = waiting s"
    "cf_labels (cc_fragments t ! j) = cf_labels (cc_fragments s ! j)"
    "cf_uses_fpsimd (cc_fragments t ! j) = cf_uses_fpsimd (cc_fragments s ! j)"
    "cf_entry_pc (cc_fragments t ! j) = cf_entry_pc (cc_fragments s ! j)"
    "label_for_pc (cc_fragments t ! j) pc = label_for_pc (cc_fragments s ! j) pc"
    "link_ok (cc_fragments t) j y = link_ok (cc_fragments s) j y"
proof -
  note n = make_sticky_nth [OF assms(1), folded t_def]
  show live: "live t = live s" by (simp add: live_def n fun_eq_iff)
  show "site t = site s" "incoming t = incoming s" "waiting t = waiting s"
    by (simp_all add: site_def live incoming_def n fun_eq_iff) (simp add: t_def make_sticky_def)
  show "cf_labels (cc_fragments t ! j) = cf_labels (cc_fragments s ! j)"
    "cf_uses_fpsimd (cc_fragments t ! j) = cf_uses_fpsimd (cc_fragments s ! j)"
    "cf_entry_pc (cc_fragments t ! j) = cf_entry_pc (cc_fragments s ! j)"
    "label_for_pc (cc_fragments t ! j) pc = label_for_pc (cc_fragments s ! j) pc"
    by (simp_all add: n label_for_pc_def)
  have f: "cf_base (cc_fragments t ! j) = cf_base (cc_fragments s ! j)"
    "cf_labels (cc_fragments t ! j) = cf_labels (cc_fragments s ! j)"
    "cf_uses_fpsimd (cc_fragments t ! j) = cf_uses_fpsimd (cc_fragments s ! j)"
    "cf_retired (cc_fragments t ! j) = cf_retired (cc_fragments s ! j)"
    "slot_holds (cc_fragments t ! j) = slot_holds (cc_fragments s ! j)" for j
    by (simp_all add: n slot_holds_def fun_eq_iff)
  show "link_ok (cc_fragments t) j y = link_ok (cc_fragments s) j y"
    by (simp add: link_ok_def link_target_def f n(1) host_def split: option.split)
qed

lemma make_sticky_ok:
  assumes ok: "cache_ok s" and i: "i < length (cc_fragments s)"
  shows "cache_ok (make_sticky i s)"
proof -
  let ?t = "make_sticky i s"
  note n = make_sticky_nth [OF i] and f = make_sticky_facts [OF i] and okD = cache_okD [OF ok]
  have same: "cc_layout ?t = cc_layout s" "cc_record_owner ?t = cc_record_owner s" "slots_of all ?t = slots_of all s"
    "cc_by_entry ?t = cc_by_entry s" "cc_pending ?t = cc_pending s" for all
    by (simp_all add: make_sticky_def) (simp_all add: upd_frag_def slots_of_def)
  have "is_label ?t r a b = is_label s r a b" for r a b
    by (simp add: is_label_def n)
  then have lab: "labels_ok ?t" using okD(2) by (simp add: labels_ok_def same)
  have "table_ok ?t all" for all
    by (rule table_ok_kept [OF okD(1,2,4) _ lab]) (use okD(1) in \<open>simp_all add: same keeps_labels_def f\<close>)
  moreover have "entries_ok ?t" using okD(5) by (simp add: entries_ok_def same f)
  moreover have "links_ok ?t"
    using okD(6) by (simp add: links_ok_def link_inv_def f same)
  ultimately show ?thesis
    using lab okD(1,3) by (simp add: cache_ok_def base_ok_def same)
qed

text \<open>What a decision may change of the fragments: nothing a label or a table depends on.\<close>

definition same_code :: "'l code_cache \<Rightarrow> 'l code_cache \<Rightarrow> bool" where
  "same_code s t \<longleftrightarrow> length (cc_fragments t) = length (cc_fragments s) \<and> live t = live s
    \<and> (\<forall>j. cf_labels (cc_fragments t ! j) = cf_labels (cc_fragments s ! j)
         \<and> cf_uses_fpsimd (cc_fragments t ! j) = cf_uses_fpsimd (cc_fragments s ! j))"

lemma same_code_refl [simp]: "same_code s s"
  by (simp add: same_code_def)

lemma same_code_trans: "same_code s t \<Longrightarrow> same_code t u \<Longrightarrow> same_code s u"
  by (simp add: same_code_def)

lemma same_code_frags: "cc_fragments t = cc_fragments s \<Longrightarrow> same_code s t"
  by (simp add: same_code_def live_def fun_eq_iff)

lemma same_code_target: "same_code s t \<Longrightarrow> target_at t pc i off = target_at s pc i off"
  by (simp add: same_code_def target_at_def label_for_pc_def)

lemma cache_ok_bookkeeping:
  fixes s t :: "'l code_cache"
  assumes "cache_ok s" "cc_layout t = cc_layout s" "cc_fragments t = cc_fragments s"
    "cc_by_entry t = cc_by_entry s" "cc_slots_all t = cc_slots_all s" "cc_slots_nofp t = cc_slots_nofp s"
    "cc_pending t = cc_pending s" "cc_record_owner t = cc_record_owner s"
  shows "cache_ok t"
  by (rule cache_ok_records [OF assms(1), where ow = "[]"]) (use cache_okD(3) [OF assms(1)] assms in simp_all)

lemma cache_lookup_cong:
  fixes s t :: "'l code_cache"
  assumes "cc_layout t = cc_layout s" "cc_fragments t = cc_fragments s" "cc_record_owner t = cc_record_owner s"
    "cc_slots_all t = cc_slots_all s" "cc_slots_nofp t = cc_slots_nofp s"
  shows "cache_lookup all pc t = cache_lookup all pc s"
proof -
  have "record_label r t = record_label r s" for r
    by (simp add: record_label_def assms)
  moreover have "record_pc r t = record_pc r s" for r
    by (rule tables_cong(6)) (simp_all add: assms)
  moreover have "slots_of all t = slots_of all s" by (simp add: slots_of_def assms)
  ultimately have "look_slots all pc sl t = look_slots all pc sl s" for sl
    by (induction sl) (simp_all cong: if_cong)
  then show ?thesis by (simp add: cache_lookup_def)
qed

lemma note_boundary_ok:
  assumes ok: "cache_ok s" and entered: "cc_entered s < length (cc_fragments s)" and i: "i < length (cc_fragments s)"
  shows "\<exists>t. note_boundary i s = Some t \<and> cache_ok t \<and> same_code s t \<and> cc_entered t = cc_entered s
    \<and> (cf_uses_fpsimd (cc_fragments s ! i) \<longrightarrow> bracketed (cc_entered s) t = Some True)"
proof (cases "cf_uses_fpsimd (cc_fragments s ! i)")
  case False
  then show ?thesis using ok i by (simp add: note_boundary_def)
next
  case True
  let ?e = "cc_fragments s ! cc_entered s"
  show ?thesis
  proof (cases "cf_uses_fpsimd ?e \<or> cf_fp_sticky ?e")
    case br: True
    then show ?thesis using ok i entered True by (simp add: note_boundary_def bracketed_def)
  next
    case br: False
    let ?s = "upd_stats (\<lambda>st. st\<lparr>cs_ibtc_fpsimd_boundary := cs_ibtc_fpsimd_boundary st + 1\<rparr>) s"
    let ?m = "make_sticky (cc_entered s) ?s"
    let ?t = "upd_stats (\<lambda>st. st\<lparr>cs_fp_sticky_set := cs_fp_sticky_set st + 1\<rparr>) ?m"
    have oks: "cache_ok ?s"
      by (rule cache_ok_bookkeeping [OF ok]) (simp_all add: upd_stats_def)
    have e: "cc_entered s < length (cc_fragments ?s)" using entered by simp
    have okt: "cache_ok ?t"
      by (rule cache_ok_bookkeeping [OF make_sticky_ok [OF oks e]]) (simp_all add: upd_stats_def)
    have "cc_entered ?s = cc_entered s" by (simp add: upd_stats_def)
    then have run: "note_boundary i s = Some ?t"
      using i entered True br by (simp add: note_boundary_def bracketed_def make_sticky_def Let_def)
    have same: "same_code s ?t"
      using make_sticky_nth [OF e] make_sticky_facts(1,5,6) [OF e] by (simp add: same_code_def live_def fun_eq_iff)
    have "bracketed (cc_entered s) ?t = Some True"
      using make_sticky_nth [OF e] entered by (simp add: bracketed_def)
    moreover have "cc_entered ?t = cc_entered s"
      by (simp add: upd_stats_def make_sticky_def upd_frag_def)
    ultimately show ?thesis using run okt same by blast
  qed
qed

lemma continue_ok:
  assumes ok: "cache_ok s" and entered: "cc_entered s < length (cc_fragments s)" and target: "target_at s pc i off"
  shows "\<exists>t. continue_at i off pc s = Some (t, Inr (ContinueAt i off)) \<and> cache_ok t \<and> same_code s t
    \<and> (\<exists>j. cache_lookup True pc t = Some (Some j))
    \<and> (cf_uses_fpsimd (cc_fragments s ! i) \<longrightarrow> bracketed (cc_entered s) t = Some True)"
proof -
  have i: "i < length (cc_fragments s)" using target by (simp add: target_at_def live_def)
  obtain u where u: "note_boundary i s = Some u" "cache_ok u" "same_code s u"
      "cf_uses_fpsimd (cc_fragments s ! i) \<longrightarrow> bracketed (cc_entered s) u = Some True"
    using note_boundary_ok [OF ok entered i] by blast
  have "target_at u pc i off" using same_code_target [OF u(3)] target by simp
  then obtain l where l: "live u i" "label_for_pc (cc_fragments u ! i) pc = Some l" by (auto simp: target_at_def)
  obtain v where v: "cache_publish i pc u = Some (v, Inr ())" "cache_ok v" "same_rest u v"
      "\<exists>j. cache_lookup True pc v = Some (Some j)"
    using publish_ok [OF u(2) l] by blast
  let ?t = "v\<lparr>cc_run_entries := cc_run_entries v + 1\<rparr>"
  have "cache_ok ?t" by (rule cache_ok_bookkeeping [OF v(2)]) simp_all
  moreover have fr: "cc_fragments ?t = cc_fragments u" using same_rest_fields(4) [OF v(3)] by simp
  moreover have "continue_at i off pc s = Some (?t, Inr (ContinueAt i off))"
    using u(1) v(1) by (simp add: continue_at_def)
  moreover have "cache_lookup True pc ?t = cache_lookup True pc v"
    by (rule cache_lookup_cong) simp_all
  moreover have "bracketed (cc_entered s) ?t = bracketed (cc_entered s) u"
    using fr by (simp add: bracketed_def)
  ultimately show ?thesis
    using u(4) v(4) same_code_trans [OF u(3) same_code_frags [OF fr]] by auto
qed

subsection \<open>Deciding\<close>

lemma own_or_entry_ok:
  assumes ok: "cache_ok s" and entered: "cc_entered s < length (cc_fragments s)"
  shows "\<exists>r. own_label pc s = Some r \<and> (\<forall>i off. r = Some (i, off) \<longrightarrow> target_at s pc i off)"
    and "\<exists>r. entry_label pc s = Some r \<and> (\<forall>i off. r = Some (i, off) \<longrightarrow> target_at s pc i off)"
proof -
  show "\<exists>r. own_label pc s = Some r \<and> (\<forall>i off. r = Some (i, off) \<longrightarrow> target_at s pc i off)"
    using entered by (auto simp: own_label_def target_at_def live_def)
  show "\<exists>r. entry_label pc s = Some r \<and> (\<forall>i off. r = Some (i, off) \<longrightarrow> target_at s pc i off)"
  proof (cases "cc_by_entry s pc")
    case None
    then show ?thesis by (simp add: entry_label_def)
  next
    case (Some i)
    then show ?thesis
      using entry_has_label [OF cache_okD(5) [OF ok] Some] by (auto simp: entry_label_def target_at_def live_def)
  qed
qed

text \<open>What every decision guarantees.\<close>

definition decided :: "u64 \<Rightarrow> ('l code_cache \<times> (cache_error + cache_action)) option \<Rightarrow> bool" where
  "decided pc d \<longleftrightarrow> (\<exists>t r. d = Some (t, r) \<and> cache_ok t
    \<and> (\<forall>i off. r = Inr (ContinueAt i off) \<longrightarrow> target_at t pc i off))"

lemma decided_continue:
  assumes "cache_ok s" "cc_entered s < length (cc_fragments s)" "target_at s pc i off"
  shows "decided pc (continue_at i off pc s)"
  using continue_ok [OF assms] same_code_target assms(3) by (fastforce simp: decided_def)

lemma decided_stop: "cache_ok s \<Longrightarrow> decided pc (Some (s, Inr (userspace st q)))"
  by (simp add: decided_def userspace_def)

lemma decided_return_to_user:
  assumes ok: "cache_ok s" and entered: "cc_entered s < length (cc_fragments s)"
  shows "decided pc (decide_return_to_user st pc s)"
proof (cases "over_budget s")
  case True
  have "cache_ok (s\<lparr>cc_chain_capped := True\<rparr>)" by (rule cache_ok_bookkeeping [OF ok]) simp_all
  then show ?thesis using True by (simp add: decide_return_to_user_def decided_stop)
next
  case False
  obtain own where own: "own_label pc s = Some own" "\<forall>i off. own = Some (i, off) \<longrightarrow> target_at s pc i off"
    using own_or_entry_ok(1) [OF assms] by blast
  obtain ent where ent: "entry_label pc s = Some ent" "\<forall>i off. ent = Some (i, off) \<longrightarrow> target_at s pc i off"
    using own_or_entry_ok(2) [OF assms] by blast
  show ?thesis
    using False own ent decided_stop [OF ok] decided_continue [OF assms]
    by (auto simp: decide_return_to_user_def split: option.split)
qed

lemma decided_svc:
  assumes ok: "cache_ok s"
  shows "decided pc (decide_svc pc s)"
proof -
  obtain r where r: "resolve pc s = Some r" "\<forall>i off. r = Some (i, off) \<longrightarrow> target_at s pc i off"
    using resolve_ok [OF ok] by blast
  let ?t = "s\<lparr>cc_run_entries := cc_run_entries s + 1\<rparr>"
  have "cache_ok ?t" by (rule cache_ok_bookkeeping [OF ok]) simp_all
  moreover have "target_at ?t pc i off = target_at s pc i off" for i off
    by (rule same_code_target) (simp add: same_code_frags)
  ultimately show ?thesis
    using r decided_stop [OF ok] by (auto simp: decide_svc_def decided_def split: option.split)
qed


lemma decided_branch:
  assumes ok: "cache_ok s" and entered: "cc_entered s < length (cc_fragments s)" and named: "names_entry compile"
  shows "decided pc (decide_branch ld compile pc param1 s)"
proof -
  obtain r where r: "resolve pc s = Some r" "\<forall>i off. r = Some (i, off) \<longrightarrow> target_at s pc i off"
      "r = None \<longrightarrow> cc_by_entry s pc = None"
    using resolve_ok [OF ok] by blast
  show ?thesis
  proof (cases r)
    case (Some c)
    then show ?thesis
      using r decided_continue [OF ok entered] by (cases c) (simp add: decide_branch_def)
  next
    case None
    then obtain t x where t: "translate ld compile pc (param1 - 4) s = Some (t, x)" "cache_ok t"
        "cc_entered t = cc_entered s" "length (cc_fragments s) \<le> length (cc_fragments t)"
        "\<forall>i. x = Inr (Some i) \<longrightarrow> translates t i pc"
      using translate_ok [OF ok named, of pc ld "param1 - 4"] r(3) by blast
    consider e where "x = Inl e" | "x = Inr None" | i where "x = Inr (Some i)"
      by (metis sum.exhaust option.exhaust)
    then show ?thesis
    proof cases
      case 1
      then show ?thesis using r(1) None t(1,2) by (simp add: decide_branch_def decided_def)
    next
      case 2
      then show ?thesis using r(1) None t(1) decided_stop [OF t(2)] by (simp add: decide_branch_def)
    next
      case (3 i)
      then have tr: "translates t i pc" using t(5) by simp
      then obtain l where l: "live t i" "label_for_pc (cc_fragments t ! i) pc = Some l"
        by (auto simp: translates_def)
      have "target_at t pc i (lb_offset l)" using l by (simp add: target_at_def)
      moreover have "cc_entered t < length (cc_fragments t)" using entered t(3,4) by simp
      ultimately show ?thesis
        using r(1) None t(1) 3 l decided_continue [OF t(2)]
        by (simp add: decide_branch_def live_def)
    qed
  qed
qed

lemma decide_ok:
  assumes ok: "cache_ok s" and entered: "cc_entered s < length (cc_fragments s)" and named: "names_entry compile"
  shows "decided (if from_reg raw_status = RsSvc then param1 else param0) (decide ld compile raw_status param0 param1 s)"
proof -
  have stop: "decided pc (Some (s, Inr (Stop h)))" for pc h
    using ok by (simp add: decided_def)
  show ?thesis
    using decided_svc [OF ok] decided_return_to_user [OF ok entered] decided_branch [OF ok entered named]
      stop decided_stop [OF ok]
    by (simp add: decide_def Let_def userspace_def)
qed

end
