(* ===== verification/CacheCheck.thy ===== *)
theory CacheCheck
  imports CacheRun
begin

section \<open>The checks succeed\<close>

text \<open>
  \<open>check_invariants\<close>, the check the code's tests run after every change, succeeds on every state the
  invariant holds of: the invariant implies each of its conditions, and its two counts.
\<close>

subsection \<open>The tables\<close>

lemma check_tables:
  assumes ok: "cache_ok s"
  shows "rfold (check_table_slot s (\<not> all)) (enumerate 0 (slots_of all s)) () = Inr ()"
proof (rule rfold_stays)
  note okD = cache_okD [OF ok]
  fix x assume x: "x \<in> set (enumerate 0 (slots_of all s))"
  obtain slot r where sr: "x = (slot, r)" by (cases x)
  have slot: "slot < length (slots_of all s)" "slots_of all s ! slot = r"
    using x by (auto simp: sr in_set_enumerate_eq)
  show "check_table_slot s (\<not> all) x () = Inr ()"
  proof (cases "r = 0")
    case True
    then show ?thesis by (simp add: sr check_table_slot_def)
  next
    case False
    then have T: "tab (slots_of all s) slot = Some r" using slot by (simp add: tab_def)
    then have "r \<in> held (tab (slots_of all s))" by (auto simp: held_def ran_def)
    then obtain i j where ij: "live s i" "is_label s r i j" "all \<or> \<not> cf_uses_fpsimd (cc_fragments s ! i)"
      using okD(4) [of all] by (auto simp: table_ok_def class_records_def)
    note known = known_label [OF okD(1,2) ij(2)]
    have "slot \<in> set (ibtc_lookup_slots (pc_at s r))"
      using okD(4) [of all] T unfolding table_ok_def table_wf_def by blast
    then show ?thesis
      using False ij known by (auto simp: sr check_table_slot_def is_label_def live_def)
  qed
qed

subsection \<open>Counting loops\<close>

lemma rfold_counts:
  assumes "\<And>x a b. x \<in> set xs \<Longrightarrow> f x (a, b) = Inr (a + g x, b + h x)"
  shows "rfold f xs (a, b) = Inr (a + sum_list (map g xs), b + sum_list (map h xs) :: nat)"
  using assms by (induction xs arbitrary: a b) (simp_all add: add.assoc)

lemma sum_enumerate:
  "sum_list (map g (enumerate 0 xs)) = (\<Sum>i < length xs. g (i, xs ! i) :: nat)"
proof -
  have "sum_list (map g (enumerate 0 xs)) = (\<Sum>i = 0..<length xs. map g (enumerate 0 xs) ! i)"
    by (simp add: sum_list_sum_nth)
  also have "\<dots> = (\<Sum>i < length xs. g (i, xs ! i))"
    by (rule sum.cong) (auto simp: nth_enumerate_eq)
  finally show ?thesis .
qed

lemma sum_of_bool:
  "(\<Sum>i < (n :: nat). of_bool (P i) :: nat) = card {i. i < n \<and> P i}"
proof (induction n)
  case (Suc n)
  have "{i. i < Suc n \<and> P i} = (if P n then insert n {i. i < n \<and> P i} else {i. i < n \<and> P i})"
    by (auto simp: less_Suc_eq)
  then show ?case using Suc by simp
qed simp

lemma occurrences_one: "distinct xs \<Longrightarrow> x \<in> set xs \<Longrightarrow> occurrences x xs = 1"
  by (induction xs) (auto simp: occurrences_def filter_empty_conv)

subsection \<open>The links\<close>

definition site_count :: "(link_site \<Rightarrow> bool) \<Rightarrow> cached_fragment \<Rightarrow> nat" where
  "site_count P f = (if cf_retired f then 0 else card {k. k < length (cf_links f) \<and> P (cf_links f ! k)})"

lemma site_at:
  assumes "i < length (cc_fragments s)" "\<not> cf_retired (cc_fragments s ! i)" "k < length (cf_links (cc_fragments s ! i))"
  shows "site s (i, k) = Some (cf_links (cc_fragments s ! i) ! k)"
  using assms by (simp add: site_def live_def)

lemma check_site_counts:
  assumes ok: "links_ok s" and y: "site s (i, k) = Some y"
  shows "check_site s i (cc_fragments s ! i) (k, y) (a, b) =
    Inr (a + of_bool (ls_linked y = None), b + of_bool (ls_linked y \<noteq> None))"
proof -
  note inv = link_invD [OF ok [unfolded links_ok_def]]
  have lo: "link_ok (cc_fragments s) i y" using inv(5) [OF y] by simp
  show ?thesis
  proof (cases "ls_linked y")
    case None
    then have holds: "slot_holds (cc_fragments s ! i) (ls_slot y) LINK_NOP_WORD"
      using lo by (simp add: link_ok_def)
    have "occurrences (i, k) (waiting s (ls_target y)) = 1"
      using inv(2) y None by (intro occurrences_one) (auto simp: pend_ok_def)
    then show ?thesis
      using holds None by (simp add: check_site_def slot_holds_def Let_def)
  next
    case (Some c)
    obtain t l where c: "c = (t, l)" by (cases c)
    obtain w where lt: "link_target (cc_fragments s) (cc_fragments s ! i) y t l"
      and w: "link_branch_word (cf_base (cc_fragments s ! i) + of_nat (ls_slot y))
          (host (cc_fragments s ! t) (cf_labels (cc_fragments s ! t) ! l)) = Some w"
        "slot_holds (cc_fragments s ! i) (ls_slot y) w"
      using lo Some c by (auto simp: link_ok_def)
    have t: "t < length (cc_fragments s)" using lt by (simp add: link_target_def)
    have "distinct (incoming s t) \<and> (i, k) \<in> set (incoming s t)"
      using inv(3) y Some c unfolding inc_ok_def by blast
    then have "occurrences (i, k) (cf_incoming (cc_fragments s ! t)) = 1"
      using t by (intro occurrences_one) (simp_all add: incoming_def)
    then show ?thesis
      using lt w Some c by (auto simp: check_site_def slot_holds_def link_target_def Let_def)
  qed
qed

lemma retired_no_incoming:
  assumes ok: "links_ok s" and t: "t < length (cc_fragments s)" "cf_retired (cc_fragments s ! t)"
  shows "cf_incoming (cc_fragments s ! t) = []"
proof (rule ccontr)
  note inv = link_invD [OF ok [unfolded links_ok_def]]
  assume "cf_incoming (cc_fragments s ! t) \<noteq> []"
  then have "hd (incoming s t) \<in> set (incoming s t)" (is "?x \<in> _")
    using t(1) by (simp add: incoming_def)
  then obtain y l where y: "site s ?x = Some y" "ls_linked y = Some (t, l)"
    using inv(3) unfolding inc_ok_def by blast
  have "link_ok (cc_fragments s) (fst ?x) y" by (rule inv(5) [OF y(1)])
  then show False using y(2) t(2) by (simp add: link_ok_def link_target_def)
qed

lemma check_fragment_counts:
  assumes ok: "links_ok s" and i: "i < length (cc_fragments s)"
  shows "check_fragment s (i, cc_fragments s ! i) (a, b) =
    Inr (a + site_count (\<lambda>y. ls_linked y = None) (cc_fragments s ! i),
         b + site_count (\<lambda>y. ls_linked y \<noteq> None) (cc_fragments s ! i))"
proof (cases "cf_retired (cc_fragments s ! i)")
  case True
  then show ?thesis
    using retired_no_incoming [OF ok i True] by (simp add: check_fragment_def site_count_def)
next
  case False
  let ?f = "cc_fragments s ! i"
  have "rfold (check_site s i ?f) (enumerate 0 (cf_links ?f)) (a, b) =
      Inr (a + sum_list (map (\<lambda>(k, y). of_bool (ls_linked y = None)) (enumerate 0 (cf_links ?f))),
           b + sum_list (map (\<lambda>(k, y). of_bool (ls_linked y \<noteq> None)) (enumerate 0 (cf_links ?f))))"
  proof (rule rfold_counts)
    fix x a b assume "x \<in> set (enumerate 0 (cf_links ?f))"
    then obtain k where k: "k < length (cf_links ?f)" "x = (k, cf_links ?f ! k)"
      by (auto simp: in_set_enumerate_eq prod_eq_iff)
    show "check_site s i ?f x (a, b) =
        Inr (a + (case x of (k, y) \<Rightarrow> of_bool (ls_linked y = None)),
             b + (case x of (k, y) \<Rightarrow> of_bool (ls_linked y \<noteq> None)))"
      using check_site_counts [OF ok site_at [OF i False k(1)]] by (simp add: k(2))
  qed
  then show ?thesis
    using False by (simp add: check_fragment_def site_count_def sum_enumerate sum_of_bool)
qed

text \<open>The sites of the live fragments, by state.\<close>

definition sites_where :: "(link_site \<Rightarrow> bool) \<Rightarrow> 'l code_cache \<Rightarrow> (nat \<times> nat) set" where
  "sites_where P s = {x. \<exists>y. site s x = Some y \<and> P y}"

lemma card_sites_where:
  "(\<Sum>i < length (cc_fragments s). site_count P (cc_fragments s ! i)) = card (sites_where P s)"
proof -
  define B where "B = (\<lambda>i. if cf_retired (cc_fragments s ! i) then {}
    else {k. k < length (cf_links (cc_fragments s ! i)) \<and> P (cf_links (cc_fragments s ! i) ! k)})"
  have "sites_where P s = Sigma {..<length (cc_fragments s)} B"
    by (auto simp: sites_where_def site_def live_def B_def split: if_splits)
  moreover have "finite (B i)" for i by (simp add: B_def)
  ultimately have "card (sites_where P s) = (\<Sum>i < length (cc_fragments s). card (B i))"
    by (simp add: card_SigmaI)
  also have "\<dots> = (\<Sum>i < length (cc_fragments s). site_count P (cc_fragments s ! i))"
    by (rule sum.cong) (simp_all add: B_def site_count_def)
  finally show ?thesis ..
qed

lemma finite_sites: "finite (sites_where P s)"
proof (rule finite_subset)
  show "sites_where P s \<subseteq> Sigma {..<length (cc_fragments s)} (\<lambda>i. {..<length (cf_links (cc_fragments s ! i))})"
    by (auto simp: sites_where_def site_def live_def split: if_splits)
qed simp

text \<open>Distinct lists over disjoint keys count their union.\<close>

lemma card_union_lists:
  assumes "finite K" "\<And>k. k \<in> K \<Longrightarrow> distinct (W k)"
    and "\<And>k k'. k \<noteq> k' \<Longrightarrow> set (W k) \<inter> set (W k') = {}"
  shows "(\<Sum>k \<in> K. length (W k)) = card (\<Union>k \<in> K. set (W k))"
proof -
  have "card (\<Union>k \<in> K. set (W k)) = (\<Sum>k \<in> K. card (set (W k)))"
    by (rule card_UN_disjoint) (use assms in auto)
  also have "\<dots> = (\<Sum>k \<in> K. length (W k))"
    by (rule sum.cong) (simp_all add: assms(2) distinct_card)
  finally show ?thesis by simp
qed

lemma listed_incoming_count:
  assumes "links_ok s"
  shows "listed_incoming s = card (sites_where (\<lambda>y. ls_linked y \<noteq> None) s)"
proof -
  note inv = link_invD [OF assms [unfolded links_ok_def]]
  have I: "distinct (incoming s t)" "set (incoming s t) = {x. \<exists>y l. site s x = Some y \<and> ls_linked y = Some (t, l)}" for t
    using inv(3) by (auto simp: inc_ok_def)
  have "listed_incoming s = (\<Sum>t < length (cc_fragments s). length (incoming s t))"
  proof -
    have "listed_incoming s = (\<Sum>t = 0..<length (cc_fragments s). length (cf_incoming (cc_fragments s ! t)))"
      by (simp add: listed_incoming_def sum_list_sum_nth)
    also have "\<dots> = (\<Sum>t < length (cc_fragments s). length (incoming s t))"
      by (rule sum.cong) (auto simp: incoming_def)
    finally show ?thesis .
  qed
  also have "\<dots> = card (\<Union>t < length (cc_fragments s). set (incoming s t))"
    by (rule card_union_lists) (use I in auto)
  also have "(\<Union>t < length (cc_fragments s). set (incoming s t)) = sites_where (\<lambda>y. ls_linked y \<noteq> None) s"
  proof (rule set_eqI, rule iffI)
    fix x assume "x \<in> sites_where (\<lambda>y. ls_linked y \<noteq> None) s"
    then obtain y t l where y: "site s x = Some y" "ls_linked y = Some (t, l)"
      by (auto simp: sites_where_def)
    have "t < length (cc_fragments s)"
      using inv(5) [OF y(1)] y(2) by (simp add: link_ok_def link_target_def)
    then show "x \<in> (\<Union>t < length (cc_fragments s). set (incoming s t))"
      using y by (auto simp: I(2))
  qed (auto simp: I(2) sites_where_def)
  finally show ?thesis .
qed

lemma listed_pending_count:
  assumes "links_ok s"
  shows "listed_pending s = card (sites_where (\<lambda>y. ls_linked y = None) s)"
proof -
  note inv = link_invD [OF assms [unfolded links_ok_def]]
  have W: "distinct (waiting s pc)"
    "set (waiting s pc) = {x. \<exists>y. site s x = Some y \<and> ls_target y = pc \<and> ls_linked y = None}" for pc
    using inv(2) by (auto simp: pend_ok_def)
  let ?K = "set (map fst (cc_pending s))"
  have "listed_pending s = sum_list (map (\<lambda>pc. length (waiting s pc)) (map fst (cc_pending s)))"
  proof -
    have "map (length \<circ> snd) (cc_pending s) = map (\<lambda>pc. length (waiting s pc)) (map fst (cc_pending s))"
      using inv(1) by (auto simp: waiting_def)
    then show ?thesis by (simp only: listed_pending_def)
  qed
  also have "\<dots> = (\<Sum>pc \<in> ?K. length (waiting s pc))"
    using inv(1) by (rule sum_list_distinct_conv_sum_set)
  also have "\<dots> = card (\<Union>pc \<in> ?K. set (waiting s pc))"
    by (rule card_union_lists) (use W in auto)
  also have "(\<Union>pc \<in> ?K. set (waiting s pc)) = sites_where (\<lambda>y. ls_linked y = None) s"
  proof (rule set_eqI, rule iffI)
    fix x assume "x \<in> sites_where (\<lambda>y. ls_linked y = None) s"
    then obtain y where y: "site s x = Some y" "ls_linked y = None" by (auto simp: sites_where_def)
    then have x: "x \<in> set (waiting s (ls_target y))" by (simp add: W(2))
    then have "map_of (cc_pending s) (ls_target y) \<noteq> None"
      by (cases "map_of (cc_pending s) (ls_target y)") (simp_all add: waiting_def)
    then have "ls_target y \<in> ?K" by (simp add: map_of_eq_None_iff)
    then show "x \<in> (\<Union>pc \<in> ?K. set (waiting s pc))" using x by blast
  qed (auto simp: W(2) sites_where_def)
  finally show ?thesis .
qed

lemma check_links:
  assumes "links_ok s"
  shows "check_link_invariants s = Inr ()"
proof -
  let ?p = "\<lambda>y. ls_linked y = None" and ?q = "\<lambda>y. ls_linked y \<noteq> None"
  have "rfold (check_fragment s) (enumerate 0 (cc_fragments s)) (0, 0) =
      Inr (0 + sum_list (map (\<lambda>(i, f). site_count ?p f) (enumerate 0 (cc_fragments s))),
           0 + sum_list (map (\<lambda>(i, f). site_count ?q f) (enumerate 0 (cc_fragments s))))"
  proof (rule rfold_counts)
    fix x a b assume "x \<in> set (enumerate 0 (cc_fragments s))"
    then obtain i where i: "i < length (cc_fragments s)" "x = (i, cc_fragments s ! i)"
      by (auto simp: in_set_enumerate_eq prod_eq_iff)
    show "check_fragment s x (a, b) = Inr (a + (case x of (i, f) \<Rightarrow> site_count ?p f),
        b + (case x of (i, f) \<Rightarrow> site_count ?q f))"
      using check_fragment_counts [OF assms i(1)] by (simp add: i(2))
  qed
  then show ?thesis
    using listed_pending_count [OF assms] listed_incoming_count [OF assms]
    by (simp add: check_link_invariants_def sum_enumerate card_sites_where)
qed

lemma check_ok: "cache_ok s \<Longrightarrow> check_invariants s = Inr ()"
  using check_tables [of s True] check_tables [of s False] check_links [OF cache_okD(6)]
  by (simp add: check_invariants_def slots_of_def)

end
