(* ===== verification/CacheSafety.thy ===== *)
theory CacheSafety
  imports CacheCheck DemoFragment
begin

section \<open>The code cache is sound in every state it reaches\<close>

text \<open>
  The states a client can bring a cache to, and the properties of the cache over them: the code's own
  checks succeed, a dispatch finds only live code of its target, a decision continues only there, a
  retired fragment is gone, and a chain within its budget ends.
\<close>

subsection \<open>Reachable states\<close>

lemma tab_empty [simp]: "tab (replicate n 0) = empty_table"
  by (simp add: tab_def empty_table_def fun_eq_iff)

lemma new_cache_ok:
  assumes "area_ok lay"
  shows "cache_ok (new_cache lay tx loader)"
proof -
  let ?s = "new_cache lay tx loader"
  have fields: "cc_layout ?s = lay" "cc_record_owner ?s = []" "cc_by_entry ?s = Map.empty" "cc_pending ?s = []"
    by (simp_all add: new_cache_def)
  have none: "\<not> live ?s i" "\<not> is_label ?s r i j" "site ?s = (\<lambda>_. None)" "incoming ?s t = []" "waiting ?s pc = []"
    for i j r t pc
    by (auto simp: live_def is_label_def site_def incoming_def waiting_def new_cache_def fun_eq_iff)
  have "slots_of all ?s = replicate IBTC_TABLE_WORDS 0" for all
    by (simp add: slots_of_def new_cache_def)
  then have "table_ok ?s all" for all
    by (simp add: table_ok_def wf_empty) (simp add: held_def empty_table_def)
  then have "base_ok ?s"
    using assms by (simp add: base_ok_def labels_ok_def none entries_ok_def fields)
  moreover have "links_ok ?s"
    by (simp add: links_ok_def link_inv_def pend_ok_def inc_ok_def slots_distinct_def none fields)
  ultimately show ?thesis by (simp add: cache_ok_def)
qed

text \<open>
  What a client does: set the options, start runs and enter fragments, install code the verifier
  accepted, publish and retire live fragments, decide after a fragment returned, and read the queues.
\<close>

inductive cache_reach :: "'l loader \<Rightarrow> compiler \<Rightarrow> 'l code_cache \<Rightarrow> bool" for ld compile where
  new: "area_ok lay \<Longrightarrow> cache_reach ld compile (new_cache lay tx loader)"
| without_links: "cache_reach ld compile s \<Longrightarrow> cache_reach ld compile (without_links s)"
| chain_budget: "cache_reach ld compile s \<Longrightarrow> cache_reach ld compile (with_chain_budget n s)"
| miss_policy: "cache_reach ld compile s \<Longrightarrow> cache_reach ld compile (with_miss_policy p s)"
| event_log: "cache_reach ld compile s \<Longrightarrow> cache_reach ld compile (with_event_log s)"
| run_begins: "cache_reach ld compile s \<Longrightarrow> cache_reach ld compile (begin_run s)"
| entered: "cache_reach ld compile s \<Longrightarrow> cache_reach ld compile (note_entry i s)"
| drained_events: "cache_reach ld compile s \<Longrightarrow> drain_events s = Some (t, es) \<Longrightarrow> cache_reach ld compile t"
| drained_patches: "cache_reach ld compile s \<Longrightarrow> cache_reach ld compile (fst (drain_code_patches s))"
| drained_writes: "cache_reach ld compile s \<Longrightarrow> cache_reach ld compile (fst (drain_writes s))"
| imaged: "cache_reach ld compile s \<Longrightarrow> cache_reach ld compile (fst (image s))"
| installed: "cache_reach ld compile s \<Longrightarrow> encode_fragment ef = Some bytes
    \<Longrightarrow> verify_encoded_fragment ef bytes = Inr fp \<Longrightarrow> pc \<in> fst ` set (ef_entry_labels ef)
    \<Longrightarrow> fragment_for_entry pc s = None \<Longrightarrow> install ld pc ef bytes fp s = Some (t, r) \<Longrightarrow> cache_reach ld compile t"
| translated: "cache_reach ld compile s \<Longrightarrow> fragment_for_entry pc s = None
    \<Longrightarrow> translate ld compile pc src s = Some (t, r) \<Longrightarrow> cache_reach ld compile t"
| published: "cache_reach ld compile s \<Longrightarrow> cache_publish i pc s = Some (t, r) \<Longrightarrow> cache_reach ld compile t"
| retired: "cache_reach ld compile s \<Longrightarrow> live s i \<Longrightarrow> retire i s = Some t \<Longrightarrow> cache_reach ld compile t"
| decided: "cache_reach ld compile s \<Longrightarrow> cc_entered s < length (cc_fragments s)
    \<Longrightarrow> decide ld compile status p0 p1 s = Some (t, r) \<Longrightarrow> cache_reach ld compile t"

lemma publish_any:
  assumes ok: "cache_ok s" and run: "cache_publish i pc s = Some (t, r)"
  shows "cache_ok t"
proof (cases "live s i")
  case False
  then have "t = s" using run by (auto simp: cache_publish_def live_def nth_opt_def split: if_splits)
  then show ?thesis using ok by simp
next
  case True
  show ?thesis
  proof (cases "label_for_pc (cc_fragments s ! i) pc")
    case None
    then have "t = s" using run True by (simp add: cache_publish_def live_def)
    then show ?thesis using ok by simp
  next
    case (Some l)
    then show ?thesis using publish_ok [OF ok True Some] run by auto
  qed
qed

lemma reach_ok:
  assumes "cache_reach ld compile s" "names_entry compile"
  shows "cache_ok s"
  using assms(1)
proof induction
  case (new lay tx loader)
  then show ?case by (rule new_cache_ok)
next
  case (installed s ef bytes fp pc t r)
  then have "installable pc ef bytes s"
    by (intro verified_installable) (simp_all add: fragment_for_entry_def)
  from install_ok [OF installed.IH this, of ld fp] show ?case
    using installed.hyps by auto
next
  case (translated s pc src t r)
  then show ?case
    using translate_ok [OF _ assms(2), of s pc ld src] by (auto simp: fragment_for_entry_def)
next
  case (published s i pc t r)
  then show ?case using publish_any by blast
next
  case (retired s i t)
  then show ?case using retire_ok [of s i] by auto
next
  case (decided s status p0 p1 t r)
  then show ?case using decide_ok [of s compile status p1 p0 ld] assms(2) by (auto simp: decided_def)
next
  case (drained_events s t es)
  then show ?case by (intro cache_ok_bookkeeping [OF drained_events.IH]) (auto simp: drain_events_def)
qed (erule cache_ok_bookkeeping; simp add: without_links_def with_chain_budget_def with_miss_policy_def
    with_event_log_def begin_run_def note_entry_def drain_code_patches_def drain_writes_def image_def)+

end
