(* ===== verification/CacheProps.thy ===== *)
theory CacheProps
  imports CacheSafety
begin

section \<open>The properties of the code cache\<close>

text \<open>
  The properties over the reachable states of \<open>CacheSafety\<close>, each applied to a cache that holds the
  fragment of \<open>DemoFragment\<close>.
\<close>

subsection \<open>A cache with a verified fragment\<close>

definition demo_exec :: "u64 \<Rightarrow> exec_fragment" where
  "demo_exec pc = \<lparr>ef_insns = KJIT_PROLOGUE @ KJIT_EPILOGUE @ demo_insns, ef_entry_offset = 308, ef_vlabels = [],
     ef_entry_labels = [(pc, 308)],
     ef_fault_sites = [\<lparr>lf_access_offset = 316, lf_stub_offset = 324, lf_ori_pc = pc\<rparr>], ef_link_sites = []\<rparr>"

definition demo_bytes :: "u8 list" where
  "demo_bytes = fragment_code demo_words"

definition demo_compiler :: compiler where
  "demo_compiler req text = Inr (demo_exec (tr_entry_pc req))"

lemma demo_names: "names_entry demo_compiler"
  by (simp add: names_entry_def demo_compiler_def demo_exec_def)

lemma encode_insns_map: "map encode is = map Some ws \<Longrightarrow> encode_insns is = Some (code_of ws)"
proof (induction "is" arbitrary: ws)
  case (Cons i "is")
  then show ?case by (cases ws) (auto simp: code_of_def)
qed (simp add: code_of_def)

lemma demo_encodes: "encode_fragment (demo_exec pc) = Some demo_bytes"
proof -
  have "map encode demo_insns = map Some demo_words"
  proof (rule nth_equalityI)
    show len: "length (map encode demo_insns) = length (map Some demo_words)"
      by (simp add: demo_insns_def demo_words_def)
    fix i assume i: "i < length (map encode demo_insns)"
    then have iw: "i < length demo_words" using len by simp
    have "map decode_defined demo_words ! i = map Some demo_insns ! i" by (simp only: demo_decodes)
    then have "decode_a64_insn (demo_words ! i) = Some (demo_insns ! i)"
      using i iw by (auto simp: decode_defined_def split: option.splits if_splits)
    then show "map encode demo_insns ! i = map Some demo_words ! i"
      using i iw encode_decoded by simp
  qed
  then have "map encode (KJIT_PROLOGUE @ KJIT_EPILOGUE @ demo_insns) =
      map Some (prologue_words @ epilogue_words @ demo_words)"
    by (simp only: map_append prologue_encodes epilogue_encodes)
  from encode_insns_map [OF this] show ?thesis
    by (simp add: encode_fragment_def demo_exec_def demo_bytes_def fragment_code_def)
qed

lemma demo_verified: "verify_encoded_fragment (demo_exec pc) demo_bytes = Inr False"
  using demo_verifies
  by (simp add: verify_encoded_fragment_def fragment_input_def demo_exec_def demo_input_def demo_bytes_def)

definition demo_layout :: cache_layout where
  "demo_layout = \<lparr>cl_table_all = 0x100000, cl_table_nofp = 0x110000, cl_records = 0x120000, cl_records_len = 0x1000\<rparr>"

lemma demo_area: "area_ok demo_layout"
  by (simp add: area_ok_def demo_layout_def)

abbreviation demo_new :: "u64 code_cache" where
  "demo_new \<equiv> new_cache demo_layout (Some (0x1000, [])) 0xFFFF800010000000"

definition demo_cache :: "u64 code_cache" where
  "demo_cache = fst (the (install synthetic_loader 0x1000 (demo_exec 0x1000) demo_bytes False demo_new))"

lemma demo_install:
  "install synthetic_loader 0x1000 (demo_exec 0x1000) demo_bytes False demo_new = Some (demo_cache, Inr 0)"
proof -
  have labels: "ef_entry_labels (demo_exec 0x1000) = [(0x1000, 308)]" "ef_link_sites (demo_exec 0x1000) = []"
    by (simp_all add: demo_exec_def)
  have "\<exists>t. install synthetic_loader 0x1000 (demo_exec 0x1000) demo_bytes False demo_new = Some (t, Inr 0)"
    by (simp add: install_def synthetic_loader_def fresh_fragment_def new_cache_def labels Let_def demo_layout_def
        IBTC_RECORD_BYTES_def log_event_def link_install_def upd_frag_def try_waiting_def waiting_def)
  then show ?thesis by (auto simp: demo_cache_def)
qed

lemma demo_new_reach: "cache_reach synthetic_loader demo_compiler demo_new"
  by (rule cache_reach.new [OF demo_area])

lemma demo_reach: "cache_reach synthetic_loader demo_compiler demo_cache"
  by (rule cache_reach.installed [OF demo_new_reach demo_encodes demo_verified _ _ demo_install])
    (simp_all add: demo_exec_def fragment_for_entry_def new_cache_def)

text \<open>The fragment is live, with the label of its entry.\<close>

lemma demo_live: "live demo_cache 0" "label_for_pc (cc_fragments demo_cache ! 0) 0x1000 \<noteq> None"
proof -
  have "installable 0x1000 (demo_exec 0x1000) demo_bytes demo_new"
    by (rule verified_installable [OF demo_encodes demo_verified])
      (simp_all add: demo_exec_def new_cache_def)
  from install_ok [OF new_cache_ok [OF demo_area] this, of synthetic_loader False] demo_install
  have d: "cache_ok demo_cache" "live demo_cache 0" "cc_by_entry demo_cache 0x1000 = Some 0"
    by auto
  show "live demo_cache 0" by (rule d(2))
  show "label_for_pc (cc_fragments demo_cache ! 0) 0x1000 \<noteq> None"
    using entry_has_label [OF cache_okD(5) [OF d(1)] d(3)] by auto
qed

subsection \<open>The checks\<close>

text \<open>
  C24: Whatever a client does with a cache (installs of verified code, translations, publishes,
  retires, decisions, in any order, failed ones included), the check the code's tests run after every
  step succeeds: every table slot holds a record of live code in one of its pc's two slots, the table
  of unbracketed runs holds no FP/SIMD code, every link slot holds the \<open>nop\<close> or the branch to live
  code of exactly its target, and the pending and incoming lists hold exactly those sites.
\<close>

theorem checks_hold:
  assumes "cache_reach ld compile s" "names_entry compile"
  shows "check_invariants s = Inr ()"
  using reach_ok [OF assms] by (rule check_ok)

theorem checks_hold_witness: "check_invariants demo_cache = Inr ()"
  by (rule checks_hold [OF demo_reach demo_names])

subsection \<open>Dispatch\<close>

text \<open>
  C25: In every reachable state, a dispatch lookup in either table finds nothing or a live fragment
  that was translated for exactly the target pc; in the table of unbracketed runs, one that does not
  use FP/SIMD. No lookup meets a word that is not a record.
\<close>

theorem dispatch_finds_live:
  assumes "cache_reach ld compile s" "names_entry compile"
  shows "\<exists>found. cache_lookup all pc s = Some found
    \<and> (\<forall>i. found = Some i \<longrightarrow> translates s i pc \<and> (all \<or> \<not> cf_uses_fpsimd (cc_fragments s ! i)))"
  using cache_lookup_ok [OF reach_ok [OF assms]] .

theorem dispatch_finds_live_witness:
  "\<exists>found. cache_lookup False 0x1000 demo_cache = Some found
    \<and> (\<forall>i. found = Some i \<longrightarrow> translates demo_cache i 0x1000
        \<and> (False \<or> \<not> cf_uses_fpsimd (cc_fragments demo_cache ! i)))"
  by (rule dispatch_finds_live [OF demo_reach demo_names])

text \<open>
  C26: Publishing the label of a live fragment never fails, and from then on a dispatch of its pc hits,
  in both tables when the fragment may be entered from unbracketed runs.
\<close>

theorem publish_makes_dispatch_hit:
  assumes "cache_reach ld compile s" "names_entry compile" "live s i"
    and "label_for_pc (cc_fragments s ! i) pc \<noteq> None"
  shows "\<exists>t. cache_publish i pc s = Some (t, Inr ()) \<and> (\<exists>j. cache_lookup True pc t = Some (Some j))
    \<and> (\<not> cf_uses_fpsimd (cc_fragments s ! i) \<longrightarrow> (\<exists>j. cache_lookup False pc t = Some (Some j)))"
proof -
  obtain l where "label_for_pc (cc_fragments s ! i) pc = Some l" using assms(4) by blast
  from publish_ok [OF reach_ok [OF assms(1,2)] assms(3) this] show ?thesis by blast
qed

theorem publish_makes_dispatch_hit_witness:
  "\<exists>t. cache_publish 0 0x1000 demo_cache = Some (t, Inr ()) \<and> (\<exists>j. cache_lookup True 0x1000 t = Some (Some j))
    \<and> (\<not> cf_uses_fpsimd (cc_fragments demo_cache ! 0) \<longrightarrow> (\<exists>j. cache_lookup False 0x1000 t = Some (Some j)))"
  by (rule publish_makes_dispatch_hit [OF demo_reach demo_names demo_live])

subsection \<open>Retiring\<close>

text \<open>
  C27: A retired fragment is gone: the retire does not panic, no dispatch of any pc in either table
  finds the fragment, no site of a live fragment is linked to it, no entry pc leads to it, and every
  other fragment is as live as before.
\<close>

theorem retired_is_gone:
  assumes "cache_reach ld compile s" "names_entry compile" "live s r"
  shows "\<exists>t. retire r s = Some t \<and> (\<forall>all pc. cache_lookup all pc t \<noteq> Some (Some r))
    \<and> (\<forall>x y l. site t x = Some y \<longrightarrow> ls_linked y \<noteq> Some (r, l))
    \<and> (\<forall>pc. fragment_for_entry pc t \<noteq> Some r) \<and> (\<forall>i. live t i \<longleftrightarrow> live s i \<and> i \<noteq> r)"
proof -
  obtain t where t: "retire r s = Some t" "cache_ok t" "\<forall>i. live t i \<longleftrightarrow> live s i \<and> i \<noteq> r"
    using retire_ok [OF reach_ok [OF assms(1,2)] assms(3)] by blast
  have dead: "\<not> live t r" using t(3) by simp
  have "cache_lookup all pc t \<noteq> Some (Some r)" for all pc
    using cache_lookup_ok [OF t(2), of all pc] dead by (auto simp: translates_def)
  moreover have "ls_linked y \<noteq> Some (r, l)" if "site t x = Some y" for x y l
    using link_invD(5) [OF cache_okD(6) [OF t(2), unfolded links_ok_def] that] dead
    by (auto simp: link_ok_def link_target_def live_def)
  moreover have "fragment_for_entry pc t \<noteq> Some r" for pc
    using cache_okD(5) [OF t(2)] dead by (auto simp: fragment_for_entry_def entries_ok_def)
  ultimately show ?thesis using t(1,3) by blast
qed

theorem retired_is_gone_witness:
  "\<exists>t. retire 0 demo_cache = Some t \<and> (\<forall>all pc. cache_lookup all pc t \<noteq> Some (Some 0))
    \<and> (\<forall>x y l. site t x = Some y \<longrightarrow> ls_linked y \<noteq> Some (0, l))
    \<and> (\<forall>pc. fragment_for_entry pc t \<noteq> Some 0) \<and> (\<forall>i. live t i \<longleftrightarrow> live demo_cache i \<and> i \<noteq> 0)"
  by (rule retired_is_gone [OF demo_reach demo_names demo_live(1)])

subsection \<open>Decisions\<close>

text \<open>
  C28: The runtime's decision after any exit of a fragment, with any status word and parameters, does
  not panic; when it continues, it continues in a live fragment at the offset of that fragment's label
  for exactly the pc the exit names, and the checks still hold.
\<close>

theorem decision_continues_in_live_code:
  assumes "cache_reach ld compile s" "names_entry compile" "cc_entered s < length (cc_fragments s)"
  shows "\<exists>t r. decide ld compile raw_status param0 param1 s = Some (t, r) \<and> check_invariants t = Inr ()
    \<and> (\<forall>i off. r = Inr (ContinueAt i off) \<longrightarrow>
         target_at t (if from_reg raw_status = RsSvc then param1 else param0) i off)"
  using decide_ok [OF reach_ok [OF assms(1,2)] assms(3,2), of raw_status param1 param0 ld] check_ok
  unfolding decided_def by blast

lemma demo_entered: "cc_entered demo_cache < length (cc_fragments demo_cache)"
proof -
  have "cc_entered demo_cache = cc_entered demo_new"
  proof -
    have "installable 0x1000 (demo_exec 0x1000) demo_bytes demo_new"
      by (rule verified_installable [OF demo_encodes demo_verified]) (simp_all add: demo_exec_def new_cache_def)
    from install_ok [OF new_cache_ok [OF demo_area] this, of synthetic_loader False] demo_install
    show ?thesis by auto
  qed
  then show ?thesis using demo_live(1) by (simp add: live_def new_cache_def)
qed

text \<open>A \<open>BR\<close> exit to a pc without a fragment: the demo compiler translates it.\<close>

theorem decision_continues_in_live_code_witness:
  "\<exists>t r. decide synthetic_loader demo_compiler 3 0x2000 0x1010 demo_cache = Some (t, r) \<and> check_invariants t = Inr ()
    \<and> (\<forall>i off. r = Inr (ContinueAt i off) \<longrightarrow>
         target_at t (if from_reg 3 = RsSvc then 0x1010 else 0x2000) i off)"
  by (rule decision_continues_in_live_code [OF demo_reach demo_names demo_entered])

subsection \<open>Installing\<close>

text \<open>
  C29: Installing code the verifier accepted, for an entry no live fragment has, never panics, and
  fails only when the loader does or the record area is full; a failed install leaves the fragments
  and the checks as they were, a successful one makes the new fragment the one of its entry.
\<close>

theorem install_accepted:
  assumes "cache_reach ld compile s" "names_entry compile"
    and "encode_fragment ef = Some bytes" "verify_encoded_fragment ef bytes = Inr fp"
    and "pc \<in> fst ` set (ef_entry_labels ef)" "fragment_for_entry pc s = None"
  shows "\<exists>t r. install ld pc ef bytes fp s = Some (t, r) \<and> check_invariants t = Inr ()
    \<and> (case r of
         Inl e \<Rightarrow> cc_fragments t = cc_fragments s \<and> (e = RecordAreaFull \<or> (\<exists>m. e = LoaderFailed m))
       | Inr i \<Rightarrow> translates t i pc \<and> fragment_for_entry pc t = Some i)"
proof -
  have "installable pc ef bytes s"
    by (rule verified_installable [OF assms(3-5)]) (use assms(6) in \<open>simp add: fragment_for_entry_def\<close>)
  from install_ok [OF reach_ok [OF assms(1,2)] this, of ld fp]
  obtain t r where t: "install ld pc ef bytes fp s = Some (t, r)" "cache_ok t"
      "case r of Inl e \<Rightarrow> cc_fragments t = cc_fragments s \<and> (e = RecordAreaFull \<or> (\<exists>m. e = LoaderFailed m))
       | Inr i \<Rightarrow> i = length (cc_fragments s) \<and> live t i \<and> cc_by_entry t pc = Some i"
    by blast
  have "translates t i pc" if "cc_by_entry t pc = Some i" for i
    using entry_has_label [OF cache_okD(5) [OF t(2)] that] by (auto simp: translates_def)
  then show ?thesis
    using t check_ok [OF t(2)] by (cases r) (auto simp: fragment_for_entry_def)
qed

theorem install_accepted_witness:
  "\<exists>t r. install synthetic_loader 0x2000 (demo_exec 0x2000) demo_bytes False demo_new = Some (t, r)
    \<and> check_invariants t = Inr ()
    \<and> (case r of
         Inl e \<Rightarrow> cc_fragments t = cc_fragments demo_new \<and> (e = RecordAreaFull \<or> (\<exists>m. e = LoaderFailed m))
       | Inr i \<Rightarrow> translates t i 0x2000 \<and> fragment_for_entry 0x2000 t = Some i)"
  by (rule install_accepted [OF demo_new_reach demo_names demo_encodes demo_verified])
    (simp_all add: demo_exec_def fragment_for_entry_def new_cache_def)

end
