(* ===== verification/CacheChain.thy ===== *)
theory CacheChain
  imports CacheProps
begin

section \<open>The chain of a run\<close>

text \<open>
  The loop of \<open>harness/src/runtime.rs\<close> around \<open>decide\<close>: a decision to continue enters the fragment,
  whose exit is decided next. The exits are given by what the fragments return.
\<close>

fun chain_entries :: "'l loader \<Rightarrow> compiler \<Rightarrow> (u64 \<times> u64 \<times> u64) list \<Rightarrow> 'l code_cache \<Rightarrow> nat" where
  "chain_entries ld compile [] s = 0"
| "chain_entries ld compile ((status, p0, p1) # exits) s =
    (case decide ld compile status p0 p1 s of
       Some (t, Inr (ContinueAt i off)) \<Rightarrow> Suc (chain_entries ld compile exits (note_entry i t))
     | _ \<Rightarrow> 0)"

text \<open>The budget fields, which nothing but the entry count of a decision changes.\<close>

definition chain_fields :: "'l code_cache \<Rightarrow> nat option \<times> miss_policy \<times> nat" where
  "chain_fields s = (cc_chain_budget s, cc_miss_policy s, cc_run_entries s)"

lemma chain_fields_simps [simp]:
  "chain_fields (upd_stats h s) = chain_fields s" "chain_fields (log_event e s) = chain_fields s"
  "chain_fields (upd_frag i f s) = chain_fields s" "chain_fields (note_entry i s) = chain_fields s"
  "chain_fields (set_slots all slots s) = chain_fields s" "chain_fields (slot_write all slot r s) = chain_fields s"
  by (simp_all add: chain_fields_def upd_stats_def log_event_def upd_frag_def note_entry_def set_slots_def slot_write_def)

lemma set_slot_chain: "set_slot all slot r s = Some t \<Longrightarrow> chain_fields t = chain_fields s"
  by (auto simp: set_slot_def Let_def bind_eq_Some_conv split: if_splits)

lemma plan_chain: "ofold (apply_plan_store all r) ps s = Some t \<Longrightarrow> chain_fields t = chain_fields s"
proof (induction ps arbitrary: s)
  case (Cons p ps)
  then obtain u where "apply_plan_store all r p s = Some u" "ofold (apply_plan_store all r) ps u = Some t"
    by (auto simp: bind_eq_Some_conv)
  then show ?case
    using Cons.IH set_slot_chain by (fastforce simp: apply_plan_store_def bind_eq_Some_conv)
qed simp

lemma publish_chain: "cache_publish i pc s = Some (t, r) \<Longrightarrow> chain_fields t = chain_fields s"
  by (auto simp: cache_publish_def publish_into_def bind_eq_Some_conv dest!: plan_chain
      split: if_splits option.splits)

lemma boundary_chain: "note_boundary i s = Some t \<Longrightarrow> chain_fields t = chain_fields s"
  by (auto simp: note_boundary_def Let_def bind_eq_Some_conv split: if_splits)

lemma continue_chain:
  assumes "continue_at i off pc s = Some (t, Inr (ContinueAt j off'))"
  shows "cc_chain_budget t = cc_chain_budget s" "cc_miss_policy t = cc_miss_policy s"
    "cc_run_entries t = cc_run_entries s + 1"
proof -
  obtain u v x where run: "note_boundary i s = Some u" "cache_publish i pc u = Some (v, x)"
    and x: "(case x of Inl e \<Rightarrow> Some (v, Inl e)
      | Inr _ \<Rightarrow> Some (v\<lparr>cc_run_entries := Suc (cc_run_entries v)\<rparr>, Inr (ContinueAt i off)))
        = Some (t, Inr (ContinueAt j off'))"
    using assms by (auto simp: continue_at_def bind_eq_Some_conv)
  from x have "t = v\<lparr>cc_run_entries := cc_run_entries v + 1\<rparr>" by (cases x) auto
  with run
  show "cc_chain_budget t = cc_chain_budget s" "cc_miss_policy t = cc_miss_policy s"
    "cc_run_entries t = cc_run_entries s + 1"
    using boundary_chain publish_chain by (fastforce simp: chain_fields_def)+
qed

lemma decide_chain:
  assumes "decide ld compile status p0 p1 s = Some (t, Inr (ContinueAt i off))"
    and "cc_miss_policy s = ReturnToUser" "cc_chain_budget s = Some b"
  shows "cc_run_entries s < b" "cc_chain_budget t = Some b" "cc_miss_policy t = ReturnToUser"
    "cc_run_entries t = cc_run_entries s + 1"
proof -
  have d: "decide_return_to_user (from_reg status) p0 s = Some (t, Inr (ContinueAt i off))"
    using assms(1,2) by (auto simp: decide_def Let_def userspace_def split: if_splits)
  then have nb: "\<not> over_budget s" by (auto simp: decide_return_to_user_def userspace_def)
  then show "cc_run_entries s < b" using assms(3) by (simp add: over_budget_def)
  obtain j off' where "continue_at j off' p0 s = Some (t, Inr (ContinueAt i off))"
    using d nb by (auto simp: decide_return_to_user_def userspace_def bind_eq_Some_conv split: option.splits)
  from continue_chain [OF this] show "cc_chain_budget t = Some b" "cc_miss_policy t = ReturnToUser"
    "cc_run_entries t = cc_run_entries s + 1"
    using assms by simp_all
qed

lemma chain_bound:
  assumes "cc_miss_policy s = ReturnToUser" "cc_chain_budget s = Some b"
  shows "chain_entries ld compile exits s \<le> b - cc_run_entries s"
  using assms
proof (induction exits arbitrary: s)
  case (Cons x exits)
  obtain status p0 p1 where x: "x = (status, p0, p1)" by (cases x)
  show ?case
  proof (cases "\<exists>t i off. decide ld compile status p0 p1 s = Some (t, Inr (ContinueAt i off))")
    case True
    then obtain t i off where d: "decide ld compile status p0 p1 s = Some (t, Inr (ContinueAt i off))" by blast
    note c = decide_chain [OF d Cons.prems]
    have "chain_entries ld compile exits (note_entry i t) \<le> b - cc_run_entries (note_entry i t)"
      by (rule Cons.IH) (use c in \<open>simp_all add: note_entry_def\<close>)
    then show ?thesis using c d x by (simp add: note_entry_def)
  next
    case False
    then have "chain_entries ld compile (x # exits) s = 0"
      by (auto simp: x split: option.splits sum.splits cache_action.splits)
    then show ?thesis by simp
  qed
qed simp

text \<open>
  C30: A run under the kernel's miss policy ends: with a chain budget of \<open>b\<close>, whatever the fragments
  return and however long, the runtime continues at most \<open>b - 1\<close> times after the first entry.
\<close>

theorem chain_budget_ends:
  assumes "cc_miss_policy s = ReturnToUser" "cc_chain_budget s = Some b"
  shows "chain_entries ld compile exits (begin_run s) \<le> b - 1"
  using chain_bound [of "begin_run s" b ld compile exits] assms by (simp add: begin_run_def)

theorem chain_budget_ends_witness:
  "chain_entries synthetic_loader demo_compiler [(3, 0x1000, 0x1010), (3, 0x1000, 0x1010), (3, 0x1000, 0x1010)]
    (begin_run (with_chain_budget 2 (with_miss_policy ReturnToUser demo_cache))) \<le> 2 - 1"
  by (rule chain_budget_ends) (simp_all add: with_chain_budget_def with_miss_policy_def)

lemma push_labels_result:
  assumes "push_labels k c ls u = (v, x)"
  shows "cc_fragments v = cc_fragments u \<and> x \<noteq> Inl (EntryInstalled pc)"
  using assms by (induction k c ls u rule: push_labels.induct) (auto simp: Let_def split: if_splits)

text \<open>
  C31: The error path of an install for an entry that is already live loses the live fragment: the entry
  then maps to an index no fragment has, so the next lookup of that pc panics.
\<close>

theorem failed_install_dangles:
  assumes "install ld pc ef bytes fp s = Some (t, Inl (EntryInstalled pc))"
  shows "fragment_for_entry pc t = Some (length (cc_fragments t)) \<and> resolve pc t = None"
proof -
  show ?thesis
    using assms
    by (auto simp: install_def Let_def fragment_for_entry_def resolve_def nth_opt_def
        split: prod.splits sum.splits if_splits dest!: push_labels_result [where pc = pc])
qed

theorem failed_install_dangles_witness:
  "\<exists>t. install synthetic_loader 0x1000 (demo_exec 0x1000) demo_bytes False demo_cache = Some (t, Inl (EntryInstalled 0x1000))
    \<and> fragment_for_entry 0x1000 t = Some (length (cc_fragments t)) \<and> resolve 0x1000 t = None"
proof -
  have labels: "ef_entry_labels (demo_exec 0x1000) = [(0x1000, 308)]" "ef_link_sites (demo_exec 0x1000) = []"
    by (simp_all add: demo_exec_def)
  have "\<exists>t. install synthetic_loader 0x1000 (demo_exec 0x1000) demo_bytes False demo_cache = Some (t, Inl (EntryInstalled 0x1000))"
    by (simp add: demo_cache_def install_def synthetic_loader_def fresh_fragment_def new_cache_def labels Let_def demo_layout_def
        IBTC_RECORD_BYTES_def log_event_def link_install_def upd_frag_def try_waiting_def waiting_def)
  then obtain t where t: "install synthetic_loader 0x1000 (demo_exec 0x1000) demo_bytes False demo_cache = Some (t, Inl (EntryInstalled 0x1000))"
    by blast
  show ?thesis using t failed_install_dangles [OF t] by blast
qed

end
