(* ===== verification/A64Rewrite.thy ===== *)
theory A64Rewrite
  imports InterpMem AbiWrapper
begin

section \<open>Rewriting and asking about instructions\<close>

text \<open>
  The setters \<open>set_reg\<close> and \<open>set_branch_target_imm\<close> of the generated subset
  (\<open>spec/arm64/generated/a64_subset.rs\<close>), and the queries the translator makes of an instruction
  (\<open>shared/arm64/mod.rs\<close>): branch targets, runtime exits, atomics, SIMD memory operands.
\<close>

subsection \<open>Setting a register\<close>

text \<open>
  A setter gives the field the number of the new register, with the width and the meaning of
  number 31 that the form has there; \<open>None\<close> is the error for a field the form does not have, or a
  number that does not fit.
\<close>

abbreviation zreg :: "a64_reg_width \<Rightarrow> nat \<Rightarrow> a64_reg" where
  "zreg w e \<equiv> reg_new e w R31Xzr"

abbreviation sreg :: "a64_reg_width \<Rightarrow> nat \<Rightarrow> a64_reg" where
  "sreg w e \<equiv> reg_new e w R31Sp"

text \<open>The forms that set the flags write \<open>XZR\<close> where the others write \<open>SP\<close>.\<close>

definition dest_reg :: "bool \<Rightarrow> a64_reg_width \<Rightarrow> nat \<Rightarrow> a64_reg" where
  "dest_reg to_zr w e = reg_new e w (if to_zr then R31Xzr else R31Sp)"

fun dp_set :: "a64_dp \<Rightarrow> a64_field \<Rightarrow> nat \<Rightarrow> a64_dp option" where
  "dp_set (Adr lo hi rd) f e = (case f of FRd \<Rightarrow> Some (Adr lo hi (zreg X64 e)) | _ \<Rightarrow> None)"
| "dp_set (Adrp lo hi rd) f e = (case f of FRd \<Rightarrow> Some (Adrp lo hi (zreg X64 e)) | _ \<Rightarrow> None)"
| "dp_set (AddSubImm op w sh i rn rd) f e = (case f of
     FRn \<Rightarrow> Some (AddSubImm op w sh i (sreg w e) rd)
   | FRd \<Rightarrow> Some (AddSubImm op w sh i rn (dest_reg (sets_flags op) w e)) | _ \<Rightarrow> None)"
| "dp_set (AddSubShift op w sh rm i rn rd) f e = (case f of
     FRm \<Rightarrow> Some (AddSubShift op w sh (zreg w e) i rn rd)
   | FRn \<Rightarrow> Some (AddSubShift op w sh rm i (zreg w e) rd)
   | FRd \<Rightarrow> Some (AddSubShift op w sh rm i rn (zreg w e)) | _ \<Rightarrow> None)"
| "dp_set (AddSubExt op w rm x i rn rd) f e = (case f of
     FRm \<Rightarrow> Some (AddSubExt op w (zreg w e) x i rn rd)
   | FRn \<Rightarrow> Some (AddSubExt op w rm x i (sreg w e) rd)
   | FRd \<Rightarrow> Some (AddSubExt op w rm x i rn (dest_reg (sets_flags op) w e)) | _ \<Rightarrow> None)"
| "dp_set (AddSubCarry op w rm rn rd) f e = (case f of
     FRm \<Rightarrow> Some (AddSubCarry op w (zreg w e) rn rd)
   | FRn \<Rightarrow> Some (AddSubCarry op w rm (zreg w e) rd)
   | FRd \<Rightarrow> Some (AddSubCarry op w rm rn (zreg w e)) | _ \<Rightarrow> None)"
| "dp_set (LogShift op w sh rm i rn rd) f e = (case f of
     FRm \<Rightarrow> Some (LogShift op w sh (zreg w e) i rn rd)
   | FRn \<Rightarrow> Some (LogShift op w sh rm i (zreg w e) rd)
   | FRd \<Rightarrow> Some (LogShift op w sh rm i rn (zreg w e)) | _ \<Rightarrow> None)"
| "dp_set (LogImm op w n r s rn rd) f e = (case f of
     FRn \<Rightarrow> Some (LogImm op w n r s (zreg w e) rd)
   | FRd \<Rightarrow> Some (LogImm op w n r s rn (dest_reg (op = LiAnds) w e)) | _ \<Rightarrow> None)"
| "dp_set (MoveWide op w hw i rd) f e = (case f of FRd \<Rightarrow> Some (MoveWide op w hw i (zreg w e)) | _ \<Rightarrow> None)"
| "dp_set (Bitfield op w r s rn rd) f e = (case f of
     FRn \<Rightarrow> Some (Bitfield op w r s (zreg w e) rd)
   | FRd \<Rightarrow> Some (Bitfield op w r s rn (zreg w e)) | _ \<Rightarrow> None)"
| "dp_set (Extr w rm s rn rd) f e = (case f of
     FRm \<Rightarrow> Some (Extr w (zreg w e) s rn rd)
   | FRn \<Rightarrow> Some (Extr w rm s (zreg w e) rd)
   | FRd \<Rightarrow> Some (Extr w rm s rn (zreg w e)) | _ \<Rightarrow> None)"
| "dp_set (CondSel op w rm c rn rd) f e = (case f of
     FRm \<Rightarrow> Some (CondSel op w (zreg w e) c rn rd)
   | FRn \<Rightarrow> Some (CondSel op w rm c (zreg w e) rd)
   | FRd \<Rightarrow> Some (CondSel op w rm c rn (zreg w e)) | _ \<Rightarrow> None)"
| "dp_set (CondCmpImm op w i c rn nzcv) f e =
    (case f of FRn \<Rightarrow> Some (CondCmpImm op w i c (zreg w e) nzcv) | _ \<Rightarrow> None)"
| "dp_set (CondCmpReg op w rm c rn nzcv) f e = (case f of
     FRm \<Rightarrow> Some (CondCmpReg op w (zreg w e) c rn nzcv)
   | FRn \<Rightarrow> Some (CondCmpReg op w rm c (zreg w e) nzcv) | _ \<Rightarrow> None)"
| "dp_set (Dp2 op w rm rn rd) f e = (case f of
     FRm \<Rightarrow> Some (Dp2 op w (zreg w e) rn rd)
   | FRn \<Rightarrow> Some (Dp2 op w rm (zreg w e) rd)
   | FRd \<Rightarrow> Some (Dp2 op w rm rn (zreg w e)) | _ \<Rightarrow> None)"
| "dp_set (Crc32 c sz rm rn rd) f e = (case f of
     FRm \<Rightarrow> Some (Crc32 c sz (zreg (if sz = CrcX then X64 else W32) e) rn rd)
   | FRn \<Rightarrow> Some (Crc32 c sz rm (zreg W32 e) rd)
   | FRd \<Rightarrow> Some (Crc32 c sz rm rn (zreg W32 e)) | _ \<Rightarrow> None)"
| "dp_set (Dp3 op w rm ra rn rd) f e = (case f of
     FRm \<Rightarrow> Some (Dp3 op w (zreg w e) ra rn rd)
   | FRa \<Rightarrow> Some (Dp3 op w rm (zreg w e) rn rd)
   | FRn \<Rightarrow> Some (Dp3 op w rm ra (zreg w e) rd)
   | FRd \<Rightarrow> Some (Dp3 op w rm ra rn (zreg w e)) | _ \<Rightarrow> None)"
| "dp_set (Dp3Long op rm ra rn rd) f e = (case f of
     FRm \<Rightarrow> Some (Dp3Long op (zreg W32 e) ra rn rd)
   | FRa \<Rightarrow> Some (Dp3Long op rm (zreg X64 e) rn rd)
   | FRn \<Rightarrow> Some (Dp3Long op rm ra (zreg W32 e) rd)
   | FRd \<Rightarrow> Some (Dp3Long op rm ra rn (zreg X64 e)) | _ \<Rightarrow> None)"
| "dp_set (MulHigh sg rm rn rd) f e = (case f of
     FRm \<Rightarrow> Some (MulHigh sg (zreg X64 e) rn rd)
   | FRn \<Rightarrow> Some (MulHigh sg rm (zreg X64 e) rd)
   | FRd \<Rightarrow> Some (MulHigh sg rm rn (zreg X64 e)) | _ \<Rightarrow> None)"
| "dp_set (Dp1 op w rn rd) f e = (case f of
     FRn \<Rightarrow> Some (Dp1 op w (zreg w e) rd)
   | FRd \<Rightarrow> Some (Dp1 op w rn (zreg w e)) | _ \<Rightarrow> None)"
| "dp_set (Rev32 rn rd) f e = (case f of
     FRn \<Rightarrow> Some (Rev32 (zreg X64 e) rd)
   | FRd \<Rightarrow> Some (Rev32 rn (zreg X64 e)) | _ \<Rightarrow> None)"

fun branch_set :: "a64_branch \<Rightarrow> a64_field \<Rightarrow> nat \<Rightarrow> a64_branch option" where
  "branch_set (Cbz w i rt) f e = (if f = FRt then Some (Cbz w i (zreg w e)) else None)"
| "branch_set (Cbnz w i rt) f e = (if f = FRt then Some (Cbnz w i (zreg w e)) else None)"
| "branch_set (Tbz b5 b40 i rt) f e = (if f = FRt then Some (Tbz b5 b40 i (zreg UnknownWidth e)) else None)"
| "branch_set (Tbnz b5 b40 i rt) f e = (if f = FRt then Some (Tbnz b5 b40 i (zreg UnknownWidth e)) else None)"
| "branch_set (Br rn) f e = (if f = FRn then Some (Br (zreg X64 e)) else None)"
| "branch_set (Blr rn) f e = (if f = FRn then Some (Blr (zreg X64 e)) else None)"
| "branch_set (Ret rn) f e = (if f = FRn then Some (Ret (zreg X64 e)) else None)"
| "branch_set _ f e = None"

fun sys_set :: "a64_sys \<Rightarrow> a64_field \<Rightarrow> nat \<Rightarrow> a64_sys option" where
  "sys_set (Mrs r rt) f e = (if f = FRt then Some (Mrs r (zreg X64 e)) else None)"
| "sys_set _ f e = None"

fun ldst_set :: "a64_ldst \<Rightarrow> a64_field \<Rightarrow> nat \<Rightarrow> a64_ldst option" where
  "ldst_set (LdSt op rt m) f e = (case f of
     FRt \<Rightarrow> Some (LdSt op (zreg (ldst_width op) e) m)
   | FRn \<Rightarrow> Some (LdSt op rt (with_base m (sreg X64 e))) | _ \<Rightarrow> None)"
| "ldst_set (LdStUnscaled op rt m) f e = (case f of
     FRt \<Rightarrow> Some (LdStUnscaled op (zreg (ldst_width op) e) m)
   | FRn \<Rightarrow> Some (LdStUnscaled op rt (with_base m (sreg X64 e))) | _ \<Rightarrow> None)"
| "ldst_set (LdStUnpriv op rt m) f e = (case f of
     FRt \<Rightarrow> Some (LdStUnpriv op (zreg (ldst_width op) e) m)
   | FRn \<Rightarrow> Some (LdStUnpriv op rt (with_base m (sreg X64 e))) | _ \<Rightarrow> None)"
| "ldst_set (LdStPair op rt2 rt m) f e = (case f of
     FRt2 \<Rightarrow> Some (LdStPair op (zreg (pair_width op) e) rt m)
   | FRt \<Rightarrow> Some (LdStPair op rt2 (zreg (pair_width op) e) m)
   | FRn \<Rightarrow> Some (LdStPair op rt2 rt (with_base m (sreg X64 e))) | _ \<Rightarrow> None)"
| "ldst_set (LdStReg op rm x s rn rt) f e = (case f of
     FRm \<Rightarrow> Some (LdStReg op (zreg X64 e) x s rn rt)
   | FRn \<Rightarrow> Some (LdStReg op rm x s (sreg X64 e) rt)
   | FRt \<Rightarrow> Some (LdStReg op rm x s rn (zreg (ldst_width op) e)) | _ \<Rightarrow> None)"
| "ldst_set (LdrLit op i rt) f e =
    (case f of FRt \<Rightarrow> Some (LdrLit op i (zreg (if op = LitLdr32 then W32 else X64) e)) | _ \<Rightarrow> None)"
| "ldst_set (PrfmImm i rn p) f e = (case f of FRn \<Rightarrow> Some (PrfmImm i (sreg X64 e) p) | _ \<Rightarrow> None)"
| "ldst_set (PrfmLit i p) f e = None"
| "ldst_set (PrfmReg rm x s rn p) f e = (case f of
     FRm \<Rightarrow> Some (PrfmReg (zreg X64 e) x s rn p)
   | FRn \<Rightarrow> Some (PrfmReg rm x s (sreg X64 e) p) | _ \<Rightarrow> None)"
| "ldst_set (LdStOrd op rn rt) f e = (case f of
     FRn \<Rightarrow> Some (LdStOrd op (sreg X64 e) rt)
   | FRt \<Rightarrow> Some (LdStOrd op rn (zreg (ord_width op) e)) | _ \<Rightarrow> None)"
| "ldst_set (Atomic op sz ord rs rn rt) f e = (case f of
     FRs \<Rightarrow> Some (Atomic op sz ord (zreg (atomic_width sz) e) rn rt)
   | FRn \<Rightarrow> Some (Atomic op sz ord rs (sreg X64 e) rt)
   | FRt \<Rightarrow> Some (Atomic op sz ord rs rn (zreg (atomic_width sz) e)) | _ \<Rightarrow> None)"

text \<open>
  A \<open>SimdReg\<close> form also keeps its word, so the number goes there too; the width is the one its
  decoder gave the register.
\<close>

definition set_word_reg :: "nat \<Rightarrow> nat \<Rightarrow> u32 \<Rightarrow> u32" where
  "set_word_reg lo e w = (w AND NOT (push_bit lo 31)) OR push_bit lo (of_nat e)"

fun fp_set :: "a64_fp \<Rightarrow> a64_field \<Rightarrow> nat \<Rightarrow> a64_fp option" where
  "fp_set (FpLdSt ld sz rt m) f e =
    (if f = FRn then Some (FpLdSt ld sz rt (with_base m (sreg X64 e))) else None)"
| "fp_set (FpLdStUnscaled ld sz rt m) f e =
    (if f = FRn then Some (FpLdStUnscaled ld sz rt (with_base m (sreg X64 e))) else None)"
| "fp_set (FpPair ld sz rt2 rt m) f e =
    (if f = FRn then Some (FpPair ld sz rt2 rt (with_base m (sreg X64 e))) else None)"
| "fp_set (FpMulti ld n ix q sz rn rt) f e = (case f of
     FRn \<Rightarrow> Some (FpMulti ld n ix q sz (sreg X64 e) rt)
   | FRm \<Rightarrow> (case ix of MRegIndex _ \<Rightarrow> Some (FpMulti ld n (MRegIndex (zreg X64 e)) q sz rn rt) | _ \<Rightarrow> None)
   | _ \<Rightarrow> None)"
| "fp_set (FpLdStReg ld sz rm x s rn rt) f e = (case f of
     FRm \<Rightarrow> Some (FpLdStReg ld sz (zreg X64 e) x s rn rt)
   | FRn \<Rightarrow> Some (FpLdStReg ld sz rm x s (sreg X64 e) rt) | _ \<Rightarrow> None)"
| "fp_set (SimdReg form w rn rd) f e = (case f of
     FRn \<Rightarrow> map_option (\<lambda>r. SimdReg form (set_word_reg 5 e w) (Some (zreg (width r) e)) rd) rn
   | FRd \<Rightarrow> map_option (\<lambda>r. SimdReg form (set_word_reg 0 e w) rn (Some (zreg (width r) e))) rd
   | _ \<Rightarrow> None)"

fun insn_set :: "a64_insn \<Rightarrow> a64_field \<Rightarrow> nat \<Rightarrow> a64_insn option" where
  "insn_set (Dp i) f e = map_option Dp (dp_set i f e)"
| "insn_set (Brn i) f e = map_option Brn (branch_set i f e)"
| "insn_set (Sys i) f e = map_option Sys (sys_set i f e)"
| "insn_set (Mem i) f e = map_option Mem (ldst_set i f e)"
| "insn_set (Simd i) f e = map_option Simd (fp_set i f e)"

definition set_reg :: "a64_insn \<Rightarrow> a64_field \<Rightarrow> a64_reg \<Rightarrow> a64_insn option" where
  "set_reg i f r = (if enc r < 32 then insn_set i f (enc r) else None)"


subsection \<open>Branch targets\<close>

text \<open>
  The branch-target role (\<open>scale\<close> 2 in every form) and the immediate it names: \<open>imm26\<close>, \<open>imm19\<close> or
  \<open>imm14\<close>.
\<close>

fun branch_imm_field :: "a64_insn \<Rightarrow> (a64_imm \<times> nat) option" where
  "branch_imm_field (Brn (BUncond i)) = Some (i, 26)"
| "branch_imm_field (Brn (BCond i _)) = Some (i, 19)"
| "branch_imm_field (Brn (Cbz _ i _)) = Some (i, 19)"
| "branch_imm_field (Brn (Cbnz _ i _)) = Some (i, 19)"
| "branch_imm_field (Brn (Tbz _ _ i _)) = Some (i, 14)"
| "branch_imm_field (Brn (Tbnz _ _ i _)) = Some (i, 14)"
| "branch_imm_field (Brn (Bl i)) = Some (i, 26)"
| "branch_imm_field _ = None"

definition branch_target_imm :: "a64_insn \<Rightarrow> u32 option" where
  "branch_target_imm i = map_option (raw \<circ> fst) (branch_imm_field i)"

fun branch_set_imm :: "a64_branch \<Rightarrow> a64_imm \<Rightarrow> a64_branch" where
  "branch_set_imm (BUncond _) i = BUncond i"
| "branch_set_imm (BCond _ c) i = BCond i c"
| "branch_set_imm (Cbz w _ rt) i = Cbz w i rt"
| "branch_set_imm (Cbnz w _ rt) i = Cbnz w i rt"
| "branch_set_imm (Tbz b5 b40 _ rt) i = Tbz b5 b40 i rt"
| "branch_set_imm (Tbnz b5 b40 _ rt) i = Tbnz b5 b40 i rt"
| "branch_set_imm (Bl _) i = Bl i"
| "branch_set_imm b _ = b"

datatype (plugins only: code size) rewrite_error = ReUnsupportedField | ReFieldOutOfRange

definition set_branch_target_imm :: "a64_insn \<Rightarrow> u32 \<Rightarrow> rewrite_error + a64_insn" where
  "set_branch_target_imm i encoded =
    (case (i, branch_imm_field i) of
       (Brn b, Some (_, n)) \<Rightarrow>
         if unat encoded \<ge> 2 ^ n then Inl ReFieldOutOfRange
         else Inr (Brn (branch_set_imm b (imm_scaled_signed encoded n 2)))
     | _ \<Rightarrow> Inl ReUnsupportedField)"

fun pc_relative_address :: "a64_insn \<Rightarrow> u64 \<Rightarrow> u64 option" where
  "pc_relative_address (Dp (Adr immlo immhi _)) pc =
    Some (pc + word_of_int (sign_extend_a64 (adr_imm immlo immhi) 21))"
| "pc_relative_address (Dp (Adrp immlo immhi _)) pc =
    Some ((pc AND NOT 0xFFF) + word_of_int (sign_extend_a64 (adr_imm immlo immhi) 21 * 4096))"
| "pc_relative_address _ pc = None"

fun direct_branch_target :: "a64_insn \<Rightarrow> u64 \<Rightarrow> u64 option" where
  "direct_branch_target (Brn (BUncond imm26)) pc = Some (pc_relative_target pc (raw imm26) 26)"
| "direct_branch_target _ pc = None"

fun taken_target :: "a64_insn \<Rightarrow> u64 \<Rightarrow> u64 option" where
  "taken_target (Brn (BCond i _)) pc = Some (pc_relative_target pc (raw i) 19)"
| "taken_target (Brn (Cbz _ i _)) pc = Some (pc_relative_target pc (raw i) 19)"
| "taken_target (Brn (Cbnz _ i _)) pc = Some (pc_relative_target pc (raw i) 19)"
| "taken_target (Brn (Tbz _ _ i _)) pc = Some (pc_relative_target pc (raw i) 14)"
| "taken_target (Brn (Tbnz _ _ i _)) pc = Some (pc_relative_target pc (raw i) 14)"
| "taken_target _ pc = None"

definition conditional_targets :: "a64_insn \<Rightarrow> u64 \<Rightarrow> (u64 \<times> u64) option" where
  "conditional_targets i pc = map_option (\<lambda>taken. (taken, pc + 4)) (taken_target i pc)"

datatype (plugins only: code size) exit_reason =
    RexBl u64 u64 | RexBlr nat u64 | RexBr nat | RexRet nat | RexSvc u32 u64
  | RexUnsupported u64 "u32 option"

fun runtime_exit_reason :: "a64_insn \<Rightarrow> u64 \<Rightarrow> exit_reason option" where
  "runtime_exit_reason (Brn (Bl imm26)) pc = Some (RexBl (pc_relative_target pc (raw imm26) 26) (pc + 4))"
| "runtime_exit_reason (Brn (Blr rn)) pc = Some (RexBlr (enc rn) (pc + 4))"
| "runtime_exit_reason (Brn (Br rn)) pc = Some (RexBr (enc rn))"
| "runtime_exit_reason (Brn (Ret rn)) pc = Some (RexRet (enc rn))"
| "runtime_exit_reason (Brn (Svc imm16)) pc = Some (RexSvc (take_bit 16 (raw imm16)) (pc + 4))"
| "runtime_exit_reason _ pc = None"

subsection \<open>Memory forms\<close>

fun literal_address :: "a64_insn \<Rightarrow> u64 \<Rightarrow> u64 option" where
  "literal_address (Mem (LdrLit _ imm19 _)) pc = Some (pc + word_of_int (ivalue imm19))"
| "literal_address _ pc = None"

fun is_prefetch :: "a64_insn \<Rightarrow> bool" where
  "is_prefetch (Mem (PrfmImm _ _ _)) = True"
| "is_prefetch (Mem (PrfmLit _ _)) = True"
| "is_prefetch (Mem (PrfmReg _ _ _ _ _)) = True"
| "is_prefetch _ = False"

fun msr_pan :: "a64_insn \<Rightarrow> bool option" where
  "msr_pan (Sys (MsrImm crm)) = Some (odd crm)"
| "msr_pan _ = None"

text \<open>The forms with a \<open>Memory\<close> role: every load and store but the prefetches.\<close>

fun accesses_memory :: "a64_insn \<Rightarrow> bool" where
  "accesses_memory (Mem i) = (\<not> is_prefetch (Mem i))"
| "accesses_memory (Simd (SimdReg _ _ _ _)) = False"
| "accesses_memory (Simd _) = True"
| "accesses_memory _ = False"

record a64_atomic =
  at_op :: atomic_op
  at_size :: nat
  at_rs :: a64_reg
  at_rt :: a64_reg
  at_rn :: a64_reg

fun lse_atomic :: "a64_insn \<Rightarrow> a64_atomic option" where
  "lse_atomic (Mem (Atomic op sz _ rs rn rt)) =
    Some \<lparr>at_op = op, at_size = atomic_bytes sz, at_rs = rs, at_rt = rt, at_rn = rn\<rparr>"
| "lse_atomic _ = None"

datatype (plugins only: code size) fp_writeback = FwImm int | FwReg a64_reg

record fp_index =
  fx_reg :: a64_reg
  fx_option :: nat
  fx_shift :: nat

record fp_mem =
  fm_access :: a64_insn
  fm_base :: a64_reg
  fm_offset :: int
  fm_index :: "fp_index option"
  fm_writeback :: "fp_writeback option"

text \<open>The base-only addressing, with offset 0 in the field of the base-only form.\<close>

definition zero_mem :: "a64_mem \<Rightarrow> nat \<Rightarrow> a64_mem" where
  "zero_mem m n = MOffset (mem_base m) (imm_unsigned 0 n)"

fun mem_offset :: "a64_mem \<Rightarrow> int" where
  "mem_offset (MPostIndex _ _) = 0"
| "mem_offset m = ivalue (mem_imm m)"

fun mem_writeback :: "a64_mem \<Rightarrow> int option" where
  "mem_writeback (MOffset _ _) = None"
| "mem_writeback m = Some (ivalue (mem_imm m))"

definition fp_single :: "a64_fp \<Rightarrow> a64_mem \<Rightarrow> fp_mem" where
  "fp_single access m = \<lparr>fm_access = Simd access, fm_base = mem_base m, fm_offset = mem_offset m,
     fm_index = None, fm_writeback = map_option FwImm (mem_writeback m)\<rparr>"

definition fp_multiple :: "a64_fp \<Rightarrow> a64_reg \<Rightarrow> fp_writeback option \<Rightarrow> fp_mem" where
  "fp_multiple access base wb = \<lparr>fm_access = Simd access, fm_base = base, fm_offset = 0,
     fm_index = None, fm_writeback = wb\<rparr>"

definition fp_indexed :: "a64_fp \<Rightarrow> a64_reg \<Rightarrow> a64_reg \<Rightarrow> nat \<Rightarrow> nat \<Rightarrow> nat \<Rightarrow> fp_mem" where
  "fp_indexed access base index opt s scale = \<lparr>fm_access = Simd access, fm_base = base, fm_offset = 0,
     fm_index = Some \<lparr>fx_reg = index, fx_option = opt, fx_shift = (if s = 1 then scale else 0)\<rparr>,
     fm_writeback = None\<rparr>"

text \<open>\<open>log2\<close> of the transfer size.\<close>

fun vsize_scale :: "vsize \<Rightarrow> nat" where
  "vsize_scale VB = 0"
| "vsize_scale VH = 1"
| "vsize_scale VS = 2"
| "vsize_scale VD = 3"
| "vsize_scale VQ = 4"

fun fp_transfer_mem :: "a64_fp \<Rightarrow> fp_mem option" where
  "fp_transfer_mem (FpLdSt ld sz rt m) = Some (fp_single (FpLdSt ld sz rt (zero_mem m 12)) m)"
| "fp_transfer_mem (FpLdStUnscaled ld sz rt m) = Some (fp_single (FpLdSt ld sz rt (zero_mem m 12)) m)"
| "fp_transfer_mem (FpPair ld sz rt2 rt m) = Some (fp_single (FpPair ld sz rt2 rt (zero_mem m 7)) m)"
| "fp_transfer_mem (FpMulti ld n ix q sz rn rt) =
    Some (fp_multiple (FpMulti ld n MNoIndex q sz rn rt) rn
      (case ix of MNoIndex \<Rightarrow> None | MImmIndex \<Rightarrow> Some (FwImm (int n * (8 * 2 ^ q)))
                | MRegIndex rm \<Rightarrow> Some (FwReg rm)))"
| "fp_transfer_mem (FpLdStReg ld sz rm opt s rn rt) =
    Some (fp_indexed (FpLdSt ld sz rt (MOffset rn (imm_unsigned 0 12))) rn rm
      (case opt of None \<Rightarrow> 3 | Some x \<Rightarrow> x) s (vsize_scale sz))"
| "fp_transfer_mem (SimdReg _ _ _ _) = None"

fun fpsimd_mem :: "a64_insn \<Rightarrow> fp_mem option" where
  "fpsimd_mem (Simd i) = fp_transfer_mem i"
| "fpsimd_mem _ = None"

definition is_pan_window_access :: "a64_insn \<Rightarrow> bool" where
  "is_pan_window_access i \<longleftrightarrow> lse_atomic i \<noteq> None
    \<or> (case fpsimd_mem i of None \<Rightarrow> False
       | Some m \<Rightarrow> fm_access m = i \<and> fm_offset m = 0 \<and> fm_writeback m = None)"

subsection \<open>Decoded words\<close>

record ir_insn =
  ir_pc :: u64
  ir_word :: u32
  ir_inner :: a64_insn

text \<open>\<open>None\<close>: \<open>DecodeError::UnsupportedWord\<close>.\<close>

definition decode_word :: "u32 \<Rightarrow> u64 \<Rightarrow> ir_insn option" where
  "decode_word w pc = map_option (\<lambda>i. \<lparr>ir_pc = pc, ir_word = w, ir_inner = i\<rparr>) (decode_defined w)"

end
