(* ===== verification/Rephrase.thy ===== *)
theory Rephrase
  imports A64Rewrite
begin

section \<open>Rephrasing one instruction\<close>

text \<open>
  Models the per-instruction part of \<open>shared/trans/rephrase.rs\<close>: the kinds of rephrased words, the
  lowering of branches, system calls and pc-relative addresses (\<open>rephrase_insn\<close>), the constants it
  writes and the exit groups. Words are returned as lists where the code pushes them to a vector.
\<close>

subsection \<open>Rephrased words\<close>

definition ABI_LINK_REG :: nat where [kdefs]: "ABI_LINK_REG = 30"
definition REG_VIRT_STABLE_MAPPED_X29_REG :: nat where [kdefs]: "REG_VIRT_STABLE_MAPPED_X29_REG = 29"
definition REG_VIRT_STABLE_MAPPED_X29_PHYS_REG :: nat where [kdefs]: "REG_VIRT_STABLE_MAPPED_X29_PHYS_REG = 16"
definition REG_VIRT_STABLE_MAPPED_SP_PHYS_REG :: nat where [kdefs]: "REG_VIRT_STABLE_MAPPED_SP_PHYS_REG = 17"
definition UNSUPPORTED_WORD_UNREADABLE :: u64 where [kdefs]: "UNSUPPORTED_WORD_UNREADABLE = - 1"

datatype (plugins only: code size) rkind =
    KOriginal | KUserSynthetic | KRegVirtHelper | KUserAccess | KBudgetCheck | KAlignCheck
  | KRangeCheck | KWindowAccess | KDispatchTarget | KDispatchLookup | KLinkSlot u64
  | KRuntimeExitPayload | KRuntimeExitBranch

definition is_user_semantic :: "rkind \<Rightarrow> bool" where
  "is_user_semantic k \<longleftrightarrow> k = KOriginal \<or> k = KUserSynthetic"

definition is_runtime_exit :: "rkind \<Rightarrow> bool" where
  "is_runtime_exit k \<longleftrightarrow> k = KRuntimeExitPayload \<or> k = KRuntimeExitBranch"

record rinsn =
  ri_kind :: rkind
  ri_pc :: u64
  ri_insn :: a64_insn

definition rword :: "rkind \<Rightarrow> u64 \<Rightarrow> a64_insn \<Rightarrow> rinsn" where
  "rword k pc i = \<lparr>ri_kind = k, ri_pc = pc, ri_insn = i\<rparr>"

lemma rword_simps [simp]:
  "ri_kind (rword k pc i) = k" "ri_pc (rword k pc i) = pc" "ri_insn (rword k pc i) = i"
  by (simp_all add: rword_def)

definition link_slot_word :: "u64 \<Rightarrow> u64 \<Rightarrow> rinsn" where
  "link_slot_word pc target = rword (KLinkSlot target) pc (Sys Nop)"

subsection \<open>Constants\<close>

definition halfword :: "u64 \<Rightarrow> nat \<Rightarrow> u32" where
  "halfword v hw = ucast (take_bit 16 (drop_bit (16 * hw) v))"

definition mov_word :: "movewide_op \<Rightarrow> a64_reg \<Rightarrow> u64 \<Rightarrow> nat \<Rightarrow> a64_insn" where
  "mov_word op rd v hw = Dp (MoveWide op X64 hw (e_uimm (halfword v hw) 16) rd)"

definition mov_imm64 :: "a64_reg \<Rightarrow> u64 \<Rightarrow> a64_insn list" where
  "mov_imm64 rd v =
    (case filter (\<lambda>hw. halfword v hw \<noteq> 0) [0..<4] of
       [] \<Rightarrow> [Dp (MoveWide Movz X64 0 (e_uimm 0 16) rd)]
     | lowest # higher \<Rightarrow> mov_word Movz rd v lowest # map (mov_word Movk rd v) higher)"

definition push_mov_imm64 :: "rkind \<Rightarrow> u64 \<Rightarrow> a64_reg \<Rightarrow> u64 \<Rightarrow> rinsn list" where
  "push_mov_imm64 k pc rd v = map (rword k pc) (mov_imm64 rd v)"

subsection \<open>Exits\<close>

text \<open>\<open>orr rd, xzr, rm\<close>.\<close>

definition mov_reg :: "nat \<Rightarrow> nat \<Rightarrow> a64_insn" where
  "mov_reg rd rm = Dp (LogShift LgOrr X64 0 (reg_x rm) (e_uimm 0 6) reg_xzr (reg_x rd))"

definition dispatch_target_capture :: "u64 \<Rightarrow> nat \<Rightarrow> rinsn" where
  "dispatch_target_capture pc source = rword KDispatchTarget pc (mov_reg DISPATCH_TARGET_REG source)"

definition dispatch_template_words :: "u64 \<Rightarrow> rinsn list" where
  "dispatch_template_words pc = map (rword KDispatchLookup pc) KJIT_DISPATCH_TEMPLATE"

definition dispatch_miss_param0_copy :: a64_insn where
  "dispatch_miss_param0_copy =
    Dp (AddSubImm AsAdd X64 0 (e_uimm 0 12) (reg_x_sp DISPATCH_TARGET_REG) (reg_x_sp RET_PARAM0_REG))"

definition is_dispatch_miss_param0_copy :: "a64_insn \<Rightarrow> bool" where
  "is_dispatch_miss_param0_copy i \<longleftrightarrow> i = dispatch_miss_param0_copy"

definition branch_to_stub :: "u64 \<Rightarrow> rinsn" where
  "branch_to_stub pc = rword KRuntimeExitBranch pc (Brn (BUncond (imm_scaled_signed 0 26 2)))"

definition exit_const :: "u64 \<Rightarrow> nat \<Rightarrow> u64 \<Rightarrow> rinsn list" where
  "exit_const pc reg v = push_mov_imm64 KRuntimeExitPayload pc (reg_x reg) v"

definition dispatch_miss_exit :: "u64 \<Rightarrow> ret_status \<Rightarrow> u64 \<Rightarrow> rinsn list" where
  "dispatch_miss_exit pc status resume_pc =
    exit_const pc RET_STATUS_REG (as_reg status)
    @ [rword KRuntimeExitPayload pc dispatch_miss_param0_copy]
    @ exit_const pc RET_PARAM1_REG resume_pc @ [branch_to_stub pc]"

definition native_resume_exit :: "ret_status \<Rightarrow> u64 \<Rightarrow> u64 \<Rightarrow> rinsn list" where
  "native_resume_exit status pc param0 =
    exit_const pc RET_STATUS_REG (as_reg status) @ exit_const pc RET_PARAM0_REG param0
    @ exit_const pc RET_PARAM1_REG pc @ [branch_to_stub pc]"

subsection \<open>The lowering\<close>

definition link_write :: "u64 \<Rightarrow> u64 \<Rightarrow> rinsn list" where
  "link_write pc resume_pc = push_mov_imm64 KUserSynthetic pc (reg_x ABI_LINK_REG) resume_pc"

fun rephrase_exit :: "u64 \<Rightarrow> exit_reason \<Rightarrow> rinsn list" where
  "rephrase_exit pc (RexBl target_pc resume_pc) =
    link_write pc resume_pc @ [link_slot_word pc target_pc]
    @ push_mov_imm64 KDispatchTarget pc (reg_x DISPATCH_TARGET_REG) target_pc
    @ dispatch_template_words pc @ dispatch_miss_exit pc RsBl resume_pc"
| "rephrase_exit pc (RexBlr target_reg resume_pc) =
    [dispatch_target_capture pc target_reg] @ link_write pc resume_pc
    @ dispatch_template_words pc @ dispatch_miss_exit pc RsBlr resume_pc"
| "rephrase_exit pc (RexBr target_reg) =
    [dispatch_target_capture pc target_reg] @ dispatch_template_words pc @ dispatch_miss_exit pc RsBr (pc + 4)"
| "rephrase_exit pc (RexRet lr_reg) =
    [dispatch_target_capture pc lr_reg] @ dispatch_template_words pc @ dispatch_miss_exit pc RsRet (pc + 4)"
| "rephrase_exit pc (RexSvc imm16 resume_pc) =
    exit_const pc RET_STATUS_REG (as_reg RsSvc)
    @ [rword KRuntimeExitPayload pc (mov_reg RET_PARAM0_REG 8)]
    @ exit_const pc RET_PARAM1_REG resume_pc @ [branch_to_stub pc]"
| "rephrase_exit pc (RexUnsupported _ _) = []"

fun is_bti :: "a64_insn \<Rightarrow> bool" where
  "is_bti (Sys (Bti _)) = True"
| "is_bti _ = False"

text \<open>The destination of \<open>ADR\<close> and \<open>ADRP\<close>.\<close>

fun pcrel_dest :: "a64_insn \<Rightarrow> a64_reg option" where
  "pcrel_dest (Dp (Adr _ _ rd)) = Some rd"
| "pcrel_dest (Dp (Adrp _ _ rd)) = Some rd"
| "pcrel_dest _ = None"

definition rephrase_insn :: "ir_insn \<Rightarrow> rinsn list" where
  "rephrase_insn i =
    (case (pcrel_dest (ir_inner i), pc_relative_address (ir_inner i) (ir_pc i)) of
       (Some rd, Some v) \<Rightarrow> push_mov_imm64 KUserSynthetic (ir_pc i) rd v
     | _ \<Rightarrow>
         (case runtime_exit_reason (ir_inner i) (ir_pc i) of
            Some reason \<Rightarrow> rephrase_exit (ir_pc i) reason
          | None \<Rightarrow>
              if is_prefetch (ir_inner i) \<or> is_bti (ir_inner i) then [rword KUserSynthetic (ir_pc i) (Sys Nop)]
              else [rword KOriginal (ir_pc i) (ir_inner i)]))"

subsection \<open>The budget check\<close>

definition budget_check :: "u64 \<Rightarrow> rinsn list" where
  "budget_check pc =
    [rword KBudgetCheck pc (Dp (AddSubImm AsSub X64 0 (e_uimm 1 12) (reg_x_sp BUDGET_COUNTER_REG)
       (reg_x_sp BUDGET_COUNTER_REG))),
     rword KBudgetCheck pc (Brn (Cbz X64 (imm_scaled_signed 0 19 2) (reg_x BUDGET_COUNTER_REG)))]"

definition user_branch_target :: "a64_insn \<Rightarrow> u64 \<Rightarrow> u64 option" where
  "user_branch_target i pc =
    (case direct_branch_target i pc of Some t \<Rightarrow> Some t | None \<Rightarrow> map_option fst (conditional_targets i pc))"

definition is_dispatch_site :: "ir_insn \<Rightarrow> bool" where
  "is_dispatch_site i =
    (case runtime_exit_reason (ir_inner i) (ir_pc i) of
       Some (RexSvc _ _) \<Rightarrow> False | Some (RexUnsupported _ _) \<Rightarrow> False | None \<Rightarrow> False | Some _ \<Rightarrow> True)"

definition rephrase_is_back_edge :: "rinsn list \<Rightarrow> u64 list \<Rightarrow> (u64 \<Rightarrow> bool) \<Rightarrow> bool" where
  "rephrase_is_back_edge lowered placed on_cycle =
    list_ex (\<lambda>target. target \<in> set placed \<and> on_cycle target)
      (List.map_filter (\<lambda>w. user_branch_target (ri_insn w) (ri_pc w))
        (filter (\<lambda>w. is_user_semantic (ri_kind w)) lowered))"

end
