(* ===== verification/RegVirt.thy ===== *)
theory RegVirt
  imports Rephrase
begin

section \<open>Register virtualization: the plan of one instruction\<close>

text \<open>
  Models the decisions of \<open>shared/trans/reg_virt.rs\<close>: how the user registers of an instruction map to
  physical ones, which scratch registers it takes, how a load or store becomes user accesses, and the
  writes to the user's SP that are checked. A plan is what \<open>RewritePlan::build\<close> computes; it is the
  admission check of an instruction and what the emission of its words follows. Scratch registers are
  handed out in the order of the operand roles. The errors leave out the name of the form;
  \<open>RvUnreachable\<close> stands for the panic of an \<open>unreachable!\<close> arm.
\<close>

subsection \<open>Errors\<close>

datatype (plugins only: code size) reg_virt_error =
    RvUnexpectedRegVirtHelper u64
  | RvMalformedRuntimeExitGroup u64
  | RvRuntimeExitPcMismatch u64 u64
  | RvMultipleParam0Captures u64
  | RvMissingRegisterAccessor u64 a64_field
  | RvMissingRegisterSetter u64 a64_field
  | RvUnsupportedOperandRole u64
  | RvUnsupportedImplicitRegWrite u64 nat a64_reg_width
  | RvScratchPoolExhausted u64
  | RvStackBackedRewriteNotImplemented u64 a64_reg
  | RvStableMappedRewriteNotImplemented u64 a64_reg
  | RvUnsupportedStackBackedWriteWidth u64 a64_field a64_reg
  | RvUnsupportedSpOperand u64 a64_field a64_reg
  | RvUnpredictableMemoryOp u64
  | RvUnsupportedRuntimeExitSource u64 a64_field a64_reg
  | RvUnprivilegedUserAccess u64
  | RvUnencodableMemOffset u64 int
  | RvUnloweredMemoryForm u64
  | RvPanUserForm u64
  | RvUnreachable u64

fun is_instruction_intrinsic :: "reg_virt_error \<Rightarrow> bool" where
  "is_instruction_intrinsic (RvUnpredictableMemoryOp _) = True"
| "is_instruction_intrinsic (RvScratchPoolExhausted _) = True"
| "is_instruction_intrinsic (RvUnprivilegedUserAccess _) = True"
| "is_instruction_intrinsic (RvPanUserForm _) = True"
| "is_instruction_intrinsic (RvUnencodableMemOffset _ _) = True"
| "is_instruction_intrinsic (RvUnsupportedImplicitRegWrite _ _ _) = True"
| "is_instruction_intrinsic (RvUnsupportedStackBackedWriteWidth _ _ _) = True"
| "is_instruction_intrinsic (RvUnsupportedSpOperand _ _ _) = True"
| "is_instruction_intrinsic (RvStableMappedRewriteNotImplemented _ _) = True"
| "is_instruction_intrinsic (RvUnsupportedOperandRole _) = True"
| "is_instruction_intrinsic _ = False"

subsection \<open>Register classes\<close>

datatype reg_class = RcZero | RcDirect | RcRuntimeReserved | RcStackBacked | RcStableMapped | RcSp

definition is_runtime_return_reg :: "a64_reg \<Rightarrow> bool" where
  "is_runtime_return_reg r \<longleftrightarrow> enc r = RET_STATUS_REG \<or> enc r = RET_PARAM0_REG \<or> enc r = RET_PARAM1_REG"

definition is_zero_reg :: "a64_reg \<Rightarrow> bool" where
  "is_zero_reg r \<longleftrightarrow> enc r = 31 \<and> reg31 r \<noteq> R31Sp"

definition classify_reg :: "a64_reg \<Rightarrow> reg_class" where
  "classify_reg r =
    (if enc r = 31 then (if reg31 r = R31Sp then RcSp else RcZero)
     else if is_runtime_return_reg r then RcRuntimeReserved
     else if reg_virt_is_stack_backed (enc r) then RcStackBacked
     else if enc r = REG_VIRT_STABLE_MAPPED_X29_REG then RcStableMapped
     else RcDirect)"

definition is_direct :: "reg_class \<Rightarrow> bool" where
  "is_direct c \<longleftrightarrow> c = RcZero \<or> c = RcDirect"

subsection \<open>Operand roles\<close>

fun access_mode_from_role :: "a64_role \<Rightarrow> (a64_field \<times> a64_reg_width \<times> bool \<times> bool) option" where
  "access_mode_from_role (RegRead f w) = Some (f, w, True, False)"
| "access_mode_from_role (RegWrite f w) = Some (f, w, False, True)"
| "access_mode_from_role (RegReadWrite f w) = Some (f, w, True, True)"
| "access_mode_from_role (MemBase f) = Some (f, X64, True, False)"
| "access_mode_from_role (ImplicitRegWrite _ _) = None"

fun role_writes_field :: "a64_field \<Rightarrow> a64_role \<Rightarrow> bool" where
  "role_writes_field f (RegWrite g _) \<longleftrightarrow> g = f"
| "role_writes_field f (RegReadWrite g _) \<longleftrightarrow> g = f"
| "role_writes_field f _ \<longleftrightarrow> False"

definition field_has_write_role :: "a64_insn \<Rightarrow> a64_field \<Rightarrow> bool" where
  "field_has_write_role i f \<longleftrightarrow> list_ex (role_writes_field f) (operand_roles i)"

definition require_reg :: "u64 \<Rightarrow> a64_insn \<Rightarrow> a64_field \<Rightarrow> reg_virt_error + a64_reg" where
  "require_reg pc i f = ok_or (get_reg i f) (RvMissingRegisterAccessor pc f)"

definition require_setter :: "u64 \<Rightarrow> a64_insn \<Rightarrow> a64_field \<Rightarrow> a64_reg \<Rightarrow> reg_virt_error + unit" where
  "require_setter pc i f r = rbind (ok_or (set_reg i f r) (RvMissingRegisterSetter pc f)) (\<lambda>_. Inr ())"

text \<open>Overlaps of registers that the architecture leaves unpredictable.\<close>

fun check_base_overlap :: "u64 \<Rightarrow> a64_insn \<Rightarrow> a64_role \<Rightarrow> unit \<Rightarrow> reg_virt_error + unit" where
  "check_base_overlap pc i (MemBase bf) _ =
    (if \<not> field_has_write_role i bf then Inr ()
     else rbind (require_reg pc i bf) (\<lambda>base.
       if enc base = 31 then Inr ()
       else rfold (\<lambda>other _.
           case access_mode_from_role other of
             None \<Rightarrow> Inr ()
           | Some (f, _, _) \<Rightarrow>
               if f = bf then Inr ()
               else rbind (require_reg pc i f) (\<lambda>r. guard (enc r \<noteq> enc base) (RvUnpredictableMemoryOp pc)))
         (operand_roles i) ()))"
| "check_base_overlap pc i _ _ = Inr ()"

fun check_write_overlap :: "u64 \<Rightarrow> a64_insn \<Rightarrow> a64_role list \<Rightarrow> reg_virt_error + unit" where
  "check_write_overlap pc i [] = Inr ()"
| "check_write_overlap pc i (RegWrite f _ # rs) =
    rbind (require_reg pc i f) (\<lambda>r.
    rbind (rfold (\<lambda>later _.
        case later of
          RegWrite g _ \<Rightarrow>
            if g = f then Inr ()
            else rbind (require_reg pc i g) (\<lambda>r'. guard (enc r' \<noteq> enc r) (RvUnpredictableMemoryOp pc))
        | _ \<Rightarrow> Inr ()) rs ()) (\<lambda>_. check_write_overlap pc i rs))"
| "check_write_overlap pc i (_ # rs) = check_write_overlap pc i rs"

text \<open>The loads of a pair of V registers are the forms that write two.\<close>

fun vec_overlap :: "a64_insn \<Rightarrow> bool" where
  "vec_overlap (Simd (FpPair ld _ rt2 rt _)) \<longleftrightarrow> ld \<and> rt2 = rt"
| "vec_overlap _ \<longleftrightarrow> False"

definition reject_constrained_unpredictable :: "u64 \<Rightarrow> a64_insn \<Rightarrow> reg_virt_error + unit" where
  "reject_constrained_unpredictable pc i =
    rbind (rfold (check_base_overlap pc i) (operand_roles i) ()) (\<lambda>_.
    rbind (check_write_overlap pc i (operand_roles i)) (\<lambda>_.
    guard (\<not> vec_overlap i) (RvUnpredictableMemoryOp pc)))"

subsection \<open>User loads and stores\<close>

datatype (plugins only: code size) mem_addr =
    MaImm a64_mem
  | MaRegOffset a64_reg a64_reg nat nat
  | MaLiteral u64
  | MaBase a64_reg

record access_shape =
  ms_op :: ldst_op
  ms_rt :: a64_reg
  ms_rt2 :: "a64_reg option"
  ms_addr :: mem_addr
  ms_ordered :: bool

fun ldst_bytes :: "ldst_op \<Rightarrow> nat" where
  "ldst_bytes Ldrb = 1" | "ldst_bytes Ldrsb32 = 1" | "ldst_bytes Ldrsb64 = 1" | "ldst_bytes Strb = 1"
| "ldst_bytes Ldrh = 2" | "ldst_bytes Ldrsh32 = 2" | "ldst_bytes Ldrsh64 = 2" | "ldst_bytes Strh = 2"
| "ldst_bytes Ldr32 = 4" | "ldst_bytes Ldrsw = 4" | "ldst_bytes Str32 = 4"
| "ldst_bytes Ldr64 = 8" | "ldst_bytes Str64 = 8"

definition ldst_scale :: "ldst_op \<Rightarrow> nat" where
  "ldst_scale op =
    (let n = ldst_bytes op in if n = 1 then 0 else if n = 2 then 1 else if n = 4 then 2 else 3)"

text \<open>The access \<open>[base, #offset]\<close> of the unprivileged form of the operation.\<close>

definition user_access_insn :: "ldst_op \<Rightarrow> a64_reg \<Rightarrow> nat \<Rightarrow> int \<Rightarrow> a64_insn" where
  "user_access_insn op rt base offset =
    Mem (LdStUnpriv op rt (MOffset (reg_x_sp base) (imm_signed (word_of_int offset AND 0x1FF) 9)))"

fun pair_access :: "pair_op \<Rightarrow> ldst_op" where
  "pair_access Ldp32 = Ldr32" | "pair_access Ldp64 = Ldr64" | "pair_access Ldpsw = Ldrsw"
| "pair_access Stp32 = Str32" | "pair_access Stp64 = Str64"

fun lit_access :: "lit_op \<Rightarrow> ldst_op" where
  "lit_access LitLdr32 = Ldr32" | "lit_access LitLdr64 = Ldr64" | "lit_access LitLdrsw = Ldrsw"

fun ord_access :: "ord_op \<Rightarrow> ldst_op" where
  "ord_access Ldar32 = Ldr32" | "ord_access Ldapr32 = Ldr32"
| "ord_access Ldar64 = Ldr64" | "ord_access Ldapr64 = Ldr64"
| "ord_access Ldarb = Ldrb" | "ord_access Ldaprb = Ldrb"
| "ord_access Ldarh = Ldrh" | "ord_access Ldaprh = Ldrh"
| "ord_access Stlr32 = Str32" | "ord_access Stlr64 = Str64"
| "ord_access Stlrb = Strb" | "ord_access Stlrh = Strh"

definition shape :: "ldst_op \<Rightarrow> a64_reg \<Rightarrow> a64_reg option \<Rightarrow> mem_addr \<Rightarrow> access_shape" where
  "shape op rt rt2 addr =
    \<lparr>ms_op = op, ms_rt = rt, ms_rt2 = rt2, ms_addr = addr,
     ms_ordered = (case addr of MaBase _ \<Rightarrow> True | _ \<Rightarrow> False)\<rparr>"

definition LSL_FORM :: nat where "LSL_FORM = 3"

fun mem_shape :: "a64_insn \<Rightarrow> u64 \<Rightarrow> access_shape option" where
  "mem_shape (Mem (LdSt op rt m)) pc = Some (shape op rt None (MaImm m))"
| "mem_shape (Mem (LdStUnscaled op rt m)) pc = Some (shape op rt None (MaImm m))"
| "mem_shape (Mem (LdStPair op rt2 rt m)) pc = Some (shape (pair_access op) rt (Some rt2) (MaImm m))"
| "mem_shape (Mem (LdStReg op rm opt s rn rt)) pc =
    Some (shape op rt None (MaRegOffset rn rm (case opt of None \<Rightarrow> LSL_FORM | Some x \<Rightarrow> x)
      (if s = 1 then ldst_scale op else 0)))"
| "mem_shape (Mem (LdrLit op imm19 rt)) pc =
    map_option (\<lambda>a. shape (lit_access op) rt None (MaLiteral a)) (literal_address (Mem (LdrLit op imm19 rt)) pc)"
| "mem_shape (Mem (LdStOrd op rn rt)) pc = Some (shape (ord_access op) rt None (MaBase rn))"
| "mem_shape _ pc = None"

subsection \<open>Writes to the user's SP\<close>

datatype sp_class = SpwNone | SpwPreserving | SpwGuarded

definition immediate_writeback_amount :: "a64_insn \<Rightarrow> int option" where
  "immediate_writeback_amount i =
    (case map_option ms_addr (mem_shape i 0) of
       Some (MaImm m) \<Rightarrow> mem_writeback m
     | _ \<Rightarrow>
         (case fpsimd_mem i of
            None \<Rightarrow> None
          | Some m \<Rightarrow> (case fm_writeback m of Some (FwImm amount) \<Rightarrow> Some amount | _ \<Rightarrow> None)))"

definition logical_imm_mask :: "nat \<Rightarrow> u32 \<Rightarrow> u32 \<Rightarrow> nat \<Rightarrow> u64" where
  "logical_imm_mask n immr imms w =
    (let n_not_imms = push_bit 6 (of_nat (n mod 2)) OR (NOT imms AND 0x3f) :: u32;
         esize = 2 ^ msb_index (unat n_not_imms) :: nat;
         s = unat imms mod esize; r = unat immr mod esize;
         element_mask = (mask esize :: u64);
         ones = (mask (s + 1) :: u64);
         element = (drop_bit r ones OR push_bit ((esize - r) mod esize) ones) AND element_mask
     in fold (\<lambda>k m. m OR push_bit (k * esize) element) [0..<w div esize] 0)"

definition writes_sp :: "a64_insn \<Rightarrow> bool" where
  "writes_sp i \<longleftrightarrow> list_ex (\<lambda>role.
     case role of
       RegWrite f _ \<Rightarrow> (case get_reg i f of None \<Rightarrow> False | Some r \<Rightarrow> classify_reg r = RcSp)
     | RegReadWrite f _ \<Rightarrow> (case get_reg i f of None \<Rightarrow> False | Some r \<Rightarrow> classify_reg r = RcSp)
     | _ \<Rightarrow> False) (operand_roles i)"

definition sp_preserving_imm :: "nat \<Rightarrow> a64_imm \<Rightarrow> a64_reg \<Rightarrow> a64_reg \<Rightarrow> bool" where
  "sp_preserving_imm sh imm12 rn rd \<longleftrightarrow>
    classify_reg rn = RcSp \<and> classify_reg rd = RcSp \<and> unat (push_bit (12 * sh) (raw imm12)) mod 16 = 0"

definition sp_preserving :: "a64_insn \<Rightarrow> bool" where
  "sp_preserving i \<longleftrightarrow>
    (case i of
       Dp (AddSubImm AsAdd X64 sh imm12 rn rd) \<Rightarrow> sp_preserving_imm sh imm12 rn rd
     | Dp (AddSubImm AsSub X64 sh imm12 rn rd) \<Rightarrow> sp_preserving_imm sh imm12 rn rd
     | Dp (LogImm LiAnd W32 n immr imms _ _) \<Rightarrow> logical_imm_mask 0 (raw immr) (raw imms) 32 AND 15 = 0
     | Dp (LogImm LiAnd X64 n immr imms _ _) \<Rightarrow> logical_imm_mask n (raw immr) (raw imms) 64 AND 15 = 0
     | _ \<Rightarrow> (case immediate_writeback_amount i of None \<Rightarrow> False | Some amount \<Rightarrow> amount mod 16 = 0))"

definition sp_write :: "a64_insn \<Rightarrow> sp_class" where
  "sp_write i = (if \<not> writes_sp i then SpwNone else if sp_preserving i then SpwPreserving else SpwGuarded)"


subsection \<open>Plans\<close>

record stack_mapping =
  sm_virt :: nat
  sm_scratch :: nat
  sm_read :: bool
  sm_write :: bool

record sp_guard =
  sg_value :: nat
  sg_check :: nat

datatype (plugins only: code size) access_addr =
    AaBase a64_reg int
  | AaBasePlusImm nat a64_reg int
  | AaBasePlusIndex nat a64_reg a64_reg nat nat
  | AaAbsolute nat u64

record writeback =
  wb_base :: a64_reg
  wb_amount :: int
  wb_guard :: "sp_guard option"

record mem_lowering =
  ml_shape :: access_shape
  ml_addr :: access_addr
  ml_writeback :: "writeback option"
  ml_first_load_scratch :: "nat option"
  ml_block_align_scratch :: "nat option"

datatype (plugins only: code size) window_insn = WiAtomic a64_atomic | WiFpSimd fp_mem

fun wi_base :: "window_insn \<Rightarrow> a64_reg" where
  "wi_base (WiAtomic a) = at_rn a"
| "wi_base (WiFpSimd m) = fm_base m"

fun wi_offset :: "window_insn \<Rightarrow> int" where
  "wi_offset (WiAtomic _) = 0"
| "wi_offset (WiFpSimd m) = fm_offset m"

fun wi_index :: "window_insn \<Rightarrow> fp_index option" where
  "wi_index (WiAtomic _) = None"
| "wi_index (WiFpSimd m) = fm_index m"

record window_lowering =
  wl_insn :: window_insn
  wl_addr :: nat
  wl_addr_base :: "a64_reg option"
  wl_check :: nat
  wl_guard :: "sp_guard option"
  wl_block_check :: bool

datatype (plugins only: code size) mem_plan = MpUnpriv mem_lowering | MpWindow window_lowering

record rewrite_plan =
  rp_pc :: u64
  rp_stack_backed :: "stack_mapping list"
  rp_scratch_used :: nat
  rp_mem :: "mem_plan option"
  rp_sp_guard :: "sp_guard option"

definition new_plan :: "u64 \<Rightarrow> rewrite_plan" where
  "new_plan pc = \<lparr>rp_pc = pc, rp_stack_backed = [], rp_scratch_used = 0, rp_mem = None, rp_sp_guard = None\<rparr>"

definition alloc_scratch :: "rewrite_plan \<Rightarrow> reg_virt_error + rewrite_plan \<times> nat" where
  "alloc_scratch p =
    (case reg_virt_scratch_gpr (rp_scratch_used p) of
       None \<Rightarrow> Inl (RvScratchPoolExhausted (rp_pc p))
     | Some scratch \<Rightarrow> Inr (p\<lparr>rp_scratch_used := rp_scratch_used p + 1\<rparr>, scratch))"

text \<open>A stack-backed register has one scratch register for all its fields.\<close>

definition note_access :: "nat \<Rightarrow> bool \<Rightarrow> bool \<Rightarrow> stack_mapping list \<Rightarrow> stack_mapping list" where
  "note_access v reads writes ms =
    map (\<lambda>m. if sm_virt m = v then m\<lparr>sm_read := sm_read m \<or> reads, sm_write := sm_write m \<or> writes\<rparr> else m) ms"

definition add_stack_backed :: "a64_reg \<Rightarrow> bool \<Rightarrow> bool \<Rightarrow> rewrite_plan \<Rightarrow> reg_virt_error + rewrite_plan" where
  "add_stack_backed r reads writes p =
    (if list_ex (\<lambda>m. sm_virt m = enc r) (rp_stack_backed p)
     then Inr (p\<lparr>rp_stack_backed := note_access (enc r) reads writes (rp_stack_backed p)\<rparr>)
     else rbind (alloc_scratch p) (\<lambda>(p, scratch).
       Inr (p\<lparr>rp_stack_backed := rp_stack_backed p
         @ [\<lparr>sm_virt = enc r, sm_scratch = scratch, sm_read = reads, sm_write = writes\<rparr>]\<rparr>)))"

definition add_field_access ::
  "a64_insn \<Rightarrow> a64_field \<Rightarrow> a64_reg_width \<Rightarrow> bool \<Rightarrow> bool \<Rightarrow> rewrite_plan \<Rightarrow> reg_virt_error + rewrite_plan" where
  "add_field_access i f w reads writes p =
    rbind (require_reg (rp_pc p) i f) (\<lambda>r.
    rbind (if writes then require_setter (rp_pc p) i f r else Inr ()) (\<lambda>_.
    (case classify_reg r of
       RcZero \<Rightarrow> Inr p
     | RcDirect \<Rightarrow> Inr p
     | RcRuntimeReserved \<Rightarrow> Inr p
     | RcStableMapped \<Rightarrow> rbind (require_setter (rp_pc p) i f r) (\<lambda>_. Inr p)
     | RcSp \<Rightarrow> rbind (require_setter (rp_pc p) i f r) (\<lambda>_. Inr p)
     | RcStackBacked \<Rightarrow>
         rbind (require_setter (rp_pc p) i f r) (\<lambda>_.
         rbind (guard (\<not> (writes \<and> w = UnknownWidth)) (RvUnsupportedStackBackedWriteWidth (rp_pc p) f r)) (\<lambda>_.
         add_stack_backed r reads writes p)))))"

definition add_role :: "a64_insn \<Rightarrow> a64_role \<Rightarrow> rewrite_plan \<Rightarrow> reg_virt_error + rewrite_plan" where
  "add_role i role p =
    (case role of
       ImplicitRegWrite reg w \<Rightarrow> Inl (RvUnsupportedImplicitRegWrite (rp_pc p) reg w)
     | _ \<Rightarrow>
         (case access_mode_from_role role of
            None \<Rightarrow> Inr p
          | Some (f, w, reads, writes) \<Rightarrow> add_field_access i f w reads writes p))"

definition find_mapping :: "rewrite_plan \<Rightarrow> nat \<Rightarrow> stack_mapping option" where
  "find_mapping p v = List.find (\<lambda>m. sm_virt m = v) (rp_stack_backed p)"

definition physical_reg :: "rewrite_plan \<Rightarrow> a64_reg \<Rightarrow> a64_reg option" where
  "physical_reg p r =
    (case classify_reg r of
       RcStackBacked \<Rightarrow> map_option (\<lambda>m. reg_new (sm_scratch m) (width r) R31Xzr) (find_mapping p (enc r))
     | RcStableMapped \<Rightarrow> Some (reg_new REG_VIRT_STABLE_MAPPED_X29_PHYS_REG (width r) R31Xzr)
     | RcSp \<Rightarrow> Some (reg_new REG_VIRT_STABLE_MAPPED_SP_PHYS_REG (width r) R31Xzr)
     | _ \<Rightarrow> None)"

definition phys :: "rewrite_plan \<Rightarrow> a64_reg \<Rightarrow> a64_reg" where
  "phys p r = (case physical_reg p r of None \<Rightarrow> r | Some r' \<Rightarrow> r')"

definition fits_simm9 :: "int \<Rightarrow> bool" where
  "fits_simm9 offset \<longleftrightarrow> - 256 \<le> offset \<and> offset \<le> 255"

text \<open>The \<open>ADD\<close>/\<open>SUB\<close> (immediate) words that add a value: whether they subtract, and \<open>(sh, imm12)\<close> each.\<close>

definition add_sub_imm_parts :: "int \<Rightarrow> (bool \<times> (nat \<times> nat) list) option" where
  "add_sub_imm_parts v =
    (let magnitude = nat \<bar>v\<bar>; hi = magnitude div 4096; lo = magnitude mod 4096 in
     if magnitude \<ge> 2 ^ 24 then None
     else Some (v < 0, (if hi \<noteq> 0 then [(1, hi)] else []) @ (if lo \<noteq> 0 then [(0, lo)] else [])))"

definition check_parts :: "u64 \<Rightarrow> int \<Rightarrow> reg_virt_error + unit" where
  "check_parts pc v = guard (add_sub_imm_parts v \<noteq> None) (RvUnencodableMemOffset pc v)"

definition access_base :: "rewrite_plan \<Rightarrow> access_addr \<Rightarrow> nat" where
  "access_base p a =
    (case a of AaBase base _ \<Rightarrow> enc (phys p base) | AaBasePlusImm scratch _ _ \<Rightarrow> scratch
     | AaBasePlusIndex scratch _ _ _ _ \<Rightarrow> scratch | AaAbsolute scratch _ \<Rightarrow> scratch)"

definition can_take_first_load :: "rewrite_plan \<Rightarrow> a64_reg \<Rightarrow> nat \<Rightarrow> bool" where
  "can_take_first_load p rt base =
    (case classify_reg rt of
       RcZero \<Rightarrow> True
     | RcStackBacked \<Rightarrow> (case find_mapping p (enc rt) of None \<Rightarrow> False | Some m \<Rightarrow> sm_scratch m \<noteq> base)
     | _ \<Rightarrow> False)"

text \<open>The address of the accesses, and the amount of the base update.\<close>

definition plan_address ::
  "access_shape \<Rightarrow> rewrite_plan \<Rightarrow> reg_virt_error + rewrite_plan \<times> access_addr \<times> (a64_reg \<times> int) option" where
  "plan_address sh p =
    (case ms_addr sh of
       MaImm m \<Rightarrow>
         (let first = mem_offset m; wb = mem_writeback m;
              last_offset = (if ms_rt2 sh = None then first else first + int (ldst_bytes (ms_op sh)))
          in rbind (case wb of None \<Rightarrow> Inr () | Some amount \<Rightarrow> check_parts (rp_pc p) amount) (\<lambda>_.
             rbind (if fits_simm9 first \<and> fits_simm9 last_offset then Inr (p, AaBase (mem_base m) first)
                else rbind (check_parts (rp_pc p) first) (\<lambda>_.
                     rbind (alloc_scratch p) (\<lambda>(p, scratch). Inr (p, AaBasePlusImm scratch (mem_base m) first)))) (\<lambda>(p, addr).
             Inr (p, addr, map_option (\<lambda>amount. (mem_base m, amount)) wb))))
     | MaRegOffset base index opt shift \<Rightarrow>
         rbind (alloc_scratch p) (\<lambda>(p, scratch). Inr (p, AaBasePlusIndex scratch base index opt shift, None))
     | MaLiteral address \<Rightarrow> rbind (alloc_scratch p) (\<lambda>(p, scratch). Inr (p, AaAbsolute scratch address, None))
     | MaBase base \<Rightarrow> Inr (p, AaBase base 0, None))"

definition shape_on_sp :: "access_shape \<Rightarrow> bool" where
  "shape_on_sp sh =
    (case ms_addr sh of
       MaImm m \<Rightarrow> classify_reg (mem_base m) = RcSp
     | MaRegOffset base _ _ _ \<Rightarrow> classify_reg base = RcSp
     | MaBase base \<Rightarrow> classify_reg base = RcSp
     | MaLiteral _ \<Rightarrow> False)"

text \<open>The guard of a written-back SP shares the address or the first-load scratch with its check.\<close>

definition plan_guard :: "access_addr \<Rightarrow> nat option \<Rightarrow> rewrite_plan \<Rightarrow> reg_virt_error + rewrite_plan \<times> sp_guard" where
  "plan_guard addr first p =
    rbind (alloc_scratch p) (\<lambda>(p, value).
      (case (addr, first) of
         (AaBasePlusImm scratch _ _, _) \<Rightarrow> Inr (p, \<lparr>sg_value = value, sg_check = scratch\<rparr>)
       | (AaBasePlusIndex scratch _ _ _ _, _) \<Rightarrow> Inr (p, \<lparr>sg_value = value, sg_check = scratch\<rparr>)
       | (_, Some scratch) \<Rightarrow> Inr (p, \<lparr>sg_value = value, sg_check = scratch\<rparr>)
       | (_, None) \<Rightarrow> rbind (alloc_scratch p) (\<lambda>(p, check). Inr (p, \<lparr>sg_value = value, sg_check = check\<rparr>))))"

definition alloc_if :: "bool \<Rightarrow> rewrite_plan \<Rightarrow> reg_virt_error + rewrite_plan \<times> nat option" where
  "alloc_if b p = (if b then rbind (alloc_scratch p) (\<lambda>(p, scratch). Inr (p, Some scratch)) else Inr (p, None))"

definition plan_mem :: "access_shape \<Rightarrow> bool \<Rightarrow> rewrite_plan \<Rightarrow> reg_virt_error + rewrite_plan \<times> mem_lowering" where
  "plan_mem sh guarded p =
    rbind (plan_address sh p) (\<lambda>(p, addr, wb).
    rbind (alloc_if (ldst_is_load (ms_op sh) \<and> ms_rt2 sh \<noteq> None
        \<and> \<not> can_take_first_load p (ms_rt sh) (access_base p addr)) p) (\<lambda>(p, first).
    rbind (if guarded then rbind (plan_guard addr first p) (\<lambda>(p, g). Inr (p, Some g)) else Inr (p, None)) (\<lambda>(p, g).
    rbind (alloc_if (ms_ordered sh \<and> ldst_bytes (ms_op sh) > 1 \<and> \<not> shape_on_sp sh) p) (\<lambda>(p, align).
    Inr (p, \<lparr>ml_shape = sh, ml_addr = addr,
      ml_writeback = map_option (\<lambda>(base, amount). \<lparr>wb_base = base, wb_amount = amount, wb_guard = g\<rparr>) wb,
      ml_first_load_scratch = first, ml_block_align_scratch = align\<rparr>)))))"

definition plan_window_addr ::
  "window_insn \<Rightarrow> rewrite_plan \<Rightarrow> reg_virt_error + rewrite_plan \<times> nat \<times> a64_reg option" where
  "plan_window_addr wi p =
    (let base = wi_base wi in
     if wi_offset wi = 0 \<and> wi_index wi = None then
       (case classify_reg base of
          RcStackBacked \<Rightarrow>
            rbind (ok_or (find_mapping p (enc base)) (RvStackBackedRewriteNotImplemented (rp_pc p) base)) (\<lambda>m.
            Inr (p, sm_scratch m, None))
        | RcZero \<Rightarrow> Inl (RvUnsupportedSpOperand (rp_pc p) FRn base)
        | _ \<Rightarrow> Inr (p, enc (phys p base), None))
     else rbind (alloc_scratch p) (\<lambda>(p, scratch). Inr (p, scratch, Some (reg_x (enc (phys p base))))))"

definition plan_window :: "window_insn \<Rightarrow> bool \<Rightarrow> rewrite_plan \<Rightarrow> reg_virt_error + rewrite_plan \<times> window_lowering" where
  "plan_window wi guarded p =
    rbind (plan_window_addr wi p) (\<lambda>(p, addr, addr_base).
    rbind (alloc_scratch p) (\<lambda>(p, check).
    rbind (if guarded then rbind (alloc_scratch p) (\<lambda>(p, value). Inr (p, Some \<lparr>sg_value = value, sg_check = check\<rparr>))
           else Inr (p, None)) (\<lambda>(p, g).
    Inr (p, \<lparr>wl_insn = wi, wl_addr = addr, wl_addr_base = addr_base, wl_check = check, wl_guard = g,
      wl_block_check = (case wi of WiAtomic a \<Rightarrow> at_size a > 1 | WiFpSimd _ \<Rightarrow> False)
        \<and> classify_reg (wi_base wi) \<noteq> RcSp\<rparr>))))"

definition window_of :: "a64_insn \<Rightarrow> window_insn option" where
  "window_of i =
    (case lse_atomic i of Some a \<Rightarrow> Some (WiAtomic a) | None \<Rightarrow> map_option WiFpSimd (fpsimd_mem i))"

text \<open>A guarded field that also reads SP would read the new value.\<close>

definition check_sp_read :: "u64 \<Rightarrow> a64_insn \<Rightarrow> a64_role \<Rightarrow> unit \<Rightarrow> reg_virt_error + unit" where
  "check_sp_read pc i role _ =
    (case role of
       RegReadWrite f _ \<Rightarrow>
         rbind (require_reg pc i f) (\<lambda>r. guard (classify_reg r \<noteq> RcSp) (RvUnsupportedSpOperand pc f r))
     | _ \<Rightarrow> Inr ())"

definition plan_access :: "a64_insn \<Rightarrow> bool \<Rightarrow> rewrite_plan \<Rightarrow> reg_virt_error + rewrite_plan" where
  "plan_access i guarded p =
    (case window_of i of
       Some w \<Rightarrow> rbind (plan_window w guarded p) (\<lambda>(p, l). Inr (p\<lparr>rp_mem := Some (MpWindow l)\<rparr>))
     | None \<Rightarrow>
         rbind (ok_or (mem_shape i (rp_pc p)) (RvUnloweredMemoryForm (rp_pc p))) (\<lambda>sh.
         rbind (plan_mem sh guarded p) (\<lambda>(p, l). Inr (p\<lparr>rp_mem := Some (MpUnpriv l)\<rparr>))))"

definition build_plan :: "u64 \<Rightarrow> a64_insn \<Rightarrow> reg_virt_error + rewrite_plan" where
  "build_plan pc i =
    rbind (guard (\<not> is_unprivileged_access i) (RvUnprivilegedUserAccess pc)) (\<lambda>_.
    rbind (guard (msr_pan i = None) (RvPanUserForm pc)) (\<lambda>_.
    rbind (reject_constrained_unpredictable pc i) (\<lambda>_.
    rbind (rfold (add_role i) (operand_roles i) (new_plan pc)) (\<lambda>p.
    let guarded = (sp_write i = SpwGuarded) in
    if accesses_memory i then plan_access i guarded p
    else if guarded then
      rbind (rfold (check_sp_read pc i) (operand_roles i) ()) (\<lambda>_.
      rbind (alloc_scratch p) (\<lambda>(p, value).
      rbind (alloc_scratch p) (\<lambda>(p, check).
      Inr (p\<lparr>rp_sp_guard := Some \<lparr>sg_value = value, sg_check = check\<rparr>\<rparr>))))
    else Inr p))))"

text \<open>The admission check: every user-semantic word of the lowering has a plan.\<close>

definition admit_insn :: "ir_insn \<Rightarrow> reg_virt_error + unit" where
  "admit_insn i =
    rfold (\<lambda>w _. rbind (build_plan (ri_pc w) (ri_insn w)) (\<lambda>_. Inr ()))
      (filter (\<lambda>w. is_user_semantic (ri_kind w)) (rephrase_insn i)) ()"

end
