(* ===== verification/Cfg.thy ===== *)
theory Cfg
  imports RegVirt VerifyScc
begin

section \<open>Discovery of the blocks\<close>

text \<open>
  Models \<open>shared/trans/cfg.rs\<close>. The code provider of \<open>shared/trans/input.rs\<close> is the parameter
  \<open>code\<close>: the word at a pc, or \<open>None\<close> past the readable text (\<open>CodeReadError::Unmapped\<close>). The two
  loops of \<open>build_cfg\<close> are \<open>scan_block\<close> and \<open>explore\<close>; both are partial functions, whose \<open>None\<close> is
  a loop that does not end, and are shown to end afterwards. A split takes its instructions off the
  block at an offset that is always inside it (\<open>cfg_wf\<close>), so the index error of \<open>split_off_copy\<close>
  has no case.
\<close>

subsection \<open>Blocks\<close>

record unsupported_insn =
  un_pc :: u64
  un_word :: u32

datatype (plugins only: code size) unsupported_exit = UxInsn unsupported_insn | UxUnreadable u64

fun ux_pc :: "unsupported_exit \<Rightarrow> u64" where
  "ux_pc (UxInsn u) = un_pc u"
| "ux_pc (UxUnreadable pc) = pc"

fun ux_word :: "unsupported_exit \<Rightarrow> u32 option" where
  "ux_word (UxInsn u) = Some (un_word u)"
| "ux_word (UxUnreadable _) = None"

record bblock =
  bb_start :: u64
  bb_end :: u64
  bb_insns :: "ir_insn list"
  bb_prev :: "u64 list"
  bb_next :: "u64 list"
  bb_exit :: "unsupported_exit option"

record cfg =
  cf_entry :: u64
  cf_blocks :: "bblock list"

datatype (plugins only: code size) cfg_error =
    CeCodeRead u64 | CeRegVirt reg_virt_error | CeEmptyBlock u64

type_synonym code_provider = "u64 \<Rightarrow> u32 option"

subsection \<open>Admission\<close>

definition admit_word :: "u32 \<Rightarrow> u64 \<Rightarrow> cfg_error + (unsupported_insn + ir_insn)" where
  "admit_word w pc =
    (case decode_word w pc of
       None \<Rightarrow> Inr (Inl \<lparr>un_pc = pc, un_word = w\<rparr>)
     | Some i \<Rightarrow>
         (case admit_insn i of
            Inr _ \<Rightarrow> Inr (Inr i)
          | Inl e \<Rightarrow>
              if is_instruction_intrinsic e then Inr (Inl \<lparr>un_pc = pc, un_word = w\<rparr>) else Inl (CeRegVirt e)))"

definition admit_at :: "code_provider \<Rightarrow> u64 \<Rightarrow> cfg_error + (unsupported_exit + ir_insn)" where
  "admit_at code pc =
    (case code pc of
       None \<Rightarrow> Inr (Inl (UxUnreadable pc))
     | Some w \<Rightarrow>
         rbind (admit_word w pc) (\<lambda>r. Inr (case r of Inl u \<Rightarrow> Inl (UxInsn u) | Inr i \<Rightarrow> Inr i)))"

subsection \<open>Block boundaries\<close>

definition split_head :: "u64 \<Rightarrow> bblock \<Rightarrow> bblock" where
  "split_head pc b =
    b\<lparr>bb_end := pc, bb_insns := take (unat (pc - bb_start b) div 4) (bb_insns b), bb_next := [pc], bb_exit := None\<rparr>"

definition split_tail :: "u64 \<Rightarrow> bblock \<Rightarrow> bblock" where
  "split_tail pc b =
    \<lparr>bb_start = pc, bb_end = bb_end b, bb_insns = drop (unat (pc - bb_start b) div 4) (bb_insns b),
     bb_prev = [], bb_next = bb_next b, bb_exit = bb_exit b\<rparr>"

fun split_existing_block_at :: "u64 \<Rightarrow> bblock list \<Rightarrow> bblock list option" where
  "split_existing_block_at pc [] = None"
| "split_existing_block_at pc (b # bs) =
    (if bb_start b < pc \<and> pc < bb_end b then Some (split_head pc b # split_tail pc b # bs)
     else map_option ((#) b) (split_existing_block_at pc bs))"

text \<open>\<open>Some\<close> blocks: the pc starts a block now.\<close>

definition ensure_block_boundary :: "u64 \<Rightarrow> bblock list \<Rightarrow> bblock list option" where
  "ensure_block_boundary pc blocks =
    (if list_ex (\<lambda>b. bb_start b = pc) blocks then Some blocks else split_existing_block_at pc blocks)"

definition enqueue_block :: "u64 \<Rightarrow> u64 list \<Rightarrow> u64 list" where
  "enqueue_block pc pending = (if pc \<in> set pending then pending else pending @ [pc])"

subsection \<open>The loops\<close>

text \<open>How an instruction ends its block: the successors, and the pending blocks with them.\<close>

definition ends_block :: "ir_insn \<Rightarrow> u64 list \<Rightarrow> (u64 list \<times> u64 list) option" where
  "ends_block i pending =
    (case direct_branch_target (ir_inner i) (ir_pc i) of
       Some t \<Rightarrow> Some ([t], enqueue_block t pending)
     | None \<Rightarrow>
         (case runtime_exit_reason (ir_inner i) (ir_pc i) of
            Some (RexSvc _ resume_pc) \<Rightarrow> Some ([resume_pc], enqueue_block resume_pc pending)
          | Some _ \<Rightarrow> Some ([], pending)
          | None \<Rightarrow>
              (case conditional_targets (ir_inner i) (ir_pc i) of
                 Some (taken, fall) \<Rightarrow> Some ([taken, fall], enqueue_block taken (enqueue_block fall pending))
               | None \<Rightarrow> None)))"

record scanned_block =
  sn_next :: "u64 list"
  sn_exit :: "unsupported_exit option"
  sn_end :: u64
  sn_insns :: "ir_insn list"
  sn_pending :: "u64 list"
  sn_blocks :: "bblock list"

partial_function (option) scan_block ::
  "code_provider \<Rightarrow> u64 \<Rightarrow> ir_insn list \<Rightarrow> u64 list \<Rightarrow> bblock list \<Rightarrow> (cfg_error + scanned_block) option" where
  "scan_block code pc insns pending blocks =
    (if insns \<noteq> [] \<and> pc \<in> set pending
     then Some (Inr \<lparr>sn_next = [pc], sn_exit = None, sn_end = pc, sn_insns = insns,
                     sn_pending = pending, sn_blocks = blocks\<rparr>)
     else case (if insns = [] then None else ensure_block_boundary pc blocks) of
       Some blocks' \<Rightarrow>
         Some (Inr \<lparr>sn_next = [pc], sn_exit = None, sn_end = pc, sn_insns = insns,
                    sn_pending = pending, sn_blocks = blocks'\<rparr>)
     | None \<Rightarrow>
         (case admit_at code pc of
            Inl e \<Rightarrow> Some (Inl e)
          | Inr (Inl u) \<Rightarrow>
              Some (Inr \<lparr>sn_next = [], sn_exit = Some u, sn_end = pc, sn_insns = insns,
                         sn_pending = pending, sn_blocks = blocks\<rparr>)
          | Inr (Inr i) \<Rightarrow>
              (case ends_block i pending of
                 Some (succs, pending') \<Rightarrow>
                   Some (Inr \<lparr>sn_next = succs, sn_exit = None, sn_end = pc + 4, sn_insns = insns @ [i],
                              sn_pending = pending', sn_blocks = blocks\<rparr>)
               | None \<Rightarrow> scan_block code (pc + 4) (insns @ [i]) pending blocks)))"

declare scan_block.simps [code]

definition new_block :: "u64 \<Rightarrow> scanned_block \<Rightarrow> bblock" where
  "new_block start s =
    \<lparr>bb_start = start, bb_end = sn_end s, bb_insns = sn_insns s, bb_prev = [], bb_next = sn_next s,
     bb_exit = sn_exit s\<rparr>"

partial_function (option) explore ::
  "code_provider \<Rightarrow> nat \<Rightarrow> u64 list \<Rightarrow> bblock list \<Rightarrow> (cfg_error + bblock list) option" where
  "explore code index pending blocks =
    (if index \<ge> length pending then Some (Inr blocks)
     else case ensure_block_boundary (pending ! index) blocks of
       Some blocks' \<Rightarrow> explore code (Suc index) pending blocks'
     | None \<Rightarrow>
         Option.bind (scan_block code (pending ! index) [] pending blocks) (\<lambda>r.
           case r of
             Inl e \<Rightarrow> Some (Inl e)
           | Inr s \<Rightarrow>
               if sn_insns s = [] \<and> sn_exit s = None then Some (Inl (CeEmptyBlock (pending ! index)))
               else explore code (Suc index) (sn_pending s) (sn_blocks s @ [new_block (pending ! index) s])))"

declare explore.simps [code]

text \<open>The predecessors of a block, one for each successor entry that names its start.\<close>

definition predecessors :: "bblock list \<Rightarrow> u64 \<Rightarrow> u64 list" where
  "predecessors blocks start =
    concat (map (\<lambda>b. map (\<lambda>_. bb_start b) (filter ((=) start) (bb_next b))) blocks)"

definition populate_prev :: "bblock list \<Rightarrow> bblock list" where
  "populate_prev blocks =
    map (\<lambda>k. (blocks ! k)\<lparr>bb_prev :=
        (if bb_start (blocks ! k) \<in> bb_start ` set (take k blocks) then []
         else predecessors blocks (bb_start (blocks ! k)))\<rparr>) [0..<length blocks]"

definition build_cfg :: "code_provider \<Rightarrow> u64 \<Rightarrow> (cfg_error + cfg) option" where
  "build_cfg code entry_pc =
    (case code entry_pc of
       None \<Rightarrow> Some (Inl (CeCodeRead entry_pc))
     | Some _ \<Rightarrow>
         map_option (\<lambda>r. rbind r (\<lambda>blocks. Inr \<lparr>cf_entry = entry_pc, cf_blocks = populate_prev blocks\<rparr>))
           (explore code 0 [entry_pc] []))"

subsection \<open>Layout order and components\<close>

text \<open>The sort by \<open>(start, index)\<close> is the stable sort of the indices by start.\<close>

definition layout_block_order :: "u64 list \<Rightarrow> nat list" where
  "layout_block_order starts = sort_key (\<lambda>k. starts ! k) [0..<length starts]"

text \<open>The order is sorted by start, so the partition point is the first index that fails.\<close>

definition block_containing :: "nat list \<Rightarrow> (nat \<Rightarrow> u64) \<Rightarrow> u64 \<Rightarrow> nat option" where
  "block_containing order start_of pc =
    (let after = length (takeWhile (\<lambda>k. start_of k \<le> pc) order)
     in if after = 0 then None else Some (order ! (after - 1)))"

definition block_starts :: "bblock list \<Rightarrow> u64 list" where
  "block_starts blocks = map bb_start blocks"

definition successor_block :: "bblock list \<Rightarrow> nat list \<Rightarrow> u64 \<Rightarrow> nat option" where
  "successor_block blocks order target =
    (case block_containing order (\<lambda>k. bb_start (blocks ! k)) target of
       Some k \<Rightarrow> if bb_start (blocks ! k) = target then Some k else None
     | None \<Rightarrow> None)"

definition is_sink :: "bblock \<Rightarrow> bool" where
  "is_sink b \<longleftrightarrow> bb_insns b \<noteq> []
    \<and> runtime_exit_reason (ir_inner (last (bb_insns b))) (ir_pc (last (bb_insns b))) \<noteq> None"

definition body_targets :: "bblock \<Rightarrow> u64 list" where
  "body_targets b = (if is_sink b then [] else bb_next b)"

text \<open>
  \<open>strongly_connected_components\<close> is the same algorithm as the verifier's (\<open>components\<close>), on the same
  arrays; a successor list stands for the slots asked until \<open>None\<close>.
\<close>

definition strongly_connected_components :: "nat \<Rightarrow> (nat \<Rightarrow> nat list) \<Rightarrow> nat \<Rightarrow> nat option" where
  "strongly_connected_components count succs = components count succs"

text \<open>\<open>None\<close>: the panic for a successor that starts no block (every block is visited).\<close>

definition body_components :: "bblock list \<Rightarrow> nat list \<Rightarrow> (nat \<Rightarrow> nat option) option" where
  "body_components blocks order =
    (if list_all (\<lambda>b. list_all (\<lambda>t. successor_block blocks order t \<noteq> None) (body_targets b)) blocks
     then Some (strongly_connected_components (length blocks)
       (\<lambda>k. map (\<lambda>t. the (successor_block blocks order t)) (body_targets (blocks ! k))))
     else None)"

end
