(* ===== verification/RegVirtEmit.thy ===== *)
theory RegVirtEmit
  imports RegVirt
begin

section \<open>Register virtualization: the words of one instruction\<close>

text \<open>
  Models the emission half of \<open>shared/trans/reg_virt.rs\<close>: the words a plan stands for (fills, address
  arithmetic, checks, accesses, commits, spills), the groups that leave a fragment, and the loop over
  a block. Functions that push words return the list of them.
\<close>

subsection \<open>Slots\<close>

definition stack_slot_offset :: "rewrite_plan \<Rightarrow> stack_mapping \<Rightarrow> reg_virt_error + nat" where
  "stack_slot_offset p m =
    ok_or (reg_virt_stack_backed_slot_offset (sm_virt m))
      (RvStackBackedRewriteNotImplemented (rp_pc p) (reg_x (sm_virt m)))"

definition slot_load :: "nat \<Rightarrow> nat \<Rightarrow> a64_insn" where
  "slot_load r off = Mem (LdSt Ldr64 (reg_x r) (MOffset reg_sp (ldst64_offset off)))"

definition slot_store :: "nat \<Rightarrow> nat \<Rightarrow> a64_insn" where
  "slot_store r off = Mem (LdSt Str64 (reg_x r) (MOffset reg_sp (ldst64_offset off)))"

definition load_slot :: "rewrite_plan \<Rightarrow> stack_mapping \<Rightarrow> reg_virt_error + a64_insn" where
  "load_slot p m = rbind (stack_slot_offset p m) (\<lambda>off. Inr (slot_load (sm_scratch m) off))"

definition store_slot :: "rewrite_plan \<Rightarrow> stack_mapping \<Rightarrow> reg_virt_error + a64_insn" where
  "store_slot p m = rbind (stack_slot_offset p m) (\<lambda>off. Inr (slot_store (sm_scratch m) off))"

text \<open>Pushing one word for each element of a list, until the first error.\<close>

definition push_each :: "('a \<Rightarrow> 'e + 'b list) \<Rightarrow> 'a list \<Rightarrow> 'e + 'b list" where
  "push_each f xs = rfold (\<lambda>x out. rbind (f x) (\<lambda>ws. Inr (out @ ws))) xs []"

definition emit_fills :: "rewrite_plan \<Rightarrow> u64 \<Rightarrow> reg_virt_error + rinsn list" where
  "emit_fills p pc =
    push_each (\<lambda>m. rbind (load_slot p m) (\<lambda>i. Inr [rword KRegVirtHelper pc i]))
      (filter sm_read (rp_stack_backed p))"

definition emit_spills :: "rewrite_plan \<Rightarrow> u64 \<Rightarrow> reg_virt_error + rinsn list" where
  "emit_spills p pc =
    push_each (\<lambda>m. rbind (store_slot p m) (\<lambda>i. Inr [rword KRegVirtHelper pc i]))
      (filter sm_write (rp_stack_backed p))"

subsection \<open>The mapped instruction\<close>

definition mapped_reg :: "rewrite_plan \<Rightarrow> a64_insn \<Rightarrow> a64_field \<Rightarrow> a64_reg \<Rightarrow> a64_reg option" where
  "mapped_reg p i f r =
    (case rp_sp_guard p of
       Some g \<Rightarrow>
         if classify_reg r = RcSp \<and> field_has_write_role i f
         then Some (reg_new (sg_value g) (width r) R31Xzr) else physical_reg p r
     | None \<Rightarrow> physical_reg p r)"

definition rewrite_role :: "rewrite_plan \<Rightarrow> a64_insn \<Rightarrow> a64_role \<Rightarrow> a64_insn \<Rightarrow> reg_virt_error + a64_insn" where
  "rewrite_role p i role j =
    (case access_mode_from_role role of
       None \<Rightarrow> Inr j
     | Some (f, _) \<Rightarrow>
         rbind (require_reg (rp_pc p) i f) (\<lambda>r.
           case mapped_reg p i f r of
             None \<Rightarrow> Inr j
           | Some r' \<Rightarrow> ok_or (set_reg j f r') (RvMissingRegisterSetter (rp_pc p) f)))"

definition rewrite_insn :: "rewrite_plan \<Rightarrow> a64_insn \<Rightarrow> reg_virt_error + a64_insn" where
  "rewrite_insn p i = rfold (rewrite_role p i) (operand_roles i) i"

subsection \<open>Address arithmetic and checks\<close>

text \<open>The first word of the sum reads \<open>rn\<close>, the second what the first wrote.\<close>

fun add_sub_words :: "bool \<Rightarrow> nat \<Rightarrow> nat \<Rightarrow> (nat \<times> nat) list \<Rightarrow> a64_insn list" where
  "add_sub_words subtract rd rn [] = []"
| "add_sub_words subtract rd rn ((sh, imm12) # parts) =
    Dp (AddSubImm (if subtract then AsSub else AsAdd) X64 sh (e_uimm (of_nat imm12) 12) (reg_x_sp rn) (reg_x_sp rd))
    # add_sub_words subtract rd rd parts"

definition push_add_sub_imm :: "u64 \<Rightarrow> (a64_insn \<Rightarrow> rinsn) \<Rightarrow> nat \<Rightarrow> nat \<Rightarrow> int \<Rightarrow> reg_virt_error + rinsn list" where
  "push_add_sub_imm pc mk rd rn v =
    rbind (ok_or (add_sub_imm_parts v) (RvUnencodableMemOffset pc v)) (\<lambda>(subtract, parts).
    Inr (map mk (add_sub_words subtract rd rn parts)))"

definition add_registers :: "rewrite_plan \<Rightarrow> nat \<Rightarrow> nat \<Rightarrow> a64_reg \<Rightarrow> a64_insn" where
  "add_registers p rd rn index =
    Dp (AddSubShift AsAdd X64 0 (reg_x (enc (phys p index))) (e_uimm 0 6) (reg_x rn) (reg_x rd))"

definition add_extended :: "rewrite_plan \<Rightarrow> nat \<Rightarrow> nat \<Rightarrow> a64_reg \<Rightarrow> nat \<Rightarrow> nat \<Rightarrow> a64_insn" where
  "add_extended p rd rn index opt shift =
    Dp (AddSubExt AsAdd X64 (reg_x (enc (phys p index))) opt (e_uimm (of_nat shift) 3) (reg_x_sp rn) (reg_x_sp rd))"

text \<open>\<open>and rd, rn, #15\<close> and \<open>cbnz rt, <stub>\<close>.\<close>

definition and_15 :: "nat \<Rightarrow> nat \<Rightarrow> a64_insn" where
  "and_15 rn rd = Dp (LogImm LiAnd X64 1 (e_uimm 0 6) (e_uimm 3 6) (reg_x rn) (reg_x_sp rd))"

definition cbnz_stub :: "nat \<Rightarrow> a64_insn" where
  "cbnz_stub rt = Brn (Cbnz X64 (imm_scaled_signed 0 19 2) (reg_x rt))"

definition guard_check :: "sp_guard \<Rightarrow> u64 \<Rightarrow> rinsn list" where
  "guard_check g pc = map (rword KAlignCheck pc) [and_15 (sg_value g) (sg_check g), cbnz_stub (sg_check g)]"

definition guard_commit :: "sp_guard \<Rightarrow> rinsn \<Rightarrow> rinsn" where
  "guard_commit g w = w\<lparr>ri_insn := mov_reg REG_VIRT_STABLE_MAPPED_SP_PHYS_REG (sg_value g)\<rparr>"

text \<open>Leaves when the access \<open>[base, base + bytes)\<close> crosses a 16-byte boundary.\<close>

definition block_check :: "u64 \<Rightarrow> nat \<Rightarrow> nat \<Rightarrow> nat \<Rightarrow> rinsn list" where
  "block_check pc base scratch bytes =
    map (rword KAlignCheck pc)
      [and_15 base scratch,
       Dp (AddSubImm AsAdd X64 0 (e_uimm (of_nat bytes - 1) 12) (reg_x_sp scratch) (reg_x_sp scratch)),
       Dp (LogImm LiAnd X64 1 (e_uimm 60 6) (e_uimm 0 6) (reg_x scratch) (reg_x_sp scratch)),
       cbnz_stub scratch]"

subsection \<open>Window accesses\<close>

definition range_check_words :: "u64 \<Rightarrow> nat \<Rightarrow> nat \<Rightarrow> rinsn list" where
  "range_check_words pc addr check =
    map (rword KRangeCheck pc)
      [Dp (Bitfield Ubfm X64 (e_uimm (of_nat USER_VA_BITS) 6) (e_uimm (of_nat PAN_WINDOW_RANGE_TOP_BIT) 6)
         (reg_x addr) (reg_x check)),
       cbnz_stub check]"

definition window_guard :: "rewrite_plan \<Rightarrow> u64 \<Rightarrow> window_lowering \<Rightarrow> reg_virt_error + rinsn list" where
  "window_guard p pc l =
    (case (wl_guard l, wl_insn l) of
       (Some g, WiFpSimd m) \<Rightarrow>
         rbind (case fm_writeback m of
             Some (FwImm amount) \<Rightarrow>
               push_add_sub_imm (rp_pc p) (rword KRegVirtHelper pc) (sg_value g) REG_VIRT_STABLE_MAPPED_SP_PHYS_REG amount
           | Some (FwReg index) \<Rightarrow>
               Inr [rword KRegVirtHelper pc (add_registers p (sg_value g) REG_VIRT_STABLE_MAPPED_SP_PHYS_REG index)]
           | None \<Rightarrow> Inl (RvUnreachable pc))
         (\<lambda>ws. Inr (ws @ guard_check g pc))
     | _ \<Rightarrow> Inr [])"

definition window_address :: "rewrite_plan \<Rightarrow> u64 \<Rightarrow> window_lowering \<Rightarrow> reg_virt_error + rinsn list" where
  "window_address p pc l =
    (case wl_addr_base l of
       None \<Rightarrow> Inr []
     | Some base \<Rightarrow>
         (case wi_index (wl_insn l) of
            Some ix \<Rightarrow>
              Inr [rword KRegVirtHelper pc (add_extended p (wl_addr l) (enc base) (fx_reg ix) (fx_option ix) (fx_shift ix))]
          | None \<Rightarrow> push_add_sub_imm (rp_pc p) (rword KRegVirtHelper pc) (wl_addr l) (enc base) (wi_offset (wl_insn l))))"

definition window_block_check :: "u64 \<Rightarrow> window_lowering \<Rightarrow> rinsn list" where
  "window_block_check pc l =
    (case (wl_block_check l, wl_insn l) of
       (True, WiAtomic a) \<Rightarrow> block_check pc (wl_addr l) (wl_check l) (at_size a)
     | _ \<Rightarrow> [])"

definition window_access :: "rewrite_plan \<Rightarrow> rinsn \<Rightarrow> window_lowering \<Rightarrow> reg_virt_error + a64_insn" where
  "window_access p w l =
    rbind (case wl_insn l of WiAtomic _ \<Rightarrow> rewrite_insn p (ri_insn w) | WiFpSimd m \<Rightarrow> Inr (fm_access m)) (\<lambda>i.
    ok_or (set_reg i FRn (reg_x_sp (wl_addr l))) (RvMissingRegisterSetter (ri_pc w) FRn))"

definition window_commit :: "rewrite_plan \<Rightarrow> rinsn \<Rightarrow> window_lowering \<Rightarrow> reg_virt_error + rinsn list" where
  "window_commit p w l =
    (case wl_insn l of
       WiAtomic _ \<Rightarrow> Inr []
     | WiFpSimd m \<Rightarrow>
         (let base = enc (phys p (fm_base m)) in
          case (fm_writeback m, wl_guard l) of
            (None, _) \<Rightarrow> Inr []
          | (Some _, Some g) \<Rightarrow> Inr [guard_commit g w]
          | (Some (FwImm amount), None) \<Rightarrow>
              push_add_sub_imm (rp_pc p) (\<lambda>i. w\<lparr>ri_insn := i\<rparr>) base base amount
          | (Some (FwReg index), None) \<Rightarrow> Inr [w\<lparr>ri_insn := add_registers p base base index\<rparr>]))"

definition emit_window :: "rewrite_plan \<Rightarrow> rinsn \<Rightarrow> window_lowering \<Rightarrow> reg_virt_error + rinsn list" where
  "emit_window p w l =
    (let pc = ri_pc w in
     rbind (window_guard p pc l) (\<lambda>checked.
     rbind (window_address p pc l) (\<lambda>address.
     rbind (window_access p w l) (\<lambda>access.
     rbind (window_commit p w l) (\<lambda>commit.
     Inr (checked @ address @ window_block_check pc l @ range_check_words pc (wl_addr l) (wl_check l)
       @ [rword KWindowAccess pc access] @ commit))))))"

subsection \<open>Unprivileged accesses\<close>

definition push_mov_address :: "u64 \<Rightarrow> nat \<Rightarrow> u64 \<Rightarrow> rinsn list" where
  "push_mov_address pc rd a = push_mov_imm64 KRegVirtHelper pc (reg_x rd) a"

text \<open>The words that put the address in place, and the offset the first access has left.\<close>

definition mem_address :: "rewrite_plan \<Rightarrow> u64 \<Rightarrow> access_addr \<Rightarrow> reg_virt_error + rinsn list \<times> int" where
  "mem_address p pc a =
    (case a of
       AaBase _ off \<Rightarrow> Inr ([], off)
     | AaBasePlusImm scratch base off \<Rightarrow>
         rbind (push_add_sub_imm (rp_pc p) (rword KRegVirtHelper pc) scratch (enc (phys p base)) off) (\<lambda>ws. Inr (ws, 0))
     | AaBasePlusIndex scratch base index opt shift \<Rightarrow>
         Inr ([rword KRegVirtHelper pc (add_extended p scratch (enc (phys p base)) index opt shift)], 0)
     | AaAbsolute scratch address \<Rightarrow> Inr (push_mov_address pc scratch address, 0))"

definition mem_accesses :: "rewrite_plan \<Rightarrow> rinsn \<Rightarrow> mem_lowering \<Rightarrow> int \<Rightarrow> rinsn list" where
  "mem_accesses p w l first_off =
    (let pc = ri_pc w; sh = ml_shape l; op = ms_op sh; base = access_base p (ml_addr l);
         rt = phys p (ms_rt sh);
         access = (\<lambda>r off. rword KUserAccess pc (user_access_insn op r base off));
         second = (\<lambda>rt2. access (phys p rt2) (first_off + int (ldst_bytes op)))
     in case ms_rt2 sh of
          None \<Rightarrow> [access rt first_off]
        | Some rt2 \<Rightarrow>
            if ldst_is_load op then
              (case ml_first_load_scratch l of
                 None \<Rightarrow> [access rt first_off, second rt2]
               | Some scratch \<Rightarrow>
                   [access (reg_new scratch (width rt) R31Xzr) first_off, second rt2,
                    w\<lparr>ri_insn := mov_reg (enc rt) scratch\<rparr>])
            else [access rt first_off, second rt2])"

definition mem_guard :: "rewrite_plan \<Rightarrow> u64 \<Rightarrow> mem_lowering \<Rightarrow> reg_virt_error + rinsn list" where
  "mem_guard p pc l =
    (case ml_writeback l of
       None \<Rightarrow> Inr []
     | Some wb \<Rightarrow>
         (case wb_guard wb of
            None \<Rightarrow> Inr []
          | Some g \<Rightarrow>
              rbind (push_add_sub_imm (rp_pc p) (rword KRegVirtHelper pc) (sg_value g)
                  REG_VIRT_STABLE_MAPPED_SP_PHYS_REG (wb_amount wb)) (\<lambda>ws.
              Inr (ws @ guard_check g pc))))"

definition mem_commit :: "rewrite_plan \<Rightarrow> rinsn \<Rightarrow> mem_lowering \<Rightarrow> reg_virt_error + rinsn list" where
  "mem_commit p w l =
    (case ml_writeback l of
       None \<Rightarrow> Inr []
     | Some wb \<Rightarrow>
         (case wb_guard wb of
            Some g \<Rightarrow> Inr [guard_commit g w]
          | None \<Rightarrow>
              (let base = enc (phys p (wb_base wb))
               in push_add_sub_imm (rp_pc p) (\<lambda>i. w\<lparr>ri_insn := i\<rparr>) base base (wb_amount wb))))"

definition mem_block_check :: "rewrite_plan \<Rightarrow> u64 \<Rightarrow> mem_lowering \<Rightarrow> rinsn list" where
  "mem_block_check p pc l =
    (case ml_block_align_scratch l of
       None \<Rightarrow> []
     | Some scratch \<Rightarrow> block_check pc (access_base p (ml_addr l)) scratch (ldst_bytes (ms_op (ml_shape l))))"

definition fence_word :: "u64 \<Rightarrow> rinsn" where
  "fence_word pc = rword KRegVirtHelper pc (Sys (Barrier Dmb 11))"

definition emit_mem_lowering :: "rewrite_plan \<Rightarrow> rinsn \<Rightarrow> mem_lowering \<Rightarrow> reg_virt_error + rinsn list" where
  "emit_mem_lowering p w l =
    (let pc = ri_pc w; fence = (if ms_ordered (ml_shape l) then [fence_word pc] else []) in
     rbind (mem_guard p pc l) (\<lambda>checked.
     rbind (mem_address p pc (ml_addr l)) (\<lambda>(address, first_off).
     rbind (mem_commit p w l) (\<lambda>commit.
     Inr (checked @ mem_block_check p pc l @ fence @ address @ mem_accesses p w l first_off @ fence @ commit)))))"

subsection \<open>User instructions\<close>

definition plan_words :: "rewrite_plan \<Rightarrow> rinsn \<Rightarrow> reg_virt_error + rinsn list" where
  "plan_words p w =
    (case rp_mem p of
       Some (MpUnpriv l) \<Rightarrow> emit_mem_lowering p w l
     | Some (MpWindow l) \<Rightarrow> emit_window p w l
     | None \<Rightarrow>
         rbind (rewrite_insn p (ri_insn w)) (\<lambda>i.
         Inr (w\<lparr>ri_insn := i\<rparr> #
           (case rp_sp_guard p of None \<Rightarrow> [] | Some g \<Rightarrow> guard_check g (ri_pc w) @ [guard_commit g w]))))"

definition rewrite_user_semantic :: "rinsn \<Rightarrow> reg_virt_error + rinsn list" where
  "rewrite_user_semantic w =
    rbind (build_plan (ri_pc w) (ri_insn w)) (\<lambda>p.
    rbind (emit_fills p (ri_pc w)) (\<lambda>fills.
    rbind (plan_words p w) (\<lambda>body.
    rbind (emit_spills p (ri_pc w)) (\<lambda>spills.
    Inr (fills @ body @ spills)))))"

subsection \<open>Exits\<close>

definition capture_copy :: "u64 \<Rightarrow> nat \<Rightarrow> rkind \<Rightarrow> a64_reg \<Rightarrow> rinsn" where
  "capture_copy pc dest k source =
    rword k pc (Dp (LogShift LgOrr X64 0 (reg_new (enc source) X64 (reg31 source)) (e_uimm 0 6) reg_xzr (reg_x dest)))"

definition emit_register_capture :: "u64 \<Rightarrow> a64_reg \<Rightarrow> nat \<Rightarrow> rkind \<Rightarrow> reg_virt_error + rinsn list" where
  "emit_register_capture pc source dest k =
    (case classify_reg source of
       RcStackBacked \<Rightarrow>
         rbind (ok_or (reg_virt_stack_backed_slot_offset (enc source)) (RvStackBackedRewriteNotImplemented pc source)) (\<lambda>off.
         Inr [rword k pc (slot_load dest off)])
     | RcStableMapped \<Rightarrow> Inr [capture_copy pc dest k (reg_x REG_VIRT_STABLE_MAPPED_X29_PHYS_REG)]
     | RcSp \<Rightarrow> Inr [capture_copy pc dest k (reg_x REG_VIRT_STABLE_MAPPED_SP_PHYS_REG)]
     | _ \<Rightarrow> Inr [capture_copy pc dest k source])"

text \<open>The source of \<open>orr dest, xzr, source\<close>.\<close>

fun capture_source :: "nat \<Rightarrow> a64_insn \<Rightarrow> a64_reg option" where
  "capture_source dest (Dp (LogShift LgOrr X64 shift rm imm6 rn rd)) =
    (if shift = 0 \<and> raw imm6 = 0 \<and> is_zero_reg rn \<and> enc rd = dest then Some rm else None)"
| "capture_source dest _ = None"

definition runtime_param0_capture_source :: "a64_insn \<Rightarrow> a64_reg option" where
  "runtime_param0_capture_source i = capture_source RET_PARAM0_REG i"

fun is_target_constant :: "a64_insn \<Rightarrow> bool" where
  "is_target_constant (Dp (MoveWide op X64 _ _ rd)) \<longleftrightarrow> op \<noteq> Movn \<and> enc rd = DISPATCH_TARGET_REG"
| "is_target_constant _ \<longleftrightarrow> False"

definition emit_dispatch_target :: "rinsn \<Rightarrow> reg_virt_error + rinsn list" where
  "emit_dispatch_target w =
    (if is_target_constant (ri_insn w) then Inr [w]
     else case capture_source DISPATCH_TARGET_REG (ri_insn w) of
            Some rm \<Rightarrow> emit_register_capture (ri_pc w) rm DISPATCH_TARGET_REG KDispatchTarget
          | None \<Rightarrow> Inl (RvMalformedRuntimeExitGroup (ri_pc w)))"

definition emit_preserve_runtime_reserved_user_regs :: "u64 \<Rightarrow> reg_virt_error + rinsn list" where
  "emit_preserve_runtime_reserved_user_regs pc =
    rbind (ok_or (reg_virt_scratch_gpr 0) (RvScratchPoolExhausted pc)) (\<lambda>ptr.
    rbind (push_each (\<lambda>reg.
        rbind (ok_or (pt_regs_x_slot_offset reg) (RvStackBackedRewriteNotImplemented pc (reg_x reg))) (\<lambda>off.
        Inr [rword KRegVirtHelper pc (Mem (LdSt Str64 (reg_x reg) (MOffset (reg_x ptr) (ldst64_offset off))))]))
      [RET_STATUS_REG, RET_PARAM0_REG, RET_PARAM1_REG]) (\<lambda>stores.
    Inr (rword KRegVirtHelper pc (slot_load ptr RUNTIME_FRAME_PT_REGS_PTR_OFFSET) # stores)))"

definition runtime_field_is_owned_by_payload :: "a64_insn \<Rightarrow> a64_field \<Rightarrow> a64_reg \<Rightarrow> bool" where
  "runtime_field_is_owned_by_payload i f r \<longleftrightarrow> is_runtime_return_reg r \<and> field_has_write_role i f"

definition validate_payload_role :: "u64 \<Rightarrow> a64_insn \<Rightarrow> a64_role \<Rightarrow> unit \<Rightarrow> reg_virt_error + unit" where
  "validate_payload_role pc i role _ =
    (case role of
       RegRead f _ \<Rightarrow>
         rbind (require_reg pc i f) (\<lambda>r.
           guard (runtime_field_is_owned_by_payload i f r \<or> is_zero_reg r
               \<or> enc r = DISPATCH_TARGET_REG \<and> is_dispatch_miss_param0_copy i \<or> is_direct (classify_reg r))
             (RvUnsupportedRuntimeExitSource pc f r))
     | RegReadWrite f _ \<Rightarrow>
         rbind (require_reg pc i f) (\<lambda>r.
           guard (runtime_field_is_owned_by_payload i f r) (RvUnsupportedRuntimeExitSource pc f r))
     | RegWrite f _ \<Rightarrow> rbind (require_reg pc i f) (\<lambda>_. Inr ())
     | ImplicitRegWrite reg w \<Rightarrow> Inl (RvUnsupportedImplicitRegWrite pc reg w)
     | MemBase f \<Rightarrow>
         rbind (require_reg pc i f) (\<lambda>r. guard (is_direct (classify_reg r)) (RvUnsupportedRuntimeExitSource pc f r)))"

definition validate_runtime_exit_payload :: "rinsn \<Rightarrow> reg_virt_error + unit" where
  "validate_runtime_exit_payload w = rfold (validate_payload_role (ri_pc w) (ri_insn w)) (operand_roles (ri_insn w)) ()"

text \<open>At most one payload word captures a user register.\<close>

definition note_capture :: "u64 \<Rightarrow> rinsn \<Rightarrow> a64_reg option \<Rightarrow> reg_virt_error + a64_reg option" where
  "note_capture pc w found =
    (case runtime_param0_capture_source (ri_insn w) of
       None \<Rightarrow> Inr found
     | Some source \<Rightarrow> if found = None then Inr (Some source) else Inl (RvMultipleParam0Captures pc))"

definition group_word :: "u64 \<Rightarrow> rinsn \<Rightarrow> reg_virt_error + rinsn list" where
  "group_word pc w =
    (if ri_kind w = KRuntimeExitPayload then
       (if runtime_param0_capture_source (ri_insn w) \<noteq> None then Inr []
        else rbind (validate_runtime_exit_payload w) (\<lambda>_. Inr [w]))
     else if ri_kind w = KUserSynthetic then rewrite_user_semantic w
     else Inl (RvMalformedRuntimeExitGroup pc))"

definition emit_runtime_exit_group :: "u64 \<Rightarrow> rinsn list \<Rightarrow> rinsn \<Rightarrow> reg_virt_error + rinsn list" where
  "emit_runtime_exit_group pc payloads branch =
    rbind (emit_preserve_runtime_reserved_user_regs pc) (\<lambda>saved.
    rbind (rfold (note_capture pc) payloads None) (\<lambda>found.
    rbind (case found of None \<Rightarrow> Inr []
        | Some source \<Rightarrow> emit_register_capture pc source RET_PARAM0_REG KRuntimeExitPayload) (\<lambda>captured.
    rbind (push_each (group_word pc) payloads) (\<lambda>ws.
    Inr (saved @ captured @ ws @ [branch])))))"

text \<open>The payload words of a group, its branch and the words after it.\<close>

fun split_group :: "u64 \<Rightarrow> rinsn list \<Rightarrow> reg_virt_error + rinsn list \<times> rinsn \<times> rinsn list" where
  "split_group pc [] = Inl (RvMalformedRuntimeExitGroup pc)"
| "split_group pc (w # ws) =
    (if ri_pc w \<noteq> pc then Inl (RvRuntimeExitPcMismatch pc (ri_pc w))
     else if ri_kind w = KRuntimeExitPayload \<or> ri_kind w = KUserSynthetic then
       rbind (split_group pc ws) (\<lambda>(payloads, branch, rest). Inr (w # payloads, branch, rest))
     else if ri_kind w = KRuntimeExitBranch then Inr ([], w, ws)
     else Inl (RvMalformedRuntimeExitGroup pc))"

lemma split_group_shorter:
  "split_group pc ws = Inr (payloads, branch, rest) \<Longrightarrow> length rest < length ws"
  by (induction ws arbitrary: payloads branch rest) (auto split: if_splits)

subsection \<open>The words of a block\<close>

definition virtualize_insn :: "rinsn \<Rightarrow> reg_virt_error + rinsn list" where
  "virtualize_insn w =
    (if is_user_semantic (ri_kind w) then rewrite_user_semantic w
     else case ri_kind w of
       KRuntimeExitPayload \<Rightarrow> rbind (validate_runtime_exit_payload w) (\<lambda>_. Inr [w])
     | KRuntimeExitBranch \<Rightarrow> Inr [w]
     | KBudgetCheck \<Rightarrow> Inr [w]
     | KDispatchLookup \<Rightarrow> Inr [w]
     | KDispatchTarget \<Rightarrow> emit_dispatch_target w
     | KLinkSlot _ \<Rightarrow> Inr [w]
     | KRegVirtHelper \<Rightarrow> Inl (RvUnexpectedRegVirtHelper (ri_pc w))
     | KUserAccess \<Rightarrow> Inl (RvUnexpectedRegVirtHelper (ri_pc w))
     | KAlignCheck \<Rightarrow> Inl (RvUnexpectedRegVirtHelper (ri_pc w))
     | KRangeCheck \<Rightarrow> Inl (RvUnexpectedRegVirtHelper (ri_pc w))
     | KWindowAccess \<Rightarrow> Inl (RvUnexpectedRegVirtHelper (ri_pc w))
     | _ \<Rightarrow> Inl (RvUnreachable (ri_pc w)))"

function virtualize_insns :: "rinsn list \<Rightarrow> bool \<Rightarrow> reg_virt_error + rinsn list" where
  "virtualize_insns [] cold = Inr []"
| "virtualize_insns (w # ws) cold =
    (if ri_kind w = KRuntimeExitPayload then
       (case split_group (ri_pc w) (w # ws) of
          Inl e \<Rightarrow> Inl e
        | Inr (payloads, branch, rest) \<Rightarrow>
            rbind (emit_runtime_exit_group (ri_pc w) payloads branch) (\<lambda>out.
            rbind (virtualize_insns rest cold) (\<lambda>more. Inr (out @ more))))
     else if cold then Inl (RvMalformedRuntimeExitGroup (ri_pc w))
     else rbind (virtualize_insn w) (\<lambda>out. rbind (virtualize_insns ws cold) (\<lambda>more. Inr (out @ more))))"
  by pat_completeness auto
termination
  by (relation "measure (\<lambda>(ws, _). length ws)") (auto dest: split_group_shorter split: if_splits)

end
