(* ===== verification/SlotForward.thy ===== *)
theory SlotForward
  imports RegVirtEmit
begin

section \<open>Forwarding user-state slots inside a block\<close>

text \<open>
  Models \<open>slot_move\<close>, \<open>ends_straight_line\<close>, \<open>is_branch\<close>, \<open>forward_slots\<close> and
  \<open>writes_physical_reg\<close> of \<open>shared/trans/reg_virt.rs\<close>, and \<open>virtualize_registers\<close>. The two passes
  walk lists: the first from the front, carrying what the scratch registers hold, the second from the
  back, carrying the slots that a later spill overwrites. The flags \<open>keep\<close> are a list beside the words.
\<close>

definition SLOT_COUNT :: nat where [kdefs]: "SLOT_COUNT = 7"

record slot_mv =
  mv_fill :: bool
  mv_scratch :: nat
  mv_slot :: nat

text \<open>\<open>(fill, rt, mem)\<close> of a 64-bit load or store with an unsigned offset.\<close>

fun slot_form :: "a64_insn \<Rightarrow> (bool \<times> a64_reg \<times> a64_reg \<times> a64_imm) option" where
  "slot_form (Mem (LdSt op rt (MOffset base offset))) =
    (if op = Ldr64 then Some (True, rt, base, offset)
     else if op = Str64 then Some (False, rt, base, offset) else None)"
| "slot_form _ = None"

definition slot_index :: "int \<Rightarrow> nat option" where
  "slot_index off =
    (if off < 0 \<or> off \<ge> 2 ^ 32 then None
     else List.find (\<lambda>slot. reg_virt_stack_backed_slot_offset (REG_VIRT_STACK_BACKED_REG_START + slot) = Some (nat off))
       [0..<SLOT_COUNT])"

definition slot_move :: "rinsn \<Rightarrow> slot_mv option" where
  "slot_move w =
    (if ri_kind w \<noteq> KRegVirtHelper then None
     else case slot_form (ri_insn w) of
       None \<Rightarrow> None
     | Some (fill, rt, base, offset) \<Rightarrow>
         if classify_reg base \<noteq> RcSp \<or> enc rt < REG_VIRT_SCRATCH_GPR_START
            \<or> enc rt - REG_VIRT_SCRATCH_GPR_START \<ge> REG_VIRT_SCRATCH_GPR_LIMIT then None
         else map_option (\<lambda>slot. \<lparr>mv_fill = fill, mv_scratch = enc rt - REG_VIRT_SCRATCH_GPR_START, mv_slot = slot\<rparr>)
                (slot_index (ivalue offset)))"

fun ends_straight_line :: "a64_insn \<Rightarrow> bool" where
  "ends_straight_line (Brn (BUncond _)) = True"
| "ends_straight_line (Brn (Br _)) = True"
| "ends_straight_line _ = False"

text \<open>The forms with a \<open>ControlFlow\<close> or a \<open>BranchTarget\<close> role.\<close>

fun is_branch :: "a64_insn \<Rightarrow> bool" where
  "is_branch (Brn (Svc _)) = False"
| "is_branch (Brn _) = True"
| "is_branch _ = False"

fun role_writes :: "a64_insn \<Rightarrow> nat \<Rightarrow> a64_role \<Rightarrow> bool" where
  "role_writes i n (RegWrite f _) = (case get_reg i f of None \<Rightarrow> True | Some r \<Rightarrow> enc r = n)"
| "role_writes i n (RegReadWrite f _) = (case get_reg i f of None \<Rightarrow> True | Some r \<Rightarrow> enc r = n)"
| "role_writes i n (ImplicitRegWrite r _) = (r = n)"
| "role_writes i n _ = False"

definition writes_physical_reg :: "a64_insn \<Rightarrow> nat \<Rightarrow> bool" where
  "writes_physical_reg i n \<longleftrightarrow> list_ex (role_writes i n) (operand_roles i)"

definition opaque_memory :: "rinsn \<Rightarrow> bool" where
  "opaque_memory w \<longleftrightarrow> accesses_memory (ri_insn w) \<and> ri_kind w \<noteq> KUserAccess \<and> ri_kind w \<noteq> KWindowAccess"

subsection \<open>Pass 1: fills of what a register holds\<close>

type_synonym slot_facts = "nat option list"

definition no_facts :: slot_facts where
  "no_facts = replicate REG_VIRT_SCRATCH_GPR_LIMIT None"

definition forget_slot :: "nat \<Rightarrow> slot_facts \<Rightarrow> slot_facts" where
  "forget_slot slot facts = map (\<lambda>h. if h = Some slot then None else h) facts"

definition forget_written :: "a64_insn \<Rightarrow> slot_facts \<Rightarrow> slot_facts" where
  "forget_written i facts =
    map (\<lambda>k. if writes_physical_reg i (REG_VIRT_SCRATCH_GPR_START + k) then None else facts ! k) [0..<length facts]"

text \<open>Whether the word stays, and what the scratch registers hold after it.\<close>

definition fill_step :: "rinsn \<Rightarrow> slot_facts \<Rightarrow> bool \<times> slot_facts" where
  "fill_step w facts =
    (case slot_move w of
       Some m \<Rightarrow>
         if mv_fill m then (facts ! mv_scratch m \<noteq> Some (mv_slot m), facts[mv_scratch m := Some (mv_slot m)])
         else (True, (forget_slot (mv_slot m) facts)[mv_scratch m := Some (mv_slot m)])
     | None \<Rightarrow> if opaque_memory w then (True, no_facts) else (True, forget_written (ri_insn w) facts))"

fun forward_fills :: "bool \<Rightarrow> slot_facts \<Rightarrow> rinsn list \<Rightarrow> bool list" where
  "forward_fills joins facts [] = []"
| "forward_fills joins facts (w # ws) =
    (let (kept, facts') = fill_step w (if joins then no_facts else facts)
     in kept # forward_fills (ends_straight_line (ri_insn w)) facts' ws)"

subsection \<open>Pass 2: spills that a later spill overwrites\<close>

definition observes_slots :: "rinsn \<Rightarrow> bool" where
  "observes_slots w \<longleftrightarrow> is_branch (ri_insn w) \<or> accesses_memory (ri_insn w)
    \<or> (case ri_kind w of KRuntimeExitPayload \<Rightarrow> True | KRuntimeExitBranch \<Rightarrow> True | KLinkSlot _ \<Rightarrow> True | _ \<Rightarrow> False)"

definition nothing_overwritten :: "bool list" where
  "nothing_overwritten = replicate SLOT_COUNT False"

definition spill_step :: "rinsn \<Rightarrow> bool list \<Rightarrow> bool \<times> bool list" where
  "spill_step w overwritten =
    (case slot_move w of
       Some m \<Rightarrow>
         if mv_fill m then (True, overwritten[mv_slot m := False])
         else (\<not> overwritten ! mv_slot m, overwritten[mv_slot m := True])
     | None \<Rightarrow> (True, if observes_slots w then nothing_overwritten else overwritten))"

fun drop_spills :: "bool \<Rightarrow> (rinsn \<times> bool) list \<Rightarrow> bool list \<times> bool list" where
  "drop_spills joins [] = ([], nothing_overwritten)"
| "drop_spills joins ((w, kept) # ws) =
    (let (keep, overwritten) = drop_spills (ends_straight_line (ri_insn w)) ws
     in if \<not> kept then (False # keep, overwritten)
        else let (stays, overwritten') = spill_step w overwritten
             in (stays # keep, if joins then nothing_overwritten else overwritten'))"

definition forward_slots :: "rinsn list \<Rightarrow> rinsn list" where
  "forward_slots body =
    (let keep1 = forward_fills True no_facts body;
         keep2 = fst (drop_spills True (zip body keep1))
     in map fst (filter snd (zip body keep2)))"

subsection \<open>The whole program\<close>

record rblock =
  rb_start :: u64
  rb_end :: u64
  rb_component :: "nat option"
  rb_prev :: "u64 list"
  rb_next :: "u64 list"
  rb_insns :: "rinsn list"
  rb_cold :: "rinsn list"

definition virtualize_block :: "rblock \<Rightarrow> reg_virt_error + rblock" where
  "virtualize_block b =
    rbind (virtualize_insns (rb_insns b) False) (\<lambda>body.
    rbind (virtualize_insns (rb_cold b) True) (\<lambda>cold.
    Inr (b\<lparr>rb_insns := forward_slots body, rb_cold := cold\<rparr>)))"

definition virtualize_registers :: "rblock list \<Rightarrow> reg_virt_error + rblock list" where
  "virtualize_registers program = push_each (\<lambda>b. rbind (virtualize_block b) (\<lambda>b. Inr [b])) program"

end
