(* ===== verification/RephraseProg.thy ===== *)
theory RephraseProg
  imports Cfg SlotForward
begin

section \<open>Rephrasing a program\<close>

text \<open>
  Models \<open>rephrase\<close> of \<open>shared/trans/rephrase.rs\<close>: the blocks are visited in layout order, each gets its
  lowered body and its cold exit groups, and \<open>placed\<close> collects the pcs whose label is emitted so far.
  The result is in the order of the graph. A panic (a successor that starts no block) is \<open>None\<close>.
\<close>

definition on_cycle :: "bblock list \<Rightarrow> nat list \<Rightarrow> (nat \<Rightarrow> nat option) \<Rightarrow> nat \<Rightarrow> u64 \<Rightarrow> bool" where
  "on_cycle blocks order component index target =
    (case block_containing order (\<lambda>k. bb_start (blocks ! k)) target of
       None \<Rightarrow> False
     | Some k \<Rightarrow> component k = component index)"

definition needs_budget :: "(u64 \<Rightarrow> bool) \<Rightarrow> u64 list \<Rightarrow> ir_insn \<Rightarrow> bool" where
  "needs_budget cycle placed i \<longleftrightarrow> rephrase_is_back_edge (rephrase_insn i) placed cycle \<or> is_dispatch_site i"

definition needs_mem_stub :: "ir_insn \<Rightarrow> bool" where
  "needs_mem_stub i \<longleftrightarrow> accesses_memory (ir_inner i) \<or> sp_write (ir_inner i) = SpwGuarded"

text \<open>The body words and the cold words of one instruction; \<open>placed\<close> includes its own pc.\<close>

definition lower_insn :: "(u64 \<Rightarrow> bool) \<Rightarrow> u64 list \<Rightarrow> ir_insn \<Rightarrow> rinsn list \<times> rinsn list" where
  "lower_insn cycle placed i =
    (let budget = needs_budget cycle placed i in
     ((if budget then budget_check (ir_pc i) else []) @ rephrase_insn i,
      (if budget then native_resume_exit RsBudget (ir_pc i) (ucast (ir_word i)) else [])
      @ (if needs_mem_stub i then native_resume_exit RsMem (ir_pc i) (ucast (ir_word i)) else [])))"

fun lower_insns :: "(u64 \<Rightarrow> bool) \<Rightarrow> u64 list \<Rightarrow> ir_insn list \<Rightarrow> u64 list \<times> rinsn list \<times> rinsn list" where
  "lower_insns cycle placed [] = (placed, [], [])"
| "lower_insns cycle placed (i # is) =
    (let placed' = placed @ [ir_pc i];
         (body, cold) = lower_insn cycle placed' i;
         (placed'', bodies, colds) = lower_insns cycle placed' is
     in (placed'', body @ bodies, cold @ colds))"

definition exit_words :: "unsupported_exit \<Rightarrow> rinsn list" where
  "exit_words u =
    native_resume_exit RsUnsupported (ux_pc u)
      (case ux_word u of None \<Rightarrow> UNSUPPORTED_WORD_UNREADABLE | Some w \<Rightarrow> ucast w)"

definition rephrase_block :: "bblock \<Rightarrow> nat option \<Rightarrow> (u64 \<Rightarrow> bool) \<Rightarrow> u64 list \<Rightarrow> u64 list \<times> rblock" where
  "rephrase_block b component cycle placed =
    (let (placed', body, cold) = lower_insns cycle placed (bb_insns b)
     in (placed' @ (case bb_exit b of None \<Rightarrow> [] | Some u \<Rightarrow> [ux_pc u]),
         \<lparr>rb_start = bb_start b, rb_end = bb_end b, rb_component = component, rb_prev = bb_prev b,
          rb_next = bb_next b, rb_insns = body @ (case bb_exit b of None \<Rightarrow> [] | Some u \<Rightarrow> exit_words u),
          rb_cold = cold\<rparr>))"

text \<open>The blocks of a layout order, each with its index.\<close>

fun rephrase_blocks ::
  "bblock list \<Rightarrow> nat list \<Rightarrow> (nat \<Rightarrow> nat option) \<Rightarrow> u64 list \<Rightarrow> nat list \<Rightarrow> (nat \<times> rblock) list" where
  "rephrase_blocks blocks order component placed [] = []"
| "rephrase_blocks blocks order component placed (k # ks) =
    (let (placed', b) = rephrase_block (blocks ! k) (component k) (on_cycle blocks order component k) placed
     in (k, b) # rephrase_blocks blocks order component placed' ks)"

definition rephrase :: "cfg \<Rightarrow> rblock list option" where
  "rephrase c =
    (let blocks = cf_blocks c; order = layout_block_order (block_starts blocks) in
     case body_components blocks order of
       None \<Rightarrow> None
     | Some component \<Rightarrow>
         (let done = rephrase_blocks blocks order component [] order
          in those (map (map_of done) [0..<length blocks])))"

end
