(* ===== verification/RewriteFacts.thy ===== *)
theory RewriteFacts
  imports RephraseProg
begin

section \<open>Setters\<close>

text \<open>Whether a form has a field does not depend on the number set, nor on what was set before.\<close>

lemma dp_set_defined: "(dp_set i f e = None) = (dp_set i f e' = None)"
  by (cases i; cases f) simp_all

lemma branch_set_defined: "(branch_set i f e = None) = (branch_set i f e' = None)"
  by (cases i) simp_all

lemma sys_set_defined: "(sys_set i f e = None) = (sys_set i f e' = None)"
  by (cases i) simp_all

lemma ldst_set_defined: "(ldst_set i f e = None) = (ldst_set i f e' = None)"
  by (cases i; cases f) simp_all

lemma fp_set_defined: "(fp_set i f e = None) = (fp_set i f e' = None)"
  by (cases i; cases f) (auto split: multi_index.splits)

lemma insn_set_defined: "(insn_set i f e = None) = (insn_set i f e' = None)"
  by (cases i)
    (simp_all add: dp_set_defined [of _ _ e e'] branch_set_defined [of _ _ e e'] sys_set_defined [of _ _ e e']
      ldst_set_defined [of _ _ e e'] fp_set_defined [of _ _ e e'])

lemma dp_set_keeps: "dp_set i f e = Some j \<Longrightarrow> (dp_set j g d = None) = (dp_set i g d = None)"
  by (cases i; cases f; cases g) auto

lemma branch_set_keeps: "branch_set i f e = Some j \<Longrightarrow> (branch_set j g d = None) = (branch_set i g d = None)"
  by (cases i) (auto split: if_splits)

lemma sys_set_keeps: "sys_set i f e = Some j \<Longrightarrow> (sys_set j g d = None) = (sys_set i g d = None)"
  by (cases i) (auto split: if_splits)

lemma ldst_set_keeps: "ldst_set i f e = Some j \<Longrightarrow> (ldst_set j g d = None) = (ldst_set i g d = None)"
  by (cases i; cases f; cases g) auto

lemma fp_set_keeps: "fp_set i f e = Some j \<Longrightarrow> (fp_set j g d = None) = (fp_set i g d = None)"
  by (cases i; cases f; cases g) (auto split: if_splits multi_index.splits)

lemma insn_set_keeps: "insn_set i f e = Some j \<Longrightarrow> (insn_set j g d = None) = (insn_set i g d = None)"
  by (cases i)
    (auto simp: dp_set_keeps branch_set_keeps sys_set_keeps ldst_set_keeps fp_set_keeps)

definition has_field :: "a64_insn \<Rightarrow> a64_field \<Rightarrow> bool" where
  "has_field i f \<longleftrightarrow> insn_set i f 0 \<noteq> None"

lemma has_field_iff: "has_field i f \<longleftrightarrow> insn_set i f e \<noteq> None"
  using insn_set_defined [of i f 0 e] by (simp add: has_field_def)

lemma set_reg_has_field:
  "set_reg i f r = Some j \<Longrightarrow> has_field i f"
  "has_field i f \<Longrightarrow> enc r < 32 \<Longrightarrow> \<exists>j. set_reg i f r = Some j"
  "set_reg i f r = Some j \<Longrightarrow> has_field j g = has_field i g"
  using has_field_iff [of i f "enc r"] insn_set_keeps [of i f "enc r" j g 0]
  by (auto simp: set_reg_def has_field_def split: if_splits)

end
