(* ===== verification/DecodeFit.thy ===== *)
theory DecodeFit
  imports DecodeWf
begin

section \<open>Decoded SIMD loads and stores have small offsets\<close>

text \<open>
  The offset and the base update of a decoded SIMD load or store are within the reach of one
  \<open>ADD\<close>/\<open>SUB\<close> (immediate) pair, whose limit is \<open>2 ^ 24\<close>.
\<close>

definition near :: "int \<Rightarrow> bool" where
  "near v \<longleftrightarrow> \<bar>v\<bar> < 2 ^ 24"

fun fp_near :: "a64_fp \<Rightarrow> bool" where
  "fp_near (FpLdSt _ _ _ m) = near (ivalue (mem_imm m))"
| "fp_near (FpLdStUnscaled _ _ _ m) = near (ivalue (mem_imm m))"
| "fp_near (FpPair _ _ _ _ m) = near (ivalue (mem_imm m))"
| "fp_near (FpMulti _ n _ q _ _ _) = (n < 5 \<and> q < 2)"
| "fp_near _ = True"

fun simd_near :: "a64_insn \<Rightarrow> bool" where
  "simd_near (Simd i) = fp_near i"
| "simd_near _ = True"

text \<open>Also: every register number is one.\<close>

definition insn_near :: "a64_insn \<Rightarrow> bool" where
  "insn_near i \<longleftrightarrow> simd_near i \<and> list_all (\<lambda>(f, r). enc r < 32) (reg_fields i)"

lemma insn_near_reg: "insn_near i \<Longrightarrow> get_reg i f = Some r \<Longrightarrow> enc r < 32"
  unfolding insn_near_def get_reg_def by (auto simp: list_all_iff dest: map_of_SomeD)

lemma enc_xr: "enc (xr wd lo w) < 32" and enc_sr: "enc (sr wd lo w) < 32"
  using fldn_lt [of 5 lo w] by (simp_all add: xr_def sr_def)

lemma near_imm:
  "near (ivalue (simm lo 9 w))" "near (ivalue (uimm lo 12 w))"
  "s < 5 \<Longrightarrow> near (ivalue (suimm lo 12 s w))" "s < 5 \<Longrightarrow> near (ivalue (ssimm lo 7 s w))"
proof -
  have s9: "- 256 \<le> sign_extend_a64 v 9" "sign_extend_a64 v 9 < 256" for v
    using signed_take_bit_int_less_exp [of 8 "uint v"] signed_take_bit_int_greater_eq_minus_exp [of 8 "uint v"]
    by (simp_all add: sign_extend_a64_def)
  have s7: "- 64 \<le> sign_extend_a64 v 7" "sign_extend_a64 v 7 < 64" for v
    using signed_take_bit_int_less_exp [of 6 "uint v"] signed_take_bit_int_greater_eq_minus_exp [of 6 "uint v"]
    by (simp_all add: sign_extend_a64_def)
  have u: "0 \<le> uint (fld lo 12 w)" "uint (fld lo 12 w) < 4096"
    using fld_lt [of 12 lo w] by (simp_all add: word_less_alt)
  have p: "0 < (2 :: int) ^ s" "(2 :: int) ^ s \<le> 16" if "s < 5"
    using that power_increasing [of s 4 "2 :: int"] by simp_all
  show "near (ivalue (simm lo 9 w))"
    using s9 [of "fld lo 9 w"] by (simp add: simm_def near_def abs_less_iff)
  show "near (ivalue (uimm lo 12 w))"
    using u by (simp add: uimm_def near_def)
  show "near (ivalue (suimm lo 12 s w))" if "s < 5"
  proof -
    have "uint (fld lo 12 w) * 2 ^ s \<le> 4096 * 16"
      using u p [OF that] by (intro mult_mono) auto
    with u p [OF that] show ?thesis by (simp add: suimm_def near_def abs_mult)
  qed
  show "near (ivalue (ssimm lo 7 s w))" if "s < 5"
  proof -
    have "\<bar>sign_extend_a64 (fld lo 7 w) 7\<bar> * 2 ^ s \<le> 64 * 16"
      using s7 [of "fld lo 7 w"] p [OF that] by (intro mult_mono) auto
    then show ?thesis by (simp add: ssimm_def near_def abs_mult)
  qed
qed

definition rows_near :: "a64_row list \<Rightarrow> bool" where
  "rows_near rs \<longleftrightarrow> list_all (\<lambda>(m, v, ex, b). \<forall>w. insn_near (b w)) rs"

lemma near_builders:
  "insn_near (b_adr Adr w)" "insn_near (b_adr Adrp w)" "insn_near (b_addsub_imm aop wd md w)"
  "insn_near (b_addsub_shift aop wd w)" "insn_near (b_addsub_ext aop wd md w)" "insn_near (b_carry cop wd w)"
  "insn_near (b_log_shift lop wd w)" "insn_near (b_log_imm32 iop md w)" "insn_near (b_log_imm64 iop md w)"
  "insn_near (b_movewide mop wd w)" "insn_near (b_bitfield bop wd w)" "insn_near (b_extr wd w)"
  "insn_near (b_condsel sop wd w)" "insn_near (b_ccmp_imm cc wd w)" "insn_near (b_ccmp_reg cc wd w)"
  "insn_near (b_dp2 d2 wd w)" "insn_near (b_crc32 c sz w)" "insn_near (b_dp3 d3 wd w)"
  "insn_near (b_dp3_long d3l w)" "insn_near (b_mulh c w)" "insn_near (b_dp1 d1 wd w)" "insn_near (b_rev32 w)"
  "insn_near (b_b26 BUncond w)" "insn_near (b_b26 Bl w)" "insn_near (b_bcond w)"
  "insn_near (b_cb Cbz wd w)" "insn_near (b_cb Cbnz wd w)" "insn_near (b_tb Tbz w)" "insn_near (b_tb Tbnz w)"
  "insn_near (b_breg Br w)" "insn_near (b_breg Blr w)" "insn_near (b_breg Ret w)" "insn_near (b_svc w)"
  "insn_near (b_nop w)" "insn_near (b_bti w)" "insn_near (b_barrier ba w)" "insn_near (b_msr_imm w)"
  "insn_near (b_mrs sreg w)"  "insn_near (b_ldst_unscaled op wd w)"
  "insn_near (b_ldst_unpriv op wd w)" "insn_near (b_ldst_reg op wd w)"
  "insn_near (b_ldst_reg_bl op wd w)" "insn_near (b_lit lo wd w)" "insn_near (b_prfm_imm w)"
  "insn_near (b_prfm_lit w)" "insn_near (b_prfm_reg w)" "insn_near (b_ord oop wd w)"
  "insn_near (b_atomic atop asz od wd w)" "insn_near (b_fp_reg ld vsz w)" "insn_near (b_fp_reg_bl ld vsz w)"
  "insn_near (b_simd sf' w)" "insn_near (b_simd_rn sf' wd w)" "insn_near (b_simd_rd sf' wd w)"
  using fldn_lt [of 5 0 w] by (simp_all add: insn_near_def build_defs enc_xr enc_sr opt_reg_def)

lemma near_ldst_builders:
  "insn_near (b_ldst op wd (mem_off g) w)" "insn_near (b_ldst op wd (mem_pre g) w)"
  "insn_near (b_ldst op wd (mem_post g) w)" "insn_near (b_pair pop wd (mem_off g) w)"
  "insn_near (b_pair pop wd (mem_pre g) w)" "insn_near (b_pair pop wd (mem_post g) w)"
  by (simp_all add: insn_near_def build_defs mem_off_def mem_pre_def mem_post_def enc_xr enc_sr opt_reg_def)

lemma near_mem_builders:
  "insn_near (b_fp_unscaled ld vsz w)"
  "near (ivalue (f w)) \<Longrightarrow> insn_near (b_fp_ldst ld vsz (mem_off f) w)"
  "near (ivalue (f w)) \<Longrightarrow> insn_near (b_fp_ldst ld vsz (mem_pre f) w)"
  "near (ivalue (f w)) \<Longrightarrow> insn_near (b_fp_ldst ld vsz (mem_post f) w)"
  "near (ivalue (f w)) \<Longrightarrow> insn_near (b_fp_pair ld vsz (mem_off f) w)"
  "near (ivalue (f w)) \<Longrightarrow> insn_near (b_fp_pair ld vsz (mem_pre f) w)"
  "near (ivalue (f w)) \<Longrightarrow> insn_near (b_fp_pair ld vsz (mem_post f) w)"
  "n < 5 \<Longrightarrow> multi_rm ix = None \<Longrightarrow> insn_near (b_fp_multi ld n ix w)" "n < 5 \<Longrightarrow> insn_near (b_fp_multi_reg ld n w)"
  using fldn_lt [of 1 30 w]
  by (simp_all add: insn_near_def enc_xr enc_sr opt_reg_def build_defs near_imm mem_off_def mem_pre_def mem_post_def)

lemma near_rows:
  "rows_near decode_rows_1" "rows_near decode_rows_2" "rows_near decode_rows_3" "rows_near decode_rows_4"
  "rows_near decode_rows_5" "rows_near decode_rows_6" "rows_near decode_rows_7" "rows_near decode_rows_8"
  "rows_near decode_rows_9" "rows_near decode_rows_10" "rows_near decode_rows_11" "rows_near decode_rows_12"
  "rows_near decode_rows_13" "rows_near decode_rows_14" "rows_near decode_rows_15" "rows_near decode_rows_16"
  "rows_near decode_rows_17" "rows_near decode_rows_18" "rows_near decode_rows_19" "rows_near decode_rows_20"
  by (simp_all add: rows_near_def decode_rows_1_def decode_rows_2_def decode_rows_3_def decode_rows_4_def
    decode_rows_5_def decode_rows_6_def decode_rows_7_def decode_rows_8_def decode_rows_9_def
    decode_rows_10_def decode_rows_11_def decode_rows_12_def decode_rows_13_def decode_rows_14_def
    decode_rows_15_def decode_rows_16_def decode_rows_17_def decode_rows_18_def decode_rows_19_def
    decode_rows_20_def near_builders near_mem_builders near_imm near_ldst_builders)

lemma rows_near_append: "rows_near (rs @ rs') \<longleftrightarrow> rows_near rs \<and> rows_near rs'"
  by (simp add: rows_near_def)

lemma decode_rows_near: "rows_near decode_rows"
  by (simp only: decode_rows_def rows_near_append near_rows)

lemma first_row_near: "rows_near rs \<Longrightarrow> first_row rs w = Some i \<Longrightarrow> insn_near i"
  by (induction rs w rule: first_row.induct) (auto simp: rows_near_def split: if_splits)

lemma decode_defined_near: "decode_defined w = Some i \<Longrightarrow> insn_near i"
  unfolding decode_defined_def decode_a64_insn_def
  by (auto dest: first_row_near [OF decode_rows_near] split: option.splits if_splits)

end
