(* ===== verification/AdmitFacts.thy ===== *)
theory AdmitFacts
  imports RewriteFacts DecodeFit
begin

section \<open>An admitted instruction is always lowered\<close>

text \<open>
  \<open>admit_insn\<close> only builds the plans of an instruction. Here every later step on those plans is shown
  to succeed: the setters, the offsets and the slots a plan records are ones the emission can use.
\<close>

subsection \<open>Plans\<close>

definition mapping_ok :: "stack_mapping \<Rightarrow> bool" where
  "mapping_ok m \<longleftrightarrow> reg_virt_is_stack_backed (sm_virt m) \<and> sm_scratch m < 32"

definition plan_ok :: "rewrite_plan \<Rightarrow> bool" where
  "plan_ok p \<longleftrightarrow> (\<forall>m \<in> set (rp_stack_backed p). mapping_ok m)"

lemma scratch_lt: "reg_virt_scratch_gpr k = Some r \<Longrightarrow> r < 32"
  by (auto simp: reg_virt_scratch_gpr_def kdefs split: if_splits)

lemma alloc_scratch_ok:
  "alloc_scratch p = Inr (q, r) \<Longrightarrow> rp_stack_backed q = rp_stack_backed p \<and> r < 32 \<and> rp_sp_guard q = rp_sp_guard p
    \<and> rp_pc q = rp_pc p \<and> rp_mem q = rp_mem p"
  by (auto simp: alloc_scratch_def scratch_lt split: option.splits)

lemma plan_ok_cong: "rp_stack_backed q = rp_stack_backed p \<Longrightarrow> plan_ok q = plan_ok p"
  by (simp add: plan_ok_def)

lemma classify_stack: "classify_reg r = RcStackBacked \<Longrightarrow> reg_virt_is_stack_backed (enc r)"
  by (auto simp: classify_reg_def split: if_splits)

lemma note_access_ok: "(\<forall>m \<in> set ms. mapping_ok m) \<Longrightarrow> \<forall>m \<in> set (note_access v a b ms). mapping_ok m"
  by (auto simp: note_access_def mapping_ok_def)

lemma add_stack_backed_ok:
  "add_stack_backed r a b p = Inr q \<Longrightarrow> classify_reg r = RcStackBacked \<Longrightarrow> plan_ok p \<Longrightarrow>
    plan_ok q \<and> rp_sp_guard q = rp_sp_guard p \<and> rp_pc q = rp_pc p \<and> rp_mem q = rp_mem p"
  using note_access_ok [of "rp_stack_backed p" "enc r" a b]
  by (auto simp: add_stack_backed_def plan_ok_def mapping_ok_def classify_stack dest!: alloc_scratch_ok split: if_splits)

definition role_ok :: "a64_insn \<Rightarrow> a64_role \<Rightarrow> bool" where
  "role_ok i role \<longleftrightarrow>
    (case access_mode_from_role role of
       None \<Rightarrow> True
     | Some (f, _, _, writes) \<Rightarrow>
         (\<exists>r. get_reg i f = Some r \<and> (classify_reg r \<in> {RcStackBacked, RcStableMapped, RcSp} \<longrightarrow> has_field i f)))"

definition same_rest :: "rewrite_plan \<Rightarrow> rewrite_plan \<Rightarrow> bool" where
  "same_rest q p \<longleftrightarrow> rp_sp_guard q = rp_sp_guard p \<and> rp_pc q = rp_pc p \<and> rp_mem q = rp_mem p"

lemma plan_rest_refl [simp]: "same_rest p p" and same_rest_trans: "same_rest r q \<Longrightarrow> same_rest q p \<Longrightarrow> same_rest r p"
  by (simp_all add: same_rest_def)

lemma add_field_access_ok:
  assumes "add_field_access i f w a b p = Inr q" "plan_ok p"
  shows "plan_ok q \<and> same_rest q p"
    "\<exists>r. get_reg i f = Some r \<and> (classify_reg r \<in> {RcStackBacked, RcStableMapped, RcSp} \<longrightarrow> has_field i f)"
proof -
  obtain r where r: "get_reg i f = Some r"
    using assms(1) by (auto simp: add_field_access_def require_reg_def)
  have setter: "require_setter pc i f r = Inr u \<Longrightarrow> has_field i f" for pc u
    by (auto simp: require_setter_def dest: set_reg_has_field(1))
  show "plan_ok q \<and> same_rest q p"
    using assms r add_stack_backed_ok [of r a b p q]
    by (cases "classify_reg r") (auto simp: add_field_access_def require_reg_def same_rest_def)
  show "\<exists>r. get_reg i f = Some r \<and> (classify_reg r \<in> {RcStackBacked, RcStableMapped, RcSp} \<longrightarrow> has_field i f)"
    using assms(1) r
    by (cases "classify_reg r") (auto simp: add_field_access_def require_reg_def dest: setter)
qed

lemma add_role_ok:
  assumes "add_role i role p = Inr q" "plan_ok p"
  shows "plan_ok q \<and> same_rest q p" "role_ok i role"
  using assms add_field_access_ok
  by (cases role; auto simp: add_role_def role_ok_def; blast)+

definition roles_ok :: "a64_insn \<Rightarrow> bool" where
  "roles_ok i \<longleftrightarrow> (\<forall>role \<in> set (operand_roles i). role_ok i role)"

lemma add_roles_ok:
  assumes "rfold (add_role i) roles p = Inr q" "plan_ok p"
  shows "plan_ok q \<and> same_rest q p" "\<forall>role \<in> set roles. role_ok i role"
proof -
  show "plan_ok q \<and> same_rest q p"
    using assms
  proof (induction roles arbitrary: p)
    case (Cons role roles)
    then obtain p' where "add_role i role p = Inr p'" "rfold (add_role i) roles p' = Inr q" by auto
    with Cons add_role_ok(1) [of i role p p'] show ?case by (auto intro: same_rest_trans)
  qed simp
  show "\<forall>role \<in> set roles. role_ok i role"
    using assms
  proof (induction roles arbitrary: p)
    case (Cons role roles)
    then obtain p' where "add_role i role p = Inr p'" "rfold (add_role i) roles p' = Inr q" by auto
    with Cons add_role_ok [of i role p p'] show ?case by auto
  qed simp
qed

subsection \<open>The plan of a load or store\<close>

abbreviation reachable_offset :: "int \<Rightarrow> bool" where
  "reachable_offset v \<equiv> add_sub_imm_parts v \<noteq> None"

lemma near_reachable: "near v \<Longrightarrow> reachable_offset v"
  by (auto simp: near_def add_sub_imm_parts_def Let_def nat_less_iff)

definition lowering_ok :: "mem_lowering \<Rightarrow> bool" where
  "lowering_ok l \<longleftrightarrow>
    (case ml_writeback l of None \<Rightarrow> True | Some wb \<Rightarrow> reachable_offset (wb_amount wb))
    \<and> (case ml_addr l of AaBasePlusImm _ _ off \<Rightarrow> reachable_offset off | _ \<Rightarrow> True)"

lemma check_parts_ok: "check_parts pc v = Inr u \<longleftrightarrow> reachable_offset v"
  by (simp add: check_parts_def)

lemma plan_address_ok:
  assumes "plan_address sh p = Inr (q, addr, wb)"
  shows "rp_stack_backed q = rp_stack_backed p \<and> rp_sp_guard q = rp_sp_guard p \<and> rp_pc q = rp_pc p"
    "case wb of None \<Rightarrow> True | Some (_, amount) \<Rightarrow> reachable_offset amount"
    "case addr of AaBasePlusImm _ _ off \<Rightarrow> reachable_offset off | _ \<Rightarrow> True"
  using assms
  by (auto simp: plan_address_def Let_def check_parts_ok dest!: alloc_scratch_ok
      split: mem_addr.splits option.splits if_splits)

lemma plan_mem_ok:
  assumes "plan_mem sh guarded p = Inr (q, l)"
  shows "rp_stack_backed q = rp_stack_backed p \<and> rp_sp_guard q = rp_sp_guard p \<and> rp_pc q = rp_pc p" "lowering_ok l"
proof -
  obtain q1 addr wb q2 first q3 g q4 align where steps: "plan_address sh p = Inr (q1, addr, wb)"
    "alloc_if (ldst_is_load (ms_op sh) \<and> ms_rt2 sh \<noteq> None \<and> \<not> can_take_first_load q1 (ms_rt sh) (access_base q1 addr)) q1
      = Inr (q2, first)"
    "(if guarded then rbind (plan_guard addr first q2) (\<lambda>(p, g). Inr (p, Some g)) else Inr (q2, None)) = Inr (q3, g)"
    "alloc_if (ms_ordered sh \<and> ldst_bytes (ms_op sh) > 1 \<and> \<not> shape_on_sp sh) q3 = Inr (q4, align)" "q = q4"
    "l = \<lparr>ml_shape = sh, ml_addr = addr,
      ml_writeback = map_option (\<lambda>(base, amount). \<lparr>wb_base = base, wb_amount = amount, wb_guard = g\<rparr>) wb,
      ml_first_load_scratch = first, ml_block_align_scratch = align\<rparr>"
    using assms unfolding plan_mem_def by auto
  have alloc: "alloc_if b q = Inr (q', x) \<Longrightarrow>
      rp_stack_backed q' = rp_stack_backed q \<and> rp_sp_guard q' = rp_sp_guard q \<and> rp_pc q' = rp_pc q" for b q q' x
    by (auto simp: alloc_if_def dest!: alloc_scratch_ok split: if_splits)
  have guard: "plan_guard addr first q = Inr (q', x) \<Longrightarrow>
      rp_stack_backed q' = rp_stack_backed q \<and> rp_sp_guard q' = rp_sp_guard q \<and> rp_pc q' = rp_pc q" for q q' x
    by (cases addr; cases first) (auto simp: plan_guard_def dest!: alloc_scratch_ok)
  have "rp_stack_backed q3 = rp_stack_backed q2 \<and> rp_sp_guard q3 = rp_sp_guard q2 \<and> rp_pc q3 = rp_pc q2"
    using steps(3) by (auto dest!: guard split: if_splits)
  with plan_address_ok(1) [OF steps(1)] alloc [OF steps(2)] alloc [OF steps(4)] steps(5)
  show "rp_stack_backed q = rp_stack_backed p \<and> rp_sp_guard q = rp_sp_guard p \<and> rp_pc q = rp_pc p" by simp
  show "lowering_ok l"
    using plan_address_ok(2,3) [OF steps(1)] steps(6)
    by (auto simp: lowering_ok_def split: option.splits prod.splits)
qed

subsection \<open>The plan of a window access\<close>

definition window_ok :: "a64_insn \<Rightarrow> window_lowering \<Rightarrow> bool" where
  "window_ok i l \<longleftrightarrow> reachable_offset (wi_offset (wl_insn l)) \<and> wl_addr l < 32
    \<and> (case wl_insn l of
         WiAtomic _ \<Rightarrow> has_field i FRn
       | WiFpSimd m \<Rightarrow> has_field (fm_access m) FRn
           \<and> (case fm_writeback m of None \<Rightarrow> wl_guard l = None | Some (FwImm v) \<Rightarrow> reachable_offset v | _ \<Rightarrow> True))"

lemma multi_amount_near:
  assumes "n < (5 :: nat)" "q < (2 :: nat)"
  shows "near (int n * (8 * 2 ^ q))"
proof -
  have "(2 :: int) ^ q \<le> 2" using assms(2) power_increasing [of q 1 "2 :: int"] by simp
  then have "int n * (8 * 2 ^ q) \<le> 4 * (8 * 2)" using assms(1) by (intro mult_mono) auto
  then show ?thesis by (simp add: near_def abs_mult)
qed

lemma near_0: "near 0" by (simp add: near_def)

lemma mem_near: "near (ivalue (mem_imm m)) \<Longrightarrow> near (mem_offset m)"
  "near (ivalue (mem_imm m)) \<Longrightarrow> mem_writeback m = Some v \<Longrightarrow> near v"
  by (cases m; auto simp: near_0)+

lemma fpsimd_mem_near:
  assumes "fpsimd_mem i = Some m" "insn_near i"
  shows "near (fm_offset m)" "fm_writeback m = Some (FwImm v) \<Longrightarrow> near v" "has_field (fm_access m) FRn"
proof -
  obtain f where i: "i = Simd f" using assms(1) by (cases i rule: fpsimd_mem.cases) auto
  note insn_near_def [simp]
  show "near (fm_offset m)"
    using assms by (cases f) (auto simp: i fp_single_def fp_multiple_def fp_indexed_def near_0 mem_near)
  show "near v" if "fm_writeback m = Some (FwImm v)"
    using assms that
    by (cases f) (auto simp: i fp_single_def fp_multiple_def fp_indexed_def mem_near(2) multi_amount_near
        split: multi_index.splits)
  show "has_field (fm_access m) FRn"
    using assms
    by (cases f) (auto simp: i fp_single_def fp_multiple_def fp_indexed_def has_field_def)
qed

lemma writes_sp_fp:
  assumes "fpsimd_mem i = Some m" "writes_sp i"
  shows "fm_writeback m \<noteq> None"
proof -
  obtain f where i: "i = Simd f" using assms(1) by (cases i rule: fpsimd_mem.cases) auto
  have wb: "is_indexed m' \<Longrightarrow> \<exists>z. mem_writeback m' = Some z" for m'
    by (cases m') (simp_all add: is_indexed_def)
  show ?thesis
    using assms
    by (cases f) (auto simp: i writes_sp_def fp_single_def fp_multiple_def fp_indexed_def base_role_def wb
        split: multi_index.splits if_splits)
qed

lemma lse_atomic_Some: "lse_atomic i = Some a \<Longrightarrow> has_field i FRn"
  by (cases i rule: lse_atomic.cases) (auto simp: has_field_def)

lemma plan_window_addr_ok:
  assumes "plan_window_addr wi p = Inr (q, a, base)" "plan_ok p"
  shows "rp_stack_backed q = rp_stack_backed p \<and> rp_sp_guard q = rp_sp_guard p \<and> rp_pc q = rp_pc p"
  using assms
  by (auto simp: plan_window_addr_def Let_def dest!: alloc_scratch_ok split: reg_class.splits if_splits)

lemma window_base:
  assumes "window_of i = Some wi"
  shows "get_reg i FRn = Some (wi_base wi)"
proof (cases "lse_atomic i")
  case None
  with assms obtain m where m: "fpsimd_mem i = Some m" "wi = WiFpSimd m" by (auto simp: window_of_def)
  then obtain f where i: "i = Simd f" by (cases i rule: fpsimd_mem.cases) auto
  with m show ?thesis
    by (cases f) (auto simp: get_reg_def opt_reg_def fp_single_def fp_multiple_def fp_indexed_def split: option.splits)
next
  case (Some a)
  with assms show ?thesis
    by (cases i rule: lse_atomic.cases) (auto simp: window_of_def get_reg_def)
qed

lemma find_mapping_ok: "find_mapping p v = Some m \<Longrightarrow> plan_ok p \<Longrightarrow> sm_scratch m < 32"
  by (auto simp: find_mapping_def plan_ok_def mapping_ok_def find_Some_iff)

lemma phys_enc_lt: "plan_ok p \<Longrightarrow> enc r < 32 \<Longrightarrow> enc (phys p r) < 32"
  by (auto simp: phys_def physical_reg_def kdefs reg_new_def dest: find_mapping_ok split: reg_class.splits option.splits)

lemma plan_window_ok:
  assumes "plan_window wi guarded p = Inr (q, l)" "plan_ok p" "window_of i = Some wi" "insn_near i"
    and "guarded \<Longrightarrow> writes_sp i"
  shows "rp_stack_backed q = rp_stack_backed p \<and> rp_sp_guard q = rp_sp_guard p \<and> rp_pc q = rp_pc p" "window_ok i l"
proof -
  obtain q1 a base q2 c q3 g where st: "plan_window_addr wi p = Inr (q1, a, base)"
    "alloc_scratch q1 = Inr (q2, c)"
    "(if guarded then rbind (alloc_scratch q2) (\<lambda>(p, value). Inr (p, Some \<lparr>sg_value = value, sg_check = c\<rparr>))
      else Inr (q2, None)) = Inr (q3, g)" "q = q3"
    "wl_insn l = wi" "wl_addr l = a" "wl_guard l = g"
    using assms(1) unfolding plan_window_def by auto
  have a: "a < 32"
    using st(1) phys_enc_lt [OF assms(2)] insn_near_reg [OF assms(4) window_base [OF assms(3)]] find_mapping_ok assms(2)
    by (auto simp: plan_window_addr_def Let_def dest!: alloc_scratch_ok split: reg_class.splits if_splits)
  have g: "guarded \<longleftrightarrow> g \<noteq> None" using st(3) by (auto split: if_splits)
  have "rp_stack_backed q3 = rp_stack_backed q2 \<and> rp_sp_guard q3 = rp_sp_guard q2 \<and> rp_pc q3 = rp_pc q2"
    using st(3) by (auto dest!: alloc_scratch_ok split: if_splits)
  with plan_window_addr_ok [OF st(1) assms(2)] alloc_scratch_ok [OF st(2)] st(4)
  show "rp_stack_backed q = rp_stack_backed p \<and> rp_sp_guard q = rp_sp_guard p \<and> rp_pc q = rp_pc p" by simp
  show "window_ok i l"
  proof (cases wi)
    case (WiAtomic at)
    then have "lse_atomic i = Some at" using assms(3) by (auto simp: window_of_def split: option.splits)
    then show ?thesis
      using lse_atomic_Some near_reachable [OF near_0] a st(5,6) WiAtomic by (auto simp: window_ok_def)
  next
    case (WiFpSimd m)
    then have m: "fpsimd_mem i = Some m" using assms(3) by (auto simp: window_of_def split: option.splits)
    have "fm_writeback m = None \<Longrightarrow> g = None"
      using writes_sp_fp [OF m] assms(5) g by auto
    with fpsimd_mem_near [OF m assms(4)] near_reachable a st(5-7) WiFpSimd show ?thesis
      by (auto simp: window_ok_def split: option.splits fp_writeback.splits)
  qed
qed

subsection \<open>The whole plan\<close>

definition plan_emits :: "a64_insn \<Rightarrow> rewrite_plan \<Rightarrow> bool" where
  "plan_emits i p \<longleftrightarrow> plan_ok p \<and> roles_ok i
    \<and> (case rp_sp_guard p of None \<Rightarrow> True | Some g \<Rightarrow> sg_value g < 32)
    \<and> (case rp_mem p of
         None \<Rightarrow> True
       | Some (MpUnpriv l) \<Rightarrow> lowering_ok l
       | Some (MpWindow l) \<Rightarrow> window_ok i l)"

lemma plan_access_ok:
  assumes "plan_access i (sp_write i = SpwGuarded) p = Inr q" "plan_ok p" "rp_sp_guard p = None" "roles_ok i" "insn_near i"
  shows "plan_emits i q \<and> rp_pc q = rp_pc p"
proof (cases "window_of i")
  case None
  with assms(1) obtain sh q' l where "plan_mem sh (sp_write i = SpwGuarded) p = Inr (q', l)" "q = q'\<lparr>rp_mem := Some (MpUnpriv l)\<rparr>"
    by (auto simp: plan_access_def)
  with plan_mem_ok [of sh "sp_write i = SpwGuarded" p q' l] assms(2-4) show ?thesis
    by (simp add: plan_emits_def plan_ok_def)
next
  case (Some w)
  with assms(1) obtain q' l where p: "plan_window w (sp_write i = SpwGuarded) p = Inr (q', l)" "q = q'\<lparr>rp_mem := Some (MpWindow l)\<rparr>"
    by (auto simp: plan_access_def)
  have "sp_write i = SpwGuarded \<Longrightarrow> writes_sp i" by (auto simp: sp_write_def split: if_splits)
  with plan_window_ok [OF p(1) assms(2) Some assms(5)] p(2) assms(3,4,2) show ?thesis
    by (simp add: plan_emits_def plan_ok_def)
qed

lemma build_plan_ok:
  assumes "build_plan pc i = Inr p" "insn_near i"
  shows "plan_emits i p \<and> rp_pc p = pc"
proof -
  obtain q where q: "rfold (add_role i) (operand_roles i) (new_plan pc) = Inr q"
    and rest: "(if accesses_memory i then plan_access i (sp_write i = SpwGuarded) q
     else if sp_write i = SpwGuarded then
      rbind (rfold (check_sp_read pc i) (operand_roles i) ()) (\<lambda>_.
      rbind (alloc_scratch q) (\<lambda>(p, value).
      rbind (alloc_scratch p) (\<lambda>(p, check).
      Inr (p\<lparr>rp_sp_guard := Some \<lparr>sg_value = value, sg_check = check\<rparr>\<rparr>))))
     else Inr q) = Inr p"
    using assms(1) unfolding build_plan_def Let_def by auto
  have new: "plan_ok (new_plan pc)" "rp_sp_guard (new_plan pc) = None" "rp_pc (new_plan pc) = pc" "rp_mem (new_plan pc) = None"
    by (simp_all add: plan_ok_def new_plan_def)
  have ok: "plan_ok q" "rp_sp_guard q = None" "rp_pc q = pc" "rp_mem q = None" "roles_ok i"
    using add_roles_ok [OF q new(1)] new by (auto simp: same_rest_def roles_ok_def)
  show ?thesis
  proof (cases "accesses_memory i")
    case True
    with rest plan_access_ok [of i q p] ok assms(2) show ?thesis by simp
  next
    case False
    with rest ok show ?thesis
      by (auto simp: plan_emits_def plan_ok_def dest!: alloc_scratch_ok split: if_splits)
  qed
qed

end
