(* ===== verification/AdmitErrors.thy ===== *)
theory AdmitErrors
  imports AdmitFacts
begin

section \<open>Why an instruction is not admitted\<close>

text \<open>
  The errors of a plan that would abort the translation never happen for a decoded instruction: every
  error it can have is one of the instruction itself, which ends its block with an exit.
\<close>

subsection \<open>Fields of roles\<close>

lemma roles_have_1:
  "role \<in> set (operand_roles (Dp i)) \<Longrightarrow> access_mode_from_role role = Some (f, m) \<Longrightarrow>
    get_reg (Dp i) f \<noteq> None \<and> has_field (Dp i) f"
  by (cases i) (auto simp: get_reg_def has_field_def split: if_splits)

lemma roles_have_2:
  "role \<in> set (operand_roles (Brn b)) \<Longrightarrow> access_mode_from_role role = Some (f, m) \<Longrightarrow>
    get_reg (Brn b) f \<noteq> None \<and> has_field (Brn b) f"
  by (cases b) (auto simp: get_reg_def has_field_def split: if_splits)

lemma roles_have_3:
  "role \<in> set (operand_roles (Sys s)) \<Longrightarrow> access_mode_from_role role = Some (f, m) \<Longrightarrow>
    get_reg (Sys s) f \<noteq> None \<and> has_field (Sys s) f"
  by (cases s) (auto simp: get_reg_def has_field_def split: if_splits)

lemma roles_have_4:
  "role \<in> set (operand_roles (Mem l)) \<Longrightarrow> access_mode_from_role role = Some (f, m) \<Longrightarrow>
    get_reg (Mem l) f \<noteq> None \<and> has_field (Mem l) f"
  by (cases l) (auto simp: get_reg_def has_field_def base_role_def ldst_roles1_def Let_def split: if_splits)

lemma roles_have_5:
  "role \<in> set (operand_roles (Simd v)) \<Longrightarrow> access_mode_from_role role = Some (f, m) \<Longrightarrow>
    get_reg (Simd v) f \<noteq> None \<and> has_field (Simd v) f"
  by (cases v) (auto simp: get_reg_def has_field_def base_role_def opt_reg_def split: if_splits option.splits multi_index.splits)

lemma roles_have:
  assumes "role \<in> set (operand_roles i)" "access_mode_from_role role = Some (f, m)"
  obtains r where "get_reg i f = Some r" "has_field i f"
proof -
  have "get_reg i f \<noteq> None \<and> has_field i f"
    using assms roles_have_1 [of role _ f m] roles_have_2 [of role _ f m] roles_have_3 [of role _ f m]
      roles_have_4 [of role _ f m] roles_have_5 [of role _ f m]
    by (cases i) metis+
  then show thesis using that by auto
qed

lemma roles_set:
  assumes "role \<in> set (operand_roles i)" "access_mode_from_role role = Some (f, m)" "insn_near i"
  obtains r where "get_reg i f = Some r" "require_setter pc i f r = Inr ()" "require_reg pc i f = Inr r"
proof -
  obtain r where r: "get_reg i f = Some r" "has_field i f" by (rule roles_have [OF assms(1,2)])
  with set_reg_has_field(2) [of i f r] insn_near_reg [OF assms(3) r(1)] show thesis
    by (auto intro!: that simp: require_setter_def require_reg_def)
qed

subsection \<open>Intrinsic errors\<close>

text \<open>A step that fails for the instruction's own sake only.\<close>

definition mild :: "reg_virt_error + 'a \<Rightarrow> bool" where
  "mild r \<longleftrightarrow> (case r of Inl e \<Rightarrow> is_instruction_intrinsic e | Inr _ \<Rightarrow> True)"

lemma mild_simps [simp]: "mild (Inr x)" "mild (Inl e) \<longleftrightarrow> is_instruction_intrinsic e"
  by (simp_all add: mild_def)

lemma mild_rbind: "mild r \<Longrightarrow> (\<And>x. r = Inr x \<Longrightarrow> mild (f x)) \<Longrightarrow> mild (rbind r f)"
  by (cases r) simp_all

lemma mild_rfold: "(\<And>x s. x \<in> set xs \<Longrightarrow> mild (f x s)) \<Longrightarrow> mild (rfold f xs s)"
proof (induction xs arbitrary: s)
  case (Cons x xs)
  have "mild (rbind (f x s) (rfold f xs))"
    by (rule mild_rbind) (use Cons in simp_all)
  then show ?case by simp
qed simp

lemma mild_guard: "is_instruction_intrinsic e \<Longrightarrow> mild (guard b e)"
  by (cases b) simp_all

lemma mild_alloc: "mild (alloc_scratch p)"
  by (simp add: alloc_scratch_def split: option.split)

lemma overlap_mild:
  assumes "insn_near i"
  shows "mild (reject_constrained_unpredictable pc i)"
proof -
  have reg: "mild (rbind (require_reg pc i f) g)"
    if "role \<in> set (operand_roles i)" "access_mode_from_role role = Some (f, m)" "\<And>r. mild (g r)"
    for role f m and g :: "a64_reg \<Rightarrow> reg_virt_error + unit"
    by (rule roles_set [OF that(1,2) assms, of pc]) (simp add: that(3))
  have base: "mild (check_base_overlap pc i role u)" if here: "role \<in> set (operand_roles i)" for role u
  proof (cases role)
    case (MemBase bf)
    have inner: "mild (case access_mode_from_role other of None \<Rightarrow> Inr ()
        | Some (f, _, _) \<Rightarrow> if f = bf then Inr () else rbind (require_reg pc i f)
            (\<lambda>r. guard (enc r \<noteq> enc base) (RvUnpredictableMemoryOp pc)))" if o: "other \<in> set (operand_roles i)" for other base
      by (auto split: option.splits prod.splits intro!: reg [OF o] mild_guard)
    have "mild (rbind (require_reg pc i bf) (\<lambda>base. if enc base = 31 then Inr ()
        else rfold (\<lambda>other _. case access_mode_from_role other of None \<Rightarrow> Inr ()
          | Some (f, _, _) \<Rightarrow> if f = bf then Inr () else rbind (require_reg pc i f)
            (\<lambda>r. guard (enc r \<noteq> enc base) (RvUnpredictableMemoryOp pc))) (operand_roles i) ()))"
      using MemBase by (intro reg [OF here, of bf]) (auto intro!: mild_rfold inner)
    then show ?thesis unfolding MemBase check_base_overlap.simps by (simp split: if_split)
  qed simp_all
  have writes: "mild (check_write_overlap pc i rs)" if here: "set rs \<subseteq> set (operand_roles i)" for rs
    using here
  proof (induction rs)
    case (Cons role rs)
    then have IH: "mild (check_write_overlap pc i rs)" and role: "role \<in> set (operand_roles i)" by auto
    show ?case
    proof (cases role)
      case (RegWrite f w)
      have inner: "mild (case later of RegWrite g _ \<Rightarrow> if g = f then Inr () else rbind (require_reg pc i g)
          (\<lambda>r'. guard (enc r' \<noteq> enc r) (RvUnpredictableMemoryOp pc)) | _ \<Rightarrow> Inr ())" if l: "later \<in> set rs" for later r
        using l Cons.prems by (auto split: a64_role.split intro!: mild_guard reg [of later])
      show ?thesis
        unfolding RegWrite check_write_overlap.simps
        by (rule reg [OF role]) (use RegWrite IH inner in \<open>auto intro!: mild_rbind mild_rfold\<close>)
    qed (use IH in auto)
  qed simp
  show ?thesis
    unfolding reject_constrained_unpredictable_def
    by (intro mild_rbind mild_rfold mild_guard base writes) auto
qed

subsection \<open>Plans\<close>

lemma add_stack_backed_mild: "mild (add_stack_backed r a b p)"
  by (simp add: add_stack_backed_def mild_rbind [OF mild_alloc] split: prod.split)

lemma add_role_mild:
  assumes "role \<in> set (operand_roles i)" "insn_near i"
  shows "mild (add_role i role p)"
proof (cases "access_mode_from_role role")
  case None
  then show ?thesis by (cases role) (simp_all add: add_role_def)
next
  case (Some a)
  obtain f w reads writes where a: "a = (f, w, reads, writes)" by (cases a) auto
  obtain r where r: "require_setter (rp_pc p) i f r = Inr ()" "require_reg (rp_pc p) i f = Inr r"
    using roles_set [OF assms(1) Some [unfolded a] assms(2), of "rp_pc p"] by blast
  have "mild (add_field_access i f w reads writes p)"
    using r by (simp add: add_field_access_def mild_rbind [OF mild_guard] add_stack_backed_mild split: reg_class.split)
  with Some a show ?thesis by (cases role) (simp_all add: add_role_def)
qed

text \<open>A role that names a stack-backed register leaves a mapping for it.\<close>

definition virts :: "rewrite_plan \<Rightarrow> nat set" where
  "virts p = set (map sm_virt (rp_stack_backed p))"

lemma find_mapping_iff: "find_mapping p v \<noteq> None \<longleftrightarrow> v \<in> virts p"
  by (auto simp: find_mapping_def find_None_iff virts_def)

lemma note_access_virts [simp]: "map sm_virt (note_access v a b ms) = map sm_virt ms"
  by (simp add: note_access_def)

lemma add_stack_backed_maps:
  assumes "add_stack_backed r a b p = Inr q"
  shows "insert (enc r) (virts p) \<subseteq> virts q"
proof (cases "list_ex (\<lambda>m. sm_virt m = enc r) (rp_stack_backed p)")
  case True
  then have "enc r \<in> virts p" by (force simp: list_ex_iff virts_def)
  with True assms show ?thesis by (auto simp: add_stack_backed_def virts_def simp del: set_map)
next
  case False
  with assms show ?thesis by (auto simp: add_stack_backed_def virts_def dest!: alloc_scratch_ok)
qed

lemma add_role_maps:
  assumes "add_role i role p = Inr q"
  shows "virts p \<subseteq> virts q"
    and "access_mode_from_role role = Some (f, m) \<Longrightarrow> get_reg i f = Some r \<Longrightarrow> classify_reg r = RcStackBacked \<Longrightarrow>
      enc r \<in> virts q"
proof -
  have field: "virts p \<subseteq> virts q
      \<and> (get_reg i f = Some r \<longrightarrow> classify_reg r = RcStackBacked \<longrightarrow> enc r \<in> virts q)"
    if acc: "add_field_access i f w reads writes p = Inr q" for f w reads writes r
  proof -
    obtain r' where r': "get_reg i f = Some r'" using acc by (auto simp: add_field_access_def require_reg_def)
    with acc add_stack_backed_maps [of r' reads writes p q] show ?thesis
      by (cases "classify_reg r'") (auto simp: add_field_access_def require_reg_def)
  qed
  show "virts p \<subseteq> virts q"
    using assms field by (cases role) (auto simp: add_role_def)
  show "enc r \<in> virts q"
    if "access_mode_from_role role = Some (f, m)" "get_reg i f = Some r" "classify_reg r = RcStackBacked"
    using assms field that by (cases role) (auto simp: add_role_def)
qed

lemma add_roles_map:
  assumes "rfold (add_role i) roles p = Inr q" "role \<in> set roles" "access_mode_from_role role = Some (f, m)"
    "get_reg i f = Some r" "classify_reg r = RcStackBacked"
  shows "find_mapping q (enc r) \<noteq> None"
proof -
  have mono: "rfold (add_role i) roles p = Inr q \<Longrightarrow> virts p \<subseteq> virts q"
    for roles p
    by (induction roles arbitrary: p) (auto dest: add_role_maps(1) subsetD)
  have "enc r \<in> virts q"
    using assms(1,2)
  proof (induction roles arbitrary: p)
    case (Cons role' roles)
    then obtain p' where p': "add_role i role' p = Inr p'" "rfold (add_role i) roles p' = Inr q" by auto
    from add_role_maps(2) [OF p'(1) _ assms(4,5)] assms(3) mono [OF p'(2)] Cons.IH [OF p'(2)] Cons.prems(2)
    show ?case by (cases m) auto
  qed simp
  then show ?thesis by (simp only: find_mapping_iff)
qed

lemma mem_base_role: "window_of i = Some wi \<Longrightarrow> MemBase FRn \<in> set (operand_roles i)"
proof (cases "lse_atomic i")
  case None
  moreover assume "window_of i = Some wi"
  ultimately obtain m where m: "fpsimd_mem i = Some m" by (auto simp: window_of_def)
  then obtain f where i: "i = Simd f" by (cases i rule: fpsimd_mem.cases) auto
  with m show ?thesis by (cases f) (auto split: multi_index.split)
next
  case (Some a)
  then show ?thesis by (cases i rule: lse_atomic.cases) (auto simp: Let_def)
qed

lemma plan_window_mild:
  assumes "rfold (add_role i) (operand_roles i) (new_plan pc) = Inr p" "window_of i = Some wi"
  shows "mild (plan_window wi guarded p)"
proof -
  have "classify_reg (wi_base wi) = RcStackBacked \<Longrightarrow> find_mapping p (enc (wi_base wi)) \<noteq> None"
    using add_roles_map [OF assms(1) mem_base_role [OF assms(2)] _ window_base [OF assms(2)]] by simp
  then have "mild (plan_window_addr wi p)"
    by (auto simp: plan_window_addr_def Let_def intro!: mild_rbind mild_alloc split: reg_class.split)
  then show ?thesis
    by (auto simp: plan_window_def intro!: mild_rbind mild_alloc)
qed

lemma mild_check_parts: "mild (check_parts pc v)"
  by (simp add: check_parts_def mild_guard)

lemma plan_mem_mild: "mild (plan_mem sh guarded p)"
proof -
  have "mild (plan_address sh p)"
    by (auto simp: plan_address_def Let_def intro!: mild_rbind mild_alloc mild_check_parts
        split: mem_addr.split option.split)
  moreover have "mild (alloc_if b q)" for b q
    by (auto simp: alloc_if_def intro!: mild_rbind mild_alloc)
  moreover have "mild (plan_guard addr first q)" for addr first q
    by (auto simp: plan_guard_def intro!: mild_rbind mild_alloc split: access_addr.split option.split)
  ultimately show ?thesis
    by (auto simp: plan_mem_def intro!: mild_rbind)
qed

lemma accesses_shape:
  assumes "accesses_memory i" "window_of i = None" "\<not> is_unprivileged_access i"
  shows "mem_shape i pc \<noteq> None"
  using assms
  by (cases i; rename_tac j; case_tac j) (auto simp: window_of_def literal_address.simps split: option.splits)

lemma build_plan_mild:
  assumes "insn_near i"
  shows "mild (build_plan pc i)"
proof -
  have access: "mild (plan_access i g p)"
    if "rfold (add_role i) (operand_roles i) (new_plan pc) = Inr p" "accesses_memory i" "\<not> is_unprivileged_access i" for g p
    proof (cases "window_of i")
    case None
    with accesses_shape [OF that(2) None that(3), of "rp_pc p"] plan_mem_mild show ?thesis
      by (auto simp: plan_access_def intro!: mild_rbind)
  next
    case (Some w)
    with plan_window_mild [OF that(1) Some] show ?thesis by (auto simp: plan_access_def intro!: mild_rbind)
  qed
  have sp: "mild (check_sp_read pc i role u)" if here: "role \<in> set (operand_roles i)" for role u
  proof (cases role)
    case (RegReadWrite f w)
    then have "access_mode_from_role role = Some (f, w, True, True)" by simp
    from roles_set [OF here this assms, of pc] obtain r where "require_reg pc i f = Inr r" by blast
    with RegReadWrite show ?thesis by (simp add: check_sp_read_def mild_guard)
  qed (simp_all add: check_sp_read_def)
  show ?thesis
    unfolding build_plan_def Let_def
    by (auto intro!: mild_rbind mild_guard overlap_mild mild_rfold add_role_mild mild_alloc sp access assms)
qed

end
