(* ===== verification/AdmitEmit.thy ===== *)
theory AdmitEmit
  imports AdmitFacts
begin

section \<open>Every word of an admitted instruction is emitted\<close>

abbreviation succeeds :: "'e + 'a \<Rightarrow> bool" where
  "succeeds r \<equiv> \<exists>x. r = Inr x"

lemma push_each_from:
  "(\<And>x. x \<in> set xs \<Longrightarrow> succeeds (f x)) \<Longrightarrow>
    succeeds (rfold (\<lambda>x out. rbind (f x) (\<lambda>ws. Inr (out @ ws))) xs out)"
proof (induction xs arbitrary: out)
  case (Cons x xs)
  from Cons.prems [of x] obtain ws where "f x = Inr ws" by auto
  with Cons.IH [of "out @ ws"] Cons.prems show ?case by simp
qed simp

lemma push_each_ok: "(\<And>x. x \<in> set xs \<Longrightarrow> succeeds (f x)) \<Longrightarrow> succeeds (push_each f xs)"
  unfolding push_each_def by (rule push_each_from)

lemma slot_offset_ok: "reg_virt_is_stack_backed v \<Longrightarrow> reg_virt_stack_backed_slot_offset v \<noteq> None"
  by (auto simp: reg_virt_is_stack_backed_def reg_virt_stack_backed_slot_offset_def kdefs)

lemma fills_spills_ok:
  assumes "plan_ok p"
  shows "succeeds (emit_fills p pc)" "succeeds (emit_spills p pc)"
  unfolding emit_fills_def emit_spills_def
  by (rule push_each_ok; use assms slot_offset_ok in \<open>fastforce simp: plan_ok_def mapping_ok_def load_slot_def
    store_slot_def stack_slot_offset_def\<close>)+

lemma mapped_reg_ok:
  assumes "plan_emits i p" "mapped_reg p i f r = Some r'"
  shows "enc r' < 32 \<and> classify_reg r \<in> {RcStackBacked, RcStableMapped, RcSp}"
  using assms
  by (auto simp: plan_emits_def mapped_reg_def physical_reg_def kdefs dest: find_mapping_ok
      split: option.splits if_splits reg_class.splits)

lemma rewrite_role_ok:
  assumes "plan_emits i p" "role \<in> set (operand_roles i)" "\<And>f. has_field j f = has_field i f"
  shows "\<exists>j'. rewrite_role p i role j = Inr j' \<and> (\<forall>f. has_field j' f = has_field i f)"
proof (cases "access_mode_from_role role")
  case None
  with assms(3) show ?thesis by (simp add: rewrite_role_def)
next
  case (Some a)
  obtain f rest where a: "a = (f, rest)" by (cases a)
  have "role_ok i role" using assms(1,2) by (simp add: plan_emits_def roles_ok_def)
  with Some a obtain r where r: "get_reg i f = Some r"
    "classify_reg r \<in> {RcStackBacked, RcStableMapped, RcSp} \<longrightarrow> has_field i f"
    by (auto simp: role_ok_def split: prod.splits)
  show ?thesis
  proof (cases "mapped_reg p i f r")
    case None
    with assms(3) Some a r show ?thesis by (simp add: rewrite_role_def require_reg_def)
  next
    case (Some r')
    with mapped_reg_ok [OF assms(1)] r(2) have "enc r' < 32" "has_field j f" by (auto simp: assms(3))
    then obtain j' where "set_reg j f r' = Some j'" using set_reg_has_field(2) by blast
    moreover from this have "has_field j' g = has_field i g" for g
      using set_reg_has_field(3) assms(3) by metis
    ultimately show ?thesis
      using Some \<open>access_mode_from_role role = Some a\<close> a r by (simp add: rewrite_role_def require_reg_def)
  qed
qed

lemma rewrite_insn_ok:
  assumes "plan_emits i p"
  shows "\<exists>j. rewrite_insn p i = Inr j \<and> (\<forall>f. has_field j f = has_field i f)"
proof -
  have "\<exists>j'. rfold (rewrite_role p i) roles j = Inr j' \<and> (\<forall>f. has_field j' f = has_field i f)"
    if "set roles \<subseteq> set (operand_roles i)" "\<forall>f. has_field j f = has_field i f" for roles j
    using that
  proof (induction roles arbitrary: j)
    case (Cons role roles)
    then obtain j' where "rewrite_role p i role j = Inr j'" "\<forall>f. has_field j' f = has_field i f"
      using rewrite_role_ok [OF assms, of role j] by auto
    with Cons show ?case by simp
  qed simp
  then show ?thesis by (simp add: rewrite_insn_def)
qed

lemma push_add_sub_imm_ok: "reachable_offset v \<Longrightarrow> succeeds (push_add_sub_imm pc mk rd rn v)"
  by (auto simp: push_add_sub_imm_def)

lemma mem_lowering_emits:
  assumes "lowering_ok l"
  shows "succeeds (emit_mem_lowering p w l)"
proof -
  have "succeeds (mem_guard p (ri_pc w) l)"
    using assms push_add_sub_imm_ok
    by (fastforce simp: mem_guard_def lowering_ok_def split: option.splits)
  moreover have "succeeds (mem_address p (ri_pc w) (ml_addr l))"
    using assms push_add_sub_imm_ok
    by (fastforce simp: mem_address_def lowering_ok_def split: access_addr.splits)
  moreover have "succeeds (mem_commit p w l)"
    using assms push_add_sub_imm_ok
    by (fastforce simp: mem_commit_def lowering_ok_def Let_def split: option.splits)
  ultimately show ?thesis by (auto simp: emit_mem_lowering_def Let_def)
qed

lemma window_emits:
  assumes "window_ok (ri_insn w) l" "plan_emits (ri_insn w) p"
  shows "succeeds (emit_window p w l)"
proof -
  have "succeeds (window_guard p (ri_pc w) l)"
    using assms(1) push_add_sub_imm_ok
    by (fastforce simp: window_guard_def window_ok_def split: option.splits window_insn.splits fp_writeback.splits)
  moreover have "succeeds (window_address p (ri_pc w) l)"
    using assms(1) push_add_sub_imm_ok by (fastforce simp: window_address_def window_ok_def split: option.splits)
  moreover have "succeeds (window_access p w l)"
  proof -
    have "succeeds (case wl_insn l of WiAtomic _ \<Rightarrow> rewrite_insn p (ri_insn w) | WiFpSimd m \<Rightarrow> Inr (fm_access m))
      \<and> (\<forall>i. (case wl_insn l of WiAtomic _ \<Rightarrow> rewrite_insn p (ri_insn w) | WiFpSimd m \<Rightarrow> Inr (fm_access m)) = Inr i
        \<longrightarrow> has_field i FRn)"
      using rewrite_insn_ok [OF assms(2)] assms(1) by (cases "wl_insn l") (auto simp: window_ok_def)
    then obtain i where "(case wl_insn l of WiAtomic _ \<Rightarrow> rewrite_insn p (ri_insn w) | WiFpSimd m \<Rightarrow> Inr (fm_access m)) = Inr i"
      "has_field i FRn" by auto
    with set_reg_has_field(2) [of i FRn "reg_x_sp (wl_addr l)"] assms(1) show ?thesis
      by (auto simp: window_access_def window_ok_def)
  qed
  moreover have "succeeds (window_commit p w l)"
    using assms(1) push_add_sub_imm_ok
    by (fastforce simp: window_commit_def window_ok_def Let_def split: option.splits window_insn.splits fp_writeback.splits)
  ultimately show ?thesis by (auto simp: emit_window_def Let_def)
qed

lemma plan_words_emitted:
  assumes "plan_emits (ri_insn w) p"
  shows "succeeds (plan_words p w)"
proof (cases "rp_mem p")
  case None
  with rewrite_insn_ok [OF assms] show ?thesis by (auto simp: plan_words_def)
next
  case (Some m)
  with assms mem_lowering_emits window_emits show ?thesis
    by (cases m) (auto simp: plan_words_def plan_emits_def)
qed

lemma user_semantic_emitted:
  assumes "build_plan (ri_pc w) (ri_insn w) = Inr p" "insn_near (ri_insn w)"
  shows "succeeds (rewrite_user_semantic w)"
proof -
  have p: "plan_emits (ri_insn w) p" using build_plan_ok [OF assms] by simp
  then have "plan_ok p" by (simp add: plan_emits_def)
  then obtain fills spills where "emit_fills p (ri_pc w) = Inr fills" "emit_spills p (ri_pc w) = Inr spills"
    using fills_spills_ok by blast
  with assms(1) plan_words_emitted [OF p] show ?thesis by (auto simp: rewrite_user_semantic_def)
qed

section \<open>The mappings of a plan\<close>

text \<open>
  Every stack-backed register of an instruction has one mapping, its scratch register is its own, and the
  mapping is filled and spilled as the roles of the register demand.
\<close>

definition maps_ok :: "stack_mapping list \<Rightarrow> bool" where
  "maps_ok ms \<longleftrightarrow> distinct (map sm_virt ms)
    \<and> map sm_scratch ms = map (\<lambda>k. REG_VIRT_SCRATCH_GPR_START + k) [0..<length ms]
    \<and> length ms \<le> REG_VIRT_SCRATCH_GPR_LIMIT \<and> (\<forall>m \<in> set ms. reg_virt_is_stack_backed (sm_virt m))"

definition plan_maps :: "rewrite_plan \<Rightarrow> bool" where
  "plan_maps p \<longleftrightarrow> maps_ok (rp_stack_backed p) \<and> rp_scratch_used p = length (rp_stack_backed p)"

lemma note_access_fields [simp]:
  "map sm_virt (note_access v rd wr ms) = map sm_virt ms" "map sm_scratch (note_access v rd wr ms) = map sm_scratch ms"
  "length (note_access v rd wr ms) = length ms"
  by (simp_all add: note_access_def comp_def)

definition mapping_of :: "a64_insn \<Rightarrow> a64_role \<Rightarrow> nat \<Rightarrow> bool \<Rightarrow> bool \<Rightarrow> bool" where
  "mapping_of i role v rd wr \<longleftrightarrow> (\<exists>f w r. access_mode_from_role role = Some (f, w, rd, wr) \<and> get_reg i f = Some r
    \<and> classify_reg r = RcStackBacked \<and> enc r = v)"

lemma mapping_of_unique: "mapping_of i role v rd wr \<Longrightarrow> mapping_of i role v' rd' wr' \<Longrightarrow> v' = v \<and> rd' = rd \<and> wr' = wr"
  by (auto simp: mapping_of_def)

lemma add_field_maps:
  assumes "add_field_access i f w rd wr p = Inr q"
  shows "\<exists>r. get_reg i f = Some r \<and> (if classify_reg r = RcStackBacked then add_stack_backed r rd wr p = Inr q else q = p)"
proof -
  obtain r where r: "get_reg i f = Some r" using assms by (auto simp: add_field_access_def require_reg_def)
  then show ?thesis
    using assms by (cases "classify_reg r") (auto simp: add_field_access_def require_reg_def)
qed

lemma add_role_step:
  assumes "add_role i role p = Inr q"
  shows "q = p \<and> (\<forall>v rd wr. \<not> mapping_of i role v rd wr)
    \<or> (\<exists>r rd wr. mapping_of i role (enc r) rd wr \<and> classify_reg r = RcStackBacked \<and> add_stack_backed r rd wr p = Inr q)"
proof (cases "access_mode_from_role role")
  case None
  with assms show ?thesis by (auto simp: add_role_def mapping_of_def split: a64_role.splits)
next
  case (Some a)
  obtain f w rd wr where a: "a = (f, w, rd, wr)" by (cases a)
  with Some assms have "add_field_access i f w rd wr p = Inr q" by (auto simp: add_role_def split: a64_role.splits)
  from add_field_maps [OF this] Some a show ?thesis by (auto simp: mapping_of_def split: if_splits)
qed

lemma grown_maps:
  assumes "add_stack_backed r rd wr p = Inr q" "plan_maps p" "classify_reg r = RcStackBacked"
  shows "plan_maps q"
    "\<exists>m \<in> set (rp_stack_backed q). sm_virt m = enc r \<and> (rd \<longrightarrow> sm_read m) \<and> (wr \<longrightarrow> sm_write m)"
    "m \<in> set (rp_stack_backed p) \<Longrightarrow>
      \<exists>m' \<in> set (rp_stack_backed q). sm_virt m' = sm_virt m \<and> (sm_read m \<longrightarrow> sm_read m') \<and> (sm_write m \<longrightarrow> sm_write m')"
    "m' \<in> set (rp_stack_backed q) \<Longrightarrow> sm_write m' \<Longrightarrow>
      (\<exists>m \<in> set (rp_stack_backed p). sm_virt m = sm_virt m' \<and> sm_write m) \<or> sm_virt m' = enc r \<and> wr"
proof -
  let ?ms = "rp_stack_backed p" and ?old = "list_ex (\<lambda>m. sm_virt m = enc r) (rp_stack_backed p)"
  note old = list_ex_iff
  have q: "rp_stack_backed q = (if ?old then note_access (enc r) rd wr ?ms
      else ?ms @ [\<lparr>sm_virt = enc r, sm_scratch = REG_VIRT_SCRATCH_GPR_START + rp_scratch_used p, sm_read = rd, sm_write = wr\<rparr>])"
    "rp_scratch_used q = (if ?old then rp_scratch_used p else rp_scratch_used p + 1)"
    "?old \<or> rp_scratch_used p < REG_VIRT_SCRATCH_GPR_LIMIT"
    using assms(1)
    by (auto simp: add_stack_backed_def alloc_scratch_def reg_virt_scratch_gpr_def split: if_splits)
  show "plan_maps q"
  proof (cases ?old)
    case True
    with q(1,2) assms(2) have "maps_ok (rp_stack_backed q)"
      by (simp add: maps_ok_def plan_maps_def) (auto simp: note_access_def)
    with True q assms(2) show ?thesis by (simp add: plan_maps_def)
  next
    case False
    with q assms(2) classify_stack [OF assms(3)] show ?thesis by (auto simp: plan_maps_def maps_ok_def list_ex_iff)
  qed
  show "\<exists>m \<in> set (rp_stack_backed q). sm_virt m = enc r \<and> (rd \<longrightarrow> sm_read m) \<and> (wr \<longrightarrow> sm_write m)"
  proof (cases ?old)
    case True
    then obtain m where "m \<in> set ?ms" "sm_virt m = enc r" by (auto simp: list_ex_iff)
    then have "m\<lparr>sm_read := sm_read m \<or> rd, sm_write := sm_write m \<or> wr\<rparr> \<in> set (rp_stack_backed q)"
      using True q(1) by (force simp: note_access_def)
    with \<open>sm_virt m = enc r\<close> show ?thesis by (intro bexI [of _ "m\<lparr>sm_read := sm_read m \<or> rd, sm_write := sm_write m \<or> wr\<rparr>"]) simp_all
  qed (simp add: q(1))
  show "\<exists>m' \<in> set (rp_stack_backed q). sm_virt m' = sm_virt m \<and> (sm_read m \<longrightarrow> sm_read m') \<and> (sm_write m \<longrightarrow> sm_write m')"
    if "m \<in> set ?ms"
  proof (cases ?old)
    case True
    let ?new = "if sm_virt m = enc r then m\<lparr>sm_read := sm_read m \<or> rd, sm_write := sm_write m \<or> wr\<rparr> else m"
    have "?new \<in> set (rp_stack_backed q)" using that True unfolding q(1) note_access_def by simp
    then show ?thesis by (intro bexI [of _ ?new]) simp_all
  qed (use that in \<open>auto simp: q(1)\<close>)
  show "(\<exists>m \<in> set ?ms. sm_virt m = sm_virt m' \<and> sm_write m) \<or> sm_virt m' = enc r \<and> wr"
    if "m' \<in> set (rp_stack_backed q)" "sm_write m'"
    using that by (auto simp: q(1) note_access_def split: if_splits)
qed

text \<open>The mappings the roles of an instruction end in.\<close>

lemma roles_maps:
  assumes "rfold (add_role i) roles p = Inr q" "plan_maps p"
  shows "plan_maps q"
    and "role \<in> set roles \<Longrightarrow> mapping_of i role v rd wr \<Longrightarrow>
      \<exists>m \<in> set (rp_stack_backed q). sm_virt m = v \<and> (rd \<longrightarrow> sm_read m) \<and> (wr \<longrightarrow> sm_write m)"
    and "m' \<in> set (rp_stack_backed q) \<Longrightarrow> sm_write m' \<Longrightarrow>
      (\<exists>m \<in> set (rp_stack_backed p). sm_virt m = sm_virt m' \<and> sm_write m)
      \<or> (\<exists>role \<in> set roles. \<exists>rd. mapping_of i role (sm_virt m') rd True)"
proof -
  have step: "plan_maps t" if "add_role i role s = Inr t" "plan_maps s" for role s t
    using add_role_step [OF that(1)] that(2) grown_maps(1) by blast
  show "plan_maps q" using rfold_invariant [OF assms(1), of plan_maps] assms(2) step by blast
  show "\<exists>m \<in> set (rp_stack_backed q). sm_virt m = v \<and> (rd \<longrightarrow> sm_read m) \<and> (wr \<longrightarrow> sm_write m)"
    if "role \<in> set roles" "mapping_of i role v rd wr"
    using assms that(1)
  proof (induction roles arbitrary: p)
    case (Cons x xs)
    then obtain t where t: "add_role i x p = Inr t" "rfold (add_role i) xs t = Inr q" by auto
    have kept: "\<exists>m' \<in> set (rp_stack_backed q). sm_virt m' = sm_virt m \<and> (sm_read m \<longrightarrow> sm_read m') \<and> (sm_write m \<longrightarrow> sm_write m')"
      if "m \<in> set (rp_stack_backed t)" for m
      using t(2) step [OF t(1) Cons.prems(2)] that
    proof (induction xs arbitrary: t m)
      case (Cons y ys)
      then obtain u where u: "add_role i y t = Inr u" "rfold (add_role i) ys u = Inr q" by auto
      have "\<exists>m' \<in> set (rp_stack_backed u). sm_virt m' = sm_virt m \<and> (sm_read m \<longrightarrow> sm_read m') \<and> (sm_write m \<longrightarrow> sm_write m')"
        using add_role_step [OF u(1)] grown_maps(3) [OF _ Cons.prems(2) _ Cons.prems(3)] Cons.prems(3) by blast
      with Cons.IH [OF u(2) step [OF u(1) Cons.prems(2)]] show ?case by metis
    qed auto
    show ?case
    proof (cases "role = x")
      case True
      have "\<exists>m \<in> set (rp_stack_backed t). sm_virt m = v \<and> (rd \<longrightarrow> sm_read m) \<and> (wr \<longrightarrow> sm_write m)"
        using add_role_step [OF t(1)] grown_maps(2) [OF _ Cons.prems(2)] \<open>mapping_of i role v rd wr\<close> mapping_of_unique
        unfolding True by metis
      with kept show ?thesis by metis
    next
      case False
      with Cons.IH [OF t(2) step [OF t(1) Cons.prems(2)]] Cons.prems(3) show ?thesis by simp
    qed
  qed simp
  show "(\<exists>m \<in> set (rp_stack_backed p). sm_virt m = sm_virt m' \<and> sm_write m)
      \<or> (\<exists>role \<in> set roles. \<exists>rd. mapping_of i role (sm_virt m') rd True)"
    if "m' \<in> set (rp_stack_backed q)" "sm_write m'"
    using assms that
  proof (induction roles arbitrary: p)
    case (Cons x xs)
    then obtain t where t: "add_role i x p = Inr t" "rfold (add_role i) xs t = Inr q" by auto
    from Cons.IH [OF t(2) step [OF t(1) Cons.prems(2)] Cons.prems(3,4)]
    consider m where "m \<in> set (rp_stack_backed t)" "sm_virt m = sm_virt m'" "sm_write m"
      | role rd where "role \<in> set xs" "mapping_of i role (sm_virt m') rd True" by blast
    then show ?case
    proof cases
      case 1
      with add_role_step [OF t(1)] grown_maps(4) [OF _ Cons.prems(2) _ 1(1,3)] show ?thesis by fastforce
    qed auto
  qed auto
qed

end
