(* ===== verification/CfgFacts.thy ===== *)
theory CfgFacts
  imports Cfg
begin

section \<open>The graph: it is always built, and what it is\<close>

text \<open>
  The loops of \<open>build_cfg\<close> end for every code provider, and the blocks they build are runs of admitted
  instructions whose successors are blocks again.
\<close>

subsection \<open>Pending blocks\<close>

lemma enqueue_block_simps [simp]:
  "set (enqueue_block pc pending) = insert pc (set pending)"
  "distinct (enqueue_block pc pending) \<longleftrightarrow> distinct pending"
  by (auto simp: enqueue_block_def)

lemma enqueue_block_grows: "\<exists>more. enqueue_block pc pending = pending @ more"
  by (simp add: enqueue_block_def)

text \<open>How an instruction leaves its block, and the pcs that are pending after it.\<close>

definition leaves :: "ir_insn \<Rightarrow> u64 list option" where
  "leaves i = map_option fst (ends_block i [])"

lemma ends_block_Some:
  assumes "ends_block i pending = Some (succs, pending')"
  shows "leaves i = Some succs" "set pending' = set pending \<union> set succs" "distinct pending \<Longrightarrow> distinct pending'"
    "\<exists>more. pending' = pending @ more"
proof -
  have grow: "\<exists>more. enqueue_block a (enqueue_block b pending) = pending @ more" for a b
    by (metis append.assoc enqueue_block_grows)
  show "leaves i = Some succs" "set pending' = set pending \<union> set succs" "distinct pending \<Longrightarrow> distinct pending'"
    "\<exists>more. pending' = pending @ more"
    using assms enqueue_block_grows grow
    by (auto simp: leaves_def ends_block_def split: option.splits exit_reason.splits)
qed

lemma ends_block_None: "ends_block i pending = None \<longleftrightarrow> leaves i = None"
  by (auto simp: leaves_def ends_block_def split: option.splits exit_reason.splits)

subsection \<open>The loops end\<close>

lemma scan_block_returns:
  assumes "start \<in> set pending" "pc = start + 4 * of_nat (length insns)" "length insns \<le> 2 ^ 62"
  shows "scan_block code pc insns pending blocks \<noteq> None"
  using assms
proof (induction "2 ^ 62 - length insns" arbitrary: pc insns rule: less_induct)
  case less
  show ?case
  proof (cases "insns \<noteq> [] \<and> pc \<in> set pending")
    case True
    then show ?thesis by (simp add: scan_block.simps)
  next
    case False
    have "length insns \<noteq> 2 ^ 62"
    proof
      assume l: "length insns = 2 ^ 62"
      then have "pc = start + of_nat (2 ^ 64)"
        using less.prems(2) by simp
      also have "\<dots> = start"
        using word_of_nat_eq_0_iff [where 'a = 64, of "2 ^ 64"] by simp
      finally show False using False less.prems(1) l by auto
    qed
    with less.prems have lt: "length insns < 2 ^ 62" by simp
    have IH: "scan_block code (pc + 4) (insns @ [i]) pending blocks \<noteq> None" for i
      by (rule less.hyps) (use lt less.prems in \<open>auto simp: algebra_simps\<close>)
    show ?thesis
      by (subst scan_block.simps) (use IH False in \<open>auto split: option.splits sum.splits\<close>)
  qed
qed

lemma scan_block_pending:
  assumes "scan_block code pc insns pending blocks = Some (Inr s)"
  shows "(distinct pending \<longrightarrow> distinct (sn_pending s)) \<and> (\<exists>more. sn_pending s = pending @ more)"
proof -
  have "\<forall>s. r = Inr s \<longrightarrow> (distinct pending \<longrightarrow> distinct (sn_pending s)) \<and> (\<exists>more. sn_pending s = pending @ more)"
    if "scan_block code pc insns pending blocks = Some r" for r
  proof (rule scan_block.raw_induct [where P = "\<lambda>code pc insns pending blocks r.
      \<forall>s. r = Inr s \<longrightarrow> (distinct pending \<longrightarrow> distinct (sn_pending s)) \<and> (\<exists>more. sn_pending s = pending @ more)", OF _ that])
  qed (auto split: if_splits option.splits sum.splits dest: ends_block_Some(3,4))
  with assms show ?thesis by blast
qed

lemma distinct_u64_length: "distinct (xs :: u64 list) \<Longrightarrow> length xs \<le> 2 ^ 64"
  using card_mono [of "UNIV :: u64 set" "set xs"] distinct_card [of xs] by (simp add: card_word)

lemma explore_returns:
  assumes "distinct pending" "index \<le> length pending"
  shows "explore code index pending blocks \<noteq> None"
  using assms
proof (induction "2 ^ 64 - index" arbitrary: index pending blocks rule: less_induct)
  case less
  show ?case
  proof (cases "index \<ge> length pending")
    case True
    then show ?thesis by (simp add: explore.simps)
  next
    case False
    then have lt: "index < length pending" by simp
    with distinct_u64_length [OF less.prems(1)] have small: "index < 2 ^ 64" by simp
    have IH: "explore code (Suc index) pending' blocks' \<noteq> None"
      if "distinct pending'" "length pending \<le> length pending'" for pending' blocks'
      by (rule less.hyps) (use that small lt in auto)
    obtain r where r: "scan_block code (pending ! index) [] pending blocks = Some r"
      using scan_block_returns [of "pending ! index" pending "pending ! index" "[]"] lt by auto
    show ?thesis
    proof (cases r)
      case (Inl e)
      then show ?thesis
        by (subst explore.simps) (use r IH less.prems(1) lt in \<open>auto split: option.splits\<close>)
    next
      case (Inr s)
      with scan_block_pending [of code "pending ! index" "[]" pending blocks s] r less.prems(1)
      have "distinct (sn_pending s)" "length pending \<le> length (sn_pending s)"
        by auto
      then show ?thesis
        by (subst explore.simps) (use r Inr IH less.prems(1) lt in \<open>auto split: option.splits\<close>)
    qed
  qed
qed

lemma build_cfg_returns: "build_cfg code entry_pc \<noteq> None"
  using explore_returns [of "[entry_pc]" 0 code "[]"] by (auto simp: build_cfg_def split: option.splits)

subsection \<open>Well-formed blocks\<close>

text \<open>
  \<open>run code pc is\<close>: the instructions are the admitted ones from \<open>pc\<close> on, and only the last may leave
  the block.
\<close>

fun insn_run :: "code_provider \<Rightarrow> u64 \<Rightarrow> ir_insn list \<Rightarrow> bool" where
  "insn_run code pc [] = True"
| "insn_run code pc (i # is) =
    (admit_at code pc = Inr (Inr i) \<and> (is \<noteq> [] \<longrightarrow> leaves i = None) \<and> insn_run code (pc + 4) is)"

definition block_wf :: "code_provider \<Rightarrow> bblock \<Rightarrow> bool" where
  "block_wf code b \<longleftrightarrow>
    insn_run code (bb_start b) (bb_insns b)
    \<and> bb_end b = bb_start b + 4 * of_nat (length (bb_insns b)) \<and> length (bb_insns b) \<le> 2 ^ 62
    \<and> (case bb_exit b of
         Some u \<Rightarrow> bb_next b = [] \<and> admit_at code (bb_end b) = Inr (Inl u)
           \<and> (bb_insns b \<noteq> [] \<longrightarrow> leaves (last (bb_insns b)) = None)
       | None \<Rightarrow> bb_insns b \<noteq> []
           \<and> bb_next b = (case leaves (last (bb_insns b)) of None \<Rightarrow> [bb_end b] | Some succs \<Rightarrow> succs))"

lemma insn_run_append:
  "insn_run code pc (xs @ ys) \<longleftrightarrow>
    insn_run code pc xs \<and> (xs \<noteq> [] \<and> ys \<noteq> [] \<longrightarrow> leaves (last xs) = None)
    \<and> insn_run code (pc + 4 * of_nat (length xs)) ys"
  by (induction xs arbitrary: pc) (auto simp: algebra_simps)

subsection \<open>Alignment\<close>

definition aligned_to :: "u64 \<Rightarrow> u64 \<Rightarrow> bool" where
  "aligned_to e pc \<longleftrightarrow> (\<exists>k. pc = e + 4 * k)"

lemma aligned_to_refl [simp]: "aligned_to e e"
  by (auto simp: aligned_to_def intro: exI [of _ 0])

lemma aligned_to_trans: "aligned_to a b \<Longrightarrow> aligned_to b c \<Longrightarrow> aligned_to a c"
proof -
  assume "aligned_to a b" "aligned_to b c"
  then obtain k l where "c = a + 4 * k + 4 * l" by (auto simp: aligned_to_def)
  then have "c = a + 4 * (k + l)" by (simp add: algebra_simps)
  then show ?thesis unfolding aligned_to_def ..
qed

lemma aligned_to_sym: "aligned_to a b \<Longrightarrow> aligned_to b a"
proof -
  assume "aligned_to a b"
  then obtain k where "b = a + 4 * k" by (auto simp: aligned_to_def)
  then have "a = b + 4 * (- k)" by simp
  then show ?thesis unfolding aligned_to_def ..
qed

lemma aligned_to_offset [simp]: "aligned_to e (e + 4 * k)" "aligned_to e (e + k * 4)"
  by (auto simp: aligned_to_def intro: exI [of _ k])

lemma pc_relative_target_aligned: "aligned_to pc (pc_relative_target pc e n)"
  by (simp add: pc_relative_target_def wi_hom_mult [symmetric])

lemma plus_4_aligned: "aligned_to pc (pc + 4)"
  using aligned_to_offset(1) [of pc 1] by simp

lemmas target_aligned = pc_relative_target_aligned plus_4_aligned

lemma direct_branch_target_aligned: "direct_branch_target i pc = Some t \<Longrightarrow> aligned_to pc t"
  by (cases "(i, pc)" rule: direct_branch_target.cases) (auto simp: target_aligned)

lemma conditional_targets_aligned:
  "conditional_targets i pc = Some (a, b) \<Longrightarrow> aligned_to pc a \<and> aligned_to pc b"
  by (cases "(i, pc)" rule: taken_target.cases) (auto simp: conditional_targets_def target_aligned)

lemma svc_resume_aligned: "runtime_exit_reason i pc = Some (RexSvc imm r) \<Longrightarrow> aligned_to pc r"
  by (cases "(i, pc)" rule: runtime_exit_reason.cases) (auto simp: target_aligned)

lemma leaves_aligned:
  assumes "leaves i = Some succs" "t \<in> set succs"
  shows "aligned_to (ir_pc i) t"
  using assms
  by (auto simp: leaves_def ends_block_def split: option.splits exit_reason.splits
      dest: direct_branch_target_aligned conditional_targets_aligned svc_resume_aligned)

lemma admit_at_pc: "admit_at code pc = Inr (Inr i) \<Longrightarrow> ir_pc i = pc"
  by (auto simp: admit_at_def admit_word_def decode_word_def split: option.splits sum.splits if_splits)
    (metis sumE)+

lemma insn_run_last_pc:
  "insn_run code pc xs \<Longrightarrow> xs \<noteq> [] \<Longrightarrow> aligned_to pc (ir_pc (last xs))"
proof (induction xs arbitrary: pc)
  case (Cons i xs)
  show ?case
  proof (cases "xs = []")
    case True
    with Cons.prems show ?thesis by (auto dest: admit_at_pc)
  next
    case False
    with Cons.prems have "aligned_to (pc + 4) (ir_pc (last xs))" by (auto intro: Cons.IH)
    with False show ?thesis using aligned_to_trans [OF plus_4_aligned] by simp
  qed
qed simp

lemma block_wf_next_aligned:
  assumes "block_wf code b" "t \<in> set (bb_next b)"
  shows "aligned_to (bb_start b) t"
  using assms insn_run_last_pc [of code "bb_start b" "bb_insns b"]
  by (auto simp: block_wf_def split: option.splits dest: leaves_aligned intro: aligned_to_trans)

subsection \<open>Splitting\<close>

definition block_pcs :: "bblock \<Rightarrow> u64 list" where
  "block_pcs b = map (\<lambda>k. bb_start b + 4 * of_nat k) [0..<length (bb_insns b)]"

lemma unat_4_mult: "\<exists>n. unat (4 * k :: u64) = 4 * n"
proof -
  have "4 dvd unat (4 * k)"
    by (simp add: unat_word_ariths dvd_mod_iff)
  then show ?thesis by (auto elim: dvdE)
qed

lemma split_offset:
  assumes "block_wf code b" "aligned_to (bb_start b) pc" "bb_start b < pc" "pc < bb_end b"
  obtains n where "unat (pc - bb_start b) div 4 = n" "0 < n" "n < length (bb_insns b)"
    "pc = bb_start b + 4 * of_nat n"
proof -
  from assms(2) obtain k where k: "pc = bb_start b + 4 * k" by (auto simp: aligned_to_def)
  obtain n where n: "unat (4 * k) = 4 * n" using unat_4_mult by blast
  have d: "unat (pc - bb_start b) = 4 * n" by (simp add: k n)
  have pos: "0 < unat (pc - bb_start b)"
    using assms(3) by (metis less_irrefl right_minus_eq unat_eq_0 gr0I)
  have "pc - bb_start b < bb_end b - bb_start b"
    using assms(3,4) by (simp add: word_less_nat_alt unat_sub_if')
  moreover have "bb_end b - bb_start b = of_nat (4 * length (bb_insns b))"
    using assms(1) by (simp add: block_wf_def)
  ultimately have "unat (pc - bb_start b) < unat (of_nat (4 * length (bb_insns b)) :: u64)"
    by (simp add: word_less_nat_alt)
  also have "\<dots> \<le> 4 * length (bb_insns b)"
    by (simp only: unat_of_nat) simp
  finally have lt: "n < length (bb_insns b)" using d by simp
  have "4 * k = of_nat (unat (4 * k))" by simp
  then have "4 * k = of_nat (4 * n)" by (simp only: n)
  then have "pc = bb_start b + 4 * of_nat n" by (simp add: k)
  with that [of n] d pos lt show thesis by simp
qed

lemma split_wf:
  assumes wf: "block_wf code b" and al: "aligned_to (bb_start b) pc" and "bb_start b < pc" "pc < bb_end b"
  shows "block_wf code (split_head pc b)" "block_wf code (split_tail pc b)"
    "block_pcs (split_head pc b) @ block_pcs (split_tail pc b) = block_pcs b"
proof -
  obtain n where n: "unat (pc - bb_start b) div 4 = n" "0 < n" "n < length (bb_insns b)"
    "pc = bb_start b + 4 * of_nat n"
    using split_offset [OF assms] .
  have run: "insn_run code (bb_start b) (take n (bb_insns b) @ drop n (bb_insns b))"
    using wf by (simp add: block_wf_def)
  have nonempty: "take n (bb_insns b) \<noteq> []" "drop n (bb_insns b) \<noteq> []" using n by auto
  have last: "last (drop n (bb_insns b)) = last (bb_insns b)" using n by (simp add: last_drop)
  note parts = run [unfolded insn_run_append]
  show "block_wf code (split_head pc b)"
    using wf parts nonempty n by (auto simp: block_wf_def split_head_def min_def)
  have "bb_end b = pc + 4 * of_nat (length (bb_insns b) - n)"
    using wf n by (simp add: block_wf_def of_nat_diff algebra_simps)
  then show "block_wf code (split_tail pc b)"
    using wf parts nonempty n last by (auto simp: block_wf_def split_tail_def min_def split: option.splits)
  have "[0..<length (bb_insns b)] = [0..<n] @ map (\<lambda>k. k + n) [0..<length (bb_insns b) - n]"
    using n upt_add_eq_append [of 0 n "length (bb_insns b) - n"] by (simp add: map_add_upt)
  then show "block_pcs (split_head pc b) @ block_pcs (split_tail pc b) = block_pcs b"
    using n by (simp add: block_pcs_def split_head_def split_tail_def min_def algebra_simps)
qed

lemma split_existing_cases:
  assumes "split_existing_block_at pc blocks = Some blocks'"
  obtains xs b ys where "blocks = xs @ b # ys" "blocks' = xs @ split_head pc b # split_tail pc b # ys"
    "bb_start b < pc" "pc < bb_end b" "\<forall>x \<in> set xs. \<not> (bb_start x < pc \<and> pc < bb_end x)"
  using assms
proof (induction blocks arbitrary: blocks' thesis)
  case (Cons b bs)
  show ?case
  proof (cases "bb_start b < pc \<and> pc < bb_end b")
    case True
    with Cons.prems(2) show ?thesis by (auto intro: Cons.prems(1) [of "[]" b bs])
  next
    case False
    with Cons.prems(2) obtain bs' where bs': "split_existing_block_at pc bs = Some bs'" "blocks' = b # bs'"
      by auto
    show ?thesis
    proof (rule Cons.IH [OF _ bs'(1)])
      fix xs c ys
      assume "bs = xs @ c # ys" "bs' = xs @ split_head pc c # split_tail pc c # ys" "bb_start c < pc"
        "pc < bb_end c" "\<forall>x \<in> set xs. \<not> (bb_start x < pc \<and> pc < bb_end x)"
      with False bs'(2) show ?thesis by (intro Cons.prems(1) [of "b # xs" c ys]) auto
    qed
  qed
qed simp

lemma split_none: "split_existing_block_at pc blocks = None \<Longrightarrow> b \<in> set blocks \<Longrightarrow> \<not> (bb_start b < pc \<and> pc < bb_end b)"
  by (induction blocks) (auto split: if_splits)

lemma split_parts_simps [simp]:
  "bb_start (split_head pc b) = bb_start b" "bb_end (split_head pc b) = pc" "bb_next (split_head pc b) = [pc]"
  "bb_start (split_tail pc b) = pc" "bb_end (split_tail pc b) = bb_end b" "bb_next (split_tail pc b) = bb_next b"
  by (simp_all add: split_head_def split_tail_def)

end
