(* ===== verification/CfgInv.thy ===== *)
theory CfgInv
  imports CfgFacts
begin

section \<open>The invariant of the discovery\<close>

subsection \<open>One scan\<close>

definition block_at :: "u64 \<Rightarrow> bblock list \<Rightarrow> bool" where
  "block_at pc blocks \<longleftrightarrow> (\<exists>b \<in> set blocks. bb_start b = pc)"

lemma ensure_None:
  "ensure_block_boundary pc blocks = None \<longleftrightarrow> \<not> block_at pc blocks \<and> split_existing_block_at pc blocks = None"
  by (auto simp: ensure_block_boundary_def block_at_def list_ex_iff)

lemma ensure_Some:
  assumes "ensure_block_boundary pc blocks = Some blocks'"
  obtains "block_at pc blocks" "blocks' = blocks"
  | "\<not> block_at pc blocks" "split_existing_block_at pc blocks = Some blocks'"
  using assms by (auto simp: ensure_block_boundary_def block_at_def list_ex_iff split: if_splits)

definition scan_ready :: "code_provider \<Rightarrow> u64 \<Rightarrow> u64 \<Rightarrow> ir_insn list \<Rightarrow> u64 list \<Rightarrow> bblock list \<Rightarrow> bool" where
  "scan_ready code start pc insns pending blocks \<longleftrightarrow>
    insn_run code start insns \<and> pc = start + 4 * of_nat (length insns) \<and> length insns \<le> 2 ^ 62
    \<and> (insns \<noteq> [] \<longrightarrow> leaves (last insns) = None) \<and> start \<in> set pending
    \<and> (\<forall>k < length insns. 0 < k \<longrightarrow> ensure_block_boundary (start + 4 * of_nat k) blocks = None)"

definition scan_done :: "code_provider \<Rightarrow> u64 \<Rightarrow> u64 list \<Rightarrow> bblock list \<Rightarrow> scanned_block \<Rightarrow> bool" where
  "scan_done code start pending blocks s \<longleftrightarrow>
    (sn_insns s \<noteq> [] \<or> sn_exit s \<noteq> None) \<and> block_wf code (new_block start s)
    \<and> (\<forall>t \<in> set (sn_next s). t \<in> set (sn_pending s) \<or> block_at t (sn_blocks s))
    \<and> set (sn_pending s) \<subseteq> set pending \<union> set (sn_next s)
    \<and> (\<forall>k < length (sn_insns s). 0 < k \<longrightarrow> ensure_block_boundary (start + 4 * of_nat k) blocks = None)
    \<and> (sn_blocks s = blocks
       \<or> \<not> block_at (sn_end s) blocks \<and> sn_end s \<notin> set pending \<and> sn_insns s \<noteq> []
         \<and> split_existing_block_at (sn_end s) blocks = Some (sn_blocks s))"

lemma scan_ready_short:
  assumes "scan_ready code start pc insns pending blocks" "insns \<noteq> [] \<Longrightarrow> pc \<notin> set pending"
  shows "length insns < 2 ^ 62"
proof (rule ccontr)
  assume "\<not> length insns < 2 ^ 62"
  with assms(1) have l: "length insns = 2 ^ 62" by (simp add: scan_ready_def)
  then have "insns \<noteq> []" by auto
  have "pc = start + of_nat (2 ^ 64)" using assms(1) l by (simp add: scan_ready_def)
  also have "\<dots> = start" using word_of_nat_eq_0_iff [where 'a = 64, of "2 ^ 64"] by simp
  finally show False using assms \<open>insns \<noteq> []\<close> by (auto simp: scan_ready_def)
qed

lemma scan_ready_more:
  assumes "scan_ready code start pc insns pending blocks" "admit_at code pc = Inr (Inr i)" "leaves i = None"
    and "insns \<noteq> [] \<Longrightarrow> pc \<notin> set pending" "insns \<noteq> [] \<Longrightarrow> ensure_block_boundary pc blocks = None"
  shows "scan_ready code start (pc + 4) (insns @ [i]) pending blocks"
proof -
  have "length insns < 2 ^ 62"
    by (rule scan_ready_short) fact+
  with assms show ?thesis
    by (auto simp: scan_ready_def insn_run_append algebra_simps less_Suc_eq)
qed

lemma scan_done_at_boundary:
  assumes "scan_ready code start pc insns pending blocks" "insns \<noteq> []"
    and "pc \<in> set pending \<and> blocks' = blocks \<or> pc \<notin> set pending \<and> ensure_block_boundary pc blocks = Some blocks'"
  shows "scan_done code start pending blocks
    \<lparr>sn_next = [pc], sn_exit = None, sn_end = pc, sn_insns = insns, sn_pending = pending, sn_blocks = blocks'\<rparr>"
proof -
  have "pc \<in> set pending \<or> block_at pc blocks'"
    using assms(3)
    by (auto elim!: ensure_Some split_existing_cases simp: block_at_def)
  moreover have "blocks' = blocks \<or> \<not> block_at pc blocks \<and> pc \<notin> set pending
      \<and> split_existing_block_at pc blocks = Some blocks'"
    using assms(3) by (auto elim!: ensure_Some)
  ultimately show ?thesis
    using assms(1,2) by (auto simp: scan_done_def scan_ready_def block_wf_def new_block_def)
qed

lemma scan_done_at_exit:
  assumes "scan_ready code start pc insns pending blocks" "admit_at code pc = Inr (Inl u)"
  shows "scan_done code start pending blocks
    \<lparr>sn_next = [], sn_exit = Some u, sn_end = pc, sn_insns = insns, sn_pending = pending, sn_blocks = blocks\<rparr>"
  using assms by (auto simp: scan_done_def scan_ready_def block_wf_def new_block_def)

lemma scan_done_at_branch:
  assumes "scan_ready code start pc insns pending blocks" "admit_at code pc = Inr (Inr i)"
    and "ends_block i pending = Some (succs, pending')"
    and "insns \<noteq> [] \<Longrightarrow> pc \<notin> set pending" "insns \<noteq> [] \<Longrightarrow> ensure_block_boundary pc blocks = None"
  shows "scan_done code start pending blocks
    \<lparr>sn_next = succs, sn_exit = None, sn_end = pc + 4, sn_insns = insns @ [i], sn_pending = pending',
     sn_blocks = blocks\<rparr>"
proof -
  have "length insns < 2 ^ 62"
    by (rule scan_ready_short) fact+
  with assms(1,2,4,5) ends_block_Some(1,2) [OF assms(3)] show ?thesis
    by (auto simp: scan_done_def scan_ready_def block_wf_def new_block_def insn_run_append algebra_simps less_Suc_eq)
qed

lemma scan_block_done:
  assumes "scan_block code pc insns pending blocks = Some (Inr s)" "scan_ready code start pc insns pending blocks"
  shows "scan_done code start pending blocks s"
proof -
  have "\<forall>start s. scan_ready code start pc insns pending blocks \<longrightarrow> r = Inr s \<longrightarrow> scan_done code start pending blocks s"
    if "scan_block code pc insns pending blocks = Some r" for r
  proof (rule scan_block.raw_induct [where P = "\<lambda>code pc insns pending blocks r. \<forall>start s.
      scan_ready code start pc insns pending blocks \<longrightarrow> r = Inr s \<longrightarrow> scan_done code start pending blocks s", OF _ that],
      intro allI impI)
    fix scan code pc insns pending blocks r start s
    assume IH: "\<And>code pc insns pending blocks r. scan code pc insns pending blocks = Some r \<Longrightarrow>
        \<forall>start s. scan_ready code start pc insns pending blocks \<longrightarrow> r = Inr s \<longrightarrow> scan_done code start pending blocks s"
      and eq: "(if insns \<noteq> [] \<and> pc \<in> set pending
     then Some (Inr \<lparr>sn_next = [pc], sn_exit = None, sn_end = pc, sn_insns = insns,
                     sn_pending = pending, sn_blocks = blocks\<rparr>)
     else case (if insns = [] then None else ensure_block_boundary pc blocks) of
       None \<Rightarrow>
         (case admit_at code pc of
            Inl e \<Rightarrow> Some (Inl e)
          | Inr (Inl u) \<Rightarrow>
              Some (Inr \<lparr>sn_next = [], sn_exit = Some u, sn_end = pc, sn_insns = insns,
                         sn_pending = pending, sn_blocks = blocks\<rparr>)
          | Inr (Inr i) \<Rightarrow>
              (case ends_block i pending of
                 None \<Rightarrow> scan code (pc + 4) (insns @ [i]) pending blocks
               | Some (succs, pending') \<Rightarrow>
                   Some (Inr \<lparr>sn_next = succs, sn_exit = None, sn_end = pc + 4, sn_insns = insns @ [i],
                              sn_pending = pending', sn_blocks = blocks\<rparr>)))
     | Some blocks' \<Rightarrow>
         Some (Inr \<lparr>sn_next = [pc], sn_exit = None, sn_end = pc, sn_insns = insns,
                    sn_pending = pending, sn_blocks = blocks'\<rparr>)) = Some r"
      and ready: "scan_ready code start pc insns pending blocks" and r: "r = Inr s"
    show "scan_done code start pending blocks s"
    proof (cases "insns \<noteq> [] \<and> (pc \<in> set pending \<or> ensure_block_boundary pc blocks \<noteq> None)")
      case True
      with eq r scan_done_at_boundary [OF ready] show ?thesis by (auto split: if_splits)
    next
      case False
      with eq have eq': "(case admit_at code pc of
            Inl e \<Rightarrow> Some (Inl e)
          | Inr (Inl u) \<Rightarrow>
              Some (Inr \<lparr>sn_next = [], sn_exit = Some u, sn_end = pc, sn_insns = insns,
                         sn_pending = pending, sn_blocks = blocks\<rparr>)
          | Inr (Inr i) \<Rightarrow>
              (case ends_block i pending of
                 None \<Rightarrow> scan code (pc + 4) (insns @ [i]) pending blocks
               | Some (succs, pending') \<Rightarrow>
                   Some (Inr \<lparr>sn_next = succs, sn_exit = None, sn_end = pc + 4, sn_insns = insns @ [i],
                              sn_pending = pending', sn_blocks = blocks\<rparr>))) = Some r"
        by (auto split: if_splits)
      show ?thesis
      proof (cases "admit_at code pc")
        case (Inl e)
        with eq' r show ?thesis by simp
      next
        case (Inr a)
        show ?thesis
        proof (cases a)
          case (Inl u)
          with eq' r Inr scan_done_at_exit [OF ready] show ?thesis by auto
        next
          case (Inr i)
          with eq' \<open>admit_at code pc = Inr a\<close> r False IH
            scan_done_at_branch [OF ready, of i] scan_ready_more [OF ready, of i]
          show ?thesis by (auto simp: ends_block_None split: option.splits)
        qed
      qed
    qed
  qed
  with assms show ?thesis by blast
qed

lemma admit_at_error: "admit_at code pc = Inl e \<Longrightarrow> \<exists>at. admit_at code at = Inl e"
  by blast

lemma scan_block_error:
  assumes "scan_block code pc insns pending blocks = Some (Inl e)"
  shows "\<exists>at. admit_at code at = Inl e"
proof -
  have "\<forall>e. r = Inl e \<longrightarrow> (\<exists>at. admit_at code at = Inl e)"
    if "scan_block code pc insns pending blocks = Some r" for r
  proof (rule scan_block.raw_induct [where P = "\<lambda>code pc insns pending blocks r.
      \<forall>e. r = Inl e \<longrightarrow> (\<exists>at. admit_at code at = Inl e)", OF _ that])
  qed (auto split: if_splits option.splits sum.splits dest: admit_at_error)
  with assms show ?thesis by blast
qed

subsection \<open>The exploration\<close>

text \<open>
  Where no code is readable at the top of the address space, no block wraps around and the blocks are
  disjoint. The entry is the first pending pc and the first block.
\<close>

definition code_below_top :: "code_provider \<Rightarrow> bool" where
  "code_below_top code \<longleftrightarrow> (\<forall>pc. code pc \<noteq> None \<longrightarrow> pc < - 4)"

lemma insn_run_no_wrap:
  "code_below_top code \<Longrightarrow> insn_run code pc is \<Longrightarrow> unat pc + 4 * length is < 2 ^ 64"
proof (induction "is" arbitrary: pc)
  case Nil
  have "unat pc < 2 ^ LENGTH(64)" by (rule unsigned_less)
  then show ?case by simp
next
  case (Cons i "is")
  have "code pc \<noteq> None"
    using Cons.prems by (auto simp: admit_at_def split: option.splits)
  with Cons.prems(1) have "pc < - 4" by (simp add: code_below_top_def)
  then have "unat (pc + 4) = unat pc + 4" by (simp add: word_less_nat_alt unat_word_ariths)
  moreover have "unat (pc + 4) + 4 * length is < 2 ^ 64"
    using Cons.prems by (intro Cons.IH) auto
  ultimately show ?case by simp
qed

lemma block_pcs_inside:
  assumes "code_below_top code" "block_wf code b" "p \<in> set (block_pcs b)"
  shows "bb_start b = p \<or> bb_start b < p" "p < bb_end b"
proof -
  have nw: "unat (bb_start b) + 4 * length (bb_insns b) < 2 ^ 64"
    using insn_run_no_wrap [OF assms(1)] assms(2) by (simp add: block_wf_def)
  have at: "unat (bb_start b + 4 * of_nat k) = unat (bb_start b) + 4 * k" if "k \<le> length (bb_insns b)" for k
  proof -
    have "unat (of_nat (4 * k) :: u64) = 4 * k" using nw that by (simp only: unat_of_nat) simp
    then show ?thesis using nw that by (simp add: unat_word_ariths)
  qed
  obtain k where k: "k < length (bb_insns b)" "p = bb_start b + 4 * of_nat k"
    using assms(3) by (auto simp: block_pcs_def)
  have "bb_end b = bb_start b + 4 * of_nat (length (bb_insns b))" using assms(2) by (simp add: block_wf_def)
  then show "bb_start b = p \<or> bb_start b < p" "p < bb_end b"
    using at [of k] at [of "length (bb_insns b)"] k
    by (auto simp: word_less_nat_alt word_unat_eq_iff)
qed

lemma block_pcs_distinct:
  assumes "code_below_top code" "block_wf code b"
  shows "distinct (block_pcs b)"
proof -
  have nw: "unat (bb_start b) + 4 * length (bb_insns b) < 2 ^ 64"
    using insn_run_no_wrap [OF assms(1)] assms(2) by (simp add: block_wf_def)
  have "inj_on (\<lambda>k. bb_start b + 4 * of_nat k) {0..<length (bb_insns b)}"
  proof (rule inj_onI)
    fix j k assume jk: "j \<in> {0..<length (bb_insns b)}" "k \<in> {0..<length (bb_insns b)}"
      and eq: "bb_start b + 4 * of_nat j = bb_start b + 4 * of_nat k"
    then have "(of_nat (4 * j) :: u64) = of_nat (4 * k)" by simp
    then have "unat (of_nat (4 * j) :: u64) = unat (of_nat (4 * k) :: u64)" by (rule arg_cong)
    with nw jk show "j = k" by (simp only: unat_of_nat) simp
  qed
  then show ?thesis by (simp add: block_pcs_def distinct_map)
qed

definition cfg_inv :: "code_provider \<Rightarrow> u64 \<Rightarrow> u64 list \<Rightarrow> bblock list \<Rightarrow> bool" where
  "cfg_inv code entry pending blocks \<longleftrightarrow>
    distinct (map bb_start blocks) \<and> (\<forall>p \<in> set pending. aligned_to entry p)
    \<and> pending \<noteq> [] \<and> hd pending = entry \<and> (blocks \<noteq> [] \<longrightarrow> bb_start (hd blocks) = entry)
    \<and> (code_below_top code \<longrightarrow> distinct (concat (map block_pcs blocks)))
    \<and> (\<forall>b \<in> set blocks. block_wf code b \<and> aligned_to entry (bb_start b)
         \<and> (\<forall>t \<in> set (bb_next b). t \<in> set pending \<or> block_at t blocks))"

lemma aligned_to_common: "aligned_to e a \<Longrightarrow> aligned_to e b \<Longrightarrow> aligned_to a b"
  using aligned_to_sym aligned_to_trans by blast

lemma block_at_simps [simp]:
  "block_at pc [] \<longleftrightarrow> False"
  "block_at pc (b # bs) \<longleftrightarrow> bb_start b = pc \<or> block_at pc bs"
  "block_at pc (xs @ ys) \<longleftrightarrow> block_at pc xs \<or> block_at pc ys"
  by (auto simp: block_at_def)

lemma split_block_at:
  assumes "split_existing_block_at pc blocks = Some blocks'"
  shows "block_at t blocks' \<longleftrightarrow> t = pc \<or> block_at t blocks"
  using assms by (auto elim!: split_existing_cases)

lemma block_at_start: "block_at pc blocks \<longleftrightarrow> pc \<in> bb_start ` set blocks"
  by (auto simp: block_at_def)

lemma cfg_inv_split:
  assumes inv: "cfg_inv code entry pending blocks" and al: "aligned_to entry pc"
    and split: "split_existing_block_at pc blocks = Some blocks'" and new: "\<not> block_at pc blocks"
  shows "cfg_inv code entry pending blocks'"
proof -
  obtain xs b ys where p: "blocks = xs @ b # ys" "blocks' = xs @ split_head pc b # split_tail pc b # ys"
    "bb_start b < pc" "pc < bb_end b"
    using split by (rule split_existing_cases)
  have b: "block_wf code b" "aligned_to entry (bb_start b)"
    using inv p(1) by (auto simp: cfg_inv_def)
  have "aligned_to (bb_start b) pc" using b(2) al by (rule aligned_to_common)
  note parts = split_wf [OF b(1) this p(3,4)]
  have old: "distinct (map bb_start blocks)" "\<forall>p \<in> set pending. aligned_to entry p" "pending \<noteq> []" "hd pending = entry"
    "blocks \<noteq> [] \<longrightarrow> bb_start (hd blocks) = entry" "code_below_top code \<longrightarrow> distinct (concat (map block_pcs blocks))"
    "\<And>c. c \<in> set blocks \<Longrightarrow> block_wf code c \<and> aligned_to entry (bb_start c)"
    "\<And>c t. c \<in> set blocks \<Longrightarrow> t \<in> set (bb_next c) \<Longrightarrow> t \<in> set pending \<or> block_at t blocks"
    using inv by (auto simp: cfg_inv_def)
  have pcs: "concat (map block_pcs blocks') = concat (map block_pcs blocks)"
    using parts(3) by (simp add: p(1,2))
  have starts: "block_at t blocks' \<longleftrightarrow> t = pc \<or> block_at t blocks" for t
    using p(1,2) by auto
  have hd: "blocks' \<noteq> [] \<longrightarrow> bb_start (hd blocks') = entry"
    using old(5) p(1,2) by (cases xs) auto
  have dist: "distinct (map bb_start blocks')"
    using old(1) new p(1,2) by (auto simp: block_at_start)
  have each: "block_wf code c \<and> aligned_to entry (bb_start c)" if "c \<in> set blocks'" for c
    using that old(7) parts(1,2) al b(2) p(1,2) by auto
  have succ: "t \<in> set pending \<or> block_at t blocks'" if "c \<in> set blocks'" "t \<in> set (bb_next c)" for c t
    using that old(8) [of c t] old(8) [of b t] p(1,2) starts [of t] by auto
  show ?thesis
    unfolding cfg_inv_def using dist old(2-4,6) hd pcs each succ by metis
qed

lemma split_pcs:
  assumes "cfg_inv code entry pending blocks" "aligned_to entry pc" "split_existing_block_at pc blocks = Some blocks'"
  shows "concat (map block_pcs blocks') = concat (map block_pcs blocks)"
proof -
  obtain xs b ys where p: "blocks = xs @ b # ys" "blocks' = xs @ split_head pc b # split_tail pc b # ys"
    "bb_start b < pc" "pc < bb_end b"
    using assms(3) by (rule split_existing_cases)
  have b: "block_wf code b" "aligned_to entry (bb_start b)"
    using assms(1) p(1) by (auto simp: cfg_inv_def)
  have "aligned_to (bb_start b) pc" using b(2) assms(2) by (rule aligned_to_common)
  from split_wf(3) [OF b(1) this p(3,4)] show ?thesis by (simp add: p(1,2))
qed

lemma ensure_None_outside:
  assumes "code_below_top code" "cfg_inv code entry pending blocks" "ensure_block_boundary p blocks = None"
  shows "p \<notin> set (concat (map block_pcs blocks))"
proof
  assume "p \<in> set (concat (map block_pcs blocks))"
  then obtain b where b: "b \<in> set blocks" "p \<in> set (block_pcs b)" by auto
  then have "block_wf code b" using assms(2) by (simp add: cfg_inv_def)
  from block_pcs_inside [OF assms(1) this b(2)] b(1) assms(3) show False
    using split_none [of p blocks b] by (auto simp: ensure_None block_at_def)
qed

lemma cfg_inv_ensure:
  assumes "cfg_inv code entry pending blocks" "aligned_to entry pc" "ensure_block_boundary pc blocks = Some blocks'"
  shows "cfg_inv code entry pending blocks'" "block_at t blocks' \<longleftrightarrow> t = pc \<or> block_at t blocks"
  using assms cfg_inv_split split_block_at by (auto elim!: ensure_Some)

lemma cfg_inv_scanned:
  assumes inv: "cfg_inv code entry pending blocks" and "start \<in> set pending"
    and here: "ensure_block_boundary start blocks = None" and first: "blocks = [] \<Longrightarrow> start = entry"
    and sd: "scan_done code start pending blocks s" and grows: "\<exists>more. sn_pending s = pending @ more"
  shows "cfg_inv code entry (sn_pending s) (sn_blocks s @ [new_block start s])"
    "block_at t blocks \<Longrightarrow> block_at t (sn_blocks s)"
proof -
  have al: "aligned_to entry start" using inv assms(2) by (auto simp: cfg_inv_def)
  have not_at: "\<not> block_at start blocks" using here by (simp add: ensure_None)
  have wf: "block_wf code (new_block start s)" using sd by (simp add: scan_done_def)
  have next_al: "aligned_to entry t" if "t \<in> set (sn_next s)" for t
    using block_wf_next_aligned [OF wf, of t] that al aligned_to_trans by (auto simp: new_block_def)
  have pend: "\<forall>p \<in> set (sn_pending s). aligned_to entry p"
    using sd inv next_al by (auto simp: scan_done_def cfg_inv_def)
  have "aligned_to start (sn_end s)"
    using wf by (auto simp: block_wf_def new_block_def)
  then have end_al: "aligned_to entry (sn_end s)" using al aligned_to_trans by blast
  have sub: "cfg_inv code entry pending (sn_blocks s) \<and> \<not> block_at start (sn_blocks s)
      \<and> (block_at t blocks \<longrightarrow> block_at t (sn_blocks s))" for t
  proof (cases "sn_blocks s = blocks")
    case True
    with inv not_at show ?thesis by simp
  next
    case False
    with sd have sp: "\<not> block_at (sn_end s) blocks" "sn_end s \<notin> set pending"
        "split_existing_block_at (sn_end s) blocks = Some (sn_blocks s)"
      by (auto simp: scan_done_def)
    have "start \<noteq> sn_end s" using sp(2) assms(2) by auto
    then show ?thesis
      using cfg_inv_split [OF inv end_al sp(3,1)] split_block_at [OF sp(3)] not_at by simp
  qed
  then show "block_at t blocks \<Longrightarrow> block_at t (sn_blocks s)" by blast
  have old: "distinct (map bb_start (sn_blocks s))"
    "\<And>b. b \<in> set (sn_blocks s) \<Longrightarrow> block_wf code b \<and> aligned_to entry (bb_start b)"
    "\<And>b t. b \<in> set (sn_blocks s) \<Longrightarrow> t \<in> set (bb_next b) \<Longrightarrow> t \<in> set pending \<or> block_at t (sn_blocks s)"
    using sub by (auto simp: cfg_inv_def)
  have fresh: "start \<notin> bb_start ` set (sn_blocks s)" using sub by (simp add: block_at_start)
  have nx: "\<And>t. t \<in> set (sn_next s) \<Longrightarrow> t \<in> set (sn_pending s) \<or> block_at t (sn_blocks s)"
    using sd by (simp add: scan_done_def)
  have pcs: "concat (map block_pcs (sn_blocks s)) = concat (map block_pcs blocks)"
    using sd split_pcs [OF inv end_al] by (auto simp: scan_done_def)
  have out: "p \<notin> set (concat (map block_pcs blocks))" if top: "code_below_top code" and p: "p \<in> set (block_pcs (new_block start s))" for p
  proof -
    obtain k where "p = start + 4 * of_nat k" "k < length (sn_insns s)"
      using p by (auto simp: block_pcs_def new_block_def)
    then have "ensure_block_boundary p blocks = None"
      using sd here by (cases "k = 0") (auto simp: scan_done_def)
    then show ?thesis by (rule ensure_None_outside [OF top inv])
  qed
  have blocks_empty: "blocks = []" if "sn_blocks s = []"
    using that sd by (auto simp: scan_done_def elim!: split_existing_cases)
  have hd_old: "bb_start (hd (sn_blocks s)) = entry" if "sn_blocks s \<noteq> []"
    using sub that by (simp add: cfg_inv_def)
  show "cfg_inv code entry (sn_pending s) (sn_blocks s @ [new_block start s])"
    unfolding cfg_inv_def
  proof (intro conjI ballI)
    show "distinct (map bb_start (sn_blocks s @ [new_block start s]))"
      using old(1) fresh by (simp add: new_block_def)
    fix b assume b: "b \<in> set (sn_blocks s @ [new_block start s])"
    show "block_wf code b" "aligned_to entry (bb_start b)"
      using b old(2) wf al by (auto simp: new_block_def)
    fix t assume "t \<in> set (bb_next b)"
    then show "t \<in> set (sn_pending s) \<or> block_at t (sn_blocks s @ [new_block start s])"
      using b old(3) [of b t] nx [of t] grows by (auto simp: new_block_def)
  next
    show "sn_pending s \<noteq> []" "hd (sn_pending s) = entry"
      using inv grows by (auto simp: cfg_inv_def)
    show "sn_blocks s @ [new_block start s] \<noteq> [] \<longrightarrow> bb_start (hd (sn_blocks s @ [new_block start s])) = entry"
      using first blocks_empty hd_old by (auto simp: hd_append new_block_def)
    show "code_below_top code \<longrightarrow> distinct (concat (map block_pcs (sn_blocks s @ [new_block start s])))"
      using pcs out block_pcs_distinct [OF _ wf] inv by (auto simp: cfg_inv_def)
  qed (use pend in auto)
qed

lemma explore_inv:
  assumes "explore code index pending blocks = Some r"
    and "cfg_inv code entry pending blocks" "index \<le> length pending" "\<forall>p \<in> set (take index pending). block_at p blocks"
  shows "case r of Inl e \<Rightarrow> \<exists>at. admit_at code at = Inl e
    | Inr blocks' \<Rightarrow> \<exists>pending'. cfg_inv code entry pending' blocks' \<and> (\<forall>p \<in> set pending'. block_at p blocks')
        \<and> set pending \<subseteq> set pending'"
proof -
  let ?P = "\<lambda>code index pending blocks (r :: cfg_error + bblock list). cfg_inv code entry pending blocks \<longrightarrow> index \<le> length pending \<longrightarrow>
    (\<forall>p \<in> set (take index pending). block_at p blocks) \<longrightarrow>
    (case r of Inl e \<Rightarrow> \<exists>at. admit_at code at = Inl e
     | Inr blocks' \<Rightarrow> \<exists>pending'. cfg_inv code entry pending' blocks' \<and> (\<forall>p \<in> set pending'. block_at p blocks')
        \<and> set pending \<subseteq> set pending')"
  have "?P code index pending blocks r"
  proof (rule explore.raw_induct [where P = ?P, OF _ assms(1)], intro impI)
    fix ex code index pending blocks r
    assume IH: "\<And>code index pending blocks r. ex code index pending blocks = Some r \<Longrightarrow> ?P code index pending blocks r"
      and eq: "(if index \<ge> length pending then Some (Inr blocks)
     else case ensure_block_boundary (pending ! index) blocks of
       None \<Rightarrow>
         Option.bind (scan_block code (pending ! index) [] pending blocks) (\<lambda>r.
           case r of
             Inl e \<Rightarrow> Some (Inl e)
           | Inr s \<Rightarrow>
               if sn_insns s = [] \<and> sn_exit s = None then Some (Inl (CeEmptyBlock (pending ! index)))
               else ex code (Suc index) (sn_pending s) (sn_blocks s @ [new_block (pending ! index) s]))
     | Some blocks' \<Rightarrow> ex code (Suc index) pending blocks') = Some r"
      and inv: "cfg_inv code entry pending blocks" and le: "index \<le> length pending"
      and visited: "\<forall>p \<in> set (take index pending). block_at p blocks"
    show "case r of Inl e \<Rightarrow> \<exists>at. admit_at code at = Inl e
      | Inr blocks' \<Rightarrow> \<exists>pending'. cfg_inv code entry pending' blocks' \<and> (\<forall>p \<in> set pending'. block_at p blocks')
        \<and> set pending \<subseteq> set pending'"
    proof (cases "index \<ge> length pending")
      case True
      with eq inv visited show ?thesis by auto
    next
      case False
      let ?start = "pending ! index"
      have here: "?start \<in> set pending" "aligned_to entry ?start"
        using False inv by (auto simp: cfg_inv_def)
      have take: "set (take (Suc index) pending) = insert ?start (set (take index pending))"
        using False by (simp add: take_Suc_conv_app_nth)
      show ?thesis
      proof (cases "ensure_block_boundary ?start blocks")
        case (Some blocks')
        have "cfg_inv code entry pending blocks'" and at: "\<And>t. block_at t blocks' \<longleftrightarrow> t = ?start \<or> block_at t blocks"
          using cfg_inv_ensure [OF inv here(2) Some] by auto
        moreover have "ex code (Suc index) pending blocks' = Some r" using eq False Some by simp
        ultimately show ?thesis
          using IH [of code "Suc index" pending blocks' r] visited False by (simp add: take at)
      next
        case None
        obtain sr where sr: "scan_block code ?start [] pending blocks = Some sr"
          using eq False None by (auto simp: bind_eq_Some_conv)
        show ?thesis
        proof (cases sr)
          case (Inl e)
          have "\<exists>at. admit_at code at = Inl e" using sr Inl by (auto dest: scan_block_error)
          then show ?thesis using eq False None sr Inl by auto
        next
          case (Inr s)
          have sd: "scan_done code ?start pending blocks s"
            by (rule scan_block_done) (use sr Inr here in \<open>auto simp: scan_ready_def\<close>)
          have "\<exists>more. sn_pending s = pending @ more" using scan_block_pending sr Inr by blast
          then obtain more where more: "sn_pending s = pending @ more" ..
          have first: "?start = entry" if "blocks = []"
            using that visited inv False by (cases index; cases pending) (auto simp: cfg_inv_def)
          note scanned_block = cfg_inv_scanned [OF inv here(1) None _ sd]
          have "cfg_inv code entry (sn_pending s) (sn_blocks s @ [new_block ?start s])"
            and kept: "\<And>t. block_at t blocks \<Longrightarrow> block_at t (sn_blocks s)"
            using scanned_block more first by auto
          moreover have "ex code (Suc index) (sn_pending s) (sn_blocks s @ [new_block ?start s]) = Some r"
            using eq False None sr Inr sd by (auto simp: scan_done_def)
          moreover have "take (Suc index) (sn_pending s) = take (Suc index) pending"
            using more False by simp
          ultimately show ?thesis
            using IH [of code "Suc index" "sn_pending s" "sn_blocks s @ [new_block ?start s]" r] False visited more kept
            by (auto simp: take new_block_def split: sum.splits)
        qed
      qed
    qed
  qed
  with assms(2-4) show ?thesis by blast
qed

subsection \<open>The graph\<close>

lemma populate_prev_simps [simp]:
  "length (populate_prev blocks) = length blocks"
  "k < length blocks \<Longrightarrow> bb_start (populate_prev blocks ! k) = bb_start (blocks ! k)"
  "k < length blocks \<Longrightarrow> bb_end (populate_prev blocks ! k) = bb_end (blocks ! k)"
  "k < length blocks \<Longrightarrow> bb_insns (populate_prev blocks ! k) = bb_insns (blocks ! k)"
  "k < length blocks \<Longrightarrow> bb_next (populate_prev blocks ! k) = bb_next (blocks ! k)"
  "k < length blocks \<Longrightarrow> bb_exit (populate_prev blocks ! k) = bb_exit (blocks ! k)"
  by (simp_all add: populate_prev_def)

lemma populate_prev_map:
  "map bb_start (populate_prev blocks) = map bb_start blocks"
  "map block_pcs (populate_prev blocks) = map block_pcs blocks"
  by (auto intro!: nth_equalityI simp: block_pcs_def)

lemma populate_prev_wf:
  assumes "b \<in> set (populate_prev blocks)"
  obtains c where "c \<in> set blocks" "block_wf code b = block_wf code c" "bb_next b = bb_next c" "bb_start b = bb_start c"
proof -
  obtain k where "k < length blocks" "b = populate_prev blocks ! k"
    using assms by (auto simp: in_set_conv_nth)
  then show thesis
    using that [of "blocks ! k"] by (simp add: block_wf_def cong: option.case_cong)
qed

text \<open>What a graph of the code is.\<close>

definition cfg_wf :: "code_provider \<Rightarrow> u64 \<Rightarrow> cfg \<Rightarrow> bool" where
  "cfg_wf code entry g \<longleftrightarrow>
    cf_entry g = entry \<and> cf_blocks g \<noteq> [] \<and> bb_start (hd (cf_blocks g)) = entry
    \<and> distinct (map bb_start (cf_blocks g))
    \<and> (\<forall>b \<in> set (cf_blocks g). block_wf code b \<and> (\<forall>t \<in> set (bb_next b). block_at t (cf_blocks g)))
    \<and> (code_below_top code \<longrightarrow> distinct (concat (map block_pcs (cf_blocks g))))"

lemma build_cfg_wf:
  assumes "build_cfg code entry = Some (Inr g)"
  shows "cfg_wf code entry g"
proof -
  obtain blocks where ex: "explore code 0 [entry] [] = Some (Inr blocks)"
    and g: "g = \<lparr>cf_entry = entry, cf_blocks = populate_prev blocks\<rparr>"
    using assms by (auto simp: build_cfg_def split: option.splits)
  have "cfg_inv code entry [entry] []" by (simp add: cfg_inv_def)
  from explore_inv [OF ex this] obtain pending where inv: "cfg_inv code entry pending blocks"
    and all: "\<And>p. p \<in> set pending \<Longrightarrow> block_at p blocks" and start: "entry \<in> set pending"
    by auto
  have ne: "blocks \<noteq> []" using all [OF start] by auto
  have at: "block_at t (populate_prev blocks) = block_at t blocks" for t
    unfolding block_at_start using populate_prev_map(1) [of blocks] by (metis set_map)
  have ne': "populate_prev blocks \<noteq> []" using ne by (metis length_0_conv populate_prev_simps(1))
  have "bb_start (hd (populate_prev blocks)) = bb_start (hd blocks)"
    using ne populate_prev_simps(2) [of 0 blocks] by (simp only: hd_conv_nth [OF ne'] hd_conv_nth [OF ne]) simp
  then have hd: "bb_start (hd (populate_prev blocks)) = entry"
    using inv ne by (simp add: cfg_inv_def)
  have each: "block_wf code b \<and> (\<forall>t \<in> set (bb_next b). block_at t blocks)" if "b \<in> set (populate_prev blocks)" for b
    using that inv all by (elim populate_prev_wf [where code = code]) (auto simp: cfg_inv_def)
  have "distinct (map bb_start (populate_prev blocks))"
    "code_below_top code \<longrightarrow> distinct (concat (map block_pcs (populate_prev blocks)))"
    using inv by (simp_all add: cfg_inv_def populate_prev_map)
  then show ?thesis
    using hd each ne' by (simp add: cfg_wf_def g at)
qed

lemma rbind_eq_Inl: "rbind r f = Inl e \<longleftrightarrow> r = Inl e \<or> (\<exists>a. r = Inr a \<and> f a = Inl e)"
  by (cases r) auto

lemma build_cfg_errors:
  assumes "build_cfg code entry = Some (Inl e)"
  shows "code entry = None \<and> e = CeCodeRead entry \<or> (\<exists>at. admit_at code at = Inl e)"
proof (cases "code entry")
  case (Some w)
  then have "explore code 0 [entry] [] = Some (Inl e)"
    using assms by (auto simp: build_cfg_def rbind_eq_Inl)
  from explore_inv [OF this, of entry] show ?thesis by (simp add: cfg_inv_def)
qed (use assms in \<open>simp add: build_cfg_def\<close>)

end
