(* ===== verification/Layout.thy ===== *)
theory Layout
  imports RephraseProg CodeCache
begin

section \<open>Layout\<close>

text \<open>
  Models \<open>shared/emit/layout.rs\<close>: the words of a program behind the prologue and the epilogue, its
  labels, fault sites and link sites, and the branches resolved to them. A branch-target role is the
  immediate of \<open>branch_imm_field\<close>, its scale 2. Offsets are in bytes. The loop over the body words
  is \<open>place_blocks\<close>, its state the record \<open>layout\<close>.
\<close>

datatype (plugins only: code size) layout_error =
    LeEmptyProgram
  | LeMissingLabel u64
  | LeBranchOutOfRange nat u64
  | LeUnalignedBranchTarget nat u64
  | LeUnsupportedBranchField nat
  | LeMissingFaultStub nat u64
  | LeUntaggedUserAccess nat
  | LeDuplicateFaultStub u64
  | LeUntaggedPanWindow nat
  | LeMissingBudgetStub nat u64
  | LeUnguardedBackEdge nat u64
  | LeMalformedDispatchTemplate nat
  | LeMalformedLinkSlot nat
  | LeFallthroughNotAdjacent u64 u64

datatype reloc_kind = RkB | RkBCond | RkBl | RkCbz | RkCbnz | RkTbz | RkTbnz

fun reloc_kind_of :: "a64_insn \<Rightarrow> reloc_kind option" where
  "reloc_kind_of (Brn (BUncond _)) = Some RkB"
| "reloc_kind_of (Brn (BCond _ _)) = Some RkBCond"
| "reloc_kind_of (Brn (Bl _)) = Some RkBl"
| "reloc_kind_of (Brn (Cbz _ _ _)) = Some RkCbz"
| "reloc_kind_of (Brn (Cbnz _ _ _)) = Some RkCbnz"
| "reloc_kind_of (Brn (Tbz _ _ _ _)) = Some RkTbz"
| "reloc_kind_of (Brn (Tbnz _ _ _ _)) = Some RkTbnz"
| "reloc_kind_of _ = None"

record branch_reloc =
  br_index :: nat
  br_target :: u64
  br_kind :: reloc_kind
  br_checked :: bool
  br_same_component :: bool

subsection \<open>Labels\<close>

definition find_vlabel :: "(u64 \<times> nat) list \<Rightarrow> u64 \<Rightarrow> nat option" where
  "find_vlabel labels pc = map_option snd (List.find (\<lambda>l. fst l = pc) labels)"

definition insert_vlabel_once :: "u64 \<Rightarrow> nat \<Rightarrow> (u64 \<times> nat) list \<Rightarrow> (u64 \<times> nat) list" where
  "insert_vlabel_once pc off labels = (if find_vlabel labels pc = None then labels @ [(pc, off)] else labels)"

text \<open>The entry labels are sorted by distinct pcs: the binary search finds the label if there is one.\<close>

definition offset_for_pc :: "exec_fragment \<Rightarrow> u64 \<Rightarrow> nat option" where
  "offset_for_pc f pc = find_vlabel (ef_entry_labels f) pc"

definition body_offset_for_pc :: "exec_fragment \<Rightarrow> u64 \<Rightarrow> nat option" where
  "body_offset_for_pc f pc = find_vlabel (ef_vlabels f) pc"

definition fault_site_at :: "exec_fragment \<Rightarrow> nat \<Rightarrow> layout_fault_site option" where
  "fault_site_at f off = List.find (\<lambda>s. lf_access_offset s = off) (ef_fault_sites f)"

subsection \<open>Branches\<close>

definition branch_bits :: "a64_insn \<Rightarrow> nat option" where
  "branch_bits i = map_option snd (branch_imm_field i)"

definition encode_branch_delta :: "nat \<Rightarrow> nat \<Rightarrow> nat \<Rightarrow> nat \<Rightarrow> nat \<Rightarrow> u64 \<Rightarrow> layout_error + u32" where
  "encode_branch_delta source target scale n index pc =
    (if n = 0 \<or> n \<ge> 32 \<or> scale \<ge> 32 \<or> source \<ge> 2 ^ 63 \<or> target \<ge> 2 ^ 63 then Inl (LeBranchOutOfRange index pc)
     else
       let delta = int target - int source; scaled = delta div 2 ^ scale in
       if delta mod 2 ^ scale \<noteq> 0 then Inl (LeUnalignedBranchTarget index pc)
       else if scaled < - (2 ^ (n - 1)) \<or> scaled > 2 ^ (n - 1) - 1 then Inl (LeBranchOutOfRange index pc)
       else Inr (word_of_int (scaled mod 2 ^ n)))"

definition rewrite_branch_to_offset :: "nat \<Rightarrow> nat \<Rightarrow> u64 \<Rightarrow> a64_insn list \<Rightarrow> layout_error + a64_insn list" where
  "rewrite_branch_to_offset index target pc insns =
    (if index \<ge> length insns then Inl (LeBranchOutOfRange index pc)
     else case branch_bits (insns ! index) of
       None \<Rightarrow> Inl (LeUnsupportedBranchField index)
     | Some n \<Rightarrow>
         rbind (encode_branch_delta (index * 4) target 2 n index pc) (\<lambda>encoded.
           case set_branch_target_imm (insns ! index) encoded of
             Inl ReUnsupportedField \<Rightarrow> Inl (LeUnsupportedBranchField index)
           | Inl ReFieldOutOfRange \<Rightarrow> Inl (LeBranchOutOfRange index pc)
           | Inr i \<Rightarrow> Inr (insns[index := i])))"

definition branch_reloc_for ::
  "a64_insn \<Rightarrow> u64 \<Rightarrow> nat \<Rightarrow> bool \<Rightarrow> (u64 \<Rightarrow> bool) \<Rightarrow> branch_reloc option" where
  "branch_reloc_for i pc index checked same =
    (case (branch_imm_field i, reloc_kind_of i) of
       (Some (imm, n), Some kind) \<Rightarrow>
         (let target = pc + word_of_int (sign_extend_a64 (raw imm) n * 4)
          in Some \<lparr>br_index = index, br_target = target, br_kind = kind, br_checked = checked,
                   br_same_component = same target\<rparr>)
     | _ \<Rightarrow> None)"

subsection \<open>The body words\<close>

record layout =
  ly_insns :: "a64_insn list"
  ly_vlabels :: "(u64 \<times> nat) list"
  ly_sites :: "(nat \<times> u64) list"  \<comment> \<open>fault sites, the stubs not resolved yet\<close>
  ly_links :: "(nat \<times> u64) list"
  ly_relocs :: "branch_reloc list"
  ly_exits :: "nat list"
  ly_range :: "(nat \<times> u64) list"
  ly_budget :: "(nat \<times> u64) list"
  ly_align :: "(nat \<times> u64) list"
  ly_template :: "nat option"
  ly_misses :: "(nat \<times> nat \<times> u64) list"
  ly_slot :: "(nat \<times> nat) option"
  ly_checked :: "u64 option"

definition layout_start :: layout where
  "layout_start =
    \<lparr>ly_insns = KJIT_PROLOGUE @ KJIT_EPILOGUE, ly_vlabels = [], ly_sites = [], ly_links = [], ly_relocs = [],
     ly_exits = [], ly_range = [], ly_budget = [], ly_align = [], ly_template = None, ly_misses = [],
     ly_slot = None, ly_checked = None\<rparr>"

definition is_x13_wide_move_insn :: "a64_insn \<Rightarrow> bool" where
  "is_x13_wide_move_insn i \<longleftrightarrow> is_target_constant i"

definition check_link_slot :: "rinsn \<Rightarrow> layout \<Rightarrow> layout_error + layout" where
  "check_link_slot w s =
    (case ly_slot s of
       None \<Rightarrow> Inr s
     | Some (slot, moves) \<Rightarrow>
         if ri_kind w = KDispatchTarget \<and> is_x13_wide_move_insn (ri_insn w) \<and> moves < 4
         then Inr (s\<lparr>ly_slot := Some (slot, moves + 1)\<rparr>)
         else if ri_kind w = KDispatchLookup \<and> moves > 0 then Inr (s\<lparr>ly_slot := None\<rparr>)
         else Inl (LeMalformedLinkSlot slot))"

definition check_tags :: "rinsn \<Rightarrow> layout \<Rightarrow> layout_error + unit" where
  "check_tags w s =
    (let index = length (ly_insns s); window = (ri_kind w = KWindowAccess) in
     rbind (guard ((ri_kind w = KUserAccess) = is_unprivileged_access (ri_insn w)) (LeUntaggedUserAccess index)) (\<lambda>_.
     guard (\<not> (window \<noteq> is_pan_window_access (ri_insn w) \<or> (\<not> window \<and> fpsimd_mem (ri_insn w) \<noteq> None)
         \<or> msr_pan (ri_insn w) \<noteq> None)) (LeUntaggedPanWindow index)))"

fun is_compare_branch :: "a64_insn \<Rightarrow> bool" where
  "is_compare_branch (Brn (Cbz X64 _ _)) = True"
| "is_compare_branch (Brn (Cbnz X64 _ _)) = True"
| "is_compare_branch _ = False"

fun is_br_insn :: "a64_insn \<Rightarrow> bool" where
  "is_br_insn (Brn (Br _)) = True"
| "is_br_insn _ = False"

definition place_lookup :: "rinsn \<Rightarrow> layout \<Rightarrow> layout_error + layout" where
  "place_lookup w s =
    (let index = length (ly_insns s);
         start = (case ly_template s of None \<Rightarrow> index | Some k \<Rightarrow> k);
         position = index - start;
         miss = List.find (\<lambda>k. DISPATCH_TEMPLATE_MISS_BRANCHES ! k = position)
                  [0..<length DISPATCH_TEMPLATE_MISS_BRANCHES];
         is_last = (position + 1 = DISPATCH_TEMPLATE_LEN)
     in if position < DISPATCH_TEMPLATE_LEN \<and> (miss \<noteq> None) = is_compare_branch (ri_insn w)
           \<and> (is_last \<or> position + 1 = DISPATCH_TEMPLATE_VICTIM_PROBE) = is_br_insn (ri_insn w)
        then Inr (s\<lparr>ly_template := (if is_last then None else Some start),
                    ly_misses := ly_misses s @ (case miss of None \<Rightarrow> []
                      | Some k \<Rightarrow> [(index, start + DISPATCH_TEMPLATE_MISS_TARGETS ! k, ri_pc w)])\<rparr>)
        else Inl (LeMalformedDispatchTemplate index))"

text \<open>What a word of each kind adds to the tables.\<close>

definition note_word :: "(u64 \<Rightarrow> bool) \<Rightarrow> rinsn \<Rightarrow> layout \<Rightarrow> layout_error + layout" where
  "note_word same w s =
    (let index = length (ly_insns s); here = (index, ri_pc w); branches = (branch_bits (ri_insn w) \<noteq> None) in
     case ri_kind w of
       KUserAccess \<Rightarrow> Inr (s\<lparr>ly_sites := ly_sites s @ [(index * 4, ri_pc w)]\<rparr>)
     | KWindowAccess \<Rightarrow> Inr (s\<lparr>ly_sites := ly_sites s @ [(index * 4, ri_pc w)]\<rparr>)
     | KAlignCheck \<Rightarrow> Inr (if branches then s\<lparr>ly_align := ly_align s @ [here]\<rparr> else s)
     | KRangeCheck \<Rightarrow> Inr (if branches then s\<lparr>ly_range := ly_range s @ [here]\<rparr> else s)
     | KBudgetCheck \<Rightarrow>
         Inr (if branches then s\<lparr>ly_budget := ly_budget s @ [here], ly_checked := Some (ri_pc w)\<rparr> else s)
     | KLinkSlot target \<Rightarrow>
         if ri_insn w \<noteq> Sys Nop then Inl (LeMalformedLinkSlot index)
         else Inr (s\<lparr>ly_links := ly_links s @ [(index * 4, target)], ly_slot := Some (index, 0)\<rparr>)
     | KDispatchLookup \<Rightarrow> place_lookup w s
     | KRuntimeExitBranch \<Rightarrow> Inr (s\<lparr>ly_exits := ly_exits s @ [index]\<rparr>)
     | k \<Rightarrow>
         if is_user_semantic k then
           (case branch_reloc_for (ri_insn w) (ri_pc w) index (ly_checked s = Some (ri_pc w)) same of
              None \<Rightarrow> Inr s
            | Some r \<Rightarrow> Inr (s\<lparr>ly_relocs := ly_relocs s @ [r]\<rparr>))
         else Inr s)"

definition place_word :: "(u64 \<Rightarrow> bool) \<Rightarrow> rinsn \<Rightarrow> layout \<Rightarrow> layout_error + layout" where
  "place_word same w s =
    (let index = length (ly_insns s);
         s = s\<lparr>ly_vlabels := insert_vlabel_once (ri_pc w) (index * 4) (ly_vlabels s),
               ly_checked := (if ly_checked s \<noteq> Some (ri_pc w) then None else ly_checked s)\<rparr>
     in rbind (guard (\<not> (ri_kind w \<noteq> KDispatchLookup \<and> ly_template s \<noteq> None)) (LeMalformedDispatchTemplate index)) (\<lambda>_.
        rbind (check_link_slot w s) (\<lambda>s.
        rbind (check_tags w s) (\<lambda>_.
        rbind (note_word same w s) (\<lambda>s.
        Inr (s\<lparr>ly_insns := ly_insns s @ [ri_insn w]\<rparr>))))))"

definition same_component :: "rblock list \<Rightarrow> nat list \<Rightarrow> rblock \<Rightarrow> u64 \<Rightarrow> bool" where
  "same_component program order b target =
    (case block_containing order (\<lambda>k. rb_start (program ! k)) target of
       None \<Rightarrow> False
     | Some k \<Rightarrow> rb_component (program ! k) = rb_component b)"

definition place_blocks :: "rblock list \<Rightarrow> nat list \<Rightarrow> layout \<Rightarrow> layout_error + layout" where
  "place_blocks program order s =
    rfold (\<lambda>k. rfold (place_word (same_component program order (program ! k))) (rb_insns (program ! k))) order s"

definition check_fallthrough_adjacency :: "rblock list \<Rightarrow> nat list \<Rightarrow> layout_error + unit" where
  "check_fallthrough_adjacency program order =
    rfold (\<lambda>position _.
      (let b = program ! (order ! position) in
       guard (rb_end b \<in> set (rb_next b) \<longrightarrow>
           position + 1 < length order \<and> rb_start (program ! (order ! (position + 1))) = rb_end b)
         (LeFallthroughNotAdjacent (rb_start b) (rb_end b)))) [0..<length order] ()"

subsection \<open>The cold region\<close>

record cold_layout =
  co_insns :: "a64_insn list"
  co_stubs :: "(u64 \<times> nat) list"
  co_exits :: "nat list"
  co_group_start :: bool

definition place_cold :: "rinsn \<Rightarrow> cold_layout \<Rightarrow> layout_error + cold_layout" where
  "place_cold w c =
    (let index = length (co_insns c); ends = (ri_kind w = KRuntimeExitBranch) in
     rbind (guard (msr_pan (ri_insn w) = None \<and> lse_atomic (ri_insn w) = None \<and> fpsimd_mem (ri_insn w) = None)
       (LeUntaggedPanWindow index)) (\<lambda>_.
     rbind (guard (\<not> (co_group_start c \<and> find_vlabel (co_stubs c) (ri_pc w) \<noteq> None))
       (LeDuplicateFaultStub (ri_pc w))) (\<lambda>_.
     rbind (guard (\<not> is_unprivileged_access (ri_insn w)) (LeUntaggedUserAccess index)) (\<lambda>_.
     Inr \<lparr>co_insns = co_insns c @ [ri_insn w],
          co_stubs = (if co_group_start c then co_stubs c @ [(ri_pc w, index * 4)] else co_stubs c),
          co_exits = (if ends then co_exits c @ [index] else co_exits c), co_group_start = ends\<rparr>))))"

subsection \<open>Resolution\<close>

definition resolve_site :: "(u64 \<times> nat) list \<Rightarrow> nat \<times> u64 \<Rightarrow> layout_error + layout_fault_site list" where
  "resolve_site stubs site =
    (case site of (access, pc) \<Rightarrow>
       rbind (ok_or (find_vlabel stubs pc) (LeMissingFaultStub (access div 4) pc)) (\<lambda>stub.
       Inr [\<lparr>lf_access_offset = access, lf_stub_offset = stub, lf_ori_pc = pc\<rparr>]))"

definition resolve_to_stub ::
  "(nat \<Rightarrow> u64 \<Rightarrow> layout_error) \<Rightarrow> (u64 \<times> nat) list \<Rightarrow> nat \<times> u64 \<Rightarrow> a64_insn list \<Rightarrow> layout_error + a64_insn list" where
  "resolve_to_stub missing stubs branch insns =
    (case branch of (index, pc) \<Rightarrow>
       rbind (ok_or (find_vlabel stubs pc) (missing index pc)) (\<lambda>stub. rewrite_branch_to_offset index stub pc insns))"

definition resolve_miss :: "nat \<times> nat \<times> u64 \<Rightarrow> a64_insn list \<Rightarrow> layout_error + a64_insn list" where
  "resolve_miss branch insns =
    (case branch of (index, exit_index, pc) \<Rightarrow>
       rbind (guard (exit_index < length insns) (LeMalformedDispatchTemplate index)) (\<lambda>_.
       rewrite_branch_to_offset index (exit_index * 4) pc insns))"

definition resolve_exit :: "nat \<Rightarrow> a64_insn list \<Rightarrow> layout_error + a64_insn list" where
  "resolve_exit index insns = rewrite_branch_to_offset index EPILOGUE_OFFSET (- 1) insns"

definition resolve_reloc :: "(u64 \<times> nat) list \<Rightarrow> branch_reloc \<Rightarrow> a64_insn list \<Rightarrow> layout_error + a64_insn list" where
  "resolve_reloc labels r insns =
    rbind (ok_or (find_vlabel labels (br_target r)) (LeMissingLabel (br_target r))) (\<lambda>target.
    rbind (guard (\<not> (target \<le> br_index r * 4 \<and> br_same_component r \<and> \<not> br_checked r))
      (LeUnguardedBackEdge (br_index r) (br_target r))) (\<lambda>_.
    rewrite_branch_to_offset (br_index r) target (br_target r) insns))"

definition entry_labels_of :: "rblock list \<Rightarrow> (u64 \<times> nat) list \<Rightarrow> (u64 \<times> nat) list" where
  "entry_labels_of program labels =
    sort_key fst (List.map_filter (\<lambda>b. map_option (Pair (rb_start b)) (find_vlabel labels (rb_start b))) program)"

definition place_program :: "rblock list \<Rightarrow> nat list \<Rightarrow> layout_error + layout \<times> cold_layout" where
  "place_program program order =
    rbind (place_blocks program order layout_start) (\<lambda>s.
    rbind (case ly_slot s of None \<Rightarrow> Inr () | Some (slot, _) \<Rightarrow> Inl (LeMalformedLinkSlot slot)) (\<lambda>_.
    rbind (guard (ly_template s = None) (LeMalformedDispatchTemplate (length (ly_insns s)))) (\<lambda>_.
    rbind (rfold place_cold (concat (map (\<lambda>k. rb_cold (program ! k)) order))
      \<lparr>co_insns = ly_insns s, co_stubs = [], co_exits = ly_exits s, co_group_start = True\<rparr>) (\<lambda>c.
    Inr (s, c)))))"

definition resolve_stubs :: "layout \<Rightarrow> cold_layout \<Rightarrow> layout_error + layout_fault_site list \<times> a64_insn list" where
  "resolve_stubs s c =
    rbind (push_each (resolve_site (co_stubs c)) (ly_sites s)) (\<lambda>sites.
    rbind (rfold (resolve_to_stub LeMissingFaultStub (co_stubs c)) (ly_range s) (co_insns c)) (\<lambda>insns.
    rbind (rfold (resolve_to_stub LeMissingFaultStub (co_stubs c)) (ly_align s) insns) (\<lambda>insns.
    rbind (rfold resolve_miss (ly_misses s) insns) (\<lambda>insns.
    rbind (rfold (resolve_to_stub LeMissingBudgetStub (co_stubs c)) (ly_budget s) insns) (\<lambda>insns.
    Inr (sites, insns))))))"

definition layout_program :: "rblock list \<Rightarrow> layout_error + exec_fragment" where
  "layout_program program =
    (case program of
       [] \<Rightarrow> Inl LeEmptyProgram
     | b # _ \<Rightarrow>
         (let order = layout_block_order (map rb_start program) in
          rbind (check_fallthrough_adjacency program order) (\<lambda>_.
          rbind (place_program program order) (\<lambda>(s, c).
          rbind (resolve_stubs s c) (\<lambda>(sites, insns).
          (let labels = entry_labels_of program (ly_vlabels s) in
           rbind (ok_or (find_vlabel labels (rb_start b)) (LeMissingLabel (rb_start b))) (\<lambda>entry.
           rbind (rfold resolve_exit (co_exits c) insns) (\<lambda>insns.
           rbind (rfold (resolve_reloc (ly_vlabels s)) (ly_relocs s) insns) (\<lambda>insns.
           Inr \<lparr>ef_insns = insns, ef_entry_offset = entry, ef_vlabels = ly_vlabels s, ef_entry_labels = labels,
                ef_fault_sites = sites, ef_link_sites = ly_links s\<rparr>)))))))))"

subsection \<open>The compiler\<close>

datatype (plugins only: code size) compile_error =
    CmCfg cfg_error | CmRegVirt reg_virt_error | CmLayout layout_error

text \<open>\<open>compile_request\<close> of \<open>shared/trans/translate.rs\<close>; \<open>None\<close> is a panic or a loop that does not end.\<close>

definition compile_request :: "code_provider \<Rightarrow> u64 \<Rightarrow> (compile_error + exec_fragment) option" where
  "compile_request code entry_pc =
    Option.bind (build_cfg code entry_pc) (\<lambda>r.
      case r of
        Inl e \<Rightarrow> Some (Inl (CmCfg e))
      | Inr g \<Rightarrow>
          Option.bind (rephrase g) (\<lambda>program. Some
            (case virtualize_registers program of
               Inl e \<Rightarrow> Inl (CmRegVirt e)
             | Inr program \<Rightarrow>
                 (case layout_program program of Inl e \<Rightarrow> Inl (CmLayout e) | Inr f \<Rightarrow> Inr f))))"

end
