(* ===== verification/RephraseFacts.thy ===== *)
theory RephraseFacts
  imports CfgInv Layout
begin

section \<open>Layout order, and rephrasing never panics\<close>

subsection \<open>The layout order\<close>

lemma layout_block_order_simps [simp]:
  "set (layout_block_order starts) = {0..<length starts}" "distinct (layout_block_order starts)"
  "length (layout_block_order starts) = length starts"
  by (simp_all add: layout_block_order_def)

lemma layout_block_order_sorted: "sorted (map (\<lambda>k. starts ! k) (layout_block_order starts))"
  by (simp add: layout_block_order_def)

lemma sorted_takeWhile_mem:
  assumes "sorted (map f xs)" "k \<in> set xs" "f k \<le> (pc :: 'a :: linorder)"
  shows "k \<in> set (takeWhile (\<lambda>k. f k \<le> pc) xs)"
  using assms by (induction xs) auto

lemma sorted_last_max: "sorted (map f xs) \<Longrightarrow> k \<in> set xs \<Longrightarrow> (f k :: 'a :: linorder) \<le> f (last xs)"
  by (induction xs) auto

lemma block_containing_start:
  assumes "sorted (map f order)" "k \<in> set order" "inj_on f (set order)"
  shows "block_containing order f (f k) = Some k"
proof -
  let ?t = "takeWhile (\<lambda>j. f j \<le> f k) order"
  have k: "k \<in> set ?t" using assms(1,2) by (rule sorted_takeWhile_mem) simp
  then have ne: "?t \<noteq> []" by auto
  have "sorted (map f ?t)"
    using assms(1) by (metis takeWhile_eq_take take_map sorted_wrt_take)
  then have "f k \<le> f (last ?t)"
    using k by (rule sorted_last_max)
  moreover have "last ?t \<in> set ?t" using ne by simp
  then have "f (last ?t) \<le> f k" "last ?t \<in> set order"
    by (auto dest: set_takeWhileD)
  ultimately have "last ?t = k"
    using assms(2,3) by (auto dest: inj_onD)
  moreover have "last ?t = order ! (length ?t - 1)"
    using ne by (simp add: last_conv_nth takeWhile_nth)
  ultimately show ?thesis
    using ne by (simp add: block_containing_def)
qed

lemma layout_order_containing:
  assumes "distinct starts" "k < length starts"
  shows "block_containing (layout_block_order starts) (\<lambda>j. starts ! j) (starts ! k) = Some k"
  using block_containing_start [OF layout_block_order_sorted [of starts], of k] assms
  by (auto simp: inj_on_def nth_eq_iff_index_eq)

subsection \<open>Rephrasing\<close>

lemma successor_block_found:
  assumes "distinct (map bb_start blocks)" "block_at t blocks"
  shows "\<exists>k. successor_block blocks (layout_block_order (block_starts blocks)) t = Some k"
proof -
  obtain k where k: "k < length blocks" "bb_start (blocks ! k) = t"
    using assms(2) by (auto simp: block_at_def in_set_conv_nth)
  have nth: "block_containing order (\<lambda>j. bb_start (blocks ! j)) pc = block_containing order (\<lambda>j. block_starts blocks ! j) pc"
    if "set order \<subseteq> {0..<length blocks}" for order pc
  proof -
    have "takeWhile (\<lambda>j. bb_start (blocks ! j) \<le> pc) order = takeWhile (\<lambda>j. block_starts blocks ! j \<le> pc) order"
      using that by (intro takeWhile_cong) (auto simp: block_starts_def)
    then show ?thesis by (simp add: block_containing_def)
  qed
  have "block_containing (layout_block_order (block_starts blocks)) (\<lambda>j. bb_start (blocks ! j)) t = Some k"
    using layout_order_containing [of "block_starts blocks" k] assms(1) k
    by (simp add: nth block_starts_def)
  with k show ?thesis by (simp add: successor_block_def)
qed

lemma rephrase_blocks_keys: "map fst (rephrase_blocks blocks order component placed ks) = ks"
  by (induction ks arbitrary: placed) (auto split: prod.splits)

lemma those_Some: "(\<forall>x \<in> set xs. x \<noteq> None) \<Longrightarrow> those xs = Some (map the xs)"
  by (induction xs) auto

lemma rephrase_blocks_of:
  assumes "(k, b) \<in> set (rephrase_blocks blocks order component placed ks)"
  obtains placed' where
    "b = snd (rephrase_block (blocks ! k) (component k) (on_cycle blocks order component k) placed')"
  using assms by (induction ks arbitrary: placed) (auto split: prod.splits, metis snd_conv)

lemma rephrase_blocks_found:
  assumes "cfg_wf code entry g"
  obtains component where "body_components (cf_blocks g) (layout_block_order (block_starts (cf_blocks g))) = Some component"
proof -
  have "list_all (\<lambda>b. list_all (\<lambda>t. successor_block (cf_blocks g) (layout_block_order (block_starts (cf_blocks g))) t \<noteq> None)
      (body_targets b)) (cf_blocks g)"
    using assms by (auto simp: cfg_wf_def list_all_iff body_targets_def intro: successor_block_found)
  then show thesis
    using that by (simp add: body_components_def del: not_None_eq)
qed

lemma rephrase_Some:
  assumes "cfg_wf code entry g"
  obtains program where "rephrase g = Some program"
proof -
  let ?order = "layout_block_order (block_starts (cf_blocks g))"
  obtain component where c: "body_components (cf_blocks g) ?order = Some component"
    using rephrase_blocks_found [OF assms] .
  let ?done = "rephrase_blocks (cf_blocks g) ?order component [] ?order"
  have "fst ` set ?done = {0..<length (cf_blocks g)}"
    using rephrase_blocks_keys [of "cf_blocks g" ?order component "[]" ?order]
    by (metis layout_block_order_simps(1) length_map set_map block_starts_def)
  then have "\<forall>x \<in> set (map (map_of ?done) [0..<length (cf_blocks g)]). x \<noteq> None"
    by (auto simp: map_of_eq_None_iff simp del: not_None_eq)
  from those_Some [OF this] show thesis
    using that c by (simp add: rephrase_def Let_def)
qed

text \<open>What each block of a rephrased program is.\<close>

lemma rephrase_nth:
  assumes "rephrase g = Some program"
  shows "length program = length (cf_blocks g)"
    and "k < length program \<Longrightarrow> \<exists>component cycle placed. program ! k = snd (rephrase_block (cf_blocks g ! k) component cycle placed)"
proof -
  let ?order = "layout_block_order (block_starts (cf_blocks g))"
  obtain component where p: "those (map (map_of (rephrase_blocks (cf_blocks g) ?order component [] ?order))
      [0..<length (cf_blocks g)]) = Some program"
    using assms by (auto simp: rephrase_def Let_def split: option.splits)
  have those: "those xs = Some ys \<Longrightarrow> xs = map Some ys" for xs :: "'a option list" and ys
    by (induction xs arbitrary: ys) (auto split: option.splits)
  have m: "map (map_of (rephrase_blocks (cf_blocks g) ?order component [] ?order)) [0..<length (cf_blocks g)]
      = map Some program"
    using p by (rule those)
  then show len: "length program = length (cf_blocks g)" by (metis length_map length_upt minus_nat.diff_0)
  assume k: "k < length program"
  have "map_of (rephrase_blocks (cf_blocks g) ?order component [] ?order) k = Some (program ! k)"
    using arg_cong [OF m, of "\<lambda>xs. xs ! k"] k len by simp
  then have "(k, program ! k) \<in> set (rephrase_blocks (cf_blocks g) ?order component [] ?order)"
    by (rule map_of_SomeD)
  then show "\<exists>component cycle placed. program ! k = snd (rephrase_block (cf_blocks g ! k) component cycle placed)"
    by (elim rephrase_blocks_of) blast
qed

lemma compile_Some: "\<exists>r. compile_request code entry_pc = Some r"
proof -
  obtain r where r: "build_cfg code entry_pc = Some r"
    using build_cfg_returns by blast
  show ?thesis
  proof (cases r)
    case (Inr g)
    with r have "cfg_wf code entry_pc g" by (auto intro: build_cfg_wf)
    then obtain program where "rephrase g = Some program" by (rule rephrase_Some)
    with r Inr show ?thesis by (simp add: compile_request_def)
  qed (simp add: compile_request_def r)
qed


end
