(* ===== verification/EmitTotal.thy ===== *)
theory EmitTotal
  imports AdmitEmit RephraseFacts
begin

section \<open>The words of a graph are always virtualized\<close>

subsection \<open>Runs of words\<close>

text \<open>A run that is virtualized whatever follows it.\<close>

definition run_ok :: "bool \<Rightarrow> rinsn list \<Rightarrow> bool" where
  "run_ok cold ws \<longleftrightarrow> (\<forall>rest. succeeds (virtualize_insns rest cold) \<longrightarrow> succeeds (virtualize_insns (ws @ rest) cold))"

lemma run_ok_Nil [simp]: "run_ok cold []"
  by (simp add: run_ok_def)

lemma run_ok_append: "run_ok cold xs \<Longrightarrow> run_ok cold ys \<Longrightarrow> run_ok cold (xs @ ys)"
  by (simp add: run_ok_def)

lemma run_ok_words: "run_ok cold ws \<Longrightarrow> succeeds (virtualize_insns ws cold)"
  unfolding run_ok_def by (metis append_Nil2 virtualize_insns.simps(1))

lemma run_ok_singles:
  "(\<And>w. w \<in> set ws \<Longrightarrow> ri_kind w \<noteq> KRuntimeExitPayload \<and> succeeds (virtualize_insn w)) \<Longrightarrow> run_ok False ws"
proof (induction ws)
  case (Cons w ws)
  have "run_ok False [w]"
    using Cons.prems [of w] by (auto simp: run_ok_def)
  moreover have "run_ok False ws" using Cons by simp
  ultimately show ?case using run_ok_append [of False "[w]" ws] by simp
qed simp

subsection \<open>Exit groups\<close>

text \<open>A payload word that is written as it is: it does not capture, and its operands are runtime registers.\<close>

definition plain_payload :: "u64 \<Rightarrow> rinsn \<Rightarrow> bool" where
  "plain_payload pc w \<longleftrightarrow> ri_kind w = KRuntimeExitPayload \<and> ri_pc w = pc
    \<and> runtime_param0_capture_source (ri_insn w) = None \<and> succeeds (validate_runtime_exit_payload w)"

lemma group_plain: "plain_payload pc w \<Longrightarrow> succeeds (group_word pc w)"
  by (auto simp: plain_payload_def group_word_def)

lemma split_group_plain:
  "list_all (\<lambda>w. ri_kind w = KRuntimeExitPayload \<and> ri_pc w = pc) ws \<Longrightarrow>
    split_group pc (ws @ branch_to_stub pc # rest) = Inr (ws, branch_to_stub pc, rest)"
  by (induction ws) (simp_all add: branch_to_stub_def rword_def)

lemma captures_plain:
  "list_all (plain_payload pc) ws \<Longrightarrow> rfold (note_capture pc) ws found = Inr found"
  by (induction ws) (simp_all add: note_capture_def plain_payload_def)

lemma rfold_append_Inr: "rfold f xs s = Inr t \<Longrightarrow> rfold f (xs @ ys) s = rfold f ys t"
proof (induction xs arbitrary: s)
  case (Cons x xs)
  then obtain u where "f x s = Inr u" "rfold f xs u = Inr t" by auto
  with Cons.IH [of u] show ?case by simp
qed simp

lemma preserve_ok: "succeeds (emit_preserve_runtime_reserved_user_regs pc)"
  by (simp add: emit_preserve_runtime_reserved_user_regs_def push_each_def reg_virt_scratch_gpr_def
      pt_regs_x_slot_offset_def kdefs)

lemma group_ok:
  assumes "xs \<noteq> []" "\<And>w. w \<in> set xs \<Longrightarrow> plain_payload pc w" "\<And>w. w \<in> set zs \<Longrightarrow> plain_payload pc w"
    and "\<And>w. w \<in> set ys \<Longrightarrow> ri_kind w = KRuntimeExitPayload \<and> ri_pc w = pc
      \<and> runtime_param0_capture_source (ri_insn w) = Some source" "length ys \<le> 1"
    and "classify_reg source = RcDirect"
  shows "run_ok cold (xs @ ys @ zs @ [branch_to_stub pc])"
  unfolding run_ok_def
proof (intro allI impI)
  fix rest assume rest: "succeeds (virtualize_insns rest cold)"
  let ?ws = "xs @ ys @ zs"
  obtain x xs' where x: "xs = x # xs'" using assms(1) by (cases xs) auto
  have word: "ri_kind w = KRuntimeExitPayload \<and> ri_pc w = pc \<and> succeeds (group_word pc w)" if here: "w \<in> set ?ws" for w
  proof -
    consider "plain_payload pc w" | "w \<in> set ys" using here assms(2,3) by auto
    then show ?thesis
    proof cases
      case 1
      then show ?thesis using group_plain [of pc w] by (simp add: plain_payload_def)
    next
      case 2
      from assms(4) [OF this] show ?thesis by (simp add: group_word_def)
    qed
  qed
  then have kinds: "ri_kind w = KRuntimeExitPayload \<and> ri_pc w = pc" if "w \<in> set ?ws" for w
    using that by blast
  then have x_kind: "ri_kind x = KRuntimeExitPayload" "ri_pc x = pc" by (simp_all add: x)
  have split: "split_group pc (?ws @ branch_to_stub pc # rest) = Inr (?ws, branch_to_stub pc, rest)"
    by (rule split_group_plain) (use kinds in \<open>simp add: list_all_iff\<close>)
  have plain: "list_all (plain_payload pc) xs" "list_all (plain_payload pc) zs"
    using assms(2,3) by (simp_all add: list_all_iff)
  have mid: "rfold (note_capture pc) ys None = Inr (if ys = [] then None else Some source)"
    using assms(4,5) by (cases ys) (simp_all add: note_capture_def)
  have found: "rfold (note_capture pc) ?ws None = Inr (if ys = [] then None else Some source)"
    by (simp only: rfold_append_Inr [OF captures_plain [OF plain(1)]] rfold_append_Inr [OF mid] captures_plain [OF plain(2)])
  have capture: "succeeds (case if ys = [] then None else Some source of None \<Rightarrow> Inr []
      | Some source \<Rightarrow> emit_register_capture pc source RET_PARAM0_REG KRuntimeExitPayload)"
    using assms(6) by (simp add: emit_register_capture_def)
  have words: "succeeds (push_each (group_word pc) ?ws)" by (rule push_each_ok) (use word in blast)
  have "succeeds (emit_runtime_exit_group pc ?ws (branch_to_stub pc))"
    using preserve_ok [of pc] found capture words by (auto simp: emit_runtime_exit_group_def)
  with rest split x_kind show "succeeds (virtualize_insns ((xs @ ys @ zs @ [branch_to_stub pc]) @ rest) cold)"
    by (auto simp: x)
qed

lemma const_word:
  assumes "i \<in> set (mov_imm64 rd v)"
  obtains op hw imm where "i = Dp (MoveWide op X64 hw imm rd)" "op \<noteq> Movn"
  using assms by (auto simp: mov_imm64_def mov_word_def split: list.splits)

lemma mov_imm64_nonempty [simp]: "mov_imm64 rd v \<noteq> []"
  by (simp add: mov_imm64_def split: list.splits)

lemma exit_const_plain:
  assumes "w \<in> set (exit_const pc reg v)" "reg = RET_STATUS_REG \<or> reg = RET_PARAM0_REG \<or> reg = RET_PARAM1_REG"
  shows "plain_payload pc w"
proof -
  obtain i where i: "i \<in> set (mov_imm64 (reg_x reg) v)" "w = rword KRuntimeExitPayload pc i"
    using assms(1) by (auto simp: exit_const_def push_mov_imm64_def)
  from i(1) obtain op hw imm where "i = Dp (MoveWide op X64 hw imm (reg_x reg))" "op \<noteq> Movn" by (rule const_word)
  with i(2) assms(2) show ?thesis
    by (cases op) (auto simp: plain_payload_def rword_def runtime_param0_capture_source_def
        validate_runtime_exit_payload_def validate_payload_role_def require_reg_def get_reg_def
        runtime_field_is_owned_by_payload_def field_has_write_role_def is_runtime_return_reg_def)
qed

lemma miss_copy_plain: "plain_payload pc (rword KRuntimeExitPayload pc dispatch_miss_param0_copy)"
  by (simp add: plain_payload_def rword_def runtime_param0_capture_source_def dispatch_miss_param0_copy_def
      validate_runtime_exit_payload_def validate_payload_role_def require_reg_def get_reg_def
      is_dispatch_miss_param0_copy_def)

lemma exit_const_nonempty [simp]: "exit_const pc reg v \<noteq> []"
  by (simp add: exit_const_def push_mov_imm64_def)

lemma exit_consts_plain:
  "w \<in> set (exit_const pc RET_STATUS_REG v) \<Longrightarrow> plain_payload pc w"
  "w \<in> set (exit_const pc RET_PARAM0_REG v) \<Longrightarrow> plain_payload pc w"
  "w \<in> set (exit_const pc RET_PARAM1_REG v) \<Longrightarrow> plain_payload pc w"
  using exit_const_plain by auto

lemma classify_x8: "classify_reg (reg_x 8) = RcDirect"
  by (simp add: classify_reg_def is_runtime_return_reg_def reg_virt_is_stack_backed_def kdefs)

lemma plain_group_ok:
  assumes "xs \<noteq> []" "\<And>w. w \<in> set (xs @ zs) \<Longrightarrow> plain_payload pc w"
  shows "run_ok cold (xs @ zs @ [branch_to_stub pc])"
  using group_ok [of xs pc zs "[]" "reg_x 8" cold] assms classify_x8 by simp

lemma exit_groups_ok:
  "run_ok cold (native_resume_exit status pc param0)"
  "run_ok cold (dispatch_miss_exit pc status resume_pc)"
proof -
  show "run_ok cold (native_resume_exit status pc param0)"
    using plain_group_ok [of "exit_const pc RET_STATUS_REG (as_reg status)"
        "exit_const pc RET_PARAM0_REG param0 @ exit_const pc RET_PARAM1_REG pc" pc cold] exit_consts_plain
    unfolding native_resume_exit_def by fastforce
  show "run_ok cold (dispatch_miss_exit pc status resume_pc)"
    using plain_group_ok [of "exit_const pc RET_STATUS_REG (as_reg status)"
        "rword KRuntimeExitPayload pc dispatch_miss_param0_copy # exit_const pc RET_PARAM1_REG resume_pc" pc cold]
      exit_consts_plain miss_copy_plain
    unfolding dispatch_miss_exit_def by fastforce
qed


subsection \<open>Blocks\<close>

text \<open>An instruction the graph holds: decoded, and admitted.\<close>

definition ir_ok :: "ir_insn \<Rightarrow> bool" where
  "ir_ok i \<longleftrightarrow> admit_insn i = Inr () \<and> insn_near (ir_inner i)"

lemma admit_at_ok:
  assumes "admit_at code pc = Inr (Inr i)"
  shows "ir_ok i"
proof -
  from assms obtain w r where r: "admit_word w pc = Inr r" "(case r of Inl u \<Rightarrow> Inl (UxInsn u) | Inr i \<Rightarrow> Inr i) = Inr i"
    by (auto simp: admit_at_def split: option.splits)
  then have "admit_word w pc = Inr (Inr i)" by (cases r) auto
  then show ?thesis
    by (auto simp: admit_word_def ir_ok_def decode_word_def dest: decode_defined_near
        split: option.splits sum.splits if_splits)
qed

lemma insn_run_ok: "insn_run code pc is \<Longrightarrow> i \<in> set is \<Longrightarrow> ir_ok i"
  by (induction code pc "is" rule: insn_run.induct) (auto dest: admit_at_ok)

lemma admitted_plan:
  assumes "admit_insn i = Inr ()" "w \<in> set (rephrase_insn i)" "is_user_semantic (ri_kind w)"
  obtains p where "build_plan (ri_pc w) (ri_insn w) = Inr p"
proof -
  let ?f = "\<lambda>w (_ :: unit). rbind (build_plan (ri_pc w) (ri_insn w)) (\<lambda>_. Inr ())"
  have "succeeds (build_plan (ri_pc w) (ri_insn w))"
    if "rfold ?f ws () = Inr ()" "w \<in> set ws" for ws
    using that
  proof (induction ws)
    case (Cons v ws)
    then obtain p where "build_plan (ri_pc v) (ri_insn v) = Inr p" "rfold ?f ws () = Inr ()" by auto
    with Cons show ?case by auto
  qed simp
  from this [OF assms(1) [unfolded admit_insn_def]] assms(2,3) show thesis using that by auto
qed

lemma near_const: "i \<in> set (mov_imm64 rd v) \<Longrightarrow> enc rd < 32 \<Longrightarrow> insn_near i"
  by (erule const_word) (simp add: insn_near_def)

lemma rephrase_near:
  assumes "insn_near (ir_inner i)" "w \<in> set (rephrase_insn i)" "is_user_semantic (ri_kind w)"
  shows "insn_near (ri_insn w)"
proof -
  have const_near: "w \<in> set (push_mov_imm64 k pc rd v) \<Longrightarrow> enc rd < 32 \<Longrightarrow> insn_near (ri_insn w)" for k pc rd v
    by (auto simp: push_mov_imm64_def rword_def near_const)
  have nop: "insn_near (Sys Nop)" by (simp add: insn_near_def)
  show ?thesis
  proof (cases "pcrel_dest (ir_inner i)")
    case None
    show ?thesis
    proof (cases "runtime_exit_reason (ir_inner i) (ir_pc i)")
      case no_exit: None
      with None assms nop show ?thesis
        by (auto simp: rephrase_insn_def rword_def split: if_splits)
    next
      case (Some reason)
      with None assms(2,3) have "\<exists>v. w \<in> set (link_write (ir_pc i) v)"
        by (cases reason) (auto simp: rephrase_insn_def rword_def link_slot_word_def dispatch_target_capture_def
            dispatch_template_words_def dispatch_miss_exit_def exit_const_def push_mov_imm64_def branch_to_stub_def is_user_semantic_def)
      then show ?thesis by (auto simp: link_write_def kdefs intro: const_near)
    qed
  next
    case (Some rd)
    then have rd: "enc rd < 32" and pcrel: "pc_relative_address (ir_inner i) (ir_pc i) \<noteq> None"
      using assms(1) by (cases "ir_inner i" rule: pcrel_dest.cases; simp add: insn_near_def)+
    with Some assms(2) const_near show ?thesis by (auto simp: rephrase_insn_def)
  qed
qed

lemma user_words_ok:
  assumes "ir_ok i" "w \<in> set (rephrase_insn i)" "is_user_semantic (ri_kind w)"
  shows "succeeds (virtualize_insn w)"
proof -
  obtain p where "build_plan (ri_pc w) (ri_insn w) = Inr p"
    using assms admitted_plan unfolding ir_ok_def by blast
  then show ?thesis
    using user_semantic_emitted rephrase_near assms by (auto simp: virtualize_insn_def ir_ok_def)
qed

section \<open>A graph's program is always virtualized\<close>

lemma run_ok_Cons: "run_ok cold [w] \<Longrightarrow> run_ok cold ws \<Longrightarrow> run_ok cold (w # ws)"
  using run_ok_append [of cold "[w]" ws] by simp

lemma capture_ok: "succeeds (emit_register_capture pc source dest k)"
  using slot_offset_ok [OF classify_stack, of source]
  by (auto simp: emit_register_capture_def split: reg_class.split)

lemma capture_word_ok:
  "ri_kind (dispatch_target_capture pc source) \<noteq> KRuntimeExitPayload"
  "succeeds (virtualize_insn (dispatch_target_capture pc source))"
  using capture_ok
  by (simp_all add: dispatch_target_capture_def rword_def virtualize_insn_def is_user_semantic_def emit_dispatch_target_def
      mov_reg_def is_zero_reg_def e_uimm_def imm_unsigned_def)

lemma target_words_ok:
  assumes "w \<in> set (push_mov_imm64 KDispatchTarget pc (reg_x DISPATCH_TARGET_REG) v)"
  shows "ri_kind w \<noteq> KRuntimeExitPayload \<and> succeeds (virtualize_insn w)"
proof -
  obtain i where i: "i \<in> set (mov_imm64 (reg_x DISPATCH_TARGET_REG) v)" "w = rword KDispatchTarget pc i"
    using assms by (auto simp: push_mov_imm64_def)
  from i(1) obtain op hw imm where "i = Dp (MoveWide op X64 hw imm (reg_x DISPATCH_TARGET_REG))" "op \<noteq> Movn"
    by (rule const_word)
  with i(2) show ?thesis by (simp add: rword_def virtualize_insn_def is_user_semantic_def emit_dispatch_target_def)
qed

lemma fixed_words_ok:
  "w \<in> set (dispatch_template_words pc) \<Longrightarrow> ri_kind w \<noteq> KRuntimeExitPayload \<and> succeeds (virtualize_insn w)"
  "w = link_slot_word pc target \<Longrightarrow> ri_kind w \<noteq> KRuntimeExitPayload \<and> succeeds (virtualize_insn w)"
  "w \<in> set (budget_check pc) \<Longrightarrow> ri_kind w \<noteq> KRuntimeExitPayload \<and> succeeds (virtualize_insn w)"
  by (auto simp: dispatch_template_words_def link_slot_word_def budget_check_def rword_def virtualize_insn_def
      is_user_semantic_def)

lemma semantic_not_payload: "is_user_semantic k \<Longrightarrow> k \<noteq> KRuntimeExitPayload"
  by (auto simp: is_user_semantic_def)

lemma user_runs_ok:
  assumes "ir_ok i" "set ws \<subseteq> set (rephrase_insn i)" "\<forall>w \<in> set ws. is_user_semantic (ri_kind w)"
  shows "run_ok False ws"
  by (rule run_ok_singles) (use assms user_words_ok semantic_not_payload in blast)

lemma const_kind: "w \<in> set (push_mov_imm64 k pc rd v) \<Longrightarrow> ri_kind w = k"
  by (auto simp: push_mov_imm64_def rword_def)

lemma exit_run_ok:
  assumes "ir_ok i" "rephrase_insn i = rephrase_exit (ir_pc i) reason"
  shows "run_ok False (rephrase_insn i)"
proof -
  have link: "run_ok False (link_write (ir_pc i) v)" if "set (link_write (ir_pc i) v) \<subseteq> set (rephrase_insn i)" for v
    using assms(1) that by (rule user_runs_ok) (simp add: link_write_def const_kind is_user_semantic_def)
  have template: "run_ok False (dispatch_template_words pc)" for pc
    by (rule run_ok_singles) (rule fixed_words_ok(1))
  have capture: "run_ok False [dispatch_target_capture pc source]" for pc source
    by (rule run_ok_singles) (use capture_word_ok in simp)
  have slot: "run_ok False [link_slot_word pc target]" for pc target
    by (rule run_ok_singles) (use fixed_words_ok(2) in simp)
  have target: "run_ok False (push_mov_imm64 KDispatchTarget pc (reg_x DISPATCH_TARGET_REG) v)" for pc v
    by (rule run_ok_singles) (rule target_words_ok)
  show ?thesis
  proof (cases reason)
    case (RexBl target_pc resume_pc)
    with assms(2) link [of resume_pc] slot target template exit_groups_ok(2) show ?thesis
      by (simp add: run_ok_append run_ok_Cons subset_iff)
  next
    case (RexBlr target_reg resume_pc)
    with assms(2) link [of resume_pc] capture template exit_groups_ok(2) show ?thesis
      by (simp add: run_ok_append run_ok_Cons subset_iff)
  next
    case (RexBr target_reg)
    with assms(2) capture template exit_groups_ok(2) show ?thesis
      by (simp add: run_ok_append run_ok_Cons subset_iff)
  next
    case (RexRet lr_reg)
    with assms(2) capture template exit_groups_ok(2) show ?thesis
      by (simp add: run_ok_append run_ok_Cons subset_iff)
  next
    case (RexSvc imm16 resume_pc)
    have "runtime_param0_capture_source (mov_reg RET_PARAM0_REG 8) = Some (reg_x 8)"
      by (simp add: runtime_param0_capture_source_def mov_reg_def is_zero_reg_def e_uimm_def imm_unsigned_def)
    with group_ok [of "exit_const (ir_pc i) RET_STATUS_REG (as_reg RsSvc)" "ir_pc i"
        "exit_const (ir_pc i) RET_PARAM1_REG resume_pc"
        "[rword KRuntimeExitPayload (ir_pc i) (mov_reg RET_PARAM0_REG 8)]" "reg_x 8" False]
    show ?thesis
      using assms(2) RexSvc exit_consts_plain classify_x8 by (simp add: rword_def)
  next
    case (RexUnsupported a b)
    with assms(2) show ?thesis by simp
  qed
qed

lemma rephrase_run_ok:
  assumes "ir_ok i"
  shows "run_ok False (rephrase_insn i)"
proof -
  consider (exits) reason where "rephrase_insn i = rephrase_exit (ir_pc i) reason"
    | (user) "\<forall>w \<in> set (rephrase_insn i). is_user_semantic (ri_kind w)"
    by (cases "runtime_exit_reason (ir_inner i) (ir_pc i)";
        cases "pcrel_dest (ir_inner i)"; cases "pc_relative_address (ir_inner i) (ir_pc i)";
        auto simp: rephrase_insn_def rword_def is_user_semantic_def const_kind)
  then show ?thesis
    by cases (use assms exit_run_ok user_runs_ok in blast)+
qed

lemma lower_insns_ok:
  assumes "\<forall>i \<in> set is'. ir_ok i" "lower_insns cycle placed is' = (placed', body, cold)"
  shows "run_ok False body \<and> run_ok True cold"
  using assms
proof (induction is' arbitrary: placed placed' body cold)
  case (Cons i is')
  obtain p' bodies colds where rest: "lower_insns cycle (placed @ [ir_pc i]) is' = (p', bodies, colds)"
    by (cases "lower_insns cycle (placed @ [ir_pc i]) is'") auto
  obtain b c where first: "lower_insn cycle (placed @ [ir_pc i]) i = (b, c)"
    by (cases "lower_insn cycle (placed @ [ir_pc i]) i") auto
  have out: "body = b @ bodies" "cold = c @ colds" using Cons.prems(2) rest first by (simp_all add: Let_def)
  have "run_ok False (budget_check (ir_pc i))"
    by (rule run_ok_singles) (rule fixed_words_ok(3))
  with first Cons.prems(1) have "run_ok False b" "run_ok True c"
    by (auto simp: lower_insn_def Let_def split: if_splits intro!: run_ok_append rephrase_run_ok exit_groups_ok)
  with Cons.IH [OF _ rest] Cons.prems(1) show ?case
    unfolding out by (auto intro!: run_ok_append)
qed simp

lemma rephrase_block_ok:
  assumes "\<forall>i \<in> set (bb_insns b). ir_ok i"
  shows "succeeds (virtualize_block (snd (rephrase_block b component cycle placed)))"
proof -
  obtain placed' body cold where l: "lower_insns cycle placed (bb_insns b) = (placed', body, cold)"
    by (cases "lower_insns cycle placed (bb_insns b)") auto
  from lower_insns_ok [OF assms l] have ok: "run_ok False body" "run_ok True cold" by simp_all
  have "run_ok False (body @ (case bb_exit b of None \<Rightarrow> [] | Some u \<Rightarrow> exit_words u))"
    using ok(1) by (rule run_ok_append) (auto simp: exit_words_def exit_groups_ok split: option.splits)
  from run_ok_words [OF this] run_ok_words [OF ok(2)] show ?thesis
    by (auto simp: virtualize_block_def rephrase_block_def l)
qed

lemma virtualize_registers_ok:
  assumes "cfg_wf code entry g" "rephrase g = Some program"
  shows "succeeds (virtualize_registers program)"
proof -
  have "succeeds (virtualize_block b)" if here: "b \<in> set program" for b
  proof -
    obtain k where k: "k < length program" "b = program ! k" using here by (metis in_set_conv_nth)
    then obtain component cycle placed where
      "program ! k = snd (rephrase_block (cf_blocks g ! k) component cycle placed)"
      using rephrase_nth(2) [OF assms(2)] by blast
    moreover have "\<forall>i \<in> set (bb_insns (cf_blocks g ! k)). ir_ok i"
    proof -
      have "cf_blocks g ! k \<in> set (cf_blocks g)" using k(1) rephrase_nth(1) [OF assms(2)] by simp
      with assms(1) have "insn_run code (bb_start (cf_blocks g ! k)) (bb_insns (cf_blocks g ! k))"
        by (simp add: cfg_wf_def block_wf_def)
      then show ?thesis using insn_run_ok by blast
    qed
    ultimately show ?thesis using k(2) rephrase_block_ok by simp
  qed
  then have "succeeds (rbind (virtualize_block b) (\<lambda>b. Inr [b]))" if "b \<in> set program" for b
    using that by fastforce
  then show ?thesis unfolding virtualize_registers_def by (rule push_each_ok)
qed

end
