(* ===== verification/CompileErrors.thy ===== *)
theory CompileErrors
  imports AdmitErrors EmitTotal
begin

section \<open>How a translation fails\<close>

lemma admit_intrinsic:
  assumes "insn_near (ir_inner i)" "admit_insn i = Inl e"
  shows "is_instruction_intrinsic e"
proof -
  have "mild (admit_insn i)"
    unfolding admit_insn_def
    by (intro mild_rfold mild_rbind) (auto intro!: build_plan_mild intro: rephrase_near [OF assms(1)])
  with assms(2) show ?thesis by simp
qed

lemma admit_at_never_fails: "admit_at code pc \<noteq> Inl e"
proof (cases "code pc")
  case (Some w)
  have "admit_word w pc \<noteq> Inl e'" for e'
  proof (cases "decode_word w pc")
    case (Some i)
    then have "insn_near (ir_inner i)" by (auto simp: decode_word_def dest: decode_defined_near)
    with Some admit_intrinsic show ?thesis by (auto simp: admit_word_def split: sum.split)
  qed (simp add: admit_word_def)
  with Some show ?thesis by (auto simp: admit_at_def rbind_eq_Inl)
qed (simp add: admit_at_def)

lemma build_cfg_error: "build_cfg code entry = Some (Inl e) \<Longrightarrow> code entry = None \<and> e = CeCodeRead entry"
  using build_cfg_errors admit_at_never_fails by blast

text \<open>
  C32: The translation of readable code fails in the layout only: discovering blocks, checking
  instructions and mapping registers always succeed, whatever the code holds; an instruction the
  translator cannot lower ends its block with an exit instead. Otherwise the entry is not readable.
\<close>

theorem compile_fails_only_in_layout:
  assumes "compile_request code entry_pc = Some (Inl e)"
  shows "(code entry_pc = None \<and> e = CmCfg (CeCodeRead entry_pc)) \<or> (\<exists>le. e = CmLayout le)"
proof -
  obtain r where r: "build_cfg code entry_pc = Some r" using build_cfg_returns by blast
  show ?thesis
  proof (cases r)
    case (Inl ce)
    with r assms build_cfg_error [of code entry_pc ce] show ?thesis by (simp add: compile_request_def)
  next
    case (Inr g)
    with r have wf: "cfg_wf code entry_pc g" by (auto intro: build_cfg_wf)
    then obtain program where p: "rephrase g = Some program" by (rule rephrase_Some)
    from virtualize_registers_ok [OF wf p] r Inr p assms show ?thesis
      by (auto simp: compile_request_def split: sum.splits)
  qed
qed

theorem compile_fails_only_in_layout_witness:
  "\<exists>e. compile_request (\<lambda>_. None) 0 = Some (Inl e)
    \<and> (((\<lambda>_ :: u64. None :: u32 option) 0 = None \<and> e = CmCfg (CeCodeRead 0)) \<or> (\<exists>le. e = CmLayout le))"
proof -
  have "compile_request (\<lambda>_. None) 0 = Some (Inl (CmCfg (CeCodeRead 0)))"
    by (simp add: compile_request_def build_cfg_def)
  with compile_fails_only_in_layout [OF this] show ?thesis by blast
qed

end
