(* ===== verification/DemoProgram.thy ===== *)
theory DemoProgram
  imports CompileErrors VerifyTemplate
begin

section \<open>A program that compiles\<close>

text \<open>
  A concrete program, used by the witnesses: a loop that loads through the stack-backed x12 and branches
  back, so that its fragment has a fill, a user access, a budget check, two stubs and a back edge.
\<close>

definition demo_code :: code_provider where
  "demo_code pc = (if pc = 0x1000 then Some 0xF9400181 else if pc = 0x1004 then Some 0x17FFFFFF else None)"

definition demo_load :: ir_insn where
  "demo_load = \<lparr>ir_pc = 0x1000, ir_word = 0xF9400181,
    ir_inner = Mem (LdSt Ldr64 (reg_x 1) (MOffset (reg_x_sp 12) (ldst64_offset 0)))\<rparr>"

definition demo_back :: ir_insn where
  "demo_back = \<lparr>ir_pc = 0x1004, ir_word = 0x17FFFFFF, ir_inner = Brn (BUncond (imm_scaled_signed 0x3FFFFFF 26 2))\<rparr>"

definition demo_block :: bblock where
  "demo_block = \<lparr>bb_start = 0x1000, bb_end = 0x1008, bb_insns = [demo_load, demo_back], bb_prev = [0x1000],
    bb_next = [0x1000], bb_exit = None\<rparr>"

definition demo_graph :: cfg where
  "demo_graph = \<lparr>cf_entry = 0x1000, cf_blocks = [demo_block]\<rparr>"

lemma demo_code_decodes:
  "decode_defined 0xF9400181 = Some (ir_inner demo_load)" "decode_defined 0x17FFFFFF = Some (ir_inner demo_back)"
proof -
  have "decode_a64_insn 0xF9400181 = Some (ir_inner demo_load)" "decode_a64_insn 0x17FFFFFF = Some (ir_inner demo_back)"
    by (simp_all only: decode_chunks)
      (simp_all add: decode_eval template_defs kdefs reg_defs imm_defs build_defs demo_load_def demo_back_def
        del: first_row.simps(2))
  then show "decode_defined 0xF9400181 = Some (ir_inner demo_load)" "decode_defined 0x17FFFFFF = Some (ir_inner demo_back)"
    by (simp_all add: decode_defined_def demo_load_def demo_back_def)
qed

lemma demo_admitted: "admit_insn demo_load = Inr ()" "admit_insn demo_back = Inr ()"
  by code_simp+

lemma demo_admit_at: "admit_at demo_code 0x1000 = Inr (Inr demo_load)" "admit_at demo_code 0x1004 = Inr (Inr demo_back)"
  using demo_admitted
  by (simp_all add: admit_at_def demo_code_def admit_word_def decode_word_def demo_code_decodes demo_load_def demo_back_def)

lemma demo_ends: "ends_block demo_load pending = None" "ends_block demo_back pending = Some ([0x1000], enqueue_block 0x1000 pending)"
  by (simp_all add: ends_block_def conditional_targets_def demo_load_def demo_back_def pc_relative_target_def imm_scaled_signed_def sign_extend_a64_def)

lemma demo_code_scan:
  "scan_block demo_code 0x1000 [] [0x1000] [] =
    Some (Inr \<lparr>sn_next = [0x1000], sn_exit = None, sn_end = 0x1008, sn_insns = [demo_load, demo_back],
      sn_pending = [0x1000], sn_blocks = []\<rparr>)"
  by (simp add: scan_block.simps demo_admit_at demo_ends ensure_block_boundary_def enqueue_block_def)

lemma demo_build: "build_cfg demo_code 0x1000 = Some (Inr demo_graph)"
proof -
  have "explore demo_code 0 [0x1000] [] = Some (Inr [demo_block\<lparr>bb_prev := []\<rparr>])"
    by (simp add: explore.simps demo_code_scan ensure_block_boundary_def new_block_def demo_block_def)
  then show ?thesis
    by (simp add: build_cfg_def populate_prev_def predecessors_def demo_graph_def demo_block_def demo_code_def)
qed


definition demo_program :: "rblock list" where
  "demo_program = [\<lparr>rb_start = 0x1000, rb_end = 0x1008, rb_component = Some 0, rb_prev = [0x1000], rb_next = [0x1000],
    rb_insns = [rword KOriginal 0x1000 (ir_inner demo_load)] @ budget_check 0x1004 @ [rword KOriginal 0x1004 (ir_inner demo_back)],
    rb_cold = native_resume_exit RsMem 0x1000 0xF9400181 @ native_resume_exit RsBudget 0x1004 0x17FFFFFF\<rparr>]"

lemma demo_rephrased: "rephrase demo_graph = Some demo_program"
  by code_simp

definition demo_saves :: "u64 \<Rightarrow> rinsn list" where
  "demo_saves pc = map (rword KRegVirtHelper pc)
    (Mem (LdSt Ldr64 (reg_x 12) (MOffset reg_sp (ldst64_offset 176)))
     # map (\<lambda>n. Mem (LdSt Str64 (reg_x n) (MOffset (reg_x 12) (ldst64_offset (8 * n))))) [9, 10, 11])"

definition demo_virtual :: "rblock list" where
  "demo_virtual = [\<lparr>rb_start = 0x1000, rb_end = 0x1008, rb_component = Some 0, rb_prev = [0x1000], rb_next = [0x1000],
    rb_insns =
      [rword KRegVirtHelper 0x1000 (Mem (LdSt Ldr64 (reg_x 12) (MOffset reg_sp (ldst64_offset 16)))),
       rword KUserAccess 0x1000 (Mem (LdStUnpriv Ldr64 (reg_x 1) (MOffset (reg_x_sp 12) (imm_signed 0 9))))]
      @ budget_check 0x1004 @ [rword KOriginal 0x1004 (ir_inner demo_back)],
    rb_cold = demo_saves 0x1000 @ native_resume_exit RsMem 0x1000 0xF9400181
      @ demo_saves 0x1004 @ native_resume_exit RsBudget 0x1004 0x17FFFFFF\<rparr>]"

lemma demo_virtualized: "virtualize_registers demo_program = Inr demo_virtual"
  by code_simp

end
