(* ===== verification/CfgProps.thy ===== *)
theory CfgProps
  imports CfgInv DemoProgram
begin

section \<open>Properties of block discovery\<close>

text \<open>
  C10: the graph block discovery returns is closed and exact: its blocks start at distinct pcs, the entry's
  first; each holds the admitted instructions of consecutive code words up to a branch, an exit or the start
  of another block; every successor starts a block; and, below the top of the address space, no instruction
  is in two blocks.
\<close>

theorem cfg_closed:
  assumes "build_cfg code entry = Some (Inr g)"
  shows "cfg_wf code entry g"
  using assms by (rule build_cfg_wf)

theorem cfg_closed_witness: "cfg_wf demo_code 0x1000 demo_graph"
  by (rule cfg_closed [OF demo_build])

end
