(* ===== verification/RelocFacts.thy ===== *)
theory RelocFacts
  imports CompileErrors
begin

section \<open>Relocated branches\<close>

text \<open>The target of a branch at an offset, whatever address the fragment is loaded at.\<close>

definition jumps_to :: "a64_insn \<Rightarrow> nat \<Rightarrow> nat \<Rightarrow> bool" where
  "jumps_to i off target \<longleftrightarrow>
    (\<exists>imm n. branch_imm_field i = Some (imm, n)
      \<and> (\<forall>base. pc_relative_target (base + of_nat off) (raw imm) n = base + of_nat target))"

text \<open>The same instruction but for the immediate of its branch.\<close>

definition retargeted :: "a64_insn \<Rightarrow> a64_insn \<Rightarrow> bool" where
  "retargeted i j \<longleftrightarrow> i = j \<or> (\<exists>e. set_branch_target_imm i e = Inr j)"

lemma encode_delta_value:
  assumes "encode_branch_delta source target 2 n index pc = Inr e"
  shows "sign_extend_a64 e n * 4 = int target - int source" "unat e < 2 ^ n"
proof -
  have n: "0 < n" "n < 32" and div4: "(int target - int source) mod 4 = 0"
    and range: "- (2 ^ (n - 1)) \<le> (int target - int source) div 4" "(int target - int source) div 4 \<le> 2 ^ (n - 1) - 1"
    and e: "e = word_of_int (((int target - int source) div 4) mod 2 ^ n)"
    using assms by (auto simp: encode_branch_delta_def Let_def split: if_splits)
  let ?s = "(int target - int source) div 4"
  have small: "?s mod 2 ^ n < 2 ^ 32" "0 \<le> ?s mod 2 ^ n"
    using order_less_trans [OF pos_mod_bound [of "2 ^ n" ?s] power_strict_increasing [of n 32 "2 :: int"]] n by simp_all
  then have u: "uint e = ?s mod 2 ^ n" by (simp add: e take_bit_int_eq_self unsigned_of_int)
  have "signed_take_bit (n - 1) (?s mod 2 ^ n) = signed_take_bit (n - 1) ?s"
    using n by (simp only: take_bit_eq_mod [symmetric] signed_take_bit_take_bit) simp
  also have "\<dots> = ?s"
    using range by (intro signed_take_bit_int_eq_self) auto
  finally have "sign_extend_a64 e n = ?s" by (simp add: sign_extend_a64_def u)
  with div4 show "sign_extend_a64 e n * 4 = int target - int source" by auto
  have "int (unat e) < 2 ^ n" using u pos_mod_bound [of "2 ^ n" ?s] by simp
  then show "unat e < 2 ^ n" by (metis of_nat_less_iff of_nat_numeral of_nat_power)
qed


lemma branch_set_imm_field:
  "branch_imm_field (Brn b) = Some (imm, n) \<Longrightarrow> branch_imm_field (Brn (branch_set_imm b i)) = Some (i, n)"
  by (cases b) auto

lemma set_branch_target:
  assumes "set_branch_target_imm i e = Inr j"
  obtains imm n where "branch_imm_field i = Some (imm, n)" "branch_imm_field j = Some (imm_scaled_signed e n 2, n)"
    "unat e < 2 ^ n"
  using assms
  by (auto simp: set_branch_target_imm_def branch_set_imm_field split: a64_insn.splits option.splits if_splits)

lemma raw_scaled_signed [simp]: "raw (imm_scaled_signed e n k) = e"
  by (simp add: imm_scaled_signed_def)

lemma branch_set_imm_twice: "branch_set_imm (branch_set_imm b i) i' = branch_set_imm b i'"
  by (cases b) auto

lemma set_branch_twice:
  assumes "set_branch_target_imm i e = Inr j"
  shows "set_branch_target_imm j e' = set_branch_target_imm i e'"
proof (cases i)
  case (Brn b)
  obtain imm n where "branch_imm_field (Brn b) = Some (imm, n)" "j = Brn (branch_set_imm b (imm_scaled_signed e n 2))"
    using assms by (auto simp: set_branch_target_imm_def Brn split: option.splits if_splits)
  with Brn show ?thesis
    by (simp add: set_branch_target_imm_def branch_set_imm_field branch_set_imm_twice)
qed (use assms in \<open>simp_all add: set_branch_target_imm_def\<close>)

lemma retargeted_trans: "retargeted i j \<Longrightarrow> set_branch_target_imm j e = Inr k \<Longrightarrow> retargeted i k"
  by (auto simp: retargeted_def set_branch_twice)

lemma encode_jumps:
  assumes "encode_branch_delta source target 2 n index pc = Inr e" "set_branch_target_imm i e = Inr j" "branch_bits i = Some n"
  shows "jumps_to j source target"
proof -
  obtain imm where j: "branch_imm_field j = Some (imm_scaled_signed e n 2, n)"
    using assms(2,3) by (auto elim!: set_branch_target simp: branch_bits_def)
  have "sign_extend_a64 e n * 4 = int target - int source" using encode_delta_value [OF assms(1)] by simp
  then have "word_of_int (sign_extend_a64 e n * 4) = (of_nat target - of_nat source :: u64)" by simp
  with j show ?thesis by (auto simp: jumps_to_def pc_relative_target_def)
qed

text \<open>What a rewrite does to the words.\<close>

lemma rewrite_branch:
  assumes "rewrite_branch_to_offset index target pc insns = Inr insns'"
  shows "index < length insns" "length insns' = length insns" "jumps_to (insns' ! index) (4 * index) target"
    "k \<noteq> index \<Longrightarrow> insns' ! k = insns ! k"
    "\<exists>e. set_branch_target_imm (insns ! index) e = Inr (insns' ! index)"
proof -
  obtain n e where ne: "index < length insns" "branch_bits (insns ! index) = Some n"
    "encode_branch_delta (index * 4) target 2 n index pc = Inr e"
    using assms by (auto simp: rewrite_branch_to_offset_def split: if_splits option.splits)
  obtain j where "set_branch_target_imm (insns ! index) e = Inr j" "insns' = insns[index := j]"
    using assms ne
    by (cases "set_branch_target_imm (insns ! index) e")
      (auto simp: rewrite_branch_to_offset_def split: rewrite_error.splits)
  note st = ne this
  then show "index < length insns" "length insns' = length insns" "k \<noteq> index \<Longrightarrow> insns' ! k = insns ! k"
    "\<exists>e. set_branch_target_imm (insns ! index) e = Inr (insns' ! index)" by auto
  from encode_jumps [OF st(3,4,2)] st(1,5) show "jumps_to (insns' ! index) (4 * index) target"
    by (simp add: mult.commute)
qed

text \<open>
  C33: A relocated branch jumps to exactly the offset it is relocated to, wherever the fragment is
  loaded; the rewrite changes no other word, and nothing of the branch but its immediate.
\<close>

theorem rewritten_branch_jumps:
  assumes "rewrite_branch_to_offset index target pc insns = Inr insns'"
  shows "jumps_to (insns' ! index) (4 * index) target
    \<and> retargeted (insns ! index) (insns' ! index) \<and> length insns' = length insns
    \<and> list_all (\<lambda>k. k = index \<or> insns' ! k = insns ! k) [0..<length insns]"
  using rewrite_branch [OF assms] by (auto simp: retargeted_def list_all_iff)

end
