(* ===== verification/LayoutSteps.thy ===== *)
theory LayoutSteps
  imports RelocFacts
begin

section \<open>What the layout places\<close>

subsection \<open>One word\<close>

definition is_access :: "rinsn \<Rightarrow> bool" where
  "is_access w \<longleftrightarrow> ri_kind w = KUserAccess \<or> ri_kind w = KWindowAccess"

definition is_check :: "rkind \<Rightarrow> rinsn \<Rightarrow> bool" where
  "is_check k w \<longleftrightarrow> ri_kind w = k \<and> branch_imm_field (ri_insn w) \<noteq> None"

definition is_exit :: "rinsn \<Rightarrow> bool" where
  "is_exit w \<longleftrightarrow> ri_kind w = KRuntimeExitBranch"

text \<open>The relocation of a user branch.\<close>

definition user_reloc :: "(u64 \<Rightarrow> bool) \<Rightarrow> rinsn \<Rightarrow> nat \<Rightarrow> bool \<Rightarrow> branch_reloc option" where
  "user_reloc same w index checked =
    (if is_user_semantic (ri_kind w) then branch_reloc_for (ri_insn w) (ri_pc w) index checked same else None)"

lemma opt_list_simps [simp]: "opt_list None = []" "opt_list (Some a) = [a]"
  by (simp_all add: opt_list_def)

definition check_state :: "rinsn \<Rightarrow> u64 option \<Rightarrow> u64 option" where
  "check_state w checked =
    (if is_check KBudgetCheck w then Some (ri_pc w) else if checked = Some (ri_pc w) then checked else None)"

lemma note_word_step:
  assumes "note_word same w s = Inr s'"
  shows "ly_insns s' = ly_insns s" "ly_vlabels s' = ly_vlabels s"
    "ly_sites s' = ly_sites s @ (if is_access w then [(length (ly_insns s) * 4, ri_pc w)] else [])"
    "ly_range s' = ly_range s @ (if is_check KRangeCheck w then [(length (ly_insns s), ri_pc w)] else [])"
    "ly_align s' = ly_align s @ (if is_check KAlignCheck w then [(length (ly_insns s), ri_pc w)] else [])"
    "ly_budget s' = ly_budget s @ (if is_check KBudgetCheck w then [(length (ly_insns s), ri_pc w)] else [])"
    "ly_exits s' = ly_exits s @ (if is_exit w then [length (ly_insns s)] else [])"
    "ly_relocs s' = ly_relocs s @ opt_list (user_reloc same w (length (ly_insns s)) (ly_checked s = Some (ri_pc w)))"
    "ly_checked s' = (if is_check KBudgetCheck w then Some (ri_pc w) else ly_checked s)"
    "\<exists>ms. ly_misses s' = ly_misses s @ ms \<and> length ms \<le> 1 \<and> (\<forall>m \<in> set ms. fst m = length (ly_insns s) \<and> ri_kind w = KDispatchLookup)"
proof -
  note defs = is_access_def is_check_def is_exit_def user_reloc_def is_user_semantic_def branch_bits_def note_word_def
    place_lookup_def Let_def
  show "ly_insns s' = ly_insns s" "ly_vlabels s' = ly_vlabels s"
    "ly_sites s' = ly_sites s @ (if is_access w then [(length (ly_insns s) * 4, ri_pc w)] else [])"
    "ly_range s' = ly_range s @ (if is_check KRangeCheck w then [(length (ly_insns s), ri_pc w)] else [])"
    "ly_align s' = ly_align s @ (if is_check KAlignCheck w then [(length (ly_insns s), ri_pc w)] else [])"
    "ly_budget s' = ly_budget s @ (if is_check KBudgetCheck w then [(length (ly_insns s), ri_pc w)] else [])"
    "ly_exits s' = ly_exits s @ (if is_exit w then [length (ly_insns s)] else [])"
    "ly_checked s' = (if is_check KBudgetCheck w then Some (ri_pc w) else ly_checked s)"
    "ly_relocs s' = ly_relocs s @ opt_list (user_reloc same w (length (ly_insns s)) (ly_checked s = Some (ri_pc w)))"
    using assms by (cases "ri_kind w"; auto simp: defs split: if_splits option.splits)+
  show "\<exists>ms. ly_misses s' = ly_misses s @ ms \<and> length ms \<le> 1 \<and> (\<forall>m \<in> set ms. fst m = length (ly_insns s) \<and> ri_kind w = KDispatchLookup)"
    using assms by (cases "ri_kind w"; auto simp: defs split: if_splits option.splits)
qed


definition well_tagged :: "rinsn \<Rightarrow> bool" where
  "well_tagged w \<longleftrightarrow>
    (ri_kind w = KUserAccess \<longleftrightarrow> is_unprivileged_access (ri_insn w))
    \<and> (ri_kind w = KWindowAccess \<longleftrightarrow> is_pan_window_access (ri_insn w))
    \<and> (fpsimd_mem (ri_insn w) \<noteq> None \<longrightarrow> ri_kind w = KWindowAccess) \<and> msr_pan (ri_insn w) = None"

lemma check_tags_ok: "check_tags w s = Inr u \<Longrightarrow> well_tagged w"
  by (auto simp: check_tags_def well_tagged_def Let_def)

lemma check_link_slot_keeps: "check_link_slot w s = Inr s' \<Longrightarrow> \<exists>slot. s' = s\<lparr>ly_slot := slot\<rparr>"
  by (auto simp: check_link_slot_def split: option.splits if_splits prod.splits intro: exI [of _ "ly_slot s"])

lemma place_word_step:
  assumes "place_word same w s = Inr s'"
  shows "ly_insns s' = ly_insns s @ [ri_insn w]"
    "ly_vlabels s' = insert_vlabel_once (ri_pc w) (length (ly_insns s) * 4) (ly_vlabels s)"
    "ly_sites s' = ly_sites s @ (if is_access w then [(length (ly_insns s) * 4, ri_pc w)] else [])"
    "ly_range s' = ly_range s @ (if is_check KRangeCheck w then [(length (ly_insns s), ri_pc w)] else [])"
    "ly_align s' = ly_align s @ (if is_check KAlignCheck w then [(length (ly_insns s), ri_pc w)] else [])"
    "ly_budget s' = ly_budget s @ (if is_check KBudgetCheck w then [(length (ly_insns s), ri_pc w)] else [])"
    "ly_exits s' = ly_exits s @ (if is_exit w then [length (ly_insns s)] else [])"
    "ly_relocs s' = ly_relocs s @ opt_list (user_reloc same w (length (ly_insns s)) (ly_checked s = Some (ri_pc w)))"
    "ly_checked s' = check_state w (ly_checked s)"
    "\<exists>ms. ly_misses s' = ly_misses s @ ms \<and> length ms \<le> 1 \<and> (\<forall>m \<in> set ms. fst m = length (ly_insns s) \<and> ri_kind w = KDispatchLookup)"
    "well_tagged w"
proof -
  let ?s = "s\<lparr>ly_vlabels := insert_vlabel_once (ri_pc w) (length (ly_insns s) * 4) (ly_vlabels s),
      ly_checked := (if ly_checked s \<noteq> Some (ri_pc w) then None else ly_checked s)\<rparr>"
  obtain s1 s2 where st: "check_link_slot w ?s = Inr s1" "check_tags w s1 = Inr ()" "note_word same w s1 = Inr s2"
    "s' = s2\<lparr>ly_insns := ly_insns s2 @ [ri_insn w]\<rparr>"
    using assms by (auto simp: place_word_def Let_def)
  obtain slot where s1: "s1 = ?s\<lparr>ly_slot := slot\<rparr>" using check_link_slot_keeps [OF st(1)] by blast
  note n = note_word_step [OF st(3), unfolded s1, simplified]
  show "ly_insns s' = ly_insns s @ [ri_insn w]"
    "ly_vlabels s' = insert_vlabel_once (ri_pc w) (length (ly_insns s) * 4) (ly_vlabels s)"
    "ly_sites s' = ly_sites s @ (if is_access w then [(length (ly_insns s) * 4, ri_pc w)] else [])"
    "ly_range s' = ly_range s @ (if is_check KRangeCheck w then [(length (ly_insns s), ri_pc w)] else [])"
    "ly_align s' = ly_align s @ (if is_check KAlignCheck w then [(length (ly_insns s), ri_pc w)] else [])"
    "ly_budget s' = ly_budget s @ (if is_check KBudgetCheck w then [(length (ly_insns s), ri_pc w)] else [])"
    "ly_exits s' = ly_exits s @ (if is_exit w then [length (ly_insns s)] else [])"
    using n(1-7) by (simp_all add: st(4))
  show "ly_relocs s' = ly_relocs s @ opt_list (user_reloc same w (length (ly_insns s)) (ly_checked s = Some (ri_pc w)))"
    using n(8) by (cases "ly_checked s = Some (ri_pc w)") (simp_all add: st(4))
  show "ly_checked s' = check_state w (ly_checked s)"
    using n(9) by (simp add: st(4) check_state_def)
  show "\<exists>ms. ly_misses s' = ly_misses s @ ms \<and> length ms \<le> 1 \<and> (\<forall>m \<in> set ms. fst m = length (ly_insns s) \<and> ri_kind w = KDispatchLookup)"
    using n(10) by (simp add: st(4))
  show "well_tagged w" using st(2) by (rule check_tags_ok)
qed

subsection \<open>Positions\<close>

text \<open>The words of the wrapper come first.\<close>

definition wrapper_len :: nat where
  "wrapper_len = length (KJIT_PROLOGUE @ KJIT_EPILOGUE)"

lemma wrapper_len: "wrapper_len = 77"
  by (simp add: wrapper_len_def KJIT_PROLOGUE_def KJIT_EPILOGUE_def)

definition positions :: "(rinsn \<Rightarrow> bool) \<Rightarrow> rinsn list \<Rightarrow> (nat \<times> u64) list" where
  "positions P ws = map (\<lambda>(j, w). (j, ri_pc w)) (filter (\<lambda>(j, w). P w) (enumerate wrapper_len ws))"

lemma positions_Nil [simp]: "positions P [] = []"
  by (simp add: positions_def)

lemma positions_snoc:
  "positions P (ws @ [w]) = positions P ws @ (if P w then [(wrapper_len + length ws, ri_pc w)] else [])"
  by (simp add: positions_def enumerate_append_eq)

lemma positions_in:
  "(j, pc) \<in> set (positions P ws) \<longleftrightarrow> (\<exists>k < length ws. j = wrapper_len + k \<and> P (ws ! k) \<and> pc = ri_pc (ws ! k))"
proof (induction ws rule: rev_induct)
  case (snoc w ws)
  then show ?case
    by (auto simp: positions_snoc nth_append less_Suc_eq)
qed simp

lemma positions_bound: "x \<in> fst ` set (positions P ws) \<Longrightarrow> wrapper_len \<le> x \<and> x < wrapper_len + length ws"
  by (force simp: positions_in)

lemma positions_sorted: "sorted_wrt (<) (map fst (positions P ws))"
proof (induction ws rule: rev_induct)
  case (snoc w ws)
  with positions_bound [of _ P ws] show ?case by (auto simp: positions_snoc sorted_wrt_append image_iff)
qed simp

lemma positions_distinct: "distinct (map fst (positions P ws))"
  using positions_sorted [of P ws] by (simp add: strict_sorted_iff)


subsection \<open>The body\<close>

type_synonym body_item = "(u64 \<Rightarrow> bool) \<times> rinsn"

definition item_words :: "body_item list \<Rightarrow> rinsn list" where
  "item_words items = map snd items"

definition checked_before :: "rinsn list \<Rightarrow> nat \<Rightarrow> bool" where
  "checked_before ws k \<longleftrightarrow> fold check_state (take k ws) None = Some (ri_pc (ws ! k))"

definition item_reloc :: "body_item list \<Rightarrow> nat \<Rightarrow> branch_reloc option" where
  "item_reloc items k =
    user_reloc (fst (items ! k)) (snd (items ! k)) (wrapper_len + k) (checked_before (item_words items) k)"

definition first_at :: "u64 \<Rightarrow> rinsn list \<Rightarrow> nat \<Rightarrow> bool" where
  "first_at pc ws k \<longleftrightarrow> k < length ws \<and> ri_pc (ws ! k) = pc \<and> (\<forall>j < k. ri_pc (ws ! j) \<noteq> pc)"

definition laid :: "body_item list \<Rightarrow> layout \<Rightarrow> bool" where
  "laid items s \<longleftrightarrow>
    (let ws = item_words items in
     ly_insns s = KJIT_PROLOGUE @ KJIT_EPILOGUE @ map ri_insn ws
     \<and> ly_sites s = map (\<lambda>(j, pc). (j * 4, pc)) (positions is_access ws)
     \<and> ly_range s = positions (is_check KRangeCheck) ws \<and> ly_align s = positions (is_check KAlignCheck) ws
     \<and> ly_budget s = positions (is_check KBudgetCheck) ws \<and> ly_exits s = map fst (positions is_exit ws)
     \<and> ly_relocs s = concat (map (\<lambda>k. opt_list (item_reloc items k)) [0..<length items])
     \<and> ly_checked s = fold check_state ws None
     \<and> (\<forall>pc off. find_vlabel (ly_vlabels s) pc = Some off \<longleftrightarrow> (\<exists>k. first_at pc ws k \<and> off = 4 * (wrapper_len + k)))
     \<and> (\<forall>m \<in> set (ly_misses s). \<exists>k < length ws. fst m = wrapper_len + k \<and> ri_kind (ws ! k) = KDispatchLookup)
     \<and> distinct (map fst (ly_misses s)) \<and> list_all well_tagged ws)"

lemma laid_start: "laid [] layout_start"
  by (simp add: laid_def layout_start_def item_words_def find_vlabel_def first_at_def Let_def)

lemma item_words_snoc [simp]:
  "item_words (items @ [x]) = item_words items @ [snd x]" "length (item_words items) = length items"
  by (simp_all add: item_words_def)

lemma item_reloc_snoc:
  "k < length items \<Longrightarrow> item_reloc (items @ [x]) k = item_reloc items k"
  "item_reloc (items @ [x]) (length items) =
    user_reloc (fst x) (snd x) (wrapper_len + length items) (fold check_state (item_words items) None = Some (ri_pc (snd x)))"
  by (simp_all add: item_reloc_def nth_append checked_before_def item_words_def)

lemma first_at_snoc:
  "first_at pc (ws @ [w]) k \<longleftrightarrow>
    first_at pc ws k \<or> k = length ws \<and> ri_pc w = pc \<and> (\<forall>j. \<not> first_at pc ws j)"
proof -
  have ex: "(\<exists>j. first_at pc ws j) \<longleftrightarrow> (\<exists>j < length ws. ri_pc (ws ! j) = pc)"
  proof -
    have "\<exists>j. j < length ws \<and> ri_pc (ws ! j) = pc \<Longrightarrow>
        \<exists>j. (j < length ws \<and> ri_pc (ws ! j) = pc) \<and> (\<forall>i < j. \<not> (i < length ws \<and> ri_pc (ws ! i) = pc))"
      using exists_least_iff [of "\<lambda>j. j < length ws \<and> ri_pc (ws ! j) = pc"] by blast
    then show ?thesis unfolding first_at_def by fastforce
  qed
  show ?thesis
  proof (cases "k < length ws")
    case True
    then show ?thesis by (simp add: first_at_def nth_append)
  next
    case False
    then show ?thesis using ex by (cases "k = length ws") (auto simp: first_at_def nth_append)
  qed
qed

lemma insert_vlabel:
  "find_vlabel (insert_vlabel_once pc off labels) pc' =
    (if pc' = pc \<and> find_vlabel labels pc = None then Some off else find_vlabel labels pc')"
proof -
  have app: "find_vlabel (xs @ [(pc, off)]) q =
      (case find_vlabel xs q of None \<Rightarrow> if q = pc then Some off else None | Some x \<Rightarrow> Some x)" for xs q
    by (induction xs) (auto simp: find_vlabel_def)
  show ?thesis by (auto simp: insert_vlabel_once_def app split: option.split)
qed

lemma laid_step:
  assumes "laid items s" "place_word (fst x) (snd x) s = Inr s'"
  shows "laid (items @ [x]) s'"
proof -
  note step = place_word_step [OF assms(2)]
  let ?ws = "item_words items"
  have old: "ly_insns s = KJIT_PROLOGUE @ KJIT_EPILOGUE @ map ri_insn ?ws"
    and labels: "find_vlabel (ly_vlabels s) pc = Some off \<longleftrightarrow> (\<exists>k. first_at pc ?ws k \<and> off = 4 * (wrapper_len + k))" for pc off
    using assms(1) by (simp_all add: laid_def Let_def)
  have len: "length (ly_insns s) = wrapper_len + length items" using old by (simp add: wrapper_len_def)
  have none: "find_vlabel (ly_vlabels s) pc = None \<longleftrightarrow> (\<forall>k. \<not> first_at pc ?ws k)" for pc
    using labels [of pc] by (metis not_Some_eq)
  have relocs: "concat (map (\<lambda>k. opt_list (item_reloc (items @ [x]) k)) [0..<Suc (length items)]) =
      concat (map (\<lambda>k. opt_list (item_reloc items k)) [0..<length items])
      @ opt_list (user_reloc (fst x) (snd x) (wrapper_len + length items) (fold check_state ?ws None = Some (ri_pc (snd x))))"
  proof -
    have "map (\<lambda>k. opt_list (item_reloc (items @ [x]) k)) [0..<length items] = map (\<lambda>k. opt_list (item_reloc items k)) [0..<length items]"
      by (simp add: item_reloc_snoc)
    from arg_cong [OF this, of concat] show ?thesis by (simp add: item_reloc_snoc(2))
  qed
  have new_labels: "find_vlabel (ly_vlabels s') pc = Some off \<longleftrightarrow>
      (\<exists>k. first_at pc (?ws @ [snd x]) k \<and> off = 4 * (wrapper_len + k))" for pc off
    using labels [of pc off] none [of pc]
    by (auto simp: step(2) insert_vlabel len first_at_snoc)
  obtain ms where ms: "ly_misses s' = ly_misses s @ ms" "length ms \<le> 1"
    "\<forall>m \<in> set ms. fst m = wrapper_len + length items \<and> ri_kind (snd x) = KDispatchLookup"
    using step(10) len by auto
  have fst_old: "\<forall>m \<in> set (ly_misses s). fst m < wrapper_len + length items"
    using assms(1) by (fastforce simp: laid_def Let_def)
  have "\<forall>m \<in> set (ly_misses s'). \<exists>k < length (?ws @ [snd x]). fst m = wrapper_len + k \<and> ri_kind ((?ws @ [snd x]) ! k) = KDispatchLookup"
  proof
    fix m assume "m \<in> set (ly_misses s')"
    then consider "m \<in> set (ly_misses s)" | "m \<in> set ms" using ms(1) by auto
    then show "\<exists>k < length (?ws @ [snd x]). fst m = wrapper_len + k \<and> ri_kind ((?ws @ [snd x]) ! k) = KDispatchLookup"
    proof cases
      case 1
      then obtain k where "k < length ?ws" "fst m = wrapper_len + k" "ri_kind (?ws ! k) = KDispatchLookup"
        using assms(1) by (auto simp: laid_def Let_def)
      then show ?thesis by (intro exI [of _ k]) (simp add: nth_append)
    next
      case 2
      with ms(3) show ?thesis by (intro exI [of _ "length ?ws"]) (simp add: nth_append)
    qed
  qed
  moreover have "distinct (map fst (ly_misses s'))"
  proof -
    have "distinct (map fst ms)" using ms(2) by (cases ms) (simp_all split: list.splits)
    moreover have "distinct (map fst (ly_misses s))" using assms(1) by (simp add: laid_def Let_def)
    ultimately show ?thesis using fst_old ms(1,3) by fastforce
  qed
  ultimately show ?thesis
    using assms(1) step(1,3-9,11) [unfolded len] new_labels
    by (simp add: laid_def Let_def relocs positions_snoc del: upt_Suc)
qed

lemma laid_items:
  assumes "rfold (\<lambda>x. place_word (fst x) (snd x)) items s = Inr s'" "laid before s"
  shows "laid (before @ items) s'"
  using assms
proof (induction items arbitrary: before s)
  case (Cons x items)
  then obtain t where "place_word (fst x) (snd x) s = Inr t" "rfold (\<lambda>x. place_word (fst x) (snd x)) items t = Inr s'" by auto
  with Cons.IH [of t "before @ [x]"] laid_step Cons.prems(2) show ?case by fastforce
qed simp

lemma rfold_rfold:
  "rfold (\<lambda>k. rfold (f k) (xs k)) ks s = rfold (\<lambda>(k, x). f k x) (concat (map (\<lambda>k. map (Pair k) (xs k)) ks)) s"
proof (induction ks arbitrary: s)
  case (Cons k ks)
  have app: "rfold g (as @ bs) s = rbind (rfold g as s) (rfold g bs)" for g and as bs :: "'x list" and s
    by (induction as arbitrary: s) (auto simp: rbind_def split: sum.split)
  have "rfold (\<lambda>(k, x). f k x) (map (Pair k) ys) s = rfold (f k) ys s" for ys s
    by (induction ys arbitrary: s) (auto intro!: arg_cong2 [of _ _ _ _ rbind])
  moreover have "rfold (\<lambda>k. rfold (f k) (xs k)) ks = rfold (\<lambda>(k, x). f k x) (concat (map (\<lambda>k. map (Pair k) (xs k)) ks))"
    by (rule ext) (rule Cons.IH)
  ultimately show ?case by (simp add: app)
qed simp

definition body_items :: "rblock list \<Rightarrow> nat list \<Rightarrow> body_item list" where
  "body_items program order =
    concat (map (\<lambda>k. map (Pair (same_component program order (program ! k))) (rb_insns (program ! k))) order)"

lemma place_blocks_laid:
  assumes "place_blocks program order layout_start = Inr s"
  shows "laid (body_items program order) s"
proof -
  have "rfold (\<lambda>(k, w). place_word (same_component program order (program ! k)) w)
      (concat (map (\<lambda>k. map (Pair k) (rb_insns (program ! k))) order)) layout_start = Inr s"
    using assms by (simp add: place_blocks_def rfold_rfold)
  moreover have "rfold (\<lambda>(k, w). place_word (same_component program order (program ! k)) w) xs t
      = rfold (\<lambda>x. place_word (fst x) (snd x)) (map (\<lambda>(k, w). (same_component program order (program ! k), w)) xs) t" for xs t
    by (induction xs arbitrary: t) (auto intro!: arg_cong2 [of _ _ _ _ rbind])
  moreover have "map (\<lambda>(k, w). (same_component program order (program ! k), w))
      (concat (map (\<lambda>k. map (Pair k) (rb_insns (program ! k))) order)) = body_items program order"
    by (simp add: body_items_def map_concat comp_def)
  ultimately have "rfold (\<lambda>x. place_word (fst x) (snd x)) (body_items program order) layout_start = Inr s" by simp
  from laid_items [OF this laid_start] show ?thesis by simp
qed

section \<open>What the layout resolves\<close>

subsection \<open>Rewrites\<close>

text \<open>The loops of the resolution, as one list of rewrites \<open>(index, target, pc)\<close>.\<close>

type_synonym rewrite_op = "nat \<times> nat \<times> u64"

definition apply_op :: "rewrite_op \<Rightarrow> a64_insn list \<Rightarrow> layout_error + a64_insn list" where
  "apply_op op insns = rewrite_branch_to_offset (fst op) (fst (snd op)) (snd (snd op)) insns"

lemma apply_op_simp [simp]: "apply_op (j, target, pc) insns = rewrite_branch_to_offset j target pc insns"
  by (simp add: apply_op_def)

lemma apply_ops:
  assumes "rfold apply_op ops insns = Inr insns'" "distinct (map fst ops)"
  shows "length insns' = length insns"
    "k \<notin> set (map fst ops) \<Longrightarrow> insns' ! k = insns ! k"
    "(k, target, pc) \<in> set ops \<Longrightarrow> jumps_to (insns' ! k) (4 * k) target \<and> k < length insns
      \<and> (\<exists>e. set_branch_target_imm (insns ! k) e = Inr (insns' ! k))"
proof -
  have "length insns' = length insns \<and> (\<forall>k. k \<notin> set (map fst ops) \<longrightarrow> insns' ! k = insns ! k)
    \<and> (\<forall>(k, target, pc) \<in> set ops. jumps_to (insns' ! k) (4 * k) target \<and> k < length insns
      \<and> (\<exists>e. set_branch_target_imm (insns ! k) e = Inr (insns' ! k)))"
    using assms
  proof (induction ops arbitrary: insns)
    case (Cons op ops)
    obtain j t pc where op: "op = (j, t, pc)" by (cases op)
    obtain mid where mid: "rewrite_branch_to_offset j t pc insns = Inr mid" "rfold apply_op ops mid = Inr insns'"
      using Cons.prems(1) by (auto simp: op)
    note first = rewrite_branch [OF mid(1)]
    have IH: "length insns' = length mid" "\<And>k. k \<notin> set (map fst ops) \<Longrightarrow> insns' ! k = mid ! k"
      "\<And>k target pc. (k, target, pc) \<in> set ops \<Longrightarrow> jumps_to (insns' ! k) (4 * k) target \<and> k < length mid
        \<and> (\<exists>e. set_branch_target_imm (mid ! k) e = Inr (insns' ! k))"
      using Cons.IH [OF mid(2)] Cons.prems(2) by auto
    have j: "j \<notin> set (map fst ops)" using Cons.prems(2) by (simp add: op)
    have keep: "insns' ! k = insns ! k" if "k \<notin> set (map fst (op # ops))" for k
      using that IH(2) first(4) by (simp add: op)
    have each: "jumps_to (insns' ! k) (4 * k) target \<and> k < length insns
        \<and> (\<exists>e. set_branch_target_imm (insns ! k) e = Inr (insns' ! k))"
      if here: "(k, target, pc') \<in> set (op # ops)" for k target pc'
    proof (cases "(k, target, pc') = op")
      case True
      with op IH(2) [OF j] first show ?thesis by simp
    next
      case False
      with here have later: "(k, target, pc') \<in> set ops" by simp
      then have "k \<noteq> j" using j by force
      with IH(3) [OF later] first(2,4) show ?thesis by simp
    qed
    show ?case
    proof (intro conjI)
      show "length insns' = length insns" using IH(1) first(2) by simp
      show "\<forall>k. k \<notin> set (map fst (op # ops)) \<longrightarrow> insns' ! k = insns ! k" using keep by blast
    qed (use each in blast)
  qed simp
  then show "length insns' = length insns"
    "k \<notin> set (map fst ops) \<Longrightarrow> insns' ! k = insns ! k"
    "(k, target, pc) \<in> set ops \<Longrightarrow> jumps_to (insns' ! k) (4 * k) target \<and> k < length insns
      \<and> (\<exists>e. set_branch_target_imm (insns ! k) e = Inr (insns' ! k))" by blast+
qed

lemma rfold_append: "rfold f (xs @ ys) s = rbind (rfold f xs s) (rfold f ys)"
  by (induction xs arbitrary: s) (auto simp: rbind_def split: sum.split)

text \<open>A loop whose step is a rewrite is a list of rewrites, one for each element.\<close>

lemma loop_ops:
  assumes "rfold f xs insns = Inr insns'"
    and "\<And>x insns insns'. f x insns = Inr insns' \<Longrightarrow>
      \<exists>t pc. ok x t \<and> rewrite_branch_to_offset (ix x) t pc insns = Inr insns'"
  obtains ops where "rfold apply_op ops insns = Inr insns'"
    "list_all2 (\<lambda>x op. fst op = ix x \<and> ok x (fst (snd op))) xs ops"
proof -
  have "\<exists>ops. rfold apply_op ops insns = Inr insns' \<and> list_all2 (\<lambda>x op. fst op = ix x \<and> ok x (fst (snd op))) xs ops"
    using assms(1)
  proof (induction xs arbitrary: insns)
    case (Cons x xs)
    then obtain mid where mid: "f x insns = Inr mid" "rfold f xs mid = Inr insns'" by auto
    from assms(2) [OF mid(1)] obtain t pc where "ok x t" "rewrite_branch_to_offset (ix x) t pc insns = Inr mid" by auto
    moreover from Cons.IH [OF mid(2)] obtain ops where "rfold apply_op ops mid = Inr insns'"
      "list_all2 (\<lambda>x op. fst op = ix x \<and> ok x (fst (snd op))) xs ops" by blast
    ultimately show ?case by (intro exI [of _ "(ix x, t, pc) # ops"]) simp
  qed simp
  then show thesis using that by blast
qed

lemma ops_fst: "list_all2 (\<lambda>x op. fst op = ix x \<and> ok x (fst (snd op))) xs ops \<Longrightarrow> map fst ops = map ix xs"
  by (induction rule: list_all2_induct) simp_all

lemma ops_target:
  assumes "list_all2 (\<lambda>x op. fst op = ix x \<and> ok x (fst (snd op))) xs ops" "x \<in> set xs"
  obtains t pc where "(ix x, t, pc) \<in> set ops" "ok x t"
proof -
  from assms have "\<exists>op \<in> set ops. fst op = ix x \<and> ok x (fst (snd op))"
    by (induction rule: list_all2_induct) auto
  then show thesis using that by (metis prod.collapse)
qed

subsection \<open>The cold region\<close>

text \<open>A stub starts a cold group, and belongs to the pc of its first word.\<close>

definition starts_group :: "rinsn list \<Rightarrow> nat \<Rightarrow> bool" where
  "starts_group cs k \<longleftrightarrow> k < length cs \<and> (k = 0 \<or> is_exit (cs ! (k - 1)))"

definition stub_of :: "rinsn list \<Rightarrow> rinsn list \<Rightarrow> u64 \<Rightarrow> nat \<Rightarrow> bool" where
  "stub_of ws cs pc off \<longleftrightarrow>
    (\<exists>k. starts_group cs k \<and> ri_pc (cs ! k) = pc \<and> off = 4 * (wrapper_len + length ws + k))"

definition plain_word :: "rinsn \<Rightarrow> bool" where
  "plain_word w \<longleftrightarrow> msr_pan (ri_insn w) = None \<and> lse_atomic (ri_insn w) = None \<and> fpsimd_mem (ri_insn w) = None
    \<and> \<not> is_unprivileged_access (ri_insn w)"

definition chilled :: "rinsn list \<Rightarrow> rinsn list \<Rightarrow> cold_layout \<Rightarrow> bool" where
  "chilled ws cs c \<longleftrightarrow>
    co_insns c = KJIT_PROLOGUE @ KJIT_EPILOGUE @ map ri_insn (ws @ cs)
    \<and> co_exits c = map fst (positions is_exit (ws @ cs))
    \<and> (co_group_start c \<longleftrightarrow> cs = [] \<or> is_exit (last cs))
    \<and> (\<forall>pc off. find_vlabel (co_stubs c) pc = Some off \<longleftrightarrow> stub_of ws cs pc off)
    \<and> list_all plain_word cs"

lemma chilled_step:
  assumes "chilled ws cs c" "place_cold w c = Inr c'"
  shows "chilled ws (cs @ [w]) c'"
proof -
  have old: "co_insns c = KJIT_PROLOGUE @ KJIT_EPILOGUE @ map ri_insn (ws @ cs)" "co_exits c = map fst (positions is_exit (ws @ cs))"
    "co_group_start c \<longleftrightarrow> cs = [] \<or> is_exit (last cs)" "list_all plain_word cs"
    and stubs: "\<And>pc off. find_vlabel (co_stubs c) pc = Some off \<longleftrightarrow> stub_of ws cs pc off"
    using assms(1) by (simp_all add: chilled_def)
  have len: "length (co_insns c) = wrapper_len + length ws + length cs" using old(1) by (simp add: wrapper_len_def)
  have new: "\<not> (co_group_start c \<and> find_vlabel (co_stubs c) (ri_pc w) \<noteq> None)" "plain_word w"
    "c' = \<lparr>co_insns = co_insns c @ [ri_insn w],
          co_stubs = (if co_group_start c then co_stubs c @ [(ri_pc w, length (co_insns c) * 4)] else co_stubs c),
          co_exits = (if is_exit w then co_exits c @ [length (co_insns c)] else co_exits c), co_group_start = is_exit w\<rparr>"
    using assms(2) by (auto simp: place_cold_def plain_word_def is_exit_def Let_def)
  have starts: "starts_group (cs @ [w]) k \<longleftrightarrow> starts_group cs k \<or> k = length cs \<and> co_group_start c" for k
    unfolding old(3) by (cases cs rule: rev_cases) (auto simp: starts_group_def nth_append)
  have nth: "starts_group cs k \<Longrightarrow> (cs @ [w]) ! k = cs ! k" for k
    by (simp add: starts_group_def nth_append)
  have stub: "stub_of ws (cs @ [w]) pc off \<longleftrightarrow>
      stub_of ws cs pc off \<or> co_group_start c \<and> pc = ri_pc w \<and> off = length (co_insns c) * 4" for pc off
    unfolding stub_of_def starts len using nth by (auto simp: mult.commute)
  have app: "find_vlabel (xs @ [(pc, off)]) q =
      (case find_vlabel xs q of None \<Rightarrow> if q = pc then Some off else None | Some x \<Rightarrow> Some x)" for xs q pc off
    by (induction xs) (auto simp: find_vlabel_def)
  have "find_vlabel (co_stubs c') pc = Some off \<longleftrightarrow> stub_of ws (cs @ [w]) pc off" for pc off
    using stubs [of pc off] new(1) by (auto simp: new(3) stub app split: option.split)
  moreover have "positions is_exit (ws @ cs @ [w]) = positions is_exit (ws @ cs) @
      (if is_exit w then [(wrapper_len + length ws + length cs, ri_pc w)] else [])"
    using positions_snoc [of is_exit "ws @ cs" w] by simp
  ultimately show ?thesis
    using old new(2) len by (simp add: chilled_def new(3))
qed

lemma chilled_words:
  assumes "rfold place_cold ws' c = Inr c'" "chilled ws cs c"
  shows "chilled ws (cs @ ws') c'"
  using assms
proof (induction ws' arbitrary: cs c)
  case (Cons w ws')
  then obtain c1 where "place_cold w c = Inr c1" "rfold place_cold ws' c1 = Inr c'" by auto
  with Cons.IH [of c1 "cs @ [w]"] chilled_step Cons.prems(2) show ?case by fastforce
qed simp

lemma chilled_start:
  "laid items s \<Longrightarrow> chilled (item_words items) [] \<lparr>co_insns = ly_insns s, co_stubs = [], co_exits = ly_exits s, co_group_start = True\<rparr>"
  by (auto simp: laid_def chilled_def Let_def starts_group_def stub_of_def find_vlabel_def)

end
