(* ===== verification/LayoutResult.thy ===== *)
theory LayoutResult
  imports LayoutSteps
begin

section \<open>A laid out fragment\<close>

text \<open>The body words and the cold words of a program, in layout order.\<close>

definition program_order :: "rblock list \<Rightarrow> nat list" where
  "program_order program = layout_block_order (map rb_start program)"

definition program_items :: "rblock list \<Rightarrow> body_item list" where
  "program_items program = body_items program (program_order program)"

definition body_words :: "rblock list \<Rightarrow> rinsn list" where
  "body_words program = concat (map (\<lambda>k. rb_insns (program ! k)) (program_order program))"

definition cold_words :: "rblock list \<Rightarrow> rinsn list" where
  "cold_words program = concat (map (\<lambda>k. rb_cold (program ! k)) (program_order program))"

lemma program_items_words: "item_words (program_items program) = body_words program"
  by (simp add: program_items_def body_items_def item_words_def body_words_def map_concat comp_def)

text \<open>The index of a word, and the instruction the fragment has there.\<close>

abbreviation word_index :: "nat \<Rightarrow> nat" where
  "word_index k \<equiv> wrapper_len + k"

definition fragment_stub :: "rblock list \<Rightarrow> u64 \<Rightarrow> nat \<Rightarrow> bool" where
  "fragment_stub program pc off \<longleftrightarrow> stub_of (body_words program) (cold_words program) pc off"

lemma push_each_resolve:
  assumes "push_each (resolve_site stubs) sites = Inr out"
  shows "map (\<lambda>s. (lf_access_offset s, lf_ori_pc s)) out = sites
    \<and> (\<forall>s \<in> set out. find_vlabel stubs (lf_ori_pc s) = Some (lf_stub_offset s))"
proof -
  have "rfold (\<lambda>x out. rbind (resolve_site stubs x) (\<lambda>ws. Inr (out @ ws))) sites acc = Inr out \<Longrightarrow>
      \<exists>new. out = acc @ new \<and> map (\<lambda>s. (lf_access_offset s, lf_ori_pc s)) new = sites
        \<and> (\<forall>s \<in> set new. find_vlabel stubs (lf_ori_pc s) = Some (lf_stub_offset s))" for acc
  proof (induction sites arbitrary: acc)
    case (Cons site sites)
    then obtain one where one: "resolve_site stubs site = Inr one"
      "rfold (\<lambda>x out. rbind (resolve_site stubs x) (\<lambda>ws. Inr (out @ ws))) sites (acc @ one) = Inr out" by auto
    from Cons.IH [OF one(2)] one(1) show ?case
      by (fastforce simp: resolve_site_def split: prod.splits)
  qed simp
  from this [of "[]"] assms show ?thesis by (simp add: push_each_def)
qed

text \<open>The steps of the resolution, as rewrites.\<close>

lemma check_ops:
  assumes "rfold (resolve_to_stub missing stubs) table insns = Inr insns'"
  obtains ops where "rfold apply_op ops insns = Inr insns'"
    "list_all2 (\<lambda>x op. fst op = fst x \<and> find_vlabel stubs (snd x) = Some (fst (snd op))) table ops"
  by (rule loop_ops [OF assms, where ix = fst and ok = "\<lambda>x t. find_vlabel stubs (snd x) = Some t"])
    (auto simp: resolve_to_stub_def split: prod.splits intro: that)

lemma miss_ops:
  assumes "rfold resolve_miss table insns = Inr insns'"
  obtains ops where "rfold apply_op ops insns = Inr insns'" "list_all2 (\<lambda>x op. fst op = fst x \<and> True) table ops"
  by (rule loop_ops [OF assms, where ix = fst and ok = "\<lambda>_ _. True"])
    (auto simp: resolve_miss_def split: prod.splits intro: that)

lemma exit_ops:
  assumes "rfold resolve_exit table insns = Inr insns'"
  obtains ops where "rfold apply_op ops insns = Inr insns'"
    "list_all2 (\<lambda>x op. fst op = x \<and> fst (snd op) = EPILOGUE_OFFSET) table ops"
  by (rule loop_ops [OF assms, where ix = "\<lambda>x. x" and ok = "\<lambda>_ t. t = EPILOGUE_OFFSET"])
    (auto simp: resolve_exit_def intro: that)

lemma reloc_ops:
  assumes "rfold (resolve_reloc labels) relocs insns = Inr insns'"
  obtains ops where "rfold apply_op ops insns = Inr insns'"
    "list_all2 (\<lambda>r op. fst op = br_index r \<and> (find_vlabel labels (br_target r) = Some (fst (snd op))
      \<and> \<not> (fst (snd op) \<le> br_index r * 4 \<and> br_same_component r \<and> \<not> br_checked r))) relocs ops"
  by (rule loop_ops [OF assms, where ix = br_index and ok = "\<lambda>r t. find_vlabel labels (br_target r) = Some t
      \<and> \<not> (t \<le> br_index r * 4 \<and> br_same_component r \<and> \<not> br_checked r)"])
    (auto simp: resolve_reloc_def intro: that)


subsection \<open>The indices that are rewritten\<close>

lemma item_reloc_index:
  "item_reloc items k = Some r \<Longrightarrow> br_index r = wrapper_len + k \<and> is_user_semantic (ri_kind (snd (items ! k)))"
  by (auto simp: item_reloc_def user_reloc_def branch_reloc_for_def Let_def split: if_splits option.splits)

abbreviation reloc_table :: "body_item list \<Rightarrow> branch_reloc list" where
  "reloc_table items \<equiv> concat (map (\<lambda>k. opt_list (item_reloc items k)) [0..<length items])"

lemma reloc_table_in: "r \<in> set (reloc_table items) \<longleftrightarrow> (\<exists>k < length items. item_reloc items k = Some r)"
  by (auto simp: opt_list_def split: option.splits) (metis atLeast0LessThan lessThan_iff)

lemma reloc_table_distinct: "distinct (map br_index (reloc_table items))"
proof -
  have "distinct (map br_index (concat (map (\<lambda>k. opt_list (item_reloc items k)) [0..<n])))
      \<and> (\<forall>r \<in> set (concat (map (\<lambda>k. opt_list (item_reloc items k)) [0..<n])). br_index r < wrapper_len + n)" for n
  proof (induction n)
    case (Suc n)
    let ?before = "concat (map (\<lambda>k. opt_list (item_reloc items k)) [0..<n])"
    have split: "concat (map (\<lambda>k. opt_list (item_reloc items k)) [0..<Suc n]) = ?before @ opt_list (item_reloc items n)" by simp
    show ?case
    proof (cases "item_reloc items n")
      case None
      with Suc show ?thesis unfolding split by (auto intro: less_SucI simp del: set_concat)
    next
      case (Some r)
      from item_reloc_index [OF this] have "br_index r = wrapper_len + n" by simp
      with Suc Some show ?thesis unfolding split by (fastforce simp del: set_concat)
    qed
  qed simp
  then show ?thesis by blast
qed

lemma kind_distinct:
  assumes "distinct xs" "distinct ys" "\<forall>j \<in> set xs. P (key j)" "\<forall>j \<in> set ys. \<not> P (key j)"
  shows "distinct (xs @ ys)"
  using assms by auto

lemma rewritten_distinct:
  assumes "laid items s" "ws = item_words items"
    "exits = map fst (positions is_exit (ws @ cs))"
  shows "distinct (map fst (ly_range s) @ map fst (ly_align s) @ map fst (ly_misses s) @ map fst (ly_budget s)
    @ exits @ map br_index (ly_relocs s))"
proof -
  let ?key = "\<lambda>j. ri_kind ((ws @ cs) ! (j - wrapper_len))"
  have pos: "\<forall>j \<in> set (map fst (positions P ws)). \<exists>w. P w \<and> ?key j = ri_kind w" for P
    by (fastforce simp: positions_in nth_append)
  have check: "\<forall>j \<in> set (map fst (positions (is_check kd) ws)). ?key j = kd" for kd
    using pos [of "is_check kd"] by (auto simp: is_check_def)
  have l: "ly_range s = positions (is_check KRangeCheck) ws" "ly_align s = positions (is_check KAlignCheck) ws"
    "ly_budget s = positions (is_check KBudgetCheck) ws" "ly_relocs s = reloc_table items"
    "\<forall>m \<in> set (ly_misses s). \<exists>k < length ws. fst m = wrapper_len + k \<and> ri_kind (ws ! k) = KDispatchLookup"
    "distinct (map fst (ly_misses s))"
    using assms(1,2) by (simp_all add: laid_def Let_def)
  have r: "\<forall>j \<in> set (map fst (ly_range s)). ?key j = KRangeCheck" "\<forall>j \<in> set (map fst (ly_align s)). ?key j = KAlignCheck"
    "\<forall>j \<in> set (map fst (ly_budget s)). ?key j = KBudgetCheck"
    unfolding l(1-3) by (rule check)+
  have m: "\<forall>j \<in> set (map fst (ly_misses s)). ?key j = KDispatchLookup"
    using l(5) by (auto simp: nth_append)
  have e: "\<forall>j \<in> set exits. ?key j = KRuntimeExitBranch"
    unfolding assms(3) by (fastforce simp: positions_in is_exit_def)
  have u: "\<forall>j \<in> set (map br_index (ly_relocs s)). is_user_semantic (?key j)"
  proof
    fix j assume "j \<in> set (map br_index (ly_relocs s))"
    then obtain k r where "k < length items" "item_reloc items k = Some r" "j = br_index r"
      by (auto simp: l(4) reloc_table_in simp del: set_concat)
    with item_reloc_index [of items k r] show "is_user_semantic (?key j)"
      using assms(2) by (simp add: item_words_def nth_append)
  qed
  have d: "distinct (map fst (ly_range s))" "distinct (map fst (ly_align s))" "distinct (map fst (ly_budget s))"
    "distinct exits" "distinct (map br_index (ly_relocs s))"
    unfolding l assms(3) by (rule positions_distinct reloc_table_distinct)+
  have not_user: "is_user_semantic kd \<Longrightarrow> kd \<notin> {KRuntimeExitBranch, KBudgetCheck, KDispatchLookup, KAlignCheck, KRangeCheck}" for kd
    by (auto simp: is_user_semantic_def)
  note kinds = e u r m not_user
  have 1: "distinct (exits @ map br_index (ly_relocs s))"
    by (rule kind_distinct [OF d(4,5), where key = ?key and P = "\<lambda>kd. kd = KRuntimeExitBranch"]) (use kinds in fastforce)+
  have 2: "distinct (map fst (ly_budget s) @ exits @ map br_index (ly_relocs s))"
    by (rule kind_distinct [OF d(3) 1, where key = ?key and P = "\<lambda>kd. kd = KBudgetCheck"]) (use kinds in fastforce)+
  have 3: "distinct (map fst (ly_misses s) @ map fst (ly_budget s) @ exits @ map br_index (ly_relocs s))"
    by (rule kind_distinct [OF l(6) 2, where key = ?key and P = "\<lambda>kd. kd = KDispatchLookup"]) (use kinds in fastforce)+
  have 4: "distinct (map fst (ly_align s) @ map fst (ly_misses s) @ map fst (ly_budget s) @ exits @ map br_index (ly_relocs s))"
    by (rule kind_distinct [OF d(2) 3, where key = ?key and P = "\<lambda>kd. kd = KAlignCheck"]) (use kinds in fastforce)+
  show ?thesis
    by (rule kind_distinct [OF d(1) 4, where key = ?key and P = "\<lambda>kd. kd = KRangeCheck"]) (use kinds in fastforce)+
qed


subsection \<open>The whole layout\<close>

lemma ops_each:
  assumes "list_all2 (\<lambda>x op. fst op = ix x \<and> ok x (fst (snd op))) xs ops" "set ops \<subseteq> set all"
  shows "\<forall>x \<in> set xs. \<exists>t pc. (ix x, t, pc) \<in> set all \<and> ok x t"
  using ops_target [OF assms(1)] assms(2) by (metis subsetD)

text \<open>The layout as one list of rewrites of the words placed.\<close>

definition resolved :: "rblock list \<Rightarrow> exec_fragment \<Rightarrow> layout \<Rightarrow> cold_layout \<Rightarrow> rewrite_op list \<Rightarrow> bool" where
  "resolved program f s c ops \<longleftrightarrow>
    laid (program_items program) s \<and> chilled (body_words program) (cold_words program) c
    \<and> push_each (resolve_site (co_stubs c)) (ly_sites s) = Inr (ef_fault_sites f)
    \<and> rfold apply_op ops (co_insns c) = Inr (ef_insns f) \<and> distinct (map fst ops)
    \<and> map fst ops = map fst (ly_range s) @ map fst (ly_align s) @ map fst (ly_misses s) @ map fst (ly_budget s)
        @ co_exits c @ map br_index (ly_relocs s)
    \<and> (\<forall>x \<in> set (ly_range s) \<union> set (ly_align s) \<union> set (ly_budget s).
          \<exists>t pc. (fst x, t, pc) \<in> set ops \<and> find_vlabel (co_stubs c) (snd x) = Some t)
    \<and> (\<forall>x \<in> set (co_exits c). \<exists>t pc. (x, t, pc) \<in> set ops \<and> t = EPILOGUE_OFFSET)
    \<and> (\<forall>r \<in> set (ly_relocs s). \<exists>t pc. (br_index r, t, pc) \<in> set ops \<and> find_vlabel (ly_vlabels s) (br_target r) = Some t
          \<and> \<not> (t \<le> br_index r * 4 \<and> br_same_component r \<and> \<not> br_checked r))
    \<and> ef_vlabels f = ly_vlabels s \<and> ef_entry_labels f = entry_labels_of program (ly_vlabels s)
    \<and> find_vlabel (ef_entry_labels f) (rb_start (hd program)) = Some (ef_entry_offset f)"

lemma layout_resolved:
  assumes "layout_program program = Inr f"
  shows "\<exists>s c ops. resolved program f s c ops"
proof -
  let ?order = "program_order program" and ?items = "program_items program"
  let ?ws = "body_words program" and ?cs = "cold_words program"
  from assms have "program \<noteq> []" by (auto simp: layout_program_def)
  then obtain s c sites insns1 entry insns2 insns3 where st: "place_program program ?order = Inr (s, c)"
    "resolve_stubs s c = Inr (sites, insns1)"
    "find_vlabel (entry_labels_of program (ly_vlabels s)) (rb_start (hd program)) = Some entry"
    "rfold resolve_exit (co_exits c) insns1 = Inr insns2"
    "rfold (resolve_reloc (ly_vlabels s)) (ly_relocs s) insns2 = Inr insns3"
    "f = \<lparr>ef_insns = insns3, ef_entry_offset = entry, ef_vlabels = ly_vlabels s,
      ef_entry_labels = entry_labels_of program (ly_vlabels s), ef_fault_sites = sites, ef_link_sites = ly_links s\<rparr>"
    using assms by (auto simp: layout_program_def program_order_def Let_def neq_Nil_conv)
  obtain insnsA insnsB insnsC where re: "push_each (resolve_site (co_stubs c)) (ly_sites s) = Inr sites"
    "rfold (resolve_to_stub LeMissingFaultStub (co_stubs c)) (ly_range s) (co_insns c) = Inr insnsA"
    "rfold (resolve_to_stub LeMissingFaultStub (co_stubs c)) (ly_align s) insnsA = Inr insnsB"
    "rfold resolve_miss (ly_misses s) insnsB = Inr insnsC"
    "rfold (resolve_to_stub LeMissingBudgetStub (co_stubs c)) (ly_budget s) insnsC = Inr insns1"
    using st(2) by (auto simp: resolve_stubs_def)
  have laid: "laid ?items s"
    using st(1) by (auto simp: place_program_def program_items_def intro: place_blocks_laid)
  have chilled: "chilled ?ws ?cs c"
  proof -
    have "rfold place_cold ?cs \<lparr>co_insns = ly_insns s, co_stubs = [], co_exits = ly_exits s, co_group_start = True\<rparr> = Inr c"
      using st(1) by (auto simp: place_program_def cold_words_def split: option.splits)
    from chilled_words [OF this chilled_start [OF laid, unfolded program_items_words]] show ?thesis by simp
  qed
  obtain o1 where o1: "rfold apply_op o1 (co_insns c) = Inr insnsA"
    "list_all2 (\<lambda>x op. fst op = fst x \<and> find_vlabel (co_stubs c) (snd x) = Some (fst (snd op))) (ly_range s) o1"
    by (rule check_ops [OF re(2)])
  obtain o2 where o2: "rfold apply_op o2 insnsA = Inr insnsB"
    "list_all2 (\<lambda>x op. fst op = fst x \<and> find_vlabel (co_stubs c) (snd x) = Some (fst (snd op))) (ly_align s) o2"
    by (rule check_ops [OF re(3)])
  obtain o3 where o3: "rfold apply_op o3 insnsB = Inr insnsC" "list_all2 (\<lambda>x op. fst op = fst x \<and> True) (ly_misses s) o3"
    by (rule miss_ops [OF re(4)])
  obtain o4 where o4: "rfold apply_op o4 insnsC = Inr insns1"
    "list_all2 (\<lambda>x op. fst op = fst x \<and> find_vlabel (co_stubs c) (snd x) = Some (fst (snd op))) (ly_budget s) o4"
    by (rule check_ops [OF re(5)])
  obtain o5 where o5: "rfold apply_op o5 insns1 = Inr insns2"
    "list_all2 (\<lambda>x op. fst op = x \<and> fst (snd op) = EPILOGUE_OFFSET) (co_exits c) o5"
    by (rule exit_ops [OF st(4)])
  obtain o6 where o6: "rfold apply_op o6 insns2 = Inr insns3"
    "list_all2 (\<lambda>r op. fst op = br_index r \<and> (find_vlabel (ly_vlabels s) (br_target r) = Some (fst (snd op))
      \<and> \<not> (fst (snd op) \<le> br_index r * 4 \<and> br_same_component r \<and> \<not> br_checked r))) (ly_relocs s) o6"
    by (rule reloc_ops [OF st(5)])
  define ops where "ops = o1 @ o2 @ o3 @ o4 @ o5 @ o6"
  have run: "rfold apply_op ops (co_insns c) = Inr insns3"
    by (simp add: ops_def rfold_append o1(1) o2(1) o3(1) o4(1) o5(1) o6(1))
  have idx: "map fst ops = map fst (ly_range s) @ map fst (ly_align s) @ map fst (ly_misses s) @ map fst (ly_budget s)
      @ co_exits c @ map br_index (ly_relocs s)"
    using ops_fst [OF o1(2)] ops_fst [OF o2(2)] ops_fst [OF o3(2)] ops_fst [OF o4(2)]
      ops_fst [where ix = "\<lambda>x. x" and ok = "\<lambda>_ t. t = EPILOGUE_OFFSET", OF o5(2)] ops_fst [OF o6(2)]
    by (simp add: ops_def)
  have exits: "co_exits c = map fst (positions is_exit (?ws @ ?cs))" using chilled by (simp add: chilled_def)
  have dist: "distinct (map fst ops)"
    unfolding idx by (rule rewritten_distinct [OF laid program_items_words [symmetric] exits])
  have sub: "set o1 \<subseteq> set ops" "set o2 \<subseteq> set ops" "set o4 \<subseteq> set ops" "set o5 \<subseteq> set ops" "set o6 \<subseteq> set ops"
    by (auto simp: ops_def)
  have exit_each: "\<forall>x \<in> set (co_exits c). \<exists>t pc. (x, t, pc) \<in> set ops \<and> t = EPILOGUE_OFFSET"
    by (rule ops_each [where ix = "\<lambda>x. x" and ok = "\<lambda>_ t. t = EPILOGUE_OFFSET", OF o5(2) sub(4)])
  have "resolved program f s c ops"
    unfolding resolved_def
    using laid chilled re(1) run dist idx exit_each ops_each [OF o6(2) sub(5)] st(3) st(6)
      ops_each [OF o1(2) sub(1)] ops_each [OF o2(2) sub(2)] ops_each [OF o4(2) sub(3)]
    by (intro conjI) (simp_all add: Ball_def)
  then show ?thesis by blast
qed

lemma resolvedD:
  assumes "resolved program f s c ops"
  shows "laid (program_items program) s" "chilled (body_words program) (cold_words program) c"
    "push_each (resolve_site (co_stubs c)) (ly_sites s) = Inr (ef_fault_sites f)"
    "rfold apply_op ops (co_insns c) = Inr (ef_insns f)" "distinct (map fst ops)"
    "map fst ops = map fst (ly_range s) @ map fst (ly_align s) @ map fst (ly_misses s) @ map fst (ly_budget s)
        @ co_exits c @ map br_index (ly_relocs s)"
    "\<forall>x \<in> set (ly_range s) \<union> set (ly_align s) \<union> set (ly_budget s).
          \<exists>t pc. (fst x, t, pc) \<in> set ops \<and> find_vlabel (co_stubs c) (snd x) = Some t"
    "\<forall>x \<in> set (co_exits c). \<exists>t pc. (x, t, pc) \<in> set ops \<and> t = EPILOGUE_OFFSET"
    "\<forall>r \<in> set (ly_relocs s). \<exists>t pc. (br_index r, t, pc) \<in> set ops \<and> find_vlabel (ly_vlabels s) (br_target r) = Some t
          \<and> \<not> (t \<le> br_index r * 4 \<and> br_same_component r \<and> \<not> br_checked r)"
    "ef_vlabels f = ly_vlabels s" "ef_entry_labels f = entry_labels_of program (ly_vlabels s)"
    "find_vlabel (ef_entry_labels f) (rb_start (hd program)) = Some (ef_entry_offset f)"
  using assms unfolding resolved_def by - (elim conjE, assumption)+

lemma chilledD:
  assumes "chilled ws cs c"
  shows "co_insns c = KJIT_PROLOGUE @ KJIT_EPILOGUE @ map ri_insn (ws @ cs)"
    "co_exits c = map fst (positions is_exit (ws @ cs))"
    "find_vlabel (co_stubs c) pc = Some off \<longleftrightarrow> stub_of ws cs pc off" "list_all plain_word cs"
  using assms by (auto simp: chilled_def)

lemma laidD:
  assumes "laid items s"
  shows "ly_sites s = map (\<lambda>(j, pc). (j * 4, pc)) (positions is_access (item_words items))"
    "ly_range s = positions (is_check KRangeCheck) (item_words items)"
    "ly_align s = positions (is_check KAlignCheck) (item_words items)"
    "ly_budget s = positions (is_check KBudgetCheck) (item_words items)"
    "ly_relocs s = reloc_table items"
    "find_vlabel (ly_vlabels s) pc = Some off \<longleftrightarrow> (\<exists>k. first_at pc (item_words items) k \<and> off = 4 * word_index k)"
    "\<forall>m \<in> set (ly_misses s). \<exists>k < length (item_words items). fst m = wrapper_len + k \<and> ri_kind (item_words items ! k) = KDispatchLookup"
    "list_all well_tagged (item_words items)"
  using assms by (auto simp: laid_def Let_def)

lemma resolved_word:
  assumes "resolved program f s c ops" "k < length (body_words program @ cold_words program)"
  shows "co_insns c ! word_index k = ri_insn ((body_words program @ cold_words program) ! k)"
    "retargeted (ri_insn ((body_words program @ cold_words program) ! k)) (ef_insns f ! word_index k)"
    "word_index k \<notin> set (map fst ops) \<Longrightarrow> ef_insns f ! word_index k = ri_insn ((body_words program @ cold_words program) ! k)"
proof -
  let ?all = "body_words program @ cold_words program"
  have co: "co_insns c = (KJIT_PROLOGUE @ KJIT_EPILOGUE) @ map ri_insn ?all"
    using chilledD(1) [OF resolvedD(2) [OF assms(1)]] by simp
  show co_k: "co_insns c ! word_index k = ri_insn (?all ! k)"
    unfolding co wrapper_len_def nth_append_length_plus using assms(2) by (rule nth_map)
  note applied = apply_ops [OF resolvedD(4,5) [OF assms(1)]]
  show same: "word_index k \<notin> set (map fst ops) \<Longrightarrow> ef_insns f ! word_index k = ri_insn (?all ! k)"
    using applied(2) co_k by metis
  show "retargeted (ri_insn (?all ! k)) (ef_insns f ! word_index k)"
  proof (cases "word_index k \<in> set (map fst ops)")
    case True
    then obtain op where "op \<in> set ops" "fst op = word_index k" by auto
    then obtain t pc where "(word_index k, t, pc) \<in> set ops" by (metis prod.collapse)
    from applied(3) [OF this] co_k show ?thesis by (auto simp: retargeted_def)
  qed (use same in \<open>simp add: retargeted_def\<close>)
qed

lemma resolved_jump:
  assumes "resolved program f s c ops" "(k, t, pc) \<in> set ops"
  shows "jumps_to (ef_insns f ! k) (4 * k) t"
  using apply_ops(3) [OF resolvedD(4,5) [OF assms(1)] assms(2)] by blast

lemma resolved_check:
  assumes "resolved program f s c ops" "k < length (body_words program)" "is_check kind (body_words program ! k)"
    "kind \<in> {KRangeCheck, KAlignCheck, KBudgetCheck}"
  shows "\<exists>stub. fragment_stub program (ri_pc (body_words program ! k)) stub
    \<and> jumps_to (ef_insns f ! word_index k) (4 * word_index k) stub"
proof -
  note laid = laidD(2-4) [OF resolvedD(1) [OF assms(1)], unfolded program_items_words]
  have "(word_index k, ri_pc (body_words program ! k)) \<in> set (ly_range s) \<union> set (ly_align s) \<union> set (ly_budget s)"
    unfolding laid using assms(2-4) by (auto simp: positions_in)
  from bspec [OF resolvedD(7) [OF assms(1)] this] obtain t pc where "(word_index k, t, pc) \<in> set ops"
    "find_vlabel (co_stubs c) (ri_pc (body_words program ! k)) = Some t" by auto
  with resolved_jump [OF assms(1)] chilledD(3) [OF resolvedD(2) [OF assms(1)]] show ?thesis
    unfolding fragment_stub_def by blast
qed

lemma resolved_exit:
  assumes "resolved program f s c ops" "k < length (body_words program @ cold_words program)"
    "is_exit ((body_words program @ cold_words program) ! k)"
  shows "jumps_to (ef_insns f ! word_index k) (4 * word_index k) EPILOGUE_OFFSET"
proof -
  have "(word_index k, ri_pc ((body_words program @ cold_words program) ! k)) \<in> set (positions is_exit (body_words program @ cold_words program))"
    using assms(2,3) unfolding positions_in by blast
  then have "word_index k \<in> set (co_exits c)"
    unfolding chilledD(2) [OF resolvedD(2) [OF assms(1)]] by force
  with resolvedD(8) [OF assms(1)] resolved_jump [OF assms(1)] show ?thesis by blast
qed

lemma resolved_reloc:
  assumes "resolved program f s c ops" "k < length (body_words program)" "item_reloc (program_items program) k = Some r"
  shows "\<exists>m. first_at (br_target r) (body_words program) m
    \<and> jumps_to (ef_insns f ! word_index k) (4 * word_index k) (4 * word_index m)
    \<and> (m \<le> k \<longrightarrow> br_same_component r \<longrightarrow> br_checked r)"
proof -
  have len: "length (program_items program) = length (body_words program)"
    by (simp flip: program_items_words)
  have idx: "br_index r = word_index k" using item_reloc_index [OF assms(3)] by simp
  have "r \<in> set (ly_relocs s)"
    unfolding laidD(5) [OF resolvedD(1) [OF assms(1)]] reloc_table_in using assms(2,3) len by auto
  with resolvedD(9) [OF assms(1)] idx obtain t pc where t: "(word_index k, t, pc) \<in> set ops"
    "find_vlabel (ly_vlabels s) (br_target r) = Some t"
    "\<not> (t \<le> word_index k * 4 \<and> br_same_component r \<and> \<not> br_checked r)" by metis
  from t(2) obtain m where "first_at (br_target r) (body_words program) m" "t = 4 * word_index m"
    using laidD(6) [OF resolvedD(1) [OF assms(1)]] by (auto simp: program_items_words)
  with t(3) resolved_jump [OF assms(1) t(1)] show ?thesis by (intro exI [of _ m]) auto
qed

lemma resolved_plain:
  assumes "resolved program f s c ops" "k < length (body_words program)" "\<not> is_exit (body_words program ! k)"
    "\<forall>kind \<in> {KRangeCheck, KAlignCheck, KBudgetCheck}. \<not> is_check kind (body_words program ! k)"
    "item_reloc (program_items program) k = None" "ri_kind (body_words program ! k) \<noteq> KDispatchLookup"
  shows "ef_insns f ! word_index k = ri_insn (body_words program ! k)"
proof -
  note laid = resolvedD(1) [OF assms(1)]
  have no_pos: "word_index k \<notin> fst ` set (positions P (body_words program @ cs))" if "\<not> P (body_words program ! k)" for P cs
    using that assms(2) by (force simp: positions_in nth_append)
  have "word_index k \<notin> set (map fst (ly_range s))" "word_index k \<notin> set (map fst (ly_align s))"
    "word_index k \<notin> set (map fst (ly_budget s))"
    using no_pos [of _ "[]"] assms(4) unfolding laidD(2-4) [OF laid] program_items_words by auto
  moreover have "word_index k \<notin> set (co_exits c)"
    using no_pos [of is_exit "cold_words program"] assms(3) unfolding chilledD(2) [OF resolvedD(2) [OF assms(1)]] by simp
  moreover have "word_index k \<notin> set (map fst (ly_misses s))"
    using laidD(7) [OF laid] assms(6) unfolding program_items_words by force
  moreover have "word_index k \<notin> set (map br_index (ly_relocs s))"
  proof
    assume "word_index k \<in> set (map br_index (ly_relocs s))"
    then obtain j r where "item_reloc (program_items program) j = Some r" "br_index r = word_index k"
      unfolding laidD(5) [OF laid] by (auto simp: reloc_table_in simp del: set_concat)
    with item_reloc_index [of "program_items program" j r] assms(5) show False by simp
  qed
  ultimately have "word_index k \<notin> set (map fst ops)" unfolding resolvedD(6) [OF assms(1)] by simp
  from resolved_word(3) [OF assms(1) _ this] assms(2) show ?thesis by (simp add: nth_append)
qed

end
