(* ===== verification/LayoutProps.thy ===== *)
theory LayoutProps
  imports LayoutResult
begin

section \<open>Properties of a laid out fragment\<close>

text \<open>
  What \<open>layout_program\<close> promises of a fragment it returns: where the branches of its words go, which of
  its words have fault sites, and that no loop inside a component runs without a budget check. The index
  of the \<open>k\<close>-th body word is \<open>word_index k\<close>, its offset four times that.
\<close>

lemma checked_fold:
  "fold check_state ws None = Some pc \<Longrightarrow>
    \<exists>j < length ws. is_check KBudgetCheck (ws ! j) \<and> (\<forall>i. j \<le> i \<and> i < length ws \<longrightarrow> ri_pc (ws ! i) = pc)"
proof (induction ws rule: rev_induct)
  case (snoc w ws)
  show ?case
  proof (cases "is_check KBudgetCheck w")
    case True
    with snoc.prems show ?thesis by (intro exI [of _ "length ws"]) (auto simp: check_state_def less_Suc_eq)
  next
    case False
    with snoc.prems have "fold check_state ws None = Some pc \<and> ri_pc w = pc"
      by (cases "fold check_state ws None = Some (ri_pc w)") (simp_all add: check_state_def [of w])
    then have "fold check_state ws None = Some pc" "ri_pc w = pc" by blast+
    with snoc.IH obtain j where "j < length ws" "is_check KBudgetCheck (ws ! j)"
      "\<forall>i. j \<le> i \<and> i < length ws \<longrightarrow> ri_pc (ws ! i) = pc" by blast
    with \<open>ri_pc w = pc\<close> show ?thesis by (intro exI [of _ j]) (auto simp: nth_append less_Suc_eq)
  qed
qed simp

lemma checked_before_check:
  assumes "checked_before ws k" "k < length ws"
  shows "\<exists>j < k. is_check KBudgetCheck (ws ! j) \<and> (\<forall>i. j \<le> i \<and> i \<le> k \<longrightarrow> ri_pc (ws ! i) = ri_pc (ws ! k))"
proof -
  from checked_fold assms(1) obtain j where j: "j < length (take k ws)" "is_check KBudgetCheck (take k ws ! j)"
    "\<forall>i. j \<le> i \<and> i < length (take k ws) \<longrightarrow> ri_pc (take k ws ! i) = ri_pc (ws ! k)"
    unfolding checked_before_def by blast
  with assms(2) show ?thesis by (intro exI [of _ j]) (auto simp: le_less)
qed

text \<open>The guest pc a user branch of the body names.\<close>

definition branch_pc :: "rinsn \<Rightarrow> u64 option" where
  "branch_pc w =
    (if is_user_semantic (ri_kind w) \<and> reloc_kind_of (ri_insn w) \<noteq> None
     then map_option (\<lambda>(imm, n). ri_pc w + word_of_int (sign_extend_a64 (raw imm) n * 4)) (branch_imm_field (ri_insn w))
     else None)"

text \<open>Whether the layout takes the pc to be in the component of the block the \<open>k\<close>-th body word is of.\<close>

definition in_own_component :: "rblock list \<Rightarrow> nat \<Rightarrow> u64 \<Rightarrow> bool" where
  "in_own_component program k pc = fst (program_items program ! k) pc"

lemma branch_pc_reloc:
  assumes "k < length (body_words program)" "branch_pc (body_words program ! k) = Some pc"
  shows "\<exists>r. item_reloc (program_items program) k = Some r \<and> br_target r = pc
    \<and> br_checked r = checked_before (body_words program) k \<and> br_same_component r = in_own_component program k pc"
proof -
  have "snd (program_items program ! k) = body_words program ! k"
    using assms(1) by (simp flip: program_items_words add: item_words_def)
  with assms(2) show ?thesis
    by (auto simp: item_reloc_def user_reloc_def branch_reloc_for_def branch_pc_def program_items_words Let_def
        in_own_component_def split: if_splits option.splits)
qed

text \<open>
  C6: a branch a fragment's user code makes lands on the first word the fragment has for the guest pc
  the branch names, and the fragment's label of that pc is the offset of this word.
\<close>

theorem user_branches_land:
  assumes "layout_program program = Inr f" "k < length (body_words program)"
    and "branch_pc (body_words program ! k) = Some pc"
  shows "\<exists>m. first_at pc (body_words program) m \<and> body_offset_for_pc f pc = Some (4 * word_index m)
    \<and> jumps_to (ef_insns f ! word_index k) (4 * word_index k) (4 * word_index m)"
proof -
  obtain s c ops where r: "resolved program f s c ops" using layout_resolved [OF assms(1)] by blast
  obtain reloc where reloc: "item_reloc (program_items program) k = Some reloc" "br_target reloc = pc"
    using branch_pc_reloc [OF assms(2,3)] by blast
  from resolved_reloc [OF r assms(2) reloc(1)] reloc(2) obtain m where m: "first_at pc (body_words program) m"
    "jumps_to (ef_insns f ! word_index k) (4 * word_index k) (4 * word_index m)" by blast
  moreover have "body_offset_for_pc f pc = Some (4 * word_index m)"
    using laidD(6) [OF resolvedD(1) [OF r]] m(1)
    by (auto simp: body_offset_for_pc_def resolvedD(10) [OF r] program_items_words)
  ultimately show ?thesis by blast
qed


text \<open>
  C5: the fault sites of a fragment are the accesses its user code makes, in ascending order, each with
  the guest pc of its word and with the start of a cold group of that pc as its stub; no word the fragment
  takes from the program is an unprivileged or a window access without one.
\<close>

theorem every_access_has_a_site:
  assumes "layout_program program = Inr f"
  shows "map (\<lambda>site. (lf_access_offset site, lf_ori_pc site)) (ef_fault_sites f)
      = map (\<lambda>(j, pc). (4 * j, pc)) (positions (\<lambda>w. is_unprivileged_access (ri_insn w) \<or> is_pan_window_access (ri_insn w)) (body_words program))
    \<and> list_all (\<lambda>site. fragment_stub program (lf_ori_pc site) (lf_stub_offset site)) (ef_fault_sites f)
    \<and> list_all (\<lambda>w. \<not> is_unprivileged_access (ri_insn w) \<and> fpsimd_mem (ri_insn w) = None \<and> lse_atomic (ri_insn w) = None)
        (cold_words program)"
proof -
  obtain s c ops where r: "resolved program f s c ops" using layout_resolved [OF assms] by blast
  note sites = push_each_resolve [OF resolvedD(3) [OF r]]
  have tags: "list_all well_tagged (body_words program)"
    using laidD(8) [OF resolvedD(1) [OF r]] by (simp add: program_items_words)
  then have "filter (\<lambda>(j, w). is_access w) (enumerate wrapper_len (body_words program)) =
      filter (\<lambda>(j, w). is_unprivileged_access (ri_insn w) \<or> is_pan_window_access (ri_insn w)) (enumerate wrapper_len (body_words program))"
    by (intro filter_cong) (auto simp: list_all_iff in_set_enumerate_eq is_access_def well_tagged_def)
  then have pos: "positions is_access (body_words program) =
      positions (\<lambda>w. is_unprivileged_access (ri_insn w) \<or> is_pan_window_access (ri_insn w)) (body_words program)"
    by (simp add: positions_def)
  have "list_all (\<lambda>site. fragment_stub program (lf_ori_pc site) (lf_stub_offset site)) (ef_fault_sites f)"
    using sites chilledD(3) [OF resolvedD(2) [OF r]] by (simp add: list_all_iff fragment_stub_def)
  moreover have "list_all plain_word (cold_words program)" by (rule chilledD(4) [OF resolvedD(2) [OF r]])
  ultimately show ?thesis
    using sites unfolding laidD(1) [OF resolvedD(1) [OF r]] program_items_words pos
    by (simp add: list_all_iff plain_word_def mult.commute)
qed

lemma take_same:
  assumes "length a = n" "n \<le> length xs" "\<And>k. k < n \<Longrightarrow> xs ! k = (a @ b) ! k"
  shows "take n xs = a"
  by (rule nth_equalityI) (use assms in \<open>simp_all add: nth_append\<close>)

text \<open>
  C7: the words a fragment has for its program are the program's words, save the targets of branches, and
  its first words are the prologue and the epilogue; the exits of the body and of the stubs branch to the epilogue.
\<close>

theorem words_of_the_program:
  assumes "layout_program program = Inr f"
  shows "length (ef_insns f) = wrapper_len + length (body_words program @ cold_words program)
    \<and> take wrapper_len (ef_insns f) = KJIT_PROLOGUE @ KJIT_EPILOGUE
    \<and> list_all2 (\<lambda>w i. retargeted (ri_insn w) i) (body_words program @ cold_words program) (drop wrapper_len (ef_insns f))
    \<and> (\<forall>(k, w) \<in> set (enumerate 0 (body_words program @ cold_words program)).
        ri_kind w \<noteq> KRuntimeExitBranch \<or> jumps_to (ef_insns f ! word_index k) (4 * word_index k) EPILOGUE_OFFSET)"
proof -
  obtain s c ops where r: "resolved program f s c ops" using layout_resolved [OF assms] by blast
  let ?all = "body_words program @ cold_words program"
  have co: "co_insns c = (KJIT_PROLOGUE @ KJIT_EPILOGUE) @ map ri_insn ?all"
    using chilledD(1) [OF resolvedD(2) [OF r]] by simp
  note applied = apply_ops [OF resolvedD(4,5) [OF r]]
  have len: "length (ef_insns f) = wrapper_len + length ?all"
    unfolding applied(1) co by (simp add: wrapper_len_def)
  have keep: "ef_insns f ! k = co_insns c ! k" if here: "k < wrapper_len" for k
  proof (rule applied(2), unfold resolvedD(6) [OF r])
    have "wrapper_len \<le> j" if there: "j \<in> set (map fst (ly_range s) @ map fst (ly_align s) @ map fst (ly_misses s)
        @ map fst (ly_budget s) @ co_exits c @ map br_index (ly_relocs s))" for j
    proof -
      have "br_index x = wrapper_len + k" if "item_reloc items k = Some x" for items k x
        using item_reloc_index [OF that] by simp
      with there show ?thesis
        unfolding laidD(2-5) [OF resolvedD(1) [OF r]] chilledD(2) [OF resolvedD(2) [OF r]]
        using laidD(7) [OF resolvedD(1) [OF r]]
        by (auto simp: reloc_table_in positions_in simp del: set_concat)
    qed
    with here show "k \<notin> set (map fst (ly_range s) @ map fst (ly_align s) @ map fst (ly_misses s)
        @ map fst (ly_budget s) @ co_exits c @ map br_index (ly_relocs s))" by (metis not_less)
  qed
  have "take wrapper_len (ef_insns f) = KJIT_PROLOGUE @ KJIT_EPILOGUE"
    by (rule take_same [OF wrapper_len_def [symmetric]]) (use keep len in \<open>simp_all add: co\<close>)
  moreover have "list_all2 (\<lambda>w i. retargeted (ri_insn w) i) ?all (drop wrapper_len (ef_insns f))"
    unfolding list_all2_conv_all_nth using resolved_word(2) [OF r] len by simp
  moreover have "\<forall>(k, w) \<in> set (enumerate 0 ?all).
      ri_kind w \<noteq> KRuntimeExitBranch \<or> jumps_to (ef_insns f ! word_index k) (4 * word_index k) EPILOGUE_OFFSET"
    using resolved_exit [OF r] by (auto simp: in_set_enumerate_eq is_exit_def)
  ultimately show ?thesis using len by blast
qed

end
