(* ===== verification/DemoLayout.thy ===== *)
theory DemoLayout
  imports DemoProgram LayoutProps
begin

section \<open>The layout of the demo program\<close>

text \<open>
  The fragment of \<open>DemoProgram\<close>, computed by the layout, and the witnesses of its properties. The words
  of the wrapper are kept folded: only their number matters.
\<close>

definition demo_wrapper :: "a64_insn list" where
  "demo_wrapper = KJIT_PROLOGUE @ KJIT_EPILOGUE"

lemma demo_wrapper_length: "length demo_wrapper = 77"
  by (simp add: demo_wrapper_def KJIT_PROLOGUE_def KJIT_EPILOGUE_def)

definition demo_words :: "rinsn list" where
  "demo_words = rb_insns (hd demo_virtual)"

definition demo_stubs :: "rinsn list" where
  "demo_stubs = rb_cold (hd demo_virtual)"

lemma demo_exits:
  "native_resume_exit RsMem 0x1000 0xF9400181 = map (rword KRuntimeExitPayload 0x1000)
    [mov_word Movz (reg_x 9) 5 0, mov_word Movz (reg_x 10) 0xF9400181 0, mov_word Movk (reg_x 10) 0xF9400181 1,
     mov_word Movz (reg_x 11) 0x1000 0] @ [branch_to_stub 0x1000]"
  "native_resume_exit RsBudget 0x1004 0x17FFFFFF = map (rword KRuntimeExitPayload 0x1004)
    [mov_word Movz (reg_x 9) 7 0, mov_word Movz (reg_x 10) 0x17FFFFFF 0, mov_word Movk (reg_x 10) 0x17FFFFFF 1,
     mov_word Movz (reg_x 11) 0x1004 0] @ [branch_to_stub 0x1004]"
  by code_simp+

lemmas demo_word_defs = demo_words_def demo_stubs_def demo_virtual_def demo_saves_def demo_exits budget_check_def rword_def

lemmas demo_place_defs = place_word_def check_link_slot_def check_tags_def note_word_def Let_def insert_vlabel_once_def
  find_vlabel_def branch_bits_def branch_reloc_for_def is_user_semantic_def is_pan_window_access_def sign_extend_a64_def

definition demo_laid :: layout where
  "demo_laid = \<lparr>ly_insns = demo_wrapper @ map ri_insn demo_words, ly_vlabels = [(0x1000, 308), (0x1004, 316)],
    ly_sites = [(312, 0x1000)], ly_links = [],
    ly_relocs = [\<lparr>br_index = 81, br_target = 0x1000, br_kind = RkB, br_checked = True, br_same_component = True\<rparr>],
    ly_exits = [], ly_range = [], ly_budget = [(80, 0x1004)], ly_align = [], ly_template = None, ly_misses = [],
    ly_slot = None, ly_checked = Some 0x1004\<rparr>"

definition demo_chilled :: cold_layout where
  "demo_chilled = \<lparr>co_insns = demo_wrapper @ map ri_insn (demo_words @ demo_stubs),
    co_stubs = [(0x1000, 328), (0x1004, 364)], co_exits = [90, 99], co_group_start = True\<rparr>"

lemma demo_layout_start:
  "layout_start = \<lparr>ly_insns = demo_wrapper, ly_vlabels = [], ly_sites = [], ly_links = [], ly_relocs = [],
     ly_exits = [], ly_range = [], ly_budget = [], ly_align = [], ly_template = None, ly_misses = [],
     ly_slot = None, ly_checked = None\<rparr>"
  by (simp add: layout_start_def demo_wrapper_def)

lemma demo_placed: "place_blocks demo_virtual [0] layout_start = Inr demo_laid"
  by (simp add: place_blocks_def demo_layout_start demo_laid_def demo_words_def demo_virtual_def demo_place_defs rword_def
      budget_check_def demo_wrapper_length demo_back_def same_component_def block_containing_def imm_defs)

lemma demo_cold_placed:
  "rfold place_cold demo_stubs \<lparr>co_insns = ly_insns demo_laid, co_stubs = [], co_exits = ly_exits demo_laid,
    co_group_start = True\<rparr> = Inr demo_chilled"
  by (simp add: demo_word_defs place_cold_def demo_place_defs demo_wrapper_length mov_word_def branch_to_stub_def
      demo_laid_def demo_chilled_def)

lemma demo_place_program: "place_program demo_virtual [0] = Inr (demo_laid, demo_chilled)"
proof -
  have "concat (map (\<lambda>k. rb_cold (demo_virtual ! k)) [0]) = demo_stubs" by (simp add: demo_stubs_def demo_virtual_def)
  with demo_cold_placed show ?thesis by (simp add: place_program_def demo_placed) (simp add: demo_laid_def)
qed

subsection \<open>Resolution\<close>

text \<open>A rewrite of a word behind the wrapper.\<close>

lemma demo_rewrite:
  assumes "77 \<le> j" "j < 77 + length ws"
  shows "rewrite_branch_to_offset j t pc (demo_wrapper @ ws) =
    (case branch_bits (ws ! (j - 77)) of
       None \<Rightarrow> Inl (LeUnsupportedBranchField j)
     | Some n \<Rightarrow>
         rbind (encode_branch_delta (j * 4) t 2 n j pc) (\<lambda>encoded.
           case set_branch_target_imm (ws ! (j - 77)) encoded of
             Inl ReUnsupportedField \<Rightarrow> Inl (LeUnsupportedBranchField j)
           | Inl ReFieldOutOfRange \<Rightarrow> Inl (LeBranchOutOfRange j pc)
           | Inr i \<Rightarrow> Inr (demo_wrapper @ ws[j - 77 := i])))"
proof -
  have "(demo_wrapper @ ws) ! j = ws ! (j - 77)" "\<And>i. (demo_wrapper @ ws)[j := i] = demo_wrapper @ ws[j - 77 := i]"
    using assms by (simp_all add: demo_wrapper_length nth_append list_update_append)
  note nth = this
  show ?thesis unfolding rewrite_branch_to_offset_def nth using assms by (simp add: demo_wrapper_length)
qed

definition demo_resolved :: "a64_insn list" where
  "demo_resolved = (map ri_insn (demo_words @ demo_stubs))
    [3 := Brn (Cbz X64 (imm_scaled_signed 11 19 2) (reg_x BUDGET_COUNTER_REG)),
     13 := Brn (BUncond (imm_scaled_signed 0x3FFFFD0 26 2)), 22 := Brn (BUncond (imm_scaled_signed 0x3FFFFC7 26 2)),
     4 := Brn (BUncond (imm_scaled_signed 0x3FFFFFC 26 2))]"

definition demo_fragment :: exec_fragment where
  "demo_fragment = \<lparr>ef_insns = demo_wrapper @ demo_resolved, ef_entry_offset = 308, ef_vlabels = [(0x1000, 308), (0x1004, 316)],
    ef_entry_labels = [(0x1000, 308)],
    ef_fault_sites = [\<lparr>lf_access_offset = 312, lf_stub_offset = 328, lf_ori_pc = 0x1000\<rparr>], ef_link_sites = []\<rparr>"

lemmas demo_resolve_defs = resolve_stubs_def push_each_def resolve_site_def find_vlabel_def resolve_to_stub_def
  resolve_exit_def resolve_reloc_def demo_rewrite branch_bits_def encode_branch_delta_def set_branch_target_imm_def Let_def

lemma demo_stubs_resolved:
  "resolve_stubs demo_laid demo_chilled = Inr (ef_fault_sites demo_fragment,
    demo_wrapper @ (map ri_insn (demo_words @ demo_stubs))
      [3 := Brn (Cbz X64 (imm_scaled_signed 11 19 2) (reg_x BUDGET_COUNTER_REG))])"
  by (simp add: demo_resolve_defs demo_laid_def demo_chilled_def demo_fragment_def demo_word_defs)

lemma demo_exits_resolved:
  "rfold resolve_exit [90, 99] (demo_wrapper @ (map ri_insn (demo_words @ demo_stubs))
      [3 := Brn (Cbz X64 (imm_scaled_signed 11 19 2) (reg_x BUDGET_COUNTER_REG))])
    = Inr (demo_wrapper @ (map ri_insn (demo_words @ demo_stubs))
      [3 := Brn (Cbz X64 (imm_scaled_signed 11 19 2) (reg_x BUDGET_COUNTER_REG)),
       13 := Brn (BUncond (imm_scaled_signed 0x3FFFFD0 26 2)), 22 := Brn (BUncond (imm_scaled_signed 0x3FFFFC7 26 2))])"
  by (simp add: demo_resolve_defs demo_word_defs branch_to_stub_def wrapper_lengths(2))

lemma demo_relocs_resolved:
  "rfold (resolve_reloc (ly_vlabels demo_laid)) (ly_relocs demo_laid)
    (demo_wrapper @ (map ri_insn (demo_words @ demo_stubs))
      [3 := Brn (Cbz X64 (imm_scaled_signed 11 19 2) (reg_x BUDGET_COUNTER_REG)),
       13 := Brn (BUncond (imm_scaled_signed 0x3FFFFD0 26 2)), 22 := Brn (BUncond (imm_scaled_signed 0x3FFFFC7 26 2))])
    = Inr (demo_wrapper @ demo_resolved)"
  by (simp add: demo_resolve_defs demo_word_defs demo_back_def demo_laid_def demo_resolved_def)

lemma demo_layout: "layout_program demo_virtual = Inr demo_fragment"
proof -
  obtain b where shape: "demo_virtual = [b]" "rb_start b = 0x1000" by (simp add: demo_virtual_def)
  have run: "layout_program demo_virtual =
      (let order = layout_block_order (map rb_start demo_virtual) in
        rbind (check_fallthrough_adjacency demo_virtual order) (\<lambda>_.
        rbind (place_program demo_virtual order) (\<lambda>(s, c).
        rbind (resolve_stubs s c) (\<lambda>(sites, insns).
        (let labels = entry_labels_of demo_virtual (ly_vlabels s) in
         rbind (ok_or (find_vlabel labels (rb_start b)) (LeMissingLabel (rb_start b))) (\<lambda>entry.
         rbind (rfold resolve_exit (co_exits c) insns) (\<lambda>insns.
         rbind (rfold (resolve_reloc (ly_vlabels s)) (ly_relocs s) insns) (\<lambda>insns.
         Inr \<lparr>ef_insns = insns, ef_entry_offset = entry, ef_vlabels = ly_vlabels s, ef_entry_labels = labels,
              ef_fault_sites = sites, ef_link_sites = ly_links s\<rparr>))))))))"
    unfolding layout_program_def shape(1) by simp
  have order: "layout_block_order (map rb_start demo_virtual) = [0]" by (simp add: demo_virtual_def layout_block_order_def)
  have "check_fallthrough_adjacency demo_virtual [0] = Inr ()"
    by (simp add: check_fallthrough_adjacency_def demo_virtual_def)
  moreover have "entry_labels_of demo_virtual (ly_vlabels demo_laid) = [(0x1000, 308)]"
    by (simp add: entry_labels_of_def demo_laid_def demo_virtual_def find_vlabel_def List.map_filter_def)
  moreover have "co_exits demo_chilled = [90, 99]" by (simp add: demo_chilled_def)
  ultimately show ?thesis
    unfolding run
    by (simp add: order demo_place_program demo_stubs_resolved shape(2) demo_exits_resolved demo_relocs_resolved
        find_vlabel_def demo_fragment_def del: rfold.simps map_append) (simp add: demo_laid_def)
qed

theorem demo_compiles: "compile_request demo_code 0x1000 = Some (Inr demo_fragment)"
  by (simp add: compile_request_def demo_build demo_rephrased demo_virtualized demo_layout)

section \<open>Witnesses of the layout's properties\<close>

lemma demo_program_order: "program_order demo_virtual = [0]"
  by (simp add: program_order_def layout_block_order_def demo_virtual_def)

lemma demo_body_words: "body_words demo_virtual = demo_words" "cold_words demo_virtual = demo_stubs"
  unfolding body_words_def cold_words_def demo_program_order by (simp_all add: demo_words_def demo_stubs_def demo_virtual_def)

lemma demo_back_branch: "branch_pc (demo_words ! 4) = Some 0x1000" "length demo_words = 5"
  by (simp_all add: branch_pc_def demo_word_defs is_user_semantic_def demo_back_def imm_defs sign_extend_a64_def)

theorem rewritten_branch_jumps_witness:
  "jumps_to (demo_resolved ! 4) (4 * 81) 308"
proof -
  let ?ws = "(map ri_insn (demo_words @ demo_stubs))
      [3 := Brn (Cbz X64 (imm_scaled_signed 11 19 2) (reg_x BUDGET_COUNTER_REG)),
       13 := Brn (BUncond (imm_scaled_signed 0x3FFFFD0 26 2)), 22 := Brn (BUncond (imm_scaled_signed 0x3FFFFC7 26 2))]"
  have "rewrite_branch_to_offset 81 308 0x1000 (demo_wrapper @ ?ws) = Inr (demo_wrapper @ demo_resolved)"
    by (simp add: demo_resolve_defs demo_word_defs demo_back_def demo_resolved_def)
  from rewritten_branch_jumps [OF this] have "jumps_to ((demo_wrapper @ demo_resolved) ! (77 + 4)) (4 * 81) 308" by simp
  then show ?thesis using demo_wrapper_length nth_append_length_plus [of demo_wrapper demo_resolved 4] by simp
qed

theorem user_branches_land_witness:
  "\<exists>m. first_at 0x1000 demo_words m \<and> body_offset_for_pc demo_fragment 0x1000 = Some (4 * word_index m)
    \<and> jumps_to (ef_insns demo_fragment ! word_index 4) (4 * word_index 4) (4 * word_index m)"
  by (rule user_branches_land [OF demo_layout, where k = 4 and pc = "0x1000", unfolded demo_body_words]) (simp_all add: demo_back_branch)


theorem every_access_has_a_site_witness:
  "map (\<lambda>site. (lf_access_offset site, lf_ori_pc site)) (ef_fault_sites demo_fragment) = [(312, 0x1000)]
    \<and> positions (\<lambda>w. is_unprivileged_access (ri_insn w) \<or> is_pan_window_access (ri_insn w)) demo_words = [(78, 0x1000)]"
proof -
  have at: "positions (\<lambda>w. is_unprivileged_access (ri_insn w) \<or> is_pan_window_access (ri_insn w)) demo_words = [(78, 0x1000)]"
    by (simp add: positions_def demo_word_defs wrapper_len is_pan_window_access_def demo_back_def)
  with every_access_has_a_site [OF demo_layout, unfolded demo_body_words] show ?thesis by simp
qed

theorem words_of_the_program_witness:
  "list_all2 (\<lambda>w i. retargeted (ri_insn w) i) (demo_words @ demo_stubs) (drop wrapper_len (ef_insns demo_fragment))"
  using words_of_the_program [OF demo_layout, unfolded demo_body_words] by blast

end
