(* ===== verification/DpSim.thy ===== *)
theory DpSim
  imports LayoutSteps InterpRoles
begin

section \<open>Data processing in terms of operands\<close>

text \<open>
  What a data-processing instruction does depends on its registers only through the values it reads: with
  other registers that hold the same values it computes the same result, for its other destination.
\<close>

fun dp_with :: "(a64_field \<Rightarrow> a64_reg) \<Rightarrow> a64_dp \<Rightarrow> a64_dp" where
  "dp_with h (Adr lo hi rd) = Adr lo hi (h FRd)"
| "dp_with h (Adrp lo hi rd) = Adrp lo hi (h FRd)"
| "dp_with h (AddSubImm op w sh i rn rd) = AddSubImm op w sh i (h FRn) (h FRd)"
| "dp_with h (AddSubShift op w sh rm i rn rd) = AddSubShift op w sh (h FRm) i (h FRn) (h FRd)"
| "dp_with h (AddSubExt op w rm x i rn rd) = AddSubExt op w (h FRm) x i (h FRn) (h FRd)"
| "dp_with h (AddSubCarry op w rm rn rd) = AddSubCarry op w (h FRm) (h FRn) (h FRd)"
| "dp_with h (LogShift op w sh rm i rn rd) = LogShift op w sh (h FRm) i (h FRn) (h FRd)"
| "dp_with h (LogImm op w n r s rn rd) = LogImm op w n r s (h FRn) (h FRd)"
| "dp_with h (MoveWide op w hw i rd) = MoveWide op w hw i (h FRd)"
| "dp_with h (Bitfield op w r s rn rd) = Bitfield op w r s (h FRn) (h FRd)"
| "dp_with h (Extr w rm s rn rd) = Extr w (h FRm) s (h FRn) (h FRd)"
| "dp_with h (CondSel op w rm c rn rd) = CondSel op w (h FRm) c (h FRn) (h FRd)"
| "dp_with h (CondCmpImm op w i c rn nzcv) = CondCmpImm op w i c (h FRn) nzcv"
| "dp_with h (CondCmpReg op w rm c rn nzcv) = CondCmpReg op w (h FRm) c (h FRn) nzcv"
| "dp_with h (Dp2 op w rm rn rd) = Dp2 op w (h FRm) (h FRn) (h FRd)"
| "dp_with h (Crc32 c sz rm rn rd) = Crc32 c sz (h FRm) (h FRn) (h FRd)"
| "dp_with h (Dp3 op w rm ra rn rd) = Dp3 op w (h FRm) (h FRa) (h FRn) (h FRd)"
| "dp_with h (Dp3Long op rm ra rn rd) = Dp3Long op (h FRm) (h FRa) (h FRn) (h FRd)"
| "dp_with h (MulHigh sg rm rn rd) = MulHigh sg (h FRm) (h FRn) (h FRd)"
| "dp_with h (Dp1 op w rn rd) = Dp1 op w (h FRn) (h FRd)"
| "dp_with h (Rev32 rn rd) = Rev32 (h FRn) (h FRd)"

definition dp_reads :: "a64_dp \<Rightarrow> a64_field set" where
  "dp_reads i = {f. \<exists>w. RegRead f w \<in> set (dp_roles i)}"

definition write_dest :: "a64_reg option \<Rightarrow> u64 \<Rightarrow> machine \<Rightarrow> machine" where
  "write_dest rd v st = (case rd of None \<Rightarrow> st | Some r \<Rightarrow> write_reg r v st)"

text \<open>Two executions with the same result: the same error, or the same value and the same flags.\<close>

definition same_result :: "machine \<Rightarrow> a64_reg option \<Rightarrow> unit outcome \<Rightarrow> machine \<Rightarrow> a64_reg option \<Rightarrow> unit outcome \<Rightarrow> bool" where
  "same_result st1 d1 r1 st2 d2 r2 \<longleftrightarrow>
    (\<exists>e. r1 = failing st1 e \<and> r2 = failing st2 e)
    \<or> (\<exists>v fl. r1 = okay (write_dest d1 v (st1\<lparr>m_flags := fl\<rparr>)) \<and> r2 = okay (write_dest d2 v (st2\<lparr>m_flags := fl\<rparr>)))"

lemma same_fail [intro]: "same_result st1 d1 (failing st1 e) st2 d2 (failing st2 e)"
  by (auto simp: same_result_def)

lemma same_flags: "same_result st1 (Some d1) (okay (write_reg_sized d1 v bs (st1\<lparr>m_flags := fl\<rparr>)))
    st2 (Some d2) (okay (write_reg_sized d2 v bs (st2\<lparr>m_flags := fl\<rparr>)))"
  unfolding same_result_def write_reg_sized_def write_dest_def by auto

lemma same_okay:
  assumes "m_flags st1 = m_flags st2"
  shows "same_result st1 (Some d1) (okay (write_reg_sized d1 v bs st1)) st2 (Some d2) (okay (write_reg_sized d2 v bs st2))"
    "same_result st1 (Some d1) (okay (write_reg d1 v st1)) st2 (Some d2) (okay (write_reg d2 v st2))"
proof -
  have eq: "st1\<lparr>m_flags := m_flags st1\<rparr> = st1" "st2\<lparr>m_flags := m_flags st1\<rparr> = st2" by (simp_all add: assms)
  show "same_result st1 (Some d1) (okay (write_reg_sized d1 v bs st1)) st2 (Some d2) (okay (write_reg_sized d2 v bs st2))"
    using same_flags [of st1 d1 v bs "m_flags st1" st2 d2] unfolding eq .
  show "same_result st1 (Some d1) (okay (write_reg d1 v st1)) st2 (Some d2) (okay (write_reg d2 v st2))"
    using same_flags [of st1 d1 v 64 "m_flags st1" st2 d2] unfolding eq by (simp add: write_reg_sized_def)
qed

lemma same_no_dest: "same_result st1 None (okay (st1\<lparr>m_flags := fl\<rparr>)) st2 None (okay (st2\<lparr>m_flags := fl\<rparr>))"
  by (auto simp: same_result_def write_dest_def)

lemma read_sized_same: "read_reg st2 r2 = read_reg st1 r1 \<Longrightarrow> read_reg_sized st2 r2 bs = read_reg_sized st1 r1 bs"
  by (simp add: read_reg_sized_def)

lemma dp_fields:
  assumes "\<forall>f \<in> dp_reads i. \<exists>r. map_of (dp_regs i) f = Some r \<and> read_reg st2 (h f) = read_reg st1 r"
  shows "RegRead f w \<in> set (dp_roles i) \<Longrightarrow> map_of (dp_regs i) f = Some r \<Longrightarrow> read_reg st2 (h f) = read_reg st1 r"
  using assms by (auto simp: dp_reads_def)

text \<open>The functions of the interpreter, in the operands they are given.\<close>

lemma same_add_sub:
  "m_flags st1 = m_flags st2 \<Longrightarrow>
    same_result st1 (Some d1) (okay (add_sub sub fl bs d1 a b st1)) st2 (Some d2) (okay (add_sub sub fl bs d2 a b st2))"
  by (cases fl) (simp_all add: add_sub_def Let_def same_okay same_flags split: prod.split)

lemma same_logical:
  "m_flags st1 = m_flags st2 \<Longrightarrow>
    same_result st1 (Some d1) (okay (logical lop fl bs a b d1 st1)) st2 (Some d2) (okay (logical lop fl bs a b d2 st2))"
  by (cases fl) (simp_all add: logical_def Let_def same_okay same_flags)

lemma same_case_sum:
  assumes "\<And>v. same_result st1 d1 (f v) st2 d2 (g v)"
  shows "same_result st1 d1 (case r of Inl e \<Rightarrow> failing st1 e | Inr v \<Rightarrow> f v) st2 d2 (case r of Inl e \<Rightarrow> failing st2 e | Inr v \<Rightarrow> g v)"
  using assms by (auto split: sum.split)

lemma same_case_option:
  assumes "\<And>v. same_result st1 d1 (f v) st2 d2 (g v)"
  shows "same_result st1 d1 (case r of None \<Rightarrow> failing st1 e | Some v \<Rightarrow> f v) st2 d2 (case r of None \<Rightarrow> failing st2 e | Some v \<Rightarrow> g v)"
  using assms by (auto split: option.split)

lemmas same_intros = same_okay same_flags same_no_dest same_add_sub same_logical same_fail same_case_sum same_case_option

lemma same_addsub_imm:
  assumes "m_flags st1 = m_flags st2" "read_reg st2 n2 = read_reg st1 n1"
  shows "same_result st1 (Some d1) (exec_addsub_imm op w sh i n1 d1 st1) st2 (Some d2) (exec_addsub_imm op w sh i n2 d2 st2)"
  unfolding exec_addsub_imm_def Let_def
  by (rule same_case_option, cases op)
    (simp_all add: read_sized_same [OF assms(2)] same_okay same_add_sub assms(1))

lemma same_add_sub_reg:
  assumes "m_flags st1 = m_flags st2" "read_reg st2 m2 = read_reg st1 m1" "read_reg st2 n2 = read_reg st1 n1"
  shows "same_result st1 (Some d1) (add_sub_shifted sub fl bs sh m1 i n1 d1 st1) st2 (Some d2) (add_sub_shifted sub fl bs sh m2 i n2 d2 st2)"
    "same_result st1 (Some d1) (add_sub_extended sub fl bs m1 x i n1 d1 st1) st2 (Some d2) (add_sub_extended sub fl bs m2 x i n2 d2 st2)"
    "same_result st1 (Some d1) (logical_shifted lop bs sh m1 i n1 d1 st1) st2 (Some d2) (logical_shifted lop bs sh m2 i n2 d2 st2)"
    "same_result st1 (Some d1) (okay (add_sub_carry sub fl bs m1 n1 d1 st1)) st2 (Some d2) (okay (add_sub_carry sub fl bs m2 n2 d2 st2))"
  by (auto simp: add_sub_shifted_def add_sub_extended_def logical_shifted_def add_sub_carry_def Let_def assms
      read_sized_same [OF assms(2)] read_sized_same [OF assms(3)]
      intro!: same_case_sum same_add_sub same_logical same_flags same_okay split: prod.split)

lemma same_one_source:
  assumes "m_flags st1 = m_flags st2" "read_reg st2 n2 = read_reg st1 n1"
  shows "same_result st1 (Some d1) (logical_imm liop bs n r s n1 d1 st1) st2 (Some d2) (logical_imm liop bs n r s n2 d2 st2)"
    "same_result st1 (Some d1) (okay (exec_dp1 op1 bs n1 d1 st1)) st2 (Some d2) (okay (exec_dp1 op1 bs n2 d2 st2))"
    "kind = Bfm \<longrightarrow> read_reg st2 d2 = read_reg st1 d1 \<Longrightarrow>
      same_result st1 (Some d1) (bitfield_move kind bs n r s n1 d1 st1) st2 (Some d2) (bitfield_move kind bs n r s n2 d2 st2)"
proof -
  show "same_result st1 (Some d1) (logical_imm liop bs n r s n1 d1 st1) st2 (Some d2) (logical_imm liop bs n r s n2 d2 st2)"
    by (auto simp: logical_imm_def assms intro!: same_case_option same_logical split: prod.split)
  show "same_result st1 (Some d1) (okay (exec_dp1 op1 bs n1 d1 st1)) st2 (Some d2) (okay (exec_dp1 op1 bs n2 d2 st2))"
    by (simp add: exec_dp1_def Let_def read_sized_same [OF assms(2)] same_okay assms(1))
  show "same_result st1 (Some d1) (bitfield_move kind bs n r s n1 d1 st1) st2 (Some d2) (bitfield_move kind bs n r s n2 d2 st2)"
    if "kind = Bfm \<longrightarrow> read_reg st2 d2 = read_reg st1 d1"
    using that read_sized_same [of st2 d2 st1 d1 bs]
    by (cases kind) (auto simp: bitfield_move_def Let_def read_sized_same [OF assms(2)] assms(1)
        intro!: same_case_option same_okay split: prod.split)
qed

lemma same_two_sources:
  assumes "m_flags st1 = m_flags st2" "read_reg st2 m2 = read_reg st1 m1" "read_reg st2 n2 = read_reg st1 n1"
  shows "same_result st1 (Some d1) (extract_reg bs m1 s n1 d1 st1) st2 (Some d2) (extract_reg bs m2 s n2 d2 st2)"
    "same_result st1 (Some d1) (cond_select ck bs m1 c n1 d1 st1) st2 (Some d2) (cond_select ck bs m2 c n2 d2 st2)"
    "same_result st1 (Some d1) (shift_variable sv bs m1 n1 d1 st1) st2 (Some d2) (shift_variable sv bs m2 n2 d2 st2)"
    "same_result st1 (Some d1) (okay (exec_divide sg bs m1 n1 d1 st1)) st2 (Some d2) (okay (exec_divide sg bs m2 n2 d2 st2))"
    "same_result st1 (Some d1) (okay (multiply_high sg m1 n1 d1 st1)) st2 (Some d2) (okay (multiply_high sg m2 n2 d2 st2))"
    "same_result st1 (Some d1) (okay (crc32 poly nb m1 n1 d1 st1)) st2 (Some d2) (okay (crc32 poly nb m2 n2 d2 st2))"
  using assms(1)
  by (auto simp: extract_reg_def cond_select_def shift_variable_def exec_divide_def multiply_high_def crc32_def Let_def
      condition_holds_def assms(2,3) read_sized_same [OF assms(2)] read_sized_same [OF assms(3)]
      intro!: same_case_sum same_case_option same_okay)

lemma same_three_sources:
  assumes "m_flags st1 = m_flags st2" "read_reg st2 m2 = read_reg st1 m1" "read_reg st2 n2 = read_reg st1 n1"
    "read_reg st2 a2 = read_reg st1 a1"
  shows "same_result st1 (Some d1) (okay (multiply_add op bs m1 a1 n1 d1 st1)) st2 (Some d2) (okay (multiply_add op bs m2 a2 n2 d2 st2))"
    "same_result st1 (Some d1) (okay (multiply_add_long lop m1 a1 n1 d1 st1)) st2 (Some d2) (okay (multiply_add_long lop m2 a2 n2 d2 st2))"
  by (auto simp: multiply_add_def multiply_add_long_def Let_def assms read_sized_same [OF assms(2)] read_sized_same [OF assms(3)]
      intro!: same_okay split: dp3_long_op.split)

lemma same_cond_compare:
  assumes "m_flags st1 = m_flags st2" "read_reg st2 n2 = read_reg st1 n1"
  shows "v2 = v1 \<Longrightarrow> same_result st1 None (cond_compare op bs v1 c n1 nzcv st1) st2 None (cond_compare op bs v2 c n2 nzcv st2)"
  using assms by (auto simp: cond_compare_def condition_holds_def intro!: same_case_option same_no_dest)

lemma same_move_wide:
  assumes "m_flags st1 = m_flags st2"
  shows "same_result st1 (Some d1) (write_movz bs d1 i hw st1) st2 (Some d2) (write_movz bs d2 i hw st2)"
    "same_result st1 (Some d1) (write_movn bs d1 i hw st1) st2 (Some d2) (write_movn bs d2 i hw st2)"
    "read_reg st2 d2 = read_reg st1 d1 \<Longrightarrow>
      same_result st1 (Some d1) (write_movk bs d1 i hw st1) st2 (Some d2) (write_movk bs d2 i hw st2)"
  using read_sized_same [of st2 d2 st1 d1 bs]
  by (auto simp: write_movz_def write_movn_def write_movk_def Let_def assms intro!: same_case_option same_okay)

theorem dp_same_result:
  assumes "\<forall>f \<in> dp_reads i. \<exists>r. map_of (dp_regs i) f = Some r \<and> read_reg st2 (h f) = read_reg st1 r"
    and "m_flags st1 = m_flags st2"
  shows "same_result st1 (map_of (dp_regs i) FRd) (exec_dp i pc st1)
    st2 (map_option (\<lambda>_. h FRd) (map_of (dp_regs i) FRd)) (exec_dp (dp_with h i) pc st2)"
proof -
  note rd = dp_fields [OF assms(1)]
  note intros = same_addsub_imm [OF assms(2)] same_add_sub_reg [OF assms(2)] same_one_source [OF assms(2)]
    same_two_sources [OF assms(2)] same_three_sources [OF assms(2)] same_cond_compare [OF assms(2)]
    same_move_wide [OF assms(2)] same_okay [OF assms(2)] read_sized_same
  show ?thesis
    by (cases i) (use rd in \<open>auto intro!: intros split: movewide_op.split dp2_op.split\<close>)
qed

end
