(* ===== verification/SlotSem.thy ===== *)
theory SlotSem
  imports LayoutSteps DpSim Confine
begin

section \<open>Slot forwarding, over any semantics of words\<close>

text \<open>
  \<open>forward_slots\<close> drops fills of what a register already holds and spills that a later spill overwrites.
  This theory says what a semantics of words owes the pass (the locale \<open>slot_words\<close>) and proves, from
  that alone, that dropping those words changes nothing.
\<close>

datatype (plugins only: code size) ('x, 's) word_result = Next 's | Exit 'x 's | Crash

primrec run_words :: "(rinsn \<Rightarrow> 's \<Rightarrow> ('x, 's) word_result) \<Rightarrow> rinsn list \<Rightarrow> 's \<Rightarrow> ('x, 's) word_result" where
  "run_words step [] s = Next s"
| "run_words step (w # ws) s =
    (case step w s of Next s' \<Rightarrow> run_words step ws s' | Exit x s' \<Rightarrow> Exit x s' | Crash \<Rightarrow> Crash)"

definition kept_words :: "rinsn list \<Rightarrow> bool list \<Rightarrow> rinsn list" where
  "kept_words ws keep = map fst (filter snd (zip ws keep))"

lemma kept_words_simps [simp]:
  "kept_words [] keep = []" "kept_words (w # ws) (k # ks) = (if k then w # kept_words ws ks else kept_words ws ks)"
  by (simp_all add: kept_words_def)

lemma slot_move_bounds:
  assumes "slot_move w = Some m"
  shows "mv_slot m < SLOT_COUNT" "mv_scratch m < REG_VIRT_SCRATCH_GPR_LIMIT"
proof -
  have find: "slot_index off = Some k \<Longrightarrow> k < SLOT_COUNT" for off k
    by (auto simp: slot_index_def find_Some_iff split: if_splits)
  show "mv_slot m < SLOT_COUNT" "mv_scratch m < REG_VIRT_SCRATCH_GPR_LIMIT"
    using assms find by (auto simp: slot_move_def split: if_splits option.splits prod.splits)
qed

lemma facts_length [simp]:
  "length no_facts = REG_VIRT_SCRATCH_GPR_LIMIT" "length (snd (fill_step w facts)) = (case slot_move w of
     None \<Rightarrow> (if opaque_memory w then REG_VIRT_SCRATCH_GPR_LIMIT else length facts) | Some _ \<Rightarrow> length facts)"
  by (simp_all add: no_facts_def fill_step_def forget_slot_def forget_written_def split: option.split)

lemma overwritten_length [simp]:
  "length nothing_overwritten = SLOT_COUNT" "length (snd (drop_spills joins fl)) = SLOT_COUNT"
  "length (fst (drop_spills joins fl)) = length fl"
proof -
  show start: "length nothing_overwritten = SLOT_COUNT" by (simp add: nothing_overwritten_def)
  have "length (snd (drop_spills joins fl)) = SLOT_COUNT \<and> length (fst (drop_spills joins fl)) = length fl" for joins
  proof (induction fl arbitrary: joins)
    case (Cons x fl)
    obtain w kept where x: "x = (w, kept)" by (cases x)
    show ?case using Cons [of "ends_straight_line (ri_insn w)"]
      by (auto simp: x start spill_step_def split: prod.split option.split)
  qed (simp add: start)
  then show "length (snd (drop_spills joins fl)) = SLOT_COUNT" "length (fst (drop_spills joins fl)) = length fl" by simp_all
qed

definition marked :: "bool list \<Rightarrow> nat \<Rightarrow> bool" where
  "marked xs k \<longleftrightarrow> k < length xs \<and> xs ! k"

lemma marked_simps [simp]:
  "marked nothing_overwritten = (\<lambda>_. False)" "k < length xs \<Longrightarrow> marked (xs[k := b]) = (marked xs)(k := b)"
  by (auto simp: marked_def nothing_overwritten_def nth_list_update fun_eq_iff)

text \<open>
  What the pass relies on: \<open>held s k l\<close> says that scratch register \<open>k\<close> holds what slot \<open>l\<close> does,
  \<open>agree L s s'\<close> that two states differ in the slots of \<open>L\<close> at most.
\<close>

locale slot_words =
  fixes step :: "rinsn \<Rightarrow> 's \<Rightarrow> ('x, 's) word_result"
    and ok :: "'s \<Rightarrow> bool" and good :: "rinsn \<Rightarrow> bool"
    and held :: "'s \<Rightarrow> nat \<Rightarrow> nat \<Rightarrow> bool"
    and agree :: "(nat \<Rightarrow> bool) \<Rightarrow> 's \<Rightarrow> 's \<Rightarrow> bool"
  assumes ok_step: "ok s \<Longrightarrow> good w \<Longrightarrow> step w s = Next s' \<Longrightarrow> ok s'"
    and move_next: "slot_move w = Some m \<Longrightarrow> ok s \<Longrightarrow> \<exists>s'. step w s = Next s'"
    and fill_held: "slot_move w = Some m \<Longrightarrow> mv_fill m \<Longrightarrow> ok s \<Longrightarrow> held s (mv_scratch m) (mv_slot m) \<Longrightarrow> step w s = Next s"
    and fill_step_held: "slot_move w = Some m \<Longrightarrow> mv_fill m \<Longrightarrow> ok s \<Longrightarrow> step w s = Next s' \<Longrightarrow>
      held s' (mv_scratch m) (mv_slot m) \<and> (\<forall>k l. k < REG_VIRT_SCRATCH_GPR_LIMIT \<longrightarrow> l < SLOT_COUNT \<longrightarrow> k \<noteq> mv_scratch m \<longrightarrow> held s k l \<longrightarrow> held s' k l)"
    and spill_step_held: "slot_move w = Some m \<Longrightarrow> \<not> mv_fill m \<Longrightarrow> ok s \<Longrightarrow> step w s = Next s' \<Longrightarrow>
      held s' (mv_scratch m) (mv_slot m) \<and> (\<forall>k l. k < REG_VIRT_SCRATCH_GPR_LIMIT \<longrightarrow> l < SLOT_COUNT \<longrightarrow> l \<noteq> mv_slot m \<longrightarrow> held s k l \<longrightarrow> held s' k l)"
    and other_step_held: "slot_move w = None \<Longrightarrow> \<not> opaque_memory w \<Longrightarrow> good w \<Longrightarrow> ok s \<Longrightarrow> step w s = Next s' \<Longrightarrow>
      k < REG_VIRT_SCRATCH_GPR_LIMIT \<Longrightarrow> l < SLOT_COUNT \<Longrightarrow> \<not> writes_physical_reg (ri_insn w) (REG_VIRT_SCRATCH_GPR_START + k) \<Longrightarrow>
      held s k l \<Longrightarrow> held s' k l"
    and agree_refl: "agree L s s"
    and agree_eq: "agree (\<lambda>_. False) s s' \<Longrightarrow> s = s'"
    and agree_ok: "agree L s s' \<Longrightarrow> ok s \<Longrightarrow> ok s'"
    and spill_over: "slot_move w = Some m \<Longrightarrow> \<not> mv_fill m \<Longrightarrow> ok s \<Longrightarrow> agree (L(mv_slot m := True)) s s' \<Longrightarrow>
      step w s = Next a \<Longrightarrow> step w s' = Next b \<Longrightarrow> agree L a b"
    and spill_drop: "slot_move w = Some m \<Longrightarrow> \<not> mv_fill m \<Longrightarrow> ok s \<Longrightarrow> L (mv_slot m) \<Longrightarrow> agree L s s' \<Longrightarrow>
      step w s = Next a \<Longrightarrow> agree L a s'"
    and fill_agree: "slot_move w = Some m \<Longrightarrow> mv_fill m \<Longrightarrow> ok s \<Longrightarrow> agree (L(mv_slot m := False)) s s' \<Longrightarrow>
      step w s = Next a \<Longrightarrow> step w s' = Next b \<Longrightarrow> agree L a b"
    and quiet_agree: "slot_move w = None \<Longrightarrow> \<not> observes_slots w \<Longrightarrow> good w \<Longrightarrow> agree L s s' \<Longrightarrow>
      step w s = Crash \<and> step w s' = Crash \<or> (\<exists>a b. step w s = Next a \<and> step w s' = Next b \<and> agree L a b)"
begin

definition facts_hold :: "slot_facts \<Rightarrow> 's \<Rightarrow> bool" where
  "facts_hold facts s \<longleftrightarrow> length facts = REG_VIRT_SCRATCH_GPR_LIMIT
    \<and> (\<forall>k l. k < length facts \<longrightarrow> facts ! k = Some l \<longrightarrow> l < SLOT_COUNT \<and> held s k l)"

lemma no_facts_hold: "facts_hold no_facts s"
  by (simp add: facts_hold_def) (simp add: no_facts_def)

lemma facts_fill:
  assumes "facts_hold facts s" "slot_move w = Some m" "mv_fill m" "ok s" "step w s = Next s'"
  shows "facts_hold (facts[mv_scratch m := Some (mv_slot m)]) s'"
  using assms(1) fill_step_held [OF assms(2-5)] slot_move_bounds [OF assms(2)]
  by (auto simp: facts_hold_def nth_list_update split: if_splits)

lemma facts_spill:
  assumes "facts_hold facts s" "slot_move w = Some m" "\<not> mv_fill m" "ok s" "step w s = Next s'"
  shows "facts_hold ((forget_slot (mv_slot m) facts)[mv_scratch m := Some (mv_slot m)]) s'"
  using assms(1) spill_step_held [OF assms(2-5)] slot_move_bounds [OF assms(2)]
  by (auto simp: facts_hold_def nth_list_update forget_slot_def split: if_splits)

lemma facts_other:
  assumes "facts_hold facts s" "slot_move w = None" "\<not> opaque_memory w" "good w" "ok s" "step w s = Next s'"
  shows "facts_hold (forget_written (ri_insn w) facts) s'"
  using assms(1) other_step_held [OF assms(2-6)]
  by (auto simp: facts_hold_def forget_written_def split: if_splits)

lemma fill_step_sound:
  assumes "facts_hold facts s" "ok s" "good w" "step w s = Next s'"
  shows "facts_hold (snd (fill_step w facts)) s'"
proof (cases "slot_move w")
  case None
  then show ?thesis
    using facts_other [OF assms(1) None _ assms(3,2,4)] by (simp add: fill_step_def no_facts_hold)
next
  case (Some m)
  then show ?thesis
    using facts_fill [OF assms(1) Some _ assms(2,4)] facts_spill [OF assms(1) Some _ assms(2,4)]
    by (simp add: fill_step_def)
qed

lemma dropped_fill:
  assumes "facts_hold facts s" "ok s" "\<not> fst (fill_step w facts)"
  shows "step w s = Next s"
  using assms slot_move_bounds(2) [of w] fill_held [of w _ s]
  by (auto simp: fill_step_def facts_hold_def split: option.splits if_splits)

lemma forward_fills_keep:
  assumes "facts_hold facts s" "ok s" "list_all good ws"
  shows "run_words step (kept_words ws (forward_fills joins facts ws)) s = run_words step ws s"
  using assms
proof (induction ws arbitrary: joins facts s)
  case (Cons w ws)
  let ?facts = "if joins then no_facts else facts"
  obtain keep facts' where st: "fill_step w ?facts = (keep, facts')" by fastforce
  have hold: "facts_hold ?facts s" using Cons.prems(1) no_facts_hold by simp
  have rest: "run_words step (kept_words ws (forward_fills (ends_straight_line (ri_insn w)) facts' ws)) s' = run_words step ws s'"
    if next_state: "step w s = Next s'" for s'
    using Cons.IH [of facts' s'] fill_step_sound [OF hold Cons.prems(2) _ next_state] ok_step [OF Cons.prems(2) _ next_state]
      Cons.prems(3) st by simp
  show ?case
  proof (cases keep)
    case True
    then show ?thesis using rest by (simp add: st split: word_result.split)
  next
    case False
    then have "step w s = Next s" using dropped_fill [OF hold Cons.prems(2)] st by simp
    with False rest show ?thesis by (simp add: st)
  qed
qed simp

lemma drop_spills_keep:
  assumes "agree (marked (snd (drop_spills joins fl))) s s'" "ok s" "list_all good (map fst fl)"
  shows "run_words step (map fst (filter snd fl)) s
    = run_words step (kept_words (map fst fl) (fst (drop_spills joins fl))) s'"
  using assms
proof (induction fl arbitrary: joins s s')
  case Nil
  then show ?case using agree_eq by simp
next
  case (Cons x fl)
  obtain w kept where x: "x = (w, kept)" by (cases x)
  obtain keep over where rest: "drop_spills (ends_straight_line (ri_insn w)) fl = (keep, over)" by fastforce
  have len: "length over = SLOT_COUNT" "length keep = length fl"
    using overwritten_length(2,3) [of "ends_straight_line (ri_insn w)" fl] rest by simp_all
  have IH: "run_words step (map fst (filter snd fl)) a = run_words step (kept_words (map fst fl) keep) b"
    if "agree (marked over) a b" "ok a" for a b
    using Cons.IH [of "ends_straight_line (ri_insn w)" a b] that Cons.prems(3) rest x by simp
  show ?case
  proof (cases kept)
    case False
    then show ?thesis using IH [of s s'] Cons.prems(1,2) by (simp add: x rest)
  next
    case True
    obtain stays over' where sp: "spill_step w over = (stays, over')" by fastforce
    have agree': "agree (marked over') s s'"
    proof (cases joins)
      case True
      then have "s = s'" using Cons.prems(1) agree_eq by (simp add: x \<open>kept\<close> rest sp)
      then show ?thesis by (simp add: agree_refl)
    next
      case False
      then show ?thesis using Cons.prems(1) by (simp add: x \<open>kept\<close> rest sp)
    qed
    have good: "good w" using Cons.prems(3) by (simp add: x)
    have goal: "run_words step (w # map fst (filter snd fl)) s
        = run_words step (if stays then w # kept_words (map fst fl) keep else kept_words (map fst fl) keep) s'"
    proof (cases "slot_move w")
      case (Some m)
      note bound = slot_move_bounds(1) [OF Some]
      obtain a where a: "step w s = Next a" using move_next [OF Some Cons.prems(2)] by blast
      obtain b where b: "step w s' = Next b" using move_next [OF Some agree_ok [OF agree' Cons.prems(2)]] by blast
      have ok_a: "ok a" by (rule ok_step [OF Cons.prems(2) good a])
      show ?thesis
      proof (cases "mv_fill m")
        case True
        then have "stays" "marked over' = (marked over)(mv_slot m := False)"
          using sp bound len by (auto simp: spill_step_def Some)
        with fill_agree [OF Some True Cons.prems(2) _ a b] agree' IH [OF _ ok_a] a b show ?thesis by simp
      next
        case fill: False
        then have stays: "stays = (\<not> marked over (mv_slot m))" "marked over' = (marked over)(mv_slot m := True)"
          using sp bound len by (auto simp: spill_step_def Some marked_def)
        show ?thesis
        proof (cases stays)
          case True
          with spill_over [OF Some fill Cons.prems(2) _ a b] agree' IH [OF _ ok_a] a b stays show ?thesis by simp
        next
          case False
          then have over: "marked over (mv_slot m)" "marked over' = marked over"
            using stays fun_upd_triv [of "marked over" "mv_slot m"] by simp_all
          from agree' over(2) have "agree (marked over) s s'" by simp
          with spill_drop [where L = "marked over", OF Some fill Cons.prems(2) over(1) _ a] have "agree (marked over) a s'" .
          from IH [OF this ok_a] a False show ?thesis by simp
        qed
      qed
    next
      case None
      then have stays: "stays" and over': "over' = (if observes_slots w then nothing_overwritten else over)"
        using sp by (auto simp: spill_step_def)
      show ?thesis
      proof (cases "observes_slots w")
        case True
        then have same: "s' = s" using agree' over' agree_eq by auto
        have "run_words step (map fst (filter snd fl)) a = run_words step (kept_words (map fst fl) keep) a"
          if "step w s = Next a" for a
          using IH [of a a] agree_refl ok_step [OF Cons.prems(2) good that] by blast
        with stays same show ?thesis by (simp split: word_result.split)
      next
        case False
        with quiet_agree [OF None False good, of "marked over" s s'] agree' over' stays IH ok_step [OF Cons.prems(2) good]
        show ?thesis by auto
      qed
    qed
    show ?thesis using goal by (simp add: x \<open>kept\<close> rest sp)
  qed
qed

lemma forward_slots_run:
  assumes "ok s" "list_all good body"
  shows "run_words step (forward_slots body) s = run_words step body s"
proof -
  let ?keep = "forward_fills True no_facts body"
  let ?fl = "zip body ?keep"
  have len: "length (forward_fills joins facts ws) = length ws" for joins facts ws
    by (induction ws arbitrary: joins facts) (auto split: prod.split)
  then have fst: "map fst ?fl = body" by simp
  have "run_words step body s = run_words step (kept_words body ?keep) s"
    using forward_fills_keep [OF no_facts_hold assms] by simp
  also have "kept_words body ?keep = map fst (filter snd ?fl)" by (simp add: kept_words_def)
  also have "run_words step \<dots> s = run_words step (kept_words (map fst ?fl) (fst (drop_spills True ?fl))) s"
    by (rule drop_spills_keep [OF agree_refl assms(1)]) (simp add: fst assms(2))
  also have "kept_words (map fst ?fl) (fst (drop_spills True ?fl)) = forward_slots body"
    by (simp add: fst kept_words_def forward_slots_def Let_def)
  finally show ?thesis by simp
qed

end

section \<open>Slot forwarding on the interpreter\<close>

text \<open>
  The semantics of words the slots are about: the interpreter, at an address of no importance (the words of
  a fragment are not pc-relative but for their branches, whose exits are given by the distance). A word
  continues when it does not branch; a fault or a taken branch leaves.
\<close>

type_synonym exec_state = "access_ctx \<times> machine"

fun always_leaves :: "a64_insn \<Rightarrow> bool" where
  "always_leaves (Brn (BUncond _)) = True"
| "always_leaves (Brn (Bl _)) = True"
| "always_leaves (Brn (Br _)) = True"
| "always_leaves (Brn (Blr _)) = True"
| "always_leaves (Brn (Ret _)) = True"
| "always_leaves _ = False"

definition word_outcome :: "a64_insn \<Rightarrow> (access_ctx \<times> u64 outcome) option \<Rightarrow> (mem_fault + u64, exec_state) word_result" where
  "word_outcome i r =
    (case r of
       None \<Rightarrow> Crash
     | Some (cx, st, Inl (IeError _)) \<Rightarrow> Crash
     | Some (cx, st, Inl (IeFault f)) \<Rightarrow> Exit (Inl f) (cx, st)
     | Some (cx, st, Inr t) \<Rightarrow> if t = 4 \<and> \<not> always_leaves i then Next (cx, st) else Exit (Inr t) (cx, st))"

definition exec_word :: "rinsn \<Rightarrow> exec_state \<Rightarrow> (mem_fault + u64, exec_state) word_result" where
  "exec_word w s = word_outcome (ri_insn w) (execute_insn (fst s) (snd s) 0 (ri_insn w))"

subsection \<open>Slots in memory\<close>

definition slot_off :: "nat \<Rightarrow> nat" where
  "slot_off k = (if k = 6 then RUNTIME_FRAME_USER_X18_OFFSET else 16 + k * 8)"

definition slot_addr :: "machine \<Rightarrow> nat \<Rightarrow> u64" where
  "slot_addr st k = m_sp st + of_nat (slot_off k)"

definition in_slot :: "machine \<Rightarrow> nat \<Rightarrow> u64 \<Rightarrow> bool" where
  "in_slot st k x \<longleftrightarrow> unat (x - slot_addr st k) < 8"

definition slot_value :: "machine \<Rightarrow> nat \<Rightarrow> u64" where
  "slot_value st k = read_le st (slot_addr st k) 8"

lemma slot_offset_is: "k < SLOT_COUNT \<Longrightarrow> reg_virt_stack_backed_slot_offset (REG_VIRT_STACK_BACKED_REG_START + k) = Some (slot_off k)"
  by (auto simp: reg_virt_stack_backed_slot_offset_def slot_off_def kdefs)

lemma slots_apart:
  assumes "k \<noteq> l" "k < SLOT_COUNT" "l < SLOT_COUNT" "in_slot st k x"
  shows "\<not> in_slot st l x"
proof
  assume "in_slot st l x"
  have win: "window (m_sp st) (slot_off j) (slot_off j + 8) x" if "in_slot st j x" "j < SLOT_COUNT" for j
    by (rule window_shift) (use that in \<open>simp_all add: in_slot_def slot_addr_def slot_off_def kdefs\<close>)
  have "slot_off k + 8 \<le> slot_off l \<or> slot_off l + 8 \<le> slot_off k"
    using assms(1-3) by (auto simp: slot_off_def kdefs)
  with win [OF assms(4,2)] win [OF \<open>in_slot st l x\<close> assms(3)] show False
    unfolding window_def by linarith
qed

text \<open>The frame the slots are in: addressable by the fragment, and no user page.\<close>

definition slot_access :: "machine \<Rightarrow> nat \<Rightarrow> access_kind \<Rightarrow> mem_access" where
  "slot_access st k kind = \<lparr>acc_addr = slot_addr st k, acc_size = 8, acc_kind = kind\<rparr>"

definition slot_frame :: "exec_state \<Rightarrow> bool" where
  "slot_frame s \<longleftrightarrow> cx_log (fst s) = None
    \<and> (case cx_mode (fst s) of
         Original \<Rightarrow> False
       | Fragment ranges pan \<Rightarrow> \<forall>k < SLOT_COUNT. access_in_ranges ranges (slot_access (snd s) k AccRead))
    \<and> (\<forall>k < SLOT_COUNT. kernel_addr (slot_addr (snd s) k)
        \<and> (\<forall>x. in_slot (snd s) k x \<longrightarrow> user_pages (snd s) (page_base x) \<noteq> Some ReadWrite))"

lemma slot_frameD:
  assumes "slot_frame (cx, st)"
  obtains ranges pan where "cx_mode cx = Fragment ranges pan" "cx_log cx = None"
    "\<And>k kind. k < SLOT_COUNT \<Longrightarrow> access_in_ranges ranges (slot_access st k kind)"
    "\<And>k. k < SLOT_COUNT \<Longrightarrow> kernel_addr (slot_addr st k)"
    "\<And>k x. k < SLOT_COUNT \<Longrightarrow> in_slot st k x \<Longrightarrow> user_pages st (page_base x) \<noteq> Some ReadWrite"
proof (cases "cx_mode cx")
  case Original
  with assms show thesis by (simp add: slot_frame_def)
next
  case (Fragment ranges pan)
  have kind: "access_in_ranges ranges (slot_access st k kind) = access_in_ranges ranges (slot_access st k AccRead)" for k kind
    by (simp add: access_in_ranges_def slot_access_def)
  have f: "cx_log cx = None" "\<forall>k < SLOT_COUNT. access_in_ranges ranges (slot_access st k AccRead)"
    "\<forall>k < SLOT_COUNT. kernel_addr (slot_addr st k)
      \<and> (\<forall>x. in_slot st k x \<longrightarrow> user_pages st (page_base x) \<noteq> Some ReadWrite)"
    using assms unfolding slot_frame_def by (simp_all only: fst_conv snd_conv Fragment access_mode.case) blast+
  show thesis
  proof (rule that [OF Fragment f(1)])
    show "access_in_ranges ranges (slot_access st k kind)" if "k < SLOT_COUNT" for k kind
      using f(2) that kind by blast
  qed (use f(3) in blast)+
qed

subsection \<open>Moves\<close>

lemma slot_move_word:
  assumes "slot_move w = Some m"
  obtains rt base off where "ri_insn w = Mem (LdSt (if mv_fill m then Ldr64 else Str64) rt (MOffset base off))"
    "is_sp_reg base" "enc rt = REG_VIRT_SCRATCH_GPR_START + mv_scratch m" "ivalue off = int (slot_off (mv_slot m))"
proof -
  have find: "ivalue off = int (slot_off k)" if "slot_index (ivalue off) = Some k" for off :: a64_imm and k
  proof -
    have range: "0 \<le> ivalue off" and found: "k < SLOT_COUNT"
      "reg_virt_stack_backed_slot_offset (REG_VIRT_STACK_BACKED_REG_START + k) = Some (nat (ivalue off))"
      using that by (auto simp: slot_index_def find_Some_iff split: if_splits)
    with slot_offset_is [OF found(1)] show ?thesis by simp
  qed
  have sp: "classify_reg base = RcSp \<Longrightarrow> is_sp_reg base" for base
    by (auto simp: classify_reg_def is_sp_reg_def split: if_splits)
  have form: "slot_form i = Some (fill, rt, base, off) \<Longrightarrow> i = Mem (LdSt (if fill then Ldr64 else Str64) rt (MOffset base off))"
    for i fill rt base off
    by (cases i rule: slot_form.cases) (auto split: if_splits)
  obtain fill rt base off where sf: "slot_form (ri_insn w) = Some (fill, rt, base, off)"
    using assms by (auto simp: slot_move_def split: if_splits option.splits)
  with assms have "classify_reg base = RcSp" "REG_VIRT_SCRATCH_GPR_START \<le> enc rt" "mv_fill m = fill"
    "mv_scratch m = enc rt - REG_VIRT_SCRATCH_GPR_START" "slot_index (ivalue off) = Some (mv_slot m)"
    by (auto simp: slot_move_def split: if_splits)
  with that [of rt base off] form [OF sf] sp find show thesis by simp
qed

lemma width_mask_64: "v AND width_mask 64 = (v :: u64)"
  by (simp add: width_mask_def)

lemma log_push_none: "cx_log cx = None \<Longrightarrow> log_push pc acc p cx = cx"
  by (simp add: log_push_def)

lemma slot_check:
  assumes "slot_frame (cx, st)" "k < SLOT_COUNT"
  shows "check_accesses cx st pc [\<lparr>acc_addr = slot_addr st k, acc_size = 8, acc_kind = kind\<rparr>] False = (cx, Inr ())"
proof -
  obtain ranges pan where f: "cx_mode cx = Fragment ranges pan" "cx_log cx = None"
    "access_in_ranges ranges (slot_access st k kind)"
    using slot_frameD [OF assms(1)] assms(2) by metis
  then show ?thesis by (simp add: slot_access_def log_push_none)
qed

lemma move_step:
  assumes "slot_move w = Some m" "slot_frame (cx, st)"
  shows "exec_word w (cx, st) = Next (cx,
    if mv_fill m then st\<lparr>gprs := (gprs st)(REG_VIRT_SCRATCH_GPR_START + mv_scratch m := slot_value st (mv_slot m))\<rparr>
    else write_le (slot_addr st (mv_slot m)) 8 (gprs st (REG_VIRT_SCRATCH_GPR_START + mv_scratch m)) st)"
proof -
  obtain rt base off where w: "ri_insn w = Mem (LdSt (if mv_fill m then Ldr64 else Str64) rt (MOffset base off))"
    "is_sp_reg base" "enc rt = REG_VIRT_SCRATCH_GPR_START + mv_scratch m" "ivalue off = int (slot_off (mv_slot m))"
    by (rule slot_move_word [OF assms(1)])
  note bound = slot_move_bounds [OF assms(1)]
  have addr: "mem_addressing st (MOffset base off) = (slot_addr st (mv_slot m), None)"
    using w(2,4) by (simp add: mem_addressing_def slot_addr_def read_reg_def is_sp_reg_def)
  have kernel: "kernel_addr (slot_addr st (mv_slot m))" using slot_frameD [OF assms(2)] bound(1) by metis
  have mode: "cx_mode cx \<noteq> Original" using assms(2) by (auto simp: slot_frame_def)
  have not31: "enc rt \<noteq> 31" "REG_VIRT_SCRATCH_GPR_START + mv_scratch m \<noteq> 31" using w(3) bound(2) by (simp_all add: kdefs)
  note exec = execute_mem_def addressing_def addr untagged_kernel [OF kernel] pair_overlap_def mk_accesses_def mk_access_def
    transfers_def mode slot_check [OF assms(2) bound(1)] commit_load_def commit_store_def apply_writeback_def load_value_def
    read_reg_def write_reg_def not31 width_mask_64 Let_def
  show ?thesis
    by (cases "mv_fill m")
      (simp_all add: exec_word_def w(1) exec w(3) word_outcome_def slot_value_def del: check_accesses.simps)
qed

end
