(* ===== verification/SlotLaws.thy ===== *)
theory SlotLaws
  imports SlotSem
begin

section \<open>The interpreter keeps the laws of slot forwarding\<close>

subsection \<open>The frame stays\<close>

lemma user_access_log: "user_access p st pc acc cx = (cx', r) \<Longrightarrow> cx_log cx = None \<Longrightarrow> cx_log cx' = None"
  by (auto simp: user_access_def count_access_def record_access_def log_push_def Let_def split: option.splits prod.splits)

definition same_context :: "access_ctx \<Rightarrow> access_ctx \<Rightarrow> bool" where
  "same_context cx cx' \<longleftrightarrow> cx_mode cx' = cx_mode cx \<and> (cx_log cx = None \<longrightarrow> cx_log cx' = None)"

lemma same_context_trans: "same_context a b \<Longrightarrow> same_context b c \<Longrightarrow> same_context a c"
  by (simp add: same_context_def)

lemma same_context_refl [simp]: "same_context cx cx"
  by (simp add: same_context_def)

lemma same_context_push [simp]: "same_context cx (log_push pc acc p cx)"
  by (simp add: same_context_def log_push_def)

lemma user_access_context: "user_access p st pc acc cx = (cx', r) \<Longrightarrow> same_context cx cx'"
  by (simp add: same_context_def user_access_mode user_access_log)

lemma check_accesses_context: "check_accesses cx st pc accs u = (cx', r) \<Longrightarrow> same_context cx cx'"
proof (induction accs arbitrary: cx)
  case (Cons acc accs)
  define r1 where "r1 = (case cx_mode cx of
             Original \<Rightarrow> user_access PrivUser st pc acc cx
           | Fragment ranges _ \<Rightarrow>
               if \<not> u \<and> \<not> access_in_ranges ranges acc then (cx, Inl (IeError EPanViolation))
               else if u then user_access PrivUser st pc acc cx
               else (log_push pc acc PrivRuntime cx, Inr ()))"
  have first: "same_context cx (fst r1)"
    using user_access_context [OF prod.collapse [symmetric]] by (simp add: r1_def split: access_mode.split)
  have "(case r1 of (c, Inl e) \<Rightarrow> (c, Inl e) | (c, Inr _) \<Rightarrow> check_accesses c st pc accs u) = (cx', r)"
    using Cons.prems by (simp add: r1_def)
  with first Cons.IH show ?case
    by (auto split: prod.splits sum.splits intro: same_context_trans)
qed simp

lemma check_window_context: "check_window_accesses cx st pc 0 [acc] = (cx', r) \<Longrightarrow> same_context cx cx'"
  using user_access_context [of PrivUser st pc acc cx] user_access_context [of PrivWindow st pc acc cx]
  by (auto split: access_mode.splits prod.splits sum.splits if_splits)

lemma execute_mem_context: "execute_mem cx st pc u el rt rt2 ad = (cx', st', r) \<Longrightarrow> same_context cx cx'"
  by (auto simp: execute_mem_def failing_def Let_def simp del: check_accesses.simps
      dest: check_accesses_context split: sum.splits prod.splits if_splits)

lemma execute_atomic_context: "execute_atomic cx st pc op n rs rn rt = (cx', st', r) \<Longrightarrow> same_context cx cx'"
  by (auto simp: execute_atomic_def Let_def simp del: check_window_accesses.simps
      dest: check_window_context split: sum.splits prod.splits if_splits)

lemma execute_insn_context: "execute_insn cx st pc i = Some (cx', st', r) \<Longrightarrow> same_context cx cx'"
proof (cases i)
  case (Mem m)
  assume "execute_insn cx st pc i = Some (cx', st', r)"
  with Mem show ?thesis
    by (cases m) (auto dest: execute_mem_context execute_atomic_context)
qed auto

text \<open>The words of a body the laws are for: tagged as the layout demands, and SP is not their destination.\<close>

definition slot_word :: "rinsn \<Rightarrow> bool" where
  "slot_word w \<longleftrightarrow> well_tagged w \<and> list_all (\<lambda>q. \<not> touches_sp q) (insn_dest (ri_insn w))"

lemma slot_word_sp:
  assumes "slot_word w" "execute_insn cx st pc (ri_insn w) = Some (cx', st', r)"
  shows "m_sp st' = m_sp st"
  using execute_insn_writes [OF assms(2)] assms(1) by (auto simp: slot_word_def may_write_regs_def list_all_iff)

lemma exec_word_Next:
  assumes "exec_word w s = Next s'"
  shows "execute_insn (fst s) (snd s) 0 (ri_insn w) = Some (fst s', snd s', Inr 4)"
  using assms by (auto simp: exec_word_def word_outcome_def split: option.splits sum.splits insn_error.splits if_splits)

lemma slot_frame_step:
  assumes "slot_frame s" "slot_word w" "exec_word w s = Next s'"
  shows "slot_frame s'"
proof -
  obtain cx st cx' st' where s: "s = (cx, st)" "s' = (cx', st')" by (cases s, cases s')
  have ex: "execute_insn cx st 0 (ri_insn w) = Some (cx', st', Inr 4)" using exec_word_Next [OF assms(3)] by (simp add: s)
  have "m_sp st' = m_sp st" "user_pages st' = user_pages st" "same_context cx cx'"
    by (rule slot_word_sp [OF assms(2) ex] execute_insn_pages [OF ex] execute_insn_context [OF ex])+
  with assms(1) show ?thesis
    by (auto simp: s slot_frame_def same_context_def slot_access_def slot_addr_def in_slot_def split: access_mode.splits)
qed

subsection \<open>Registers and slots other words keep\<close>

lemma dest_is_written:
  assumes "q \<in> set (insn_dest i)" "n \<in> touches q"
  shows "writes_physical_reg i n"
proof -
  have n: "n = enc q" using assms(2) by (simp add: touches_def split: if_splits)
  note simps = writes_physical_reg_def get_reg_def
  show ?thesis
  proof (cases i)
    case (Dp d)
    with assms(1) show ?thesis by (cases d) (auto simp: simps n split: if_splits)
  next
    case (Brn b)
    with assms(1) show ?thesis by (cases b) (auto simp: simps n)
  next
    case (Sys s)
    with assms(1) show ?thesis by (cases s) (auto simp: simps n)
  next
    case (Mem m)
    with assms(1) show ?thesis
      by (cases m) (auto simp: simps n mem_dest_loads transfers_def ldst_roles1_def base_role_def Let_def split: if_splits)
  qed (use assms(1) in simp)
qed

lemma reg_kept:
  assumes "execute_insn cx st pc i = Some (cx', st', r)" "\<not> writes_physical_reg i n" "n < 31"
  shows "gprs st' n = gprs st n"
  using execute_insn_writes [OF assms(1)] dest_is_written [of _ i n] assms(2,3) by (auto simp: may_write_regs_def)

lemma user_write_page:
  assumes "user_access_allowed st acc" "acc_kind acc = AccWrite" "hits acc x"
  shows "user_pages st (page_base x) = Some ReadWrite"
  using checked_write [of Original True st acc x] assms by (auto simp: checked_def)

lemma user_word_writes:
  assumes "execute_insn cx st pc (ri_insn w) = Some (cx', st', r)" "memory st' x \<noteq> memory st x"
    and "well_tagged w" "\<not> opaque_memory w" "cx_mode cx = Fragment ranges pan"
  shows "user_pages st (page_base x) = Some ReadWrite"
proof -
  obtain m where m: "ri_insn w = Mem m" "exec_ldst cx st pc m = (cx', st', r)"
    by (rule execute_insn_memory [OF assms(1,2)])
  have "\<not> is_prefetch (Mem m)" using m(2) assms(2) by (cases m) auto
  then consider "is_unprivileged_access (Mem m)" | "lse_atomic (Mem m) \<noteq> None"
    using assms(3,4) m(1) by (auto simp: opaque_memory_def well_tagged_def is_pan_window_access_def)
  then show ?thesis
  proof cases
    case 1
    then obtain op rt am where "m = LdStUnpriv op rt am" by (cases m) auto
    with m(2) execute_mem_memory [of cx st pc True] assms(2) obtain acc where
      "checked (cx_mode cx) True st acc" "acc_kind acc = AccWrite" "hits acc x" by fastforce
    with assms(5) user_write_page show ?thesis by (auto simp: checked_def)
  next
    case 2
    then obtain op sz od rs rn rt where "m = Atomic op sz od rs rn rt" by (cases m) auto
    with m(2) execute_atomic_memory assms(2) obtain acc where
      "user_access_allowed st acc" "acc_kind acc = AccWrite" "hits acc x" by fastforce
    then show ?thesis by (rule user_write_page)
  qed
qed

lemma slot_value_kept:
  assumes "m_sp st' = m_sp st" "\<And>x. in_slot st k x \<Longrightarrow> memory st' x = memory st x"
  shows "slot_value st' k = slot_value st k"
proof -
  have "in_slot st k (slot_addr st k + of_nat i)" if "i < 8" for i
    using that by (simp add: in_slot_def unat_of_nat)
  then show ?thesis
    using assms by (auto simp: slot_value_def slot_addr_def intro!: read_le_cong)
qed

lemma slot_frame_facts:
  assumes "slot_frame (cx, st)"
  shows "\<exists>ranges pan. cx_mode cx = Fragment ranges pan"
    "k < SLOT_COUNT \<Longrightarrow> in_slot st k x \<Longrightarrow> user_pages st (page_base x) \<noteq> Some ReadWrite"
  using assms by (auto simp: slot_frame_def split: access_mode.splits)

lemma other_word_slots:
  assumes "slot_frame (cx, st)" "slot_word w" "\<not> opaque_memory w" "exec_word w (cx, st) = Next (cx', st')" "k < SLOT_COUNT"
  shows "slot_value st' k = slot_value st k"
proof -
  have ex: "execute_insn cx st 0 (ri_insn w) = Some (cx', st', Inr 4)" using exec_word_Next [OF assms(4)] by simp
  obtain ranges pan where f: "cx_mode cx = Fragment ranges pan" using slot_frame_facts(1) [OF assms(1)] by blast
  show ?thesis
  proof (rule slot_value_kept)
    show "m_sp st' = m_sp st" by (rule slot_word_sp [OF assms(2) ex])
    show "memory st' x = memory st x" if "in_slot st k x" for x
      using user_word_writes [OF ex _ _ assms(3) f] slot_frame_facts(2) [OF assms(1,5) that] assms(2) by (auto simp: slot_word_def)
  qed
qed

definition slot_held :: "exec_state \<Rightarrow> nat \<Rightarrow> nat \<Rightarrow> bool" where
  "slot_held s k l \<longleftrightarrow> gprs (snd s) (REG_VIRT_SCRATCH_GPR_START + k) = slot_value (snd s) l"

subsection \<open>States that differ in slots\<close>

definition slots_agree :: "(nat \<Rightarrow> bool) \<Rightarrow> exec_state \<Rightarrow> exec_state \<Rightarrow> bool" where
  "slots_agree L s s' \<longleftrightarrow> fst s' = fst s \<and> snd s' = (snd s)\<lparr>memory := memory (snd s')\<rparr>
    \<and> (\<forall>x. (\<forall>k < SLOT_COUNT. L k \<longrightarrow> \<not> in_slot (snd s) k x) \<longrightarrow> memory (snd s') x = memory (snd s) x)"

text \<open>An instruction that has nothing to do with memory does the same over any memory.\<close>

lemma read_reg_memory [simp]: "read_reg (st\<lparr>memory := m\<rparr>) r = read_reg st r"
  by (simp add: read_reg_def)

lemma sysreg_value_memory [simp]: "sysreg_value r (st\<lparr>memory := m\<rparr>) = sysreg_value r st"
  by (cases r) simp_all

lemma write_dest_memory:
  "write_dest d v (st\<lparr>memory := m, m_flags := fl\<rparr>) = (write_dest d v (st\<lparr>m_flags := fl\<rparr>))\<lparr>memory := m\<rparr>"
  by (simp add: write_dest_def write_reg_def split: option.split)

lemma dp_with_self: "dp_with (\<lambda>f. the (map_of (dp_regs i) f)) i = i"
  by (cases i) auto

lemma dp_reads_defined: "f \<in> dp_reads i \<Longrightarrow> \<exists>r. map_of (dp_regs i) f = Some r"
  by (cases i) (auto simp: dp_reads_def split: if_splits)

lemma exec_dp_memory_swap:
  "exec_dp i pc (st\<lparr>memory := m\<rparr>) = ((fst (exec_dp i pc st))\<lparr>memory := m\<rparr>, snd (exec_dp i pc st))"
proof -
  let ?h = "\<lambda>f. the (map_of (dp_regs i) f)"
  have "\<forall>f \<in> dp_reads i. \<exists>r. map_of (dp_regs i) f = Some r \<and> read_reg (st\<lparr>memory := m\<rparr>) (?h f) = read_reg st r"
    using dp_reads_defined [of _ i] by fastforce
  from dp_same_result [OF this, of pc] have "same_result st (map_of (dp_regs i) FRd) (exec_dp i pc st)
      (st\<lparr>memory := m\<rparr>) (map_option (\<lambda>_. ?h FRd) (map_of (dp_regs i) FRd)) (exec_dp i pc (st\<lparr>memory := m\<rparr>))"
    by (simp add: dp_with_self)
  moreover have "map_option (\<lambda>_. ?h FRd) (map_of (dp_regs i) FRd) = map_of (dp_regs i) FRd"
    by (cases "map_of (dp_regs i) FRd") simp_all
  ultimately show ?thesis
    by (auto simp: same_result_def failing_def okay_def write_dest_memory)
qed

text \<open>A word that does not observe the slots: it continues or it is refused, and leaves memory alone.\<close>

lemma quiet_word:
  assumes "\<not> observes_slots w"
  shows "exec_word w (cx, st) = Crash \<and> (\<forall>m. exec_word w (cx, st\<lparr>memory := m\<rparr>) = Crash)
    \<or> (\<exists>st'. exec_word w (cx, st) = Next (cx, st') \<and> memory st' = memory st
        \<and> (\<forall>m. exec_word w (cx, st\<lparr>memory := m\<rparr>) = Next (cx, st'\<lparr>memory := m\<rparr>)))"
proof (cases "ri_insn w")
  case (Dp d)
  obtain st' t where ex: "exec_dp d 0 st = (st', t)" by fastforce
  have mem: "memory st' = memory st" using exec_dp_memory [OF ex] by simp
  have swap: "exec_dp d 0 (st\<lparr>memory := m\<rparr>) = (st'\<lparr>memory := m\<rparr>, t)" for m
    using exec_dp_memory_swap [where i = d and pc = 0 and st = st and m = m] ex by simp
  have err: "\<exists>e'. e = IeError e'" if "t = Inl e" for e
  proof -
    have "\<forall>f \<in> dp_reads d. \<exists>r. map_of (dp_regs d) f = Some r \<and> read_reg st ((\<lambda>f. the (map_of (dp_regs d) f)) f) = read_reg st r"
      using dp_reads_defined [of _ d] by fastforce
    from dp_same_result [OF this refl, of 0] ex that show ?thesis
      by (auto simp: dp_with_self same_result_def failing_def okay_def)
  qed
  show ?thesis
    using mem swap err by (cases t) (auto simp: exec_word_def word_outcome_def Dp then_next_def ex)
next
  case (Sys s)
  then show ?thesis
    by (cases s) (auto simp: exec_word_def word_outcome_def then_next_def okay_def failing_def write_reg_def
        intro: exI [where x = st] split: sysreg.split)
next
  case (Brn b)
  with assms show ?thesis
    by (cases b) (auto simp: observes_slots_def exec_word_def word_outcome_def failing_def)
next
  case (Mem m)
  with assms show ?thesis
    by (cases m) (auto simp: observes_slots_def exec_word_def word_outcome_def)
qed (simp add: exec_word_def word_outcome_def)

subsection \<open>The laws\<close>

lemma slot_simps [simp]:
  "slot_value (st\<lparr>gprs := g\<rparr>) k = slot_value st k" "slot_addr (st\<lparr>gprs := g\<rparr>) k = slot_addr st k"
  "slot_addr (st\<lparr>memory := m\<rparr>) k = slot_addr st k" "slot_addr (write_le a n v st) k = slot_addr st k"
  by (simp_all add: slot_value_def slot_addr_def read_le_def)

lemma slot_value_write:
  assumes "k < SLOT_COUNT" "l < SLOT_COUNT"
  shows "slot_value (write_le (slot_addr st k) 8 v st) l = (if l = k then v else slot_value st l)"
proof (cases "l = k")
  case True
  then show ?thesis by (simp add: slot_value_def read_le_write_le take_bit_word_eq_self)
next
  case False
  have "memory (write_le (slot_addr st k) 8 v st) x = memory st x" if "in_slot st l x" for x
    using slots_apart [OF False assms(2,1) that] by (simp add: in_slot_def memory_write_le)
  with False show ?thesis using slot_value_kept [of "write_le (slot_addr st k) 8 v st" st l] by simp
qed

lemma slots_agreeD:
  assumes "slots_agree L (cx, st) s'"
  shows "\<exists>m. s' = (cx, st\<lparr>memory := m\<rparr>) \<and> (\<forall>x. (\<forall>k. k < SLOT_COUNT \<longrightarrow> L k \<longrightarrow> \<not> in_slot st k x) \<longrightarrow> m x = memory st x)"
  using assms by (cases s') (auto simp: slots_agree_def intro: exI [of _ "memory (snd s')"])

lemma slots_agreeI:
  assumes "\<And>x. (\<And>k. k < SLOT_COUNT \<Longrightarrow> L k \<Longrightarrow> \<not> in_slot st k x) \<Longrightarrow> m x = memory st x"
  shows "slots_agree L (cx, st) (cx, st\<lparr>memory := m\<rparr>)"
  using assms by (auto simp: slots_agree_def)

lemma slot_move_next: "slot_move w = Some m \<Longrightarrow> slot_frame s \<Longrightarrow> \<exists>s'. exec_word w s = Next s'"
  using move_step [of w m] by (cases s) blast

lemma slot_fill_held:
  assumes "slot_move w = Some m" "mv_fill m" "slot_frame s" "slot_held s (mv_scratch m) (mv_slot m)"
  shows "exec_word w s = Next s"
proof -
  obtain cx st where s: "s = (cx, st)" by (cases s)
  have "st\<lparr>gprs := (gprs st)(REG_VIRT_SCRATCH_GPR_START + mv_scratch m := slot_value st (mv_slot m))\<rparr> = st"
    using assms(4) by (simp add: slot_held_def s fun_upd_idem)
  with move_step [OF assms(1), of cx st] assms(2,3) show ?thesis by (simp add: s)
qed

lemma slot_fill_step:
  assumes "slot_move w = Some m" "mv_fill m" "slot_frame s" "exec_word w s = Next s'"
  shows "slot_held s' (mv_scratch m) (mv_slot m) \<and> (\<forall>k l. k < REG_VIRT_SCRATCH_GPR_LIMIT \<longrightarrow> l < SLOT_COUNT \<longrightarrow>
    k \<noteq> mv_scratch m \<longrightarrow> slot_held s k l \<longrightarrow> slot_held s' k l)"
proof -
  obtain cx st where s: "s = (cx, st)" by (cases s)
  with move_step [OF assms(1), of cx st] assms(2-4) show ?thesis by (auto simp: slot_held_def)
qed

lemma slot_spill_step:
  assumes "slot_move w = Some m" "\<not> mv_fill m" "slot_frame s" "exec_word w s = Next s'"
  shows "slot_held s' (mv_scratch m) (mv_slot m) \<and> (\<forall>k l. k < REG_VIRT_SCRATCH_GPR_LIMIT \<longrightarrow> l < SLOT_COUNT \<longrightarrow>
    l \<noteq> mv_slot m \<longrightarrow> slot_held s k l \<longrightarrow> slot_held s' k l)"
proof -
  obtain cx st where s: "s = (cx, st)" by (cases s)
  with move_step [OF assms(1), of cx st] assms(2-4) slot_move_bounds(1) [OF assms(1)] show ?thesis
    by (auto simp: slot_held_def slot_value_write)
qed

lemma slot_other_step:
  assumes "\<not> opaque_memory w" "slot_word w" "slot_frame s" "exec_word w s = Next s'"
    "k < REG_VIRT_SCRATCH_GPR_LIMIT" "l < SLOT_COUNT"
    "\<not> writes_physical_reg (ri_insn w) (REG_VIRT_SCRATCH_GPR_START + k)" "slot_held s k l"
  shows "slot_held s' k l"
proof -
  obtain cx st cx' st' where s: "s = (cx, st)" "s' = (cx', st')" by (cases s, cases s')
  have ex: "execute_insn cx st 0 (ri_insn w) = Some (cx', st', Inr 4)" using exec_word_Next [OF assms(4)] by (simp add: s)
  have "slot_value st' l = slot_value st l"
    using other_word_slots [OF _ assms(2,1) _ assms(6)] assms(3,4) by (simp add: s)
  moreover have "gprs st' (REG_VIRT_SCRATCH_GPR_START + k) = gprs st (REG_VIRT_SCRATCH_GPR_START + k)"
    by (rule reg_kept [OF ex assms(7)]) (use assms(5) in \<open>simp add: kdefs\<close>)
  ultimately show ?thesis using assms(8) by (simp add: slot_held_def s)
qed

lemma slots_agree_eq: "slots_agree (\<lambda>_. False) s s' \<Longrightarrow> s = s'"
proof -
  assume agree: "slots_agree (\<lambda>_. False) s s'"
  have "snd s' = (snd s)\<lparr>memory := memory (snd s')\<rparr>" using agree unfolding slots_agree_def by (elim conjE)
  also have "memory (snd s') = memory (snd s)" using agree by (simp add: slots_agree_def fun_eq_iff)
  finally have "snd s' = snd s" by simp
  with agree show "s = s'" by (simp add: slots_agree_def prod_eq_iff)
qed

lemma slots_agree_frame: "slots_agree L s s' \<Longrightarrow> slot_frame s \<Longrightarrow> slot_frame s'"
proof -
  assume agree: "slots_agree L s s'" and frame: "slot_frame s"
  obtain cx st where s: "s = (cx, st)" by (cases s)
  from agree obtain m where "s' = (cx, st\<lparr>memory := m\<rparr>)" unfolding s using slots_agreeD by blast
  with frame show "slot_frame s'"
    by (simp add: s slot_frame_def slot_access_def in_slot_def cong: access_mode.case_cong)
qed

lemma slot_spill_over:
  assumes "slot_move w = Some m" "\<not> mv_fill m" "slot_frame s" "slots_agree (L(mv_slot m := True)) s s'"
    "exec_word w s = Next a" "exec_word w s' = Next b"
  shows "slots_agree L a b"
proof -
  obtain cx st where s: "s = (cx, st)" by (cases s)
  from assms(4) obtain mem where mem: "s' = (cx, st\<lparr>memory := mem\<rparr>)"
    "\<forall>x. (\<forall>k. k < SLOT_COUNT \<longrightarrow> (L(mv_slot m := True)) k \<longrightarrow> \<not> in_slot st k x) \<longrightarrow> mem x = memory st x"
    unfolding s using slots_agreeD by blast
  have frame: "slot_frame (cx, st\<lparr>memory := mem\<rparr>)" using slots_agree_frame [OF assms(4,3)] mem(1) by simp
  let ?v = "gprs st (REG_VIRT_SCRATCH_GPR_START + mv_scratch m)" and ?a = "slot_addr st (mv_slot m)"
  have "a = (cx, write_le ?a 8 ?v st)" "b = (cx, write_le ?a 8 ?v (st\<lparr>memory := mem\<rparr>))"
    using move_step [OF assms(1), of cx st] move_step [OF assms(1) frame] assms(2,3,5,6) by (simp_all add: s mem(1))
  moreover have "write_le ?a 8 ?v (st\<lparr>memory := mem\<rparr>) = (write_le ?a 8 ?v st)\<lparr>memory := memory (write_le ?a 8 ?v (st\<lparr>memory := mem\<rparr>))\<rparr>"
    by (simp add: write_le_def)
  moreover have "memory (write_le ?a 8 ?v (st\<lparr>memory := mem\<rparr>)) x = memory (write_le ?a 8 ?v st) x"
    if "\<And>k. k < SLOT_COUNT \<Longrightarrow> L k \<Longrightarrow> \<not> in_slot (write_le ?a 8 ?v st) k x" for x
  proof (cases "in_slot st (mv_slot m) x")
    case True
    then show ?thesis by (simp add: write_le_def in_slot_def)
  next
    case False
    with mem(2) that show ?thesis by (auto simp: write_le_def in_slot_def)
  qed
  ultimately show ?thesis using slots_agreeI [of L "write_le ?a 8 ?v st"] by metis
qed

lemma slot_spill_drop:
  assumes "slot_move w = Some m" "\<not> mv_fill m" "slot_frame s" "L (mv_slot m)" "slots_agree L s s'" "exec_word w s = Next a"
  shows "slots_agree L a s'"
proof -
  obtain cx st where s: "s = (cx, st)" by (cases s)
  from assms(5) obtain mem where mem: "s' = (cx, st\<lparr>memory := mem\<rparr>)"
    "\<forall>x. (\<forall>k. k < SLOT_COUNT \<longrightarrow> L k \<longrightarrow> \<not> in_slot st k x) \<longrightarrow> mem x = memory st x"
    unfolding s using slots_agreeD by blast
  let ?w = "write_le (slot_addr st (mv_slot m)) 8 (gprs st (REG_VIRT_SCRATCH_GPR_START + mv_scratch m)) st"
  have a: "a = (cx, ?w)" using move_step [OF assms(1), of cx st] assms(2,3,6) by (simp add: s)
  have "st\<lparr>memory := mem\<rparr> = ?w\<lparr>memory := mem\<rparr>" by (simp add: write_le_def)
  moreover have "mem x = memory ?w x" if "\<And>k. k < SLOT_COUNT \<Longrightarrow> L k \<Longrightarrow> \<not> in_slot ?w k x" for x
  proof -
    have "\<not> in_slot st (mv_slot m) x"
      using that [of "mv_slot m"] slot_move_bounds(1) [OF assms(1)] assms(4) by (simp add: in_slot_def)
    with mem(2) that show ?thesis by (simp add: memory_write_le in_slot_def)
  qed
  ultimately show ?thesis unfolding a mem(1) by (metis slots_agreeI)
qed

lemma slot_fill_agree:
  assumes "slot_move w = Some m" "mv_fill m" "slot_frame s" "slots_agree (L(mv_slot m := False)) s s'"
    "exec_word w s = Next a" "exec_word w s' = Next b"
  shows "slots_agree L a b"
proof -
  obtain cx st where s: "s = (cx, st)" by (cases s)
  from assms(4) obtain mem where mem: "s' = (cx, st\<lparr>memory := mem\<rparr>)"
    "\<forall>x. (\<forall>k. k < SLOT_COUNT \<longrightarrow> (L(mv_slot m := False)) k \<longrightarrow> \<not> in_slot st k x) \<longrightarrow> mem x = memory st x"
    unfolding s using slots_agreeD by blast
  have frame: "slot_frame (cx, st\<lparr>memory := mem\<rparr>)" using slots_agree_frame [OF assms(4,3)] mem(1) by simp
  let ?n = "REG_VIRT_SCRATCH_GPR_START + mv_scratch m"
  have same: "slot_value (st\<lparr>memory := mem\<rparr>) (mv_slot m) = slot_value st (mv_slot m)"
  proof (rule slot_value_kept)
    show "memory (st\<lparr>memory := mem\<rparr>) x = memory st x" if "in_slot st (mv_slot m) x" for x
      using mem(2) slots_apart [of "mv_slot m" _ st x] slot_move_bounds(1) [OF assms(1)] that by fastforce
  qed simp
  let ?g = "(gprs st)(?n := slot_value st (mv_slot m))"
  have swap: "st\<lparr>memory := mem, gprs := g\<rparr> = st\<lparr>gprs := g, memory := mem\<rparr>" for g by simp
  have "a = (cx, st\<lparr>gprs := ?g\<rparr>)" "b = (cx, st\<lparr>gprs := ?g\<rparr>\<lparr>memory := mem\<rparr>)"
    using move_step [OF assms(1), of cx st] move_step [OF assms(1) frame] assms(2,3,5,6)
    by (simp_all add: s mem(1) same swap)
  moreover have "slots_agree L (cx, st\<lparr>gprs := ?g\<rparr>) (cx, st\<lparr>gprs := ?g\<rparr>\<lparr>memory := mem\<rparr>)"
    by (rule slots_agreeI) (use mem(2) in \<open>auto simp: in_slot_def split: if_splits\<close>)
  ultimately show ?thesis by simp
qed

lemma slot_quiet_agree:
  assumes "\<not> observes_slots w" "slot_word w" "slots_agree L s s'"
  shows "exec_word w s = Crash \<and> exec_word w s' = Crash
    \<or> (\<exists>a b. exec_word w s = Next a \<and> exec_word w s' = Next b \<and> slots_agree L a b)"
proof -
  obtain cx st where s: "s = (cx, st)" by (cases s)
  from assms(3) obtain mem where mem: "s' = (cx, st\<lparr>memory := mem\<rparr>)"
    "\<forall>x. (\<forall>k. k < SLOT_COUNT \<longrightarrow> L k \<longrightarrow> \<not> in_slot st k x) \<longrightarrow> mem x = memory st x"
    unfolding s using slots_agreeD by blast
  from quiet_word [OF assms(1), of cx st] show ?thesis
  proof (elim disjE exE conjE)
    fix st' assume st': "exec_word w (cx, st) = Next (cx, st')" "memory st' = memory st"
      "\<forall>m. exec_word w (cx, st\<lparr>memory := m\<rparr>) = Next (cx, st'\<lparr>memory := m\<rparr>)"
    have "m_sp st' = m_sp st" using slot_word_sp [OF assms(2)] exec_word_Next [OF st'(1)] by force
    then have "slots_agree L (cx, st') (cx, st'\<lparr>memory := mem\<rparr>)"
      by (intro slots_agreeI) (use mem(2) st'(2) in \<open>auto simp: in_slot_def slot_addr_def\<close>)
    moreover have "exec_word w s = Next (cx, st')" "exec_word w s' = Next (cx, st'\<lparr>memory := mem\<rparr>)"
      using st'(1,3) by (simp_all add: s mem(1))
    ultimately show ?thesis by blast
  next
    assume "exec_word w (cx, st) = Crash" "\<forall>m. exec_word w (cx, st\<lparr>memory := m\<rparr>) = Crash"
    then show ?thesis by (simp add: s mem(1))
  qed
qed

interpretation slots: slot_words exec_word slot_frame slot_word slot_held slots_agree
proof (rule slot_words.intro, goal_cases)
  case 1 then show ?case by (rule slot_frame_step)
next
  case 2 then show ?case by (rule slot_move_next)
next
  case 3 then show ?case by (rule slot_fill_held)
next
  case 4 then show ?case by (rule slot_fill_step)
next
  case 5 then show ?case by (rule slot_spill_step)
next
  case 6 show ?case by (rule slot_other_step [OF 6(2-9)])
next
  case 7 show ?case by (simp add: slots_agree_def)
next
  case 8 then show ?case by (rule slots_agree_eq)
next
  case 9 then show ?case by (rule slots_agree_frame)
next
  case 10 then show ?case by (rule slot_spill_over)
next
  case 11 then show ?case by (rule slot_spill_drop)
next
  case 12 then show ?case by (rule slot_fill_agree)
next
  case 13 show ?case by (rule slot_quiet_agree [OF 13(2-4)])
qed

text \<open>
  C8: dropping fills and spills changes nothing a body does. From any state in whose frame the slots lie,
  the words \<open>forward_slots\<close> leaves run exactly as the words it was given do: they end in the same state, or
  leave at the same branch or fault with the same registers, flags and memory, or are refused alike.
\<close>

theorem forward_slots_equivalent:
  assumes "slot_frame s" "list_all slot_word body"
  shows "run_words exec_word (forward_slots body) s = run_words exec_word body s"
  by (rule slots.forward_slots_run [OF assms])

text \<open>A second fill of the same slot, and a spill that the next one overwrites, both go.\<close>

definition slot_demo :: machine where
  "slot_demo = blank_machine\<lparr>m_sp := 0xFFFF000000000000\<rparr>"

definition slot_demo_ctx :: access_ctx where
  "slot_demo_ctx = \<lparr>cx_mode = Fragment [(0xFFFF000000000000, 0xFFFF0000000000D0)] False, cx_counter = None, cx_log = None\<rparr>"

abbreviation demo_fill :: rinsn where "demo_fill \<equiv> rword KRegVirtHelper 0 (slot_load 12 16)"
abbreviation demo_spill :: "nat \<Rightarrow> rinsn" where "demo_spill r \<equiv> rword KRegVirtHelper 0 (slot_store r 24)"

definition slot_demo_body :: "rinsn list" where
  "slot_demo_body = [demo_fill, demo_fill, demo_spill 12, demo_spill 13]"

lemma slot_demo_short: "forward_slots slot_demo_body = [demo_fill, demo_spill 13]"
  by code_simp

lemma slot_demo_frame: "slot_frame (slot_demo_ctx, slot_demo)"
proof -
  have "kernel_addr (slot_addr slot_demo k)
      \<and> access_in_ranges [(0xFFFF000000000000, 0xFFFF0000000000D0)] (slot_access slot_demo k AccRead)" if "k < SLOT_COUNT" for k
  proof -
    from that have "k \<in> {0, 1, 2, 3, 4, 5, 6}" by (auto simp: SLOT_COUNT_def)
    then show ?thesis
      by (auto simp: slot_addr_def slot_access_def slot_off_def slot_demo_def kernel_addr_def access_in_ranges_def kdefs)
  qed
  then show ?thesis
    by (simp add: slot_frame_def slot_demo_ctx_def) (simp add: slot_demo_def blank_machine_def)
qed

lemma slot_demo_words: "list_all slot_word slot_demo_body"
  by (simp add: slot_demo_body_def slot_word_def) code_simp

theorem forward_slots_equivalent_witness:
  "run_words exec_word [demo_fill, demo_spill 13] (slot_demo_ctx, slot_demo)
    = run_words exec_word slot_demo_body (slot_demo_ctx, slot_demo)"
  using forward_slots_equivalent [OF slot_demo_frame slot_demo_words] slot_demo_short by simp

end
