(* ===== verification/VirtExec.thy ===== *)
theory VirtExec
  imports SlotLaws AdmitEmit
begin

section \<open>Register virtualization of data-processing instructions\<close>

subsection \<open>The mapped instruction\<close>

text \<open>A field holds the register it had, or the number of the physical one it was given.\<close>

definition regs_of :: "a64_dp \<Rightarrow> a64_field \<Rightarrow> a64_reg" where
  "regs_of d f = the (map_of (dp_regs d) f)"

definition mapped_to :: "a64_reg option \<Rightarrow> a64_reg \<Rightarrow> a64_reg \<Rightarrow> bool" where
  "mapped_to m r r' \<longleftrightarrow> (case m of None \<Rightarrow> r' = r | Some q \<Rightarrow> enc r' = enc q)"

lemma mapped_to_simps [simp]:
  "mapped_to None r r' \<longleftrightarrow> r' = r" "mapped_to (Some q) r r' \<longleftrightarrow> enc r' = enc q"
  by (simp_all add: mapped_to_def)

lemma dp_with_id: "dp_with (regs_of d) d = d"
  using dp_with_self [of d] by (simp add: regs_of_def [abs_def])

lemma dp_with_twice: "dp_with h (dp_with g d) = dp_with h d"
  by (cases d) simp_all

lemma dp_set_with:
  assumes "dp_set d f e = Some d'"
  shows "d' = dp_with (regs_of d') d \<and> (\<forall>g. g \<noteq> f \<longrightarrow> map_of (dp_regs d') g = map_of (dp_regs d) g)
    \<and> (\<exists>r. map_of (dp_regs d) f = Some r) \<and> (\<exists>r'. map_of (dp_regs d') f = Some r' \<and> enc r' = e)"
  using assms
  by (cases d) (auto simp: regs_of_def dest_reg_def reg_new_def split: a64_field.splits)

definition partly_mapped :: "rewrite_plan \<Rightarrow> a64_dp \<Rightarrow> a64_field set \<Rightarrow> a64_dp \<Rightarrow> bool" where
  "partly_mapped p d fs d' \<longleftrightarrow> d' = dp_with (regs_of d') d
    \<and> (\<forall>f r. map_of (dp_regs d) f = Some r \<longrightarrow>
        (if f \<in> fs then mapped_to (mapped_reg p (Dp d) f r) r (regs_of d' f) else regs_of d' f = r))"

lemma dp_with_fields: "map_of (dp_regs (dp_with h d)) f = map_option (\<lambda>_. h f) (map_of (dp_regs d) f)"
  by (cases d) auto

lemma partly_mapped_step:
  assumes "rewrite_role p (Dp d) role (Dp d1) = Inr j" "partly_mapped p d fs d1"
  shows "\<exists>d2 fs'. j = Dp d2 \<and> partly_mapped p d fs' d2 \<and> fs \<subseteq> fs'
    \<and> (\<forall>f a. access_mode_from_role role = Some (f, a) \<longrightarrow> f \<in> fs')"
proof (cases "access_mode_from_role role")
  case None
  with assms show ?thesis by (auto simp: rewrite_role_def)
next
  case (Some a)
  obtain f m where a: "a = (f, m)" by (cases a)
  with Some assms(1) obtain r where r: "map_of (dp_regs d) f = Some r"
    "(case mapped_reg p (Dp d) f r of None \<Rightarrow> Inr (Dp d1)
      | Some r' \<Rightarrow> ok_or (set_reg (Dp d1) f r') (RvMissingRegisterSetter (rp_pc p) f)) = Inr j"
    by (auto simp: rewrite_role_def require_reg_def get_reg_def)
  show ?thesis
  proof (cases "mapped_reg p (Dp d) f r")
    case None
    have "regs_of d1 f = r"
      using assms(2) r(1) None unfolding partly_mapped_def by (metis mapped_to_simps(1))
    with None r assms(2) have "partly_mapped p d (insert f fs) d1" by (auto simp: partly_mapped_def)
    with None r(2) Some a show ?thesis by auto
  next
    case (Some q)
    with r(2) obtain d2 where d2: "j = Dp d2" "dp_set d1 f (enc q) = Some d2"
      by (auto simp: set_reg_def split: if_splits)
    from dp_set_with [OF d2(2)] obtain r' where st: "d2 = dp_with (regs_of d2) d1"
      "\<forall>g. g \<noteq> f \<longrightarrow> map_of (dp_regs d2) g = map_of (dp_regs d1) g" "map_of (dp_regs d2) f = Some r'" "enc r' = enc q"
      by blast
    have "d2 = dp_with (regs_of d2) d" using st(1) assms(2) dp_with_twice unfolding partly_mapped_def by metis
    moreover have "if g \<in> insert f fs then mapped_to (mapped_reg p (Dp d) g s) s (regs_of d2 g) else regs_of d2 g = s"
      if "map_of (dp_regs d) g = Some s" for g s
    proof (cases "g = f")
      case True
      with that r(1) st(3,4) Some show ?thesis by (simp add: regs_of_def)
    next
      case False
      then have "regs_of d2 g = regs_of d1 g" using st(2) by (simp add: regs_of_def)
      with assms(2) that False show ?thesis by (auto simp: partly_mapped_def)
    qed
    ultimately have "partly_mapped p d (insert f fs) d2" by (auto simp: partly_mapped_def)
    with d2(1) \<open>access_mode_from_role role = Some a\<close> a show ?thesis by auto
  qed
qed

lemma partly_mapped_roles:
  assumes "rfold (rewrite_role p (Dp d)) roles (Dp d1) = Inr j" "partly_mapped p d fs d1"
  shows "\<exists>d2 fs'. j = Dp d2 \<and> partly_mapped p d fs' d2 \<and> fs \<subseteq> fs'
    \<and> (\<forall>role \<in> set roles. \<forall>f a. access_mode_from_role role = Some (f, a) \<longrightarrow> f \<in> fs')"
  using assms
proof (induction roles arbitrary: d1 fs)
  case (Cons role roles)
  from Cons.prems(1) obtain j1 where j1: "rewrite_role p (Dp d) role (Dp d1) = Inr j1"
    "rfold (rewrite_role p (Dp d)) roles j1 = Inr j" by auto
  from partly_mapped_step [OF j1(1) Cons.prems(2)] obtain d2 fs2 where st: "j1 = Dp d2" "partly_mapped p d fs2 d2" "fs \<subseteq> fs2"
    "\<forall>f a. access_mode_from_role role = Some (f, a) \<longrightarrow> f \<in> fs2" by blast
  from Cons.IH [OF j1(2) [unfolded st(1)] st(2)] obtain d3 fs3 where
    "j = Dp d3" "partly_mapped p d fs3 d3" "fs2 \<subseteq> fs3"
    "\<forall>role \<in> set roles. \<forall>f a. access_mode_from_role role = Some (f, a) \<longrightarrow> f \<in> fs3" by blast
  with st(3,4) show ?case by (intro exI [of _ d3] exI [of _ fs3]) auto
qed auto

fun role_field :: "a64_role \<Rightarrow> a64_field set" where
  "role_field (ImplicitRegWrite _ _) = {}"
| "role_field (RegRead f _) = {f}"
| "role_field (RegWrite f _) = {f}"
| "role_field (RegReadWrite f _) = {f}"
| "role_field (MemBase f) = {f}"

lemma role_field_iff: "f \<in> role_field role \<longleftrightarrow> (\<exists>a. access_mode_from_role role = Some (f, a))"
  by (cases role) auto

lemma dp_field_roles: "map_of (dp_regs d) f = Some r \<Longrightarrow> f \<in> (\<Union>role \<in> set (dp_roles d). role_field role)"
  by (cases d) (simp_all split: if_splits)

lemma dp_field_role: "map_of (dp_regs d) f = Some r \<Longrightarrow>
    \<exists>role a. role \<in> set (dp_roles d) \<and> access_mode_from_role role = Some (f, a)"
  using dp_field_roles [of d f r] by (auto simp: role_field_iff)

lemma rewrite_dp:
  assumes "rewrite_insn p (Dp d) = Inr j"
  shows "\<exists>d'. j = Dp d' \<and> d' = dp_with (regs_of d') d
    \<and> (\<forall>f r. map_of (dp_regs d) f = Some r \<longrightarrow> mapped_to (mapped_reg p (Dp d) f r) r (regs_of d' f))"
proof -
  have start: "partly_mapped p d {} d" by (simp add: partly_mapped_def dp_with_id regs_of_def)
  have "rfold (rewrite_role p (Dp d)) (dp_roles d) (Dp d) = Inr j" using assms by (simp add: rewrite_insn_def)
  from partly_mapped_roles [OF this start] obtain d2 fs where d2: "j = Dp d2" "partly_mapped p d fs d2"
    "\<forall>role \<in> set (dp_roles d). \<forall>f a. access_mode_from_role role = Some (f, a) \<longrightarrow> f \<in> fs" by blast
  then have "f \<in> fs" if "map_of (dp_regs d) f = Some r" for f r using dp_field_role [OF that] by blast
  with d2 show ?thesis by (auto simp: partly_mapped_def)
qed

section \<open>Fills, spills and the registers the user sees\<close>

subsection \<open>The words of fills and spills\<close>

definition slot_of :: "nat \<Rightarrow> nat" where
  "slot_of v = v - REG_VIRT_STACK_BACKED_REG_START"

lemma slot_of_stack_backed:
  assumes "reg_virt_is_stack_backed v"
  shows "slot_of v < SLOT_COUNT" "reg_virt_stack_backed_slot_offset v = Some (slot_off (slot_of v))"
    "reg_virt_is_stack_backed u \<Longrightarrow> slot_of u = slot_of v \<longleftrightarrow> u = v"
  using assms
  by (auto simp: slot_of_def reg_virt_is_stack_backed_def reg_virt_stack_backed_slot_offset_def slot_off_def kdefs)

abbreviation fill_word :: "u64 \<Rightarrow> stack_mapping \<Rightarrow> rinsn" where
  "fill_word pc m \<equiv> rword KRegVirtHelper pc (slot_load (sm_scratch m) (slot_off (slot_of (sm_virt m))))"

abbreviation spill_word :: "u64 \<Rightarrow> stack_mapping \<Rightarrow> rinsn" where
  "spill_word pc m \<equiv> rword KRegVirtHelper pc (slot_store (sm_scratch m) (slot_off (slot_of (sm_virt m))))"

lemma push_each_map:
  "push_each f xs = Inr ws \<Longrightarrow> (\<And>x r. x \<in> set xs \<Longrightarrow> f x = Inr r \<Longrightarrow> r = [g x]) \<Longrightarrow> ws = map g xs"
proof -
  have "rfold (\<lambda>x out. rbind (f x) (\<lambda>ws. Inr (out @ ws))) xs out = Inr ws \<Longrightarrow>
      (\<And>x r. x \<in> set xs \<Longrightarrow> f x = Inr r \<Longrightarrow> r = [g x]) \<Longrightarrow> ws = out @ map g xs" for out
  proof (induction xs arbitrary: out)
    case (Cons x xs)
    from Cons.prems(1) obtain r where r: "f x = Inr r"
      "rfold (\<lambda>x out. rbind (f x) (\<lambda>ws. Inr (out @ ws))) xs (out @ r) = Inr ws" by auto
    from Cons.IH [OF r(2)] Cons.prems(2) r(1) show ?case by auto
  qed simp
  from this [of "[]"] show "push_each f xs = Inr ws \<Longrightarrow> (\<And>x r. x \<in> set xs \<Longrightarrow> f x = Inr r \<Longrightarrow> r = [g x]) \<Longrightarrow> ws = map g xs"
    by (simp add: push_each_def)
qed

lemma fills_words:
  assumes "maps_ok (rp_stack_backed p)"
  shows "emit_fills p pc = Inr ws \<Longrightarrow> ws = map (fill_word pc) (filter sm_read (rp_stack_backed p))"
    "emit_spills p pc = Inr ws \<Longrightarrow> ws = map (spill_word pc) (filter sm_write (rp_stack_backed p))"
  unfolding emit_fills_def emit_spills_def
  by (erule push_each_map; use assms slot_of_stack_backed(2) in
      \<open>auto simp: load_slot_def store_slot_def stack_slot_offset_def maps_ok_def\<close>)+

lemma slot_word_moves:
  assumes "k < SLOT_COUNT" "REG_VIRT_SCRATCH_GPR_START \<le> s" "s < REG_VIRT_SCRATCH_GPR_START + REG_VIRT_SCRATCH_GPR_LIMIT"
  shows "slot_move (rword KRegVirtHelper pc (slot_load s (slot_off k)))
      = Some \<lparr>mv_fill = True, mv_scratch = s - REG_VIRT_SCRATCH_GPR_START, mv_slot = k\<rparr>"
    "slot_move (rword KRegVirtHelper pc (slot_store s (slot_off k)))
      = Some \<lparr>mv_fill = False, mv_scratch = s - REG_VIRT_SCRATCH_GPR_START, mv_slot = k\<rparr>"
proof -
  have "\<forall>k \<in> {..<7}. slot_index (ivalue (ldst64_offset (slot_off k))) = Some k" by code_simp
  then have "slot_index (ivalue (ldst64_offset (slot_off k))) = Some k" using assms(1) by (simp add: kdefs)
  moreover have "classify_reg reg_sp = RcSp" by (simp add: classify_reg_def kdefs)
  ultimately show "slot_move (rword KRegVirtHelper pc (slot_load s (slot_off k)))
      = Some \<lparr>mv_fill = True, mv_scratch = s - REG_VIRT_SCRATCH_GPR_START, mv_slot = k\<rparr>"
    "slot_move (rword KRegVirtHelper pc (slot_store s (slot_off k)))
      = Some \<lparr>mv_fill = False, mv_scratch = s - REG_VIRT_SCRATCH_GPR_START, mv_slot = k\<rparr>"
    using assms(2,3) by (simp_all add: slot_move_def slot_load_def slot_store_def reg_x_def reg_new_def)
qed

lemma maps_scratch:
  assumes "maps_ok ms" "m \<in> set ms"
  shows "REG_VIRT_SCRATCH_GPR_START \<le> sm_scratch m" "sm_scratch m < REG_VIRT_SCRATCH_GPR_START + REG_VIRT_SCRATCH_GPR_LIMIT"
    "slot_of (sm_virt m) < SLOT_COUNT" "m' \<in> set ms \<Longrightarrow> sm_scratch m' = sm_scratch m \<longleftrightarrow> m' = m"
    "m' \<in> set ms \<Longrightarrow> sm_virt m' = sm_virt m \<longleftrightarrow> m' = m"
proof -
  have "sm_scratch m \<in> set (map sm_scratch ms)" using assms(2) by simp
  also have "\<dots> = (\<lambda>k. REG_VIRT_SCRATCH_GPR_START + k) ` {..<length ms}"
    using assms(1) by (auto simp: maps_ok_def atLeast_upt)
  finally show "REG_VIRT_SCRATCH_GPR_START \<le> sm_scratch m" "sm_scratch m < REG_VIRT_SCRATCH_GPR_START + REG_VIRT_SCRATCH_GPR_LIMIT"
    using assms(1) by (auto simp: maps_ok_def)
  have "distinct (map sm_scratch ms)" "distinct (map sm_virt ms)" using assms(1) by (simp_all add: maps_ok_def distinct_map)
  then show "m' \<in> set ms \<Longrightarrow> sm_scratch m' = sm_scratch m \<longleftrightarrow> m' = m" "m' \<in> set ms \<Longrightarrow> sm_virt m' = sm_virt m \<longleftrightarrow> m' = m"
    using assms(2) by (auto simp: distinct_map inj_on_def)
  show "slot_of (sm_virt m) < SLOT_COUNT" using assms slot_of_stack_backed(1) by (simp add: maps_ok_def)
qed

subsection \<open>Running them\<close>

lemma slot_frame_cong:
  "m_sp st' = m_sp st \<Longrightarrow> user_pages st' = user_pages st \<Longrightarrow> slot_frame (cx, st') = slot_frame (cx, st)"
  by (simp add: slot_frame_def slot_access_def slot_addr_def in_slot_def split: access_mode.split)

lemma run_append: "run_words step (xs @ ys) s =
    (case run_words step xs s of Next s' \<Rightarrow> run_words step ys s' | Exit x s' \<Rightarrow> Exit x s' | Crash \<Rightarrow> Crash)"
  by (induction xs arbitrary: s) (simp_all split: word_result.split)

definition filled :: "machine \<Rightarrow> stack_mapping list \<Rightarrow> (nat \<Rightarrow> u64) \<Rightarrow> nat \<Rightarrow> u64" where
  "filled st ms g = fold (\<lambda>m g. g(sm_scratch m := slot_value st (slot_of (sm_virt m)))) ms g"

lemma run_fills:
  assumes "slot_frame (cx, st)" "maps_ok all" "set ms \<subseteq> set all"
  shows "run_words exec_word (map (fill_word pc) ms) (cx, st) = Next (cx, st\<lparr>gprs := filled st ms (gprs st)\<rparr>)"
  using assms(1,3)
proof (induction ms arbitrary: st)
  case (Cons m ms)
  note b = maps_scratch(1-3) [OF assms(2), of m]
  have move: "exec_word (fill_word pc m) (cx, st) = Next (cx, st\<lparr>gprs := (gprs st)(sm_scratch m := slot_value st (slot_of (sm_virt m)))\<rparr>)"
    using move_step [OF slot_word_moves(1) [OF b(3) b(1,2)] Cons.prems(1)] Cons.prems(2) b by simp
  have "slot_frame (cx, st\<lparr>gprs := (gprs st)(sm_scratch m := slot_value st (slot_of (sm_virt m)))\<rparr>)"
    by (subst slot_frame_cong [where st = st]) (simp_all add: Cons.prems(1))
  from Cons.IH [OF this] Cons.prems(2) move show ?case by (simp add: filled_def fun_upd_def)
qed (simp add: filled_def)

lemma filled_other: "n \<notin> sm_scratch ` set ms \<Longrightarrow> filled st ms g n = g n"
  by (induction ms arbitrary: g) (auto simp: filled_def)

lemma filled_at:
  assumes "maps_ok all" "set ms \<subseteq> set all" "m \<in> set ms"
  shows "filled st ms g (sm_scratch m) = slot_value st (slot_of (sm_virt m))"
  using assms(2,3)
proof (induction ms arbitrary: g)
  case (Cons a ms)
  show ?case
  proof (cases "m \<in> set ms")
    case True
    with Cons show ?thesis by (simp add: filled_def)
  next
    case False
    then have "sm_scratch m \<notin> sm_scratch ` set ms"
      using maps_scratch(4) [OF assms(1)] Cons.prems by (auto simp: image_iff)
    with filled_other [of "sm_scratch m" ms] Cons.prems(2) False show ?thesis by (simp add: filled_def)
  qed
qed simp

lemma run_spills:
  assumes "slot_frame (cx, st)" "maps_ok all" "set ms \<subseteq> set all"
  shows "\<exists>mem. run_words exec_word (map (spill_word pc) ms) (cx, st) = Next (cx, st\<lparr>memory := mem\<rparr>)
    \<and> (\<forall>x. (\<forall>k < SLOT_COUNT. \<not> in_slot st k x) \<longrightarrow> mem x = memory st x)
    \<and> (\<forall>m \<in> set ms. slot_value (st\<lparr>memory := mem\<rparr>) (slot_of (sm_virt m)) = gprs st (sm_scratch m))
    \<and> (\<forall>l < SLOT_COUNT. l \<notin> slot_of ` sm_virt ` set ms \<longrightarrow> slot_value (st\<lparr>memory := mem\<rparr>) l = slot_value st l)"
  using assms(1,3)
proof (induction ms arbitrary: st)
  case Nil
  show ?case by (intro exI [of _ "memory st"]) simp
next
  case (Cons m ms)
  note b = maps_scratch(1-3) [OF assms(2), of m]
  define st1 where "st1 = write_le (slot_addr st (slot_of (sm_virt m))) 8 (gprs st (sm_scratch m)) st"
  have k: "slot_of (sm_virt m) < SLOT_COUNT" using b Cons.prems(2) by simp
  have move: "exec_word (spill_word pc m) (cx, st) = Next (cx, st1)"
    using move_step [OF slot_word_moves(2) [OF b(3) b(1,2)] Cons.prems(1)] Cons.prems(2) b by (simp add: st1_def)
  have st1: "st1 = st\<lparr>memory := memory st1\<rparr>" "gprs st1 = gprs st" by (simp_all add: st1_def write_le_def)
  have same: "slot_addr st1 = slot_addr st" by (simp add: st1_def fun_eq_iff)
  have "slot_frame (cx, st1)" using Cons.prems(1) slot_frame_cong [of st1 st cx] by (simp add: st1_def write_le_def)
  from Cons.IH [OF this] Cons.prems(2) obtain mem where mem:
    "run_words exec_word (map (spill_word pc) ms) (cx, st1) = Next (cx, st1\<lparr>memory := mem\<rparr>)"
    "\<forall>x. (\<forall>k < SLOT_COUNT. \<not> in_slot st1 k x) \<longrightarrow> mem x = memory st1 x"
    "\<forall>m \<in> set ms. slot_value (st1\<lparr>memory := mem\<rparr>) (slot_of (sm_virt m)) = gprs st1 (sm_scratch m)"
    "\<forall>l < SLOT_COUNT. l \<notin> slot_of ` sm_virt ` set ms \<longrightarrow> slot_value (st1\<lparr>memory := mem\<rparr>) l = slot_value st1 l"
    by auto
  have swap: "st1\<lparr>memory := mem\<rparr> = st\<lparr>memory := mem\<rparr>" using arg_cong [OF st1(1), of "\<lambda>s. s\<lparr>memory := mem\<rparr>"] by simp
  have in1: "in_slot st1 = in_slot st" by (simp add: in_slot_def same fun_eq_iff)
  have val1: "slot_value st1 l = (if l = slot_of (sm_virt m) then gprs st (sm_scratch m) else slot_value st l)" if "l < SLOT_COUNT" for l
    using slot_value_write [OF k that] by (simp add: st1_def)
  have out: "memory st1 x = memory st x" if "\<forall>k < SLOT_COUNT. \<not> in_slot st k x" for x
  proof -
    have "\<not> in_slot st (slot_of (sm_virt m)) x" using that k by blast
    then show ?thesis by (simp add: st1_def memory_write_le in_slot_def)
  qed
  have own: "slot_value (st\<lparr>memory := mem\<rparr>) (slot_of (sm_virt m)) = gprs st (sm_scratch m)"
  proof (cases "m \<in> set ms")
    case True
    with mem(3) show ?thesis by (simp add: swap st1(2))
  next
    case False
    have "slot_of (sm_virt m) \<notin> slot_of ` sm_virt ` set ms"
    proof
      assume "slot_of (sm_virt m) \<in> slot_of ` sm_virt ` set ms"
      then obtain m' where m': "m' \<in> set ms" "slot_of (sm_virt m') = slot_of (sm_virt m)" by auto
      then have "sm_virt m' = sm_virt m"
        using slot_of_stack_backed(3) assms(2) Cons.prems(2) by (auto simp: maps_ok_def)
      with m'(1) maps_scratch(5) [OF assms(2), of m m'] Cons.prems(2) False show False by auto
    qed
    with mem(4) k val1 show ?thesis by (simp add: swap)
  qed
  show ?case
  proof (intro exI [of _ mem] conjI)
    show "run_words exec_word (map (spill_word pc) (m # ms)) (cx, st) = Next (cx, st\<lparr>memory := mem\<rparr>)"
      using move mem(1) by (simp add: swap)
    show "\<forall>x. (\<forall>k < SLOT_COUNT. \<not> in_slot st k x) \<longrightarrow> mem x = memory st x" using mem(2) out by (simp add: in1)
    show "\<forall>m \<in> set (m # ms). slot_value (st\<lparr>memory := mem\<rparr>) (slot_of (sm_virt m)) = gprs st (sm_scratch m)"
      using own mem(3) by (simp add: swap st1(2))
    show "\<forall>l < SLOT_COUNT. l \<notin> slot_of ` sm_virt ` set (m # ms) \<longrightarrow> slot_value (st\<lparr>memory := mem\<rparr>) l = slot_value st l"
      using mem(4) val1 by (simp add: swap)
  qed
qed

end
