(* ===== verification/RegShape.thy ===== *)
theory RegShape
  imports DecodeFit A64Rewrite
begin

section \<open>The registers of decoded instructions\<close>

text \<open>
  Every register field of a decoded instruction has the width and the meaning of number 31 that its form
  gives it, which is what the setters write. So setting a field to the register it holds changes nothing.
\<close>

definition field_shaped :: "a64_insn \<Rightarrow> a64_field \<times> a64_reg \<Rightarrow> bool" where
  "field_shaped i fr \<longleftrightarrow> insn_set i (fst fr) (enc (snd fr)) = Some i"

definition regs_shaped :: "a64_insn \<Rightarrow> bool" where
  "regs_shaped i \<longleftrightarrow> list_all (field_shaped i) (reg_fields i)"

definition rows_shaped :: "a64_row list \<Rightarrow> bool" where
  "rows_shaped rs \<longleftrightarrow> list_all (\<lambda>(m, v, ex, b). \<forall>w. regs_shaped (b w)) rs"

lemma shaped_reg [simp]: "zreg wd (enc (xr wd lo w)) = xr wd lo w" "sreg wd (enc (sr wd lo w)) = sr wd lo w"
  "width (xr wd lo w) = wd" "enc (reg_new e wd md) = e"
  by (simp_all add: xr_def sr_def reg_new_def)

lemma shaped_mem [simp]:
  "with_base (mem_off f w) (sr X64 5 w) = mem_off f w" "with_base (mem_pre f w) (sr X64 5 w) = mem_pre f w"
  "with_base (mem_post f w) (sr X64 5 w) = mem_post f w"
  by (simp_all add: mem_off_def mem_pre_def mem_post_def)

text \<open>A \<open>SimdReg\<close> form has the word too: the field it has already goes back in place.\<close>

lemma shaped_word: "lo + 5 \<le> 32 \<Longrightarrow> set_word_reg lo (enc (xr wd lo w)) w = w"
proof -
  have 31: "31 = (mask 5 :: u32)" by (simp add: mask_eq_exp_minus_1)
  show "lo + 5 \<le> 32 \<Longrightarrow> set_word_reg lo (enc (xr wd lo w)) w = w"
    by (rule bit_eqI) (auto simp: set_word_reg_def xr_def reg_new_def fldn_def fld_def bit_simps 31)
qed

lemmas shaped_simps = regs_shaped_def field_shaped_def build_defs dest_reg_def opt_reg_def shaped_word

lemma shaped_builders:
  "regs_shaped (b_adr Adr w)" "regs_shaped (b_adr Adrp w)"
  "md = (if sets_flags aop then R31Xzr else R31Sp) \<Longrightarrow> regs_shaped (b_addsub_imm aop wd md w)"
  "md = (if sets_flags aop then R31Xzr else R31Sp) \<Longrightarrow> regs_shaped (b_addsub_ext aop wd md w)"
  "regs_shaped (b_addsub_shift aop wd w)" "regs_shaped (b_carry cop wd w)" "regs_shaped (b_log_shift lop wd w)"
  "md = (if iop = LiAnds then R31Xzr else R31Sp) \<Longrightarrow> regs_shaped (b_log_imm32 iop md w)"
  "md = (if iop = LiAnds then R31Xzr else R31Sp) \<Longrightarrow> regs_shaped (b_log_imm64 iop md w)"
  "regs_shaped (b_movewide mop wd w)" "regs_shaped (b_bitfield bop wd w)" "regs_shaped (b_extr wd w)"
  "regs_shaped (b_condsel sop wd w)" "regs_shaped (b_ccmp_imm cc wd w)" "regs_shaped (b_ccmp_reg cc wd w)"
  "regs_shaped (b_dp2 d2 wd w)" "regs_shaped (b_crc32 c sz w)" "regs_shaped (b_dp3 d3 wd w)"
  "regs_shaped (b_dp3_long d3l w)" "regs_shaped (b_mulh c w)" "regs_shaped (b_dp1 d1 wd w)" "regs_shaped (b_rev32 w)"
  "regs_shaped (b_b26 BUncond w)" "regs_shaped (b_b26 Bl w)" "regs_shaped (b_bcond w)"
  "regs_shaped (b_cb Cbz wd w)" "regs_shaped (b_cb Cbnz wd w)" "regs_shaped (b_tb Tbz w)" "regs_shaped (b_tb Tbnz w)"
  "regs_shaped (b_breg Br w)" "regs_shaped (b_breg Blr w)" "regs_shaped (b_breg Ret w)" "regs_shaped (b_svc w)"
  "regs_shaped (b_nop w)" "regs_shaped (b_bti w)" "regs_shaped (b_barrier ba w)" "regs_shaped (b_msr_imm w)"
  "regs_shaped (b_mrs sysr w)"
  by (simp_all add: shaped_simps)

lemma shaped_mem_builders:
  "wd = ldst_width op \<Longrightarrow> regs_shaped (b_ldst op wd (mem_off f) w)"
  "wd = ldst_width op \<Longrightarrow> regs_shaped (b_ldst op wd (mem_pre f) w)"
  "wd = ldst_width op \<Longrightarrow> regs_shaped (b_ldst op wd (mem_post f) w)"
  "wd = ldst_width op \<Longrightarrow> regs_shaped (b_ldst_unscaled op wd w)"
  "wd = ldst_width op \<Longrightarrow> regs_shaped (b_ldst_unpriv op wd w)"
  "wd = pair_width pop \<Longrightarrow> regs_shaped (b_pair pop wd (mem_off f) w)"
  "wd = pair_width pop \<Longrightarrow> regs_shaped (b_pair pop wd (mem_pre f) w)"
  "wd = pair_width pop \<Longrightarrow> regs_shaped (b_pair pop wd (mem_post f) w)"
  "wd = ldst_width op \<Longrightarrow> regs_shaped (b_ldst_reg op wd w)"
  "wd = ldst_width op \<Longrightarrow> regs_shaped (b_ldst_reg_bl op wd w)"
  "wd = (if lit = LitLdr32 then W32 else X64) \<Longrightarrow> regs_shaped (b_lit lit wd w)"
  "regs_shaped (b_prfm_imm w)" "regs_shaped (b_prfm_lit w)" "regs_shaped (b_prfm_reg w)"
  "wd = ord_width oop \<Longrightarrow> regs_shaped (b_ord oop wd w)"
  "wd = atomic_width asz \<Longrightarrow> regs_shaped (b_atomic atop asz od wd w)"
  by (simp_all add: shaped_simps)

lemma shaped_fp_builders:
  "regs_shaped (b_fp_ldst ld vsz (mem_off f) w)" "regs_shaped (b_fp_ldst ld vsz (mem_pre f) w)"
  "regs_shaped (b_fp_ldst ld vsz (mem_post f) w)" "regs_shaped (b_fp_unscaled ld vsz w)"
  "regs_shaped (b_fp_pair ld vsz (mem_off f) w)" "regs_shaped (b_fp_pair ld vsz (mem_pre f) w)"
  "regs_shaped (b_fp_pair ld vsz (mem_post f) w)" "multi_rm ix = None \<Longrightarrow> regs_shaped (b_fp_multi ld n ix w)"
  "regs_shaped (b_fp_multi_reg ld n w)" "regs_shaped (b_fp_reg ld vsz w)" "regs_shaped (b_fp_reg_bl ld vsz w)"
  "regs_shaped (b_simd sf' w)" "regs_shaped (b_simd_rn sf' wd w)" "regs_shaped (b_simd_rd sf' wd w)"
  by (simp_all add: shaped_simps)

lemma shaped_rows:
  "rows_shaped decode_rows_1" "rows_shaped decode_rows_2" "rows_shaped decode_rows_3" "rows_shaped decode_rows_4"
  "rows_shaped decode_rows_5" "rows_shaped decode_rows_6" "rows_shaped decode_rows_7" "rows_shaped decode_rows_8"
  "rows_shaped decode_rows_9" "rows_shaped decode_rows_10" "rows_shaped decode_rows_11" "rows_shaped decode_rows_12"
  "rows_shaped decode_rows_13" "rows_shaped decode_rows_14" "rows_shaped decode_rows_15" "rows_shaped decode_rows_16"
  "rows_shaped decode_rows_17" "rows_shaped decode_rows_18" "rows_shaped decode_rows_19" "rows_shaped decode_rows_20"
  by (simp_all add: rows_shaped_def decode_rows_1_def decode_rows_2_def decode_rows_3_def decode_rows_4_def
    decode_rows_5_def decode_rows_6_def decode_rows_7_def decode_rows_8_def decode_rows_9_def
    decode_rows_10_def decode_rows_11_def decode_rows_12_def decode_rows_13_def decode_rows_14_def
    decode_rows_15_def decode_rows_16_def decode_rows_17_def decode_rows_18_def decode_rows_19_def
    decode_rows_20_def shaped_builders shaped_mem_builders shaped_fp_builders sets_flags_def
    ldst_width_def pair_width_def ord_width_def atomic_width_def)

lemma rows_shaped_append: "rows_shaped (rs @ rs') \<longleftrightarrow> rows_shaped rs \<and> rows_shaped rs'"
  by (simp add: rows_shaped_def)

lemma decode_rows_shaped: "rows_shaped decode_rows"
  by (simp only: decode_rows_def rows_shaped_append shaped_rows)

lemma first_row_shaped: "rows_shaped rs \<Longrightarrow> first_row rs w = Some i \<Longrightarrow> regs_shaped i"
  by (induction rs w rule: first_row.induct) (auto simp: rows_shaped_def split: if_splits)

lemma decode_defined_shaped: "decode_defined w = Some i \<Longrightarrow> regs_shaped i"
  unfolding decode_defined_def decode_a64_insn_def
  by (auto dest: first_row_shaped [OF decode_rows_shaped] split: option.splits if_splits)

lemma shaped_field:
  assumes "regs_shaped i" "get_reg i f = Some r"
  shows "insn_set i f (enc r) = Some i"
  using assms map_of_SomeD [of "reg_fields i" f r] by (auto simp: regs_shaped_def field_shaped_def list_all_iff get_reg_def)

lemma reg_of_shape:
  "reg_new (enc r) w md = r \<longleftrightarrow> width r = w \<and> reg31 r = md" "reg_new e w md = r\<lparr>enc := e\<rparr> \<longleftrightarrow> width r = w \<and> reg31 r = md"
  by (cases r; auto simp: reg_new_def)+

lemma base_of_shape:
  "with_base m (reg_new (enc (mem_base m)) w md) = m \<longleftrightarrow> width (mem_base m) = w \<and> reg31 (mem_base m) = md"
  "mem_base (with_base m b) = b"
  by (cases m; simp add: reg_of_shape)+

lemmas set_get_simps = reg_of_shape base_of_shape dest_reg_def opt_reg_def

lemma dp_set_get:
  "dp_set i f (enc r) = Some i \<Longrightarrow> map_of (dp_regs i) f = Some r \<Longrightarrow> dp_set i f e = Some j \<Longrightarrow>
    map_of (dp_regs j) g = (if g = f then Some (r\<lparr>enc := e\<rparr>) else map_of (dp_regs i) g)"
  by (cases i; cases f) (auto simp: set_get_simps split: if_splits)

lemma branch_set_get:
  "branch_set i f (enc r) = Some i \<Longrightarrow> map_of (branch_regs i) f = Some r \<Longrightarrow> branch_set i f e = Some j \<Longrightarrow>
    map_of (branch_regs j) g = (if g = f then Some (r\<lparr>enc := e\<rparr>) else map_of (branch_regs i) g)"
  by (cases i) (auto simp: set_get_simps split: if_splits)

lemma sys_set_get:
  "sys_set i f (enc r) = Some i \<Longrightarrow> map_of (sys_regs i) f = Some r \<Longrightarrow> sys_set i f e = Some j \<Longrightarrow>
    map_of (sys_regs j) g = (if g = f then Some (r\<lparr>enc := e\<rparr>) else map_of (sys_regs i) g)"
  by (cases i) (auto simp: set_get_simps split: if_splits)

lemma ldst_set_get:
  "ldst_set i f (enc r) = Some i \<Longrightarrow> map_of (ldst_regs i) f = Some r \<Longrightarrow> ldst_set i f e = Some j \<Longrightarrow>
    map_of (ldst_regs j) g = (if g = f then Some (r\<lparr>enc := e\<rparr>) else map_of (ldst_regs i) g)"
  by (cases i; cases f) (auto simp: set_get_simps split: if_splits)

lemma fp_set_get:
  "fp_set i f (enc r) = Some i \<Longrightarrow> map_of (fp_regs i) f = Some r \<Longrightarrow> fp_set i f e = Some j \<Longrightarrow>
    map_of (fp_regs j) g = (if g = f then Some (r\<lparr>enc := e\<rparr>) else map_of (fp_regs i) g)"
  by (cases i; cases f)
    (auto simp: set_get_simps
      split: if_splits multi_index.splits option.splits)

lemma insn_set_get:
  "insn_set i f (enc r) = Some i \<Longrightarrow> get_reg i f = Some r \<Longrightarrow> insn_set i f e = Some j \<Longrightarrow>
    get_reg j g = (if g = f then Some (r\<lparr>enc := e\<rparr>) else get_reg i g)"
proof (cases i)
  case (Dp d)
  then show "insn_set i f (enc r) = Some i \<Longrightarrow> get_reg i f = Some r \<Longrightarrow> insn_set i f e = Some j \<Longrightarrow> ?thesis"
    using dp_set_get [of d f r e _ g] by (auto simp: get_reg_def)
next
  case (Brn b)
  then show "insn_set i f (enc r) = Some i \<Longrightarrow> get_reg i f = Some r \<Longrightarrow> insn_set i f e = Some j \<Longrightarrow> ?thesis"
    using branch_set_get [of b f r e _ g] by (auto simp: get_reg_def)
next
  case (Sys s)
  then show "insn_set i f (enc r) = Some i \<Longrightarrow> get_reg i f = Some r \<Longrightarrow> insn_set i f e = Some j \<Longrightarrow> ?thesis"
    using sys_set_get [of s f r e _ g] by (auto simp: get_reg_def)
next
  case (Mem m)
  then show "insn_set i f (enc r) = Some i \<Longrightarrow> get_reg i f = Some r \<Longrightarrow> insn_set i f e = Some j \<Longrightarrow> ?thesis"
    using ldst_set_get [of m f r e _ g] by (auto simp: get_reg_def)
next
  case (Simd v)
  then show "insn_set i f (enc r) = Some i \<Longrightarrow> get_reg i f = Some r \<Longrightarrow> insn_set i f e = Some j \<Longrightarrow> ?thesis"
    using fp_set_get [of v f r e _ g] by (auto simp: get_reg_def)
qed

text \<open>
  C15: the registers of a decoded instruction are typed by their fields. A register field holds a number
  below 32 with the width and the meaning of number 31 its form gives it: setting the field to the
  register it holds gives the same instruction, and setting it to any other changes the number of that
  field and neither its width, nor its meaning of 31, nor another field.
\<close>

theorem decoded_regs_typed:
  assumes "decode_defined w = Some i" "get_reg i f = Some r"
  shows "enc r < 32 \<and> set_reg i f r = Some i \<and>
    (\<forall>r' j g. set_reg i f r' = Some j \<longrightarrow> get_reg j g = (if g = f then Some (r\<lparr>enc := enc r'\<rparr>) else get_reg i g))"
proof -
  have lt: "enc r < 32" using insn_near_reg [OF decode_defined_near [OF assms(1)] assms(2)] .
  have self: "insn_set i f (enc r) = Some i" by (rule shaped_field [OF decode_defined_shaped [OF assms(1)] assms(2)])
  show ?thesis
    using lt self insn_set_get [OF self assms(2)] by (auto simp: set_reg_def split: if_splits)
qed

text \<open>\<open>add sp, x5, #16\<close>: its destination is SP, and stays a register whose number 31 is SP.\<close>

theorem decoded_regs_typed_witness:
  "let i = Dp (AddSubImm AsAdd X64 0 (uimm 10 12 0x910040BF) (reg_x_sp 5) (reg_x_sp 31)) in
    decode_defined 0x910040BF = Some i \<and> set_reg i FRd (reg_x_sp 31) = Some i
    \<and> (\<forall>j. set_reg i FRd (reg_x 7) = Some j \<longrightarrow> get_reg j FRd = Some (reg_x_sp 7) \<and> get_reg j FRn = Some (reg_x_sp 5))"
proof -
  let ?i = "Dp (AddSubImm AsAdd X64 0 (uimm 10 12 0x910040BF) (reg_x_sp 5) (reg_x_sp 31))"
  have dec: "decode_defined 0x910040BF = Some ?i" by code_simp
  have rd: "get_reg ?i FRd = Some (reg_x_sp 31)" by (simp add: get_reg_def)
  show ?thesis
    using decoded_regs_typed [OF dec rd] dec
    by (auto simp: Let_def reg_x_sp_def reg_x_def reg_new_def get_reg_def)
qed

end
