(* ===== verification/VirtSim.thy ===== *)
theory VirtSim
  imports VirtExec RegShape
begin

section \<open>Virtualized data processing does what the user's instruction does\<close>

subsection \<open>The machine the user sees\<close>

text \<open>
  The user's x12 to x18 are in the slots, x29 and SP in the physical registers kept for them; the slots
  themselves are none of the user's memory.
\<close>

definition user_gpr :: "machine \<Rightarrow> nat \<Rightarrow> u64" where
  "user_gpr st n =
    (if reg_virt_is_stack_backed n then slot_value st (slot_of n)
     else if n = REG_VIRT_STABLE_MAPPED_X29_REG then gprs st REG_VIRT_STABLE_MAPPED_X29_PHYS_REG
     else gprs st n)"

definition user_memory :: "machine \<Rightarrow> u64 \<Rightarrow> u8" where
  "user_memory st x = (if \<exists>k < SLOT_COUNT. in_slot st k x then 0 else memory st x)"

definition user_of :: "machine \<Rightarrow> machine" where
  "user_of st = st\<lparr>gprs := user_gpr st, m_sp := gprs st REG_VIRT_STABLE_MAPPED_SP_PHYS_REG, memory := user_memory st\<rparr>"

lemma user_of_simps [simp]:
  "gprs (user_of st) = user_gpr st" "m_sp (user_of st) = gprs st REG_VIRT_STABLE_MAPPED_SP_PHYS_REG"
  "m_flags (user_of st) = m_flags st"
  by (simp_all add: user_of_def)

text \<open>What a plan of a data-processing instruction is.\<close>

lemma dp_plan:
  assumes "build_plan pc (Dp d) = Inr p"
  shows "maps_ok (rp_stack_backed p)" "rp_mem p = None"
    "role \<in> set (dp_roles d) \<Longrightarrow> mapping_of (Dp d) role v rd wr \<Longrightarrow>
      \<exists>m \<in> set (rp_stack_backed p). sm_virt m = v \<and> (rd \<longrightarrow> sm_read m) \<and> (wr \<longrightarrow> sm_write m)"
    "m \<in> set (rp_stack_backed p) \<Longrightarrow> sm_write m \<Longrightarrow> \<exists>role \<in> set (dp_roles d). \<exists>rd. mapping_of (Dp d) role (sm_virt m) rd True"
    "case rp_sp_guard p of
       None \<Rightarrow> sp_write (Dp d) \<noteq> SpwGuarded
     | Some g \<Rightarrow> sp_write (Dp d) = SpwGuarded \<and> sg_value g \<noteq> sg_check g
         \<and> (\<forall>s \<in> {sg_value g, sg_check g}. REG_VIRT_SCRATCH_GPR_START \<le> s
             \<and> s < REG_VIRT_SCRATCH_GPR_START + REG_VIRT_SCRATCH_GPR_LIMIT)"
proof -
  obtain q where q: "rfold (add_role (Dp d)) (dp_roles d) (new_plan pc) = Inr q"
    and rest: "(if sp_write (Dp d) = SpwGuarded then
      rbind (rfold (check_sp_read pc (Dp d)) (operand_roles (Dp d)) ()) (\<lambda>_.
      rbind (alloc_scratch q) (\<lambda>(p, value).
      rbind (alloc_scratch p) (\<lambda>(p, check).
      Inr (p\<lparr>rp_sp_guard := Some \<lparr>sg_value = value, sg_check = check\<rparr>\<rparr>))))
     else Inr q) = Inr p"
  proof -
    have "\<not> accesses_memory (Dp d)" by simp
    then show thesis using assms that unfolding build_plan_def Let_def by auto
  qed
  have new: "plan_maps (new_plan pc)" "plan_ok (new_plan pc)" "rp_sp_guard (new_plan pc) = None" "rp_mem (new_plan pc) = None"
    by (simp_all add: plan_maps_def maps_ok_def new_plan_def plan_ok_def)
  note maps = roles_maps [OF q new(1)]
  have old: "rp_sp_guard q = None" "rp_mem q = None" using add_roles_ok(1) [OF q new(2)] new by (simp_all add: same_rest_def)
  have same: "rp_stack_backed p = rp_stack_backed q" "rp_mem p = rp_mem q"
    using rest by (auto dest!: alloc_scratch_ok split: if_splits)
  show "maps_ok (rp_stack_backed p)" "rp_mem p = None" using maps(1) same old by (simp_all add: plan_maps_def)
  show "role \<in> set (dp_roles d) \<Longrightarrow> mapping_of (Dp d) role v rd wr \<Longrightarrow>
      \<exists>m \<in> set (rp_stack_backed p). sm_virt m = v \<and> (rd \<longrightarrow> sm_read m) \<and> (wr \<longrightarrow> sm_write m)"
    using maps(2) same by simp
  show "m \<in> set (rp_stack_backed p) \<Longrightarrow> sm_write m \<Longrightarrow> \<exists>role \<in> set (dp_roles d). \<exists>rd. mapping_of (Dp d) role (sm_virt m) rd True"
    using maps(3) [of m] same by (simp add: new_plan_def)
  show "case rp_sp_guard p of
       None \<Rightarrow> sp_write (Dp d) \<noteq> SpwGuarded
     | Some g \<Rightarrow> sp_write (Dp d) = SpwGuarded \<and> sg_value g \<noteq> sg_check g
         \<and> (\<forall>s \<in> {sg_value g, sg_check g}. REG_VIRT_SCRATCH_GPR_START \<le> s
             \<and> s < REG_VIRT_SCRATCH_GPR_START + REG_VIRT_SCRATCH_GPR_LIMIT)"
    using rest old(1)
    by (auto simp: alloc_scratch_def reg_virt_scratch_gpr_def split: if_splits)
qed

definition fill_state :: "machine \<Rightarrow> rewrite_plan \<Rightarrow> machine" where
  "fill_state st p = st\<lparr>gprs := filled st (filter sm_read (rp_stack_backed p)) (gprs st)\<rparr>"

lemma fill_state_direct:
  assumes "maps_ok (rp_stack_backed p)"
    and "n < REG_VIRT_SCRATCH_GPR_START \<or> REG_VIRT_SCRATCH_GPR_START + REG_VIRT_SCRATCH_GPR_LIMIT \<le> n"
  shows "gprs (fill_state st p) n = gprs st n"
proof -
  have "n \<notin> sm_scratch ` set (filter sm_read (rp_stack_backed p))"
    using maps_scratch(1,2) [OF assms(1)] assms(2) by fastforce
  then show ?thesis by (simp add: fill_state_def filled_other)
qed

lemma find_mapping_is:
  assumes "maps_ok (rp_stack_backed p)" "m \<in> set (rp_stack_backed p)"
  shows "find_mapping p (sm_virt m) = Some m"
proof (cases "find_mapping p (sm_virt m)")
  case None
  with assms(2) show ?thesis by (auto simp: find_mapping_def find_None_iff)
next
  case (Some m')
  then have "m' \<in> set (rp_stack_backed p)" "sm_virt m' = sm_virt m" by (auto simp: find_mapping_def find_Some_iff)
  with maps_scratch(5) [OF assms(1,2), of m'] Some show ?thesis by simp
qed

text \<open>The number of the physical register of a user register, by class.\<close>

lemma classify_cases:
  "classify_reg r = RcZero \<Longrightarrow> enc r = 31 \<and> reg31 r \<noteq> R31Sp"
  "classify_reg r = RcSp \<Longrightarrow> enc r = 31 \<and> reg31 r = R31Sp"
  "classify_reg r = RcStackBacked \<Longrightarrow> reg_virt_is_stack_backed (enc r) \<and> enc r \<noteq> 31"
  "classify_reg r = RcStableMapped \<Longrightarrow> enc r = REG_VIRT_STABLE_MAPPED_X29_REG"
  "classify_reg r = RcDirect \<or> classify_reg r = RcRuntimeReserved \<Longrightarrow>
    enc r \<noteq> 31 \<and> \<not> reg_virt_is_stack_backed (enc r) \<and> enc r \<noteq> REG_VIRT_STABLE_MAPPED_X29_REG"
  by (auto simp: classify_reg_def is_runtime_return_reg_def reg_virt_is_stack_backed_def kdefs split: if_splits)

lemma not_stack_backed: "\<not> reg_virt_is_stack_backed n \<Longrightarrow>
    (n < REG_VIRT_SCRATCH_GPR_START \<or> REG_VIRT_SCRATCH_GPR_START + REG_VIRT_SCRATCH_GPR_LIMIT \<le> n)
    \<and> n \<noteq> REG_VIRT_STABLE_MAPPED_X29_PHYS_REG \<and> n \<noteq> REG_VIRT_STABLE_MAPPED_SP_PHYS_REG"
  by (auto simp: reg_virt_is_stack_backed_def kdefs)

lemma filled_read:
  assumes maps: "maps_ok (rp_stack_backed p)"
    and to: "mapped_to (mapped_reg p i f r) r r'"
    and unguarded: "classify_reg r = RcSp \<Longrightarrow> rp_sp_guard p = None \<or> \<not> field_has_write_role i f"
    and backed: "classify_reg r = RcStackBacked \<Longrightarrow> \<exists>m \<in> set (rp_stack_backed p). sm_virt m = enc r \<and> sm_read m"
  shows "read_reg (fill_state st p) r' = read_reg (user_of st) r"
proof -
  have phys: "mapped_to (physical_reg p r) r r'"
    using to unguarded by (auto simp: mapped_reg_def split: option.splits if_splits)
  have far: "gprs (fill_state st p) REG_VIRT_STABLE_MAPPED_X29_PHYS_REG = gprs st REG_VIRT_STABLE_MAPPED_X29_PHYS_REG"
    "gprs (fill_state st p) REG_VIRT_STABLE_MAPPED_SP_PHYS_REG = gprs st REG_VIRT_STABLE_MAPPED_SP_PHYS_REG"
    by (rule fill_state_direct [OF maps]; simp add: kdefs)+
  show ?thesis
  proof (cases "classify_reg r")
    case RcZero
    with phys classify_cases(1) [OF RcZero] show ?thesis by (simp add: physical_reg_def read_reg_def)
  next
    case RcDirect
    with phys classify_cases(5) [of r] not_stack_backed [of "enc r"] show ?thesis
      by (simp add: physical_reg_def read_reg_def fill_state_direct [OF maps] user_gpr_def)
  next
    case RcRuntimeReserved
    with phys classify_cases(5) [of r] not_stack_backed [of "enc r"] show ?thesis
      by (simp add: physical_reg_def read_reg_def fill_state_direct [OF maps] user_gpr_def)
  next
    case RcStackBacked
    obtain m where m: "m \<in> set (rp_stack_backed p)" "sm_virt m = enc r" "sm_read m" using backed [OF RcStackBacked] by blast
    have "gprs (fill_state st p) (sm_scratch m) = slot_value st (slot_of (enc r))"
      using filled_at [OF maps, of "filter sm_read (rp_stack_backed p)" m] m by (simp add: fill_state_def)
    moreover have "enc r' = sm_scratch m" "sm_scratch m \<noteq> 31"
      using phys find_mapping_is [OF maps m(1)] m(2) RcStackBacked maps_scratch(2) [OF maps m(1)]
      by (simp_all add: physical_reg_def kdefs)
    ultimately show ?thesis using classify_cases(3) [OF RcStackBacked] by (simp add: read_reg_def user_gpr_def)
  next
    case RcStableMapped
    with phys classify_cases(4) [OF RcStableMapped] far(1) show ?thesis
      by (simp add: physical_reg_def read_reg_def user_gpr_def reg_virt_is_stack_backed_def) (simp add: kdefs)
  next
    case RcSp
    with phys classify_cases(2) [OF RcSp] far(2) show ?thesis
      by (simp add: physical_reg_def read_reg_def) (simp add: kdefs)
  qed
qed

lemma write_reg_fields [simp]:
  "m_flags (write_reg r v st) = m_flags st" "memory (write_reg r v st) = memory st"
  "user_pages (write_reg r v st) = user_pages st"
  "enc r \<noteq> 31 \<Longrightarrow> m_sp (write_reg r v st) = m_sp st"
  "enc r \<noteq> 31 \<Longrightarrow> gprs (write_reg r v st) = (gprs st)(enc r := v)"
  by (simp_all add: write_reg_def)

lemma fill_state_fields [simp]:
  "m_sp (fill_state st p) = m_sp st" "memory (fill_state st p) = memory st" "m_flags (fill_state st p) = m_flags st"
  "user_pages (fill_state st p) = user_pages st"
  by (simp_all add: fill_state_def)

lemma slot_cong:
  "m_sp st' = m_sp st \<Longrightarrow> slot_addr st' = slot_addr st" "m_sp st' = m_sp st \<Longrightarrow> in_slot st' = in_slot st"
  "m_sp st' = m_sp st \<Longrightarrow> memory st' = memory st \<Longrightarrow> slot_value st' = slot_value st"
  by (simp_all add: slot_addr_def in_slot_def slot_value_def read_le_def fun_eq_iff)

text \<open>The physical register that holds what the user's register does, if one does.\<close>

definition holder :: "rewrite_plan \<Rightarrow> a64_reg \<Rightarrow> nat option" where
  "holder p r = (if classify_reg r = RcZero then None else Some (enc (phys p r)))"

lemma mapped_holder:
  assumes "maps_ok (rp_stack_backed p)" "mapped_to (physical_reg p r) r r'"
    and "classify_reg r = RcStackBacked \<Longrightarrow> \<exists>m \<in> set (rp_stack_backed p). sm_virt m = enc r"
  shows "write_reg r' v st = (case holder p r of None \<Rightarrow> st | Some n \<Rightarrow> st\<lparr>gprs := (gprs st)(n := v)\<rparr>)"
proof -
  have other: "classify_reg r \<noteq> RcZero \<Longrightarrow> enc r' = enc (phys p r) \<and> enc (phys p r) \<noteq> 31"
  proof (cases "classify_reg r")
    case RcStackBacked
    then obtain m where m: "m \<in> set (rp_stack_backed p)" "sm_virt m = enc r" using assms(3) by blast
    with RcStackBacked assms(2) find_mapping_is [OF assms(1) m(1)] maps_scratch(2) [OF assms(1) m(1)] show ?thesis
      by (simp add: phys_def physical_reg_def kdefs)
  qed (use assms(2) classify_cases(5) [of r] in \<open>simp_all add: phys_def physical_reg_def kdefs\<close>)
  show "write_reg r' v st = (case holder p r of None \<Rightarrow> st | Some n \<Rightarrow> st\<lparr>gprs := (gprs st)(n := v)\<rparr>)"
  proof (cases "classify_reg r = RcZero")
    case True
    with assms(2) classify_cases(1) [OF True] show ?thesis by (simp add: holder_def physical_reg_def write_reg_def)
  next
    case False
    with other show ?thesis by (simp add: holder_def write_reg_def)
  qed
qed

lemma spilled_user:
  assumes maps: "maps_ok (rp_stack_backed p)"
    and to: "mapped_to (physical_reg p r) r r'"
    and backed: "classify_reg r = RcStackBacked \<Longrightarrow> \<exists>m \<in> set (rp_stack_backed p). sm_virt m = enc r \<and> sm_write m"
    and only: "\<And>m. m \<in> set (rp_stack_backed p) \<Longrightarrow> sm_write m \<Longrightarrow> classify_reg r = RcStackBacked \<and> sm_virt m = enc r"
    and after: "F2 = write_reg r' v ((fill_state st p)\<lparr>m_flags := fl\<rparr>)"
    and away: "\<forall>x. (\<forall>k < SLOT_COUNT. \<not> in_slot F2 k x) \<longrightarrow> mem x = memory F2 x"
    and spilled: "\<forall>m \<in> set (filter sm_write (rp_stack_backed p)).
      slot_value (F2\<lparr>memory := mem\<rparr>) (slot_of (sm_virt m)) = gprs F2 (sm_scratch m)"
    and kept: "\<forall>l < SLOT_COUNT. l \<notin> slot_of ` sm_virt ` set (filter sm_write (rp_stack_backed p)) \<longrightarrow>
      slot_value (F2\<lparr>memory := mem\<rparr>) l = slot_value F2 l"
  shows "user_of (F2\<lparr>memory := mem\<rparr>) = write_reg r v ((user_of st)\<lparr>m_flags := fl\<rparr>)"
proof -
  let ?S = "F2\<lparr>memory := mem\<rparr>"
  have F2: "F2 = (case holder p r of None \<Rightarrow> (fill_state st p)\<lparr>m_flags := fl\<rparr>
      | Some n \<Rightarrow> (fill_state st p)\<lparr>m_flags := fl, gprs := (gprs (fill_state st p))(n := v)\<rparr>)"
  proof -
    have "\<exists>m \<in> set (rp_stack_backed p). sm_virt m = enc r" if "classify_reg r = RcStackBacked" using backed [OF that] by blast
    from mapped_holder [OF maps to this] show ?thesis by (simp add: after split: option.split)
  qed
  have same: "m_sp F2 = m_sp st" "memory F2 = memory st" by (simp_all add: F2 split: option.split)
  have slots: "slot_value ?S (slot_of n) = (if classify_reg r = RcStackBacked \<and> n = enc r then v else slot_value st (slot_of n))"
    if n: "reg_virt_is_stack_backed n" for n
  proof (cases "classify_reg r = RcStackBacked \<and> n = enc r")
    case True
    then obtain m where m: "m \<in> set (rp_stack_backed p)" "sm_virt m = enc r" "sm_write m" using backed by blast
    then have "holder p r = Some (sm_scratch m)"
      using True find_mapping_is [OF maps m(1)] by (simp add: holder_def phys_def physical_reg_def)
    then have "gprs F2 (sm_scratch m) = v" by (simp add: F2)
    moreover have "slot_value ?S (slot_of (sm_virt m)) = gprs F2 (sm_scratch m)" using spilled m(1,3) by simp
    ultimately show ?thesis using True m(2) by simp
  next
    case False
    have "slot_of n \<notin> slot_of ` sm_virt ` set (filter sm_write (rp_stack_backed p))"
    proof
      assume "slot_of n \<in> slot_of ` sm_virt ` set (filter sm_write (rp_stack_backed p))"
      then obtain m where m: "m \<in> set (rp_stack_backed p)" "sm_write m" "slot_of (sm_virt m) = slot_of n" by auto
      moreover have "reg_virt_is_stack_backed (sm_virt m)" using maps m(1) by (simp add: maps_ok_def)
      ultimately have "sm_virt m = n" using slot_of_stack_backed(3) [OF n] by blast
      with only [OF m(1,2)] False show False by simp
    qed
    then have "slot_value ?S (slot_of n) = slot_value F2 (slot_of n)" using kept slot_of_stack_backed(1) [OF n] by blast
    also have "\<dots> = slot_value st (slot_of n)" using slot_cong(3) [of F2 st] same by simp
    finally show ?thesis using False by auto
  qed
  have direct: "gprs F2 n = (if holder p r = Some n then v else gprs st n)"
    if "n < REG_VIRT_SCRATCH_GPR_START \<or> REG_VIRT_SCRATCH_GPR_START + REG_VIRT_SCRATCH_GPR_LIMIT \<le> n" for n
    using fill_state_direct [OF maps that] by (simp add: F2 split: option.split)
  have far: "gprs F2 REG_VIRT_STABLE_MAPPED_X29_PHYS_REG =
      (if holder p r = Some REG_VIRT_STABLE_MAPPED_X29_PHYS_REG then v else gprs st REG_VIRT_STABLE_MAPPED_X29_PHYS_REG)"
    "gprs F2 REG_VIRT_STABLE_MAPPED_SP_PHYS_REG =
      (if holder p r = Some REG_VIRT_STABLE_MAPPED_SP_PHYS_REG then v else gprs st REG_VIRT_STABLE_MAPPED_SP_PHYS_REG)"
    by (rule direct; simp add: kdefs)+
  have gpr: "user_gpr ?S n = gprs (write_reg r v ((user_of st)\<lparr>m_flags := fl\<rparr>)) n" for n
  proof (cases "reg_virt_is_stack_backed n")
    case True
    have "n \<noteq> 31" using True by (auto simp: reg_virt_is_stack_backed_def kdefs)
    with slots [OF True] True classify_cases [of r] show ?thesis
      by (cases "classify_reg r") (auto simp: user_gpr_def write_reg_def reg_virt_is_stack_backed_def kdefs)
  next
    case False
    note n = not_stack_backed [OF False]
    show ?thesis
    proof (cases "classify_reg r = RcStackBacked")
      case True
      then obtain m where m: "m \<in> set (rp_stack_backed p)" "sm_virt m = enc r" using backed by blast
      have h: "holder p r = Some (sm_scratch m)"
        using True find_mapping_is [OF maps m(1)] m(2) by (simp add: holder_def phys_def physical_reg_def)
      have "sm_scratch m \<noteq> n" "sm_scratch m \<noteq> REG_VIRT_STABLE_MAPPED_X29_PHYS_REG"
        using maps_scratch(1,2) [OF maps m(1)] n by (auto simp: kdefs)
      with h far(1) direct [of n] n False True classify_cases(3) [OF True] show ?thesis
        by (auto simp: user_gpr_def write_reg_def)
    next
      case other: False
      have h: "holder p r = (case classify_reg r of RcZero \<Rightarrow> None | RcStableMapped \<Rightarrow> Some REG_VIRT_STABLE_MAPPED_X29_PHYS_REG
          | RcSp \<Rightarrow> Some REG_VIRT_STABLE_MAPPED_SP_PHYS_REG | _ \<Rightarrow> Some (enc r))"
        using other by (simp add: holder_def phys_def physical_reg_def split: reg_class.split)
      show ?thesis
        using h far(1) direct [of n] n False other classify_cases [of r] not_stack_backed [of "enc r"]
        by (cases "classify_reg r") (auto simp: user_gpr_def write_reg_def kdefs)
    qed
  qed
  have sp: "gprs F2 REG_VIRT_STABLE_MAPPED_SP_PHYS_REG = m_sp (write_reg r v ((user_of st)\<lparr>m_flags := fl\<rparr>))"
  proof (cases "classify_reg r = RcStackBacked")
    case True
    then obtain m where m: "m \<in> set (rp_stack_backed p)" "sm_virt m = enc r" using backed by blast
    have "holder p r = Some (sm_scratch m)"
      using True find_mapping_is [OF maps m(1)] m(2) by (simp add: holder_def phys_def physical_reg_def)
    moreover have "sm_scratch m \<noteq> REG_VIRT_STABLE_MAPPED_SP_PHYS_REG" using maps_scratch(2) [OF maps m(1)] by (auto simp: kdefs)
    ultimately show ?thesis using far(2) classify_cases(3) [OF True] by (simp add: write_reg_def)
  next
    case other: False
    then show ?thesis
      using far(2) classify_cases [of r] not_stack_backed [of "enc r"]
      by (cases "classify_reg r") (auto simp: holder_def phys_def physical_reg_def write_reg_def kdefs)
  qed
  have mem: "user_memory ?S x = user_memory st x" for x
    using away slot_cong(2) [of ?S st] slot_cong(2) [of F2 st] same by (auto simp: user_memory_def)
  have rest: "tpidr_el0 F2 = tpidr_el0 st" "cntvct_el0 F2 = cntvct_el0 st" "cntfrq_el0 F2 = cntfrq_el0 st"
    "m_fpcr F2 = m_fpcr st" "m_fpsr F2 = m_fpsr st" "user_pages F2 = user_pages st" "m_flags F2 = fl"
    by (simp_all add: F2 fill_state_def split: option.split)
  show ?thesis
    by (rule machine.equality)
      (use gpr sp mem rest in \<open>auto simp: fun_eq_iff user_of_def write_reg_def\<close>)
qed

end
