(* ===== verification/VirtProps.thy ===== *)
theory VirtProps
  imports VirtSim
begin

section \<open>Data processing through the virtual registers\<close>

subsection \<open>The words of a guarded SP\<close>

lemma and_15_mask: "decode_bit_masks 1 (raw (e_uimm 3 6)) (raw (e_uimm 0 6)) True 64 = Some (15, 15)"
  by code_simp

lemma bits_64: "reg_bits X64 = 64" by (simp add: reg_bits_def)

lemma exec_and_15: "exec_word (rword k pc (and_15 rn rd)) (cx, st)
    = Next (cx, write_reg (reg_x_sp rd) (read_reg st (reg_x rn) AND 15) st)"
  using and_15_mask
  by (simp add: exec_word_def and_15_def then_next_def logical_imm_def okay_def word_outcome_def logical_def
      write_reg_sized_def width_mask_64 bits_64 Let_def split: option.split prod.split)

lemma exec_cbnz_stub: "exec_word (rword k pc (cbnz_stub rt)) (cx, st)
    = (if read_reg st (reg_x rt) = 0 then Next (cx, st) else Exit (Inr 0) (cx, st))"
  by (simp add: exec_word_def cbnz_stub_def word_outcome_def conditional_target_def pc_relative_target_def
      imm_scaled_signed_def sign_extend_a64_def read_reg_sized_def bits_64)

lemma exec_mov_reg: "exec_word (w\<lparr>ri_insn := mov_reg rd rm\<rparr>) (cx, st)
    = Next (cx, write_reg (reg_x rd) (read_reg st (reg_x rm)) st)"
  by (simp add: exec_word_def mov_reg_def then_next_def okay_def word_outcome_def logical_shifted_def shift_value_def
      logical_def write_reg_sized_def width_mask_64 read_reg_def reg_xzr_def reg_x_def reg_new_def e_uimm_def imm_defs bits_64 Let_def)

subsection \<open>The mapped word\<close>

lemma dp_write_roles:
  "role \<in> set (dp_roles d) \<Longrightarrow> access_mode_from_role role = Some (f, w, rd, True) \<Longrightarrow> f = FRd"
  "map_of (dp_regs d) FRd = Some r \<Longrightarrow> field_has_write_role (Dp d) FRd \<and>
    (\<exists>w. RegWrite FRd w \<in> set (dp_roles d))"
  by (cases d; auto simp: field_has_write_role_def split: if_splits)+

lemma dp_read_role: "f \<in> dp_reads d \<Longrightarrow> \<exists>role \<in> set (dp_roles d). \<exists>w. access_mode_from_role role = Some (f, w, True, False)"
  by (force simp: dp_reads_def)

lemma dp_field_written: "field_has_write_role (Dp d) f \<Longrightarrow> f = FRd"
  by (cases d) (auto simp: field_has_write_role_def split: if_splits)

text \<open>Of the decoded forms, those that read their destination have no SP there.\<close>

lemma read_dest_not_sp:
  assumes "regs_shaped (Dp d)" "FRd \<in> dp_reads d" "map_of (dp_regs d) FRd = Some r"
  shows "classify_reg r \<noteq> RcSp"
proof -
  have "dp_set d FRd (enc r) = Some d" using shaped_field [OF assms(1)] assms(3) by (simp add: get_reg_def)
  with assms(2,3) have "reg31 r = R31Xzr"
    by (cases d) (auto simp: dp_reads_def reg_of_shape split: if_splits)
  with classify_cases(2) [of r] show ?thesis by auto
qed

lemma mapped_word:
  assumes "build_plan pc (Dp d) = Inr p" "rewrite_insn p (Dp d) = Inr j" "regs_shaped (Dp d)"
  shows "\<exists>d'. j = Dp d' \<and> (\<forall>f r. map_of (dp_regs d) f = Some r \<longrightarrow> mapped_to (mapped_reg p (Dp d) f r) r (regs_of d' f))
    \<and> same_result (user_of st) (map_of (dp_regs d) FRd) (exec_dp d 0 (user_of st))
        (fill_state st p) (map_option (\<lambda>_. regs_of d' FRd) (map_of (dp_regs d) FRd)) (exec_dp d' 0 (fill_state st p))"
proof -
  note plan = dp_plan [OF assms(1)]
  from rewrite_dp [OF assms(2)] obtain d' where d': "j = Dp d'" "d' = dp_with (regs_of d') d"
    "\<forall>f r. map_of (dp_regs d) f = Some r \<longrightarrow> mapped_to (mapped_reg p (Dp d) f r) r (regs_of d' f)" by blast
  have reads: "\<forall>f \<in> dp_reads d. \<exists>r. map_of (dp_regs d) f = Some r
      \<and> read_reg (fill_state st p) (regs_of d' f) = read_reg (user_of st) r"
  proof
    fix f assume f: "f \<in> dp_reads d"
    then obtain r where r: "map_of (dp_regs d) f = Some r" using dp_reads_defined by blast
    from dp_read_role [OF f] obtain role w where role: "role \<in> set (dp_roles d)" "access_mode_from_role role = Some (f, w, True, False)"
      by blast
    have "\<exists>m \<in> set (rp_stack_backed p). sm_virt m = enc r \<and> sm_read m" if "classify_reg r = RcStackBacked"
      using plan(3) [OF role(1), of "enc r" True False] role(2) r that by (auto simp: mapping_of_def get_reg_def)
    moreover have "rp_sp_guard p = None \<or> \<not> field_has_write_role (Dp d) f" if "classify_reg r = RcSp"
      using dp_field_written [of d f] read_dest_not_sp [OF assms(3)] f r that by blast
    ultimately have "read_reg (fill_state st p) (regs_of d' f) = read_reg (user_of st) r"
      using filled_read [OF plan(1), of "Dp d" f r] d'(3) r by blast
    with r show "\<exists>r. map_of (dp_regs d) f = Some r \<and> read_reg (fill_state st p) (regs_of d' f) = read_reg (user_of st) r" by blast
  qed
  have "same_result (user_of st) (map_of (dp_regs d) FRd) (exec_dp d 0 (user_of st))
        (fill_state st p) (map_option (\<lambda>_. regs_of d' FRd) (map_of (dp_regs d) FRd)) (exec_dp (dp_with (regs_of d') d) 0 (fill_state st p))"
    by (rule dp_same_result [OF reads]) simp
  with d' show ?thesis by metis
qed

lemma exec_dp_word: "ri_insn w = Dp d \<Longrightarrow> exec_dp d 0 st = failing st e \<Longrightarrow> exec_word w (cx, st) = Crash"
  "ri_insn w = Dp d \<Longrightarrow> exec_dp d 0 st = okay st' \<Longrightarrow> exec_word w (cx, st) = Next (cx, st')"
  by (simp_all add: exec_word_def word_outcome_def then_next_def failing_def okay_def)

text \<open>The destination of a plan's only spill.\<close>

lemma spilled_dest:
  assumes "build_plan pc (Dp d) = Inr p" "m \<in> set (rp_stack_backed p)" "sm_write m"
  shows "\<exists>r. map_of (dp_regs d) FRd = Some r \<and> classify_reg r = RcStackBacked \<and> enc r = sm_virt m"
proof -
  from dp_plan(4) [OF assms] obtain role rd f w r where "role \<in> set (dp_roles d)"
    "access_mode_from_role role = Some (f, w, rd, True)" "map_of (dp_regs d) f = Some r"
    "classify_reg r = RcStackBacked" "enc r = sm_virt m" by (auto simp: mapping_of_def get_reg_def)
  with dp_write_roles(1) show ?thesis by blast
qed

lemma dest_spilled:
  assumes "build_plan pc (Dp d) = Inr p" "map_of (dp_regs d) FRd = Some r" "classify_reg r = RcStackBacked"
  shows "\<exists>m \<in> set (rp_stack_backed p). sm_virt m = enc r \<and> sm_write m"
proof -
  obtain w where w: "RegWrite FRd w \<in> set (dp_roles d)" using dp_write_roles(2) [OF assms(2)] by blast
  have "mapping_of (Dp d) (RegWrite FRd w) (enc r) False True" using assms(2,3) by (simp add: mapping_of_def get_reg_def)
  from dp_plan(3) [OF assms(1) w this] show ?thesis by blast
qed

subsection \<open>The words of the instruction\<close>

definition reaches_user :: "rinsn list \<Rightarrow> access_ctx \<Rightarrow> machine \<Rightarrow> machine \<Rightarrow> bool" where
  "reaches_user ws cx st u \<longleftrightarrow> (\<exists>st'. run_words exec_word ws (cx, st) = Next (cx, st') \<and> slot_frame (cx, st') \<and> user_of st' = u)"

lemma user_words:
  assumes "rewrite_user_semantic w = Inr ws" "ri_insn w = Dp d"
  shows "\<exists>p j. build_plan (ri_pc w) (Dp d) = Inr p \<and> rewrite_insn p (Dp d) = Inr j
    \<and> ws = map (fill_word (ri_pc w)) (filter sm_read (rp_stack_backed p)) @ w\<lparr>ri_insn := j\<rparr>
        # (case rp_sp_guard p of None \<Rightarrow> [] | Some g \<Rightarrow> guard_check g (ri_pc w) @ [guard_commit g w])
        @ map (spill_word (ri_pc w)) (filter sm_write (rp_stack_backed p))"
proof -
  from assms obtain p fills body spills where p: "build_plan (ri_pc w) (Dp d) = Inr p" "emit_fills p (ri_pc w) = Inr fills"
    "plan_words p w = Inr body" "emit_spills p (ri_pc w) = Inr spills" "ws = fills @ body @ spills"
    by (auto simp: rewrite_user_semantic_def)
  note plan = dp_plan [OF p(1)]
  from p(3) assms(2) plan(2) obtain j where "rewrite_insn p (Dp d) = Inr j"
    "body = w\<lparr>ri_insn := j\<rparr> # (case rp_sp_guard p of None \<Rightarrow> [] | Some g \<Rightarrow> guard_check g (ri_pc w) @ [guard_commit g w])"
    by (auto simp: plan_words_def)
  with p fills_words [OF plan(1)] show ?thesis by auto
qed

lemma fills_run:
  assumes "slot_frame (cx, st)" "maps_ok (rp_stack_backed p)"
  shows "run_words exec_word (map (fill_word pc) (filter sm_read (rp_stack_backed p)) @ ws) (cx, st)
    = run_words exec_word ws (cx, fill_state st p)"
  using run_fills [OF assms, of "filter sm_read (rp_stack_backed p)" pc] by (simp add: run_append fill_state_def)

lemma fill_state_frame: "slot_frame (cx, st) \<Longrightarrow> slot_frame (cx, fill_state st p)"
  by (simp add: slot_frame_cong [of "fill_state st p" st])

text \<open>What the spills leave, for a destination or none.\<close>

lemma spills_reach:
  assumes frame: "slot_frame (cx, st)" and plan: "build_plan pc (Dp d) = Inr p"
    and to: "case map_of (dp_regs d) FRd of None \<Rightarrow> True | Some r \<Rightarrow> mapped_to (physical_reg p r) r r'"
    and D: "D = map_option (\<lambda>_. r') (map_of (dp_regs d) FRd)"
  shows "reaches_user (map (spill_word pc') (filter sm_write (rp_stack_backed p))) cx
      (write_dest D v ((fill_state st p)\<lparr>m_flags := fl\<rparr>))
      (write_dest (map_of (dp_regs d) FRd) v ((user_of st)\<lparr>m_flags := fl\<rparr>))"
proof -
  note maps = dp_plan(1) [OF plan]
  define r where "r = (case map_of (dp_regs d) FRd of None \<Rightarrow> reg_xzr | Some r \<Rightarrow> r)"
  define q where "q = (case map_of (dp_regs d) FRd of None \<Rightarrow> reg_xzr | Some _ \<Rightarrow> r')"
  have xzr: "write_reg reg_xzr v s = s" "classify_reg reg_xzr = RcZero" "physical_reg p reg_xzr = None" for s
    by (simp_all add: write_reg_def physical_reg_def classify_reg_def kdefs)
  let ?F2 = "write_reg q v ((fill_state st p)\<lparr>m_flags := fl\<rparr>)"
  have to': "mapped_to (physical_reg p r) r q" using to xzr(3) by (cases "map_of (dp_regs d) FRd") (simp_all add: r_def q_def)
  have backed: "classify_reg r = RcStackBacked \<Longrightarrow> \<exists>m \<in> set (rp_stack_backed p). sm_virt m = enc r \<and> sm_write m"
    using dest_spilled [OF plan] xzr(2) by (cases "map_of (dp_regs d) FRd") (simp_all add: r_def)
  have only: "classify_reg r = RcStackBacked \<and> sm_virt m = enc r" if "m \<in> set (rp_stack_backed p)" "sm_write m" for m
    using spilled_dest [OF plan that] by (auto simp: r_def)
  have ex: "\<exists>m \<in> set (rp_stack_backed p). sm_virt m = enc r" if "classify_reg r = RcStackBacked" using backed [OF that] by blast
  have F2: "m_sp ?F2 = m_sp st" "user_pages ?F2 = user_pages st"
    using mapped_holder [OF maps to' ex] by (simp_all split: option.split)
  have "slot_frame (cx, ?F2)" using frame slot_frame_cong [OF F2] by simp
  from run_spills [OF this maps, of "filter sm_write (rp_stack_backed p)" pc'] obtain mem where mem:
    "run_words exec_word (map (spill_word pc') (filter sm_write (rp_stack_backed p))) (cx, ?F2) = Next (cx, ?F2\<lparr>memory := mem\<rparr>)"
    "\<forall>x. (\<forall>k < SLOT_COUNT. \<not> in_slot ?F2 k x) \<longrightarrow> mem x = memory ?F2 x"
    "\<forall>m \<in> set (filter sm_write (rp_stack_backed p)). slot_value (?F2\<lparr>memory := mem\<rparr>) (slot_of (sm_virt m)) = gprs ?F2 (sm_scratch m)"
    "\<forall>l < SLOT_COUNT. l \<notin> slot_of ` sm_virt ` set (filter sm_write (rp_stack_backed p)) \<longrightarrow> slot_value (?F2\<lparr>memory := mem\<rparr>) l = slot_value ?F2 l"
    by auto
  have "user_of (?F2\<lparr>memory := mem\<rparr>) = write_reg r v ((user_of st)\<lparr>m_flags := fl\<rparr>)"
    by (rule spilled_user [OF maps to' backed only refl mem(2-4)])
  moreover have "slot_frame (cx, ?F2\<lparr>memory := mem\<rparr>)" using frame slot_frame_cong [of "?F2\<lparr>memory := mem\<rparr>" st] F2 by simp
  ultimately have "reaches_user (map (spill_word pc') (filter sm_write (rp_stack_backed p))) cx ?F2
      (write_reg r v ((user_of st)\<lparr>m_flags := fl\<rparr>))"
    using mem(1) by (auto simp: reaches_user_def)
  then show ?thesis using xzr(1) by (cases "map_of (dp_regs d) FRd") (simp_all add: D r_def q_def write_dest_def)
qed

subsection \<open>Instructions without a guard, and with one\<close>

lemma dp_unguarded:
  assumes "slot_frame (cx, st)" "rewrite_user_semantic w = Inr ws" "ri_insn w = Dp d" "regs_shaped (Dp d)"
    and "sp_write (Dp d) \<noteq> SpwGuarded"
  shows "exec_dp d 0 (user_of st) = failing (user_of st) e \<Longrightarrow> run_words exec_word ws (cx, st) = Crash"
    "exec_dp d 0 (user_of st) = okay u \<Longrightarrow> reaches_user ws cx st u"
proof -
  from user_words [OF assms(2,3)] obtain p j where p: "build_plan (ri_pc w) (Dp d) = Inr p" "rewrite_insn p (Dp d) = Inr j"
    "ws = map (fill_word (ri_pc w)) (filter sm_read (rp_stack_backed p)) @ w\<lparr>ri_insn := j\<rparr>
        # (case rp_sp_guard p of None \<Rightarrow> [] | Some g \<Rightarrow> guard_check g (ri_pc w) @ [guard_commit g w])
        @ map (spill_word (ri_pc w)) (filter sm_write (rp_stack_backed p))" by blast
  note maps = dp_plan(1) [OF p(1)]
  have none: "rp_sp_guard p = None" using dp_plan(5) [OF p(1)] assms(5) by (cases "rp_sp_guard p") auto
  from mapped_word [OF p(1,2) assms(4), of st] obtain d' where d': "j = Dp d'"
    "\<forall>f r. map_of (dp_regs d) f = Some r \<longrightarrow> mapped_to (mapped_reg p (Dp d) f r) r (regs_of d' f)"
    "same_result (user_of st) (map_of (dp_regs d) FRd) (exec_dp d 0 (user_of st))
        (fill_state st p) (map_option (\<lambda>_. regs_of d' FRd) (map_of (dp_regs d) FRd)) (exec_dp d' 0 (fill_state st p))" by blast
  have to: "case map_of (dp_regs d) FRd of None \<Rightarrow> True | Some r \<Rightarrow> mapped_to (physical_reg p r) r (regs_of d' FRd)"
    using d'(2) none by (auto simp: mapped_reg_def split: option.split)
  have run: "run_words exec_word ws (cx, st) = (case exec_word (w\<lparr>ri_insn := Dp d'\<rparr>) (cx, fill_state st p) of
      Next s \<Rightarrow> run_words exec_word (map (spill_word (ri_pc w)) (filter sm_write (rp_stack_backed p))) s
      | Exit x s \<Rightarrow> Exit x s | Crash \<Rightarrow> Crash)"
    using fills_run [OF assms(1) maps] by (simp add: p(3) none d'(1))
  show "exec_dp d 0 (user_of st) = failing (user_of st) e \<Longrightarrow> run_words exec_word ws (cx, st) = Crash"
    using d'(3) exec_dp_word(1) [of "w\<lparr>ri_insn := Dp d'\<rparr>" d'] by (auto simp: same_result_def run failing_def okay_def)
  show "reaches_user ws cx st u" if ok: "exec_dp d 0 (user_of st) = okay u"
  proof -
    from d'(3) ok obtain v fl where v: "u = write_dest (map_of (dp_regs d) FRd) v ((user_of st)\<lparr>m_flags := fl\<rparr>)"
      "exec_dp d' 0 (fill_state st p)
        = okay (write_dest (map_option (\<lambda>_. regs_of d' FRd) (map_of (dp_regs d) FRd)) v ((fill_state st p)\<lparr>m_flags := fl\<rparr>))"
      by (auto simp: same_result_def failing_def okay_def)
    from spills_reach [OF assms(1) p(1) to refl] show ?thesis
      unfolding reaches_user_def run v(1) using exec_dp_word(2) [OF _ v(2), of "w\<lparr>ri_insn := Dp d'\<rparr>" cx] by simp
  qed
qed

text \<open>Scratch registers are none of the user's.\<close>

lemma user_memory_cong: "m_sp st' = m_sp st \<Longrightarrow> memory st' = memory st \<Longrightarrow> user_memory st' = user_memory st"
  using slot_cong(2) [of st' st] by (auto simp: user_memory_def fun_eq_iff)

lemma user_of_scratch:
  assumes "\<And>n. n < REG_VIRT_SCRATCH_GPR_START \<or> REG_VIRT_SCRATCH_GPR_START + REG_VIRT_SCRATCH_GPR_LIMIT \<le> n \<Longrightarrow> g n = gprs st n"
  shows "user_of (st\<lparr>gprs := g\<rparr>) = user_of st"
proof -
  have "user_gpr (st\<lparr>gprs := g\<rparr>) n = user_gpr st n" for n
    using assms [of n] assms [of REG_VIRT_STABLE_MAPPED_X29_PHYS_REG] not_stack_backed [of n]
    by (auto simp: user_gpr_def kdefs)
  moreover have "g REG_VIRT_STABLE_MAPPED_SP_PHYS_REG = gprs st REG_VIRT_STABLE_MAPPED_SP_PHYS_REG"
    by (rule assms) (simp add: kdefs)
  moreover have "user_memory (st\<lparr>gprs := g\<rparr>) = user_memory st" by (rule user_memory_cong) simp_all
  ultimately show ?thesis by (simp add: user_of_def fun_eq_iff)
qed

lemma user_of_sp:
  "user_of (st\<lparr>gprs := (gprs st)(REG_VIRT_STABLE_MAPPED_SP_PHYS_REG := v)\<rparr>) = (user_of st)\<lparr>m_sp := v\<rparr>"
proof -
  let ?st = "st\<lparr>gprs := (gprs st)(REG_VIRT_STABLE_MAPPED_SP_PHYS_REG := v)\<rparr>"
  have "user_gpr ?st n = user_gpr st n" for n
    using not_stack_backed [of n] by (auto simp: user_gpr_def kdefs)
  moreover have "user_memory ?st = user_memory st" by (rule user_memory_cong) simp_all
  ultimately show ?thesis by (simp add: user_of_def fun_eq_iff)
qed

lemma user_of_fill: "maps_ok (rp_stack_backed p) \<Longrightarrow> user_of (fill_state st p) = user_of st"
  using user_of_scratch [of "filled st (filter sm_read (rp_stack_backed p)) (gprs st)" st]
    fill_state_direct [of p _ st] by (simp add: fill_state_def)

lemma user_of_flags: "user_of (st\<lparr>m_flags := fl\<rparr>) = (user_of st)\<lparr>m_flags := fl\<rparr>"
proof -
  have "user_gpr (st\<lparr>m_flags := fl\<rparr>) n = user_gpr st n" for n
    using slot_cong(3) [of "st\<lparr>m_flags := fl\<rparr>" st] by (simp add: user_gpr_def)
  moreover have "user_memory (st\<lparr>m_flags := fl\<rparr>) = user_memory st" by (rule user_memory_cong) simp_all
  ultimately show ?thesis by (simp add: user_of_def fun_eq_iff)
qed

definition leaves_user :: "rinsn list \<Rightarrow> access_ctx \<Rightarrow> machine \<Rightarrow> machine \<Rightarrow> bool" where
  "leaves_user ws cx st u \<longleftrightarrow> (\<exists>st'. run_words exec_word ws (cx, st) = Exit (Inr 0) (cx, st') \<and> slot_frame (cx, st') \<and> user_of st' = u)"

lemma guarded_dest:
  assumes "sp_write (Dp d) = SpwGuarded"
  shows "\<exists>r. map_of (dp_regs d) FRd = Some r \<and> classify_reg r = RcSp"
proof -
  have "writes_sp (Dp d)" using assms by (auto simp: sp_write_def split: if_splits)
  then obtain role where role: "role \<in> set (dp_roles d)"
    "case role of RegWrite f _ \<Rightarrow> (case get_reg (Dp d) f of None \<Rightarrow> False | Some r \<Rightarrow> classify_reg r = RcSp)
     | RegReadWrite f _ \<Rightarrow> (case get_reg (Dp d) f of None \<Rightarrow> False | Some r \<Rightarrow> classify_reg r = RcSp) | _ \<Rightarrow> False"
    by (auto simp: writes_sp_def list_ex_iff)
  from role(2) obtain f w rd r where "access_mode_from_role role = Some (f, w, rd, True)" "map_of (dp_regs d) f = Some r"
    "classify_reg r = RcSp"
    by (cases role; auto simp: get_reg_def split: option.splits)
  with dp_write_roles(1) [OF role(1)] show ?thesis by blast
qed

text \<open>The guard: the checked value goes to SP, or its low bits leave.\<close>

lemma guard_runs:
  assumes "sg_value g \<noteq> sg_check g"
    and range: "\<forall>s \<in> {sg_value g, sg_check g}. REG_VIRT_SCRATCH_GPR_START \<le> s \<and> s < REG_VIRT_SCRATCH_GPR_START + REG_VIRT_SCRATCH_GPR_LIMIT"
    and v: "gprs s (sg_value g) = v" and frame: "slot_frame (cx, s)"
  shows "v AND 15 \<noteq> 0 \<Longrightarrow> leaves_user (guard_check g pc @ [guard_commit g w]) cx s (user_of s)"
    "v AND 15 = 0 \<Longrightarrow> reaches_user (guard_check g pc @ [guard_commit g w]) cx s ((user_of s)\<lparr>m_sp := v\<rparr>)"
proof -
  let ?s1 = "s\<lparr>gprs := (gprs s)(sg_check g := v AND 15)\<rparr>"
  have n31: "sg_value g \<noteq> 31" "sg_check g \<noteq> 31" using range by (auto simp: kdefs)
  have check: "run_words exec_word (guard_check g pc @ [guard_commit g w]) (cx, s)
      = (if v AND 15 = 0 then Next (cx, ?s1\<lparr>gprs := (gprs ?s1)(REG_VIRT_STABLE_MAPPED_SP_PHYS_REG := v)\<rparr>)
         else Exit (Inr 0) (cx, ?s1))"
    using n31 assms(1) v
    by (simp add: guard_check_def guard_commit_def exec_and_15 exec_cbnz_stub exec_mov_reg read_reg_def write_reg_def
        reg_x_def reg_x_sp_def reg_new_def) (simp add: kdefs)
  have user: "user_of ?s1 = user_of s" by (rule user_of_scratch) (use range in \<open>auto simp: kdefs\<close>)
  have frames: "slot_frame (cx, ?s1)" "slot_frame (cx, ?s1\<lparr>gprs := (gprs ?s1)(REG_VIRT_STABLE_MAPPED_SP_PHYS_REG := v)\<rparr>)"
    by (subst slot_frame_cong [of _ s]; simp add: frame)+
  show "v AND 15 \<noteq> 0 \<Longrightarrow> leaves_user (guard_check g pc @ [guard_commit g w]) cx s (user_of s)"
    using check frames(1) user by (simp add: leaves_user_def)
  show "v AND 15 = 0 \<Longrightarrow> reaches_user (guard_check g pc @ [guard_commit g w]) cx s ((user_of s)\<lparr>m_sp := v\<rparr>)"
    using check frames(2) user_of_sp [of ?s1 v] user by (simp add: reaches_user_def)
qed

lemma dp_guarded:
  assumes "slot_frame (cx, st)" "rewrite_user_semantic w = Inr ws" "ri_insn w = Dp d" "regs_shaped (Dp d)"
    and "sp_write (Dp d) = SpwGuarded"
  shows "exec_dp d 0 (user_of st) = failing (user_of st) e \<Longrightarrow> run_words exec_word ws (cx, st) = Crash"
    "exec_dp d 0 (user_of st) = okay u \<Longrightarrow> m_sp u AND 15 \<noteq> 0 \<Longrightarrow> leaves_user ws cx st (u\<lparr>m_sp := m_sp (user_of st)\<rparr>)"
    "exec_dp d 0 (user_of st) = okay u \<Longrightarrow> m_sp u AND 15 = 0 \<Longrightarrow> reaches_user ws cx st u"
proof -
  from user_words [OF assms(2,3)] obtain p j where p: "build_plan (ri_pc w) (Dp d) = Inr p" "rewrite_insn p (Dp d) = Inr j"
    "ws = map (fill_word (ri_pc w)) (filter sm_read (rp_stack_backed p)) @ w\<lparr>ri_insn := j\<rparr>
        # (case rp_sp_guard p of None \<Rightarrow> [] | Some g \<Rightarrow> guard_check g (ri_pc w) @ [guard_commit g w])
        @ map (spill_word (ri_pc w)) (filter sm_write (rp_stack_backed p))" by blast
  note maps = dp_plan(1) [OF p(1)]
  from dp_plan(5) [OF p(1)] assms(5) obtain g where g: "rp_sp_guard p = Some g" "sg_value g \<noteq> sg_check g"
    "\<forall>s \<in> {sg_value g, sg_check g}. REG_VIRT_SCRATCH_GPR_START \<le> s \<and> s < REG_VIRT_SCRATCH_GPR_START + REG_VIRT_SCRATCH_GPR_LIMIT"
    by (cases "rp_sp_guard p") auto
  from guarded_dest [OF assms(5)] obtain r where r: "map_of (dp_regs d) FRd = Some r" "classify_reg r = RcSp" by blast
  have no_spill: "filter sm_write (rp_stack_backed p) = []"
    using spilled_dest [OF p(1)] r by (auto simp: filter_empty_conv)
  from mapped_word [OF p(1,2) assms(4), of st] obtain d' where d': "j = Dp d'"
    "\<forall>f r. map_of (dp_regs d) f = Some r \<longrightarrow> mapped_to (mapped_reg p (Dp d) f r) r (regs_of d' f)"
    "same_result (user_of st) (map_of (dp_regs d) FRd) (exec_dp d 0 (user_of st))
        (fill_state st p) (map_option (\<lambda>_. regs_of d' FRd) (map_of (dp_regs d) FRd)) (exec_dp d' 0 (fill_state st p))" by blast
  have "mapped_reg p (Dp d) FRd r = Some (reg_new (sg_value g) (width r) R31Xzr)"
    using r(2) g(1) dp_write_roles(2) [OF r(1)] by (simp add: mapped_reg_def)
  with d'(2) r(1) have rd: "enc (regs_of d' FRd) = sg_value g" by (metis mapped_to_simps(2) shaped_reg(4))
  have n31: "sg_value g \<noteq> 31" using g(3) by (auto simp: kdefs)
  have run: "run_words exec_word ws (cx, st) = (case exec_word (w\<lparr>ri_insn := Dp d'\<rparr>) (cx, fill_state st p) of
      Next s \<Rightarrow> run_words exec_word (guard_check g (ri_pc w) @ [guard_commit g w]) s
      | Exit x s \<Rightarrow> Exit x s | Crash \<Rightarrow> Crash)"
    using fills_run [OF assms(1) maps] by (simp add: p(3) g(1) d'(1) no_spill)
  show "exec_dp d 0 (user_of st) = failing (user_of st) e \<Longrightarrow> run_words exec_word ws (cx, st) = Crash"
    using d'(3) exec_dp_word(1) [of "w\<lparr>ri_insn := Dp d'\<rparr>" d'] by (auto simp: same_result_def run failing_def okay_def)
  have step: "\<exists>v s. u = (user_of s)\<lparr>m_sp := v\<rparr> \<and> m_sp (user_of s) = m_sp (user_of st) \<and> gprs s (sg_value g) = v
      \<and> slot_frame (cx, s) \<and> exec_word (w\<lparr>ri_insn := Dp d'\<rparr>) (cx, fill_state st p) = Next (cx, s)"
    if ok: "exec_dp d 0 (user_of st) = okay u"
  proof -
    from d'(3) ok r(1) obtain v fl where v: "u = write_reg r v ((user_of st)\<lparr>m_flags := fl\<rparr>)"
      "exec_dp d' 0 (fill_state st p) = okay (write_reg (regs_of d' FRd) v ((fill_state st p)\<lparr>m_flags := fl\<rparr>))"
      by (auto simp: same_result_def failing_def okay_def write_dest_def)
    let ?F = "(fill_state st p)\<lparr>m_flags := fl\<rparr>"
    let ?s = "?F\<lparr>gprs := (gprs ?F)(sg_value g := v)\<rparr>"
    have s: "write_reg (regs_of d' FRd) v ?F = ?s" using rd n31 by (simp add: write_reg_def)
    have "user_of ?s = user_of ?F" by (rule user_of_scratch) (use g(3) in \<open>auto simp: kdefs\<close>)
    also have "\<dots> = (user_of st)\<lparr>m_flags := fl\<rparr>" by (simp add: user_of_flags user_of_fill [OF maps])
    finally have user: "user_of ?s = (user_of st)\<lparr>m_flags := fl\<rparr>" .
    have "slot_frame (cx, ?s)" by (subst slot_frame_cong [of _ st]; simp add: assms(1))
    moreover have "u = (user_of ?s)\<lparr>m_sp := v\<rparr>"
      using v(1) classify_cases(2) [OF r(2)] unfolding user by (simp add: write_reg_def)
    moreover have "m_sp (user_of ?s) = m_sp (user_of st)" unfolding user by simp
    moreover have "exec_word (w\<lparr>ri_insn := Dp d'\<rparr>) (cx, fill_state st p) = Next (cx, ?s)"
      using exec_dp_word(2) [OF _ v(2), of "w\<lparr>ri_insn := Dp d'\<rparr>" cx] s by simp
    ultimately show ?thesis by (intro exI [of _ v] exI [of _ ?s]) simp
  qed
  show "leaves_user ws cx st (u\<lparr>m_sp := m_sp (user_of st)\<rparr>)" if ok: "exec_dp d 0 (user_of st) = okay u" "m_sp u AND 15 \<noteq> 0"
  proof -
    from step [OF ok(1)] obtain v s where s: "u = (user_of s)\<lparr>m_sp := v\<rparr>" "m_sp (user_of s) = m_sp (user_of st)"
      "gprs s (sg_value g) = v" "slot_frame (cx, s)" "exec_word (w\<lparr>ri_insn := Dp d'\<rparr>) (cx, fill_state st p) = Next (cx, s)" by blast
    have "u\<lparr>m_sp := m_sp (user_of st)\<rparr> = user_of s" unfolding s(2) [symmetric] by (simp add: s(1))
    with guard_runs(1) [OF g(2,3) s(3,4), of "ri_pc w" w] ok(2) show ?thesis by (simp add: leaves_user_def run s(1,5))
  qed
  show "reaches_user ws cx st u" if ok: "exec_dp d 0 (user_of st) = okay u" "m_sp u AND 15 = 0"
  proof -
    from step [OF ok(1)] obtain v s where s: "u = (user_of s)\<lparr>m_sp := v\<rparr>" "m_sp (user_of s) = m_sp (user_of st)"
      "gprs s (sg_value g) = v" "slot_frame (cx, s)" "exec_word (w\<lparr>ri_insn := Dp d'\<rparr>) (cx, fill_state st p) = Next (cx, s)" by blast
    with guard_runs(2) [OF g(2,3) s(3,4), of "ri_pc w" w] ok(2) show ?thesis by (simp add: reaches_user_def run s(1,5))
  qed
qed

subsection \<open>The property\<close>

fun names_pc :: "a64_dp \<Rightarrow> bool" where
  "names_pc (Adr _ _ _) = True"
| "names_pc (Adrp _ _ _) = True"
| "names_pc _ = False"

lemma exec_dp_pc: "\<not> names_pc d \<Longrightarrow> exec_dp d pc st = exec_dp d 0 st"
  by (cases d) simp_all

lemma exec_dp_result:
  "(\<exists>e. exec_dp d 0 s = failing s e) \<or> (\<exists>v fl. exec_dp d 0 s = okay (write_dest (map_of (dp_regs d) FRd) v (s\<lparr>m_flags := fl\<rparr>)))"
proof -
  have "\<forall>f \<in> dp_reads d. \<exists>r. map_of (dp_regs d) f = Some r \<and> read_reg s ((\<lambda>f. the (map_of (dp_regs d) f)) f) = read_reg s r"
    using dp_reads_defined [of _ d] by fastforce
  from dp_same_result [OF this refl, of 0] show ?thesis by (auto simp: same_result_def)
qed

text \<open>A form whose destination may be SP leaves the flags.\<close>

lemma sp_dest_flags:
  assumes "regs_shaped (Dp d)" "map_of (dp_regs d) FRd = Some r" "classify_reg r = RcSp" "exec_dp d 0 s = okay u"
  shows "m_flags u = m_flags s"
proof -
  have shaped: "dp_set d FRd (enc r) = Some d" using shaped_field [OF assms(1)] assms(2) by (simp add: get_reg_def)
  have sp: "reg31 r = R31Sp" using classify_cases(2) [OF assms(3)] by simp
  note shape = reg_of_shape dest_reg_def okay_def failing_def
  show ?thesis
  proof (cases d)
    case (AddSubImm op w sh i rn rd)
    with shaped assms(2) sp have "\<not> sets_flags op" by (auto simp: shape split: if_splits)
    with AddSubImm assms(4) show ?thesis
      by (cases op) (auto simp: exec_addsub_imm_def sets_flags_def add_sub_def write_reg_sized_def shape Let_def split: option.splits prod.splits)
  next
    case (AddSubExt op w rm x i rn rd)
    with shaped assms(2) sp have "\<not> sets_flags op" by (auto simp: shape split: if_splits)
    with AddSubExt assms(4) show ?thesis
      by (auto simp: add_sub_extended_def add_sub_def write_reg_sized_def shape Let_def split: sum.splits prod.splits)
  next
    case (LogImm op w n ri si rn rd)
    with shaped assms(2) sp have "op \<noteq> LiAnds" by (auto simp: shape split: if_splits)
    with LogImm assms(4) show ?thesis
      by (cases op) (auto simp: logical_imm_def logical_def write_reg_sized_def shape Let_def split: option.splits)
  qed (use shaped assms(2) sp in \<open>auto simp: shape split: if_splits\<close>)
qed

text \<open>
  C9: register virtualization is invisible to the user. Let the words of a data-processing instruction
  run where the slots lie in the frame. If the instruction, run on the machine the user sees, succeeds,
  the words end in a state whose user sees what the instruction made of it; if it is one the interpreter
  refuses, so are the words. A write of SP that is checked and would leave SP misaligned leaves at the
  check instead, with nothing the user sees changed.
\<close>

theorem dp_virtualized:
  assumes "slot_frame (cx, st)" "rewrite_user_semantic w = Inr ws" "ri_insn w = Dp d"
    and "decode_defined x = Some (Dp d)" "\<not> names_pc d"
  shows "case exec_dp d (ri_pc w) (user_of st) of
      (u, Inl _) \<Rightarrow> run_words exec_word ws (cx, st) = Crash
    | (u, Inr _) \<Rightarrow>
        if sp_write (Dp d) = SpwGuarded \<and> m_sp u AND 15 \<noteq> 0 then leaves_user ws cx st (user_of st)
        else reaches_user ws cx st u"
proof -
  note shaped = decode_defined_shaped [OF assms(4)]
  note un = dp_unguarded [OF assms(1-3) shaped] and gd = dp_guarded [OF assms(1-3) shaped]
  consider (fails) e where "exec_dp d 0 (user_of st) = failing (user_of st) e"
    | (ends) v fl where "exec_dp d 0 (user_of st) = okay (write_dest (map_of (dp_regs d) FRd) v ((user_of st)\<lparr>m_flags := fl\<rparr>))"
    using exec_dp_result by blast
  then show ?thesis
  proof cases
    case fails
    have "run_words exec_word ws (cx, st) = Crash"
    proof (cases "sp_write (Dp d) = SpwGuarded")
      case True
      then show ?thesis by (rule gd(1) [OF _ fails])
    next
      case False
      then show ?thesis by (rule un(1) [OF _ fails])
    qed
    with fails show ?thesis by (simp add: exec_dp_pc [OF assms(5), of "ri_pc w"] failing_def)
  next
    case ends
    define u where "u = write_dest (map_of (dp_regs d) FRd) v ((user_of st)\<lparr>m_flags := fl\<rparr>)"
    have ok: "exec_dp d 0 (user_of st) = okay u" unfolding u_def by (rule ends)
    have "leaves_user ws cx st (user_of st)" if g: "sp_write (Dp d) = SpwGuarded" "m_sp u AND 15 \<noteq> 0"
    proof -
      from guarded_dest [OF g(1)] obtain r where r: "map_of (dp_regs d) FRd = Some r" "classify_reg r = RcSp" by blast
      have "fl = m_flags (user_of st)" using sp_dest_flags [OF shaped r ok] r by (simp add: u_def write_dest_def)
      then have "u\<lparr>m_sp := m_sp (user_of st)\<rparr> = user_of st"
        using classify_cases(2) [OF r(2)] r(1) by (simp add: u_def write_dest_def write_reg_def)
      with gd(2) [OF g(1) ok g(2)] show ?thesis by simp
    qed
    moreover have "reaches_user ws cx st u" if "\<not> (sp_write (Dp d) = SpwGuarded \<and> m_sp u AND 15 \<noteq> 0)"
    proof (cases "sp_write (Dp d) = SpwGuarded")
      case True
      with that show ?thesis by (intro gd(3) [OF True ok]) simp
    next
      case False
      then show ?thesis by (rule un(2) [OF _ ok])
    qed
    ultimately show ?thesis using ok by (simp add: exec_dp_pc [OF assms(5), of "ri_pc w"] okay_def)
  qed
qed

text \<open>\<open>add x12, x13, #16\<close>: both registers are in slots.\<close>

definition virt_demo :: a64_dp where
  "virt_demo = AddSubImm AsAdd X64 0 (uimm 10 12 0x910041AC) (reg_x_sp 13) (reg_x_sp 12)"

definition virt_demo_words :: "rinsn list" where
  "virt_demo_words =
    [rword KRegVirtHelper 0x1000 (slot_load 12 24),
     rword KOriginal 0x1000 (Dp (AddSubImm AsAdd X64 0 (uimm 10 12 0x910041AC) (reg_x_sp 12) (reg_x_sp 13))),
     rword KRegVirtHelper 0x1000 (slot_store 13 16)]"

lemma virt_demo_rewritten: "rewrite_user_semantic (rword KOriginal 0x1000 (Dp virt_demo)) = Inr virt_demo_words"
  by code_simp

lemma virt_demo_decoded: "decode_defined 0x910041AC = Some (Dp virt_demo)"
  by code_simp

theorem dp_virtualized_witness:
  "\<exists>u. exec_dp virt_demo 0x1000 (user_of slot_demo) = okay u \<and> gprs u 12 = slot_value slot_demo 1 + 16
    \<and> reaches_user virt_demo_words slot_demo_ctx slot_demo u"
proof -
  have imm: "add_sub_imm 0 (uimm 10 12 0x910041AC) = Some 16" by code_simp
  have x13: "user_gpr slot_demo 13 = slot_value slot_demo 1"
    by (simp add: user_gpr_def slot_of_def reg_virt_is_stack_backed_def kdefs)
  have ex: "exec_dp virt_demo 0x1000 (user_of slot_demo) = okay (write_reg (reg_x_sp 12) (slot_value slot_demo 1 + 16) (user_of slot_demo))"
    by (simp add: virt_demo_def exec_addsub_imm_def imm Let_def write_reg_sized_def read_reg_sized_def bits_64
        read_reg_def reg_x_sp_def reg_new_def x13 width_mask_64)
  have "\<not> sp_write (Dp virt_demo) = SpwGuarded" by code_simp
  with dp_virtualized [OF slot_demo_frame virt_demo_rewritten _ virt_demo_decoded] ex
  have "reaches_user virt_demo_words slot_demo_ctx slot_demo (write_reg (reg_x_sp 12) (slot_value slot_demo 1 + 16) (user_of slot_demo))"
    by (simp add: okay_def) (simp add: virt_demo_def)
  with ex show ?thesis by (intro exI conjI) (simp_all add: write_reg_def reg_x_sp_def reg_new_def)
qed

end
