(* ===== verification/RtStats.thy ===== *)
theory RtStats
  imports KPrelude
begin

section \<open>The runtime's counters\<close>

text \<open>
  Models \<open>runtime/stats.rs\<close>: the counters (\<open>Stat\<close>, by the index \<open>stat as usize\<close> they are used with), the
  tally of one hook call and what its flush hands to the glue, and the histogram of unsupported words, an
  open-addressing table whose keys are claimed once. A fixed-size array is a function of its index; every
  atomic operation is one step.
\<close>

named_theorems stat_defs \<open>the counters\<close>

type_synonym stat = nat

subsection \<open>Counters\<close>

definition SyscallsInKernel :: stat where [stat_defs]: "SyscallsInKernel = 0"
definition FragmentEntries :: stat where [stat_defs]: "FragmentEntries = 1"
definition Chains :: stat where [stat_defs]: "Chains = 2"
definition ChainCap :: stat where [stat_defs]: "ChainCap = 3"
definition RunDeclined :: stat where [stat_defs]: "RunDeclined = 4"
definition ExitSvc :: stat where [stat_defs]: "ExitSvc = 5"
definition ExitBl :: stat where [stat_defs]: "ExitBl = 6"
definition ExitBlr :: stat where [stat_defs]: "ExitBlr = 7"
definition ExitBr :: stat where [stat_defs]: "ExitBr = 8"
definition ExitRet :: stat where [stat_defs]: "ExitRet = 9"
definition ExitMem :: stat where [stat_defs]: "ExitMem = 10"
definition ExitUnsupported :: stat where [stat_defs]: "ExitUnsupported = 11"
definition ExitBudget :: stat where [stat_defs]: "ExitBudget = 12"
definition ExitInvalid :: stat where [stat_defs]: "ExitInvalid = 13"
definition SvcDeclined :: stat where [stat_defs]: "SvcDeclined = 14"
definition TranslateOk :: stat where [stat_defs]: "TranslateOk = 15"
definition TranslateExists :: stat where [stat_defs]: "TranslateExists = 16"
definition TranslateTextUnreadable :: stat where [stat_defs]: "TranslateTextUnreadable = 17"
definition TranslateEntryUnsupported :: stat where [stat_defs]: "TranslateEntryUnsupported = 18"
definition TranslateCompileFailed :: stat where [stat_defs]: "TranslateCompileFailed = 19"
definition TranslateEncodeFailed :: stat where [stat_defs]: "TranslateEncodeFailed = 20"
definition TranslateVerifyRejected :: stat where [stat_defs]: "TranslateVerifyRejected = 21"
definition TranslateVerifyFallsOffEnd :: stat where [stat_defs]: "TranslateVerifyFallsOffEnd = 22"
definition TranslateRaced :: stat where [stat_defs]: "TranslateRaced = 23"
definition TranslateCapped :: stat where [stat_defs]: "TranslateCapped = 24"
definition TranslateInstallFailed :: stat where [stat_defs]: "TranslateInstallFailed = 25"
definition Invalidated :: stat where [stat_defs]: "Invalidated = 26"
definition Released :: stat where [stat_defs]: "Released = 27"
definition SvcSitesScanned :: stat where [stat_defs]: "SvcSitesScanned = 28"
definition MmCreated :: stat where [stat_defs]: "MmCreated = 29"
definition MmSetupFailed :: stat where [stat_defs]: "MmSetupFailed = 30"
definition ProfFull :: stat where [stat_defs]: "ProfFull = 31"
definition HotNegative :: stat where [stat_defs]: "HotNegative = 32"
definition HotCapped :: stat where [stat_defs]: "HotCapped = 33"
definition HotQueueFull :: stat where [stat_defs]: "HotQueueFull = 34"
definition ReqSvcResume :: stat where [stat_defs]: "ReqSvcResume = 35"
definition ReqExitTarget :: stat where [stat_defs]: "ReqExitTarget = 36"
definition ReqDropped :: stat where [stat_defs]: "ReqDropped = 37"
definition ReqStale :: stat where [stat_defs]: "ReqStale = 38"
definition NegAdded :: stat where [stat_defs]: "NegAdded = 39"
definition NegEvicted :: stat where [stat_defs]: "NegEvicted = 40"
definition TranslateNs :: stat where [stat_defs]: "TranslateNs = 41"
definition UnsupportedTopDropped :: stat where [stat_defs]: "UnsupportedTopDropped = 42"
definition UnsupportedBadWord :: stat where [stat_defs]: "UnsupportedBadWord = 43"
definition FpsimdEntries :: stat where [stat_defs]: "FpsimdEntries = 44"
definition FpsimdPreempted :: stat where [stat_defs]: "FpsimdPreempted = 45"
definition FpsimdExitMem :: stat where [stat_defs]: "FpsimdExitMem = 46"
definition FpsimdRefusedSveSme :: stat where [stat_defs]: "FpsimdRefusedSveSme = 47"
definition FpsimdTrapDeclined :: stat where [stat_defs]: "FpsimdTrapDeclined = 48"
definition IbtcInsert :: stat where [stat_defs]: "IbtcInsert = 49"
definition IbtcReplace :: stat where [stat_defs]: "IbtcReplace = 50"
definition IbtcClear :: stat where [stat_defs]: "IbtcClear = 51"
definition IbtcFpsimdBoundary :: stat where [stat_defs]: "IbtcFpsimdBoundary = 52"
definition IbtcMissCold :: stat where [stat_defs]: "IbtcMissCold = 53"
definition IbtcMissConflict :: stat where [stat_defs]: "IbtcMissConflict = 54"
definition IbtcMissOther :: stat where [stat_defs]: "IbtcMissOther = 55"
definition LinkMade :: stat where [stat_defs]: "LinkMade = 56"
definition LinkRestored :: stat where [stat_defs]: "LinkRestored = 57"
definition LinkOutOfRange :: stat where [stat_defs]: "LinkOutOfRange = 58"
definition LinkClassRefused :: stat where [stat_defs]: "LinkClassRefused = 59"
definition FpStickySet :: stat where [stat_defs]: "FpStickySet = 60"

definition STAT_COUNT :: nat where [kdefs]: "STAT_COUNT = Suc FpStickySet"

definition stat_names :: "string list" where
  "stat_names = [
    ''syscalls_in_kernel'', ''fragment_entries'', ''chains'', ''chain_cap'', ''run_declined'',
    ''exit_svc'', ''exit_bl'', ''exit_blr'', ''exit_br'', ''exit_ret'', ''exit_mem'',
    ''exit_unsupported'', ''exit_budget'', ''exit_invalid'', ''svc_declined'', ''translate_ok'',
    ''translate_exists'', ''translate_text_unreadable'', ''translate_entry_unsupported'',
    ''translate_compile_failed'', ''translate_encode_failed'', ''translate_verify_rejected'',
    ''translate_verify_falls_off_end'', ''translate_raced'', ''translate_capped'',
    ''translate_install_failed'', ''invalidated_fragments'', ''released_fragments'',
    ''svc_sites_scanned'', ''auto_mm_created'', ''auto_mm_setup_failed'', ''auto_prof_full'',
    ''auto_hot_negative'', ''auto_hot_capped'', ''auto_hot_queue_full'', ''auto_req_svc_resume'',
    ''auto_req_exit_target'', ''auto_req_dropped'', ''auto_req_stale'', ''auto_neg_added'',
    ''auto_neg_evicted'', ''auto_translate_ns'', ''unsupported_top_dropped'', ''unsupported_bad_word'',
    ''fpsimd_entries'', ''fpsimd_preempted'', ''fpsimd_exit_mem'', ''fpsimd_refused_sve_sme'',
    ''fpsimd_trap_declined'', ''ibtc_insert'', ''ibtc_replace'', ''ibtc_clear'',
    ''ibtc_fpsimd_boundary'', ''ibtc_miss_cold'', ''ibtc_miss_conflict'', ''ibtc_miss_other'',
    ''link_made'', ''link_restored'', ''link_out_of_range'', ''link_class_refused'', ''fp_sticky_set'']"

lemma stat_names_length: "length stat_names = STAT_COUNT"
  by (simp add: stat_names_def STAT_COUNT_def stat_defs)

definition CHAIN_BUCKETS :: nat where [kdefs]: "CHAIN_BUCKETS = 32"

subsection \<open>The tally of a hook call\<close>

text \<open>\<open>chain\<close> is a \<open>NonZeroU32\<close>.\<close>

record tally =
  ta_counts :: "stat \<Rightarrow> u64"
  ta_touched :: u64
  ta_chain :: "nat option"

definition new_tally :: tally where
  "new_tally = \<lparr>ta_counts = (\<lambda>_. 0), ta_touched = 0, ta_chain = None\<rparr>"

definition tally_inc :: "stat \<Rightarrow> tally \<Rightarrow> tally" where
  "tally_inc s t = t\<lparr>ta_counts := (ta_counts t)(s := ta_counts t s + 1), ta_touched := ta_touched t OR push_bit s 1\<rparr>"

definition note_chain :: "nat \<Rightarrow> tally \<Rightarrow> tally" where
  "note_chain entries t = t\<lparr>ta_chain := Some entries\<rparr>"

definition ilog2 :: "nat \<Rightarrow> nat" where
  "ilog2 n = (if n = 0 then 0 else length (takeWhile (\<lambda>b. 2 ^ b \<le> n) [0..<32]) - 1)"

text \<open>The arguments of the one FFI call, if there is one: counts, touched, entries, bucket.\<close>

definition tally_flush :: "tally \<Rightarrow> ((stat \<Rightarrow> u64) \<times> u64 \<times> nat \<times> nat) option" where
  "tally_flush t =
    (if ta_touched t = 0 \<and> ta_chain t = None then None
     else Some (case ta_chain t of
         Some entries \<Rightarrow> (ta_counts t, ta_touched t, entries, ilog2 entries)
       | None \<Rightarrow> (ta_counts t, ta_touched t, 0, 0)))"

text \<open>What \<open>kjit_hot_flush\<close> is documented to do with the counts: the touched ones are added.\<close>

definition hot_flush :: "(stat \<Rightarrow> u64) \<times> u64 \<times> nat \<times> nat \<Rightarrow> (stat \<Rightarrow> u64) \<Rightarrow> stat \<Rightarrow> u64" where
  "hot_flush args c s = (case args of (counts, touched, _) \<Rightarrow> if bit touched s then c s + counts s else c s)"

text \<open>A count is touched before it is not zero; then a flush adds every count, also when it makes no call.\<close>

definition tally_wf :: "tally \<Rightarrow> bool" where
  "tally_wf t \<longleftrightarrow> (\<forall>s < 64. ta_counts t s \<noteq> 0 \<longrightarrow> bit (ta_touched t) s)"

lemma tally_inc_simps [simp]:
  "ta_counts (tally_inc s t) = (ta_counts t)(s := ta_counts t s + 1)" "ta_chain (tally_inc s t) = ta_chain t"
  "k < 64 \<Longrightarrow> bit (ta_touched (tally_inc s t)) k \<longleftrightarrow> k = s \<or> bit (ta_touched t) k"
  by (auto simp: tally_inc_def bit_simps)

lemma tally_wf_simps [simp]:
  "tally_wf new_tally" "tally_wf t \<Longrightarrow> tally_wf (tally_inc s t)" "tally_wf (note_chain n t) \<longleftrightarrow> tally_wf t"
  by (simp_all add: tally_wf_def new_tally_def note_chain_def)

lemma note_chain_simps [simp]: "ta_counts (note_chain n t) = ta_counts t" "ta_chain (note_chain n t) = Some n"
  by (simp_all add: note_chain_def)

definition flushed :: "tally \<Rightarrow> (stat \<Rightarrow> u64) \<Rightarrow> stat \<Rightarrow> u64" where
  "flushed t c = (case tally_flush t of None \<Rightarrow> c | Some args \<Rightarrow> hot_flush args c)"

lemma flush_adds_all:
  assumes "tally_wf t" "s < STAT_COUNT"
  shows "flushed t c s = c s + ta_counts t s"
proof -
  have "s < 64" using assms(2) by (simp add: STAT_COUNT_def stat_defs)
  then have "ta_counts t s = 0 \<or> bit (ta_touched t) s" using assms(1) by (auto simp: tally_wf_def)
  then show ?thesis
    by (auto simp: flushed_def tally_flush_def hot_flush_def split: option.splits)
qed

subsection \<open>Notes of the glue\<close>

definition note_stats :: "stat list" where
  "note_stats = [Invalidated, Released, SvcSitesScanned, MmCreated, MmSetupFailed, ProfFull, HotNegative, HotCapped,
     HotQueueFull, ReqSvcResume, ReqExitTarget, ReqDropped, ReqStale, NegAdded, NegEvicted, TranslateNs, FpsimdPreempted,
     IbtcInsert, IbtcReplace, IbtcClear, LinkMade, LinkRestored, LinkOutOfRange, LinkClassRefused]"

definition note_stat :: "u32 \<Rightarrow> stat option" where
  "note_stat note = (if unat note < length note_stats then Some (note_stats ! unat note) else None)"

definition add_stat :: "stat \<Rightarrow> u64 \<Rightarrow> (stat \<Rightarrow> u64) \<Rightarrow> stat \<Rightarrow> u64" where
  "add_stat s n g = g(s := g s + n)"

definition rs_note :: "u32 \<Rightarrow> u64 \<Rightarrow> (stat \<Rightarrow> u64) \<Rightarrow> stat \<Rightarrow> u64" where
  "rs_note note n g = (case note_stat note of Some s \<Rightarrow> add_stat s n g | None \<Rightarrow> g)"

subsection \<open>The histogram of unsupported words\<close>

definition UNSUPPORTED_SLOTS :: nat where [kdefs]: "UNSUPPORTED_SLOTS = 1024"
definition UNSUPPORTED_PROBE :: nat where [kdefs]: "UNSUPPORTED_PROBE = 16"
definition WORD_TAG :: u64 where [kdefs]: "WORD_TAG = push_bit 63 1"
definition UNREADABLE_WORD :: u64 where [kdefs]: "UNREADABLE_WORD = 0xFFFFFFFFFFFFFFFF"

record word_table =
  wt_keys :: "nat \<Rightarrow> u64"
  wt_exits :: "nat \<Rightarrow> u64"
  wt_stops :: "nat \<Rightarrow> u64"
  wt_stats :: "stat \<Rightarrow> u64"

definition empty_words :: word_table where
  "empty_words = \<lparr>wt_keys = (\<lambda>_. 0), wt_exits = (\<lambda>_. 0), wt_stops = (\<lambda>_. 0), wt_stats = (\<lambda>_. 0)\<rparr>"

definition word_key :: "u64 \<Rightarrow> u64 option" where
  "word_key w =
    (if w = UNREADABLE_WORD then Some w
     else if w \<le> 0xFFFFFFFF then Some (w OR WORD_TAG) else None)"

definition word_hash :: "u64 \<Rightarrow> nat" where
  "word_hash w = unat (drop_bit 54 (w * 0x9e3779b97f4a7c15))"

definition probe_slots :: "u64 \<Rightarrow> nat list" where
  "probe_slots w = map (\<lambda>i. (word_hash w + i) mod UNSUPPORTED_SLOTS) [0..<UNSUPPORTED_PROBE]"

text \<open>The first slot of the list that is the key's, or free and then claimed.\<close>

fun claim_slot :: "u64 \<Rightarrow> (nat \<Rightarrow> u64) \<Rightarrow> nat list \<Rightarrow> (nat \<times> (nat \<Rightarrow> u64)) option" where
  "claim_slot key keys [] = None"
| "claim_slot key keys (slot # slots) =
    (if keys slot = key then Some (slot, keys)
     else if keys slot = 0 then Some (slot, keys(slot := key))
     else claim_slot key keys slots)"

definition note_unsupported_word :: "bool \<Rightarrow> u64 \<Rightarrow> word_table \<Rightarrow> word_table" where
  "note_unsupported_word stop w t =
    (case word_key w of
       None \<Rightarrow> t\<lparr>wt_stats := add_stat UnsupportedBadWord 1 (wt_stats t)\<rparr>
     | Some key \<Rightarrow>
         (case claim_slot key (wt_keys t) (probe_slots w) of
            None \<Rightarrow> t\<lparr>wt_stats := add_stat UnsupportedTopDropped 1 (wt_stats t)\<rparr>
          | Some (slot, keys) \<Rightarrow>
              if stop then t\<lparr>wt_keys := keys, wt_stops := (wt_stops t)(slot := wt_stops t slot + 1)\<rparr>
              else t\<lparr>wt_keys := keys, wt_exits := (wt_exits t)(slot := wt_exits t slot + 1)\<rparr>))"

definition note_unsupported :: "u64 \<Rightarrow> word_table \<Rightarrow> word_table" where
  "note_unsupported = note_unsupported_word False"

definition note_entry_stop :: "u32 \<Rightarrow> word_table \<Rightarrow> word_table" where
  "note_entry_stop w = note_unsupported_word True (ucast w)"

section \<open>The histogram counts each word for itself\<close>

lemma small_word:
  assumes "w \<le> (0xFFFFFFFF :: u64)"
  shows "take_bit 32 w = w" "take_bit 32 (w OR WORD_TAG) = w" "\<not> bit w 40"
proof -
  have "unat w < 2 ^ 32" using assms by (simp add: word_le_nat_alt)
  then show t: "take_bit 32 w = w" by (metis take_bit_nat_eq_self unsigned_take_bit_eq word_unat_eq_iff)
  have "take_bit 32 (w OR WORD_TAG) = take_bit 32 w"
    by (rule bit_eqI) (auto simp: bit_simps WORD_TAG_def)
  with t show "take_bit 32 (w OR WORD_TAG) = w" by simp
  have "\<not> bit (take_bit 32 w) 40" by (simp add: bit_take_bit_iff)
  then show "\<not> bit w 40" by (simp only: t not_False_eq_True)
qed

lemma word_key_inj: "word_key w = Some k \<Longrightarrow> word_key w' = Some k \<Longrightarrow> w' = w"
proof -
  have max: "w OR WORD_TAG \<noteq> UNREADABLE_WORD" if "w \<le> 0xFFFFFFFF" for w
  proof
    assume "w OR WORD_TAG = UNREADABLE_WORD"
    then have "bit (w OR WORD_TAG) 40" by (simp add: UNREADABLE_WORD_def)
    then have "bit w 40" by (simp add: bit_simps WORD_TAG_def)
    with small_word(3) [OF that] show False by simp
  qed
  have tag: "w' = w" if "w' OR WORD_TAG = w OR WORD_TAG" "w \<le> 0xFFFFFFFF" "w' \<le> 0xFFFFFFFF" for w w'
    using small_word(2) [OF that(2)] small_word(2) [OF that(3)] that(1) by simp
  show "word_key w = Some k \<Longrightarrow> word_key w' = Some k \<Longrightarrow> w' = w"
    using max [of w] max [of w'] tag [of w' w] by (auto simp: word_key_def split: if_splits)
qed

lemma word_key_nonzero: "word_key w = Some k \<Longrightarrow> k \<noteq> 0"
proof -
  have "bit (w OR WORD_TAG) 63" by (simp add: bit_simps WORD_TAG_def)
  then show "word_key w = Some k \<Longrightarrow> k \<noteq> 0"
    by (auto simp: word_key_def UNREADABLE_WORD_def split: if_splits)
qed

lemma claim_slot_None: "claim_slot key keys ss = None \<Longrightarrow> s \<in> set ss \<Longrightarrow> keys s \<noteq> key \<and> keys s \<noteq> 0"
  by (induction ss) (auto split: if_splits)

lemma claim_slot_Some:
  "claim_slot key keys ss = Some (s, keys') \<Longrightarrow>
    \<exists>ps qs. ss = ps @ s # qs \<and> (\<forall>p \<in> set ps. keys p \<noteq> key \<and> keys p \<noteq> 0) \<and> (keys s = key \<or> keys s = 0) \<and> keys' = keys(s := key)"
proof (induction ss)
  case (Cons a ss)
  show ?case
  proof (cases "keys a = key \<or> keys a = 0")
    case True
    with Cons.prems show ?thesis by (intro exI [of _ "[]"] exI [of _ ss]) (auto split: if_splits)
  next
    case False
    with Cons.prems have "claim_slot key keys ss = Some (s, keys')" by simp
    from Cons.IH [OF this] obtain ps qs where "ss = ps @ s # qs" "\<forall>p \<in> set ps. keys p \<noteq> key \<and> keys p \<noteq> 0"
      "keys s = key \<or> keys s = 0" "keys' = keys(s := key)" by blast
    with False show ?thesis by (intro exI [of _ "a # ps"] exI [of _ qs]) auto
  qed
qed simp

text \<open>The cells of the two histograms.\<close>

definition cell :: "bool \<Rightarrow> nat \<Rightarrow> word_table \<Rightarrow> u64" where
  "cell stop k t = (if stop then wt_stops t k else wt_exits t k)"

definition note_words :: "(bool \<times> u64) list \<Rightarrow> word_table" where
  "note_words ns = fold (\<lambda>(stop, w). note_unsupported_word stop w) ns empty_words"

text \<open>The owner of a slot, with the slots before it in its word's order already taken by others.\<close>

definition owns :: "(nat \<Rightarrow> u64) \<Rightarrow> nat \<Rightarrow> u64 \<Rightarrow> bool" where
  "owns keys k w \<longleftrightarrow> word_key w = Some (keys k)
    \<and> (\<exists>ps qs. probe_slots w = ps @ k # qs \<and> (\<forall>p \<in> set ps. keys p \<noteq> 0 \<and> keys p \<noteq> keys k))"

definition words_inv :: "(bool \<times> u64) list \<Rightarrow> word_table \<Rightarrow> bool" where
  "words_inv ns t \<longleftrightarrow>
    (\<forall>k. wt_keys t k \<noteq> 0 \<longrightarrow> (\<exists>w. owns (wt_keys t) k w \<and> (\<forall>stop. cell stop k t = of_nat (count_list ns (stop, w)))))
    \<and> (\<forall>k. wt_keys t k = 0 \<longrightarrow> (\<forall>stop. cell stop k t = 0))
    \<and> (\<forall>w key stop. word_key w = Some key \<longrightarrow> (stop, w) \<in> set ns \<longrightarrow> (\<forall>k. wt_keys t k \<noteq> key) \<longrightarrow>
        (\<forall>p \<in> set (probe_slots w). wt_keys t p \<noteq> 0))"

lemma owned_once:
  assumes "owns keys k w" "word_key w = Some key" "probe_slots w = ps @ s # qs" "\<forall>p \<in> set ps. keys p \<noteq> key"
    and "keys s = key \<or> keys s = 0"
  shows "k = s"
proof -
  from assms(1,2) obtain ps' qs' where k: "keys k = key" "probe_slots w = ps' @ k # qs'"
    "\<forall>p \<in> set ps'. keys p \<noteq> 0 \<and> keys p \<noteq> key" by (auto simp: owns_def)
  show ?thesis
  proof (rule ccontr)
    assume "k \<noteq> s"
    with k(2) assms(3) have "k \<in> set ps \<or> s \<in> set ps'"
      by (auto simp: append_eq_append_conv2 append_eq_Cons_conv Cons_eq_append_conv)
    with k(1,3) assms(4,5) show False by auto
  qed
qed

lemma words_full:
  "words_inv ns t \<Longrightarrow> word_key w = Some key \<Longrightarrow> (s, w) \<in> set ns \<Longrightarrow> \<forall>k. wt_keys t k \<noteq> key \<Longrightarrow>
    p \<in> set (probe_slots w) \<Longrightarrow> wt_keys t p \<noteq> 0"
  unfolding words_inv_def by blast

lemma words_same:
  assumes "words_inv ns t" "wt_keys t' = wt_keys t" "\<And>s k. cell s k t' = cell s k t"
    and "\<And>k. \<not> owns (wt_keys t) k w" "\<And>key p. word_key w = Some key \<Longrightarrow> p \<in> set (probe_slots w) \<Longrightarrow> wt_keys t p \<noteq> 0"
  shows "words_inv (ns @ [(stop, w)]) t'"
  unfolding words_inv_def assms(2,3)
proof (intro conjI allI impI)
  fix k assume "wt_keys t k \<noteq> 0"
  then obtain w' where w': "owns (wt_keys t) k w'" "\<forall>s. cell s k t = of_nat (count_list ns (s, w'))"
    using assms(1) by (auto simp: words_inv_def)
  moreover have "w' \<noteq> w" using w'(1) assms(4) by auto
  ultimately show "\<exists>w'. owns (wt_keys t) k w' \<and> (\<forall>s. cell s k t = of_nat (count_list (ns @ [(stop, w)]) (s, w')))"
    by (intro exI [of _ w']) auto
next
  show "cell s k t = 0" if "wt_keys t k = 0" for k s using assms(1) that by (simp add: words_inv_def)
next
  fix w' key' s
  assume h: "word_key w' = Some key'" "(s, w') \<in> set (ns @ [(stop, w)])" "\<forall>k. wt_keys t k \<noteq> key'"
  show "\<forall>p \<in> set (probe_slots w'). wt_keys t p \<noteq> 0"
  proof (cases "w' = w")
    case True
    then show ?thesis using assms(5) h(1) by blast
  next
    case False
    with h(2) have "(s, w') \<in> set ns" by simp
    with words_full [OF assms(1) h(1) _ h(3)] show ?thesis by blast
  qed
qed

lemma words_step:
  assumes "words_inv ns t"
  shows "words_inv (ns @ [(stop, w)]) (note_unsupported_word stop w t)"
proof (cases "word_key w")
  case None
  show ?thesis
    by (rule words_same [OF assms]) (use None in \<open>simp_all add: note_unsupported_word_def cell_def owns_def\<close>)
next
  case (Some key)
  note own = word_key_inj [OF Some]
  show ?thesis
  proof (cases "claim_slot key (wt_keys t) (probe_slots w)")
    case None
    note full = claim_slot_None [OF None]
    have other: "\<not> owns (wt_keys t) k w" for k
      using full [of k] \<open>word_key w = Some key\<close> by (auto simp: owns_def)
    show ?thesis
      by (rule words_same [OF assms _ _ other]) (use None full \<open>word_key w = Some key\<close> in \<open>auto simp: note_unsupported_word_def cell_def\<close>)
  next
    case (Some r)
    obtain k keys' where r: "r = (k, keys')" by (cases r)
    from claim_slot_Some [OF Some [unfolded r]] obtain ps qs where cl: "probe_slots w = ps @ k # qs"
      "\<forall>p \<in> set ps. wt_keys t p \<noteq> key \<and> wt_keys t p \<noteq> 0" "wt_keys t k = key \<or> wt_keys t k = 0"
      "keys' = (wt_keys t)(k := key)" by blast
    have nz: "key \<noteq> 0" by (rule word_key_nonzero [OF \<open>word_key w = Some key\<close>])
    have once: "j = k" if "owns (wt_keys t) j w" for j
      by (rule owned_once [OF that \<open>word_key w = Some key\<close> cl(1)]) (use cl(2,3) in blast)+
    have t': "wt_keys (note_unsupported_word stop w t) = (wt_keys t)(k := key)"
      "\<And>s j. cell s j (note_unsupported_word stop w t) = (if s = stop \<and> j = k then cell s j t + 1 else cell s j t)"
      using Some r cl(4) by (simp_all add: note_unsupported_word_def \<open>word_key w = Some key\<close> cell_def)
    have old: "\<forall>s. cell s k t = of_nat (count_list ns (s, w))"
    proof (cases "wt_keys t k = 0")
      case True
      have "\<forall>j. wt_keys t j \<noteq> key"
      proof (intro allI notI)
        fix j assume j: "wt_keys t j = key"
        with nz assms obtain w' where "owns (wt_keys t) j w'" by (auto simp: words_inv_def)
        moreover then have "w' = w" using j own by (auto simp: owns_def)
        ultimately have "j = k" using once by blast
        with j True nz show False by simp
      qed
      then have "(s, w) \<notin> set ns" for s
        using words_full [OF assms \<open>word_key w = Some key\<close>, of s k] True cl(1) by auto
      with assms True show ?thesis by (simp add: words_inv_def)
    next
      case False
      with assms obtain w' where w': "owns (wt_keys t) k w'" "\<forall>s. cell s k t = of_nat (count_list ns (s, w'))"
        by (auto simp: words_inv_def)
      with False cl(3) own have "w' = w" by (auto simp: owns_def)
      with w' show ?thesis by simp
    qed
    have keep: "owns ((wt_keys t)(k := key)) j w'" if "owns (wt_keys t) j w'" "j \<noteq> k" "w' \<noteq> w" for j w'
    proof -
      have "wt_keys t j \<noteq> key" using that(1,3) own by (auto simp: owns_def)
      with that show ?thesis using nz by (auto simp: owns_def)
    qed
    have mine: "owns ((wt_keys t)(k := key)) k w"
    proof -
      have "\<forall>p \<in> set ps. p \<noteq> k" using cl(2,3) by blast
      with cl(1,2) \<open>word_key w = Some key\<close> show ?thesis
        unfolding owns_def by (intro conjI exI [of _ ps] exI [of _ qs]) auto
    qed
    show ?thesis unfolding words_inv_def t'
    proof (intro conjI allI impI)
      fix j assume j: "((wt_keys t)(k := key)) j \<noteq> 0"
      show "\<exists>w'. owns ((wt_keys t)(k := key)) j w'
        \<and> (\<forall>s. (if s = stop \<and> j = k then cell s j t + 1 else cell s j t) = of_nat (count_list (ns @ [(stop, w)]) (s, w')))"
      proof (cases "j = k")
        case True
        with mine old show ?thesis by (intro exI [of _ w]) auto
      next
        case False
        with j assms obtain w' where w': "owns (wt_keys t) j w'" "\<forall>s. cell s j t = of_nat (count_list ns (s, w'))"
          by (auto simp: words_inv_def)
        then have "w' \<noteq> w" using once False by blast
        with keep [OF w'(1) False] w'(2) False show ?thesis by (intro exI [of _ w']) auto
      qed
    next
      show "(if s = stop \<and> j = k then cell s j t + 1 else cell s j t) = 0" if "((wt_keys t)(k := key)) j = 0" for j s
        using assms that nz by (auto simp: words_inv_def split: if_splits)
    next
      fix w' key' s
      assume h: "word_key w' = Some key'" "(s, w') \<in> set (ns @ [(stop, w)])" "\<forall>j. ((wt_keys t)(k := key)) j \<noteq> key'"
      from h(3) have "key' \<noteq> key" by (metis fun_upd_same)
      then have "w' \<noteq> w" using h(1) \<open>word_key w = Some key\<close> by auto
      moreover have "\<forall>j. wt_keys t j \<noteq> key'"
      proof (intro allI notI)
        fix j assume j: "wt_keys t j = key'"
        with h(3) have "j = k" by (metis fun_upd_other)
        with j cl(3) \<open>key' \<noteq> key\<close> word_key_nonzero [OF h(1)] show False by auto
      qed
      ultimately have "\<forall>p \<in> set (probe_slots w'). wt_keys t p \<noteq> 0"
        using words_full [OF assms h(1)] h(2) by auto
      with nz show "\<forall>p \<in> set (probe_slots w'). ((wt_keys t)(k := key)) p \<noteq> 0" by auto
    qed
  qed
qed

lemma words_inv_all: "words_inv ns (note_words ns)"
proof (induction ns rule: rev_induct)
  case Nil
  show ?case by (simp add: words_inv_def note_words_def empty_words_def cell_def)
next
  case (snoc n ns)
  with words_step [of ns "note_words ns" "fst n" "snd n"] show ?case
    by (simp add: note_words_def split_def)
qed

text \<open>
  C40: the histogram of unsupported words never counts one word for another. After any notes, from an
  empty table, the two counts beside a word's key are the numbers of unsupported exits at that word and of
  path stops at it, all of them; a word whose key is in the table is in one slot only, and a word that was
  noted and is not in the table found its probes taken by other words.
\<close>

theorem unsupported_words_counted:
  assumes "word_key w = Some key"
  shows "(\<forall>k. wt_keys (note_words ns) k = key \<longrightarrow>
      wt_exits (note_words ns) k = of_nat (count_list ns (False, w)) \<and> wt_stops (note_words ns) k = of_nat (count_list ns (True, w))
      \<and> (\<forall>k'. wt_keys (note_words ns) k' = key \<longrightarrow> k' = k))
    \<and> ((\<forall>k. wt_keys (note_words ns) k \<noteq> key) \<longrightarrow> (\<forall>stop. (stop, w) \<notin> set ns)
      \<or> (\<forall>p \<in> set (probe_slots w). wt_keys (note_words ns) p \<noteq> 0 \<and> wt_keys (note_words ns) p \<noteq> key))"
proof -
  note inv = words_inv_all [of ns]
  have own: "\<exists>u. owns (wt_keys (note_words ns)) k u \<and> u = w \<and> (\<forall>stop. cell stop k (note_words ns) = of_nat (count_list ns (stop, u)))"
    if "wt_keys (note_words ns) k = key" for k
  proof -
    have "wt_keys (note_words ns) k \<noteq> 0" using that word_key_nonzero [OF assms] by simp
    with inv obtain u where "owns (wt_keys (note_words ns)) k u"
      "\<forall>stop. cell stop k (note_words ns) = of_nat (count_list ns (stop, u))" by (auto simp: words_inv_def)
    moreover then have "u = w" using word_key_inj [OF assms, of u] that by (simp add: owns_def)
    ultimately show ?thesis by blast
  qed
  have counts: "wt_exits (note_words ns) k = of_nat (count_list ns (False, w)) \<and> wt_stops (note_words ns) k = of_nat (count_list ns (True, w))"
    if "wt_keys (note_words ns) k = key" for k
  proof -
    from own [OF that] have c: "\<forall>stop. cell stop k (note_words ns) = of_nat (count_list ns (stop, w))" by blast
    from c [THEN spec, of False] c [THEN spec, of True] show ?thesis by (simp add: cell_def)
  qed
  have once: "k' = k" if k: "wt_keys (note_words ns) k = key" "wt_keys (note_words ns) k' = key" for k k'
  proof -
    from own [OF k(1)] have "owns (wt_keys (note_words ns)) k w" by blast
    moreover from own [OF k(2)] obtain ps qs where "probe_slots w = ps @ k' # qs"
      "\<forall>p \<in> set ps. wt_keys (note_words ns) p \<noteq> key" using k(2) by (auto simp: owns_def)
    ultimately show ?thesis using owned_once [of _ k w key ps k' qs] assms k(2) by blast
  qed
  have lost: "wt_keys (note_words ns) p \<noteq> 0"
    if "\<forall>k. wt_keys (note_words ns) k \<noteq> key" "(stop, w) \<in> set ns" "p \<in> set (probe_slots w)" for stop p
    by (rule words_full [OF inv assms that(2,1,3)])
  show ?thesis using counts once lost by blast
qed

text \<open>Two exits at a word, a stop at it, and an exit at another.\<close>

lemma demo_key: "word_key 7 = Some (7 OR WORD_TAG)"
  by code_simp

lemma demo_slot_key: "wt_keys (note_words [(False, 7), (True, 7), (False, 9), (False, 7)]) (word_hash 7) = 7 OR WORD_TAG"
  by code_simp

theorem unsupported_words_counted_witness:
  "wt_exits (note_words [(False, 7), (True, 7), (False, 9), (False, 7)]) (word_hash 7) = 2
    \<and> wt_stops (note_words [(False, 7), (True, 7), (False, 9), (False, 7)]) (word_hash 7) = 1"
  using unsupported_words_counted [OF demo_key, of "[(False, 7), (True, 7), (False, 9), (False, 7)]"] demo_slot_key by simp

end
