(* ===== verification/RtIbtc.thy ===== *)
theory RtIbtc
  imports RtStats Dispatch AbiLink
begin

section \<open>Dispatch misses and the slot planning the runtime exports\<close>

text \<open>
  Models \<open>runtime/ibtc.rs\<close> and \<open>runtime/link.rs\<close>: the classification of a dispatch miss by what the run's
  table held for its target, the diagnostics of the main slots, and the functions that hand the publish
  plan, the slots of a pc and the word of a link slot to the C side. The kernel's memory is a function
  from addresses to 8-byte words; a pointer the code writes through is a value it returns. The listing
  \<open>kjit_rs_ibtc_slots_show\<close> is modelled up to its text: the totals and the rows it prints.
\<close>

type_synonym kernel_mem = "u64 \<Rightarrow> u64"

definition TABLES :: nat where [kdefs]: "TABLES = 2"
definition TABLE_ALL :: nat where [kdefs]: "TABLE_ALL = 0"
definition TABLE_NOFP :: nat where [kdefs]: "TABLE_NOFP = 1"
definition TOP_SLOTS :: nat where [kdefs]: "TOP_SLOTS = 32"
definition IBTC_SRC_NEW :: u32 where [kdefs]: "IBTC_SRC_NEW = 0xFFFFFFFF"

record slot_diag =
  sd_conflicts :: u64
  sd_evictor :: u64
  sd_evicted :: u64

definition ZERO_DIAG :: slot_diag where
  "ZERO_DIAG = \<lparr>sd_conflicts = 0, sd_evictor = 0, sd_evicted = 0\<rparr>"

text \<open>\<open>DIAG\<close>: \<open>TABLES\<close> consecutive runs of \<open>IBTC_SLOTS\<close>.\<close>

type_synonym diags = "nat \<Rightarrow> slot_diag"

datatype (plugins only: code size) miss_class = Cold | Conflict u64 | OtherMiss

record seen =
  sn_table :: nat
  sn_slot :: nat
  sn_class :: miss_class

definition classify_miss :: "u64 \<Rightarrow> u64 option \<Rightarrow> u64 option \<Rightarrow> miss_class" where
  "classify_miss target main victim =
    (if main = Some target \<or> victim = Some target then OtherMiss
     else case main of None \<Rightarrow> Cold | Some pc \<Rightarrow> Conflict pc)"

definition rt_record_pc :: "kernel_mem \<Rightarrow> u64 \<Rightarrow> nat \<Rightarrow> u64 option" where
  "rt_record_pc mem table slot =
    (let record = mem (table + of_nat slot * 8)
     in if record \<noteq> 0 then Some (mem (record + of_nat IBTC_RECORD_PC_OFFSET)) else None)"

definition probe :: "kernel_mem \<Rightarrow> u64 \<Rightarrow> bool \<Rightarrow> u64 \<Rightarrow> seen" where
  "probe mem table all target =
    (let main = ibtc_lookup_slots target ! 0; victim = ibtc_lookup_slots target ! 1
     in \<lparr>sn_table = (if all then TABLE_ALL else TABLE_NOFP), sn_slot = main,
         sn_class = classify_miss target (rt_record_pc mem table main) (rt_record_pc mem table victim)\<rparr>)"

definition note_diag :: "seen \<Rightarrow> u64 \<Rightarrow> diags \<Rightarrow> diags" where
  "note_diag sn target d =
    (case sn_class sn of
       Conflict pc \<Rightarrow>
         let i = sn_table sn * IBTC_SLOTS + sn_slot sn
         in d(i := \<lparr>sd_conflicts = sd_conflicts (d i) + 1, sd_evictor = target, sd_evicted = pc\<rparr>)
     | _ \<Rightarrow> d)"

definition miss_stat :: "seen \<Rightarrow> stat" where
  "miss_stat sn = (case sn_class sn of Cold \<Rightarrow> IbtcMissCold | OtherMiss \<Rightarrow> IbtcMissOther | Conflict _ \<Rightarrow> IbtcMissConflict)"

definition note_miss :: "seen \<Rightarrow> u64 \<Rightarrow> tally \<times> diags \<Rightarrow> tally \<times> diags" where
  "note_miss sn target = (\<lambda>(t, d). (tally_inc (miss_stat sn) t, note_diag sn target d))"

subsection \<open>What the C side calls\<close>

definition rs_ibtc_plan_publish :: "kernel_mem \<Rightarrow> u64 \<Rightarrow> u64 \<Rightarrow> (u32 \<times> u32) list" where
  "rs_ibtc_plan_publish mem table pc =
    map (\<lambda>store. (of_nat (st_dst store), case st_src store of SrcNew \<Rightarrow> IBTC_SRC_NEW | SrcSlot slot \<Rightarrow> of_nat slot))
      (ibtc_plan_publish pc (rt_record_pc mem table))"

definition rs_ibtc_lookup_slots :: "u64 \<Rightarrow> u32 list" where
  "rs_ibtc_lookup_slots pc = map of_nat (ibtc_lookup_slots pc)"

definition rs_link_branch_word :: "u64 \<Rightarrow> u64 \<Rightarrow> u32 \<Rightarrow> u32 \<times> bool" where
  "rs_link_branch_word slot_addr host word =
    (case link_branch_word slot_addr host of Some v \<Rightarrow> (v, True) | None \<Rightarrow> (word, False))"

definition rs_ibtc_slots_reset :: "diags \<Rightarrow> diags" where
  "rs_ibtc_slots_reset d = (\<lambda>i. if i < TABLES * IBTC_SLOTS then ZERO_DIAG else d i)"

text \<open>
  A table of the listing: the total, the number of slots with conflicts, the sum of the rows shown, and
  the rows (slot, conflicts, evictor, evicted), most conflicts first and lower slots first among equals.
\<close>

definition diag_rows :: "nat \<Rightarrow> diags \<Rightarrow> (u64 \<times> nat) list" where
  "diag_rows table d =
    sort_key (\<lambda>(conflicts, slot). (2 ^ 64 - unat conflicts) * IBTC_SLOTS + slot)
      (filter (\<lambda>(conflicts, _). conflicts \<noteq> 0)
        (map (\<lambda>slot. (sd_conflicts (d (table * IBTC_SLOTS + slot)), slot)) [0..<IBTC_SLOTS]))"

definition slots_listing :: "nat \<Rightarrow> diags \<Rightarrow> u64 \<times> nat \<times> u64 \<times> (nat \<times> u64 \<times> u64 \<times> u64) list" where
  "slots_listing table d =
    (let rows = diag_rows table d; top = take TOP_SLOTS rows
     in (sum_list (map fst rows), length rows, sum_list (map fst top),
         map (\<lambda>(conflicts, slot). (slot, conflicts, sd_evictor (d (table * IBTC_SLOTS + slot)),
           sd_evicted (d (table * IBTC_SLOTS + slot)))) top))"

subsection \<open>Facts\<close>

lemma miss_stat_cases: "miss_stat sn \<in> {IbtcMissCold, IbtcMissOther, IbtcMissConflict}"
  by (simp add: miss_stat_def split: miss_class.splits)

lemma table_word_fits:
  assumes "n < IBTC_TABLE_WORDS"
  shows "unat (of_nat n :: u32) = n" "(of_nat n :: u32) \<noteq> IBTC_SRC_NEW"
proof -
  from assms have n: "n < 2 ^ 32 - 1" by (simp add: kdefs)
  then show u: "unat (of_nat n :: u32) = n" by (simp add: unat_of_nat)
  have "unat IBTC_SRC_NEW = 2 ^ 32 - 1" by (simp add: kdefs)
  with u n show "(of_nat n :: u32) \<noteq> IBTC_SRC_NEW" by auto
qed

lemma plan_in_table:
  assumes "store \<in> set (ibtc_plan_publish pc resident)"
  shows "st_dst store < IBTC_TABLE_WORDS" "st_src store = SrcSlot slot \<Longrightarrow> slot < IBTC_TABLE_WORDS"
  using assms slot_index_lt [of pc] victim_index_bounds
  by (auto simp: ibtc_plan_publish_def Let_def kdefs split: if_splits option.splits)

text \<open>How \<open>kjit_glue.c\<close> reads a \<open>struct kjit_ibtc_store\<close>.\<close>

definition read_store :: "u32 \<times> u32 \<Rightarrow> ibtc_store" where
  "read_store = (\<lambda>(dst, src). \<lparr>st_dst = unat dst, st_src = (if src = IBTC_SRC_NEW then SrcNew else SrcSlot (unat src))\<rparr>)"

text \<open>
  The plan the C side receives is the plan of the shared code: read back as \<open>kjit_glue.c\<close> reads it,
  the words of \<open>kjit_rs_ibtc_plan_publish\<close> are exactly the stores of \<open>ibtc_plan_publish\<close> against the
  records in the table, in order, at most two, and every word they name is inside the table, so that no
  slot index is truncated or taken for the mark of the new record.
\<close>

theorem plan_export_exact:
  "map read_store (rs_ibtc_plan_publish mem table pc) = ibtc_plan_publish pc (rt_record_pc mem table)
    \<and> length (rs_ibtc_plan_publish mem table pc) \<le> 2
    \<and> list_all (\<lambda>(dst, src). unat dst < IBTC_TABLE_WORDS \<and> (src = IBTC_SRC_NEW \<or> unat src < IBTC_TABLE_WORDS))
        (rs_ibtc_plan_publish mem table pc)"
proof -
  let ?plan = "ibtc_plan_publish pc (rt_record_pc mem table)"
  let ?words = "\<lambda>store. (of_nat (st_dst store) :: u32,
    case st_src store of SrcNew \<Rightarrow> IBTC_SRC_NEW | SrcSlot slot \<Rightarrow> (of_nat slot :: u32))"
  have words: "rs_ibtc_plan_publish mem table pc = map ?words ?plan" by (simp add: rs_ibtc_plan_publish_def)
  have each: "read_store (?words store) = store" "unat (fst (?words store)) < IBTC_TABLE_WORDS"
      "snd (?words store) = IBTC_SRC_NEW \<or> unat (snd (?words store)) < IBTC_TABLE_WORDS"
    if "store \<in> set ?plan" for store
    using plan_in_table [OF that] table_word_fits
    by (auto simp: read_store_def split: ibtc_source.splits)
  have "length ?plan \<le> 2" by (simp add: ibtc_plan_publish_def Let_def split: option.splits)
  with each show ?thesis by (auto simp: words list_all_iff intro: map_idI)
qed

section \<open>The listings under debugfs\<close>

text \<open>
  Models the three files the runtime prints: \<open>stats\<close> and \<open>unsupported_top\<close> (\<open>runtime/stats.rs\<close>) and
  \<open>ibtc_slots\<close> (\<open>runtime/ibtc.rs\<close>). A buffer is its size and what is written so far; what does not fit is
  dropped. The rows are collected without the allocation failure.
\<close>

definition newline :: string where
  "newline = [CHR 0x0A]"

definition digit :: "nat \<Rightarrow> char" where
  "digit d = ''0123456789abcdef'' ! d"

fun in_base :: "nat \<Rightarrow> nat \<Rightarrow> string" where
  "in_base b n = (if b < 2 \<or> n < b then [digit n] else in_base b (n div b) @ [digit (n mod b)])"

declare in_base.simps [simp del]

definition dec :: "nat \<Rightarrow> string" where
  "dec n = in_base 10 n"

definition hex :: "u64 \<Rightarrow> string" where
  "hex w = ''0x'' @ in_base 16 (unat w)"

text \<open>\<open>{:#010x}\<close>\<close>

definition hex_word :: "u64 \<Rightarrow> string" where
  "hex_word w = (let ds = in_base 16 (unat w) in ''0x'' @ replicate (8 - length ds) CHR ''0'' @ ds)"

record buf_writer =
  bw_size :: nat
  bw_out :: string

definition write_str :: "string \<Rightarrow> buf_writer \<Rightarrow> buf_writer" where
  "write_str s b = (let room = bw_size b - length (bw_out b) in b\<lparr>bw_out := bw_out b @ take (min (length s) room) s\<rparr>)"

definition writeln :: "string list \<Rightarrow> buf_writer \<Rightarrow> buf_writer" where
  "writeln ps b = fold write_str (ps @ [newline]) b"

subsection \<open>Counters\<close>

definition show_stat :: "(stat \<Rightarrow> u64) \<Rightarrow> (nat \<Rightarrow> u64) \<Rightarrow> nat \<times> string \<Rightarrow> buf_writer \<Rightarrow> buf_writer" where
  "show_stat stats hot = (\<lambda>(i, n). writeln [n, '' '', dec (unat (stats i + hot i))])"

definition show_bucket :: "(nat \<Rightarrow> u64) \<Rightarrow> nat \<Rightarrow> buf_writer \<Rightarrow> buf_writer" where
  "show_bucket hot bucket out =
    (let count = hot (STAT_COUNT + bucket)
     in if count \<noteq> 0 then
          writeln [''chain_hist_'', dec (2 ^ bucket), ''_'', dec (2 * 2 ^ bucket - 1), '' '', dec (unat count)] out
        else out)"

definition stats_show ::
  "nat \<Rightarrow> (stat \<Rightarrow> u64) \<Rightarrow> (nat \<Rightarrow> u64) \<Rightarrow> u64 \<Rightarrow> u64 \<Rightarrow> u64 \<Rightarrow> string" where
  "stats_show len stats hot chain_max hook_calls fpsimd_max =
    (let out = \<lparr>bw_size = len, bw_out = []\<rparr>;
         out = fold (show_stat stats hot) (enumerate 0 stat_names) out;
         out = writeln [''hook_calls '', dec (unat hook_calls)] out;
         out = writeln [''fpsimd_run_max_ns '', dec (unat fpsimd_max)] out;
         out = writeln [''chain_max '', dec (unat chain_max)] out;
         out = fold (show_bucket hot) [0..<CHAIN_BUCKETS] out
     in bw_out out)"

subsection \<open>Unsupported words\<close>

definition unsupported_rows :: "word_table \<Rightarrow> (u64 \<times> u64 \<times> u64) list" where
  "unsupported_rows t =
    sort_key (\<lambda>(key, exits, stops). (2 ^ 64 - unat (exits + stops)) * 2 ^ 64 + unat key)
      (filter (\<lambda>(key, exits, stops). key \<noteq> 0 \<and> exits + stops \<noteq> 0)
        (map (\<lambda>slot. (wt_keys t slot, wt_exits t slot, wt_stops t slot)) [0..<UNSUPPORTED_SLOTS]))"

fun show_rows :: "(u64 \<times> u64 \<times> u64) list \<Rightarrow> buf_writer \<Rightarrow> buf_writer" where
  "show_rows [] out = out"
| "show_rows ((key, exits, stops) # rows) out =
    (if bw_size out - length (bw_out out) < 64 then out
     else show_rows rows
       (if key = UNREADABLE_WORD then writeln [''unreadable '', dec (unat exits), '' '', dec (unat stops)] out
        else writeln [hex_word (key AND NOT WORD_TAG), '' '', dec (unat exits), '' '', dec (unat stops)] out))"

definition unsupported_show :: "nat \<Rightarrow> word_table \<Rightarrow> string" where
  "unsupported_show len t = bw_out (show_rows (unsupported_rows t) \<lparr>bw_size = len, bw_out = []\<rparr>)"

subsection \<open>Slots with conflicts\<close>

definition TABLE_NAMES :: "string list" where [kdefs]: "TABLE_NAMES = [''all'', ''nofp'']"

definition show_table :: "diags \<Rightarrow> nat \<times> string \<Rightarrow> buf_writer \<Rightarrow> buf_writer" where
  "show_table d = (\<lambda>(table, tname) out.
    let (total, n, top_sum, top) = slots_listing table d;
        out = writeln [''# table '', tname, '' conflicts '', dec (unat total), '' slots '', dec n, '' top'', dec TOP_SLOTS,
          '' '', dec (unat top_sum)] out
    in fold (\<lambda>(slot, conflicts, evictor, evicted). writeln [tname, '' '', dec slot, '' '', dec (unat conflicts),
         '' '', hex evictor, '' '', hex evicted]) top out)"

definition slots_show :: "nat \<Rightarrow> diags \<Rightarrow> string" where
  "slots_show len d = bw_out (fold (show_table d) (enumerate 0 TABLE_NAMES) \<lparr>bw_size = len, bw_out = []\<rparr>)"

subsection \<open>Nothing is written outside the buffer\<close>

definition bw_ok :: "buf_writer \<Rightarrow> bool" where
  "bw_ok b \<longleftrightarrow> length (bw_out b) \<le> bw_size b"

lemma write_str_ok [simp]: "bw_ok b \<Longrightarrow> bw_ok (write_str s b)" "bw_size (write_str s b) = bw_size b"
  by (simp_all add: bw_ok_def write_str_def Let_def)

lemma fold_ok:
  "(\<And>x b. x \<in> set xs \<Longrightarrow> bw_ok b \<Longrightarrow> bw_ok (f x b) \<and> bw_size (f x b) = bw_size b) \<Longrightarrow> bw_ok b \<Longrightarrow>
    bw_ok (fold f xs b) \<and> bw_size (fold f xs b) = bw_size b"
  by (induction xs arbitrary: b) auto

lemma writeln_ok [simp]: "bw_ok b \<Longrightarrow> bw_ok (writeln ps b)" "bw_ok b \<Longrightarrow> bw_size (writeln ps b) = bw_size b"
  using fold_ok [of "ps @ [newline]" write_str b] by (simp_all add: writeln_def)

lemma show_rows_ok: "bw_ok b \<Longrightarrow> bw_ok (show_rows rows b) \<and> bw_size (show_rows rows b) = bw_size b"
  by (induction rows b rule: show_rows.induct) auto

lemma show_table_ok: "bw_ok b \<Longrightarrow> bw_ok (show_table d x b) \<and> bw_size (show_table d x b) = bw_size b"
proof -
  assume b: "bw_ok b"
  obtain table tname total n top_sum top where
    t: "x = (table, tname)" "slots_listing table d = (total, n, top_sum, top)" by (metis surj_pair)
  let ?b = "writeln [''# table '', tname, '' conflicts '', dec (unat total), '' slots '', dec n, '' top'', dec TOP_SLOTS,
      '' '', dec (unat top_sum)] b"
  have "bw_ok ?b" using b by simp
  from fold_ok [OF _ this, of top "\<lambda>(slot, conflicts, evictor, evicted). writeln [tname, '' '', dec slot, '' '',
      dec (unat conflicts), '' '', hex evictor, '' '', hex evicted]"]
  show ?thesis using b t by (auto simp: show_table_def)
qed

lemma listings_fit:
  "length (stats_show len stats hot a b c) \<le> len" "length (unsupported_show len t) \<le> len" "length (slots_show len d) \<le> len"
proof -
  have ok: "bw_ok \<lparr>bw_size = len, bw_out = []\<rparr>" by (simp add: bw_ok_def)
  let ?o1 = "fold (show_stat stats hot) (enumerate 0 stat_names) \<lparr>bw_size = len, bw_out = []\<rparr>"
  have o1: "bw_ok ?o1 \<and> bw_size ?o1 = len"
    using fold_ok [OF _ ok, of "enumerate 0 stat_names" "show_stat stats hot"] by (auto simp: show_stat_def split: prod.splits)
  let ?o2 = "writeln [''chain_max '', dec (unat a)] (writeln [''fpsimd_run_max_ns '', dec (unat c)]
    (writeln [''hook_calls '', dec (unat b)] ?o1))"
  have o2: "bw_ok ?o2" "bw_size ?o2 = len" using o1 by simp_all
  have bucket: "bw_ok b \<Longrightarrow> bw_ok (show_bucket hot k b) \<and> bw_size (show_bucket hot k b) = bw_size b" for k b
    by (simp add: show_bucket_def Let_def)
  from fold_ok [of "[0..<CHAIN_BUCKETS]" "show_bucket hot" ?o2, OF bucket o2(1)] o2(2)
  show "length (stats_show len stats hot a b c) \<le> len" by (simp add: stats_show_def Let_def bw_ok_def)
  show "length (unsupported_show len t) \<le> len"
    using show_rows_ok [OF ok, of "unsupported_rows t"] by (simp add: unsupported_show_def bw_ok_def)
  show "length (slots_show len d) \<le> len"
    using fold_ok [of "enumerate 0 TABLE_NAMES" "show_table d", OF show_table_ok ok] by (simp add: slots_show_def bw_ok_def)
qed

end
