(* ===== verification/RtExec.thy ===== *)
theory RtExec
  imports RtIbtc
begin

section \<open>The hook after a syscall\<close>

text \<open>
  Models \<open>runtime/exec.rs\<close>. The functions of \<open>kjit_glue.c\<close> it calls are a parameter, the record
  \<open>glue\<close>: each takes the state of the rest of the kernel and returns it with its result. Where the C side
  is documented to do nothing (a bracketed call that is declined), the type says so. What the hook itself
  keeps is \<open>hook_state\<close>: the user's registers (\<open>PtRegs\<close>), the tally of the call, and the two global
  diagnostics. A chain of runs is a recursion whose measure is what the budget leaves.
\<close>

definition EXTRA_PARAMS_WORDS :: nat where [kdefs]: "EXTRA_PARAMS_WORDS = 3"
definition EXTRA_PARAM_IBTC_TABLE_INDEX :: nat where [kdefs]: "EXTRA_PARAM_IBTC_TABLE_INDEX = 2"
definition HOT_SVC_RESUME :: u32 where [kdefs]: "HOT_SVC_RESUME = 0"
definition HOT_EXIT_TARGET :: u32 where [kdefs]: "HOT_EXIT_TARGET = 1"
definition TO_USER :: int where [kdefs]: "TO_USER = -1"

record pt_regs =
  pr_regs :: "nat \<Rightarrow> u64"
  pr_sp :: u64
  pr_pc :: u64
  pr_pstate :: u64

record run_class =
  rc_base :: u64
  rc_table :: u64
  rc_uses_fpsimd :: bool
  rc_bracketed :: bool

text \<open>The array \<open>extra\<close> is a function of its index. A call returns the status, the registers and the array.\<close>

type_synonym extra_params = "nat \<Rightarrow> u64"
type_synonym call_result = "u64 \<times> pt_regs \<times> extra_params"

record ('w, 'f) glue =
  gl_can_run :: "pt_regs \<Rightarrow> 'w \<Rightarrow> bool \<times> 'w"
  gl_lookup :: "u64 \<Rightarrow> bool \<Rightarrow> 'w \<Rightarrow> ('f \<times> u64) option \<times> 'w"
  gl_frag_link :: "'f \<Rightarrow> u64 \<Rightarrow> 'w \<Rightarrow> u64 \<times> 'w"
  gl_run_class :: "'f \<Rightarrow> 'w \<Rightarrow> run_class \<times> 'w"
  gl_set_fp_sticky :: "'f \<Rightarrow> 'w \<Rightarrow> bool \<times> 'w"
  gl_bad_status :: "u64 \<Rightarrow> u64 \<Rightarrow> 'w \<Rightarrow> 'w"
  gl_call :: "pt_regs \<Rightarrow> extra_params \<Rightarrow> u64 \<Rightarrow> u64 \<Rightarrow> 'w \<Rightarrow> call_result \<times> 'w"
  gl_call_fpsimd :: "pt_regs \<Rightarrow> extra_params \<Rightarrow> u64 \<Rightarrow> u64 \<Rightarrow> 'w \<Rightarrow> call_result option \<times> 'w"
  gl_profile :: "u64 \<Rightarrow> u32 \<Rightarrow> 'w \<Rightarrow> 'w"
  gl_chain_budget :: "'w \<Rightarrow> u32"
  gl_mem :: "'w \<Rightarrow> kernel_mem"

record 'f running =
  rn_frag :: 'f
  rn_base :: u64
  rn_uses_fpsimd :: bool
  rn_bracketed :: bool
  rn_table :: u64

record 'w hook_state =
  hk_world :: 'w
  hk_regs :: pt_regs
  hk_tally :: tally
  hk_diags :: diags
  hk_words :: word_table

definition inc :: "stat \<Rightarrow> 'w hook_state \<Rightarrow> 'w hook_state" where
  "inc s st = st\<lparr>hk_tally := tally_inc s (hk_tally st)\<rparr>"

definition set_pc :: "u64 \<Rightarrow> 'w hook_state \<Rightarrow> 'w hook_state" where
  "set_pc pc st = st\<lparr>hk_regs := (hk_regs st)\<lparr>pr_pc := pc\<rparr>\<rparr>"

definition miss :: "seen \<Rightarrow> u64 \<Rightarrow> 'w hook_state \<Rightarrow> 'w hook_state" where
  "miss sn target st =
    (let (t, d) = note_miss sn target (hk_tally st, hk_diags st) in st\<lparr>hk_tally := t, hk_diags := d\<rparr>)"

definition can_run :: "('w, 'f) glue \<Rightarrow> 'w hook_state \<Rightarrow> bool \<times> 'w hook_state" where
  "can_run gl st = (let (b, w) = gl_can_run gl (hk_regs st) (hk_world st) in (b, st\<lparr>hk_world := w\<rparr>))"

definition profile :: "('w, 'f) glue \<Rightarrow> u64 \<Rightarrow> u32 \<Rightarrow> 'w hook_state \<Rightarrow> 'w hook_state" where
  "profile gl pc kind st = st\<lparr>hk_world := gl_profile gl pc kind (hk_world st)\<rparr>"

subsection \<open>A fragment that runs\<close>

definition run_lookup :: "('w, 'f) glue \<Rightarrow> u64 \<Rightarrow> bool \<Rightarrow> 'w hook_state \<Rightarrow> ('f running \<times> u64) option \<times> 'w hook_state" where
  "run_lookup gl pc lnk st =
    (case gl_lookup gl pc lnk (hk_world st) of
       (None, w) \<Rightarrow> (None, st\<lparr>hk_world := w\<rparr>)
     | (Some (frag, entry), w) \<Rightarrow>
         let (cls, w) = gl_run_class gl frag w
         in (Some (\<lparr>rn_frag = frag, rn_base = rc_base cls, rn_uses_fpsimd = rc_uses_fpsimd cls,
                    rn_bracketed = rc_bracketed cls, rn_table = rc_table cls\<rparr>, entry), st\<lparr>hk_world := w\<rparr>))"

definition run_make_sticky :: "('w, 'f) glue \<Rightarrow> 'f running \<Rightarrow> 'w hook_state \<Rightarrow> 'w hook_state" where
  "run_make_sticky gl run st =
    (let (b, w) = gl_set_fp_sticky gl (rn_frag run) (hk_world st); st = st\<lparr>hk_world := w\<rparr>
     in if b then inc FpStickySet st else st)"

definition run_call :: "('w, 'f) glue \<Rightarrow> 'f running \<Rightarrow> u64 \<Rightarrow> 'w hook_state \<Rightarrow> (u64 \<times> extra_params) option \<times> 'w hook_state" where
  "run_call gl run entry st =
    (let extra = (\<lambda>_. 0)(EXTRA_PARAM_IBTC_TABLE_INDEX := rn_table run)
     in if rn_bracketed run then
          (case gl_call_fpsimd gl (hk_regs st) extra entry (rn_base run) (hk_world st) of
             (None, w) \<Rightarrow> (None, inc FpsimdTrapDeclined (inc RunDeclined (st\<lparr>hk_world := w\<rparr>)))
           | (Some (status, regs, extra), w) \<Rightarrow>
               (Some (status, extra), inc FpsimdEntries (inc FragmentEntries (st\<lparr>hk_world := w, hk_regs := regs\<rparr>))))
        else
          (let st = inc FragmentEntries st;
               ((status, regs, extra), w) = gl_call gl (hk_regs st) extra entry (rn_base run) (hk_world st)
           in (Some (status, extra), st\<lparr>hk_world := w, hk_regs := regs\<rparr>)))"

definition run_link :: "('w, 'f) glue \<Rightarrow> 'f running \<Rightarrow> u64 \<Rightarrow> 'w hook_state \<Rightarrow> u64 option \<times> 'w hook_state" where
  "run_link gl run pc st =
    (let (host, w) = gl_frag_link gl (rn_frag run) pc (hk_world st)
     in (if host \<noteq> 0 then Some host else None, st\<lparr>hk_world := w\<rparr>))"

subsection \<open>The exits\<close>

text \<open>
  What one entry leads to: the hook returns, with its result and the entries made (none when the first one
  was declined), or the next entry: the fragment, its entry address, the user pc it starts at, and the count.
\<close>

datatype (plugins only: code size) 'f round_end = Stop int "nat option" | Again "'f running" u64 u64 nat

definition svc_exit :: "('w, 'f) glue \<Rightarrow> u64 \<Rightarrow> nat \<Rightarrow> 'w hook_state \<Rightarrow> 'f round_end \<times> 'w hook_state" where
  "svc_exit gl param1 entries st =
    (let st = inc ExitSvc st;
         scno = sint (ucast (pr_regs (hk_regs st) 8) :: u32);
         (ok, st) = can_run gl st
     in if ok \<and> scno \<ge> 0 then (Stop scno (Some entries), inc SyscallsInKernel (set_pc param1 st))
        else (Stop TO_USER (Some entries), set_pc (param1 - 4) (inc SvcDeclined st)))"

definition branch_stat :: "u64 \<Rightarrow> stat" where
  "branch_stat status =
    (if status = as_reg RsBl then ExitBl else if status = as_reg RsBlr then ExitBlr
     else if status = as_reg RsBr then ExitBr else ExitRet)"

definition branch_end :: "seen \<Rightarrow> u64 \<Rightarrow> nat \<Rightarrow> 'w hook_state \<Rightarrow> 'f round_end \<times> 'w hook_state" where
  "branch_end sn target entries st = (Stop TO_USER (Some entries), set_pc target (miss sn target st))"

definition count_up :: "nat \<Rightarrow> nat" where
  "count_up entries = min (2 ^ 32 - 1) (entries + 1)"

definition branch_exit ::
  "('w, 'f) glue \<Rightarrow> u32 \<Rightarrow> 'f running \<Rightarrow> u64 \<Rightarrow> u64 \<Rightarrow> nat \<Rightarrow> 'w hook_state \<Rightarrow> 'f round_end \<times> 'w hook_state" where
  "branch_exit gl budget run status target entries st =
    (let st = inc (branch_stat status) st;
         sn = probe (gl_mem gl (hk_world st)) (rn_table run) (rn_bracketed run) target
     in if entries \<ge> unat budget then branch_end sn target entries (inc ChainCap st)
        else case can_run gl st of
          (False, st) \<Rightarrow> branch_end sn target entries (inc RunDeclined st)
        | (True, st) \<Rightarrow>
            (case run_link gl run target st of
               (Some next, st) \<Rightarrow> (Again run next target (count_up entries), inc Chains (miss sn target st))
             | (None, st) \<Rightarrow>
                 (case run_lookup gl target True st of
                    (Some (next, entry), st) \<Rightarrow>
                      (let st = (if rn_uses_fpsimd next \<and> \<not> rn_bracketed run
                                 then run_make_sticky gl run (inc IbtcFpsimdBoundary st)
                                 else miss sn target st)
                       in (Again next entry target (count_up entries), inc Chains st))
                  | (None, st) \<Rightarrow> branch_end sn target entries (profile gl target HOT_EXIT_TARGET st))))"

definition plain_exit :: "'f running \<Rightarrow> u64 \<Rightarrow> u64 \<Rightarrow> u64 \<Rightarrow> nat \<Rightarrow> 'w hook_state \<Rightarrow> 'f round_end \<times> 'w hook_state" where
  "plain_exit run status param0 param1 entries st =
    (let st = inc (if status = as_reg RsMem then ExitMem
                   else if status = as_reg RsUnsupported then ExitUnsupported else ExitBudget) st;
         st = (if status = as_reg RsMem \<and> rn_bracketed run then inc FpsimdExitMem st else st);
         st = (if status = as_reg RsUnsupported then st\<lparr>hk_words := note_unsupported param0 (hk_words st)\<rparr> else st)
     in (Stop TO_USER (Some entries), set_pc param1 st))"

definition bad_exit :: "('w, 'f) glue \<Rightarrow> u64 \<Rightarrow> u64 \<Rightarrow> u64 \<Rightarrow> nat \<Rightarrow> 'w hook_state \<Rightarrow> 'f round_end \<times> 'w hook_state" where
  "bad_exit gl status pc param1 entries st =
    (let st = inc ExitInvalid st; st = st\<lparr>hk_world := gl_bad_status gl status pc (hk_world st)\<rparr>
     in (Stop TO_USER (Some entries), set_pc param1 st))"

definition is_branch_status :: "u64 \<Rightarrow> bool" where
  "is_branch_status status \<longleftrightarrow> status \<in> {as_reg RsBl, as_reg RsBlr, as_reg RsBr, as_reg RsRet}"

definition is_plain_status :: "u64 \<Rightarrow> bool" where
  "is_plain_status status \<longleftrightarrow> status \<in> {as_reg RsMem, as_reg RsUnsupported, as_reg RsBudget}"

text \<open>One turn of the loop of \<open>run_chain\<close>; \<open>pc\<close> is the user's pc when the chain began.\<close>

definition chain_round ::
  "('w, 'f) glue \<Rightarrow> u32 \<Rightarrow> u64 \<Rightarrow> 'f running \<Rightarrow> u64 \<Rightarrow> u64 \<Rightarrow> nat \<Rightarrow> 'w hook_state \<Rightarrow> 'f round_end \<times> 'w hook_state" where
  "chain_round gl budget pc run entry resume entries st =
    (case run_call gl run entry st of
       (None, st) \<Rightarrow> (Stop TO_USER (if entries - 1 = 0 then None else Some (entries - 1)), set_pc resume st)
     | (Some (status, extra), st) \<Rightarrow>
         if status = as_reg RsSvc then svc_exit gl (extra 1) entries st
         else if is_branch_status status then branch_exit gl budget run status (extra 0) entries st
         else if is_plain_status status then plain_exit run status (extra 0) (extra 1) entries st
         else bad_exit gl status pc (extra 1) entries st)"

lemma again_within_budget:
  assumes "chain_round gl budget pc run entry resume entries st = (Again run' entry' resume' entries', st')"
  shows "entries < unat budget" "entries' = Suc entries"
proof -
  have lt: "unat budget < 2 ^ 32" using unsigned_less [of budget] by simp
  show b: "entries < unat budget"
    using assms by (auto simp: chain_round_def svc_exit_def branch_exit_def branch_end_def plain_exit_def bad_exit_def Let_def
        split: prod.splits option.splits if_splits bool.splits)
  have "entries' = count_up entries"
    using assms by (auto simp: chain_round_def svc_exit_def branch_exit_def branch_end_def plain_exit_def bad_exit_def Let_def
        split: prod.splits option.splits if_splits bool.splits)
  with b lt show "entries' = Suc entries" by (simp add: count_up_def)
qed

lemma again_shrinks:
  assumes "(Again run' entry' resume' entries', st') = chain_round gl budget pc run entry resume entries st"
  shows "unat budget - entries' < unat budget - entries"
  using again_within_budget [OF assms [symmetric]] by simp

function run_chain ::
  "('w, 'f) glue \<Rightarrow> u32 \<Rightarrow> u64 \<Rightarrow> 'f running \<Rightarrow> u64 \<Rightarrow> u64 \<Rightarrow> nat \<Rightarrow> 'w hook_state \<Rightarrow> (int \<times> nat option) \<times> 'w hook_state" where
  "run_chain gl budget pc run entry resume entries st =
    (case chain_round gl budget pc run entry resume entries st of
       (Stop ret es, st) \<Rightarrow> ((ret, es), st)
     | (Again run entry resume entries, st) \<Rightarrow> run_chain gl budget pc run entry resume entries st)"
  by pat_completeness auto
termination
  by (relation "measure (\<lambda>(gl, budget, pc, run, entry, resume, entries, st). unat budget - entries)")
    (auto intro: again_shrinks)

declare run_chain.simps [simp del]

subsection \<open>The hook\<close>

definition after_syscall :: "('w, 'f) glue \<Rightarrow> 'w hook_state \<Rightarrow> int \<times> 'w hook_state" where
  "after_syscall gl st =
    (let pc = pr_pc (hk_regs st)
     in case can_run gl st of
          (False, st) \<Rightarrow> (TO_USER, inc RunDeclined st)
        | (True, st) \<Rightarrow>
            (case run_lookup gl pc False st of
               (None, st) \<Rightarrow> (TO_USER, profile gl pc HOT_SVC_RESUME st)
             | (Some (run, entry), st) \<Rightarrow>
                 let budget = gl_chain_budget gl (hk_world st);
                     pc = pr_pc (hk_regs st);
                     ((ret, es), st) = run_chain gl budget pc run entry pc 1 st
                 in (ret, case es of Some n \<Rightarrow> st\<lparr>hk_tally := note_chain n (hk_tally st)\<rparr> | None \<Rightarrow> st)))"

text \<open>The hook call, with its tally flushed into the counters \<open>g\<close> of the CPU.\<close>

definition rs_after_syscall ::
  "('w, 'f) glue \<Rightarrow> 'w hook_state \<Rightarrow> (stat \<Rightarrow> u64) \<Rightarrow> (int \<times> (stat \<Rightarrow> u64)) \<times> 'w hook_state" where
  "rs_after_syscall gl st g =
    (let (ret, st) = after_syscall gl (st\<lparr>hk_tally := new_tally\<rparr>)
     in ((ret, flushed (hk_tally st) g), st))"

subsection \<open>The rule of a chain\<close>

lemma run_chain_rule:
  assumes "I run entry resume entries st"
    and "\<And>run entry resume entries st run' entry' resume' entries' st'. I run entry resume entries st \<Longrightarrow>
      chain_round gl budget pc run entry resume entries st = (Again run' entry' resume' entries', st') \<Longrightarrow>
      I run' entry' resume' entries' st'"
    and "\<And>run entry resume entries st ret es st'. I run entry resume entries st \<Longrightarrow>
      chain_round gl budget pc run entry resume entries st = (Stop ret es, st') \<Longrightarrow> Q ret es st'"
  shows "case run_chain gl budget pc run entry resume entries st of ((ret, es), st') \<Rightarrow> Q ret es st'"
  using assms(1)
proof (induction gl\<equiv>gl budget\<equiv>budget pc\<equiv>pc run entry resume entries st rule: run_chain.induct)
  case (1 run entry resume entries st)
  obtain e st' where e: "chain_round gl budget pc run entry resume entries st = (e, st')" by fastforce
  show ?case
  proof (cases e)
    case (Stop ret es)
    with assms(3) [OF 1(2)] e show ?thesis by (simp add: run_chain.simps)
  next
    case (Again run' entry' resume' entries')
    note r = e [unfolded Again]
    from 1(1) [OF r [symmetric] refl assms(2) [OF 1(2) r]] r show ?thesis by (subst run_chain.simps) simp
  qed
qed

lemma chain_round_cases:
  assumes "chain_round gl budget pc run entry resume entries st = (e, st')"
  obtains (declined) st1 where "run_call gl run entry st = (None, st1)" "st' = set_pc resume st1"
      "e = Stop TO_USER (if entries - 1 = 0 then None else Some (entries - 1))"
  | (svc) extra st1 where "run_call gl run entry st = (Some (as_reg RsSvc, extra), st1)"
      "svc_exit gl (extra 1) entries st1 = (e, st')"
  | (branch) status extra st1 where "run_call gl run entry st = (Some (status, extra), st1)" "is_branch_status status"
      "branch_exit gl budget run status (extra 0) entries st1 = (e, st')"
  | (plain) status extra st1 where "run_call gl run entry st = (Some (status, extra), st1)" "is_plain_status status"
      "plain_exit run status (extra 0) (extra 1) entries st1 = (e, st')"
  | (bad) status extra st1 where "run_call gl run entry st = (Some (status, extra), st1)" "status \<noteq> as_reg RsSvc"
      "\<not> is_branch_status status" "\<not> is_plain_status status" "bad_exit gl status pc (extra 1) entries st1 = (e, st')"
proof -
  obtain r st1 where r: "run_call gl run entry st = (r, st1)" by fastforce
  show thesis
  proof (cases r)
    case None
    with assms r declined show thesis by (simp add: chain_round_def)
  next
    case (Some x)
    obtain status extra where x: "x = (status, extra)" by fastforce
    note r' = r [unfolded Some x]
    from assms r' have e: "(if status = as_reg RsSvc then svc_exit gl (extra 1) entries st1
         else if is_branch_status status then branch_exit gl budget run status (extra 0) entries st1
         else if is_plain_status status then plain_exit run status (extra 0) (extra 1) entries st1
         else bad_exit gl status pc (extra 1) entries st1) = (e, st')" by (simp add: chain_round_def)
    show thesis
    proof (cases "status = as_reg RsSvc")
      case True
      with e svc [OF r' [unfolded True]] show thesis by simp
    next
      case False
      with e branch [OF r'] plain [OF r'] bad [OF r'] show thesis by (simp split: if_splits)
    qed
  qed
qed

lemma after_syscall_cases:
  assumes "after_syscall gl st = (ret, st')"
  obtains (declined) st1 where "can_run gl st = (False, st1)" "ret = TO_USER" "st' = inc RunDeclined st1"
  | (no_fragment) st1 st2 where "can_run gl st = (True, st1)" "run_lookup gl (pr_pc (hk_regs st)) False st1 = (None, st2)"
      "ret = TO_USER" "st' = profile gl (pr_pc (hk_regs st)) HOT_SVC_RESUME st2"
  | (chained) st1 run entry st2 es st3 where "can_run gl st = (True, st1)"
      "run_lookup gl (pr_pc (hk_regs st)) False st1 = (Some (run, entry), st2)"
      "run_chain gl (gl_chain_budget gl (hk_world st2)) (pr_pc (hk_regs st2)) run entry (pr_pc (hk_regs st2)) 1 st2 = ((ret, es), st3)"
      "st' = (case es of Some n \<Rightarrow> st3\<lparr>hk_tally := note_chain n (hk_tally st3)\<rparr> | None \<Rightarrow> st3)"
proof -
  obtain b st1 where c: "can_run gl st = (b, st1)" by fastforce
  obtain r st2 where l: "run_lookup gl (pr_pc (hk_regs st)) False st1 = (r, st2)" by fastforce
  show thesis
  proof (cases b)
    case False
    with assms c declined show thesis by (simp add: after_syscall_def)
  next
    case True
    show thesis
    proof (cases r)
      case None
      with assms c l True no_fragment show thesis by (simp add: after_syscall_def)
    next
      case (Some x)
      obtain run entry where x: "x = (run, entry)" by fastforce
      obtain ret' es st3 where ch: "run_chain gl (gl_chain_budget gl (hk_world st2)) (pr_pc (hk_regs st2)) run entry
          (pr_pc (hk_regs st2)) 1 st2 = ((ret', es), st3)" by (metis surj_pair)
      have "ret = ret'" "st' = (case es of Some n \<Rightarrow> st3\<lparr>hk_tally := note_chain n (hk_tally st3)\<rparr> | None \<Rightarrow> st3)"
        using assms c l Some x True ch by (simp_all add: after_syscall_def Let_def)
      with chained c l Some x True ch show thesis by simp
    qed
  qed
qed

section \<open>The counters of a hook call add up\<close>

text \<open>
  Every entry of a fragment is counted with exactly one exit, every branch exit with exactly one miss, and
  every syscall exit as run or declined. In \<open>balanced d m v\<close>, \<open>d\<close> entries have their exit still to come,
  \<open>m\<close> branch exits their miss, \<open>v\<close> syscall exits their outcome.
\<close>

definition branch_exits :: "(stat \<Rightarrow> u64) \<Rightarrow> u64" where
  "branch_exits c = c ExitBl + c ExitBlr + c ExitBr + c ExitRet"

definition misses :: "(stat \<Rightarrow> u64) \<Rightarrow> u64" where
  "misses c = c IbtcMissCold + c IbtcMissConflict + c IbtcMissOther + c IbtcFpsimdBoundary"

definition other_exits :: "(stat \<Rightarrow> u64) \<Rightarrow> u64" where
  "other_exits c = c ExitMem + c ExitUnsupported + c ExitBudget + c ExitInvalid"

definition balanced :: "u64 \<Rightarrow> u64 \<Rightarrow> u64 \<Rightarrow> tally \<Rightarrow> bool" where
  "balanced d m v t \<longleftrightarrow> tally_wf t
    \<and> branch_exits (ta_counts t) = misses (ta_counts t) + m
    \<and> ta_counts t FragmentEntries = ta_counts t ExitSvc + branch_exits (ta_counts t) + other_exits (ta_counts t) + d
    \<and> ta_counts t ExitSvc = ta_counts t SyscallsInKernel + ta_counts t SvcDeclined + v"

text \<open>What one more of a counter does to the sums.\<close>

lemma sums_inc:
  "misses (c(s := c s + 1)) = misses c + of_bool (s \<in> {IbtcMissCold, IbtcMissConflict, IbtcMissOther, IbtcFpsimdBoundary})"
  "branch_exits (c(s := c s + 1)) = branch_exits c + of_bool (s \<in> {ExitBl, ExitBlr, ExitBr, ExitRet})"
  "other_exits (c(s := c s + 1)) = other_exits c + of_bool (s \<in> {ExitMem, ExitUnsupported, ExitBudget, ExitInvalid})"
  by (auto simp: misses_def branch_exits_def other_exits_def stat_defs)

lemma sums_other:
  "s \<notin> {IbtcMissCold, IbtcMissConflict, IbtcMissOther, IbtcFpsimdBoundary} \<Longrightarrow> misses (c(s := x)) = misses c"
  "s \<notin> {ExitBl, ExitBlr, ExitBr, ExitRet} \<Longrightarrow> branch_exits (c(s := x)) = branch_exits c"
  "s \<notin> {ExitMem, ExitUnsupported, ExitBudget, ExitInvalid} \<Longrightarrow> other_exits (c(s := x)) = other_exits c"
  by (auto simp: misses_def branch_exits_def other_exits_def)

lemma balanced_free:
  "balanced d m v t \<Longrightarrow> s \<in> {Chains, ChainCap, RunDeclined, FpsimdEntries, FpsimdExitMem, FpsimdTrapDeclined, FpStickySet}
    \<Longrightarrow> balanced d m v (tally_inc s t)"
  by (auto simp: balanced_def sums_inc sums_other stat_defs)

lemma balanced_free_simps:
  assumes "balanced d m v t"
  shows "balanced d m v (tally_inc Chains t)" "balanced d m v (tally_inc ChainCap t)" "balanced d m v (tally_inc RunDeclined t)"
    "balanced d m v (tally_inc FpsimdEntries t)" "balanced d m v (tally_inc FpsimdExitMem t)"
    "balanced d m v (tally_inc FpsimdTrapDeclined t)" "balanced d m v (tally_inc FpStickySet t)"
  using balanced_free [OF assms] by simp_all

lemma balanced_entry: "balanced 0 m v t \<Longrightarrow> balanced 1 m v (tally_inc FragmentEntries t)"
  by (auto simp: balanced_def sums_inc sums_other stat_defs)

lemma balanced_svc: "balanced 1 m 0 t \<Longrightarrow> balanced 0 m 1 (tally_inc ExitSvc t)"
  by (auto simp: balanced_def sums_inc sums_other stat_defs)

lemma balanced_svc_end:
  assumes "balanced d m 1 t"
  shows "balanced d m 0 (tally_inc SyscallsInKernel t)" "balanced d m 0 (tally_inc SvcDeclined t)"
  using assms by (auto simp: balanced_def sums_inc sums_other stat_defs)

lemma balanced_branch: "balanced 1 0 v t \<Longrightarrow> balanced 0 1 v (tally_inc (branch_stat status) t)"
  by (auto simp: balanced_def sums_inc sums_other branch_stat_def stat_defs)

lemma balanced_miss:
  assumes "balanced d 1 v t"
  shows "balanced d 0 v (tally_inc (miss_stat sn) t)" "balanced d 0 v (tally_inc IbtcFpsimdBoundary t)"
  using assms miss_stat_cases [of sn] by (auto simp: balanced_def sums_inc sums_other stat_defs)

lemma balanced_other:
  assumes "balanced 1 m v t"
  shows "balanced 0 m v (tally_inc ExitMem t)" "balanced 0 m v (tally_inc ExitUnsupported t)"
    "balanced 0 m v (tally_inc ExitBudget t)" "balanced 0 m v (tally_inc ExitInvalid t)"
  using assms by (auto simp: balanced_def sums_inc sums_other stat_defs)

lemmas balanced_rules = balanced_free_simps balanced_svc balanced_svc_end balanced_branch balanced_miss balanced_other

subsection \<open>The tally of an exit\<close>

lemma entries_inc:
  "s \<noteq> FragmentEntries \<Longrightarrow> ta_counts (tally_inc s t) FragmentEntries = ta_counts t FragmentEntries"
  by simp

lemma not_entries [simp]: "branch_stat status \<noteq> FragmentEntries" "miss_stat sn \<noteq> FragmentEntries"
  by (simp_all add: branch_stat_def miss_stat_def stat_defs split: miss_class.splits)

lemma not_entries' [simp]: "Chains \<noteq> FragmentEntries" "ChainCap \<noteq> FragmentEntries" "RunDeclined \<noteq> FragmentEntries"
    "FpsimdEntries \<noteq> FragmentEntries" "FpsimdExitMem \<noteq> FragmentEntries" "FpsimdTrapDeclined \<noteq> FragmentEntries"
    "FpStickySet \<noteq> FragmentEntries" "ExitSvc \<noteq> FragmentEntries" "SyscallsInKernel \<noteq> FragmentEntries"
    "SvcDeclined \<noteq> FragmentEntries" "IbtcFpsimdBoundary \<noteq> FragmentEntries" "ExitMem \<noteq> FragmentEntries"
    "ExitUnsupported \<noteq> FragmentEntries" "ExitBudget \<noteq> FragmentEntries" "ExitInvalid \<noteq> FragmentEntries"
  by (simp_all add: stat_defs)

lemma inc_tally [simp]: "hk_tally (inc s st) = tally_inc s (hk_tally st)" "hk_regs (inc s st) = hk_regs st"
    "hk_world (inc s st) = hk_world st" "hk_words (inc s st) = hk_words st" "hk_diags (inc s st) = hk_diags st"
  by (simp_all add: inc_def)

lemma set_pc_tally [simp]: "hk_tally (set_pc pc st) = hk_tally st" "hk_world (set_pc pc st) = hk_world st"
    "hk_regs (set_pc pc st) = (hk_regs st)\<lparr>pr_pc := pc\<rparr>"
  by (simp_all add: set_pc_def)

lemma miss_tally [simp]: "hk_tally (miss sn target st) = tally_inc (miss_stat sn) (hk_tally st)"
    "hk_regs (miss sn target st) = hk_regs st" "hk_world (miss sn target st) = hk_world st"
  by (simp_all add: miss_def note_miss_def)

lemma profile_tally [simp]: "hk_tally (profile gl pc kind st) = hk_tally st" "hk_regs (profile gl pc kind st) = hk_regs st"
  by (simp_all add: profile_def)

lemma can_run_tally: "can_run gl st = (b, st') \<Longrightarrow> hk_tally st' = hk_tally st \<and> hk_regs st' = hk_regs st"
  by (auto simp: can_run_def split: prod.splits)

lemma run_link_tally: "run_link gl run pc st = (r, st') \<Longrightarrow> hk_tally st' = hk_tally st \<and> hk_regs st' = hk_regs st"
  by (auto simp: run_link_def split: prod.splits)

lemma run_lookup_tally: "run_lookup gl pc lnk st = (r, st') \<Longrightarrow> hk_tally st' = hk_tally st \<and> hk_regs st' = hk_regs st"
  by (auto simp: run_lookup_def Let_def split: prod.splits option.splits)

lemma make_sticky_tally [simp]:
  "hk_tally (run_make_sticky gl run st) =
    (if fst (gl_set_fp_sticky gl (rn_frag run) (hk_world st)) then tally_inc FpStickySet (hk_tally st) else hk_tally st)"
  "hk_regs (run_make_sticky gl run st) = hk_regs st"
  by (auto simp: run_make_sticky_def Let_def split: prod.splits)

definition settled :: "'w hook_state \<Rightarrow> 'w hook_state \<Rightarrow> bool" where
  "settled st st' \<longleftrightarrow> balanced 0 0 0 (hk_tally st')
    \<and> ta_counts (hk_tally st') FragmentEntries = ta_counts (hk_tally st) FragmentEntries
    \<and> ta_chain (hk_tally st') = ta_chain (hk_tally st)"

lemma svc_settled:
  assumes "balanced 1 0 0 (hk_tally st)" "svc_exit gl p entries st = (e, st')"
  shows "settled st st' \<and> (\<exists>ret. e = Stop ret (Some entries))"
  using assms by (auto simp: svc_exit_def settled_def Let_def entries_inc balanced_rules simp del: tally_inc_simps(1,3)
      dest!: can_run_tally split: prod.splits if_splits)

lemma plain_settled:
  assumes "balanced 1 0 0 (hk_tally st)" "plain_exit run status p q entries st = (e, st')"
  shows "settled st st' \<and> (\<exists>ret. e = Stop ret (Some entries))"
  using assms by (auto simp: plain_exit_def settled_def Let_def entries_inc balanced_rules simp del: tally_inc_simps(1,3))

lemma bad_settled:
  assumes "balanced 1 0 0 (hk_tally st)" "bad_exit gl status p q entries st = (e, st')"
  shows "settled st st' \<and> (\<exists>ret. e = Stop ret (Some entries))"
  using assms by (auto simp: bad_exit_def settled_def Let_def entries_inc balanced_rules simp del: tally_inc_simps(1,3))

lemma branch_settled:
  assumes "balanced 1 0 0 (hk_tally st)" "branch_exit gl budget run status target entries st = (e, st')"
  shows "settled st st' \<and> (\<forall>ret es. e = Stop ret es \<longrightarrow> es = Some entries)"
  using assms(2) balanced_branch [OF assms(1), of status]
  by (auto simp: branch_exit_def branch_end_def settled_def Let_def entries_inc balanced_rules simp del: tally_inc_simps(1,3)
      dest!: can_run_tally run_link_tally run_lookup_tally split: prod.splits option.splits if_splits bool.splits)

subsection \<open>The tally of a chain\<close>

definition entries_at :: "nat \<Rightarrow> 'w hook_state \<Rightarrow> bool" where
  "entries_at n st \<longleftrightarrow> balanced 0 0 0 (hk_tally st) \<and> ta_counts (hk_tally st) FragmentEntries = of_nat n
    \<and> ta_chain (hk_tally st) = None"

lemma call_counted:
  assumes "run_call gl run entry st = (r, st')" "entries_at n st"
  shows "r = None \<Longrightarrow> entries_at n st'"
    and "r = Some x \<Longrightarrow> balanced 1 0 0 (hk_tally st') \<and> ta_counts (hk_tally st') FragmentEntries = of_nat (Suc n)
      \<and> ta_chain (hk_tally st') = None"
  using assms
  by (auto simp: run_call_def entries_at_def Let_def entries_inc balanced_rules balanced_entry simp del: tally_inc_simps(1,3)
      split: prod.splits option.splits if_splits)
    (simp_all add: algebra_simps)

lemma round_counted:
  assumes "chain_round gl budget pc run entry resume entries st = (e, st')" "entries_at (entries - 1) st" "1 \<le> entries"
  shows "case e of Stop ret es \<Rightarrow> entries_at (case es of None \<Rightarrow> 0 | Some n \<Rightarrow> n) st' \<and> es \<in> {None, Some (entries - 1), Some entries} \<and> es \<noteq> Some 0
    | Again run' entry' resume' entries' \<Rightarrow> entries_at entries st'"
proof -
  have pay: "?thesis" if "run_call gl run entry st = (Some x, st1)"
    "balanced 1 0 0 (hk_tally st1) \<Longrightarrow> settled st1 st' \<and> (\<forall>ret es. e = Stop ret es \<longrightarrow> es = Some entries)" for x st1
  proof -
    from call_counted(2) [OF that(1) assms(2) refl] assms(3) have c: "balanced 1 0 0 (hk_tally st1)"
      "ta_counts (hk_tally st1) FragmentEntries = of_nat entries" "ta_chain (hk_tally st1) = None" by auto
    from that(2) [OF c(1)] c(2,3) assms(3) show ?thesis by (auto simp: settled_def entries_at_def split: round_end.splits)
  qed
  from assms(1) show ?thesis
  proof (cases rule: chain_round_cases)
    case (declined st1)
    have "entries_at (entries - 1) (set_pc resume st1)"
      using call_counted(1) [OF declined(1) assms(2) refl] by (simp add: entries_at_def)
    with declined show ?thesis by auto
  next
    case (svc extra st1)
    from pay [OF this(1)] svc_settled [OF _ this(2)] show ?thesis by auto
  next
    case (branch status extra st1)
    from pay [OF this(1)] branch_settled [OF _ this(3)] show ?thesis by auto
  next
    case (plain status extra st1)
    from pay [OF this(1)] plain_settled [OF _ this(3)] show ?thesis by auto
  next
    case (bad status extra st1)
    from pay [OF this(1)] bad_settled [OF _ this(5)] show ?thesis by auto
  qed
qed

lemma chain_counted:
  assumes "entries_at 0 st"
  shows "case run_chain gl budget pc run entry resume 1 st of ((ret, es), st') \<Rightarrow>
    entries_at (case es of None \<Rightarrow> 0 | Some n \<Rightarrow> n) st' \<and> es \<noteq> Some 0 \<and> (\<forall>n. es = Some n \<longrightarrow> n \<le> max 1 (unat budget))"
proof (rule run_chain_rule [where I = "\<lambda>run entry resume entries st. entries_at (entries - 1) st \<and> 1 \<le> entries \<and> entries \<le> max 1 (unat budget)"])
  fix run entry resume entries st run' entry' resume' entries' st'
  assume I: "entries_at (entries - 1) st \<and> 1 \<le> entries \<and> entries \<le> max 1 (unat budget)"
    and r: "chain_round gl budget pc run entry resume entries st = (Again run' entry' resume' entries', st')"
  from round_counted [OF r] I again_within_budget [OF r]
  show "entries_at (entries' - 1) st' \<and> 1 \<le> entries' \<and> entries' \<le> max 1 (unat budget)" by simp
next
  fix run entry resume entries st ret es st'
  assume I: "entries_at (entries - 1) st \<and> 1 \<le> entries \<and> entries \<le> max 1 (unat budget)"
    and r: "chain_round gl budget pc run entry resume entries st = (Stop ret es, st')"
  from round_counted [OF r] I
  show "entries_at (case es of None \<Rightarrow> 0 | Some n \<Rightarrow> n) st' \<and> es \<noteq> Some 0 \<and> (\<forall>n. es = Some n \<longrightarrow> n \<le> max 1 (unat budget))"
    by auto
qed (use assms in simp)

lemma hook_counted:
  assumes "hk_tally st = new_tally" "after_syscall gl st = (ret, st')"
  shows "balanced 0 0 0 (hk_tally st')"
    and "ta_counts (hk_tally st') FragmentEntries = of_nat (case ta_chain (hk_tally st') of None \<Rightarrow> 0 | Some n \<Rightarrow> n)"
proof -
  have new: "balanced 0 0 0 new_tally" "ta_counts new_tally FragmentEntries = 0" "ta_chain new_tally = None"
    using tally_wf_simps(1) by (simp_all add: balanced_def branch_exits_def misses_def other_exits_def new_tally_def)
  from assms(2) have "balanced 0 0 0 (hk_tally st') \<and> ta_counts (hk_tally st') FragmentEntries =
      of_nat (case ta_chain (hk_tally st') of None \<Rightarrow> 0 | Some n \<Rightarrow> n)"
  proof (cases rule: after_syscall_cases)
    case (declined st1)
    then show ?thesis
      using can_run_tally [OF declined(1)] assms(1) new by (simp add: balanced_free_simps entries_inc del: tally_inc_simps(1,3))
  next
    case (no_fragment st1 st2)
    then show ?thesis
      using can_run_tally [OF no_fragment(1)] run_lookup_tally [OF no_fragment(2)] assms(1) new by simp
  next
    case (chained st1 run entry st2 es st3)
    have "entries_at 0 st2"
      using can_run_tally [OF chained(1)] run_lookup_tally [OF chained(2)] assms(1) new by (simp add: entries_at_def)
    from chain_counted [OF this, where gl = gl and budget = "gl_chain_budget gl (hk_world st2)"
        and pc = "pr_pc (hk_regs st2)" and resume = "pr_pc (hk_regs st2)" and run = run and entry = entry]
    have "entries_at (case es of None \<Rightarrow> 0 | Some n \<Rightarrow> n) st3" unfolding chained(3) by simp
    with chained(4) show ?thesis by (auto simp: entries_at_def balanced_def split: option.splits)
  qed
  then show "balanced 0 0 0 (hk_tally st')" and "ta_counts (hk_tally st') FragmentEntries = of_nat (case ta_chain (hk_tally st') of None \<Rightarrow> 0 | Some n \<Rightarrow> n)"
    by blast+
qed


end
