(* ===== verification/RtHook.thy ===== *)
theory RtHook
  imports RtExec
begin

section \<open>What a hook call asks of the kernel\<close>

text \<open>
  The same glue with a record of what it is asked and what it answers, the newest event first. The hook
  cannot see the record; it is how the theorems below speak of the order of its calls. An event of a
  fragment call holds the bracket, the entry address, the base, the dispatch table passed, and, unless it
  was declined, the registers it left, its status and the two exit parameters.
\<close>

datatype (plugins only: code size) 'f event =
    EvCanRun bool | EvFound 'f u64 | EvClass 'f run_class | EvLinked 'f u64 | EvOther
  | EvCall bool u64 u64 u64 "(pt_regs \<times> u64 \<times> u64 \<times> u64) option"

type_synonym ('w, 'f) traced_world = "'w \<times> 'f event list"

definition traced :: "('w, 'f) glue \<Rightarrow> (('w, 'f) traced_world, 'f) glue" where
  "traced gl = \<lparr>
    gl_can_run = (\<lambda>regs (w, tr). let (b, w) = gl_can_run gl regs w in (b, (w, EvCanRun b # tr))),
    gl_lookup = (\<lambda>pc lnk (w, tr). case gl_lookup gl pc lnk w of
        (None, w) \<Rightarrow> (None, (w, EvOther # tr)) | (Some (f, e), w) \<Rightarrow> (Some (f, e), (w, EvFound f e # tr))),
    gl_frag_link = (\<lambda>f pc (w, tr). let (h, w) = gl_frag_link gl f pc w in (h, (w, EvLinked f h # tr))),
    gl_run_class = (\<lambda>f (w, tr). let (c, w) = gl_run_class gl f w in (c, (w, EvClass f c # tr))),
    gl_set_fp_sticky = (\<lambda>f (w, tr). let (b, w) = gl_set_fp_sticky gl f w in (b, (w, EvOther # tr))),
    gl_bad_status = (\<lambda>status pc (w, tr). (gl_bad_status gl status pc w, EvOther # tr)),
    gl_call = (\<lambda>regs extra entry base (w, tr).
      let ((status, regs', extra'), w) = gl_call gl regs extra entry base w
      in ((status, regs', extra'), (w, EvCall False entry base (extra EXTRA_PARAM_IBTC_TABLE_INDEX)
            (Some (regs', status, extra' 0, extra' 1)) # tr))),
    gl_call_fpsimd = (\<lambda>regs extra entry base (w, tr). case gl_call_fpsimd gl regs extra entry base w of
        (None, w) \<Rightarrow> (None, (w, EvCall True entry base (extra EXTRA_PARAM_IBTC_TABLE_INDEX) None # tr))
      | (Some (status, regs', extra'), w) \<Rightarrow> (Some (status, regs', extra'), (w, EvCall True entry base
            (extra EXTRA_PARAM_IBTC_TABLE_INDEX) (Some (regs', status, extra' 0, extra' 1)) # tr))),
    gl_profile = (\<lambda>pc kind (w, tr). (gl_profile gl pc kind w, EvOther # tr)),
    gl_chain_budget = (\<lambda>(w, tr). gl_chain_budget gl w),
    gl_mem = (\<lambda>(w, tr). gl_mem gl w)\<rparr>"

abbreviation tr_of :: "('w, 'f) traced_world hook_state \<Rightarrow> 'f event list" where
  "tr_of st \<equiv> snd (hk_world st)"

subsection \<open>What must hold of a trace\<close>

text \<open>The kernel said yes since the last fragment call.\<close>

fun armed :: "'f event list \<Rightarrow> bool" where
  "armed [] = False"
| "armed (EvCanRun b # tr) = b"
| "armed (EvCall brk entry base table r # tr) = False"
| "armed (_ # tr) = armed tr"

text \<open>A call at an address the kernel gave for a fragment, with the class it gave for that fragment.\<close>

definition call_ok :: "bool \<Rightarrow> u64 \<Rightarrow> u64 \<Rightarrow> u64 \<Rightarrow> 'f event list \<Rightarrow> bool" where
  "call_ok brk entry base table tr \<longleftrightarrow> armed tr
    \<and> (\<exists>f c. EvClass f c \<in> set tr \<and> rc_base c = base \<and> rc_table c = table \<and> rc_bracketed c = brk
        \<and> (EvFound f entry \<in> set tr \<or> EvLinked f entry \<in> set tr \<and> entry \<noteq> 0))"

fun calls_ok :: "'f event list \<Rightarrow> bool" where
  "calls_ok [] = True"
| "calls_ok (EvCall brk entry base table r # tr) = (call_ok brk entry base table tr \<and> calls_ok tr)"
| "calls_ok (_ # tr) = calls_ok tr"

fun call_count :: "'f event list \<Rightarrow> nat" where
  "call_count [] = 0"
| "call_count (EvCall brk entry base table r # tr) = Suc (call_count tr)"
| "call_count (_ # tr) = call_count tr"

text \<open>Where the user is: the registers the last call that ran left, at the pc its exit stands for.\<close>

definition exit_pc :: "u64 \<Rightarrow> u64 \<Rightarrow> u64 \<Rightarrow> u64" where
  "exit_pc status param0 param1 =
    (if status = as_reg RsSvc then param1 - 4 else if is_branch_status status then param0 else param1)"

fun user_regs :: "pt_regs \<Rightarrow> 'f event list \<Rightarrow> pt_regs" where
  "user_regs init [] = init"
| "user_regs init (EvCall brk entry base table (Some (regs, status, param0, param1)) # tr) =
    regs\<lparr>pr_pc := exit_pc status param0 param1\<rparr>"
| "user_regs init (_ # tr) = user_regs init tr"

fun ran_count :: "'f event list \<Rightarrow> nat" where
  "ran_count [] = 0"
| "ran_count (EvCall brk entry base table (Some r) # tr) = Suc (ran_count tr)"
| "ran_count (_ # tr) = ran_count tr"

subsection \<open>What each step adds to the trace\<close>

lemma can_run_trace:
  "can_run (traced gl) st = (b, st') \<Longrightarrow> tr_of st' = EvCanRun b # tr_of st \<and> hk_regs st' = hk_regs st"
  by (cases "hk_world st") (auto simp: can_run_def traced_def Let_def split: prod.splits)

lemma run_link_trace:
  "run_link (traced gl) run pc st = (r, st') \<Longrightarrow>
    \<exists>h. tr_of st' = EvLinked (rn_frag run) h # tr_of st \<and> hk_regs st' = hk_regs st \<and> r = (if h = 0 then None else Some h)"
  by (cases "hk_world st") (auto simp: run_link_def traced_def Let_def split: prod.splits)

definition class_of :: "'f running \<Rightarrow> run_class" where
  "class_of run = \<lparr>rc_base = rn_base run, rc_table = rn_table run, rc_uses_fpsimd = rn_uses_fpsimd run,
     rc_bracketed = rn_bracketed run\<rparr>"

lemma run_lookup_trace:
  "run_lookup (traced gl) pc lnk st = (r, st') \<Longrightarrow> hk_regs st' = hk_regs st
    \<and> tr_of st' = (case r of None \<Rightarrow> EvOther # tr_of st
        | Some (run, entry) \<Rightarrow> EvClass (rn_frag run) (class_of run) # EvFound (rn_frag run) entry # tr_of st)"
  by (cases "hk_world st")
    (auto simp: run_lookup_def traced_def class_of_def Let_def split: prod.splits option.splits)

lemma run_call_trace:
  "run_call (traced gl) run entry st = (r, st') \<Longrightarrow>
    (case r of
       None \<Rightarrow> hk_regs st' = hk_regs st
         \<and> tr_of st' = EvCall (rn_bracketed run) entry (rn_base run) (rn_table run) None # tr_of st
     | Some (status, extra) \<Rightarrow> tr_of st' = EvCall (rn_bracketed run) entry (rn_base run) (rn_table run)
         (Some (hk_regs st', status, extra 0, extra 1)) # tr_of st)"
  by (cases "hk_world st") (auto simp: run_call_def traced_def Let_def split: prod.splits option.splits if_splits)

lemma profile_trace: "tr_of (profile (traced gl) pc kind st) = EvOther # tr_of st"
  by (simp add: profile_def traced_def split: prod.splits)

lemma make_sticky_trace: "tr_of (run_make_sticky (traced gl) run st) = EvOther # tr_of st"
  by (cases "hk_world st") (auto simp: run_make_sticky_def traced_def Let_def split: prod.splits)

lemma bad_status_trace: "snd (gl_bad_status (traced gl) status pc w) = EvOther # snd w"
  by (cases w) (simp add: traced_def)

subsection \<open>A chain\<close>

definition known_run :: "'f running \<Rightarrow> u64 \<Rightarrow> 'f event list \<Rightarrow> bool" where
  "known_run run entry tr \<longleftrightarrow> EvClass (rn_frag run) (class_of run) \<in> set tr
    \<and> (EvFound (rn_frag run) entry \<in> set tr \<or> EvLinked (rn_frag run) entry \<in> set tr \<and> entry \<noteq> 0)"

lemma known_call_ok:
  "known_run run entry tr \<Longrightarrow> armed tr \<Longrightarrow> call_ok (rn_bracketed run) entry (rn_base run) (rn_table run) tr"
  unfolding call_ok_def known_run_def
  by (intro conjI exI [of _ "rn_frag run"] exI [of _ "class_of run"]) (auto simp: class_of_def)

definition chain_at :: "pt_regs \<Rightarrow> 'f running \<Rightarrow> u64 \<Rightarrow> u64 \<Rightarrow> nat \<Rightarrow> ('w, 'f) traced_world hook_state \<Rightarrow> bool" where
  "chain_at init run entry resume entries st \<longleftrightarrow> 1 \<le> entries \<and> calls_ok (tr_of st) \<and> armed (tr_of st)
    \<and> known_run run entry (tr_of st) \<and> user_regs init (tr_of st) = (hk_regs st)\<lparr>pr_pc := resume\<rparr>
    \<and> call_count (tr_of st) = entries - 1 \<and> ran_count (tr_of st) = entries - 1"

definition chain_ends :: "pt_regs \<Rightarrow> nat \<Rightarrow> int \<Rightarrow> nat option \<Rightarrow> ('w, 'f) traced_world hook_state \<Rightarrow> bool" where
  "chain_ends init n ret es st \<longleftrightarrow> calls_ok (tr_of st) \<and> call_count (tr_of st) = n
    \<and> (ret = TO_USER \<and> hk_regs st = user_regs init (tr_of st)
      \<or> armed (tr_of st) \<and> 0 \<le> ret \<and> ret = sint (ucast (pr_regs (hk_regs st) 8) :: u32)
        \<and> hk_regs st = (user_regs init (tr_of st))\<lparr>pr_pc := pr_pc (user_regs init (tr_of st)) + 4\<rparr>)
    \<and> es = (if ran_count (tr_of st) = 0 then None else Some (ran_count (tr_of st)))
    \<and> call_count (tr_of st) \<le> Suc (ran_count (tr_of st))"

text \<open>A call that ran, as the newest event.\<close>

definition called :: "'f running \<Rightarrow> u64 \<Rightarrow> nat \<Rightarrow> u64 \<Rightarrow> u64 \<Rightarrow> u64 \<Rightarrow> ('w, 'f) traced_world hook_state \<Rightarrow> bool" where
  "called run entry entries status p q st \<longleftrightarrow> 1 \<le> entries \<and> known_run run entry (tr_of st) \<and>
    (\<exists>tr. tr_of st = EvCall (rn_bracketed run) entry (rn_base run) (rn_table run) (Some (hk_regs st, status, p, q)) # tr
      \<and> call_ok (rn_bracketed run) entry (rn_base run) (rn_table run) tr \<and> calls_ok tr
      \<and> ran_count tr = entries - 1 \<and> call_count tr = entries - 1)"

lemma svc_trace:
  assumes "svc_exit (traced gl) q entries st = (e, st')" "called run entry entries (as_reg RsSvc) p q st"
  shows "\<exists>ret es. e = Stop ret es \<and> chain_ends init entries ret es st'"
  using assms
  by (auto simp: svc_exit_def called_def chain_ends_def exit_pc_def Let_def dest!: can_run_trace split: prod.splits if_splits)

lemma plain_trace:
  assumes "plain_exit run status p q entries st = (e, st')" "called run entry entries status p q st" "is_plain_status status"
  shows "\<exists>ret es. e = Stop ret es \<and> chain_ends init entries ret es st'"
  using assms
  by (auto simp: plain_exit_def called_def chain_ends_def exit_pc_def Let_def is_plain_status_def is_branch_status_def split: if_splits)

lemma bad_trace:
  assumes "bad_exit (traced gl) status pc q entries st = (e, st')" "called run entry entries status p q st"
    and "status \<noteq> as_reg RsSvc" "\<not> is_branch_status status"
  shows "\<exists>ret es. e = Stop ret es \<and> chain_ends init entries ret es st'"
  using assms
  by (auto simp: bad_exit_def called_def chain_ends_def exit_pc_def Let_def bad_status_trace)

lemma branch_trace:
  assumes "branch_exit (traced gl) budget run status p entries st = (e, st')" "called run entry entries status p q st"
    and "is_branch_status status"
  shows "case e of Stop ret es \<Rightarrow> chain_ends init entries ret es st'
    | Again run' entry' resume' entries' \<Rightarrow> entries' = Suc entries \<longrightarrow> chain_at init run' entry' resume' entries' st'"
proof -
  have st: "status \<noteq> as_reg RsSvc" using assms(3) by (auto simp: is_branch_status_def)
  show ?thesis
    using assms st
    by (auto simp: branch_exit_def branch_end_def called_def chain_ends_def chain_at_def known_run_def exit_pc_def Let_def
        profile_trace make_sticky_trace dest!: can_run_trace run_link_trace run_lookup_trace
        split: prod.splits option.splits if_splits bool.splits)
qed

lemma call_trace:
  assumes "run_call (traced gl) run entry st = (r, st1)" "chain_at init run entry resume entries st"
  shows "r = None \<Longrightarrow> chain_ends init entries TO_USER (if entries - 1 = 0 then None else Some (entries - 1)) (set_pc resume st1)"
    and "r = Some (status, extra) \<Longrightarrow> called run entry entries status (extra 0) (extra 1) st1"
  using run_call_trace [OF assms(1)] assms(2) known_call_ok [of run entry "tr_of st"]
  by (auto simp: chain_at_def chain_ends_def called_def known_run_def)

lemma round_trace:
  assumes "chain_round (traced gl) budget pc run entry resume entries st = (e, st')" "chain_at init run entry resume entries st"
  shows "case e of Stop ret es \<Rightarrow> chain_ends init entries ret es st'
    | Again run' entry' resume' entries' \<Rightarrow> chain_at init run' entry' resume' entries' st'"
  using assms(1)
proof (cases rule: chain_round_cases)
  case (declined st1)
  with call_trace(1) [OF declined(1) assms(2) refl] show ?thesis by simp
next
  case (svc extra st1)
  from svc_trace [OF svc(2) call_trace(2) [OF svc(1) assms(2) refl], of init] show ?thesis by auto
next
  case (branch status extra st1)
  from branch_trace [OF branch(3) call_trace(2) [OF branch(1) assms(2) refl] branch(2)] assms(1)
  show ?thesis by (auto split: round_end.splits dest: again_within_budget(2))
next
  case (plain status extra st1)
  from plain_trace [OF plain(3) call_trace(2) [OF plain(1) assms(2) refl] plain(2), of init] show ?thesis by auto
next
  case (bad status extra st1)
  from bad_trace [OF bad(5) call_trace(2) [OF bad(1) assms(2) refl] bad(2,3), of init] show ?thesis by auto
qed

lemma chain_trace:
  assumes "chain_at init run entry resume 1 st"
  shows "case run_chain (traced gl) budget pc run entry resume 1 st of ((ret, es), st') \<Rightarrow>
    (\<exists>n \<le> max 1 (unat budget). chain_ends init n ret es st')"
proof (rule run_chain_rule [where I = "\<lambda>run entry resume entries st. chain_at init run entry resume entries st \<and> entries \<le> max 1 (unat budget)"])
  fix run entry resume entries st run' entry' resume' entries' st'
  assume I: "chain_at init run entry resume entries st \<and> entries \<le> max 1 (unat budget)"
    and r: "chain_round (traced gl) budget pc run entry resume entries st = (Again run' entry' resume' entries', st')"
  show "chain_at init run' entry' resume' entries' st' \<and> entries' \<le> max 1 (unat budget)"
    using round_trace [OF r] I again_within_budget [OF r] by auto
next
  fix run entry resume entries st ret es st'
  assume I: "chain_at init run entry resume entries st \<and> entries \<le> max 1 (unat budget)"
    and r: "chain_round (traced gl) budget pc run entry resume entries st = (Stop ret es, st')"
  show "(\<exists>n \<le> max 1 (unat budget). chain_ends init n ret es st')"
    using round_trace [OF r] I by auto
qed (use assms in simp)

section \<open>The record is invisible\<close>

text \<open>A hook call on the recording glue does, without the record, what it does on the glue itself.\<close>

definition erase :: "('w, 'f) traced_world hook_state \<Rightarrow> 'w hook_state" where
  "erase st = \<lparr>hk_world = fst (hk_world st), hk_regs = hk_regs st, hk_tally = hk_tally st, hk_diags = hk_diags st,
     hk_words = hk_words st\<rparr>"

lemma erase_fields:
  "hk_regs (erase st) = hk_regs st" "hk_tally (erase st) = hk_tally st" "hk_words (erase st) = hk_words st"
  "hk_diags (erase st) = hk_diags st"
  "gl_mem gl (hk_world (erase st)) = gl_mem (traced gl) (hk_world st)"
  "gl_chain_budget gl (hk_world (erase st)) = gl_chain_budget (traced gl) (hk_world st)"
  by (cases "hk_world st"; simp add: erase_def traced_def)+

lemma erase_updates:
  "inc s (erase st) = erase (inc s st)" "set_pc pc (erase st) = erase (set_pc pc st)"
  "miss sn target (erase st) = erase (miss sn target st)"
  "(erase st)\<lparr>hk_words := ws\<rparr> = erase (st\<lparr>hk_words := ws\<rparr>)" "(erase st)\<lparr>hk_tally := t\<rparr> = erase (st\<lparr>hk_tally := t\<rparr>)"
  by (simp_all add: erase_def inc_def set_pc_def miss_def note_miss_def)

lemma erase_ops:
  "can_run gl (erase st) = apsnd erase (can_run (traced gl) st)"
  "run_link gl run pc (erase st) = apsnd erase (run_link (traced gl) run pc st)"
  "run_lookup gl pc lnk (erase st) = apsnd erase (run_lookup (traced gl) pc lnk st)"
  "run_call gl run entry (erase st) = apsnd erase (run_call (traced gl) run entry st)"
  "profile gl pc kind (erase st) = erase (profile (traced gl) pc kind st)"
  "run_make_sticky gl run (erase st) = erase (run_make_sticky (traced gl) run st)"
  by (cases "hk_world st"; auto simp: can_run_def run_link_def run_lookup_def run_call_def profile_def run_make_sticky_def inc_def
      erase_def traced_def Let_def split: prod.splits option.splits)+

lemma erase_plain: "plain_exit run status p q entries (erase st) = apsnd erase (plain_exit run status p q entries st)"
  by (simp add: plain_exit_def Let_def erase_updates erase_fields)

lemma erase_round:
  "chain_round gl budget pc run entry resume entries (erase st) =
    apsnd erase (chain_round (traced gl) budget pc run entry resume entries st)"
proof -
  have svc: "svc_exit gl p entries (erase st) = apsnd erase (svc_exit (traced gl) p entries st)" for p st
    by (auto simp: svc_exit_def Let_def erase_updates erase_ops erase_fields split: prod.splits)
  have branch: "branch_exit gl budget run status p entries (erase st) =
      apsnd erase (branch_exit (traced gl) budget run status p entries st)" for status p st
    by (auto simp: branch_exit_def branch_end_def Let_def erase_updates erase_ops erase_fields
        split: prod.splits option.splits bool.splits)
  have bad: "bad_exit gl status pc q entries (erase st) = apsnd erase (bad_exit (traced gl) status pc q entries st)" for status q st
    by (cases "hk_world st") (simp add: bad_exit_def Let_def erase_updates erase_fields, simp add: erase_def traced_def set_pc_def inc_def)
  show ?thesis
    by (auto simp: chain_round_def erase_ops erase_updates svc branch erase_plain bad split: prod.splits option.splits)
qed

lemma erase_chain:
  "run_chain gl budget pc run entry resume entries (erase st) =
    apsnd erase (run_chain (traced gl) budget pc run entry resume entries st)"
proof (induction "traced gl" budget pc run entry resume entries st rule: run_chain.induct)
  case (1 budget pc run entry resume entries st)
  obtain e st' where e: "chain_round (traced gl) budget pc run entry resume entries st = (e, st')" by fastforce
  show ?case
  proof (cases e)
    case (Stop ret es)
    with e show ?thesis by (simp add: run_chain.simps erase_round)
  next
    case (Again run' entry' resume' entries')
    from 1 [OF e [unfolded Again, symmetric] refl] e Again show ?thesis
      by (subst (1 2) run_chain.simps) (simp add: erase_round)
  qed
qed

lemma erase_hook: "after_syscall gl (erase st) = apsnd erase (after_syscall (traced gl) st)"
  by (auto simp: after_syscall_def Let_def erase_ops erase_updates erase_fields erase_chain split: prod.splits option.splits bool.splits)

section \<open>The hook: what the kernel allowed, where the user resumes, how long it runs\<close>

text \<open>
  The three properties of a hook call, on the record of what it asked. The first two also say that the hook
  does the same without the record.
\<close>


lemma hook_chain_at:
  assumes "can_run (traced gl) st = (True, st1)" "run_lookup (traced gl) pc lnk st1 = (Some (run, entry), st2)"
    and "tr_of st = []"
  shows "chain_at (hk_regs st) run entry (pr_pc (hk_regs st2)) 1 st2" "hk_regs st2 = hk_regs st"
  using can_run_trace [OF assms(1)] run_lookup_trace [OF assms(2)] assms(3)
  by (simp_all add: chain_at_def known_run_def)

text \<open>
  C35: no fragment is entered and no syscall number is handed back, without the kernel's consent. In any
  hook call, whatever the C side answers, \<open>kjit_can_run\<close> said yes since the fragment call before (so at
  every entry, chained ones included, and after the last run when the hook returns a syscall to invoke);
  and every call is at an address the kernel gave for a fragment, by a lookup or as the link of a target,
  with the base, the dispatch table and the bracket of that same fragment's class.
\<close>

theorem entries_cleared_by_kernel:
  "case after_syscall (traced gl) (st\<lparr>hk_world := (w, [])\<rparr>) of (ret, st') \<Rightarrow>
     after_syscall gl (erase (st\<lparr>hk_world := (w, [])\<rparr>)) = (ret, erase st')
     \<and> calls_ok (tr_of st') \<and> (ret = TO_USER \<or> armed (tr_of st'))"
proof -
  let ?st = "st\<lparr>hk_world := (w, [])\<rparr>"
  obtain ret st' where h: "after_syscall (traced gl) ?st = (ret, st')" by fastforce
  from h have "calls_ok (tr_of st') \<and> (ret = TO_USER \<or> armed (tr_of st'))"
  proof (cases rule: after_syscall_cases)
    case (declined st1)
    with can_run_trace [OF declined(1)] show ?thesis by simp
  next
    case (no_fragment st1 st2)
    with can_run_trace [OF no_fragment(1)] run_lookup_trace [OF no_fragment(2)] show ?thesis by (simp add: profile_trace)
  next
    case (chained st1 run entry st2 es st3)
    note c = hook_chain_at [OF chained(1,2)]
    from chain_trace [OF c(1), where gl = gl and budget = "gl_chain_budget (traced gl) (hk_world st2)"
        and pc = "pr_pc (hk_regs st2)"] chained(3,4)
    show ?thesis by (auto simp: chain_ends_def split: option.splits)
  qed
  with h erase_hook [of gl ?st] show ?thesis by simp
qed

text \<open>
  C34: the user resumes exactly where the fragments left off. After any hook call that returns to user
  space, the registers are those the last fragment that ran left (those of the hook, when none ran), at the
  pc its exit stands for: the target of a branch exit, the \<open>SVC\<close> itself, or the instruction reported; also
  when a chained entry was declined. A hook call that returns a number returns x8's low word as a
  non-negative \<open>int\<close>, and the pc is then the one after the \<open>SVC\<close>.
\<close>

theorem user_resumes_exactly:
  "case after_syscall (traced gl) (st\<lparr>hk_world := (w, [])\<rparr>) of (ret, st') \<Rightarrow>
     let user = user_regs (hk_regs st) (tr_of st')
     in after_syscall gl (erase (st\<lparr>hk_world := (w, [])\<rparr>)) = (ret, erase st')
        \<and> (ret = TO_USER \<and> hk_regs st' = user
        \<or> 0 \<le> ret \<and> ret = sint (ucast (pr_regs user 8) :: u32) \<and> hk_regs st' = user\<lparr>pr_pc := pr_pc user + 4\<rparr>)"
proof -
  let ?st = "st\<lparr>hk_world := (w, [])\<rparr>"
  obtain ret st' where h: "after_syscall (traced gl) ?st = (ret, st')" by fastforce
  let ?user = "user_regs (hk_regs st) (tr_of st')"
  from h have "ret = TO_USER \<and> hk_regs st' = ?user
      \<or> 0 \<le> ret \<and> ret = sint (ucast (pr_regs ?user 8) :: u32) \<and> hk_regs st' = ?user\<lparr>pr_pc := pr_pc ?user + 4\<rparr>"
  proof (cases rule: after_syscall_cases)
    case (declined st1)
    with can_run_trace [OF declined(1)] show ?thesis by simp
  next
    case (no_fragment st1 st2)
    with can_run_trace [OF no_fragment(1)] run_lookup_trace [OF no_fragment(2)] show ?thesis by (simp add: profile_trace)
  next
    case (chained st1 run entry st2 es st3)
    note c = hook_chain_at [OF chained(1,2)]
    from chain_trace [OF c(1), where gl = gl and budget = "gl_chain_budget (traced gl) (hk_world st2)"
        and pc = "pr_pc (hk_regs st2)"] chained(3,4)
    show ?thesis by (auto simp: chain_ends_def split: option.splits)
  qed
  with h erase_hook [of gl ?st] show ?thesis by (simp add: Let_def)
qed

text \<open>
  C36: a hook call ends within its budget. With a \<open>chain_budget\<close> of \<open>b\<close> it makes at most \<open>max 1 b\<close> fragment
  calls, of which at most the last is declined, and returns; the entries counted in \<open>fragment_entries\<close> and
  noted as the length of the chain are exactly the calls that ran, and no chain is noted when none did.
\<close>

theorem hook_within_budget:
  "case rs_after_syscall (traced (gl\<lparr>gl_chain_budget := (\<lambda>_. budget)\<rparr>)) (st\<lparr>hk_world := (w, [])\<rparr>) g of ((ret, g'), st') \<Rightarrow>
     let ran = ran_count (tr_of st')
     in call_count (tr_of st') \<le> max 1 (unat budget) \<and> call_count (tr_of st') \<le> Suc ran
        \<and> ta_chain (hk_tally st') = (if ran = 0 then None else Some ran)
        \<and> g' FragmentEntries - g FragmentEntries = of_nat ran"
proof -
  let ?gl = "traced (gl\<lparr>gl_chain_budget := (\<lambda>_. budget)\<rparr>)" and ?st = "st\<lparr>hk_world := (w, []), hk_tally := new_tally\<rparr>"
  obtain ret st' where h: "after_syscall ?gl ?st = (ret, st')" by fastforce
  let ?ran = "ran_count (tr_of st')"
  have new: "entries_at 0 ?st" using tally_wf_simps(1)
    by (simp add: entries_at_def balanced_def branch_exits_def misses_def other_exits_def new_tally_def)
  have "call_count (tr_of st') \<le> max 1 (unat budget) \<and> call_count (tr_of st') \<le> Suc ?ran
    \<and> ta_chain (hk_tally st') = (if ?ran = 0 then None else Some ?ran)"
    using h
  proof (cases rule: after_syscall_cases)
    case (declined st1)
    with can_run_trace [OF declined(1)] can_run_tally [OF declined(1)] show ?thesis by (simp add: new_tally_def)
  next
    case (no_fragment st1 st2)
    with can_run_trace [OF no_fragment(1)] run_lookup_trace [OF no_fragment(2)]
      can_run_tally [OF no_fragment(1)] run_lookup_tally [OF no_fragment(2)]
    show ?thesis by (simp add: profile_trace new_tally_def)
  next
    case (chained st1 run entry st2 es st3)
    note c = hook_chain_at [OF chained(1,2)]
    have b: "gl_chain_budget ?gl (hk_world st2) = budget" by (simp add: traced_def split: prod.splits)
    have t: "entries_at 0 st2"
      using can_run_tally [OF chained(1)] run_lookup_tally [OF chained(2)] new by (simp add: entries_at_def)
    from chain_trace [OF c(1), where gl = "gl\<lparr>gl_chain_budget := (\<lambda>_. budget)\<rparr>" and budget = budget
        and pc = "pr_pc (hk_regs st2)"] chained(3)
    have "\<exists>n \<le> max 1 (unat budget). chain_ends (hk_regs ?st) n ret es st3" by (simp add: b)
    moreover from chain_counted [OF t, where gl = ?gl and budget = budget
        and pc = "pr_pc (hk_regs st2)" and resume = "pr_pc (hk_regs st2)" and run = run and entry = entry] chained(3)
    have "ta_chain (hk_tally st3) = None" by (simp add: b entries_at_def)
    ultimately show ?thesis using chained(4) by (auto simp: chain_ends_def split: option.splits)
  qed
  moreover have "flushed (hk_tally st') g FragmentEntries - g FragmentEntries =
      of_nat (case ta_chain (hk_tally st') of None \<Rightarrow> 0 | Some n \<Rightarrow> n)"
    using hook_counted [OF _ h] flush_adds_all [of "hk_tally st'" FragmentEntries g]
    by (simp add: balanced_def STAT_COUNT_def stat_defs)
  ultimately show ?thesis using h by (auto simp: rs_after_syscall_def Let_def)
qed

end
