(* ===== verification/RtText.thy ===== *)
theory RtText
  imports KPrelude
begin

section \<open>The text a translation reads\<close>

text \<open>
  Models the text provider of \<open>runtime/translate.rs\<close>: page snapshots taken on demand, at most
  \<open>MAX_TEXT_PAGES\<close> of them and \<open>MAX_TEXT_READS\<close> reads, and the span of the bytes handed out.
  \<open>kjit_read_text_page\<close> is a parameter: for a page, an error number and the bytes of the page. The size of
  a page is the kernel's, a power of two, also a parameter. Allocation does not fail here.
\<close>

definition MAX_TEXT_PAGES :: nat where [kdefs]: "MAX_TEXT_PAGES = 16"
definition MAX_TEXT_READS :: nat where [kdefs]: "MAX_TEXT_READS = 16384"
definition MAX_RACE_RETRIES :: nat where [kdefs]: "MAX_RACE_RETRIES = 3"

text \<open>The error numbers of the kernel, as \<open>to_errno\<close> gives them.\<close>

definition EPERM :: int where [kdefs]: "EPERM = -1"
definition E2BIG :: int where [kdefs]: "E2BIG = -7"
definition ENOEXEC :: int where [kdefs]: "ENOEXEC = -8"
definition EAGAIN :: int where [kdefs]: "EAGAIN = -11"
definition ENOMEM :: int where [kdefs]: "ENOMEM = -12"
definition EFAULT :: int where [kdefs]: "EFAULT = -14"
definition EEXIST :: int where [kdefs]: "EEXIST = -17"
definition ENODEV :: int where [kdefs]: "ENODEV = -19"
definition EINVAL :: int where [kdefs]: "EINVAL = -22"
definition ENOSPC :: int where [kdefs]: "ENOSPC = -28"

datatype (plugins only: code size) text_fault = Denied int | TextBudget | TextAlloc

type_synonym page_bytes = "nat \<Rightarrow> u8"

record text_state =
  tx_pages :: "(u64 \<times> page_bytes) list"
  tx_reads :: nat
  tx_lo :: u64
  tx_hi :: u64
  tx_fault :: "text_fault option"

definition new_text :: text_state where
  "new_text = \<lparr>tx_pages = [], tx_reads = 0, tx_lo = 0xFFFFFFFFFFFFFFFF, tx_hi = 0, tx_fault = None\<rparr>"

record 'w text_source =
  ts_page_bits :: nat
  ts_read_text_page :: "u64 \<Rightarrow> 'w \<Rightarrow> (int \<times> page_bytes) \<times> 'w"

fun page_index :: "u64 \<Rightarrow> (u64 \<times> page_bytes) list \<Rightarrow> nat option" where
  "page_index page [] = None"
| "page_index page ((addr, buf) # ps) = (if addr = page then Some 0 else map_option Suc (page_index page ps))"

definition text_page :: "('w, 'm) text_source_scheme \<Rightarrow> u64 \<Rightarrow> text_state \<Rightarrow> 'w \<Rightarrow> (text_fault + nat) \<times> text_state \<times> 'w" where
  "text_page src page st w =
    (case page_index page (tx_pages st) of
       Some index \<Rightarrow> (Inr index, st, w)
     | None \<Rightarrow>
         if length (tx_pages st) = MAX_TEXT_PAGES then (Inl TextBudget, st, w)
         else
           let ((rc, buf), w) = ts_read_text_page src page w
           in if rc \<noteq> 0 then (Inl (Denied rc), st, w)
              else (Inr (length (tx_pages st)), st\<lparr>tx_pages := tx_pages st @ [(page, buf)]\<rparr>, w))"

definition text_page_base :: "('w, 'm) text_source_scheme \<Rightarrow> u64 \<Rightarrow> u64" where
  "text_page_base src addr = addr AND NOT (mask (ts_page_bits src))"

text \<open>The bytes from \<open>i\<close> on, \<open>n\<close> of them.\<close>

fun read_bytes ::
  "('w, 'm) text_source_scheme \<Rightarrow> u64 \<Rightarrow> nat \<Rightarrow> nat \<Rightarrow> text_state \<Rightarrow> 'w \<Rightarrow> (text_fault + u8 list) \<times> text_state \<times> 'w" where
  "read_bytes src pc i 0 st w = (Inr [], st, w)"
| "read_bytes src pc i (Suc n) st w =
    (if unat pc + i \<ge> 2 ^ 64 then (Inl (Denied EFAULT), st, w)
     else
       let addr = pc + of_nat i; page = text_page_base src addr
       in case text_page src page st w of
            (Inl f, st, w) \<Rightarrow> (Inl f, st, w)
          | (Inr index, st, w) \<Rightarrow>
              (case read_bytes src pc (Suc i) n st w of
                 (Inl f, st, w) \<Rightarrow> (Inl f, st, w)
               | (Inr bytes, st', w) \<Rightarrow> (Inr (snd (tx_pages st ! index) (unat (addr - page)) # bytes), st', w)))"

definition sat_add :: "u64 \<Rightarrow> nat \<Rightarrow> u64" where
  "sat_add pc n = of_nat (min (unat pc + n) (2 ^ 64 - 1))"

definition text_read :: "('w, 'm) text_source_scheme \<Rightarrow> u64 \<Rightarrow> nat \<Rightarrow> text_state \<Rightarrow> 'w \<Rightarrow> (text_fault + u8 list) \<times> text_state \<times> 'w" where
  "text_read src pc n st w =
    (let st = st\<lparr>tx_reads := tx_reads st + 1\<rparr>
     in if tx_reads st > MAX_TEXT_READS then (Inl TextBudget, st, w)
        else case read_bytes src pc 0 n st w of
          (Inl f, st, w) \<Rightarrow> (Inl f, st, w)
        | (Inr bytes, st, w) \<Rightarrow>
            (Inr bytes, st\<lparr>tx_lo := min (tx_lo st) pc, tx_hi := max (tx_hi st) (sat_add pc n)\<rparr>, w))"

text \<open>\<open>None\<close> is \<open>CodeReadError::Unmapped\<close>.\<close>

definition read_exact :: "('w, 'm) text_source_scheme \<Rightarrow> u64 \<Rightarrow> nat \<Rightarrow> text_state \<Rightarrow> 'w \<Rightarrow> u8 list option \<times> text_state \<times> 'w" where
  "read_exact src pc n st w =
    (case text_read src pc n st w of
       (Inr bytes, st, w) \<Rightarrow> (Some bytes, st, w)
     | (Inl f, st, w) \<Rightarrow>
         (None, (if tx_fault st = None then st\<lparr>tx_fault := Some f\<rparr> else st), w))"

text \<open>A sequence of reads.\<close>

fun run_reads :: "('w, 'm) text_source_scheme \<Rightarrow> (u64 \<times> nat) list \<Rightarrow> text_state \<Rightarrow> 'w \<Rightarrow> u8 list option list \<times> text_state \<times> 'w" where
  "run_reads src [] st w = ([], st, w)"
| "run_reads src ((pc, n) # rs) st w =
    (let (r, st, w) = read_exact src pc n st w; (results, st, w) = run_reads src rs st w in (r # results, st, w))"

subsection \<open>One snapshot answers them all\<close>

definition snapshot :: "('w, 'm) text_source_scheme \<Rightarrow> text_state \<Rightarrow> u64 \<Rightarrow> u8 option" where
  "snapshot src st addr =
    map_option (\<lambda>buf. buf (unat (addr - text_page_base src addr))) (map_of (tx_pages st) (text_page_base src addr))"

definition grows :: "text_state \<Rightarrow> text_state \<Rightarrow> bool" where
  "grows st st' \<longleftrightarrow> map_of (tx_pages st) \<subseteq>\<^sub>m map_of (tx_pages st')
    \<and> (length (tx_pages st) \<le> MAX_TEXT_PAGES \<longrightarrow> length (tx_pages st') \<le> MAX_TEXT_PAGES)
    \<and> (distinct (map fst (tx_pages st)) \<longrightarrow> distinct (map fst (tx_pages st')))
    \<and> tx_lo st' \<le> tx_lo st \<and> tx_hi st \<le> tx_hi st' \<and> tx_reads st \<le> tx_reads st'"

lemma grows_refl [simp]: "grows st st"
  by (simp add: grows_def)

lemma grows_trans: "grows a b \<Longrightarrow> grows b c \<Longrightarrow> grows a c"
  unfolding grows_def by (auto intro: map_le_trans order_trans)

lemma grows_snapshot: "grows st st' \<Longrightarrow> snapshot src st a = Some b \<Longrightarrow> snapshot src st' a = Some b"
  by (auto simp: grows_def snapshot_def map_le_def dest!: bspec)

lemma page_index_Some: "page_index page ps = Some i \<Longrightarrow> i < length ps \<and> map_of ps page = Some (snd (ps ! i))"
  by (induction page ps arbitrary: i rule: page_index.induct) (auto split: if_splits)

lemma page_index_None: "page_index page ps = None \<Longrightarrow> page \<notin> fst ` set ps"
  by (induction page ps rule: page_index.induct) (auto split: if_splits)

lemma text_page_spec:
  assumes "text_page src page st w = (r, st', w')"
  shows "grows st st'" "tx_lo st' = tx_lo st" "tx_hi st' = tx_hi st" "tx_reads st' = tx_reads st" "tx_fault st' = tx_fault st"
    and "r = Inr i \<Longrightarrow> map_of (tx_pages st') page = Some (snd (tx_pages st' ! i))"
proof -
  have "grows st st' \<and> tx_lo st' = tx_lo st \<and> tx_hi st' = tx_hi st \<and> tx_reads st' = tx_reads st \<and> tx_fault st' = tx_fault st
    \<and> (\<forall>i. r = Inr i \<longrightarrow> map_of (tx_pages st') page = Some (snd (tx_pages st' ! i)))"
  proof (cases "page_index page (tx_pages st)")
    case (Some i)
    with assms page_index_Some [OF Some] show ?thesis by (auto simp: text_page_def)
  next
    case None
    have new: "page \<notin> fst ` set (tx_pages st)" by (rule page_index_None [OF None])
    then have "map_of (tx_pages st) page = None" by (simp add: map_of_eq_None_iff)
    with new assms None show ?thesis
      by (auto simp: text_page_def Let_def grows_def map_le_def map_add_def image_iff split: prod.splits if_splits option.splits)
  qed
  then show "grows st st'" "tx_lo st' = tx_lo st" "tx_hi st' = tx_hi st" "tx_reads st' = tx_reads st" "tx_fault st' = tx_fault st"
    "r = Inr i \<Longrightarrow> map_of (tx_pages st') page = Some (snd (tx_pages st' ! i))" by blast+
qed

text \<open>The bytes are those of the snapshot the read leaves, and no address wrapped.\<close>

definition answers :: "('w, 'm) text_source_scheme \<Rightarrow> text_state \<Rightarrow> u64 \<Rightarrow> nat \<Rightarrow> nat \<Rightarrow> u8 list \<Rightarrow> bool" where
  "answers src st pc i n bytes \<longleftrightarrow>
    map Some bytes = map (\<lambda>k. snapshot src st (pc + of_nat k)) [i..<i + n] \<and> (n = 0 \<or> unat pc + i + n \<le> 2 ^ 64)"

lemma answers_grows: "answers src st pc i n bytes \<Longrightarrow> grows st st' \<Longrightarrow> answers src st' pc i n bytes"
proof -
  assume a: "answers src st pc i n bytes" "grows st st'"
  then have len: "length bytes = n" by (auto simp: answers_def dest: arg_cong [where f = length])
  have "snapshot src st' (pc + of_nat k) = snapshot src st (pc + of_nat k)" if "k \<in> set [i..<i + n]" for k
  proof -
    from that obtain j where j: "j < n" "k = i + j" by (metis add_less_cancel_left atLeastLessThan_iff le_iff_add set_upt)
    have "snapshot src st (pc + of_nat k) = Some (bytes ! j)"
      using a(1) j len by (auto simp: answers_def dest!: arg_cong [where f = "\<lambda>xs. xs ! j"])
    then show ?thesis using grows_snapshot [OF a(2)] by metis
  qed
  with a(1) show ?thesis by (simp add: answers_def cong: map_cong)
qed

lemma read_bytes_spec:
  assumes "read_bytes src pc i n st w = (r, st', w')"
  shows "grows st st' \<and> tx_lo st' = tx_lo st \<and> tx_hi st' = tx_hi st \<and> tx_reads st' = tx_reads st
    \<and> (\<forall>bytes. r = Inr bytes \<longrightarrow> answers src st' pc i n bytes)"
  using assms
proof (induction n arbitrary: i st w r st' w')
  case 0
  then show ?case by (auto simp: answers_def)
next
  case (Suc n)
  show ?case
  proof (cases "unat pc + i \<ge> 2 ^ 64")
    case True
    with Suc.prems show ?thesis by auto
  next
    case False
    let ?addr = "pc + of_nat i" and ?page = "text_page_base src (pc + of_nat i)"
    obtain r1 st1 w1 where p: "text_page src ?page st w = (r1, st1, w1)" by (metis surj_pair)
    note page = text_page_spec [OF p]
    show ?thesis
    proof (cases r1)
      case (Inl f)
      with Suc.prems False p page show ?thesis by (auto simp: Let_def)
    next
      case (Inr index)
      obtain r2 st2 w2 where b: "read_bytes src pc (Suc i) n st1 w1 = (r2, st2, w2)" by (metis surj_pair)
      note ih = Suc.IH [OF b]
      have r: "st' = st2" "r = (case r2 of Inl f \<Rightarrow> Inl f | Inr bytes \<Rightarrow>
          Inr (snd (tx_pages st1 ! index) (unat (?addr - ?page)) # bytes))"
        using Suc.prems False p Inr b by (auto simp: Let_def split: sum.splits)
      have g: "grows st1 st2" using ih by simp
      have "snapshot src st1 ?addr = Some (snd (tx_pages st1 ! index) (unat (?addr - ?page)))"
        using page(6) [OF Inr] by (simp add: snapshot_def)
      note first = grows_snapshot [OF g this]
      have upto: "[i..<i + Suc n] = i # [Suc i..<Suc i + n]" by (subst upt_conv_Cons) simp_all
      have "answers src st2 pc i (Suc n) (snd (tx_pages st1 ! index) (unat (?addr - ?page)) # bytes)"
        if "r2 = Inr bytes" for bytes
        using ih that first False unfolding answers_def upto list.map by auto
      with r ih page show ?thesis by (auto intro: grows_trans split: sum.splits)
    qed
  qed
qed

text \<open>What a read leaves: the answer from the snapshot, inside the span.\<close>

definition answered :: "('w, 'm) text_source_scheme \<Rightarrow> text_state \<Rightarrow> u64 \<times> nat \<Rightarrow> u8 list option \<Rightarrow> bool" where
  "answered src st = (\<lambda>(pc, n) r. case r of None \<Rightarrow> True
    | Some bytes \<Rightarrow> map Some bytes = map (\<lambda>k. snapshot src st (pc + of_nat k)) [0..<n]
        \<and> tx_lo st \<le> pc \<and> sat_add pc n \<le> tx_hi st)"

lemma answered_iff: "answered src st (pc, n) (Some bytes) \<longleftrightarrow>
    map Some bytes = map (\<lambda>k. snapshot src st (pc + of_nat k)) [0..<n] \<and> tx_lo st \<le> pc \<and> sat_add pc n \<le> tx_hi st"
  by (simp add: answered_def)

lemma answered_grows:
  assumes "answered src st rd r" "grows st st'"
  shows "answered src st' rd r"
proof (cases r)
  case (Some bytes)
  obtain pc n where rd: "rd = (pc, n)" by fastforce
  from assms(1) have a: "map Some bytes = map (\<lambda>k. snapshot src st (pc + of_nat k)) [0..<n]" "tx_lo st \<le> pc" "sat_add pc n \<le> tx_hi st"
    by (simp_all add: answered_iff rd Some)
  have len: "length bytes = n" using a(1) by (metis length_map length_upt minus_nat.diff_0)
  have "snapshot src st' (pc + of_nat k) = snapshot src st (pc + of_nat k)" if "k < n" for k
  proof -
    from that len arg_cong [OF a(1), of "\<lambda>xs. xs ! k"] have "snapshot src st (pc + of_nat k) = Some (bytes ! k)" by simp
    with grows_snapshot [OF assms(2)] show ?thesis by metis
  qed
  with a assms(2) show ?thesis by (auto simp: answered_iff rd Some grows_def cong: map_cong intro: order_trans)
qed (auto simp: answered_def)

lemma read_exact_spec:
  assumes "read_exact src pc n st w = (r, st', w')"
  shows "grows st st'" "answered src st' (pc, n) r" "tx_reads st' = Suc (tx_reads st)"
    and "r \<noteq> None \<Longrightarrow> tx_reads st < MAX_TEXT_READS"
proof -
  let ?st = "st\<lparr>tx_reads := tx_reads st + 1\<rparr>"
  have st: "grows st ?st" by (simp add: grows_def)
  have "grows st st' \<and> answered src st' (pc, n) r \<and> tx_reads st' = Suc (tx_reads st) \<and> (r \<noteq> None \<longrightarrow> tx_reads st < MAX_TEXT_READS)"
  proof (cases "tx_reads st < MAX_TEXT_READS")
    case False
    with assms st show ?thesis by (auto simp: read_exact_def text_read_def Let_def answered_def grows_def split: if_splits)
  next
    case True
    obtain r1 st1 w1 where b: "read_bytes src pc 0 n ?st w = (r1, st1, w1)" by (metis surj_pair)
    note spec = read_bytes_spec [OF b]
    have g: "grows st st1" using grows_trans [OF st] spec by blast
    show ?thesis
    proof (cases r1)
      case (Inl f)
      with assms True b spec g show ?thesis
        by (auto simp: read_exact_def text_read_def Let_def answered_def grows_def split: if_splits)
    next
      case (Inr bytes)
      let ?st1 = "st1\<lparr>tx_lo := min (tx_lo st1) pc, tx_hi := max (tx_hi st1) (sat_add pc n)\<rparr>"
      have r: "r = Some bytes" "st' = ?st1" using assms True b Inr by (auto simp: read_exact_def text_read_def Let_def)
      have "grows st1 ?st1" by (simp add: grows_def)
      with g have "grows st ?st1" by (rule grows_trans)
      moreover have "snapshot src ?st1 = snapshot src st1" by (simp add: fun_eq_iff snapshot_def)
      ultimately show ?thesis using spec Inr r True by (simp add: answered_iff answers_def)
    qed
  qed
  then show "grows st st'" "answered src st' (pc, n) r" "tx_reads st' = Suc (tx_reads st)"
    "r \<noteq> None \<Longrightarrow> tx_reads st < MAX_TEXT_READS" by blast+
qed

lemma run_reads_spec:
  "run_reads src rs st w = (results, st', w') \<Longrightarrow> grows st st' \<and> list_all2 (answered src st') rs results
    \<and> length (filter (\<lambda>r. r \<noteq> None) results) \<le> MAX_TEXT_READS - tx_reads st"
proof (induction rs arbitrary: st w results st' w')
  case (Cons rd rs)
  obtain pc n where rd: "rd = (pc, n)" by fastforce
  obtain r st1 w1 where e: "read_exact src pc n st w = (r, st1, w1)" by (metis surj_pair)
  obtain results1 st2 w2 where rest: "run_reads src rs st1 w1 = (results1, st2, w2)" by (metis surj_pair)
  note one = read_exact_spec [OF e] and ih = Cons.IH [OF rest]
  have "results = r # results1" "st' = st2" using Cons.prems e rest by (simp_all add: rd)
  then show ?case using one ih grows_trans [OF one(1)] answered_grows [OF one(2)] by (auto simp: rd)
qed simp


end
