(* ===== verification/RtTranslate.thy ===== *)
theory RtTranslate
  imports RtText RtStats Layout CodeCache RephraseFacts "HOL-Library.Multiset"
begin

section \<open>Translation on request\<close>

text \<open>
  Models the rest of \<open>runtime/translate.rs\<close>: from the text to \<open>kjit_install\<close>, the error each failure is
  reported as, and the retries and counters of \<open>kjit_rs_translate\<close>. The translator is the model of
  \<open>compile_request\<close>; which addresses it reads, and in which order, is the parameter \<open>rd_addrs\<close>: its provider
  answers an address with what the first of these reads at it returned. Allocation does not fail.
\<close>

datatype (plugins only: code size) failure =
    FText text_fault | FEntryUnsupported u32 | FCompile | FEncode | FVerify verify_rule | FFpSimdUnsupportedCpu
  | FInstall int | FAlloc | FUnaligned | FOverflow

fun errno :: "failure \<Rightarrow> int" where
  "errno (FText (Denied rc)) = rc"
| "errno (FText TextBudget) = E2BIG"
| "errno (FText TextAlloc) = ENOMEM"
| "errno FAlloc = ENOMEM"
| "errno FCompile = EINVAL"
| "errno FEncode = EINVAL"
| "errno FUnaligned = EINVAL"
| "errno FOverflow = EINVAL"
| "errno FFpSimdUnsupportedCpu = ENODEV"
| "errno (FVerify _) = EPERM"
| "errno (FEntryUnsupported _) = ENOEXEC"
| "errno (FInstall rc) = rc"

text \<open>The arguments of \<open>kjit_install\<close>, the mm apart.\<close>

record install_args =
  ia_seq :: u64
  ia_entry_pc :: u64
  ia_code :: "u8 list"
  ia_entry_offset :: u32
  ia_sites :: "(u32 \<times> u32) list"
  ia_entries :: "(u64 \<times> u32) list"
  ia_links :: "(u32 \<times> u64) list"
  ia_src_start :: u64
  ia_src_end :: u64
  ia_uses_fpsimd :: bool

subsection \<open>From a fragment to the arguments\<close>

definition u32_of :: "nat \<Rightarrow> failure + u32" where
  "u32_of n = (if n < 2 ^ 32 then Inr (of_nat n) else Inl FOverflow)"

fun rmap :: "('a \<Rightarrow> 'e + 'b) \<Rightarrow> 'a list \<Rightarrow> 'e + 'b list" where
  "rmap f [] = Inr []"
| "rmap f (x # xs) = rbind (f x) (\<lambda>y. rbind (rmap f xs) (\<lambda>ys. Inr (y # ys)))"

definition kernel_sites :: "exec_fragment \<Rightarrow> failure + (u32 \<times> u32) list" where
  "kernel_sites ef =
    rmap (\<lambda>site. rbind (u32_of (lf_access_offset site)) (\<lambda>access. rbind (u32_of (lf_stub_offset site)) (\<lambda>stub.
      Inr (access, stub)))) (ef_fault_sites ef)"

text \<open>\<open>partition_point\<close>, then an insertion there.\<close>

definition insert_entry :: "u64 \<times> u32 \<Rightarrow> (u64 \<times> u32) list \<Rightarrow> (u64 \<times> u32) list" where
  "insert_entry e es =
    (let at = length (takeWhile (\<lambda>x. fst x < fst e) es) in take at es @ e # drop at es)"

definition kernel_entries :: "exec_fragment \<Rightarrow> failure + (u64 \<times> u32) list" where
  "kernel_entries ef =
    rfold (\<lambda>(label_pc, offset) es. rbind (u32_of offset) (\<lambda>off. Inr (insert_entry (label_pc, off) es))) (ef_entry_labels ef) []"

definition kernel_links :: "exec_fragment \<Rightarrow> failure + (u32 \<times> u64) list" where
  "kernel_links ef = rmap (\<lambda>(slot, target_pc). rbind (u32_of slot) (\<lambda>s. Inr (s, target_pc))) (ef_link_sites ef)"

definition prepare :: "bool \<Rightarrow> u64 \<Rightarrow> u64 \<Rightarrow> u64 \<Rightarrow> u64 \<Rightarrow> exec_fragment \<Rightarrow> failure + install_args" where
  "prepare fpsimd_supported seq pc lo hi ef =
    rbind (ok_or (encode_insns (ef_insns ef)) FEncode) (\<lambda>code.
    rbind (kernel_sites ef) (\<lambda>sites.
    rbind (kernel_entries ef) (\<lambda>entries.
    rbind (kernel_links ef) (\<lambda>links.
      case verify_fragment (fragment_input ef code) of
        Inl (_, rule) \<Rightarrow> Inl (FVerify rule)
      | Inr uses_fpsimd \<Rightarrow>
          if uses_fpsimd \<and> \<not> fpsimd_supported then Inl FFpSimdUnsupportedCpu
          else
            rbind (u32_of (length code)) (\<lambda>_.
            rbind (u32_of (ef_entry_offset ef)) (\<lambda>entry_offset.
            rbind (u32_of (length sites)) (\<lambda>_.
            rbind (u32_of (length entries)) (\<lambda>_.
            rbind (u32_of (length links)) (\<lambda>_.
              Inr \<lparr>ia_seq = seq, ia_entry_pc = pc, ia_code = code, ia_entry_offset = entry_offset, ia_sites = sites,
                   ia_entries = entries, ia_links = links, ia_src_start = lo, ia_src_end = hi,
                   ia_uses_fpsimd = uses_fpsimd\<rparr>)))))))))"

subsection \<open>A translation\<close>

record 'w trans_glue = "'w text_source" +
  tg_mm_seq :: "'w \<Rightarrow> u64 \<times> 'w"
  tg_install :: "install_args \<Rightarrow> 'w \<Rightarrow> int \<times> 'w"
  tg_fpsimd_supported :: bool

text \<open>\<open>None\<close>: the translator panics.\<close>

definition rt_translate ::
  "('w, 'm) trans_glue_scheme \<Rightarrow> ('w \<Rightarrow> u64 list) \<Rightarrow> u64 \<Rightarrow> 'w \<Rightarrow> ((failure + unit) \<times> 'w) option" where
  "rt_translate tg rd_addrs pc w =
    (if pc mod 4 \<noteq> 0 then Some (Inl FUnaligned, w)
     else
       let (seq, w) = tg_mm_seq tg w;
           (first, st, w) = read_exact tg pc 4 new_text w
       in case admit_at (\<lambda>a. if a = pc then map_option u32_from_le first else None) pc of
            Inl _ \<Rightarrow> Some (Inl FCompile, w)
          | Inr (Inl (UxInsn u)) \<Rightarrow> Some (Inl (FEntryUnsupported (un_word u)), w)
          | Inr (Inl (UxUnreadable _)) \<Rightarrow>
              Some (Inl (case tx_fault st of Some f \<Rightarrow> FText f | None \<Rightarrow> FCompile), w)
          | Inr (Inr _) \<Rightarrow>
              let addrs = rd_addrs w;
                  (results, st, w) = run_reads tg (map (\<lambda>a. (a, 4)) addrs) st w;
                  code = (\<lambda>a. Option.bind (map_of (zip addrs results) a) (map_option u32_from_le))
              in (case compile_request code pc of
                    None \<Rightarrow> None
                  | Some (Inl _) \<Rightarrow> Some (Inl (case tx_fault st of Some f \<Rightarrow> FText f | None \<Rightarrow> FCompile), w)
                  | Some (Inr ef) \<Rightarrow>
                      (case prepare (tg_fpsimd_supported tg) seq pc (tx_lo st) (tx_hi st) ef of
                         Inl f \<Rightarrow> Some (Inl f, w)
                       | Inr args \<Rightarrow>
                           let (rc, w) = tg_install tg args w
                           in Some (if rc \<noteq> 0 then Inl (FInstall rc) else Inr (), w))))"

subsection \<open>The request\<close>

fun retry ::
  "('w, 'm) trans_glue_scheme \<Rightarrow> ('w \<Rightarrow> u64 list) \<Rightarrow> u64 \<Rightarrow> nat \<Rightarrow> failure + unit \<Rightarrow> 'w \<Rightarrow> (stat \<Rightarrow> u64)
    \<Rightarrow> ((failure + unit) \<times> 'w \<times> (stat \<Rightarrow> u64)) option" where
  "retry tg rd_addrs pc 0 result w stats = Some (result, w, stats)"
| "retry tg rd_addrs pc (Suc n) result w stats =
    (if result = Inl (FInstall EAGAIN) then
       (case rt_translate tg rd_addrs pc w of
          None \<Rightarrow> None
        | Some (result, w) \<Rightarrow> retry tg rd_addrs pc n result w (add_stat TranslateRaced 1 stats))
     else Some (result, w, stats))"

fun outcome_stats :: "failure + unit \<Rightarrow> stat list" where
  "outcome_stats (Inr ()) = [TranslateOk]"
| "outcome_stats (Inl (FText _)) = [TranslateTextUnreadable]"
| "outcome_stats (Inl (FEntryUnsupported _)) = [TranslateEntryUnsupported]"
| "outcome_stats (Inl FCompile) = [TranslateCompileFailed]"
| "outcome_stats (Inl FUnaligned) = [TranslateCompileFailed]"
| "outcome_stats (Inl FOverflow) = [TranslateCompileFailed]"
| "outcome_stats (Inl FFpSimdUnsupportedCpu) = [FpsimdRefusedSveSme]"
| "outcome_stats (Inl FEncode) = [TranslateEncodeFailed]"
| "outcome_stats (Inl (FVerify rule)) =
    (if rule = RFallsOffEnd then [TranslateVerifyRejected, TranslateVerifyFallsOffEnd] else [TranslateVerifyRejected])"
| "outcome_stats (Inl (FInstall rc)) =
    (if rc = EEXIST then [TranslateExists] else if rc = EAGAIN then [TranslateRaced]
     else if rc = ENOSPC then [TranslateCapped] else [TranslateInstallFailed])"
| "outcome_stats (Inl FAlloc) = [TranslateInstallFailed]"

text \<open>The number returned, and what is stored through \<open>entry_word\<close> (\<open>None\<close> is the null pointer).\<close>

definition request_rc :: "failure + unit \<Rightarrow> int" where
  "request_rc result = (case result of Inr _ \<Rightarrow> 0 | Inl f \<Rightarrow> errno f)"

definition store_word :: "failure + unit \<Rightarrow> u32 option \<Rightarrow> u32 option" where
  "store_word result entry_word =
    (case result of Inl (FEntryUnsupported word) \<Rightarrow> map_option (\<lambda>_. word) entry_word | _ \<Rightarrow> entry_word)"

definition rs_translate ::
  "('w, 'm) trans_glue_scheme \<Rightarrow> ('w \<Rightarrow> u64 list) \<Rightarrow> u64 \<Rightarrow> u32 option \<Rightarrow> (stat \<Rightarrow> u64) \<Rightarrow> 'w
    \<Rightarrow> (int \<times> u32 option \<times> (stat \<Rightarrow> u64) \<times> 'w) option" where
  "rs_translate tg rd_addrs pc entry_word stats w =
    (case rt_translate tg rd_addrs pc w of
       None \<Rightarrow> None
     | Some (result, w) \<Rightarrow>
         (case retry tg rd_addrs pc MAX_RACE_RETRIES result w stats of
            None \<Rightarrow> None
          | Some (result, w, stats) \<Rightarrow>
              Some (request_rc result, store_word result entry_word,
                fold (\<lambda>s. add_stat s 1) (outcome_stats result) stats, w)))"

section \<open>What a translation request installs\<close>

text \<open>
  The same glue with the list of what it was asked to install, the newest first. Only what the verifier
  accepted is installed, a request makes at most four attempts, and it always returns.
\<close>

definition logged :: "'w trans_glue \<Rightarrow> ('w \<times> install_args list) trans_glue" where
  "logged tg = \<lparr>
    ts_page_bits = ts_page_bits tg,
    ts_read_text_page = (\<lambda>page (w, log). let (r, w) = ts_read_text_page tg page w in (r, (w, log))),
    tg_mm_seq = (\<lambda>(w, log). let (seq, w) = tg_mm_seq tg w in (seq, (w, log))),
    tg_install = (\<lambda>args (w, log). let (rc, w) = tg_install tg args w in (rc, (w, args # log))),
    tg_fpsimd_supported = tg_fpsimd_supported tg\<rparr>"

text \<open>
  The verifier's input as the kernel's tables give it back: the labels are the entries in the order the
  translator has them, the table holds them sorted by pc.
\<close>

definition table_input :: "install_args \<Rightarrow> (u64 \<times> nat) list \<Rightarrow> verify_input" where
  "table_input args labels =
    \<lparr>vi_code = ia_code args,
     vi_fault_sites = map (\<lambda>(access, stub). \<lparr>access_offset = unat access, stub_offset = unat stub\<rparr>) (ia_sites args),
     vi_entry_offsets = map snd labels,
     vi_link_sites = map (\<lambda>(slot, target). (unat slot, target)) (ia_links args)\<rparr>"

definition install_verified :: "bool \<Rightarrow> u64 \<Rightarrow> install_args \<Rightarrow> bool" where
  "install_verified fpsimd_supported pc args \<longleftrightarrow>
    (\<exists>labels. mset (map (\<lambda>(p, off). (p, unat off)) (ia_entries args)) = mset labels
        \<and> verify_fragment (table_input args labels) = Inr (ia_uses_fpsimd args))
    \<and> sorted (map fst (ia_entries args)) \<and> ia_entry_pc args = pc
    \<and> (fpsimd_supported \<or> \<not> ia_uses_fpsimd args)"

subsection \<open>The tables\<close>

lemma u32_of_exact: "u32_of n = Inr v \<Longrightarrow> unat v = n"
  by (auto simp: u32_of_def unat_of_nat split: if_splits)

lemma rmap_map: "rmap f xs = Inr ys \<Longrightarrow> (\<And>x y. f x = Inr y \<Longrightarrow> g y = h x) \<Longrightarrow> map g ys = map h xs"
  by (induction xs arbitrary: ys) auto

lemma kernel_sites_exact:
  "kernel_sites ef = Inr sites \<Longrightarrow>
    map (\<lambda>(access, stub). \<lparr>access_offset = unat access, stub_offset = unat stub\<rparr>) sites =
    map (\<lambda>site. \<lparr>access_offset = lf_access_offset site, stub_offset = lf_stub_offset site\<rparr>) (ef_fault_sites ef)"
  unfolding kernel_sites_def by (erule rmap_map) (auto dest!: u32_of_exact)

lemma kernel_links_exact:
  "kernel_links ef = Inr links \<Longrightarrow> map (\<lambda>(slot, target). (unat slot, target)) links = ef_link_sites ef"
  unfolding kernel_links_def by (drule rmap_map [where h = "\<lambda>x. x"]) (auto dest!: u32_of_exact)

lemma insert_entry_simps:
  "insert_entry e [] = [e]"
  "insert_entry e (x # xs) = (if fst x < fst e then x # insert_entry e xs else e # x # xs)"
  by (simp_all add: insert_entry_def Let_def)

lemma insert_entry_mset: "mset (insert_entry e es) = add_mset e (mset es)"
  by (induction es) (auto simp: insert_entry_simps)

lemma insert_entry_set: "set (insert_entry e es) = insert e (set es)"
  using insert_entry_mset [of e es] by (metis set_mset_add_mset_insert set_mset_mset)

lemma insert_entry_sorted: "sorted (map fst es) \<Longrightarrow> sorted (map fst (insert_entry e es))"
  by (induction es) (auto simp: insert_entry_simps insert_entry_set not_less intro: order_trans)

lemma kernel_entries_exact:
  assumes "kernel_entries ef = Inr es"
  shows "mset (map (\<lambda>(p, off). (p, unat off)) es) = mset (ef_entry_labels ef)" and "sorted (map fst es)"
proof -
  let ?f = "\<lambda>(label_pc, offset) es. rbind (u32_of offset) (\<lambda>off. Inr (insert_entry (label_pc, off) es))"
  have "mset (map (\<lambda>(p, off). (p, unat off)) es) = mset (map (\<lambda>(p, off). (p, unat off)) es0) + mset ls
      \<and> sorted (map fst es)" if "rfold ?f ls es0 = Inr es" "sorted (map fst es0)" for ls es0
    using that
  proof (induction ls arbitrary: es0)
    case (Cons l ls)
    obtain p n where l: "l = (p, n)" by fastforce
    from Cons.prems(1) obtain off where off: "u32_of n = Inr off" "rfold ?f ls (insert_entry (p, off) es0) = Inr es"
      by (auto simp: l)
    from Cons.IH [OF off(2) insert_entry_sorted [OF Cons.prems(2)]] show ?case
      by (simp add: l insert_entry_mset u32_of_exact [OF off(1)])
  qed simp
  from this [OF assms [unfolded kernel_entries_def]] show "mset (map (\<lambda>(p, off). (p, unat off)) es) = mset (ef_entry_labels ef)"
    and "sorted (map fst es)" by simp_all
qed

lemma rbindE: "rbind r f = Inr b \<Longrightarrow> (\<And>a. r = Inr a \<Longrightarrow> f a = Inr b \<Longrightarrow> P) \<Longrightarrow> P"
  by auto

lemma prepare_Inr:
  assumes "prepare fpsimd_supported seq pc lo hi ef = Inr args"
  obtains code sites entries links fp entry_offset where
    "encode_insns (ef_insns ef) = Some code" "kernel_sites ef = Inr sites" "kernel_entries ef = Inr entries"
    "kernel_links ef = Inr links" "verify_fragment (fragment_input ef code) = Inr fp" "\<not> (fp \<and> \<not> fpsimd_supported)"
    "args = \<lparr>ia_seq = seq, ia_entry_pc = pc, ia_code = code, ia_entry_offset = entry_offset, ia_sites = sites,
       ia_entries = entries, ia_links = links, ia_src_start = lo, ia_src_end = hi, ia_uses_fpsimd = fp\<rparr>"
proof -
  from assms obtain code sites entries links where
    p: "encode_insns (ef_insns ef) = Some code" "kernel_sites ef = Inr sites" "kernel_entries ef = Inr entries"
      "kernel_links ef = Inr links" and
    v: "(case verify_fragment (fragment_input ef code) of
        Inl (_, rule) \<Rightarrow> Inl (FVerify rule)
      | Inr uses_fpsimd \<Rightarrow>
          if uses_fpsimd \<and> \<not> fpsimd_supported then Inl FFpSimdUnsupportedCpu
          else
            rbind (u32_of (length code)) (\<lambda>_.
            rbind (u32_of (ef_entry_offset ef)) (\<lambda>entry_offset.
            rbind (u32_of (length sites)) (\<lambda>_.
            rbind (u32_of (length entries)) (\<lambda>_.
            rbind (u32_of (length links)) (\<lambda>_.
              Inr \<lparr>ia_seq = seq, ia_entry_pc = pc, ia_code = code, ia_entry_offset = entry_offset, ia_sites = sites,
                   ia_entries = entries, ia_links = links, ia_src_start = lo, ia_src_end = hi,
                   ia_uses_fpsimd = uses_fpsimd\<rparr>)))))) = Inr args"
    unfolding prepare_def by (elim rbindE) (simp only: ok_or_eq_Inr)
  show thesis
  proof (cases "verify_fragment (fragment_input ef code)")
    case (Inl e)
    with v show thesis by (cases e) simp
  next
    case (Inr fp)
    show thesis
    proof (cases "fp \<and> \<not> fpsimd_supported")
      case False
      from v Inr False obtain entry_offset where "Inr \<lparr>ia_seq = seq, ia_entry_pc = pc, ia_code = code,
          ia_entry_offset = entry_offset, ia_sites = sites, ia_entries = entries, ia_links = links, ia_src_start = lo,
          ia_src_end = hi, ia_uses_fpsimd = fp\<rparr> = (Inr args :: failure + install_args)"
        by (simp only: sum.case if_False) (elim rbindE)
      with that [OF p Inr False] show thesis by blast
    qed (use v Inr in simp)
  qed
qed

lemma prepare_verified:
  assumes "prepare fpsimd_supported seq pc lo hi ef = Inr args"
  shows "install_verified fpsimd_supported pc args" and "ia_src_start args = lo \<and> ia_src_end args = hi \<and> ia_seq args = seq"
proof -
  from prepare_Inr [OF assms] obtain code sites entries links fp entry_offset where
    p: "encode_insns (ef_insns ef) = Some code" "kernel_sites ef = Inr sites" "kernel_entries ef = Inr entries"
      "kernel_links ef = Inr links" "verify_fragment (fragment_input ef code) = Inr fp" "\<not> (fp \<and> \<not> fpsimd_supported)"
      "args = \<lparr>ia_seq = seq, ia_entry_pc = pc, ia_code = code, ia_entry_offset = entry_offset, ia_sites = sites,
         ia_entries = entries, ia_links = links, ia_src_start = lo, ia_src_end = hi, ia_uses_fpsimd = fp\<rparr>" by metis
  have "table_input args (ef_entry_labels ef) = fragment_input ef code"
    using p(7) kernel_sites_exact [OF p(2)] kernel_links_exact [OF p(4)] by (simp add: table_input_def fragment_input_def)
  with p kernel_entries_exact [OF p(3)]
  show "install_verified fpsimd_supported pc args" unfolding install_verified_def
    by (intro conjI exI [of _ "ef_entry_labels ef"]) auto
  show "ia_src_start args = lo \<and> ia_src_end args = hi \<and> ia_seq args = seq" using p(7) by simp
qed

subsection \<open>The log\<close>

lemma text_page_log: "text_page (logged tg) page st w = (r, st', w') \<Longrightarrow> snd w' = snd w"
  by (cases w) (auto simp: text_page_def logged_def Let_def split: prod.splits option.splits if_splits)

lemma read_bytes_log: "read_bytes (logged tg) pc i n st w = (r, st', w') \<Longrightarrow> snd w' = snd w"
  by (induction n arbitrary: i st w r st' w')
    (auto simp: Let_def dest!: text_page_log split: if_splits prod.splits sum.splits)

lemma read_exact_log: "read_exact (logged tg) pc n st w = (r, st', w') \<Longrightarrow> snd w' = snd w"
  by (auto simp: read_exact_def text_read_def Let_def dest!: read_bytes_log split: if_splits prod.splits sum.splits)

lemma run_reads_log: "run_reads (logged tg) rs st w = (results, st', w') \<Longrightarrow> snd w' = snd w"
  by (induction rs arbitrary: st w results st' w') (auto simp: Let_def dest!: read_exact_log split: prod.splits)

lemma mm_seq_log: "tg_mm_seq (logged tg) w = (seq, w') \<Longrightarrow> snd w' = snd w"
  by (cases w) (auto simp: logged_def Let_def split: prod.splits)

lemma install_log: "tg_install (logged tg) args w = (rc, w') \<Longrightarrow> snd w' = args # snd w"
  by (cases w) (auto simp: logged_def Let_def split: prod.splits)

lemma logged_fpsimd [simp]: "tg_fpsimd_supported (logged tg) = tg_fpsimd_supported tg"
  by (simp add: logged_def)

lemma translate_log:
  assumes "rt_translate (logged tg) rd_addrs pc w = Some (r, w')"
  shows "snd w' = snd w \<or> (\<exists>args. snd w' = args # snd w \<and> install_verified (tg_fpsimd_supported tg) pc args)"
  using assms prepare_verified(1) [of "tg_fpsimd_supported tg"]
  by (auto simp: rt_translate_def Let_def dest!: mm_seq_log read_exact_log run_reads_log install_log
      split: if_splits prod.splits sum.splits option.splits unsupported_exit.splits)

lemma translate_Some:
  fixes tg :: "('w, 'm) trans_glue_scheme"
  obtains r w' where "rt_translate tg rd_addrs pc w = Some (r, w')"
proof -
  have c: "compile_request code pc \<noteq> None" for code using compile_Some [of code pc] by auto
  have "rt_translate tg rd_addrs pc w \<noteq> None"
    by (auto simp: rt_translate_def Let_def c split: prod.splits sum.splits option.splits unsupported_exit.splits)
  then show thesis using that by (cases "rt_translate tg rd_addrs pc w") auto
qed

definition log_ok :: "'w trans_glue \<Rightarrow> u64 \<Rightarrow> nat \<Rightarrow> install_args list \<Rightarrow> bool" where
  "log_ok tg pc n log \<longleftrightarrow> list_all (install_verified (tg_fpsimd_supported tg) pc) log \<and> length log \<le> n"

lemma translate_log_ok:
  "rt_translate (logged tg) rd_addrs pc w = Some (r, w') \<Longrightarrow> log_ok tg pc n (snd w) \<Longrightarrow> log_ok tg pc (Suc n) (snd w')"
  by (drule translate_log) (auto simp: log_ok_def)

lemma retry_log_ok:
  "log_ok tg pc n (snd w) \<Longrightarrow>
    \<exists>r w' s'. retry (logged tg) rd_addrs pc k result w s = Some (r, w', s') \<and> log_ok tg pc (n + k) (snd w')"
proof (induction k arbitrary: n result w s)
  case 0
  then show ?case by simp
next
  case (Suc k)
  show ?case
  proof (cases "result = Inl (FInstall EAGAIN)")
    case False
    then show ?thesis using Suc.prems by (auto simp: log_ok_def)
  next
    case True
    obtain r1 w1 where t: "rt_translate (logged tg) rd_addrs pc w = Some (r1, w1)" by (rule translate_Some)
    from Suc.IH [OF translate_log_ok [OF t Suc.prems], of r1 "add_stat TranslateRaced 1 s"] t True show ?thesis by simp
  qed
qed

text \<open>
  C38: nothing is installed that the verifier did not accept. A translation request always returns, and
  every call of \<open>kjit_install\<close> it makes, of which there are at most four, hands over exactly the bytes, fault
  sites and link sites that \<open>verify_fragment\<close> accepted, no number being truncated; the verifier's own verdict
  on FP/SIMD, which is refused where the CPU does not support it; and an entry table that holds exactly the
  entries the verifier checked, sorted by pc.
\<close>

theorem only_verified_code_installed:
  "case rs_translate (logged tg) rd_addrs pc entry_word stats (w, []) of
     None \<Rightarrow> False
   | Some (rc, word, stats', w', log) \<Rightarrow>
       list_all (install_verified (tg_fpsimd_supported tg) pc) log \<and> length log \<le> Suc MAX_RACE_RETRIES"
proof -
  obtain r1 w1 where t: "rt_translate (logged tg) rd_addrs pc (w, []) = Some (r1, w1)" by (rule translate_Some)
  have "log_ok tg pc 1 (snd w1)" using translate_log_ok [OF t, of 0] by (simp add: log_ok_def)
  from retry_log_ok [OF this, of rd_addrs MAX_RACE_RETRIES r1 stats] obtain r w' s' where
    r: "retry (logged tg) rd_addrs pc MAX_RACE_RETRIES r1 w1 stats = Some (r, w', s')"
      "log_ok tg pc (1 + MAX_RACE_RETRIES) (snd w')" by blast
  then show ?thesis by (simp add: rs_translate_def t log_ok_def split_def)
qed

end
