(* ===== verification/Spec2Isabelle.thy ===== *)
theory Spec2Isabelle
  imports FragmentSafety CacheChain CompileErrors CfgProps DemoLayout VirtProps RtHook RtExec RtStats RtIbtc RtTranslate
begin

text \<open>
  A verification library for KJIT: AArch64 user code between two system calls is translated into
  fragments that run at EL1. To be completed as the theories are added.
\<close>

end
